(* ===== verification/Prelude.thy ===== *)
theory Prelude
  imports Complex_Main "HOL-Library.Word" "HOL-Library.Monad_Syntax"
begin

text \<open>
  What every component of the development shares: the names of the C integer types, the
  conversions the C code makes between them, the generic lemmas about lists, words and
  conversions, and the theorem collections the components' proofs draw on.

  Stored values (registers, frame bytes, table entries) are machine words.  Arithmetic that C
  carries out in \<open>int\<close> after promotion is arithmetic on \<^typ>\<open>int\<close>, and every assignment
  back to a narrower object is an explicit conversion: \<open>s16\<close> for \<open>int16_t\<close>, \<open>word_of_int\<close>
  for the unsigned types.
\<close>

unbundle bit_operations_syntax

type_synonym u8 = "8 word"
type_synonym u16 = "16 word"
type_synonym u32 = "32 word"

named_theorems conv_simps \<open>conversions between machine words and integers\<close>
named_theorems xor_linear \<open>functions that commute with exclusive or\<close>

section \<open>Conversions\<close>

text \<open>The value an \<open>int16_t\<close> object holds after it is assigned the \<open>int\<close> \<open>x\<close>.\<close>

definition s16 :: "int \<Rightarrow> int" where
  "s16 x = signed_take_bit 15 x"

text \<open>The value of a register read through an \<open>(int16_t)\<close> cast.\<close>

definition reg_s16 :: "u16 \<Rightarrow> int" where
  "reg_s16 w = sint w"

text \<open>The range of the 32-bit \<open>int\<close> of the target.\<close>

definition in_int32 :: "int \<Rightarrow> bool" where
  "in_int32 x \<longleftrightarrow> - (2 ^ 31) \<le> x \<and> x < 2 ^ 31"

text \<open>C's integer division truncates towards zero.\<close>

definition c_div :: "int \<Rightarrow> int \<Rightarrow> int" where
  "c_div a b = sgn a * sgn b * (\<bar>a\<bar> div \<bar>b\<bar>)"

lemma s16_id [conv_simps]: "- 32768 \<le> x \<Longrightarrow> x < 32768 \<Longrightarrow> s16 x = x"
  by (simp add: s16_def signed_take_bit_int_eq_self)

lemma s16_lower: "- 32768 \<le> s16 x"
  using signed_take_bit_int_greater_eq_minus_exp [of 15 x] by (simp add: s16_def)

lemma s16_upper: "s16 x < 32768"
  using signed_take_bit_int_less_exp [of 15 x] by (simp add: s16_def)

lemma s16_uint: "s16 (uint (w :: u16)) = sint w"
  by (simp add: s16_def sint_uint)

lemma sint_word_of_int_u16: "sint (word_of_int x :: u16) = s16 x"
  by (simp add: s16_def sint_sbintrunc')

lemma c_div_nonneg: "0 \<le> a \<Longrightarrow> 0 < b \<Longrightarrow> c_div a b = a div b"
  by (cases "a = 0") (simp_all add: c_div_def)

lemma sint_u16_range: "- 32768 \<le> sint (w :: u16)" "sint (w :: u16) < 32768"
  using sint_ge [of w] sint_lt [of w] by simp_all

lemma uint_u16_range [simp]: "uint (w :: u16) < 65536"
  using uint_bounded [of w] by simp

lemma uint_u8_range [simp]: "uint (w :: u8) < 256"
  using uint_bounded [of w] by simp

lemma unat_u8_range [simp]: "unat (w :: u8) < 256"
  using unsigned_less [of w, where 'a = nat] by simp

lemma unat_u8_not_over [simp]: "\<not> 256 < unat (w :: u8)"
  using unat_u8_range [of w] by linarith

lemma unat_u16_range [simp]: "unat (w :: u16) < 65536"
  using unsigned_less [of w, where 'a = nat] by simp

lemma word_xor_cancel: "(a :: 'a::len word) XOR c = b XOR c \<longleftrightarrow> a = b"
  by (metis xor.assoc xor.right_neutral xor_self_eq)

lemma word_xor_cancel_left: "(c :: 'a::len word) XOR a = c XOR b \<longleftrightarrow> a = b"
  by (metis xor.commute word_xor_cancel)

lemma of_nat_u16_eq_iff: "i < 65536 \<Longrightarrow> j < 65536 \<Longrightarrow> (word_of_nat i :: u16) = word_of_nat j \<longleftrightarrow> i = j"
  by (simp add: word_of_nat_eq_iff take_bit_nat_eq_self)

section \<open>Bytes and 16-bit words\<close>

text \<open>The two bytes of a word, and the word of two bytes, as the frames carry them.\<close>

definition lo8 :: "u16 \<Rightarrow> u8" where
  "lo8 w = ucast (w AND 0xFF)"

definition hi8 :: "u16 \<Rightarrow> u8" where
  "hi8 w = ucast (drop_bit 8 w)"

definition mk16 :: "u8 \<Rightarrow> u8 \<Rightarrow> u16" where
  "mk16 hi lo = push_bit 8 (ucast hi) OR ucast lo"

lemma mask8: "(0xFF :: u16) = mask 8"
  by (simp add: mask_eq_exp_minus_1)

lemma bit_lo8: "bit (lo8 w) n \<longleftrightarrow> n < 8 \<and> bit w n"
  unfolding lo8_def mask8 by (auto simp: bit_simps)

lemma bit_hi8: "bit (hi8 w) n \<longleftrightarrow> n < 8 \<and> bit w (n + 8)"
  unfolding hi8_def by (auto simp: bit_simps add.commute)

lemma bit_mk16: "bit (mk16 h l) n \<longleftrightarrow> n < 16 \<and> (if n < 8 then bit l n else bit h (n - 8))"
  unfolding mk16_def by (auto simp: bit_simps dest: bit_imp_le_length)

lemma mk16_bytes [simp]: "mk16 (hi8 w) (lo8 w) = w"
  by (rule bit_word_eqI) (auto simp: bit_mk16 bit_hi8 bit_lo8 less_diff_conv2)

lemma hi8_mk16 [simp]: "hi8 (mk16 h l) = h"
  by (rule bit_word_eqI) (simp add: bit_mk16 bit_hi8)

lemma lo8_mk16 [simp]: "lo8 (mk16 h l) = l"
  by (rule bit_word_eqI) (simp add: bit_mk16 bit_lo8)

lemma lo8_xor [xor_linear]: "lo8 (a XOR b) = lo8 a XOR lo8 b"
  by (rule bit_word_eqI) (simp add: bit_lo8 bit_simps)

lemma hi8_xor [xor_linear]: "hi8 (a XOR b) = hi8 a XOR hi8 b"
  by (rule bit_word_eqI) (auto simp: bit_hi8 bit_simps dest: bit_imp_le_length)

lemma lo8_ucast [simp]: "lo8 (ucast b) = b"
  by (rule bit_word_eqI) (auto simp: bit_lo8 bit_simps)

lemma hi8_ucast [simp]: "hi8 (ucast (b :: u8)) = 0"
  by (rule bit_word_eqI) (auto simp: bit_hi8 bit_simps dest: bit_imp_le_length)

lemma ucast_u8_u16_inj: "(ucast (b :: u8) :: u16) = ucast c \<Longrightarrow> b = c"
  by (drule arg_cong [where f = lo8]) simp

section \<open>Lists\<close>

text \<open>A read of a C array: \<^const>\<open>None\<close> when the index lies outside the array.\<close>

definition read_at :: "'a list \<Rightarrow> nat \<Rightarrow> 'a option" where
  "read_at xs i = (if i < length xs then Some (xs ! i) else None)"

lemma read_at_Some [simp]: "i < length xs \<Longrightarrow> read_at xs i = Some (xs ! i)"
  by (simp add: read_at_def)

lemma read_at_None [simp]: "length xs \<le> i \<Longrightarrow> read_at xs i = None"
  by (simp add: read_at_def)

text \<open>A write of one element; out of the array it is \<^const>\<open>None\<close> as well.\<close>

definition write_at :: "'a list \<Rightarrow> nat \<Rightarrow> 'a \<Rightarrow> 'a list option" where
  "write_at xs i v = (if i < length xs then Some (xs[i := v]) else None)"

lemma write_at_Some [simp]: "i < length xs \<Longrightarrow> write_at xs i v = Some (xs[i := v])"
  by (simp add: write_at_def)

lemma write_at_None [simp]: "length xs \<le> i \<Longrightarrow> write_at xs i v = None"
  by (simp add: write_at_def)

section \<open>Computations that may leave their arrays\<close>

text \<open>
  A computation that reads or writes out of bounds is \<^const>\<open>None\<close>.  \<open>succeeds m Q\<close> says that
  \<open>m\<close> stays in bounds and that its result satisfies \<open>Q\<close>; its rules follow the structure of
  the code, so a proof about an operation is a proof about its steps.
\<close>

definition succeeds :: "'a option \<Rightarrow> ('a \<Rightarrow> bool) \<Rightarrow> bool" where
  "succeeds m Q \<longleftrightarrow> (\<exists>x. m = Some x \<and> Q x)"

named_theorems succeeds_simps \<open>the rules of \<open>succeeds\<close>\<close>

lemma succeeds_Some [simp, succeeds_simps]: "succeeds (Some x) Q \<longleftrightarrow> Q x"
  by (simp add: succeeds_def)

lemma succeeds_None [simp, succeeds_simps]: "\<not> succeeds None Q"
  by (simp add: succeeds_def)

lemma succeeds_bind [succeeds_simps]:
  "succeeds (m \<bind> f) Q \<longleftrightarrow> succeeds m (\<lambda>x. succeeds (f x) Q)"
  by (cases m) auto

lemma succeeds_if [succeeds_simps]:
  "succeeds (if b then m else m') Q \<longleftrightarrow> (if b then succeeds m Q else succeeds m' Q)"
  by simp

lemma succeeds_mono: "succeeds m P \<Longrightarrow> (\<And>x. P x \<Longrightarrow> Q x) \<Longrightarrow> succeeds m Q"
  by (auto simp: succeeds_def)

lemma succeeds_conj: "succeeds m P \<Longrightarrow> succeeds m Q \<Longrightarrow> succeeds m (\<lambda>x. P x \<and> Q x)"
  by (auto simp: succeeds_def)

lemma succeedsD: "succeeds m Q \<Longrightarrow> m = Some x \<Longrightarrow> Q x"
  by (simp add: succeeds_def)

lemma succeedsE:
  assumes "succeeds m Q" obtains x where "m = Some x" and "Q x"
  using assms by (auto simp: succeeds_def)

text \<open>The loop \<open>for (i = first; i < first + n; i++)\<close>.\<close>

fun for_loop :: "nat \<Rightarrow> nat \<Rightarrow> (nat \<Rightarrow> 's \<Rightarrow> 's option) \<Rightarrow> 's \<Rightarrow> 's option" where
  "for_loop first 0 body s = Some s"
| "for_loop first (Suc n) body s =
     (case body first s of None \<Rightarrow> None | Some s' \<Rightarrow> for_loop (Suc first) n body s')"

lemma for_loop_rule:
  assumes "P first s"
    and "\<And>i s. first \<le> i \<Longrightarrow> i < first + n \<Longrightarrow> P i s \<Longrightarrow> succeeds (body i s) (P (Suc i))"
  shows "succeeds (for_loop first n body s) (P (first + n))"
  using assms
proof (induction n arbitrary: first s)
  case 0
  then show ?case by simp
next
  case (Suc n)
  from Suc.prems(2) [of first s] Suc.prems(1)
  obtain s' where s': "body first s = Some s'" "P (Suc first) s'"
    by (auto elim: succeedsE)
  have "succeeds (for_loop (Suc first) n body s') (P (Suc first + n))"
    using s'(2) Suc.prems(2) by (intro Suc.IH) auto
  with s' show ?case by simp
qed

section \<open>Iteration\<close>

lemma funpow_commute:
  assumes "\<And>x y. f (g x y) = g (f x) (f y)"
  shows "(f ^^ n) (g x y) = g ((f ^^ n) x) ((f ^^ n) y)"
  by (induction n) (simp_all add: assms)

lemma foldl_invariant:
  assumes "P s" and "\<And>s x. x \<in> set xs \<Longrightarrow> P s \<Longrightarrow> P (f s x)"
  shows "P (foldl f s xs)"
  using assms by (induction xs arbitrary: s) auto

end
