(* ===== verification/Crc16.thy ===== *)
theory Crc16
  imports Prelude
begin

text \<open>
  The two CRC routines of the firmware: \<open>crc16_x25\<close> of \<open>src/main.c\<close>, which completes the
  Zigbee install code, and the table-driven \<open>CRC16\<close> of the Modbus library, whose source is
  interleaved in the listing \<open>zephyr.lst\<close> and whose two tables are in the image.  Both are
  reflected CRCs; the locale \<open>reflected_crc\<close> holds the laws their proofs share.
\<close>

section \<open>One step of a reflected CRC register\<close>

text \<open>
  Both routines shift the register right by one bit and, when the bit shifted out is set, add
  their polynomial.  \<open>crc_shift\<close> is that step with the polynomial as an argument.
\<close>

definition crc_shift :: "u16 \<Rightarrow> u16 \<Rightarrow> u16" where
  "crc_shift poly w = (if bit w 0 then drop_bit 1 w XOR poly else drop_bit 1 w)"

lemma and_one_bit: "(w :: u16) AND 1 \<noteq> 0 \<longleftrightarrow> bit w 0"
  by (simp add: and_one_eq bit_0 mod_2_eq_odd)

lemma crc_shift_xor [xor_linear]: "crc_shift p (a XOR b) = crc_shift p a XOR crc_shift p b"
  by (rule bit_word_eqI) (auto simp: crc_shift_def bit_simps)

lemma crc_shift_pow_xor [xor_linear]:
  "(crc_shift p ^^ n) (a XOR b) = (crc_shift p ^^ n) a XOR (crc_shift p ^^ n) b"
  by (rule funpow_commute) (rule crc_shift_xor)

lemma crc_shift_pow_clear:
  "\<forall>i<n. \<not> bit w i \<Longrightarrow> (crc_shift p ^^ n) w = drop_bit n w"
proof (induction n arbitrary: w)
  case 0
  then show ?case by simp
next
  case (Suc n)
  from Suc.prems have "crc_shift p w = drop_bit 1 w"
    by (simp add: crc_shift_def)
  moreover from Suc.prems have "\<forall>i<n. \<not> bit (drop_bit 1 w) i"
    by (simp add: bit_simps)
  ultimately show ?case
    using Suc.IH [of "drop_bit 1 w"] by (simp add: funpow_swap1 add.commute)
qed

lemma crc_shift_inj:
  assumes "bit p 15"
  shows "crc_shift p a = crc_shift p b \<Longrightarrow> a = b"
proof -
  assume eq: "crc_shift p a = crc_shift p b"
  have top: "bit (crc_shift p w) 15 \<longleftrightarrow> bit w 0" for w
    using assms bit_imp_le_length [of w 16] by (auto simp: crc_shift_def bit_simps)
  have "bit a 0 = bit b 0"
    using eq top by metis
  with eq have "drop_bit 1 a = drop_bit 1 b"
    by (auto simp: crc_shift_def word_xor_cancel split: if_splits)
  then have "bit a (Suc n) = bit b (Suc n)" for n
    by (metis bit_drop_bit_eq comp_apply plus_1_eq_Suc)
  with \<open>bit a 0 = bit b 0\<close> have "bit a n = bit b n" for n
    by (cases n) auto
  then show "a = b"
    by (intro bit_word_eqI) auto
qed

lemma crc_shift_pow_inj:
  "bit p 15 \<Longrightarrow> (crc_shift p ^^ n) a = (crc_shift p ^^ n) b \<Longrightarrow> a = b"
  by (induction n) (auto dest: crc_shift_inj)

definition crc_upd :: "u16 \<Rightarrow> u16 \<Rightarrow> u8 \<Rightarrow> u16" where
  "crc_upd poly w b = (crc_shift poly ^^ 8) (w XOR ucast b)"

lemma word_split8: "(w :: u16) = push_bit 8 (ucast (hi8 w)) XOR ucast (lo8 w)"
  by (rule bit_word_eqI) (auto simp: bit_simps bit_hi8 bit_lo8 less_diff_conv2 dest: bit_imp_le_length)

lemma crc_upd_split: "crc_upd p s b = ucast (hi8 s) XOR crc_upd p 0 (lo8 s XOR b)"
proof -
  let ?h = "push_bit 8 (ucast (hi8 s)) :: u16"
  have "crc_upd p s b = (crc_shift p ^^ 8) (?h XOR (ucast (lo8 s) XOR ucast b))"
    unfolding crc_upd_def by (subst word_split8 [of s]) (simp only: xor.assoc)
  also have "ucast (lo8 s) XOR ucast b = (ucast (lo8 s XOR b) :: u16)"
    by (rule bit_word_eqI) (auto simp: bit_simps)
  also have "(crc_shift p ^^ 8) (?h XOR ucast (lo8 s XOR b)) =
      (crc_shift p ^^ 8) ?h XOR crc_upd p 0 (lo8 s XOR b)"
    by (simp add: crc_shift_pow_xor crc_upd_def)
  also have "(crc_shift p ^^ 8) ?h = drop_bit 8 ?h"
    by (rule crc_shift_pow_clear) (auto simp: bit_simps)
  also have "drop_bit 8 ?h = ucast (hi8 s)"
    by (rule bit_word_eqI) (auto simp: bit_simps dest: bit_imp_le_length)
  finally show ?thesis .
qed

lemma crc_upd_zero: "crc_upd p 0 0 = 0"
  using crc_shift_pow_clear [of 8 0 p] by (simp add: crc_upd_def)

lemma crc_upd_inj_state: "bit p 15 \<Longrightarrow> crc_upd p s b = crc_upd p t b \<Longrightarrow> s = t"
  unfolding crc_upd_def by (drule (1) crc_shift_pow_inj) (simp add: word_xor_cancel)

lemma crc_upd_inj_byte: "bit p 15 \<Longrightarrow> crc_upd p s b = crc_upd p s c \<Longrightarrow> b = c"
  unfolding crc_upd_def by (drule (1) crc_shift_pow_inj) (simp add: word_xor_cancel_left ucast_u8_u16_inj)

section \<open>The laws of a CRC register\<close>

text \<open>
  What the proofs about messages need of the function that feeds one byte to the register:
  how the state and the byte combine, that a zero register stays zero on zero bytes, and that
  feeding a byte loses nothing of the state or of the byte.
\<close>

locale reflected_crc =
  fixes upd :: "u16 \<Rightarrow> u8 \<Rightarrow> u16"
  assumes upd_split: "upd s b = ucast (hi8 s) XOR upd 0 (lo8 s XOR b)"
    and upd_zero: "upd 0 0 = 0"
    and upd_inj_state: "upd s b = upd t b \<Longrightarrow> s = t"
    and upd_inj_byte: "upd s b = upd s c \<Longrightarrow> b = c"
begin

lemma residue_step: "upd (upd s (lo8 s XOR c)) (hi8 s XOR d) = upd (upd 0 c) d"
proof -
  let ?k = "upd 0 c"
  have "upd s (lo8 s XOR c) = ucast (hi8 s) XOR ?k"
    by (subst upd_split) (simp add: xor.assoc [symmetric])
  moreover have "lo8 (ucast (hi8 s) XOR ?k) = hi8 s XOR lo8 ?k"
    by (rule bit_word_eqI) (auto simp: bit_simps bit_lo8 bit_hi8)
  moreover have "hi8 (ucast (hi8 s) XOR ?k) = hi8 ?k"
    by (rule bit_word_eqI) (auto simp: bit_simps bit_hi8)
  ultimately have "upd (upd s (lo8 s XOR c)) (hi8 s XOR d) = ucast (hi8 ?k) XOR upd 0 (lo8 ?k XOR d)"
    by (subst upd_split) (simp add: xor.assoc xor.left_commute)
  also have "\<dots> = upd ?k d"
    by (rule upd_split [symmetric])
  finally show ?thesis .
qed

text \<open>Appending the complement mask \<open>c\<close> of the register's two bytes, low byte first.\<close>

lemma residue:
  "foldl upd s (xs @ [lo8 (foldl upd s xs) XOR c, hi8 (foldl upd s xs) XOR d]) = upd (upd 0 c) d"
  by (simp add: residue_step)

lemma residue_plain:
  "foldl upd s (xs @ [lo8 (foldl upd s xs), hi8 (foldl upd s xs)]) = 0"
  using residue [of s xs 0 0] by (simp add: upd_zero)

lemma foldl_inj_state: "foldl upd s xs = foldl upd t xs \<Longrightarrow> s = t"
  by (induction xs arbitrary: s t) (auto dest: upd_inj_state)

text \<open>Changing one byte of a message always changes the register.\<close>

lemma detects_byte_error:
  assumes "b \<noteq> c"
  shows "foldl upd s (xs @ b # ys) \<noteq> foldl upd s (xs @ c # ys)"
proof
  assume "foldl upd s (xs @ b # ys) = foldl upd s (xs @ c # ys)"
  then have "upd (foldl upd s xs) b = upd (foldl upd s xs) c"
    by (auto dest: foldl_inj_state)
  with assms show False
    by (auto dest: upd_inj_byte)
qed

end

section \<open>The install-code CRC\<close>

definition crc16_x25_bit :: "u16 \<Rightarrow> u16" where
  "crc16_x25_bit wCrc =
     (if wCrc AND 0x0001 \<noteq> 0 then drop_bit 1 wCrc XOR 0x8408 else drop_bit 1 wCrc)"

definition crc16_x25_byte :: "u16 \<Rightarrow> u8 \<Rightarrow> u16" where
  "crc16_x25_byte wCrc b = (crc16_x25_bit ^^ 8) (wCrc XOR ucast b)"

fun crc16_x25_loop :: "u16 \<Rightarrow> u8 list \<Rightarrow> nat \<Rightarrow> u16 option" where
  "crc16_x25_loop wCrc pData 0 = Some wCrc"
| "crc16_x25_loop wCrc [] (Suc len) = None"
| "crc16_x25_loop wCrc (b # pData) (Suc len) =
     crc16_x25_loop (crc16_x25_byte wCrc b) pData len"

definition crc16_x25 :: "u8 list \<Rightarrow> nat \<Rightarrow> u16 option" where
  "crc16_x25 pData len =
     (case crc16_x25_loop 0xffff pData len of None \<Rightarrow> None | Some wCrc \<Rightarrow> Some (wCrc XOR 0xffff))"

section \<open>The Modbus CRC\<close>

definition auchCRCHi :: "u8 list" where
  "auchCRCHi = [
   0x00, 0xC1, 0x81, 0x40, 0x01, 0xC0, 0x80, 0x41, 0x01, 0xC0, 0x80, 0x41, 0x00, 0xC1, 0x81, 0x40,
   0x01, 0xC0, 0x80, 0x41, 0x00, 0xC1, 0x81, 0x40, 0x00, 0xC1, 0x81, 0x40, 0x01, 0xC0, 0x80, 0x41,
   0x01, 0xC0, 0x80, 0x41, 0x00, 0xC1, 0x81, 0x40, 0x00, 0xC1, 0x81, 0x40, 0x01, 0xC0, 0x80, 0x41,
   0x00, 0xC1, 0x81, 0x40, 0x01, 0xC0, 0x80, 0x41, 0x01, 0xC0, 0x80, 0x41, 0x00, 0xC1, 0x81, 0x40,
   0x01, 0xC0, 0x80, 0x41, 0x00, 0xC1, 0x81, 0x40, 0x00, 0xC1, 0x81, 0x40, 0x01, 0xC0, 0x80, 0x41,
   0x00, 0xC1, 0x81, 0x40, 0x01, 0xC0, 0x80, 0x41, 0x01, 0xC0, 0x80, 0x41, 0x00, 0xC1, 0x81, 0x40,
   0x00, 0xC1, 0x81, 0x40, 0x01, 0xC0, 0x80, 0x41, 0x01, 0xC0, 0x80, 0x41, 0x00, 0xC1, 0x81, 0x40,
   0x01, 0xC0, 0x80, 0x41, 0x00, 0xC1, 0x81, 0x40, 0x00, 0xC1, 0x81, 0x40, 0x01, 0xC0, 0x80, 0x41,
   0x01, 0xC0, 0x80, 0x41, 0x00, 0xC1, 0x81, 0x40, 0x00, 0xC1, 0x81, 0x40, 0x01, 0xC0, 0x80, 0x41,
   0x00, 0xC1, 0x81, 0x40, 0x01, 0xC0, 0x80, 0x41, 0x01, 0xC0, 0x80, 0x41, 0x00, 0xC1, 0x81, 0x40,
   0x00, 0xC1, 0x81, 0x40, 0x01, 0xC0, 0x80, 0x41, 0x01, 0xC0, 0x80, 0x41, 0x00, 0xC1, 0x81, 0x40,
   0x01, 0xC0, 0x80, 0x41, 0x00, 0xC1, 0x81, 0x40, 0x00, 0xC1, 0x81, 0x40, 0x01, 0xC0, 0x80, 0x41,
   0x00, 0xC1, 0x81, 0x40, 0x01, 0xC0, 0x80, 0x41, 0x01, 0xC0, 0x80, 0x41, 0x00, 0xC1, 0x81, 0x40,
   0x01, 0xC0, 0x80, 0x41, 0x00, 0xC1, 0x81, 0x40, 0x00, 0xC1, 0x81, 0x40, 0x01, 0xC0, 0x80, 0x41,
   0x01, 0xC0, 0x80, 0x41, 0x00, 0xC1, 0x81, 0x40, 0x00, 0xC1, 0x81, 0x40, 0x01, 0xC0, 0x80, 0x41,
   0x00, 0xC1, 0x81, 0x40, 0x01, 0xC0, 0x80, 0x41, 0x01, 0xC0, 0x80, 0x41, 0x00, 0xC1, 0x81, 0x40]"

definition auchCRCLo :: "u8 list" where
  "auchCRCLo = [
   0x00, 0xC0, 0xC1, 0x01, 0xC3, 0x03, 0x02, 0xC2, 0xC6, 0x06, 0x07, 0xC7, 0x05, 0xC5, 0xC4, 0x04,
   0xCC, 0x0C, 0x0D, 0xCD, 0x0F, 0xCF, 0xCE, 0x0E, 0x0A, 0xCA, 0xCB, 0x0B, 0xC9, 0x09, 0x08, 0xC8,
   0xD8, 0x18, 0x19, 0xD9, 0x1B, 0xDB, 0xDA, 0x1A, 0x1E, 0xDE, 0xDF, 0x1F, 0xDD, 0x1D, 0x1C, 0xDC,
   0x14, 0xD4, 0xD5, 0x15, 0xD7, 0x17, 0x16, 0xD6, 0xD2, 0x12, 0x13, 0xD3, 0x11, 0xD1, 0xD0, 0x10,
   0xF0, 0x30, 0x31, 0xF1, 0x33, 0xF3, 0xF2, 0x32, 0x36, 0xF6, 0xF7, 0x37, 0xF5, 0x35, 0x34, 0xF4,
   0x3C, 0xFC, 0xFD, 0x3D, 0xFF, 0x3F, 0x3E, 0xFE, 0xFA, 0x3A, 0x3B, 0xFB, 0x39, 0xF9, 0xF8, 0x38,
   0x28, 0xE8, 0xE9, 0x29, 0xEB, 0x2B, 0x2A, 0xEA, 0xEE, 0x2E, 0x2F, 0xEF, 0x2D, 0xED, 0xEC, 0x2C,
   0xE4, 0x24, 0x25, 0xE5, 0x27, 0xE7, 0xE6, 0x26, 0x22, 0xE2, 0xE3, 0x23, 0xE1, 0x21, 0x20, 0xE0,
   0xA0, 0x60, 0x61, 0xA1, 0x63, 0xA3, 0xA2, 0x62, 0x66, 0xA6, 0xA7, 0x67, 0xA5, 0x65, 0x64, 0xA4,
   0x6C, 0xAC, 0xAD, 0x6D, 0xAF, 0x6F, 0x6E, 0xAE, 0xAA, 0x6A, 0x6B, 0xAB, 0x69, 0xA9, 0xA8, 0x68,
   0x78, 0xB8, 0xB9, 0x79, 0xBB, 0x7B, 0x7A, 0xBA, 0xBE, 0x7E, 0x7F, 0xBF, 0x7D, 0xBD, 0xBC, 0x7C,
   0xB4, 0x74, 0x75, 0xB5, 0x77, 0xB7, 0xB6, 0x76, 0x72, 0xB2, 0xB3, 0x73, 0xB1, 0x71, 0x70, 0xB0,
   0x50, 0x90, 0x91, 0x51, 0x93, 0x53, 0x52, 0x92, 0x96, 0x56, 0x57, 0x97, 0x55, 0x95, 0x94, 0x54,
   0x9C, 0x5C, 0x5D, 0x9D, 0x5F, 0x9F, 0x9E, 0x5E, 0x5A, 0x9A, 0x9B, 0x5B, 0x99, 0x59, 0x58, 0x98,
   0x88, 0x48, 0x49, 0x89, 0x4B, 0x8B, 0x8A, 0x4A, 0x4E, 0x8E, 0x8F, 0x4F, 0x8D, 0x4D, 0x4C, 0x8C,
   0x44, 0x84, 0x85, 0x45, 0x87, 0x47, 0x46, 0x86, 0x82, 0x42, 0x43, 0x83, 0x41, 0x81, 0x80, 0x40]"

definition CRC16_step :: "u8 \<times> u8 \<Rightarrow> u8 \<Rightarrow> u8 \<times> u8" where
  "CRC16_step s b =
     (let (uchCRCHi, uchCRCLo) = s; uIndex = uchCRCLo XOR b
      in (auchCRCLo ! unat uIndex, uchCRCHi XOR auchCRCHi ! unat uIndex))"

definition CRC16 :: "u8 list \<Rightarrow> u16" where
  "CRC16 puchMsg = (let (uchCRCHi, uchCRCLo) = foldl CRC16_step (0xFF, 0xFF) puchMsg
                    in mk16 uchCRCHi uchCRCLo)"

text \<open>
  The reference: the bit-serial register with the polynomial \<open>0xA001\<close>, and the linear tables
  that a reflected CRC's byte tables are.
\<close>

definition modbus_crc_byte :: "u16 \<Rightarrow> u8 \<Rightarrow> u16" where
  "modbus_crc_byte w b = crc_upd 0xA001 w b"

fun lin_table :: "u8 list \<Rightarrow> u8 list" where
  "lin_table [] = [0]"
| "lin_table (b # bs) = lin_table bs @ map (\<lambda>x. b XOR x) (lin_table bs)"

lemma lin_table_map:
  assumes "f 0 = 0"
    and "\<And>k j. k < n \<Longrightarrow> j < 2 ^ k \<Longrightarrow> f (2 ^ k + j) = f (2 ^ k) XOR f j"
  shows "map f [0..<2 ^ n] = lin_table (map (\<lambda>k. f (2 ^ k)) (rev [0..<n]))"
  using assms(2)
proof (induction n)
  case 0
  then show ?case by (simp add: assms(1))
next
  case (Suc n)
  have "[0..<2 ^ Suc n] = [0..<2 ^ n] @ map (\<lambda>j. 2 ^ n + j) [0..<2 ^ n]"
    by (simp add: map_add_upt upt_add_eq_append [symmetric] mult_2 add.commute)
  then have "map f [0..<2 ^ Suc n] = map f [0..<2 ^ n] @ map (\<lambda>j. f (2 ^ n) XOR f j) [0..<2 ^ n]"
    using Suc.prems by (simp add: o_def)
  also have "map (\<lambda>j. f (2 ^ n) XOR f j) [0..<2 ^ n] = map (\<lambda>x. f (2 ^ n) XOR x) (map f [0..<2 ^ n])"
    by simp
  finally show ?case
    using Suc.IH Suc.prems by simp
qed

lemma of_nat_add_pow2:
  assumes "k < 8" "j < 2 ^ k"
  shows "(word_of_nat (2 ^ k + j) :: u8) = word_of_nat (2 ^ k) XOR word_of_nat j"
proof -
  have "\<not> bit j k"
    using assms(2) by (simp add: bit_iff_odd)
  then have "word_of_nat (2 ^ k) AND (word_of_nat j :: u8) = 0"
    by (intro bit_word_eqI) (auto simp: bit_simps)
  then show ?thesis
    by (simp add: disjunctive_add_eq_xor)
qed

lemma auchCRCHi_lin: "auchCRCHi = lin_table [0x01, 0x01, 0x01, 0x01, 0x01, 0x01, 0x81, 0xC1]"
  unfolding auchCRCHi_def by simp

lemma auchCRCLo_lin: "auchCRCLo = lin_table [0xA0, 0xF0, 0xD8, 0xCC, 0xC6, 0xC3, 0xC1, 0xC0]"
  unfolding auchCRCLo_def by simp

lemma crc_basis_lo: "map (\<lambda>k. lo8 (modbus_crc_byte 0 (word_of_nat (2 ^ k)))) (rev [0..<8]) = [0x01, 0x01, 0x01, 0x01, 0x01, 0x01, 0x81, 0xC1]"
  by code_simp

lemma crc_basis_hi: "map (\<lambda>k. hi8 (modbus_crc_byte 0 (word_of_nat (2 ^ k)))) (rev [0..<8]) = [0xA0, 0xF0, 0xD8, 0xCC, 0xC6, 0xC3, 0xC1, 0xC0]"
  by code_simp

lemma modbus_crc_byte_xor: "modbus_crc_byte 0 (a XOR b) = modbus_crc_byte 0 a XOR modbus_crc_byte 0 b"
proof -
  have "(ucast (a XOR b) :: u16) = ucast a XOR ucast b"
    by (rule bit_word_eqI) (auto simp: bit_simps)
  then show ?thesis
    by (simp add: modbus_crc_byte_def crc_upd_def crc_shift_pow_xor)
qed

lemma auchCRCHi_map: "auchCRCHi = map (\<lambda>i. lo8 (modbus_crc_byte 0 (word_of_nat i))) [0..<256]"
proof -
  let ?f = "\<lambda>i. lo8 (modbus_crc_byte 0 (word_of_nat i))"
  have "map ?f [0..<2 ^ 8] = lin_table (map (\<lambda>k. ?f (2 ^ k)) (rev [0..<8]))"
  proof (rule lin_table_map)
    show "?f 0 = 0"
      by (simp add: modbus_crc_byte_def crc_upd_zero lo8_def)
    show "?f (2 ^ k + j) = ?f (2 ^ k) XOR ?f j" if "k < 8" "j < 2 ^ k" for k j
      using of_nat_add_pow2 [OF that] by (simp only: modbus_crc_byte_xor lo8_xor)
  qed
  then show ?thesis
    unfolding auchCRCHi_lin crc_basis_lo by simp
qed

lemma auchCRCLo_map: "auchCRCLo = map (\<lambda>i. hi8 (modbus_crc_byte 0 (word_of_nat i))) [0..<256]"
proof -
  let ?f = "\<lambda>i. hi8 (modbus_crc_byte 0 (word_of_nat i))"
  have "map ?f [0..<2 ^ 8] = lin_table (map (\<lambda>k. ?f (2 ^ k)) (rev [0..<8]))"
  proof (rule lin_table_map)
    show "?f 0 = 0"
      by (simp add: modbus_crc_byte_def crc_upd_zero hi8_def)
    show "?f (2 ^ k + j) = ?f (2 ^ k) XOR ?f j" if "k < 8" "j < 2 ^ k" for k j
      using of_nat_add_pow2 [OF that] by (simp only: modbus_crc_byte_xor hi8_xor)
  qed
  then show ?thesis
    unfolding auchCRCLo_lin crc_basis_hi by simp
qed

interpretation x25: reflected_crc "crc_upd 0x8408"
  by unfold_locales
    (auto intro: crc_upd_split crc_upd_zero elim!: crc_upd_inj_state [rotated] crc_upd_inj_byte [rotated])

interpretation modbus: reflected_crc modbus_crc_byte
  unfolding modbus_crc_byte_def
  by unfold_locales
    (auto intro: crc_upd_split crc_upd_zero elim!: crc_upd_inj_state [rotated] crc_upd_inj_byte [rotated])

lemma mk16_xor_ucast: "ucast h XOR w = mk16 (hi8 w) (h XOR lo8 w)"
  by (rule bit_word_eqI) (auto simp: bit_mk16 bit_simps bit_hi8 bit_lo8 less_diff_conv2 dest: bit_imp_le_length)

lemma CRC16_step_refines:
  "(case CRC16_step (h, l) b of (h', l') \<Rightarrow> mk16 h' l') = modbus_crc_byte (mk16 h l) b"
proof -
  have "modbus_crc_byte (mk16 h l) b = ucast h XOR modbus_crc_byte 0 (l XOR b)"
    by (subst modbus.upd_split) simp
  then show ?thesis
    by (simp add: CRC16_step_def Let_def auchCRCHi_map auchCRCLo_map mk16_xor_ucast)
qed

lemma CRC16_fold_refines:
  "(case foldl CRC16_step (h, l) xs of (h', l') \<Rightarrow> mk16 h' l') = foldl modbus_crc_byte (mk16 h l) xs"
proof (induction xs arbitrary: h l)
  case Nil
  then show ?case by simp
next
  case (Cons b xs)
  obtain h' l' where st: "CRC16_step (h, l) b = (h', l')"
    by fastforce
  with CRC16_step_refines [of h l b] Cons.IH [of h' l'] show ?case
    by simp
qed

lemma CRC16_fold: "CRC16 xs = foldl modbus_crc_byte 0xFFFF xs"
proof -
  have "mk16 0xFF 0xFF = 0xFFFF" by (simp add: mk16_def)
  then show ?thesis
    using CRC16_fold_refines [of "0xFF" "0xFF" xs] by (simp add: CRC16_def Let_def case_prod_unfold)
qed

section \<open>The install-code CRC as a register\<close>

lemma crc16_x25_bit_shift: "crc16_x25_bit = crc_shift 0x8408"
  by (simp add: fun_eq_iff crc16_x25_bit_def crc_shift_def and_one_bit)

lemma crc16_x25_byte_upd: "crc16_x25_byte = crc_upd 0x8408"
  by (simp add: fun_eq_iff crc16_x25_byte_def crc_upd_def crc16_x25_bit_shift)

lemma crc16_x25_loop_fold:
  "n \<le> length p \<Longrightarrow> crc16_x25_loop w p n = Some (foldl (crc_upd 0x8408) w (take n p))"
  by (induction w p n rule: crc16_x25_loop.induct) (simp_all add: crc16_x25_byte_upd)

lemma crc16_x25_fold:
  "n \<le> length p \<Longrightarrow> crc16_x25 p n = Some (foldl (crc_upd 0x8408) 0xFFFF (take n p) XOR 0xFFFF)"
  by (simp add: crc16_x25_def crc16_x25_loop_fold)

lemma x25_magic: "crc_upd 0x8408 (crc_upd 0x8408 0 0xFF) 0xFF XOR 0xFFFF = 0x0F47"
  by code_simp

lemma x25_append:
  assumes "length ic = n"
    and "crc16_x25 (ic @ tail) n = Some crc"
  shows "crc16_x25 (ic @ [lo8 crc, hi8 crc]) (n + 2) = Some 0x0F47"
proof -
  let ?r = "foldl (crc_upd 0x8408) 0xFFFF ic"
  have crc: "crc = ?r XOR 0xFFFF"
    using assms crc16_x25_fold [of n "ic @ tail"] by simp
  have "lo8 0xFFFF = 0xFF" "hi8 0xFFFF = 0xFF"
    by (simp_all add: lo8_def hi8_def)
  with crc have bytes: "lo8 crc = lo8 ?r XOR 0xFF" "hi8 crc = hi8 ?r XOR 0xFF"
    by (simp_all add: lo8_xor hi8_xor)
  have "foldl (crc_upd 0x8408) 0xFFFF (ic @ [lo8 crc, hi8 crc]) =
      crc_upd 0x8408 (crc_upd 0x8408 0 0xFF) 0xFF"
    unfolding bytes by (rule x25.residue)
  then show ?thesis
    using assms(1) by (simp add: crc16_x25_fold x25_magic)
qed

section \<open>Properties\<close>

text \<open>C25: the table-driven \<open>CRC16\<close> of the Modbus library computes, for every message, the
  bit-serial reflected CRC with polynomial \<open>0xA001\<close> and start value \<open>0xFFFF\<close>.\<close>

theorem CRC16_is_bitwise: "CRC16 puchMsg = foldl modbus_crc_byte 0xFFFF puchMsg"
  by (rule CRC16_fold)

text \<open>a message followed by its own CRC, low byte first, has CRC zero: the test by which
  \<open>InvalidFrame\<close> accepts a frame.\<close>

theorem CRC16_residue: "CRC16 (msg @ [lo8 (CRC16 msg), hi8 (CRC16 msg)]) = 0"
  unfolding CRC16_fold by (rule modbus.residue_plain)

text \<open>changing any one byte of a message, wherever it stands, changes its CRC.\<close>

theorem CRC16_detects_byte_error:
  assumes "b \<noteq> c"
  shows "CRC16 (xs @ b # ys) \<noteq> CRC16 (xs @ c # ys)"
  unfolding CRC16_fold using assms by (rule modbus.detects_byte_error)

theorem CRC16_detects_byte_error_witness: "CRC16 [1, 3, 0] \<noteq> CRC16 [1, 6, 0]"
  using CRC16_detects_byte_error [of 3 6 "[1]" "[0]"] by simp

text \<open>the install-code CRC: whatever the code bytes are, the code followed by the CRC that
  \<open>crc16_x25\<close> returns for it, low byte first, has the constant CRC \<open>0x0F47\<close>.\<close>

theorem crc16_x25_residue:
  assumes "length ic = n" and "crc16_x25 (ic @ tail) n = Some crc"
  shows "crc16_x25 (ic @ [lo8 crc, hi8 crc]) (n + 2) = Some 0x0F47"
  using assms by (rule x25_append)

theorem crc16_x25_residue_witness:
  "crc16_x25 [0x31] 1 = Some 0xD072 \<and> crc16_x25 [0x31, 0x72, 0xD0] 3 = Some 0x0F47"
proof -
  have crc: "crc16_x25 ([0x31] @ []) 1 = Some 0xD072"
    by code_simp
  have "lo8 0xD072 = 0x72" "hi8 0xD072 = 0xD0"
    by (simp_all add: lo8_def hi8_def)
  moreover have "crc16_x25 ([0x31] @ [lo8 0xD072, hi8 0xD072]) (1 + 2) = Some 0x0F47"
    by (rule crc16_x25_residue [OF _ crc]) simp
  ultimately show ?thesis
    using crc by (simp add: numeral_3_eq_3)
qed

end
