(* ===== verification/RegTable.thy ===== *)
theory RegTable
  imports Prelude
begin

text \<open>
  The register table: the X-macro list \<open>MAIN_BUF_TABLE\<close> of \<open>src/modbus_x_macros.h\<close>, the array
  \<open>default_state\<close> it expands to (one entry per register, absent registers all zero), and the
  three checks the other components make against it.  The checks and the expansion are in the
  shared library; their source is interleaved in the listing \<open>zephyr.lst\<close>.
\<close>

section \<open>Constants of the headers\<close>

abbreviation (input) VERSION :: u16 where "VERSION \<equiv> 101"
abbreviation (input) SIZE_NTC_TABLE :: nat where "SIZE_NTC_TABLE \<equiv> 166"

abbreviation (input) READ_R :: u32 where "READ_R \<equiv> 0"
abbreviation (input) WRITE_R :: u32 where "WRITE_R \<equiv> 0x01"
abbreviation (input) EESAVE_R :: u32 where "EESAVE_R \<equiv> 0x02"
abbreviation (input) LIM_SIGN :: u32 where "LIM_SIGN \<equiv> 0x04"
abbreviation (input) LIM_UNSIGN :: u32 where "LIM_UNSIGN \<equiv> 0x08"
abbreviation (input) LIM_MASK :: u32 where "LIM_MASK \<equiv> 0x0C"

abbreviation (input) ZI_SET_MODE_BIT_SET_FICR_ADDR :: u16 where "ZI_SET_MODE_BIT_SET_FICR_ADDR \<equiv> 1"
abbreviation (input) ZI_SET_MODE_BIT_SET_CODE :: u16 where "ZI_SET_MODE_BIT_SET_CODE \<equiv> 2"
abbreviation (input) ZI_SET_MODE_BIT_DEFAULT :: u16 where
  "ZI_SET_MODE_BIT_DEFAULT \<equiv> ZI_SET_MODE_BIT_SET_CODE"
abbreviation (input) ZI_SET_WAIT_TIME_S_DEFAULT :: u16 where "ZI_SET_WAIT_TIME_S_DEFAULT \<equiv> 10"
abbreviation (input) ZI_SET_CHANNEL_DEFAULT :: u16 where "ZI_SET_CHANNEL_DEFAULT \<equiv> 16"

text \<open>The end-device ageing codes of the Zigbee stack, as they stand in the image's table.\<close>

abbreviation (input) ED_AGING_TIMEOUT_2MIN :: u16 where "ED_AGING_TIMEOUT_2MIN \<equiv> 1"
abbreviation (input) ED_AGING_TIMEOUT_64MIN :: u16 where "ED_AGING_TIMEOUT_64MIN \<equiv> 6"
abbreviation (input) ED_AGING_TIMEOUT_16384MIN :: u16 where "ED_AGING_TIMEOUT_16384MIN \<equiv> 14"

section \<open>Register numbers\<close>

abbreviation (input) Reg_Start :: nat where "Reg_Start \<equiv> 0"
abbreviation (input) Reg_T_0_Channel :: nat where "Reg_T_0_Channel \<equiv> 1"
abbreviation (input) Reg_Zigbee_Connect_Status :: nat where "Reg_Zigbee_Connect_Status \<equiv> 20"
abbreviation (input) Reg_Send_Command :: nat where "Reg_Send_Command \<equiv> 29"
abbreviation (input) Reg_Zigbee_Set_Mode :: nat where "Reg_Zigbee_Set_Mode \<equiv> 40"
abbreviation (input) Reg_Zigbee_Set_Channel :: nat where "Reg_Zigbee_Set_Channel \<equiv> 41"
abbreviation (input) Reg_Zigbee_Wait_Time_S :: nat where "Reg_Zigbee_Wait_Time_S \<equiv> 42"
abbreviation (input) Reg_Zigbee_Timeout :: nat where "Reg_Zigbee_Timeout \<equiv> 47"
abbreviation (input) Reg_Zigbee_FICR_Addr_0 :: nat where "Reg_Zigbee_FICR_Addr_0 \<equiv> 60"
abbreviation (input) Reg_Zigbee_FICR_Addr_1 :: nat where "Reg_Zigbee_FICR_Addr_1 \<equiv> 61"
abbreviation (input) Reg_Zigbee_FICR_Addr_2 :: nat where "Reg_Zigbee_FICR_Addr_2 \<equiv> 62"
abbreviation (input) Reg_Zigbee_FICR_Addr_3 :: nat where "Reg_Zigbee_FICR_Addr_3 \<equiv> 63"
abbreviation (input) Reg_Zigbee_FICR_Addr_4 :: nat where "Reg_Zigbee_FICR_Addr_4 \<equiv> 64"
abbreviation (input) Reg_Zigbee_FICR_Addr_5 :: nat where "Reg_Zigbee_FICR_Addr_5 \<equiv> 65"
abbreviation (input) Reg_Zigbee_FICR_Addr_6 :: nat where "Reg_Zigbee_FICR_Addr_6 \<equiv> 66"
abbreviation (input) Reg_Zigbee_FICR_Addr_7 :: nat where "Reg_Zigbee_FICR_Addr_7 \<equiv> 67"
abbreviation (input) Reg_Zigbee_Addr_0_N_Panel :: nat where "Reg_Zigbee_Addr_0_N_Panel \<equiv> 70"
abbreviation (input) Reg_Zigbee_Addr_1_N_Sens_Point :: nat where "Reg_Zigbee_Addr_1_N_Sens_Point \<equiv> 71"
abbreviation (input) Reg_Zigbee_Addr_2 :: nat where "Reg_Zigbee_Addr_2 \<equiv> 72"
abbreviation (input) Reg_Zigbee_Addr_3 :: nat where "Reg_Zigbee_Addr_3 \<equiv> 73"
abbreviation (input) Reg_Zigbee_Addr_4 :: nat where "Reg_Zigbee_Addr_4 \<equiv> 74"
abbreviation (input) Reg_Zigbee_Addr_5 :: nat where "Reg_Zigbee_Addr_5 \<equiv> 75"
abbreviation (input) Reg_Zigbee_Addr_6 :: nat where "Reg_Zigbee_Addr_6 \<equiv> 76"
abbreviation (input) Reg_Zigbee_Addr_7 :: nat where "Reg_Zigbee_Addr_7 \<equiv> 77"
abbreviation (input) Reg_Zigbee_Code_0 :: nat where "Reg_Zigbee_Code_0 \<equiv> 80"
abbreviation (input) Reg_Zigbee_Code_1 :: nat where "Reg_Zigbee_Code_1 \<equiv> 81"
abbreviation (input) Reg_Zigbee_Code_2 :: nat where "Reg_Zigbee_Code_2 \<equiv> 82"
abbreviation (input) Reg_Zigbee_Code_3 :: nat where "Reg_Zigbee_Code_3 \<equiv> 83"
abbreviation (input) Reg_Zigbee_Code_4 :: nat where "Reg_Zigbee_Code_4 \<equiv> 84"
abbreviation (input) Reg_Zigbee_Code_5 :: nat where "Reg_Zigbee_Code_5 \<equiv> 85"
abbreviation (input) Reg_Zigbee_Code_6 :: nat where "Reg_Zigbee_Code_6 \<equiv> 86"
abbreviation (input) Reg_Zigbee_Code_7 :: nat where "Reg_Zigbee_Code_7 \<equiv> 87"
abbreviation (input) Reg_NTC_R2_Value_W1 :: nat where "Reg_NTC_R2_Value_W1 \<equiv> 90"
abbreviation (input) Reg_NTC_R2_Value_W2 :: nat where "Reg_NTC_R2_Value_W2 \<equiv> 91"
abbreviation (input) Reg_NTC_R_Divider_W1 :: nat where "Reg_NTC_R_Divider_W1 \<equiv> 92"
abbreviation (input) Reg_NTC_R_Divider_W2 :: nat where "Reg_NTC_R_Divider_W2 \<equiv> 93"
abbreviation (input) Reg_NTC_B_Value :: nat where "Reg_NTC_B_Value \<equiv> 94"
abbreviation (input) Reg_NTC_T2_Value :: nat where "Reg_NTC_T2_Value \<equiv> 95"
abbreviation (input) Reg_NTC_Start_Temperature :: nat where "Reg_NTC_Start_Temperature \<equiv> 96"
abbreviation (input) Reg_NTC_Step_Temperature :: nat where "Reg_NTC_Step_Temperature \<equiv> 97"
abbreviation (input) Reg_NTC_Temper_Number_Step :: nat where "Reg_NTC_Temper_Number_Step \<equiv> 98"
abbreviation (input) Reg_End :: nat where "Reg_End \<equiv> 119"

abbreviation (input) NUM_BUF :: nat where "NUM_BUF \<equiv> Reg_End + 1"

section \<open>The table\<close>

record t_default_state =
  Default_Value :: u16
  Min_Level :: u16
  Max_Level_Mask :: u16
  Permission :: u32

definition X_BUF :: "u16 \<Rightarrow> u16 \<Rightarrow> u16 \<Rightarrow> u32 \<Rightarrow> t_default_state" where
  "X_BUF d mn mx p = \<lparr>Default_Value = d, Min_Level = mn, Max_Level_Mask = mx, Permission = p\<rparr>"

definition MAIN_BUF_TABLE :: "(nat \<times> t_default_state) list" where
  "MAIN_BUF_TABLE = [
   (Reg_Start, X_BUF 0 0 0 (READ_R)),
   (Reg_T_0_Channel, X_BUF 0 0 0 (READ_R)),
   (Reg_Zigbee_Connect_Status, X_BUF 0 0 0 (READ_R)),
   (Reg_Send_Command, X_BUF 0 0 0 (WRITE_R)),
   (Reg_Zigbee_Set_Mode, X_BUF ZI_SET_MODE_BIT_DEFAULT 0 0 (WRITE_R OR EESAVE_R)),
   (Reg_Zigbee_Set_Channel, X_BUF ZI_SET_CHANNEL_DEFAULT 11 26 (WRITE_R OR EESAVE_R OR LIM_UNSIGN)),
   (Reg_Zigbee_Wait_Time_S, X_BUF ZI_SET_WAIT_TIME_S_DEFAULT 0 0 (WRITE_R OR EESAVE_R)),
   (Reg_Zigbee_Timeout, X_BUF ED_AGING_TIMEOUT_64MIN ED_AGING_TIMEOUT_2MIN ED_AGING_TIMEOUT_16384MIN (WRITE_R OR EESAVE_R OR LIM_UNSIGN)),
   (Reg_Zigbee_FICR_Addr_0, X_BUF 0 0 0 (READ_R)),
   (Reg_Zigbee_FICR_Addr_1, X_BUF 0 0 0 (READ_R)),
   (Reg_Zigbee_FICR_Addr_2, X_BUF 0 0 0 (READ_R)),
   (Reg_Zigbee_FICR_Addr_3, X_BUF 0 0 0 (READ_R)),
   (Reg_Zigbee_FICR_Addr_4, X_BUF 0 0 0 (READ_R)),
   (Reg_Zigbee_FICR_Addr_5, X_BUF 0 0 0 (READ_R)),
   (Reg_Zigbee_FICR_Addr_6, X_BUF 0 0 0 (READ_R)),
   (Reg_Zigbee_FICR_Addr_7, X_BUF 0 0 0 (READ_R)),
   (Reg_Zigbee_Addr_0_N_Panel, X_BUF 0 0 0xFF (WRITE_R OR EESAVE_R)),
   (Reg_Zigbee_Addr_1_N_Sens_Point, X_BUF 1 0 0xFF (WRITE_R OR EESAVE_R)),
   (Reg_Zigbee_Addr_2, X_BUF 0xF4 0 0xFF (WRITE_R OR EESAVE_R)),
   (Reg_Zigbee_Addr_3, X_BUF 0xCE 0 0xFF (WRITE_R OR EESAVE_R)),
   (Reg_Zigbee_Addr_4, X_BUF 0x47 0 0xFF (WRITE_R OR EESAVE_R)),
   (Reg_Zigbee_Addr_5, X_BUF 0xCA 0 0xFF (WRITE_R OR EESAVE_R)),
   (Reg_Zigbee_Addr_6, X_BUF 0x36 0 0xFF (WRITE_R OR EESAVE_R)),
   (Reg_Zigbee_Addr_7, X_BUF 0x5B 0 0xFF (WRITE_R OR EESAVE_R)),
   (Reg_Zigbee_Code_0, X_BUF 0x0102 0 0xFFFF (WRITE_R OR EESAVE_R)),
   (Reg_Zigbee_Code_1, X_BUF 0x0304 0 0xFFFF (WRITE_R OR EESAVE_R)),
   (Reg_Zigbee_Code_2, X_BUF 0x0506 0 0xFFFF (WRITE_R OR EESAVE_R)),
   (Reg_Zigbee_Code_3, X_BUF 0x0708 0 0xFFFF (WRITE_R OR EESAVE_R)),
   (Reg_Zigbee_Code_4, X_BUF 0x090A 0 0xFFFF (WRITE_R OR EESAVE_R)),
   (Reg_Zigbee_Code_5, X_BUF 0x0B0C 0 0xFFFF (WRITE_R OR EESAVE_R)),
   (Reg_Zigbee_Code_6, X_BUF 0x0D0E 0 0xFFFF (WRITE_R OR EESAVE_R)),
   (Reg_Zigbee_Code_7, X_BUF 0x0F11 0 0xFFFF (WRITE_R OR EESAVE_R)),
   (Reg_NTC_R2_Value_W1, X_BUF 50000 0 0xFFFF (WRITE_R OR EESAVE_R)),
   (Reg_NTC_R2_Value_W2, X_BUF 0 0 0xFFFF (WRITE_R OR EESAVE_R)),
   (Reg_NTC_R_Divider_W1, X_BUF 20000 0 0xFFFF (WRITE_R OR EESAVE_R)),
   (Reg_NTC_R_Divider_W2, X_BUF 0 0 0xFFFF (WRITE_R OR EESAVE_R)),
   (Reg_NTC_B_Value, X_BUF 3950 0 0xFFFF (WRITE_R OR EESAVE_R)),
   (Reg_NTC_T2_Value, X_BUF 25 0 0xFFFF (WRITE_R OR EESAVE_R)),
   (Reg_NTC_Start_Temperature, X_BUF (-10) (-40) 20 (WRITE_R OR EESAVE_R OR LIM_SIGN)),
   (Reg_NTC_Step_Temperature, X_BUF 1 1 5 (WRITE_R OR EESAVE_R OR LIM_UNSIGN)),
   (Reg_NTC_Temper_Number_Step, X_BUF 136 0 166 (WRITE_R OR EESAVE_R OR LIM_UNSIGN)),
   (Reg_End, X_BUF 0 0 0 (READ_R))]"

definition default_state :: "t_default_state list" where
  "default_state =
     map (\<lambda>i. case map_of MAIN_BUF_TABLE i of None \<Rightarrow> X_BUF 0 0 0 0 | Some e \<Rightarrow> e) [0..<NUM_BUF]"

section \<open>The checks\<close>

datatype Reg_Error_Code = REG_OK | REG_ERR

definition perm_check :: "u32 \<Rightarrow> t_default_state \<Rightarrow> Reg_Error_Code" where
  "perm_check flag e = (if Permission e AND flag \<noteq> 0 then REG_OK else REG_ERR)"

definition limit_check :: "t_default_state \<Rightarrow> u16 \<Rightarrow> Reg_Error_Code" where
  "limit_check e Value =
     (let sel = Permission e AND LIM_MASK in
      if sel = LIM_MASK then
        (if Value AND (NOT (Max_Level_Mask e)) \<noteq> 0 then REG_ERR else REG_OK)
      else if sel = LIM_SIGN then
        (if sint Value > sint (Max_Level_Mask e) \<or> sint Value < sint (Min_Level e)
         then REG_ERR else REG_OK)
      else if sel = LIM_UNSIGN then
        (if Value > Max_Level_Mask e \<or> Value < Min_Level e then REG_ERR else REG_OK)
      else REG_OK)"

definition EESave_Check :: "nat \<Rightarrow> Reg_Error_Code option" where
  "EESave_Check Number_Reg = map_option (perm_check EESAVE_R) (read_at default_state Number_Reg)"

definition Write_Check :: "nat \<Rightarrow> Reg_Error_Code option" where
  "Write_Check Number_Reg = map_option (perm_check WRITE_R) (read_at default_state Number_Reg)"

definition Limit_Check :: "nat \<Rightarrow> u16 \<Rightarrow> Reg_Error_Code option" where
  "Limit_Check Number_Reg Value =
     map_option (\<lambda>e. limit_check e Value) (read_at default_state Number_Reg)"

section \<open>The table as the proofs see it\<close>

lemma length_default_state [simp]: "length default_state = 120"
  by (simp add: default_state_def)

lemma default_state_nth:
  "i < 120 \<Longrightarrow> default_state ! i =
     (case map_of MAIN_BUF_TABLE i of None \<Rightarrow> X_BUF 0 0 0 0 | Some e \<Rightarrow> e)"
  by (simp add: default_state_def)

text \<open>A fact about every entry is a fact about the listed ones and the empty one.\<close>

lemma default_state_all:
  assumes "P (X_BUF 0 0 0 0)" and "list_all (\<lambda>(_, e). P e) MAIN_BUF_TABLE" and "i < 120"
  shows "P (default_state ! i)"
proof (cases "map_of MAIN_BUF_TABLE i")
  case None
  with assms show ?thesis by (simp add: default_state_nth)
next
  case (Some e)
  then have "(i, e) \<in> set MAIN_BUF_TABLE" by (rule map_of_SomeD)
  with assms Some show ?thesis by (auto simp: default_state_nth list_all_iff)
qed

lemma EESave_Check_eq [simp]:
  "i < 120 \<Longrightarrow> EESave_Check i = Some (perm_check EESAVE_R (default_state ! i))"
  by (simp add: EESave_Check_def)

lemma Write_Check_eq [simp]:
  "i < 120 \<Longrightarrow> Write_Check i = Some (perm_check WRITE_R (default_state ! i))"
  by (simp add: Write_Check_def)

lemma Limit_Check_eq [simp]:
  "i < 120 \<Longrightarrow> Limit_Check i v = Some (limit_check (default_state ! i) v)"
  by (simp add: Limit_Check_def)

text \<open>The numbers below \<open>NUM_BUF\<close> are exactly the ones the checks can be asked about.\<close>

lemma checks_defined_iff:
  "EESave_Check i \<noteq> None \<longleftrightarrow> i < 120" "Limit_Check i v \<noteq> None \<longleftrightarrow> i < 120"
  by (simp_all add: EESave_Check_def Limit_Check_def read_at_def)

text \<open>Every register with limits has a default within them.\<close>

lemma defaults_within_limits:
  "i < 120 \<Longrightarrow> limit_check (default_state ! i) (Default_Value (default_state ! i)) = REG_OK"
  by (rule default_state_all)
    (simp_all add: X_BUF_def limit_check_def MAIN_BUF_TABLE_def Let_def)

text \<open>Every register that is saved can also be written by the host.\<close>

lemma saved_writable:
  "i < 120 \<Longrightarrow> perm_check EESAVE_R (default_state ! i) = REG_OK \<Longrightarrow>
     perm_check WRITE_R (default_state ! i) = REG_OK"
  by (rule default_state_all [of "\<lambda>e. perm_check EESAVE_R e = REG_OK \<longrightarrow> perm_check WRITE_R e = REG_OK",
        THEN mp]) (simp_all add: X_BUF_def perm_check_def MAIN_BUF_TABLE_def)

end
