(* ===== verification/Settings.thy ===== *)
theory Settings
  imports RegTable
begin

text \<open>
  The persistent settings: the register array \<open>MBbuf_main\<close> and the flash copies of its saved
  registers.  The operations are the ones of \<open>src/modbus_hard.c\<close> that walk the register table
  (\<open>mh_Factory\<close>, \<open>mh_Buf_Init\<close>) and the two accessors of the shared library that wrap the
  non-volatile storage.  The storage itself (Zephyr's NVS) is a parameter: \<open>rd\<close> is
  \<open>nvs_read\<close>, giving the return code and the data, \<open>wr\<close> is \<open>nvs_write\<close>.
\<close>

section \<open>The storage and its accessors\<close>

type_synonym 'm nvs_read = "'m \<Rightarrow> u16 \<Rightarrow> int \<times> u16"
type_synonym 'm nvs_write = "'m \<Rightarrow> u16 \<Rightarrow> u16 \<Rightarrow> 'm \<times> int"

text \<open>
  The documented behaviour of NVS that the firmware relies on: a write that does not report an
  error can be read back, and no write touches another id.
\<close>

definition nvs_laws :: "'m nvs_read \<Rightarrow> 'm nvs_write \<Rightarrow> bool" where
  "nvs_laws rd wr \<longleftrightarrow>
     (\<forall>m k v. 0 \<le> snd (wr m k v) \<longrightarrow> 0 < fst (rd (fst (wr m k v)) k) \<and> snd (rd (fst (wr m k v)) k) = v) \<and>
     (\<forall>m k k' v. k' \<noteq> k \<longrightarrow> rd (fst (wr m k v)) k' = rd m k')"

text \<open>
  A write may also be refused: \<open>nvs_write\<close> then returns a negative error, which no caller in the
  sources looks at.  An observation of the storage remembers it: \<open>refused m k\<close> is the value of the
  last write under the id \<open>k\<close> if that write was refused, and \<^const>\<open>None\<close> if it was accepted.
\<close>

type_synonym 'm refused_writes = "'m \<Rightarrow> u16 \<Rightarrow> u16 option"

definition refusals :: "'m refused_writes \<Rightarrow> 'm nvs_write \<Rightarrow> bool" where
  "refusals refused wr \<longleftrightarrow> (\<forall>m k v. refused (fst (wr m k v)) =
     (refused m)(k := if 0 \<le> snd (wr m k v) then None else Some v))"

datatype mem_result = RET_MEM_OK | RET_MEM_NOT_FOUND

definition user_mem_read_reg16 :: "'m nvs_read \<Rightarrow> 'm \<Rightarrow> u16 \<Rightarrow> u16 \<Rightarrow> mem_result \<times> u16" where
  "user_mem_read_reg16 rd m addr_id reg16 =
     (let (rc, buf) = rd m addr_id
      in if rc > 0 then (RET_MEM_OK, buf) else (RET_MEM_NOT_FOUND, reg16))"

definition user_mem_update_reg16 :: "'m nvs_write \<Rightarrow> 'm \<Rightarrow> u16 \<Rightarrow> u16 \<Rightarrow> 'm \<times> int" where
  "user_mem_update_reg16 wr m addr_id data = wr m addr_id data"

section \<open>Factory reset and loading at boot\<close>

record 'm settings =
  MBbuf_main :: "u16 list"
  flash :: 'm

definition reset_reg :: "'m nvs_write \<Rightarrow> nat \<Rightarrow> 'm settings \<Rightarrow> 'm settings option" where
  "reset_reg wr i s = do {
     e \<leftarrow> read_at default_state i;
     buf \<leftarrow> write_at (MBbuf_main s) i (Default_Value e);
     v \<leftarrow> read_at buf i;
     Some \<lparr>MBbuf_main = buf,
           flash = fst (user_mem_update_reg16 wr (flash s) (word_of_nat i) v)\<rparr>
   }"

definition mh_Factory_body :: "'m nvs_write \<Rightarrow> nat \<Rightarrow> 'm settings \<Rightarrow> 'm settings option" where
  "mh_Factory_body wr i s = do {
     ee \<leftarrow> EESave_Check i;
     (if ee = REG_OK then reset_reg wr i s else Some s)
   }"

definition mh_Factory :: "'m nvs_write \<Rightarrow> 'm settings \<Rightarrow> 'm settings option" where
  "mh_Factory wr s = for_loop 0 NUM_BUF (mh_Factory_body wr) s"

definition mh_Buf_Init_body ::
    "'m nvs_read \<Rightarrow> 'm nvs_write \<Rightarrow> nat \<Rightarrow> 'm settings \<Rightarrow> 'm settings option" where
  "mh_Buf_Init_body rd wr i s = do {
     ee \<leftarrow> EESave_Check i;
     if ee = REG_OK then do {
       old \<leftarrow> read_at (MBbuf_main s) i;
       let (err, v) = user_mem_read_reg16 rd (flash s) (word_of_nat i) old;
       buf \<leftarrow> write_at (MBbuf_main s) i v;
       let s = s\<lparr>MBbuf_main := buf\<rparr>;
       s \<leftarrow> (if err = RET_MEM_NOT_FOUND then reset_reg wr i s else Some s);
       v \<leftarrow> read_at (MBbuf_main s) i;
       lim \<leftarrow> Limit_Check i v;
       (if lim = REG_ERR then reset_reg wr i s else Some s)
     } else Some s
   }"

definition mh_Buf_Init ::
    "'m nvs_read \<Rightarrow> 'm nvs_write \<Rightarrow> 'm settings \<Rightarrow> 'm settings option" where
  "mh_Buf_Init rd wr s = for_loop 0 NUM_BUF (mh_Buf_Init_body rd wr) s"

section \<open>What loading promises, register by register\<close>

text \<open>
  The contract of loading, without loops or arrays: a saved register takes its stored value
  if there is one within the limits, and its default otherwise; any other register is kept.
\<close>

definition load_value ::
    "(nat \<Rightarrow> bool) \<Rightarrow> (nat \<Rightarrow> u16 \<Rightarrow> bool) \<Rightarrow> (nat \<Rightarrow> u16) \<Rightarrow> nat \<Rightarrow> u16 option \<Rightarrow> u16 \<Rightarrow> u16" where
  "load_value saved ok dflt i stored ram =
     (if saved i then
        (case stored of None \<Rightarrow> dflt i | Some v \<Rightarrow> if ok i v then v else dflt i)
      else ram)"

locale reg_policy =
  fixes saved :: "nat \<Rightarrow> bool"
    and ok :: "nat \<Rightarrow> u16 \<Rightarrow> bool"
    and dflt :: "nat \<Rightarrow> u16"
    and n :: nat
  assumes dflt_ok: "i < n \<Longrightarrow> ok i (dflt i)"
begin

lemma load_value_ok: "i < n \<Longrightarrow> saved i \<Longrightarrow> ok i (load_value saved ok dflt i stored ram)"
  by (simp add: load_value_def dflt_ok split: option.split)

text \<open>Loading what was loaded, and stored again, changes nothing.\<close>

lemma load_value_idem:
  "i < n \<Longrightarrow> load_value saved ok dflt i (Some (load_value saved ok dflt i stored ram)) ram' =
     (if saved i then load_value saved ok dflt i stored ram else ram')"
  using load_value_ok [of i] by (simp add: load_value_def dflt_ok split: option.split)

lemma load_stored: "saved i \<Longrightarrow> ok i v \<Longrightarrow> load_value saved ok dflt i (Some v) ram = v"
  by (simp add: load_value_def)

end

definition reg_saved :: "nat \<Rightarrow> bool" where
  "reg_saved i \<longleftrightarrow> EESave_Check i = Some REG_OK"

definition reg_ok :: "nat \<Rightarrow> u16 \<Rightarrow> bool" where
  "reg_ok i v \<longleftrightarrow> Limit_Check i v \<noteq> Some REG_ERR"

definition reg_default :: "nat \<Rightarrow> u16" where
  "reg_default i = Default_Value (default_state ! i)"

definition stored :: "'m nvs_read \<Rightarrow> 'm \<Rightarrow> nat \<Rightarrow> u16 option" where
  "stored rd m i = (let (rc, v) = rd m (word_of_nat i) in if rc > 0 then Some v else None)"

text \<open>The storage holds the value, or refused it when it was last given one for this register.\<close>

definition kept :: "'m nvs_read \<Rightarrow> 'm refused_writes \<Rightarrow> 'm \<Rightarrow> nat \<Rightarrow> u16 \<Rightarrow> bool" where
  "kept rd refused m i v \<longleftrightarrow> stored rd m i = Some v \<or> refused m (word_of_nat i) = Some v"

interpretation policy: reg_policy reg_saved reg_ok reg_default NUM_BUF
  by unfold_locales (simp add: reg_ok_def reg_default_def defaults_within_limits)

lemma reg_saved_lt: "reg_saved i \<Longrightarrow> i < 120"
  using checks_defined_iff(1) [of i] by (simp add: reg_saved_def)

lemma limit_err_iff: "i < 120 \<Longrightarrow> limit_check (default_state ! i) v = REG_ERR \<longleftrightarrow> \<not> reg_ok i v"
  by (simp add: reg_ok_def)

lemma perm_saved_iff: "i < 120 \<Longrightarrow> perm_check EESAVE_R (default_state ! i) = REG_OK \<longleftrightarrow> reg_saved i"
  by (simp add: reg_saved_def)

lemma mem_result_not_found: "r \<noteq> RET_MEM_OK \<longleftrightarrow> r = RET_MEM_NOT_FOUND"
  by (cases r) auto

section \<open>One pass of each loop\<close>

lemma stored_fst_snd:
  "stored rd m i = (if 0 < fst (rd m (word_of_nat i)) then Some (snd (rd m (word_of_nat i))) else None)"
  by (simp add: stored_def case_prod_unfold)

lemma stored_update_same:
  "nvs_laws rd wr \<Longrightarrow> 0 \<le> snd (wr m (word_of_nat i) v) \<Longrightarrow>
     stored rd (fst (wr m (word_of_nat i) v)) i = Some v"
  by (simp add: nvs_laws_def stored_fst_snd)

lemma stored_update_other:
  "nvs_laws rd wr \<Longrightarrow> i < 120 \<Longrightarrow> j < 120 \<Longrightarrow> j \<noteq> i \<Longrightarrow>
     stored rd (fst (wr m (word_of_nat i) v)) j = stored rd m j"
  using of_nat_u16_eq_iff [of j i] by (simp add: nvs_laws_def stored_fst_snd)

lemmas stored_update = stored_update_same stored_update_other

lemma refused_update:
  "refusals refused wr \<Longrightarrow> refused (fst (wr m (word_of_nat i) v)) (word_of_nat i) =
     (if 0 \<le> snd (wr m (word_of_nat i) v) then None else Some v)"
  "refusals refused wr \<Longrightarrow> i < 120 \<Longrightarrow> j < 120 \<Longrightarrow> j \<noteq> i \<Longrightarrow>
     refused (fst (wr m (word_of_nat i) v)) (word_of_nat j) = refused m (word_of_nat j)"
  using of_nat_u16_eq_iff [of j i] by (simp_all add: refusals_def)

lemma kept_update_same:
  "nvs_laws rd wr \<Longrightarrow> refusals refused wr \<Longrightarrow> kept rd refused (fst (wr m (word_of_nat i) v)) i v"
  by (cases "0 \<le> snd (wr m (word_of_nat i) v)") (simp_all add: kept_def stored_update_same refused_update)

lemma kept_update_other:
  "nvs_laws rd wr \<Longrightarrow> refusals refused wr \<Longrightarrow> i < 120 \<Longrightarrow> j < 120 \<Longrightarrow> j \<noteq> i \<Longrightarrow>
     kept rd refused (fst (wr m (word_of_nat i) v)) j w \<longleftrightarrow> kept rd refused m j w"
  by (simp add: kept_def stored_update_other refused_update)

lemmas kept_update = kept_update_same kept_update_other

text \<open>A storage that accepts every write never refused one, and then keeping is holding.\<close>

lemma refusals_never: "(\<And>m k v. 0 \<le> snd (wr m k v)) \<Longrightarrow> refusals (\<lambda>_ _. None) wr"
  by (simp add: refusals_def fun_eq_iff)

lemma kept_never [simp]: "kept rd (\<lambda>_ _. None) m i v \<longleftrightarrow> stored rd m i = Some v"
  by (simp add: kept_def)

lemma reset_reg_eq:
  "i < 120 \<Longrightarrow> i < length (MBbuf_main s) \<Longrightarrow> reset_reg wr i s =
     Some \<lparr>MBbuf_main = (MBbuf_main s)[i := reg_default i],
           flash = fst (wr (flash s) (word_of_nat i) (reg_default i))\<rparr>"
  by (simp add: reset_reg_def reg_default_def user_mem_update_reg16_def)

lemma mh_Factory_body_eq:
  "i < 120 \<Longrightarrow> mh_Factory_body wr i s = (if reg_saved i then reset_reg wr i s else Some s)"
  by (simp add: mh_Factory_body_def perm_saved_iff)

lemma mh_Factory_body_kept:
  assumes "i < 120" "length (MBbuf_main s) = 120" "nvs_laws rd wr" "refusals refused wr"
  shows "succeeds (mh_Factory_body wr i s) (\<lambda>s'. length (MBbuf_main s') = 120 \<and>
     (\<forall>j<120. \<forall>v. if j = i \<and> reg_saved j then kept rd refused (flash s') j (reg_default j)
        else kept rd refused (flash s') j v \<longleftrightarrow> kept rd refused (flash s) j v))"
  using assms by (cases "reg_saved i") (auto simp: mh_Factory_body_eq reset_reg_eq kept_update)

lemma mh_Buf_Init_body_ram:
  assumes "i < 120" "i < length (MBbuf_main s)"
  shows "succeeds (mh_Buf_Init_body rd wr i s) (\<lambda>s'.
     MBbuf_main s' = (MBbuf_main s)[i := load_value reg_saved reg_ok reg_default i
                         (stored rd (flash s) i) (MBbuf_main s ! i)])"
  using assms
  by (simp add: mh_Buf_Init_body_def perm_saved_iff limit_err_iff reset_reg_eq stored_def
      user_mem_read_reg16_def load_value_def policy.dflt_ok split: prod.split)

lemma mh_Buf_Init_body_flash:
  assumes "i < 120" "i < length (MBbuf_main s)" "nvs_laws rd wr"
  shows "succeeds (mh_Buf_Init_body rd wr i s) (\<lambda>s'.
     (\<forall>j<120. j \<noteq> i \<longrightarrow> stored rd (flash s') j = stored rd (flash s) j) \<and>
     (\<forall>refused. refusals refused wr \<longrightarrow>
        (\<forall>j<120. j \<noteq> i \<longrightarrow> (\<forall>v. kept rd refused (flash s') j v \<longleftrightarrow> kept rd refused (flash s) j v)) \<and>
        (reg_saved i \<longrightarrow> kept rd refused (flash s') i (MBbuf_main s' ! i))))"
  using assms
  by (auto simp: mh_Buf_Init_body_def perm_saved_iff limit_err_iff reset_reg_eq stored_update kept_update
      user_mem_read_reg16_def policy.dflt_ok Let_def split: prod.split)
    (auto simp: kept_def stored_def)

section \<open>The loops meet the contract\<close>

lemma mh_Factory_result:
  assumes "length (MBbuf_main s) = 120"
  shows "succeeds (mh_Factory wr s) (\<lambda>s'. length (MBbuf_main s') = 120 \<and>
     (\<forall>j<120. MBbuf_main s' ! j = (if reg_saved j then reg_default j else MBbuf_main s ! j)))"
proof -
  let ?P = "\<lambda>i s'. length (MBbuf_main s') = 120 \<and> (\<forall>j<120. MBbuf_main s' ! j =
     (if j < i \<and> reg_saved j then reg_default j else MBbuf_main s ! j))"
  have "succeeds (for_loop 0 120 (mh_Factory_body wr) s) (?P (0 + 120))"
    by (rule for_loop_rule) (use assms in \<open>auto simp: mh_Factory_body_eq reset_reg_eq nth_list_update less_Suc_eq\<close>)
  then show ?thesis
    by (auto simp: mh_Factory_def elim!: succeeds_mono)
qed

lemma mh_Factory_kept:
  fixes s :: "'m settings"
  assumes "length (MBbuf_main s) = 120" "nvs_laws rd wr" "refusals refused wr"
  shows "succeeds (mh_Factory wr s) (\<lambda>s'. \<forall>j<120. reg_saved j \<longrightarrow> kept rd refused (flash s') j (reg_default j))"
proof -
  let ?P = "\<lambda>i s'. length (MBbuf_main s') = 120 \<and>
     (\<forall>j<120. j < i \<longrightarrow> reg_saved j \<longrightarrow> kept rd refused (flash s') j (reg_default j))"
  have "succeeds (for_loop 0 120 (mh_Factory_body wr) s) (?P (0 + 120))"
  proof (rule for_loop_rule)
    fix i and s' :: "'m settings"
    assume "i < 0 + 120" and "?P i s'"
    then show "succeeds (mh_Factory_body wr i s') (?P (Suc i))"
      using assms(2,3)
      by (intro succeeds_mono [OF mh_Factory_body_kept]) (auto simp: less_Suc_eq split: if_splits)
  qed (use assms in auto)
  then show ?thesis
    by (auto simp: mh_Factory_def elim!: succeeds_mono)
qed

lemma mh_Buf_Init_limits:
  fixes s :: "'m settings"
  assumes "length (MBbuf_main s) = 120"
  shows "succeeds (mh_Buf_Init rd wr s) (\<lambda>s'. length (MBbuf_main s') = 120 \<and>
     (\<forall>j<120. if reg_saved j then reg_ok j (MBbuf_main s' ! j) else MBbuf_main s' ! j = MBbuf_main s ! j))"
proof -
  let ?P = "\<lambda>i s'. length (MBbuf_main s') = 120 \<and> (\<forall>j<120. 
     (if reg_saved j then j < i \<longrightarrow> reg_ok j (MBbuf_main s' ! j) else MBbuf_main s' ! j = MBbuf_main s ! j))"
  have "succeeds (for_loop 0 120 (mh_Buf_Init_body rd wr) s) (?P (0 + 120))"
  proof (rule for_loop_rule)
    fix i and s' :: "'m settings"
    assume i: "i < 0 + 120" and P: "?P i s'"
    then show "succeeds (mh_Buf_Init_body rd wr i s') (?P (Suc i))"
      using policy.load_value_ok [of i]
      by (intro succeeds_mono [OF mh_Buf_Init_body_ram])
        (auto simp: nth_list_update less_Suc_eq load_value_def)
  qed (use assms in auto)
  then show ?thesis
    by (auto simp: mh_Buf_Init_def elim!: succeeds_mono)
qed

lemma mh_Buf_Init_refines:
  fixes s :: "'m settings"
  assumes "length (MBbuf_main s) = 120" "nvs_laws rd wr"
  shows "succeeds (mh_Buf_Init rd wr s) (\<lambda>s'. length (MBbuf_main s') = 120 \<and>
     (\<forall>j<120. MBbuf_main s' ! j = load_value reg_saved reg_ok reg_default j
         (stored rd (flash s) j) (MBbuf_main s ! j)) \<and>
     (\<forall>refused. refusals refused wr \<longrightarrow>
       (\<forall>j<120. reg_saved j \<longrightarrow> kept rd refused (flash s') j (MBbuf_main s' ! j))))"
proof -
  let ?v = "\<lambda>j. load_value reg_saved reg_ok reg_default j (stored rd (flash s) j) (MBbuf_main s ! j)"
  let ?P = "\<lambda>i s'. length (MBbuf_main s') = 120 \<and>
     (\<forall>j<120. MBbuf_main s' ! j = (if j < i then ?v j else MBbuf_main s ! j)) \<and>
     (\<forall>j<120. i \<le> j \<longrightarrow> stored rd (flash s') j = stored rd (flash s) j) \<and>
     (\<forall>refused. refusals refused wr \<longrightarrow>
       (\<forall>j<120. j < i \<longrightarrow> reg_saved j \<longrightarrow> kept rd refused (flash s') j (MBbuf_main s' ! j)))"
  have "succeeds (for_loop 0 120 (mh_Buf_Init_body rd wr) s) (?P (0 + 120))"
  proof (rule for_loop_rule)
    fix i and s' :: "'m settings"
    assume i: "i < 0 + 120" and P: "?P i s'"
    then show "succeeds (mh_Buf_Init_body rd wr i s') (?P (Suc i))"
      using assms(2)
      by (intro succeeds_mono [OF succeeds_conj [OF mh_Buf_Init_body_ram mh_Buf_Init_body_flash]])
        (auto simp: nth_list_update less_Suc_eq)
  qed (use assms in auto)
  then show ?thesis
    by (auto simp: mh_Buf_Init_def elim!: succeeds_mono)
qed

text \<open>A boot loads what flash kept and did not refuse.\<close>

lemma load_kept:
  fixes s :: "'m settings"
  assumes "length (MBbuf_main s) = 120" "nvs_laws rd wr"
  shows "succeeds (mh_Buf_Init rd wr s) (\<lambda>s'. \<forall>j<120. \<forall>refused v. reg_saved j \<longrightarrow> reg_ok j v \<longrightarrow>
     kept rd refused (flash s) j v \<longrightarrow> refused (flash s) (word_of_nat j) \<noteq> Some v \<longrightarrow> MBbuf_main s' ! j = v)"
  by (rule succeeds_mono [OF mh_Buf_Init_refines [OF assms]]) (auto simp: kept_def policy.load_stored)

section \<open>Properties\<close>

text \<open>
  Storages with the documented behaviour, for the witnesses: one that accepts every write, and,
  beside any other one, the record of what it refused.
\<close>

definition map_read :: "(u16 \<Rightarrow> u16 option) nvs_read" where
  "map_read m k = (case m k of None \<Rightarrow> (- 2, 0) | Some v \<Rightarrow> (2, v))"

definition map_write :: "(u16 \<Rightarrow> u16 option) nvs_write" where
  "map_write m k v = (m(k \<mapsto> v), 2)"

definition tracked_read :: "'m nvs_read \<Rightarrow> ('m \<times> (u16 \<Rightarrow> u16 option)) nvs_read" where
  "tracked_read rd m k = rd (fst m) k"

definition tracked_write :: "'m nvs_write \<Rightarrow> ('m \<times> (u16 \<Rightarrow> u16 option)) nvs_write" where
  "tracked_write wr m k v = ((fst (wr (fst m) k v),
     (snd m)(k := if 0 \<le> snd (wr (fst m) k v) then None else Some v)), snd (wr (fst m) k v))"

lemma map_storage_laws: "nvs_laws map_read map_write" "refusals (\<lambda>_ _. None) map_write"
  by (simp add: nvs_laws_def map_read_def map_write_def) (rule refusals_never, simp add: map_write_def)

text \<open>Any storage has the observation, once the record is kept beside it.\<close>

lemma tracked_laws:
  "nvs_laws rd wr \<Longrightarrow> nvs_laws (tracked_read rd) (tracked_write wr)" "refusals snd (tracked_write wr)"
  by (simp_all add: nvs_laws_def refusals_def tracked_read_def tracked_write_def)

text \<open>A storage that is full for one id: it refuses every value for register 42.\<close>

definition full_write :: "(u16 \<Rightarrow> u16 option) nvs_write" where
  "full_write m k v = (if k = 42 then (m, - 28) else (m(k \<mapsto> v), 2))"

lemma full_storage_laws: "nvs_laws (tracked_read map_read) (tracked_write full_write)"
  by (rule tracked_laws) (auto simp: nvs_laws_def map_read_def full_write_def)

lemma saved_channel: "reg_saved 41" "reg_default 41 = 16" "\<not> reg_ok 41 99" "reg_ok 41 12"
  by (simp_all add: reg_saved_def reg_default_def reg_ok_def perm_check_def limit_check_def
      default_state_nth MAIN_BUF_TABLE_def X_BUF_def Let_def)

lemma stored_map: "stored map_read m j = m (word_of_nat j)"
  by (simp add: stored_def map_read_def split: option.split)

text \<open>C22: loading at boot meets its contract register by register: a saved register takes the
  stored value when there is one within its limits and its default otherwise, every other
  register keeps its value, and afterwards the flash holds the value of every saved register, or has
  refused the write of it.\<close>

theorem boot_loads_settings:
  fixes s :: "'m settings"
  assumes "length (MBbuf_main s) = 120" "nvs_laws rd wr"
  shows "succeeds (mh_Buf_Init rd wr s) (\<lambda>s'. length (MBbuf_main s') = 120 \<and>
     (\<forall>j<120. MBbuf_main s' ! j = load_value reg_saved reg_ok reg_default j
         (stored rd (flash s) j) (MBbuf_main s ! j)) \<and>
     (\<forall>refused. refusals refused wr \<longrightarrow>
       (\<forall>j<120. reg_saved j \<longrightarrow> kept rd refused (flash s') j (MBbuf_main s' ! j))))"
  using assms by (rule mh_Buf_Init_refines)

theorem boot_loads_settings_witness:
  "\<exists>s'. mh_Buf_Init map_read map_write \<lparr>MBbuf_main = replicate 120 7, flash = [41 \<mapsto> 12]\<rparr> = Some s' \<and>
     MBbuf_main s' ! 41 = 12 \<and> flash s' 41 = Some 12"
proof -
  let ?s = "\<lparr>MBbuf_main = replicate 120 7, flash = [41 \<mapsto> 12]\<rparr> :: (u16 \<Rightarrow> u16 option) settings"
  obtain s' where s': "mh_Buf_Init map_read map_write ?s = Some s'"
    "\<forall>j<120. MBbuf_main s' ! j = load_value reg_saved reg_ok reg_default j (stored map_read (flash ?s) j) (MBbuf_main ?s ! j)"
    "\<forall>j<120. reg_saved j \<longrightarrow> stored map_read (flash s') j = Some (MBbuf_main s' ! j)"
    using boot_loads_settings [of ?s map_read map_write] map_storage_laws by (fastforce elim!: succeedsE)
  from s'(2,3) [rule_format, of 41] saved_channel s'(1) show ?thesis
    by (simp add: policy.load_stored stored_map)
qed

text \<open>Whatever the flash returns, after loading every saved register is within its limits and
  every other register is unchanged.\<close>

theorem boot_within_limits:
  fixes s :: "'m settings"
  assumes "length (MBbuf_main s) = 120"
  shows "succeeds (mh_Buf_Init rd wr s) (\<lambda>s'. length (MBbuf_main s') = 120 \<and>
     (\<forall>j<120. if reg_saved j then reg_ok j (MBbuf_main s' ! j) else MBbuf_main s' ! j = MBbuf_main s ! j))"
  using assms by (rule mh_Buf_Init_limits)

theorem boot_within_limits_witness:
  "\<exists>s'. mh_Buf_Init map_read map_write \<lparr>MBbuf_main = replicate 120 7, flash = [41 \<mapsto> 99]\<rparr> = Some s' \<and>
     MBbuf_main s' ! 41 \<noteq> 99"
proof -
  let ?s = "\<lparr>MBbuf_main = replicate 120 7, flash = [41 \<mapsto> 99]\<rparr> :: (u16 \<Rightarrow> u16 option) settings"
  obtain s' where s': "mh_Buf_Init map_read map_write ?s = Some s'"
    "\<forall>j<120. if reg_saved j then reg_ok j (MBbuf_main s' ! j) else MBbuf_main s' ! j = MBbuf_main ?s ! j"
    using boot_within_limits [of ?s map_read map_write] by (auto elim!: succeedsE)
  from s'(2) [rule_format, of 41] saved_channel s'(1) show ?thesis by auto
qed

text \<open>A factory reset lasts: after the next boot every saved register has its default, unless the
  flash refused the write of it.\<close>

theorem factory_reset_lasts:
  fixes s :: "'m settings"
  assumes "length (MBbuf_main s) = 120" "length regs = 120" "nvs_laws rd wr" "refusals refused wr"
  shows "succeeds (do { s' \<leftarrow> mh_Factory wr s; s'' \<leftarrow> mh_Buf_Init rd wr (s'\<lparr>MBbuf_main := regs\<rparr>); Some (s', s'') })
     (\<lambda>(s', s''). \<forall>j<120. reg_saved j \<longrightarrow> refused (flash s') (word_of_nat j) \<noteq> Some (reg_default j) \<longrightarrow>
        MBbuf_main s'' ! j = reg_default j)"
  unfolding succeeds_bind
proof (rule succeeds_mono [OF mh_Factory_kept [OF assms(1,3,4)]])
  fix s' :: "'m settings"
  assume "\<forall>j<120. reg_saved j \<longrightarrow> kept rd refused (flash s') j (reg_default j)"
  then show "succeeds (mh_Buf_Init rd wr (s'\<lparr>MBbuf_main := regs\<rparr>)) (\<lambda>s''. succeeds (Some (s', s''))
      (\<lambda>(s', s''). \<forall>j<120. reg_saved j \<longrightarrow> refused (flash s') (word_of_nat j) \<noteq> Some (reg_default j) \<longrightarrow>
        MBbuf_main s'' ! j = reg_default j))"
    using load_kept [of "s'\<lparr>MBbuf_main := regs\<rparr>" rd wr] assms(2,3)
    by (auto simp: policy.dflt_ok elim!: succeeds_mono)
qed

theorem factory_reset_lasts_witness:
  "\<exists>s' s''. (do { s' \<leftarrow> mh_Factory map_write \<lparr>MBbuf_main = replicate 120 7, flash = [41 \<mapsto> 12]\<rparr>;
      s'' \<leftarrow> mh_Buf_Init map_read map_write (s'\<lparr>MBbuf_main := replicate 120 0\<rparr>); Some (s', s'') }) = Some (s', s'') \<and>
      MBbuf_main s'' ! 41 = 16"
  using factory_reset_lasts [of "\<lparr>MBbuf_main = replicate 120 7, flash = [41 \<mapsto> 12]\<rparr>" "replicate 120 0" map_read map_write]
    map_storage_laws saved_channel by (fastforce elim!: succeedsE)

end
