(* ===== verification/Modbus.thy ===== *)
theory Modbus
  imports Crc16 Settings
begin

text \<open>
  The Modbus request parser of the shared library: frame validation, the three function codes,
  the exception reply and the CRC of the reply.  Its source stands in the listing \<open>zephyr.lst\<close>,
  interleaved with the code compiled from it.  The register array is the one that both
  \<open>p_read\<close> and \<open>p_write\<close> point to after \<open>mh_usb_init\<close>; it is passed and returned explicitly.
  Every access to the frame buffer, the registers and the register table is bounds-checked:
  a computation that leaves an array is \<^const>\<open>None\<close>.
\<close>

section \<open>Types\<close>

datatype eMBExcep = MBE_NONE | MBE_ILLEGAL_FUNCTION | MBE_ILLEGAL_DATA_ADDRESS | MBE_ILLEGAL_DATA_VALUE

fun excep_code :: "eMBExcep \<Rightarrow> u8" where
  "excep_code MBE_NONE = 0"
| "excep_code MBE_ILLEGAL_FUNCTION = 1"
| "excep_code MBE_ILLEGAL_DATA_ADDRESS = 2"
| "excep_code MBE_ILLEGAL_DATA_VALUE = 3"

datatype eMBEep = EEP_FREE | EEP_SAVE
datatype eMBState = STATE_IDLE | STATE_PARS | STATE_SEND
datatype eMBEvent = EV_NOEVENT | EV_HAPPEND

abbreviation (input) MB_ADDRESS_BROADCAST :: u8 where "MB_ADDRESS_BROADCAST \<equiv> 0"
abbreviation (input) MB_ANY_ADDRESS :: u8 where "MB_ANY_ADDRESS \<equiv> 0"
abbreviation (input) MB_FRAME_MIN :: nat where "MB_FRAME_MIN \<equiv> 4"
abbreviation (input) MB_FRAME_MAX :: nat where "MB_FRAME_MAX \<equiv> 256"
abbreviation (input) MB_FUNC_ERROR :: u8 where "MB_FUNC_ERROR \<equiv> 0x80"

record mb_struct =
  reg_read_last :: u16
  reg_write_last :: u16
  eep_start_save :: u16
  eep_indx :: u8
  eep_state :: eMBEep
  slave_address :: u8
  mb_index :: u8
  mb_state :: eMBState
  er_frame_bad :: eMBEvent
  p_mb_buff :: "u8 list"
  response_size :: u8

section \<open>Checks on a request\<close>

definition All_Idle_Check :: "mb_struct \<Rightarrow> Reg_Error_Code" where
  "All_Idle_Check st_mb =
     (if eep_state st_mb = EEP_FREE \<and> mb_state st_mb = STATE_IDLE then REG_OK else REG_ERR)"

definition InvalidFrame :: "mb_struct \<Rightarrow> bool option" where
  "InvalidFrame mbb =
     (if er_frame_bad mbb = EV_HAPPEND then Some True
      else if unat (mb_index mbb) < MB_FRAME_MIN then Some True
      else do {
        b0 \<leftarrow> read_at (p_mb_buff mbb) 0;
        (if slave_address mbb \<noteq> b0 \<and> b0 \<noteq> MB_ADDRESS_BROADCAST \<and> slave_address mbb \<noteq> 0
         then Some True
         else if eep_state mbb \<noteq> EEP_FREE then Some True
         else if length (p_mb_buff mbb) < unat (mb_index mbb) then None
         else Some (CRC16 (take (unat (mb_index mbb)) (p_mb_buff mbb)) \<noteq> 0))
      })"

fun eeprom_scan :: "nat \<Rightarrow> nat \<Rightarrow> eMBEep option" where
  "eeprom_scan Reg 0 = Some EEP_FREE"
| "eeprom_scan Reg (Suc Count) = do {
     ee \<leftarrow> EESave_Check Reg;
     (if ee = REG_OK then Some EEP_SAVE else eeprom_scan (Suc Reg) Count)
   }"

definition Eeprom_Check_in_Request :: "u16 \<Rightarrow> u16 \<Rightarrow> eMBEep option" where
  "Eeprom_Check_in_Request Start_Reg Count =
     (if unat Count + unat Start_Reg \<ge> NUM_BUF then Some EEP_FREE
      else eeprom_scan (unat Start_Reg) (unat Count))"

definition Limit_Check_in_Request :: "nat \<Rightarrow> u16 \<Rightarrow> eMBExcep option" where
  "Limit_Check_in_Request Number_Reg Value = do {
     w \<leftarrow> Write_Check Number_Reg;
     (if w = REG_ERR then Some MBE_ILLEGAL_DATA_ADDRESS
      else do {
        l \<leftarrow> Limit_Check Number_Reg Value;
        Some (if l = REG_ERR then MBE_ILLEGAL_DATA_VALUE else MBE_NONE)
      })
   }"

section \<open>Function 0x03: read holding registers\<close>

definition read_reg_body :: "u16 list \<Rightarrow> nat \<Rightarrow> mb_struct \<Rightarrow> mb_struct option" where
  "read_reg_body regs RegIndx mbb = do {
     v \<leftarrow> read_at regs RegIndx;
     buf \<leftarrow> write_at (p_mb_buff mbb) (unat (mb_index mbb)) (hi8 v);
     let mbb = mbb\<lparr>p_mb_buff := buf, mb_index := mb_index mbb + 1\<rparr>;
     v \<leftarrow> read_at regs RegIndx;
     buf \<leftarrow> write_at (p_mb_buff mbb) (unat (mb_index mbb)) (lo8 v);
     Some (mbb\<lparr>p_mb_buff := buf, mb_index := mb_index mbb + 1\<rparr>)
   }"

definition FrameParse_03 :: "u16 list \<Rightarrow> mb_struct \<Rightarrow> (eMBExcep \<times> mb_struct) option" where
  "FrameParse_03 regs mbb =
     (if mb_index mbb = 8 then do {
        b2 \<leftarrow> read_at (p_mb_buff mbb) 2;
        b3 \<leftarrow> read_at (p_mb_buff mbb) 3;
        b4 \<leftarrow> read_at (p_mb_buff mbb) 4;
        b5 \<leftarrow> read_at (p_mb_buff mbb) 5;
        let RegIndx = mk16 b2 b3;
        let RegNmb = mk16 b4 b5;
        let RegLast = RegIndx + RegNmb;
        (if RegIndx > reg_read_last mbb \<or> uint RegLast - 1 > uint (reg_read_last mbb) \<or> RegNmb > 120
         then Some (MBE_ILLEGAL_DATA_ADDRESS, mbb)
         else do {
           buf \<leftarrow> write_at (p_mb_buff mbb) 2 (ucast (push_bit 1 RegNmb));
           mbb \<leftarrow> for_loop (unat RegIndx) (unat RegLast - unat RegIndx) (read_reg_body regs)
                    (mbb\<lparr>p_mb_buff := buf, mb_index := 3\<rparr>);
           Some (MBE_NONE, mbb)
         })
      } else Some (MBE_ILLEGAL_DATA_VALUE, mbb))"

section \<open>Function 0x10: write multiple registers\<close>

fun check_values :: "u8 list \<Rightarrow> nat \<Rightarrow> nat \<Rightarrow> nat \<Rightarrow> eMBExcep option" where
  "check_values buf RegIndxInter 0 j = Some MBE_NONE"
| "check_values buf RegIndxInter (Suc n) j = do {
     hi \<leftarrow> read_at buf j;
     lo \<leftarrow> read_at buf (j + 1);
     Exception \<leftarrow> Limit_Check_in_Request RegIndxInter (mk16 hi lo);
     (if Exception \<noteq> MBE_NONE then Some Exception
      else check_values buf (Suc RegIndxInter) n (j + 2))
   }"

definition write_reg_body :: "u8 list \<Rightarrow> nat \<Rightarrow> u16 list \<times> nat \<Rightarrow> (u16 list \<times> nat) option" where
  "write_reg_body buf RegIndx s = do {
     let (regs, i) = s;
     hi \<leftarrow> read_at buf i;
     regs \<leftarrow> write_at regs RegIndx (push_bit 8 (ucast hi));
     lo \<leftarrow> read_at buf (i + 1);
     old \<leftarrow> read_at regs RegIndx;
     regs \<leftarrow> write_at regs RegIndx (old OR ucast lo);
     Some (regs, i + 2)
   }"

definition mark_save :: "u16 \<Rightarrow> u8 \<Rightarrow> eMBEep \<Rightarrow> mb_struct \<Rightarrow> mb_struct" where
  "mark_save RegIndx n eep mbb =
     (let mbb = mbb\<lparr>eep_state := eep\<rparr> in
      if eep = EEP_SAVE then mbb\<lparr>eep_start_save := RegIndx, eep_indx := n\<rparr> else mbb)"

definition FrameParse_10 ::
    "u16 list \<Rightarrow> mb_struct \<Rightarrow> (eMBExcep \<times> u16 list \<times> mb_struct) option" where
  "FrameParse_10 regs mbb =
     (if mb_index mbb > 10 then do {
        b2 \<leftarrow> read_at (p_mb_buff mbb) 2;
        b3 \<leftarrow> read_at (p_mb_buff mbb) 3;
        b4 \<leftarrow> read_at (p_mb_buff mbb) 4;
        b5 \<leftarrow> read_at (p_mb_buff mbb) 5;
        let RegIndx = mk16 b2 b3;
        let RegNmb = mk16 b4 b5;
        let RegLast = RegIndx + RegNmb;
        BytesN \<leftarrow> read_at (p_mb_buff mbb) 6;
        (if RegIndx > reg_write_last mbb \<or> uint RegLast - 1 > uint (reg_write_last mbb) \<or> RegNmb > 120
         then Some (MBE_ILLEGAL_DATA_ADDRESS, regs, mbb)
         else if unat BytesN \<noteq> 2 * unat RegNmb \<or> unat (mb_index mbb) \<noteq> 9 + unat BytesN
         then Some (MBE_ILLEGAL_DATA_VALUE, regs, mbb)
         else do {
           eep \<leftarrow> Eeprom_Check_in_Request RegIndx RegNmb;
           let mbb = mark_save RegIndx (ucast RegNmb) eep mbb;
           let n = unat RegLast - unat RegIndx;
           Exception \<leftarrow> check_values (p_mb_buff mbb) (unat RegIndx) n 7;
           (if Exception \<noteq> MBE_NONE then Some (Exception, regs, mbb)
            else do {
              (regs, _) \<leftarrow> for_loop (unat RegIndx) n (write_reg_body (p_mb_buff mbb)) (regs, 7);
              Some (MBE_NONE, regs, mbb\<lparr>mb_index := 6\<rparr>)
            })
         })
      } else Some (MBE_ILLEGAL_DATA_VALUE, regs, mbb))"

section \<open>Function 0x06: write one register\<close>

definition FrameParse_06 ::
    "u16 list \<Rightarrow> mb_struct \<Rightarrow> (eMBExcep \<times> u16 list \<times> mb_struct) option" where
  "FrameParse_06 regs mbb =
     (if mb_index mbb = 8 then do {
        b2 \<leftarrow> read_at (p_mb_buff mbb) 2;
        b3 \<leftarrow> read_at (p_mb_buff mbb) 3;
        let RegIndx = mk16 b2 b3;
        (if RegIndx > reg_write_last mbb then Some (MBE_ILLEGAL_DATA_ADDRESS, regs, mbb)
         else do {
           eep \<leftarrow> Eeprom_Check_in_Request RegIndx 1;
           let mbb = mark_save RegIndx 1 eep mbb;
           hi \<leftarrow> read_at (p_mb_buff mbb) 4;
           lo \<leftarrow> read_at (p_mb_buff mbb) 5;
           Exception \<leftarrow> Limit_Check_in_Request (unat RegIndx) (mk16 hi lo);
           (if Exception \<noteq> MBE_NONE then Some (Exception, regs, mbb)
            else do {
              (regs, _) \<leftarrow> write_reg_body (p_mb_buff mbb) (unat RegIndx) (regs, 4);
              Some (MBE_NONE, regs, mbb\<lparr>mb_index := 6\<rparr>)
            })
         })
      } else Some (MBE_ILLEGAL_DATA_VALUE, regs, mbb))"

section \<open>The reply\<close>

definition put_exception :: "eMBExcep \<Rightarrow> mb_struct \<Rightarrow> mb_struct option" where
  "put_exception Exception mbb = do {
     b1 \<leftarrow> read_at (p_mb_buff mbb) 1;
     buf \<leftarrow> write_at (p_mb_buff mbb) 1 (b1 OR MB_FUNC_ERROR);
     buf \<leftarrow> write_at buf 2 (excep_code Exception);
     Some (mbb\<lparr>p_mb_buff := buf, mb_index := 3, eep_state := EEP_FREE\<rparr>)
   }"

definition put_crc :: "mb_struct \<Rightarrow> mb_struct option" where
  "put_crc mbb =
     (if length (p_mb_buff mbb) < unat (mb_index mbb) then None
      else do {
        let i = CRC16 (take (unat (mb_index mbb)) (p_mb_buff mbb));
        buf \<leftarrow> write_at (p_mb_buff mbb) (unat (mb_index mbb)) (lo8 i);
        let mbb = mbb\<lparr>p_mb_buff := buf, mb_index := mb_index mbb + 1\<rparr>;
        buf \<leftarrow> write_at (p_mb_buff mbb) (unat (mb_index mbb)) (hi8 i);
        let mbb = mbb\<lparr>p_mb_buff := buf\<rparr>;
        Some (mbb\<lparr>response_size := mb_index mbb + 1\<rparr>)
      })"

definition FrameParse :: "u16 list \<Rightarrow> mb_struct \<Rightarrow> (bool \<times> u16 list \<times> mb_struct) option" where
  "FrameParse regs mbb = do {
     b0 \<leftarrow> read_at (p_mb_buff mbb) 0;
     let NeedResponse = (b0 \<noteq> MB_ADDRESS_BROADCAST);
     b1 \<leftarrow> read_at (p_mb_buff mbb) 1;
     (Exception, regs, mbb) \<leftarrow>
       (if b1 = 3 then do { (e, mbb) \<leftarrow> FrameParse_03 regs mbb; Some (e, regs, mbb) }
        else if b1 = 0x10 then FrameParse_10 regs mbb
        else if b1 = 6 then FrameParse_06 regs mbb
        else Some (MBE_ILLEGAL_FUNCTION, regs, mbb));
     mbb \<leftarrow> (if Exception \<noteq> MBE_NONE then put_exception Exception mbb else Some mbb);
     mbb \<leftarrow> put_crc mbb;
     Some (NeedResponse, regs, mbb)
   }"

end
