(* ===== verification/ModbusRequests.thy ===== *)
theory ModbusRequests
  imports Modbus
begin

text \<open>
  What the request parser does with every frame: the outcome of each function code, the reply,
  and what no frame can break.  The lemmas about the three function codes are stated against
  the range check as arithmetic on naturals; the properties at the end are about
  \<open>FrameParse\<close> and \<open>InvalidFrame\<close> as a whole.
\<close>

section \<open>Bytes on the wire\<close>

definition be_bytes :: "u16 list \<Rightarrow> u8 list" where
  "be_bytes vs = concat (map (\<lambda>v. [hi8 v, lo8 v]) vs)"

lemma be_bytes_simps [simp]:
  "be_bytes [] = []" "be_bytes (v # vs) = hi8 v # lo8 v # be_bytes vs"
  by (simp_all add: be_bytes_def)

lemma be_bytes_append [simp]: "be_bytes (vs @ ws) = be_bytes vs @ be_bytes ws"
  by (simp add: be_bytes_def)

lemma length_be_bytes [simp]: "length (be_bytes vs) = 2 * length vs"
  by (induction vs) simp_all

lemma be_bytes_nth:
  "k < length vs \<Longrightarrow> be_bytes vs ! (2 * k) = hi8 (vs ! k)"
  "k < length vs \<Longrightarrow> be_bytes vs ! Suc (2 * k) = lo8 (vs ! k)"
  by (induction vs arbitrary: k) (auto simp: nth_Cons split: nat.split) 

definition frame_word :: "u8 list \<Rightarrow> nat \<Rightarrow> u16" where
  "frame_word buf j = mk16 (buf ! j) (buf ! Suc j)"

definition wf_mb :: "mb_struct \<Rightarrow> bool" where
  "wf_mb mbb \<longleftrightarrow> length (p_mb_buff mbb) = 256 \<and> reg_read_last mbb = 119 \<and> reg_write_last mbb = 119"

text \<open>What parsing and answering leave alone: everything but the buffer and its fill level.\<close>

definition rest_of :: "mb_struct \<Rightarrow> mb_struct" where
  "rest_of mbb = mbb\<lparr>p_mb_buff := [], mb_index := 0\<rparr>"

lemma rest_of_update [simp]:
  "rest_of (mbb\<lparr>p_mb_buff := b\<rparr>) = rest_of mbb" "rest_of (mbb\<lparr>mb_index := k\<rparr>) = rest_of mbb"
  by (simp_all add: rest_of_def)

lemma rest_of_eqD:
  assumes "rest_of mbb' = rest_of mbb"
  shows "reg_read_last mbb' = reg_read_last mbb" "reg_write_last mbb' = reg_write_last mbb"
    "eep_state mbb' = eep_state mbb" "mb_state mbb' = mb_state mbb"
    "slave_address mbb' = slave_address mbb" "er_frame_bad mbb' = er_frame_bad mbb"
    "eep_start_save mbb' = eep_start_save mbb" "eep_indx mbb' = eep_indx mbb"
    "response_size mbb' = response_size mbb"
  using assms by (cases mbb; cases mbb'; simp add: rest_of_def)+

definition reg_writable :: "nat \<Rightarrow> bool" where
  "reg_writable i \<longleftrightarrow> Write_Check i = Some REG_OK"

lemma reg_writable_lt: "reg_writable i \<Longrightarrow> i < 120"
  by (auto simp: reg_writable_def Write_Check_def read_at_def split: if_splits)

section \<open>The address check\<close>

lemma unat_add_small: "unat (a :: u16) + unat b < 65536 \<Longrightarrow> unat (a + b) = unat a + unat b"
  by (simp add: unat_word_ariths)

text \<open>The three conditions, with the sum wrapping at 16 bits, are the exact range check.\<close>

lemma range_check_iff:
  fixes idx n :: u16
  shows "(idx > 119 \<or> uint (idx + n) - 1 > uint (119 :: u16) \<or> n > 120) \<longleftrightarrow>
     \<not> (unat idx \<le> 119 \<and> unat n \<le> 120 \<and> unat idx + unat n \<le> 120)"
proof -
  have last: "uint (idx + n) - 1 > uint (119 :: u16) \<longleftrightarrow> unat (idx + n) > 120"
  proof -
    have eq: "uint (idx + n) = int (unat (idx + n))" and "uint (119 :: u16) = 119"
      by simp_all
    then show ?thesis by (simp only: eq) arith
  qed
  have "idx > 119 \<longleftrightarrow> \<not> unat idx \<le> 119" "n > 120 \<longleftrightarrow> \<not> unat n \<le> 120"
    by (auto simp: word_less_nat_alt)
  with last show ?thesis
    by (cases "unat idx \<le> 119 \<and> unat n \<le> 120") (auto simp: unat_add_small)
qed

lemma range_diff:
  fixes idx n :: u16
  assumes "unat idx + unat n \<le> 120"
  shows "unat (idx + n) - unat idx = unat n"
  using assms by (simp add: unat_add_small)

section \<open>Reading\<close>

lemma take_list_update2:
  "Suc k < length xs \<Longrightarrow> take (Suc (Suc k)) (xs[k := a, Suc k := b]) = take k xs @ [a, b]"
  by (simp add: take_Suc_conv_app_nth)

lemma read_reg_body_eq:
  assumes "i < length regs" "Suc (unat (mb_index mbb)) < length (p_mb_buff mbb)" "unat (mb_index mbb) < 250"
  shows "read_reg_body regs i mbb = Some (mbb\<lparr>p_mb_buff := (p_mb_buff mbb)
     [unat (mb_index mbb) := hi8 (regs ! i), Suc (unat (mb_index mbb)) := lo8 (regs ! i)],
     mb_index := mb_index mbb + 2\<rparr>)"
proof -
  have "unat (mb_index mbb + 1) = Suc (unat (mb_index mbb))"
    using assms(3) by (simp add: unat_word_ariths)
  with assms show ?thesis
    by (simp add: read_reg_body_def)
qed

lemma read_loop:
  assumes "length (p_mb_buff mbb) = 256" "mb_index mbb = 3" "i + n \<le> length regs" "n \<le> 120"
  shows "succeeds (for_loop i n (read_reg_body regs) mbb) (\<lambda>mbb'.
     unat (mb_index mbb') = 3 + 2 * n \<and> length (p_mb_buff mbb') = 256 \<and>
     take (3 + 2 * n) (p_mb_buff mbb') = take 3 (p_mb_buff mbb) @ be_bytes (take n (drop i regs)) \<and>
     rest_of mbb' = rest_of mbb)"
proof -
  let ?P = "\<lambda>j mbb'. unat (mb_index mbb') = 3 + 2 * (j - i) \<and> length (p_mb_buff mbb') = 256 \<and>
     take (3 + 2 * (j - i)) (p_mb_buff mbb') = take 3 (p_mb_buff mbb) @ be_bytes (take (j - i) (drop i regs)) \<and>
     rest_of mbb' = rest_of mbb"
  have "succeeds (for_loop i n (read_reg_body regs) mbb) (?P (i + n))"
  proof (rule for_loop_rule)
    show "?P i mbb" using assms by simp
    fix j and mbb' :: mb_struct
    assume j: "i \<le> j" "j < i + n" and P: "?P j mbb'"
    let ?k = "unat (mb_index mbb')"
    have k: "?k = 3 + 2 * (j - i)" "?k < 250" "Suc ?k < 256" and jl: "j < length regs"
      using P j assms(3,4) by auto
    have "unat (mb_index mbb' + 2) = Suc (Suc ?k)"
      using k by (simp add: unat_word_ariths)
    moreover have "take (Suc j - i) (drop i regs) = take (j - i) (drop i regs) @ [regs ! j]"
      using j jl by (simp add: Suc_diff_le take_Suc_conv_app_nth)
    ultimately show "succeeds (read_reg_body regs j mbb') (?P (Suc j))"
      using P j k jl take_list_update2 [of ?k "p_mb_buff mbb'" "hi8 (regs ! j)" "lo8 (regs ! j)"]
      by (simp add: read_reg_body_eq Suc_diff_le)
  qed
  then show ?thesis by simp
qed

section \<open>Checking and writing\<close>

text \<open>The values a write request carries for registers \<open>i, i + 1, \<dots>\<close>, from position \<open>j\<close> on.\<close>

definition request_ok :: "u8 list \<Rightarrow> nat \<Rightarrow> nat \<Rightarrow> nat \<Rightarrow> bool" where
  "request_ok buf i n j \<longleftrightarrow>
     (\<forall>k<n. reg_writable (i + k) \<and> reg_ok (i + k) (frame_word buf (j + 2 * k)))"

lemma Limit_Check_in_Request_eq:
  "i < 120 \<Longrightarrow> Limit_Check_in_Request i v = Some
     (if \<not> reg_writable i then MBE_ILLEGAL_DATA_ADDRESS
      else if \<not> reg_ok i v then MBE_ILLEGAL_DATA_VALUE else MBE_NONE)"
  using Reg_Error_Code.exhaust
  by (auto simp: Limit_Check_in_Request_def reg_writable_def reg_ok_def)

lemma all_less_Suc_shift: "(\<forall>k<Suc n. P k) \<longleftrightarrow> P 0 \<and> (\<forall>k<n. P (Suc k))"
  by (auto simp: less_Suc_eq_0_disj)

lemma check_values_result:
  "i + n \<le> 120 \<Longrightarrow> j + 2 * n \<le> length buf \<Longrightarrow>
   succeeds (check_values buf i n j) (\<lambda>e. e = MBE_NONE \<longleftrightarrow> request_ok buf i n j)"
proof (induction n arbitrary: i j)
  case 0
  then show ?case by (simp add: request_ok_def)
next
  case (Suc n)
  have "request_ok buf i (Suc n) j \<longleftrightarrow>
      reg_writable i \<and> reg_ok i (frame_word buf j) \<and> request_ok buf (Suc i) n (j + 2)"
    by (simp add: request_ok_def all_less_Suc_shift)
  with Suc.IH [of "Suc i" "j + 2"] Suc.prems show ?case
    by (auto simp: Limit_Check_in_Request_eq frame_word_def elim!: succeeds_mono)
qed

lemma mk16_or: "push_bit 8 (ucast h) OR ucast l = mk16 h l"
  by (simp add: mk16_def)

lemma write_reg_body_eq:
  "i < length regs \<Longrightarrow> Suc j < length buf \<Longrightarrow>
     write_reg_body buf i (regs, j) = Some (regs[i := frame_word buf j], j + 2)"
  by (simp add: write_reg_body_def frame_word_def mk16_or)

lemma write_loop:
  assumes "i + n \<le> length regs" "j + 2 * n \<le> length buf"
  shows "for_loop i n (write_reg_body buf) (regs, j) =
     Some (take i regs @ map (\<lambda>k. frame_word buf (j + 2 * k)) [0..<n] @ drop (i + n) regs, j + 2 * n)"
  using assms
proof (induction n arbitrary: i j regs)
  case 0
  then show ?case by simp
next
  case (Suc n)
  let ?r = "regs[i := frame_word buf j]"
  have "map (\<lambda>k. frame_word buf (j + 2 * k)) [0..<Suc n] =
      frame_word buf j # map (\<lambda>k. frame_word buf (j + 2 + 2 * k)) [0..<n]"
    by (simp add: upt_conv_Cons map_Suc_upt [symmetric] del: upt_Suc)
  moreover have "take (Suc i) ?r = take i regs @ [frame_word buf j]"
    using Suc.prems by (simp add: take_Suc_conv_app_nth)
  ultimately show ?case
    using Suc.IH [of "Suc i" ?r "j + 2"] Suc.prems by (simp add: write_reg_body_eq)
qed

lemma eeprom_scan_eq:
  "i + n \<le> 120 \<Longrightarrow> eeprom_scan i n =
     Some (if \<exists>k<n. reg_saved (i + k) then EEP_SAVE else EEP_FREE)"
proof (induction n arbitrary: i)
  case 0
  then show ?case by simp
next
  case (Suc n)
  have "(\<exists>k<Suc n. reg_saved (i + k)) \<longleftrightarrow> reg_saved i \<or> (\<exists>k<n. reg_saved (Suc i + k))"
    by (auto simp: less_Suc_eq_0_disj)
  with Suc show ?case by (simp add: perm_saved_iff)
qed

lemma FrameParse_03_result:
  assumes "wf_mb mbb" "length regs = 120" "mb_index mbb = 8"
    and idx: "idx = frame_word (p_mb_buff mbb) 2" and n: "n = frame_word (p_mb_buff mbb) 4"
  shows "if unat idx \<le> 119 \<and> unat n \<le> 120 \<and> unat idx + unat n \<le> 120 then
      succeeds (FrameParse_03 regs mbb) (\<lambda>(e, mbb'). e = MBE_NONE \<and>
         unat (mb_index mbb') = 3 + 2 * unat n \<and> length (p_mb_buff mbb') = 256 \<and>
         take (3 + 2 * unat n) (p_mb_buff mbb') =
           [p_mb_buff mbb ! 0, p_mb_buff mbb ! 1, ucast (push_bit 1 n)] @
           be_bytes (take (unat n) (drop (unat idx) regs)) \<and>
         rest_of mbb' = rest_of mbb)
    else FrameParse_03 regs mbb = Some (MBE_ILLEGAL_DATA_ADDRESS, mbb)"
proof -
  let ?buf = "p_mb_buff mbb"
  have len: "length ?buf = 256" and last: "reg_read_last mbb = 119"
    using assms(1) by (auto simp: wf_mb_def)
  have iw: "idx = mk16 (?buf ! 2) (?buf ! 3)" and nw: "n = mk16 (?buf ! 4) (?buf ! 5)"
    by (simp_all add: idx n frame_word_def numeral_eq_Suc)
  show ?thesis
  proof (cases "unat idx \<le> 119 \<and> unat n \<le> 120 \<and> unat idx + unat n \<le> 120")
    case True
    let ?start = "mbb\<lparr>p_mb_buff := ?buf[2 := ucast (push_bit 1 n)], mb_index := 3\<rparr>"
    have eq: "FrameParse_03 regs mbb = do {
        mbb \<leftarrow> for_loop (unat idx) (unat n) (read_reg_body regs) ?start; Some (MBE_NONE, mbb) }"
      using True range_check_iff [of idx n] range_diff [of idx n] len last assms(3)
      by (simp add: FrameParse_03_def iw nw Let_def)
    have "take 3 (?buf[2 := x]) = [?buf ! 0, ?buf ! 1, x]" for x
      using len by (simp add: numeral_eq_Suc take_Suc_conv_app_nth)
    with True read_loop [of ?start "unat idx" "unat n" regs] len assms(2)
    show ?thesis
      unfolding eq succeeds_bind by (auto elim!: succeeds_mono)
  next
    case False
    with range_check_iff [of idx n] len last assms(3) show ?thesis
      by (simp add: FrameParse_03_def iw nw Let_def)
  qed
qed

text \<open>
  The outcome of a write request, both function codes alike: on success the named registers hold
  the values of the frame, each of them writable and within its limits, and every other register
  is unchanged; on an exception no register is changed.
\<close>

definition write_outcome ::
    "u16 \<Rightarrow> nat \<Rightarrow> nat \<Rightarrow> bool \<Rightarrow> u16 list \<Rightarrow> mb_struct \<Rightarrow> eMBExcep \<times> u16 list \<times> mb_struct \<Rightarrow> bool" where
  "write_outcome idx n j good regs mbb = (\<lambda>(e, regs', mbb').
     (e = MBE_NONE \<longleftrightarrow> good) \<and>
     (if good then
        request_ok (p_mb_buff mbb) (unat idx) n j \<and> unat idx + n \<le> 120 \<and>
        regs' = take (unat idx) regs @ map (\<lambda>k. frame_word (p_mb_buff mbb) (j + 2 * k)) [0..<n] @
                drop (unat idx + n) regs \<and>
        mb_index mbb' = 6 \<and>
        eep_state mbb' = (if \<exists>k<n. reg_saved (unat idx + k) \<and> unat idx + n < 120
                          then EEP_SAVE else EEP_FREE) \<and>
        (eep_state mbb' = EEP_SAVE \<longrightarrow> eep_start_save mbb' = idx \<and> eep_indx mbb' = of_nat n)
      else regs' = regs) \<and>
     p_mb_buff mbb' = p_mb_buff mbb \<and> reg_read_last mbb' = reg_read_last mbb \<and>
     reg_write_last mbb' = reg_write_last mbb \<and> mb_state mbb' = mb_state mbb \<and>
     slave_address mbb' = slave_address mbb \<and> er_frame_bad mbb' = er_frame_bad mbb)"

lemma mark_save_fields [simp]:
  "eep_state (mark_save idx n eep mbb) = eep"
  "p_mb_buff (mark_save idx n eep mbb) = p_mb_buff mbb"
  "reg_read_last (mark_save idx n eep mbb) = reg_read_last mbb"
  "reg_write_last (mark_save idx n eep mbb) = reg_write_last mbb"
  "mb_state (mark_save idx n eep mbb) = mb_state mbb"
  "slave_address (mark_save idx n eep mbb) = slave_address mbb"
  "er_frame_bad (mark_save idx n eep mbb) = er_frame_bad mbb"
  "eep = EEP_SAVE \<Longrightarrow> eep_start_save (mark_save idx n eep mbb) = idx"
  "eep = EEP_SAVE \<Longrightarrow> eep_indx (mark_save idx n eep mbb) = n"
  by (simp_all add: mark_save_def Let_def)

lemma Eeprom_Check_in_Request_eq:
  "unat idx + unat n \<le> 120 \<Longrightarrow> Eeprom_Check_in_Request idx n =
     Some (if \<exists>k<unat n. reg_saved (unat idx + k) \<and> unat idx + unat n < 120
           then EEP_SAVE else EEP_FREE)"
  by (auto simp: Eeprom_Check_in_Request_def eeprom_scan_eq add.commute)

lemma FrameParse_10_result:
  fixes idx n :: u16
  assumes "wf_mb mbb" "length regs = 120" "mb_index mbb > 10"
    and idx: "idx = frame_word (p_mb_buff mbb) 2" and n: "n = frame_word (p_mb_buff mbb) 4"
  defines "in_range \<equiv> unat idx \<le> 119 \<and> unat n \<le> 120 \<and> unat idx + unat n \<le> 120"
    and "sized \<equiv> unat (p_mb_buff mbb ! 6) = 2 * unat n \<and>
                 unat (mb_index mbb) = 9 + unat (p_mb_buff mbb ! 6)"
    and "good \<equiv> request_ok (p_mb_buff mbb) (unat idx) (unat n) 7"
  shows "succeeds (FrameParse_10 regs mbb)
     (write_outcome idx (unat n) 7 (in_range \<and> sized \<and> good) regs mbb)"
proof -
  let ?buf = "p_mb_buff mbb"
  have len: "length ?buf = 256" and last: "reg_write_last mbb = 119"
    using assms(1) by (auto simp: wf_mb_def)
  have iw: "idx = mk16 (?buf ! 2) (?buf ! 3)" and nw: "n = mk16 (?buf ! 4) (?buf ! 5)"
    by (simp_all add: idx n frame_word_def numeral_eq_Suc)
  show ?thesis
  proof (cases "in_range \<and> sized")
    case False
    with range_check_iff [of idx n] len last assms(3) show ?thesis
      by (auto simp: FrameParse_10_def iw nw Let_def in_range_def sized_def write_outcome_def)
  next
    case True
    then have r: "unat idx + unat n \<le> 120" by (simp add: in_range_def)
    with True range_check_iff [of idx n] range_diff [OF r] len last assms(3)
    have eq: "FrameParse_10 regs mbb = do {
        let mbb = mark_save idx (ucast n) (if \<exists>k<unat n. reg_saved (unat idx + k) \<and> unat idx + unat n < 120
           then EEP_SAVE else EEP_FREE) mbb;
        Exception \<leftarrow> check_values (p_mb_buff mbb) (unat idx) (unat n) 7;
           (if Exception \<noteq> MBE_NONE then Some (Exception, regs, mbb)
            else do {
              (regs, _) \<leftarrow> for_loop (unat idx) (unat n) (write_reg_body (p_mb_buff mbb)) (regs, 7);
              Some (MBE_NONE, regs, mbb\<lparr>mb_index := 6\<rparr>)
            }) }"
      by (simp add: FrameParse_10_def Let_def in_range_def sized_def Eeprom_Check_in_Request_eq
          flip: iw nw cong: if_cong)
    obtain e where e: "check_values ?buf (unat idx) (unat n) 7 = Some e" "e = MBE_NONE \<longleftrightarrow> good"
      using check_values_result [of "unat idx" "unat n" 7 ?buf] r len
      unfolding good_def by (auto elim: succeedsE)
    have regs: "for_loop (unat idx) (unat n) (write_reg_body ?buf) (regs, 7) =
        Some (take (unat idx) regs @ map (\<lambda>k. frame_word ?buf (7 + 2 * k)) [0..<unat n] @
          drop (unat idx + unat n) regs, 7 + 2 * unat n)"
      using r len assms(2) by (intro write_loop) auto
    show ?thesis
    proof (cases good)
      case False
      with e True show ?thesis
        by (simp add: eq Let_def write_outcome_def)
    next
      case True': True
      with e True r show ?thesis
        by (simp add: eq Let_def regs write_outcome_def)
          (simp add: good_def ucast_eq)
    qed
  qed
qed

lemma FrameParse_06_result:
  fixes idx :: u16
  assumes "wf_mb mbb" "length regs = 120" "mb_index mbb = 8"
    and idx: "idx = frame_word (p_mb_buff mbb) 2"
  defines "good \<equiv> unat idx \<le> 119 \<and> request_ok (p_mb_buff mbb) (unat idx) 1 4"
  shows "succeeds (FrameParse_06 regs mbb) (write_outcome idx 1 4 good regs mbb)"
proof -
  let ?buf = "p_mb_buff mbb"
  have len: "length ?buf = 256" and last: "reg_write_last mbb = 119"
    using assms(1) by (auto simp: wf_mb_def)
  have iw: "idx = mk16 (?buf ! 2) (?buf ! 3)" and vw: "frame_word ?buf 4 = mk16 (?buf ! 4) (?buf ! 5)"
    by (simp_all add: idx frame_word_def numeral_eq_Suc)
  have bound: "idx > 119 \<longleftrightarrow> \<not> unat idx \<le> 119"
    by (auto simp: word_less_nat_alt)
  show ?thesis
  proof (cases "unat idx \<le> 119")
    case False
    with bound len last assms(3) show ?thesis
      by (simp add: FrameParse_06_def Let_def write_outcome_def good_def flip: iw)
  next
    case True
    have regs: "take (unat idx) regs @ frame_word ?buf 4 # drop (Suc (unat idx)) regs =
        regs[unat idx := frame_word ?buf 4]"
      using True assms(2) by (simp add: upd_conv_take_nth_drop)
    from True bound len last assms(2,3) regs show ?thesis
      by (simp add: FrameParse_06_def Let_def write_outcome_def good_def request_ok_def
          Eeprom_Check_in_Request_eq Limit_Check_in_Request_eq write_reg_body_eq cong: if_cong
          flip: iw vw)
  qed
qed

section \<open>The reply\<close>

definition reply :: "mb_struct \<Rightarrow> u8 list" where
  "reply mbb = take (unat (response_size mbb)) (p_mb_buff mbb)"

definition with_crc :: "u8 list \<Rightarrow> u8 list" where
  "with_crc m = m @ [lo8 (CRC16 m), hi8 (CRC16 m)]"

lemma CRC16_with_crc: "CRC16 (with_crc m) = 0"
  unfolding with_crc_def CRC16_fold by (rule modbus.residue_plain)

text \<open>The message that \<open>put_crc\<close> closes: the first \<open>mb_index\<close> bytes of the buffer.\<close>

definition message :: "mb_struct \<Rightarrow> u8 list" where
  "message mbb = take (unat (mb_index mbb)) (p_mb_buff mbb)"

lemma put_crc_eq:
  assumes "length (p_mb_buff mbb) = 256" "unat (mb_index mbb) \<le> 250"
  shows "\<exists>buf. put_crc mbb = Some (mbb\<lparr>p_mb_buff := buf, mb_index := mb_index mbb + 1,
       response_size := mb_index mbb + 2\<rparr>) \<and> length buf = 256 \<and>
     take (unat (mb_index mbb) + 2) buf = with_crc (message mbb)"
proof -
  let ?k = "unat (mb_index mbb)"
  have "unat (mb_index mbb + 1) = Suc ?k"
    using assms(2) by (simp_all add: unat_word_ariths)
  with assms take_list_update2 [of ?k "p_mb_buff mbb"] show ?thesis
    by (intro exI [of _ "(p_mb_buff mbb)[?k := lo8 (CRC16 (message mbb)), Suc ?k := hi8 (CRC16 (message mbb))]"])
      (simp add: put_crc_def Let_def with_crc_def message_def add.commute)
qed

lemma put_crc_result:
  assumes "length (p_mb_buff mbb) = 256" "unat (mb_index mbb) \<le> 250"
  shows "succeeds (put_crc mbb) (\<lambda>mbb'. reply mbb' = with_crc (message mbb) \<and>
     unat (response_size mbb') = unat (mb_index mbb) + 2 \<and> length (p_mb_buff mbb') = 256 \<and>
     reg_read_last mbb' = reg_read_last mbb \<and> reg_write_last mbb' = reg_write_last mbb \<and>
     mb_state mbb' = mb_state mbb \<and> slave_address mbb' = slave_address mbb \<and>
     er_frame_bad mbb' = er_frame_bad mbb \<and> eep_state mbb' = eep_state mbb \<and>
     eep_start_save mbb' = eep_start_save mbb \<and> eep_indx mbb' = eep_indx mbb)"
proof -
  have "unat (mb_index mbb + 2) = unat (mb_index mbb) + 2"
    using assms(2) by (simp add: unat_word_ariths)
  with put_crc_eq [OF assms] show ?thesis
    by (auto simp: reply_def)
qed

lemma put_exception_eq:
  "length (p_mb_buff mbb) = 256 \<Longrightarrow> put_exception e mbb = Some (mbb\<lparr>p_mb_buff :=
     (p_mb_buff mbb)[1 := p_mb_buff mbb ! 1 OR 0x80, 2 := excep_code e], mb_index := 3, eep_state := EEP_FREE\<rparr>)"
  by (simp add: put_exception_def)

lemma take3_exception:
  "length buf = 256 \<Longrightarrow> take 3 (buf[1 := x, 2 := y]) = [buf ! 0, x, y]"
  by (simp add: numeral_eq_Suc take_Suc_conv_app_nth)

section \<open>A whole request\<close>

text \<open>
  The save request that a successful write leaves behind: it lies inside the register table and
  names every saved register that changed.
\<close>

definition save_covers :: "u16 list \<Rightarrow> u16 list \<Rightarrow> mb_struct \<Rightarrow> bool" where
  "save_covers regs regs' mbb' \<longleftrightarrow>
     (eep_state mbb' = EEP_SAVE \<longrightarrow> unat (eep_start_save mbb') + unat (eep_indx mbb') \<le> 120) \<and>
     (\<forall>i<120. reg_saved i \<and> regs' ! i \<noteq> regs ! i \<longrightarrow> eep_state mbb' = EEP_SAVE \<and>
        unat (eep_start_save mbb') \<le> i \<and> i < unat (eep_start_save mbb') + unat (eep_indx mbb'))"

lemma save_covers_refl: "eep_state mbb' = EEP_FREE \<Longrightarrow> save_covers regs regs mbb'"
  by (simp add: save_covers_def)

lemma last_not_writable: "\<not> reg_writable 119"
  by (simp add: reg_writable_def perm_check_def default_state_nth MAIN_BUF_TABLE_def X_BUF_def)

text \<open>What the three function codes share: the part of the outcome no request can break.\<close>

definition safe_outcome :: "u16 list \<Rightarrow> mb_struct \<Rightarrow> eMBExcep \<times> u16 list \<times> mb_struct \<Rightarrow> bool" where
  "safe_outcome regs mbb = (\<lambda>(e, regs', mbb').
     wf_mb mbb' \<and> length regs' = 120 \<and> (e = MBE_NONE \<longrightarrow> unat (mb_index mbb') \<le> 243) \<and>
     p_mb_buff mbb' ! 0 = p_mb_buff mbb ! 0 \<and>
     mb_state mbb' = mb_state mbb \<and> slave_address mbb' = slave_address mbb \<and>
     er_frame_bad mbb' = er_frame_bad mbb \<and>
     (e \<noteq> MBE_NONE \<longrightarrow> regs' = regs) \<and>
     (e = MBE_NONE \<longrightarrow> eep_state mbb = EEP_FREE \<longrightarrow> save_covers regs regs' mbb') \<and>
     (\<forall>i<120. regs' ! i \<noteq> regs ! i \<longrightarrow> reg_writable i \<and> reg_ok i (regs' ! i)))"

lemma nth_written:
  assumes "a + n \<le> length xs" "i < length xs"
  shows "(take a xs @ map f [0..<n] @ drop (a + n) xs) ! i =
     (if a \<le> i \<and> i < a + n then f (i - a) else xs ! i)"
  using assms by (auto simp: nth_append min_def)

lemma write_outcome_safe:
  assumes "wf_mb mbb" "length regs = 120"
  shows "write_outcome idx n j good regs mbb r \<Longrightarrow> safe_outcome regs mbb r"
proof -
  assume w: "write_outcome idx n j good regs mbb r"
  obtain e regs' mbb' where r: "r = (e, regs', mbb')" by (cases r)
  have "reg_writable i \<and> reg_ok i (regs' ! i)" if "i < 120" "regs' ! i \<noteq> regs ! i" for i
  proof -
    from that w have good: good and ok: "request_ok (p_mb_buff mbb) (unat idx) n j"
      and le: "unat idx + n \<le> 120"
      and regs': "regs' = take (unat idx) regs @ map (\<lambda>k. frame_word (p_mb_buff mbb) (j + 2 * k)) [0..<n] @
          drop (unat idx + n) regs"
      by (auto simp: r write_outcome_def split: if_splits)
    from nth_written [of "unat idx" n regs i] le that assms(2)
    have at: "unat idx \<le> i" "i < unat idx + n"
      and "regs' ! i = frame_word (p_mb_buff mbb) (j + 2 * (i - unat idx))"
      unfolding regs' by (auto split: if_splits)
    moreover from at have "i - unat idx < n" "unat idx + (i - unat idx) = i" by auto
    ultimately show ?thesis using ok unfolding request_ok_def by metis
  qed
  moreover have "save_covers regs regs' mbb'" if good
  proof -
    from that w have ok: "request_ok (p_mb_buff mbb) (unat idx) n j" and le: "unat idx + n \<le> 120"
      and regs': "regs' = take (unat idx) regs @ map (\<lambda>k. frame_word (p_mb_buff mbb) (j + 2 * k)) [0..<n] @
          drop (unat idx + n) regs"
      and eep: "eep_state mbb' = (if \<exists>k<n. reg_saved (unat idx + k) \<and> unat idx + n < 120 then EEP_SAVE else EEP_FREE)"
        "eep_state mbb' = EEP_SAVE \<longrightarrow> eep_start_save mbb' = idx \<and> eep_indx mbb' = of_nat n"
      by (auto simp: r write_outcome_def split: if_splits)
    have small: "unat (word_of_nat n :: u8) = n"
      using le by (simp add: unat_of_nat)
    have lt: "unat idx + n < 120" if "0 < n"
    proof (rule ccontr)
      assume "\<not> unat idx + n < 120"
      with le have "unat idx + (n - 1) = 119" using that by simp
      with ok that have "reg_writable 119" unfolding request_ok_def by (metis diff_less zero_less_one)
      then show False using last_not_writable by simp
    qed
    have "eep_state mbb' = EEP_SAVE \<and> unat idx \<le> i \<and> i < unat idx + n"
      if "i < 120" "reg_saved i" "regs' ! i \<noteq> regs ! i" for i
    proof -
      from nth_written [of "unat idx" n regs i] le that assms(2)
      have at: "unat idx \<le> i" "i < unat idx + n"
        unfolding regs' by (auto split: if_splits)
      then have "i - unat idx < n" "unat idx + (i - unat idx) = i" by auto
      with that(2) have "\<exists>k<n. reg_saved (unat idx + k)" by metis
      with lt at eep(1) show ?thesis by auto
    qed
    with eep(2) small le show ?thesis
      by (auto simp: save_covers_def)
  qed
  ultimately show "safe_outcome regs mbb r"
    using w assms
    by (auto simp: r write_outcome_def safe_outcome_def wf_mb_def split: if_splits)
qed

lemma safe_outcome_unchanged:
  "wf_mb mbb \<Longrightarrow> length regs = 120 \<Longrightarrow> e \<noteq> MBE_NONE \<Longrightarrow> safe_outcome regs mbb (e, regs, mbb)"
  by (simp add: safe_outcome_def)

lemma FrameParse_03_safe:
  assumes "wf_mb mbb" "length regs = 120"
  shows "succeeds (FrameParse_03 regs mbb) (\<lambda>(e, mbb'). safe_outcome regs mbb (e, regs, mbb'))"
proof (cases "mb_index mbb = 8")
  case False
  with assms show ?thesis by (simp add: FrameParse_03_def safe_outcome_unchanged)
next
  case True
  let ?idx = "frame_word (p_mb_buff mbb) 2" and ?n = "frame_word (p_mb_buff mbb) 4"
  note res = FrameParse_03_result [OF assms True refl refl]
  show ?thesis
  proof (cases "unat ?idx \<le> 119 \<and> unat ?n \<le> 120 \<and> unat ?idx + unat ?n \<le> 120")
    case False
    with res assms show ?thesis by (auto simp: safe_outcome_unchanged)
  next
    case range: True
    have "p_mb_buff mbb' ! 0 = p_mb_buff mbb ! 0"
      if "take (3 + 2 * unat ?n) (p_mb_buff mbb') = p_mb_buff mbb ! 0 # xs" for mbb' xs
      using arg_cong [where f = "\<lambda>l. l ! 0", OF that] by simp
    with range res assms show ?thesis
      by (auto simp: safe_outcome_def wf_mb_def save_covers_refl dest: rest_of_eqD elim!: succeeds_mono)
  qed
qed

lemma FrameParse_10_safe:
  assumes "wf_mb mbb" "length regs = 120"
  shows "succeeds (FrameParse_10 regs mbb) (safe_outcome regs mbb)"
proof (cases "mb_index mbb > 10")
  case False
  with assms show ?thesis by (simp add: FrameParse_10_def safe_outcome_unchanged)
next
  case True
  show ?thesis
    by (rule succeeds_mono [OF FrameParse_10_result [OF assms True refl refl]])
      (rule write_outcome_safe [OF assms])
qed

lemma FrameParse_06_safe:
  assumes "wf_mb mbb" "length regs = 120"
  shows "succeeds (FrameParse_06 regs mbb) (safe_outcome regs mbb)"
proof (cases "mb_index mbb = 8")
  case False
  with assms show ?thesis by (simp add: FrameParse_06_def safe_outcome_unchanged)
next
  case True
  show ?thesis
    by (rule succeeds_mono [OF FrameParse_06_result [OF assms True refl]])
      (rule write_outcome_safe [OF assms])
qed

definition parse_safe :: "u16 list \<Rightarrow> mb_struct \<Rightarrow> bool \<times> u16 list \<times> mb_struct \<Rightarrow> bool" where
  "parse_safe regs mbb = (\<lambda>(need, regs', mbb').
     need = (p_mb_buff mbb ! 0 \<noteq> 0) \<and> wf_mb mbb' \<and> length regs' = 120 \<and>
     CRC16 (reply mbb') = 0 \<and> unat (response_size mbb') \<le> 245 \<and>
     mb_state mbb' = mb_state mbb \<and> slave_address mbb' = slave_address mbb \<and>
     er_frame_bad mbb' = er_frame_bad mbb \<and>
     (eep_state mbb = EEP_FREE \<longrightarrow> save_covers regs regs' mbb') \<and>
     (\<forall>i<120. regs' ! i \<noteq> regs ! i \<longrightarrow> reg_writable i \<and> reg_ok i (regs' ! i)))"

definition FrameParse_core :: "u16 list \<Rightarrow> mb_struct \<Rightarrow> (eMBExcep \<times> u16 list \<times> mb_struct) option" where
  "FrameParse_core regs mbb = (let b1 = p_mb_buff mbb ! 1 in
     if b1 = 3 then do { (e, mbb) \<leftarrow> FrameParse_03 regs mbb; Some (e, regs, mbb) }
     else if b1 = 0x10 then FrameParse_10 regs mbb
     else if b1 = 6 then FrameParse_06 regs mbb
     else Some (MBE_ILLEGAL_FUNCTION, regs, mbb))"

lemma FrameParse_core_safe:
  "wf_mb mbb \<Longrightarrow> length regs = 120 \<Longrightarrow> succeeds (FrameParse_core regs mbb) (safe_outcome regs mbb)"
  using FrameParse_03_safe [of mbb regs] FrameParse_10_safe [of mbb regs] FrameParse_06_safe [of mbb regs]
  by (auto simp: FrameParse_core_def Let_def safe_outcome_unchanged succeeds_bind elim!: succeeds_mono)

lemma FrameParse_split:
  assumes "wf_mb mbb"
  shows "FrameParse regs mbb = do {
     (Exception, regs, mbb') \<leftarrow> FrameParse_core regs mbb;
     mbb' \<leftarrow> (if Exception \<noteq> MBE_NONE then put_exception Exception mbb' else Some mbb');
     mbb' \<leftarrow> put_crc mbb';
     Some (p_mb_buff mbb ! 0 \<noteq> 0, regs, mbb') }"
  using assms by (simp add: FrameParse_def FrameParse_core_def wf_mb_def Let_def)

lemma save_covers_cong:
  "eep_state m' = eep_state m \<Longrightarrow> eep_start_save m' = eep_start_save m \<Longrightarrow> eep_indx m' = eep_indx m \<Longrightarrow>
     save_covers regs regs' m' = save_covers regs regs' m"
  by (simp add: save_covers_def)

lemma close_safe:
  assumes "safe_outcome regs mbb (e, regs', m)" "unat (mb_index m) \<le> 243"
    and "eep_state mbb = EEP_FREE \<longrightarrow> save_covers regs regs' m"
  shows "succeeds (put_crc m) (\<lambda>x. parse_safe regs mbb (p_mb_buff mbb ! 0 \<noteq> 0, regs', x))"
proof -
  have len: "length (p_mb_buff m) = 256" "unat (mb_index m) \<le> 250"
    using assms(1,2) by (simp_all add: safe_outcome_def wf_mb_def)
  obtain x where x: "put_crc m = Some x" "reply x = with_crc (message m)"
      "unat (response_size x) = unat (mb_index m) + 2" "length (p_mb_buff x) = 256"
      "reg_read_last x = reg_read_last m" "reg_write_last x = reg_write_last m"
      "mb_state x = mb_state m" "slave_address x = slave_address m" "er_frame_bad x = er_frame_bad m"
    and eep: "eep_state x = eep_state m" "eep_start_save x = eep_start_save m" "eep_indx x = eep_indx m"
    using put_crc_result [OF len] by (auto elim!: succeedsE)
  show ?thesis
    using assms x save_covers_cong [OF eep, of regs regs']
    by (simp add: safe_outcome_def parse_safe_def wf_mb_def CRC16_with_crc)
qed

lemma finish_safe:
  assumes "safe_outcome regs mbb (e, regs', mbb')"
  shows "succeeds (do {
     mbb' \<leftarrow> (if e \<noteq> MBE_NONE then put_exception e mbb' else Some mbb');
     mbb' \<leftarrow> put_crc mbb';
     Some (p_mb_buff mbb ! 0 \<noteq> 0, regs', mbb') }) (parse_safe regs mbb)"
proof (cases "e = MBE_NONE")
  case True
  with assms close_safe [OF assms] show ?thesis
    by (simp add: safe_outcome_def succeeds_bind)
next
  case False
  have len: "length (p_mb_buff mbb') = 256"
    using assms by (simp add: safe_outcome_def wf_mb_def)
  let ?m = "mbb'\<lparr>p_mb_buff := (p_mb_buff mbb')[1 := p_mb_buff mbb' ! 1 OR 0x80, 2 := excep_code e],
     mb_index := 3, eep_state := EEP_FREE\<rparr>"
  have "safe_outcome regs mbb (e, regs', ?m)" "save_covers regs regs' ?m"
    using assms False by (auto simp: safe_outcome_def wf_mb_def save_covers_refl)
  from close_safe [OF this(1)] this(2) False len show ?thesis
    by (simp add: put_exception_eq succeeds_bind)
qed

lemma FrameParse_safe:
  assumes "wf_mb mbb" "length regs = 120"
  shows "succeeds (FrameParse regs mbb) (parse_safe regs mbb)"
  unfolding FrameParse_split [OF assms(1)] succeeds_bind
  by (rule succeeds_mono [OF FrameParse_core_safe [OF assms]]) (auto intro!: finish_safe)

section \<open>What each request does\<close>

lemma FrameParse_NONE:
  assumes "wf_mb mbb" "FrameParse_core regs mbb = Some (MBE_NONE, regs', m)"
    and "length (p_mb_buff m) = 256" "unat (mb_index m) \<le> 250"
  shows "succeeds (FrameParse regs mbb) (\<lambda>(need, r, mbb'). need = (p_mb_buff mbb ! 0 \<noteq> 0) \<and> r = regs' \<and>
     reply mbb' = with_crc (message m) \<and> eep_state mbb' = eep_state m \<and>
     eep_start_save mbb' = eep_start_save m \<and> eep_indx mbb' = eep_indx m)"
  unfolding FrameParse_split [OF assms(1)] assms(2)
  using put_crc_result [OF assms(3,4)] by (auto simp: succeeds_bind elim!: succeeds_mono)

lemma FrameParse_exception:
  assumes "wf_mb mbb" "FrameParse_core regs mbb = Some (e, regs', m)" "e \<noteq> MBE_NONE"
    and "p_mb_buff m = p_mb_buff mbb"
  shows "succeeds (FrameParse regs mbb) (\<lambda>(need, r, mbb'). need = (p_mb_buff mbb ! 0 \<noteq> 0) \<and> r = regs' \<and>
     reply mbb' = with_crc [p_mb_buff mbb ! 0, p_mb_buff mbb ! 1 OR 0x80, excep_code e] \<and>
     eep_state mbb' = EEP_FREE)"
proof -
  have len: "length (p_mb_buff m) = 256" using assms(1,4) by (simp add: wf_mb_def)
  let ?m = "m\<lparr>p_mb_buff := (p_mb_buff m)[1 := p_mb_buff m ! 1 OR 0x80, 2 := excep_code e],
     mb_index := 3, eep_state := EEP_FREE\<rparr>"
  have "message ?m = [p_mb_buff mbb ! 0, p_mb_buff mbb ! 1 OR 0x80, excep_code e]"
    using take3_exception [OF len, of "p_mb_buff m ! 1 OR 0x80" "excep_code e"] assms(4) by (simp add: message_def)
  with put_crc_result [of ?m] len assms show ?thesis
    by (auto simp: FrameParse_split [OF assms(1)] put_exception_eq succeeds_bind elim!: succeeds_mono)
qed

lemma frame_word_pair [simp]: "frame_word (a # b # buf) 0 = mk16 a b"
  by (simp add: frame_word_def)

lemma frame_word_shift: "frame_word (a # buf) (Suc j) = frame_word buf j"
  by (simp add: frame_word_def)

lemma frame_word_be_bytes:
  "k < length vs \<Longrightarrow> frame_word (be_bytes vs @ rest) (2 * k) = vs ! k"
  by (simp add: frame_word_def nth_append be_bytes_nth)

lemma read_request:
  fixes idx n :: u16
  assumes wf: "wf_mb mbb" "length regs = 120" "mb_index mbb = 8"
    and buf: "p_mb_buff mbb = [addr, 3, hi8 idx, lo8 idx, hi8 n, lo8 n] @ rest"
    and range: "unat idx \<le> 119" "unat idx + unat n \<le> 120"
  shows "succeeds (FrameParse regs mbb) (\<lambda>(need, regs', mbb'). need = (addr \<noteq> 0) \<and> regs' = regs \<and>
     reply mbb' = with_crc ([addr, 3, ucast (push_bit 1 n)] @ be_bytes (take (unat n) (drop (unat idx) regs))) \<and>
     eep_state mbb' = eep_state mbb)"
proof -
  have fw: "frame_word (p_mb_buff mbb) 2 = idx" "frame_word (p_mb_buff mbb) 4 = n"
    by (simp_all add: buf frame_word_shift numeral_eq_Suc)
  obtain m where m: "FrameParse_03 regs mbb = Some (MBE_NONE, m)" "unat (mb_index m) = 3 + 2 * unat n"
      "length (p_mb_buff m) = 256" "rest_of m = rest_of mbb"
      "take (3 + 2 * unat n) (p_mb_buff m) = [addr, 3, ucast (push_bit 1 n)] @
         be_bytes (take (unat n) (drop (unat idx) regs))"
    using FrameParse_03_result [OF wf fw [symmetric]] range by (auto elim!: succeedsE simp: buf)
  have "FrameParse_core regs mbb = Some (MBE_NONE, regs, m)"
    using m(1) by (simp add: FrameParse_core_def buf)
  from FrameParse_NONE [OF wf(1) this] m range show ?thesis
    by (auto simp: message_def buf dest: rest_of_eqD elim!: succeeds_mono)
qed

lemma write_request:
  fixes idx n :: u16
  assumes wf: "wf_mb mbb" "length regs = 120"
    and n: "unat n = length vals" "vals \<noteq> []" "unat (mb_index mbb) = 9 + 2 * length vals"
    and buf: "p_mb_buff mbb = [addr, 0x10, hi8 idx, lo8 idx, hi8 n, lo8 n, word_of_nat (2 * length vals)] @ be_bytes vals @ rest"
    and range: "unat idx + length vals \<le> 120"
    and ok: "\<forall>k<length vals. reg_writable (unat idx + k) \<and> reg_ok (unat idx + k) (vals ! k)"
  shows "succeeds (FrameParse regs mbb) (\<lambda>(need, regs', mbb'). need = (addr \<noteq> 0) \<and>
     regs' = take (unat idx) regs @ vals @ drop (unat idx + length vals) regs \<and>
     reply mbb' = with_crc [addr, 0x10, hi8 idx, lo8 idx, hi8 n, lo8 n] \<and>
     eep_state mbb' = (if \<exists>k<length vals. reg_saved (unat idx + k) \<and> unat idx + length vals < 120
                       then EEP_SAVE else EEP_FREE) \<and>
     (eep_state mbb' = EEP_SAVE \<longrightarrow> eep_start_save mbb' = idx \<and> eep_indx mbb' = of_nat (length vals)))"
proof -
  let ?buf = "p_mb_buff mbb"
  have fw: "frame_word ?buf 2 = idx" "frame_word ?buf 4 = n"
    by (simp_all add: buf frame_word_shift numeral_eq_Suc)
  have vals: "frame_word ?buf (7 + 2 * k) = vals ! k" if "k < length vals" for k
    using frame_word_be_bytes [OF that, of rest]
    by (simp add: buf frame_word_def nth_append)
  have small: "unat (word_of_nat (2 * length vals) :: u8) = 2 * length vals"
    using range by (simp add: unat_of_nat del: of_nat_mult)
  have "mb_index mbb > 10"
    using n by (cases vals) (auto simp: word_less_nat_alt)
  have le: "unat idx \<le> 119" using range n(2) by (cases vals) auto
  note res = FrameParse_10_result [OF wf \<open>mb_index mbb > 10\<close> fw [symmetric]]
  have req: "request_ok ?buf (unat idx) (unat n) 7"
    using ok vals n(1) by (simp add: request_ok_def)
  have b6: "?buf ! 6 = word_of_nat (2 * length vals)"
    by (simp add: buf)
  have map: "map (\<lambda>k. frame_word ?buf (7 + 2 * k)) [0..<unat n] = vals"
    by (rule nth_equalityI) (use vals n(1) in simp_all)
  have "(unat idx \<le> 119 \<and> unat n \<le> 120 \<and> unat idx + unat n \<le> 120) \<and>
      (unat (?buf ! 6) = 2 * unat n \<and> unat (mb_index mbb) = 9 + unat (?buf ! 6)) \<and>
      request_ok ?buf (unat idx) (unat n) 7"
    unfolding b6 small n(1) n(3) using req [unfolded n(1)] le range by linarith
  with res have "succeeds (FrameParse_10 regs mbb) (write_outcome idx (length vals) 7 True regs mbb)"
    by (simp only: n(1) simp_thms)
  then obtain e r m where "FrameParse_10 regs mbb = Some (e, r, m)"
      and out: "write_outcome idx (length vals) 7 True regs mbb (e, r, m)"
    by (auto elim!: succeedsE)
  moreover from out map n(1) have "e = MBE_NONE" "r = take (unat idx) regs @ vals @ drop (unat idx + length vals) regs"
    by (simp_all only: write_outcome_def prod.case if_True simp_thms)
  moreover from out have m: "mb_index m = 6" "p_mb_buff m = ?buf"
      "eep_state m = (if \<exists>k<length vals. reg_saved (unat idx + k) \<and> unat idx + length vals < 120
          then EEP_SAVE else EEP_FREE)"
      "eep_state m = EEP_SAVE \<longrightarrow> eep_start_save m = idx \<and> eep_indx m = of_nat (length vals)"
    unfolding write_outcome_def prod.case if_True by blast+
  ultimately have frame: "FrameParse_10 regs mbb =
      Some (MBE_NONE, take (unat idx) regs @ vals @ drop (unat idx + length vals) regs, m)"
    by simp
  have core: "FrameParse_core regs mbb = Some (MBE_NONE, take (unat idx) regs @ vals @ drop (unat idx + length vals) regs, m)"
    using frame by (simp add: FrameParse_core_def buf)
  have msg: "message m = [addr, 0x10, hi8 idx, lo8 idx, hi8 n, lo8 n]"
    by (simp add: message_def m(1,2) buf)
  have "length (p_mb_buff m) = 256" using m(2) wf by (simp add: wf_mb_def)
  from FrameParse_NONE [OF wf(1) core this] m(1) msg
  have "succeeds (FrameParse regs mbb) (\<lambda>(need, r, mbb'). need = (?buf ! 0 \<noteq> 0) \<and>
     r = take (unat idx) regs @ vals @ drop (unat idx + length vals) regs \<and>
     reply mbb' = with_crc [addr, 0x10, hi8 idx, lo8 idx, hi8 n, lo8 n] \<and> eep_state mbb' = eep_state m \<and>
     eep_start_save mbb' = eep_start_save m \<and> eep_indx mbb' = eep_indx m)"
    by simp
  then show ?thesis
    by (rule succeeds_mono) (use m(3,4) buf in \<open>auto split: prod.splits\<close>)
qed

section \<open>Rejected requests\<close>

text \<open>The requests the device carries out, as the protocol states them.\<close>

definition acceptable :: "mb_struct \<Rightarrow> bool" where
  "acceptable mbb =
     (let buf = p_mb_buff mbb; f = buf ! 1; idx = unat (frame_word buf 2); n = unat (frame_word buf 4) in
      f = 3 \<and> mb_index mbb = 8 \<and> idx \<le> 119 \<and> idx + n \<le> 120 \<or>
      f = 0x10 \<and> 10 < mb_index mbb \<and> idx \<le> 119 \<and> idx + n \<le> 120 \<and> unat (buf ! 6) = 2 * n \<and>
        unat (mb_index mbb) = 9 + 2 * n \<and> request_ok buf idx n 7 \<or>
      f = 6 \<and> mb_index mbb = 8 \<and> idx \<le> 119 \<and> request_ok buf idx 1 4)"

lemma write_outcome_rejects:
  "write_outcome idx n j False regs mbb (e, regs', mbb') \<Longrightarrow>
     e \<noteq> MBE_NONE \<and> regs' = regs \<and> p_mb_buff mbb' = p_mb_buff mbb"
  by (simp add: write_outcome_def)

lemma Limit_Check_in_Request_code: "Limit_Check_in_Request i v = Some e \<Longrightarrow> e \<noteq> MBE_ILLEGAL_FUNCTION"
  by (auto simp: Limit_Check_in_Request_def split: if_splits Option.bind_splits)

lemma check_values_code: "check_values buf i n j = Some e \<Longrightarrow> e \<noteq> MBE_ILLEGAL_FUNCTION"
  by (induction buf i n j rule: check_values.induct)
    (auto split: if_splits Option.bind_splits dest: Limit_Check_in_Request_code)

lemma FrameParse_10_code: "FrameParse_10 regs mbb = Some (e, r, m) \<Longrightarrow> e \<noteq> MBE_ILLEGAL_FUNCTION"
  by (auto simp: FrameParse_10_def Let_def split: if_splits Option.bind_splits dest: check_values_code)

lemma FrameParse_06_code: "FrameParse_06 regs mbb = Some (e, r, m) \<Longrightarrow> e \<noteq> MBE_ILLEGAL_FUNCTION"
  by (auto simp: FrameParse_06_def Let_def split: if_splits Option.bind_splits
      dest: Limit_Check_in_Request_code)

lemma FrameParse_10_rejects:
  assumes wf: "wf_mb mbb" "length regs = 120" and bad: "\<not> acceptable mbb" "p_mb_buff mbb ! 1 = 0x10"
  shows "succeeds (FrameParse_10 regs mbb) (\<lambda>(e, r, m). e \<noteq> MBE_NONE \<and> r = regs \<and> p_mb_buff m = p_mb_buff mbb)"
proof (cases "mb_index mbb > 10")
  case True
  from bad True have "\<not> ((unat (frame_word (p_mb_buff mbb) 2) \<le> 119 \<and> unat (frame_word (p_mb_buff mbb) 4) \<le> 120 \<and>
      unat (frame_word (p_mb_buff mbb) 2) + unat (frame_word (p_mb_buff mbb) 4) \<le> 120) \<and>
     (unat (p_mb_buff mbb ! 6) = 2 * unat (frame_word (p_mb_buff mbb) 4) \<and>
      unat (mb_index mbb) = 9 + unat (p_mb_buff mbb ! 6)) \<and>
     request_ok (p_mb_buff mbb) (unat (frame_word (p_mb_buff mbb) 2)) (unat (frame_word (p_mb_buff mbb) 4)) 7)"
    by (auto simp: acceptable_def Let_def)
  with FrameParse_10_result [OF wf True refl refl] show ?thesis
    by (auto dest: write_outcome_rejects elim!: succeeds_mono)
qed (simp add: FrameParse_10_def)

lemma FrameParse_06_rejects:
  assumes wf: "wf_mb mbb" "length regs = 120" and bad: "\<not> acceptable mbb" "p_mb_buff mbb ! 1 = 6"
  shows "succeeds (FrameParse_06 regs mbb) (\<lambda>(e, r, m). e \<noteq> MBE_NONE \<and> r = regs \<and> p_mb_buff m = p_mb_buff mbb)"
proof (cases "mb_index mbb = 8")
  case True
  from bad True have "\<not> (unat (frame_word (p_mb_buff mbb) 2) \<le> 119 \<and>
     request_ok (p_mb_buff mbb) (unat (frame_word (p_mb_buff mbb) 2)) 1 4)"
    by (auto simp: acceptable_def Let_def)
  with FrameParse_06_result [OF wf True refl] show ?thesis
    by (auto dest: write_outcome_rejects elim!: succeeds_mono)
qed (simp add: FrameParse_06_def)

lemma FrameParse_03_rejects:
  assumes wf: "wf_mb mbb" "length regs = 120" and bad: "\<not> acceptable mbb" "p_mb_buff mbb ! 1 = 3"
  shows "\<exists>e. FrameParse_03 regs mbb = Some (e, mbb) \<and> e \<noteq> MBE_NONE \<and> e \<noteq> MBE_ILLEGAL_FUNCTION"
proof (cases "mb_index mbb = 8")
  case True
  from bad True have "\<not> (unat (frame_word (p_mb_buff mbb) 2) \<le> 119 \<and> unat (frame_word (p_mb_buff mbb) 4) \<le> 120 \<and>
      unat (frame_word (p_mb_buff mbb) 2) + unat (frame_word (p_mb_buff mbb) 4) \<le> 120)"
    by (auto simp: acceptable_def Let_def)
  with FrameParse_03_result [OF wf True refl refl] show ?thesis by simp
qed (simp add: FrameParse_03_def)

lemma FrameParse_core_rejects:
  assumes wf: "wf_mb mbb" "length regs = 120" and bad: "\<not> acceptable mbb"
  obtains e m where "FrameParse_core regs mbb = Some (e, regs, m)" "e \<noteq> MBE_NONE"
    "e = MBE_ILLEGAL_FUNCTION \<longleftrightarrow> p_mb_buff mbb ! 1 \<notin> {3, 6, 0x10}" "p_mb_buff m = p_mb_buff mbb"
proof -
  consider "p_mb_buff mbb ! 1 = 3" | "p_mb_buff mbb ! 1 = 0x10" | "p_mb_buff mbb ! 1 = 6"
    | "p_mb_buff mbb ! 1 \<notin> {3, 6, 0x10}" by auto
  then show thesis
  proof cases
    case 1
    obtain e where e: "FrameParse_03 regs mbb = Some (e, mbb)" "e \<noteq> MBE_NONE" "e \<noteq> MBE_ILLEGAL_FUNCTION"
      using FrameParse_03_rejects [OF wf bad 1] by blast
    show ?thesis
      by (rule that [of e mbb]) (use e 1 in \<open>simp_all add: FrameParse_core_def\<close>)
  next
    case 2
    obtain e m where m: "FrameParse_10 regs mbb = Some (e, regs, m)" "e \<noteq> MBE_NONE" "p_mb_buff m = p_mb_buff mbb"
      using FrameParse_10_rejects [OF wf bad 2] by (auto elim!: succeedsE)
    show ?thesis
      by (rule that [of e m]) (use m 2 FrameParse_10_code [OF m(1)] in \<open>simp_all add: FrameParse_core_def\<close>)
  next
    case 3
    obtain e m where m: "FrameParse_06 regs mbb = Some (e, regs, m)" "e \<noteq> MBE_NONE" "p_mb_buff m = p_mb_buff mbb"
      using FrameParse_06_rejects [OF wf bad 3] by (auto elim!: succeedsE)
    show ?thesis
      by (rule that [of e m]) (use m 3 FrameParse_06_code [OF m(1)] in \<open>simp_all add: FrameParse_core_def\<close>)
  next
    case 4
    show ?thesis
      by (rule that [of MBE_ILLEGAL_FUNCTION mbb]) (use 4 in \<open>simp_all add: FrameParse_core_def Let_def\<close>)
  qed
qed

lemma rejected_request:
  assumes wf: "wf_mb mbb" "length regs = 120" and bad: "\<not> acceptable mbb"
  shows "succeeds (FrameParse regs mbb) (\<lambda>(need, regs', mbb'). regs' = regs \<and> eep_state mbb' = EEP_FREE \<and>
     (\<exists>e. e \<noteq> MBE_NONE \<and> (e = MBE_ILLEGAL_FUNCTION \<longleftrightarrow> p_mb_buff mbb ! 1 \<notin> {3, 6, 0x10}) \<and>
        reply mbb' = with_crc [p_mb_buff mbb ! 0, p_mb_buff mbb ! 1 OR 0x80, excep_code e]))"
proof -
  obtain e m where core: "FrameParse_core regs mbb = Some (e, regs, m)" "e \<noteq> MBE_NONE"
    and e: "e = MBE_ILLEGAL_FUNCTION \<longleftrightarrow> p_mb_buff mbb ! 1 \<notin> {3, 6, 0x10}" and "p_mb_buff m = p_mb_buff mbb"
    using FrameParse_core_rejects [OF wf bad] by metis
  from FrameParse_exception [OF wf(1) core this(4)] core(2) e show ?thesis
    by (auto elim!: succeeds_mono)
qed

section \<open>Single writes and accepted frames\<close>

lemma write_one_request:
  assumes wf: "wf_mb mbb" "length regs = 120" "mb_index mbb = 8"
    and buf: "p_mb_buff mbb = [addr, 6, hi8 idx, lo8 idx, hi8 v, lo8 v] @ rest"
    and ok: "reg_writable (unat idx)" "reg_ok (unat idx) v"
  shows "succeeds (FrameParse regs mbb) (\<lambda>(need, regs', mbb'). need = (addr \<noteq> 0) \<and>
     regs' = regs[unat idx := v] \<and> reply mbb' = with_crc [addr, 6, hi8 idx, lo8 idx, hi8 v, lo8 v] \<and>
     eep_state mbb' = (if reg_saved (unat idx) then EEP_SAVE else EEP_FREE) \<and>
     (eep_state mbb' = EEP_SAVE \<longrightarrow> eep_start_save mbb' = idx \<and> eep_indx mbb' = 1))"
proof -
  let ?buf = "p_mb_buff mbb"
  have fw: "frame_word ?buf 2 = idx" "frame_word ?buf 4 = v"
    by (simp_all add: buf frame_word_shift numeral_eq_Suc)
  have lt: "unat idx < 119"
    using ok(1) reg_writable_lt [OF ok(1)] last_not_writable by (cases "unat idx = 119") auto
  have req: "request_ok ?buf (unat idx) 1 4"
    using ok fw by (simp add: request_ok_def)
  have upd: "take (unat idx) regs @ v # drop (Suc (unat idx)) regs = regs[unat idx := v]"
    using lt wf(2) by (simp add: upd_conv_take_nth_drop)
  from FrameParse_06_result [OF wf fw(1) [symmetric]] req lt
  obtain e r m where "FrameParse_06 regs mbb = Some (e, r, m)"
      and out: "write_outcome idx 1 4 True regs mbb (e, r, m)"
    by (auto elim!: succeedsE)
  moreover from out upd fw have "e = MBE_NONE" "r = regs[unat idx := v]"
    by (simp_all add: write_outcome_def)
  moreover from out lt have m: "mb_index m = 6" "p_mb_buff m = ?buf"
      "eep_state m = (if reg_saved (unat idx) then EEP_SAVE else EEP_FREE)"
      "eep_state m = EEP_SAVE \<longrightarrow> eep_start_save m = idx \<and> eep_indx m = 1"
    by (auto simp: write_outcome_def)
  ultimately have core: "FrameParse_core regs mbb = Some (MBE_NONE, regs[unat idx := v], m)"
    by (simp add: FrameParse_core_def buf)
  have msg: "message m = [addr, 6, hi8 idx, lo8 idx, hi8 v, lo8 v]"
    by (simp add: message_def m(1,2) buf)
  have "length (p_mb_buff m) = 256" using m(2) wf by (simp add: wf_mb_def)
  from FrameParse_NONE [OF wf(1) core this] m(1) msg m(3,4) buf show ?thesis
    by (auto elim!: succeeds_mono)
qed

text \<open>A frame that \<open>InvalidFrame\<close> lets through to the parser.\<close>

lemma accepted_frame:
  assumes "length (p_mb_buff mbb) = 256" "InvalidFrame mbb = Some False"
  shows "4 \<le> unat (mb_index mbb)" "er_frame_bad mbb = EV_NOEVENT" "eep_state mbb = EEP_FREE"
    "CRC16 (message mbb) = 0" "slave_address mbb = p_mb_buff mbb ! 0 \<or> p_mb_buff mbb ! 0 = 0 \<or> slave_address mbb = 0"
  using assms eMBEvent.exhaust [of "er_frame_bad mbb"]
  by (auto simp: InvalidFrame_def message_def split: if_splits)

end
