(* ===== verification/ModbusProperties.thy ===== *)
theory ModbusProperties
  imports ModbusRequests
begin

text \<open>
  The properties of the Modbus request parser: bounds for every frame, the function of the three
  supported requests, the refusal of all others, the round trip of a write and a read, and the
  rejection of corrupted frames.
\<close>

lemma corrupted_frame:
  assumes len: "length (p_mb_buff mbb) = 256" and ok: "InvalidFrame mbb = Some False"
    and j: "j < unat (mb_index mbb)" and b: "b \<noteq> p_mb_buff mbb ! j"
  shows "InvalidFrame (mbb\<lparr>p_mb_buff := (p_mb_buff mbb)[j := b]\<rparr>) = Some True"
proof -
  let ?n = "unat (mb_index mbb)" and ?msg = "message mbb"
  have n: "?n < 256" by simp
  have j': "j < length ?msg" using j len n by (simp add: message_def)
  have at: "?msg ! j = p_mb_buff mbb ! j" using j by (simp add: message_def)
  have "?msg = take j ?msg @ ?msg ! j # drop (Suc j) ?msg" "?msg[j := b] = take j ?msg @ b # drop (Suc j) ?msg"
    using j' by (simp_all add: id_take_nth_drop upd_conv_take_nth_drop)
  then have "CRC16 (?msg[j := b]) \<noteq> CRC16 ?msg"
    using modbus.detects_byte_error [of b "?msg ! j" "0xFFFF" "take j ?msg" "drop (Suc j) ?msg"] b at
    by (metis CRC16_fold)
  with accepted_frame [OF len ok] have "CRC16 (take ?n ((p_mb_buff mbb)[j := b])) \<noteq> 0"
    by (simp add: message_def take_update_swap)
  with accepted_frame [OF len ok] len n show ?thesis
    by (auto simp: InvalidFrame_def)
qed

text \<open>The parser's state when the bytes of a request have arrived, as the witnesses use it.\<close>

definition frame_mb :: "u8 list \<Rightarrow> mb_struct" where
  "frame_mb msg = \<lparr>reg_read_last = 119, reg_write_last = 119, eep_start_save = 0, eep_indx = 0,
     eep_state = EEP_FREE, slave_address = 0, mb_index = word_of_nat (length msg), mb_state = STATE_PARS,
     er_frame_bad = EV_NOEVENT, p_mb_buff = msg @ replicate (256 - length msg) 0, response_size = 0\<rparr>"

lemma wf_frame_mb: "length msg \<le> 256 \<Longrightarrow> wf_mb (frame_mb msg)"
  by (simp add: wf_mb_def frame_mb_def)

text \<open>C17: parsing never leaves the frame buffer, the registers or the register table, whatever
  the 256 bytes of the buffer hold: it returns a reply of at most 245 bytes whose CRC is
  zero, keeps the shape of the parser's state, and changes a register only if the host may write
  it and only to a value within the register's limits.\<close>

theorem FrameParse_bounds:
  assumes "wf_mb mbb" "length regs = 120"
  shows "succeeds (FrameParse regs mbb) (\<lambda>(NeedResponse, regs', mbb').
     wf_mb mbb' \<and> length regs' = 120 \<and> NeedResponse = (p_mb_buff mbb ! 0 \<noteq> 0) \<and>
     unat (response_size mbb') \<le> 245 \<and> CRC16 (reply mbb') = 0 \<and>
     (\<forall>i<120. regs' ! i \<noteq> regs ! i \<longrightarrow> reg_writable i \<and> reg_ok i (regs' ! i)))"
  using FrameParse_safe [OF assms] by (auto simp: parse_safe_def elim!: succeeds_mono)

theorem FrameParse_bounds_witness:
  "\<exists>need regs' mbb'. FrameParse (replicate 120 0) (frame_mb [1, 3, 0, 1, 0, 1, 0xD5, 0xCA]) =
      Some (need, regs', mbb') \<and> need \<and> CRC16 (reply mbb') = 0"
proof -
  have "p_mb_buff (frame_mb [1, 3, 0, 1, 0, 1, 0xD5, 0xCA]) ! 0 \<noteq> 0"
    by (simp add: frame_mb_def)
  with FrameParse_bounds [of "frame_mb [1, 3, 0, 1, 0, 1, 0xD5, 0xCA]" "replicate 120 0", OF wf_frame_mb]
  show ?thesis by (auto elim!: succeedsE)
qed

text \<open>C19: function 3 reads: a request for \<open>n\<close> registers from \<open>idx\<close> on that stays inside
  the table is answered with exactly their values, high byte first, and changes no register.\<close>

theorem read_holding_registers:
  fixes idx n :: u16
  assumes "wf_mb mbb" "length regs = 120" "mb_index mbb = 8"
    and "p_mb_buff mbb = [addr, 3, hi8 idx, lo8 idx, hi8 n, lo8 n] @ rest"
    and "unat idx \<le> 119" "unat idx + unat n \<le> 120"
  shows "succeeds (FrameParse regs mbb) (\<lambda>(need, regs', mbb'). need = (addr \<noteq> 0) \<and> regs' = regs \<and>
     reply mbb' = with_crc ([addr, 3, ucast (push_bit 1 n)] @ be_bytes (take (unat n) (drop (unat idx) regs))) \<and>
     eep_state mbb' = eep_state mbb)"
  using assms by (rule read_request)

lemma frame_mb_buff: "p_mb_buff (frame_mb msg) = msg @ replicate (256 - length msg) 0"
  and frame_mb_index: "mb_index (frame_mb msg) = word_of_nat (length msg)"
  by (simp_all add: frame_mb_def)

lemma byte_pairs: "hi8 0 = 0" "lo8 0 = 0" "hi8 1 = 0" "lo8 1 = 1" "hi8 2 = 0" "lo8 2 = 2"
    "hi8 41 = 0" "lo8 41 = 41" "hi8 42 = 0" "lo8 42 = 42" "hi8 15 = 0" "lo8 15 = 15" "hi8 300 = 1" "lo8 300 = 44"
  by (simp_all add: hi8_def lo8_def)

lemma succeeds_triple:
  "succeeds m (\<lambda>(a, b, c). a = x \<and> b = y \<and> Q c) \<Longrightarrow> \<exists>c. m = Some (x, y, c) \<and> Q c"
  by (auto elim!: succeedsE)

theorem read_holding_registers_witness:
  "\<exists>mbb'. FrameParse ([101, 300] @ replicate 118 0) (frame_mb [1, 3, 0, 0, 0, 2, 0xC4, 0x0B]) =
      Some (True, [101, 300] @ replicate 118 0, mbb') \<and> reply mbb' = with_crc [1, 3, 4, 0, 101, 1, 44]"
proof -
  let ?mb = "frame_mb [1, 3, 0, 0, 0, 2, 0xC4, 0x0B]" and ?regs = "[101, 300] @ replicate 118 0"
  have "p_mb_buff ?mb = [1, 3, hi8 0, lo8 0, hi8 2, lo8 2] @ [0xC4, 0x0B] @ replicate 248 0"
    by (simp add: frame_mb_buff byte_pairs)
  moreover have "wf_mb ?mb" "length ?regs = 120" "mb_index ?mb = 8"
    by (simp_all add: wf_frame_mb frame_mb_index)
  ultimately have ok: "succeeds (FrameParse ?regs ?mb) (\<lambda>(need, regs', mbb'). need = (1 \<noteq> (0 :: u8)) \<and> regs' = ?regs \<and>
     reply mbb' = with_crc ([1, 3, ucast (push_bit 1 (2 :: u16))] @ be_bytes (take (unat (2 :: u16)) (drop (unat (0 :: u16)) ?regs))) \<and>
     eep_state mbb' = eep_state ?mb)"
    by (intro read_holding_registers) simp_all
  have bytes: "[1, 3, ucast (push_bit 1 (2 :: u16))] @ be_bytes (take (unat (2 :: u16)) (drop (unat (0 :: u16)) ?regs)) =
      [1, 3, 4, 0, 101, 1, 44]"
    by (simp add: hi8_def lo8_def)
  from succeeds_triple [OF ok] show ?thesis
    unfolding bytes by auto
qed

text \<open>C18: function 16 writes: a request whose registers are all writable and whose values are all
  within limits stores exactly these values, keeps every other register, echoes the address and
  the count, and asks for the save to flash of the range whenever a register of it is saved.\<close>

theorem write_multiple_registers:
  fixes idx n :: u16
  assumes "wf_mb mbb" "length regs = 120"
    and "unat n = length vals" "vals \<noteq> []" "unat (mb_index mbb) = 9 + 2 * length vals"
    and "p_mb_buff mbb = [addr, 0x10, hi8 idx, lo8 idx, hi8 n, lo8 n, word_of_nat (2 * length vals)] @ be_bytes vals @ rest"
    and "unat idx + length vals \<le> 120"
    and "\<forall>k<length vals. reg_writable (unat idx + k) \<and> reg_ok (unat idx + k) (vals ! k)"
  shows "succeeds (FrameParse regs mbb) (\<lambda>(need, regs', mbb'). need = (addr \<noteq> 0) \<and>
     regs' = take (unat idx) regs @ vals @ drop (unat idx + length vals) regs \<and>
     reply mbb' = with_crc [addr, 0x10, hi8 idx, lo8 idx, hi8 n, lo8 n] \<and>
     eep_state mbb' = (if \<exists>k<length vals. reg_saved (unat idx + k) \<and> unat idx + length vals < 120
                       then EEP_SAVE else EEP_FREE) \<and>
     (eep_state mbb' = EEP_SAVE \<longrightarrow> eep_start_save mbb' = idx \<and> eep_indx mbb' = of_nat (length vals)))"
  using assms by (rule write_request)

lemma writable_41_42: "reg_writable 41" "reg_writable 42" "reg_ok 41 15" "reg_ok 42 300" "reg_saved 41"
  by (simp_all add: reg_writable_def reg_ok_def reg_saved_def perm_check_def limit_check_def
      default_state_nth MAIN_BUF_TABLE_def X_BUF_def Let_def)

theorem write_multiple_registers_witness:
  "\<exists>mbb'. FrameParse (replicate 120 0) (frame_mb [1, 0x10, 0, 41, 0, 2, 4, 0, 15, 1, 44, 0, 0]) =
      Some (True, replicate 41 0 @ [15, 300] @ replicate 77 0, mbb') \<and>
      reply mbb' = with_crc [1, 0x10, 0, 41, 0, 2] \<and> eep_state mbb' = EEP_SAVE"
proof -
  let ?mb = "frame_mb [1, 0x10, 0, 41, 0, 2, 4, 0, 15, 1, 44, 0, 0]" and ?regs = "replicate 120 0 :: u16 list"
  let ?vals = "[15, 300] :: u16 list"
  have "p_mb_buff ?mb = [1, 0x10, hi8 41, lo8 41, hi8 2, lo8 2, word_of_nat (2 * length ?vals)] @ be_bytes ?vals @
      [0, 0] @ replicate 243 0"
    by (simp add: frame_mb_buff byte_pairs)
  moreover have "wf_mb ?mb" "length ?regs = 120" "unat (mb_index ?mb) = 9 + 2 * length ?vals"
    by (simp_all add: wf_frame_mb frame_mb_index)
  moreover have "\<forall>k<length ?vals. reg_writable (unat (41 :: u16) + k) \<and> reg_ok (unat (41 :: u16) + k) (?vals ! k)"
    using writable_41_42 by (simp add: all_less_Suc_shift)
  ultimately have ok: "succeeds (FrameParse ?regs ?mb) (\<lambda>(need, regs', mbb'). need = (1 \<noteq> (0 :: u8)) \<and>
     regs' = take (unat (41 :: u16)) ?regs @ ?vals @ drop (unat (41 :: u16) + length ?vals) ?regs \<and>
     reply mbb' = with_crc [1, 0x10, hi8 41, lo8 41, hi8 2, lo8 2] \<and>
     eep_state mbb' = (if \<exists>k<length ?vals. reg_saved (unat (41 :: u16) + k) \<and> unat (41 :: u16) + length ?vals < 120
                       then EEP_SAVE else EEP_FREE) \<and>
     (eep_state mbb' = EEP_SAVE \<longrightarrow> eep_start_save mbb' = 41 \<and> eep_indx mbb' = of_nat (length ?vals)))"
    by (intro write_multiple_registers) simp_all
  have saved: "\<exists>k<length ?vals. reg_saved (unat (41 :: u16) + k) \<and> unat (41 :: u16) + length ?vals < 120"
    using writable_41_42(5) by (intro exI [of _ 0]) simp
  from succeeds_triple [OF ok] show ?thesis
    unfolding if_P [OF saved] byte_pairs by (simp del: append.simps) blast
qed

text \<open>C37: function 6 writes one register: the named register takes the value, every other one is
  kept, the request is echoed and a saved register is marked for saving.\<close>

theorem write_single_register:
  fixes idx v :: u16
  assumes "wf_mb mbb" "length regs = 120" "mb_index mbb = 8"
    and "p_mb_buff mbb = [addr, 6, hi8 idx, lo8 idx, hi8 v, lo8 v] @ rest"
    and "reg_writable (unat idx)" "reg_ok (unat idx) v"
  shows "succeeds (FrameParse regs mbb) (\<lambda>(need, regs', mbb'). need = (addr \<noteq> 0) \<and>
     regs' = regs[unat idx := v] \<and> reply mbb' = with_crc [addr, 6, hi8 idx, lo8 idx, hi8 v, lo8 v] \<and>
     eep_state mbb' = (if reg_saved (unat idx) then EEP_SAVE else EEP_FREE) \<and>
     (eep_state mbb' = EEP_SAVE \<longrightarrow> eep_start_save mbb' = idx \<and> eep_indx mbb' = 1))"
  using assms by (rule write_one_request)

lemma single_write_setup:
  "p_mb_buff (frame_mb [1, 6, 0, 41, 0, 15, 0, 0]) = [1, 6, hi8 41, lo8 41, hi8 15, lo8 15] @ [0, 0] @ replicate 248 0"
  "wf_mb (frame_mb [1, 6, 0, 41, 0, 15, 0, 0])" "mb_index (frame_mb [1, 6, 0, 41, 0, 15, 0, 0]) = 8"
  by (simp_all add: frame_mb_buff byte_pairs wf_frame_mb frame_mb_index)

theorem write_single_register_witness:
  "\<exists>mbb'. FrameParse (replicate 120 0) (frame_mb [1, 6, 0, 41, 0, 15, 0, 0]) =
      Some (True, (replicate 120 0)[41 := 15], mbb') \<and> reply mbb' = with_crc [1, 6, 0, 41, 0, 15]"
proof -
  have "succeeds (FrameParse (replicate 120 0) (frame_mb [1, 6, 0, 41, 0, 15, 0, 0])) (\<lambda>(need, regs', mbb').
     need = (1 \<noteq> (0 :: u8)) \<and> regs' = (replicate 120 0)[unat (41 :: u16) := 15] \<and>
     reply mbb' = with_crc [1, 6, hi8 41, lo8 41, hi8 15, lo8 15] \<and>
     eep_state mbb' = (if reg_saved (unat (41 :: u16)) then EEP_SAVE else EEP_FREE) \<and>
     (eep_state mbb' = EEP_SAVE \<longrightarrow> eep_start_save mbb' = 41 \<and> eep_indx mbb' = 1))"
    by (rule write_single_register [OF single_write_setup(2) _ single_write_setup(3,1)])
      (simp_all add: writable_41_42)
  from succeeds_triple [OF this] show ?thesis
    unfolding byte_pairs by (auto simp del: list_update.simps)
qed

text \<open>C21: a request outside these is refused: no register changes, nothing is saved, and the
  reply is the function code with its error bit and an exception code, code 1 exactly for an
  unsupported function.  In particular a write of several registers is all or nothing.\<close>

theorem refused_request:
  assumes "wf_mb mbb" "length regs = 120" and "\<not> acceptable mbb"
  shows "succeeds (FrameParse regs mbb) (\<lambda>(need, regs', mbb'). regs' = regs \<and> eep_state mbb' = EEP_FREE \<and>
     (\<exists>e. e \<noteq> MBE_NONE \<and> (e = MBE_ILLEGAL_FUNCTION \<longleftrightarrow> p_mb_buff mbb ! 1 \<notin> {3, 6, 0x10}) \<and>
        reply mbb' = with_crc [p_mb_buff mbb ! 0, p_mb_buff mbb ! 1 OR 0x80, excep_code e]))"
  using assms by (rule rejected_request)

theorem refused_request_witness:
  "\<exists>need mbb'. FrameParse (replicate 120 0) (frame_mb [1, 4, 0, 41, 0, 15, 0, 0]) =
      Some (need, replicate 120 0, mbb') \<and> reply mbb' = with_crc [1, 0x84, 1]"
proof -
  let ?mb = "frame_mb [1, 4, 0, 41, 0, 15, 0, 0]"
  have b: "p_mb_buff ?mb ! 0 = 1" "p_mb_buff ?mb ! 1 = 4"
    by (simp_all add: frame_mb_buff)
  then have "\<not> acceptable ?mb" by (simp add: acceptable_def Let_def)
  from refused_request [OF wf_frame_mb _ this, of "replicate 120 0"] show ?thesis
    unfolding b by (auto elim!: succeedsE)
qed

text \<open>C20: what is written can be read back: a read of the range just written, in the next
  request, returns the written values.\<close>

theorem write_then_read:
  fixes idx n :: u16
  assumes "wf_mb mbb" "length regs = 120"
    and "unat n = length vals" "vals \<noteq> []" "unat (mb_index mbb) = 9 + 2 * length vals"
    and "p_mb_buff mbb = [addr, 0x10, hi8 idx, lo8 idx, hi8 n, lo8 n, word_of_nat (2 * length vals)] @ be_bytes vals @ rest"
    and "unat idx + length vals \<le> 120"
    and "\<forall>k<length vals. reg_writable (unat idx + k) \<and> reg_ok (unat idx + k) (vals ! k)"
    and "wf_mb mbb2" "mb_index mbb2 = 8"
    and "p_mb_buff mbb2 = [addr2, 3, hi8 idx, lo8 idx, hi8 n, lo8 n] @ rest2"
  shows "succeeds (do { (_, regs', _) \<leftarrow> FrameParse regs mbb; FrameParse regs' mbb2 })
     (\<lambda>(need, regs', mbb'). reply mbb' = with_crc ([addr2, 3, ucast (push_bit 1 n)] @ be_bytes vals))"
proof -
  let ?regs' = "take (unat idx) regs @ vals @ drop (unat idx + length vals) regs"
  have idx: "unat idx \<le> 119" "unat idx + unat n \<le> 120" "length ?regs' = 120"
    using assms(2-4,7) by (cases vals; simp)+
  have vals: "take (unat n) (drop (unat idx) ?regs') = vals"
    using assms(2,3,7) by simp
  have read: "succeeds (FrameParse ?regs' mbb2)
     (\<lambda>(need, regs', mbb'). reply mbb' = with_crc ([addr2, 3, ucast (push_bit 1 n)] @ be_bytes vals))"
    using read_request [OF assms(9) idx(3) assms(10,11) idx(1,2)] unfolding vals
    by (rule succeeds_mono) (simp add: case_prod_unfold)
  show ?thesis
    unfolding succeeds_bind using write_request [OF assms(1-8)]
    by (rule succeeds_mono) (use read in \<open>simp add: case_prod_unfold\<close>)
qed


theorem write_then_read_witness:
  "\<exists>need regs' mbb'. (do {
     (_, r, _) \<leftarrow> FrameParse (replicate 120 0) (frame_mb [1, 0x10, 0, 42, 0, 1, 2, 1, 44, 0, 0]);
     FrameParse r (frame_mb [1, 3, 0, 42, 0, 1, 0, 0]) }) = Some (need, regs', mbb') \<and>
     reply mbb' = with_crc [1, 3, 2, 1, 44]"
proof -
  let ?w = "frame_mb [1, 0x10, 0, 42, 0, 1, 2, 1, 44, 0, 0]" and ?r = "frame_mb [1, 3, 0, 42, 0, 1, 0, 0]"
  have w: "p_mb_buff ?w = [1, 0x10, hi8 42, lo8 42, hi8 1, lo8 1, word_of_nat (2 * length [300])] @ be_bytes [300] @
      [0, 0] @ replicate 245 0"
    and r: "p_mb_buff ?r = [1, 3, hi8 42, lo8 42, hi8 1, lo8 1] @ [0, 0] @ replicate 248 0"
    by (simp_all add: frame_mb_buff byte_pairs)
  have bytes: "[1, 3, ucast (push_bit 1 (1 :: u16))] @ be_bytes [300] = [1, 3, 2, 1, 44]"
    by (simp add: byte_pairs)
  have "succeeds (do { (_, regs', _) \<leftarrow> FrameParse (replicate 120 0) ?w; FrameParse regs' ?r })
     (\<lambda>(need, regs', mbb'). reply mbb' = with_crc ([1, 3, ucast (push_bit 1 (1 :: u16))] @ be_bytes [300]))"
    by (rule write_then_read [OF _ _ _ _ _ w _ _ _ _ r])
      (simp_all add: wf_frame_mb frame_mb_index writable_41_42)
  then show ?thesis
    unfolding bytes by (auto elim!: succeedsE)
qed

text \<open>C24: a frame that was accepted is refused when any single byte of it is changed.\<close>

theorem InvalidFrame_corrupted:
  assumes "length (p_mb_buff mbb) = 256" "InvalidFrame mbb = Some False"
    and "j < unat (mb_index mbb)" "b \<noteq> p_mb_buff mbb ! j"
  shows "InvalidFrame (mbb\<lparr>p_mb_buff := (p_mb_buff mbb)[j := b]\<rparr>) = Some True"
  using assms by (rule corrupted_frame)

theorem InvalidFrame_corrupted_witness:
  "InvalidFrame (frame_mb [1, 3, 0, 1, 0, 1, 0xD5, 0xCA]) = Some False \<and>
   InvalidFrame ((frame_mb [1, 3, 0, 1, 0, 1, 0xD5, 0xCA])\<lparr>p_mb_buff :=
     (p_mb_buff (frame_mb [1, 3, 0, 1, 0, 1, 0xD5, 0xCA]))[1 := 6]\<rparr>) = Some True"
proof -
  have "CRC16 [1, 3, 0, 1, 0, 1, 0xD5, 0xCA] = 0"
     by (simp add: CRC16_def CRC16_step_def Let_def auchCRCHi_def auchCRCLo_def mk16_def)
  then have ok: "InvalidFrame (frame_mb [1, 3, 0, 1, 0, 1, 0xD5, 0xCA]) = Some False"
    by (simp add: InvalidFrame_def frame_mb_def)
  show ?thesis
    by (rule conjI [OF ok InvalidFrame_corrupted]) (simp_all add: ok, simp_all add: frame_mb_def)
qed

end
