(* ===== verification/UsbPort.thy ===== *)
theory UsbPort
  imports ModbusProperties
begin

text \<open>
  The USB port of \<open>src/modbus_hard.c\<close>: the interrupt handler that receives requests and sends
  replies, the parser task, and the save to flash that follows a write.  The handler and the
  task share \<open>MB_USB\<close> without a lock, so the model is a transition system: an iteration of the
  handler's loop may come between any two steps of the task.  What the UART driver delivers is
  the environment's choice; it reads at most the 64 bytes of the handler's buffer, and reports
  received data and room for sending only while the respective interrupt is enabled.
\<close>

section \<open>State\<close>

text \<open>
  Where the task stands: not created, before its set-up, in \<open>k_queue_get\<close>, and inside
  \<open>MBparsing\<close> at the points where it touches \<open>MB_USB\<close>; \<open>T_SAVE i\<close> is before pass \<open>i\<close> of the
  loop of \<open>mh_Write_Eeprom\<close>.
\<close>

datatype task_pc = T_NONE | T_INIT | T_WAIT | T_PARSE | T_INDEX | T_START | T_CHECK | T_SAVE nat | T_SLEEP

text \<open>
  \<open>mh_queue\<close> says whether \<open>MB_USB\<close> is linked into the queue: there is only this one element, and
  appending it twice would corrupt the list.  \<open>sent\<close> collects the frames given to the driver.
\<close>

record 'm usb_port =
  store :: "'m settings"
  MB_data :: mb_struct
  mh_queue :: bool
  rx_irq :: bool
  tx_irq :: bool
  sent :: "u8 list list"
  task :: task_pc

definition MB_USB_zero :: mb_struct where
  "MB_USB_zero = \<lparr>reg_read_last = 0, reg_write_last = 0, eep_start_save = 0, eep_indx = 0,
     eep_state = EEP_FREE, slave_address = 0, mb_index = 0, mb_state = STATE_IDLE,
     er_frame_bad = EV_NOEVENT, p_mb_buff = [], response_size = 0\<rparr>"

definition USB_MB_Buf :: "u8 list" where
  "USB_MB_Buf = replicate MB_FRAME_MAX 0"

definition mh_usb_init :: "bool \<Rightarrow> 'm usb_port \<Rightarrow> 'm usb_port" where
  "mh_usb_init dev_found p =
     (let p = p\<lparr>mh_queue := False\<rparr> in
      if \<not> dev_found then p
      else p\<lparr>MB_data := (MB_data p)\<lparr>reg_read_last := word_of_nat (NUM_BUF - 1),
               reg_write_last := word_of_nat (NUM_BUF - 1), eep_state := EEP_FREE,
               er_frame_bad := EV_NOEVENT, slave_address := MB_ANY_ADDRESS,
               mb_state := STATE_IDLE, p_mb_buff := USB_MB_Buf\<rparr>, task := T_INIT\<rparr>)"

section \<open>The interrupt handler\<close>

definition k_queue_append :: "'m usb_port \<Rightarrow> 'm usb_port option" where
  "k_queue_append p = (if mh_queue p then None else Some (p\<lparr>mh_queue := True\<rparr>))"

definition memcpy :: "u8 list \<Rightarrow> u8 list \<Rightarrow> u8 list option" where
  "memcpy dst src = (if length src \<le> length dst then Some (src @ drop (length src) dst) else None)"

definition uart_receive :: "u8 list \<Rightarrow> 'm usb_port \<Rightarrow> 'm usb_port option" where
  "uart_receive buf p =
     (if All_Idle_Check (MB_data p) = REG_OK then
        if length buf \<ge> MB_FRAME_MIN then do {
          let d = (MB_data p)\<lparr>mb_index := word_of_nat (length buf), mb_state := STATE_PARS\<rparr>;
          b \<leftarrow> memcpy (p_mb_buff d) buf;
          k_queue_append (p\<lparr>MB_data := d\<lparr>p_mb_buff := b\<rparr>\<rparr>)
        } else Some p
      else Some p)"

definition uart_transmit :: "'m usb_port \<Rightarrow> 'm usb_port option" where
  "uart_transmit p =
     (let d = MB_data p in
      if mb_state d = STATE_SEND then
        if length (p_mb_buff d) < unat (response_size d) then None
        else Some (p\<lparr>sent := sent p @ [take (unat (response_size d)) (p_mb_buff d)],
                     tx_irq := False, MB_data := d\<lparr>mb_state := STATE_IDLE\<rparr>\<rparr>)
      else Some p)"

text \<open>One pass of the loop: \<open>rx\<close> is what \<open>uart_fifo_read\<close> returns when data is ready.\<close>

definition uart_usb_interrupt_pass :: "u8 list option \<Rightarrow> bool \<Rightarrow> 'm usb_port \<Rightarrow> 'm usb_port option" where
  "uart_usb_interrupt_pass rx tx_ready p = do {
     p \<leftarrow> (case rx of None \<Rightarrow> Some p | Some buf \<Rightarrow> uart_receive buf p);
     (if tx_ready then uart_transmit p else Some p)
   }"

fun uart_usb_interrupt_handler :: "(u8 list option \<times> bool) list \<Rightarrow> 'm usb_port \<Rightarrow> 'm usb_port option" where
  "uart_usb_interrupt_handler [] p = Some p"
| "uart_usb_interrupt_handler ((rx, tx_ready) # pending) p = do {
     p \<leftarrow> uart_usb_interrupt_pass rx tx_ready p;
     uart_usb_interrupt_handler pending p
   }"

section \<open>The parser task\<close>

definition mh_USB_Transmit_Start :: "'m usb_port \<Rightarrow> 'm usb_port" where
  "mh_USB_Transmit_Start p = p\<lparr>tx_irq := True\<rparr>"

definition mh_Write_Eeprom_body :: "'m nvs_write \<Rightarrow> nat \<Rightarrow> 'm usb_port \<Rightarrow> 'm usb_port option" where
  "mh_Write_Eeprom_body wr i p = do {
     let reg = i + unat (eep_start_save (MB_data p));
     ee \<leftarrow> EESave_Check reg;
     if ee = REG_OK then do {
       v \<leftarrow> read_at (MBbuf_main (store p)) reg;
       Some (p\<lparr>store := (store p)\<lparr>flash :=
         fst (user_mem_update_reg16 wr (flash (store p)) (eep_start_save (MB_data p) + word_of_nat i) v)\<rparr>\<rparr>)
     } else Some p
   }"

definition mb_set_state :: "eMBState \<Rightarrow> 'm usb_port \<Rightarrow> 'm usb_port" where
  "mb_set_state st p = p\<lparr>MB_data := (MB_data p)\<lparr>mb_state := st\<rparr>\<rparr>"

text \<open>
  \<open>MBparsing\<close> up to the assignment of the state that follows the parse.  While the state is
  \<open>STATE_PARS\<close> the handler leaves \<open>MB_USB\<close> alone, so this part is one step.
\<close>

definition MBparsing_parse :: "'m usb_port \<Rightarrow> 'm usb_port option" where
  "MBparsing_parse p = do {
     bad \<leftarrow> InvalidFrame (MB_data p);
     (if bad then Some ((mb_set_state STATE_IDLE p)\<lparr>task := T_WAIT\<rparr>)
      else do {
        (need, regs, d) \<leftarrow> FrameParse (MBbuf_main (store p)) (MB_data p);
        let p = p\<lparr>MB_data := d, store := (store p)\<lparr>MBbuf_main := regs\<rparr>\<rparr>;
        Some (if need then (mb_set_state STATE_SEND p)\<lparr>task := T_INDEX\<rparr>
              else (mb_set_state STATE_IDLE p)\<lparr>task := T_CHECK\<rparr>)
      })
   }"

definition mh_task_Modbus_step :: "'m nvs_write \<Rightarrow> 'm usb_port \<Rightarrow> 'm usb_port option" where
  "mh_task_Modbus_step wr p =
     (case task p of
        T_NONE \<Rightarrow> Some p
      | T_INIT \<Rightarrow> Some (p\<lparr>rx_irq := True, task := T_WAIT\<rparr>)
      | T_WAIT \<Rightarrow> Some (if mh_queue p then p\<lparr>mh_queue := False, task := T_PARSE\<rparr> else p)
      | T_PARSE \<Rightarrow> MBparsing_parse p
      | T_INDEX \<Rightarrow> Some (p\<lparr>MB_data := (MB_data p)\<lparr>mb_index := 0\<rparr>, task := T_START\<rparr>)
      | T_START \<Rightarrow> Some ((mh_USB_Transmit_Start p)\<lparr>task := T_CHECK\<rparr>)
      | T_CHECK \<Rightarrow> Some (p\<lparr>task := if eep_state (MB_data p) = EEP_SAVE then T_SAVE 0 else T_WAIT\<rparr>)
      | T_SAVE i \<Rightarrow>
          (if i < unat (eep_indx (MB_data p))
           then map_option (\<lambda>p. p\<lparr>task := T_SAVE (Suc i)\<rparr>) (mh_Write_Eeprom_body wr i p)
           else Some (p\<lparr>task := T_SLEEP\<rparr>))
      | T_SLEEP \<Rightarrow> Some (p\<lparr>MB_data := (MB_data p)\<lparr>eep_state := EEP_FREE\<rparr>, task := T_WAIT\<rparr>))"

text \<open>The task on its own for \<open>n\<close> steps.\<close>

fun mh_task_Modbus :: "'m nvs_write \<Rightarrow> nat \<Rightarrow> 'm usb_port \<Rightarrow> 'm usb_port option" where
  "mh_task_Modbus wr 0 p = Some p"
| "mh_task_Modbus wr (Suc n) p = do { p \<leftarrow> mh_task_Modbus_step wr p; mh_task_Modbus wr n p }"

section \<open>The transition system\<close>

text \<open>
  The last two kinds of step are the rest of the firmware's: it writes its results into registers
  that are not saved (the temperature, the connection status, the factory address), and the
  command of a factory reset, which \<open>com_task\<close> runs beside the port, makes a pass of the loop of
  \<open>mh_Factory\<close>.
\<close>

inductive usb_step :: "'m nvs_write \<Rightarrow> 'm usb_port \<Rightarrow> 'm usb_port \<Rightarrow> bool" for wr where
  interrupt: "(rx \<noteq> None \<longrightarrow> rx_irq p \<and> length (the rx) \<le> 64) \<Longrightarrow> (tx_ready \<longrightarrow> tx_irq p) \<Longrightarrow>
     uart_usb_interrupt_pass rx tx_ready p = Some p' \<Longrightarrow> usb_step wr p p'"
| modbus_task: "mh_task_Modbus_step wr p = Some p' \<Longrightarrow> usb_step wr p p'"
| firmware: "i < 120 \<Longrightarrow> \<not> reg_saved i \<Longrightarrow>
     usb_step wr p (p\<lparr>store := (store p)\<lparr>MBbuf_main := (MBbuf_main (store p))[i := v]\<rparr>\<rparr>)"
| factory: "i < 120 \<Longrightarrow> mh_Factory_body wr i (store p) = Some s \<Longrightarrow> usb_step wr p (p\<lparr>store := s\<rparr>)"

inductive_cases usb_stepE: "usb_step wr p p'"

text \<open>The port right after boot: the settings loaded, \<open>mh_usb_init\<close> done.\<close>

definition port_zero :: "'m settings \<Rightarrow> 'm usb_port" where
  "port_zero s = \<lparr>store = s, MB_data = MB_USB_zero, mh_queue = False, rx_irq = False,
     tx_irq = False, sent = [], task = T_NONE\<rparr>"

definition usb_boot :: "'m nvs_read \<Rightarrow> 'm nvs_write \<Rightarrow> 'm usb_port \<Rightarrow> bool" where
  "usb_boot rd wr p \<longleftrightarrow> (\<exists>s0 s dev_found. length (MBbuf_main s0) = NUM_BUF \<and>
     mh_Buf_Init rd wr s0 = Some s \<and> p = mh_usb_init dev_found (port_zero s))"

inductive reach :: "('s \<Rightarrow> bool) \<Rightarrow> ('s \<Rightarrow> 's \<Rightarrow> bool) \<Rightarrow> 's \<Rightarrow> bool" for start step where
  start: "start s \<Longrightarrow> reach start step s"
| step: "reach start step s \<Longrightarrow> step s s' \<Longrightarrow> reach start step s'"

text \<open>Transition systems with an inductive invariant.\<close>

locale step_invariant =
  fixes start :: "'s \<Rightarrow> bool" and step :: "'s \<Rightarrow> 's \<Rightarrow> bool" and inv :: "'s \<Rightarrow> bool"
  assumes inv_start: "start s \<Longrightarrow> inv s"
    and inv_step: "inv s \<Longrightarrow> step s s' \<Longrightarrow> inv s'"
begin

lemma reach_inv: "reach start step s \<Longrightarrow> inv s"
  by (induction rule: reach.induct) (auto intro: inv_start inv_step)

lemma reach_next: "reach start step s \<Longrightarrow> step s s' \<Longrightarrow> inv s'"
  by (blast intro: reach_inv inv_step)

end

section \<open>The invariant\<close>

text \<open>The registers whose save is still due: the rest of the range the task is working on.\<close>

definition unsaved :: "'m usb_port \<Rightarrow> nat \<Rightarrow> bool" where
  "unsaved p j \<longleftrightarrow> eep_state (MB_data p) = EEP_SAVE \<and> task p \<noteq> T_SLEEP \<and>
     unat (eep_start_save (MB_data p)) + (case task p of T_SAVE i \<Rightarrow> i | _ \<Rightarrow> 0) \<le> j \<and>
     j < unat (eep_start_save (MB_data p)) + unat (eep_indx (MB_data p))"

text \<open>Every other saved register is in flash, or its last write there was refused.\<close>

definition flash_agrees :: "'m nvs_read \<Rightarrow> 'm refused_writes \<Rightarrow> 'm usb_port \<Rightarrow> bool" where
  "flash_agrees rd refused p \<longleftrightarrow>
     (\<forall>j<120. reg_saved j \<and> \<not> unsaved p j \<longrightarrow> kept rd refused (flash (store p)) j (MBbuf_main (store p) ! j))"

text \<open>Who may touch \<open>MB_USB\<close>, by the place where the task stands.\<close>

fun ownership :: "task_pc \<Rightarrow> bool \<Rightarrow> bool \<Rightarrow> eMBState \<Rightarrow> eMBEep \<Rightarrow> bool" where
  "ownership T_NONE queued tx st eep \<longleftrightarrow> \<not> queued \<and> \<not> tx \<and> st = STATE_IDLE \<and> eep = EEP_FREE"
| "ownership T_INIT queued tx st eep \<longleftrightarrow> \<not> queued \<and> \<not> tx \<and> st = STATE_IDLE \<and> eep = EEP_FREE"
| "ownership T_WAIT queued tx st eep \<longleftrightarrow> (queued \<longleftrightarrow> st = STATE_PARS) \<and> (tx \<longleftrightarrow> st = STATE_SEND) \<and> eep = EEP_FREE"
| "ownership T_PARSE queued tx st eep \<longleftrightarrow> \<not> queued \<and> \<not> tx \<and> st = STATE_PARS \<and> eep = EEP_FREE"
| "ownership T_INDEX queued tx st eep \<longleftrightarrow> \<not> queued \<and> \<not> tx \<and> st = STATE_SEND"
| "ownership T_START queued tx st eep \<longleftrightarrow> \<not> queued \<and> \<not> tx \<and> st = STATE_SEND"
| "ownership T_CHECK queued tx st eep \<longleftrightarrow> (queued \<longleftrightarrow> st = STATE_PARS) \<and> (tx \<longleftrightarrow> st = STATE_SEND) \<and>
     (eep = EEP_SAVE \<longrightarrow> \<not> queued)"
| "ownership (T_SAVE i) queued tx st eep \<longleftrightarrow> \<not> queued \<and> (tx \<longleftrightarrow> st = STATE_SEND) \<and> st \<noteq> STATE_PARS \<and> eep = EEP_SAVE"
| "ownership T_SLEEP queued tx st eep \<longleftrightarrow> \<not> queued \<and> (tx \<longleftrightarrow> st = STATE_SEND) \<and> st \<noteq> STATE_PARS \<and> eep = EEP_SAVE"

definition port_safe :: "'m usb_port \<Rightarrow> bool" where
  "port_safe p \<longleftrightarrow>
     length (MBbuf_main (store p)) = 120 \<and> (task p \<noteq> T_NONE \<longrightarrow> wf_mb (MB_data p) \<and> slave_address (MB_data p) = 0 \<and> er_frame_bad (MB_data p) = EV_NOEVENT) \<and>
     ownership (task p) (mh_queue p) (tx_irq p) (mb_state (MB_data p)) (eep_state (MB_data p)) \<and>
     (task p = T_NONE \<or> task p = T_INIT \<longrightarrow> \<not> rx_irq p) \<and>
     (eep_state (MB_data p) = EEP_SAVE \<longrightarrow>
        unat (eep_start_save (MB_data p)) + unat (eep_indx (MB_data p)) \<le> 120) \<and>
     (mb_state (MB_data p) = STATE_SEND \<longrightarrow>
        CRC16 (reply (MB_data p)) = 0 \<and> unat (response_size (MB_data p)) \<le> 245) \<and>
     (\<forall>f\<in>set (sent p). CRC16 f = 0) \<and>
     (\<forall>j<120. reg_saved j \<longrightarrow> reg_ok j (MBbuf_main (store p) ! j))"

definition port_inv :: "'m nvs_read \<Rightarrow> 'm nvs_write \<Rightarrow> 'm usb_port \<Rightarrow> bool" where
  "port_inv rd wr p \<longleftrightarrow> port_safe p \<and>
     (nvs_laws rd wr \<longrightarrow> (\<forall>refused. refusals refused wr \<longrightarrow> flash_agrees rd refused p))"

section \<open>Every step keeps the invariant\<close>

lemma idle_iff: "All_Idle_Check d = REG_OK \<longleftrightarrow> eep_state d = EEP_FREE \<and> mb_state d = STATE_IDLE"
  by (simp add: All_Idle_Check_def)

lemma owned_receive:
  "ownership t queued tx STATE_IDLE EEP_FREE \<Longrightarrow> t \<noteq> T_NONE \<Longrightarrow> t \<noteq> T_INIT \<Longrightarrow>
     \<not> queued \<and> ownership t True tx STATE_PARS EEP_FREE"
  by (cases t) auto

lemma owned_transmit:
  "ownership t queued True STATE_SEND eep \<Longrightarrow> ownership t queued False STATE_IDLE eep"
  by (cases t) auto

lemma uart_receive_inv:
  assumes "port_inv rd wr p" "length buf \<le> 64" "rx_irq p"
  shows "succeeds (uart_receive buf p) (\<lambda>p'. port_inv rd wr p' \<and> (tx_irq p' \<longleftrightarrow> tx_irq p))"
proof (cases "All_Idle_Check (MB_data p) = REG_OK \<and> length buf \<ge> 4")
  case False
  with assms show ?thesis by (auto simp: uart_receive_def)
next
  case True
  let ?d = "(MB_data p)\<lparr>mb_index := word_of_nat (length buf), mb_state := STATE_PARS,
     p_mb_buff := buf @ drop (length buf) (p_mb_buff (MB_data p))\<rparr>"
  have safe: "port_safe p" and t: "task p \<noteq> T_NONE" "task p \<noteq> T_INIT"
    using assms(1,3) by (auto simp: port_inv_def port_safe_def)
  have idle: "mb_state (MB_data p) = STATE_IDLE" "eep_state (MB_data p) = EEP_FREE"
    using True by (simp_all add: idle_iff)
  have wf: "wf_mb (MB_data p)" and own: "ownership (task p) (mh_queue p) (tx_irq p) STATE_IDLE EEP_FREE"
    using safe t idle by (simp_all add: port_safe_def)
  have "uart_receive buf p = Some (p\<lparr>MB_data := ?d, mh_queue := True\<rparr>)"
    using True wf assms(2) owned_receive [OF own t]
    by (simp add: uart_receive_def memcpy_def k_queue_append_def wf_mb_def Let_def)
  with assms(1,2) safe idle wf owned_receive [OF own t] show ?thesis
    by (simp add: port_inv_def port_safe_def flash_agrees_def unsaved_def wf_mb_def)
qed

lemma port_safe_reply: "port_safe p \<Longrightarrow> mb_state (MB_data p) = STATE_SEND \<Longrightarrow> task p \<noteq> T_NONE"
  by (auto simp: port_safe_def)

lemma uart_transmit_inv:
  assumes "port_inv rd wr p" "tx_irq p"
  shows "succeeds (uart_transmit p) (port_inv rd wr)"
proof (cases "mb_state (MB_data p) = STATE_SEND")
  case False
  with assms show ?thesis by (simp add: uart_transmit_def)
next
  case True
  let ?d = "MB_data p"
  have safe: "port_safe p" using assms(1) by (simp add: port_inv_def)
  have wf: "length (p_mb_buff ?d) = 256" and r: "unat (response_size ?d) \<le> 245" "CRC16 (reply ?d) = 0"
    using safe True port_safe_reply [OF safe True] by (simp_all add: port_safe_def wf_mb_def)
  have "uart_transmit p = Some (p\<lparr>sent := sent p @ [reply ?d], tx_irq := False, MB_data := ?d\<lparr>mb_state := STATE_IDLE\<rparr>\<rparr>)"
    using True wf r by (simp add: uart_transmit_def Let_def reply_def)
  with assms safe True r owned_transmit [of "task p" "mh_queue p" "eep_state ?d"] show ?thesis
    by (simp add: port_inv_def port_safe_def flash_agrees_def unsaved_def wf_mb_def)
qed

lemma uart_usb_interrupt_pass_inv:
  assumes "port_inv rd wr p" "rx \<noteq> None \<longrightarrow> rx_irq p \<and> length (the rx) \<le> 64" "tx_ready \<longrightarrow> tx_irq p"
  shows "succeeds (uart_usb_interrupt_pass rx tx_ready p) (port_inv rd wr)"
proof -
  have "succeeds (case rx of None \<Rightarrow> Some p | Some buf \<Rightarrow> uart_receive buf p)
      (\<lambda>p'. port_inv rd wr p' \<and> (tx_irq p' \<longleftrightarrow> tx_irq p))"
    using assms uart_receive_inv [OF assms(1)] by (cases rx) auto
  then show ?thesis
    unfolding uart_usb_interrupt_pass_def succeeds_bind
    by (rule succeeds_mono) (use assms(3) uart_transmit_inv in auto)
qed

lemma InvalidFrame_defined: "length (p_mb_buff d) = 256 \<Longrightarrow> \<exists>b. InvalidFrame d = Some b"
  by (auto simp: InvalidFrame_def)

lemma MBparsing_parse_inv:
  assumes "port_inv rd wr p" "task p = T_PARSE"
  shows "succeeds (MBparsing_parse p) (port_inv rd wr)"
proof -
  let ?d = "MB_data p" and ?regs = "MBbuf_main (store p)"
  have safe: "port_safe p" using assms(1) by (simp add: port_inv_def)
  have wf: "wf_mb ?d" "length ?regs = 120" and st: "eep_state ?d = EEP_FREE" "\<not> mh_queue p" "\<not> tx_irq p"
    using safe assms(2) by (auto simp: port_safe_def)
  obtain bad where bad: "InvalidFrame ?d = Some bad"
    using InvalidFrame_defined wf(1) by (auto simp: wf_mb_def)
  obtain need regs d where parse: "FrameParse ?regs ?d = Some (need, regs, d)"
    and ps: "parse_safe ?regs ?d (need, regs, d)"
    using FrameParse_safe [OF wf] by (auto elim!: succeedsE)
  have d: "wf_mb d" "length regs = 120" "CRC16 (reply d) = 0" "unat (response_size d) \<le> 245"
      "slave_address d = slave_address ?d" "er_frame_bad d = er_frame_bad ?d" "save_covers ?regs regs d" "\<forall>j<120. regs ! j \<noteq> ?regs ! j \<longrightarrow> reg_ok j (regs ! j)"
    using ps st(1) by (auto simp: parse_safe_def)
  have ok: "\<forall>j<120. reg_saved j \<longrightarrow> reg_ok j (regs ! j)"
    using safe d(8) unfolding port_safe_def by metis
  have cover: "eep_state d = EEP_SAVE \<longrightarrow> unat (eep_start_save d) + unat (eep_indx d) \<le> 120"
    using d(7) by (simp add: save_covers_def)
  have agrees: "flash_agrees rd refused p \<Longrightarrow> task q = T_INDEX \<or> task q = T_CHECK \<Longrightarrow>
      store q = (store p)\<lparr>MBbuf_main := regs\<rparr> \<Longrightarrow> MB_data q = d\<lparr>mb_state := s\<rparr> \<Longrightarrow> flash_agrees rd refused q" for refused q s
    using d(7) st(1) by (auto simp: flash_agrees_def unsaved_def save_covers_def)
  show ?thesis
  proof (cases bad)
    case True
    with bad assms safe st wf show ?thesis
      by (simp add: MBparsing_parse_def mb_set_state_def port_inv_def port_safe_def flash_agrees_def
          unsaved_def wf_mb_def)
  next
    case False
    define q where "q = (if need
       then p\<lparr>MB_data := d\<lparr>mb_state := STATE_SEND\<rparr>, store := (store p)\<lparr>MBbuf_main := regs\<rparr>, task := T_INDEX\<rparr>
       else p\<lparr>MB_data := d\<lparr>mb_state := STATE_IDLE\<rparr>, store := (store p)\<lparr>MBbuf_main := regs\<rparr>, task := T_CHECK\<rparr>)"
    have "MBparsing_parse p = Some q"
      using False bad parse by (simp add: MBparsing_parse_def mb_set_state_def q_def Let_def)
    moreover have "port_safe q"
      using safe d st ok cover assms(2) by (simp add: q_def port_safe_def wf_mb_def reply_def)
    moreover have "flash_agrees rd refused q" if "flash_agrees rd refused p" for refused
      by (rule agrees [OF that, of q "if need then STATE_SEND else STATE_IDLE"]) (simp_all add: q_def)
    ultimately show ?thesis
      using assms(1) by (simp add: port_inv_def)
  qed
qed


lemma mh_Write_Eeprom_body_inv:
  assumes "port_inv rd wr p" "task p = T_SAVE i" "i < unat (eep_indx (MB_data p))"
  shows "succeeds (map_option (\<lambda>p. p\<lparr>task := T_SAVE (Suc i)\<rparr>) (mh_Write_Eeprom_body wr i p)) (port_inv rd wr)"
proof -
  let ?d = "MB_data p" and ?s = "store p"
  define r where "r = i + unat (eep_start_save ?d)"
  have safe: "port_safe p" and eep: "eep_state ?d = EEP_SAVE"
    using assms by (auto simp: port_inv_def port_safe_def)
  have r: "r < 120" and len: "length (MBbuf_main ?s) = 120"
    using safe eep assms(3) by (auto simp: port_safe_def r_def)
  have id: "eep_start_save ?d + word_of_nat i = word_of_nat r"
    by (simp add: r_def add.commute)
  define q where "q = (if reg_saved r then p\<lparr>store := ?s\<lparr>flash :=
      fst (wr (flash ?s) (word_of_nat r) (MBbuf_main ?s ! r))\<rparr>, task := T_SAVE (Suc i)\<rparr>
    else p\<lparr>task := T_SAVE (Suc i)\<rparr>)"
  have q: "map_option (\<lambda>p. p\<lparr>task := T_SAVE (Suc i)\<rparr>) (mh_Write_Eeprom_body wr i p) = Some q"
    using r len by (simp add: mh_Write_Eeprom_body_def perm_saved_iff id q_def user_mem_update_reg16_def Let_def
        flip: r_def)
  have f: "MB_data q = ?d" "task q = T_SAVE (Suc i)" "MBbuf_main (store q) = MBbuf_main ?s"
    by (simp_all add: q_def)
  have "port_safe q"
    using safe assms(2) by (simp add: q_def port_safe_def)
  moreover have "flash_agrees rd refused q" if "nvs_laws rd wr" "refusals refused wr" "flash_agrees rd refused p" for refused
    unfolding flash_agrees_def
  proof (intro allI impI)
    fix j
    assume "j < 120" and j: "reg_saved j \<and> \<not> unsaved q j"
    show "kept rd refused (flash (store q)) j (MBbuf_main (store q) ! j)"
    proof (cases "j = r")
      case True
      with j that(1,2) show ?thesis by (simp add: q_def kept_update)
    next
      case False
      then have "\<not> unsaved p j"
        using j assms(2) by (auto simp: f unsaved_def r_def)
      with that \<open>j < 120\<close> j False r show ?thesis
        by (simp add: q_def flash_agrees_def kept_update)
    qed
  qed
  ultimately show ?thesis
    using assms(1) unfolding q by (simp add: port_inv_def)
qed

lemma mh_task_Modbus_step_inv:
  assumes "port_inv rd wr p"
  shows "succeeds (mh_task_Modbus_step wr p) (port_inv rd wr)"
proof (cases "task p")
  case T_PARSE
  with MBparsing_parse_inv [OF assms] show ?thesis by (simp add: mh_task_Modbus_step_def)
next
  case (T_SAVE i)
  have "\<not> unsaved p j" if "\<not> i < unat (eep_indx (MB_data p))" for j
    using that T_SAVE by (auto simp: unsaved_def)
  with T_SAVE assms mh_Write_Eeprom_body_inv [OF assms T_SAVE] show ?thesis
    by (auto simp: mh_task_Modbus_step_def port_inv_def port_safe_def flash_agrees_def)
qed (use assms eMBEep.exhaust in \<open>auto simp: mh_task_Modbus_step_def mh_USB_Transmit_Start_def port_inv_def
    port_safe_def flash_agrees_def unsaved_def wf_mb_def reply_def\<close>)

lemma firmware_inv:
  assumes "port_inv rd wr p" "i < 120" "\<not> reg_saved i"
  shows "port_inv rd wr (p\<lparr>store := (store p)\<lparr>MBbuf_main := (MBbuf_main (store p))[i := v]\<rparr>\<rparr>)"
  using assms
  by (auto simp: port_inv_def port_safe_def flash_agrees_def unsaved_def nth_list_update)

lemma factory_inv:
  assumes "port_inv rd wr p" "i < 120" "mh_Factory_body wr i (store p) = Some s"
  shows "port_inv rd wr (p\<lparr>store := s\<rparr>)"
proof (cases "reg_saved i")
  case True
  have len: "length (MBbuf_main (store p)) = 120"
    using assms(1) by (simp add: port_inv_def port_safe_def)
  have s: "s = \<lparr>MBbuf_main = (MBbuf_main (store p))[i := reg_default i],
      flash = fst (wr (flash (store p)) (word_of_nat i) (reg_default i))\<rparr>"
    using assms(2,3) True len by (simp add: mh_Factory_body_eq reset_reg_eq)
  have "flash_agrees rd refused (p\<lparr>store := s\<rparr>)"
    if "flash_agrees rd refused p" "nvs_laws rd wr" "refusals refused wr" for refused
    unfolding flash_agrees_def
  proof (intro allI impI)
    fix j
    assume "j < 120" "reg_saved j \<and> \<not> unsaved (p\<lparr>store := s\<rparr>) j"
    then show "kept rd refused (flash (store (p\<lparr>store := s\<rparr>))) j (MBbuf_main (store (p\<lparr>store := s\<rparr>)) ! j)"
      using that assms(2) len
      by (cases "j = i") (simp_all add: s kept_update flash_agrees_def unsaved_def)
  qed
  with assms(1,2) show ?thesis
    by (auto simp: port_inv_def port_safe_def s nth_list_update policy.dflt_ok)
next
  case False
  with assms(2,3) have "s = store p" by (simp add: mh_Factory_body_eq)
  with assms(1) show ?thesis by simp
qed

lemma usb_step_inv:
  assumes "port_inv rd wr p" "usb_step wr p p'"
  shows "port_inv rd wr p'"
  using assms(2)
proof cases
  case (interrupt rx tx_ready)
  show ?thesis
    by (rule succeedsD [OF uart_usb_interrupt_pass_inv [OF assms(1) interrupt(1,2)] interrupt(3)])
next
  case modbus_task
  show ?thesis
    by (rule succeedsD [OF mh_task_Modbus_step_inv [OF assms(1)] modbus_task])
next
  case (firmware i v)
  with firmware_inv [OF assms(1)] show ?thesis by simp
next
  case (factory i s)
  with factory_inv [OF assms(1)] show ?thesis by simp
qed

lemma usb_boot_inv:
  assumes "usb_boot rd wr p"
  shows "port_inv rd wr p"
proof -
  obtain s0 s dev_found where s: "length (MBbuf_main s0) = 120" "mh_Buf_Init rd wr s0 = Some s"
    "p = mh_usb_init dev_found (port_zero s)"
    using assms by (auto simp: usb_boot_def)
  from succeedsD [OF mh_Buf_Init_limits [OF s(1)] s(2)]
  have len: "length (MBbuf_main s) = 120" and ok: "\<forall>j<120. reg_saved j \<longrightarrow> reg_ok j (MBbuf_main s ! j)"
    by auto
  have "\<forall>j<120. reg_saved j \<longrightarrow> kept rd refused (flash s) j (MBbuf_main s ! j)"
    if "nvs_laws rd wr" "refusals refused wr" for refused
    using succeedsD [OF mh_Buf_Init_refines [OF s(1) that(1)] s(2)] that(2) by auto
  with len ok s(3) show ?thesis
    by (auto simp: mh_usb_init_def port_zero_def MB_USB_zero_def USB_MB_Buf_def port_inv_def port_safe_def
        flash_agrees_def wf_mb_def Let_def)
qed

interpretation usb: step_invariant "usb_boot rd wr" "usb_step wr" "port_inv rd wr"
  for rd :: "'m nvs_read" and wr :: "'m nvs_write"
  by unfold_locales (auto intro: usb_boot_inv usb_step_inv)

section \<open>Progress of the task\<close>

fun task_rank :: "task_pc \<Rightarrow> eMBEep \<Rightarrow> nat \<Rightarrow> nat" where
  "task_rank T_NONE eep n = 0"
| "task_rank T_INIT eep n = 0"
| "task_rank T_WAIT eep n = 0"
| "task_rank T_PARSE eep n = 270"
| "task_rank T_INDEX eep n = 262"
| "task_rank T_START eep n = 261"
| "task_rank T_CHECK eep n = 260"
| "task_rank (T_SAVE i) eep n = 2 + (n - i)"
| "task_rank T_SLEEP eep n = 1"

definition port_rank :: "'m usb_port \<Rightarrow> nat" where
  "port_rank p = task_rank (task p) (eep_state (MB_data p)) (unat (eep_indx (MB_data p)))"

definition busy :: "'m usb_port \<Rightarrow> bool" where
  "busy p \<longleftrightarrow> task p \<noteq> T_NONE \<and> task p \<noteq> T_INIT \<and> task p \<noteq> T_WAIT"

lemma unat_u8_le: "unat (w :: u8) \<le> 255"
  using unat_u8_range [of w] by linarith

lemma port_rank_bound: "port_rank p \<le> 270"
  using unat_u8_le [of "eep_indx (MB_data p)"] by (cases "task p") (auto simp: port_rank_def)

lemma port_rank_0: "busy p \<Longrightarrow> 0 < port_rank p"
  by (cases "task p") (auto simp: port_rank_def busy_def)

lemma rank_save: "task_rank (T_SAVE 0) eep (unat (n :: u8)) < 260"
  using unat_u8_le [of n] by simp

lemma mh_task_Modbus_step_rank:
  assumes "busy p" "mh_task_Modbus_step wr p = Some p'"
  shows "port_rank p' < port_rank p \<and> (task p' = T_WAIT \<or> busy p')"
proof (cases "task p")
  case T_PARSE
  with assms show ?thesis
    by (auto simp: mh_task_Modbus_step_def MBparsing_parse_def mb_set_state_def port_rank_def busy_def Let_def
        split: Option.bind_splits if_splits)
next
  case T_CHECK
  with assms rank_save show ?thesis
    by (auto simp: mh_task_Modbus_step_def port_rank_def busy_def split: if_splits)
next
  case (T_SAVE i)
  have "MB_data q = MB_data p" if "mh_Write_Eeprom_body wr i p = Some q" for q
    using that by (auto simp: mh_Write_Eeprom_body_def Let_def split: Option.bind_splits if_splits)
  with T_SAVE assms show ?thesis
    by (auto simp: mh_task_Modbus_step_def port_rank_def busy_def split: if_splits)
qed (use assms in \<open>auto simp: mh_task_Modbus_step_def mh_USB_Transmit_Start_def port_rank_def busy_def\<close>)

lemma uart_receive_kept:
  "uart_receive buf p = Some p' \<Longrightarrow> task p' = task p \<and> eep_state (MB_data p') = eep_state (MB_data p) \<and>
     eep_indx (MB_data p') = eep_indx (MB_data p)"
  by (auto simp: uart_receive_def memcpy_def k_queue_append_def Let_def split: if_splits)

lemma uart_transmit_kept:
  "uart_transmit p = Some p' \<Longrightarrow> task p' = task p \<and> eep_state (MB_data p') = eep_state (MB_data p) \<and>
     eep_indx (MB_data p') = eep_indx (MB_data p) \<and> mh_queue p' = mh_queue p \<and>
     p_mb_buff (MB_data p') = p_mb_buff (MB_data p) \<and> mb_index (MB_data p') = mb_index (MB_data p) \<and>
     (mb_state (MB_data p) \<noteq> STATE_SEND \<longrightarrow> p' = p)"
  by (auto simp: uart_transmit_def Let_def split: if_splits)

lemma uart_usb_interrupt_pass_rank:
  "uart_usb_interrupt_pass rx tx p = Some p' \<Longrightarrow> port_rank p' = port_rank p \<and> task p' = task p"
  by (auto simp: uart_usb_interrupt_pass_def port_rank_def split: option.splits if_splits Option.bind_splits
      dest!: uart_receive_kept uart_transmit_kept)

text \<open>
  A request is over when no reply waits to be sent and no save is due; all that is left of the
  task's work is to wait again.
\<close>

definition request_over :: "'m usb_port \<Rightarrow> bool" where
  "request_over p \<longleftrightarrow> task p = T_CHECK \<and> eep_state (MB_data p) = EEP_FREE \<and> mb_state (MB_data p) \<noteq> STATE_SEND"

text \<open>Before that, the handler does nothing, or hands the reply to the driver.\<close>

definition reply_handed :: "'m usb_port \<Rightarrow> 'm usb_port" where
  "reply_handed p = p\<lparr>sent := sent p @ [reply (MB_data p)], tx_irq := False,
     MB_data := (MB_data p)\<lparr>mb_state := STATE_IDLE\<rparr>\<rparr>"

lemma owned_busy:
  "ownership t queued tx st eep \<Longrightarrow> t \<noteq> T_NONE \<Longrightarrow> t \<noteq> T_INIT \<Longrightarrow> t \<noteq> T_WAIT \<Longrightarrow>
     \<not> (t = T_CHECK \<and> eep = EEP_FREE \<and> st \<noteq> STATE_SEND) \<Longrightarrow> \<not> queued \<and> (st \<noteq> STATE_IDLE \<or> eep = EEP_SAVE)"
  by (cases t; cases eep) auto

lemma transmit_reply:
  "uart_transmit p = Some p' \<Longrightarrow> p' = p \<or> mb_state (MB_data p) = STATE_SEND \<and> p' = reply_handed p"
  by (auto simp: uart_transmit_def reply_handed_def reply_def Let_def split: if_splits)

lemma uart_usb_interrupt_pass_excluded:
  assumes "port_safe p" "busy p" "\<not> request_over p" "uart_usb_interrupt_pass rx tx p = Some p'"
  shows "\<not> mh_queue p' \<and> (p' = p \<or> mb_state (MB_data p) = STATE_SEND \<and> p' = reply_handed p)"
proof -
  have own: "\<not> mh_queue p" "mb_state (MB_data p) \<noteq> STATE_IDLE \<or> eep_state (MB_data p) = EEP_SAVE"
    using assms(1-3) owned_busy [of "task p" "mh_queue p" "tx_irq p" "mb_state (MB_data p)" "eep_state (MB_data p)"]
    by (auto simp: port_safe_def busy_def request_over_def)
  then have "All_Idle_Check (MB_data p) \<noteq> REG_OK" by (auto simp: idle_iff)
  then have "uart_receive buf p = Some p" for buf by (simp add: uart_receive_def)
  then have "if tx then uart_transmit p = Some p' else p' = p"
    using assms(4) by (simp add: uart_usb_interrupt_pass_def split: option.splits if_splits)
  with own(1) transmit_reply [of p p'] show ?thesis by (auto simp: reply_handed_def split: if_splits)
qed

lemma request_over_waits:
  assumes "request_over p" "uart_usb_interrupt_pass rx tx p = Some p'"
  shows "mh_task_Modbus_step wr p = Some (p\<lparr>task := T_WAIT\<rparr>) \<and>
     mh_task_Modbus_step wr p' = Some (p'\<lparr>task := T_WAIT\<rparr>)"
proof -
  have "task p' = T_CHECK \<and> eep_state (MB_data p') = EEP_FREE"
    using assms by (auto simp: uart_usb_interrupt_pass_def request_over_def
        split: option.splits if_splits Option.bind_splits dest!: uart_receive_kept uart_transmit_kept)
  with assms(1) show ?thesis by (simp add: mh_task_Modbus_step_def request_over_def)
qed

section \<open>A whole exchange\<close>

text \<open>The port with nothing to do.\<close>

definition port_ready :: "'m usb_port \<Rightarrow> bool" where
  "port_ready p \<longleftrightarrow> task p = T_WAIT \<and> All_Idle_Check (MB_data p) = REG_OK \<and> rx_irq p"

text \<open>A request arrives, the task runs until it waits again, the driver asks for the reply.\<close>

definition exchange :: "'m nvs_write \<Rightarrow> u8 list \<Rightarrow> nat \<Rightarrow> 'm usb_port \<Rightarrow> 'm usb_port option" where
  "exchange wr msg n p = do {
     p \<leftarrow> uart_usb_interrupt_handler [(Some msg, False)] p;
     p \<leftarrow> mh_task_Modbus wr n p;
     uart_usb_interrupt_handler [(None, True)] p
   }"

definition received :: "u8 list \<Rightarrow> 'm usb_port \<Rightarrow> mb_struct" where
  "received msg p = (MB_data p)\<lparr>mb_index := word_of_nat (length msg), mb_state := STATE_PARS,
     p_mb_buff := msg @ drop (length msg) (p_mb_buff (MB_data p))\<rparr>"

lemma received_fields:
  assumes "port_safe p" "port_ready p" "4 \<le> length msg" "length msg \<le> 64"
  shows "wf_mb (received msg p)" "unat (mb_index (received msg p)) = length msg"
    "p_mb_buff (received msg p) = msg @ drop (length msg) (p_mb_buff (MB_data p))"
    "eep_state (received msg p) = EEP_FREE" "length (MBbuf_main (store p)) = 120"
    "InvalidFrame (received msg p) = Some (CRC16 msg \<noteq> 0)"
proof -
  have wf: "wf_mb (MB_data p)" "slave_address (MB_data p) = 0" "er_frame_bad (MB_data p) = EV_NOEVENT"
    "eep_state (MB_data p) = EEP_FREE"
    using assms(1,2) by (auto simp: port_safe_def port_ready_def idle_iff)
  moreover have "unat (word_of_nat (length msg) :: u8) = length msg"
    using assms(4) by (simp add: unat_of_nat)
  ultimately show "wf_mb (received msg p)" "unat (mb_index (received msg p)) = length msg"
    "p_mb_buff (received msg p) = msg @ drop (length msg) (p_mb_buff (MB_data p))"
    "eep_state (received msg p) = EEP_FREE" "InvalidFrame (received msg p) = Some (CRC16 msg \<noteq> 0)"
    using assms(3,4) by (auto simp: received_def wf_mb_def InvalidFrame_def)
  show "length (MBbuf_main (store p)) = 120" using assms(1) by (simp add: port_safe_def)
qed

lemma receive_pass:
  assumes "port_safe p" "port_ready p" "4 \<le> length msg" "length msg \<le> 64"
  shows "uart_usb_interrupt_handler [(Some msg, False)] p = Some (p\<lparr>MB_data := received msg p, mh_queue := True\<rparr>)"
proof -
  have "wf_mb (MB_data p)" "\<not> mh_queue p"
    using assms(1,2) by (auto simp: port_safe_def port_ready_def idle_iff)
  with assms show ?thesis
    by (simp add: uart_usb_interrupt_pass_def uart_receive_def port_ready_def received_def memcpy_def
        k_queue_append_def wf_mb_def Let_def)
qed

lemma exchange_answered:
  assumes safe: "port_safe p" "port_ready p" and len: "4 \<le> length msg" "length msg \<le> 64" and crc: "CRC16 msg = 0"
    and parse: "succeeds (FrameParse (MBbuf_main (store p)) (received msg p))
       (\<lambda>(need, regs, d). need \<and> eep_state d = EEP_FREE \<and> regs = regs' \<and> reply d = r)"
  shows "succeeds (exchange wr msg 5 p) (\<lambda>p'. port_ready p' \<and> sent p' = sent p @ [r] \<and>
     store p' = (store p)\<lparr>MBbuf_main := regs'\<rparr>)"
proof -
  note rec = received_fields [OF safe len]
  obtain d where d: "FrameParse (MBbuf_main (store p)) (received msg p) = Some (True, regs', d)"
      "eep_state d = EEP_FREE" "reply d = r"
    using parse by (auto elim!: succeedsE)
  from succeedsD [OF FrameParse_safe [OF rec(1,5)] d(1)]
  have wf: "length (p_mb_buff d) = 256" "unat (response_size d) \<le> 245"
    by (simp_all add: parse_safe_def wf_mb_def)
  have t: "task p = T_WAIT" "rx_irq p" using safe(2) by (simp_all add: port_ready_def)
  have run: "mh_task_Modbus wr 5 (p\<lparr>MB_data := received msg p, mh_queue := True\<rparr>) =
      Some (p\<lparr>MB_data := d\<lparr>mb_state := STATE_SEND, mb_index := 0\<rparr>, mh_queue := False,
        store := (store p)\<lparr>MBbuf_main := regs'\<rparr>, tx_irq := True, task := T_WAIT\<rparr>)"
    using t rec(6) crc d(1,2)
    by (simp add: numeral_eq_Suc mh_task_Modbus_step_def MBparsing_parse_def mb_set_state_def
        mh_USB_Transmit_Start_def Let_def)
  show ?thesis
    unfolding exchange_def receive_pass [OF safe len] using run wf t d(2,3)
    by (simp add: uart_usb_interrupt_pass_def uart_transmit_def port_ready_def idle_iff reply_def Let_def)
qed

lemma exchange_ignored:
  assumes safe: "port_safe p" "port_ready p" and len: "4 \<le> length msg" "length msg \<le> 64" and crc: "CRC16 msg \<noteq> 0"
  shows "succeeds (exchange wr msg 2 p) (\<lambda>p'. port_ready p' \<and> sent p' = sent p \<and> store p' = store p)"
proof -
  note rec = received_fields [OF safe len]
  have t: "task p = T_WAIT" "rx_irq p" using safe(2) by (simp_all add: port_ready_def)
  have "mh_task_Modbus wr 2 (p\<lparr>MB_data := received msg p, mh_queue := True\<rparr>) =
      Some (p\<lparr>MB_data := (received msg p)\<lparr>mb_state := STATE_IDLE\<rparr>, mh_queue := False, task := T_WAIT\<rparr>)"
    using t rec(6) crc
    by (simp add: numeral_eq_Suc mh_task_Modbus_step_def MBparsing_parse_def mb_set_state_def Let_def)
  with t rec(4) show ?thesis
    unfolding exchange_def receive_pass [OF safe len]
    by (simp add: uart_usb_interrupt_pass_def uart_transmit_def port_ready_def idle_iff Let_def)
qed

end
