(* ===== verification/UsbProperties.thy ===== *)
theory UsbProperties
  imports UsbPort
begin

text \<open>
  The properties of the USB port as a whole: memory safety and mutual exclusion for every
  interleaving, complete exchanges, progress of the task, and the durability of settings.
\<close>

section \<open>Properties\<close>

lemma run_to_wait:
  fixes p :: "'m usb_port"
  assumes "port_inv rd wr p" "busy p" "task p \<noteq> T_PARSE"
  shows "\<exists>n p'. mh_task_Modbus wr n p = Some p' \<and> task p' = T_WAIT \<and> port_inv rd wr p' \<and>
     MBbuf_main (store p') = MBbuf_main (store p)"
  using assms
proof (induction "port_rank p" arbitrary: p rule: less_induct)
  case less
  obtain q where q: "mh_task_Modbus_step wr p = Some q" "port_inv rd wr q"
    using mh_task_Modbus_step_inv [OF less.prems(1)] by (auto elim: succeedsE)
  have regs: "MBbuf_main (store q) = MBbuf_main (store p)" and "task q \<noteq> T_PARSE"
    using q(1) less.prems(2,3)
    by (auto simp: mh_task_Modbus_step_def mh_Write_Eeprom_body_def mh_USB_Transmit_Start_def busy_def Let_def
        split: task_pc.splits if_splits Option.bind_splits)
  have rank: "port_rank q < port_rank p" "task q = T_WAIT \<or> busy q"
    using mh_task_Modbus_step_rank [OF less.prems(2) q(1)] by simp_all
  show ?case
  proof (cases "task q = T_WAIT")
    case True
    with q regs show ?thesis by (intro exI [of _ "Suc 0"] exI [of _ q]) simp
  next
    case False
    with rank obtain n p' where n: "mh_task_Modbus wr n q = Some p'" "task p' = T_WAIT" "port_inv rd wr p'"
        "MBbuf_main (store p') = MBbuf_main (store q)"
      using less.hyps [OF rank(1) q(2)] \<open>task q \<noteq> T_PARSE\<close> by blast
    with q regs show ?thesis by (intro exI [of _ "Suc n"] exI [of _ p']) simp
  qed
qed

lemma with_crc_length [simp]: "length (with_crc m) = length m + 2"
  by (simp add: with_crc_def)

lemma with_crc_append: "with_crc m @ r = m @ [lo8 (CRC16 m), hi8 (CRC16 m)] @ r"
  by (simp add: with_crc_def)

lemma port_ready_safe: "reach (usb_boot rd wr) (usb_step wr) p \<Longrightarrow> port_safe p"
  using usb.reach_inv [of rd wr p] by (simp add: port_inv_def)

lemma read_exchange:
  fixes p :: "'m usb_port" and idx n :: u16
  assumes "reach (usb_boot rd wr) (usb_step wr) p" "port_ready p" "addr \<noteq> 0"
    and "unat idx \<le> 119" "unat idx + unat n \<le> 120"
  shows "succeeds (exchange wr (with_crc [addr, 3, hi8 idx, lo8 idx, hi8 n, lo8 n]) 5 p)
     (\<lambda>p'. port_ready p' \<and>
        sent p' = sent p @ [with_crc ([addr, 3, ucast (push_bit 1 n)] @
          be_bytes (take (unat n) (drop (unat idx) (MBbuf_main (store p)))))] \<and>
        store p' = (store p)\<lparr>MBbuf_main := MBbuf_main (store p)\<rparr>)"
proof -
  let ?msg = "with_crc [addr, 3, hi8 idx, lo8 idx, hi8 n, lo8 n]"
  note safe = port_ready_safe [OF assms(1)]
  have len: "4 \<le> length ?msg" "length ?msg \<le> 64" by simp_all
  note rec = received_fields [OF safe assms(2) len]
  have "mb_index (received ?msg p) = 8" by (simp add: received_def)
  moreover have "p_mb_buff (received ?msg p) = [addr, 3, hi8 idx, lo8 idx, hi8 n, lo8 n] @
      [lo8 (CRC16 [addr, 3, hi8 idx, lo8 idx, hi8 n, lo8 n]), hi8 (CRC16 [addr, 3, hi8 idx, lo8 idx, hi8 n, lo8 n])] @
      drop (length ?msg) (p_mb_buff (MB_data p))"
    unfolding rec(3) by (rule with_crc_append)
  ultimately have "succeeds (FrameParse (MBbuf_main (store p)) (received ?msg p)) (\<lambda>(need, regs, d).
      need \<and> eep_state d = EEP_FREE \<and> regs = MBbuf_main (store p) \<and>
      reply d = with_crc ([addr, 3, ucast (push_bit 1 n)] @
          be_bytes (take (unat n) (drop (unat idx) (MBbuf_main (store p))))))"
    using read_request [OF rec(1,5), of addr idx n] assms(3-5) rec(4) by (auto elim!: succeeds_mono)
  from exchange_answered [OF safe assms(2) len CRC16_with_crc this] show ?thesis .
qed

lemma write_persists:
  fixes p :: "'m usb_port" and idx n :: u16
  assumes "nvs_laws rd wr" "refusals refused wr"
    and "reach (usb_boot rd wr) (usb_step wr) p" "port_ready p"
    and "unat n = length vals" "vals \<noteq> []" "length vals \<le> 27" "unat idx + length vals \<le> 120"
    and "\<forall>k<length vals. reg_writable (unat idx + k) \<and> reg_ok (unat idx + k) (vals ! k)"
  shows "\<exists>p0 m p'. uart_usb_interrupt_handler [(Some (with_crc ([addr, 0x10, hi8 idx, lo8 idx, hi8 n, lo8 n,
        word_of_nat (2 * length vals)] @ be_bytes vals)), False)] p = Some p0 \<and>
      mh_task_Modbus wr m p0 = Some p' \<and> task p' = T_WAIT \<and> eep_state (MB_data p') = EEP_FREE \<and>
      (\<forall>k<length vals. MBbuf_main (store p') ! (unat idx + k) = vals ! k \<and>
         (reg_saved (unat idx + k) \<longrightarrow> kept rd refused (flash (store p')) (unat idx + k) (vals ! k)))"
proof -
  let ?m = "[addr, 0x10, hi8 idx, lo8 idx, hi8 n, lo8 n, word_of_nat (2 * length vals)] @ be_bytes vals"
  let ?msg = "with_crc ?m" and ?regs = "MBbuf_main (store p)"
  let ?regs' = "take (unat idx) ?regs @ vals @ drop (unat idx + length vals) ?regs"
  note safe = port_ready_safe [OF assms(3)]
  have len: "4 \<le> length ?msg" "length ?msg \<le> 64" using assms(7) by simp_all
  note rec = received_fields [OF safe assms(4) len]
  let ?p0 = "p\<lparr>MB_data := received ?msg p, mh_queue := True\<rparr>"
  note p0 = receive_pass [OF safe assms(4) len]
  have t: "task p = T_WAIT" "rx_irq p" using assms(4) by (simp_all add: port_ready_def)
  have inv0: "port_inv rd wr ?p0"
    using uart_usb_interrupt_pass_inv [OF usb.reach_inv [OF assms(3)], of "Some ?msg" False] p0 t(2) len(2)
    by (auto elim!: succeedsE)
  have buf: "p_mb_buff (received ?msg p) = [addr, 0x10, hi8 idx, lo8 idx, hi8 n, lo8 n, word_of_nat (2 * length vals)] @
      be_bytes vals @ [lo8 (CRC16 ?m), hi8 (CRC16 ?m)] @ drop (length ?msg) (p_mb_buff (MB_data p))"
    unfolding rec(3) by (simp only: with_crc_append append_assoc)
  have idx: "unat (mb_index (received ?msg p)) = 9 + 2 * length vals"
    using rec(2) by simp
  obtain need d where parse: "FrameParse ?regs (received ?msg p) = Some (need, ?regs', d)"
    using write_request [OF rec(1,5) assms(5,6) idx buf assms(8,9)] by (auto elim!: succeedsE)
  obtain p1 where p1: "mh_task_Modbus wr 2 ?p0 = Some p1" "MBbuf_main (store p1) = ?regs'" "busy p1"
      "task p1 \<noteq> T_PARSE"
    using t rec(6) parse CRC16_with_crc [of ?m]
    by (auto simp: numeral_eq_Suc mh_task_Modbus_step_def MBparsing_parse_def mb_set_state_def busy_def Let_def)
  have inv1: "port_inv rd wr p1"
  proof -
    obtain q where q: "mh_task_Modbus_step wr ?p0 = Some q" "mh_task_Modbus_step wr q = Some p1"
      using p1(1) by (auto simp: numeral_2_eq_2 split: Option.bind_splits)
    show ?thesis
      by (rule succeedsD [OF mh_task_Modbus_step_inv q(2)])
        (rule succeedsD [OF mh_task_Modbus_step_inv [OF inv0] q(1)])
  qed
  obtain m p' where m: "mh_task_Modbus wr m p1 = Some p'" "task p' = T_WAIT" "port_inv rd wr p'"
      "MBbuf_main (store p') = ?regs'"
    using run_to_wait [OF inv1 p1(3,4)] p1(2) by auto
  have all: "mh_task_Modbus wr (2 + m) ?p0 = Some p'"
    using p1(1) m(1) by (auto simp: numeral_2_eq_2 split: Option.bind_splits)
  have ram: "MBbuf_main (store p') ! (unat idx + k) = vals ! k" if "k < length vals" for k
    using that m(4) rec(5) assms(8) by (simp add: nth_append min_def)
  have free: "eep_state (MB_data p') = EEP_FREE"
    using m(2,3) by (simp add: port_inv_def port_safe_def)
  then have keep: "kept rd refused (flash (store p')) j (MBbuf_main (store p') ! j)" if "j < 120" "reg_saved j" for j
    using m(3) assms(1,2) that by (simp add: port_inv_def flash_agrees_def unsaved_def)
  have "kept rd refused (flash (store p')) (unat idx + k) (vals ! k)"
    if "k < length vals" "reg_saved (unat idx + k)" for k
    using keep [of "unat idx + k"] ram [OF that(1)] that assms(8) by simp
  with ram have "\<forall>k<length vals. MBbuf_main (store p') ! (unat idx + k) = vals ! k \<and>
      (reg_saved (unat idx + k) \<longrightarrow> kept rd refused (flash (store p')) (unat idx + k) (vals ! k))"
    by blast
  with p0 all m(2) free show ?thesis by blast
qed

lemma survives_reboot:
  fixes p :: "'m usb_port"
  assumes "nvs_laws rd wr" "refusals refused wr" "reach (usb_boot rd wr) (usb_step wr) p"
    and "eep_state (MB_data p) = EEP_FREE" "length regs = 120"
  shows "succeeds (mh_Buf_Init rd wr ((store p)\<lparr>MBbuf_main := regs\<rparr>))
     (\<lambda>s. \<forall>j<120. reg_saved j \<longrightarrow> refused (flash (store p)) (word_of_nat j) \<noteq> Some (MBbuf_main (store p) ! j) \<longrightarrow>
        MBbuf_main s ! j = MBbuf_main (store p) ! j)"
proof -
  have "port_inv rd wr p" using usb.reach_inv [OF assms(3)] .
  with assms(1,2,4) have "\<forall>j<120. reg_saved j \<longrightarrow> kept rd refused (flash (store p)) j (MBbuf_main (store p) ! j)"
      "\<forall>j<120. reg_saved j \<longrightarrow> reg_ok j (MBbuf_main (store p) ! j)"
    by (auto simp: port_inv_def port_safe_def flash_agrees_def unsaved_def)
  with load_kept [of "(store p)\<lparr>MBbuf_main := regs\<rparr>" rd wr] assms(1,5) show ?thesis
    by (auto elim!: succeeds_mono)
qed

text \<open>A port that is ready, and one whose task has taken a request, for the witnesses.\<close>

lemma ready_port:
  fixes rd :: "'m nvs_read" and wr :: "'m nvs_write"
  shows "\<exists>p. reach (usb_boot rd wr) (usb_step wr) p \<and> port_ready p \<and> sent p = [] \<and>
     MBbuf_main (store p) ! 0 = 101"
proof -
  let ?s0 = "\<lparr>MBbuf_main = 101 # replicate 119 0, flash = undefined\<rparr> :: 'm settings"
  obtain s where s: "mh_Buf_Init rd wr ?s0 = Some s" "length (MBbuf_main s) = 120"
      "\<forall>j<120. if reg_saved j then reg_ok j (MBbuf_main s ! j) else MBbuf_main s ! j = MBbuf_main ?s0 ! j"
    using mh_Buf_Init_limits [of ?s0 rd wr] by (auto elim!: succeedsE)
  have "\<not> reg_saved 0"
    by (simp add: reg_saved_def perm_check_def default_state_nth MAIN_BUF_TABLE_def X_BUF_def)
  with s(3) have "MBbuf_main s ! 0 = 101" by auto
  let ?p = "mh_usb_init True (port_zero s)"
  let ?q = "?p\<lparr>rx_irq := True, task := T_WAIT\<rparr>"
  have "usb_boot rd wr ?p"
    unfolding usb_boot_def by (intro exI [of _ ?s0] exI [of _ s] exI [of _ True]) (simp add: s(1))
  moreover have "usb_step wr ?p ?q"
    by (rule modbus_task) (simp add: mh_task_Modbus_step_def mh_usb_init_def Let_def)
  ultimately have "reach (usb_boot rd wr) (usb_step wr) ?q"
    by (blast intro: reach.intros)
  moreover have "port_ready ?q \<and> sent ?q = []"
    by (simp add: port_ready_def idle_iff mh_usb_init_def port_zero_def Let_def)
  ultimately show ?thesis
    using \<open>MBbuf_main s ! 0 = 101\<close>
    by (intro exI [of _ ?q]) (simp add: mh_usb_init_def port_zero_def Let_def)
qed

lemma parsing_port:
  "\<exists>p. reach (usb_boot map_read map_write) (usb_step map_write) p \<and> task p = T_PARSE \<and> rx_irq p \<and>
     take 4 (p_mb_buff (MB_data p)) = [1, 2, 3, 4]"
proof -
  obtain p where p: "reach (usb_boot map_read map_write) (usb_step map_write) p" "port_ready p"
    using ready_port by blast
  note rec = received_fields [OF port_ready_safe [OF p(1)] p(2), of "[1, 2, 3, 4]"]
  let ?q = "p\<lparr>MB_data := received [1, 2, 3, 4] p, mh_queue := True\<rparr>"
  have "usb_step map_write p ?q"
    using receive_pass [OF port_ready_safe [OF p(1)] p(2), of "[1, 2, 3, 4]"] p(2)
    by (intro interrupt [of "Some [1, 2, 3, 4]" p False]) (auto simp: port_ready_def split: Option.bind_splits)
  moreover have "usb_step map_write ?q (?q\<lparr>mh_queue := False, task := T_PARSE\<rparr>)"
    using p(2) by (intro modbus_task) (simp add: mh_task_Modbus_step_def port_ready_def)
  ultimately have "reach (usb_boot map_read map_write) (usb_step map_write) (?q\<lparr>mh_queue := False, task := T_PARSE\<rparr>)"
    using p(1) by (blast intro: reach.intros)
  then show ?thesis
    using p(2) rec(3) by (intro exI [of _ "?q\<lparr>mh_queue := False, task := T_PARSE\<rparr>"]) (simp add: port_ready_def)
qed


lemma reach_task:
  "reach (usb_boot rd wr) (usb_step wr) p \<Longrightarrow> mh_task_Modbus wr n p = Some q \<Longrightarrow>
     reach (usb_boot rd wr) (usb_step wr) q"
  by (induction n arbitrary: p) (auto split: Option.bind_splits intro: reach.step modbus_task)

lemma sending_port:
  "\<exists>p. reach (usb_boot map_read map_write) (usb_step map_write) p \<and> sent p \<noteq> []"
proof -
  let ?reach = "reach (usb_boot map_read map_write) (usb_step map_write)"
  let ?msg = "with_crc [1, 3, hi8 0, lo8 0, hi8 1, lo8 1]"
  obtain p where p: "?reach p" "port_ready p" "sent p = []"
    using ready_port by blast
  from read_exchange [OF p(1,2), of 1 0 1]
  obtain p' where p': "exchange map_write ?msg 5 p = Some p'" "sent p' \<noteq> []" "task p' = T_WAIT"
    by (auto simp: port_ready_def elim!: succeedsE)
  then obtain p0 q where steps: "uart_usb_interrupt_pass (Some ?msg) False p = Some p0"
      "mh_task_Modbus map_write 5 p0 = Some q" "uart_transmit q = Some p'"
    by (auto simp: exchange_def uart_usb_interrupt_pass_def [of None] split: Option.bind_splits)
  have "usb_step map_write p p0"
    using p(2) steps(1) by (intro interrupt [of "Some ?msg" p False]) (simp_all add: port_ready_def)
  with p(1) steps(2) have q: "?reach q" by (blast intro: reach.step reach_task)
  show ?thesis
  proof (cases "mb_state (MB_data q) = STATE_SEND")
    case True
    with port_ready_safe [OF q] uart_transmit_kept [OF steps(3)] p'(3) have "tx_irq q"
      by (auto simp: port_safe_def)
    with steps(3) have "usb_step map_write q p'"
      by (intro interrupt [of None q True]) (simp_all add: uart_usb_interrupt_pass_def)
    with q p'(2) show ?thesis by (blast intro: reach.step)
  next
    case False
    with uart_transmit_kept [OF steps(3)] q p'(2) show ?thesis by auto
  qed
qed

text \<open>C1: in every reachable state of the USB port, whatever the host sends, no step of the parser
  task and no pass of the interrupt handler leaves an array, and \<open>MB_USB\<close> is never appended to
  the queue while it is still linked.\<close>

theorem usb_memory_safe:
  fixes p :: "'m usb_port"
  assumes "reach (usb_boot rd wr) (usb_step wr) p"
  shows "mh_task_Modbus_step wr p \<noteq> None \<and>
     (\<forall>rx tx_ready. (rx \<noteq> None \<longrightarrow> rx_irq p \<and> length (the rx) \<le> 64) \<longrightarrow> (tx_ready \<longrightarrow> tx_irq p) \<longrightarrow>
        uart_usb_interrupt_pass rx tx_ready p \<noteq> None)"
proof -
  note inv = usb.reach_inv [OF assms]
  show ?thesis
    using mh_task_Modbus_step_inv [OF inv] uart_usb_interrupt_pass_inv [OF inv]
    by (metis succeeds_None)
qed

theorem usb_memory_safe_witness:
  "\<exists>p. reach (usb_boot map_read map_write) (usb_step map_write) p \<and> task p = T_PARSE \<and>
     mh_task_Modbus_step map_write p \<noteq> None"
  using parsing_port usb_memory_safe by blast

text \<open>C2: while the task works on a request, from taking it out of the queue until its reply has been
  handed to the driver and its save has ended, a pass of the interrupt handler changes nothing, except
  that it hands over the reply; in particular it neither touches the frame nor queues anything.  Once
  there is neither a reply to send nor a save to make, all that is left of the task's work is to wait
  again, and a pass of the handler, which may then receive the next request, leaves it at that.\<close>

theorem usb_mutual_exclusion:
  fixes p :: "'m usb_port"
  assumes "reach (usb_boot rd wr) (usb_step wr) p" and "busy p"
    and "uart_usb_interrupt_pass rx tx_ready p = Some p'"
  shows "if request_over p
     then mh_task_Modbus_step wr p = Some (p\<lparr>task := T_WAIT\<rparr>) \<and>
       mh_task_Modbus_step wr p' = Some (p'\<lparr>task := T_WAIT\<rparr>)
     else \<not> mh_queue p' \<and> p_mb_buff (MB_data p') = p_mb_buff (MB_data p) \<and>
       mb_index (MB_data p') = mb_index (MB_data p) \<and>
       (p' = p \<or> mb_state (MB_data p) = STATE_SEND \<and> p' = reply_handed p) \<and> (task p = T_PARSE \<longrightarrow> p' = p)"
proof (cases "request_over p")
  case True
  with request_over_waits [OF True assms(3)] show ?thesis by simp
next
  case False
  have "task p = T_PARSE \<Longrightarrow> mb_state (MB_data p) \<noteq> STATE_SEND"
    using port_ready_safe [OF assms(1)] by (auto simp: port_safe_def)
  with uart_usb_interrupt_pass_excluded [OF port_ready_safe [OF assms(1)] assms(2) False assms(3)] False
  show ?thesis by (auto simp: reply_handed_def)
qed

theorem usb_mutual_exclusion_witness:
  "\<exists>p. reach (usb_boot map_read map_write) (usb_step map_write) p \<and>
     uart_usb_interrupt_pass (Some [9, 9, 9, 9, 9]) False p = Some p \<and> take 4 (p_mb_buff (MB_data p)) = [1, 2, 3, 4]"
proof -
  obtain p where p: "reach (usb_boot map_read map_write) (usb_step map_write) p" "task p = T_PARSE" "rx_irq p"
      "take 4 (p_mb_buff (MB_data p)) = [1, 2, 3, 4]"
    using parsing_port by blast
  have "uart_usb_interrupt_pass (Some [9, 9, 9, 9, 9]) False p \<noteq> None"
    using uart_usb_interrupt_pass_inv [OF usb.reach_inv [OF p(1)], of "Some [9, 9, 9, 9, 9]" False] p(3)
    by (auto elim!: succeedsE)
  then obtain p' where p': "uart_usb_interrupt_pass (Some [9, 9, 9, 9, 9]) False p = Some p'" by blast
  from usb_mutual_exclusion [OF p(1) _ p'] p(2) have "p' = p" by (simp add: busy_def request_over_def)
  with p p' show ?thesis by blast
qed

text \<open>C8: every frame the port has ever handed to the driver, in any interleaving, ends with its
  correct CRC.\<close>

theorem usb_sent_frames_valid:
  fixes p :: "'m usb_port"
  assumes "reach (usb_boot rd wr) (usb_step wr) p" and "f \<in> set (sent p)"
  shows "CRC16 f = 0"
  using port_ready_safe [OF assms(1)] assms(2) by (simp add: port_safe_def)

theorem usb_sent_frames_valid_witness:
  "\<exists>p f. reach (usb_boot map_read map_write) (usb_step map_write) p \<and> f \<in> set (sent p) \<and> CRC16 f = 0"
proof -
  obtain p where p: "reach (usb_boot map_read map_write) (usb_step map_write) p" "sent p \<noteq> []"
    using sending_port by blast
  then show ?thesis
    using usb_sent_frames_valid [OF p(1), of "hd (sent p)"] by (intro exI [of _ p] exI [of _ "hd (sent p)"]) simp
qed

text \<open>C5: in every reachable state each saved register is within its limits, and, when the flash
  behaves as documented, its stored copy equals the register unless the save of the last write
  is still under way or the flash has refused it.\<close>

theorem usb_settings_consistent:
  fixes p :: "'m usb_port"
  assumes "reach (usb_boot rd wr) (usb_step wr) p" and "j < 120" "reg_saved j"
  shows "reg_ok j (MBbuf_main (store p) ! j) \<and>
     (nvs_laws rd wr \<longrightarrow> eep_state (MB_data p) = EEP_FREE \<longrightarrow>
        (\<forall>refused. refusals refused wr \<longrightarrow> kept rd refused (flash (store p)) j (MBbuf_main (store p) ! j)))"
  using usb.reach_inv [OF assms(1)] assms(2,3)
  by (auto simp: port_inv_def port_safe_def flash_agrees_def unsaved_def)

theorem usb_settings_consistent_witness:
  "\<exists>p. reach (usb_boot map_read map_write) (usb_step map_write) p \<and> reg_ok 41 (MBbuf_main (store p) ! 41)"
proof -
  obtain p where p: "reach (usb_boot map_read map_write) (usb_step map_write) p"
    using ready_port by blast
  from usb_settings_consistent [OF p, of 41] saved_channel(1) p show ?thesis by auto
qed

text \<open>C16: the parser task always comes back to waiting: while it is busy, each of its steps
  brings it strictly closer, however the handler and the rest of the firmware interleave with it,
  and never more than 270 of its own steps are needed.\<close>

theorem usb_task_progress:
  fixes p :: "'m usb_port"
  assumes "reach (usb_boot rd wr) (usb_step wr) p" and "busy p"
  shows "(\<exists>q. mh_task_Modbus_step wr p = Some q \<and> port_rank q < port_rank p \<and> (task q = T_WAIT \<or> busy q)) \<and>
     port_rank p \<le> 270 \<and>
     (\<forall>rx tx_ready q. uart_usb_interrupt_pass rx tx_ready p = Some q \<longrightarrow> port_rank q = port_rank p \<and> task q = task p)"
proof -
  obtain q where q: "mh_task_Modbus_step wr p = Some q"
    using mh_task_Modbus_step_inv [OF usb.reach_inv [OF assms(1)]] by (auto elim: succeedsE)
  with mh_task_Modbus_step_rank [OF assms(2) q] port_rank_bound uart_usb_interrupt_pass_rank show ?thesis
    by blast
qed

theorem usb_task_progress_witness:
  "\<exists>p q. reach (usb_boot map_read map_write) (usb_step map_write) p \<and> busy p \<and>
     mh_task_Modbus_step map_write p = Some q \<and> port_rank q < port_rank p"
proof -
  obtain p where p: "reach (usb_boot map_read map_write) (usb_step map_write) p" "task p = T_PARSE"
    using parsing_port by blast
  then have "busy p" by (simp add: busy_def)
  with usb_task_progress [OF p(1)] p(1) show ?thesis by blast
qed

text \<open>C15: a read request that arrives at a ready port is answered, five task steps later, with the
  values of the registers, and leaves the port ready and the settings as they were.\<close>

theorem usb_read_answered:
  fixes p :: "'m usb_port" and idx n :: u16
  assumes "reach (usb_boot rd wr) (usb_step wr) p" "port_ready p" "addr \<noteq> 0"
    and "unat idx \<le> 119" "unat idx + unat n \<le> 120"
  shows "succeeds (exchange wr (with_crc [addr, 3, hi8 idx, lo8 idx, hi8 n, lo8 n]) 5 p)
     (\<lambda>p'. port_ready p' \<and> store p' = store p \<and>
        sent p' = sent p @ [with_crc ([addr, 3, ucast (push_bit 1 n)] @
          be_bytes (take (unat n) (drop (unat idx) (MBbuf_main (store p)))))])"
  using read_exchange [OF assms] by (auto elim!: succeeds_mono)

theorem usb_read_answered_witness:
  "\<exists>p p'. reach (usb_boot map_read map_write) (usb_step map_write) p \<and>
     exchange map_write (with_crc [1, 3, 0, 0, 0, 1]) 5 p = Some p' \<and> sent p' = [with_crc [1, 3, 2, 0, 101]]"
proof -
  obtain p where p: "reach (usb_boot map_read map_write) (usb_step map_write) p" "port_ready p" "sent p = []"
      "MBbuf_main (store p) ! 0 = 101"
    using ready_port by blast
  have "length (MBbuf_main (store p)) = 120"
    using port_ready_safe [OF p(1)] by (simp add: port_safe_def)
  then have "take (unat (1 :: u16)) (drop (unat (0 :: u16)) (MBbuf_main (store p))) = [101]"
    using p(4) by (cases "MBbuf_main (store p)") auto
  then have bytes: "[1, 3, ucast (push_bit 1 (1 :: u16))] @
      be_bytes (take (unat (1 :: u16)) (drop (unat (0 :: u16)) (MBbuf_main (store p)))) = [1, 3, 2, 0, 101]"
    by (simp add: hi8_def lo8_def)
  from usb_read_answered [OF p(1,2), of 1 0 1] p(1,3) show ?thesis
    unfolding bytes byte_pairs by (auto elim!: succeedsE)
qed

text \<open>a frame that arrives with a wrong CRC is dropped: nothing is sent, no register and no
  flash cell changes, and two task steps later the port is ready again.\<close>

theorem usb_bad_crc_ignored:
  fixes p :: "'m usb_port"
  assumes "reach (usb_boot rd wr) (usb_step wr) p" "port_ready p"
    and "4 \<le> length msg" "length msg \<le> 64" "CRC16 msg \<noteq> 0"
  shows "succeeds (exchange wr msg 2 p) (\<lambda>p'. port_ready p' \<and> sent p' = sent p \<and> store p' = store p)"
  using port_ready_safe [OF assms(1)] assms(2-5) by (rule exchange_ignored)

theorem usb_bad_crc_ignored_witness:
  "\<exists>p p'. reach (usb_boot map_read map_write) (usb_step map_write) p \<and>
     exchange map_write [1, 3, 0, 0] 2 p = Some p' \<and> sent p' = sent p \<and> port_ready p'"
proof -
  have "CRC16 [1, 3, 0, 0] \<noteq> 0"
    by (simp add: CRC16_def CRC16_step_def Let_def auchCRCHi_def auchCRCLo_def mk16_def)
  with ready_port usb_bad_crc_ignored [of map_read map_write _ "[1, 3, 0, 0]"] show ?thesis
    by (fastforce elim!: succeedsE)
qed

text \<open>C3: a write is saved.  After a valid write request of up to 27 registers, the most that fits
  the handler's 64 bytes, the task comes back to waiting with the registers holding the written
  values, and of those of them that are saved each one is in flash unless the flash refused that
  write; the task ignores a refusal, and is ready for the next save either way.\<close>

theorem usb_write_persists:
  fixes p :: "'m usb_port" and idx n :: u16
  assumes "nvs_laws rd wr" "refusals refused wr"
    and "reach (usb_boot rd wr) (usb_step wr) p" "port_ready p"
    and "unat n = length vals" "vals \<noteq> []" "length vals \<le> 27" "unat idx + length vals \<le> 120"
    and "\<forall>k<length vals. reg_writable (unat idx + k) \<and> reg_ok (unat idx + k) (vals ! k)"
  shows "\<exists>p0 m p'. uart_usb_interrupt_handler [(Some (with_crc ([addr, 0x10, hi8 idx, lo8 idx, hi8 n, lo8 n,
        word_of_nat (2 * length vals)] @ be_bytes vals)), False)] p = Some p0 \<and>
      mh_task_Modbus wr m p0 = Some p' \<and> task p' = T_WAIT \<and> eep_state (MB_data p') = EEP_FREE \<and>
      (\<forall>k<length vals. MBbuf_main (store p') ! (unat idx + k) = vals ! k \<and>
         (reg_saved (unat idx + k) \<longrightarrow> kept rd refused (flash (store p')) (unat idx + k) (vals ! k)))"
  using assms by (rule write_persists)

text \<open>The witness writes two registers to the storage that refuses the second one.\<close>

theorem usb_write_persists_witness:
  "\<exists>p p0 m p'. reach (usb_boot (tracked_read map_read) (tracked_write full_write)) (usb_step (tracked_write full_write)) p \<and>
     uart_usb_interrupt_handler [(Some (with_crc [1, 0x10, 0, 41, 0, 2, 4, 0, 15, 1, 44]), False)] p = Some p0 \<and>
     mh_task_Modbus (tracked_write full_write) m p0 = Some p' \<and> MBbuf_main (store p') ! 42 = 300 \<and>
     kept (tracked_read map_read) snd (flash (store p')) 41 15"
proof -
  let ?rd = "tracked_read map_read" and ?wr = "tracked_write full_write"
  define vals :: "u16 list" where "vals = [15, 300]"
  obtain p where p: "reach (usb_boot ?rd ?wr) (usb_step ?wr) p" "port_ready p"
    using ready_port by blast
  have msg: "[1, 0x10, hi8 41, lo8 41, hi8 2, lo8 2, word_of_nat (2 * length vals)] @ be_bytes vals =
      [1, 0x10, 0, 41, 0, 2, 4, 0, 15, 1, 44]"
    by (simp add: byte_pairs vals_def)
  have ok: "\<forall>k<length vals. reg_writable (unat (41 :: u16) + k) \<and> reg_ok (unat (41 :: u16) + k) (vals ! k)"
    by (simp add: writable_41_42 less_Suc_eq vals_def)
  have len: "unat (2 :: u16) = length vals" "vals \<noteq> []" "length vals \<le> 27" "unat (41 :: u16) + length vals \<le> 120"
    by (simp_all add: vals_def)
  obtain p0 m p' where run: "uart_usb_interrupt_handler [(Some (with_crc [1, 0x10, 0, 41, 0, 2, 4, 0, 15, 1, 44]), False)] p = Some p0"
      "mh_task_Modbus ?wr m p0 = Some p'"
    and held: "\<forall>k<length vals. MBbuf_main (store p') ! (unat (41 :: u16) + k) = vals ! k \<and>
         (reg_saved (unat (41 :: u16) + k) \<longrightarrow> kept ?rd snd (flash (store p')) (unat (41 :: u16) + k) (vals ! k))"
    using usb_write_persists [OF full_storage_laws tracked_laws(2) p len ok, of 1] unfolding msg by blast
  have "MBbuf_main (store p') ! 42 = 300" "kept ?rd snd (flash (store p')) 41 15"
    using held [rule_format, of 0] held [rule_format, of 1] saved_channel(1) by (simp_all add: vals_def)
  with p(1) run show ?thesis by blast
qed

text \<open>C4: settings survive a restart: whenever no save is pending, a boot from the present flash
  loads exactly the present value of every saved register whose last write the flash did not refuse.\<close>

theorem settings_survive_reboot:
  fixes p :: "'m usb_port"
  assumes "nvs_laws rd wr" "refusals refused wr" "reach (usb_boot rd wr) (usb_step wr) p"
    and "eep_state (MB_data p) = EEP_FREE" "length regs = 120"
  shows "succeeds (mh_Buf_Init rd wr ((store p)\<lparr>MBbuf_main := regs\<rparr>))
     (\<lambda>s. \<forall>j<120. reg_saved j \<longrightarrow> refused (flash (store p)) (word_of_nat j) \<noteq> Some (MBbuf_main (store p) ! j) \<longrightarrow>
        MBbuf_main s ! j = MBbuf_main (store p) ! j)"
  using assms by (rule survives_reboot)

theorem settings_survive_reboot_witness:
  "\<exists>p s. reach (usb_boot map_read map_write) (usb_step map_write) p \<and>
     mh_Buf_Init map_read map_write ((store p)\<lparr>MBbuf_main := replicate 120 0\<rparr>) = Some s \<and>
     MBbuf_main s ! 41 = MBbuf_main (store p) ! 41"
proof -
  obtain p where p: "reach (usb_boot map_read map_write) (usb_step map_write) p" "port_ready p"
    using ready_port by blast
  then have "eep_state (MB_data p) = EEP_FREE" by (simp add: port_ready_def idle_iff)
  from settings_survive_reboot [OF map_storage_laws p(1) this, of "replicate 120 0"] p(1) saved_channel(1)
  show ?thesis by (auto elim!: succeedsE)
qed

end
