(* ===== verification/Zigbee.thy ===== *)
theory Zigbee
  imports Settings Crc16
begin

text \<open>
  The network side of \<open>src/main.c\<close>: the handler of the ZBOSS stack's signals, the alarm that
  watches over a lost connection, the commands of the register \<open>Reg_Send_Command\<close> and the set-up
  of address and install code.  A call of \<open>command_control\<close> is made of the pieces between which other tasks may run.
  The stack is not part of the repository: its calls are recorded in
  a trace, their return codes are arguments of the handlers, and its alarm queue is a parameter
  whose documented behaviour is \<open>alarm_laws\<close>.
\<close>

section \<open>The stack and its alarms\<close>

datatype zb_call =
    User_input_indicate
  | Bdb_reset_via_local_action u8
  | Nvram_erase
  | Sys_reboot_cold
  | Osif_abort
  | Schedule_alarm_cancel
  | Schedule_alarm nat
  | Default_signal_handler u32
  | Buf_free u32
  | Set_long_address "u8 list"
  | Ic_set "u8 list"

text \<open>
  The alarms of \<open>Recon_timer_cb\<close>: \<open>cancel\<close> is \<open>ZB_SCHEDULE_APP_ALARM_CANCEL\<close> for all of them,
  \<open>schedule d\<close> is \<open>ZB_SCHEDULE_APP_ALARM\<close> after \<open>d\<close> beacon intervals, \<open>pass\<close> is one interval
  passing, \<open>pop\<close> the removal of an alarm that is due.  \<open>pending\<close> observes the remaining times.
\<close>

record 'a alarm_queue =
  cancel :: "'a \<Rightarrow> 'a \<times> int"
  schedule :: "nat \<Rightarrow> 'a \<Rightarrow> 'a \<times> int"
  pass :: "'a \<Rightarrow> 'a"
  pop :: "'a \<Rightarrow> 'a"
  pending :: "'a \<Rightarrow> nat list"

definition alarm_laws :: "'a alarm_queue \<Rightarrow> bool" where
  "alarm_laws Q \<longleftrightarrow>
     (\<forall>a. snd (cancel Q a) = 0 \<longrightarrow> pending Q (fst (cancel Q a)) = []) \<and>
     (\<forall>a. length (pending Q (fst (cancel Q a))) \<le> length (pending Q a) \<and>
        set (pending Q (fst (cancel Q a))) \<subseteq> set (pending Q a)) \<and>
     (\<forall>d a. pending Q (fst (schedule Q d a)) =
        (if snd (schedule Q d a) = 0 then d # pending Q a else pending Q a)) \<and>
     (\<forall>a. 0 \<notin> set (pending Q a) \<longrightarrow> pending Q (pass Q a) = map (\<lambda>t. t - 1) (pending Q a)) \<and>
     (\<forall>a. 0 \<in> set (pending Q a) \<longrightarrow> pending Q (pop Q a) = remove1 0 (pending Q a))"

section \<open>State and statements\<close>

text \<open>
  \<open>ctl\<close> is \<open>Running\<close> until the firmware reboots or the stack's error handler aborts it: nothing
  after a call that does not return is executed.
\<close>

datatype ctl = Running | Rebooting | Aborted

record ('m, 'a) zb_dev =
  conf :: "'m settings"
  zigbee_conf_state_save :: u16
  usb_state :: u16
  alarms :: 'a
  calls :: "zb_call list"
  ctl :: ctl

type_synonym ('m, 'a) stm = "('m, 'a) zb_dev \<Rightarrow> ('m, 'a) zb_dev option"

primrec stms :: "('m, 'a) stm list \<Rightarrow> ('m, 'a) stm" where
  "stms [] s = Some s"
| "stms (f # fs) s = do { s \<leftarrow> f s; if ctl s = Running then stms fs s else Some s }"

definition call :: "zb_call \<Rightarrow> ('m, 'a) stm" where
  "call c s = Some (s\<lparr>calls := calls s @ [c]\<rparr>)"

definition sys_reboot :: "('m, 'a) stm" where
  "sys_reboot s = Some (s\<lparr>calls := calls s @ [Sys_reboot_cold], ctl := Rebooting\<rparr>)"

definition ZB_ERROR_CHECK :: "int \<Rightarrow> ('m, 'a) stm" where
  "ZB_ERROR_CHECK rc s =
     (if rc \<noteq> 0 then Some (s\<lparr>calls := calls s @ [Osif_abort], ctl := Aborted\<rparr>) else Some s)"

definition set_reg :: "nat \<Rightarrow> u16 \<Rightarrow> ('m, 'a) stm" where
  "set_reg i v s = do {
     buf \<leftarrow> write_at (MBbuf_main (conf s)) i v;
     Some (s\<lparr>conf := (conf s)\<lparr>MBbuf_main := buf\<rparr>\<rparr>)
   }"

section \<open>Constants\<close>

text \<open>The values of the stack's and Zephyr's enumerations, as the compiled image compares them.\<close>

abbreviation (input) ZB_ZDO_SIGNAL_LEAVE :: u16 where "ZB_ZDO_SIGNAL_LEAVE \<equiv> 3"
abbreviation (input) ZB_BDB_SIGNAL_DEVICE_REBOOT :: u16 where "ZB_BDB_SIGNAL_DEVICE_REBOOT \<equiv> 6"
abbreviation (input) ZB_BDB_SIGNAL_STEERING :: u16 where "ZB_BDB_SIGNAL_STEERING \<equiv> 10"
abbreviation (input) USB_DC_CONFIGURED :: u16 where "USB_DC_CONFIGURED \<equiv> 3"
abbreviation (input) RET_OK :: int where "RET_OK \<equiv> 0"

abbreviation (input) ZB_DEV_REJOIN_TIMEOUT_MS :: nat where "ZB_DEV_REJOIN_TIMEOUT_MS \<equiv> 200000"

definition DELAY_TOTAL_ZI_RECONNECT_MS :: nat where
  "DELAY_TOTAL_ZI_RECONNECT_MS = ZB_DEV_REJOIN_TIMEOUT_MS + 20000"

text \<open>\<open>ZB_MILLISECONDS_TO_BEACON_INTERVAL\<close> is a macro of the stack: the argument \<open>bi\<close>.\<close>

definition recon_delay :: "(nat \<Rightarrow> nat) \<Rightarrow> nat" where
  "recon_delay bi = bi DELAY_TOTAL_ZI_RECONNECT_MS"

abbreviation (input) CODE_RESET_ZIGBEE_DATA :: u16 where "CODE_RESET_ZIGBEE_DATA \<equiv> 122"
abbreviation (input) CODE_RESET_TO_DEFAULT :: u16 where "CODE_RESET_TO_DEFAULT \<equiv> 13"
abbreviation (input) CODE_RESTART :: u16 where "CODE_RESTART \<equiv> 14"
abbreviation (input) CODE_CONNECT_BUTTON :: u16 where "CODE_CONNECT_BUTTON \<equiv> 15"
abbreviation (input) CODE_HARD_RESET_STACK :: u16 where "CODE_HARD_RESET_STACK \<equiv> 155"

section \<open>The alarm that watches over the connection\<close>

definition func_connect :: "u8 \<Rightarrow> ('m, 'a) stm" where
  "func_connect param = call User_input_indicate"

definition func_reset_local :: "u8 \<Rightarrow> ('m, 'a) stm" where
  "func_reset_local param = stms
     [\<lambda>s. Some (s\<lparr>zigbee_conf_state_save := 0\<rparr>),
      call (Bdb_reset_via_local_action 0),
      call User_input_indicate]"

definition func_erase :: "u8 \<Rightarrow> ('m, 'a) stm" where
  "func_erase param = stms [call Nvram_erase, sys_reboot]"

text \<open>\<open>joined\<close> is \<open>ZB_JOINED()\<close>.\<close>

definition Recon_timer_cb :: "bool \<Rightarrow> u8 \<Rightarrow> ('m, 'a) stm" where
  "Recon_timer_cb joined param s =
     (if \<not> joined then
        if zigbee_conf_state_save s \<noteq> 0 \<and> usb_state s \<noteq> USB_DC_CONFIGURED
        then func_erase 0 s
        else func_connect 0 s
      else Some s)"

definition zi_reboot :: "'a alarm_queue \<Rightarrow> (nat \<Rightarrow> nat) \<Rightarrow> ('m, 'a) stm" where
  "zi_reboot Q bi s =
     (let (a, zb_err_code) = cancel Q (alarms s);
          s = s\<lparr>alarms := a, calls := calls s @ [Schedule_alarm_cancel]\<rparr>
      in stms
        [ZB_ERROR_CHECK zb_err_code,
         \<lambda>s. (let (a, zb_err_code) = schedule Q (recon_delay bi) (alarms s);
                  s = s\<lparr>alarms := a, calls := calls s @ [Schedule_alarm (recon_delay bi)]\<rparr>
              in ZB_ERROR_CHECK zb_err_code s)] s)"

section \<open>The stack's signals\<close>

text \<open>The cases of the switch fall through from \<open>DEVICE_REBOOT\<close> to \<open>STEERING\<close>.\<close>

definition steering_update :: "'a alarm_queue \<Rightarrow> (nat \<Rightarrow> nat) \<Rightarrow> int \<Rightarrow> ('m, 'a) stm" where
  "steering_update Q bi status = stms
     [if status = RET_OK then set_reg Reg_Zigbee_Connect_Status 1
      else set_reg Reg_Zigbee_Connect_Status 0,
      zi_reboot Q bi]"

definition zigbee_status_update ::
    "'a alarm_queue \<Rightarrow> (nat \<Rightarrow> nat) \<Rightarrow> u16 \<Rightarrow> int \<Rightarrow> ('m, 'a) stm" where
  "zigbee_status_update Q bi sig status s =
     (if sig = ZB_BDB_SIGNAL_DEVICE_REBOOT then
        steering_update Q bi status (s\<lparr>zigbee_conf_state_save := 1\<rparr>)
      else if sig = ZB_BDB_SIGNAL_STEERING then
        steering_update Q bi status s
      else if sig = ZB_ZDO_SIGNAL_LEAVE then
        stms [zi_reboot Q bi, set_reg Reg_Zigbee_Connect_Status 0] (s\<lparr>zigbee_conf_state_save := 1\<rparr>)
      else Some s)"

text \<open>Both cases of the handler's own switch call the default handler; \<open>rc\<close> is what it returns.\<close>

definition zboss_signal_handler ::
    "'a alarm_queue \<Rightarrow> (nat \<Rightarrow> nat) \<Rightarrow> int \<Rightarrow> u16 \<Rightarrow> int \<Rightarrow> u32 \<Rightarrow> ('m, 'a) stm" where
  "zboss_signal_handler Q bi rc sig status bufid = stms
     [zigbee_status_update Q bi sig status,
      call (Default_signal_handler bufid),
      ZB_ERROR_CHECK rc,
      \<lambda>s. if bufid \<noteq> 0 then call (Buf_free bufid) s else Some s]"

definition usb_cb :: "u16 \<Rightarrow> ('m, 'a) stm" where
  "usb_cb cb_status s = Some (s\<lparr>usb_state := cb_status\<rparr>)"

section \<open>Commands written to a register\<close>

definition run_Factory :: "'m nvs_write \<Rightarrow> ('m, 'a) stm" where
  "run_Factory wr s = do { c \<leftarrow> mh_Factory wr (conf s); Some (s\<lparr>conf := c\<rparr>) }"

definition run_command :: "'m nvs_write \<Rightarrow> u16 \<Rightarrow> ('m, 'a) stm" where
  "run_command wr c =
     (if c = CODE_CONNECT_BUTTON then call User_input_indicate
      else if c = CODE_RESET_ZIGBEE_DATA then call (Bdb_reset_via_local_action 0)
      else if c = CODE_RESTART then sys_reboot
      else if c = CODE_RESET_TO_DEFAULT then run_Factory wr
      else if c = CODE_HARD_RESET_STACK then stms [call Nvram_erase, sys_reboot]
      else Some)"

text \<open>
  The places in \<open>command_control\<close>: before the condition, before the \<open>switch\<close>, before pass \<open>i\<close> of the
  loop of \<open>mh_Factory\<close>, and before the register is cleared.  \<open>C_TEST\<close> is also the place between two
  calls.  A piece of the function goes from one place to the next; between two pieces the other
  tasks may run (theory Commands).
\<close>

datatype cmd_pc = C_TEST | C_SWITCH | C_FACTORY nat | C_CLEAR

fun command_step ::
    "'m nvs_write \<Rightarrow> cmd_pc \<Rightarrow> ('m, 'a) zb_dev \<Rightarrow> (cmd_pc \<times> ('m, 'a) zb_dev) option" where
  "command_step wr C_TEST s = do {
     c \<leftarrow> read_at (MBbuf_main (conf s)) Reg_Send_Command;
     Some (if c \<noteq> 0 then C_SWITCH else C_TEST, s)
   }"
| "command_step wr C_SWITCH s = do {
     c \<leftarrow> read_at (MBbuf_main (conf s)) Reg_Send_Command;
     (if c = CODE_RESET_TO_DEFAULT then Some (C_FACTORY 0, s)
      else do { s \<leftarrow> run_command wr c s; Some (C_CLEAR, s) })
   }"
| "command_step wr (C_FACTORY i) s =
     (if i < NUM_BUF
      then do { c \<leftarrow> mh_Factory_body wr i (conf s); Some (C_FACTORY (Suc i), s\<lparr>conf := c\<rparr>) }
      else Some (C_CLEAR, s))"
| "command_step wr C_CLEAR s = do {
     s \<leftarrow> set_reg Reg_Send_Command 0 s;
     Some (C_TEST, s)
   }"

text \<open>
  The function is its pieces, one after the other, until it returns or the firmware reboots.  It has
  at most 124 of them: a test, a dispatch, 120 passes, the end of the loop and the clearing.
\<close>

primrec command_pieces ::
    "nat \<Rightarrow> 'm nvs_write \<Rightarrow> cmd_pc \<Rightarrow> ('m, 'a) stm" where
  "command_pieces 0 wr pc s = None"
| "command_pieces (Suc n) wr pc s = do {
     (pc, s) \<leftarrow> command_step wr pc s;
     (if pc = C_TEST \<or> ctl s \<noteq> Running then Some s else command_pieces n wr pc s)
   }"

definition command_control :: "'m nvs_write \<Rightarrow> ('m, 'a) stm" where
  "command_control wr = command_pieces 124 wr C_TEST"

section \<open>Address and install code\<close>

definition address_bytes :: "u16 list \<Rightarrow> nat \<Rightarrow> u8 list \<Rightarrow> u8 list option" where
  "address_bytes regs i ieee_addr = do {
     v \<leftarrow> read_at regs (Reg_Zigbee_Addr_0_N_Panel + i);
     write_at ieee_addr i (ucast (v AND 0xFF))
   }"

text \<open>\<open>eui64\<close> is what \<open>zb_osif_get_ieee_eui64\<close> writes, \<open>garbage\<close> the uninitialised arrays.\<close>

definition FICR_regs :: "u8 list \<Rightarrow> nat \<Rightarrow> u16 list \<Rightarrow> u16 list option" where
  "FICR_regs ieee_addr i regs = do {
     b \<leftarrow> read_at ieee_addr i;
     write_at regs (Reg_Zigbee_FICR_Addr_0 + i) (ucast b AND 0xFF)
   }"

definition code_bytes :: "u16 list \<Rightarrow> nat \<Rightarrow> u8 list \<Rightarrow> u8 list option" where
  "code_bytes regs i ic = do {
     v \<leftarrow> read_at regs (Reg_Zigbee_Code_0 + i);
     ic \<leftarrow> write_at ic (i * 2) (ucast (drop_bit 8 v AND 0xFF));
     write_at ic (i * 2 + 1) (ucast (v AND 0xFF))
   }"

abbreviation (input) ZB_CCM_KEY_SIZE :: nat where "ZB_CCM_KEY_SIZE \<equiv> 16"

definition install_code :: "u16 list \<Rightarrow> u8 list \<Rightarrow> u8 list option" where
  "install_code regs ic = do {
     ic \<leftarrow> for_loop 0 8 (code_bytes regs) ic;
     crc \<leftarrow> crc16_x25 ic ZB_CCM_KEY_SIZE;
     ic \<leftarrow> write_at ic ZB_CCM_KEY_SIZE (ucast (crc AND 0xFF));
     write_at ic (ZB_CCM_KEY_SIZE + 1) (ucast (drop_bit 8 crc AND 0xFF))
   }"

definition own_address :: "u8 list \<Rightarrow> ('m, 'a) stm" where
  "own_address garbage s = do {
     mode \<leftarrow> read_at (MBbuf_main (conf s)) Reg_Zigbee_Set_Mode;
     if mode AND ZI_SET_MODE_BIT_SET_FICR_ADDR = 0 then do {
       ieee_addr \<leftarrow> for_loop 0 8 (address_bytes (MBbuf_main (conf s))) garbage;
       call (Set_long_address ieee_addr) s
     } else Some s
   }"

definition show_FICR_address :: "u8 list \<Rightarrow> ('m, 'a) stm" where
  "show_FICR_address eui64 s = do {
     buf \<leftarrow> for_loop 0 8 (FICR_regs eui64) (MBbuf_main (conf s));
     Some (s\<lparr>conf := (conf s)\<lparr>MBbuf_main := buf\<rparr>\<rparr>)
   }"

definition own_code :: "u8 list \<Rightarrow> ('m, 'a) stm" where
  "own_code garbage s = do {
     mode \<leftarrow> read_at (MBbuf_main (conf s)) Reg_Zigbee_Set_Mode;
     if mode AND ZI_SET_MODE_BIT_SET_CODE \<noteq> 0 then do {
       ic \<leftarrow> install_code (MBbuf_main (conf s)) garbage;
       call (Ic_set ic) s
     } else Some s
   }"

definition address_and_code_init :: "u8 list \<Rightarrow> u8 list \<Rightarrow> u8 list \<Rightarrow> ('m, 'a) stm" where
  "address_and_code_init addr_garbage ic_garbage eui64 = stms
     [own_address addr_garbage, show_FICR_address eui64, own_code ic_garbage]"

section \<open>The machine\<close>

text \<open>
  The firmware among its surroundings: the stack delivers signals and the joined flag changes,
  the USB driver reports its state, the Modbus task changes registers and their flash copies, \<open>com_task\<close> runs
  \<open>command_control\<close>, time passes and due alarms run \<open>Recon_timer_cb\<close>.
\<close>

record ('m, 'a) zb_sys =
  dev :: "('m, 'a) zb_dev"
  joined :: bool

datatype zb_event =
    Signal int u16 int u32
  | Usb u16
  | Net bool
  | Modbus
  | Command
  | Interval
  | Alarm_due

inductive zb_step ::
    "'m nvs_write \<Rightarrow> 'a alarm_queue \<Rightarrow> (nat \<Rightarrow> nat) \<Rightarrow> zb_event \<Rightarrow>
     ('m, 'a) zb_sys \<Rightarrow> ('m, 'a) zb_sys \<Rightarrow> bool"
  for wr Q bi where
  signal: "ctl (dev s) = Running \<Longrightarrow> zboss_signal_handler Q bi rc sig status bufid (dev s) = Some d \<Longrightarrow>
     zb_step wr Q bi (Signal rc sig status bufid) s (s\<lparr>dev := d\<rparr>)"
| usb: "ctl (dev s) = Running \<Longrightarrow> usb_cb v (dev s) = Some d \<Longrightarrow>
     zb_step wr Q bi (Usb v) s (s\<lparr>dev := d\<rparr>)"
| net: "ctl (dev s) = Running \<Longrightarrow> zb_step wr Q bi (Net j) s (s\<lparr>joined := j\<rparr>)"
| modbus: "ctl (dev s) = Running \<Longrightarrow> length (MBbuf_main c) = length (MBbuf_main (conf (dev s))) \<Longrightarrow>
     zb_step wr Q bi Modbus s (s\<lparr>dev := (dev s)\<lparr>conf := c\<rparr>\<rparr>)"
| command: "ctl (dev s) = Running \<Longrightarrow> command_control wr (dev s) = Some d \<Longrightarrow>
     zb_step wr Q bi Command s (s\<lparr>dev := d\<rparr>)"
| interval: "ctl (dev s) = Running \<Longrightarrow> 0 \<notin> set (pending Q (alarms (dev s))) \<Longrightarrow>
     zb_step wr Q bi Interval s (s\<lparr>dev := (dev s)\<lparr>alarms := pass Q (alarms (dev s))\<rparr>\<rparr>)"
| alarm_due: "ctl (dev s) = Running \<Longrightarrow> 0 \<in> set (pending Q (alarms (dev s))) \<Longrightarrow>
     Recon_timer_cb (joined s) 0 ((dev s)\<lparr>alarms := pop Q (alarms (dev s))\<rparr>) = Some d \<Longrightarrow>
     zb_step wr Q bi Alarm_due s (s\<lparr>dev := d\<rparr>)"

inductive_cases zb_stepE: "zb_step wr Q bi e s t"
inductive_cases signal_stepE: "zb_step wr Q bi (Signal rc sig status bufid) s t"
inductive_cases interval_stepE: "zb_step wr Q bi Interval s t"
inductive_cases alarm_stepE: "zb_step wr Q bi Alarm_due s t"

inductive zb_run ::
    "'m nvs_write \<Rightarrow> 'a alarm_queue \<Rightarrow> (nat \<Rightarrow> nat) \<Rightarrow> ('m, 'a) zb_sys \<Rightarrow> zb_event list \<Rightarrow>
     ('m, 'a) zb_sys \<Rightarrow> bool"
  for wr Q bi where
  stop: "zb_run wr Q bi s [] s"
| go: "zb_run wr Q bi s es t \<Longrightarrow> zb_step wr Q bi e t u \<Longrightarrow> zb_run wr Q bi s (es @ [e]) u"

section \<open>What the statements do\<close>

named_theorems stm_simps \<open>the statements of the network side\<close>

lemmas [stm_simps] = call_def sys_reboot_def ZB_ERROR_CHECK_def func_connect_def func_erase_def
  usb_cb_def split_beta Let_def

lemma set_reg_Some [stm_simps]:
  "set_reg i v s = (if i < length (MBbuf_main (conf s))
     then Some (s\<lparr>conf := (conf s)\<lparr>MBbuf_main := (MBbuf_main (conf s))[i := v]\<rparr>\<rparr>) else None)"
  by (simp add: set_reg_def write_at_def)

text \<open>The calls that destroy the stack's network data.\<close>

fun data_lost :: "zb_call \<Rightarrow> bool" where
  "data_lost Nvram_erase = True"
| "data_lost (Bdb_reset_via_local_action param) = True"
| "data_lost c = False"

text \<open>The three signals the firmware acts on.\<close>

definition network_signal :: "u16 \<Rightarrow> bool" where
  "network_signal sig \<longleftrightarrow> sig = ZB_BDB_SIGNAL_DEVICE_REBOOT \<or> sig = ZB_BDB_SIGNAL_STEERING \<or> sig = ZB_ZDO_SIGNAL_LEAVE"

text \<open>What a signal leaves: everything the later proofs need, in one place.\<close>

definition signal_effect :: "'a alarm_queue \<Rightarrow> (nat \<Rightarrow> nat) \<Rightarrow> u16 \<Rightarrow> ('m, 'a) zb_dev \<Rightarrow> ('m, 'a) zb_dev \<Rightarrow> bool" where
  "signal_effect Q bi sig s t \<longleftrightarrow>
     (\<exists>new. calls t = calls s @ new \<and> \<not> list_ex data_lost new) \<and>
     usb_state t = usb_state s \<and>
     zigbee_conf_state_save t = (if sig = ZB_BDB_SIGNAL_DEVICE_REBOOT \<or> sig = ZB_ZDO_SIGNAL_LEAVE then 1
        else zigbee_conf_state_save s) \<and>
     (ctl t \<noteq> Aborted \<longrightarrow> pending Q (alarms t) = (if network_signal sig then [recon_delay bi] else pending Q (alarms s))) \<and>
     (pending Q (alarms t) = [recon_delay bi] \<or> pending Q (alarms t) = [] \<or>
      (length (pending Q (alarms t)) \<le> length (pending Q (alarms s)) \<and>
       set (pending Q (alarms t)) \<subseteq> set (pending Q (alarms s)))) \<and>
     ctl t \<noteq> Rebooting"


lemma zi_reboot_effect:
  assumes "alarm_laws Q" "ctl s = Running" "zi_reboot Q bi s = Some t"
  shows "(\<exists>new. calls t = calls s @ new \<and> \<not> list_ex data_lost new) \<and> usb_state t = usb_state s \<and>
     zigbee_conf_state_save t = zigbee_conf_state_save s \<and> ctl t \<noteq> Rebooting \<and>
     (ctl t \<noteq> Aborted \<longrightarrow> pending Q (alarms t) = [recon_delay bi]) \<and>
     (pending Q (alarms t) = [recon_delay bi] \<or> pending Q (alarms t) = [] \<or>
      (length (pending Q (alarms t)) \<le> length (pending Q (alarms s)) \<and>
       set (pending Q (alarms t)) \<subseteq> set (pending Q (alarms s))))"
proof (cases "snd (cancel Q (alarms s)) = 0")
  case False
  then have "t = s\<lparr>alarms := fst (cancel Q (alarms s)),
      calls := calls s @ [Schedule_alarm_cancel, Osif_abort], ctl := Aborted\<rparr>"
    using assms(2,3) by (simp add: zi_reboot_def stm_simps)
  with assms(1) show ?thesis by (simp add: alarm_laws_def)
next
  case True
  define a where "a = fst (cancel Q (alarms s))"
  have a: "pending Q a = []" using assms(1) True by (simp add: alarm_laws_def a_def)
  show ?thesis
  proof (cases "snd (schedule Q (recon_delay bi) a) = 0")
    case scheduled: True
    with True assms(2,3) have "t = s\<lparr>alarms := fst (schedule Q (recon_delay bi) a),
        calls := calls s @ [Schedule_alarm_cancel, Schedule_alarm (recon_delay bi)]\<rparr>"
      by (simp add: zi_reboot_def stm_simps a_def)
    moreover have "pending Q (fst (schedule Q (recon_delay bi) a)) = [recon_delay bi]"
      using assms(1) a scheduled by (simp add: alarm_laws_def)
    ultimately show ?thesis using assms(2) by simp
  next
    case False
    with True assms(2,3) have "t = s\<lparr>alarms := fst (schedule Q (recon_delay bi) a),
        calls := calls s @ [Schedule_alarm_cancel, Schedule_alarm (recon_delay bi), Osif_abort], ctl := Aborted\<rparr>"
      by (simp add: zi_reboot_def stm_simps a_def)
    moreover have "pending Q (fst (schedule Q (recon_delay bi) a)) = []"
      using assms(1) a False by (simp add: alarm_laws_def)
    ultimately show ?thesis by simp
  qed
qed

lemma steering_effect:
  assumes "alarm_laws Q" "ctl s = Running" "steering_update Q bi status s = Some t"
  shows "(\<exists>new. calls t = calls s @ new \<and> \<not> list_ex data_lost new) \<and> usb_state t = usb_state s \<and>
     zigbee_conf_state_save t = zigbee_conf_state_save s \<and> ctl t \<noteq> Rebooting \<and>
     (ctl t \<noteq> Aborted \<longrightarrow> pending Q (alarms t) = [recon_delay bi]) \<and>
     (pending Q (alarms t) = [recon_delay bi] \<or> pending Q (alarms t) = [] \<or>
      (length (pending Q (alarms t)) \<le> length (pending Q (alarms s)) \<and>
       set (pending Q (alarms t)) \<subseteq> set (pending Q (alarms s))))"
proof -
  obtain s' where s': "set_reg 20 (if status = RET_OK then 1 else 0) s = Some s'" "zi_reboot Q bi s' = Some t"
      "ctl s' = Running"
    using assms(2,3) by (auto simp: steering_update_def stm_simps split: if_splits Option.bind_splits)
  then show ?thesis
    using zi_reboot_effect [OF assms(1) s'(3,2)] by (auto simp: stm_simps split: if_splits)
qed

lemma status_effect:
  assumes "alarm_laws Q" "ctl s = Running" "zigbee_status_update Q bi sig status s = Some t"
  shows "signal_effect Q bi sig s t"
proof -
  let ?s = "s\<lparr>zigbee_conf_state_save := 1\<rparr>"
  consider "sig = ZB_BDB_SIGNAL_DEVICE_REBOOT" "steering_update Q bi status ?s = Some t"
    | "sig = ZB_BDB_SIGNAL_STEERING" "steering_update Q bi status s = Some t"
    | u where "sig = ZB_ZDO_SIGNAL_LEAVE" "zi_reboot Q bi ?s = Some u"
        "stms [set_reg 20 0] u = Some t \<and> ctl u = Running \<or> ctl u \<noteq> Running \<and> t = u"
    | "\<not> network_signal sig" "t = s"
    using assms(2,3)
    by (auto simp: zigbee_status_update_def network_signal_def split: if_splits Option.bind_splits)
  then show ?thesis
  proof cases
    case 1
    with steering_effect [OF assms(1) _ 1(2)] assms(2) show ?thesis
      by (simp add: signal_effect_def network_signal_def)
  next
    case 2
    with steering_effect [OF assms(1) _ 2(2)] assms(2) show ?thesis
      by (simp add: signal_effect_def network_signal_def)
  next
    case 3
    from 3(3) have "calls t = calls u" "usb_state t = usb_state u" "ctl t = ctl u" "alarms t = alarms u"
      "zigbee_conf_state_save t = zigbee_conf_state_save u"
      by (auto simp: stm_simps split: if_splits)
    with zi_reboot_effect [OF assms(1) _ 3(2)] 3(1) assms(2) show ?thesis
      by (simp add: signal_effect_def network_signal_def)
  next
    case 4
    with assms(2) show ?thesis by (auto simp: signal_effect_def network_signal_def)
  qed
qed

lemma signal_handler_effect:
  assumes "alarm_laws Q" "ctl s = Running" "zboss_signal_handler Q bi rc sig status bufid s = Some t"
  shows "signal_effect Q bi sig s t"
proof -
  obtain u where u: "zigbee_status_update Q bi sig status s = Some u"
    using assms(3) by (auto simp: zboss_signal_handler_def split: Option.bind_splits)
  have "(\<exists>new. calls t = calls u @ new \<and> \<not> list_ex data_lost new) \<and> alarms t = alarms u \<and> usb_state t = usb_state u \<and>
      zigbee_conf_state_save t = zigbee_conf_state_save u \<and> (ctl t = ctl u \<or> ctl t = Aborted)"
    using assms(3) u by (auto simp: zboss_signal_handler_def stm_simps split: if_splits)
  with status_effect [OF assms(1,2) u] show ?thesis
    unfolding signal_effect_def by force
qed

section \<open>Commands and the alarm\<close>

text \<open>Without interference the call as a whole is this, and it always ends.\<close>

lemma run_command_other:
  "c \<noteq> 13 \<Longrightarrow> run_command wr c s = Some t \<Longrightarrow> conf t = conf s"
  by (auto simp: run_command_def stm_simps split: if_splits)

lemma factory_pieces:
  assumes "ctl s = Running" "i + k = 120" "k \<le> m"
  shows "command_pieces (Suc (Suc m)) wr (C_FACTORY i) s =
     do { c \<leftarrow> for_loop i k (mh_Factory_body wr) (conf s); set_reg 29 0 (s\<lparr>conf := c\<rparr>) }"
  using assms
proof (induction k arbitrary: i s m)
  case (Suc k)
  then obtain m' where m: "m = Suc m'" "k \<le> m'" by (cases m) auto
  show ?case
  proof (cases "mh_Factory_body wr i (conf s)")
    case None
    with Suc.prems show ?thesis by simp
  next
    case (Some c)
    have "command_pieces (Suc (Suc m)) wr (C_FACTORY i) s =
        command_pieces (Suc m) wr (C_FACTORY (Suc i)) (s\<lparr>conf := c\<rparr>)"
      using Suc.prems Some by simp
    also have "\<dots> = do { c' \<leftarrow> for_loop (Suc i) k (mh_Factory_body wr) c; set_reg 29 0 (s\<lparr>conf := c'\<rparr>) }"
      unfolding m(1) using Suc.IH [of "s\<lparr>conf := c\<rparr>" "Suc i" m'] Suc.prems m(2) by simp
    finally show ?thesis using Some by simp
  qed
qed (simp add: stm_simps)

lemma command_control_eq:
  assumes "ctl s = Running"
  shows "command_control wr s = do {
     c \<leftarrow> read_at (MBbuf_main (conf s)) Reg_Send_Command;
     if c \<noteq> 0 then stms [run_command wr c, set_reg Reg_Send_Command 0] s else Some s
   }" (is "_ = ?call")
proof -
  have fuel: "command_control wr s = command_pieces (Suc (Suc (Suc (Suc m)))) wr C_TEST s" if "m = 120" for m
    using that by (simp add: command_control_def eval_nat_numeral)
  show ?thesis
  proof (cases "29 < length (MBbuf_main (conf s)) \<and> MBbuf_main (conf s) ! 29 = 13")
    case True
    have "command_pieces (Suc (Suc (Suc (Suc m)))) wr C_TEST s = command_pieces (Suc (Suc m)) wr (C_FACTORY 0) s" for m
      using True assms by simp
    with fuel [OF refl] have "command_control wr s = command_pieces (Suc (Suc 120)) wr (C_FACTORY 0) s" by (simp only:)
    also have "\<dots> = ?call"
      unfolding factory_pieces [OF assms add_0 order_refl]
      using assms True
      by (cases "for_loop 0 120 (mh_Factory_body wr) (conf s)")
        (simp_all add: run_command_def run_Factory_def mh_Factory_def stm_simps)
    finally show ?thesis .
  next
    case False
    have "command_pieces (Suc (Suc (Suc (Suc m)))) wr C_TEST s = ?call" for m
      using False assms
      by (cases "run_command wr (MBbuf_main (conf s) ! 29) s")
        (auto simp: read_at_def stm_simps dest: run_command_other)
    with fuel [OF refl] show ?thesis by (simp only:)
  qed
qed

lemma command_effect:
  assumes "command_control wr s = Some t" "ctl s = Running"
  shows "alarms t = alarms s \<and> usb_state t = usb_state s \<and> zigbee_conf_state_save t = zigbee_conf_state_save s \<and>
     (\<exists>new. calls t = calls s @ new \<and> (list_ex data_lost new \<longrightarrow>
        new = [Nvram_erase, Sys_reboot_cold] \<and> ctl t = Rebooting \<and> MBbuf_main (conf s) ! Reg_Send_Command = CODE_HARD_RESET_STACK \<or>
        new = [Bdb_reset_via_local_action 0] \<and> ctl t = Running \<and> MBbuf_main (conf s) ! Reg_Send_Command = CODE_RESET_ZIGBEE_DATA))"
  using assms by (auto simp: command_control_eq run_command_def run_Factory_def stm_simps read_at_def
      split: if_splits Option.bind_splits)

lemma recon_effect:
  assumes "Recon_timer_cb j p s = Some t" "ctl s = Running"
  shows "alarms t = alarms s \<and> usb_state t = usb_state s \<and> zigbee_conf_state_save t = zigbee_conf_state_save s \<and>
     conf t = conf s \<and>
     (if j then t = s
      else if zigbee_conf_state_save s \<noteq> 0 \<and> usb_state s \<noteq> USB_DC_CONFIGURED
      then calls t = calls s @ [Nvram_erase, Sys_reboot_cold] \<and> ctl t = Rebooting
      else calls t = calls s @ [User_input_indicate] \<and> ctl t = Running)"
  using assms by (auto simp: Recon_timer_cb_def stm_simps split: if_splits)

section \<open>Reachable states\<close>

definition zb_boot :: "'a alarm_queue \<Rightarrow> ('m, 'a) zb_sys \<Rightarrow> bool" where
  "zb_boot Q s \<longleftrightarrow> zigbee_conf_state_save (dev s) = 0 \<and> pending Q (alarms (dev s)) = [] \<and> ctl (dev s) = Running"

definition one_alarm :: "'a alarm_queue \<Rightarrow> (nat \<Rightarrow> nat) \<Rightarrow> 'a \<Rightarrow> bool" where
  "one_alarm Q bi a \<longleftrightarrow> length (pending Q a) \<le> 1 \<and> (\<forall>t\<in>set (pending Q a). t \<le> recon_delay bi)"

lemma one_alarm_shrink:
  "one_alarm Q bi a \<Longrightarrow> length (pending Q b) \<le> length (pending Q a) \<Longrightarrow>
   set (pending Q b) \<subseteq> set (pending Q a) \<Longrightarrow> one_alarm Q bi b"
  unfolding one_alarm_def by (meson le_trans subsetD)

lemma signal_one_alarm:
  assumes "signal_effect Q bi sig s t" "one_alarm Q bi (alarms s)"
  shows "one_alarm Q bi (alarms t)"
proof -
  consider "pending Q (alarms t) = [recon_delay bi]" | "pending Q (alarms t) = []"
    | "length (pending Q (alarms t)) \<le> length (pending Q (alarms s))"
      "set (pending Q (alarms t)) \<subseteq> set (pending Q (alarms s))"
    using assms(1) unfolding signal_effect_def by blast
  then show ?thesis
    using assms(2) by cases (auto simp: one_alarm_def intro: le_trans)
qed

lemma step_one_alarm:
  assumes laws: "alarm_laws Q" and "zb_step wr Q bi e s t" and one: "one_alarm Q bi (alarms (dev s))"
  shows "one_alarm Q bi (alarms (dev t))"
  using assms(2)
proof cases
  case (signal rc sig status bufid d)
  with signal_handler_effect [OF laws signal(3,4)] one show ?thesis
    by (simp add: signal_one_alarm)
next
  case (usb v d)
  with one show ?thesis by (auto simp: usb_cb_def)
next
  case (command d)
  with command_effect [OF command(4,3)] one show ?thesis by simp
next
  case interval
  then have "pending Q (pass Q (alarms (dev s))) = map (\<lambda>t. t - 1) (pending Q (alarms (dev s)))"
    using laws by (simp add: alarm_laws_def)
  with interval one show ?thesis by (auto simp: one_alarm_def intro: le_trans)
next
  case (alarm_due d)
  have "pending Q (pop Q (alarms (dev s))) = remove1 0 (pending Q (alarms (dev s)))"
    using laws alarm_due by (simp add: alarm_laws_def)
  then have "one_alarm Q bi (pop Q (alarms (dev s)))"
    using one by (intro one_alarm_shrink [OF one]) (simp_all add: length_remove1 set_remove1_subset)
  with recon_effect [OF alarm_due(5)] alarm_due(2,3) show ?thesis by simp
qed (use one in simp_all)

lemma run_one_alarm:
  assumes "zb_run wr Q bi s es t" "alarm_laws Q" "one_alarm Q bi (alarms (dev s))"
  shows "one_alarm Q bi (alarms (dev t))"
  using assms by (induction rule: zb_run.induct) (auto intro: step_one_alarm)

text \<open>The saved-configuration flag is only set by the two signals.\<close>

definition config_signal :: "zb_event \<Rightarrow> bool" where
  "config_signal e \<longleftrightarrow> (\<exists>rc sig status bufid. e = Signal rc sig status bufid \<and>
     (sig = ZB_BDB_SIGNAL_DEVICE_REBOOT \<or> sig = ZB_ZDO_SIGNAL_LEAVE))"

lemma step_conf_state:
  assumes "alarm_laws Q" "zb_step wr Q bi e s t" "zigbee_conf_state_save (dev t) \<noteq> 0"
  shows "zigbee_conf_state_save (dev s) \<noteq> 0 \<or> config_signal e"
  using assms(2)
proof cases
  case (signal rc sig status bufid d)
  with signal_handler_effect [OF assms(1) signal(3,4)] assms(3) show ?thesis
    by (auto simp: signal_effect_def config_signal_def split: if_splits)
next
  case (command d)
  with command_effect [OF command(4,3)] assms(3) show ?thesis by simp
next
  case (alarm_due d)
  with recon_effect [OF alarm_due(5)] assms(3) show ?thesis by simp
qed (use assms(3) in \<open>auto simp: usb_cb_def\<close>)

lemma run_conf_state:
  assumes "zb_run wr Q bi s es t" "alarm_laws Q" "zigbee_conf_state_save (dev s) = 0"
    "zigbee_conf_state_save (dev t) \<noteq> 0"
  shows "\<exists>e\<in>set es. config_signal e"
  using assms
proof (induction rule: zb_run.induct)
  case (go s es t e u)
  then show ?case using step_conf_state [OF go.prems(1) go.hyps(2) go.prems(3)] by auto
qed simp

lemma step_data_lost:
  assumes "alarm_laws Q" "zb_step wr Q bi e s t"
    and "list_ex data_lost (drop (length (calls (dev s))) (calls (dev t)))"
  shows "calls (dev t) = calls (dev s) @ [Nvram_erase, Sys_reboot_cold] \<and> ctl (dev t) = Rebooting \<and>
       (e = Alarm_due \<and> \<not> joined s \<and> usb_state (dev s) \<noteq> USB_DC_CONFIGURED \<and> zigbee_conf_state_save (dev s) \<noteq> 0 \<or>
        e = Command \<and> MBbuf_main (conf (dev s)) ! Reg_Send_Command = CODE_HARD_RESET_STACK) \<or>
     calls (dev t) = calls (dev s) @ [Bdb_reset_via_local_action 0] \<and> ctl (dev t) = Running \<and>
       e = Command \<and> MBbuf_main (conf (dev s)) ! Reg_Send_Command = CODE_RESET_ZIGBEE_DATA"
  using assms(2)
proof cases
  case (signal rc sig status bufid d)
  with signal_handler_effect [OF assms(1) signal(3,4)] assms(3) show ?thesis
    by (auto simp: signal_effect_def)
next
  case (usb v d)
  with assms(3) show ?thesis by (auto simp: usb_cb_def)
next
  case (command d)
  from command_effect [OF command(4,3)] obtain new where
    new: "calls d = calls (dev s) @ new" "list_ex data_lost new \<longrightarrow>
      new = [Nvram_erase, Sys_reboot_cold] \<and> ctl d = Rebooting \<and> MBbuf_main (conf (dev s)) ! Reg_Send_Command = CODE_HARD_RESET_STACK \<or>
      new = [Bdb_reset_via_local_action 0] \<and> ctl d = Running \<and> MBbuf_main (conf (dev s)) ! Reg_Send_Command = CODE_RESET_ZIGBEE_DATA"
    by blast
  with command assms(3) show ?thesis by auto
next
  case (alarm_due d)
  with recon_effect [OF alarm_due(5)] assms(3) show ?thesis by (auto split: if_splits)
qed (use assms(3) in simp_all)

section \<open>Waiting for the alarm\<close>

definition network_event :: "zb_event \<Rightarrow> bool" where
  "network_event e \<longleftrightarrow> (\<exists>rc sig status bufid. e = Signal rc sig status bufid \<and> network_signal sig)"

text \<open>Only the three signals and the alarm itself touch the queue, beside time.\<close>

lemma step_pending:
  assumes "alarm_laws Q" "zb_step wr Q bi e s t" "ctl (dev t) = Running" "\<not> network_event e" "e \<noteq> Alarm_due"
  shows "pending Q (alarms (dev t)) =
     (if e = Interval then map (\<lambda>t. t - 1) (pending Q (alarms (dev s))) else pending Q (alarms (dev s)))"
  using assms(2)
proof cases
  case (signal rc sig status bufid d)
  with signal_handler_effect [OF assms(1) signal(3,4)] assms(3,4) show ?thesis
    by (auto simp: signal_effect_def network_event_def)
next
  case (command d)
  with command_effect [OF command(4,3)] show ?thesis by simp
next
  case interval
  with assms(1) show ?thesis by (simp add: alarm_laws_def)
qed (use assms(5) in \<open>auto simp: usb_cb_def\<close>)

lemma step_running: "zb_step wr Q bi e s t \<Longrightarrow> ctl (dev s) = Running"
  by (erule zb_step.cases) auto

definition intervals :: "zb_event list \<Rightarrow> nat" where
  "intervals es = length (filter (\<lambda>e. e = Interval) es)"

lemma run_pending:
  assumes "zb_run wr Q bi s es t" "alarm_laws Q" "pending Q (alarms (dev s)) = [d]" "ctl (dev t) = Running"
    and "\<forall>e\<in>set es. \<not> network_event e \<and> e \<noteq> Alarm_due"
  shows "pending Q (alarms (dev t)) = [d - intervals es] \<and> intervals es \<le> d"
  using assms
proof (induction rule: zb_run.induct)
  case (go s es t e u)
  then have p: "pending Q (alarms (dev t)) = [d - intervals es]" "intervals es \<le> d"
    using step_running [OF go.hyps(2)] by simp_all
  have "0 < d - intervals es" if "e = Interval"
    using go.hyps(2) p(1) unfolding that by (auto elim: interval_stepE)
  with step_pending [OF go.prems(1) go.hyps(2) go.prems(3)] go.prems(4) p show ?case
    by (auto simp: intervals_def)
qed (simp add: intervals_def)

lemma recon_defined: "ctl s = Running \<Longrightarrow> \<exists>d. Recon_timer_cb j p s = Some d"
  by (auto simp: Recon_timer_cb_def stm_simps)

text \<open>What the state of the queue allows.\<close>

lemma interval_possible:
  "ctl (dev s) = Running \<Longrightarrow> (\<exists>t. zb_step wr Q bi Interval s t) \<longleftrightarrow> 0 \<notin> set (pending Q (alarms (dev s)))"
  by (auto intro: zb_step.interval elim: interval_stepE)

lemma alarm_possible:
  assumes "ctl (dev s) = Running"
  shows "(\<exists>t. zb_step wr Q bi Alarm_due s t) \<longleftrightarrow> 0 \<in> set (pending Q (alarms (dev s)))"
proof
  assume due: "0 \<in> set (pending Q (alarms (dev s)))"
  obtain d where "Recon_timer_cb (joined s) 0 ((dev s)\<lparr>alarms := pop Q (alarms (dev s))\<rparr>) = Some d"
    using recon_defined [of "(dev s)\<lparr>alarms := pop Q (alarms (dev s))\<rparr>"] assms by auto
  with assms due show "\<exists>t. zb_step wr Q bi Alarm_due s t" by (blast intro: zb_step.alarm_due)
qed (auto elim: alarm_stepE)

lemma alarm_calls:
  assumes "zb_step wr Q bi Alarm_due s t"
  shows "calls (dev t) = calls (dev s) @
     (if joined s then []
      else if zigbee_conf_state_save (dev s) \<noteq> 0 \<and> usb_state (dev s) \<noteq> USB_DC_CONFIGURED
      then [Nvram_erase, Sys_reboot_cold] else [User_input_indicate])"
  using assms
proof (rule alarm_stepE)
  fix d
  assume d: "t = s\<lparr>dev := d\<rparr>" "ctl (dev s) = Running"
    "Recon_timer_cb (joined s) 0 ((dev s)\<lparr>alarms := pop Q (alarms (dev s))\<rparr>) = Some d"
  from recon_effect [OF d(3)] d(1,2) show ?thesis by (auto split: if_splits)
qed

section \<open>Address and install code\<close>

lemma low_byte: "ucast (v AND 0xFF) = lo8 v"
  by (simp add: lo8_def)

lemma lo8_drop: "lo8 (drop_bit 8 v) = hi8 v"
  by (rule bit_word_eqI) (auto simp: bit_lo8 bit_hi8 bit_simps add.commute)

lemmas bytes_eq = low_byte lo8_drop

lemma set_last_two:
  "length xs = 18 \<Longrightarrow> (xs[16 := a])[17 := b] = take 16 xs @ [a, b]"
  by (rule nth_equalityI) (auto simp: nth_append nth_list_update less_Suc_eq numeral_eq_Suc)

lemma install_code_result:
  assumes "length regs = 120" "length ic0 = 18"
  shows "succeeds (install_code regs ic0) (\<lambda>ic. length ic = 18 \<and> crc16_x25 ic 18 = Some 0x0F47 \<and>
     (\<forall>i<8. mk16 (ic ! (i * 2)) (ic ! (i * 2 + 1)) = regs ! (Reg_Zigbee_Code_0 + i)))"
proof -
  let ?P = "\<lambda>i ic. length ic = 18 \<and> (\<forall>k<i. ic ! (k * 2) = hi8 (regs ! (80 + k)) \<and> ic ! (k * 2 + 1) = lo8 (regs ! (80 + k)))"
  have "succeeds (for_loop 0 8 (code_bytes regs) ic0) (?P (0 + 8))"
    by (rule for_loop_rule)
      (use assms in \<open>auto simp: code_bytes_def bytes_eq nth_list_update less_Suc_eq succeeds_bind\<close>)
  then obtain ic where ic: "for_loop 0 8 (code_bytes regs) ic0 = Some ic" "length ic = 18"
      "\<And>k. k < 8 \<Longrightarrow> ic ! (k * 2) = hi8 (regs ! (80 + k)) \<and> ic ! (k * 2 + 1) = lo8 (regs ! (80 + k))"
    by (auto elim: succeedsE)
  have key: "length (take 16 ic) = 16" and parts: "take 16 ic @ drop 16 ic = ic"
    using ic(2) by simp_all
  obtain crc where crc: "crc16_x25 ic 16 = Some crc"
    using crc16_x25_fold [of 16 ic] ic(2) by simp
  have "crc16_x25 (take 16 ic @ [lo8 crc, hi8 crc]) (16 + 2) = Some 0x0F47"
    using x25_append [OF key, of "drop 16 ic"] crc unfolding parts by blast
  moreover have "install_code regs ic0 = Some (take 16 ic @ [lo8 crc, hi8 crc])"
    using ic(1,2) crc by (simp add: install_code_def bytes_eq set_last_two)
  moreover have "(take 16 ic @ xs) ! (i * 2) = ic ! (i * 2)" "(take 16 ic @ xs) ! (i * 2 + 1) = ic ! (i * 2 + 1)"
    if "i < 8" for i xs
    using that ic(2) by (simp_all add: nth_append)
  ultimately show ?thesis
    using ic(2,3) by simp
qed

lemma address_result:
  assumes "length regs = 120" "length g = 8"
  shows "for_loop 0 8 (address_bytes regs) g = Some (map (\<lambda>i. lo8 (regs ! (Reg_Zigbee_Addr_0_N_Panel + i))) [0..<8])"
proof -
  have "succeeds (for_loop 0 8 (address_bytes regs) g)
     (\<lambda>a. a = map (\<lambda>i. lo8 (regs ! (70 + i))) [0..<0 + 8] @ drop (0 + 8) g)"
    by (rule for_loop_rule [where P = "\<lambda>k a. a = map (\<lambda>i. lo8 (regs ! (70 + i))) [0..<k] @ drop k g"])
      (use assms in \<open>auto simp: address_bytes_def low_byte list_update_append Cons_nth_drop_Suc [symmetric]\<close>)
  with assms(2) show ?thesis by (auto elim!: succeedsE)
qed

lemma FICR_result:
  assumes "length regs = 120" "length eui = 8"
  shows "succeeds (for_loop 0 8 (FICR_regs eui) regs) (\<lambda>r. length r = 120 \<and>
     (\<forall>j<120. r ! j = (if 60 \<le> j \<and> j < 68 then ucast (eui ! (j - 60)) else regs ! j)))"
proof -
  have byte: "ucast b AND 0xFF = (ucast b :: u16)" for b :: u8
    unfolding mask8 by (rule bit_word_eqI) (auto simp: bit_simps dest: bit_imp_le_length)
  have "succeeds (for_loop 0 8 (FICR_regs eui) regs) (\<lambda>r. length r = 120 \<and>
     (\<forall>j<120. r ! j = (if 60 \<le> j \<and> j < 60 + (0 + 8) then ucast (eui ! (j - 60)) else regs ! j)))"
    by (rule for_loop_rule [where P = "\<lambda>k r. length r = 120 \<and>
        (\<forall>j<120. r ! j = (if 60 \<le> j \<and> j < 60 + k then ucast (eui ! (j - 60)) else regs ! j))"])
      (use assms in \<open>auto simp: FICR_regs_def byte nth_list_update\<close>)
  then show ?thesis by simp
qed

lemma address_and_code_result:
  assumes "length (MBbuf_main (conf s)) = 120" "length g = 8" "length g' = 18" "length eui = 8" "ctl s = Running"
  shows "\<exists>t ic. address_and_code_init g g' eui s = Some t \<and> length (MBbuf_main (conf t)) = 120 \<and>
     (\<forall>j<120. MBbuf_main (conf t) ! j =
        (if 60 \<le> j \<and> j < 68 then ucast (eui ! (j - 60)) else MBbuf_main (conf s) ! j)) \<and>
     length ic = 18 \<and> crc16_x25 ic 18 = Some 0x0F47 \<and>
     (\<forall>i<8. mk16 (ic ! (i * 2)) (ic ! (i * 2 + 1)) = MBbuf_main (conf s) ! (Reg_Zigbee_Code_0 + i)) \<and>
     calls t = calls s @
       (if MBbuf_main (conf s) ! Reg_Zigbee_Set_Mode AND ZI_SET_MODE_BIT_SET_FICR_ADDR = 0
        then [Set_long_address (map (\<lambda>i. lo8 (MBbuf_main (conf s) ! (Reg_Zigbee_Addr_0_N_Panel + i))) [0..<8])] else []) @
       (if MBbuf_main (conf s) ! Reg_Zigbee_Set_Mode AND ZI_SET_MODE_BIT_SET_CODE \<noteq> 0 then [Ic_set ic] else [])"
proof -
  let ?regs = "MBbuf_main (conf s)"
  obtain r where r: "for_loop 0 8 (FICR_regs eui) ?regs = Some r" "length r = 120"
      "\<forall>j<120. r ! j = (if 60 \<le> j \<and> j < 68 then ucast (eui ! (j - 60)) else ?regs ! j)"
    using FICR_result [OF assms(1,4)] by (auto elim: succeedsE)
  obtain ic where ic: "install_code r g' = Some ic" "length ic = 18" "crc16_x25 ic 18 = Some 0x0F47"
      "\<forall>i<8. mk16 (ic ! (i * 2)) (ic ! (i * 2 + 1)) = r ! (80 + i)"
    using install_code_result [OF r(2) assms(3)] by (auto elim: succeedsE)
  have code: "r ! (80 + i) = ?regs ! (80 + i)" if "i < 8" for i using r(3) that by simp
  have mode: "r ! 40 = ?regs ! 40" using r(3) by simp
  let ?calls = "calls s @
       (if ?regs ! 40 AND 1 = 0 then [Set_long_address (map (\<lambda>i. lo8 (?regs ! (70 + i))) [0..<8])] else []) @
       (if ?regs ! 40 AND 2 \<noteq> 0 then [Ic_set ic] else [])"
  let ?t = "s\<lparr>conf := (conf s)\<lparr>MBbuf_main := r\<rparr>, calls := ?calls\<rparr>"
  have "address_and_code_init g g' eui s = Some ?t"
    using assms r(1,2) mode address_result [OF assms(1,2)] ic(1)
    by (simp add: address_and_code_init_def own_address_def show_FICR_address_def own_code_def stm_simps)
  then show ?thesis
    using r(2,3) ic code by (intro exI [of _ ?t] exI [of _ ic]) simp
qed


section \<open>Properties\<close>

text \<open>C11: the network data is never lost on a whim.  Whenever a step of a run since boot makes a call
  that destroys it, either it resets the data and does nothing else, carrying out the command 122 of
  the register \<open>Reg_Send_Command\<close>; or it erases the whole memory of the stack and reboots at once,
  and then it carries out the command 155, or the alarm is due, the device is not joined, the USB port
  is not in use, and the stack has reported a stored configuration or a leave since boot.\<close>

theorem nvram_erase_justified:
  assumes "alarm_laws Q" "zb_boot Q s0" "zb_run wr Q bi s0 es s" "zb_step wr Q bi e s t"
    and "list_ex data_lost (drop (length (calls (dev s))) (calls (dev t)))"
  shows "calls (dev t) = calls (dev s) @ [Bdb_reset_via_local_action 0] \<and> ctl (dev t) = Running \<and>
       e = Command \<and> MBbuf_main (conf (dev s)) ! Reg_Send_Command = CODE_RESET_ZIGBEE_DATA \<or>
     calls (dev t) = calls (dev s) @ [Nvram_erase, Sys_reboot_cold] \<and> ctl (dev t) = Rebooting \<and>
       (e = Command \<and> MBbuf_main (conf (dev s)) ! Reg_Send_Command = CODE_HARD_RESET_STACK \<or>
        e = Alarm_due \<and> \<not> joined s \<and> usb_state (dev s) \<noteq> USB_DC_CONFIGURED \<and> (\<exists>e'\<in>set es. config_signal e'))"
  using step_data_lost [OF assms(1,4,5)] run_conf_state [OF assms(3,1)] assms(2)
  unfolding zb_boot_def by blast

text \<open>In every state reachable from boot at most one alarm of \<open>Recon_timer_cb\<close> is pending, and it is
  due within the reconnect delay.\<close>

theorem single_alarm:
  assumes "alarm_laws Q" "zb_boot Q s0" "zb_run wr Q bi s0 es s"
  shows "length (pending Q (alarms (dev s))) \<le> 1 \<and> (\<forall>t\<in>set (pending Q (alarms (dev s))). t \<le> recon_delay bi)"
  using run_one_alarm [OF assms(3,1)] assms(2) by (simp add: one_alarm_def zb_boot_def)

text \<open>C12: a lost connection is always acted on.  Take any of the three signals of the stack that
  concern the connection, handled without an error of the stack, and any run of other events after it,
  up to another one of the three, which arms the alarm anew, or to the alarm.  As long as less than the
  reconnect delay has passed, time can go on and the alarm cannot come; when exactly the delay has
  passed, time cannot go on before the alarm, and its callback, if the device is then not joined, erases
  the network data and reboots if there is a stored configuration and USB is not in use, and
  otherwise asks the stack to connect again; if the device is joined it does nothing.\<close>

theorem lost_connection_acted_on:
  assumes "alarm_laws Q" "network_signal sig" "zb_step wr Q bi (Signal rc sig status bufid) s t" "ctl (dev t) = Running"
    and "zb_run wr Q bi t es w" "\<forall>e\<in>set es. \<not> network_event e \<and> e \<noteq> Alarm_due" "ctl (dev w) = Running"
  shows "intervals es \<le> recon_delay bi \<and>
     (intervals es < recon_delay bi \<longrightarrow>
        (\<exists>x. zb_step wr Q bi Interval w x) \<and> \<not> (\<exists>x. zb_step wr Q bi Alarm_due w x)) \<and>
     (intervals es = recon_delay bi \<longrightarrow>
        \<not> (\<exists>x. zb_step wr Q bi Interval w x) \<and> (\<exists>x. zb_step wr Q bi Alarm_due w x) \<and>
        (\<forall>x. zb_step wr Q bi Alarm_due w x \<longrightarrow> calls (dev x) = calls (dev w) @
          (if joined w then []
           else if zigbee_conf_state_save (dev w) \<noteq> 0 \<and> usb_state (dev w) \<noteq> USB_DC_CONFIGURED
           then [Nvram_erase, Sys_reboot_cold] else [User_input_indicate])))"
proof -
  obtain d where d: "ctl (dev s) = Running" "zboss_signal_handler Q bi rc sig status bufid (dev s) = Some d" "t = s\<lparr>dev := d\<rparr>"
    using assms(3) by (auto elim: signal_stepE)
  have "pending Q (alarms (dev t)) = [recon_delay bi]"
    using signal_handler_effect [OF assms(1) d(1,2)] assms(2,4) d(3) by (simp add: signal_effect_def)
  from run_pending [OF assms(5,1) this assms(7,6)]
  have "pending Q (alarms (dev w)) = [recon_delay bi - intervals es]" "intervals es \<le> recon_delay bi"
    by simp_all
  then show ?thesis
    using interval_possible [OF assms(7), of wr Q bi] alarm_possible [OF assms(7), of wr Q bi] alarm_calls [of wr Q bi w]
    by auto
qed

text \<open>C34: set-up of address and install code.  Unless the mode says otherwise the stack gets the low
  bytes of the eight address registers as its address; the register copy of the factory address is
  filled and no other register changes; and if the mode asks for it, the stack gets an install code
  of 18 bytes: the eight code registers, high byte first, and a CRC that its residue confirms.\<close>

theorem address_and_code_set_up:
  assumes "length (MBbuf_main (conf s)) = 120" "length g = 8" "length g' = 18" "length eui = 8" "ctl s = Running"
  shows "\<exists>t ic. address_and_code_init g g' eui s = Some t \<and> length (MBbuf_main (conf t)) = 120 \<and>
     (\<forall>j<120. MBbuf_main (conf t) ! j =
        (if 60 \<le> j \<and> j < 68 then ucast (eui ! (j - 60)) else MBbuf_main (conf s) ! j)) \<and>
     length ic = 18 \<and> crc16_x25 ic 18 = Some 0x0F47 \<and>
     (\<forall>i<8. mk16 (ic ! (i * 2)) (ic ! (i * 2 + 1)) = MBbuf_main (conf s) ! (Reg_Zigbee_Code_0 + i)) \<and>
     calls t = calls s @
       (if MBbuf_main (conf s) ! Reg_Zigbee_Set_Mode AND ZI_SET_MODE_BIT_SET_FICR_ADDR = 0
        then [Set_long_address (map (\<lambda>i. lo8 (MBbuf_main (conf s) ! (Reg_Zigbee_Addr_0_N_Panel + i))) [0..<8])] else []) @
       (if MBbuf_main (conf s) ! Reg_Zigbee_Set_Mode AND ZI_SET_MODE_BIT_SET_CODE \<noteq> 0 then [Ic_set ic] else [])"
  using assms by (rule address_and_code_result)

section \<open>Witnesses\<close>

text \<open>An alarm queue with the documented behaviour, and a device just booted.\<close>

definition list_alarms :: "nat list alarm_queue" where
  "list_alarms = \<lparr>cancel = (\<lambda>a. ([], 0)), schedule = (\<lambda>d a. (d # a, 0)), pass = map (\<lambda>t. t - 1),
     pop = remove1 0, pending = (\<lambda>a. a)\<rparr>"

definition booted :: "((u16 \<Rightarrow> u16 option), nat list) zb_sys" where
  "booted = \<lparr>dev = \<lparr>conf = \<lparr>MBbuf_main = (replicate 120 0)[29 := 155], flash = Map.empty\<rparr>,
     zigbee_conf_state_save = 0, usb_state = 0, alarms = [], calls = [], ctl = Running\<rparr>, joined = False\<rparr>"

definition left_network :: "((u16 \<Rightarrow> u16 option), nat list) zb_sys" where
  "left_network = \<lparr>dev = \<lparr>conf = \<lparr>MBbuf_main = (replicate 120 0)[29 := 155], flash = Map.empty\<rparr>,
     zigbee_conf_state_save = 1, usb_state = 0, alarms = [2],
     calls = [Schedule_alarm_cancel, Schedule_alarm 2, Default_signal_handler 0], ctl = Running\<rparr>, joined = False\<rparr>"

lemma list_alarms_laws: "alarm_laws list_alarms"
  by (simp add: alarm_laws_def list_alarms_def)

lemma booted_ok: "zb_boot list_alarms booted"
  by (simp add: zb_boot_def booted_def list_alarms_def)

lemma booted_leave: "zb_step map_write list_alarms (\<lambda>_. 2) (Signal 0 3 0 0) booted left_network"
proof -
  have reg: "(replicate 120 0)[29 := 155, 20 := 0 :: u16] = (replicate 120 0)[29 := 155]"
    using list_update_id [of "replicate 120 (0 :: u16)" 20] by (simp add: list_update_swap [of 29 20])
  have "zboss_signal_handler list_alarms (\<lambda>_. 2) 0 3 0 0 (dev booted) = Some (dev left_network)"
    by (simp add: zboss_signal_handler_def zigbee_status_update_def zi_reboot_def stm_simps list_alarms_def
        booted_def left_network_def recon_delay_def reg)
  then have "zb_step map_write list_alarms (\<lambda>_. 2) (Signal 0 3 0 0) booted (booted\<lparr>dev := dev left_network\<rparr>)"
    by (intro zb_step.signal) (simp_all add: booted_def)
  then show ?thesis by (simp add: booted_def left_network_def)
qed

text \<open>After the leave an interval passes, USB comes and goes, and the second interval passes.\<close>

theorem lost_connection_acted_on_witness:
  "\<exists>u v. zb_run map_write list_alarms (\<lambda>_. 2) left_network [Interval, Usb 3, Usb 0, Interval] u \<and>
     zb_step map_write list_alarms (\<lambda>_. 2) Alarm_due u v \<and>
     calls (dev v) = calls (dev left_network) @ [Nvram_erase, Sys_reboot_cold]"
proof -
  let ?step = "zb_step map_write list_alarms (\<lambda>_. 2)" and ?run = "zb_run map_write list_alarms (\<lambda>_. 2) left_network"
  let ?at = "\<lambda>n v. left_network\<lparr>dev := (dev left_network)\<lparr>alarms := [n], usb_state := v\<rparr>\<rparr>"
  have steps: "?step Interval left_network (?at 1 0)" "?step (Usb 3) (?at 1 0) (?at 1 3)"
    "?step (Usb 0) (?at 1 3) (?at 1 0)" "?step Interval (?at 1 0) (?at 0 0)"
    using zb_step.interval [of left_network list_alarms map_write "\<lambda>_. 2"]
      zb_step.usb [of "?at 1 0" 3 "dev (?at 1 3)" map_write list_alarms "\<lambda>_. 2"]
      zb_step.usb [of "?at 1 3" 0 "dev (?at 1 0)" map_write list_alarms "\<lambda>_. 2"]
      zb_step.interval [of "?at 1 0" list_alarms map_write "\<lambda>_. 2"]
    by (simp_all add: left_network_def list_alarms_def usb_cb_def)
  have "?run ((([] @ [Interval]) @ [Usb 3]) @ [Usb 0]) (?at 1 0)"
    by (intro zb_run.go [OF _ steps(3)] zb_run.go [OF _ steps(2)] zb_run.go [OF _ steps(1)] zb_run.stop)
  from zb_run.go [OF this steps(4)] have run: "?run [Interval, Usb 3, Usb 0, Interval] (?at 0 0)" by simp
  have sig: "network_signal 3" and quiet: "\<forall>e\<in>set [Interval, Usb 3, Usb 0, Interval]. \<not> network_event e \<and> e \<noteq> Alarm_due"
    by (simp_all add: network_signal_def network_event_def)
  have on: "ctl (dev left_network) = Running" "ctl (dev (?at 0 0)) = Running"
    by (simp_all add: left_network_def)
  from lost_connection_acted_on [OF list_alarms_laws sig booted_leave on(1) run quiet on(2)]
  have "\<exists>v. ?step Alarm_due (?at 0 0) v \<and> calls (dev v) = calls (dev left_network) @ [Nvram_erase, Sys_reboot_cold]"
    by (auto simp: intervals_def recon_delay_def left_network_def)
  with run show ?thesis by blast
qed

theorem single_alarm_witness:
  "length (pending list_alarms (alarms (dev left_network))) \<le> 1 \<and> pending list_alarms (alarms (dev left_network)) \<noteq> []"
proof -
  have "zb_run map_write list_alarms (\<lambda>_. 2) booted ([] @ [Signal 0 3 0 0]) left_network"
    by (rule zb_run.go [OF zb_run.stop booted_leave])
  from single_alarm [OF list_alarms_laws booted_ok this] show ?thesis
    by (simp add: left_network_def list_alarms_def)
qed

theorem nvram_erase_justified_witness:
  "\<exists>t. zb_step map_write list_alarms (\<lambda>_. 2) Command booted t \<and> calls (dev t) = [Nvram_erase, Sys_reboot_cold] \<and>
     ctl (dev t) = Rebooting"
proof -
  let ?d = "(dev booted)\<lparr>calls := [Nvram_erase, Sys_reboot_cold], ctl := Rebooting\<rparr>"
  have "command_control map_write (dev booted) = Some ?d"
    by (simp add: command_control_eq run_command_def stm_simps booted_def)
  then have st: "zb_step map_write list_alarms (\<lambda>_. 2) Command booted (booted\<lparr>dev := ?d\<rparr>)"
    by (intro zb_step.command) (simp_all add: booted_def)
  have "list_ex data_lost (drop (length (calls (dev booted))) (calls (dev (booted\<lparr>dev := ?d\<rparr>))))"
    by (simp add: booted_def)
  from nvram_erase_justified [OF list_alarms_laws booted_ok zb_run.stop st this] st show ?thesis
    by (auto simp: booted_def)
qed

definition default_dev :: "((u16 \<Rightarrow> u16 option), nat list) zb_dev" where
  "default_dev = (dev booted)\<lparr>conf := \<lparr>MBbuf_main = map reg_default [0..<120], flash = Map.empty\<rparr>\<rparr>"

theorem address_and_code_set_up_witness:
  "\<exists>t ic. address_and_code_init (replicate 8 0) (replicate 18 0) [1, 2, 3, 4, 5, 6, 7, 8] default_dev = Some t \<and>
     MBbuf_main (conf t) ! 61 = 2 \<and> crc16_x25 ic 18 = Some 0x0F47"
proof -
  have "length (MBbuf_main (conf default_dev)) = 120" "ctl default_dev = Running"
    by (simp_all add: default_dev_def booted_def)
  then obtain t ic where t: "address_and_code_init (replicate 8 0) (replicate 18 0) [1, 2, 3, 4, 5, 6, 7, 8] default_dev = Some t"
    "\<forall>j<120. MBbuf_main (conf t) ! j =
      (if 60 \<le> j \<and> j < 68 then ucast ([1, 2, 3, 4, 5, 6, 7, 8 :: u8] ! (j - 60)) else MBbuf_main (conf default_dev) ! j)"
    "crc16_x25 ic 18 = Some 0x0F47"
    using address_and_code_set_up [of default_dev "replicate 8 0" "replicate 18 0" "[1, 2, 3, 4, 5, 6, 7, 8]"] by auto
  from t(2) have "MBbuf_main (conf t) ! 61 = 2" by simp
  with t(1,3) show ?thesis by blast
qed

end
