(* ===== verification/NtcTable.thy ===== *)
theory NtcTable
  imports RegTable
begin

text \<open>
  The thermistor table of \<open>src/measure_NTC.c\<close>: for every temperature step the ADC value the
  divider gives at that temperature.  The code computes it in \<open>float\<close> and \<open>double\<close>; the model
  computes with real numbers and passes every intermediate result through the rounding of its
  type.  The two roundings and the \<open>exp\<close> of the C library are parameters: \<^const>\<open>None\<close> stands
  for a result that is not a finite number.  With exact arithmetic they are \<open>Some\<close>.
\<close>

section \<open>Data\<close>

record NTC_Calculation_Data_t =
  NTC_r2 :: u32
  NTC_b :: int
  NTC_t2 :: int
  NTC_r_divider :: u32
  NTC_start_temperature :: int
  NTC_step_temperature :: int
  NTC_temper_number_step :: u16
  NTC_adc_resolution :: u16
  NTC_adc_multipler :: u16

record ntc =
  termo_table :: "u16 list"
  NTC_Parametr :: NTC_Calculation_Data_t

abbreviation (input) TEMPERATURE_TABLE_SIZE :: nat where "TEMPERATURE_TABLE_SIZE \<equiv> SIZE_NTC_TABLE"

type_synonym rounding = "real \<Rightarrow> real option"

section \<open>One entry\<close>

text \<open>The value of an unsigned register as a real number.\<close>

definition fl :: "'a::len word \<Rightarrow> real" where
  "fl w = of_int (uint w)"

lemma fl_nonneg [simp]: "0 \<le> fl w"
  unfolding fl_def by (simp only: of_int_0_le_iff uint_ge_0)

lemma fl_pos: "0 < fl w \<longleftrightarrow> 0 < uint w"
  unfolding fl_def by (simp only: of_int_0_less_iff)

lemma fl_mult: "fl v * fl w = of_int (uint v * uint w)"
  unfolding fl_def by (simp only: of_int_mult)

text \<open>The conversion of a \<open>float\<close> to \<open>uint16_t\<close>, undefined unless the truncated value fits.\<close>

definition to_u16 :: "real \<Rightarrow> u16 option" where
  "to_u16 x = (if - 1 < x \<and> x < 65536 then Some (word_of_int (if x < 0 then 0 else \<lfloor>x\<rfloor>)) else None)"

definition f_div :: "rounding \<Rightarrow> real \<Rightarrow> real \<Rightarrow> real option" where
  "f_div rf a b = (if b = 0 then None else rf (a / b))"

text \<open>\<open>(float) t + 273.15\<close>, assigned to a \<open>float\<close>.\<close>

definition kelvin :: "rounding \<Rightarrow> rounding \<Rightarrow> real \<Rightarrow> real option" where
  "kelvin rf rd t = do { k \<leftarrow> rd 273.15; s \<leftarrow> rd (t + k); rf s }"

definition Temp_t1 :: "rounding \<Rightarrow> rounding \<Rightarrow> NTC_Calculation_Data_t \<Rightarrow> nat \<Rightarrow> real option" where
  "Temp_t1 rf rd P i = do {
     p \<leftarrow> rf (real i * of_int (NTC_step_temperature P));
     t \<leftarrow> rf (of_int (NTC_start_temperature P) + p);
     kelvin rf rd t
   }"

definition r_Value :: "rounding \<Rightarrow> rounding \<Rightarrow> rounding \<Rightarrow> NTC_Calculation_Data_t \<Rightarrow> real \<Rightarrow> real \<Rightarrow> real option" where
  "r_Value rf rd ex P t1 t2 = do {
     r2 \<leftarrow> rf (fl (NTC_r2 P));
     x1 \<leftarrow> f_div rf (of_int (NTC_b P)) t1;
     x2 \<leftarrow> f_div rf (of_int (NTC_b P)) t2;
     d \<leftarrow> rf (x1 - x2);
     e \<leftarrow> ex d;
     v \<leftarrow> rd (r2 * e);
     rf v
   }"

definition termo_entry :: "rounding \<Rightarrow> NTC_Calculation_Data_t \<Rightarrow> real \<Rightarrow> u16 option" where
  "termo_entry rf P r = do {
     rdiv \<leftarrow> rf (fl (NTC_r_divider P));
     a \<leftarrow> rf (r * fl (NTC_adc_multipler P));
     a \<leftarrow> rf (a * fl (NTC_adc_resolution P));
     a \<leftarrow> rf (a * 2);
     a \<leftarrow> rf (a + r);
     a \<leftarrow> rf (a + rdiv);
     b \<leftarrow> rf (r + rdiv);
     b \<leftarrow> rf (2 * b);
     q \<leftarrow> f_div rf a b;
     to_u16 q
   }"

section \<open>The table\<close>

definition clamp_steps :: "NTC_Calculation_Data_t \<Rightarrow> NTC_Calculation_Data_t" where
  "clamp_steps P =
     (if unat (NTC_temper_number_step P) > TEMPERATURE_TABLE_SIZE
      then P\<lparr>NTC_temper_number_step := word_of_nat TEMPERATURE_TABLE_SIZE\<rparr> else P)"

definition table_body ::
    "rounding \<Rightarrow> rounding \<Rightarrow> rounding \<Rightarrow> NTC_Calculation_Data_t \<Rightarrow> real \<Rightarrow> nat \<Rightarrow> u16 list \<Rightarrow> u16 list option" where
  "table_body rf rd ex P t2 i tab = do {
     t1 \<leftarrow> Temp_t1 rf rd P i;
     r \<leftarrow> r_Value rf rd ex P t1 t2;
     v \<leftarrow> termo_entry rf P r;
     write_at tab i v
   }"

definition calculate_table_NTC ::
    "rounding \<Rightarrow> rounding \<Rightarrow> rounding \<Rightarrow> NTC_Calculation_Data_t \<Rightarrow> ntc \<Rightarrow> ntc option" where
  "calculate_table_NTC rf rd ex NTC_Data st = do {
     t2 \<leftarrow> kelvin rf rd (of_int (NTC_t2 NTC_Data));
     let P = clamp_steps NTC_Data;
     tab \<leftarrow> for_loop 0 (unat (NTC_temper_number_step P)) (table_body rf rd ex P t2) (termo_table st);
     Some \<lparr>termo_table = tab, NTC_Parametr = P\<rparr>
   }"

section \<open>With exact arithmetic\<close>

text \<open>The resistance of the thermistor at a temperature in Kelvin, and the voltage divider.\<close>

definition ntc_resistance :: "NTC_Calculation_Data_t \<Rightarrow> real \<Rightarrow> real" where
  "ntc_resistance P t = fl (NTC_r2 P) *
     exp (of_int (NTC_b P) / t - of_int (NTC_b P) / (of_int (NTC_t2 P) + 273.15))"

definition divider_counts :: "NTC_Calculation_Data_t \<Rightarrow> real \<Rightarrow> real" where
  "divider_counts P r = r / (r + fl (NTC_r_divider P)) *
     fl (NTC_adc_multipler P) * fl (NTC_adc_resolution P)"

definition step_kelvin :: "NTC_Calculation_Data_t \<Rightarrow> nat \<Rightarrow> real" where
  "step_kelvin P i = of_int (NTC_start_temperature P + int i * NTC_step_temperature P) + 273.15"

text \<open>The parameters that describe a thermistor: positive resistances and absolute temperatures.\<close>

definition plausible :: "NTC_Calculation_Data_t \<Rightarrow> bool" where
  "plausible P \<longleftrightarrow> 0 < uint (NTC_r2 P) \<and> 0 < uint (NTC_r_divider P) \<and> 0 \<le> NTC_b P \<and>
     - 273 \<le> NTC_start_temperature P \<and> 0 \<le> NTC_step_temperature P \<and> - 273 \<le> NTC_t2 P \<and>
     uint (NTC_adc_multipler P) * uint (NTC_adc_resolution P) < 65535"

lemma plausible_range: "plausible P \<Longrightarrow> fl (NTC_adc_multipler P) * fl (NTC_adc_resolution P) \<le> 65534"
proof -
  assume "plausible P"
  then have "uint (NTC_adc_multipler P) * uint (NTC_adc_resolution P) \<le> 65534"
    by (simp add: plausible_def)
  then have "real_of_int (uint (NTC_adc_multipler P) * uint (NTC_adc_resolution P)) \<le> of_int 65534"
    by (simp only: of_int_le_iff)
  then show ?thesis by (simp only: fl_mult of_int_numeral)
qed

lemma step_kelvin_pos: "plausible P \<Longrightarrow> 0 < step_kelvin P i"
proof -
  assume "plausible P"
  then have "- 273 \<le> NTC_start_temperature P + int i * NTC_step_temperature P"
    by (simp add: plausible_def add_increasing2)
  then have "real_of_int (- 273) \<le> of_int (NTC_start_temperature P + int i * NTC_step_temperature P)"
    by (simp only: of_int_le_iff)
  then show ?thesis by (simp add: step_kelvin_def)
qed

lemma ntc_resistance_pos: "plausible P \<Longrightarrow> 0 < ntc_resistance P t"
  by (simp add: ntc_resistance_def plausible_def fl_pos)

lemma ntc_resistance_antimono:
  assumes "plausible P" "0 < s" "s \<le> t"
  shows "ntc_resistance P t \<le> ntc_resistance P s"
proof -
  have "of_int (NTC_b P) / t \<le> of_int (NTC_b P) / s"
    using assms by (intro divide_left_mono) (simp_all add: plausible_def)
  with assms(1) show ?thesis
    by (simp add: ntc_resistance_def plausible_def fl_pos)
qed

lemma divider_mono:
  fixes r r' d :: real
  assumes "0 < r" "r \<le> r'" "0 \<le> d"
  shows "r / (r + d) \<le> r' / (r' + d)"
proof -
  have "d * r \<le> d * r'" using assms by (intro mult_left_mono) simp_all
  with assms show ?thesis by (simp add: field_simps)
qed

lemma divider_counts_mono:
  assumes "0 < r" "r \<le> r'"
  shows "divider_counts P r \<le> divider_counts P r'"
  unfolding divider_counts_def
  by (intro mult_right_mono divider_mono assms) simp_all

lemma divider_counts_bounds:
  assumes "0 < r"
  shows "0 \<le> divider_counts P r"
    "divider_counts P r \<le> fl (NTC_adc_multipler P) * fl (NTC_adc_resolution P)"
proof -
  have q: "0 \<le> r / (r + fl (NTC_r_divider P))" "r / (r + fl (NTC_r_divider P)) \<le> 1"
    using assms by (simp_all add: pos_divide_le_eq add_pos_nonneg)
  from q(1) show "0 \<le> divider_counts P r"
    unfolding divider_counts_def by (intro mult_nonneg_nonneg) simp_all
  have "r / (r + fl (NTC_r_divider P)) * fl (NTC_adc_multipler P) \<le>
      1 * fl (NTC_adc_multipler P)"
    by (rule mult_right_mono) (use q in simp_all)
  then have "r / (r + fl (NTC_r_divider P)) * fl (NTC_adc_multipler P) *
      fl (NTC_adc_resolution P) \<le> fl (NTC_adc_multipler P) * fl (NTC_adc_resolution P)"
    by (intro mult_right_mono) simp_all
  then show "divider_counts P r \<le> fl (NTC_adc_multipler P) * fl (NTC_adc_resolution P)"
    by (simp add: divider_counts_def)
qed

definition exact_entry :: "NTC_Calculation_Data_t \<Rightarrow> nat \<Rightarrow> u16" where
  "exact_entry P i = word_of_int \<lfloor>divider_counts P (ntc_resistance P (step_kelvin P i)) + 1 / 2\<rfloor>"

lemma termo_entry_exact:
  assumes "plausible P" "0 < r"
  shows "termo_entry Some P r = Some (word_of_int \<lfloor>divider_counts P r + 1 / 2\<rfloor>)"
proof -
  let ?m = "fl (NTC_adc_multipler P)" and ?n = "fl (NTC_adc_resolution P)"
  let ?d = "fl (NTC_r_divider P)"
  have "0 < ?d" using assms(1) by (simp add: plausible_def fl_pos)
  with assms(2) have eq: "(r * ?m * ?n * 2 + r + ?d) / (2 * (r + ?d)) = divider_counts P r + 1 / 2"
    by (simp add: divider_counts_def field_simps)
  have "fl (NTC_adc_multipler P) * fl (NTC_adc_resolution P) \<le> 65534"
    using assms(1) by (rule plausible_range)
  with divider_counts_bounds [OF assms(2), of P] have "0 \<le> divider_counts P r" "divider_counts P r + 1 / 2 < 65536"
    by simp_all
  moreover have "termo_entry Some P r = to_u16 ((r * ?m * ?n * 2 + r + ?d) / (2 * (r + ?d)))"
    using assms(2) \<open>0 < ?d\<close> by (simp add: termo_entry_def f_div_def)
  ultimately show ?thesis
    unfolding eq by (simp add: to_u16_def)
qed

lemma table_body_exact:
  assumes "plausible P" "t2 = of_int (NTC_t2 P) + 273.15" "i < length tab"
  shows "table_body Some Some (\<lambda>x. Some (exp x)) P t2 i tab = Some (tab[i := exact_entry P i])"
proof -
  have "0 < step_kelvin P i" using step_kelvin_pos [OF assms(1)] .
  moreover have "t2 \<noteq> 0"
  proof -
    have "real_of_int (- 273) \<le> of_int (NTC_t2 P)"
      using assms(1) by (simp only: of_int_le_iff plausible_def)
    then show ?thesis using assms(2) by simp
  qed
  ultimately have "r_Value Some Some (\<lambda>x. Some (exp x)) P (step_kelvin P i) t2 = Some (ntc_resistance P (step_kelvin P i))"
    by (simp add: r_Value_def f_div_def ntc_resistance_def assms(2))
  moreover have "Temp_t1 Some Some P i = Some (step_kelvin P i)"
    by (simp add: Temp_t1_def kelvin_def step_kelvin_def)
  ultimately show ?thesis
    using termo_entry_exact [OF assms(1) ntc_resistance_pos [OF assms(1), of "step_kelvin P i"]] assms(3)
    by (simp add: table_body_def exact_entry_def)
qed

lemma clamp_steps_simps [simp]:
  "unat (NTC_temper_number_step (clamp_steps P)) = min 166 (unat (NTC_temper_number_step P))"
  "plausible (clamp_steps P) = plausible P" "exact_entry (clamp_steps P) = exact_entry P"
  "NTC_t2 (clamp_steps P) = NTC_t2 P"
  "NTC_start_temperature (clamp_steps P) = NTC_start_temperature P"
  "NTC_step_temperature (clamp_steps P) = NTC_step_temperature P"
  by (simp_all add: clamp_steps_def plausible_def exact_entry_def step_kelvin_def ntc_resistance_def
      divider_counts_def fun_eq_iff)

lemma calculate_table_exact:
  assumes "plausible P" "length (termo_table st) = 166"
  shows "calculate_table_NTC Some Some (\<lambda>x. Some (exp x)) P st = Some
     \<lparr>termo_table = map (exact_entry P) [0..<min 166 (unat (NTC_temper_number_step P))] @
        drop (min 166 (unat (NTC_temper_number_step P))) (termo_table st), NTC_Parametr = clamp_steps P\<rparr>"
proof -
  let ?n = "min 166 (unat (NTC_temper_number_step P))" and ?t2 = "of_int (NTC_t2 P) + 273.15 :: real"
  let ?body = "table_body Some Some (\<lambda>x. Some (exp x)) (clamp_steps P) ?t2"
  have "succeeds (for_loop 0 ?n ?body (termo_table st))
      (\<lambda>tab. tab = map (exact_entry P) [0..<0 + ?n] @ drop (0 + ?n) (termo_table st))"
  proof (rule for_loop_rule)
    fix i tab
    assume i: "i < 0 + ?n" and tab: "tab = map (exact_entry P) [0..<i] @ drop i (termo_table st)"
    have "i < 166" using i by simp
    with tab assms(2) have "i < length tab" "tab[i := exact_entry P i] =
        map (exact_entry P) [0..<Suc i] @ drop (Suc i) (termo_table st)"
      by (simp_all add: list_update_append Cons_nth_drop_Suc [symmetric])
    then show "succeeds (?body i tab) (\<lambda>tab. tab = map (exact_entry P) [0..<Suc i] @ drop (Suc i) (termo_table st))"
      using table_body_exact [of "clamp_steps P" ?t2 i tab] assms(1) by simp
  qed simp
  then show ?thesis
    by (auto simp: calculate_table_NTC_def kelvin_def elim!: succeedsE)
qed

lemma exact_entry_antimono:
  assumes "plausible P" "i \<le> j"
  shows "exact_entry P j \<le> exact_entry P i"
proof -
  let ?c = "\<lambda>i. divider_counts P (ntc_resistance P (step_kelvin P i))"
  have "int i * NTC_step_temperature P \<le> int j * NTC_step_temperature P"
    using assms by (intro mult_right_mono) (simp_all add: plausible_def)
  then have "step_kelvin P i \<le> step_kelvin P j"
    unfolding step_kelvin_def by (intro add_right_mono) (simp only: of_int_le_iff add_left_mono)
  with assms have "?c j \<le> ?c i"
    by (intro divider_counts_mono ntc_resistance_antimono ntc_resistance_pos step_kelvin_pos)
  then have floors: "\<lfloor>?c j + 1 / 2\<rfloor> \<le> \<lfloor>?c i + 1 / 2\<rfloor>" by (intro floor_mono) simp
  have "fl (NTC_adc_multipler P) * fl (NTC_adc_resolution P) \<le> 65534"
    using assms(1) by (rule plausible_range)
  then have "0 \<le> \<lfloor>?c k + 1 / 2\<rfloor>" "\<lfloor>?c k + 1 / 2\<rfloor> < 65536" for k
    using divider_counts_bounds [OF ntc_resistance_pos [OF assms(1), of "step_kelvin P k"], of P]
    by (simp_all add: floor_less_iff)
  with floors show ?thesis
    by (simp add: exact_entry_def word_le_def uint_word_of_int)
qed

end
