(* ===== verification/NtcCalc.thy ===== *)
theory NtcCalc
  imports NtcTable Settings
begin

text \<open>
  From an ADC value to a temperature: \<open>calc_temperature\<close> of \<open>src/measure_NTC.c\<close>, a binary
  search in the table followed by linear interpolation, with its 8-bit indices and 16-bit
  results.  A read outside the table is \<^const>\<open>None\<close>.
\<close>

section \<open>The code\<close>

abbreviation (input) TEMPERATURE_UNDER :: int where "TEMPERATURE_UNDER \<equiv> 0x7001"
abbreviation (input) TEMPERATURE_OVER :: int where "TEMPERATURE_OVER \<equiv> 0x7002"

definition middle :: "u8 \<Rightarrow> u8 \<Rightarrow> u8" where
  "middle l r = word_of_int ((uint l + uint r) div 2)"

lemma unat_middle: "unat (middle l r) = (unat l + unat r) div 2"
proof -
  have "(unat l + unat r) div 2 < 256"
    using unat_u8_range [of l] unat_u8_range [of r] by linarith
  moreover have "uint (middle l r) = int ((unat l + unat r) div 2) mod 256"
    by (simp add: middle_def uint_word_of_int zdiv_int)
  ultimately show ?thesis
    by (metis (mono_tags, lifting) mod_less of_nat_eq_iff of_nat_mod of_nat_numeral uint_nat)
qed

lemma uint_unat_u8: "uint (w :: u8) = int (unat w)"
  by simp

lemma gap_iff: "uint r - uint l > 1 \<longleftrightarrow> Suc (unat l) < unat r" for l r :: u8
  unfolding uint_unat_u8 by arith

function search :: "u16 list \<Rightarrow> u16 \<Rightarrow> u8 \<Rightarrow> u8 \<Rightarrow> (u8 \<times> u8) option" where
  "search tab adcsum l r =
     (if uint r - uint l > 1 then
        let m = middle l r in
        (case read_at tab (unat m) of
           None \<Rightarrow> None
         | Some mid \<Rightarrow> if adcsum > mid then search tab adcsum l m else search tab adcsum m r)
      else Some (l, r))"
  by auto
termination
  by (relation "measure (\<lambda>(_, _, l, r). unat r - unat l)") (auto simp: unat_middle gap_iff)

declare search.simps [simp del]

definition interpolate :: "u16 list \<Rightarrow> int \<Rightarrow> int \<Rightarrow> u16 \<Rightarrow> u8 \<Rightarrow> u8 \<Rightarrow> int option" where
  "interpolate tab START STEP adcsum l r = do {
     vl \<leftarrow> read_at tab (unat l);
     (if adcsum \<ge> vl then Some (s16 (uint l * STEP + START))
      else do {
        vr \<leftarrow> read_at tab (unat r);
        let vd = vl - vr;
        let res = s16 (START + uint r * STEP);
        Some (if vd \<noteq> 0
              then s16 (res - c_div (STEP * (uint adcsum - uint vr) + uint (drop_bit 1 vd)) (uint vd))
              else res)
      })
   }"

definition calc_temperature :: "ntc \<Rightarrow> u16 \<Rightarrow> int option" where
  "calc_temperature st adcsum = do {
     let r = word_of_int (uint (NTC_temper_number_step (NTC_Parametr st)) - 1);
     thigh \<leftarrow> read_at (termo_table st) (unat (r :: u8));
     let START = NTC_start_temperature (NTC_Parametr st);
     let STEP = NTC_step_temperature (NTC_Parametr st);
     (if adcsum \<le> thigh
      then Some (if adcsum < thigh then TEMPERATURE_OVER else s16 (STEP * uint r + START))
      else do {
        tlow \<leftarrow> read_at (termo_table st) 0;
        (if adcsum \<ge> tlow
         then Some (if adcsum > tlow then TEMPERATURE_UNDER else s16 START)
         else do {
           (l, r) \<leftarrow> search (termo_table st) adcsum 0 r;
           interpolate (termo_table st) START STEP adcsum l r
         })
      })
   }"


section \<open>The search\<close>

lemma middle_between:
  "Suc (unat l) < unat r \<Longrightarrow> unat l < unat (middle l r) \<and> unat (middle l r) < unat r"
  by (simp add: unat_middle) linarith

text \<open>
  The search ends with two neighbours around the value.  Nothing is asked of the table but that
  the value lies between its two ends.
\<close>

lemma search_result:
  assumes "unat l < unat r" "unat r < length tab" "tab ! unat r < a" "a \<le> tab ! unat l"
  shows "succeeds (search tab a l r) (\<lambda>(l', r'). unat r' = Suc (unat l') \<and> unat l \<le> unat l' \<and>
     unat r' \<le> unat r \<and> tab ! unat r' < a \<and> a \<le> tab ! unat l')"
  using assms
proof (induction tab a l r rule: search.induct)
  case (1 tab a l r)
  show ?case
  proof (cases "Suc (unat l) < unat r")
    case False
    with 1(3) have "unat r = Suc (unat l)" by simp
    with False 1(3-6) show ?thesis by (subst search.simps) (simp add: gap_iff)
  next
    case True
    let ?m = "middle l r"
    note m = middle_between [OF True]
    have rd: "read_at tab (unat ?m) = Some (tab ! unat ?m)"
      using m 1(4) by simp
    have gap: "uint r - uint l > 1" using True by (simp add: gap_iff)
    show ?thesis
    proof (cases "a > tab ! unat ?m")
      case less: True
      have eq: "search tab a l r = search tab a l ?m"
        using gap rd less by (subst search.simps) simp
      have "succeeds (search tab a l ?m) (\<lambda>(l', r'). unat r' = Suc (unat l') \<and> unat l \<le> unat l' \<and>
         unat r' \<le> unat ?m \<and> tab ! unat r' < a \<and> a \<le> tab ! unat l')"
        by (rule 1(1) [OF gap refl rd less]) (use m 1(4,6) less in auto)
      then show ?thesis unfolding eq by (rule succeeds_mono) (use m in auto)
    next
      case ge: False
      have eq: "search tab a l r = search tab a ?m r"
        using gap rd ge by (subst search.simps) simp
      have "succeeds (search tab a ?m r) (\<lambda>(l', r'). unat r' = Suc (unat l') \<and> unat ?m \<le> unat l' \<and>
         unat r' \<le> unat r \<and> tab ! unat r' < a \<and> a \<le> tab ! unat l')"
        by (rule 1(2) [OF gap refl rd ge]) (use m 1(4,5) ge in auto)
      then show ?thesis unfolding eq by (rule succeeds_mono) (use m in auto)
    qed
  qed
qed

section \<open>The interpolation\<close>

text \<open>
  The line between two neighbouring entries, as a function on integers: the temperature of the
  upper index less the rounded part of a step by which the value exceeds the entry there.
\<close>

definition ntc_line :: "u16 list \<Rightarrow> int \<Rightarrow> int \<Rightarrow> nat \<Rightarrow> u16 \<Rightarrow> int" where
  "ntc_line tab START STEP i a =
     (let d = uint (tab ! i) - uint (tab ! Suc i) in
      START + int (Suc i) * STEP - (STEP * (uint a - uint (tab ! Suc i)) + d div 2) div d)"

lemma div_lt_of_lt_mult: "0 < d \<Longrightarrow> n < (k + 1) * d \<Longrightarrow> n div d \<le> k" for d n k :: int
proof -
  assume d: "0 < d" and n: "n < (k + 1) * d"
  have "d * (n div d) = n - n mod d" "0 \<le> n mod d" using d by (simp_all add: minus_mod_eq_mult_div)
  with n have "d * (n div d) < d * (k + 1)" by (simp only: mult.commute)
  with d show "n div d \<le> k" by (simp add: mult_less_cancel_left_pos)
qed

lemma ntc_line_bounds:
  assumes "tab ! Suc i < a" "a \<le> tab ! i" "0 \<le> STEP"
  shows "START + int i * STEP \<le> ntc_line tab START STEP i a"
    "ntc_line tab START STEP i a \<le> START + int (Suc i) * STEP"
proof -
  let ?d = "uint (tab ! i) - uint (tab ! Suc i)" and ?x = "uint a - uint (tab ! Suc i)"
  have x: "0 < ?x" "?x \<le> ?d" using assms(1,2) by (simp_all add: word_less_def word_le_def)
  have "0 \<le> STEP * ?x" using assms(3) x by simp
  then have "0 \<le> (STEP * ?x + ?d div 2) div ?d" using x by (intro pos_imp_zdiv_nonneg_iff [THEN iffD2]) auto
  moreover have "(STEP * ?x + ?d div 2) div ?d \<le> STEP"
  proof -
    have "STEP * ?x \<le> STEP * ?d" using x(2) assms(3) by (rule mult_left_mono)
    then have "STEP * ?x + ?d div 2 < (STEP + 1) * ?d" using x by (simp add: algebra_simps)
    then show ?thesis using div_lt_of_lt_mult [of ?d] x by simp
  qed
  ultimately show "START + int i * STEP \<le> ntc_line tab START STEP i a"
    "ntc_line tab START STEP i a \<le> START + int (Suc i) * STEP"
    by (simp_all add: ntc_line_def Let_def algebra_simps)
qed


lemma ntc_line_left:
  assumes "tab ! Suc i < tab ! i"
  shows "ntc_line tab START STEP i (tab ! i) = START + int i * STEP"
proof -
  let ?d = "uint (tab ! i) - uint (tab ! Suc i)"
  have "0 < ?d" using assms by (simp add: word_less_def)
  then have "(STEP * ?d + ?d div 2) div ?d = STEP" by simp
  then show ?thesis by (simp add: ntc_line_def Let_def algebra_simps)
qed

text \<open>Along one line a larger ADC value never means a higher temperature.\<close>

lemma ntc_line_antimono:
  assumes "tab ! Suc i < tab ! i" "0 \<le> STEP" "a \<le> b"
  shows "ntc_line tab START STEP i b \<le> ntc_line tab START STEP i a"
proof -
  let ?d = "uint (tab ! i) - uint (tab ! Suc i)"
  have "0 < ?d" "uint a \<le> uint b" using assms by (simp_all add: word_less_def word_le_def)
  then have "(STEP * (uint a - uint (tab ! Suc i)) + ?d div 2) div ?d \<le>
      (STEP * (uint b - uint (tab ! Suc i)) + ?d div 2) div ?d"
    using assms(2) by (intro zdiv_mono1) (simp_all add: mult_left_mono)
  then show ?thesis by (simp add: ntc_line_def Let_def)
qed

section \<open>The conversion as a whole\<close>

text \<open>
  A table that fits its array, with at least one step and temperatures that fit \<open>int16_t\<close>.
\<close>

definition wf_ntc :: "ntc \<Rightarrow> bool" where
  "wf_ntc st \<longleftrightarrow> length (termo_table st) = 166 \<and>
     1 \<le> unat (NTC_temper_number_step (NTC_Parametr st)) \<and>
     unat (NTC_temper_number_step (NTC_Parametr st)) \<le> 166 \<and>
     0 \<le> NTC_step_temperature (NTC_Parametr st) \<and> - 32768 \<le> NTC_start_temperature (NTC_Parametr st) \<and>
     NTC_start_temperature (NTC_Parametr st) + 166 * NTC_step_temperature (NTC_Parametr st) < 32768"

abbreviation (input) steps :: "ntc \<Rightarrow> nat" where
  "steps st \<equiv> unat (NTC_temper_number_step (NTC_Parametr st))"

abbreviation (input) temp_at :: "ntc \<Rightarrow> nat \<Rightarrow> int" where
  "temp_at st i \<equiv> NTC_start_temperature (NTC_Parametr st) + int i * NTC_step_temperature (NTC_Parametr st)"

lemma temp_at_fits:
  assumes "wf_ntc st" "i \<le> 166"
  shows "s16 (temp_at st i) = temp_at st i"
proof -
  have "0 \<le> int i * NTC_step_temperature (NTC_Parametr st)"
    "int i * NTC_step_temperature (NTC_Parametr st) \<le> 166 * NTC_step_temperature (NTC_Parametr st)"
    using assms by (simp_all add: wf_ntc_def mult_right_mono)
  with assms(1) show ?thesis by (intro s16_id) (simp_all add: wf_ntc_def)
qed

lemma s16_between: "s16 x = x \<Longrightarrow> s16 y = y \<Longrightarrow> x \<le> z \<Longrightarrow> z \<le> y \<Longrightarrow> s16 z = z"
  using s16_lower [of x] s16_upper [of y] by (intro s16_id) simp_all

lemma last_index:
  assumes "wf_ntc st"
  shows "unat (word_of_int (uint (NTC_temper_number_step (NTC_Parametr st)) - 1) :: u8) = steps st - 1"
proof -
  have "uint (NTC_temper_number_step (NTC_Parametr st)) - 1 = int (steps st - 1)"
    using assms by (simp add: wf_ntc_def of_nat_diff)
  moreover have "steps st - 1 < 256"
    using assms unfolding wf_ntc_def by linarith
  ultimately
  show ?thesis by (simp only: of_int_of_nat_eq) (simp add: unat_of_nat)
qed

lemma calc_eq:
  assumes "wf_ntc st"
  shows "calc_temperature st a =
     (if a \<le> termo_table st ! (steps st - 1)
      then Some (if a < termo_table st ! (steps st - 1) then TEMPERATURE_OVER else temp_at st (steps st - 1))
      else if a \<ge> termo_table st ! 0
      then Some (if a > termo_table st ! 0 then TEMPERATURE_UNDER else temp_at st 0)
      else do {
        (l, r) \<leftarrow> search (termo_table st) a 0 (word_of_int (uint (NTC_temper_number_step (NTC_Parametr st)) - 1));
        interpolate (termo_table st) (NTC_start_temperature (NTC_Parametr st))
          (NTC_step_temperature (NTC_Parametr st)) a l r
      })"
proof -
  have r: "uint (word_of_int (uint (NTC_temper_number_step (NTC_Parametr st)) - 1) :: u8) = int (steps st - 1)"
    using last_index [OF assms] uint_unat_u8 by metis
  have len: "steps st - 1 < length (termo_table st)" "0 < length (termo_table st)"
    using assms by (auto simp: wf_ntc_def)
  have ends: "s16 (NTC_step_temperature (NTC_Parametr st) * int (steps st - 1) +
      NTC_start_temperature (NTC_Parametr st)) = temp_at st (steps st - 1)"
    "s16 (NTC_start_temperature (NTC_Parametr st)) = temp_at st 0"
  proof -
    have "steps st - 1 \<le> 166" using assms unfolding wf_ntc_def by linarith
    from temp_at_fits [OF assms this] show "s16 (NTC_step_temperature (NTC_Parametr st) * int (steps st - 1) +
      NTC_start_temperature (NTC_Parametr st)) = temp_at st (steps st - 1)"
      by (simp only: mult.commute add.commute)
    from temp_at_fits [OF assms, of 0] show "s16 (NTC_start_temperature (NTC_Parametr st)) = temp_at st 0"
      by simp
  qed
  show ?thesis
    unfolding calc_temperature_def Let_def last_index [OF assms] r ends
      read_at_Some [OF len(1)] read_at_Some [OF len(2)] Option.bind.bind_lunit by (rule refl)
qed

lemma uint_half: "uint (drop_bit 1 (w :: u16)) = uint w div 2"
proof -
  have "take_bit 16 (uint w) = uint w"
    by (intro take_bit_int_eq_self) simp_all
  then show ?thesis
    by (simp only: unsigned_drop_bit_eq) (simp add: drop_bit_eq_div)
qed

lemma interpolate_line:
  assumes "wf_ntc st" "unat r = Suc (unat l)" "unat r < steps st"
    and "termo_table st ! unat r < a" "a \<le> termo_table st ! unat l"
  shows "interpolate (termo_table st) (NTC_start_temperature (NTC_Parametr st))
      (NTC_step_temperature (NTC_Parametr st)) a l r =
    Some (ntc_line (termo_table st) (NTC_start_temperature (NTC_Parametr st))
      (NTC_step_temperature (NTC_Parametr st)) (unat l) a)"
proof -
  let ?T = "termo_table st" and ?S = "NTC_start_temperature (NTC_Parametr st)"
  let ?D = "NTC_step_temperature (NTC_Parametr st)"
  let ?vl = "?T ! unat l" and ?vr = "?T ! unat r"
  have D: "0 \<le> ?D" and len: "unat l < length ?T" "unat r < length ?T" "unat r \<le> 166" "unat l \<le> 166"
    using assms(1-3) by (auto simp: wf_ntc_def)
  have lt: "uint ?vr < uint a" "uint a \<le> uint ?vl"
    using assms(4,5) by (simp_all add: word_less_def word_le_def)
  have vd: "uint (?vl - ?vr) = uint ?vl - uint ?vr"
    using lt uint_u16_range [of ?vl] by (intro uint_sub_lem [THEN iffD1]) simp
  note line = ntc_line_bounds [of ?T "unat l" a ?D ?S, folded assms(2), OF assms(4,5) D]
  have ur: "uint r = int (unat r)" "uint l = int (unat l)" by simp_all
  show ?thesis
  proof (cases "a \<ge> ?vl")
    case True
    then have a: "a = ?vl" using assms(5) by simp
    then have "ntc_line ?T ?S ?D (unat l) a = ?S + int (unat l) * ?D"
      using assms(2,4) ntc_line_left [of ?T "unat l" ?S ?D] by simp
    moreover have "interpolate ?T ?S ?D a l r = Some (s16 (?S + int (unat l) * ?D))"
      using a len(1) by (simp add: interpolate_def add.commute)
    ultimately show ?thesis
      using temp_at_fits [OF assms(1) len(4)] by simp
  next
    case False
    let ?n = "?D * (uint a - uint ?vr) + (uint ?vl - uint ?vr) div 2"
    have half: "uint (drop_bit 1 (?vl - ?vr)) = (uint ?vl - uint ?vr) div 2"
      unfolding uint_half vd by (rule refl)
    have "0 \<le> ?D * (uint a - uint ?vr)" "0 \<le> (uint ?vl - uint ?vr) div 2"
      using D lt by simp_all
    then have "c_div ?n (uint ?vl - uint ?vr) = ?n div (uint ?vl - uint ?vr)"
      using lt by (intro c_div_nonneg) simp_all
    moreover have "?vl - ?vr \<noteq> 0" using lt vd by auto
    ultimately have "interpolate ?T ?S ?D a l r = Some (s16 (temp_at st (unat r) - ?n div (uint ?vl - uint ?vr)))"
      using False len temp_at_fits [OF assms(1) len(3)] ur(1)
      unfolding interpolate_def by (simp only: read_at_Some Option.bind.bind_lunit Let_def half vd if_False if_True simp_thms)
    also have "temp_at st (unat r) - ?n div (uint ?vl - uint ?vr) = ntc_line ?T ?S ?D (unat l) a"
      by (simp only: ntc_line_def Let_def assms(2))
    also have "s16 \<dots> = \<dots>"
      by (rule s16_between [OF temp_at_fits [OF assms(1) len(4)] temp_at_fits [OF assms(1) len(3)]])
        (use line assms(2) in simp_all)
    finally show ?thesis .
  qed
qed

lemma temp_at_mono:
  assumes "wf_ntc st" "i \<le> j"
  shows "temp_at st i \<le> temp_at st j"
  using assms by (simp add: wf_ntc_def mult_right_mono)

text \<open>What the conversion returns, in the order of the code's cases.\<close>

inductive reading :: "ntc \<Rightarrow> u16 \<Rightarrow> int \<Rightarrow> bool" for st a where
  over: "a < termo_table st ! (steps st - 1) \<Longrightarrow> reading st a TEMPERATURE_OVER"
| last: "a = termo_table st ! (steps st - 1) \<Longrightarrow> reading st a (temp_at st (steps st - 1))"
| under: "termo_table st ! (steps st - 1) < a \<Longrightarrow> termo_table st ! 0 < a \<Longrightarrow> reading st a TEMPERATURE_UNDER"
| first: "termo_table st ! (steps st - 1) < a \<Longrightarrow> a = termo_table st ! 0 \<Longrightarrow> reading st a (temp_at st 0)"
| inside: "Suc i < steps st \<Longrightarrow> termo_table st ! Suc i < a \<Longrightarrow> a \<le> termo_table st ! i \<Longrightarrow>
     termo_table st ! (steps st - 1) < a \<Longrightarrow> a < termo_table st ! 0 \<Longrightarrow>
     reading st a (ntc_line (termo_table st) (NTC_start_temperature (NTC_Parametr st))
       (NTC_step_temperature (NTC_Parametr st)) i a)"

inductive_cases readingE: "reading st a t"

lemma calc_reading:
  assumes "wf_ntc st"
  shows "succeeds (calc_temperature st a) (reading st a)"
proof -
  let ?T = "termo_table st"
  define r :: u8 where "r = word_of_int (uint (NTC_temper_number_step (NTC_Parametr st)) - 1)"
  consider "a < ?T ! (steps st - 1)" | "a = ?T ! (steps st - 1)" | "?T ! (steps st - 1) < a" "?T ! 0 < a"
    | "?T ! (steps st - 1) < a" "a = ?T ! 0" | "?T ! (steps st - 1) < a" "a < ?T ! 0"
    by (meson linorder_less_linear)
  then show ?thesis
  proof cases
    case 5
    have r: "unat r = steps st - 1" unfolding r_def by (rule last_index [OF assms])
    have n: "steps st - 1 \<noteq> 0" using 5 by (metis order.asym)
    have len: "steps st - 1 < length ?T" using assms by (auto simp: wf_ntc_def)
    have "succeeds (search ?T a 0 r) (\<lambda>(l, r'). unat r' = Suc (unat l) \<and> unat (0 :: u8) \<le> unat l \<and>
        unat r' \<le> unat r \<and> ?T ! unat r' < a \<and> a \<le> ?T ! unat l)"
      by (rule search_result) (use 5 n len in \<open>simp_all add: r\<close>)
    then obtain l r' where lr: "search ?T a 0 r = Some (l, r')" "unat r' = Suc (unat l)" "unat r' \<le> steps st - 1"
        "?T ! unat r' < a" "a \<le> ?T ! unat l"
      by (auto simp: r elim!: succeedsE)
    then have "unat r' < steps st" using n by linarith
    note line = interpolate_line [OF assms lr(2) this lr(4,5)]
    have "calc_temperature st a = Some (ntc_line ?T (NTC_start_temperature (NTC_Parametr st))
       (NTC_step_temperature (NTC_Parametr st)) (unat l) a)"
      unfolding calc_eq [OF assms] r_def [symmetric] using 5 lr(1) line by (simp add: not_le [symmetric] not_less)
    moreover have "reading st a (ntc_line ?T (NTC_start_temperature (NTC_Parametr st))
       (NTC_step_temperature (NTC_Parametr st)) (unat l) a)"
      by (rule inside) (use 5 lr n in simp_all)
    ultimately show ?thesis by simp
  next
    case 1
    then have c: "a \<le> ?T ! (steps st - 1)" by simp
    show ?thesis
      unfolding calc_eq [OF assms] if_P [OF c] if_P [OF 1] succeeds_Some by (rule over [OF 1])
  next
    case 2
    then have c: "a \<le> ?T ! (steps st - 1)" "\<not> a < ?T ! (steps st - 1)" by simp_all
    show ?thesis
      unfolding calc_eq [OF assms] if_P [OF c(1)] if_not_P [OF c(2)] succeeds_Some by (rule last [OF 2])
  next
    case 3
    then have c: "\<not> a \<le> ?T ! (steps st - 1)" "a \<ge> ?T ! 0" by simp_all
    show ?thesis
      unfolding calc_eq [OF assms] if_not_P [OF c(1)] if_P [OF c(2)] if_P [OF 3(2)] succeeds_Some
      by (rule under [OF 3])
  next
    case 4
    then have c: "\<not> a \<le> ?T ! (steps st - 1)" "a \<ge> ?T ! 0" "\<not> ?T ! 0 < a" by simp_all
    show ?thesis
      unfolding calc_eq [OF assms] if_not_P [OF c(1)] if_P [OF c(2)] if_not_P [OF c(3)] succeeds_Some
      by (rule first [OF 4])
  qed
qed

lemma reading_between:
  assumes "wf_ntc st" "reading st a t" "termo_table st ! (steps st - 1) \<le> a" "a \<le> termo_table st ! 0"
  shows "temp_at st 0 \<le> t \<and> t \<le> temp_at st (steps st - 1)"
  using assms(2)
proof cases
  case (inside i)
  have "temp_at st 0 \<le> temp_at st i" "temp_at st (Suc i) \<le> temp_at st (steps st - 1)"
    using inside(2) by (intro temp_at_mono [OF assms(1)]; simp)+
  moreover have "0 \<le> NTC_step_temperature (NTC_Parametr st)"
    using assms(1) by (simp add: wf_ntc_def)
  note ntc_line_bounds [OF inside(3,4) this, of "NTC_start_temperature (NTC_Parametr st)"]
  ultimately show ?thesis using inside(1) by simp
qed (use temp_at_mono [OF assms(1), of 0 "steps st - 1"] assms(3,4) in auto)

definition descending :: "ntc \<Rightarrow> bool" where
  "descending st \<longleftrightarrow> (\<forall>i j. i \<le> j \<longrightarrow> j < steps st \<longrightarrow> termo_table st ! j \<le> termo_table st ! i)"

lemma reading_antimono:
  assumes wf: "wf_ntc st" and desc: "descending st" and ab: "a \<le> b"
    and range: "termo_table st ! (steps st - 1) \<le> a" "b \<le> termo_table st ! 0"
    and readings: "reading st a s" "reading st b t"
  shows "t \<le> s"
proof -
  let ?T = "termo_table st" and ?D = "NTC_step_temperature (NTC_Parametr st)"
  let ?line = "ntc_line ?T (NTC_start_temperature (NTC_Parametr st)) ?D"
  have D: "0 \<le> ?D" using wf by (simp add: wf_ntc_def)
  have bounds: "temp_at st 0 \<le> t" "t \<le> temp_at st (steps st - 1)" "temp_at st 0 \<le> s"
    using reading_between [OF wf] range ab readings by (meson order.trans)+
  show ?thesis
    using readings(1)
  proof cases
    case last
    with bounds show ?thesis by simp
  next
    case first
    with ab range have "b = a" by simp
    from readings(2) show ?thesis
      by cases (use first \<open>b = a\<close> bounds in auto)
  next
    case (inside i)
    from readings(2) show ?thesis
    proof cases
      case (inside j)
      note i = \<open>Suc i < steps st\<close> \<open>?T ! Suc i < a\<close> \<open>a \<le> ?T ! i\<close> and j = inside
      have "j \<le> i"
      proof (rule ccontr)
        assume "\<not> j \<le> i"
        then have "?T ! j \<le> ?T ! Suc i" using desc j(2) by (simp add: descending_def)
        with i(2) j(4) ab show False by simp
      qed
      consider "j = i" | "Suc j \<le> i" using \<open>j \<le> i\<close> by linarith
      then show ?thesis
      proof cases
        case 1
        have "?T ! Suc i < ?T ! i" using i by simp
        from ntc_line_antimono [OF this D ab] 1 j(1) \<open>s = _\<close> show ?thesis by simp
      next
        case 2
        have "t \<le> temp_at st (Suc j)" using ntc_line_bounds(2) [OF j(3,4) D] j(1) by simp
        also have "\<dots> \<le> temp_at st i" using 2 by (rule temp_at_mono [OF wf])
        also have "\<dots> \<le> s" using ntc_line_bounds(1) [OF i(2,3) D] \<open>s = _\<close> by simp
        finally show ?thesis .
      qed
    qed (use range ab bounds inside in auto)
  qed (use range ab in auto)
qed

section \<open>Properties of the conversion\<close>

definition strictly_descending :: "ntc \<Rightarrow> bool" where
  "strictly_descending st \<longleftrightarrow> (\<forall>i j. i < j \<longrightarrow> j < steps st \<longrightarrow> termo_table st ! j < termo_table st ! i)"

lemma strictly_descending_le:
  "strictly_descending st \<Longrightarrow> i \<le> j \<Longrightarrow> j < steps st \<Longrightarrow> termo_table st ! j \<le> termo_table st ! i"
  unfolding strictly_descending_def by (metis order.order_iff_strict)

lemma strictly_descending_index:
  assumes "strictly_descending st" "i < steps st" "j < steps st"
  shows "termo_table st ! i < termo_table st ! j \<longleftrightarrow> j < i" "termo_table st ! i = termo_table st ! j \<longleftrightarrow> i = j"
  using assms by (metis strictly_descending_def linorder_neqE_nat order.asym order.strict_iff_order)+

lemma reading_exact:
  assumes wf: "wf_ntc st" and desc: "strictly_descending st" and i: "i < steps st"
    and "reading st (termo_table st ! i) t"
  shows "t = temp_at st i"
proof -
  have n: "steps st - 1 < steps st" "0 < steps st" using i by auto
  note idx = strictly_descending_index [OF desc]
  from assms(4) show ?thesis
  proof cases
    case over
    with idx(1) [OF i n(1)] i show ?thesis by simp
  next
    case last
    with idx(2) [OF i n(1)] show ?thesis by simp
  next
    case under
    with idx(1) [OF n(2) i] show ?thesis by simp
  next
    case first
    with idx(2) [OF i n(2)] show ?thesis by simp
  next
    case (inside j)
    have j: "j < steps st" using inside(2) by simp
    have "i < Suc j" using idx(1) [OF inside(2) i] inside(3) by simp
    moreover have "\<not> i < j" using idx(1) [OF j i] inside(4) by auto
    ultimately have "j = i" by simp
    with inside ntc_line_left show ?thesis by simp
  qed
qed

definition ntc_example :: ntc where
  "ntc_example = \<lparr>termo_table = [300, 200, 100] @ replicate 163 0, NTC_Parametr =
     \<lparr>NTC_r2 = 50000, NTC_b = 3950, NTC_t2 = 25, NTC_r_divider = 20000, NTC_start_temperature = - 10,
      NTC_step_temperature = 5, NTC_temper_number_step = 3, NTC_adc_resolution = 4096, NTC_adc_multipler = 1\<rparr>\<rparr>"

lemma ntc_example_wf: "wf_ntc ntc_example" "strictly_descending ntc_example" "descending ntc_example"
proof -
  have s: "steps ntc_example = 3" by (simp add: ntc_example_def)
  show "wf_ntc ntc_example" by (simp add: wf_ntc_def ntc_example_def)
  have T: "termo_table ntc_example ! 0 = 300" "termo_table ntc_example ! Suc 0 = 200"
    "termo_table ntc_example ! Suc (Suc 0) = 100"
    by (simp_all add: ntc_example_def)
  show strict: "strictly_descending ntc_example"
    unfolding strictly_descending_def s by (auto simp: numeral_3_eq_3 less_Suc_eq T)
  then show "descending ntc_example"
    unfolding strictly_descending_def descending_def by (metis order.order_iff_strict)
qed

lemma ntc_example_table:
  "termo_table ntc_example ! 0 = 300" "termo_table ntc_example ! 1 = 200" "termo_table ntc_example ! 2 = 100"
  "steps ntc_example = 3" "temp_at ntc_example 0 = - 10" "temp_at ntc_example 1 = - 5" "temp_at ntc_example 2 = 0"
  by (simp_all add: ntc_example_def)

text \<open>C26: for every ADC value the conversion stays inside the table, ends, and returns what the
  specification says: a label below the last or above the first entry, the temperature of the
  entry at either end, and otherwise the value on the line between two neighbouring entries
  that enclose the ADC value.\<close>

theorem calc_temperature_reading:
  assumes "wf_ntc st"
  shows "succeeds (calc_temperature st adcsum) (reading st adcsum)"
  using assms by (rule calc_reading)

theorem calc_temperature_reading_witness:
  "\<exists>t. calc_temperature ntc_example 160 = Some t \<and> reading ntc_example 160 t"
  using calc_temperature_reading [OF ntc_example_wf(1), of 160] by (auto elim!: succeedsE)

text \<open>at the table's own points the conversion is exact: the value of entry \<open>i\<close> of a strictly
  decreasing table gives the temperature of step \<open>i\<close>.\<close>

theorem calc_temperature_exact:
  assumes "wf_ntc st" "strictly_descending st" "i < unat (NTC_temper_number_step (NTC_Parametr st))"
  shows "calc_temperature st (termo_table st ! i) =
     Some (NTC_start_temperature (NTC_Parametr st) + int i * NTC_step_temperature (NTC_Parametr st))"
  using calc_reading [OF assms(1), of "termo_table st ! i"] reading_exact [OF assms]
  by (auto elim!: succeedsE)

theorem calc_temperature_exact_witness: "calc_temperature ntc_example 200 = Some (- 5)"
  using calc_temperature_exact [OF ntc_example_wf(1,2), of 1] ntc_example_table by simp

text \<open>C30: over the range of a non-increasing table the temperature never rises with the ADC value,
  and it stays between the temperatures of the first and the last step.\<close>

theorem calc_temperature_antitone:
  assumes "wf_ntc st" "descending st" "a \<le> b"
    and "termo_table st ! (unat (NTC_temper_number_step (NTC_Parametr st)) - 1) \<le> a" "b \<le> termo_table st ! 0"
  shows "\<exists>s t. calc_temperature st a = Some s \<and> calc_temperature st b = Some t \<and> t \<le> s \<and>
     NTC_start_temperature (NTC_Parametr st) \<le> t \<and>
     s \<le> NTC_start_temperature (NTC_Parametr st) +
        int (unat (NTC_temper_number_step (NTC_Parametr st)) - 1) * NTC_step_temperature (NTC_Parametr st)"
proof -
  obtain s t where st: "calc_temperature st a = Some s" "reading st a s"
      "calc_temperature st b = Some t" "reading st b t"
    using calc_reading [OF assms(1)] by (meson succeedsE)
  with reading_antimono [OF assms st(2,4)] reading_between [OF assms(1) st(2)] reading_between [OF assms(1) st(4)] assms(3-5)
  show ?thesis by auto
qed

theorem calc_temperature_antitone_witness:
  "\<exists>s t. calc_temperature ntc_example 120 = Some s \<and> calc_temperature ntc_example 250 = Some t \<and> t \<le> s"
  using calc_temperature_antitone [OF ntc_example_wf(1,3), of 120 250] ntc_example_table by auto

text \<open>C38: with zero steps, a number the register table admits, the last index wraps to 255 and the
  conversion reads outside the table, whatever the ADC value.\<close>

theorem calc_temperature_zero_steps:
  assumes "length (termo_table st) = 166" "NTC_temper_number_step (NTC_Parametr st) = 0"
  shows "reg_ok 98 0 \<and> calc_temperature st adcsum = None"
proof
  show "reg_ok 98 0"
    by (simp add: reg_ok_def limit_check_def default_state_nth MAIN_BUF_TABLE_def X_BUF_def Let_def)
  have r: "unat (word_of_int (uint (NTC_temper_number_step (NTC_Parametr st)) - 1) :: u8) = 255"
  proof -
    have "unat (- 1 :: u8) = 255" by code_simp
    with assms(2) show ?thesis by simp
  qed
  show "calc_temperature st adcsum = None"
    unfolding calc_temperature_def Let_def r using assms(1) by simp
qed

theorem calc_temperature_zero_steps_witness:
  "calc_temperature (ntc_example\<lparr>NTC_Parametr := (NTC_Parametr ntc_example)\<lparr>NTC_temper_number_step := 0\<rparr>\<rparr>) 120 = None"
proof -
  let ?st = "ntc_example\<lparr>NTC_Parametr := (NTC_Parametr ntc_example)\<lparr>NTC_temper_number_step := 0\<rparr>\<rparr>"
  have "length (termo_table ?st) = 166" "NTC_temper_number_step (NTC_Parametr ?st) = 0"
    by (simp_all add: ntc_example_def)
  from calc_temperature_zero_steps [OF this] show ?thesis by blast
qed

section \<open>Properties of the table\<close>

text \<open>C31: in exact arithmetic the table holds, for every step, the ADC count of the voltage divider
  at the thermistor's resistance at that temperature, rounded to the nearest integer; no more
  than the array's 166 entries are written and the rest of it is kept.\<close>

theorem table_is_divider_curve:
  assumes "plausible P" "length (termo_table st) = 166"
  shows "calculate_table_NTC Some Some (\<lambda>x. Some (exp x)) P st = Some
     \<lparr>termo_table =
        map (\<lambda>i. word_of_int \<lfloor>divider_counts P (ntc_resistance P (step_kelvin P i)) + 1 / 2\<rfloor>)
          [0..<min 166 (unat (NTC_temper_number_step P))] @
        drop (min 166 (unat (NTC_temper_number_step P))) (termo_table st),
      NTC_Parametr = clamp_steps P\<rparr>"
  using calculate_table_exact [OF assms] by (simp add: exact_entry_def [abs_def])

lemma ntc_example_plausible: "plausible (NTC_Parametr ntc_example)" "length (termo_table ntc_example) = 166"
  by (simp_all add: ntc_example_def plausible_def)

theorem table_is_divider_curve_witness:
  "\<exists>st. calculate_table_NTC Some Some (\<lambda>x. Some (exp x)) (NTC_Parametr ntc_example) ntc_example = Some st \<and>
     NTC_Parametr st = NTC_Parametr ntc_example"
  using table_is_divider_curve [OF ntc_example_plausible] by (simp add: clamp_steps_def ntc_example_def)

lemma table_body_length:
  "table_body rf rd ex P t2 i tab = Some tab' \<Longrightarrow> length tab' = length tab"
  by (auto simp: table_body_def write_at_def split: Option.bind_splits if_splits)

lemma table_loop_length:
  "for_loop i n (table_body rf rd ex P t2) tab = Some tab' \<Longrightarrow> length tab' = length tab"
proof (induction n arbitrary: i tab)
  case (Suc n)
  then obtain tab1 where "table_body rf rd ex P t2 i tab = Some tab1"
      "for_loop (Suc i) n (table_body rf rd ex P t2) tab1 = Some tab'"
    by (auto split: option.splits)
  with Suc.IH table_body_length show ?case by metis
qed simp

text \<open>with the table computed in exact arithmetic for a thermistor, readings never rise with the
  ADC value: the whole chain from the register values to the temperature is monotone.\<close>

theorem computed_table_antitone:
  assumes "plausible P" "length (termo_table st) = 166" "1 \<le> unat (NTC_temper_number_step P)"
    and "NTC_start_temperature P + 166 * NTC_step_temperature P < 32768"
    and "calculate_table_NTC Some Some (\<lambda>x. Some (exp x)) P st = Some st'" "a \<le> b"
    and "termo_table st' ! (unat (NTC_temper_number_step (NTC_Parametr st')) - 1) \<le> a" "b \<le> termo_table st' ! 0"
  shows "\<exists>s t. calc_temperature st' a = Some s \<and> calc_temperature st' b = Some t \<and> t \<le> s"
proof -
  have st': "st' = \<lparr>termo_table = map (exact_entry P) [0..<min 166 (unat (NTC_temper_number_step P))] @
      drop (min 166 (unat (NTC_temper_number_step P))) (termo_table st), NTC_Parametr = clamp_steps P\<rparr>"
    using calculate_table_exact [OF assms(1,2)] assms(5) by simp
  have n: "steps st' = min 166 (unat (NTC_temper_number_step P))"
    by (simp add: st')
  have wf: "wf_ntc st'"
    unfolding wf_ntc_def n using assms(1-4) by (simp add: st' plausible_def)
  have desc: "descending st'"
    unfolding descending_def n
  proof (intro allI impI)
    fix i j
    assume "i \<le> j" "j < min 166 (unat (NTC_temper_number_step P))"
    with exact_entry_antimono [OF assms(1) \<open>i \<le> j\<close>] show "termo_table st' ! j \<le> termo_table st' ! i"
      by (simp add: st' nth_append)
  qed
  obtain s t where st: "calc_temperature st' a = Some s" "reading st' a s"
      "calc_temperature st' b = Some t" "reading st' b t"
    using calc_reading [OF wf, of a] calc_reading [OF wf, of b] by (auto elim!: succeedsE)
  have "t \<le> s"
    by (rule reading_antimono [OF wf desc assms(6-8) st(2,4)])
  with st show ?thesis by blast
qed


theorem computed_table_antitone_witness:
  "\<exists>st. calculate_table_NTC Some Some (\<lambda>x. Some (exp x)) (NTC_Parametr ntc_example) ntc_example = Some st \<and>
     (\<exists>s t. calc_temperature st (termo_table st ! 2) = Some s \<and> calc_temperature st (termo_table st ! 0) = Some t \<and> t \<le> s)"
proof -
  let ?P = "NTC_Parametr ntc_example"
  obtain st where st: "calculate_table_NTC Some Some (\<lambda>x. Some (exp x)) ?P ntc_example = Some st"
    "st = \<lparr>termo_table = map (exact_entry ?P) [0..<min 166 (unat (NTC_temper_number_step ?P))] @
      drop (min 166 (unat (NTC_temper_number_step ?P))) (termo_table ntc_example), NTC_Parametr = clamp_steps ?P\<rparr>"
    using calculate_table_exact [OF ntc_example_plausible] by blast
  have n: "unat (NTC_temper_number_step ?P) = 3" by (simp add: ntc_example_def)
  have steps: "steps st = 3" by (simp add: st(2) n)
  have T: "termo_table st ! 2 = exact_entry ?P 2" "termo_table st ! 0 = exact_entry ?P 0"
    by (simp_all add: st(2) n nth_append numeral_2_eq_2)
  have le: "termo_table st ! 2 \<le> termo_table st ! 0"
    unfolding T by (rule exact_entry_antimono [OF ntc_example_plausible(1)]) simp
  have "NTC_start_temperature ?P + 166 * NTC_step_temperature ?P < 32768"
    by (simp add: ntc_example_def)
  from computed_table_antitone [OF ntc_example_plausible _ this st(1) le] st(1) show ?thesis
    by (simp add: n steps)
qed

end
