(* ===== verification/Adc.thy ===== *)
theory Adc
  imports NtcCalc
begin

text \<open>
  The measurement task of \<open>src/io_adc.c\<close>: the decoding of the thermistor's registers, the median
  of nine samples by a sorting network, the recursive filter and the publication of the
  temperature.  The device tree of the board gives one channel, number 2, published at offset 0.
  The driver's \<open>adc_read\<close> is the environment: each call gives an error or nine samples.
\<close>

section \<open>Constants\<close>

abbreviation (input) NUMBER_ADC_MEASUREMENTS :: nat where "NUMBER_ADC_MEASUREMENTS \<equiv> 9"
abbreviation (input) ADC_NUM_CHANNELS :: nat where "ADC_NUM_CHANNELS \<equiv> 1"
abbreviation (input) ADC_COUNTS :: u16 where "ADC_COUNTS \<equiv> 4096"

definition channel_ids :: "u8 list" where "channel_ids = [2]"
definition channel_seq :: "u8 list" where "channel_seq = [0]"

section \<open>Set-up\<close>

text \<open>
  Two registers as one 32-bit number.  The second one, promoted to \<open>int\<close>, is shifted into the
  sign bit if its own highest bit is set, which C leaves undefined.
\<close>

definition reg_pair :: "u16 list \<Rightarrow> nat \<Rightarrow> nat \<Rightarrow> u32 option" where
  "reg_pair regs w1 w2 = do {
     lo \<leftarrow> read_at regs w1;
     hi \<leftarrow> read_at regs w2;
     if \<not> in_int32 (push_bit 16 (uint hi)) then None
     else Some ((ucast lo AND 0xFFFF) OR push_bit 16 (ucast hi AND 0xFFFF))
   }"

definition NTC_from_regs :: "u16 list \<Rightarrow> NTC_Calculation_Data_t option" where
  "NTC_from_regs regs = do {
     r2 \<leftarrow> reg_pair regs Reg_NTC_R2_Value_W1 Reg_NTC_R2_Value_W2;
     rdiv \<leftarrow> reg_pair regs Reg_NTC_R_Divider_W1 Reg_NTC_R_Divider_W2;
     b \<leftarrow> read_at regs Reg_NTC_B_Value;
     t2 \<leftarrow> read_at regs Reg_NTC_T2_Value;
     start \<leftarrow> read_at regs Reg_NTC_Start_Temperature;
     stp \<leftarrow> read_at regs Reg_NTC_Step_Temperature;
     n \<leftarrow> read_at regs Reg_NTC_Temper_Number_Step;
     Some \<lparr>NTC_r2 = r2, NTC_b = reg_s16 b, NTC_t2 = reg_s16 t2, NTC_r_divider = rdiv,
           NTC_start_temperature = reg_s16 start, NTC_step_temperature = reg_s16 stp,
           NTC_temper_number_step = n, NTC_adc_resolution = ADC_COUNTS, NTC_adc_multipler = 1\<rparr>
   }"

text \<open>
  The driver's configuration.  The constants of Zephyr's ADC interface stay symbolic, and the
  hardware's number of the first analogue input is an argument \<open>AnalogInput0\<close> of the set-up.
\<close>

datatype adc_const = ADC_GAIN_1_4 | ADC_REF_VDD_1_4 | ADC_ACQ_TIME_DEFAULT

record adc_channel_cfg =
  gain :: adc_const
  reference :: adc_const
  acquisition_time :: adc_const
  channel_id :: u8
  differential :: bool
  input_positive :: u8

definition channel_cfg_zero :: adc_channel_cfg where
  "channel_cfg_zero = \<lparr>gain = ADC_GAIN_1_4, reference = ADC_REF_VDD_1_4,
     acquisition_time = ADC_ACQ_TIME_DEFAULT, channel_id = 0, differential = False, input_positive = 0\<rparr>"

definition sample_buffer_zero :: "int list" where
  "sample_buffer_zero = replicate (ADC_NUM_CHANNELS * NUMBER_ADC_MEASUREMENTS) 0"

record adc_sequence =
  channels :: u32
  buffer :: "int list"
  buffer_size :: nat
  resolution :: nat
  extra_samplings :: nat

text \<open>\<open>sizeof (sample_buffer)\<close> is two bytes a sample.\<close>

definition sequence_zero :: adc_sequence where
  "sequence_zero = \<lparr>channels = 0, buffer = sample_buffer_zero,
     buffer_size = 2 * length sample_buffer_zero * NUMBER_ADC_MEASUREMENTS, resolution = 12,
     extra_samplings = NUMBER_ADC_MEASUREMENTS - 1\<rparr>"

record adc =
  adc_regs :: "u16 list"
  adc_ntc :: ntc
  channel_cfg :: adc_channel_cfg
  sequence :: adc_sequence
  channels_set_up :: "adc_channel_cfg list"
  adc_task_created :: bool

definition setup_channel :: "u8 \<Rightarrow> nat \<Rightarrow> adc \<Rightarrow> adc option" where
  "setup_channel AnalogInput0 i s = do {
     id \<leftarrow> read_at channel_ids i;
     let cfg = (channel_cfg s)\<lparr>channel_id := id, input_positive := AnalogInput0 + id\<rparr>;
     Some (s\<lparr>channel_cfg := cfg, channels_set_up := channels_set_up s @ [cfg],
             sequence := (sequence s)\<lparr>channels := channels (sequence s) OR push_bit (unat id) 1\<rparr>\<rparr>)
   }"

definition io_adc_init ::
    "rounding \<Rightarrow> rounding \<Rightarrow> rounding \<Rightarrow> u8 \<Rightarrow> bool \<Rightarrow> adc \<Rightarrow> adc option" where
  "io_adc_init rf rd ex AnalogInput0 device_ready s = do {
     NTC \<leftarrow> NTC_from_regs (adc_regs s);
     t \<leftarrow> calculate_table_NTC rf rd ex NTC (adc_ntc s);
     let s = s\<lparr>adc_ntc := t\<rparr>;
     (if \<not> device_ready then Some s
      else do {
        s \<leftarrow> for_loop 0 ADC_NUM_CHANNELS (setup_channel AnalogInput0) s;
        Some (s\<lparr>adc_task_created := True\<rparr>)
      })
   }"

section \<open>The median of nine\<close>

text \<open>\<open>PIX_SORT\<close>: exchange two elements if the first is larger.\<close>

definition PIX_SORT :: "nat \<Rightarrow> nat \<Rightarrow> 'a::linorder list \<Rightarrow> 'a list" where
  "PIX_SORT a b p = (if p ! a > p ! b then p[a := p ! b, b := p ! a] else p)"

definition sort_network :: "(nat \<times> nat) list" where
  "sort_network =
     [(1, 2), (4, 5), (7, 8),
      (0, 1), (3, 4), (6, 7),
      (1, 2), (4, 5), (7, 8),
      (0, 3), (5, 8), (4, 7),
      (3, 6), (1, 4), (2, 5),
      (4, 7), (4, 2), (6, 4),
      (4, 2)]"

definition opt_med9 :: "'a::linorder list \<Rightarrow> 'a" where
  "opt_med9 p = foldl (\<lambda>p (a, b). PIX_SORT a b p) p sort_network ! 4"

fun gather :: "'a list \<Rightarrow> nat \<Rightarrow> nat \<Rightarrow> 'a list option" where
  "gather buf addr 0 = Some []"
| "gather buf addr (Suc n) = do {
     v \<leftarrow> read_at buf addr;
     vs \<leftarrow> gather buf (addr + ADC_NUM_CHANNELS) n;
     Some (v # vs)
   }"

definition io_getADCval :: "int list \<Rightarrow> nat \<Rightarrow> int option" where
  "io_getADCval sample_buffer nch = do {
     p \<leftarrow> gather sample_buffer nch 9;
     Some (opt_med9 p)
   }"

section \<open>The task\<close>

text \<open>\<open>(f * 3 + v) >> 2\<close>, stored back into an \<open>int16_t\<close>.\<close>

definition filter_step :: "int \<Rightarrow> int \<Rightarrow> int" where
  "filter_step f v = s16 (drop_bit 2 (f * 3 + v))"

text \<open>
  The task's state: its filter values, the registers and the last temperatures.  \<open>running\<close> is
  false once an error of the driver has ended the thread.
\<close>

record adc_task =
  Adc_Filter_Value :: "int list"
  ADC_Value_T :: "u16 list"
  task_regs :: "u16 list"
  running :: bool

definition publish :: "ntc \<Rightarrow> nat \<Rightarrow> int \<Rightarrow> adc_task \<Rightarrow> adc_task option" where
  "publish n i f s = do {
     flt \<leftarrow> write_at (Adc_Filter_Value s) i f;
     t \<leftarrow> calc_temperature n (word_of_int f);
     vals \<leftarrow> write_at (ADC_Value_T s) i (word_of_int t);
     sq \<leftarrow> read_at channel_seq i;
     regs \<leftarrow> write_at (task_regs s) (unat sq + Reg_T_0_Channel) (word_of_int t);
     Some (s\<lparr>Adc_Filter_Value := flt, ADC_Value_T := vals, task_regs := regs\<rparr>)
   }"

definition first_channel :: "ntc \<Rightarrow> int list \<Rightarrow> nat \<Rightarrow> adc_task \<Rightarrow> adc_task option" where
  "first_channel n sample_buffer i s = do {
     ADC_Val \<leftarrow> io_getADCval sample_buffer i;
     publish n i ADC_Val s
   }"

definition next_channel :: "ntc \<Rightarrow> int list \<Rightarrow> nat \<Rightarrow> adc_task \<Rightarrow> adc_task option" where
  "next_channel n sample_buffer i s = do {
     ADC_Val \<leftarrow> io_getADCval sample_buffer i;
     f \<leftarrow> read_at (Adc_Filter_Value s) i;
     publish n i (filter_step f ADC_Val) s
   }"

text \<open>One call of \<open>adc_read\<close>: an error code, or the samples it left in the buffer.\<close>

definition adc_round ::
    "(nat \<Rightarrow> adc_task \<Rightarrow> adc_task option) \<Rightarrow> int \<Rightarrow> adc_task \<Rightarrow> adc_task option" where
  "adc_round channel err s =
     (if \<not> running s then Some s
      else if err \<noteq> 0 then Some (s\<lparr>running := False\<rparr>)
      else for_loop 0 ADC_NUM_CHANNELS channel s)"

fun io_adc_loop :: "ntc \<Rightarrow> (int \<times> int list) list \<Rightarrow> adc_task \<Rightarrow> adc_task option" where
  "io_adc_loop n [] s = Some s"
| "io_adc_loop n ((err, sample_buffer) # reads) s = do {
     s \<leftarrow> adc_round (next_channel n sample_buffer) err s;
     io_adc_loop n reads s
   }"

definition io_adc_task :: "ntc \<Rightarrow> (int \<times> int list) list \<Rightarrow> adc_task \<Rightarrow> adc_task option" where
  "io_adc_task n reads s =
     (case reads of
        [] \<Rightarrow> Some s
      | (err, sample_buffer) # reads \<Rightarrow> do {
          s \<leftarrow> adc_round (first_channel n sample_buffer) err s;
          io_adc_loop n reads s
        })"

section \<open>The network finds the median\<close>

text \<open>A network of exchanges commutes with every monotone function.\<close>

lemma length_PIX_SORT [simp]: "length (PIX_SORT a b p) = length p"
  by (simp add: PIX_SORT_def)

lemma PIX_SORT_map:
  assumes "mono f" "a < length p" "b < length p"
  shows "PIX_SORT a b (map f p) = map f (PIX_SORT a b p)"
proof (cases "p ! a > p ! b")
  case True
  then have le: "f (p ! b) \<le> f (p ! a)" using assms(1) by (simp add: monoD)
  show ?thesis
  proof (cases "f (p ! a) = f (p ! b)")
    case eq: True
    have "map f (p[a := p ! b, b := p ! a]) = map f p"
      using assms eq by (intro nth_equalityI) (auto simp: nth_list_update)
    with True eq assms show ?thesis by (simp add: PIX_SORT_def)
  next
    case False
    with True le assms show ?thesis by (simp add: PIX_SORT_def map_update)
  qed
next
  case False
  then have "f (p ! a) \<le> f (p ! b)" using assms(1) by (simp add: monoD)
  then have "\<not> f (p ! b) < f (p ! a)" by simp
  with False assms show ?thesis by (simp add: PIX_SORT_def)
qed

lemma network_map:
  assumes "mono f" "\<forall>(a, b) \<in> set net. a < length p \<and> b < length p"
  shows "foldl (\<lambda>p (a, b). PIX_SORT a b p) (map f p) net = map f (foldl (\<lambda>p (a, b). PIX_SORT a b p) p net)"
  using assms(2) by (induction net arbitrary: p) (auto simp: PIX_SORT_map [OF assms(1)])

lemma length_network [simp]: "length (foldl (\<lambda>p (a, b). PIX_SORT a b p) p net) = length p"
  by (induction net arbitrary: p) (auto split: prod.splits)

lemma opt_med9_map: "mono f \<Longrightarrow> length p = 9 \<Longrightarrow> opt_med9 (map f p) = f (opt_med9 p)"
  using network_map [of f sort_network p] by (simp add: opt_med9_def sort_network_def)

text \<open>
  On truth values the first nine exchanges sort each triple; the rest is checked for the four
  sorted triples in each place.
\<close>

definition triple :: "nat \<Rightarrow> bool list" where
  "triple k = map (\<lambda>i. 3 \<le> i + k) [0..<3]"

definition ones :: "bool list \<Rightarrow> nat" where
  "ones p = length (filter id p)"

lemma ones_simps [simp]: "ones [] = 0" "ones (b # p) = (if b then Suc (ones p) else ones p)"
    "ones (p @ q) = ones p + ones q"
  by (simp_all add: ones_def)

lemma ones_le: "ones p \<le> length p"
  by (simp add: ones_def)

abbreviation (input) exchanges :: "bool list \<Rightarrow> (nat \<times> nat) list \<Rightarrow> bool list" where
  "exchanges \<equiv> foldl (\<lambda>p (a, b). PIX_SORT a b p)"

lemma PIX_SORT_bool:
  "a \<noteq> b \<Longrightarrow> a < length p \<Longrightarrow> b < length p \<Longrightarrow>
     PIX_SORT a b p = p[a := p ! a \<and> p ! b, b := p ! a \<or> p ! b]"
  by (rule nth_equalityI) (auto simp: PIX_SORT_def nth_list_update)

lemma first_stage:
  "exchanges [a, b, c, d, e, f, g, h, i] (take 9 sort_network) =
     triple (ones [a, b, c]) @ triple (ones [d, e, f]) @ triple (ones [g, h, i])"
  by (simp add: sort_network_def PIX_SORT_bool triple_def upt_rec)

lemma triple_values:
  "triple 0 = [False, False, False]" "triple (Suc 0) = [False, False, True]"
  "triple 2 = [False, True, True]" "triple 3 = [True, True, True]"
  by (simp_all add: triple_def upt_rec)

lemma second_stage:
  assumes "x \<in> {0, Suc 0, 2, 3}" "y \<in> {0, Suc 0, 2, 3}" "z \<in> {0, Suc 0, 2, 3}"
  shows "exchanges (triple x @ triple y @ triple z) (drop 9 sort_network) ! 4 \<longleftrightarrow> 5 \<le> x + y + z"
  using assms
  by (elim insertE emptyE; simp only: triple_values; simp add: sort_network_def PIX_SORT_def)

lemma nine_elements:
  assumes "length p = 9"
  obtains a b c d e f g h i where "p = [a, b, c, d, e, f, g, h, i]"
  using assms by (auto simp: numeral_eq_Suc length_Suc_conv)

lemma opt_med9_bool:
  assumes "length p = 9"
  shows "opt_med9 p \<longleftrightarrow> 5 \<le> ones p"
proof -
  obtain a b c d e f g h i where p: "p = [a, b, c, d, e, f, g, h, i]"
    using nine_elements [OF assms] .
  have le: "ones q \<in> {0, Suc 0, 2, 3}" if "length q = 3" for q
    using ones_le [of q] that by auto
  have "exchanges p sort_network = exchanges (exchanges p (take 9 sort_network)) (drop 9 sort_network)"
    by (metis append_take_drop_id foldl_append)
  then have "opt_med9 p = exchanges (triple (ones [a, b, c]) @ triple (ones [d, e, f]) @ triple (ones [g, h, i]))
      (drop 9 sort_network) ! 4"
    by (simp add: opt_med9_def p first_stage)
  also have "\<dots> \<longleftrightarrow> 5 \<le> ones [a, b, c] + ones [d, e, f] + ones [g, h, i]"
    by (intro second_stage le) simp_all
  also have "ones [a, b, c] + ones [d, e, f] + ones [g, h, i] = ones p"
    by (simp add: p)
  finally show ?thesis .
qed

lemma sorted_count:
  fixes s :: "'a::linorder list"
  assumes "sorted s" "k < length s"
  shows "c \<le> s ! k \<longleftrightarrow> length s - k \<le> length (filter (\<lambda>x. c \<le> x) s)"
proof -
  have s: "s = take k s @ drop k s" by simp
  then have count: "length (filter (\<lambda>x. c \<le> x) s) =
      length (filter (\<lambda>x. c \<le> x) (take k s)) + length (filter (\<lambda>x. c \<le> x) (drop k s))"
    by (metis filter_append length_append)
  show ?thesis
  proof
    assume "c \<le> s ! k"
    moreover have "s ! k \<le> x" if "x \<in> set (drop k s)" for x
      using that assms by (auto simp: in_set_conv_nth intro: sorted_nth_mono)
    ultimately have "filter (\<lambda>x. c \<le> x) (drop k s) = drop k s"
      by (auto simp: filter_id_conv intro: order.trans)
    with count show "length s - k \<le> length (filter (\<lambda>x. c \<le> x) s)" by simp
  next
    assume many: "length s - k \<le> length (filter (\<lambda>x. c \<le> x) s)"
    show "c \<le> s ! k"
    proof (rule ccontr)
      assume less: "\<not> c \<le> s ! k"
      have "filter (\<lambda>x. c \<le> x) (take (Suc k) s) = []"
        using assms less by (auto simp: filter_empty_conv in_set_conv_nth less_Suc_eq_le)
          (meson assms order.trans sorted_nth_mono)
      moreover have "length (filter (\<lambda>x. c \<le> x) s) =
          length (filter (\<lambda>x. c \<le> x) (take (Suc k) s)) + length (filter (\<lambda>x. c \<le> x) (drop (Suc k) s))"
        by (metis append_take_drop_id filter_append length_append)
      moreover have "length (filter (\<lambda>x. c \<le> x) (drop (Suc k) s)) \<le> length s - Suc k"
        by (metis length_drop length_filter_le)
      ultimately show False using many assms(2) by simp
    qed
  qed
qed

text \<open>The network computes the median: the fifth of the nine samples in order.\<close>

lemma opt_med9_median:
  fixes p :: "'a::linorder list"
  assumes "length p = 9"
  shows "opt_med9 p = sort p ! 4"
proof -
  have same: "c \<le> opt_med9 p \<longleftrightarrow> c \<le> sort p ! 4" for c
  proof -
    have "mono (\<lambda>x. c \<le> x)" by (rule monoI) (auto intro: order.trans)
    then have "c \<le> opt_med9 p \<longleftrightarrow> 5 \<le> ones (map (\<lambda>x. c \<le> x) p)"
      using opt_med9_map [of "\<lambda>x. c \<le> x" p] opt_med9_bool [of "map (\<lambda>x. c \<le> x) p"] assms by simp
    also have "ones (map (\<lambda>x. c \<le> x) p) = length (filter (\<lambda>x. c \<le> x) (sort p))"
      by (simp add: ones_def filter_map o_def filter_sort)
    also have "5 \<le> \<dots> \<longleftrightarrow> c \<le> sort p ! 4"
      using sorted_count [of "sort p" 4 c] assms by simp
    finally show ?thesis .
  qed
  then show ?thesis by (meson order.antisym order.refl)
qed

lemma gather_all: "n \<le> length buf - addr \<Longrightarrow> gather buf addr n = Some (take n (drop addr buf))"
proof (induction n arbitrary: addr)
  case (Suc n)
  then have "addr < length buf" by simp
  with Suc show ?case by (simp add: Cons_nth_drop_Suc [symmetric])
qed simp

lemma io_getADCval_median: "length buf = 9 \<Longrightarrow> io_getADCval buf 0 = Some (sort buf ! 4)"
  by (simp add: io_getADCval_def gather_all opt_med9_median)

section \<open>The filter\<close>

definition is_int16 :: "int \<Rightarrow> bool" where
  "is_int16 x \<longleftrightarrow> - 32768 \<le> x \<and> x < 32768"

lemma filter_step_eq:
  assumes "is_int16 f" "is_int16 v"
  shows "filter_step f v = (f * 3 + v) div 4"
proof -
  have "s16 ((f * 3 + v) div 4) = (f * 3 + v) div 4"
    using assms unfolding is_int16_def by (intro s16_id) presburger+
  then show ?thesis by (simp add: filter_step_def drop_bit_eq_div)
qed

text \<open>Neither the \<open>int\<close> arithmetic nor the assignment to 16 bits overflows.\<close>

lemma filter_step_fits:
  assumes "is_int16 f" "is_int16 v"
  shows "is_int16 f \<and> in_int32 (f * 3) \<and> in_int32 (f * 3 + v) \<and> is_int16 ((f * 3 + v) div 4) \<and>
     filter_step f v = (f * 3 + v) div 4"
proof -
  have "- 32768 \<le> (f * 3 + v) div 4 \<and> (f * 3 + v) div 4 < 32768"
    using assms unfolding is_int16_def by presburger
  with assms filter_step_eq [OF assms] show ?thesis
    by (simp add: is_int16_def in_int32_def)
qed

lemma filter_step_between:
  assumes "is_int16 f" "is_int16 v" "lo \<le> f" "lo \<le> v" "f \<le> hi" "v \<le> hi"
  shows "lo \<le> filter_step f v" "filter_step f v \<le> hi"
  unfolding filter_step_eq [OF assms(1,2)] using assms(3-6) by presburger+

lemma filter_step_error:
  assumes "is_int16 f" "is_int16 v"
  shows "filter_step f v - v = (3 * (f - v)) div 4"
proof -
  have "f * 3 + v = 3 * (f - v) + v * 4" by simp
  then show ?thesis unfolding filter_step_eq [OF assms] by simp
qed

lemma filter_step_int16: "is_int16 f \<Longrightarrow> is_int16 v \<Longrightarrow> is_int16 (filter_step f v)"
  by (simp add: is_int16_def filter_step_def s16_lower s16_upper)

text \<open>How far the filter is from the band of three counts below a constant input.\<close>

definition off_band :: "int \<Rightarrow> int \<Rightarrow> int" where
  "off_band v f = max 0 (max (f - v) (v - 3 - f))"

lemma off_band_step:
  assumes "is_int16 f" "is_int16 v"
  shows "off_band v (filter_step f v) \<le> max 0 (off_band v f - 1)"
proof -
  have "filter_step f v = v + (3 * (f - v)) div 4"
    using filter_step_error [OF assms] by simp
  moreover have "4 * ((3 * (f - v)) div 4) \<le> 3 * (f - v)" "3 * (f - v) < 4 * ((3 * (f - v)) div 4) + 4"
    by linarith+
  ultimately show ?thesis unfolding off_band_def by (auto simp: max_def)
qed

lemma filter_run:
  assumes "is_int16 f" "is_int16 v"
  shows "is_int16 (((\<lambda>f. filter_step f v) ^^ n) f) \<and>
     off_band v (((\<lambda>f. filter_step f v) ^^ n) f) \<le> max 0 (off_band v f - int n)"
proof (induction n)
  case (Suc n)
  let ?g = "((\<lambda>f. filter_step f v) ^^ n) f"
  have g: "is_int16 ?g" "off_band v ?g \<le> max 0 (off_band v f - int n)" using Suc by simp_all
  from off_band_step [OF g(1) assms(2)] g filter_step_int16 [OF g(1) assms(2)] show ?case
    by (auto simp: max_def split: if_splits)
qed (use assms in \<open>simp add: off_band_def\<close>)

lemma filter_fixpoint:
  assumes "is_int16 f" "is_int16 v"
  shows "filter_step f v = f \<longleftrightarrow> v - 3 \<le> f \<and> f \<le> v"
proof -
  have "filter_step f v = v + (3 * (f - v)) div 4"
    using filter_step_error [OF assms] by simp
  then show ?thesis by presburger
qed

section \<open>The task\<close>

definition wf_task :: "adc_task \<Rightarrow> bool" where
  "wf_task s \<longleftrightarrow> length (Adc_Filter_Value s) = 1 \<and> length (ADC_Value_T s) = 1 \<and>
     length (task_regs s) = 120 \<and> running s"

definition good_read :: "int \<times> int list \<Rightarrow> bool" where
  "good_read r \<longleftrightarrow> fst r = 0 \<and> length (snd r) = 9 \<and> list_all is_int16 (snd r)"

definition median :: "int list \<Rightarrow> int" where
  "median buf = sort buf ! 4"

text \<open>The task's state after it has published the filter value \<open>f\<close>.\<close>

definition published :: "ntc \<Rightarrow> int \<Rightarrow> adc_task \<Rightarrow> adc_task \<Rightarrow> bool" where
  "published n f s s' \<longleftrightarrow> wf_task s' \<and> is_int16 f \<and> Adc_Filter_Value s' = [f] \<and>
     (\<exists>t. calc_temperature n (word_of_int f) = Some t \<and> ADC_Value_T s' = [word_of_int t] \<and>
        task_regs s' = (task_regs s)[1 := word_of_int t])"

lemma median_int16: "good_read r \<Longrightarrow> is_int16 (median (snd r))"
  using nth_mem [of 4 "sort (snd r)"] by (simp add: good_read_def median_def list_all_iff)

lemma publish_ok:
  assumes "wf_ntc n" "wf_task s" "is_int16 f"
  shows "succeeds (publish n 0 f s) (published n f s)"
proof -
  obtain t where "calc_temperature n (word_of_int f) = Some t"
    using calc_reading [OF assms(1)] by (meson succeedsE)
  moreover obtain x y where "Adc_Filter_Value s = [x]" "ADC_Value_T s = [y]"
    using assms(2) by (auto simp: wf_task_def length_Suc_conv)
  ultimately show ?thesis
    using assms by (simp add: publish_def channel_seq_def published_def wf_task_def)
qed

lemma published_again: "published n f s s' \<Longrightarrow> published n g s' s'' \<Longrightarrow> published n g s s''"
  by (auto simp: published_def)

lemma first_round:
  assumes "wf_ntc n" "wf_task s" "good_read (err, buf)"
  shows "succeeds (adc_round (first_channel n buf) err s) (published n (median buf) s)"
proof -
  have "succeeds (first_channel n buf 0 s) (published n (median buf) s)"
    using publish_ok [OF assms(1,2) median_int16 [OF assms(3)]] assms(3)
    by (simp add: first_channel_def io_getADCval_median good_read_def median_def)
  then show ?thesis
    using assms by (auto simp: adc_round_def wf_task_def good_read_def elim!: succeedsE)
qed

lemma next_round:
  assumes "wf_ntc n" "published n f s0 s" "good_read (err, buf)"
  shows "succeeds (adc_round (next_channel n buf) err s) (published n (filter_step f (median buf)) s)"
proof -
  have s: "wf_task s" "is_int16 f" "Adc_Filter_Value s = [f]"
    using assms(2) by (auto simp: published_def)
  have "succeeds (next_channel n buf 0 s) (published n (filter_step f (median buf)) s)"
    using publish_ok [OF assms(1) s(1) filter_step_int16 [OF s(2) median_int16 [OF assms(3)]]] assms(3) s(3)
    by (simp add: next_channel_def io_getADCval_median good_read_def median_def)
  then show ?thesis
    using assms(3) s(1) by (auto simp: adc_round_def wf_task_def good_read_def elim!: succeedsE)
qed

lemma io_adc_loop_ok:
  assumes "wf_ntc n" "published n f s0 s" "list_all good_read reads"
  shows "succeeds (io_adc_loop n reads s)
     (published n (foldl filter_step f (map (\<lambda>r. median (snd r)) reads)) s0)"
  using assms(2,3)
proof (induction reads arbitrary: f s)
  case (Cons r reads)
  obtain err buf where r: "r = (err, buf)" by (cases r)
  have "succeeds (io_adc_loop n reads s') (published n (foldl filter_step f (map (\<lambda>r. median (snd r)) (r # reads))) s0)"
    if "published n (filter_step f (median buf)) s s'" for s'
    using Cons.IH [OF published_again [OF Cons.prems(1) that]] Cons.prems(2) by (simp add: r)
  with next_round [OF assms(1) Cons.prems(1), of err buf] Cons.prems(2) show ?case
    by (simp add: r succeeds_bind) (blast intro: succeeds_mono)
qed simp

lemma io_adc_task_ok:
  assumes "wf_ntc n" "wf_task s" "list_all good_read reads" "reads \<noteq> []"
  shows "succeeds (io_adc_task n reads s) (published n
     (foldl filter_step (median (snd (hd reads))) (map (\<lambda>r. median (snd r)) (tl reads))) s)"
proof -
  obtain err buf rest where reads: "reads = (err, buf) # rest"
    using assms(4) by (cases reads) auto
  have good: "good_read (err, buf)" "list_all good_read rest" using assms(3) by (simp_all add: reads)
  have "succeeds (io_adc_loop n rest s') (published n (foldl filter_step (median buf) (map (\<lambda>r. median (snd r)) rest)) s)"
    if "published n (median buf) s s'" for s'
    using io_adc_loop_ok [OF assms(1) that good(2)] .
  with first_round [OF assms(1,2) good(1)] show ?thesis
    by (simp add: io_adc_task_def reads succeeds_bind) (blast intro: succeeds_mono)
qed

lemma stopped_loop: "\<not> running s \<Longrightarrow> io_adc_loop n reads s = Some s"
  by (induction reads) (auto simp: adc_round_def)

section \<open>From settings to a safe conversion\<close>

lemma unsigned_limits:
  "reg_ok 97 v \<longleftrightarrow> 1 \<le> uint v \<and> uint v \<le> 5" "reg_ok 98 v \<longleftrightarrow> uint v \<le> 166"
  by (auto simp: reg_ok_def limit_check_def default_state_nth MAIN_BUF_TABLE_def X_BUF_def Let_def
      word_less_def word_le_def not_less split: if_splits)

lemma signed_limits: "reg_ok 96 v \<longleftrightarrow> - 40 \<le> sint v \<and> sint v \<le> 20"
  by (auto simp: reg_ok_def limit_check_def default_state_nth MAIN_BUF_TABLE_def X_BUF_def Let_def
      split: if_splits)

lemma small_signed: "uint (v :: u16) \<le> 5 \<Longrightarrow> sint v = uint v"
proof -
  assume "uint v \<le> 5"
  moreover have "- 32768 \<le> uint v" using uint_ge_0 [of v] by linarith
  ultimately show ?thesis using s16_uint [of v] s16_id [of "uint v"] by simp
qed

lemma setup_channel_ntc: "setup_channel ain i s = Some s' \<Longrightarrow> adc_ntc s' = adc_ntc s"
  by (auto simp: setup_channel_def Let_def split: Option.bind_splits)

lemma limits_give_wf:
  assumes regs: "length (adc_regs s) = 120" "length (termo_table (adc_ntc s)) = 166"
    and ok: "reg_ok 96 (adc_regs s ! 96)" "reg_ok 97 (adc_regs s ! 97)" "reg_ok 98 (adc_regs s ! 98)"
    and "adc_regs s ! 98 \<noteq> 0" and init: "io_adc_init rf rd ex ain ready s = Some s'"
  shows "wf_ntc (adc_ntc s')"
proof -
  let ?r = "adc_regs s"
  obtain P t where P: "NTC_from_regs ?r = Some P" and t: "calculate_table_NTC rf rd ex P (adc_ntc s) = Some t"
    and s': "adc_ntc s' = t"
    using init by (auto simp: io_adc_init_def Let_def split: Option.bind_splits if_splits option.splits
        dest: setup_channel_ntc)
  have f: "NTC_start_temperature P = sint (?r ! 96)" "NTC_step_temperature P = sint (?r ! 97)"
      "NTC_temper_number_step P = ?r ! 98"
    using P regs(1) by (auto simp: NTC_from_regs_def reg_s16_def split: Option.bind_splits)
  have lim: "- 40 \<le> sint (?r ! 96)" "sint (?r ! 96) \<le> 20" "1 \<le> uint (?r ! 97)" "uint (?r ! 97) \<le> 5" "uint (?r ! 98) \<le> 166"
    using ok by (simp_all add: signed_limits unsigned_limits)
  have param: "NTC_Parametr t = clamp_steps P"
    using t by (auto simp: calculate_table_NTC_def Let_def split: Option.bind_splits)
  have len: "length (termo_table t) = 166"
    using t regs(2) table_loop_length
    by (fastforce simp: calculate_table_NTC_def Let_def split: Option.bind_splits)
  have n: "1 \<le> unat (?r ! 98)"
    using assms(6) by (simp add: unat_gt_0 [symmetric] Suc_le_eq)
  have "sint (?r ! 97) = uint (?r ! 97)" using lim(4) by (rule small_signed)
  with lim len n show ?thesis
    unfolding s' wf_ntc_def param clamp_steps_simps f by simp
qed

text \<open>
  The registers describe a thermistor: the high halves of the two resistances fit a signed shift,
  neither resistance is zero, the coefficient is not negative and the reference temperature is above
  absolute zero.
\<close>

definition thermistor_regs :: "u16 list \<Rightarrow> bool" where
  "thermistor_regs r \<longleftrightarrow> r ! 91 < 0x8000 \<and> r ! 93 < 0x8000 \<and> (r ! 90 \<noteq> 0 \<or> r ! 91 \<noteq> 0) \<and>
     (r ! 92 \<noteq> 0 \<or> r ! 93 \<noteq> 0) \<and> 0 \<le> sint (r ! 94) \<and> - 273 \<le> sint (r ! 95)"

lemma high_half: "in_int32 (push_bit 16 (uint v)) \<longleftrightarrow> v < 0x8000" for v :: u16
proof -
  have "- 32768 \<le> uint v" using uint_ge_0 [of v] by linarith
  then show ?thesis by (simp add: in_int32_def push_bit_eq_mult word_less_def)
qed

lemma reg_pair_eq:
  "w1 < length regs \<Longrightarrow> w2 < length regs \<Longrightarrow> reg_pair regs w1 w2 =
     (if regs ! w2 < 0x8000 then Some (ucast (regs ! w1) OR push_bit 16 (ucast (regs ! w2))) else None)"
proof -
  have mask: "ucast v AND 0xFFFF = (ucast v :: u32)" for v :: u16
  proof -
    have m: "(0xFFFF :: u32) = mask 16" by (simp add: mask_eq_exp_minus_1)
    show ?thesis unfolding m by (rule bit_word_eqI) (auto simp: bit_simps dest: bit_imp_le_length)
  qed
  assume "w1 < length regs" "w2 < length regs"
  then show ?thesis by (simp add: reg_pair_def high_half mask)
qed

lemma pair_zero: "ucast v OR push_bit 16 (ucast w) = (0 :: u32) \<longleftrightarrow> v = 0 \<and> w = 0" for v w :: u16
proof
  assume z: "ucast v OR push_bit 16 (ucast w) = (0 :: u32)"
  have "\<not> bit (ucast v OR push_bit 16 (ucast w) :: u32) n" for n by (simp only: z) simp
  then have b: "n < 32 \<Longrightarrow> \<not> bit v n \<and> \<not> (16 \<le> n \<and> bit w (n - 16))" for n
    by (auto simp: bit_simps dest: bit_imp_le_length)
  have "v = 0" by (rule bit_word_eqI) (use b in auto)
  moreover have "w = 0"
  proof (rule bit_word_eqI)
    fix n assume "n < LENGTH(16)"
    with b [of "n + 16"] show "bit w n \<longleftrightarrow> bit (0 :: u16) n" by simp
  qed
  ultimately show "v = 0 \<and> w = 0" by simp
qed simp

lemma thermistor_plausible:
  assumes "length r = 120" "thermistor_regs r" "reg_ok 96 (r ! 96)" "reg_ok 97 (r ! 97)"
  obtains P where "NTC_from_regs r = Some P" "plausible P"
proof -
  have pos: "0 < uint (ucast v OR push_bit 16 (ucast w) :: u32) \<longleftrightarrow> v \<noteq> 0 \<or> w \<noteq> 0" for v w :: u16
    using pair_zero [of v w] word_neq_0_conv [of "ucast v OR push_bit 16 (ucast w) :: u32"]
    unfolding word_less_def uint_0_eq by blast
  have "sint (r ! 97) = uint (r ! 97)"
    using assms(4) by (intro small_signed) (simp add: unsigned_limits)
  then have lim: "- 40 \<le> sint (r ! 96)" "0 \<le> sint (r ! 97)"
    using assms(3,4) by (simp_all add: signed_limits unsigned_limits)
  obtain P where P: "NTC_from_regs r = Some P" "NTC_r2 P = ucast (r ! 90) OR push_bit 16 (ucast (r ! 91))"
      "NTC_r_divider P = ucast (r ! 92) OR push_bit 16 (ucast (r ! 93))" "NTC_b P = sint (r ! 94)"
      "NTC_t2 P = sint (r ! 95)" "NTC_start_temperature P = sint (r ! 96)" "NTC_step_temperature P = sint (r ! 97)"
      "NTC_adc_resolution P = 4096" "NTC_adc_multipler P = 1"
    using assms(1,2) by (simp add: NTC_from_regs_def reg_pair_eq thermistor_regs_def reg_s16_def)
  have "plausible P"
    unfolding plausible_def P(2-) pos using assms(2) lim by (simp add: thermistor_regs_def)
  with P(1) show thesis by (rule that)
qed

lemma init_defined:
  assumes "length (adc_regs s) = 120" "length (termo_table (adc_ntc s)) = 166" "thermistor_regs (adc_regs s)"
    and "reg_ok 96 (adc_regs s ! 96)" "reg_ok 97 (adc_regs s ! 97)"
  shows "io_adc_init Some Some (\<lambda>x. Some (exp x)) ain ready s \<noteq> None"
proof -
  obtain P where P: "NTC_from_regs (adc_regs s) = Some P" "plausible P"
    using thermistor_plausible [OF assms(1,3-5)] .
  show ?thesis
    unfolding io_adc_init_def P(1) Option.bind.bind_lunit calculate_table_exact [OF P(2) assms(2)]
    by (simp add: setup_channel_def channel_ids_def Let_def)
qed

lemma shift_undefined:
  "length (adc_regs s) = 120 \<Longrightarrow> \<not> adc_regs s ! 91 < 0x8000 \<or> \<not> adc_regs s ! 93 < 0x8000 \<Longrightarrow>
     io_adc_init rf rd ex ain ready s = None"
  by (auto simp: io_adc_init_def NTC_from_regs_def reg_pair_eq)

text \<open>With both resistances zero the first entry of the table is 0/0.\<close>

lemma zero_resistances:
  assumes "length (adc_regs s) = 120" "adc_regs s ! 98 \<noteq> 0"
    and z: "adc_regs s ! 90 = 0" "adc_regs s ! 91 = 0" "adc_regs s ! 92 = 0" "adc_regs s ! 93 = 0"
    and rf: "rf 0 = Some 0" "rd 0 = Some 0"
  shows "io_adc_init rf rd ex ain ready s = None"
proof -
  obtain P where P: "NTC_from_regs (adc_regs s) = Some P" "NTC_r2 P = 0" "NTC_r_divider P = 0"
      "NTC_temper_number_step P = adc_regs s ! 98"
    using assms(1) z by (simp add: NTC_from_regs_def reg_pair_eq)
  have f: "NTC_r2 (clamp_steps P) = 0" "NTC_r_divider (clamp_steps P) = 0"
    using P(2,3) by (simp_all add: clamp_steps_def)
  have entry: "termo_entry rf (clamp_steps P) 0 = None"
    using rf by (simp add: termo_entry_def f_div_def f(2) fl_def)
  have "r_Value rf rd ex (clamp_steps P) t1 t2 = Some v \<Longrightarrow> v = 0" for t1 t2 v
    using rf by (auto simp: r_Value_def f(1) fl_def split: Option.bind_splits)
  with entry have body: "table_body rf rd ex (clamp_steps P) t2 i tab = None" for t2 i tab
    by (fastforce simp: table_body_def split: Option.bind_splits)
  obtain n where "unat (NTC_temper_number_step (clamp_steps P)) = Suc n"
    using assms(2) P(4) by (cases "min 166 (unat (NTC_temper_number_step P))") (auto simp: unat_eq_zero min_def split: if_splits)
  then have "calculate_table_NTC rf rd ex P (adc_ntc s) = None"
    using body by (auto simp: calculate_table_NTC_def Let_def split: Option.bind_splits)
  then show ?thesis by (simp add: io_adc_init_def P(1))
qed

section \<open>Properties\<close>

text \<open>C32: \<open>io_getADCval\<close> returns the median of the channel's nine samples: the fifth in order.\<close>

theorem adc_value_is_median:
  assumes "length sample_buffer = 9"
  shows "io_getADCval sample_buffer 0 = Some (sort sample_buffer ! 4)"
  using assms by (rule io_getADCval_median)

theorem adc_value_is_median_witness:
  "io_getADCval [9, 100, 3, 7, 5, 1, 8, - 50, 6] 0 = Some (sort [9, 100, 3, 7, 5, 1, 8, - 50, 6] ! 4)"
  by (rule adc_value_is_median) simp

text \<open>C39: the filter under a constant input.  No step of it overflows: the products and sums fit
  \<open>int\<close> and the result fits the 16 bits it is stored in, so it is the weighted mean rounded down.  It
  settles after at most as many steps as it started counts away, and it rests exactly in the band of
  the input and the three counts below it; approaching from below it stops up to three counts short.\<close>

theorem filter_settles:
  assumes "is_int16 f" "is_int16 v" "\<bar>f - v\<bar> \<le> int n"
  shows "(\<forall>k. let g = ((\<lambda>f. filter_step f v) ^^ k) f in
        is_int16 g \<and> in_int32 (g * 3) \<and> in_int32 (g * 3 + v) \<and>
        is_int16 ((g * 3 + v) div 4) \<and> filter_step g v = (g * 3 + v) div 4) \<and>
     v - 3 \<le> ((\<lambda>f. filter_step f v) ^^ n) f \<and> ((\<lambda>f. filter_step f v) ^^ n) f \<le> v \<and>
     (\<forall>g. is_int16 g \<longrightarrow> (filter_step g v = g \<longleftrightarrow> v - 3 \<le> g \<and> g \<le> v))"
proof -
  have "off_band v f \<le> int n" using assms(3) by (auto simp: off_band_def)
  with filter_run [OF assms(1,2), of n] have "off_band v (((\<lambda>f. filter_step f v) ^^ n) f) \<le> 0" by simp
  moreover have "let g = ((\<lambda>f. filter_step f v) ^^ k) f in is_int16 g \<and> in_int32 (g * 3) \<and> in_int32 (g * 3 + v) \<and>
      is_int16 ((g * 3 + v) div 4) \<and> filter_step g v = (g * 3 + v) div 4" for k
    unfolding Let_def by (rule filter_step_fits [OF conjunct1 [OF filter_run [OF assms(1,2)]] assms(2)])
  ultimately show ?thesis
    using filter_fixpoint assms(2) by (auto simp: off_band_def)
qed

theorem filter_settles_witness:
  "filter_step 97 100 = 97 \<and> (\<lambda>f. filter_step f 100) ((\<lambda>f. filter_step f 100) 101) \<le> 100 \<and>
     filter_step 32767 (- 32768) = 16383"
proof -
  have "filter_step 32767 (- 32768) = (32767 * 3 + - 32768) div 4"
    using filter_settles [of 32767 "- 32768" 65535] by (auto simp: is_int16_def dest: spec [of _ 0])
  then show ?thesis
    using filter_settles [of 101 100 2] filter_settles [of 97 100 3] by (simp add: is_int16_def numeral_2_eq_2)
qed

text \<open>C33: the measurement task: after any sequence of successful readings the published register
  holds the temperature of the filtered medians, the first median starting the filter, and no
  other register has changed.\<close>

theorem io_adc_task_publishes:
  assumes "wf_ntc n" "wf_task s" "list_all good_read reads" "reads \<noteq> []"
  shows "succeeds (io_adc_task n reads s) (\<lambda>s'. \<exists>t.
     calc_temperature n (word_of_int (foldl filter_step (sort (snd (hd reads)) ! 4)
        (map (\<lambda>r. sort (snd r) ! 4) (tl reads)))) = Some t \<and>
     ADC_Value_T s' = [word_of_int t] \<and> task_regs s' = (task_regs s)[1 := word_of_int t] \<and> running s')"
  using io_adc_task_ok [OF assms]
  by (auto simp: published_def median_def wf_task_def elim!: succeeds_mono)

definition adc_example :: adc_task where
  "adc_example = \<lparr>Adc_Filter_Value = [0], ADC_Value_T = [0], task_regs = replicate 120 0, running = True\<rparr>"

theorem io_adc_task_publishes_witness:
  "\<exists>s t. io_adc_task ntc_example [(0, replicate 9 160), (0, replicate 9 170)] adc_example = Some s \<and>
     calc_temperature ntc_example 162 = Some t \<and> task_regs s = (replicate 120 0)[1 := word_of_int t]"
proof -
  let ?reads = "[(0, replicate 9 160), (0, replicate 9 170)] :: (int \<times> int list) list"
  have "wf_task adc_example" "list_all good_read ?reads" "?reads \<noteq> []"
    by (simp_all add: wf_task_def adc_example_def good_read_def is_int16_def list_all_iff)
  note io_adc_task_publishes [OF ntc_example_wf(1) this]
  moreover have "foldl filter_step (sort (snd (hd ?reads)) ! 4) (map (\<lambda>r. sort (snd r) ! 4) (tl ?reads)) = 162"
    using filter_step_eq [of 160 170] by (simp add: numeral_eq_Suc is_int16_def sort_replicate)
  ultimately show ?thesis
    by (auto simp: adc_example_def elim!: succeedsE)
qed

text \<open>an error of the ADC driver ends the task: the published temperature stays at its last
  value, whatever later readings would bring.\<close>

theorem adc_error_freezes:
  assumes "err \<noteq> 0" "running s"
  shows "io_adc_loop n ((err, buf) # reads) s = Some (s\<lparr>running := False\<rparr>)"
  using assms by (simp add: adc_round_def stopped_loop)

theorem adc_error_freezes_witness:
  "io_adc_loop ntc_example [(- 5, []), (0, replicate 9 160)] adc_example = Some (adc_example\<lparr>running := False\<rparr>)"
  by (rule adc_error_freezes) (simp_all add: adc_example_def)

text \<open>C28: from the settings to a safe conversion.  With a step, a start and a number of steps within
  the limits that the Modbus port and the boot enforce, and the number not zero: whatever the rounding
  of the arithmetic, when the set-up computes a table, every sample is converted safely.  In exact
  arithmetic it does compute one if the registers describe a thermistor.  It does not, for the limits
  admit values on which C's arithmetic is undefined: a high half of a resistance with its highest
  bit set, which is shifted into the sign bit, and two resistances of zero, which make 0/0 under a rounding that keeps zero.\<close>

theorem limits_make_conversion_safe:
  assumes "length (adc_regs s) = 120" "length (termo_table (adc_ntc s)) = 166"
    and "reg_ok 96 (adc_regs s ! 96)" "reg_ok 97 (adc_regs s ! 97)" "reg_ok 98 (adc_regs s ! 98)"
    and "adc_regs s ! 98 \<noteq> 0"
  shows "(\<forall>s' adcsum. io_adc_init rf rd ex ain device_ready s = Some s' \<longrightarrow>
        succeeds (calc_temperature (adc_ntc s') adcsum) (reading (adc_ntc s') adcsum)) \<and>
     (thermistor_regs (adc_regs s) \<longrightarrow> io_adc_init Some Some (\<lambda>x. Some (exp x)) ain device_ready s \<noteq> None) \<and>
     (0x8000 \<le> adc_regs s ! 91 \<or> 0x8000 \<le> adc_regs s ! 93 \<longrightarrow> io_adc_init rf rd ex ain device_ready s = None) \<and>
     (adc_regs s ! 90 = 0 \<and> adc_regs s ! 91 = 0 \<and> adc_regs s ! 92 = 0 \<and> adc_regs s ! 93 = 0 \<longrightarrow>
        rf 0 = Some 0 \<longrightarrow> rd 0 = Some 0 \<longrightarrow> io_adc_init rf rd ex ain device_ready s = None)"
proof (intro conjI impI allI)
  fix s' adcsum
  assume "io_adc_init rf rd ex ain device_ready s = Some s'"
  from limits_give_wf [OF assms this] show "succeeds (calc_temperature (adc_ntc s') adcsum) (reading (adc_ntc s') adcsum)"
    by (rule calc_reading)
next
  assume "0x8000 \<le> adc_regs s ! 91 \<or> 0x8000 \<le> adc_regs s ! 93"
  then show "io_adc_init rf rd ex ain device_ready s = None"
    using shift_undefined [OF assms(1), of rf rd ex ain device_ready] by (auto simp: not_less)
next
  assume "thermistor_regs (adc_regs s)"
  then show "io_adc_init Some Some (\<lambda>x. Some (exp x)) ain device_ready s \<noteq> None"
    by (rule init_defined [OF assms(1,2) _ assms(3,4)])
qed (use zero_resistances [OF assms(1,6)] in blast)

text \<open>a sample just below zero, which a single-ended measurement of a shorted sensor gives, is
  converted to an unsigned value and reported as under the range instead of over it.\<close>

theorem negative_sample_reported_under:
  assumes "wf_ntc n" "f < 0" "is_int16 f"
    and "\<forall>i<unat (NTC_temper_number_step (NTC_Parametr n)). termo_table n ! i \<le> 4096"
  shows "calc_temperature n (word_of_int f) = Some TEMPERATURE_UNDER"
proof -
  have "f mod 65536 = (f + 65536) mod 65536" by simp
  also have "\<dots> = f + 65536"
    using assms(2,3) by (intro mod_pos_pos_trivial) (simp_all add: is_int16_def)
  finally have "uint (word_of_int f :: u16) = f + 65536"
    by (simp add: uint_word_of_int)
  then have big: "4096 < (word_of_int f :: u16)"
    using assms(3) by (simp add: word_less_def is_int16_def)
  obtain t where t: "calc_temperature n (word_of_int f) = Some t" "reading n (word_of_int f) t"
    using calc_reading [OF assms(1)] by (meson succeedsE)
  have "termo_table n ! i < word_of_int f" if "i < steps n" for i
    using assms(4) that big by (meson le_less_trans)
  then have lt: "termo_table n ! 0 < word_of_int f" "termo_table n ! (steps n - 1) < word_of_int f"
    using assms(1) by (simp_all add: wf_ntc_def)
  from t(2) have "t = TEMPERATURE_UNDER"
    by cases (use lt in auto)
  with t(1) show ?thesis by simp
qed


theorem negative_sample_reported_under_witness:
  "calc_temperature ntc_example (word_of_int (- 1)) = Some TEMPERATURE_UNDER"
proof -
  have "\<forall>i < steps ntc_example. termo_table ntc_example ! i \<le> 4096"
    unfolding ntc_example_table(4) by (auto simp: ntc_example_def less_Suc_eq numeral_3_eq_3)
  then show ?thesis
    by (intro negative_sample_reported_under ntc_example_wf) (simp_all add: is_int16_def)
qed

text \<open>The default settings, as a boot from an empty flash leaves them.\<close>

lemma default_params:
  assumes "length regs = 120" "\<forall>j<120. reg_saved j \<longrightarrow> regs ! j = reg_default j"
  shows "NTC_from_regs regs = Some \<lparr>NTC_r2 = 50000, NTC_b = 3950, NTC_t2 = 25, NTC_r_divider = 20000,
     NTC_start_temperature = - 10, NTC_step_temperature = 1, NTC_temper_number_step = 136,
     NTC_adc_resolution = 4096, NTC_adc_multipler = 1\<rparr>"
proof -
  have d: "reg_saved j \<and> reg_default j = v"
    if "(j, v) \<in> {(90, 50000), (91, 0), (92, 20000), (93, 0), (94, 3950), (95, 25), (96, - 10), (97, 1), (98, 136)}" for j v
    using that by (auto simp: reg_saved_def reg_default_def perm_check_def default_state_nth MAIN_BUF_TABLE_def X_BUF_def)
  have "regs ! j = v"
    if "(j, v) \<in> {(90, 50000), (91, 0), (92, 20000), (93, 0), (94, 3950), (95, 25), (96, - 10), (97, 1), (98, 136)}" for j v
    using d [OF that] assms(2) that by auto
  then show ?thesis
    using assms(1) by (simp add: NTC_from_regs_def reg_pair_eq reg_s16_def)
qed

lemma default_init:
  assumes "length (adc_regs s) = 120" "\<forall>j<120. reg_saved j \<longrightarrow> adc_regs s ! j = reg_default j"
    and "length (termo_table (adc_ntc s)) = 166"
  obtains s' where "io_adc_init Some Some (\<lambda>x. Some (exp x)) ain True s = Some s'" "adc_task_created s'"
    "channels_set_up s' = channels_set_up s @ [(channel_cfg s)\<lparr>channel_id := 2, input_positive := ain + 2\<rparr>]"
    "\<forall>i<136. termo_table (adc_ntc s') ! i = exact_entry (NTC_Parametr (adc_ntc s')) i"
    "NTC_temper_number_step (NTC_Parametr (adc_ntc s')) = 136"
proof -
  note P = default_params [OF assms(1,2)]
  let ?P = "\<lparr>NTC_r2 = 50000, NTC_b = 3950, NTC_t2 = 25, NTC_r_divider = 20000, NTC_start_temperature = - 10,
     NTC_step_temperature = 1, NTC_temper_number_step = 136, NTC_adc_resolution = 4096, NTC_adc_multipler = 1\<rparr>"
  let ?t = "\<lparr>termo_table = map (exact_entry ?P) [0..<min 166 (unat (NTC_temper_number_step ?P))] @
      drop (min 166 (unat (NTC_temper_number_step ?P))) (termo_table (adc_ntc s)), NTC_Parametr = clamp_steps ?P\<rparr>"
  have t: "calculate_table_NTC Some Some (\<lambda>x. Some (exp x)) ?P (adc_ntc s) = Some ?t"
    by (rule calculate_table_exact [OF _ assms(3)]) (simp add: plausible_def)
  have c: "clamp_steps ?P = ?P" by (simp add: clamp_steps_def)
  have n: "min 166 (unat (NTC_temper_number_step ?P)) = 136" by simp
  let ?s' = "s\<lparr>adc_ntc := ?t, channel_cfg := (channel_cfg s)\<lparr>channel_id := 2, input_positive := ain + 2\<rparr>,
     channels_set_up := channels_set_up s @ [(channel_cfg s)\<lparr>channel_id := 2, input_positive := ain + 2\<rparr>],
     sequence := (sequence s)\<lparr>channels := channels (sequence s) OR push_bit 2 1\<rparr>, adc_task_created := True\<rparr>"
  have "io_adc_init Some Some (\<lambda>x. Some (exp x)) ain True s = Some ?s'"
    unfolding io_adc_init_def P Option.bind.bind_lunit t Let_def
    by (simp add: setup_channel_def channel_ids_def Let_def)
  then show thesis
    by (rule that) (simp_all only: n c, simp_all add: nth_append)
qed

text \<open>the default settings work: with every saved register at its default, in exact arithmetic, the
  set-up succeeds, prepares channel 2 and starts the task on a table of 136 steps whose entries
  are the divider curve.\<close>

theorem default_settings_usable:
  assumes "length (adc_regs s) = 120" "\<forall>j<120. reg_saved j \<longrightarrow> adc_regs s ! j = reg_default j"
    and "length (termo_table (adc_ntc s)) = 166"
  shows "succeeds (io_adc_init Some Some (\<lambda>x. Some (exp x)) ain True s) (\<lambda>s'. adc_task_created s' \<and>
     channels_set_up s' = channels_set_up s @ [(channel_cfg s)\<lparr>channel_id := 2, input_positive := ain + 2\<rparr>] \<and>
     NTC_temper_number_step (NTC_Parametr (adc_ntc s')) = 136 \<and>
     (\<forall>i<136. termo_table (adc_ntc s') ! i = exact_entry (NTC_Parametr (adc_ntc s')) i))"
proof -
  from default_init [OF assms] obtain s' where "io_adc_init Some Some (\<lambda>x. Some (exp x)) ain True s = Some s'"
    "adc_task_created s'" "channels_set_up s' = channels_set_up s @ [(channel_cfg s)\<lparr>channel_id := 2, input_positive := ain + 2\<rparr>]"
    "\<forall>i<136. termo_table (adc_ntc s') ! i = exact_entry (NTC_Parametr (adc_ntc s')) i"
    "NTC_temper_number_step (NTC_Parametr (adc_ntc s')) = 136"
    by blast
  then show ?thesis by simp
qed

definition default_adc :: adc where
  "default_adc = \<lparr>adc_regs = map reg_default [0..<120], adc_ntc = ntc_example, channel_cfg = channel_cfg_zero,
     sequence = sequence_zero, channels_set_up = [], adc_task_created = False\<rparr>"

lemma default_adc_ok:
  "length (adc_regs default_adc) = 120" "\<forall>j<120. reg_saved j \<longrightarrow> adc_regs default_adc ! j = reg_default j"
  "length (termo_table (adc_ntc default_adc)) = 166"
  by (simp_all add: default_adc_def ntc_example_def)

theorem default_settings_usable_witness:
  "\<exists>s'. io_adc_init Some Some (\<lambda>x. Some (exp x)) 1 True default_adc = Some s' \<and> map channel_id (channels_set_up s') = [2]"
  using default_settings_usable [OF default_adc_ok, of 1] by (auto simp: default_adc_def elim!: succeedsE)

theorem limits_make_conversion_safe_witness:
  "\<exists>s' t. io_adc_init Some Some (\<lambda>x. Some (exp x)) 1 True default_adc = Some s' \<and>
     calc_temperature (adc_ntc s') 2000 = Some t"
proof -
  have ok: "reg_ok j (adc_regs default_adc ! j)" if "j < 120" for j
    using policy.dflt_ok that by (simp add: default_adc_def)
  have v: "adc_regs default_adc ! 90 = 50000" "adc_regs default_adc ! 91 = 0" "adc_regs default_adc ! 92 = 20000"
      "adc_regs default_adc ! 93 = 0" "adc_regs default_adc ! 94 = 3950" "adc_regs default_adc ! 95 = 25"
      "adc_regs default_adc ! 98 = 136"
    by (simp_all add: default_adc_def reg_default_def default_state_nth MAIN_BUF_TABLE_def X_BUF_def)
  then have "thermistor_regs (adc_regs default_adc)" "adc_regs default_adc ! 98 \<noteq> 0"
    by (simp_all add: thermistor_regs_def)
  note safe = limits_make_conversion_safe [OF default_adc_ok(1,3) ok ok ok this(2), of Some Some "\<lambda>x. Some (exp x)" 1 True]
  then obtain s' where "io_adc_init Some Some (\<lambda>x. Some (exp x)) 1 True default_adc = Some s'"
    using \<open>thermistor_regs (adc_regs default_adc)\<close> by auto
  with safe show ?thesis by (auto elim!: succeedsE)
qed

text \<open>The driver's samples fit: whenever the set-up starts the task from the initial
  configuration, a sequence reads as many samples as the channels prepared times one plus the extra
  samplings, which is exactly the length of the sample buffer.  The size announced to the driver,
  however, is nine times the size of that buffer in bytes.\<close>

theorem adc_samples_fit:
  assumes "io_adc_init rf rd ex ain True s = Some s'" "channels_set_up s = []" "sequence s = sequence_zero"
  shows "length (channels_set_up s') * (1 + extra_samplings (sequence s')) = length (buffer (sequence s')) \<and>
     buffer_size (sequence s') = 9 * (2 * length (buffer (sequence s'))) \<and>
     channels (sequence s') = 4 \<and> adc_task_created s'"
  using assms by (auto simp: io_adc_init_def setup_channel_def channel_ids_def sequence_zero_def
      sample_buffer_zero_def Let_def split: Option.bind_splits)

theorem adc_samples_fit_witness:
  "\<exists>s'. io_adc_init Some Some (\<lambda>x. Some (exp x)) 1 True default_adc = Some s' \<and>
     channels (sequence s') = 4 \<and> buffer_size (sequence s') = 9 * (2 * length (buffer (sequence s')))"
proof -
  have init: "channels_set_up default_adc = []" "sequence default_adc = sequence_zero"
    by (simp_all add: default_adc_def)
  obtain s' where s': "io_adc_init Some Some (\<lambda>x. Some (exp x)) 1 True default_adc = Some s'"
    using default_init [OF default_adc_ok, of 1] by metis
  from s' adc_samples_fit [OF s' init] show ?thesis by blast
qed

end
