(* ===== verification/Firmware.thy ===== *)
theory Firmware
  imports Zigbee Adc UsbPort
begin

text \<open>
  The two threads of \<open>src/main.c\<close>: \<open>com_task\<close>, which feeds the watchdog, publishes the
  temperature as an attribute of the Zigbee cluster and runs the commands; and \<open>main\<close>, which starts the
  components in order and waits for the sensor's turn before it enables the radio.  Drivers, the
  stack and the hardware are arguments, and so is what the other tasks do to the shared registers while
  a thread waits.  \<^const>\<open>None\<close> stands for an access outside an array or an arithmetic operation C leaves
  undefined; only in the busy-wait on the flash controller it stands for polls that have run out.
\<close>

section \<open>The communication task\<close>

abbreviation (input) TEMPERATURE_ERROR_LABEL :: u16 where "TEMPERATURE_ERROR_LABEL \<equiv> 0x7000"
abbreviation (input) TEMPERATURE_ERROR_MASK :: u16 where "TEMPERATURE_ERROR_MASK \<equiv> 0xF000"
abbreviation (input) TEMPERATURE_NO_MEASURE :: int where "TEMPERATURE_NO_MEASURE \<equiv> 0x7004"
abbreviation (input) WDT_MAX_WINDOW :: nat where "WDT_MAX_WINDOW \<equiv> 9000"
abbreviation (input) ENOTSUP :: int where "ENOTSUP \<equiv> 134"

text \<open>\<open>value_temp\<close>: a product of \<open>int\<close>, stored into 16 bits.\<close>

definition value_temp :: "u16 \<Rightarrow> int" where
  "value_temp v =
     (if v AND TEMPERATURE_ERROR_MASK \<noteq> TEMPERATURE_ERROR_LABEL then s16 (uint v * 100) else s16 (uint v))"

record wdt_timeout_cfg =
  window_min :: nat
  window_max :: nat
  wdt_callback :: bool
  flags_reset_soc :: bool

text \<open>
  The driver: whether the device exists, the result of each attempt to install a time-out, and of
  \<open>wdt_setup\<close>.  \<open>wdt_installed\<close> collects the configurations given to it and \<open>feeds\<close> the times,
  in milliseconds since the task began, at which it is fed.
\<close>

record wdt_driver =
  wdt_found :: bool
  wdt_install :: "nat \<Rightarrow> wdt_timeout_cfg \<Rightarrow> int"
  wdt_setup_rc :: int

record ('m, 'a) com =
  com_dev :: "('m, 'a) zb_dev"
  clock :: nat
  wdt_installed :: "wdt_timeout_cfg list"
  feeds :: "nat list"
  attr_values :: "int list"

definition wdt_config :: wdt_timeout_cfg where
  "wdt_config = \<lparr>window_min = 0, window_max = WDT_MAX_WINDOW, wdt_callback = False, flags_reset_soc = True\<rparr>"

definition feed :: "('m, 'a) com \<Rightarrow> ('m, 'a) com" where
  "feed s = s\<lparr>feeds := feeds s @ [clock s]\<rparr>"

text \<open>\<open>None\<close>-free: the result says whether the task goes on to its loop.\<close>

definition wdt_begin :: "wdt_driver \<Rightarrow> ('m, 'a) com \<Rightarrow> bool \<times> ('m, 'a) com" where
  "wdt_begin D s =
     (if \<not> wdt_found D then (False, s)
      else
        let ch = wdt_install D 0 wdt_config; s = s\<lparr>wdt_installed := wdt_installed s @ [wdt_config]\<rparr>;
            (ch, s) =
              (if ch = - ENOTSUP
               then let cfg = wdt_config\<lparr>wdt_callback := False\<rparr>
                    in (wdt_install D 1 cfg, s\<lparr>wdt_installed := wdt_installed s @ [cfg]\<rparr>)
               else (ch, s))
        in if ch < 0 then (False, s)
           else if wdt_setup_rc D < 0 then (False, s)
           else (True, feed s))"

text \<open>
  What the surroundings decide in a round: how long \<open>k_sleep\<close> takes, which is three seconds or more,
  the settings and the value of \<open>ADC_Value_T[0]\<close> the other tasks have left by then, and how long the
  publication and the command take.
\<close>

record 'm com_env =
  slept :: nat
  settings_then :: "'m settings"
  ADC_Value_T0 :: u16
  worked :: nat

definition com_round :: "'m nvs_write \<Rightarrow> 'm com_env \<Rightarrow> ('m, 'a) com \<Rightarrow> ('m, 'a) com option" where
  "com_round wr e s = do {
     let s = feed s;
     let s = s\<lparr>clock := clock s + slept e, com_dev := (com_dev s)\<lparr>conf := settings_then e\<rparr>\<rparr>;
     let s = s\<lparr>attr_values := attr_values s @ [value_temp (ADC_Value_T0 e)]\<rparr>;
     d \<leftarrow> command_control wr (com_dev s);
     Some (s\<lparr>com_dev := d, clock := clock s + worked e\<rparr>)
   }"

text \<open>The rounds of the loop, until there are no more or a command has rebooted the device.\<close>

fun com_loop :: "'m nvs_write \<Rightarrow> 'm com_env list \<Rightarrow> ('m, 'a) com \<Rightarrow> ('m, 'a) com option" where
  "com_loop wr [] s = Some s"
| "com_loop wr (e # es) s = do {
     s \<leftarrow> com_round wr e s;
     if ctl (com_dev s) = Running then com_loop wr es s else Some s
   }"

definition com_task :: "'m nvs_write \<Rightarrow> wdt_driver \<Rightarrow> 'm com_env list \<Rightarrow> ('m, 'a) com \<Rightarrow> ('m, 'a) com option" where
  "com_task wr D es s = (let (ok, s) = wdt_begin D s in if ok then com_loop wr es s else Some s)"

section \<open>The access-port protection\<close>

text \<open>
  \<open>main\<close> begins by writing the protection word of UICR if it differs.  The busy-wait on \<open>READY\<close>
  takes what the polls give; \<open>burn old new\<close> is what the flash cell holds after a write; the write
  is recorded with the value of \<open>CONFIG\<close> at the time.
\<close>

record nvmc =
  CONFIG :: u32
  APPROTECT :: u32
  uicr_writes :: "(u32 \<times> u32) list"

abbreviation (input) NVMC_CONFIG_WEN_Wen :: u32 where "NVMC_CONFIG_WEN_Wen \<equiv> 1"
abbreviation (input) NVMC_CONFIG_WEN_Ren :: u32 where "NVMC_CONFIG_WEN_Ren \<equiv> 0"
abbreviation (input) UICR_APPROTECT_PALL_Msk :: u32 where "UICR_APPROTECT_PALL_Msk \<equiv> 0xFF"
abbreviation (input) UICR_APPROTECT_PALL_Enabled :: u32 where "UICR_APPROTECT_PALL_Enabled \<equiv> 0"
abbreviation (input) UICR_APPROTECT_PALL_Disabled :: u32 where "UICR_APPROTECT_PALL_Disabled \<equiv> 0xFF"

fun wait_ready :: "bool list \<Rightarrow> bool list option" where
  "wait_ready [] = None"
| "wait_ready (ready # polls) = (if ready then Some polls else wait_ready polls)"

definition set_approtect :: "(u32 \<Rightarrow> u32 \<Rightarrow> u32) \<Rightarrow> bool \<Rightarrow> bool list \<Rightarrow> nvmc \<Rightarrow> nvmc option" where
  "set_approtect burn ENABLE_APPROTECT polls h =
     (let wanted = (if ENABLE_APPROTECT then UICR_APPROTECT_PALL_Enabled else UICR_APPROTECT_PALL_Disabled) in
      if APPROTECT h AND UICR_APPROTECT_PALL_Msk \<noteq> wanted then do {
        let h = h\<lparr>CONFIG := NVMC_CONFIG_WEN_Wen\<rparr>;
        polls \<leftarrow> wait_ready polls;
        let v = (APPROTECT h AND NOT UICR_APPROTECT_PALL_Msk) OR wanted;
        let h = h\<lparr>APPROTECT := burn (APPROTECT h) v, uicr_writes := uicr_writes h @ [(CONFIG h, v)]\<rparr>;
        let h = h\<lparr>CONFIG := NVMC_CONFIG_WEN_Ren\<rparr>;
        polls \<leftarrow> wait_ready polls;
        Some h
      } else Some h)"

section \<open>The sensor's turn\<close>

abbreviation (input) TIME_BETWEEN_NEXT_CONNECTION_MS :: int where "TIME_BETWEEN_NEXT_CONNECTION_MS \<equiv> 5000"
abbreviation (input) MAX_SENSOR_IN_ROUTER :: int where "MAX_SENSOR_IN_ROUTER \<equiv> 16"
abbreviation (input) DELAY_FOR_POWER_TEST_MS :: nat where "DELAY_FOR_POWER_TEST_MS \<equiv> 2500"
abbreviation (input) DELAY_AFTER_POWER_TEST_MS :: int where "DELAY_AFTER_POWER_TEST_MS \<equiv> 10000"

text \<open>The C expression is computed in \<open>int\<close>; every intermediate result must fit.\<close>

definition start_delay :: "u16 \<Rightarrow> u16 \<Rightarrow> int option" where
  "start_delay N_Sens_Point N_Panel =
     (let a = TIME_BETWEEN_NEXT_CONNECTION_MS * uint N_Sens_Point;
          b = TIME_BETWEEN_NEXT_CONNECTION_MS * MAX_SENSOR_IN_ROUTER * uint N_Panel;
          c = DELAY_AFTER_POWER_TEST_MS + a
      in if in_int32 a \<and> in_int32 b \<and> in_int32 c \<and> in_int32 (c + b) then Some (c + b) else None)"

section \<open>The main thread\<close>

datatype boot_call =
    Dcdc_enable
  | Emfat_init string
  | User_mem_init
  | Buf_Init
  | Usb_init
  | Usb_enable
  | Adc_init
  | Sleep_ms int
  | Erase_persistent_storage bool
  | Set_ed_timeout u16
  | Set_keepalive_timeout nat
  | Address_and_code_init
  | Set_network_ed_role u32
  | Configure_sleepy_behavior bool
  | Register_device_ctx
  | Busy_wait_us nat
  | Zigbee_enable

record ('m, 'a) fw =
  zdev :: "('m, 'a) zb_dev"
  adc_part :: adc
  usb_part :: "'m usb_port"
  hw :: nvmc
  trace :: "boot_call list"
  measure_value :: int

text \<open>
  What the environment answers during start-up; \<open>usb_later\<close> is the state the USB driver has
  reported, through \<open>usb_cb\<close>, by the time \<open>main\<close> looks at it.  The tasks take the processor from
  \<open>main\<close> whenever they are ready; \<open>others k\<close> is what they have done to the settings before the
  \<open>k\<close>-th place where \<open>main\<close> reads them.
\<close>

record 'm boot_env =
  nvs_rd :: "'m nvs_read"
  nvs_wr :: "'m nvs_write"
  float_rnd :: rounding
  double_rnd :: rounding
  exp_fun :: rounding
  burn :: "u32 \<Rightarrow> u32 \<Rightarrow> u32"
  approtect_on :: bool
  polls :: "bool list"
  cdc_found :: bool
  usb_rc :: int
  adc_ready :: bool
  AnalogInput :: u8
  eui64 :: "u8 list"
  garbage8 :: "u8 list"
  garbage18 :: "u8 list"
  usb_later :: u16
  beacon :: "nat \<Rightarrow> nat"
  others :: "nat \<Rightarrow> 'm settings \<Rightarrow> 'm settings"

definition logged :: "boot_call \<Rightarrow> ('m, 'a) fw \<Rightarrow> ('m, 'a) fw" where
  "logged c s = s\<lparr>trace := trace s @ [c]\<rparr>"

definition regs :: "('m, 'a) fw \<Rightarrow> u16 list" where
  "regs s = MBbuf_main (conf (zdev s))"

definition meanwhile :: "'m boot_env \<Rightarrow> nat \<Rightarrow> ('m, 'a) fw \<Rightarrow> ('m, 'a) fw" where
  "meanwhile E k s = s\<lparr>zdev := (zdev s)\<lparr>conf := others E k (conf (zdev s))\<rparr>\<rparr>"

text \<open>The components before the radio: \<open>MBbuf_main\<close> is shared, so each is handed its present contents.\<close>

definition start_storage :: "'m boot_env \<Rightarrow> ('m, 'a) fw \<Rightarrow> ('m, 'a) fw option" where
  "start_storage E s = do {
     c \<leftarrow> mh_Buf_Init (nvs_rd E) (nvs_wr E) (conf (zdev s));
     Some (logged Buf_Init (s\<lparr>zdev := (zdev s)\<lparr>conf := c\<rparr>\<rparr>))
   }"

definition start_usb :: "'m boot_env \<Rightarrow> ('m, 'a) fw \<Rightarrow> ('m, 'a) fw" where
  "start_usb E s = logged Usb_init
     (s\<lparr>usb_part := mh_usb_init (cdc_found E) ((usb_part s)\<lparr>store := conf (zdev s)\<rparr>)\<rparr>)"

definition start_adc :: "'m boot_env \<Rightarrow> ('m, 'a) fw \<Rightarrow> ('m, 'a) fw option" where
  "start_adc E s = do {
     a \<leftarrow> io_adc_init (float_rnd E) (double_rnd E) (exp_fun E) (AnalogInput E) (adc_ready E)
       ((adc_part s)\<lparr>adc_regs := regs s\<rparr>);
     Some (logged Adc_init (s\<lparr>adc_part := a\<rparr>))
   }"

definition start_address :: "'m boot_env \<Rightarrow> ('m, 'a) fw \<Rightarrow> ('m, 'a) fw option" where
  "start_address E s = do {
     d \<leftarrow> address_and_code_init (garbage8 E) (garbage18 E) (eui64 E) (zdev s);
     Some (logged Address_and_code_init (s\<lparr>zdev := d\<rparr>))
   }"

text \<open>\<open>1UL << channel\<close> is undefined from a count of 32 on.\<close>

definition channel_mask :: "u16 \<Rightarrow> u32 option" where
  "channel_mask ch = (if unat ch < 32 then Some (push_bit (unat ch) 1) else None)"

definition wait_for_turn :: "'m boot_env \<Rightarrow> ('m, 'a) fw \<Rightarrow> ('m, 'a) fw option" where
  "wait_for_turn E s =
     (if usb_state (zdev s) \<noteq> USB_DC_CONFIGURED then do {
        let s = meanwhile E 4 (logged (Busy_wait_us (DELAY_FOR_POWER_TEST_MS * 1000)) s);
        wait \<leftarrow> read_at (regs s) Reg_Zigbee_Wait_Time_S;
        let s = meanwhile E 5 (logged (Sleep_ms (1000 * uint wait)) s);
        point \<leftarrow> read_at (regs s) Reg_Zigbee_Addr_1_N_Sens_Point;
        panel \<leftarrow> read_at (regs s) Reg_Zigbee_Addr_0_N_Panel;
        delay \<leftarrow> start_delay point panel;
        Some (logged (Sleep_ms delay) s)
      } else Some s)"

definition start_radio :: "'m boot_env \<Rightarrow> ('m, 'a) fw \<Rightarrow> ('m, 'a) fw option" where
  "start_radio E s = do {
     let s = s\<lparr>measure_value := TEMPERATURE_NO_MEASURE\<rparr>;
     let s = meanwhile E 1 (logged (Erase_persistent_storage False) s);
     timeout \<leftarrow> read_at (regs s) Reg_Zigbee_Timeout;
     let s = logged (Set_keepalive_timeout (beacon E 10000)) (logged (Set_ed_timeout timeout) s);
     s \<leftarrow> start_address E (meanwhile E 2 s);
     let s = meanwhile E 3 s;
     ch \<leftarrow> read_at (regs s) Reg_Zigbee_Set_Channel;
     mask \<leftarrow> channel_mask ch;
     let s = logged Register_device_ctx (logged (Configure_sleepy_behavior True) (logged (Set_network_ed_role mask) s));
     d \<leftarrow> usb_cb (usb_later E) (zdev s);
     s \<leftarrow> wait_for_turn E (s\<lparr>zdev := d\<rparr>);
     Some (logged Zigbee_enable s)
   }"

text \<open>\<open>main\<close> behind the protection word, up to its endless sleep or its return.\<close>

definition start_up :: "'m boot_env \<Rightarrow> ('m, 'a) fw \<Rightarrow> ('m, 'a) fw option" where
  "start_up E s = do {
     let s = logged User_mem_init (logged (Emfat_init ''Sensor'') (logged Dcdc_enable s));
     s \<leftarrow> start_storage E s;
     let s = logged Usb_enable (start_usb E s);
     if usb_rc E \<noteq> 0 then Some s
     else do {
       s \<leftarrow> start_adc E (meanwhile E 0 s);
       start_radio E (logged (Sleep_ms 2000) s)
     }
   }"

text \<open>How a start-up ends: in the busy-wait on the flash controller, in an undefined operation, or at the end.\<close>

datatype 's outcome = Still_polling | Undefined_operation | Reached 's

definition main :: "'m boot_env \<Rightarrow> ('m, 'a) fw \<Rightarrow> ('m, 'a) fw outcome" where
  "main E s =
     (case set_approtect (burn E) (approtect_on E) (polls E) (hw s) of
        None \<Rightarrow> Still_polling
      | Some h \<Rightarrow> (case start_up E (s\<lparr>hw := h\<rparr>) of None \<Rightarrow> Undefined_operation | Some t \<Rightarrow> Reached t))"

section \<open>The attribute\<close>

lemma s16_mod: "s16 (x mod 65536) = s16 x"
proof -
  have "signed_take_bit 15 (take_bit 16 x) = signed_take_bit 15 x" for x :: int
    by (simp add: signed_take_bit_take_bit)
  then show ?thesis by (simp add: s16_def take_bit_eq_mod)
qed

lemma s16_wrap: "s16 (uint (word_of_int x :: u16) * 100) = s16 (x * 100)"
proof -
  have "s16 ((x mod 65536) * 100) = s16 (((x mod 65536) * 100) mod 65536)" by (simp only: s16_mod)
  also have "\<dots> = s16 (x * 100)" by (simp only: mod_mult_left_eq s16_mod)
  finally show ?thesis by (simp add: uint_word_of_int)
qed

lemma high_nibble: "w AND 0xF000 = 0x7000 \<longleftrightarrow> unat w div 4096 = 7" for w :: u16
proof -
  have m: "(0xF000 :: u16) = NOT (mask 12)" by (simp add: mask_eq_exp_minus_1)
  have "w AND 0xF000 = 0x7000 \<longleftrightarrow> drop_bit 12 w = 7"
  proof
    assume "w AND 0xF000 = 0x7000"
    then have "drop_bit 12 (w AND NOT (mask 12)) = drop_bit 12 (0x7000 :: u16)" using m by simp
    moreover have "drop_bit 12 (w AND NOT (mask 12)) = drop_bit 12 w"
      by (rule bit_word_eqI) (auto simp: bit_simps dest: bit_imp_le_length)
    ultimately show "drop_bit 12 w = 7" by simp
  next
    assume "drop_bit 12 w = 7"
    then have "push_bit 12 (drop_bit 12 w) = (0x7000 :: u16)" by simp
    moreover have "push_bit 12 (drop_bit 12 w) = w AND NOT (mask 12)"
      by (rule bit_word_eqI) (auto simp: bit_simps dest: bit_imp_le_length)
    ultimately show "w AND 0xF000 = 0x7000" using m by simp
  qed
  also have "\<dots> \<longleftrightarrow> unat (drop_bit 12 w) = 7"
    by (simp add: word_unat_eq_iff)
  also have "unat (drop_bit 12 w) = unat w div 4096" by (simp add: drop_bit_eq_div unat_div)
  finally show ?thesis .
qed


text \<open>A temperature between -4096 and 4095 is not taken for one of the error codes.\<close>

lemma not_label:
  assumes "- 4096 \<le> T" "T < 4096"
  shows "(word_of_int T :: u16) AND 0xF000 \<noteq> 0x7000"
proof -
  have "unat (word_of_int T :: u16) = nat (T mod 65536)"
    by (simp add: unat_eq_nat_uint uint_word_of_int)
  moreover have "T mod 65536 < 4096 \<or> 61440 \<le> T mod 65536"
  proof (cases "0 \<le> T")
    case True
    with assms show ?thesis by simp
  next
    case False
    have "T mod 65536 = (T + 65536) mod 65536" by simp
    also have "\<dots> = T + 65536" using False assms by (intro mod_pos_pos_trivial) simp_all
    finally show ?thesis using assms by simp
  qed
  ultimately have "unat (word_of_int T :: u16) < 4096 \<or> 61440 \<le> unat (word_of_int T :: u16)"
    by linarith
  then show ?thesis
    unfolding high_nibble using div_le_mono [of 61440 "unat (word_of_int T :: u16)" 4096] by auto
qed

lemma value_temp_eq:
  assumes "- 327 \<le> T" "T \<le> 982"
  shows "value_temp (word_of_int T) = (if T \<le> 327 then 100 * T else 100 * T - 65536)"
proof -
  have "value_temp (word_of_int T) = s16 (T * 100)"
    using not_label [of T] assms by (simp add: value_temp_def s16_wrap)
  moreover have "s16 (T * 100) = s16 (T * 100 - 65536)"
    using s16_mod [of "T * 100"] s16_mod [of "T * 100 - 65536"] by (simp add: mod_diff_right_eq [symmetric])
  ultimately show ?thesis
    using assms by (auto simp: s16_id)
qed

section \<open>The watchdog\<close>

text \<open>The times from each feed to the next one, and from the last one until now.\<close>

fun feed_gaps :: "nat list \<Rightarrow> nat \<Rightarrow> nat list" where
  "feed_gaps [] now = []"
| "feed_gaps [t] now = [now - t]"
| "feed_gaps (t # u # ts) now = (u - t) # feed_gaps (u # ts) now"

definition round_time :: "'m com_env \<Rightarrow> nat" where
  "round_time e = slept e + worked e"

lemma com_round_result:
  assumes "com_round wr e s = Some t"
  shows "feeds t = feeds s @ [clock s]" "clock t = clock s + round_time e"
    "attr_values t = attr_values s @ [value_temp (ADC_Value_T0 e)]" "wdt_installed t = wdt_installed s"
  using assms by (auto simp: com_round_def feed_def round_time_def Let_def split: Option.bind_splits)

lemma com_loop_result:
  assumes "com_loop wr es s = Some t"
  shows "\<exists>n \<le> length es. \<exists>fs. feeds t = feeds s @ fs \<and> hd (fs @ [clock t]) = clock s \<and>
     feed_gaps fs (clock t) = map round_time (take n es) \<and> wdt_installed t = wdt_installed s \<and>
     attr_values t = attr_values s @ map (\<lambda>e. value_temp (ADC_Value_T0 e)) (take n es) \<and>
     (n < length es \<longrightarrow> ctl (com_dev t) \<noteq> Running)"
  using assms
proof (induction es arbitrary: s)
  case (Cons e es)
  obtain u where u: "com_round wr e s = Some u"
    "(if ctl (com_dev u) = Running then com_loop wr es u else Some u) = Some t"
    using Cons.prems by (auto split: Option.bind_splits)
  note r = com_round_result [OF u(1)]
  show ?case
  proof (cases "ctl (com_dev u) = Running")
    case True
    with u(2) Cons.IH [of u] obtain n fs where n: "n \<le> length es" "feeds t = feeds u @ fs" "hd (fs @ [clock t]) = clock u"
      "feed_gaps fs (clock t) = map round_time (take n es)" "wdt_installed t = wdt_installed u"
      "attr_values t = attr_values u @ map (\<lambda>e. value_temp (ADC_Value_T0 e)) (take n es)"
      "n < length es \<longrightarrow> ctl (com_dev t) \<noteq> Running"
      by auto
    have "feed_gaps (clock s # fs) (clock t) = map round_time (take (Suc n) (e # es))"
      using n(3,4) r(2) by (cases fs) auto
    with n r show ?thesis by (intro exI [of _ "Suc n"] conjI exI [of _ "clock s # fs"]) auto
  next
    case False
    with u(2) r show ?thesis by (intro exI [of _ 1] conjI exI [of _ "[clock s]"]) auto
  qed
next
  case Nil
  then show ?case by (intro exI [of _ 0] exI [of _ "[]"]) auto
qed

lemma wdt_begin_result:
  assumes "wdt_begin D s = (True, t)"
  shows "feeds t = feeds s @ [clock s]" "clock t = clock s" "com_dev t = com_dev s" "attr_values t = attr_values s"
    "wdt_installed t \<noteq> []" "set (wdt_installed t) \<subseteq> set (wdt_installed s) \<union> {wdt_config}"
  using assms by (auto simp: wdt_begin_def feed_def Let_def wdt_config_def split: if_splits)

lemma wdt_begin_failed:
  "wdt_begin D s = (False, t) \<Longrightarrow> feeds t = feeds s \<and> attr_values t = attr_values s \<and> com_dev t = com_dev s"
  by (auto simp: wdt_begin_def Let_def split: if_splits)

section \<open>The order of turns\<close>

text \<open>A sensor's position: its panel and its point in the panel, ordered as the turns come.\<close>

datatype sensor_pos = Sensor_Pos (panel: u16) (point: u16)

instantiation sensor_pos :: linorder
begin

definition less_sensor_pos :: "sensor_pos \<Rightarrow> sensor_pos \<Rightarrow> bool" where
  "p < q \<longleftrightarrow> panel p < panel q \<or> panel p = panel q \<and> point p < point q"

definition less_eq_sensor_pos :: "sensor_pos \<Rightarrow> sensor_pos \<Rightarrow> bool" where
  "p \<le> q \<longleftrightarrow> panel p < panel q \<or> panel p = panel q \<and> point p \<le> point q"

instance
  by standard (auto simp: less_sensor_pos_def less_eq_sensor_pos_def sensor_pos.expand)

end

definition turn :: "sensor_pos \<Rightarrow> int option" where
  "turn p = start_delay (point p) (panel p)"

lemma start_delay_eq:
  assumes "uint n \<le> 255" "uint p \<le> 255"
  shows "start_delay n p = Some (10000 + 5000 * uint n + 80000 * uint p)"
proof -
  have "in_int32 a \<and> in_int32 (10000 + a) \<and> in_int32 b \<and> in_int32 (10000 + a + b)"
    if "0 \<le> a" "a \<le> 2000000" "0 \<le> b" "b \<le> 21000000" for a b
    using that by (simp add: in_int32_def)
  from this [of "5000 * uint n" "5000 * 16 * uint p"] show ?thesis
    using assms uint_ge_0 [of n] uint_ge_0 [of p] by (simp add: start_delay_def Let_def)
qed

lemma start_delay_overflow: "26844 \<le> uint p \<Longrightarrow> start_delay n p = None"
  by (simp add: start_delay_def in_int32_def Let_def)

section \<open>Start-up\<close>

lemma saved_limits: "reg_saved 41" "reg_saved 47"
  "reg_ok 41 v \<longleftrightarrow> 11 \<le> uint v \<and> uint v \<le> 26" "reg_ok 47 v \<longleftrightarrow> 1 \<le> uint v \<and> uint v \<le> 14"
  by (auto simp: reg_saved_def reg_ok_def perm_check_def limit_check_def default_state_nth MAIN_BUF_TABLE_def
      X_BUF_def Let_def word_less_def word_le_def not_less split: if_splits)

text \<open>All registers are there, and the saved ones are within their limits.\<close>

definition settings_ok :: "'m settings \<Rightarrow> bool" where
  "settings_ok c \<longleftrightarrow> length (MBbuf_main c) = 120 \<and> (\<forall>j<120. reg_saved j \<longrightarrow> reg_ok j (MBbuf_main c ! j))"

definition limits_kept :: "'m boot_env \<Rightarrow> bool" where
  "limits_kept E \<longleftrightarrow> (\<forall>k c. settings_ok c \<longrightarrow> settings_ok (others E k c))"

lemma logged_simps [simp]:
  "zdev (logged c s) = zdev s" "regs (logged c s) = regs s" "trace (logged c s) = trace s @ [c]"
  "hw (logged c s) = hw s" "adc_part (logged c s) = adc_part s" "usb_part (logged c s) = usb_part s"
  by (simp_all add: logged_def regs_def)

lemma meanwhile_simps [simp]:
  "conf (zdev (meanwhile E k s)) = others E k (conf (zdev s))" "trace (meanwhile E k s) = trace s"
  "adc_part (meanwhile E k s) = adc_part s" "ctl (zdev (meanwhile E k s)) = ctl (zdev s)"
  "usb_state (zdev (meanwhile E k s)) = usb_state (zdev s)"
  by (simp_all add: meanwhile_def)

lemma settings_meanwhile: "limits_kept E \<Longrightarrow> settings_ok c \<Longrightarrow> settings_ok (others E k c)"
  by (simp add: limits_kept_def)

lemma settings_length: "settings_ok c \<Longrightarrow> length (MBbuf_main c) = 120"
  by (simp add: settings_ok_def)

lemma settings_limits:
  "settings_ok c \<Longrightarrow> 11 \<le> uint (MBbuf_main c ! 41) \<and> uint (MBbuf_main c ! 41) \<le> 26"
  "settings_ok c \<Longrightarrow> 1 \<le> uint (MBbuf_main c ! 47) \<and> uint (MBbuf_main c ! 47) \<le> 14"
proof -
  assume "settings_ok c"
  then have "reg_ok 41 (MBbuf_main c ! 41)" "reg_ok 47 (MBbuf_main c ! 47)"
    using saved_limits(1,2) by (simp_all add: settings_ok_def)
  then show "11 \<le> uint (MBbuf_main c ! 41) \<and> uint (MBbuf_main c ! 41) \<le> 26"
    "1 \<le> uint (MBbuf_main c ! 47) \<and> uint (MBbuf_main c ! 47) \<le> 14"
    by (simp_all only: saved_limits)
qed

lemma FICR_not_saved: "60 \<le> j \<Longrightarrow> j < 68 \<Longrightarrow> \<not> reg_saved j"
  by (auto simp: reg_saved_def perm_check_def default_state_nth MAIN_BUF_TABLE_def X_BUF_def
      less_Suc_eq numeral_eq_Suc)

text \<open>The arrays the stack fills have their lengths.\<close>

definition env_arrays :: "'m boot_env \<Rightarrow> bool" where
  "env_arrays E \<longleftrightarrow> length (garbage8 E) = 8 \<and> length (garbage18 E) = 18 \<and> length (eui64 E) = 8"

lemma start_address_regs:
  assumes "length (MBbuf_main (conf (zdev s))) = 120" "env_arrays E" "ctl (zdev s) = Running"
  shows "succeeds (start_address E s) (\<lambda>t. length (MBbuf_main (conf (zdev t))) = 120 \<and>
    (\<forall>j<120. j < 60 \<or> 68 \<le> j \<longrightarrow> MBbuf_main (conf (zdev t)) ! j = MBbuf_main (conf (zdev s)) ! j) \<and>
    trace t = trace s @ [Address_and_code_init])"
proof -
  obtain d where d: "address_and_code_init (garbage8 E) (garbage18 E) (eui64 E) (zdev s) = Some d"
      "length (MBbuf_main (conf d)) = 120"
      "\<forall>j<120. MBbuf_main (conf d) ! j = (if 60 \<le> j \<and> j < 68 then ucast (eui64 E ! (j - 60)) else MBbuf_main (conf (zdev s)) ! j)"
    using address_and_code_result [of "zdev s" "garbage8 E" "garbage18 E" "eui64 E"] assms
    unfolding env_arrays_def by blast
  then show ?thesis by (simp add: start_address_def)
qed

lemma start_address_result:
  assumes "settings_ok (conf (zdev s))" "env_arrays E" "ctl (zdev s) = Running"
  shows "succeeds (start_address E s) (\<lambda>t. settings_ok (conf (zdev t)) \<and> trace t = trace s @ [Address_and_code_init])"
  by (rule succeeds_mono [OF start_address_regs]) (use assms FICR_not_saved in \<open>auto simp: settings_ok_def not_le\<close>)

text \<open>The calls \<open>main\<close> makes up to the USB port, from there to the wait, and those of the wait.\<close>

definition usb_calls :: "boot_call list" where
  "usb_calls = [Dcdc_enable, Emfat_init ''Sensor'', User_mem_init, Buf_Init, Usb_init, Usb_enable]"

definition setup_calls :: "'m boot_env \<Rightarrow> u16 \<Rightarrow> u16 \<Rightarrow> boot_call list" where
  "setup_calls E timeout ch =
     [Adc_init, Sleep_ms 2000, Erase_persistent_storage False, Set_ed_timeout timeout,
      Set_keepalive_timeout (beacon E 10000), Address_and_code_init, Set_network_ed_role (push_bit (unat ch) 1),
      Configure_sleepy_behavior True, Register_device_ctx]"

definition turn_calls :: "u16 \<Rightarrow> int \<Rightarrow> boot_call list" where
  "turn_calls wait delay = [Busy_wait_us 2500000, Sleep_ms (1000 * uint wait), Sleep_ms delay]"

text \<open>
  The delay's arithmetic is undefined for the settings the tasks have left when \<open>main\<close> wakes up
  for it, and then one of the two numbers is above 255.
\<close>

definition delay_undefined :: "'m boot_env \<Rightarrow> bool" where
  "delay_undefined E \<longleftrightarrow> (\<exists>c. settings_ok c \<and>
     (let point = MBbuf_main (others E 5 c) ! Reg_Zigbee_Addr_1_N_Sens_Point;
          panel = MBbuf_main (others E 5 c) ! Reg_Zigbee_Addr_0_N_Panel
      in start_delay point panel = None \<and> (255 < uint point \<or> 255 < uint panel)))"

lemma start_delay_None: "start_delay pt pn = None \<Longrightarrow> 255 < uint pt \<or> 255 < uint pn"
  using start_delay_eq [of pt pn] by fastforce

lemma wait_for_turn_cases:
  assumes "settings_ok (conf (zdev s))" "limits_kept E"
  shows "case wait_for_turn E s of
      None \<Rightarrow> usb_state (zdev s) \<noteq> USB_DC_CONFIGURED \<and>
        delay_undefined E
    | Some t \<Rightarrow> if usb_state (zdev s) = USB_DC_CONFIGURED then t = s
        else \<exists>wait delay. trace t = trace s @ turn_calls wait delay \<and>
          start_delay (regs t ! Reg_Zigbee_Addr_1_N_Sens_Point) (regs t ! Reg_Zigbee_Addr_0_N_Panel) = Some delay"
proof (cases "usb_state (zdev s) = USB_DC_CONFIGURED")
  case True
  then show ?thesis by (simp add: wait_for_turn_def)
next
  case False
  let ?c4 = "others E 4 (conf (zdev s))"
  let ?c5 = "others E 5 ?c4"
  have len: "length (MBbuf_main ?c4) = 120" "length (MBbuf_main ?c5) = 120"
    using assms by (auto intro: settings_length settings_meanwhile)
  show ?thesis
  proof (cases "start_delay (MBbuf_main ?c5 ! 71) (MBbuf_main ?c5 ! 70)")
    case None
    with False len have "wait_for_turn E s = None"
      by (simp add: wait_for_turn_def regs_def Let_def)
    moreover have "delay_undefined E"
      using None start_delay_None [OF None] assms
      by (auto simp: delay_undefined_def Let_def intro!: exI [of _ ?c4] settings_meanwhile)
    ultimately show ?thesis using False by simp
  next
    case (Some delay)
    define wait where "wait = MBbuf_main ?c4 ! 42"
    obtain t where t: "wait_for_turn E s = Some t" "trace t = trace s @ turn_calls wait delay" "conf (zdev t) = ?c5"
      using False len Some by (simp add: wait_for_turn_def regs_def turn_calls_def wait_def Let_def)
    then have "trace t = trace s @ turn_calls wait delay \<and> start_delay (regs t ! 71) (regs t ! 70) = Some delay"
      using Some by (simp add: regs_def)
    with False t(1) show ?thesis by auto
  qed
qed

lemma start_radio_cases:
  assumes "settings_ok (conf (zdev s))" "limits_kept E" "env_arrays E" "ctl (zdev s) = Running"
  shows "case start_radio E s of
      None \<Rightarrow> usb_later E \<noteq> USB_DC_CONFIGURED \<and>
        delay_undefined E
    | Some t \<Rightarrow> \<exists>timeout ch waiting. 1 \<le> uint timeout \<and> uint timeout \<le> 14 \<and> 11 \<le> uint ch \<and> uint ch \<le> 26 \<and>
        trace t = trace s @ drop 2 (setup_calls E timeout ch) @ waiting @ [Zigbee_enable] \<and>
        (if usb_later E = USB_DC_CONFIGURED then waiting = []
         else \<exists>wait delay. waiting = turn_calls wait delay \<and>
           start_delay (regs t ! Reg_Zigbee_Addr_1_N_Sens_Point) (regs t ! Reg_Zigbee_Addr_0_N_Panel) = Some delay)"
proof -
  let ?c1 = "others E 1 (conf (zdev s))"
  have c1: "settings_ok ?c1" using assms(1,2) by (intro settings_meanwhile)
  let ?timeout = "MBbuf_main ?c1 ! 47"
  let ?s1 = "meanwhile E 1 (logged (Erase_persistent_storage False) (s\<lparr>measure_value := TEMPERATURE_NO_MEASURE\<rparr>))"
  let ?s2 = "meanwhile E 2 (logged (Set_keepalive_timeout (beacon E 10000)) (logged (Set_ed_timeout ?timeout) ?s1))"
  have s2: "settings_ok (conf (zdev ?s2))" "ctl (zdev ?s2) = Running"
    using c1 assms(2,4) by (simp_all add: settings_meanwhile)
  obtain a where a: "start_address E ?s2 = Some a" "settings_ok (conf (zdev a))" "trace a = trace ?s2 @ [Address_and_code_init]"
    using start_address_result [OF s2(1) assms(3) s2(2)] by (auto elim: succeedsE)
  let ?c3 = "others E 3 (conf (zdev a))"
  have c3: "settings_ok ?c3" using a(2) assms(2) by (intro settings_meanwhile)
  let ?ch = "MBbuf_main ?c3 ! 41"
  have "int (unat ?ch) \<le> 26" using settings_limits(1) [OF c3] by (simp only: uint_nat)
  then have "unat ?ch < 32" by linarith
  then have mask: "channel_mask ?ch = Some (push_bit (unat ?ch) 1)" by (simp add: channel_mask_def)
  let ?s3 = "logged Register_device_ctx (logged (Configure_sleepy_behavior True)
      (logged (Set_network_ed_role (push_bit (unat ?ch) 1)) (meanwhile E 3 a)))"
  let ?s4 = "?s3\<lparr>zdev := (zdev ?s3)\<lparr>usb_state := usb_later E\<rparr>\<rparr>"
  have run: "start_radio E s = map_option (logged Zigbee_enable) (wait_for_turn E ?s4)"
    using settings_length [OF c1] settings_length [OF c3] a(1) mask
    by (simp add: start_radio_def regs_def usb_cb_def Let_def map_conv_bind_option comp_def)
  have s4: "settings_ok (conf (zdev ?s4))" "usb_state (zdev ?s4) = usb_later E"
    "trace ?s4 = trace s @ drop 2 (setup_calls E ?timeout ?ch)"
    using c3 a(3) by (simp_all add: setup_calls_def)
  show ?thesis
  proof (cases "wait_for_turn E ?s4")
    case None
    with wait_for_turn_cases [OF s4(1) assms(2)] run s4(2) show ?thesis by simp
  next
    case (Some t)
    define waiting where "waiting = drop (length (trace ?s4)) (trace t)"
    have w: "trace t = trace ?s4 @ waiting \<and> (if usb_later E = USB_DC_CONFIGURED then waiting = []
         else \<exists>wait delay. waiting = turn_calls wait delay \<and>
           start_delay (regs t ! 71) (regs t ! 70) = Some delay)"
      using wait_for_turn_cases [OF s4(1) assms(2)] s4(2) Some by (auto simp: waiting_def split: if_splits)
    have "\<exists>timeout ch waiting. 1 \<le> uint timeout \<and> uint timeout \<le> 14 \<and> 11 \<le> uint ch \<and> uint ch \<le> 26 \<and>
        trace (logged Zigbee_enable t) = trace s @ drop 2 (setup_calls E timeout ch) @ waiting @ [Zigbee_enable] \<and>
        (if usb_later E = USB_DC_CONFIGURED then waiting = []
         else \<exists>wait delay. waiting = turn_calls wait delay \<and>
           start_delay (regs (logged Zigbee_enable t) ! 71) (regs (logged Zigbee_enable t) ! 70) = Some delay)"
      using w s4(3) settings_limits(1) [OF c3] settings_limits(2) [OF c1]
      by - (rule exI [of _ ?timeout], rule exI [of _ ?ch], rule exI [of _ waiting], simp)
    then show ?thesis unfolding run Some by (simp only: option.map option.case)
  qed
qed

text \<open>The busy-waits end if the controller is ready at one poll for each of them.\<close>

lemma wait_ready_cases:
  "case wait_ready ps of None \<Rightarrow> length (filter id ps) = 0
     | Some qs \<Rightarrow> Suc (length (filter id qs)) = length (filter id ps)"
  by (induction ps rule: wait_ready.induct) (auto split: option.splits)

definition protection_differs :: "'m boot_env \<Rightarrow> nvmc \<Rightarrow> bool" where
  "protection_differs E h \<longleftrightarrow> APPROTECT h AND 0xFF \<noteq> (if approtect_on E then 0 else 0xFF)"

lemma set_approtect_None:
  "set_approtect (burn E) (approtect_on E) ps h = None \<longleftrightarrow> protection_differs E h \<and> length (filter id ps) < 2"
proof (cases "wait_ready ps")
  case None
  with wait_ready_cases [of ps] show ?thesis
    by (simp add: set_approtect_def protection_differs_def Let_def)
next
  case (Some qs)
  with wait_ready_cases [of ps] wait_ready_cases [of qs] show ?thesis
    by (cases "wait_ready qs") (simp_all add: set_approtect_def protection_differs_def Let_def)
qed

lemma start_up_cases:
  assumes "length (regs s) = 120" "ctl (zdev s) = Running" "env_arrays E" "limits_kept E"
  shows "\<exists>c. mh_Buf_Init (nvs_rd E) (nvs_wr E) (conf (zdev s)) = Some c \<and> settings_ok c \<and>
    (case start_up E s of
      None \<Rightarrow> usb_rc E = 0 \<and>
        (io_adc_init (float_rnd E) (double_rnd E) (exp_fun E) (AnalogInput E) (adc_ready E)
           ((adc_part s)\<lparr>adc_regs := MBbuf_main (others E 0 c)\<rparr>) = None \<or>
         usb_later E \<noteq> USB_DC_CONFIGURED \<and>
           delay_undefined E)
    | Some t \<Rightarrow>
        if usb_rc E \<noteq> 0 then trace t = trace s @ usb_calls
        else \<exists>timeout ch waiting. 1 \<le> uint timeout \<and> uint timeout \<le> 14 \<and> 11 \<le> uint ch \<and> uint ch \<le> 26 \<and>
          trace t = trace s @ usb_calls @ setup_calls E timeout ch @ waiting @ [Zigbee_enable] \<and>
          (if usb_later E = USB_DC_CONFIGURED then waiting = []
           else \<exists>wait delay. waiting = turn_calls wait delay \<and>
             start_delay (regs t ! Reg_Zigbee_Addr_1_N_Sens_Point) (regs t ! Reg_Zigbee_Addr_0_N_Panel) = Some delay))"
proof -
  obtain c where c: "mh_Buf_Init (nvs_rd E) (nvs_wr E) (conf (zdev s)) = Some c" "length (MBbuf_main c) = 120"
    "\<forall>j<120. reg_saved j \<longrightarrow> reg_ok j (MBbuf_main c ! j)"
    using mh_Buf_Init_limits [of "conf (zdev s)" "nvs_rd E" "nvs_wr E"] assms(1)
    by (auto simp: regs_def elim!: succeedsE)
  then have ok: "settings_ok c" by (simp add: settings_ok_def)
  define u where "u = logged Usb_enable (start_usb E (logged Buf_Init
      ((logged User_mem_init (logged (Emfat_init ''Sensor'') (logged Dcdc_enable s)))\<lparr>zdev := (zdev s)\<lparr>conf := c\<rparr>\<rparr>)))"
  have u: "conf (zdev u) = c" "ctl (zdev u) = Running" "trace u = trace s @ usb_calls" "adc_part u = adc_part s"
    using assms(2) by (simp_all add: u_def start_usb_def usb_calls_def logged_def)
  have eq: "start_up E s = (if usb_rc E \<noteq> 0 then Some u else do {
      v \<leftarrow> start_adc E (meanwhile E 0 u); start_radio E (logged (Sleep_ms 2000) v) })"
    using c(1) by (simp add: start_up_def start_storage_def u_def Let_def)
  show ?thesis
  proof (cases "usb_rc E \<noteq> 0")
    case True
    with c(1) ok eq u(3) show ?thesis by auto
  next
    case False
    let ?adc = "io_adc_init (float_rnd E) (double_rnd E) (exp_fun E) (AnalogInput E) (adc_ready E)
           ((adc_part s)\<lparr>adc_regs := MBbuf_main (others E 0 c)\<rparr>)"
    show ?thesis
    proof (cases ?adc)
      case None
      with False have "start_up E s = None"
        unfolding eq by (simp add: start_adc_def regs_def u)
      with c(1) ok False None show ?thesis by auto
    next
      case (Some x)
      let ?v = "logged (Sleep_ms 2000) (logged Adc_init ((meanwhile E 0 u)\<lparr>adc_part := x\<rparr>))"
      have v: "settings_ok (conf (zdev ?v))" "ctl (zdev ?v) = Running" "trace ?v = trace s @ usb_calls @ [Adc_init, Sleep_ms 2000]"
        using ok assms(4) u by (simp_all add: settings_meanwhile logged_def)
      have "start_up E s = start_radio E ?v"
        using False Some unfolding eq by (simp add: start_adc_def regs_def u)
      moreover have join: "trace ?v @ drop 2 (setup_calls E timeout ch) @ rest = trace s @ usb_calls @ setup_calls E timeout ch @ rest"
        for timeout ch rest
        unfolding v(3) by (simp add: setup_calls_def)
      ultimately show ?thesis
        using start_radio_cases [OF v(1) assms(4,3) v(2)] c(1) ok False unfolding join
        by (intro exI [of _ c], cases "start_radio E ?v") (simp_all split del: if_split)
    qed
  qed
qed

section \<open>Properties\<close>

text \<open>The Zigbee attribute is the temperature in hundredths of a degree for every temperature the
  thermistor's limits admit up to 327 degrees; above, up to the limits' 845 degrees, the product no longer fits 16
  bits and 65536 is lost.  The error codes pass unchanged.\<close>

theorem temperature_attribute:
  "(- 327 \<le> T \<and> T \<le> 327 \<longrightarrow> value_temp (word_of_int T) = 100 * T) \<and>
   (327 < T \<and> T \<le> 845 \<longrightarrow> value_temp (word_of_int T) = 100 * T - 65536) \<and>
   value_temp 0x7001 = 0x7001 \<and> value_temp 0x7002 = 0x7002 \<and> value_temp 0x7004 = 0x7004"
  using value_temp_eq [of T] by (simp add: value_temp_def s16_id)

theorem temperature_attribute_witness:
  "value_temp (word_of_int (- 10)) = - 1000 \<and> value_temp 25 = 2500 \<and> value_temp 328 = - 32736"
  using temperature_attribute [of "- 10"] temperature_attribute [of 25] temperature_attribute [of 328] by simp

text \<open>C27: the watchdog runs out only in a round that takes its whole window of nine seconds.  Once it is
  set up, it is fed once in every round of the task, before the sleep; the time between two feeds is what
  the sleep, the publication and the command of that round take together, and so is the time since
  the last feed whenever the task is seen between two rounds or after its last one.  Every
  configuration installed resets the device after nine seconds, and each round publishes one attribute
  value.\<close>

theorem watchdog_fed:
  assumes "fst (wdt_begin D s)" "com_task wr D es s = Some t" "feeds s = []" "wdt_installed s = []"
  shows "wdt_installed t \<noteq> [] \<and>
     (\<forall>cfg\<in>set (wdt_installed t). window_min cfg = 0 \<and> window_max cfg = 9000 \<and> flags_reset_soc cfg) \<and>
     (\<exists>n\<le>length es. (n < length es \<longrightarrow> ctl (com_dev t) \<noteq> Running) \<and>
        attr_values t = attr_values s @ map (\<lambda>e. value_temp (ADC_Value_T0 e)) (take n es) \<and>
        length (feeds t) = Suc n \<and>
        ((\<exists>g\<in>set (feed_gaps (feeds t) (clock t)). 9000 \<le> g) \<longleftrightarrow>
          (\<exists>e\<in>set (take n es). 9000 \<le> slept e + worked e)))"
proof -
  obtain u where u: "wdt_begin D s = (True, u)" "com_loop wr es u = Some t"
    using assms(1,2) by (cases "wdt_begin D s") (simp add: com_task_def)
  note b = wdt_begin_result [OF u(1)]
  obtain n fs where n: "n \<le> length es" "feeds t = clock s # fs" "hd (fs @ [clock t]) = clock s"
    "feed_gaps fs (clock t) = map round_time (take n es)" "wdt_installed t = wdt_installed u"
    "attr_values t = attr_values s @ map (\<lambda>e. value_temp (ADC_Value_T0 e)) (take n es)"
    "n < length es \<longrightarrow> ctl (com_dev t) \<noteq> Running"
    using com_loop_result [OF u(2)] b assms(3) by auto
  have "feed_gaps (clock s # fs) (clock t) = 0 # feed_gaps fs (clock t)"
    using n(3) by (cases fs) auto
  then have gaps: "set (feed_gaps (feeds t) (clock t)) = insert 0 (round_time ` set (take n es))"
    unfolding n(2) n(4) by simp
  have "length (feed_gaps ts now) = length ts" for ts now
    by (induction ts now rule: feed_gaps.induct) auto
  with n(1,4) have "length fs = n" by (metis length_map length_take min.absorb2)
  with n b(5,6) assms(4) gaps show ?thesis
    by (auto simp: wdt_config_def round_time_def)
qed

text \<open>The sensors take turns.  Among sensors whose points lie within sixteen consecutive numbers
  and whose registers hold bytes, a sensor later in the order of panels and points starts at least five
  seconds after an earlier one, so no two start together; and the delay is defined.\<close>

theorem sensors_take_turns:
  assumes "p < q" "uint (panel q) \<le> 255" "lo \<le> uint (point p)" "uint (point p) < lo + 16"
    "lo \<le> uint (point q)" "uint (point q) < lo + 16" "uint (point p) \<le> 255" "uint (point q) \<le> 255"
  shows "\<exists>dp dq. turn p = Some dp \<and> turn q = Some dq \<and> dp + 5000 \<le> dq \<and> 10000 \<le> dp"
proof -
  have p: "uint (panel p) \<le> uint (panel q)"
    using assms(1) by (auto simp: less_sensor_pos_def word_less_def)
  have "5000 * uint (point p) + 80000 * uint (panel p) + 5000 \<le> 5000 * uint (point q) + 80000 * uint (panel q)"
    using assms(1,3-6) by (auto simp: less_sensor_pos_def word_less_def)
  moreover have "0 \<le> uint (point p)" "0 \<le> uint (panel p)" by (rule uint_ge_0)+
  ultimately show ?thesis
    using p assms(2,7,8) by (simp add: turn_def start_delay_eq)
qed

theorem sensors_take_turns_witness:
  "\<exists>dp dq. turn (Sensor_Pos 0 16) = Some dp \<and> turn (Sensor_Pos 1 1) = Some dq \<and> dp + 5000 \<le> dq"
  using sensors_take_turns [of "Sensor_Pos 0 16" "Sensor_Pos 1 1" 1] by (auto simp: less_sensor_pos_def)

text \<open>C13: how a start-up ends, whatever the tasks do to the settings while \<open>main\<close> is held up, as long as
  they keep the limits of the saved registers, which they do in the whole firmware.  It stays in
  the busy-wait if the protection word must be written and the flash controller does not become ready
  for both waits.  It ends in undefined arithmetic only if that of the thermistor's table is undefined for the settings
  at that moment, or, with no computer attached, that of the start delay for the panel and point numbers
  the tasks have left in the registers, one of which must then be above 255.  It ends without a radio if the USB port cannot be enabled.  Otherwise
  it enables the radio, last and once, with a timeout between 1 and 14 and a mask of a single channel between
  11 and 26, and unless a computer is attached after a wait that ends with the delay of the panel and point
  numbers the registers hold by then.\<close>

theorem main_start_up:
  assumes "length (regs s) = 120" "ctl (zdev s) = Running" "env_arrays E" "limits_kept E"
  shows "\<exists>c. mh_Buf_Init (nvs_rd E) (nvs_wr E) (conf (zdev s)) = Some c \<and>
    (case main E s of
      Still_polling \<Rightarrow> protection_differs E (hw s) \<and> length (filter id (polls E)) < 2
    | Undefined_operation \<Rightarrow> usb_rc E = 0 \<and>
        (io_adc_init (float_rnd E) (double_rnd E) (exp_fun E) (AnalogInput E) (adc_ready E)
           ((adc_part s)\<lparr>adc_regs := MBbuf_main (others E 0 c)\<rparr>) = None \<or>
         usb_later E \<noteq> USB_DC_CONFIGURED \<and>
           delay_undefined E)
    | Reached t \<Rightarrow>
        if usb_rc E \<noteq> 0 then trace t = trace s @ usb_calls
        else \<exists>timeout ch waiting. 1 \<le> uint timeout \<and> uint timeout \<le> 14 \<and> 11 \<le> uint ch \<and> uint ch \<le> 26 \<and>
          trace t = trace s @ usb_calls @ setup_calls E timeout ch @ waiting @ [Zigbee_enable] \<and>
          (if usb_later E = USB_DC_CONFIGURED then waiting = []
           else \<exists>wait delay. waiting = turn_calls wait delay \<and>
             start_delay (regs t ! Reg_Zigbee_Addr_1_N_Sens_Point) (regs t ! Reg_Zigbee_Addr_0_N_Panel) = Some delay))"
proof (cases "set_approtect (burn E) (approtect_on E) (polls E) (hw s)")
  case None
  then have "main E s = Still_polling" "protection_differs E (hw s) \<and> length (filter id (polls E)) < 2"
    using set_approtect_None [of E "polls E" "hw s"] by (simp_all add: main_def)
  with start_up_cases [OF assms] show ?thesis by auto
next
  case (Some h)
  then have main: "main E s = (case start_up E (s\<lparr>hw := h\<rparr>) of None \<Rightarrow> Undefined_operation | Some t \<Rightarrow> Reached t)"
    by (simp add: main_def)
  have "length (regs (s\<lparr>hw := h\<rparr>)) = 120" "ctl (zdev (s\<lparr>hw := h\<rparr>)) = Running"
    using assms(1,2) by (simp_all add: regs_def)
  note cases = start_up_cases [OF this assms(3,4)]
  have sel: "conf (zdev (s\<lparr>hw := h\<rparr>)) = conf (zdev s)" "trace (s\<lparr>hw := h\<rparr>) = trace s" "adc_part (s\<lparr>hw := h\<rparr>) = adc_part s"
    by simp_all
  show ?thesis
  proof (cases "start_up E (s\<lparr>hw := h\<rparr>)")
    case None
    with cases show ?thesis unfolding main sel by (simp only: option.case outcome.case) blast
  next
    case (Some t)
    with cases show ?thesis unfolding main sel by (simp only: option.case outcome.case) blast
  qed
qed

section \<open>Witnesses\<close>

definition good_wdt :: wdt_driver where
  "good_wdt = \<lparr>wdt_found = True, wdt_install = (\<lambda>n cfg. if n = 0 then - ENOTSUP else 0), wdt_setup_rc = 0\<rparr>"

definition com_zero :: "((u16 \<Rightarrow> u16 option), nat list) com" where
  "com_zero = \<lparr>com_dev = default_dev, clock = 0, wdt_installed = [], feeds = [], attr_values = []\<rparr>"

lemma default_no_command: "MBbuf_main (conf default_dev) ! 29 = 0" "length (MBbuf_main (conf default_dev)) = 120"
    "ctl default_dev = Running"
  by (simp_all add: default_dev_def booted_def reg_default_def default_state_nth MAIN_BUF_TABLE_def X_BUF_def)

theorem watchdog_fed_witness:
  "\<exists>t. com_task map_write good_wdt
      [\<lparr>slept = 3000, settings_then = conf default_dev, ADC_Value_T0 = 25, worked = 40\<rparr>,
       \<lparr>slept = 3001, settings_then = conf default_dev, ADC_Value_T0 = 0x7001, worked = 6000\<rparr>] com_zero = Some t \<and>
     (\<exists>g\<in>set (feed_gaps (feeds t) (clock t)). 9000 \<le> g)"
proof -
  let ?es = "[\<lparr>slept = 3000, settings_then = conf default_dev, ADC_Value_T0 = 25, worked = 40\<rparr>,
       \<lparr>slept = 3001, settings_then = conf default_dev, ADC_Value_T0 = 0x7001, worked = 6000\<rparr>]"
  have ok: "fst (wdt_begin good_wdt com_zero)"
    by (simp add: wdt_begin_def good_wdt_def Let_def)
  have idle: "command_control map_write (default_dev\<lparr>conf := conf default_dev\<rparr>) = Some default_dev"
    using default_no_command by (simp add: command_control_eq)
  have "com_dev (snd (wdt_begin good_wdt com_zero)) = default_dev"
    by (simp add: wdt_begin_def good_wdt_def com_zero_def Let_def feed_def)
  then obtain t where t: "com_task map_write good_wdt ?es com_zero = Some t" "ctl (com_dev t) = Running"
    using ok idle default_no_command(3)
    by (simp add: com_task_def com_round_def Let_def split_beta feed_def)
  have "feeds com_zero = []" "wdt_installed com_zero = []" by (simp_all add: com_zero_def)
  from watchdog_fed [OF ok t(1) this] t(2) obtain n where "n = 2"
    "(\<exists>g\<in>set (feed_gaps (feeds t) (clock t)). 9000 \<le> g) \<longleftrightarrow> (\<exists>e\<in>set (take n ?es). 9000 \<le> slept e + worked e)"
    by auto
  with t(1) show ?thesis by (simp add: numeral_2_eq_2)
qed

definition env_example :: "(u16 \<Rightarrow> u16 option) boot_env" where
  "env_example = \<lparr>nvs_rd = map_read, nvs_wr = map_write, float_rnd = Some, double_rnd = Some, exp_fun = (\<lambda>x. Some (exp x)),
     burn = (\<lambda>old new. old AND new), approtect_on = False, polls = [], cdc_found = True, usb_rc = 0,
     adc_ready = True, AnalogInput = 1, eui64 = replicate 8 0, garbage8 = replicate 8 0, garbage18 = replicate 18 0,
     usb_later = 0, beacon = (\<lambda>ms. ms div 15), others = (\<lambda>k c. c)\<rparr>"

definition fw_zero :: "((u16 \<Rightarrow> u16 option), nat list) fw" where
  "fw_zero = \<lparr>zdev = (dev booted)\<lparr>conf := \<lparr>MBbuf_main = VERSION # replicate 119 0, flash = Map.empty\<rparr>\<rparr>,
     adc_part = default_adc, usb_part = port_zero \<lparr>MBbuf_main = [], flash = Map.empty\<rparr>,
     hw = \<lparr>CONFIG = 0, APPROTECT = 0xFFFFFFFF, uicr_writes = []\<rparr>, trace = [], measure_value = 0\<rparr>"

lemma position_defaults: "reg_saved 70" "reg_saved 71" "reg_default 70 = 0" "reg_default 71 = 1" "reg_default 41 = 16" "reg_saved 41"
  by (simp_all add: reg_saved_def reg_default_def perm_check_def default_state_nth MAIN_BUF_TABLE_def X_BUF_def)

lemma fw_zero_simps:
  "adc_part fw_zero = default_adc"
  "conf (zdev fw_zero) = \<lparr>MBbuf_main = VERSION # replicate 119 0, flash = Map.empty\<rparr>" "trace fw_zero = []"
  "hw fw_zero = \<lparr>CONFIG = 0, APPROTECT = 0xFFFFFFFF, uicr_writes = []\<rparr>" "ctl (zdev fw_zero) = Running"
  by (simp_all add: fw_zero_def booted_def)

lemma env_example_ok: "env_arrays env_example" "limits_kept env_example"
  by (simp_all add: env_arrays_def limits_kept_def env_example_def)

lemma main_defined: "\<exists>t. main env_example fw_zero = Reached t"
proof -
  obtain c where c: "mh_Buf_Init map_read map_write (conf (zdev fw_zero)) = Some c" "length (MBbuf_main c) = 120"
    "\<forall>j<120. MBbuf_main c ! j = load_value reg_saved reg_ok reg_default j None (MBbuf_main (conf (zdev fw_zero)) ! j)"
    using mh_Buf_Init_refines [OF _ map_storage_laws(1), of "conf (zdev fw_zero)"]
    by (auto simp: stored_map fw_zero_simps(2) elim!: succeedsE)
  have dflt: "\<forall>j<120. reg_saved j \<longrightarrow> MBbuf_main c ! j = reg_default j"
    using c(3) by (simp add: load_value_def)
  have ok: "settings_ok c" using c(2) dflt policy.dflt_ok by (simp add: settings_ok_def)
  let ?a = "default_adc\<lparr>adc_regs := MBbuf_main c\<rparr>"
  obtain a where a: "io_adc_init Some Some (\<lambda>x. Some (exp x)) 1 True ?a = Some a"
  proof (rule default_init [of ?a 1])
    show "length (adc_regs ?a) = 120" "\<forall>j<120. reg_saved j \<longrightarrow> adc_regs ?a ! j = reg_default j"
      "length (termo_table (adc_ntc ?a)) = 166"
      using dflt c(2) default_adc_ok(3) by simp_all
  qed (rule that)
  have val: "MBbuf_main c ! 41 = 16" "MBbuf_main c ! 70 = 0" "MBbuf_main c ! 71 = 1"
    using dflt [rule_format, of 41] dflt [rule_format, of 70] dflt [rule_format, of 71]
    unfolding position_defaults by (simp_all only: position_defaults)
  have env: "others env_example k x = x" for k x by (simp add: env_example_def)
  have radio: "\<exists>t. start_radio env_example s = Some t"
    if s: "conf (zdev s) = c" "ctl (zdev s) = Running" for s :: "((u16 \<Rightarrow> u16 option), nat list) fw"
  proof -
    let ?s2 = "meanwhile env_example 2 (logged (Set_keepalive_timeout (beacon env_example 10000))
      (logged (Set_ed_timeout (MBbuf_main c ! 47)) (meanwhile env_example 1
        (logged (Erase_persistent_storage False) (s\<lparr>measure_value := TEMPERATURE_NO_MEASURE\<rparr>)))))"
    have s2: "conf (zdev ?s2) = c" "ctl (zdev ?s2) = Running" using s by (simp_all add: env)
    obtain a where a: "start_address env_example ?s2 = Some a" "length (MBbuf_main (conf (zdev a))) = 120"
        "\<forall>j<120. j < 60 \<or> 68 \<le> j \<longrightarrow> MBbuf_main (conf (zdev a)) ! j = MBbuf_main c ! j"
      using start_address_regs [of ?s2 env_example] s2 c(2) env_example_ok(1) by (auto elim!: succeedsE)
    have "MBbuf_main (conf (zdev a)) ! 41 = 16" "MBbuf_main (conf (zdev a)) ! 70 = 0" "MBbuf_main (conf (zdev a)) ! 71 = 1"
      using a(3) val by simp_all
    with a(1,2) s c(2) show ?thesis
      by (simp add: start_radio_def channel_mask_def usb_cb_def wait_for_turn_def regs_def env start_delay_eq Let_def)
  qed
  have "\<exists>t. start_up env_example (fw_zero\<lparr>hw := hw fw_zero\<rparr>) = Some t"
    using a c(1) env [of 0 c] fw_zero_simps(1,2,5) unfolding env_example_def
    by (simp add: start_up_def start_storage_def start_usb_def start_adc_def regs_def logged_def meanwhile_def Let_def)
      (rule radio [unfolded env_example_def]; simp add: fw_zero_simps(5))
  moreover have "set_approtect (burn env_example) (approtect_on env_example) (polls env_example) (hw fw_zero) = Some (hw fw_zero)"
    by (simp add: set_approtect_def env_example_def fw_zero_simps Let_def)
  ultimately show ?thesis by (auto simp: main_def)
qed

theorem main_start_up_witness:
  "\<exists>t timeout ch. main env_example fw_zero = Reached t \<and> 11 \<le> uint (ch :: u16) \<and> uint ch \<le> 26 \<and>
     take 15 (trace t) = usb_calls @ setup_calls env_example timeout ch \<and> last (trace t) = Zigbee_enable"
proof -
  obtain t where t: "main env_example fw_zero = Reached t"
    using main_defined by metis
  have "length (regs fw_zero) = 120" by (simp add: regs_def fw_zero_simps(2))
  from main_start_up [OF this fw_zero_simps(5) env_example_ok] obtain timeout ch waiting where
    "11 \<le> uint (ch :: u16)" "uint ch \<le> 26" "trace t = trace fw_zero @ usb_calls @ setup_calls env_example timeout ch @ waiting @ [Zigbee_enable]"
    unfolding t by (auto simp: env_example_def)
  with t show ?thesis
    by (intro exI [of _ t] exI [of _ timeout] exI [of _ ch]) (simp add: fw_zero_simps(3) usb_calls_def setup_calls_def)
qed

end
