(* ===== verification/SharedRegisters.thy ===== *)
theory SharedRegisters
  imports UsbProperties Firmware
begin

text \<open>
  The registers are shared: the USB port's transition system lets the rest of the firmware change
  registers that are not saved, and reset registers to their defaults, between any two of its own
  steps.  Here the handlers and tasks of \<open>main.c\<close> and \<open>io_adc.c\<close> are shown to do nothing else, so
  that what holds in every reachable state of the port holds in the whole firmware.
\<close>

section \<open>The moves of the rest of the firmware\<close>

text \<open>
  \<open>other_move d d'\<close>: one of the handlers, or the measurement task in one round, called with the
  settings of \<open>d\<close>, has returned with those of \<open>d'\<close>; \<open>firmware_move\<close> has the commands of \<open>com_task\<close>
  beside them, each carried out as a whole (theory Commands has them in pieces).
\<close>

inductive other_move :: "('m, 'a) zb_dev \<Rightarrow> ('m, 'a) zb_dev \<Rightarrow> bool" where
  signal: "zboss_signal_handler Q bi rc sig status bufid d = Some d' \<Longrightarrow> other_move d d'"
| alarm: "Recon_timer_cb j param d = Some d' \<Longrightarrow> other_move d d'"
| usb_status: "usb_cb cb_status d = Some d' \<Longrightarrow> other_move d d'"
| address: "address_and_code_init g8 g18 eui d = Some d' \<Longrightarrow> other_move d d'"
| first_sample: "adc_round (first_channel n buf) err s = Some s' \<Longrightarrow> task_regs s = MBbuf_main (conf d) \<Longrightarrow>
     other_move d (d\<lparr>conf := (conf d)\<lparr>MBbuf_main := task_regs s'\<rparr>\<rparr>)"
| next_sample: "adc_round (next_channel n buf) err s = Some s' \<Longrightarrow> task_regs s = MBbuf_main (conf d) \<Longrightarrow>
     other_move d (d\<lparr>conf := (conf d)\<lparr>MBbuf_main := task_regs s'\<rparr>\<rparr>)"

inductive firmware_move :: "'m nvs_write \<Rightarrow> ('m, 'a) zb_dev \<Rightarrow> ('m, 'a) zb_dev \<Rightarrow> bool" for wr where
  other: "other_move d d' \<Longrightarrow> firmware_move wr d d'"
| command: "command_control wr d = Some d' \<Longrightarrow> firmware_move wr d d'"

section \<open>Changes of a few registers\<close>

text \<open>From \<open>c\<close> to \<open>c'\<close> no register outside \<open>R\<close> has changed, nor has the flash.\<close>

definition changes_only :: "nat set \<Rightarrow> 'm settings \<Rightarrow> 'm settings \<Rightarrow> bool" where
  "changes_only R c c' \<longleftrightarrow> flash c' = flash c \<and> length (MBbuf_main c') = length (MBbuf_main c) \<and>
     (\<forall>j. j \<notin> R \<longrightarrow> MBbuf_main c' ! j = MBbuf_main c ! j)"

abbreviation unsaved_only :: "'m settings \<Rightarrow> 'm settings \<Rightarrow> bool" where
  "unsaved_only \<equiv> changes_only {j. \<not> reg_saved j}"

lemma changes_only_refl [simp]: "changes_only R c c"
  by (simp add: changes_only_def)

lemma changes_only_update:
  "i \<in> R \<Longrightarrow> changes_only R c (c\<lparr>MBbuf_main := (MBbuf_main c)[i := v]\<rparr>)"
  by (auto simp: changes_only_def intro!: nth_list_update_neq)

lemma changes_only_mono: "changes_only R c c' \<Longrightarrow> R \<subseteq> R' \<Longrightarrow> changes_only R' c c'"
  by (auto simp: changes_only_def)

text \<open>The registers the handlers and the measurement write, and the command register.\<close>

definition result_regs :: "nat set" where
  "result_regs = {1, 20} \<union> {60..<68}"

lemma unsaved_registers: "\<not> reg_saved 29" "i \<in> result_regs \<Longrightarrow> \<not> reg_saved i"
  by (auto simp: result_regs_def reg_saved_def perm_check_def default_state_nth MAIN_BUF_TABLE_def
      X_BUF_def less_Suc_eq numeral_eq_Suc atLeastLessThan_iff)

lemma mix_step:
  assumes "k < length ys" "length xs = length ys"
  shows "take (Suc k) xs @ drop (Suc k) ys = (take k xs @ drop k ys)[k := xs ! k]"
  using assms by (simp add: list_update_append take_Suc_conv_app_nth Cons_nth_drop_Suc [symmetric])

lemma reach_unsaved:
  fixes p :: "'m usb_port"
  assumes "reach (usb_boot rd wr) (usb_step wr) p" and c: "unsaved_only (store p) c"
  shows "reach (usb_boot rd wr) (usb_step wr) (p\<lparr>store := c\<rparr>)"
proof -
  let ?xs = "MBbuf_main c" and ?ys = "MBbuf_main (store p)"
  let ?mix = "\<lambda>k. p\<lparr>store := (store p)\<lparr>MBbuf_main := take k ?xs @ drop k ?ys\<rparr>\<rparr>"
  have len: "length ?ys = 120" "length ?xs = 120"
    using port_ready_safe [OF assms(1)] c by (simp_all add: port_safe_def changes_only_def)
  have "reach (usb_boot rd wr) (usb_step wr) (?mix k)" if "k \<le> 120" for k
    using that
  proof (induction k)
    case 0
    then show ?case using assms(1) by simp
  next
    case (Suc k)
    then have IH: "reach (usb_boot rd wr) (usb_step wr) (?mix k)" by simp
    note mix = mix_step [of k ?ys ?xs]
    show ?case
    proof (cases "reg_saved k")
      case True
      then have "?xs ! k = (take k ?xs @ drop k ?ys) ! k"
        using c Suc.prems len by (simp add: changes_only_def nth_append)
      then have "?mix (Suc k) = ?mix k"
        using mix Suc.prems len by (simp add: list_update_same_conv)
      with IH show ?thesis by simp
    next
      case False
      then have "usb_step wr (?mix k) (?mix (Suc k))"
        using firmware [of k wr "?mix k" "?xs ! k"] mix Suc.prems len by simp
      with IH show ?thesis by (rule reach.step)
    qed
  qed
  from this [of 120] have "reach (usb_boot rd wr) (usb_step wr) (?mix 120)" by simp
  moreover have "(store p)\<lparr>MBbuf_main := ?xs\<rparr> = c"
    using c by (simp add: changes_only_def)
  ultimately show ?thesis using len by simp
qed

section \<open>Every move is made of steps the port allows\<close>

definition allowed :: "'m nvs_read \<Rightarrow> 'm nvs_write \<Rightarrow> 'm usb_port \<Rightarrow> ('m, 'a) zb_dev \<Rightarrow> bool" where
  "allowed rd wr p d \<longleftrightarrow> reach (usb_boot rd wr) (usb_step wr) (p\<lparr>store := conf d\<rparr>)"

lemma allowed_unsaved: "allowed rd wr p d \<Longrightarrow> unsaved_only (conf d) (conf d') \<Longrightarrow> allowed rd wr p d'"
  using reach_unsaved [of rd wr "p\<lparr>store := conf d\<rparr>" "conf d'"] by (simp add: allowed_def)

lemma allowed_same: "allowed rd wr p d \<Longrightarrow> conf d' = conf d \<Longrightarrow> allowed rd wr p d'"
  by (simp add: allowed_def)

lemma allowed_stms:
  "(\<And>f s s'. f \<in> set fs \<Longrightarrow> allowed rd wr p s \<Longrightarrow> f s = Some s' \<Longrightarrow> allowed rd wr p s') \<Longrightarrow>
     allowed rd wr p s \<Longrightarrow> stms fs s = Some t \<Longrightarrow> allowed rd wr p t"
proof (induction fs arbitrary: s)
  case (Cons f fs)
  from Cons.prems(3) obtain u where u: "f s = Some u" "(if ctl u = Running then stms fs u else Some u) = Some t"
    by (auto split: Option.bind_splits)
  have "allowed rd wr p u" using Cons.prems(1) [of f s u] Cons.prems(2) u(1) by simp
  with u(2) Cons.IH [of u] Cons.prems(1) show ?case by (auto split: if_splits)
qed simp

lemma set_reg_allowed:
  "allowed rd wr p s \<Longrightarrow> \<not> reg_saved i \<Longrightarrow> set_reg i v s = Some s' \<Longrightarrow> allowed rd wr p s'"
  by (erule allowed_unsaved) (auto simp: stm_simps changes_only_update split: if_splits)

lemma zi_reboot_conf: "zi_reboot Q bi s = Some t \<Longrightarrow> conf t = conf s"
  by (auto simp: zi_reboot_def stm_simps split: if_splits)

lemma steering_conf:
  "steering_update Q bi status s = Some t \<Longrightarrow> changes_only {20} (conf s) (conf t)"
  by (auto simp: steering_update_def stm_simps changes_only_update dest!: zi_reboot_conf
      split: if_splits Option.bind_splits)

lemma status_conf:
  "zigbee_status_update Q bi sig status s = Some t \<Longrightarrow> changes_only {20} (conf s) (conf t)"
  using steering_conf [of Q bi status "s\<lparr>zigbee_conf_state_save := 1\<rparr>" t]
  by (auto simp: zigbee_status_update_def stm_simps changes_only_update
      dest!: zi_reboot_conf dest: steering_conf split: if_splits Option.bind_splits)

lemma signal_conf:
  "zboss_signal_handler Q bi rc sig status bufid s = Some t \<Longrightarrow> changes_only {20} (conf s) (conf t)"
  by (auto simp: zboss_signal_handler_def stm_simps dest!: status_conf split: if_splits Option.bind_splits)

lemma alarm_conf: "Recon_timer_cb j param s = Some t \<Longrightarrow> conf t = conf s"
  by (auto simp: Recon_timer_cb_def stm_simps split: if_splits)

lemma usb_cb_conf: "usb_cb v s = Some t \<Longrightarrow> conf t = conf s"
  by (auto simp: usb_cb_def)

lemma factory_allowed:
  assumes "allowed rd wr p s" "run_Factory wr s = Some t"
  shows "allowed rd wr p t"
proof -
  obtain c where c: "mh_Factory wr (conf s) = Some c" "t = s\<lparr>conf := c\<rparr>"
    using assms(2) by (auto simp: run_Factory_def split: Option.bind_splits)
  let ?P = "\<lambda>(i :: nat) c. reach (usb_boot rd wr) (usb_step wr) (p\<lparr>store := c\<rparr>)"
  have "succeeds (for_loop 0 120 (mh_Factory_body wr) (conf s)) (?P (0 + 120))"
  proof (rule for_loop_rule)
    show "?P 0 (conf s)" using assms(1) by (simp add: allowed_def)
  next
    fix i c
    assume i: "i < 0 + 120" and P: "?P i c"
    have len: "length (MBbuf_main c) = 120"
      using port_ready_safe [OF P] by (simp add: port_safe_def)
    then obtain c' where c': "mh_Factory_body wr i c = Some c'"
      using i by (cases "reg_saved i") (simp_all add: mh_Factory_body_eq reset_reg_eq)
    have "usb_step wr (p\<lparr>store := c\<rparr>) (p\<lparr>store := c'\<rparr>)"
      using factory [of i wr "p\<lparr>store := c\<rparr>" c'] i c' by simp
    with P c' show "succeeds (mh_Factory_body wr i c) (?P (Suc i))"
      by (auto intro: reach.step)
  qed
  with c show ?thesis by (simp add: mh_Factory_def allowed_def)
qed

lemma command_allowed:
  assumes "allowed rd wr p s" "run_command wr v s = Some t"
  shows "allowed rd wr p t"
  using assms factory_allowed [OF assms(1)]
  by (auto simp: run_command_def stm_simps intro: allowed_same [OF assms(1)] split: if_splits)

lemma command_step_allowed:
  assumes "command_step wr pc d = Some (pc', d')" "allowed rd wr p d"
  shows "allowed rd wr p d'"
proof (cases pc)
  case C_SWITCH
  then show ?thesis
    using assms by (auto split: Option.bind_splits if_splits dest: command_allowed)
next
  case (C_FACTORY i)
  show ?thesis
  proof (cases "i < 120")
    case True
    then obtain c where c: "mh_Factory_body wr i (conf d) = Some c" "d' = d\<lparr>conf := c\<rparr>"
      using C_FACTORY assms(1) by (auto split: Option.bind_splits)
    then have "usb_step wr (p\<lparr>store := conf d\<rparr>) (p\<lparr>store := c\<rparr>)"
      using factory [of i wr "p\<lparr>store := conf d\<rparr>" c] True by simp
    with assms(2) c(2) show ?thesis by (auto simp: allowed_def intro: reach.step)
  next
    case False
    with C_FACTORY assms show ?thesis by simp
  qed
next
  case C_CLEAR
  then show ?thesis
    using assms unsaved_registers(1) by (auto split: Option.bind_splits dest: set_reg_allowed)
qed (use assms in \<open>auto split: Option.bind_splits\<close>)

lemma command_pieces_allowed:
  "command_pieces n wr pc s = Some t \<Longrightarrow> allowed rd wr p s \<Longrightarrow> allowed rd wr p t"
  by (induction n arbitrary: pc s) (auto split: Option.bind_splits if_splits dest: command_step_allowed)

lemma command_control_allowed:
  "allowed rd wr p s \<Longrightarrow> command_control wr s = Some t \<Longrightarrow> allowed rd wr p t"
  by (simp add: command_control_def command_pieces_allowed)

lemma FICR_loop_changes:
  "first + n \<le> 8 \<Longrightarrow> for_loop first n (FICR_regs eui) xs = Some ys \<Longrightarrow>
     length ys = length xs \<and> (\<forall>j. j \<notin> {60..<68} \<longrightarrow> ys ! j = xs ! j)"
proof (induction n arbitrary: first xs)
  case (Suc n)
  obtain zs where zs: "FICR_regs eui first xs = Some zs" "for_loop (Suc first) n (FICR_regs eui) zs = Some ys"
    using Suc.prems(2) by (auto split: option.splits)
  then obtain v where "zs = xs[60 + first := v]"
    by (auto simp: FICR_regs_def write_at_def split: Option.bind_splits if_splits)
  moreover have "60 + first \<in> {60..<68}"
    using Suc.prems(1) by simp
  ultimately have "j \<notin> {60..<68} \<Longrightarrow> zs ! j = xs ! j" "length zs = length xs" for j
    by (auto intro!: nth_list_update_neq)
  with Suc.IH [OF _ zs(2)] Suc.prems(1) show ?case by simp
qed simp

lemma address_conf:
  assumes "address_and_code_init g8 g18 eui s = Some t"
  shows "changes_only {60..<68} (conf s) (conf t)"
proof -
  have own: "own_address g s = Some u \<Longrightarrow> conf u = conf s" "own_code h s = Some u \<Longrightarrow> conf u = conf s"
    for g h and s u :: "('a, 'b) zb_dev"
    by (auto simp: own_address_def own_code_def call_def split: if_splits Option.bind_splits)
  have show_: "show_FICR_address eui s = Some u \<Longrightarrow> changes_only {60..<68} (conf s) (conf u)"
    for s u :: "('a, 'b) zb_dev"
    using FICR_loop_changes [of 0 8 eui]
    by (auto simp: show_FICR_address_def changes_only_def split: Option.bind_splits)
  show ?thesis
    using assms by (auto simp: address_and_code_init_def dest!: own dest: show_ split: if_splits Option.bind_splits)
qed

section \<open>The measurement\<close>

lemma publish_changes:
  assumes "publish n 0 f s = Some s'"
  shows "\<exists>v. task_regs s' = (task_regs s)[1 := v]"
  using assms by (auto simp: publish_def channel_seq_def write_at_def split: Option.bind_splits if_splits)

lemma samples_change:
  "first_channel n buf 0 s = Some s' \<Longrightarrow> \<exists>v. task_regs s' = (task_regs s)[1 := v]"
  "next_channel n buf 0 s = Some s' \<Longrightarrow> \<exists>v. task_regs s' = (task_regs s)[1 := v]"
  by (auto simp: first_channel_def next_channel_def dest!: publish_changes split: Option.bind_splits)

lemma round_conf:
  assumes "adc_round channel err s = Some s'" "task_regs s = MBbuf_main c"
    and "\<And>s s'. channel 0 s = Some s' \<Longrightarrow> \<exists>v. task_regs s' = (task_regs s)[1 := v]"
  shows "changes_only {1} c (c\<lparr>MBbuf_main := task_regs s'\<rparr>)"
  using assms(1,2) assms(3) [of s s']
  by (auto simp: adc_round_def changes_only_update split: if_splits option.splits)

text \<open>The handlers and the measurement write their results, and nothing else.\<close>

lemma other_move_conf:
  assumes "other_move d d'"
  shows "changes_only result_regs (conf d) (conf d')"
  using assms
proof cases
  case signal
  then show ?thesis by (auto simp: result_regs_def intro: changes_only_mono [OF signal_conf])
next
  case address
  then show ?thesis by (auto simp: result_regs_def intro: changes_only_mono [OF address_conf])
next
  case (first_sample n buf err s s')
  have "changes_only {1} (conf d) ((conf d)\<lparr>MBbuf_main := task_regs s'\<rparr>)"
    by (rule round_conf [OF first_sample(2,3) samples_change(1)])
  with first_sample(1) show ?thesis by (auto simp: result_regs_def intro: changes_only_mono)
next
  case (next_sample n buf err s s')
  have "changes_only {1} (conf d) ((conf d)\<lparr>MBbuf_main := task_regs s'\<rparr>)"
    by (rule round_conf [OF next_sample(2,3) samples_change(2)])
  with next_sample(1) show ?thesis by (auto simp: result_regs_def intro: changes_only_mono)
qed (auto dest: alarm_conf usb_cb_conf)

lemma other_move_allowed:
  "other_move d d' \<Longrightarrow> allowed rd wr p d \<Longrightarrow> allowed rd wr p d'"
  using unsaved_registers(2) by (blast intro: allowed_unsaved changes_only_mono [OF other_move_conf])

lemma move_allowed:
  "firmware_move wr d d' \<Longrightarrow> allowed rd wr p d \<Longrightarrow> allowed rd wr p d'"
  by (cases rule: firmware_move.cases) (blast intro: other_move_allowed command_control_allowed)+

section \<open>Properties\<close>

text \<open>The rest of the firmware keeps the port's rules.  Whatever signal handler, alarm, command,
  address set-up or measurement runs on the settings of a reachable port, the port with the settings
  it leaves is reachable again; so memory safety, the limits of the settings and their agreement with
  flash hold throughout the firmware.\<close>

theorem firmware_respects_port:
  fixes p :: "'m usb_port" and d :: "('m, 'a) zb_dev"
  assumes "reach (usb_boot rd wr) (usb_step wr) p" "conf d = store p" "firmware_move wr d d'"
  shows "reach (usb_boot rd wr) (usb_step wr) (p\<lparr>store := conf d'\<rparr>)"
  using move_allowed [OF assms(3), of rd p] assms(1,2) by (simp add: allowed_def)

theorem firmware_respects_port_witness:
  "\<exists>p d'. zboss_signal_handler list_alarms (\<lambda>_. 2) 0 10 0 0 (default_dev\<lparr>conf := store p\<rparr>) = Some d' \<and>
     reach (usb_boot map_read map_write) (usb_step map_write) (p\<lparr>store := conf d'\<rparr>) \<and>
     MBbuf_main (conf d') ! 20 = 1"
proof -
  obtain p where p: "reach (usb_boot map_read map_write) (usb_step map_write) p"
    using ready_port by blast
  let ?d = "default_dev\<lparr>conf := store p\<rparr>"
  have len: "length (MBbuf_main (store p)) = 120"
    using port_ready_safe [OF p] by (simp add: port_safe_def)
  then obtain d' where d': "zboss_signal_handler list_alarms (\<lambda>_. 2) 0 10 0 0 ?d = Some d'"
      "MBbuf_main (conf d') ! 20 = 1"
    using default_no_command(3)
    by (simp add: zboss_signal_handler_def zigbee_status_update_def steering_update_def zi_reboot_def
        stm_simps list_alarms_def)
  then have "firmware_move map_write ?d d'" by (blast intro: other_move.signal firmware_move.other)
  from firmware_respects_port [OF p _ this] d' show ?thesis by auto
qed

end
