(* ===== verification/Commands.thy ===== *)
theory Commands
  imports SharedRegisters
begin

text \<open>
  The commands of the register \<open>Reg_Send_Command\<close> in the running firmware.  Between any two pieces of
  \<open>command_control\<close> (theory Zigbee) the parser task, the interrupt handler of the USB port, the
  handlers of the Zigbee stack and the measurement may run.  The whole firmware moves the USB port only
  as its own transition system allows; a command is carried out at most once; one that arrives
  while another one is being carried out is lost; and a factory reset, whatever runs beside
  it, leaves every saved register at its default unless a request changes it meanwhile.
\<close>

section \<open>The firmware as a whole\<close>

text \<open>The codes the \<open>switch\<close> has a case for.\<close>

definition is_command :: "u16 \<Rightarrow> bool" where
  "is_command c \<longleftrightarrow> c \<in> {CODE_CONNECT_BUTTON, CODE_RESET_ZIGBEE_DATA, CODE_RESTART,
     CODE_RESET_TO_DEFAULT, CODE_HARD_RESET_STACK}"

text \<open>
  The USB port, whose \<open>store\<close> holds the registers and the flash that all parts share; the state of
  the network side, whose own copy of them is not used; the place of \<open>com_task\<close> in
  \<open>command_control\<close>.  Two observations are kept: how often the parser task has raised the command
  register from 0, and the commands carried out.
\<close>

record ('m, 'a) whole =
  w_port :: "'m usb_port"
  w_dev :: "('m, 'a) zb_dev"
  w_pc :: cmd_pc
  raised :: nat
  carried :: "u16 list"

definition command_reg :: "'m usb_port \<Rightarrow> u16" where
  "command_reg p = MBbuf_main (store p) ! Reg_Send_Command"

definition zb_view :: "('m, 'a) whole \<Rightarrow> ('m, 'a) zb_dev" where
  "zb_view s = (w_dev s)\<lparr>conf := store (w_port s)\<rparr>"

definition zb_put :: "('m, 'a) zb_dev \<Rightarrow> ('m, 'a) whole \<Rightarrow> ('m, 'a) whole" where
  "zb_put d s = s\<lparr>w_port := (w_port s)\<lparr>store := conf d\<rparr>, w_dev := d\<rparr>"

definition dispatched :: "cmd_pc \<Rightarrow> u16 \<Rightarrow> u16 list" where
  "dispatched pc c = (if pc = C_SWITCH \<and> is_command c then [c] else [])"

inductive whole_step :: "'m nvs_write \<Rightarrow> ('m, 'a) whole \<Rightarrow> ('m, 'a) whole \<Rightarrow> bool" for wr where
  irq: "ctl (w_dev s) = Running \<Longrightarrow> (rx \<noteq> None \<longrightarrow> rx_irq (w_port s) \<and> length (the rx) \<le> 64) \<Longrightarrow>
     (tx_ready \<longrightarrow> tx_irq (w_port s)) \<Longrightarrow> uart_usb_interrupt_pass rx tx_ready (w_port s) = Some p \<Longrightarrow>
     whole_step wr s (s\<lparr>w_port := p\<rparr>)"
| parser: "ctl (w_dev s) = Running \<Longrightarrow> mh_task_Modbus_step wr (w_port s) = Some p \<Longrightarrow>
     whole_step wr s (s\<lparr>w_port := p,
       raised := raised s + (if command_reg (w_port s) = 0 \<and> command_reg p \<noteq> 0 then 1 else 0)\<rparr>)"
| com: "ctl (w_dev s) = Running \<Longrightarrow> command_step wr (w_pc s) (zb_view s) = Some (pc, d) \<Longrightarrow>
     whole_step wr s ((zb_put d s)\<lparr>w_pc := pc,
       carried := carried s @ dispatched (w_pc s) (command_reg (w_port s))\<rparr>)"
| rest: "ctl (w_dev s) = Running \<Longrightarrow> other_move (zb_view s) d \<Longrightarrow> whole_step wr s (zb_put d s)"

inductive_cases whole_stepE: "whole_step wr s t"

text \<open>The command register is not saved, so that it is 0 when the registers have been set up.\<close>

definition whole_boot :: "'m nvs_read \<Rightarrow> 'm nvs_write \<Rightarrow> ('m, 'a) whole \<Rightarrow> bool" where
  "whole_boot rd wr s \<longleftrightarrow> usb_boot rd wr (w_port s) \<and> ctl (w_dev s) = Running \<and> w_pc s = C_TEST \<and>
     raised s = 0 \<and> carried s = [] \<and> command_reg (w_port s) = 0"

section \<open>Forward simulation\<close>

text \<open>
  A system that, seen through \<open>abs\<close>, moves only among states another one can reach.
\<close>

locale simulation =
  fixes start :: "'s \<Rightarrow> bool" and step :: "'s \<Rightarrow> 's \<Rightarrow> bool"
    and Start :: "'t \<Rightarrow> bool" and Step :: "'t \<Rightarrow> 't \<Rightarrow> bool" and abs :: "'s \<Rightarrow> 't"
  assumes sim_start: "start s \<Longrightarrow> Start (abs s)"
    and sim_step: "reach Start Step (abs s) \<Longrightarrow> step s s' \<Longrightarrow> reach Start Step (abs s')"
begin

lemma sim_reach: "reach start step s \<Longrightarrow> reach Start Step (abs s)"
  by (induction rule: reach.induct) (auto intro: sim_step reach.start sim_start)

end

lemma view_allowed:
  "reach (usb_boot rd wr) (usb_step wr) (w_port s) \<Longrightarrow> allowed rd wr (w_port s) (zb_view s)"
  by (simp add: allowed_def zb_view_def)

lemma put_port: "allowed rd wr (w_port s) d \<Longrightarrow> reach (usb_boot rd wr) (usb_step wr) (w_port (zb_put d s))"
  by (simp add: allowed_def zb_put_def)

lemma whole_step_port:
  assumes "reach (usb_boot rd wr) (usb_step wr) (w_port s)" "whole_step wr s t"
  shows "reach (usb_boot rd wr) (usb_step wr) (w_port t)"
  using assms(2)
proof cases
  case (irq rx tx_ready p)
  with interrupt [of rx "w_port s" tx_ready p wr] assms(1) show ?thesis by (auto intro: reach.step)
next
  case (parser p)
  with modbus_task [of wr "w_port s" p] assms(1) show ?thesis by (auto intro: reach.step)
next
  case (com pc d)
  with command_step_allowed [OF com(3) view_allowed [OF assms(1)]] show ?thesis
    using put_port [of rd wr s d] by simp
next
  case (rest d)
  with other_move_allowed [OF rest(3) view_allowed [OF assms(1)]] show ?thesis
    using put_port [of rd wr s d] by simp
qed

interpretation whole: simulation "whole_boot rd wr" "whole_step wr" "usb_boot rd wr" "usb_step wr" w_port
  by unfold_locales (auto simp: whole_boot_def intro: whole_step_port)

lemma whole_length: "reach (whole_boot rd wr) (whole_step wr) s \<Longrightarrow> length (MBbuf_main (store (w_port s))) = 120"
  using port_ready_safe [OF whole.sim_reach [of rd wr s]] by (simp add: port_safe_def)

section \<open>Every command once\<close>

lemma pass_store: "uart_usb_interrupt_pass rx tx p = Some p' \<Longrightarrow> store p' = store p"
  by (auto simp: uart_usb_interrupt_pass_def uart_receive_def uart_transmit_def memcpy_def
      k_queue_append_def Let_def split: option.splits if_splits Option.bind_splits)

lemma factory_body_command: "mh_Factory_body wr i c = Some c' \<Longrightarrow> i < 120 \<Longrightarrow>
    MBbuf_main c' ! 29 = MBbuf_main c ! 29 \<and> length (MBbuf_main c') = length (MBbuf_main c)"
  using unsaved_registers(1)
  by (cases "i = 29") (auto simp: mh_Factory_body_eq reset_reg_def write_at_def split: if_splits Option.bind_splits)

text \<open>
  The commands carried out, and the one still to be dispatched, if there is one, are never more
  than the times the parser has raised the register.
\<close>

definition once :: "('m, 'a) whole \<Rightarrow> bool" where
  "once s \<longleftrightarrow> length (carried s) +
     (if w_pc s \<in> {C_TEST, C_SWITCH} \<and> command_reg (w_port s) \<noteq> 0 then 1 else 0) \<le> raised s"

lemma command_step_once:
  assumes "command_step wr pc d = Some (pc', d')" "r = MBbuf_main (conf d) ! 29" "r' = MBbuf_main (conf d') ! 29"
  shows "length (dispatched pc r) + (if pc' \<in> {C_TEST, C_SWITCH} \<and> r' \<noteq> 0 then 1 else 0)
     \<le> (if pc \<in> {C_TEST, C_SWITCH} \<and> r \<noteq> 0 then 1 else 0 :: nat)"
  using assms
  by (cases pc) (auto simp: dispatched_def is_command_def stm_simps split: Option.bind_splits if_splits)

lemma whole_step_once:
  assumes "once s" "whole_step wr s t"
  shows "once t"
  using assms(2)
proof cases
  case (irq rx tx_ready p)
  with assms(1) pass_store [OF irq(5)] show ?thesis by (simp add: once_def command_reg_def)
next
  case (parser p)
  with assms(1) show ?thesis by (auto simp: once_def)
next
  case (com pc d)
  then show ?thesis
    using assms(1) command_step_once [OF com(3) refl refl]
    by (simp add: once_def command_reg_def zb_view_def zb_put_def split: if_splits)
next
  case (rest d)
  with assms(1) other_move_conf [OF rest(3)] show ?thesis
    by (simp add: once_def command_reg_def zb_view_def zb_put_def changes_only_def result_regs_def)
qed

interpretation carried_once: step_invariant "whole_boot rd wr" "whole_step wr" once
  by unfold_locales (simp add: whole_boot_def once_def, rule whole_step_once)

section \<open>Runs of the whole firmware\<close>

lemma reach_star: "step\<^sup>*\<^sup>* s t \<Longrightarrow> reach start step s \<Longrightarrow> reach start step t"
  by (induction rule: rtranclp_induct) (auto intro: reach.step)

lemma parser_run:
  "mh_task_Modbus wr n (w_port s) = Some q \<Longrightarrow> ctl (w_dev s) = Running \<Longrightarrow>
     \<exists>r. (whole_step wr)\<^sup>*\<^sup>* s (s\<lparr>w_port := q, raised := r\<rparr>)"
proof (induction n arbitrary: s)
  case 0
  then show ?case by (auto intro!: exI [of _ "raised s"])
next
  case (Suc n)
  then obtain p where p: "mh_task_Modbus_step wr (w_port s) = Some p" "mh_task_Modbus wr n p = Some q"
    by (auto split: Option.bind_splits)
  obtain k where "whole_step wr s (s\<lparr>w_port := p, raised := k\<rparr>)"
    using whole_step.parser [OF Suc.prems(2) p(1)] by blast
  moreover obtain r where "(whole_step wr)\<^sup>*\<^sup>* (s\<lparr>w_port := p, raised := k\<rparr>) (s\<lparr>w_port := q, raised := r\<rparr>)"
    using Suc.IH [of "s\<lparr>w_port := p, raised := k\<rparr>"] p(2) Suc.prems(2) by auto
  ultimately show ?case by (blast intro: converse_rtranclp_into_rtranclp)
qed

lemma exchange_run:
  assumes "reach (whole_boot rd wr) (whole_step wr) s" "ctl (w_dev s) = Running" "port_ready (w_port s)"
    and "length msg \<le> 64" "exchange wr msg n (w_port s) = Some p'" "task p' = T_WAIT"
  shows "\<exists>r. (whole_step wr)\<^sup>*\<^sup>* s (s\<lparr>w_port := p', raised := r\<rparr>)"
proof -
  obtain p0 q where steps: "uart_usb_interrupt_pass (Some msg) False (w_port s) = Some p0"
      "mh_task_Modbus wr n p0 = Some q" "uart_transmit q = Some p'"
    using assms(5) by (auto simp: exchange_def uart_usb_interrupt_pass_def [of None] split: Option.bind_splits)
  have "whole_step wr s (s\<lparr>w_port := p0\<rparr>)"
    using steps(1) assms(2-4) by (intro whole_step.irq [of s "Some msg" False]) (simp_all add: port_ready_def)
  moreover obtain r where "(whole_step wr)\<^sup>*\<^sup>* (s\<lparr>w_port := p0\<rparr>) (s\<lparr>w_port := q, raised := r\<rparr>)"
    using parser_run [of wr n "s\<lparr>w_port := p0\<rparr>"] steps(2) assms(2) by auto
  ultimately have run: "(whole_step wr)\<^sup>*\<^sup>* s (s\<lparr>w_port := q, raised := r\<rparr>)"
    by (rule converse_rtranclp_into_rtranclp)
  show ?thesis
  proof (cases "mb_state (MB_data q) = STATE_SEND")
    case True
    have "port_safe q"
      using port_ready_safe [OF whole.sim_reach [OF reach_star [OF run assms(1)]]] by simp
    with True uart_transmit_kept [OF steps(3)] assms(6) have "tx_irq q"
      by (auto simp: port_safe_def)
    with steps(3) assms(2) have "whole_step wr (s\<lparr>w_port := q, raised := r\<rparr>)
        ((s\<lparr>w_port := q, raised := r\<rparr>)\<lparr>w_port := p'\<rparr>)"
      by (intro whole_step.irq [of _ None True]) (simp_all add: uart_usb_interrupt_pass_def)
    moreover have "(s\<lparr>w_port := q, raised := r\<rparr>)\<lparr>w_port := p'\<rparr> = s\<lparr>w_port := p', raised := r\<rparr>"
      by (cases s) simp
    ultimately have "whole_step wr (s\<lparr>w_port := q, raised := r\<rparr>) (s\<lparr>w_port := p', raised := r\<rparr>)"
      by (simp only:)
    with run show ?thesis by (blast intro: rtranclp.rtrancl_into_rtrancl)
  next
    case False
    with uart_transmit_kept [OF steps(3)] run show ?thesis by auto
  qed
qed

text \<open>A request that writes the command register, from its arrival to the driver's taking the reply.\<close>

lemma command_register_free: "reg_writable 29" "reg_ok 29 c"
  by (simp_all add: reg_writable_def reg_ok_def perm_check_def limit_check_def default_state_nth
      MAIN_BUF_TABLE_def X_BUF_def)

lemma command_exchange:
  fixes c :: u16
  assumes "port_safe p" "port_ready p" "addr \<noteq> 0"
  shows "succeeds (exchange wr (with_crc [addr, 6, 0, 29, hi8 c, lo8 c]) 5 p) (\<lambda>p'. port_ready p' \<and>
     sent p' = sent p @ [with_crc [addr, 6, 0, 29, hi8 c, lo8 c]] \<and>
     store p' = (store p)\<lparr>MBbuf_main := (MBbuf_main (store p))[29 := c]\<rparr>)"
proof (rule exchange_answered [OF assms(1,2)])
  let ?m = "[addr, 6, 0, 29, hi8 c, lo8 c]"
  have bytes: "hi8 29 = 0" "lo8 29 = 29"
    by (simp_all add: hi8_def lo8_def)
  show len: "4 \<le> length (with_crc ?m)" "length (with_crc ?m) \<le> 64"
    by simp_all
  show "CRC16 (with_crc ?m) = 0" by (rule CRC16_with_crc)
  note rec = received_fields [OF assms(1,2) len]
  have "p_mb_buff (received (with_crc ?m) p) = [addr, 6, hi8 29, lo8 29, hi8 c, lo8 c] @
      [lo8 (CRC16 ?m), hi8 (CRC16 ?m)] @ drop (length (with_crc ?m)) (p_mb_buff (MB_data p))"
    unfolding rec(3) bytes with_crc_append by simp
  moreover have "mb_index (received (with_crc ?m) p) = 8"
    by (simp add: received_def)
  ultimately show "succeeds (FrameParse (MBbuf_main (store p)) (received (with_crc ?m) p))
      (\<lambda>(need, regs, d). need \<and> eep_state d = EEP_FREE \<and>
         regs = (MBbuf_main (store p))[29 := c] \<and> reply d = with_crc ?m)"
    using write_one_request [OF rec(1,5), of addr 29 c] command_register_free(1) command_register_free(2) [of c] unsaved_registers(1) assms(3)
    unfolding bytes by (auto elim!: succeeds_mono)
qed

text \<open>
  A step of the firmware by which no request changes a saved register: a saved register changes
  only where \<open>com_task\<close> moves on in \<open>command_control\<close>.
\<close>

definition undisturbed :: "'m nvs_write \<Rightarrow> ('m, 'a) whole \<Rightarrow> ('m, 'a) whole \<Rightarrow> bool" where
  "undisturbed wr s t \<longleftrightarrow> whole_step wr s t \<and> (w_pc t = w_pc s \<longrightarrow>
     (\<forall>j<120. reg_saved j \<longrightarrow> MBbuf_main (store (w_port t)) ! j = MBbuf_main (store (w_port s)) ! j))"

lemma undisturbed_run: "(undisturbed wr)\<^sup>*\<^sup>* s t \<Longrightarrow> (whole_step wr)\<^sup>*\<^sup>* s t"
  by (erule rtranclp_mono [THEN predicate2D, rotated]) (auto simp: undisturbed_def)

lemma finish_command:
  assumes "ctl (w_dev s) = Running" "length (MBbuf_main (store (w_port s))) = 120"
    and "w_pc s = C_FACTORY i \<or> w_pc s = C_CLEAR"
  shows "\<exists>t. (undisturbed wr)\<^sup>*\<^sup>* s t \<and> w_pc t = C_CLEAR \<and> ctl (w_dev t) = Running \<and>
     length (MBbuf_main (store (w_port t))) = 120 \<and> command_reg (w_port t) = command_reg (w_port s) \<and>
     carried t = carried s \<and> sent (w_port t) = sent (w_port s)"
  using assms
proof (induction "120 - i" arbitrary: s i)
  case 0
  show ?case
  proof (cases "w_pc s = C_CLEAR")
    case True
    with 0 show ?thesis by blast
  next
    case False
    let ?t = "(zb_put (zb_view s) s)\<lparr>w_pc := C_CLEAR\<rparr>"
    have "undisturbed wr s ?t"
      using whole_step.com [of s wr C_CLEAR "zb_view s"] 0 False by (auto simp: dispatched_def zb_put_def undisturbed_def)
    then show ?thesis
      using 0 by (intro exI [of _ ?t]) (auto simp: zb_view_def zb_put_def command_reg_def)
  qed
next
  case (Suc n)
  show ?case
  proof (cases "w_pc s = C_CLEAR")
    case True
    with Suc.prems show ?thesis by blast
  next
    case False
    then have pc: "w_pc s = C_FACTORY i" "i < 120" using Suc.prems(3) Suc.hyps(2) by auto
    then obtain c where c: "mh_Factory_body wr i (store (w_port s)) = Some c"
      using Suc.prems(2) by (cases "reg_saved i") (simp_all add: mh_Factory_body_eq reset_reg_eq)
    let ?d = "(zb_view s)\<lparr>conf := c\<rparr>"
    let ?t = "(zb_put ?d s)\<lparr>w_pc := C_FACTORY (Suc i)\<rparr>"
    have step: "undisturbed wr s ?t"
      using whole_step.com [of s wr "C_FACTORY (Suc i)" ?d] Suc.prems(1) pc c
      by (simp add: zb_view_def zb_put_def dispatched_def undisturbed_def)
    have kept: "command_reg (w_port ?t) = command_reg (w_port s)" "length (MBbuf_main (store (w_port ?t))) = 120"
        "ctl (w_dev ?t) = Running" "carried ?t = carried s" "sent (w_port ?t) = sent (w_port s)"
      using factory_body_command [OF c pc(2)] Suc.prems(1,2)
      by (simp_all add: command_reg_def zb_put_def zb_view_def)
    have "n = 120 - Suc i" using Suc.hyps(2) by simp
    moreover have "w_pc ?t = C_FACTORY (Suc i) \<or> w_pc ?t = C_CLEAR" by simp
    ultimately obtain u where "(undisturbed wr)\<^sup>*\<^sup>* ?t u" "w_pc u = C_CLEAR" "ctl (w_dev u) = Running"
        "length (MBbuf_main (store (w_port u))) = 120" "command_reg (w_port u) = command_reg (w_port ?t)"
        "carried u = carried ?t" "sent (w_port u) = sent (w_port ?t)"
      using Suc.hyps(1) [OF _ kept(3,2)] by blast
    with kept show ?thesis using converse_rtranclp_into_rtranclp [of "undisturbed wr", OF step] by auto
  qed
qed

lemma clear_command:
  assumes "ctl (w_dev s) = Running" "length (MBbuf_main (store (w_port s))) = 120" "w_pc s = C_CLEAR"
  shows "\<exists>t. whole_step wr s t \<and> w_pc t = C_TEST \<and> command_reg (w_port t) = 0 \<and> carried t = carried s \<and>
     sent (w_port t) = sent (w_port s)"
  using whole_step.com [of s wr C_TEST] assms
  by (auto simp: zb_view_def zb_put_def dispatched_def command_reg_def stm_simps)

text \<open>A command that arrives before the \<open>switch\<close> of a call is dispatched by it.\<close>

lemma switch_command:
  assumes "ctl (w_dev s) = Running" "length (MBbuf_main (store (w_port s))) = 120" "w_pc s = C_SWITCH"
    and "command_reg (w_port s) = c" "is_command c"
  shows "\<exists>t. whole_step wr s t \<and> carried t = carried s @ [c] \<and>
     w_pc t = (if c = CODE_RESET_TO_DEFAULT then C_FACTORY 0 else C_CLEAR) \<and>
     (c = CODE_RESET_TO_DEFAULT \<longrightarrow> w_port t = w_port s \<and> ctl (w_dev t) = Running)"
proof -
  let ?d = "zb_view s"
  have d: "MBbuf_main (conf ?d) ! 29 = c" "length (MBbuf_main (conf ?d)) = 120" "ctl ?d = Running"
    using assms(1,2,4) by (simp_all add: zb_view_def command_reg_def)
  obtain pc d' where step: "command_step wr C_SWITCH ?d = Some (pc, d')"
      "pc = (if c = CODE_RESET_TO_DEFAULT then C_FACTORY 0 else C_CLEAR)" "c = CODE_RESET_TO_DEFAULT \<longrightarrow> d' = ?d"
    using d assms(5) by (auto simp: run_command_def stm_simps is_command_def)
  let ?t = "(zb_put d' s)\<lparr>w_pc := pc, carried := carried s @ [c]\<rparr>"
  have "whole_step wr s ?t"
    using whole_step.com [of s wr pc d'] step(1) assms(1,3,4,5) by (simp add: dispatched_def)
  then show ?thesis
    using step d(3) by (intro exI [of _ ?t]) (auto simp: zb_put_def zb_view_def)
qed

lemma dispatch_command:
  assumes "ctl (w_dev s) = Running" "length (MBbuf_main (store (w_port s))) = 120"
    and "w_pc s = C_TEST \<or> w_pc s = C_SWITCH" and "command_reg (w_port s) = c" "is_command c"
  shows "\<exists>t. (whole_step wr)\<^sup>*\<^sup>* s t \<and> carried t = carried s @ [c] \<and>
     w_pc t = (if c = CODE_RESET_TO_DEFAULT then C_FACTORY 0 else C_CLEAR) \<and>
     (c = CODE_RESET_TO_DEFAULT \<longrightarrow> w_port t = w_port s \<and> ctl (w_dev t) = Running)"
proof (cases "w_pc s = C_SWITCH")
  case True
  with switch_command [OF assms(1,2) _ assms(4,5), of wr] show ?thesis by (blast intro: r_into_rtranclp)
next
  case False
  let ?s = "(zb_put (zb_view s) s)\<lparr>w_pc := C_SWITCH\<rparr>"
  have "c \<noteq> 0" using assms(5) by (auto simp: is_command_def)
  then have test: "whole_step wr s ?s"
    using whole_step.com [of s wr C_SWITCH "zb_view s"] assms(1-4) False
    by (simp add: dispatched_def zb_put_def zb_view_def command_reg_def)
  have "ctl (w_dev ?s) = Running" "w_port ?s = w_port s" "carried ?s = carried s" "w_pc ?s = C_SWITCH"
    using assms(1) by (simp_all add: zb_view_def zb_put_def)
  then obtain t where "whole_step wr ?s t" "carried t = carried s @ [c]"
      "w_pc t = (if c = CODE_RESET_TO_DEFAULT then C_FACTORY 0 else C_CLEAR)"
      "c = CODE_RESET_TO_DEFAULT \<longrightarrow> w_port t = w_port s \<and> ctl (w_dev t) = Running"
    using switch_command [of ?s c wr] assms(2,4,5) by auto
  moreover from this(1) test have "(whole_step wr)\<^sup>*\<^sup>* s t"
    by (blast intro: converse_rtranclp_into_rtranclp)
  ultimately show ?thesis by blast
qed

lemma command_exchange_run:
  fixes c :: u16
  assumes "reach (whole_boot rd wr) (whole_step wr) s" "ctl (w_dev s) = Running" "port_ready (w_port s)" "addr \<noteq> 0"
  shows "\<exists>p r. (whole_step wr)\<^sup>*\<^sup>* s (s\<lparr>w_port := p, raised := r\<rparr>) \<and> port_ready p \<and> command_reg p = c \<and>
     length (MBbuf_main (store p)) = 120 \<and>
     sent p = sent (w_port s) @ [with_crc [addr, 6, 0, 29, hi8 c, lo8 c]]"
proof -
  have safe: "port_safe (w_port s)"
    using port_ready_safe [OF whole.sim_reach [OF assms(1)]] .
  from command_exchange [OF safe assms(3,4), of wr c] obtain p where
    p: "exchange wr (with_crc [addr, 6, 0, 29, hi8 c, lo8 c]) 5 (w_port s) = Some p" "port_ready p"
      "sent p = sent (w_port s) @ [with_crc [addr, 6, 0, 29, hi8 c, lo8 c]]"
      "store p = (store (w_port s))\<lparr>MBbuf_main := (MBbuf_main (store (w_port s)))[29 := c]\<rparr>"
    by (auto elim!: succeedsE)
  moreover from p(2) have "task p = T_WAIT" by (simp add: port_ready_def)
  ultimately show ?thesis
    using exchange_run [OF assms(1-3) _ p(1)] whole_length [OF assms(1)]
    by (auto simp: command_reg_def)
qed

type_synonym demo_whole = "((u16 \<Rightarrow> u16 option), nat list) whole"

lemma ready_whole:
  "\<exists>s :: demo_whole. reach (whole_boot map_read map_write) (whole_step map_write) s \<and> port_ready (w_port s) \<and>
     ctl (w_dev s) = Running \<and> w_pc s = C_TEST \<and> carried s = []"
proof -
  let ?s0 = "\<lparr>MBbuf_main = replicate 120 0, flash = (\<lambda>_. None)\<rparr> :: (u16 \<Rightarrow> u16 option) settings"
  obtain c where c: "mh_Buf_Init map_read map_write ?s0 = Some c"
      "\<forall>j<120. if reg_saved j then reg_ok j (MBbuf_main c ! j) else MBbuf_main c ! j = MBbuf_main ?s0 ! j"
    using mh_Buf_Init_limits [of ?s0 map_read map_write] by (auto elim!: succeedsE)
  have len: "length (MBbuf_main ?s0) = NUM_BUF" by simp
  let ?p = "mh_usb_init True (port_zero c)"
  let ?s = "\<lparr>w_port = ?p, w_dev = default_dev, w_pc = C_TEST, raised = 0, carried = []\<rparr>"
  let ?q = "?p\<lparr>rx_irq := True, task := T_WAIT\<rparr>"
  have "usb_boot map_read map_write ?p"
    using c(1) len unfolding usb_boot_def by blast
  moreover have "command_reg ?p = 0"
    using c(2) [rule_format, of 29] unsaved_registers(1)
    by (simp add: command_reg_def mh_usb_init_def port_zero_def Let_def)
  ultimately have boot: "whole_boot map_read map_write ?s"
    using default_no_command(3) by (simp add: whole_boot_def)
  have "mh_task_Modbus map_write 1 ?p = Some ?q"
    by (simp add: mh_task_Modbus_step_def mh_usb_init_def Let_def)
  then obtain r where "(whole_step map_write)\<^sup>*\<^sup>* ?s (?s\<lparr>w_port := ?q, raised := r\<rparr>)"
    using parser_run [of map_write 1 ?s ?q] default_no_command(3) by auto
  then have "reach (whole_boot map_read map_write) (whole_step map_write) (?s\<lparr>w_port := ?q, raised := r\<rparr>)"
    using boot by (blast intro: reach_star reach.start)
  moreover have "port_ready ?q"
    by (simp add: port_ready_def idle_iff mh_usb_init_def port_zero_def Let_def)
  ultimately show ?thesis
    using default_no_command(3) by (intro exI [of _ "?s\<lparr>w_port := ?q, raised := r\<rparr>"]) simp
qed

text \<open>A factory reset asked for over USB has just begun.\<close>

lemma factory_whole:
  "\<exists>s :: demo_whole. reach (whole_boot map_read map_write) (whole_step map_write) s \<and> port_ready (w_port s) \<and>
     ctl (w_dev s) = Running \<and> w_pc s = C_FACTORY 0 \<and> carried s = [13]"
proof -
  obtain s :: demo_whole where s: "reach (whole_boot map_read map_write) (whole_step map_write) s" "port_ready (w_port s)"
      "ctl (w_dev s) = Running" "w_pc s = C_TEST" "carried s = []"
    using ready_whole by blast
  obtain p r where p: "(whole_step map_write)\<^sup>*\<^sup>* s (s\<lparr>w_port := p, raised := r\<rparr>)" "port_ready p"
      "command_reg p = 13" "length (MBbuf_main (store p)) = 120"
    using command_exchange_run [OF s(1,3,2), of 1 13] by auto
  obtain t where t: "(whole_step map_write)\<^sup>*\<^sup>* (s\<lparr>w_port := p, raised := r\<rparr>) t" "carried t = [13]"
      "w_pc t = C_FACTORY 0" "w_port t = p" "ctl (w_dev t) = Running"
    using dispatch_command [of "s\<lparr>w_port := p, raised := r\<rparr>" 13 map_write] p(3,4) s(3-5)
    by (auto simp: is_command_def)
  have "reach (whole_boot map_read map_write) (whole_step map_write) t"
    by (rule reach_star [OF t(1) reach_star [OF p(1) s(1)]])
  with t p(2) show ?thesis by blast
qed

section \<open>A factory reset among the other parts\<close>

text \<open>A register that has been reset, in memory and in flash, unless the flash refused it.\<close>

definition was_reset :: "'m nvs_read \<Rightarrow> 'm refused_writes \<Rightarrow> 'm settings \<Rightarrow> nat \<Rightarrow> bool" where
  "was_reset rd refused c j \<longleftrightarrow> MBbuf_main c ! j = reg_default j \<and> kept rd refused (flash c) j (reg_default j)"

text \<open>The loop has reset every saved register before its pass, or is through.\<close>

definition reset_upto :: "'m nvs_read \<Rightarrow> 'm refused_writes \<Rightarrow> cmd_pc \<Rightarrow> 'm settings \<Rightarrow> bool" where
  "reset_upto rd refused pc c \<longleftrightarrow> (\<exists>i. (\<forall>j<120. j < i \<longrightarrow> reg_saved j \<longrightarrow> was_reset rd refused c j) \<and>
     (pc = C_FACTORY i \<or> 120 \<le> i))"

lemma reset_upto_done:
  "reset_upto rd refused pc c \<Longrightarrow> \<forall>i. pc \<noteq> C_FACTORY i \<Longrightarrow> \<forall>j<120. reg_saved j \<longrightarrow> was_reset rd refused c j"
  by (auto simp: reset_upto_def)

lemma reset_upto_same:
  assumes "reset_upto rd refused pc c" "\<And>j. j < 120 \<Longrightarrow> reg_saved j \<Longrightarrow> was_reset rd refused c j \<Longrightarrow> was_reset rd refused c' j"
  shows "reset_upto rd refused pc c'"
  using assms unfolding reset_upto_def by blast

lemma factory_pass_reset:
  assumes "mh_Factory_body wr i c = Some c'" "i < 120" "length (MBbuf_main c) = 120" "nvs_laws rd wr" "refusals refused wr"
    and "j < 120" "reg_saved j" "j = i \<or> was_reset rd refused c j"
  shows "was_reset rd refused c' j"
  using assms by (cases "reg_saved i"; cases "j = i")
    (auto simp: mh_Factory_body_eq reset_reg_eq was_reset_def kept_update)

lemma command_step_reset:
  assumes "command_step wr pc d = Some (pc', d')" "length (MBbuf_main (conf d)) = 120" "nvs_laws rd wr" "refusals refused wr"
    and "reset_upto rd refused pc (conf d)"
  shows "reset_upto rd refused pc' (conf d')"
proof -
  obtain i where i: "\<forall>j<120. j < i \<longrightarrow> reg_saved j \<longrightarrow> was_reset rd refused (conf d) j" "pc = C_FACTORY i \<or> 120 \<le> i"
    using assms(5) by (auto simp: reset_upto_def)
  show ?thesis
  proof (cases pc)
    case C_TEST
    with assms(1) i show ?thesis by (auto simp: reset_upto_def split: Option.bind_splits)
  next
    case C_SWITCH
    then have "conf d' = conf d"
      using assms(1) by (auto split: Option.bind_splits if_splits dest: run_command_other)
    with C_SWITCH i show ?thesis by (auto simp: reset_upto_def)
  next
    case (C_FACTORY k)
    show ?thesis
    proof (cases "k < 120")
      case True
      then obtain c where c: "mh_Factory_body wr k (conf d) = Some c" "pc' = C_FACTORY (Suc k)" "conf d' = c"
        using C_FACTORY assms(1) by (auto split: Option.bind_splits)
      note pass = factory_pass_reset [OF c(1) True assms(2-4)]
      show ?thesis
      proof (cases "120 \<le> i")
        case True
        with i(1) pass c(3) show ?thesis unfolding reset_upto_def by (intro exI [of _ i]) auto
      next
        case False
        with i(2) C_FACTORY have "i = k" by simp
        with i(1) pass c(2,3) show ?thesis
          unfolding reset_upto_def by (intro exI [of _ "Suc k"]) (auto simp: less_Suc_eq)
      qed
    next
      case False
      with C_FACTORY assms(1) i show ?thesis by (auto simp: reset_upto_def)
    qed
  next
    case C_CLEAR
    have "was_reset rd refused (conf d') j" if "reg_saved j" "was_reset rd refused (conf d) j" for j
      using C_CLEAR assms(1,2) that unsaved_registers(1)
      by (cases "j = 29") (auto simp: stm_simps was_reset_def)
    with C_CLEAR assms(1) i show ?thesis by (auto simp: reset_upto_def split: Option.bind_splits)
  qed
qed

text \<open>The parser's save writes what the register holds.\<close>

lemma parser_keeps:
  assumes "mh_task_Modbus_step wr p = Some p'" "port_safe p" "nvs_laws rd wr" "refusals refused wr"
    and "j < 120" "MBbuf_main (store p) ! j = v" "kept rd refused (flash (store p)) j v"
  shows "kept rd refused (flash (store p')) j v"
proof (cases "task p")
  case (T_SAVE i)
  show ?thesis
  proof (cases "i < unat (eep_indx (MB_data p))")
    case True
    define r where "r = i + unat (eep_start_save (MB_data p))"
    have len: "length (MBbuf_main (store p)) = 120" and r: "r < 120"
      using assms(2) T_SAVE True by (auto simp: port_safe_def r_def)
    have id: "eep_start_save (MB_data p) + word_of_nat i = word_of_nat r"
      by (simp add: r_def add.commute)
    have "flash (store p') = (if reg_saved r then fst (wr (flash (store p)) (word_of_nat r) (MBbuf_main (store p) ! r))
        else flash (store p))"
      using assms(1) T_SAVE True r len
      by (auto simp: mh_task_Modbus_step_def mh_Write_Eeprom_body_def perm_saved_iff id user_mem_update_reg16_def Let_def
          split: if_splits simp flip: r_def)
    with assms(3-7) r show ?thesis by (cases "j = r") (simp_all add: kept_update)
  next
    case False
    with assms(1,7) T_SAVE show ?thesis by (auto simp: mh_task_Modbus_step_def)
  qed
next
  case T_PARSE
  with assms(1,7) show ?thesis
    by (auto simp: mh_task_Modbus_step_def MBparsing_parse_def mb_set_state_def Let_def split: Option.bind_splits if_splits)
qed (use assms(1,7) in \<open>auto simp: mh_task_Modbus_step_def mh_USB_Transmit_Start_def\<close>)

lemma undisturbed_reset:
  assumes "undisturbed wr s t" "reach (whole_boot rd wr) (whole_step wr) s" "nvs_laws rd wr" "refusals refused wr"
    and "reset_upto rd refused (w_pc s) (store (w_port s))"
  shows "reset_upto rd refused (w_pc t) (store (w_port t))"
proof -
  have "whole_step wr s t" using assms(1) by (simp add: undisturbed_def)
  then show ?thesis
  proof cases
    case (irq rx tx_ready p)
    with assms(5) pass_store [OF irq(5)] show ?thesis by simp
  next
    case (parser p)
    have same: "\<forall>j<120. reg_saved j \<longrightarrow> MBbuf_main (store p) ! j = MBbuf_main (store (w_port s)) ! j"
      using assms(1) parser(1) by (simp add: undisturbed_def)
    have "was_reset rd refused (store p) j" if "j < 120" "reg_saved j" "was_reset rd refused (store (w_port s)) j" for j
      using parser_keeps [OF parser(3) port_ready_safe [OF whole.sim_reach [OF assms(2)]] assms(3,4) that(1)] same that
      by (simp add: was_reset_def)
    with parser(1) assms(5) show ?thesis by (auto intro: reset_upto_same)
  next
    case (com pc d)
    have "reset_upto rd refused pc (conf d)"
      by (rule command_step_reset [OF com(3) _ assms(3,4)])
        (use assms(5) whole_length [OF assms(2)] in \<open>simp_all add: zb_view_def\<close>)
    with com(1) show ?thesis by (simp add: zb_put_def)
  next
    case (rest d)
    have "was_reset rd refused (conf d) j" if "reg_saved j" "was_reset rd refused (store (w_port s)) j" for j
    proof -
      have "j \<notin> result_regs" using unsaved_registers(2) that(1) by blast
      with other_move_conf [OF rest(3)] that(2) show ?thesis
        by (simp add: changes_only_def was_reset_def zb_view_def)
    qed
    with rest(1) assms(5) show ?thesis by (auto simp: zb_put_def intro: reset_upto_same)
  qed
qed

lemma undisturbed_runs_reset:
  assumes "(undisturbed wr)\<^sup>*\<^sup>* s t" "reach (whole_boot rd wr) (whole_step wr) s" "nvs_laws rd wr" "refusals refused wr"
    and "reset_upto rd refused (w_pc s) (store (w_port s))"
  shows "reset_upto rd refused (w_pc t) (store (w_port t))"
  using assms
proof (induction rule: rtranclp_induct)
  case (step t u)
  from reach_star [OF undisturbed_run [OF step.hyps(1)] step.prems(1)] step show ?case
    by (blast intro: undisturbed_reset)
qed

section \<open>Properties\<close>

text \<open>C6: the whole firmware moves the USB port only as the port's own transition system allows,
  however the parser task, the interrupt handler, the handlers of the stack, the measurement and the
  pieces of \<open>command_control\<close> are interleaved; and the next piece of \<open>command_control\<close> never leaves
  an array.  So the port's memory safety, mutual exclusion and the agreement of memory and flash hold
  in the whole firmware.\<close>

theorem whole_firmware_simulates:
  assumes "reach (whole_boot rd wr) (whole_step wr) s"
  shows "reach (usb_boot rd wr) (usb_step wr) (w_port s) \<and> command_step wr (w_pc s) (zb_view s) \<noteq> None"
proof
  show "reach (usb_boot rd wr) (usb_step wr) (w_port s)"
    by (rule whole.sim_reach [OF assms])
  have len: "length (MBbuf_main (conf (zb_view s))) = 120"
    using whole_length [OF assms] by (simp add: zb_view_def)
  show "command_step wr (w_pc s) (zb_view s) \<noteq> None"
  proof (cases "w_pc s")
    case (C_FACTORY i)
    with len show ?thesis by (cases "reg_saved i") (simp_all add: mh_Factory_body_eq reset_reg_eq)
  qed (use len in \<open>simp_all add: run_command_def stm_simps\<close>)
qed

theorem whole_firmware_simulates_witness:
  "\<exists>s :: demo_whole. w_pc s = C_FACTORY 0 \<and> reach (usb_boot map_read map_write) (usb_step map_write) (w_port s) \<and>
     command_step map_write (w_pc s) (zb_view s) \<noteq> None"
proof -
  obtain s :: demo_whole where s: "reach (whole_boot map_read map_write) (whole_step map_write) s" "w_pc s = C_FACTORY 0"
    using factory_whole by blast
  from whole_firmware_simulates [OF s(1)] s(2) show ?thesis by blast
qed

text \<open>C7: a command is carried out at most once for every time a request has raised the command
  register from 0, in every interleaving; while one waits to be dispatched there have been fewer.\<close>

theorem commands_at_most_once:
  assumes "reach (whole_boot rd wr) (whole_step wr) s"
  shows "length (carried s) \<le> raised s \<and>
     (w_pc s = C_TEST \<and> command_reg (w_port s) \<noteq> 0 \<longrightarrow> length (carried s) < raised s)"
  using carried_once.reach_inv [OF assms] by (auto simp: once_def split: if_splits)

theorem commands_at_most_once_witness:
  "\<exists>s :: demo_whole. reach (whole_boot map_read map_write) (whole_step map_write) s \<and> carried s = [13] \<and> 1 \<le> raised s"
proof -
  obtain s :: demo_whole where s: "reach (whole_boot map_read map_write) (whole_step map_write) s" "carried s = [13]"
    using factory_whole by blast
  from commands_at_most_once [OF s(1)] s show ?thesis by auto
qed

text \<open>C9: a command sent over USB, by a request of function 6 to a ready port, is acknowledged.  If
  \<open>com_task\<close> has not yet passed the \<open>switch\<close> of \<open>command_control\<close>, the firmware can go on to carry it
  out; if an earlier command is still being carried out, the firmware can go on to clear it without
  having carried it out.\<close>

theorem command_sent:
  fixes c :: u16
  assumes "reach (whole_boot rd wr) (whole_step wr) s" "ctl (w_dev s) = Running" "port_ready (w_port s)"
    and "addr \<noteq> 0" "is_command c"
  shows "\<exists>t u. (whole_step wr)\<^sup>*\<^sup>* s t \<and> command_reg (w_port t) = c \<and>
     sent (w_port t) = sent (w_port s) @ [with_crc [addr, 6, 0, 29, hi8 c, lo8 c]] \<and>
     (whole_step wr)\<^sup>*\<^sup>* t u \<and>
     (if w_pc s = C_TEST \<or> w_pc s = C_SWITCH then carried u = carried s @ [c]
      else w_pc u = C_TEST \<and> command_reg (w_port u) = 0 \<and> carried u = carried s)"
proof -
  obtain p r where p: "(whole_step wr)\<^sup>*\<^sup>* s (s\<lparr>w_port := p, raised := r\<rparr>)" "command_reg p = c"
      "length (MBbuf_main (store p)) = 120"
      "sent p = sent (w_port s) @ [with_crc [addr, 6, 0, 29, hi8 c, lo8 c]]"
    using command_exchange_run [OF assms(1-4), of c] by blast
  let ?t = "s\<lparr>w_port := p, raised := r\<rparr>"
  have run: "ctl (w_dev ?t) = Running" "length (MBbuf_main (store (w_port ?t))) = 120" "w_pc ?t = w_pc s"
    using assms(2) p(3) by simp_all
  consider "w_pc ?t = C_TEST \<or> w_pc ?t = C_SWITCH" | i where "w_pc ?t = C_FACTORY i \<or> w_pc ?t = C_CLEAR"
    by (cases "w_pc s") auto
  then obtain u where "(whole_step wr)\<^sup>*\<^sup>* ?t u \<and>
     (if w_pc s = C_TEST \<or> w_pc s = C_SWITCH then carried u = carried s @ [c]
      else w_pc u = C_TEST \<and> command_reg (w_port u) = 0 \<and> carried u = carried s)"
  proof cases
    case 1
    with that dispatch_command [OF run(1,2), of c wr] p(2) assms(5) show ?thesis by auto
  next
    case 2
    then obtain v where v: "(whole_step wr)\<^sup>*\<^sup>* ?t v" "w_pc v = C_CLEAR" "ctl (w_dev v) = Running"
        "length (MBbuf_main (store (w_port v))) = 120" "carried v = carried s"
      using finish_command [OF run(1,2), of i wr] undisturbed_run [of wr ?t] by auto
    then obtain u where "whole_step wr v u" "w_pc u = C_TEST" "command_reg (w_port u) = 0" "carried u = carried s"
      using clear_command [of v wr] by auto
    with v(1) 2 show ?thesis by (intro that [of u]) (auto intro: rtranclp.rtrancl_into_rtrancl)
  qed
  with p show ?thesis by (intro exI [of _ ?t] exI [of _ u]) (simp only: whole.simps, simp)
qed

theorem command_sent_witness:
  "\<exists>(s :: demo_whole) t u. carried s = [13] \<and> (whole_step map_write)\<^sup>*\<^sup>* s t \<and> command_reg (w_port t) = 155 \<and>
     (whole_step map_write)\<^sup>*\<^sup>* t u \<and> command_reg (w_port u) = 0 \<and> carried u = [13]"
proof -
  obtain s :: demo_whole where s: "reach (whole_boot map_read map_write) (whole_step map_write) s" "port_ready (w_port s)"
      "ctl (w_dev s) = Running" "w_pc s = C_FACTORY 0" "carried s = [13]"
    using factory_whole by blast
  from command_sent [OF s(1,3,2), of 1 155] s(4,5) show ?thesis
    by (fastforce simp: is_command_def)
qed

end
