(* ===== verification/UsbFiles.thy ===== *)
theory UsbFiles
  imports RegTable
begin

text \<open>
  The files of the USB disk, \<open>src/app.c\<close>: the table of entries the FAT emulation serves and the
  three procedures that fill a part of a file.  A procedure writes at most \<open>size\<close> bytes into the
  caller's buffer; offsets are 32-bit and wrap, lengths are \<open>int\<close>.  An access outside the buffer
  or a file's data is \<^const>\<open>None\<close>.
\<close>

section \<open>The data\<close>

definition bytes_of :: "string \<Rightarrow> u8 list" where
  "bytes_of s = map of_char s"

definition readme_file :: "u8 list" where
  "readme_file = bytes_of ''Firmware version ''"

definition index_file :: "u8 list" where
  "index_file = bytes_of ''<html><head><meta http-equiv=\"refresh\" content=\"0; url=https://plutongroup.github.io/MSD_Zigbee/\"/><title>MSD_Zigbee Shortcut</title></head><body></body></html>''"

definition test_file :: "u8 list" where
  "test_file = [
   0x52, 0x61, 0x72, 0x21, 0x1A, 0x07, 0x01, 0x00, 0xF3, 0xE1, 0x82, 0xEB, 0x0B, 0x01, 0x05, 0x07,
   0x00, 0x06, 0x01, 0x01, 0x80, 0x80, 0x80, 0x00, 0x9F, 0xB9, 0xAA, 0x21, 0x34, 0x02, 0x03, 0x0B,
   0xFE, 0x89, 0x00, 0x04, 0xC8, 0xFF, 0x01, 0x20, 0x69, 0x82, 0xE6, 0x25, 0x80, 0x03, 0x00, 0x16,
   0x53, 0x65, 0x6E, 0x73, 0x6F, 0x72, 0x5F, 0x52, 0x6F, 0x75, 0x74, 0x65, 0x72, 0x5F, 0x31, 0x5F,
   0x30, 0x31, 0x2E, 0x6D, 0x62, 0x70, 0x0A, 0x03, 0x02, 0x85, 0xDB, 0xF8, 0xC6, 0xCC, 0x71, 0xD8,
   0x01, 0xCC, 0x68, 0xFA, 0x04, 0x30, 0x75, 0x43, 0x43, 0x33, 0x3F, 0x36, 0x04, 0x7C, 0x4D, 0x27,
   0xF0, 0x91, 0xFC, 0x23, 0xB2, 0xB6, 0xC4, 0xE1, 0x45, 0x0C, 0x09, 0x45, 0xE5, 0x22, 0x4B, 0x75,
   0x6E, 0xA7, 0x1D, 0xF8, 0x00, 0xDC, 0x6E, 0xB9, 0x68, 0x0F, 0xE1, 0x43, 0x6A, 0xCB, 0x2C, 0x80,
   0x57, 0x1C, 0x89, 0x49, 0x58, 0xAD, 0xA8, 0xC3, 0x49, 0xD0, 0xEF, 0x39, 0xCE, 0xCE, 0x34, 0x09,
   0xD2, 0xFF, 0x0D, 0x79, 0x5E, 0x97, 0x9D, 0x17, 0xAB, 0xE1, 0x79, 0x5F, 0xE0, 0x2D, 0xE3, 0x45,
   0xE7, 0x78, 0xD1, 0x45, 0xE1, 0x45, 0xD1, 0x84, 0xEA, 0x38, 0x49, 0xDD, 0x7A, 0x9A, 0x4A, 0x36,
   0x93, 0x01, 0x42, 0xAD, 0xA1, 0xD7, 0xC6, 0x71, 0x93, 0x48, 0x2F, 0x4E, 0xE1, 0x38, 0x77, 0xD9,
   0x84, 0x9C, 0xC2, 0x4E, 0xAD, 0xD7, 0xFC, 0xC1, 0x1E, 0x18, 0x7F, 0x0F, 0x0F, 0x0F, 0x0F, 0x7B,
   0xF6, 0x9C, 0x3F, 0x2D, 0x27, 0x81, 0xD2, 0x46, 0x9C, 0x1A, 0x37, 0xF8, 0x49, 0xDE, 0xB0, 0x07,
   0x6C, 0x11, 0xC4, 0x70, 0x33, 0x6E, 0x81, 0xB7, 0x91, 0xE0, 0x89, 0xF1, 0x58, 0xA7, 0xF8, 0x91,
   0x8F, 0xD5, 0x1E, 0xC2, 0x6A, 0xA8, 0xBB, 0xFE, 0xD5, 0xD7, 0x0B, 0x13, 0xCB, 0x9E, 0x73, 0x0E,
   0x2F, 0x37, 0xF9, 0xAF, 0x19, 0x78, 0x4F, 0x07, 0xED, 0x7E, 0xFB, 0xDF, 0xDB, 0xD8, 0x1D, 0x70,
   0xA0, 0x1B, 0x61, 0x48, 0x35, 0xC3, 0xC0, 0x14, 0x43, 0x54, 0x3B, 0x01, 0x24, 0xE2, 0x21, 0xF5,
   0xBE, 0x7F, 0x05, 0x55, 0xAA, 0xA6, 0xF1, 0xC6, 0x57, 0x25, 0x7F, 0x75, 0x08, 0xCE, 0xF9, 0x1A,
   0x7D, 0x63, 0x87, 0xC0, 0x1E, 0xF2, 0xA6, 0x3C, 0x5C, 0x1A, 0xF7, 0xDB, 0xDA, 0xD0, 0x57, 0x3F,
   0xC7, 0x7A, 0xF7, 0x2A, 0x33, 0xF4, 0xF8, 0xAD, 0x41, 0x4C, 0x29, 0xC0, 0xD0, 0x4A, 0x09, 0xC5,
   0xDD, 0x6C, 0x86, 0xD2, 0x86, 0x6B, 0x05, 0x30, 0xDC, 0x2E, 0x74, 0x2D, 0xA8, 0xB3, 0xC6, 0xCA,
   0xBA, 0x32, 0x6D, 0x95, 0x09, 0x30, 0x5C, 0x17, 0x46, 0x68, 0xE4, 0x0F, 0x50, 0x72, 0x4C, 0xF2,
   0x8E, 0x4D, 0x6D, 0x2D, 0x97, 0x0B, 0x68, 0x5B, 0x19, 0x82, 0xE0, 0xBA, 0x2C, 0x93, 0x7E, 0xB2,
   0x41, 0x5C, 0xCC, 0xD2, 0xEC, 0x6A, 0x97, 0x77, 0x4D, 0x79, 0x8F, 0xD4, 0x99, 0x51, 0x76, 0x91,
   0xB8, 0x76, 0x56, 0x78, 0xEF, 0x53, 0xB2, 0x1A, 0xE7, 0x33, 0x13, 0xA0, 0xB5, 0x17, 0xCE, 0xE9,
   0x0A, 0x70, 0x07, 0xD2, 0x88, 0x15, 0xA0, 0xE9, 0x94, 0xCD, 0x55, 0x17, 0xFD, 0x25, 0xEA, 0x71,
   0x60, 0xAE, 0x54, 0xC1, 0x50, 0xB1, 0x7A, 0x82, 0x71, 0x42, 0x25, 0xD1, 0x64, 0x85, 0xDC, 0xD3,
   0x76, 0xEF, 0x14, 0x3F, 0xDB, 0x5B, 0x7B, 0xC3, 0x65, 0x36, 0x7D, 0xD9, 0x81, 0x5F, 0x13, 0x65,
   0x4F, 0x7C, 0x26, 0xBE, 0x6D, 0x50, 0xE9, 0xC2, 0xB7, 0xDD, 0xD8, 0x26, 0xFD, 0x94, 0xB6, 0x63,
   0xB5, 0x07, 0xD2, 0x9B, 0x8F, 0xDD, 0x0D, 0x38, 0x0A, 0xAC, 0xFC, 0x76, 0x41, 0x3A, 0x15, 0x05,
   0x9C, 0xCD, 0x4B, 0x75, 0xEB, 0x1E, 0x33, 0x0E, 0x66, 0x94, 0xCF, 0x78, 0x88, 0xEE, 0x06, 0xC1,
   0xC5, 0x97, 0x70, 0xC2, 0xCF, 0x93, 0x49, 0xB6, 0xFC, 0xDD, 0x34, 0x59, 0xE7, 0x05, 0xC7, 0x55,
   0xE1, 0x34, 0x51, 0xD0, 0x85, 0x63, 0x96, 0x43, 0xA8, 0x2B, 0x9C, 0x50, 0x94, 0x97, 0x6A, 0x5C,
   0xCF, 0x71, 0x6E, 0xE0, 0x95, 0x6C, 0xB4, 0x28, 0x49, 0x4B, 0x6C, 0xB3, 0x28, 0xA6, 0xCD, 0xF2,
   0xBA, 0xDB, 0xF6, 0x44, 0x41, 0x08, 0x97, 0xD5, 0x45, 0xEC, 0xA7, 0x02, 0x37, 0x3C, 0x8A, 0x96,
   0xE6, 0x5C, 0xF5, 0xB1, 0x55, 0x15, 0x22, 0xD2, 0x94, 0x9D, 0x5A, 0x55, 0xB8, 0xB4, 0xDA, 0x64,
   0x83, 0x94, 0x9B, 0xF7, 0xA2, 0x11, 0xAA, 0xA4, 0x72, 0x0A, 0xBD, 0x54, 0x55, 0x97, 0x55, 0xE6,
   0xCD, 0xFB, 0x18, 0x86, 0x68, 0xAA, 0x6D, 0xC3, 0x6F, 0x29, 0x8C, 0xB1, 0xCF, 0x85, 0x43, 0x74,
   0x51, 0x6A, 0x91, 0x1E, 0xFD, 0xC5, 0x0F, 0x32, 0x41, 0x52, 0x74, 0xD1, 0x7A, 0x1C, 0x46, 0xE0,
   0xE7, 0x53, 0x82, 0x09, 0xDA, 0xE7, 0xA6, 0xF9, 0xC4, 0xB1, 0xC0, 0xD3, 0x59, 0x21, 0xD2, 0x46,
   0xB7, 0x5F, 0x2A, 0xF0, 0x43, 0x45, 0xD7, 0x25, 0x18, 0x18, 0x7E, 0x8B, 0x05, 0xE4, 0x1B, 0xC8,
   0x7C, 0x9A, 0xBC, 0x0D, 0x69, 0x2E, 0xF6, 0xB9, 0xF6, 0x45, 0x2D, 0x34, 0xD5, 0x7B, 0xE9, 0xBA,
   0x32, 0x60, 0xCF, 0x9D, 0x7A, 0x71, 0xA0, 0x13, 0x6A, 0x16, 0x16, 0xA5, 0x02, 0x77, 0x44, 0xA8,
   0x49, 0x24, 0x7B, 0x52, 0x04, 0xF2, 0xFA, 0xDB, 0x34, 0x0F, 0xD7, 0xB9, 0x16, 0x7C, 0x94, 0x7B,
   0x4A, 0xA4, 0xD9, 0x0C, 0xA6, 0xB0, 0x6A, 0x93, 0xD9, 0x68, 0xB6, 0x93, 0xD3, 0x82, 0xB4, 0x8A,
   0x0C, 0x88, 0xAF, 0xB0, 0xAC, 0xB2, 0x95, 0x61, 0xA0, 0xCE, 0x5C, 0xAB, 0x1E, 0xCE, 0x20, 0x7B,
   0x31, 0x17, 0xA2, 0x54, 0x3A, 0xDF, 0xCA, 0x7F, 0x22, 0xB1, 0xF1, 0x66, 0x0C, 0x88, 0x6D, 0xAE,
   0xC3, 0x27, 0xA7, 0x61, 0xF3, 0x82, 0xDA, 0xB1, 0x0B, 0x93, 0x76, 0x6E, 0x26, 0xFD, 0x90, 0x6B,
   0x1D, 0x91, 0x50, 0x62, 0x99, 0xB7, 0xF3, 0x76, 0xF9, 0x03, 0x59, 0x79, 0x95, 0x6C, 0x2F, 0x61,
   0xF8, 0x94, 0x73, 0x76, 0xD7, 0x6C, 0x5D, 0x98, 0x3B, 0xD0, 0xAF, 0xEC, 0x9B, 0x26, 0xE0, 0xAB,
   0x52, 0x71, 0x73, 0xD9, 0x22, 0xE8, 0x93, 0x49, 0x53, 0xB6, 0x04, 0x10, 0x79, 0x65, 0x86, 0x60,
   0x68, 0x10, 0xAE, 0xEA, 0xD7, 0xC3, 0xAD, 0x85, 0xE0, 0xC6, 0x4B, 0x52, 0xAC, 0x68, 0x2F, 0xC1,
   0x60, 0x16, 0xA9, 0xE6, 0xA5, 0xE4, 0x1E, 0x6E, 0xC9, 0x43, 0x52, 0x64, 0xDB, 0x4B, 0xA1, 0x17,
   0x11, 0xB8, 0x61, 0xE4, 0x67, 0x0D, 0xFE, 0x05, 0x04, 0xDF, 0x2C, 0xDD, 0xAF, 0xB8, 0x75, 0xAC,
   0x04, 0x4F, 0x1C, 0xCD, 0x63, 0xCE, 0x79, 0xAE, 0x70, 0x06, 0x99, 0x4C, 0x74, 0xE2, 0x23, 0x39,
   0x67, 0x63, 0x77, 0x2A, 0x10, 0xAB, 0x2B, 0x3D, 0x2B, 0xF8, 0x34, 0xA6, 0xDF, 0xD4, 0x3C, 0x89,
   0x32, 0xEE, 0x1C, 0x4D, 0xA1, 0x6C, 0x66, 0x0B, 0x82, 0xE8, 0xCD, 0x33, 0xA3, 0x85, 0x13, 0xC8,
   0xE4, 0x2D, 0xCE, 0x59, 0x7B, 0x43, 0x30, 0xA2, 0xB9, 0xAE, 0xA8, 0x68, 0xAF, 0x76, 0x79, 0x5B,
   0x5A, 0xD9, 0x11, 0x6F, 0x4E, 0x2B, 0x9D, 0x1D, 0xA0, 0xD2, 0xCD, 0x23, 0x7E, 0x04, 0xF8, 0x27,
   0xA9, 0x9D, 0xE5, 0x79, 0x6F, 0x9D, 0x0A, 0xD7, 0x0E, 0x98, 0x67, 0xEB, 0x82, 0xE8, 0xCD, 0x1E,
   0x4E, 0x9C, 0xBE, 0xBC, 0xDF, 0xD9, 0x7D, 0x2D, 0xF7, 0xEB, 0x42, 0xD8, 0xCC, 0x17, 0x05, 0xD1,
   0x9A, 0x3C, 0x9D, 0x38, 0x8B, 0xED, 0x14, 0x79, 0x9C, 0xCC, 0x4F, 0x9F, 0xEB, 0x76, 0xD9, 0xB1,
   0x2C, 0x31, 0x3E, 0x24, 0x76, 0x0B, 0x8B, 0x45, 0x19, 0x7E, 0x6A, 0x11, 0xFA, 0xB3, 0xB5, 0xC3,
   0xE6, 0xB9, 0x34, 0xBD, 0xE4, 0x4C, 0xBB, 0x85, 0x2F, 0x75, 0x59, 0x26, 0x12, 0x84, 0x36, 0x73,
   0x26, 0xF4, 0x58, 0xB0, 0x87, 0x6A, 0x41, 0xFB, 0x2D, 0x79, 0x67, 0xF3, 0xA1, 0x66, 0x0E, 0xE2,
   0x1A, 0xAA, 0x04, 0x3F, 0x5C, 0x48, 0xE6, 0x31, 0xA4, 0x7A, 0x8B, 0x61, 0x03, 0xA4, 0x74, 0xF7,
   0x0D, 0x18, 0x51, 0x19, 0x21, 0xEA, 0xFA, 0xE6, 0x8E, 0xFA, 0x79, 0x00, 0xA6, 0x5F, 0x92, 0x24,
   0xB0, 0xF6, 0xC3, 0xB0, 0x1F, 0x61, 0x25, 0xCC, 0x83, 0x1B, 0x73, 0xAA, 0xFC, 0xB5, 0x1A, 0xAB,
   0xF5, 0x73, 0xD0, 0x32, 0x28, 0x58, 0x22, 0x7C, 0x58, 0x75, 0xCA, 0xF9, 0x7E, 0x81, 0xC4, 0x7C,
   0x1B, 0x1A, 0xB5, 0xAB, 0x0B, 0xE0, 0xA3, 0xE3, 0x07, 0x26, 0x1B, 0x45, 0xC1, 0x74, 0x66, 0x8E,
   0x40, 0xF5, 0x07, 0x24, 0xDE, 0x65, 0x7B, 0xCC, 0xF8, 0xD1, 0xD6, 0x8D, 0xA6, 0xD8, 0xCC, 0x17,
   0x05, 0xD1, 0xB5, 0xAE, 0xDD, 0x6B, 0x19, 0x5B, 0xED, 0xC3, 0xE3, 0x15, 0x3D, 0x23, 0x5D, 0xA0,
   0x19, 0xE1, 0x7D, 0xB4, 0x1B, 0xBE, 0x46, 0x09, 0x6B, 0xFE, 0x35, 0x76, 0xBE, 0xBA, 0x22, 0xB7,
   0x43, 0x9C, 0x1E, 0xD2, 0xA8, 0x93, 0x1C, 0x22, 0xF8, 0xFB, 0xD8, 0xF1, 0x7E, 0x43, 0xE7, 0xA3,
   0x56, 0x7C, 0x88, 0xB9, 0x61, 0xF7, 0x87, 0xF4, 0x1F, 0x70, 0x7D, 0x28, 0x5A, 0xBF, 0x00, 0xFD,
   0xCF, 0x04, 0x1D, 0x9E, 0x52, 0x51, 0xD3, 0xD6, 0x0D, 0xE2, 0x2B, 0xDA, 0x5F, 0x65, 0x1A, 0x44,
   0x7B, 0xCB, 0xBB, 0xEB, 0xDE, 0x6F, 0x33, 0x02, 0xFF, 0x0B, 0x07, 0xD2, 0xE7, 0x05, 0x87, 0x89,
   0x1B, 0x40, 0x6C, 0xFF, 0xC9, 0xEF, 0xDB, 0x29, 0xFB, 0x3E, 0x2C, 0xAA, 0xF2, 0x47, 0x9A, 0x9E,
   0x87, 0x9F, 0x53, 0x41, 0xEF, 0xFD, 0xEE, 0x11, 0xBD, 0xEA, 0xDC, 0x47, 0xD1, 0xF7, 0x8F, 0xA1,
   0xAF, 0x1F, 0xD6, 0x3A, 0xFD, 0x55, 0xF4, 0x4E, 0x3A, 0x4A, 0xFF, 0xEA, 0x48, 0xE3, 0xA8, 0x52,
   0x3F, 0x97, 0x9E, 0x7B, 0xF3, 0x28, 0xF4, 0x5F, 0x3E, 0x81, 0xE8, 0xDE, 0x99, 0x7D, 0x51, 0xE2,
   0x19, 0x80, 0x63, 0x10, 0x7B, 0x72, 0x0C, 0xBC, 0x77, 0x83, 0xF1, 0xE2, 0xAF, 0x9E, 0xF6, 0x08,
   0xFA, 0xB7, 0x66, 0x58, 0x72, 0x2A, 0x34, 0x93, 0x1D, 0x78, 0x25, 0xFE, 0x80, 0x7D, 0xE2, 0x78,
   0xF5, 0xE0, 0x43, 0x48, 0x8A, 0x82, 0x4F, 0x5D, 0x4C, 0x44, 0xA0, 0x86, 0x8A, 0xB2, 0x80, 0x1D,
   0x77, 0x56, 0x51, 0x03, 0x05, 0x04, 0x00]"

abbreviation (input) README_SIZE :: u32 where "README_SIZE \<equiv> 256"
abbreviation (input) INDEX_SIZE :: u32 where "INDEX_SIZE \<equiv> 256"
abbreviation (input) TEST_SIZE :: u32 where "TEST_SIZE \<equiv> 1367"

section \<open>The procedures\<close>

text \<open>The number of bytes to fill: the rest of the file, or what was asked for.\<close>

definition chunk_len :: "u32 \<Rightarrow> int \<Rightarrow> u32 \<Rightarrow> int" where
  "chunk_len file_size siz offset =
     (if offset + word_of_int siz > file_size then sint (file_size - offset) else siz)"

definition copy_bytes :: "u8 list \<Rightarrow> u8 list \<Rightarrow> nat \<Rightarrow> int \<Rightarrow> u8 list option" where
  "copy_bytes dest src from len =
     (if 0 \<le> len \<and> nat len \<le> length dest \<and> from + nat len \<le> length src
      then Some (take (nat len) (drop from src) @ drop (nat len) dest) else None)"

definition test_read_proc :: "u8 list \<Rightarrow> int \<Rightarrow> u32 \<Rightarrow> u8 list option" where
  "test_read_proc dest siz offset =
     (if offset > TEST_SIZE then Some dest
      else copy_bytes dest test_file (unat offset) (chunk_len TEST_SIZE siz offset))"

text \<open>The loops of the other two compare their counter with \<open>len\<close> as unsigned numbers.\<close>

definition loop_count :: "int \<Rightarrow> nat" where
  "loop_count len = unat (word_of_int len :: u32)"

definition index_body :: "u32 \<Rightarrow> nat \<Rightarrow> u8 list \<Rightarrow> u8 list option" where
  "index_body offset i dest =
     (let pos = offset + word_of_nat i in
      if unat pos < length index_file
      then do { b \<leftarrow> read_at index_file (unat pos); write_at dest i b }
      else write_at dest i (of_char CHR '' ''))"

definition index_read_proc :: "u8 list \<Rightarrow> int \<Rightarrow> u32 \<Rightarrow> u8 list option" where
  "index_read_proc dest siz offset =
     (if offset > INDEX_SIZE then Some dest
      else for_loop 0 (loop_count (chunk_len INDEX_SIZE siz offset)) (index_body offset) dest)"

text \<open>The decimal digits \<open>__itoa\<close> writes.\<close>

fun itoa :: "nat \<Rightarrow> u8 list" where
  "itoa n = (if n < 10 then [48 + word_of_nat n] else itoa (n div 10) @ [48 + word_of_nat (n mod 10)])"

declare itoa.simps [simp del]

definition ver_s :: "u8 list" where
  "ver_s = itoa (unat VERSION)"

definition read_int :: "'a list \<Rightarrow> int \<Rightarrow> 'a option" where
  "read_int xs i = (if 0 \<le> i then read_at xs (nat i) else None)"

definition readme_body :: "u32 \<Rightarrow> nat \<Rightarrow> u8 list \<Rightarrow> u8 list option" where
  "readme_body offset i dest =
     (let pos = offset + word_of_nat i; Len_String = length readme_file; end = int (length ver_s) in
      if unat pos < Len_String
      then do { b \<leftarrow> read_at readme_file (unat pos); write_at dest i b }
      else
        let cur = sint (pos - word_of_nat Len_String) in
        if cur < 1 + end then
          if cur = 1 then write_at dest i (of_char CHR ''.'')
          else if cur > 1 then do { b \<leftarrow> read_int ver_s (cur - 1); write_at dest i b }
          else do { b \<leftarrow> read_int ver_s cur; write_at dest i b }
        else write_at dest i (of_char CHR '' ''))"

definition readme_read_proc :: "u8 list \<Rightarrow> int \<Rightarrow> u32 \<Rightarrow> u8 list option" where
  "readme_read_proc dest siz offset =
     (if offset > README_SIZE then Some dest
      else for_loop 0 (loop_count (chunk_len README_SIZE siz offset)) (readme_body offset) dest)"

section \<open>The table of entries\<close>

record 'c emfat_entry =
  entry_name :: "string option"
  entry_dir :: bool
  entry_level :: nat
  entry_offset :: nat
  entry_size :: nat
  entry_max_size :: nat
  entry_user :: nat
  entry_time :: "'c list"
  entry_read :: "(u8 list \<Rightarrow> int \<Rightarrow> u32 \<Rightarrow> u8 list option) option"
  entry_write :: "(u8 list \<Rightarrow> int \<Rightarrow> u32 \<Rightarrow> u8 list option) option"

text \<open>
  \<open>EMFAT_ENCODE_CMA_TIME\<close> is a macro of the FAT library: a parameter.  A field the initialiser
  leaves out is zero.
\<close>

type_synonym 'c cma_encoder = "nat \<Rightarrow> nat \<Rightarrow> nat \<Rightarrow> nat \<Rightarrow> nat \<Rightarrow> nat \<Rightarrow> 'c"

definition CMA :: "'c cma_encoder \<Rightarrow> 'c list" where
  "CMA EMFAT_ENCODE_CMA_TIME = replicate 3 (EMFAT_ENCODE_CMA_TIME 9 8 2020 13 0 0)"

definition entries :: "'c cma_encoder \<Rightarrow> 'c emfat_entry list" where
  "entries enc = [
    \<lparr>entry_name = Some '''', entry_dir = True, entry_level = 0, entry_offset = 0, entry_size = 0,
       entry_max_size = 0, entry_user = 0, entry_time = CMA enc, entry_read = None, entry_write = None\<rparr>,
    \<lparr>entry_name = Some ''index.htm'', entry_dir = False, entry_level = 1, entry_offset = 0,
       entry_size = unat INDEX_SIZE, entry_max_size = unat INDEX_SIZE,
       entry_user = 0, entry_time = CMA enc, entry_read = Some index_read_proc, entry_write = None\<rparr>,
    \<lparr>entry_name = Some ''readme.txt'', entry_dir = False, entry_level = 1, entry_offset = 0,
       entry_size = unat README_SIZE, entry_max_size = unat README_SIZE,
       entry_user = 0, entry_time = CMA enc, entry_read = Some readme_read_proc, entry_write = None\<rparr>,
    \<lparr>entry_name = Some ''test.zip'', entry_dir = False, entry_level = 1, entry_offset = 0,
       entry_size = unat TEST_SIZE, entry_max_size = unat TEST_SIZE,
       entry_user = 0, entry_time = CMA enc, entry_read = Some test_read_proc, entry_write = None\<rparr>,
    \<lparr>entry_name = None, entry_dir = False, entry_level = 0, entry_offset = 0, entry_size = 0,
       entry_max_size = 0, entry_user = 0, entry_time = [], entry_read = None, entry_write = None\<rparr>]"

section \<open>What a file is\<close>

text \<open>The contents as the procedures are meant to give them: the texts padded with blanks.\<close>

definition padded :: "u8 list \<Rightarrow> u8 list" where
  "padded bs = bs @ replicate (256 - length bs) (of_char CHR '' '')"

definition index_content :: "u8 list" where
  "index_content = padded index_file"

definition readme_content :: "u8 list" where
  "readme_content = padded (bytes_of ''Firmware version 1.01'')"

text \<open>
  A source of a file: a procedure that fills a buffer from any offset with what the file has
  there and leaves the rest of the buffer as it was.
\<close>

locale file_source =
  fixes content :: "u8 list" and rd :: "u8 list \<Rightarrow> int \<Rightarrow> u32 \<Rightarrow> u8 list option"
  assumes short: "length content < 65536"
    and rd_inside: "unat offset \<le> length content \<Longrightarrow> siz \<le> length dest \<Longrightarrow> siz < 2 ^ 31 \<Longrightarrow>
      rd dest (int siz) offset = Some (take siz (drop (unat offset) content) @
        drop (min siz (length content - unat offset)) dest)"
    and rd_outside: "length content < unat offset \<Longrightarrow> rd dest (int siz) offset = Some dest"

text \<open>Reading sector by sector, as the FAT emulation does, into buffers of zeros.\<close>

fun read_sectors :: "(u8 list \<Rightarrow> int \<Rightarrow> u32 \<Rightarrow> u8 list option) \<Rightarrow> nat \<Rightarrow> nat \<Rightarrow> nat \<Rightarrow> u8 list option" where
  "read_sectors rd n k 0 = Some []"
| "read_sectors rd n k (Suc m) = do {
     s \<leftarrow> rd (replicate n 0) (int n) (word_of_nat (k * n));
     rest \<leftarrow> read_sectors rd n (Suc k) m;
     Some (s @ rest)
   }"

section \<open>What every source gives\<close>

context file_source begin

lemma rd_keeps_length:
  assumes "siz \<le> length dest" "siz < 2 ^ 31"
  shows "succeeds (rd dest (int siz) offset) (\<lambda>d. length d = length dest)"
proof (cases "unat offset \<le> length content")
  case True
  with assms show ?thesis by (simp add: rd_inside min_def)
next
  case False
  then show ?thesis by (simp add: rd_outside)
qed

lemma rd_zeros:
  assumes "k * n < 2 ^ 32" "n < 2 ^ 31" "k * n + n \<le> big"
  shows "rd (replicate n 0) (int n) (word_of_nat (k * n)) =
     Some (take n (drop (k * n) (content @ replicate big 0)))"
proof -
  have off: "unat (word_of_nat (k * n) :: u32) = k * n"
    using assms(1) by (simp add: unat_of_nat del: of_nat_mult)
  show ?thesis
  proof (cases "k * n \<le> length content")
    case True
    with assms show ?thesis
      by (simp add: rd_inside off min_def del: of_nat_mult) linarith
  next
    case False
    with assms show ?thesis
      by (simp add: rd_outside off min_def del: of_nat_mult)
  qed
qed

text \<open>The sectors of a file, read one after the other, are the file, padded to whole sectors.\<close>

lemma read_sectors_take:
  assumes "(k + m) * n < 2 ^ 31" "n < 2 ^ 31" "(k + m) * n \<le> big"
  shows "read_sectors rd n k m = Some (take (m * n) (drop (k * n) (content @ replicate big 0)))"
  using assms(1,3)
proof (induction m arbitrary: k)
  case (Suc m)
  define N where "N = (k + Suc m) * n"
  have le: "k * n + n \<le> N" "N < 2 ^ 31" "N \<le> big"
    using Suc.prems by (simp_all add: N_def algebra_simps)
  have "rd (replicate n 0) (int n) (word_of_nat (k * n)) = Some (take n (drop (k * n) (content @ replicate big 0)))"
    by (rule rd_zeros) (use le assms(2) in simp_all)
  moreover have "read_sectors rd n (Suc k) m = Some (take (m * n) (drop (Suc k * n) (content @ replicate big 0)))"
    using Suc.prems by (intro Suc.IH) simp_all
  moreover have "take (Suc m * n) xs = take n xs @ take (m * n) (drop n xs)" for xs :: "u8 list"
    by (simp add: take_add)
  ultimately show ?case
    by (simp add: drop_drop add.commute del: drop_append take_append)
qed simp

lemma read_whole:
  assumes "m * n < 2 ^ 31" "0 < n" "length content \<le> m * n"
  shows "read_sectors rd n 0 m = Some (content @ replicate (m * n - length content) 0)"
proof -
  have "n < 2 ^ 31" if "0 < m" using assms(1) that by (cases m) auto
  then show ?thesis
    using read_sectors_take [of 0 m n "m * n"] assms by (cases m) auto
qed

end

section \<open>The three procedures are sources\<close>

lemma sint_small:
  fixes w :: u32
  assumes "unat w < 2147483648"
  shows "sint w = int (unat w)"
proof -
  have "int (unat w) < 2147483648" using assms by linarith
  then have "uint w < 2147483648" by (simp only: uint_nat)
  then have "signed_take_bit 31 (uint w) = uint w"
    by (intro signed_take_bit_int_eq_self order_trans [OF _ uint_ge_0]) simp_all
  then show ?thesis by (simp only: sint_uint uint_nat [symmetric]) simp
qed

lemma chunk_len_eq:
  assumes "unat offset \<le> unat file_size" "unat file_size < 65536" "siz < 2 ^ 31"
  shows "chunk_len file_size (int siz) offset = int (min siz (unat file_size - unat offset))"
proof -
  have "unat (offset + word_of_nat siz) = unat offset + siz"
    using assms by (simp add: unat_word_ariths unat_of_nat)
  then have over: "offset + word_of_int (int siz) > file_size \<longleftrightarrow> unat file_size - unat offset < siz"
    using assms(1) by (auto simp: word_less_nat_alt)
  have "unat (file_size - offset) = unat file_size - unat offset"
    using assms(1) by (simp add: unat_sub word_le_nat_alt)
  with assms(2) have "sint (file_size - offset) = int (unat file_size - unat offset)"
    using sint_small [of "file_size - offset"] by simp
  with over show ?thesis by (simp add: chunk_len_def min_def)
qed

lemma fill_loop:
  assumes "n \<le> length dest"
    and "\<And>i d. i < n \<Longrightarrow> i < length d \<Longrightarrow> body i d = Some (d[i := c i])"
  shows "for_loop 0 n body dest = Some (map c [0..<n] @ drop n dest)"
proof -
  have "succeeds (for_loop 0 n body dest) (\<lambda>d. d = map c [0..<0 + n] @ drop (0 + n) dest)"
  proof (rule for_loop_rule)
    fix i d
    assume "i < 0 + n" "d = map c [0..<i] @ drop i dest"
    with assms show "succeeds (body i d) (\<lambda>d. d = map c [0..<Suc i] @ drop (Suc i) dest)"
      by (simp add: list_update_append Cons_nth_drop_Suc [symmetric])
  qed simp
  then show ?thesis by (auto elim!: succeedsE)
qed

lemma loop_count_int: "k < 2 ^ 32 \<Longrightarrow> loop_count (int k) = k"
  by (simp add: loop_count_def unat_of_nat)

lemma map_nth_slice: "n \<le> length xs - k \<Longrightarrow> map (\<lambda>i. xs ! (k + i)) [0..<n] = take n (drop k xs)"
  by (rule nth_equalityI) auto

lemma filled_source:
  assumes len: "length content = unat file_size" "unat file_size < 65536"
    and body: "\<And>offset i d. unat offset + i < length content \<Longrightarrow> i < length d \<Longrightarrow>
       body offset i d = Some (d[i := content ! (unat offset + i)])"
  shows "file_source content (\<lambda>dest siz offset. if offset > file_size then Some dest
       else for_loop 0 (loop_count (chunk_len file_size siz offset)) (body offset) dest)"
proof
  show "length content < 65536" using len by simp
  fix offset dest and siz :: nat
  show "(if offset > file_size then Some dest
       else for_loop 0 (loop_count (chunk_len file_size (int siz) offset)) (body offset) dest) = Some dest"
    if "length content < unat offset"
    using that len by (simp add: word_less_nat_alt)
  assume off: "unat offset \<le> length content" and dest: "siz \<le> length dest" "siz < 2 ^ 31"
  let ?n = "min siz (length content - unat offset)"
  have "loop_count (chunk_len file_size (int siz) offset) = ?n"
    using chunk_len_eq [of offset file_size siz] off dest(2) len by (simp add: loop_count_int)
  moreover have "for_loop 0 ?n (body offset) dest =
      Some (map (\<lambda>i. content ! (unat offset + i)) [0..<?n] @ drop ?n dest)"
    using dest body by (intro fill_loop) auto
  moreover have "map (\<lambda>i. content ! (unat offset + i)) [0..<?n] = take siz (drop (unat offset) content)"
    by (simp add: map_nth_slice) (simp add: min_def)
  ultimately show "(if offset > file_size then Some dest
       else for_loop 0 (loop_count (chunk_len file_size (int siz) offset)) (body offset) dest) =
     Some (take siz (drop (unat offset) content) @ drop ?n dest)"
    using off len by (simp add: word_less_nat_alt)
qed

lemma unat_pos: "unat (offset :: u32) + i < 65536 \<Longrightarrow> unat (offset + word_of_nat i) = unat offset + i"
  by (simp add: unat_word_ariths unat_of_nat)

lemma length_files [simp]: "length index_file = 160" "length readme_file = 17" "length test_file = 1367"
  by (simp_all add: index_file_def readme_file_def bytes_of_def test_file_def)

interpretation index_src: file_source index_content index_read_proc
proof -
  have "file_source index_content (\<lambda>dest siz offset. if offset > INDEX_SIZE then Some dest
       else for_loop 0 (loop_count (chunk_len INDEX_SIZE siz offset)) (index_body offset) dest)"
    by (rule filled_source)
      (auto simp: index_content_def padded_def index_body_def unat_pos nth_append Let_def)
  then show "file_source index_content index_read_proc"
    by (simp add: index_read_proc_def [abs_def])
qed

interpretation test_src: file_source test_file test_read_proc
proof
  fix offset dest and siz :: nat
  show "test_read_proc dest (int siz) offset = Some dest" if "length test_file < unat offset"
    using that by (simp add: test_read_proc_def word_less_nat_alt)
  assume "unat offset \<le> length test_file" "siz \<le> length dest" "siz < 2 ^ 31"
  then show "test_read_proc dest (int siz) offset = Some (take siz (drop (unat offset) test_file) @
      drop (min siz (length test_file - unat offset)) dest)"
    using chunk_len_eq [of offset TEST_SIZE siz]
    by (simp add: test_read_proc_def copy_bytes_def word_less_nat_alt) (auto simp: min_def)
qed simp

lemma ver_s_eq: "ver_s = [49, 48, 49]"
  by (simp add: ver_s_def itoa.simps)

lemma readme_content_eq: "readme_content = readme_file @ [49, 46, 48, 49] @ replicate 235 32"
  by (simp add: readme_content_def padded_def readme_file_def bytes_of_def)

lemma readme_body_eq:
  assumes "unat offset + i < 256" "i < length d"
  shows "readme_body offset i d = Some (d[i := readme_content ! (unat offset + i)])"
proof -
  let ?pos = "offset + word_of_nat i"
  have pos: "unat ?pos = unat offset + i" using assms(1) by (simp add: unat_pos)
  show ?thesis
  proof (cases "unat offset + i < 17")
    case True
    with assms pos show ?thesis
      by (simp add: readme_body_def readme_content_eq nth_append Let_def)
  next
    case False
    define c where "c = unat offset + i - 17"
    have "unat (?pos - word_of_nat 17) = c"
      using False pos by (simp add: unat_sub word_le_nat_alt c_def)
    then have cur: "sint (?pos - word_of_nat 17) = int c"
      using sint_small [of "?pos - word_of_nat 17"] assms(1) by (simp only: c_def)
    have content: "readme_content ! (unat offset + i) = ([49, 46, 48, 49] @ replicate 235 32) ! c"
      using False by (simp add: readme_content_eq nth_append c_def)
    have body: "readme_body offset i d =
       (if int c < 4 then if int c = 1 then write_at d i 46
          else if int c > 1 then do { b \<leftarrow> read_int ver_s (int c - 1); write_at d i b }
          else do { b \<leftarrow> read_int ver_s (int c); write_at d i b }
        else write_at d i 32)"
      using False pos cur by (simp only: readme_body_def Let_def length_files ver_s_eq list.size if_False) simp
    consider "c = 0" | "c = 1" | "c = 2" | "c = 3" | "4 \<le> c" by linarith
    then show ?thesis
    proof cases
      case 5
      moreover have "c < 239" using assms(1) False by (simp add: c_def)
      ultimately show ?thesis
        using assms(2) unfolding body content by (simp add: nth_append)
    qed (use assms(2) in \<open>simp_all add: body content ver_s_eq read_int_def\<close>)
  qed
qed

interpretation readme_src: file_source readme_content readme_read_proc
proof -
  have "file_source readme_content (\<lambda>dest siz offset. if offset > README_SIZE then Some dest
       else for_loop 0 (loop_count (chunk_len README_SIZE siz offset)) (readme_body offset) dest)"
    by (rule filled_source) (simp_all add: readme_content_eq [THEN arg_cong, of length] readme_body_eq)
  then show "file_source readme_content readme_read_proc"
    by (simp add: readme_read_proc_def [abs_def])
qed


section \<open>The files of the disk\<close>

definition file_content :: "string option \<Rightarrow> u8 list option" where
  "file_content name =
     (if name = Some ''index.htm'' then Some index_content
      else if name = Some ''readme.txt'' then Some readme_content
      else if name = Some ''test.zip'' then Some test_file else None)"

lemma length_contents [simp]: "length index_content = 256" "length readme_content = 256"
  by (simp_all add: index_content_def padded_def readme_content_eq)

lemma entry_source:
  assumes "e \<in> set (entries enc)" "entry_read e = Some rd"
  obtains c where "file_content (entry_name e) = Some c" "length c = entry_size e" "file_source c rd"
  using assms index_src.file_source_axioms readme_src.file_source_axioms test_src.file_source_axioms
  by (auto simp: entries_def file_content_def)

text \<open>C40: Every file of the USB disk reads back whole.  For each entry of the table with a read
  procedure, reading it sector by sector (any sector size \<open>n\<close>, enough sectors to cover the size
  the table announces) gives the file's contents followed by zeros: the redirect page padded with
  blanks, ``Firmware version 1.01'' made from \<open>VERSION\<close> padded with blanks, or the archive; and the
  announced size is the length of the contents.\<close>

theorem files_read_whole:
  assumes "e \<in> set (entries enc)" "entry_read e = Some rd"
    and "0 < n" "m * n < 2 ^ 31" "entry_size e \<le> m * n"
  shows "\<exists>c. file_content (entry_name e) = Some c \<and> length c = entry_size e \<and>
     read_sectors rd n 0 m = Some (c @ replicate (m * n - entry_size e) 0)"
proof -
  obtain c where c: "file_content (entry_name e) = Some c" "length c = entry_size e" "file_source c rd"
    using assms(1,2) by (rule entry_source)
  then have "read_sectors rd n 0 m = Some (c @ replicate (m * n - length c) 0)"
    using assms(3-5) by (intro file_source.read_whole) simp_all
  with c show ?thesis by simp
qed

lemma files_read_whole_witness:
  "\<exists>c. file_content (Some ''readme.txt'') = Some c \<and> length c = 256 \<and>
     read_sectors readme_read_proc 512 0 1 = Some (c @ replicate 256 0)"
  using files_read_whole [where e = "entries (\<lambda>_ _ _ _ _ _. ()) ! 2" and enc = "\<lambda>_ _ _ _ _ _. ()"
      and rd = readme_read_proc and n = 512 and m = 1]
  by (simp add: entries_def)

text \<open>No read procedure leaves the caller's buffer or the file's data, at any 32-bit offset, and
  the buffer keeps its length, when the announced chunk fits the buffer.\<close>

theorem read_proc_bounds:
  assumes "e \<in> set (entries enc)" "entry_read e = Some rd" "siz \<le> length dest" "siz < 2 ^ 31"
  shows "\<exists>d. rd dest (int siz) offset = Some d \<and> length d = length dest"
proof -
  obtain c where "file_source c rd" using assms(1,2) by (rule entry_source)
  then have "succeeds (rd dest (int siz) offset) (\<lambda>d. length d = length dest)"
    using assms(3,4) by (rule file_source.rd_keeps_length)
  then show ?thesis by (auto elim: succeedsE)
qed

lemma read_proc_bounds_witness:
  "\<exists>d. test_read_proc (replicate 512 0) 512 1024 = Some d \<and> length d = 512"
  using read_proc_bounds [where e = "entries (\<lambda>_ _ _ _ _ _. ()) ! 3" and enc = "\<lambda>_ _ _ _ _ _. ()"
      and rd = test_read_proc and siz = 512 and dest = "replicate 512 0" and offset = 1024]
  by (simp add: entries_def)

end
