(* ===== verification/SysBase.thy ===== *)
theory SysBase
  imports Prelude
begin

text \<open>
  The vocabulary of the system-call layer that the build generates under
  \<open>zephyr/include/generated\<close>: machine words on the two sides of a system call, what a wrapper
  does in user mode and in kernel mode, and what an unmarshaller does with the registers the
  trap delivers.

  The trap instruction, the verifiers \<open>z_vrfy_*\<close>, the implementations \<open>z_impl_*\<close> and the memory
  checks are Zephyr's and not part of this repository.  A call of a verifier or an
  implementation is recorded as a value; the trap and the memory protection are arguments.
\<close>

type_synonym u64 = "64 word"
type_synonym id = int

section \<open>Words\<close>

text \<open>A 64-bit value and its halves: the union \<open>parm0\<close> of the generated code, little-endian.\<close>

definition lo32 :: "u64 \<Rightarrow> u32" where
  "lo32 x = ucast x"

definition hi32 :: "u64 \<Rightarrow> u32" where
  "hi32 x = ucast (drop_bit 32 x)"

definition join64 :: "u32 \<Rightarrow> u32 \<Rightarrow> u64" where
  "join64 lo hi = push_bit 32 (ucast hi) OR ucast lo"

text \<open>
  A wrapper passes a parameter as \<open>*(uintptr_t *)&p\<close>.  When \<open>p\<close> is narrower than a word the
  read goes over it: the low bits are \<open>p\<close>, the others are whatever lies beside \<open>p\<close> on the stack.
\<close>

definition over_read8 :: "u32 \<Rightarrow> u8 \<Rightarrow> u32" where
  "over_read8 g x = push_bit 8 g OR ucast x"

definition over_read16 :: "u32 \<Rightarrow> u16 \<Rightarrow> u32" where
  "over_read16 g x = push_bit 16 g OR ucast x"

named_theorems marshalling \<open>what the kernel reads back of what the wrapper has passed\<close>

lemma join64_halves [marshalling]: "join64 (lo32 x) (hi32 x) = x"
  unfolding join64_def lo32_def hi32_def
  by (rule bit_word_eqI) (auto simp: bit_simps)

lemma lo32_join64: "lo32 (join64 l h) = l"
  unfolding join64_def lo32_def
  by (rule bit_word_eqI) (auto simp: bit_simps dest: bit_imp_le_length)

lemma hi32_join64: "hi32 (join64 l h) = h"
  unfolding join64_def hi32_def
  by (rule bit_word_eqI) (auto simp: bit_simps dest: bit_imp_le_length)

lemma over_read8_low [marshalling]: "ucast (over_read8 g x) = x"
  unfolding over_read8_def
  by (rule bit_word_eqI) (auto simp: bit_simps)

lemma over_read16_low [marshalling]: "ucast (over_read16 g x) = x"
  unfolding over_read16_def
  by (rule bit_word_eqI) (auto simp: bit_simps)

section \<open>The caller's side\<close>

text \<open>
  A C argument at its width; how the result comes back (not at all, in a register, or through
  an address the caller has passed); and what a wrapper does: it calls the implementation, or it
  executes the trap with a system-call number, the words for the registers and the array
  \<open>more\<close> it has laid out in its own stack frame.
\<close>

datatype carg = A8 u8 | A16 u16 | A32 u32 | A64 u64

datatype retmode = Ret_void | Ret_word | Ret_mem u32

datatype invocation =
    Impl string "carg list"
  | Svc id "u32 list" "u32 list" retmode

text \<open>
  The calling context: whether the call must trap (the code is built with \<open>CONFIG_USERSPACE\<close> and
  the thread is in user mode), where the wrapper's frame holds \<open>more\<close> or \<open>ret64\<close>, and the bytes
  beside each narrow parameter.
\<close>

record user =
  z_syscall_trap :: bool
  frame :: u32
  beyond :: "nat \<Rightarrow> u32"

definition arch_syscall_invoke :: "id \<Rightarrow> u32 list \<Rightarrow> u32 list \<Rightarrow> retmode \<Rightarrow> invocation" where
  "arch_syscall_invoke n args extra rm = Svc n args extra rm"

definition z_impl :: "string \<Rightarrow> carg list \<Rightarrow> invocation" where
  "z_impl name args = Impl name args"

section \<open>The kernel's side\<close>

text \<open>
  The memory as the kernel sees it: the bytes the calling thread may read, those it may write,
  and the word at an address.
\<close>

record kmem =
  readable :: "u32 \<Rightarrow> bool"
  writable :: "u32 \<Rightarrow> bool"
  peek :: "u32 \<Rightarrow> u32"

definition can_read :: "kmem \<Rightarrow> u32 \<Rightarrow> nat \<Rightarrow> bool" where
  "can_read m p n \<longleftrightarrow> (\<forall>i<n. readable m (p + word_of_nat i))"

definition can_write :: "kmem \<Rightarrow> u32 \<Rightarrow> nat \<Rightarrow> bool" where
  "can_write m p n \<longleftrightarrow> (\<forall>i<n. writable m (p + word_of_nat i))"

definition word_at :: "kmem \<Rightarrow> u32 \<Rightarrow> nat \<Rightarrow> u32" where
  "word_at m p i = peek m (p + 4 * word_of_nat i)"

lemma can_read_mono: "can_read m p n \<Longrightarrow> k \<le> n \<Longrightarrow> can_read m p k"
  by (auto simp: can_read_def)

text \<open>
  The call of a verifier: whom it calls with which arguments, how the result goes back, and
  \<open>_current->syscall_frame\<close> while the verifier runs and after the unmarshaller has returned.
\<close>

record kcall =
  callee :: string
  passed :: "carg list"
  kret :: retmode
  frame_during :: u32
  frame_after :: u32

text \<open>
  How a dispatched call ends: the verifier has been called and its result goes back; \<open>Z_OOPS\<close>
  kills the thread, before or after the verifier was called; the number belongs to a call this
  configuration does not have; it is the bad number; or the program does not link.
\<close>

datatype outcome =
    Done kcall
  | Oops "kcall option"
  | No_syscall
  | Bad_syscall
  | Unresolved

type_synonym handler = "kmem \<Rightarrow> u32 \<Rightarrow> u32 \<Rightarrow> u32 \<Rightarrow> u32 \<Rightarrow> u32 \<Rightarrow> u32 \<Rightarrow> u32 \<Rightarrow> outcome"

definition Z_SYSCALL_MEMORY_READ :: "kmem \<Rightarrow> u32 \<Rightarrow> nat \<Rightarrow> outcome \<Rightarrow> outcome" where
  "Z_SYSCALL_MEMORY_READ m p n k = (if can_read m p n then k else Oops None)"

definition Z_SYSCALL_MEMORY_WRITE :: "kmem \<Rightarrow> u32 \<Rightarrow> nat \<Rightarrow> outcome \<Rightarrow> outcome" where
  "Z_SYSCALL_MEMORY_WRITE m p n k =
     (if can_write m p n then k else case k of Done c \<Rightarrow> Oops (Some c) | _ \<Rightarrow> k)"

definition z_vrfy :: "string \<Rightarrow> carg list \<Rightarrow> retmode \<Rightarrow> u32 \<Rightarrow> outcome" where
  "z_vrfy name args rm ssf =
     Done \<lparr>callee = name, passed = args, kret = rm, frame_during = ssf, frame_after = 0\<rparr>"

section \<open>Results\<close>

text \<open>
  What the unmarshaller does with the value the verifier returns: the register it returns, and
  what it stores at the caller's address.  The caller casts the register to the result type.
\<close>

fun mrsh_return :: "retmode \<Rightarrow> u64 \<Rightarrow> u32 \<times> (u32 \<times> u64) option" where
  "mrsh_return Ret_void v = (0, None)"
| "mrsh_return Ret_word v = (lo32 v, None)"
| "mrsh_return (Ret_mem p) v = (0, Some (p, v))"

text \<open>
  What a wrapper whose result type has 64 bits gives its caller, from the register and from the
  object \<open>ret64\<close> in its frame.
\<close>

fun wrapper_result :: "retmode \<Rightarrow> u32 \<times> (u32 \<times> u64) option \<Rightarrow> u64 option" where
  "wrapper_result Ret_void r = None"
| "wrapper_result Ret_word r = Some (ucast (fst r))"
| "wrapper_result (Ret_mem p) r =
     (case snd r of Some (q, v) \<Rightarrow> if q = p then Some v else None | None \<Rightarrow> None)"

lemma ret64_result_whole: "wrapper_result (Ret_mem p) (mrsh_return (Ret_mem p) v) = Some v"
  by simp

text \<open>A result that comes back in the register keeps its low 32 bits only.\<close>

lemma word_result_truncated:
  "wrapper_result Ret_word (mrsh_return Ret_word v) = Some (take_bit 32 v)"
  by (simp add: lo32_def) (rule bit_word_eqI, auto simp: bit_simps)

end
