(* ===== verification/SysIds.thy ===== *)
theory SysIds
  imports SysBase
begin

text \<open>
  \<open>syscall_list.h\<close>: the number of every system call, and \<open>syscall_dispatch.c\<close>: the weak
  declarations of the unmarshallers, in the order of the file, and the table
  \<open>_k_syscall_table\<close>, in the order of its designated initialisers.  Both files are generated;
  the definitions follow them line by line.
\<close>

section \<open>syscall_list.h\<close>

definition K_SYSCALL_ADC_CHANNEL_SETUP :: id where "K_SYSCALL_ADC_CHANNEL_SETUP = 0"
definition K_SYSCALL_ADC_READ :: id where "K_SYSCALL_ADC_READ = 1"
definition K_SYSCALL_ADC_READ_ASYNC :: id where "K_SYSCALL_ADC_READ_ASYNC = 2"
definition K_SYSCALL_ATOMIC_ADD :: id where "K_SYSCALL_ATOMIC_ADD = 3"
definition K_SYSCALL_ATOMIC_AND :: id where "K_SYSCALL_ATOMIC_AND = 4"
definition K_SYSCALL_ATOMIC_CAS :: id where "K_SYSCALL_ATOMIC_CAS = 5"
definition K_SYSCALL_ATOMIC_NAND :: id where "K_SYSCALL_ATOMIC_NAND = 6"
definition K_SYSCALL_ATOMIC_OR :: id where "K_SYSCALL_ATOMIC_OR = 7"
definition K_SYSCALL_ATOMIC_PTR_CAS :: id where "K_SYSCALL_ATOMIC_PTR_CAS = 8"
definition K_SYSCALL_ATOMIC_PTR_SET :: id where "K_SYSCALL_ATOMIC_PTR_SET = 9"
definition K_SYSCALL_ATOMIC_SET :: id where "K_SYSCALL_ATOMIC_SET = 10"
definition K_SYSCALL_ATOMIC_SUB :: id where "K_SYSCALL_ATOMIC_SUB = 11"
definition K_SYSCALL_ATOMIC_XOR :: id where "K_SYSCALL_ATOMIC_XOR = 12"
definition K_SYSCALL_BBRAM_CHECK_INVALID :: id where "K_SYSCALL_BBRAM_CHECK_INVALID = 13"
definition K_SYSCALL_BBRAM_CHECK_POWER :: id where "K_SYSCALL_BBRAM_CHECK_POWER = 14"
definition K_SYSCALL_BBRAM_CHECK_STANDBY_POWER :: id where "K_SYSCALL_BBRAM_CHECK_STANDBY_POWER = 15"
definition K_SYSCALL_BBRAM_GET_SIZE :: id where "K_SYSCALL_BBRAM_GET_SIZE = 16"
definition K_SYSCALL_BBRAM_READ :: id where "K_SYSCALL_BBRAM_READ = 17"
definition K_SYSCALL_BBRAM_WRITE :: id where "K_SYSCALL_BBRAM_WRITE = 18"
definition K_SYSCALL_CAN_ATTACH_MSGQ :: id where "K_SYSCALL_CAN_ATTACH_MSGQ = 19"
definition K_SYSCALL_CAN_DETACH :: id where "K_SYSCALL_CAN_DETACH = 20"
definition K_SYSCALL_CAN_GET_CORE_CLOCK :: id where "K_SYSCALL_CAN_GET_CORE_CLOCK = 21"
definition K_SYSCALL_CAN_GET_MAX_FILTERS :: id where "K_SYSCALL_CAN_GET_MAX_FILTERS = 22"
definition K_SYSCALL_CAN_GET_STATE :: id where "K_SYSCALL_CAN_GET_STATE = 23"
definition K_SYSCALL_CAN_RECOVER :: id where "K_SYSCALL_CAN_RECOVER = 24"
definition K_SYSCALL_CAN_SEND :: id where "K_SYSCALL_CAN_SEND = 25"
definition K_SYSCALL_CAN_SET_MODE :: id where "K_SYSCALL_CAN_SET_MODE = 26"
definition K_SYSCALL_CAN_SET_TIMING :: id where "K_SYSCALL_CAN_SET_TIMING = 27"
definition K_SYSCALL_CLOCK_GETTIME :: id where "K_SYSCALL_CLOCK_GETTIME = 28"
definition K_SYSCALL_COUNTER_CANCEL_CHANNEL_ALARM :: id where "K_SYSCALL_COUNTER_CANCEL_CHANNEL_ALARM = 29"
definition K_SYSCALL_COUNTER_GET_FREQUENCY :: id where "K_SYSCALL_COUNTER_GET_FREQUENCY = 30"
definition K_SYSCALL_COUNTER_GET_GUARD_PERIOD :: id where "K_SYSCALL_COUNTER_GET_GUARD_PERIOD = 31"
definition K_SYSCALL_COUNTER_GET_MAX_TOP_VALUE :: id where "K_SYSCALL_COUNTER_GET_MAX_TOP_VALUE = 32"
definition K_SYSCALL_COUNTER_GET_NUM_OF_CHANNELS :: id where "K_SYSCALL_COUNTER_GET_NUM_OF_CHANNELS = 33"
definition K_SYSCALL_COUNTER_GET_PENDING_INT :: id where "K_SYSCALL_COUNTER_GET_PENDING_INT = 34"
definition K_SYSCALL_COUNTER_GET_TOP_VALUE :: id where "K_SYSCALL_COUNTER_GET_TOP_VALUE = 35"
definition K_SYSCALL_COUNTER_GET_VALUE :: id where "K_SYSCALL_COUNTER_GET_VALUE = 36"
definition K_SYSCALL_COUNTER_IS_COUNTING_UP :: id where "K_SYSCALL_COUNTER_IS_COUNTING_UP = 37"
definition K_SYSCALL_COUNTER_SET_CHANNEL_ALARM :: id where "K_SYSCALL_COUNTER_SET_CHANNEL_ALARM = 38"
definition K_SYSCALL_COUNTER_SET_GUARD_PERIOD :: id where "K_SYSCALL_COUNTER_SET_GUARD_PERIOD = 39"
definition K_SYSCALL_COUNTER_SET_TOP_VALUE :: id where "K_SYSCALL_COUNTER_SET_TOP_VALUE = 40"
definition K_SYSCALL_COUNTER_START :: id where "K_SYSCALL_COUNTER_START = 41"
definition K_SYSCALL_COUNTER_STOP :: id where "K_SYSCALL_COUNTER_STOP = 42"
definition K_SYSCALL_COUNTER_TICKS_TO_US :: id where "K_SYSCALL_COUNTER_TICKS_TO_US = 43"
definition K_SYSCALL_COUNTER_US_TO_TICKS :: id where "K_SYSCALL_COUNTER_US_TO_TICKS = 44"
definition K_SYSCALL_DAC_CHANNEL_SETUP :: id where "K_SYSCALL_DAC_CHANNEL_SETUP = 45"
definition K_SYSCALL_DAC_WRITE_VALUE :: id where "K_SYSCALL_DAC_WRITE_VALUE = 46"
definition K_SYSCALL_DEVICE_GET_BINDING :: id where "K_SYSCALL_DEVICE_GET_BINDING = 47"
definition K_SYSCALL_DEVICE_USABLE_CHECK :: id where "K_SYSCALL_DEVICE_USABLE_CHECK = 48"
definition K_SYSCALL_DMA_CHAN_FILTER :: id where "K_SYSCALL_DMA_CHAN_FILTER = 49"
definition K_SYSCALL_DMA_RELEASE_CHANNEL :: id where "K_SYSCALL_DMA_RELEASE_CHANNEL = 50"
definition K_SYSCALL_DMA_REQUEST_CHANNEL :: id where "K_SYSCALL_DMA_REQUEST_CHANNEL = 51"
definition K_SYSCALL_DMA_START :: id where "K_SYSCALL_DMA_START = 52"
definition K_SYSCALL_DMA_STOP :: id where "K_SYSCALL_DMA_STOP = 53"
definition K_SYSCALL_EC_HOST_CMD_PERIPH_INIT :: id where "K_SYSCALL_EC_HOST_CMD_PERIPH_INIT = 54"
definition K_SYSCALL_EC_HOST_CMD_PERIPH_SEND :: id where "K_SYSCALL_EC_HOST_CMD_PERIPH_SEND = 55"
definition K_SYSCALL_EEPROM_GET_SIZE :: id where "K_SYSCALL_EEPROM_GET_SIZE = 56"
definition K_SYSCALL_EEPROM_READ :: id where "K_SYSCALL_EEPROM_READ = 57"
definition K_SYSCALL_EEPROM_WRITE :: id where "K_SYSCALL_EEPROM_WRITE = 58"
definition K_SYSCALL_ENTROPY_GET_ENTROPY :: id where "K_SYSCALL_ENTROPY_GET_ENTROPY = 59"
definition K_SYSCALL_ESPI_CONFIG :: id where "K_SYSCALL_ESPI_CONFIG = 60"
definition K_SYSCALL_ESPI_FLASH_ERASE :: id where "K_SYSCALL_ESPI_FLASH_ERASE = 61"
definition K_SYSCALL_ESPI_GET_CHANNEL_STATUS :: id where "K_SYSCALL_ESPI_GET_CHANNEL_STATUS = 62"
definition K_SYSCALL_ESPI_READ_FLASH :: id where "K_SYSCALL_ESPI_READ_FLASH = 63"
definition K_SYSCALL_ESPI_READ_LPC_REQUEST :: id where "K_SYSCALL_ESPI_READ_LPC_REQUEST = 64"
definition K_SYSCALL_ESPI_READ_REQUEST :: id where "K_SYSCALL_ESPI_READ_REQUEST = 65"
definition K_SYSCALL_ESPI_RECEIVE_OOB :: id where "K_SYSCALL_ESPI_RECEIVE_OOB = 66"
definition K_SYSCALL_ESPI_RECEIVE_VWIRE :: id where "K_SYSCALL_ESPI_RECEIVE_VWIRE = 67"
definition K_SYSCALL_ESPI_SAF_ACTIVATE :: id where "K_SYSCALL_ESPI_SAF_ACTIVATE = 68"
definition K_SYSCALL_ESPI_SAF_CONFIG :: id where "K_SYSCALL_ESPI_SAF_CONFIG = 69"
definition K_SYSCALL_ESPI_SAF_FLASH_ERASE :: id where "K_SYSCALL_ESPI_SAF_FLASH_ERASE = 70"
definition K_SYSCALL_ESPI_SAF_FLASH_READ :: id where "K_SYSCALL_ESPI_SAF_FLASH_READ = 71"
definition K_SYSCALL_ESPI_SAF_FLASH_WRITE :: id where "K_SYSCALL_ESPI_SAF_FLASH_WRITE = 72"
definition K_SYSCALL_ESPI_SAF_GET_CHANNEL_STATUS :: id where "K_SYSCALL_ESPI_SAF_GET_CHANNEL_STATUS = 73"
definition K_SYSCALL_ESPI_SAF_SET_PROTECTION_REGIONS :: id where "K_SYSCALL_ESPI_SAF_SET_PROTECTION_REGIONS = 74"
definition K_SYSCALL_ESPI_SEND_OOB :: id where "K_SYSCALL_ESPI_SEND_OOB = 75"
definition K_SYSCALL_ESPI_SEND_VWIRE :: id where "K_SYSCALL_ESPI_SEND_VWIRE = 76"
definition K_SYSCALL_ESPI_WRITE_FLASH :: id where "K_SYSCALL_ESPI_WRITE_FLASH = 77"
definition K_SYSCALL_ESPI_WRITE_LPC_REQUEST :: id where "K_SYSCALL_ESPI_WRITE_LPC_REQUEST = 78"
definition K_SYSCALL_ESPI_WRITE_REQUEST :: id where "K_SYSCALL_ESPI_WRITE_REQUEST = 79"
definition K_SYSCALL_FLASH_ERASE :: id where "K_SYSCALL_FLASH_ERASE = 80"
definition K_SYSCALL_FLASH_GET_PAGE_COUNT :: id where "K_SYSCALL_FLASH_GET_PAGE_COUNT = 81"
definition K_SYSCALL_FLASH_GET_PAGE_INFO_BY_IDX :: id where "K_SYSCALL_FLASH_GET_PAGE_INFO_BY_IDX = 82"
definition K_SYSCALL_FLASH_GET_PAGE_INFO_BY_OFFS :: id where "K_SYSCALL_FLASH_GET_PAGE_INFO_BY_OFFS = 83"
definition K_SYSCALL_FLASH_GET_PARAMETERS :: id where "K_SYSCALL_FLASH_GET_PARAMETERS = 84"
definition K_SYSCALL_FLASH_GET_WRITE_BLOCK_SIZE :: id where "K_SYSCALL_FLASH_GET_WRITE_BLOCK_SIZE = 85"
definition K_SYSCALL_FLASH_READ :: id where "K_SYSCALL_FLASH_READ = 86"
definition K_SYSCALL_FLASH_READ_JEDEC_ID :: id where "K_SYSCALL_FLASH_READ_JEDEC_ID = 87"
definition K_SYSCALL_FLASH_SFDP_READ :: id where "K_SYSCALL_FLASH_SFDP_READ = 88"
definition K_SYSCALL_FLASH_SIMULATOR_GET_MEMORY :: id where "K_SYSCALL_FLASH_SIMULATOR_GET_MEMORY = 89"
definition K_SYSCALL_FLASH_WRITE :: id where "K_SYSCALL_FLASH_WRITE = 90"
definition K_SYSCALL_FLASH_WRITE_PROTECTION_SET :: id where "K_SYSCALL_FLASH_WRITE_PROTECTION_SET = 91"
definition K_SYSCALL_GPIO_GET_PENDING_INT :: id where "K_SYSCALL_GPIO_GET_PENDING_INT = 92"
definition K_SYSCALL_GPIO_PIN_CONFIGURE :: id where "K_SYSCALL_GPIO_PIN_CONFIGURE = 93"
definition K_SYSCALL_GPIO_PIN_INTERRUPT_CONFIGURE :: id where "K_SYSCALL_GPIO_PIN_INTERRUPT_CONFIGURE = 94"
definition K_SYSCALL_GPIO_PORT_CLEAR_BITS_RAW :: id where "K_SYSCALL_GPIO_PORT_CLEAR_BITS_RAW = 95"
definition K_SYSCALL_GPIO_PORT_GET_RAW :: id where "K_SYSCALL_GPIO_PORT_GET_RAW = 96"
definition K_SYSCALL_GPIO_PORT_SET_BITS_RAW :: id where "K_SYSCALL_GPIO_PORT_SET_BITS_RAW = 97"
definition K_SYSCALL_GPIO_PORT_SET_MASKED_RAW :: id where "K_SYSCALL_GPIO_PORT_SET_MASKED_RAW = 98"
definition K_SYSCALL_GPIO_PORT_TOGGLE_BITS :: id where "K_SYSCALL_GPIO_PORT_TOGGLE_BITS = 99"
definition K_SYSCALL_HWINFO_CLEAR_RESET_CAUSE :: id where "K_SYSCALL_HWINFO_CLEAR_RESET_CAUSE = 100"
definition K_SYSCALL_HWINFO_GET_DEVICE_ID :: id where "K_SYSCALL_HWINFO_GET_DEVICE_ID = 101"
definition K_SYSCALL_HWINFO_GET_RESET_CAUSE :: id where "K_SYSCALL_HWINFO_GET_RESET_CAUSE = 102"
definition K_SYSCALL_HWINFO_GET_SUPPORTED_RESET_CAUSE :: id where "K_SYSCALL_HWINFO_GET_SUPPORTED_RESET_CAUSE = 103"
definition K_SYSCALL_I2C_CONFIGURE :: id where "K_SYSCALL_I2C_CONFIGURE = 104"
definition K_SYSCALL_I2C_GET_CONFIG :: id where "K_SYSCALL_I2C_GET_CONFIG = 105"
definition K_SYSCALL_I2C_RECOVER_BUS :: id where "K_SYSCALL_I2C_RECOVER_BUS = 106"
definition K_SYSCALL_I2C_SLAVE_DRIVER_REGISTER :: id where "K_SYSCALL_I2C_SLAVE_DRIVER_REGISTER = 107"
definition K_SYSCALL_I2C_SLAVE_DRIVER_UNREGISTER :: id where "K_SYSCALL_I2C_SLAVE_DRIVER_UNREGISTER = 108"
definition K_SYSCALL_I2C_TRANSFER :: id where "K_SYSCALL_I2C_TRANSFER = 109"
definition K_SYSCALL_I2S_BUF_READ :: id where "K_SYSCALL_I2S_BUF_READ = 110"
definition K_SYSCALL_I2S_BUF_WRITE :: id where "K_SYSCALL_I2S_BUF_WRITE = 111"
definition K_SYSCALL_I2S_CONFIGURE :: id where "K_SYSCALL_I2S_CONFIGURE = 112"
definition K_SYSCALL_I2S_TRIGGER :: id where "K_SYSCALL_I2S_TRIGGER = 113"
definition K_SYSCALL_IPM_MAX_DATA_SIZE_GET :: id where "K_SYSCALL_IPM_MAX_DATA_SIZE_GET = 114"
definition K_SYSCALL_IPM_MAX_ID_VAL_GET :: id where "K_SYSCALL_IPM_MAX_ID_VAL_GET = 115"
definition K_SYSCALL_IPM_SEND :: id where "K_SYSCALL_IPM_SEND = 116"
definition K_SYSCALL_IPM_SET_ENABLED :: id where "K_SYSCALL_IPM_SET_ENABLED = 117"
definition K_SYSCALL_IVSHMEM_GET_ID :: id where "K_SYSCALL_IVSHMEM_GET_ID = 118"
definition K_SYSCALL_IVSHMEM_GET_MEM :: id where "K_SYSCALL_IVSHMEM_GET_MEM = 119"
definition K_SYSCALL_IVSHMEM_GET_VECTORS :: id where "K_SYSCALL_IVSHMEM_GET_VECTORS = 120"
definition K_SYSCALL_IVSHMEM_INT_PEER :: id where "K_SYSCALL_IVSHMEM_INT_PEER = 121"
definition K_SYSCALL_IVSHMEM_REGISTER_HANDLER :: id where "K_SYSCALL_IVSHMEM_REGISTER_HANDLER = 122"
definition K_SYSCALL_KSCAN_CONFIG :: id where "K_SYSCALL_KSCAN_CONFIG = 123"
definition K_SYSCALL_KSCAN_DISABLE_CALLBACK :: id where "K_SYSCALL_KSCAN_DISABLE_CALLBACK = 124"
definition K_SYSCALL_KSCAN_ENABLE_CALLBACK :: id where "K_SYSCALL_KSCAN_ENABLE_CALLBACK = 125"
definition K_SYSCALL_K_BUSY_WAIT :: id where "K_SYSCALL_K_BUSY_WAIT = 126"
definition K_SYSCALL_K_CONDVAR_BROADCAST :: id where "K_SYSCALL_K_CONDVAR_BROADCAST = 127"
definition K_SYSCALL_K_CONDVAR_INIT :: id where "K_SYSCALL_K_CONDVAR_INIT = 128"
definition K_SYSCALL_K_CONDVAR_SIGNAL :: id where "K_SYSCALL_K_CONDVAR_SIGNAL = 129"
definition K_SYSCALL_K_CONDVAR_WAIT :: id where "K_SYSCALL_K_CONDVAR_WAIT = 130"
definition K_SYSCALL_K_EVENT_INIT :: id where "K_SYSCALL_K_EVENT_INIT = 131"
definition K_SYSCALL_K_EVENT_POST :: id where "K_SYSCALL_K_EVENT_POST = 132"
definition K_SYSCALL_K_EVENT_SET :: id where "K_SYSCALL_K_EVENT_SET = 133"
definition K_SYSCALL_K_EVENT_WAIT :: id where "K_SYSCALL_K_EVENT_WAIT = 134"
definition K_SYSCALL_K_EVENT_WAIT_ALL :: id where "K_SYSCALL_K_EVENT_WAIT_ALL = 135"
definition K_SYSCALL_K_FLOAT_DISABLE :: id where "K_SYSCALL_K_FLOAT_DISABLE = 136"
definition K_SYSCALL_K_FLOAT_ENABLE :: id where "K_SYSCALL_K_FLOAT_ENABLE = 137"
definition K_SYSCALL_K_FUTEX_WAIT :: id where "K_SYSCALL_K_FUTEX_WAIT = 138"
definition K_SYSCALL_K_FUTEX_WAKE :: id where "K_SYSCALL_K_FUTEX_WAKE = 139"
definition K_SYSCALL_K_IS_PREEMPT_THREAD :: id where "K_SYSCALL_K_IS_PREEMPT_THREAD = 140"
definition K_SYSCALL_K_MEM_PAGING_HISTOGRAM_BACKING_STORE_PAGE_IN_GET :: id where "K_SYSCALL_K_MEM_PAGING_HISTOGRAM_BACKING_STORE_PAGE_IN_GET = 141"
definition K_SYSCALL_K_MEM_PAGING_HISTOGRAM_BACKING_STORE_PAGE_OUT_GET :: id where "K_SYSCALL_K_MEM_PAGING_HISTOGRAM_BACKING_STORE_PAGE_OUT_GET = 142"
definition K_SYSCALL_K_MEM_PAGING_HISTOGRAM_EVICTION_GET :: id where "K_SYSCALL_K_MEM_PAGING_HISTOGRAM_EVICTION_GET = 143"
definition K_SYSCALL_K_MEM_PAGING_STATS_GET :: id where "K_SYSCALL_K_MEM_PAGING_STATS_GET = 144"
definition K_SYSCALL_K_MEM_PAGING_THREAD_STATS_GET :: id where "K_SYSCALL_K_MEM_PAGING_THREAD_STATS_GET = 145"
definition K_SYSCALL_K_MSGQ_ALLOC_INIT :: id where "K_SYSCALL_K_MSGQ_ALLOC_INIT = 146"
definition K_SYSCALL_K_MSGQ_GET :: id where "K_SYSCALL_K_MSGQ_GET = 147"
definition K_SYSCALL_K_MSGQ_GET_ATTRS :: id where "K_SYSCALL_K_MSGQ_GET_ATTRS = 148"
definition K_SYSCALL_K_MSGQ_NUM_FREE_GET :: id where "K_SYSCALL_K_MSGQ_NUM_FREE_GET = 149"
definition K_SYSCALL_K_MSGQ_NUM_USED_GET :: id where "K_SYSCALL_K_MSGQ_NUM_USED_GET = 150"
definition K_SYSCALL_K_MSGQ_PEEK :: id where "K_SYSCALL_K_MSGQ_PEEK = 151"
definition K_SYSCALL_K_MSGQ_PURGE :: id where "K_SYSCALL_K_MSGQ_PURGE = 152"
definition K_SYSCALL_K_MSGQ_PUT :: id where "K_SYSCALL_K_MSGQ_PUT = 153"
definition K_SYSCALL_K_MUTEX_INIT :: id where "K_SYSCALL_K_MUTEX_INIT = 154"
definition K_SYSCALL_K_MUTEX_LOCK :: id where "K_SYSCALL_K_MUTEX_LOCK = 155"
definition K_SYSCALL_K_MUTEX_UNLOCK :: id where "K_SYSCALL_K_MUTEX_UNLOCK = 156"
definition K_SYSCALL_K_OBJECT_ACCESS_GRANT :: id where "K_SYSCALL_K_OBJECT_ACCESS_GRANT = 157"
definition K_SYSCALL_K_OBJECT_ALLOC :: id where "K_SYSCALL_K_OBJECT_ALLOC = 158"
definition K_SYSCALL_K_OBJECT_RELEASE :: id where "K_SYSCALL_K_OBJECT_RELEASE = 159"
definition K_SYSCALL_K_PIPE_ALLOC_INIT :: id where "K_SYSCALL_K_PIPE_ALLOC_INIT = 160"
definition K_SYSCALL_K_PIPE_GET :: id where "K_SYSCALL_K_PIPE_GET = 161"
definition K_SYSCALL_K_PIPE_PUT :: id where "K_SYSCALL_K_PIPE_PUT = 162"
definition K_SYSCALL_K_PIPE_READ_AVAIL :: id where "K_SYSCALL_K_PIPE_READ_AVAIL = 163"
definition K_SYSCALL_K_PIPE_WRITE_AVAIL :: id where "K_SYSCALL_K_PIPE_WRITE_AVAIL = 164"
definition K_SYSCALL_K_POLL :: id where "K_SYSCALL_K_POLL = 165"
definition K_SYSCALL_K_POLL_SIGNAL_CHECK :: id where "K_SYSCALL_K_POLL_SIGNAL_CHECK = 166"
definition K_SYSCALL_K_POLL_SIGNAL_INIT :: id where "K_SYSCALL_K_POLL_SIGNAL_INIT = 167"
definition K_SYSCALL_K_POLL_SIGNAL_RAISE :: id where "K_SYSCALL_K_POLL_SIGNAL_RAISE = 168"
definition K_SYSCALL_K_POLL_SIGNAL_RESET :: id where "K_SYSCALL_K_POLL_SIGNAL_RESET = 169"
definition K_SYSCALL_K_QUEUE_ALLOC_APPEND :: id where "K_SYSCALL_K_QUEUE_ALLOC_APPEND = 170"
definition K_SYSCALL_K_QUEUE_ALLOC_PREPEND :: id where "K_SYSCALL_K_QUEUE_ALLOC_PREPEND = 171"
definition K_SYSCALL_K_QUEUE_CANCEL_WAIT :: id where "K_SYSCALL_K_QUEUE_CANCEL_WAIT = 172"
definition K_SYSCALL_K_QUEUE_GET :: id where "K_SYSCALL_K_QUEUE_GET = 173"
definition K_SYSCALL_K_QUEUE_INIT :: id where "K_SYSCALL_K_QUEUE_INIT = 174"
definition K_SYSCALL_K_QUEUE_IS_EMPTY :: id where "K_SYSCALL_K_QUEUE_IS_EMPTY = 175"
definition K_SYSCALL_K_QUEUE_PEEK_HEAD :: id where "K_SYSCALL_K_QUEUE_PEEK_HEAD = 176"
definition K_SYSCALL_K_QUEUE_PEEK_TAIL :: id where "K_SYSCALL_K_QUEUE_PEEK_TAIL = 177"
definition K_SYSCALL_K_SEM_COUNT_GET :: id where "K_SYSCALL_K_SEM_COUNT_GET = 178"
definition K_SYSCALL_K_SEM_GIVE :: id where "K_SYSCALL_K_SEM_GIVE = 179"
definition K_SYSCALL_K_SEM_INIT :: id where "K_SYSCALL_K_SEM_INIT = 180"
definition K_SYSCALL_K_SEM_RESET :: id where "K_SYSCALL_K_SEM_RESET = 181"
definition K_SYSCALL_K_SEM_TAKE :: id where "K_SYSCALL_K_SEM_TAKE = 182"
definition K_SYSCALL_K_SLEEP :: id where "K_SYSCALL_K_SLEEP = 183"
definition K_SYSCALL_K_STACK_ALLOC_INIT :: id where "K_SYSCALL_K_STACK_ALLOC_INIT = 184"
definition K_SYSCALL_K_STACK_POP :: id where "K_SYSCALL_K_STACK_POP = 185"
definition K_SYSCALL_K_STACK_PUSH :: id where "K_SYSCALL_K_STACK_PUSH = 186"
definition K_SYSCALL_K_STR_OUT :: id where "K_SYSCALL_K_STR_OUT = 187"
definition K_SYSCALL_K_THREAD_ABORT :: id where "K_SYSCALL_K_THREAD_ABORT = 188"
definition K_SYSCALL_K_THREAD_CREATE :: id where "K_SYSCALL_K_THREAD_CREATE = 189"
definition K_SYSCALL_K_THREAD_CUSTOM_DATA_GET :: id where "K_SYSCALL_K_THREAD_CUSTOM_DATA_GET = 190"
definition K_SYSCALL_K_THREAD_CUSTOM_DATA_SET :: id where "K_SYSCALL_K_THREAD_CUSTOM_DATA_SET = 191"
definition K_SYSCALL_K_THREAD_DEADLINE_SET :: id where "K_SYSCALL_K_THREAD_DEADLINE_SET = 192"
definition K_SYSCALL_K_THREAD_JOIN :: id where "K_SYSCALL_K_THREAD_JOIN = 193"
definition K_SYSCALL_K_THREAD_NAME_COPY :: id where "K_SYSCALL_K_THREAD_NAME_COPY = 194"
definition K_SYSCALL_K_THREAD_NAME_SET :: id where "K_SYSCALL_K_THREAD_NAME_SET = 195"
definition K_SYSCALL_K_THREAD_PRIORITY_GET :: id where "K_SYSCALL_K_THREAD_PRIORITY_GET = 196"
definition K_SYSCALL_K_THREAD_PRIORITY_SET :: id where "K_SYSCALL_K_THREAD_PRIORITY_SET = 197"
definition K_SYSCALL_K_THREAD_RESUME :: id where "K_SYSCALL_K_THREAD_RESUME = 198"
definition K_SYSCALL_K_THREAD_STACK_SPACE_GET :: id where "K_SYSCALL_K_THREAD_STACK_SPACE_GET = 199"
definition K_SYSCALL_K_THREAD_START :: id where "K_SYSCALL_K_THREAD_START = 200"
definition K_SYSCALL_K_THREAD_SUSPEND :: id where "K_SYSCALL_K_THREAD_SUSPEND = 201"
definition K_SYSCALL_K_THREAD_TIMEOUT_EXPIRES_TICKS :: id where "K_SYSCALL_K_THREAD_TIMEOUT_EXPIRES_TICKS = 202"
definition K_SYSCALL_K_THREAD_TIMEOUT_REMAINING_TICKS :: id where "K_SYSCALL_K_THREAD_TIMEOUT_REMAINING_TICKS = 203"
definition K_SYSCALL_K_TIMER_EXPIRES_TICKS :: id where "K_SYSCALL_K_TIMER_EXPIRES_TICKS = 204"
definition K_SYSCALL_K_TIMER_REMAINING_TICKS :: id where "K_SYSCALL_K_TIMER_REMAINING_TICKS = 205"
definition K_SYSCALL_K_TIMER_START :: id where "K_SYSCALL_K_TIMER_START = 206"
definition K_SYSCALL_K_TIMER_STATUS_GET :: id where "K_SYSCALL_K_TIMER_STATUS_GET = 207"
definition K_SYSCALL_K_TIMER_STATUS_SYNC :: id where "K_SYSCALL_K_TIMER_STATUS_SYNC = 208"
definition K_SYSCALL_K_TIMER_STOP :: id where "K_SYSCALL_K_TIMER_STOP = 209"
definition K_SYSCALL_K_TIMER_USER_DATA_GET :: id where "K_SYSCALL_K_TIMER_USER_DATA_GET = 210"
definition K_SYSCALL_K_TIMER_USER_DATA_SET :: id where "K_SYSCALL_K_TIMER_USER_DATA_SET = 211"
definition K_SYSCALL_K_UPTIME_TICKS :: id where "K_SYSCALL_K_UPTIME_TICKS = 212"
definition K_SYSCALL_K_USLEEP :: id where "K_SYSCALL_K_USLEEP = 213"
definition K_SYSCALL_K_WAKEUP :: id where "K_SYSCALL_K_WAKEUP = 214"
definition K_SYSCALL_K_YIELD :: id where "K_SYSCALL_K_YIELD = 215"
definition K_SYSCALL_LED_BLINK :: id where "K_SYSCALL_LED_BLINK = 216"
definition K_SYSCALL_LED_GET_INFO :: id where "K_SYSCALL_LED_GET_INFO = 217"
definition K_SYSCALL_LED_OFF :: id where "K_SYSCALL_LED_OFF = 218"
definition K_SYSCALL_LED_ON :: id where "K_SYSCALL_LED_ON = 219"
definition K_SYSCALL_LED_SET_BRIGHTNESS :: id where "K_SYSCALL_LED_SET_BRIGHTNESS = 220"
definition K_SYSCALL_LED_SET_CHANNEL :: id where "K_SYSCALL_LED_SET_CHANNEL = 221"
definition K_SYSCALL_LED_SET_COLOR :: id where "K_SYSCALL_LED_SET_COLOR = 222"
definition K_SYSCALL_LED_WRITE_CHANNELS :: id where "K_SYSCALL_LED_WRITE_CHANNELS = 223"
definition K_SYSCALL_LOG_BUFFERED_CNT :: id where "K_SYSCALL_LOG_BUFFERED_CNT = 224"
definition K_SYSCALL_LOG_FILTER_SET :: id where "K_SYSCALL_LOG_FILTER_SET = 225"
definition K_SYSCALL_LOG_PANIC :: id where "K_SYSCALL_LOG_PANIC = 226"
definition K_SYSCALL_LOG_PROCESS :: id where "K_SYSCALL_LOG_PROCESS = 227"
definition K_SYSCALL_MAXIM_DS3231_GET_SYNCPOINT :: id where "K_SYSCALL_MAXIM_DS3231_GET_SYNCPOINT = 228"
definition K_SYSCALL_MAXIM_DS3231_REQ_SYNCPOINT :: id where "K_SYSCALL_MAXIM_DS3231_REQ_SYNCPOINT = 229"
definition K_SYSCALL_MBOX_MAX_CHANNELS_GET :: id where "K_SYSCALL_MBOX_MAX_CHANNELS_GET = 230"
definition K_SYSCALL_MBOX_MTU_GET :: id where "K_SYSCALL_MBOX_MTU_GET = 231"
definition K_SYSCALL_MBOX_SEND :: id where "K_SYSCALL_MBOX_SEND = 232"
definition K_SYSCALL_MBOX_SET_ENABLED :: id where "K_SYSCALL_MBOX_SET_ENABLED = 233"
definition K_SYSCALL_MDIO_BUS_DISABLE :: id where "K_SYSCALL_MDIO_BUS_DISABLE = 234"
definition K_SYSCALL_MDIO_BUS_ENABLE :: id where "K_SYSCALL_MDIO_BUS_ENABLE = 235"
definition K_SYSCALL_MDIO_READ :: id where "K_SYSCALL_MDIO_READ = 236"
definition K_SYSCALL_MDIO_WRITE :: id where "K_SYSCALL_MDIO_WRITE = 237"
definition K_SYSCALL_NET_ADDR_NTOP :: id where "K_SYSCALL_NET_ADDR_NTOP = 238"
definition K_SYSCALL_NET_ADDR_PTON :: id where "K_SYSCALL_NET_ADDR_PTON = 239"
definition K_SYSCALL_NET_ETH_GET_PTP_CLOCK_BY_INDEX :: id where "K_SYSCALL_NET_ETH_GET_PTP_CLOCK_BY_INDEX = 240"
definition K_SYSCALL_NET_IF_GET_BY_INDEX :: id where "K_SYSCALL_NET_IF_GET_BY_INDEX = 241"
definition K_SYSCALL_NET_IF_IPV4_ADDR_ADD_BY_INDEX :: id where "K_SYSCALL_NET_IF_IPV4_ADDR_ADD_BY_INDEX = 242"
definition K_SYSCALL_NET_IF_IPV4_ADDR_LOOKUP_BY_INDEX :: id where "K_SYSCALL_NET_IF_IPV4_ADDR_LOOKUP_BY_INDEX = 243"
definition K_SYSCALL_NET_IF_IPV4_ADDR_RM_BY_INDEX :: id where "K_SYSCALL_NET_IF_IPV4_ADDR_RM_BY_INDEX = 244"
definition K_SYSCALL_NET_IF_IPV4_SET_GW_BY_INDEX :: id where "K_SYSCALL_NET_IF_IPV4_SET_GW_BY_INDEX = 245"
definition K_SYSCALL_NET_IF_IPV4_SET_NETMASK_BY_INDEX :: id where "K_SYSCALL_NET_IF_IPV4_SET_NETMASK_BY_INDEX = 246"
definition K_SYSCALL_NET_IF_IPV6_ADDR_ADD_BY_INDEX :: id where "K_SYSCALL_NET_IF_IPV6_ADDR_ADD_BY_INDEX = 247"
definition K_SYSCALL_NET_IF_IPV6_ADDR_LOOKUP_BY_INDEX :: id where "K_SYSCALL_NET_IF_IPV6_ADDR_LOOKUP_BY_INDEX = 248"
definition K_SYSCALL_NET_IF_IPV6_ADDR_RM_BY_INDEX :: id where "K_SYSCALL_NET_IF_IPV6_ADDR_RM_BY_INDEX = 249"
definition K_SYSCALL_NRF_QSPI_NOR_BASE_CLOCK_DIV_FORCE :: id where "K_SYSCALL_NRF_QSPI_NOR_BASE_CLOCK_DIV_FORCE = 250"
definition K_SYSCALL_PECI_CONFIG :: id where "K_SYSCALL_PECI_CONFIG = 251"
definition K_SYSCALL_PECI_DISABLE :: id where "K_SYSCALL_PECI_DISABLE = 252"
definition K_SYSCALL_PECI_ENABLE :: id where "K_SYSCALL_PECI_ENABLE = 253"
definition K_SYSCALL_PECI_TRANSFER :: id where "K_SYSCALL_PECI_TRANSFER = 254"
definition K_SYSCALL_PHY_CONFIGURE_LINK :: id where "K_SYSCALL_PHY_CONFIGURE_LINK = 255"
definition K_SYSCALL_PHY_GET_LINK_STATE :: id where "K_SYSCALL_PHY_GET_LINK_STATE = 256"
definition K_SYSCALL_PHY_LINK_CALLBACK_SET :: id where "K_SYSCALL_PHY_LINK_CALLBACK_SET = 257"
definition K_SYSCALL_PHY_READ :: id where "K_SYSCALL_PHY_READ = 258"
definition K_SYSCALL_PHY_WRITE :: id where "K_SYSCALL_PHY_WRITE = 259"
definition K_SYSCALL_PS2_CONFIG :: id where "K_SYSCALL_PS2_CONFIG = 260"
definition K_SYSCALL_PS2_DISABLE_CALLBACK :: id where "K_SYSCALL_PS2_DISABLE_CALLBACK = 261"
definition K_SYSCALL_PS2_ENABLE_CALLBACK :: id where "K_SYSCALL_PS2_ENABLE_CALLBACK = 262"
definition K_SYSCALL_PS2_READ :: id where "K_SYSCALL_PS2_READ = 263"
definition K_SYSCALL_PS2_WRITE :: id where "K_SYSCALL_PS2_WRITE = 264"
definition K_SYSCALL_PTP_CLOCK_GET :: id where "K_SYSCALL_PTP_CLOCK_GET = 265"
definition K_SYSCALL_PWM_GET_CYCLES_PER_SEC :: id where "K_SYSCALL_PWM_GET_CYCLES_PER_SEC = 266"
definition K_SYSCALL_PWM_PIN_CAPTURE_CYCLES :: id where "K_SYSCALL_PWM_PIN_CAPTURE_CYCLES = 267"
definition K_SYSCALL_PWM_PIN_DISABLE_CAPTURE :: id where "K_SYSCALL_PWM_PIN_DISABLE_CAPTURE = 268"
definition K_SYSCALL_PWM_PIN_ENABLE_CAPTURE :: id where "K_SYSCALL_PWM_PIN_ENABLE_CAPTURE = 269"
definition K_SYSCALL_PWM_PIN_SET_CYCLES :: id where "K_SYSCALL_PWM_PIN_SET_CYCLES = 270"
definition K_SYSCALL_SENSOR_ATTR_GET :: id where "K_SYSCALL_SENSOR_ATTR_GET = 271"
definition K_SYSCALL_SENSOR_ATTR_SET :: id where "K_SYSCALL_SENSOR_ATTR_SET = 272"
definition K_SYSCALL_SENSOR_CHANNEL_GET :: id where "K_SYSCALL_SENSOR_CHANNEL_GET = 273"
definition K_SYSCALL_SENSOR_SAMPLE_FETCH :: id where "K_SYSCALL_SENSOR_SAMPLE_FETCH = 274"
definition K_SYSCALL_SENSOR_SAMPLE_FETCH_CHAN :: id where "K_SYSCALL_SENSOR_SAMPLE_FETCH_CHAN = 275"
definition K_SYSCALL_SPI_RELEASE :: id where "K_SYSCALL_SPI_RELEASE = 276"
definition K_SYSCALL_SPI_TRANSCEIVE :: id where "K_SYSCALL_SPI_TRANSCEIVE = 277"
definition K_SYSCALL_SYSCON_GET_BASE :: id where "K_SYSCALL_SYSCON_GET_BASE = 278"
definition K_SYSCALL_SYSCON_GET_SIZE :: id where "K_SYSCALL_SYSCON_GET_SIZE = 279"
definition K_SYSCALL_SYSCON_READ_REG :: id where "K_SYSCALL_SYSCON_READ_REG = 280"
definition K_SYSCALL_SYSCON_WRITE_REG :: id where "K_SYSCALL_SYSCON_WRITE_REG = 281"
definition K_SYSCALL_SYS_CACHE_DATA_ALL :: id where "K_SYSCALL_SYS_CACHE_DATA_ALL = 282"
definition K_SYSCALL_SYS_CACHE_DATA_RANGE :: id where "K_SYSCALL_SYS_CACHE_DATA_RANGE = 283"
definition K_SYSCALL_SYS_CACHE_INSTR_ALL :: id where "K_SYSCALL_SYS_CACHE_INSTR_ALL = 284"
definition K_SYSCALL_SYS_CACHE_INSTR_RANGE :: id where "K_SYSCALL_SYS_CACHE_INSTR_RANGE = 285"
definition K_SYSCALL_SYS_CLOCK_HW_CYCLES_PER_SEC_RUNTIME_GET :: id where "K_SYSCALL_SYS_CLOCK_HW_CYCLES_PER_SEC_RUNTIME_GET = 286"
definition K_SYSCALL_SYS_CSRAND_GET :: id where "K_SYSCALL_SYS_CSRAND_GET = 287"
definition K_SYSCALL_SYS_RAND32_GET :: id where "K_SYSCALL_SYS_RAND32_GET = 288"
definition K_SYSCALL_SYS_RAND_GET :: id where "K_SYSCALL_SYS_RAND_GET = 289"
definition K_SYSCALL_UART_CONFIGURE :: id where "K_SYSCALL_UART_CONFIGURE = 290"
definition K_SYSCALL_UART_CONFIG_GET :: id where "K_SYSCALL_UART_CONFIG_GET = 291"
definition K_SYSCALL_UART_DRV_CMD :: id where "K_SYSCALL_UART_DRV_CMD = 292"
definition K_SYSCALL_UART_ERR_CHECK :: id where "K_SYSCALL_UART_ERR_CHECK = 293"
definition K_SYSCALL_UART_IRQ_ERR_DISABLE :: id where "K_SYSCALL_UART_IRQ_ERR_DISABLE = 294"
definition K_SYSCALL_UART_IRQ_ERR_ENABLE :: id where "K_SYSCALL_UART_IRQ_ERR_ENABLE = 295"
definition K_SYSCALL_UART_IRQ_IS_PENDING :: id where "K_SYSCALL_UART_IRQ_IS_PENDING = 296"
definition K_SYSCALL_UART_IRQ_RX_DISABLE :: id where "K_SYSCALL_UART_IRQ_RX_DISABLE = 297"
definition K_SYSCALL_UART_IRQ_RX_ENABLE :: id where "K_SYSCALL_UART_IRQ_RX_ENABLE = 298"
definition K_SYSCALL_UART_IRQ_TX_DISABLE :: id where "K_SYSCALL_UART_IRQ_TX_DISABLE = 299"
definition K_SYSCALL_UART_IRQ_TX_ENABLE :: id where "K_SYSCALL_UART_IRQ_TX_ENABLE = 300"
definition K_SYSCALL_UART_IRQ_UPDATE :: id where "K_SYSCALL_UART_IRQ_UPDATE = 301"
definition K_SYSCALL_UART_LINE_CTRL_GET :: id where "K_SYSCALL_UART_LINE_CTRL_GET = 302"
definition K_SYSCALL_UART_LINE_CTRL_SET :: id where "K_SYSCALL_UART_LINE_CTRL_SET = 303"
definition K_SYSCALL_UART_MUX_FIND :: id where "K_SYSCALL_UART_MUX_FIND = 304"
definition K_SYSCALL_UART_POLL_IN :: id where "K_SYSCALL_UART_POLL_IN = 305"
definition K_SYSCALL_UART_POLL_IN_U16 :: id where "K_SYSCALL_UART_POLL_IN_U16 = 306"
definition K_SYSCALL_UART_POLL_OUT :: id where "K_SYSCALL_UART_POLL_OUT = 307"
definition K_SYSCALL_UART_POLL_OUT_U16 :: id where "K_SYSCALL_UART_POLL_OUT_U16 = 308"
definition K_SYSCALL_UART_RX_DISABLE :: id where "K_SYSCALL_UART_RX_DISABLE = 309"
definition K_SYSCALL_UART_RX_ENABLE :: id where "K_SYSCALL_UART_RX_ENABLE = 310"
definition K_SYSCALL_UART_RX_ENABLE_U16 :: id where "K_SYSCALL_UART_RX_ENABLE_U16 = 311"
definition K_SYSCALL_UART_TX :: id where "K_SYSCALL_UART_TX = 312"
definition K_SYSCALL_UART_TX_ABORT :: id where "K_SYSCALL_UART_TX_ABORT = 313"
definition K_SYSCALL_UART_TX_U16 :: id where "K_SYSCALL_UART_TX_U16 = 314"
definition K_SYSCALL_USER_FAULT :: id where "K_SYSCALL_USER_FAULT = 315"
definition K_SYSCALL_WDT_DISABLE :: id where "K_SYSCALL_WDT_DISABLE = 316"
definition K_SYSCALL_WDT_FEED :: id where "K_SYSCALL_WDT_FEED = 317"
definition K_SYSCALL_WDT_SETUP :: id where "K_SYSCALL_WDT_SETUP = 318"
definition K_SYSCALL_ZEPHYR_FPUTC :: id where "K_SYSCALL_ZEPHYR_FPUTC = 319"
definition K_SYSCALL_ZEPHYR_FWRITE :: id where "K_SYSCALL_ZEPHYR_FWRITE = 320"
definition K_SYSCALL_ZEPHYR_READ_STDIN :: id where "K_SYSCALL_ZEPHYR_READ_STDIN = 321"
definition K_SYSCALL_ZEPHYR_WRITE_STDOUT :: id where "K_SYSCALL_ZEPHYR_WRITE_STDOUT = 322"
definition K_SYSCALL_ZSOCK_ACCEPT :: id where "K_SYSCALL_ZSOCK_ACCEPT = 323"
definition K_SYSCALL_ZSOCK_BIND :: id where "K_SYSCALL_ZSOCK_BIND = 324"
definition K_SYSCALL_ZSOCK_CLOSE :: id where "K_SYSCALL_ZSOCK_CLOSE = 325"
definition K_SYSCALL_ZSOCK_CONNECT :: id where "K_SYSCALL_ZSOCK_CONNECT = 326"
definition K_SYSCALL_ZSOCK_FCNTL :: id where "K_SYSCALL_ZSOCK_FCNTL = 327"
definition K_SYSCALL_ZSOCK_GETHOSTNAME :: id where "K_SYSCALL_ZSOCK_GETHOSTNAME = 328"
definition K_SYSCALL_ZSOCK_GETSOCKNAME :: id where "K_SYSCALL_ZSOCK_GETSOCKNAME = 329"
definition K_SYSCALL_ZSOCK_GETSOCKOPT :: id where "K_SYSCALL_ZSOCK_GETSOCKOPT = 330"
definition K_SYSCALL_ZSOCK_GET_CONTEXT_OBJECT :: id where "K_SYSCALL_ZSOCK_GET_CONTEXT_OBJECT = 331"
definition K_SYSCALL_ZSOCK_INET_PTON :: id where "K_SYSCALL_ZSOCK_INET_PTON = 332"
definition K_SYSCALL_ZSOCK_LISTEN :: id where "K_SYSCALL_ZSOCK_LISTEN = 333"
definition K_SYSCALL_ZSOCK_POLL :: id where "K_SYSCALL_ZSOCK_POLL = 334"
definition K_SYSCALL_ZSOCK_RECVFROM :: id where "K_SYSCALL_ZSOCK_RECVFROM = 335"
definition K_SYSCALL_ZSOCK_SELECT :: id where "K_SYSCALL_ZSOCK_SELECT = 336"
definition K_SYSCALL_ZSOCK_SENDMSG :: id where "K_SYSCALL_ZSOCK_SENDMSG = 337"
definition K_SYSCALL_ZSOCK_SENDTO :: id where "K_SYSCALL_ZSOCK_SENDTO = 338"
definition K_SYSCALL_ZSOCK_SETSOCKOPT :: id where "K_SYSCALL_ZSOCK_SETSOCKOPT = 339"
definition K_SYSCALL_ZSOCK_SHUTDOWN :: id where "K_SYSCALL_ZSOCK_SHUTDOWN = 340"
definition K_SYSCALL_ZSOCK_SOCKET :: id where "K_SYSCALL_ZSOCK_SOCKET = 341"
definition K_SYSCALL_ZSOCK_SOCKETPAIR :: id where "K_SYSCALL_ZSOCK_SOCKETPAIR = 342"
definition K_SYSCALL_Z_CURRENT_GET :: id where "K_SYSCALL_Z_CURRENT_GET = 343"
definition K_SYSCALL_Z_ERRNO :: id where "K_SYSCALL_Z_ERRNO = 344"
definition K_SYSCALL_Z_LOG_HEXDUMP_FROM_USER :: id where "K_SYSCALL_Z_LOG_HEXDUMP_FROM_USER = 345"
definition K_SYSCALL_Z_LOG_MSG2_RUNTIME_VCREATE :: id where "K_SYSCALL_Z_LOG_MSG2_RUNTIME_VCREATE = 346"
definition K_SYSCALL_Z_LOG_MSG2_STATIC_CREATE :: id where "K_SYSCALL_Z_LOG_MSG2_STATIC_CREATE = 347"
definition K_SYSCALL_Z_LOG_STRING_FROM_USER :: id where "K_SYSCALL_Z_LOG_STRING_FROM_USER = 348"
definition K_SYSCALL_Z_SYS_MUTEX_KERNEL_LOCK :: id where "K_SYSCALL_Z_SYS_MUTEX_KERNEL_LOCK = 349"
definition K_SYSCALL_Z_SYS_MUTEX_KERNEL_UNLOCK :: id where "K_SYSCALL_Z_SYS_MUTEX_KERNEL_UNLOCK = 350"
definition K_SYSCALL_Z_ZSOCK_GETADDRINFO_INTERNAL :: id where "K_SYSCALL_Z_ZSOCK_GETADDRINFO_INTERNAL = 351"
definition K_SYSCALL_BAD :: id where "K_SYSCALL_BAD = 352"
definition K_SYSCALL_LIMIT :: id where "K_SYSCALL_LIMIT = 353"

section \<open>syscall_dispatch.c\<close>

definition weak_handlers_0 :: "string list" where
  "weak_handlers_0 = [
    ''z_mrsh_sys_cache_data_all'', ''z_mrsh_sys_cache_data_range'', ''z_mrsh_sys_cache_instr_all'',
    ''z_mrsh_sys_cache_instr_range'', ''z_mrsh_device_get_binding'', ''z_mrsh_device_usable_check'',
    ''z_mrsh_k_thread_create'', ''z_mrsh_k_thread_stack_space_get'', ''z_mrsh_k_thread_join'',
    ''z_mrsh_k_sleep'', ''z_mrsh_k_usleep'', ''z_mrsh_k_busy_wait'', ''z_mrsh_k_yield'', ''z_mrsh_k_wakeup'',
    ''z_mrsh_z_current_get'', ''z_mrsh_k_thread_abort'', ''z_mrsh_k_thread_start'',
    ''z_mrsh_k_thread_timeout_expires_ticks'', ''z_mrsh_k_thread_timeout_remaining_ticks'',
    ''z_mrsh_k_thread_priority_get'', ''z_mrsh_k_thread_priority_set'', ''z_mrsh_k_thread_deadline_set'',
    ''z_mrsh_k_thread_suspend'', ''z_mrsh_k_thread_resume'', ''z_mrsh_k_is_preempt_thread'',
    ''z_mrsh_k_thread_custom_data_set'', ''z_mrsh_k_thread_custom_data_get'', ''z_mrsh_k_thread_name_set'',
    ''z_mrsh_k_thread_name_copy'', ''z_mrsh_k_timer_start'', ''z_mrsh_k_timer_stop'',
    ''z_mrsh_k_timer_status_get'', ''z_mrsh_k_timer_status_sync'', ''z_mrsh_k_timer_expires_ticks'',
    ''z_mrsh_k_timer_remaining_ticks'', ''z_mrsh_k_timer_user_data_set'', ''z_mrsh_k_timer_user_data_get'']"

definition weak_handlers_1 :: "string list" where
  "weak_handlers_1 = [
    ''z_mrsh_k_uptime_ticks'', ''z_mrsh_k_queue_init'', ''z_mrsh_k_queue_cancel_wait'',
    ''z_mrsh_k_queue_alloc_append'', ''z_mrsh_k_queue_alloc_prepend'', ''z_mrsh_k_queue_get'',
    ''z_mrsh_k_queue_is_empty'', ''z_mrsh_k_queue_peek_head'', ''z_mrsh_k_queue_peek_tail'',
    ''z_mrsh_k_futex_wait'', ''z_mrsh_k_futex_wake'', ''z_mrsh_k_event_init'', ''z_mrsh_k_event_post'',
    ''z_mrsh_k_event_set'', ''z_mrsh_k_event_wait'', ''z_mrsh_k_event_wait_all'',
    ''z_mrsh_k_stack_alloc_init'', ''z_mrsh_k_stack_push'', ''z_mrsh_k_stack_pop'', ''z_mrsh_k_mutex_init'',
    ''z_mrsh_k_mutex_lock'', ''z_mrsh_k_mutex_unlock'', ''z_mrsh_k_condvar_init'',
    ''z_mrsh_k_condvar_signal'', ''z_mrsh_k_condvar_broadcast'', ''z_mrsh_k_condvar_wait'',
    ''z_mrsh_k_sem_init'', ''z_mrsh_k_sem_take'', ''z_mrsh_k_sem_give'', ''z_mrsh_k_sem_reset'',
    ''z_mrsh_k_sem_count_get'', ''z_mrsh_k_msgq_alloc_init'', ''z_mrsh_k_msgq_put'', ''z_mrsh_k_msgq_get'',
    ''z_mrsh_k_msgq_peek'', ''z_mrsh_k_msgq_purge'', ''z_mrsh_k_msgq_num_free_get'']"

definition weak_handlers_2 :: "string list" where
  "weak_handlers_2 = [
    ''z_mrsh_k_msgq_get_attrs'', ''z_mrsh_k_msgq_num_used_get'', ''z_mrsh_k_pipe_alloc_init'',
    ''z_mrsh_k_pipe_put'', ''z_mrsh_k_pipe_get'', ''z_mrsh_k_pipe_read_avail'',
    ''z_mrsh_k_pipe_write_avail'', ''z_mrsh_k_poll'', ''z_mrsh_k_poll_signal_init'',
    ''z_mrsh_k_poll_signal_reset'', ''z_mrsh_k_poll_signal_check'', ''z_mrsh_k_poll_signal_raise'',
    ''z_mrsh_k_str_out'', ''z_mrsh_k_float_disable'', ''z_mrsh_k_float_enable'', ''z_mrsh_user_fault'',
    ''z_mrsh_adc_channel_setup'', ''z_mrsh_adc_read'', ''z_mrsh_adc_read_async'',
    ''z_mrsh_bbram_check_invalid'', ''z_mrsh_bbram_check_standby_power'', ''z_mrsh_bbram_check_power'',
    ''z_mrsh_bbram_get_size'', ''z_mrsh_bbram_read'', ''z_mrsh_bbram_write'', ''z_mrsh_can_get_core_clock'',
    ''z_mrsh_can_set_timing'', ''z_mrsh_can_set_mode'', ''z_mrsh_can_send'', ''z_mrsh_can_attach_msgq'',
    ''z_mrsh_can_detach'', ''z_mrsh_can_get_max_filters'', ''z_mrsh_can_get_state'', ''z_mrsh_can_recover'',
    ''z_mrsh_counter_is_counting_up'', ''z_mrsh_counter_get_num_of_channels'',
    ''z_mrsh_counter_get_frequency'']"

definition weak_handlers_3 :: "string list" where
  "weak_handlers_3 = [
    ''z_mrsh_counter_us_to_ticks'', ''z_mrsh_counter_ticks_to_us'', ''z_mrsh_counter_get_max_top_value'',
    ''z_mrsh_counter_start'', ''z_mrsh_counter_stop'', ''z_mrsh_counter_get_value'',
    ''z_mrsh_counter_set_channel_alarm'', ''z_mrsh_counter_cancel_channel_alarm'',
    ''z_mrsh_counter_set_top_value'', ''z_mrsh_counter_get_pending_int'', ''z_mrsh_counter_get_top_value'',
    ''z_mrsh_counter_set_guard_period'', ''z_mrsh_counter_get_guard_period'', ''z_mrsh_dac_channel_setup'',
    ''z_mrsh_dac_write_value'', ''z_mrsh_dma_start'', ''z_mrsh_dma_stop'', ''z_mrsh_dma_request_channel'',
    ''z_mrsh_dma_release_channel'', ''z_mrsh_dma_chan_filter'', ''z_mrsh_ec_host_cmd_periph_init'',
    ''z_mrsh_ec_host_cmd_periph_send'', ''z_mrsh_eeprom_read'', ''z_mrsh_eeprom_write'',
    ''z_mrsh_eeprom_get_size'', ''z_mrsh_entropy_get_entropy'', ''z_mrsh_espi_config'',
    ''z_mrsh_espi_get_channel_status'', ''z_mrsh_espi_read_request'', ''z_mrsh_espi_write_request'',
    ''z_mrsh_espi_read_lpc_request'', ''z_mrsh_espi_write_lpc_request'', ''z_mrsh_espi_send_vwire'',
    ''z_mrsh_espi_receive_vwire'', ''z_mrsh_espi_send_oob'', ''z_mrsh_espi_receive_oob'',
    ''z_mrsh_espi_read_flash'']"

definition weak_handlers_4 :: "string list" where
  "weak_handlers_4 = [
    ''z_mrsh_espi_write_flash'', ''z_mrsh_espi_flash_erase'', ''z_mrsh_espi_saf_config'',
    ''z_mrsh_espi_saf_set_protection_regions'', ''z_mrsh_espi_saf_activate'',
    ''z_mrsh_espi_saf_get_channel_status'', ''z_mrsh_espi_saf_flash_read'', ''z_mrsh_espi_saf_flash_write'',
    ''z_mrsh_espi_saf_flash_erase'', ''z_mrsh_flash_read'', ''z_mrsh_flash_write'', ''z_mrsh_flash_erase'',
    ''z_mrsh_flash_write_protection_set'', ''z_mrsh_flash_get_page_info_by_offs'',
    ''z_mrsh_flash_get_page_info_by_idx'', ''z_mrsh_flash_get_page_count'', ''z_mrsh_flash_sfdp_read'',
    ''z_mrsh_flash_read_jedec_id'', ''z_mrsh_flash_get_write_block_size'', ''z_mrsh_flash_get_parameters'',
    ''z_mrsh_gpio_pin_interrupt_configure'', ''z_mrsh_gpio_pin_configure'', ''z_mrsh_gpio_port_get_raw'',
    ''z_mrsh_gpio_port_set_masked_raw'', ''z_mrsh_gpio_port_set_bits_raw'',
    ''z_mrsh_gpio_port_clear_bits_raw'', ''z_mrsh_gpio_port_toggle_bits'', ''z_mrsh_gpio_get_pending_int'',
    ''z_mrsh_hwinfo_get_device_id'', ''z_mrsh_hwinfo_get_reset_cause'', ''z_mrsh_hwinfo_clear_reset_cause'',
    ''z_mrsh_hwinfo_get_supported_reset_cause'', ''z_mrsh_i2c_configure'', ''z_mrsh_i2c_get_config'',
    ''z_mrsh_i2c_transfer'', ''z_mrsh_i2c_recover_bus'', ''z_mrsh_i2c_slave_driver_register'']"

definition weak_handlers_5 :: "string list" where
  "weak_handlers_5 = [
    ''z_mrsh_i2c_slave_driver_unregister'', ''z_mrsh_i2s_configure'', ''z_mrsh_i2s_buf_read'',
    ''z_mrsh_i2s_buf_write'', ''z_mrsh_i2s_trigger'', ''z_mrsh_ipm_send'', ''z_mrsh_ipm_max_data_size_get'',
    ''z_mrsh_ipm_max_id_val_get'', ''z_mrsh_ipm_set_enabled'', ''z_mrsh_kscan_config'',
    ''z_mrsh_kscan_enable_callback'', ''z_mrsh_kscan_disable_callback'', ''z_mrsh_led_blink'',
    ''z_mrsh_led_get_info'', ''z_mrsh_led_set_brightness'', ''z_mrsh_led_write_channels'',
    ''z_mrsh_led_set_channel'', ''z_mrsh_led_set_color'', ''z_mrsh_led_on'', ''z_mrsh_led_off'',
    ''z_mrsh_mbox_send'', ''z_mrsh_mbox_mtu_get'', ''z_mrsh_mbox_set_enabled'',
    ''z_mrsh_mbox_max_channels_get'', ''z_mrsh_mdio_bus_enable'', ''z_mrsh_mdio_bus_disable'',
    ''z_mrsh_mdio_read'', ''z_mrsh_mdio_write'', ''z_mrsh_peci_config'', ''z_mrsh_peci_enable'',
    ''z_mrsh_peci_disable'', ''z_mrsh_peci_transfer'', ''z_mrsh_ps2_config'', ''z_mrsh_ps2_write'',
    ''z_mrsh_ps2_read'', ''z_mrsh_ps2_enable_callback'', ''z_mrsh_ps2_disable_callback'']"

definition weak_handlers_6 :: "string list" where
  "weak_handlers_6 = [
    ''z_mrsh_ptp_clock_get'', ''z_mrsh_pwm_pin_set_cycles'', ''z_mrsh_pwm_pin_enable_capture'',
    ''z_mrsh_pwm_pin_disable_capture'', ''z_mrsh_pwm_pin_capture_cycles'', ''z_mrsh_pwm_get_cycles_per_sec'',
    ''z_mrsh_sensor_attr_set'', ''z_mrsh_sensor_attr_get'', ''z_mrsh_sensor_sample_fetch'',
    ''z_mrsh_sensor_sample_fetch_chan'', ''z_mrsh_sensor_channel_get'', ''z_mrsh_spi_transceive'',
    ''z_mrsh_spi_release'', ''z_mrsh_syscon_get_base'', ''z_mrsh_syscon_read_reg'',
    ''z_mrsh_syscon_write_reg'', ''z_mrsh_syscon_get_size'', ''z_mrsh_uart_tx'', ''z_mrsh_uart_tx_u16'',
    ''z_mrsh_uart_tx_abort'', ''z_mrsh_uart_rx_enable'', ''z_mrsh_uart_rx_enable_u16'',
    ''z_mrsh_uart_rx_disable'', ''z_mrsh_uart_err_check'', ''z_mrsh_uart_poll_in'',
    ''z_mrsh_uart_poll_in_u16'', ''z_mrsh_uart_poll_out'', ''z_mrsh_uart_poll_out_u16'',
    ''z_mrsh_uart_configure'', ''z_mrsh_uart_config_get'', ''z_mrsh_uart_irq_tx_enable'',
    ''z_mrsh_uart_irq_tx_disable'', ''z_mrsh_uart_irq_rx_enable'', ''z_mrsh_uart_irq_rx_disable'',
    ''z_mrsh_uart_irq_err_enable'', ''z_mrsh_uart_irq_err_disable'', ''z_mrsh_uart_irq_is_pending'']"

definition weak_handlers_7 :: "string list" where
  "weak_handlers_7 = [
    ''z_mrsh_uart_irq_update'', ''z_mrsh_uart_line_ctrl_set'', ''z_mrsh_uart_line_ctrl_get'',
    ''z_mrsh_uart_drv_cmd'', ''z_mrsh_wdt_setup'', ''z_mrsh_wdt_disable'', ''z_mrsh_wdt_feed'',
    ''z_mrsh_uart_mux_find'', ''z_mrsh_flash_simulator_get_memory'',
    ''z_mrsh_nrf_qspi_nor_base_clock_div_force'', ''z_mrsh_maxim_ds3231_req_syncpoint'',
    ''z_mrsh_maxim_ds3231_get_syncpoint'', ''z_mrsh_ivshmem_get_mem'', ''z_mrsh_ivshmem_get_id'',
    ''z_mrsh_ivshmem_get_vectors'', ''z_mrsh_ivshmem_int_peer'', ''z_mrsh_ivshmem_register_handler'',
    ''z_mrsh_z_log_string_from_user'', ''z_mrsh_z_log_hexdump_from_user'', ''z_mrsh_log_panic'',
    ''z_mrsh_log_process'', ''z_mrsh_log_buffered_cnt'', ''z_mrsh_log_filter_set'',
    ''z_mrsh_z_log_msg2_static_create'', ''z_mrsh_z_log_msg2_runtime_vcreate'',
    ''z_mrsh_net_eth_get_ptp_clock_by_index'', ''z_mrsh_net_if_ipv6_addr_lookup_by_index'',
    ''z_mrsh_net_if_ipv6_addr_add_by_index'', ''z_mrsh_net_if_ipv6_addr_rm_by_index'',
    ''z_mrsh_net_if_ipv4_addr_lookup_by_index'', ''z_mrsh_net_if_ipv4_addr_add_by_index'',
    ''z_mrsh_net_if_ipv4_addr_rm_by_index'', ''z_mrsh_net_if_ipv4_set_netmask_by_index'',
    ''z_mrsh_net_if_ipv4_set_gw_by_index'', ''z_mrsh_net_if_get_by_index'', ''z_mrsh_net_addr_pton'',
    ''z_mrsh_net_addr_ntop'']"

definition weak_handlers_8 :: "string list" where
  "weak_handlers_8 = [
    ''z_mrsh_phy_configure_link'', ''z_mrsh_phy_get_link_state'', ''z_mrsh_phy_link_callback_set'',
    ''z_mrsh_phy_read'', ''z_mrsh_phy_write'', ''z_mrsh_zsock_get_context_object'', ''z_mrsh_zsock_socket'',
    ''z_mrsh_zsock_socketpair'', ''z_mrsh_zsock_close'', ''z_mrsh_zsock_shutdown'', ''z_mrsh_zsock_bind'',
    ''z_mrsh_zsock_connect'', ''z_mrsh_zsock_listen'', ''z_mrsh_zsock_accept'', ''z_mrsh_zsock_sendto'',
    ''z_mrsh_zsock_sendmsg'', ''z_mrsh_zsock_recvfrom'', ''z_mrsh_zsock_fcntl'', ''z_mrsh_zsock_poll'',
    ''z_mrsh_zsock_getsockopt'', ''z_mrsh_zsock_setsockopt'', ''z_mrsh_zsock_getsockname'',
    ''z_mrsh_zsock_gethostname'', ''z_mrsh_zsock_inet_pton'', ''z_mrsh_z_zsock_getaddrinfo_internal'',
    ''z_mrsh_zsock_select'', ''z_mrsh_clock_gettime'', ''z_mrsh_sys_rand32_get'', ''z_mrsh_sys_rand_get'',
    ''z_mrsh_sys_csrand_get'', ''z_mrsh_atomic_cas'', ''z_mrsh_atomic_ptr_cas'', ''z_mrsh_atomic_add'',
    ''z_mrsh_atomic_sub'', ''z_mrsh_atomic_set'', ''z_mrsh_atomic_ptr_set'', ''z_mrsh_atomic_or'']"

definition weak_handlers_9 :: "string list" where
  "weak_handlers_9 = [
    ''z_mrsh_atomic_xor'', ''z_mrsh_atomic_and'', ''z_mrsh_atomic_nand'', ''z_mrsh_z_errno'',
    ''z_mrsh_zephyr_read_stdin'', ''z_mrsh_zephyr_write_stdout'', ''z_mrsh_zephyr_fputc'',
    ''z_mrsh_zephyr_fwrite'', ''z_mrsh_k_mem_paging_stats_get'', ''z_mrsh_k_mem_paging_thread_stats_get'',
    ''z_mrsh_k_mem_paging_histogram_eviction_get'',
    ''z_mrsh_k_mem_paging_histogram_backing_store_page_in_get'',
    ''z_mrsh_k_mem_paging_histogram_backing_store_page_out_get'', ''z_mrsh_z_sys_mutex_kernel_lock'',
    ''z_mrsh_z_sys_mutex_kernel_unlock'', ''z_mrsh_sys_clock_hw_cycles_per_sec_runtime_get'']"

definition weak_handlers :: "string list" where
  "weak_handlers = concat [
    weak_handlers_0, weak_handlers_1, weak_handlers_2, weak_handlers_3, weak_handlers_4, weak_handlers_5,
    weak_handlers_6, weak_handlers_7, weak_handlers_8, weak_handlers_9]"

definition extern_handlers :: "string list" where
  "extern_handlers = [
    ''z_mrsh_k_object_release'', ''z_mrsh_k_object_access_grant'', ''z_mrsh_k_object_alloc'']"

definition syscall_table_0 :: "(id \<times> string) list" where
  "syscall_table_0 = [
    (K_SYSCALL_SYS_CACHE_DATA_ALL, ''z_mrsh_sys_cache_data_all''),
    (K_SYSCALL_SYS_CACHE_DATA_RANGE, ''z_mrsh_sys_cache_data_range''),
    (K_SYSCALL_SYS_CACHE_INSTR_ALL, ''z_mrsh_sys_cache_instr_all''),
    (K_SYSCALL_SYS_CACHE_INSTR_RANGE, ''z_mrsh_sys_cache_instr_range''),
    (K_SYSCALL_DEVICE_GET_BINDING, ''z_mrsh_device_get_binding''),
    (K_SYSCALL_DEVICE_USABLE_CHECK, ''z_mrsh_device_usable_check''),
    (K_SYSCALL_K_THREAD_CREATE, ''z_mrsh_k_thread_create''),
    (K_SYSCALL_K_THREAD_STACK_SPACE_GET, ''z_mrsh_k_thread_stack_space_get''),
    (K_SYSCALL_K_THREAD_JOIN, ''z_mrsh_k_thread_join''), (K_SYSCALL_K_SLEEP, ''z_mrsh_k_sleep''),
    (K_SYSCALL_K_USLEEP, ''z_mrsh_k_usleep''), (K_SYSCALL_K_BUSY_WAIT, ''z_mrsh_k_busy_wait''),
    (K_SYSCALL_K_YIELD, ''z_mrsh_k_yield''), (K_SYSCALL_K_WAKEUP, ''z_mrsh_k_wakeup''),
    (K_SYSCALL_Z_CURRENT_GET, ''z_mrsh_z_current_get''),
    (K_SYSCALL_K_THREAD_ABORT, ''z_mrsh_k_thread_abort''),
    (K_SYSCALL_K_THREAD_START, ''z_mrsh_k_thread_start''),
    (K_SYSCALL_K_THREAD_TIMEOUT_EXPIRES_TICKS, ''z_mrsh_k_thread_timeout_expires_ticks''),
    (K_SYSCALL_K_THREAD_TIMEOUT_REMAINING_TICKS, ''z_mrsh_k_thread_timeout_remaining_ticks''),
    (K_SYSCALL_K_THREAD_PRIORITY_GET, ''z_mrsh_k_thread_priority_get''),
    (K_SYSCALL_K_THREAD_PRIORITY_SET, ''z_mrsh_k_thread_priority_set''),
    (K_SYSCALL_K_THREAD_DEADLINE_SET, ''z_mrsh_k_thread_deadline_set''),
    (K_SYSCALL_K_THREAD_SUSPEND, ''z_mrsh_k_thread_suspend''),
    (K_SYSCALL_K_THREAD_RESUME, ''z_mrsh_k_thread_resume''),
    (K_SYSCALL_K_IS_PREEMPT_THREAD, ''z_mrsh_k_is_preempt_thread''),
    (K_SYSCALL_K_THREAD_CUSTOM_DATA_SET, ''z_mrsh_k_thread_custom_data_set''),
    (K_SYSCALL_K_THREAD_CUSTOM_DATA_GET, ''z_mrsh_k_thread_custom_data_get''),
    (K_SYSCALL_K_THREAD_NAME_SET, ''z_mrsh_k_thread_name_set''),
    (K_SYSCALL_K_THREAD_NAME_COPY, ''z_mrsh_k_thread_name_copy''),
    (K_SYSCALL_K_TIMER_START, ''z_mrsh_k_timer_start''), (K_SYSCALL_K_TIMER_STOP, ''z_mrsh_k_timer_stop''),
    (K_SYSCALL_K_TIMER_STATUS_GET, ''z_mrsh_k_timer_status_get''),
    (K_SYSCALL_K_TIMER_STATUS_SYNC, ''z_mrsh_k_timer_status_sync''),
    (K_SYSCALL_K_TIMER_EXPIRES_TICKS, ''z_mrsh_k_timer_expires_ticks''),
    (K_SYSCALL_K_TIMER_REMAINING_TICKS, ''z_mrsh_k_timer_remaining_ticks''),
    (K_SYSCALL_K_TIMER_USER_DATA_SET, ''z_mrsh_k_timer_user_data_set''),
    (K_SYSCALL_K_TIMER_USER_DATA_GET, ''z_mrsh_k_timer_user_data_get''),
    (K_SYSCALL_K_UPTIME_TICKS, ''z_mrsh_k_uptime_ticks''), (K_SYSCALL_K_QUEUE_INIT, ''z_mrsh_k_queue_init''),
    (K_SYSCALL_K_QUEUE_CANCEL_WAIT, ''z_mrsh_k_queue_cancel_wait''),
    (K_SYSCALL_K_QUEUE_ALLOC_APPEND, ''z_mrsh_k_queue_alloc_append''),
    (K_SYSCALL_K_QUEUE_ALLOC_PREPEND, ''z_mrsh_k_queue_alloc_prepend''),
    (K_SYSCALL_K_QUEUE_GET, ''z_mrsh_k_queue_get''),
    (K_SYSCALL_K_QUEUE_IS_EMPTY, ''z_mrsh_k_queue_is_empty''),
    (K_SYSCALL_K_QUEUE_PEEK_HEAD, ''z_mrsh_k_queue_peek_head''),
    (K_SYSCALL_K_QUEUE_PEEK_TAIL, ''z_mrsh_k_queue_peek_tail''),
    (K_SYSCALL_K_FUTEX_WAIT, ''z_mrsh_k_futex_wait''), (K_SYSCALL_K_FUTEX_WAKE, ''z_mrsh_k_futex_wake''),
    (K_SYSCALL_K_EVENT_INIT, ''z_mrsh_k_event_init''), (K_SYSCALL_K_EVENT_POST, ''z_mrsh_k_event_post''),
    (K_SYSCALL_K_EVENT_SET, ''z_mrsh_k_event_set''), (K_SYSCALL_K_EVENT_WAIT, ''z_mrsh_k_event_wait''),
    (K_SYSCALL_K_EVENT_WAIT_ALL, ''z_mrsh_k_event_wait_all''),
    (K_SYSCALL_K_STACK_ALLOC_INIT, ''z_mrsh_k_stack_alloc_init''),
    (K_SYSCALL_K_STACK_PUSH, ''z_mrsh_k_stack_push''), (K_SYSCALL_K_STACK_POP, ''z_mrsh_k_stack_pop''),
    (K_SYSCALL_K_MUTEX_INIT, ''z_mrsh_k_mutex_init''), (K_SYSCALL_K_MUTEX_LOCK, ''z_mrsh_k_mutex_lock''),
    (K_SYSCALL_K_MUTEX_UNLOCK, ''z_mrsh_k_mutex_unlock''),
    (K_SYSCALL_K_CONDVAR_INIT, ''z_mrsh_k_condvar_init''),
    (K_SYSCALL_K_CONDVAR_SIGNAL, ''z_mrsh_k_condvar_signal''),
    (K_SYSCALL_K_CONDVAR_BROADCAST, ''z_mrsh_k_condvar_broadcast''),
    (K_SYSCALL_K_CONDVAR_WAIT, ''z_mrsh_k_condvar_wait''), (K_SYSCALL_K_SEM_INIT, ''z_mrsh_k_sem_init''),
    (K_SYSCALL_K_SEM_TAKE, ''z_mrsh_k_sem_take''), (K_SYSCALL_K_SEM_GIVE, ''z_mrsh_k_sem_give''),
    (K_SYSCALL_K_SEM_RESET, ''z_mrsh_k_sem_reset''), (K_SYSCALL_K_SEM_COUNT_GET, ''z_mrsh_k_sem_count_get''),
    (K_SYSCALL_K_MSGQ_ALLOC_INIT, ''z_mrsh_k_msgq_alloc_init''),
    (K_SYSCALL_K_MSGQ_PUT, ''z_mrsh_k_msgq_put''), (K_SYSCALL_K_MSGQ_GET, ''z_mrsh_k_msgq_get''),
    (K_SYSCALL_K_MSGQ_PEEK, ''z_mrsh_k_msgq_peek''), (K_SYSCALL_K_MSGQ_PURGE, ''z_mrsh_k_msgq_purge''),
    (K_SYSCALL_K_MSGQ_NUM_FREE_GET, ''z_mrsh_k_msgq_num_free_get''),
    (K_SYSCALL_K_MSGQ_GET_ATTRS, ''z_mrsh_k_msgq_get_attrs''),
    (K_SYSCALL_K_MSGQ_NUM_USED_GET, ''z_mrsh_k_msgq_num_used_get''),
    (K_SYSCALL_K_PIPE_ALLOC_INIT, ''z_mrsh_k_pipe_alloc_init''),
    (K_SYSCALL_K_PIPE_PUT, ''z_mrsh_k_pipe_put''), (K_SYSCALL_K_PIPE_GET, ''z_mrsh_k_pipe_get''),
    (K_SYSCALL_K_PIPE_READ_AVAIL, ''z_mrsh_k_pipe_read_avail''),
    (K_SYSCALL_K_PIPE_WRITE_AVAIL, ''z_mrsh_k_pipe_write_avail''), (K_SYSCALL_K_POLL, ''z_mrsh_k_poll''),
    (K_SYSCALL_K_POLL_SIGNAL_INIT, ''z_mrsh_k_poll_signal_init''),
    (K_SYSCALL_K_POLL_SIGNAL_RESET, ''z_mrsh_k_poll_signal_reset''),
    (K_SYSCALL_K_POLL_SIGNAL_CHECK, ''z_mrsh_k_poll_signal_check''),
    (K_SYSCALL_K_POLL_SIGNAL_RAISE, ''z_mrsh_k_poll_signal_raise''),
    (K_SYSCALL_K_STR_OUT, ''z_mrsh_k_str_out''), (K_SYSCALL_K_FLOAT_DISABLE, ''z_mrsh_k_float_disable''),
    (K_SYSCALL_K_FLOAT_ENABLE, ''z_mrsh_k_float_enable''), (K_SYSCALL_USER_FAULT, ''z_mrsh_user_fault''),
    (K_SYSCALL_ADC_CHANNEL_SETUP, ''z_mrsh_adc_channel_setup''), (K_SYSCALL_ADC_READ, ''z_mrsh_adc_read''),
    (K_SYSCALL_ADC_READ_ASYNC, ''z_mrsh_adc_read_async''),
    (K_SYSCALL_BBRAM_CHECK_INVALID, ''z_mrsh_bbram_check_invalid''),
    (K_SYSCALL_BBRAM_CHECK_STANDBY_POWER, ''z_mrsh_bbram_check_standby_power''),
    (K_SYSCALL_BBRAM_CHECK_POWER, ''z_mrsh_bbram_check_power''),
    (K_SYSCALL_BBRAM_GET_SIZE, ''z_mrsh_bbram_get_size''), (K_SYSCALL_BBRAM_READ, ''z_mrsh_bbram_read''),
    (K_SYSCALL_BBRAM_WRITE, ''z_mrsh_bbram_write''),
    (K_SYSCALL_CAN_GET_CORE_CLOCK, ''z_mrsh_can_get_core_clock''),
    (K_SYSCALL_CAN_SET_TIMING, ''z_mrsh_can_set_timing''), (K_SYSCALL_CAN_SET_MODE, ''z_mrsh_can_set_mode''),
    (K_SYSCALL_CAN_SEND, ''z_mrsh_can_send''), (K_SYSCALL_CAN_ATTACH_MSGQ, ''z_mrsh_can_attach_msgq''),
    (K_SYSCALL_CAN_DETACH, ''z_mrsh_can_detach''),
    (K_SYSCALL_CAN_GET_MAX_FILTERS, ''z_mrsh_can_get_max_filters''),
    (K_SYSCALL_CAN_GET_STATE, ''z_mrsh_can_get_state''), (K_SYSCALL_CAN_RECOVER, ''z_mrsh_can_recover''),
    (K_SYSCALL_COUNTER_IS_COUNTING_UP, ''z_mrsh_counter_is_counting_up''),
    (K_SYSCALL_COUNTER_GET_NUM_OF_CHANNELS, ''z_mrsh_counter_get_num_of_channels''),
    (K_SYSCALL_COUNTER_GET_FREQUENCY, ''z_mrsh_counter_get_frequency''),
    (K_SYSCALL_COUNTER_US_TO_TICKS, ''z_mrsh_counter_us_to_ticks''),
    (K_SYSCALL_COUNTER_TICKS_TO_US, ''z_mrsh_counter_ticks_to_us''),
    (K_SYSCALL_COUNTER_GET_MAX_TOP_VALUE, ''z_mrsh_counter_get_max_top_value''),
    (K_SYSCALL_COUNTER_START, ''z_mrsh_counter_start''), (K_SYSCALL_COUNTER_STOP, ''z_mrsh_counter_stop''),
    (K_SYSCALL_COUNTER_GET_VALUE, ''z_mrsh_counter_get_value''),
    (K_SYSCALL_COUNTER_SET_CHANNEL_ALARM, ''z_mrsh_counter_set_channel_alarm''),
    (K_SYSCALL_COUNTER_CANCEL_CHANNEL_ALARM, ''z_mrsh_counter_cancel_channel_alarm''),
    (K_SYSCALL_COUNTER_SET_TOP_VALUE, ''z_mrsh_counter_set_top_value''),
    (K_SYSCALL_COUNTER_GET_PENDING_INT, ''z_mrsh_counter_get_pending_int''),
    (K_SYSCALL_COUNTER_GET_TOP_VALUE, ''z_mrsh_counter_get_top_value''),
    (K_SYSCALL_COUNTER_SET_GUARD_PERIOD, ''z_mrsh_counter_set_guard_period''),
    (K_SYSCALL_COUNTER_GET_GUARD_PERIOD, ''z_mrsh_counter_get_guard_period''),
    (K_SYSCALL_DAC_CHANNEL_SETUP, ''z_mrsh_dac_channel_setup''),
    (K_SYSCALL_DAC_WRITE_VALUE, ''z_mrsh_dac_write_value''), (K_SYSCALL_DMA_START, ''z_mrsh_dma_start''),
    (K_SYSCALL_DMA_STOP, ''z_mrsh_dma_stop''),
    (K_SYSCALL_DMA_REQUEST_CHANNEL, ''z_mrsh_dma_request_channel''),
    (K_SYSCALL_DMA_RELEASE_CHANNEL, ''z_mrsh_dma_release_channel''),
    (K_SYSCALL_DMA_CHAN_FILTER, ''z_mrsh_dma_chan_filter''),
    (K_SYSCALL_EC_HOST_CMD_PERIPH_INIT, ''z_mrsh_ec_host_cmd_periph_init''),
    (K_SYSCALL_EC_HOST_CMD_PERIPH_SEND, ''z_mrsh_ec_host_cmd_periph_send''),
    (K_SYSCALL_EEPROM_READ, ''z_mrsh_eeprom_read''), (K_SYSCALL_EEPROM_WRITE, ''z_mrsh_eeprom_write''),
    (K_SYSCALL_EEPROM_GET_SIZE, ''z_mrsh_eeprom_get_size''),
    (K_SYSCALL_ENTROPY_GET_ENTROPY, ''z_mrsh_entropy_get_entropy''),
    (K_SYSCALL_ESPI_CONFIG, ''z_mrsh_espi_config''),
    (K_SYSCALL_ESPI_GET_CHANNEL_STATUS, ''z_mrsh_espi_get_channel_status''),
    (K_SYSCALL_ESPI_READ_REQUEST, ''z_mrsh_espi_read_request''),
    (K_SYSCALL_ESPI_WRITE_REQUEST, ''z_mrsh_espi_write_request''),
    (K_SYSCALL_ESPI_READ_LPC_REQUEST, ''z_mrsh_espi_read_lpc_request''),
    (K_SYSCALL_ESPI_WRITE_LPC_REQUEST, ''z_mrsh_espi_write_lpc_request''),
    (K_SYSCALL_ESPI_SEND_VWIRE, ''z_mrsh_espi_send_vwire''),
    (K_SYSCALL_ESPI_RECEIVE_VWIRE, ''z_mrsh_espi_receive_vwire''),
    (K_SYSCALL_ESPI_SEND_OOB, ''z_mrsh_espi_send_oob''),
    (K_SYSCALL_ESPI_RECEIVE_OOB, ''z_mrsh_espi_receive_oob''),
    (K_SYSCALL_ESPI_READ_FLASH, ''z_mrsh_espi_read_flash'')]"

definition syscall_table_1 :: "(id \<times> string) list" where
  "syscall_table_1 = [
    (K_SYSCALL_ESPI_WRITE_FLASH, ''z_mrsh_espi_write_flash''),
    (K_SYSCALL_ESPI_FLASH_ERASE, ''z_mrsh_espi_flash_erase''),
    (K_SYSCALL_ESPI_SAF_CONFIG, ''z_mrsh_espi_saf_config''),
    (K_SYSCALL_ESPI_SAF_SET_PROTECTION_REGIONS, ''z_mrsh_espi_saf_set_protection_regions''),
    (K_SYSCALL_ESPI_SAF_ACTIVATE, ''z_mrsh_espi_saf_activate''),
    (K_SYSCALL_ESPI_SAF_GET_CHANNEL_STATUS, ''z_mrsh_espi_saf_get_channel_status''),
    (K_SYSCALL_ESPI_SAF_FLASH_READ, ''z_mrsh_espi_saf_flash_read''),
    (K_SYSCALL_ESPI_SAF_FLASH_WRITE, ''z_mrsh_espi_saf_flash_write''),
    (K_SYSCALL_ESPI_SAF_FLASH_ERASE, ''z_mrsh_espi_saf_flash_erase''),
    (K_SYSCALL_FLASH_READ, ''z_mrsh_flash_read''), (K_SYSCALL_FLASH_WRITE, ''z_mrsh_flash_write''),
    (K_SYSCALL_FLASH_ERASE, ''z_mrsh_flash_erase''),
    (K_SYSCALL_FLASH_WRITE_PROTECTION_SET, ''z_mrsh_flash_write_protection_set''),
    (K_SYSCALL_FLASH_GET_PAGE_INFO_BY_OFFS, ''z_mrsh_flash_get_page_info_by_offs''),
    (K_SYSCALL_FLASH_GET_PAGE_INFO_BY_IDX, ''z_mrsh_flash_get_page_info_by_idx''),
    (K_SYSCALL_FLASH_GET_PAGE_COUNT, ''z_mrsh_flash_get_page_count''),
    (K_SYSCALL_FLASH_SFDP_READ, ''z_mrsh_flash_sfdp_read''),
    (K_SYSCALL_FLASH_READ_JEDEC_ID, ''z_mrsh_flash_read_jedec_id''),
    (K_SYSCALL_FLASH_GET_WRITE_BLOCK_SIZE, ''z_mrsh_flash_get_write_block_size''),
    (K_SYSCALL_FLASH_GET_PARAMETERS, ''z_mrsh_flash_get_parameters''),
    (K_SYSCALL_GPIO_PIN_INTERRUPT_CONFIGURE, ''z_mrsh_gpio_pin_interrupt_configure''),
    (K_SYSCALL_GPIO_PIN_CONFIGURE, ''z_mrsh_gpio_pin_configure''),
    (K_SYSCALL_GPIO_PORT_GET_RAW, ''z_mrsh_gpio_port_get_raw''),
    (K_SYSCALL_GPIO_PORT_SET_MASKED_RAW, ''z_mrsh_gpio_port_set_masked_raw''),
    (K_SYSCALL_GPIO_PORT_SET_BITS_RAW, ''z_mrsh_gpio_port_set_bits_raw''),
    (K_SYSCALL_GPIO_PORT_CLEAR_BITS_RAW, ''z_mrsh_gpio_port_clear_bits_raw''),
    (K_SYSCALL_GPIO_PORT_TOGGLE_BITS, ''z_mrsh_gpio_port_toggle_bits''),
    (K_SYSCALL_GPIO_GET_PENDING_INT, ''z_mrsh_gpio_get_pending_int''),
    (K_SYSCALL_HWINFO_GET_DEVICE_ID, ''z_mrsh_hwinfo_get_device_id''),
    (K_SYSCALL_HWINFO_GET_RESET_CAUSE, ''z_mrsh_hwinfo_get_reset_cause''),
    (K_SYSCALL_HWINFO_CLEAR_RESET_CAUSE, ''z_mrsh_hwinfo_clear_reset_cause''),
    (K_SYSCALL_HWINFO_GET_SUPPORTED_RESET_CAUSE, ''z_mrsh_hwinfo_get_supported_reset_cause''),
    (K_SYSCALL_I2C_CONFIGURE, ''z_mrsh_i2c_configure''),
    (K_SYSCALL_I2C_GET_CONFIG, ''z_mrsh_i2c_get_config''), (K_SYSCALL_I2C_TRANSFER, ''z_mrsh_i2c_transfer''),
    (K_SYSCALL_I2C_RECOVER_BUS, ''z_mrsh_i2c_recover_bus''),
    (K_SYSCALL_I2C_SLAVE_DRIVER_REGISTER, ''z_mrsh_i2c_slave_driver_register''),
    (K_SYSCALL_I2C_SLAVE_DRIVER_UNREGISTER, ''z_mrsh_i2c_slave_driver_unregister''),
    (K_SYSCALL_I2S_CONFIGURE, ''z_mrsh_i2s_configure''), (K_SYSCALL_I2S_BUF_READ, ''z_mrsh_i2s_buf_read''),
    (K_SYSCALL_I2S_BUF_WRITE, ''z_mrsh_i2s_buf_write''), (K_SYSCALL_I2S_TRIGGER, ''z_mrsh_i2s_trigger''),
    (K_SYSCALL_IPM_SEND, ''z_mrsh_ipm_send''),
    (K_SYSCALL_IPM_MAX_DATA_SIZE_GET, ''z_mrsh_ipm_max_data_size_get''),
    (K_SYSCALL_IPM_MAX_ID_VAL_GET, ''z_mrsh_ipm_max_id_val_get''),
    (K_SYSCALL_IPM_SET_ENABLED, ''z_mrsh_ipm_set_enabled''),
    (K_SYSCALL_KSCAN_CONFIG, ''z_mrsh_kscan_config''),
    (K_SYSCALL_KSCAN_ENABLE_CALLBACK, ''z_mrsh_kscan_enable_callback''),
    (K_SYSCALL_KSCAN_DISABLE_CALLBACK, ''z_mrsh_kscan_disable_callback''),
    (K_SYSCALL_LED_BLINK, ''z_mrsh_led_blink''), (K_SYSCALL_LED_GET_INFO, ''z_mrsh_led_get_info''),
    (K_SYSCALL_LED_SET_BRIGHTNESS, ''z_mrsh_led_set_brightness''),
    (K_SYSCALL_LED_WRITE_CHANNELS, ''z_mrsh_led_write_channels''),
    (K_SYSCALL_LED_SET_CHANNEL, ''z_mrsh_led_set_channel''),
    (K_SYSCALL_LED_SET_COLOR, ''z_mrsh_led_set_color''), (K_SYSCALL_LED_ON, ''z_mrsh_led_on''),
    (K_SYSCALL_LED_OFF, ''z_mrsh_led_off''), (K_SYSCALL_MBOX_SEND, ''z_mrsh_mbox_send''),
    (K_SYSCALL_MBOX_MTU_GET, ''z_mrsh_mbox_mtu_get''),
    (K_SYSCALL_MBOX_SET_ENABLED, ''z_mrsh_mbox_set_enabled''),
    (K_SYSCALL_MBOX_MAX_CHANNELS_GET, ''z_mrsh_mbox_max_channels_get''),
    (K_SYSCALL_MDIO_BUS_ENABLE, ''z_mrsh_mdio_bus_enable''),
    (K_SYSCALL_MDIO_BUS_DISABLE, ''z_mrsh_mdio_bus_disable''), (K_SYSCALL_MDIO_READ, ''z_mrsh_mdio_read''),
    (K_SYSCALL_MDIO_WRITE, ''z_mrsh_mdio_write''), (K_SYSCALL_PECI_CONFIG, ''z_mrsh_peci_config''),
    (K_SYSCALL_PECI_ENABLE, ''z_mrsh_peci_enable''), (K_SYSCALL_PECI_DISABLE, ''z_mrsh_peci_disable''),
    (K_SYSCALL_PECI_TRANSFER, ''z_mrsh_peci_transfer''), (K_SYSCALL_PS2_CONFIG, ''z_mrsh_ps2_config''),
    (K_SYSCALL_PS2_WRITE, ''z_mrsh_ps2_write''), (K_SYSCALL_PS2_READ, ''z_mrsh_ps2_read''),
    (K_SYSCALL_PS2_ENABLE_CALLBACK, ''z_mrsh_ps2_enable_callback''),
    (K_SYSCALL_PS2_DISABLE_CALLBACK, ''z_mrsh_ps2_disable_callback''),
    (K_SYSCALL_PTP_CLOCK_GET, ''z_mrsh_ptp_clock_get''),
    (K_SYSCALL_PWM_PIN_SET_CYCLES, ''z_mrsh_pwm_pin_set_cycles''),
    (K_SYSCALL_PWM_PIN_ENABLE_CAPTURE, ''z_mrsh_pwm_pin_enable_capture''),
    (K_SYSCALL_PWM_PIN_DISABLE_CAPTURE, ''z_mrsh_pwm_pin_disable_capture''),
    (K_SYSCALL_PWM_PIN_CAPTURE_CYCLES, ''z_mrsh_pwm_pin_capture_cycles''),
    (K_SYSCALL_PWM_GET_CYCLES_PER_SEC, ''z_mrsh_pwm_get_cycles_per_sec''),
    (K_SYSCALL_SENSOR_ATTR_SET, ''z_mrsh_sensor_attr_set''),
    (K_SYSCALL_SENSOR_ATTR_GET, ''z_mrsh_sensor_attr_get''),
    (K_SYSCALL_SENSOR_SAMPLE_FETCH, ''z_mrsh_sensor_sample_fetch''),
    (K_SYSCALL_SENSOR_SAMPLE_FETCH_CHAN, ''z_mrsh_sensor_sample_fetch_chan''),
    (K_SYSCALL_SENSOR_CHANNEL_GET, ''z_mrsh_sensor_channel_get''),
    (K_SYSCALL_SPI_TRANSCEIVE, ''z_mrsh_spi_transceive''), (K_SYSCALL_SPI_RELEASE, ''z_mrsh_spi_release''),
    (K_SYSCALL_SYSCON_GET_BASE, ''z_mrsh_syscon_get_base''),
    (K_SYSCALL_SYSCON_READ_REG, ''z_mrsh_syscon_read_reg''),
    (K_SYSCALL_SYSCON_WRITE_REG, ''z_mrsh_syscon_write_reg''),
    (K_SYSCALL_SYSCON_GET_SIZE, ''z_mrsh_syscon_get_size''), (K_SYSCALL_UART_TX, ''z_mrsh_uart_tx''),
    (K_SYSCALL_UART_TX_U16, ''z_mrsh_uart_tx_u16''), (K_SYSCALL_UART_TX_ABORT, ''z_mrsh_uart_tx_abort''),
    (K_SYSCALL_UART_RX_ENABLE, ''z_mrsh_uart_rx_enable''),
    (K_SYSCALL_UART_RX_ENABLE_U16, ''z_mrsh_uart_rx_enable_u16''),
    (K_SYSCALL_UART_RX_DISABLE, ''z_mrsh_uart_rx_disable''),
    (K_SYSCALL_UART_ERR_CHECK, ''z_mrsh_uart_err_check''), (K_SYSCALL_UART_POLL_IN, ''z_mrsh_uart_poll_in''),
    (K_SYSCALL_UART_POLL_IN_U16, ''z_mrsh_uart_poll_in_u16''),
    (K_SYSCALL_UART_POLL_OUT, ''z_mrsh_uart_poll_out''),
    (K_SYSCALL_UART_POLL_OUT_U16, ''z_mrsh_uart_poll_out_u16''),
    (K_SYSCALL_UART_CONFIGURE, ''z_mrsh_uart_configure''),
    (K_SYSCALL_UART_CONFIG_GET, ''z_mrsh_uart_config_get''),
    (K_SYSCALL_UART_IRQ_TX_ENABLE, ''z_mrsh_uart_irq_tx_enable''),
    (K_SYSCALL_UART_IRQ_TX_DISABLE, ''z_mrsh_uart_irq_tx_disable''),
    (K_SYSCALL_UART_IRQ_RX_ENABLE, ''z_mrsh_uart_irq_rx_enable''),
    (K_SYSCALL_UART_IRQ_RX_DISABLE, ''z_mrsh_uart_irq_rx_disable''),
    (K_SYSCALL_UART_IRQ_ERR_ENABLE, ''z_mrsh_uart_irq_err_enable''),
    (K_SYSCALL_UART_IRQ_ERR_DISABLE, ''z_mrsh_uart_irq_err_disable''),
    (K_SYSCALL_UART_IRQ_IS_PENDING, ''z_mrsh_uart_irq_is_pending''),
    (K_SYSCALL_UART_IRQ_UPDATE, ''z_mrsh_uart_irq_update''),
    (K_SYSCALL_UART_LINE_CTRL_SET, ''z_mrsh_uart_line_ctrl_set''),
    (K_SYSCALL_UART_LINE_CTRL_GET, ''z_mrsh_uart_line_ctrl_get''),
    (K_SYSCALL_UART_DRV_CMD, ''z_mrsh_uart_drv_cmd''), (K_SYSCALL_WDT_SETUP, ''z_mrsh_wdt_setup''),
    (K_SYSCALL_WDT_DISABLE, ''z_mrsh_wdt_disable''), (K_SYSCALL_WDT_FEED, ''z_mrsh_wdt_feed''),
    (K_SYSCALL_UART_MUX_FIND, ''z_mrsh_uart_mux_find''),
    (K_SYSCALL_FLASH_SIMULATOR_GET_MEMORY, ''z_mrsh_flash_simulator_get_memory''),
    (K_SYSCALL_NRF_QSPI_NOR_BASE_CLOCK_DIV_FORCE, ''z_mrsh_nrf_qspi_nor_base_clock_div_force''),
    (K_SYSCALL_MAXIM_DS3231_REQ_SYNCPOINT, ''z_mrsh_maxim_ds3231_req_syncpoint''),
    (K_SYSCALL_MAXIM_DS3231_GET_SYNCPOINT, ''z_mrsh_maxim_ds3231_get_syncpoint''),
    (K_SYSCALL_IVSHMEM_GET_MEM, ''z_mrsh_ivshmem_get_mem''),
    (K_SYSCALL_IVSHMEM_GET_ID, ''z_mrsh_ivshmem_get_id''),
    (K_SYSCALL_IVSHMEM_GET_VECTORS, ''z_mrsh_ivshmem_get_vectors''),
    (K_SYSCALL_IVSHMEM_INT_PEER, ''z_mrsh_ivshmem_int_peer''),
    (K_SYSCALL_IVSHMEM_REGISTER_HANDLER, ''z_mrsh_ivshmem_register_handler''),
    (K_SYSCALL_Z_LOG_STRING_FROM_USER, ''z_mrsh_z_log_string_from_user''),
    (K_SYSCALL_Z_LOG_HEXDUMP_FROM_USER, ''z_mrsh_z_log_hexdump_from_user''),
    (K_SYSCALL_LOG_PANIC, ''z_mrsh_log_panic''), (K_SYSCALL_LOG_PROCESS, ''z_mrsh_log_process''),
    (K_SYSCALL_LOG_BUFFERED_CNT, ''z_mrsh_log_buffered_cnt''),
    (K_SYSCALL_LOG_FILTER_SET, ''z_mrsh_log_filter_set''),
    (K_SYSCALL_Z_LOG_MSG2_STATIC_CREATE, ''z_mrsh_z_log_msg2_static_create''),
    (K_SYSCALL_Z_LOG_MSG2_RUNTIME_VCREATE, ''z_mrsh_z_log_msg2_runtime_vcreate''),
    (K_SYSCALL_NET_ETH_GET_PTP_CLOCK_BY_INDEX, ''z_mrsh_net_eth_get_ptp_clock_by_index''),
    (K_SYSCALL_NET_IF_IPV6_ADDR_LOOKUP_BY_INDEX, ''z_mrsh_net_if_ipv6_addr_lookup_by_index''),
    (K_SYSCALL_NET_IF_IPV6_ADDR_ADD_BY_INDEX, ''z_mrsh_net_if_ipv6_addr_add_by_index''),
    (K_SYSCALL_NET_IF_IPV6_ADDR_RM_BY_INDEX, ''z_mrsh_net_if_ipv6_addr_rm_by_index''),
    (K_SYSCALL_NET_IF_IPV4_ADDR_LOOKUP_BY_INDEX, ''z_mrsh_net_if_ipv4_addr_lookup_by_index''),
    (K_SYSCALL_NET_IF_IPV4_ADDR_ADD_BY_INDEX, ''z_mrsh_net_if_ipv4_addr_add_by_index''),
    (K_SYSCALL_NET_IF_IPV4_ADDR_RM_BY_INDEX, ''z_mrsh_net_if_ipv4_addr_rm_by_index''),
    (K_SYSCALL_NET_IF_IPV4_SET_NETMASK_BY_INDEX, ''z_mrsh_net_if_ipv4_set_netmask_by_index''),
    (K_SYSCALL_NET_IF_IPV4_SET_GW_BY_INDEX, ''z_mrsh_net_if_ipv4_set_gw_by_index''),
    (K_SYSCALL_NET_IF_GET_BY_INDEX, ''z_mrsh_net_if_get_by_index''),
    (K_SYSCALL_NET_ADDR_PTON, ''z_mrsh_net_addr_pton''), (K_SYSCALL_NET_ADDR_NTOP, ''z_mrsh_net_addr_ntop'')]"

definition syscall_table_2 :: "(id \<times> string) list" where
  "syscall_table_2 = [
    (K_SYSCALL_PHY_CONFIGURE_LINK, ''z_mrsh_phy_configure_link''),
    (K_SYSCALL_PHY_GET_LINK_STATE, ''z_mrsh_phy_get_link_state''),
    (K_SYSCALL_PHY_LINK_CALLBACK_SET, ''z_mrsh_phy_link_callback_set''),
    (K_SYSCALL_PHY_READ, ''z_mrsh_phy_read''), (K_SYSCALL_PHY_WRITE, ''z_mrsh_phy_write''),
    (K_SYSCALL_ZSOCK_GET_CONTEXT_OBJECT, ''z_mrsh_zsock_get_context_object''),
    (K_SYSCALL_ZSOCK_SOCKET, ''z_mrsh_zsock_socket''),
    (K_SYSCALL_ZSOCK_SOCKETPAIR, ''z_mrsh_zsock_socketpair''),
    (K_SYSCALL_ZSOCK_CLOSE, ''z_mrsh_zsock_close''), (K_SYSCALL_ZSOCK_SHUTDOWN, ''z_mrsh_zsock_shutdown''),
    (K_SYSCALL_ZSOCK_BIND, ''z_mrsh_zsock_bind''), (K_SYSCALL_ZSOCK_CONNECT, ''z_mrsh_zsock_connect''),
    (K_SYSCALL_ZSOCK_LISTEN, ''z_mrsh_zsock_listen''), (K_SYSCALL_ZSOCK_ACCEPT, ''z_mrsh_zsock_accept''),
    (K_SYSCALL_ZSOCK_SENDTO, ''z_mrsh_zsock_sendto''), (K_SYSCALL_ZSOCK_SENDMSG, ''z_mrsh_zsock_sendmsg''),
    (K_SYSCALL_ZSOCK_RECVFROM, ''z_mrsh_zsock_recvfrom''), (K_SYSCALL_ZSOCK_FCNTL, ''z_mrsh_zsock_fcntl''),
    (K_SYSCALL_ZSOCK_POLL, ''z_mrsh_zsock_poll''), (K_SYSCALL_ZSOCK_GETSOCKOPT, ''z_mrsh_zsock_getsockopt''),
    (K_SYSCALL_ZSOCK_SETSOCKOPT, ''z_mrsh_zsock_setsockopt''),
    (K_SYSCALL_ZSOCK_GETSOCKNAME, ''z_mrsh_zsock_getsockname''),
    (K_SYSCALL_ZSOCK_GETHOSTNAME, ''z_mrsh_zsock_gethostname''),
    (K_SYSCALL_ZSOCK_INET_PTON, ''z_mrsh_zsock_inet_pton''),
    (K_SYSCALL_Z_ZSOCK_GETADDRINFO_INTERNAL, ''z_mrsh_z_zsock_getaddrinfo_internal''),
    (K_SYSCALL_ZSOCK_SELECT, ''z_mrsh_zsock_select''), (K_SYSCALL_CLOCK_GETTIME, ''z_mrsh_clock_gettime''),
    (K_SYSCALL_SYS_RAND32_GET, ''z_mrsh_sys_rand32_get''), (K_SYSCALL_SYS_RAND_GET, ''z_mrsh_sys_rand_get''),
    (K_SYSCALL_SYS_CSRAND_GET, ''z_mrsh_sys_csrand_get''), (K_SYSCALL_ATOMIC_CAS, ''z_mrsh_atomic_cas''),
    (K_SYSCALL_ATOMIC_PTR_CAS, ''z_mrsh_atomic_ptr_cas''), (K_SYSCALL_ATOMIC_ADD, ''z_mrsh_atomic_add''),
    (K_SYSCALL_ATOMIC_SUB, ''z_mrsh_atomic_sub''), (K_SYSCALL_ATOMIC_SET, ''z_mrsh_atomic_set''),
    (K_SYSCALL_ATOMIC_PTR_SET, ''z_mrsh_atomic_ptr_set''), (K_SYSCALL_ATOMIC_OR, ''z_mrsh_atomic_or''),
    (K_SYSCALL_ATOMIC_XOR, ''z_mrsh_atomic_xor''), (K_SYSCALL_ATOMIC_AND, ''z_mrsh_atomic_and''),
    (K_SYSCALL_ATOMIC_NAND, ''z_mrsh_atomic_nand''), (K_SYSCALL_Z_ERRNO, ''z_mrsh_z_errno''),
    (K_SYSCALL_K_OBJECT_ACCESS_GRANT, ''z_mrsh_k_object_access_grant''),
    (K_SYSCALL_K_OBJECT_RELEASE, ''z_mrsh_k_object_release''),
    (K_SYSCALL_K_OBJECT_ALLOC, ''z_mrsh_k_object_alloc''),
    (K_SYSCALL_ZEPHYR_READ_STDIN, ''z_mrsh_zephyr_read_stdin''),
    (K_SYSCALL_ZEPHYR_WRITE_STDOUT, ''z_mrsh_zephyr_write_stdout''),
    (K_SYSCALL_ZEPHYR_FPUTC, ''z_mrsh_zephyr_fputc''), (K_SYSCALL_ZEPHYR_FWRITE, ''z_mrsh_zephyr_fwrite''),
    (K_SYSCALL_K_MEM_PAGING_STATS_GET, ''z_mrsh_k_mem_paging_stats_get''),
    (K_SYSCALL_K_MEM_PAGING_THREAD_STATS_GET, ''z_mrsh_k_mem_paging_thread_stats_get''),
    (K_SYSCALL_K_MEM_PAGING_HISTOGRAM_EVICTION_GET, ''z_mrsh_k_mem_paging_histogram_eviction_get''),
    (K_SYSCALL_K_MEM_PAGING_HISTOGRAM_BACKING_STORE_PAGE_IN_GET, ''z_mrsh_k_mem_paging_histogram_backing_store_page_in_get''),
    (K_SYSCALL_K_MEM_PAGING_HISTOGRAM_BACKING_STORE_PAGE_OUT_GET, ''z_mrsh_k_mem_paging_histogram_backing_store_page_out_get''),
    (K_SYSCALL_Z_SYS_MUTEX_KERNEL_LOCK, ''z_mrsh_z_sys_mutex_kernel_lock''),
    (K_SYSCALL_Z_SYS_MUTEX_KERNEL_UNLOCK, ''z_mrsh_z_sys_mutex_kernel_unlock''),
    (K_SYSCALL_SYS_CLOCK_HW_CYCLES_PER_SEC_RUNTIME_GET, ''z_mrsh_sys_clock_hw_cycles_per_sec_runtime_get''),
    (K_SYSCALL_BAD, ''handler_bad_syscall'')]"

definition k_syscall_table :: "(id \<times> string) list" where
  "k_syscall_table = syscall_table_0 @ syscall_table_1 @ syscall_table_2"

lemmas syscall_ids =
  K_SYSCALL_ADC_CHANNEL_SETUP_def K_SYSCALL_ADC_READ_def K_SYSCALL_ADC_READ_ASYNC_def
  K_SYSCALL_ATOMIC_ADD_def K_SYSCALL_ATOMIC_AND_def K_SYSCALL_ATOMIC_CAS_def
  K_SYSCALL_ATOMIC_NAND_def K_SYSCALL_ATOMIC_OR_def K_SYSCALL_ATOMIC_PTR_CAS_def
  K_SYSCALL_ATOMIC_PTR_SET_def K_SYSCALL_ATOMIC_SET_def K_SYSCALL_ATOMIC_SUB_def
  K_SYSCALL_ATOMIC_XOR_def K_SYSCALL_BBRAM_CHECK_INVALID_def K_SYSCALL_BBRAM_CHECK_POWER_def
  K_SYSCALL_BBRAM_CHECK_STANDBY_POWER_def K_SYSCALL_BBRAM_GET_SIZE_def K_SYSCALL_BBRAM_READ_def
  K_SYSCALL_BBRAM_WRITE_def K_SYSCALL_CAN_ATTACH_MSGQ_def K_SYSCALL_CAN_DETACH_def
  K_SYSCALL_CAN_GET_CORE_CLOCK_def K_SYSCALL_CAN_GET_MAX_FILTERS_def K_SYSCALL_CAN_GET_STATE_def
  K_SYSCALL_CAN_RECOVER_def K_SYSCALL_CAN_SEND_def K_SYSCALL_CAN_SET_MODE_def
  K_SYSCALL_CAN_SET_TIMING_def K_SYSCALL_CLOCK_GETTIME_def
  K_SYSCALL_COUNTER_CANCEL_CHANNEL_ALARM_def K_SYSCALL_COUNTER_GET_FREQUENCY_def
  K_SYSCALL_COUNTER_GET_GUARD_PERIOD_def K_SYSCALL_COUNTER_GET_MAX_TOP_VALUE_def
  K_SYSCALL_COUNTER_GET_NUM_OF_CHANNELS_def K_SYSCALL_COUNTER_GET_PENDING_INT_def
  K_SYSCALL_COUNTER_GET_TOP_VALUE_def K_SYSCALL_COUNTER_GET_VALUE_def
  K_SYSCALL_COUNTER_IS_COUNTING_UP_def K_SYSCALL_COUNTER_SET_CHANNEL_ALARM_def
  K_SYSCALL_COUNTER_SET_GUARD_PERIOD_def K_SYSCALL_COUNTER_SET_TOP_VALUE_def
  K_SYSCALL_COUNTER_START_def K_SYSCALL_COUNTER_STOP_def K_SYSCALL_COUNTER_TICKS_TO_US_def
  K_SYSCALL_COUNTER_US_TO_TICKS_def K_SYSCALL_DAC_CHANNEL_SETUP_def K_SYSCALL_DAC_WRITE_VALUE_def
  K_SYSCALL_DEVICE_GET_BINDING_def K_SYSCALL_DEVICE_USABLE_CHECK_def
  K_SYSCALL_DMA_CHAN_FILTER_def K_SYSCALL_DMA_RELEASE_CHANNEL_def
  K_SYSCALL_DMA_REQUEST_CHANNEL_def K_SYSCALL_DMA_START_def K_SYSCALL_DMA_STOP_def
  K_SYSCALL_EC_HOST_CMD_PERIPH_INIT_def K_SYSCALL_EC_HOST_CMD_PERIPH_SEND_def
  K_SYSCALL_EEPROM_GET_SIZE_def K_SYSCALL_EEPROM_READ_def K_SYSCALL_EEPROM_WRITE_def
  K_SYSCALL_ENTROPY_GET_ENTROPY_def K_SYSCALL_ESPI_CONFIG_def K_SYSCALL_ESPI_FLASH_ERASE_def
  K_SYSCALL_ESPI_GET_CHANNEL_STATUS_def K_SYSCALL_ESPI_READ_FLASH_def
  K_SYSCALL_ESPI_READ_LPC_REQUEST_def K_SYSCALL_ESPI_READ_REQUEST_def
  K_SYSCALL_ESPI_RECEIVE_OOB_def K_SYSCALL_ESPI_RECEIVE_VWIRE_def K_SYSCALL_ESPI_SAF_ACTIVATE_def
  K_SYSCALL_ESPI_SAF_CONFIG_def K_SYSCALL_ESPI_SAF_FLASH_ERASE_def
  K_SYSCALL_ESPI_SAF_FLASH_READ_def K_SYSCALL_ESPI_SAF_FLASH_WRITE_def
  K_SYSCALL_ESPI_SAF_GET_CHANNEL_STATUS_def K_SYSCALL_ESPI_SAF_SET_PROTECTION_REGIONS_def
  K_SYSCALL_ESPI_SEND_OOB_def K_SYSCALL_ESPI_SEND_VWIRE_def K_SYSCALL_ESPI_WRITE_FLASH_def
  K_SYSCALL_ESPI_WRITE_LPC_REQUEST_def K_SYSCALL_ESPI_WRITE_REQUEST_def K_SYSCALL_FLASH_ERASE_def
  K_SYSCALL_FLASH_GET_PAGE_COUNT_def K_SYSCALL_FLASH_GET_PAGE_INFO_BY_IDX_def
  K_SYSCALL_FLASH_GET_PAGE_INFO_BY_OFFS_def K_SYSCALL_FLASH_GET_PARAMETERS_def
  K_SYSCALL_FLASH_GET_WRITE_BLOCK_SIZE_def K_SYSCALL_FLASH_READ_def
  K_SYSCALL_FLASH_READ_JEDEC_ID_def K_SYSCALL_FLASH_SFDP_READ_def
  K_SYSCALL_FLASH_SIMULATOR_GET_MEMORY_def K_SYSCALL_FLASH_WRITE_def
  K_SYSCALL_FLASH_WRITE_PROTECTION_SET_def K_SYSCALL_GPIO_GET_PENDING_INT_def
  K_SYSCALL_GPIO_PIN_CONFIGURE_def K_SYSCALL_GPIO_PIN_INTERRUPT_CONFIGURE_def
  K_SYSCALL_GPIO_PORT_CLEAR_BITS_RAW_def K_SYSCALL_GPIO_PORT_GET_RAW_def
  K_SYSCALL_GPIO_PORT_SET_BITS_RAW_def K_SYSCALL_GPIO_PORT_SET_MASKED_RAW_def
  K_SYSCALL_GPIO_PORT_TOGGLE_BITS_def K_SYSCALL_HWINFO_CLEAR_RESET_CAUSE_def
  K_SYSCALL_HWINFO_GET_DEVICE_ID_def K_SYSCALL_HWINFO_GET_RESET_CAUSE_def
  K_SYSCALL_HWINFO_GET_SUPPORTED_RESET_CAUSE_def K_SYSCALL_I2C_CONFIGURE_def
  K_SYSCALL_I2C_GET_CONFIG_def K_SYSCALL_I2C_RECOVER_BUS_def
  K_SYSCALL_I2C_SLAVE_DRIVER_REGISTER_def K_SYSCALL_I2C_SLAVE_DRIVER_UNREGISTER_def
  K_SYSCALL_I2C_TRANSFER_def K_SYSCALL_I2S_BUF_READ_def K_SYSCALL_I2S_BUF_WRITE_def
  K_SYSCALL_I2S_CONFIGURE_def K_SYSCALL_I2S_TRIGGER_def K_SYSCALL_IPM_MAX_DATA_SIZE_GET_def
  K_SYSCALL_IPM_MAX_ID_VAL_GET_def K_SYSCALL_IPM_SEND_def K_SYSCALL_IPM_SET_ENABLED_def
  K_SYSCALL_IVSHMEM_GET_ID_def K_SYSCALL_IVSHMEM_GET_MEM_def K_SYSCALL_IVSHMEM_GET_VECTORS_def
  K_SYSCALL_IVSHMEM_INT_PEER_def K_SYSCALL_IVSHMEM_REGISTER_HANDLER_def
  K_SYSCALL_KSCAN_CONFIG_def K_SYSCALL_KSCAN_DISABLE_CALLBACK_def
  K_SYSCALL_KSCAN_ENABLE_CALLBACK_def K_SYSCALL_K_BUSY_WAIT_def K_SYSCALL_K_CONDVAR_BROADCAST_def
  K_SYSCALL_K_CONDVAR_INIT_def K_SYSCALL_K_CONDVAR_SIGNAL_def K_SYSCALL_K_CONDVAR_WAIT_def
  K_SYSCALL_K_EVENT_INIT_def K_SYSCALL_K_EVENT_POST_def K_SYSCALL_K_EVENT_SET_def
  K_SYSCALL_K_EVENT_WAIT_def K_SYSCALL_K_EVENT_WAIT_ALL_def K_SYSCALL_K_FLOAT_DISABLE_def
  K_SYSCALL_K_FLOAT_ENABLE_def K_SYSCALL_K_FUTEX_WAIT_def K_SYSCALL_K_FUTEX_WAKE_def
  K_SYSCALL_K_IS_PREEMPT_THREAD_def
  K_SYSCALL_K_MEM_PAGING_HISTOGRAM_BACKING_STORE_PAGE_IN_GET_def
  K_SYSCALL_K_MEM_PAGING_HISTOGRAM_BACKING_STORE_PAGE_OUT_GET_def
  K_SYSCALL_K_MEM_PAGING_HISTOGRAM_EVICTION_GET_def K_SYSCALL_K_MEM_PAGING_STATS_GET_def
  K_SYSCALL_K_MEM_PAGING_THREAD_STATS_GET_def K_SYSCALL_K_MSGQ_ALLOC_INIT_def
  K_SYSCALL_K_MSGQ_GET_def K_SYSCALL_K_MSGQ_GET_ATTRS_def K_SYSCALL_K_MSGQ_NUM_FREE_GET_def
  K_SYSCALL_K_MSGQ_NUM_USED_GET_def K_SYSCALL_K_MSGQ_PEEK_def K_SYSCALL_K_MSGQ_PURGE_def
  K_SYSCALL_K_MSGQ_PUT_def K_SYSCALL_K_MUTEX_INIT_def K_SYSCALL_K_MUTEX_LOCK_def
  K_SYSCALL_K_MUTEX_UNLOCK_def K_SYSCALL_K_OBJECT_ACCESS_GRANT_def K_SYSCALL_K_OBJECT_ALLOC_def
  K_SYSCALL_K_OBJECT_RELEASE_def K_SYSCALL_K_PIPE_ALLOC_INIT_def K_SYSCALL_K_PIPE_GET_def
  K_SYSCALL_K_PIPE_PUT_def K_SYSCALL_K_PIPE_READ_AVAIL_def K_SYSCALL_K_PIPE_WRITE_AVAIL_def
  K_SYSCALL_K_POLL_def K_SYSCALL_K_POLL_SIGNAL_CHECK_def K_SYSCALL_K_POLL_SIGNAL_INIT_def
  K_SYSCALL_K_POLL_SIGNAL_RAISE_def K_SYSCALL_K_POLL_SIGNAL_RESET_def
  K_SYSCALL_K_QUEUE_ALLOC_APPEND_def K_SYSCALL_K_QUEUE_ALLOC_PREPEND_def
  K_SYSCALL_K_QUEUE_CANCEL_WAIT_def K_SYSCALL_K_QUEUE_GET_def K_SYSCALL_K_QUEUE_INIT_def
  K_SYSCALL_K_QUEUE_IS_EMPTY_def K_SYSCALL_K_QUEUE_PEEK_HEAD_def K_SYSCALL_K_QUEUE_PEEK_TAIL_def
  K_SYSCALL_K_SEM_COUNT_GET_def K_SYSCALL_K_SEM_GIVE_def K_SYSCALL_K_SEM_INIT_def
  K_SYSCALL_K_SEM_RESET_def K_SYSCALL_K_SEM_TAKE_def K_SYSCALL_K_SLEEP_def
  K_SYSCALL_K_STACK_ALLOC_INIT_def K_SYSCALL_K_STACK_POP_def K_SYSCALL_K_STACK_PUSH_def
  K_SYSCALL_K_STR_OUT_def K_SYSCALL_K_THREAD_ABORT_def K_SYSCALL_K_THREAD_CREATE_def
  K_SYSCALL_K_THREAD_CUSTOM_DATA_GET_def K_SYSCALL_K_THREAD_CUSTOM_DATA_SET_def
  K_SYSCALL_K_THREAD_DEADLINE_SET_def K_SYSCALL_K_THREAD_JOIN_def
  K_SYSCALL_K_THREAD_NAME_COPY_def K_SYSCALL_K_THREAD_NAME_SET_def
  K_SYSCALL_K_THREAD_PRIORITY_GET_def K_SYSCALL_K_THREAD_PRIORITY_SET_def
  K_SYSCALL_K_THREAD_RESUME_def K_SYSCALL_K_THREAD_STACK_SPACE_GET_def
  K_SYSCALL_K_THREAD_START_def K_SYSCALL_K_THREAD_SUSPEND_def
  K_SYSCALL_K_THREAD_TIMEOUT_EXPIRES_TICKS_def K_SYSCALL_K_THREAD_TIMEOUT_REMAINING_TICKS_def
  K_SYSCALL_K_TIMER_EXPIRES_TICKS_def K_SYSCALL_K_TIMER_REMAINING_TICKS_def
  K_SYSCALL_K_TIMER_START_def K_SYSCALL_K_TIMER_STATUS_GET_def K_SYSCALL_K_TIMER_STATUS_SYNC_def
  K_SYSCALL_K_TIMER_STOP_def K_SYSCALL_K_TIMER_USER_DATA_GET_def
  K_SYSCALL_K_TIMER_USER_DATA_SET_def K_SYSCALL_K_UPTIME_TICKS_def K_SYSCALL_K_USLEEP_def
  K_SYSCALL_K_WAKEUP_def K_SYSCALL_K_YIELD_def K_SYSCALL_LED_BLINK_def K_SYSCALL_LED_GET_INFO_def
  K_SYSCALL_LED_OFF_def K_SYSCALL_LED_ON_def K_SYSCALL_LED_SET_BRIGHTNESS_def
  K_SYSCALL_LED_SET_CHANNEL_def K_SYSCALL_LED_SET_COLOR_def K_SYSCALL_LED_WRITE_CHANNELS_def
  K_SYSCALL_LOG_BUFFERED_CNT_def K_SYSCALL_LOG_FILTER_SET_def K_SYSCALL_LOG_PANIC_def
  K_SYSCALL_LOG_PROCESS_def K_SYSCALL_MAXIM_DS3231_GET_SYNCPOINT_def
  K_SYSCALL_MAXIM_DS3231_REQ_SYNCPOINT_def K_SYSCALL_MBOX_MAX_CHANNELS_GET_def
  K_SYSCALL_MBOX_MTU_GET_def K_SYSCALL_MBOX_SEND_def K_SYSCALL_MBOX_SET_ENABLED_def
  K_SYSCALL_MDIO_BUS_DISABLE_def K_SYSCALL_MDIO_BUS_ENABLE_def K_SYSCALL_MDIO_READ_def
  K_SYSCALL_MDIO_WRITE_def K_SYSCALL_NET_ADDR_NTOP_def K_SYSCALL_NET_ADDR_PTON_def
  K_SYSCALL_NET_ETH_GET_PTP_CLOCK_BY_INDEX_def K_SYSCALL_NET_IF_GET_BY_INDEX_def
  K_SYSCALL_NET_IF_IPV4_ADDR_ADD_BY_INDEX_def K_SYSCALL_NET_IF_IPV4_ADDR_LOOKUP_BY_INDEX_def
  K_SYSCALL_NET_IF_IPV4_ADDR_RM_BY_INDEX_def K_SYSCALL_NET_IF_IPV4_SET_GW_BY_INDEX_def
  K_SYSCALL_NET_IF_IPV4_SET_NETMASK_BY_INDEX_def K_SYSCALL_NET_IF_IPV6_ADDR_ADD_BY_INDEX_def
  K_SYSCALL_NET_IF_IPV6_ADDR_LOOKUP_BY_INDEX_def K_SYSCALL_NET_IF_IPV6_ADDR_RM_BY_INDEX_def
  K_SYSCALL_NRF_QSPI_NOR_BASE_CLOCK_DIV_FORCE_def K_SYSCALL_PECI_CONFIG_def
  K_SYSCALL_PECI_DISABLE_def K_SYSCALL_PECI_ENABLE_def K_SYSCALL_PECI_TRANSFER_def
  K_SYSCALL_PHY_CONFIGURE_LINK_def K_SYSCALL_PHY_GET_LINK_STATE_def
  K_SYSCALL_PHY_LINK_CALLBACK_SET_def K_SYSCALL_PHY_READ_def K_SYSCALL_PHY_WRITE_def
  K_SYSCALL_PS2_CONFIG_def K_SYSCALL_PS2_DISABLE_CALLBACK_def K_SYSCALL_PS2_ENABLE_CALLBACK_def
  K_SYSCALL_PS2_READ_def K_SYSCALL_PS2_WRITE_def K_SYSCALL_PTP_CLOCK_GET_def
  K_SYSCALL_PWM_GET_CYCLES_PER_SEC_def K_SYSCALL_PWM_PIN_CAPTURE_CYCLES_def
  K_SYSCALL_PWM_PIN_DISABLE_CAPTURE_def K_SYSCALL_PWM_PIN_ENABLE_CAPTURE_def
  K_SYSCALL_PWM_PIN_SET_CYCLES_def K_SYSCALL_SENSOR_ATTR_GET_def K_SYSCALL_SENSOR_ATTR_SET_def
  K_SYSCALL_SENSOR_CHANNEL_GET_def K_SYSCALL_SENSOR_SAMPLE_FETCH_def
  K_SYSCALL_SENSOR_SAMPLE_FETCH_CHAN_def K_SYSCALL_SPI_RELEASE_def K_SYSCALL_SPI_TRANSCEIVE_def
  K_SYSCALL_SYSCON_GET_BASE_def K_SYSCALL_SYSCON_GET_SIZE_def K_SYSCALL_SYSCON_READ_REG_def
  K_SYSCALL_SYSCON_WRITE_REG_def K_SYSCALL_SYS_CACHE_DATA_ALL_def
  K_SYSCALL_SYS_CACHE_DATA_RANGE_def K_SYSCALL_SYS_CACHE_INSTR_ALL_def
  K_SYSCALL_SYS_CACHE_INSTR_RANGE_def K_SYSCALL_SYS_CLOCK_HW_CYCLES_PER_SEC_RUNTIME_GET_def
  K_SYSCALL_SYS_CSRAND_GET_def K_SYSCALL_SYS_RAND32_GET_def K_SYSCALL_SYS_RAND_GET_def
  K_SYSCALL_UART_CONFIGURE_def K_SYSCALL_UART_CONFIG_GET_def K_SYSCALL_UART_DRV_CMD_def
  K_SYSCALL_UART_ERR_CHECK_def K_SYSCALL_UART_IRQ_ERR_DISABLE_def
  K_SYSCALL_UART_IRQ_ERR_ENABLE_def K_SYSCALL_UART_IRQ_IS_PENDING_def
  K_SYSCALL_UART_IRQ_RX_DISABLE_def K_SYSCALL_UART_IRQ_RX_ENABLE_def
  K_SYSCALL_UART_IRQ_TX_DISABLE_def K_SYSCALL_UART_IRQ_TX_ENABLE_def
  K_SYSCALL_UART_IRQ_UPDATE_def K_SYSCALL_UART_LINE_CTRL_GET_def K_SYSCALL_UART_LINE_CTRL_SET_def
  K_SYSCALL_UART_MUX_FIND_def K_SYSCALL_UART_POLL_IN_def K_SYSCALL_UART_POLL_IN_U16_def
  K_SYSCALL_UART_POLL_OUT_def K_SYSCALL_UART_POLL_OUT_U16_def K_SYSCALL_UART_RX_DISABLE_def
  K_SYSCALL_UART_RX_ENABLE_def K_SYSCALL_UART_RX_ENABLE_U16_def K_SYSCALL_UART_TX_def
  K_SYSCALL_UART_TX_ABORT_def K_SYSCALL_UART_TX_U16_def K_SYSCALL_USER_FAULT_def
  K_SYSCALL_WDT_DISABLE_def K_SYSCALL_WDT_FEED_def K_SYSCALL_WDT_SETUP_def
  K_SYSCALL_ZEPHYR_FPUTC_def K_SYSCALL_ZEPHYR_FWRITE_def K_SYSCALL_ZEPHYR_READ_STDIN_def
  K_SYSCALL_ZEPHYR_WRITE_STDOUT_def K_SYSCALL_ZSOCK_ACCEPT_def K_SYSCALL_ZSOCK_BIND_def
  K_SYSCALL_ZSOCK_CLOSE_def K_SYSCALL_ZSOCK_CONNECT_def K_SYSCALL_ZSOCK_FCNTL_def
  K_SYSCALL_ZSOCK_GETHOSTNAME_def K_SYSCALL_ZSOCK_GETSOCKNAME_def K_SYSCALL_ZSOCK_GETSOCKOPT_def
  K_SYSCALL_ZSOCK_GET_CONTEXT_OBJECT_def K_SYSCALL_ZSOCK_INET_PTON_def K_SYSCALL_ZSOCK_LISTEN_def
  K_SYSCALL_ZSOCK_POLL_def K_SYSCALL_ZSOCK_RECVFROM_def K_SYSCALL_ZSOCK_SELECT_def
  K_SYSCALL_ZSOCK_SENDMSG_def K_SYSCALL_ZSOCK_SENDTO_def K_SYSCALL_ZSOCK_SETSOCKOPT_def
  K_SYSCALL_ZSOCK_SHUTDOWN_def K_SYSCALL_ZSOCK_SOCKET_def K_SYSCALL_ZSOCK_SOCKETPAIR_def
  K_SYSCALL_Z_CURRENT_GET_def K_SYSCALL_Z_ERRNO_def K_SYSCALL_Z_LOG_HEXDUMP_FROM_USER_def
  K_SYSCALL_Z_LOG_MSG2_RUNTIME_VCREATE_def K_SYSCALL_Z_LOG_MSG2_STATIC_CREATE_def
  K_SYSCALL_Z_LOG_STRING_FROM_USER_def K_SYSCALL_Z_SYS_MUTEX_KERNEL_LOCK_def
  K_SYSCALL_Z_SYS_MUTEX_KERNEL_UNLOCK_def K_SYSCALL_Z_ZSOCK_GETADDRINFO_INTERNAL_def
  K_SYSCALL_BAD_def K_SYSCALL_LIMIT_def

lemmas syscall_tables = k_syscall_table_def syscall_table_0_def syscall_table_1_def syscall_table_2_def

lemma syscall_table_ids:
  "map fst k_syscall_table = [
      282, 283, 284, 285, 47, 48, 189, 199, 193, 183, 213, 126, 215, 214, 343, 188, 200, 202,
      203, 196, 197, 192, 201, 198, 140, 191, 190, 195, 194, 206, 209, 207, 208, 204, 205, 211,
      210, 212, 174, 172, 170, 171, 173, 175, 176, 177, 138, 139, 131, 132, 133, 134, 135, 184,
      186, 185, 154, 155, 156, 128, 129, 127, 130, 180, 182, 179, 181, 178, 146, 153, 147, 151,
      152, 149, 148, 150, 160, 162, 161, 163, 164, 165, 167, 169, 166, 168, 187, 136, 137, 315,
      0, 1, 2, 13, 15, 14, 16, 17, 18, 21, 27, 26, 25, 19, 20, 22, 23, 24, 37, 33, 30, 44, 43,
      32, 41, 42, 36, 38, 29, 40, 34, 35, 39, 31, 45, 46, 52, 53, 51, 50, 49, 54, 55, 57, 58,
      56, 59, 60, 62, 65, 79, 64, 78, 76, 67, 75, 66, 63, 77, 61, 69, 74, 68, 73, 71, 72, 70,
      86, 90, 80, 91, 83, 82, 81, 88, 87, 85, 84, 94, 93, 96, 98, 97, 95, 99, 92, 101, 102, 100,
      103, 104, 105, 109, 106, 107, 108, 112, 110, 111, 113, 116, 114, 115, 117, 123, 125, 124,
      216, 217, 220, 223, 221, 222, 219, 218, 232, 231, 233, 230, 235, 234, 236, 237, 251, 253,
      252, 254, 260, 264, 263, 262, 261, 265, 270, 269, 268, 267, 266, 272, 271, 274, 275, 273,
      277, 276, 278, 280, 281, 279, 312, 314, 313, 310, 311, 309, 293, 305, 306, 307, 308, 290,
      291, 300, 299, 298, 297, 295, 294, 296, 301, 303, 302, 292, 318, 316, 317, 304, 89, 250,
      229, 228, 119, 118, 120, 121, 122, 348, 345, 226, 227, 224, 225, 347, 346, 240, 248, 247,
      249, 243, 242, 244, 246, 245, 241, 239, 238, 255, 256, 257, 258, 259, 331, 341, 342, 325,
      340, 324, 326, 333, 323, 338, 337, 335, 327, 334, 330, 339, 329, 328, 332, 351, 336, 28,
      288, 289, 287, 5, 8, 3, 11, 10, 9, 7, 12, 4, 6, 344, 157, 159, 158, 321, 322, 319, 320,
      144, 145, 143, 141, 142, 349, 350, 286, 352]"
  by (simp only: syscall_tables list.map append.simps fst_conv syscall_ids)

end
