(* ===== verification/SysCallsKernel.thy ===== *)
theory SysCallsKernel
  imports SysIds
begin

text \<open>
  The wrappers of \<open>syscalls/kernel.h\<close>: in user mode a wrapper
  puts its arguments into registers, with the words that do not fit in \<open>more\<close>, and traps; in
  kernel mode it calls the implementation.  A parameter of type \<^typ>\<open>user\<close> stands for the
  calling context.
\<close>

section \<open>kernel.h\<close>

definition k_thread_create :: "user \<Rightarrow> u32 \<Rightarrow> u32 \<Rightarrow> u32
    \<Rightarrow> u32 \<Rightarrow> u32 \<Rightarrow> u32 \<Rightarrow> u32 \<Rightarrow> u32
    \<Rightarrow> u32 \<Rightarrow> u64 \<Rightarrow> invocation" where
  "k_thread_create u new_thread stack stack_size entry p1 p2 p3 prio options' delay =
     (if z_syscall_trap u
      then let parm0 = delay in arch_syscall_invoke K_SYSCALL_K_THREAD_CREATE [new_thread, stack,
          stack_size, entry, p1, frame u] [p2, p3, prio, options', lo32 parm0, hi32 parm0]
          Ret_word
      else z_impl ''k_thread_create'' [A32 new_thread, A32 stack, A32 stack_size, A32 entry, A32
          p1, A32 p2, A32 p3, A32 prio, A32 options', A64 delay])"

definition k_thread_stack_space_get :: "user \<Rightarrow> u32 \<Rightarrow> u32 \<Rightarrow>
    invocation" where
  "k_thread_stack_space_get u thread unused_ptr =
     (if z_syscall_trap u
      then arch_syscall_invoke K_SYSCALL_K_THREAD_STACK_SPACE_GET [thread, unused_ptr] [] Ret_word
      else z_impl ''k_thread_stack_space_get'' [A32 thread, A32 unused_ptr])"

definition k_thread_join :: "user \<Rightarrow> u32 \<Rightarrow> u64 \<Rightarrow> invocation"
    where
  "k_thread_join u thread timeout =
     (if z_syscall_trap u
      then let parm0 = timeout in arch_syscall_invoke K_SYSCALL_K_THREAD_JOIN [thread, lo32 parm0,
          hi32 parm0] [] Ret_word
      else z_impl ''k_thread_join'' [A32 thread, A64 timeout])"

definition k_sleep :: "user \<Rightarrow> u64 \<Rightarrow> invocation" where
  "k_sleep u timeout =
     (if z_syscall_trap u
      then let parm0 = timeout in arch_syscall_invoke K_SYSCALL_K_SLEEP [lo32 parm0, hi32 parm0]
          [] Ret_word
      else z_impl ''k_sleep'' [A64 timeout])"

definition k_usleep :: "user \<Rightarrow> u32 \<Rightarrow> invocation" where
  "k_usleep u us =
     (if z_syscall_trap u
      then arch_syscall_invoke K_SYSCALL_K_USLEEP [us] [] Ret_word
      else z_impl ''k_usleep'' [A32 us])"

definition k_busy_wait :: "user \<Rightarrow> u32 \<Rightarrow> invocation" where
  "k_busy_wait u usec_to_wait =
     (if z_syscall_trap u
      then arch_syscall_invoke K_SYSCALL_K_BUSY_WAIT [usec_to_wait] [] Ret_void
      else z_impl ''k_busy_wait'' [A32 usec_to_wait])"

definition k_yield :: "user \<Rightarrow> invocation" where
  "k_yield u =
     (if z_syscall_trap u
      then arch_syscall_invoke K_SYSCALL_K_YIELD [] [] Ret_void
      else z_impl ''k_yield'' [])"

definition k_wakeup :: "user \<Rightarrow> u32 \<Rightarrow> invocation" where
  "k_wakeup u thread =
     (if z_syscall_trap u
      then arch_syscall_invoke K_SYSCALL_K_WAKEUP [thread] [] Ret_void
      else z_impl ''k_wakeup'' [A32 thread])"

definition z_current_get :: "user \<Rightarrow> invocation" where
  "z_current_get u =
     (if z_syscall_trap u
      then arch_syscall_invoke K_SYSCALL_Z_CURRENT_GET [] [] Ret_word
      else z_impl ''z_current_get'' [])"

definition k_thread_abort :: "user \<Rightarrow> u32 \<Rightarrow> invocation" where
  "k_thread_abort u thread =
     (if z_syscall_trap u
      then arch_syscall_invoke K_SYSCALL_K_THREAD_ABORT [thread] [] Ret_void
      else z_impl ''k_thread_abort'' [A32 thread])"

definition k_thread_start :: "user \<Rightarrow> u32 \<Rightarrow> invocation" where
  "k_thread_start u thread =
     (if z_syscall_trap u
      then arch_syscall_invoke K_SYSCALL_K_THREAD_START [thread] [] Ret_void
      else z_impl ''k_thread_start'' [A32 thread])"

definition k_thread_timeout_expires_ticks :: "user \<Rightarrow> u32 \<Rightarrow> invocation"
    where
  "k_thread_timeout_expires_ticks u t' =
     (if z_syscall_trap u
      then arch_syscall_invoke K_SYSCALL_K_THREAD_TIMEOUT_EXPIRES_TICKS [t'] [] Ret_word
      else z_impl ''k_thread_timeout_expires_ticks'' [A32 t'])"

definition k_thread_timeout_remaining_ticks :: "user \<Rightarrow> u32 \<Rightarrow> invocation"
    where
  "k_thread_timeout_remaining_ticks u t' =
     (if z_syscall_trap u
      then arch_syscall_invoke K_SYSCALL_K_THREAD_TIMEOUT_REMAINING_TICKS [t'] [] Ret_word
      else z_impl ''k_thread_timeout_remaining_ticks'' [A32 t'])"

definition k_thread_priority_get :: "user \<Rightarrow> u32 \<Rightarrow> invocation" where
  "k_thread_priority_get u thread =
     (if z_syscall_trap u
      then arch_syscall_invoke K_SYSCALL_K_THREAD_PRIORITY_GET [thread] [] Ret_word
      else z_impl ''k_thread_priority_get'' [A32 thread])"

definition k_thread_priority_set :: "user \<Rightarrow> u32 \<Rightarrow> u32 \<Rightarrow>
    invocation" where
  "k_thread_priority_set u thread prio =
     (if z_syscall_trap u
      then arch_syscall_invoke K_SYSCALL_K_THREAD_PRIORITY_SET [thread, prio] [] Ret_void
      else z_impl ''k_thread_priority_set'' [A32 thread, A32 prio])"

definition k_thread_deadline_set :: "user \<Rightarrow> u32 \<Rightarrow> u32 \<Rightarrow>
    invocation" where
  "k_thread_deadline_set u thread deadline =
     (if z_syscall_trap u
      then arch_syscall_invoke K_SYSCALL_K_THREAD_DEADLINE_SET [thread, deadline] [] Ret_void
      else z_impl ''k_thread_deadline_set'' [A32 thread, A32 deadline])"

definition k_thread_suspend :: "user \<Rightarrow> u32 \<Rightarrow> invocation" where
  "k_thread_suspend u thread =
     (if z_syscall_trap u
      then arch_syscall_invoke K_SYSCALL_K_THREAD_SUSPEND [thread] [] Ret_void
      else z_impl ''k_thread_suspend'' [A32 thread])"

definition k_thread_resume :: "user \<Rightarrow> u32 \<Rightarrow> invocation" where
  "k_thread_resume u thread =
     (if z_syscall_trap u
      then arch_syscall_invoke K_SYSCALL_K_THREAD_RESUME [thread] [] Ret_void
      else z_impl ''k_thread_resume'' [A32 thread])"

definition k_is_preempt_thread :: "user \<Rightarrow> invocation" where
  "k_is_preempt_thread u =
     (if z_syscall_trap u
      then arch_syscall_invoke K_SYSCALL_K_IS_PREEMPT_THREAD [] [] Ret_word
      else z_impl ''k_is_preempt_thread'' [])"

definition k_thread_custom_data_set :: "user \<Rightarrow> u32 \<Rightarrow> invocation" where
  "k_thread_custom_data_set u value' =
     (if z_syscall_trap u
      then arch_syscall_invoke K_SYSCALL_K_THREAD_CUSTOM_DATA_SET [value'] [] Ret_void
      else z_impl ''k_thread_custom_data_set'' [A32 value'])"

definition k_thread_custom_data_get :: "user \<Rightarrow> invocation" where
  "k_thread_custom_data_get u =
     (if z_syscall_trap u
      then arch_syscall_invoke K_SYSCALL_K_THREAD_CUSTOM_DATA_GET [] [] Ret_word
      else z_impl ''k_thread_custom_data_get'' [])"

definition k_thread_name_set :: "user \<Rightarrow> u32 \<Rightarrow> u32 \<Rightarrow>
    invocation" where
  "k_thread_name_set u thread str' =
     (if z_syscall_trap u
      then arch_syscall_invoke K_SYSCALL_K_THREAD_NAME_SET [thread, str'] [] Ret_word
      else z_impl ''k_thread_name_set'' [A32 thread, A32 str'])"

definition k_thread_name_copy :: "user \<Rightarrow> u32 \<Rightarrow> u32 \<Rightarrow> u32
    \<Rightarrow> invocation" where
  "k_thread_name_copy u thread buf size' =
     (if z_syscall_trap u
      then arch_syscall_invoke K_SYSCALL_K_THREAD_NAME_COPY [thread, buf, size'] [] Ret_word
      else z_impl ''k_thread_name_copy'' [A32 thread, A32 buf, A32 size'])"

definition k_timer_start :: "user \<Rightarrow> u32 \<Rightarrow> u64 \<Rightarrow> u64
    \<Rightarrow> invocation" where
  "k_timer_start u timer duration period =
     (if z_syscall_trap u
      then let parm0 = duration in let parm1 = period in arch_syscall_invoke
          K_SYSCALL_K_TIMER_START [timer, lo32 parm0, hi32 parm0, lo32 parm1, hi32 parm1] []
          Ret_void
      else z_impl ''k_timer_start'' [A32 timer, A64 duration, A64 period])"

definition k_timer_stop :: "user \<Rightarrow> u32 \<Rightarrow> invocation" where
  "k_timer_stop u timer =
     (if z_syscall_trap u
      then arch_syscall_invoke K_SYSCALL_K_TIMER_STOP [timer] [] Ret_void
      else z_impl ''k_timer_stop'' [A32 timer])"

definition k_timer_status_get :: "user \<Rightarrow> u32 \<Rightarrow> invocation" where
  "k_timer_status_get u timer =
     (if z_syscall_trap u
      then arch_syscall_invoke K_SYSCALL_K_TIMER_STATUS_GET [timer] [] Ret_word
      else z_impl ''k_timer_status_get'' [A32 timer])"

definition k_timer_status_sync :: "user \<Rightarrow> u32 \<Rightarrow> invocation" where
  "k_timer_status_sync u timer =
     (if z_syscall_trap u
      then arch_syscall_invoke K_SYSCALL_K_TIMER_STATUS_SYNC [timer] [] Ret_word
      else z_impl ''k_timer_status_sync'' [A32 timer])"

definition k_timer_expires_ticks :: "user \<Rightarrow> u32 \<Rightarrow> invocation" where
  "k_timer_expires_ticks u timer =
     (if z_syscall_trap u
      then arch_syscall_invoke K_SYSCALL_K_TIMER_EXPIRES_TICKS [timer] [] Ret_word
      else z_impl ''k_timer_expires_ticks'' [A32 timer])"

definition k_timer_remaining_ticks :: "user \<Rightarrow> u32 \<Rightarrow> invocation" where
  "k_timer_remaining_ticks u timer =
     (if z_syscall_trap u
      then arch_syscall_invoke K_SYSCALL_K_TIMER_REMAINING_TICKS [timer] [] Ret_word
      else z_impl ''k_timer_remaining_ticks'' [A32 timer])"

definition k_timer_user_data_set :: "user \<Rightarrow> u32 \<Rightarrow> u32 \<Rightarrow>
    invocation" where
  "k_timer_user_data_set u timer user_data =
     (if z_syscall_trap u
      then arch_syscall_invoke K_SYSCALL_K_TIMER_USER_DATA_SET [timer, user_data] [] Ret_void
      else z_impl ''k_timer_user_data_set'' [A32 timer, A32 user_data])"

definition k_timer_user_data_get :: "user \<Rightarrow> u32 \<Rightarrow> invocation" where
  "k_timer_user_data_get u timer =
     (if z_syscall_trap u
      then arch_syscall_invoke K_SYSCALL_K_TIMER_USER_DATA_GET [timer] [] Ret_word
      else z_impl ''k_timer_user_data_get'' [A32 timer])"

definition k_uptime_ticks :: "user \<Rightarrow> invocation" where
  "k_uptime_ticks u =
     (if z_syscall_trap u
      then arch_syscall_invoke K_SYSCALL_K_UPTIME_TICKS [frame u] [] (Ret_mem (frame u))
      else z_impl ''k_uptime_ticks'' [])"

definition k_queue_init :: "user \<Rightarrow> u32 \<Rightarrow> invocation" where
  "k_queue_init u queue =
     (if z_syscall_trap u
      then arch_syscall_invoke K_SYSCALL_K_QUEUE_INIT [queue] [] Ret_void
      else z_impl ''k_queue_init'' [A32 queue])"

definition k_queue_cancel_wait :: "user \<Rightarrow> u32 \<Rightarrow> invocation" where
  "k_queue_cancel_wait u queue =
     (if z_syscall_trap u
      then arch_syscall_invoke K_SYSCALL_K_QUEUE_CANCEL_WAIT [queue] [] Ret_void
      else z_impl ''k_queue_cancel_wait'' [A32 queue])"

definition k_queue_alloc_append :: "user \<Rightarrow> u32 \<Rightarrow> u32 \<Rightarrow>
    invocation" where
  "k_queue_alloc_append u queue data' =
     (if z_syscall_trap u
      then arch_syscall_invoke K_SYSCALL_K_QUEUE_ALLOC_APPEND [queue, data'] [] Ret_word
      else z_impl ''k_queue_alloc_append'' [A32 queue, A32 data'])"

definition k_queue_alloc_prepend :: "user \<Rightarrow> u32 \<Rightarrow> u32 \<Rightarrow>
    invocation" where
  "k_queue_alloc_prepend u queue data' =
     (if z_syscall_trap u
      then arch_syscall_invoke K_SYSCALL_K_QUEUE_ALLOC_PREPEND [queue, data'] [] Ret_word
      else z_impl ''k_queue_alloc_prepend'' [A32 queue, A32 data'])"

definition k_queue_get :: "user \<Rightarrow> u32 \<Rightarrow> u64 \<Rightarrow> invocation"
    where
  "k_queue_get u queue timeout =
     (if z_syscall_trap u
      then let parm0 = timeout in arch_syscall_invoke K_SYSCALL_K_QUEUE_GET [queue, lo32 parm0,
          hi32 parm0] [] Ret_word
      else z_impl ''k_queue_get'' [A32 queue, A64 timeout])"

definition k_queue_is_empty :: "user \<Rightarrow> u32 \<Rightarrow> invocation" where
  "k_queue_is_empty u queue =
     (if z_syscall_trap u
      then arch_syscall_invoke K_SYSCALL_K_QUEUE_IS_EMPTY [queue] [] Ret_word
      else z_impl ''k_queue_is_empty'' [A32 queue])"

definition k_queue_peek_head :: "user \<Rightarrow> u32 \<Rightarrow> invocation" where
  "k_queue_peek_head u queue =
     (if z_syscall_trap u
      then arch_syscall_invoke K_SYSCALL_K_QUEUE_PEEK_HEAD [queue] [] Ret_word
      else z_impl ''k_queue_peek_head'' [A32 queue])"

definition k_queue_peek_tail :: "user \<Rightarrow> u32 \<Rightarrow> invocation" where
  "k_queue_peek_tail u queue =
     (if z_syscall_trap u
      then arch_syscall_invoke K_SYSCALL_K_QUEUE_PEEK_TAIL [queue] [] Ret_word
      else z_impl ''k_queue_peek_tail'' [A32 queue])"

definition k_futex_wait :: "user \<Rightarrow> u32 \<Rightarrow> u32 \<Rightarrow> u64
    \<Rightarrow> invocation" where
  "k_futex_wait u futex expected timeout =
     (if z_syscall_trap u
      then let parm0 = timeout in arch_syscall_invoke K_SYSCALL_K_FUTEX_WAIT [futex, expected,
          lo32 parm0, hi32 parm0] [] Ret_word
      else z_impl ''k_futex_wait'' [A32 futex, A32 expected, A64 timeout])"

definition k_futex_wake :: "user \<Rightarrow> u32 \<Rightarrow> u8 \<Rightarrow> invocation"
    where
  "k_futex_wake u futex wake_all =
     (if z_syscall_trap u
      then arch_syscall_invoke K_SYSCALL_K_FUTEX_WAKE [futex, over_read8 (beyond u 1) wake_all] []
          Ret_word
      else z_impl ''k_futex_wake'' [A32 futex, A8 wake_all])"

definition k_event_init :: "user \<Rightarrow> u32 \<Rightarrow> invocation" where
  "k_event_init u event =
     (if z_syscall_trap u
      then arch_syscall_invoke K_SYSCALL_K_EVENT_INIT [event] [] Ret_void
      else z_impl ''k_event_init'' [A32 event])"

definition k_event_post :: "user \<Rightarrow> u32 \<Rightarrow> u32 \<Rightarrow> invocation"
    where
  "k_event_post u event events =
     (if z_syscall_trap u
      then arch_syscall_invoke K_SYSCALL_K_EVENT_POST [event, events] [] Ret_void
      else z_impl ''k_event_post'' [A32 event, A32 events])"

definition k_event_set :: "user \<Rightarrow> u32 \<Rightarrow> u32 \<Rightarrow> invocation"
    where
  "k_event_set u event events =
     (if z_syscall_trap u
      then arch_syscall_invoke K_SYSCALL_K_EVENT_SET [event, events] [] Ret_void
      else z_impl ''k_event_set'' [A32 event, A32 events])"

definition k_event_wait :: "user \<Rightarrow> u32 \<Rightarrow> u32 \<Rightarrow> u8
    \<Rightarrow> u64 \<Rightarrow> invocation" where
  "k_event_wait u event events reset timeout =
     (if z_syscall_trap u
      then let parm0 = timeout in arch_syscall_invoke K_SYSCALL_K_EVENT_WAIT [event, events,
          over_read8 (beyond u 2) reset, lo32 parm0, hi32 parm0] [] Ret_word
      else z_impl ''k_event_wait'' [A32 event, A32 events, A8 reset, A64 timeout])"

definition k_event_wait_all :: "user \<Rightarrow> u32 \<Rightarrow> u32 \<Rightarrow> u8
    \<Rightarrow> u64 \<Rightarrow> invocation" where
  "k_event_wait_all u event events reset timeout =
     (if z_syscall_trap u
      then let parm0 = timeout in arch_syscall_invoke K_SYSCALL_K_EVENT_WAIT_ALL [event, events,
          over_read8 (beyond u 2) reset, lo32 parm0, hi32 parm0] [] Ret_word
      else z_impl ''k_event_wait_all'' [A32 event, A32 events, A8 reset, A64 timeout])"

definition k_stack_alloc_init :: "user \<Rightarrow> u32 \<Rightarrow> u32 \<Rightarrow>
    invocation" where
  "k_stack_alloc_init u stack num_entries =
     (if z_syscall_trap u
      then arch_syscall_invoke K_SYSCALL_K_STACK_ALLOC_INIT [stack, num_entries] [] Ret_word
      else z_impl ''k_stack_alloc_init'' [A32 stack, A32 num_entries])"

definition k_stack_push :: "user \<Rightarrow> u32 \<Rightarrow> u32 \<Rightarrow> invocation"
    where
  "k_stack_push u stack data' =
     (if z_syscall_trap u
      then arch_syscall_invoke K_SYSCALL_K_STACK_PUSH [stack, data'] [] Ret_word
      else z_impl ''k_stack_push'' [A32 stack, A32 data'])"

definition k_stack_pop :: "user \<Rightarrow> u32 \<Rightarrow> u32 \<Rightarrow> u64
    \<Rightarrow> invocation" where
  "k_stack_pop u stack data' timeout =
     (if z_syscall_trap u
      then let parm0 = timeout in arch_syscall_invoke K_SYSCALL_K_STACK_POP [stack, data', lo32
          parm0, hi32 parm0] [] Ret_word
      else z_impl ''k_stack_pop'' [A32 stack, A32 data', A64 timeout])"

definition k_mutex_init :: "user \<Rightarrow> u32 \<Rightarrow> invocation" where
  "k_mutex_init u mutex =
     (if z_syscall_trap u
      then arch_syscall_invoke K_SYSCALL_K_MUTEX_INIT [mutex] [] Ret_word
      else z_impl ''k_mutex_init'' [A32 mutex])"

definition k_mutex_lock :: "user \<Rightarrow> u32 \<Rightarrow> u64 \<Rightarrow> invocation"
    where
  "k_mutex_lock u mutex timeout =
     (if z_syscall_trap u
      then let parm0 = timeout in arch_syscall_invoke K_SYSCALL_K_MUTEX_LOCK [mutex, lo32 parm0,
          hi32 parm0] [] Ret_word
      else z_impl ''k_mutex_lock'' [A32 mutex, A64 timeout])"

definition k_mutex_unlock :: "user \<Rightarrow> u32 \<Rightarrow> invocation" where
  "k_mutex_unlock u mutex =
     (if z_syscall_trap u
      then arch_syscall_invoke K_SYSCALL_K_MUTEX_UNLOCK [mutex] [] Ret_word
      else z_impl ''k_mutex_unlock'' [A32 mutex])"

definition k_condvar_init :: "user \<Rightarrow> u32 \<Rightarrow> invocation" where
  "k_condvar_init u condvar =
     (if z_syscall_trap u
      then arch_syscall_invoke K_SYSCALL_K_CONDVAR_INIT [condvar] [] Ret_word
      else z_impl ''k_condvar_init'' [A32 condvar])"

definition k_condvar_signal :: "user \<Rightarrow> u32 \<Rightarrow> invocation" where
  "k_condvar_signal u condvar =
     (if z_syscall_trap u
      then arch_syscall_invoke K_SYSCALL_K_CONDVAR_SIGNAL [condvar] [] Ret_word
      else z_impl ''k_condvar_signal'' [A32 condvar])"

definition k_condvar_broadcast :: "user \<Rightarrow> u32 \<Rightarrow> invocation" where
  "k_condvar_broadcast u condvar =
     (if z_syscall_trap u
      then arch_syscall_invoke K_SYSCALL_K_CONDVAR_BROADCAST [condvar] [] Ret_word
      else z_impl ''k_condvar_broadcast'' [A32 condvar])"

definition k_condvar_wait :: "user \<Rightarrow> u32 \<Rightarrow> u32 \<Rightarrow> u64
    \<Rightarrow> invocation" where
  "k_condvar_wait u condvar mutex timeout =
     (if z_syscall_trap u
      then let parm0 = timeout in arch_syscall_invoke K_SYSCALL_K_CONDVAR_WAIT [condvar, mutex,
          lo32 parm0, hi32 parm0] [] Ret_word
      else z_impl ''k_condvar_wait'' [A32 condvar, A32 mutex, A64 timeout])"

definition k_sem_init :: "user \<Rightarrow> u32 \<Rightarrow> u32 \<Rightarrow> u32 \<Rightarrow>
    invocation" where
  "k_sem_init u sem initial_count limit' =
     (if z_syscall_trap u
      then arch_syscall_invoke K_SYSCALL_K_SEM_INIT [sem, initial_count, limit'] [] Ret_word
      else z_impl ''k_sem_init'' [A32 sem, A32 initial_count, A32 limit'])"

definition k_sem_take :: "user \<Rightarrow> u32 \<Rightarrow> u64 \<Rightarrow> invocation" where
  "k_sem_take u sem timeout =
     (if z_syscall_trap u
      then let parm0 = timeout in arch_syscall_invoke K_SYSCALL_K_SEM_TAKE [sem, lo32 parm0, hi32
          parm0] [] Ret_word
      else z_impl ''k_sem_take'' [A32 sem, A64 timeout])"

definition k_sem_give :: "user \<Rightarrow> u32 \<Rightarrow> invocation" where
  "k_sem_give u sem =
     (if z_syscall_trap u
      then arch_syscall_invoke K_SYSCALL_K_SEM_GIVE [sem] [] Ret_void
      else z_impl ''k_sem_give'' [A32 sem])"

definition k_sem_reset :: "user \<Rightarrow> u32 \<Rightarrow> invocation" where
  "k_sem_reset u sem =
     (if z_syscall_trap u
      then arch_syscall_invoke K_SYSCALL_K_SEM_RESET [sem] [] Ret_void
      else z_impl ''k_sem_reset'' [A32 sem])"

definition k_sem_count_get :: "user \<Rightarrow> u32 \<Rightarrow> invocation" where
  "k_sem_count_get u sem =
     (if z_syscall_trap u
      then arch_syscall_invoke K_SYSCALL_K_SEM_COUNT_GET [sem] [] Ret_word
      else z_impl ''k_sem_count_get'' [A32 sem])"

definition k_msgq_alloc_init :: "user \<Rightarrow> u32 \<Rightarrow> u32 \<Rightarrow> u32
    \<Rightarrow> invocation" where
  "k_msgq_alloc_init u msgq msg_size max_msgs =
     (if z_syscall_trap u
      then arch_syscall_invoke K_SYSCALL_K_MSGQ_ALLOC_INIT [msgq, msg_size, max_msgs] [] Ret_word
      else z_impl ''k_msgq_alloc_init'' [A32 msgq, A32 msg_size, A32 max_msgs])"

definition k_msgq_put :: "user \<Rightarrow> u32 \<Rightarrow> u32 \<Rightarrow> u64 \<Rightarrow>
    invocation" where
  "k_msgq_put u msgq data' timeout =
     (if z_syscall_trap u
      then let parm0 = timeout in arch_syscall_invoke K_SYSCALL_K_MSGQ_PUT [msgq, data', lo32
          parm0, hi32 parm0] [] Ret_word
      else z_impl ''k_msgq_put'' [A32 msgq, A32 data', A64 timeout])"

definition k_msgq_get :: "user \<Rightarrow> u32 \<Rightarrow> u32 \<Rightarrow> u64 \<Rightarrow>
    invocation" where
  "k_msgq_get u msgq data' timeout =
     (if z_syscall_trap u
      then let parm0 = timeout in arch_syscall_invoke K_SYSCALL_K_MSGQ_GET [msgq, data', lo32
          parm0, hi32 parm0] [] Ret_word
      else z_impl ''k_msgq_get'' [A32 msgq, A32 data', A64 timeout])"

definition k_msgq_peek :: "user \<Rightarrow> u32 \<Rightarrow> u32 \<Rightarrow> invocation"
    where
  "k_msgq_peek u msgq data' =
     (if z_syscall_trap u
      then arch_syscall_invoke K_SYSCALL_K_MSGQ_PEEK [msgq, data'] [] Ret_word
      else z_impl ''k_msgq_peek'' [A32 msgq, A32 data'])"

definition k_msgq_purge :: "user \<Rightarrow> u32 \<Rightarrow> invocation" where
  "k_msgq_purge u msgq =
     (if z_syscall_trap u
      then arch_syscall_invoke K_SYSCALL_K_MSGQ_PURGE [msgq] [] Ret_void
      else z_impl ''k_msgq_purge'' [A32 msgq])"

definition k_msgq_num_free_get :: "user \<Rightarrow> u32 \<Rightarrow> invocation" where
  "k_msgq_num_free_get u msgq =
     (if z_syscall_trap u
      then arch_syscall_invoke K_SYSCALL_K_MSGQ_NUM_FREE_GET [msgq] [] Ret_word
      else z_impl ''k_msgq_num_free_get'' [A32 msgq])"

definition k_msgq_get_attrs :: "user \<Rightarrow> u32 \<Rightarrow> u32 \<Rightarrow> invocation"
    where
  "k_msgq_get_attrs u msgq attrs =
     (if z_syscall_trap u
      then arch_syscall_invoke K_SYSCALL_K_MSGQ_GET_ATTRS [msgq, attrs] [] Ret_void
      else z_impl ''k_msgq_get_attrs'' [A32 msgq, A32 attrs])"

definition k_msgq_num_used_get :: "user \<Rightarrow> u32 \<Rightarrow> invocation" where
  "k_msgq_num_used_get u msgq =
     (if z_syscall_trap u
      then arch_syscall_invoke K_SYSCALL_K_MSGQ_NUM_USED_GET [msgq] [] Ret_word
      else z_impl ''k_msgq_num_used_get'' [A32 msgq])"

definition k_pipe_alloc_init :: "user \<Rightarrow> u32 \<Rightarrow> u32 \<Rightarrow>
    invocation" where
  "k_pipe_alloc_init u pipe size' =
     (if z_syscall_trap u
      then arch_syscall_invoke K_SYSCALL_K_PIPE_ALLOC_INIT [pipe, size'] [] Ret_word
      else z_impl ''k_pipe_alloc_init'' [A32 pipe, A32 size'])"

definition k_pipe_put :: "user \<Rightarrow> u32 \<Rightarrow> u32 \<Rightarrow> u32 \<Rightarrow>
    u32 \<Rightarrow> u32 \<Rightarrow> u64 \<Rightarrow> invocation" where
  "k_pipe_put u pipe data' bytes_to_write bytes_written min_xfer timeout =
     (if z_syscall_trap u
      then let parm0 = timeout in arch_syscall_invoke K_SYSCALL_K_PIPE_PUT [pipe, data',
          bytes_to_write, bytes_written, min_xfer, frame u] [lo32 parm0, hi32 parm0] Ret_word
      else z_impl ''k_pipe_put'' [A32 pipe, A32 data', A32 bytes_to_write, A32 bytes_written, A32
          min_xfer, A64 timeout])"

definition k_pipe_get :: "user \<Rightarrow> u32 \<Rightarrow> u32 \<Rightarrow> u32 \<Rightarrow>
    u32 \<Rightarrow> u32 \<Rightarrow> u64 \<Rightarrow> invocation" where
  "k_pipe_get u pipe data' bytes_to_read bytes_read min_xfer timeout =
     (if z_syscall_trap u
      then let parm0 = timeout in arch_syscall_invoke K_SYSCALL_K_PIPE_GET [pipe, data',
          bytes_to_read, bytes_read, min_xfer, frame u] [lo32 parm0, hi32 parm0] Ret_word
      else z_impl ''k_pipe_get'' [A32 pipe, A32 data', A32 bytes_to_read, A32 bytes_read, A32
          min_xfer, A64 timeout])"

definition k_pipe_read_avail :: "user \<Rightarrow> u32 \<Rightarrow> invocation" where
  "k_pipe_read_avail u pipe =
     (if z_syscall_trap u
      then arch_syscall_invoke K_SYSCALL_K_PIPE_READ_AVAIL [pipe] [] Ret_word
      else z_impl ''k_pipe_read_avail'' [A32 pipe])"

definition k_pipe_write_avail :: "user \<Rightarrow> u32 \<Rightarrow> invocation" where
  "k_pipe_write_avail u pipe =
     (if z_syscall_trap u
      then arch_syscall_invoke K_SYSCALL_K_PIPE_WRITE_AVAIL [pipe] [] Ret_word
      else z_impl ''k_pipe_write_avail'' [A32 pipe])"

definition k_poll :: "user \<Rightarrow> u32 \<Rightarrow> u32 \<Rightarrow> u64 \<Rightarrow>
    invocation" where
  "k_poll u events num_events timeout =
     (if z_syscall_trap u
      then let parm0 = timeout in arch_syscall_invoke K_SYSCALL_K_POLL [events, num_events, lo32
          parm0, hi32 parm0] [] Ret_word
      else z_impl ''k_poll'' [A32 events, A32 num_events, A64 timeout])"

definition k_poll_signal_init :: "user \<Rightarrow> u32 \<Rightarrow> invocation" where
  "k_poll_signal_init u sig' =
     (if z_syscall_trap u
      then arch_syscall_invoke K_SYSCALL_K_POLL_SIGNAL_INIT [sig'] [] Ret_void
      else z_impl ''k_poll_signal_init'' [A32 sig'])"

definition k_poll_signal_reset :: "user \<Rightarrow> u32 \<Rightarrow> invocation" where
  "k_poll_signal_reset u sig' =
     (if z_syscall_trap u
      then arch_syscall_invoke K_SYSCALL_K_POLL_SIGNAL_RESET [sig'] [] Ret_void
      else z_impl ''k_poll_signal_reset'' [A32 sig'])"

definition k_poll_signal_check :: "user \<Rightarrow> u32 \<Rightarrow> u32 \<Rightarrow> u32
    \<Rightarrow> invocation" where
  "k_poll_signal_check u sig' signaled result' =
     (if z_syscall_trap u
      then arch_syscall_invoke K_SYSCALL_K_POLL_SIGNAL_CHECK [sig', signaled, result'] [] Ret_void
      else z_impl ''k_poll_signal_check'' [A32 sig', A32 signaled, A32 result'])"

definition k_poll_signal_raise :: "user \<Rightarrow> u32 \<Rightarrow> u32 \<Rightarrow>
    invocation" where
  "k_poll_signal_raise u sig' result' =
     (if z_syscall_trap u
      then arch_syscall_invoke K_SYSCALL_K_POLL_SIGNAL_RAISE [sig', result'] [] Ret_word
      else z_impl ''k_poll_signal_raise'' [A32 sig', A32 result'])"

definition k_str_out :: "user \<Rightarrow> u32 \<Rightarrow> u32 \<Rightarrow> invocation" where
  "k_str_out u c' n =
     (if z_syscall_trap u
      then arch_syscall_invoke K_SYSCALL_K_STR_OUT [c', n] [] Ret_void
      else z_impl ''k_str_out'' [A32 c', A32 n])"

definition k_float_disable :: "user \<Rightarrow> u32 \<Rightarrow> invocation" where
  "k_float_disable u thread =
     (if z_syscall_trap u
      then arch_syscall_invoke K_SYSCALL_K_FLOAT_DISABLE [thread] [] Ret_word
      else z_impl ''k_float_disable'' [A32 thread])"

definition k_float_enable :: "user \<Rightarrow> u32 \<Rightarrow> u32 \<Rightarrow> invocation"
    where
  "k_float_enable u thread options' =
     (if z_syscall_trap u
      then arch_syscall_invoke K_SYSCALL_K_FLOAT_ENABLE [thread, options'] [] Ret_word
      else z_impl ''k_float_enable'' [A32 thread, A32 options'])"

section \<open>The calls of these interfaces\<close>

text \<open>
  \<open>kernel_call u name args call\<close>: the wrapper of the system call \<open>name\<close>, called in the
  context \<open>u\<close> with the arguments \<open>args\<close>, makes the invocation \<open>call\<close>.
\<close>

inductive kernel_call :: "user \<Rightarrow> string \<Rightarrow> carg list \<Rightarrow> invocation \<Rightarrow> bool" for u where
  "kernel_call u ''k_thread_create'' [A32 a, A32 b, A32 c, A32 d, A32 e, A32 f, A32 g, A32 h, A32
      i, A64 j] (k_thread_create u a b c d e f g h i j)"
| "kernel_call u ''k_thread_stack_space_get'' [A32 a, A32 b] (k_thread_stack_space_get u a b)"
| "kernel_call u ''k_thread_join'' [A32 a, A64 b] (k_thread_join u a b)"
| "kernel_call u ''k_sleep'' [A64 a] (k_sleep u a)"
| "kernel_call u ''k_usleep'' [A32 a] (k_usleep u a)"
| "kernel_call u ''k_busy_wait'' [A32 a] (k_busy_wait u a)"
| "kernel_call u ''k_yield'' [] (k_yield u)"
| "kernel_call u ''k_wakeup'' [A32 a] (k_wakeup u a)"
| "kernel_call u ''z_current_get'' [] (z_current_get u)"
| "kernel_call u ''k_thread_abort'' [A32 a] (k_thread_abort u a)"
| "kernel_call u ''k_thread_start'' [A32 a] (k_thread_start u a)"
| "kernel_call u ''k_thread_timeout_expires_ticks'' [A32 a] (k_thread_timeout_expires_ticks u a)"
| "kernel_call u ''k_thread_timeout_remaining_ticks'' [A32 a] (k_thread_timeout_remaining_ticks u
      a)"
| "kernel_call u ''k_thread_priority_get'' [A32 a] (k_thread_priority_get u a)"
| "kernel_call u ''k_thread_priority_set'' [A32 a, A32 b] (k_thread_priority_set u a b)"
| "kernel_call u ''k_thread_deadline_set'' [A32 a, A32 b] (k_thread_deadline_set u a b)"
| "kernel_call u ''k_thread_suspend'' [A32 a] (k_thread_suspend u a)"
| "kernel_call u ''k_thread_resume'' [A32 a] (k_thread_resume u a)"
| "kernel_call u ''k_is_preempt_thread'' [] (k_is_preempt_thread u)"
| "kernel_call u ''k_thread_custom_data_set'' [A32 a] (k_thread_custom_data_set u a)"
| "kernel_call u ''k_thread_custom_data_get'' [] (k_thread_custom_data_get u)"
| "kernel_call u ''k_thread_name_set'' [A32 a, A32 b] (k_thread_name_set u a b)"
| "kernel_call u ''k_thread_name_copy'' [A32 a, A32 b, A32 c] (k_thread_name_copy u a b c)"
| "kernel_call u ''k_timer_start'' [A32 a, A64 b, A64 c] (k_timer_start u a b c)"
| "kernel_call u ''k_timer_stop'' [A32 a] (k_timer_stop u a)"
| "kernel_call u ''k_timer_status_get'' [A32 a] (k_timer_status_get u a)"
| "kernel_call u ''k_timer_status_sync'' [A32 a] (k_timer_status_sync u a)"
| "kernel_call u ''k_timer_expires_ticks'' [A32 a] (k_timer_expires_ticks u a)"
| "kernel_call u ''k_timer_remaining_ticks'' [A32 a] (k_timer_remaining_ticks u a)"
| "kernel_call u ''k_timer_user_data_set'' [A32 a, A32 b] (k_timer_user_data_set u a b)"
| "kernel_call u ''k_timer_user_data_get'' [A32 a] (k_timer_user_data_get u a)"
| "kernel_call u ''k_uptime_ticks'' [] (k_uptime_ticks u)"
| "kernel_call u ''k_queue_init'' [A32 a] (k_queue_init u a)"
| "kernel_call u ''k_queue_cancel_wait'' [A32 a] (k_queue_cancel_wait u a)"
| "kernel_call u ''k_queue_alloc_append'' [A32 a, A32 b] (k_queue_alloc_append u a b)"
| "kernel_call u ''k_queue_alloc_prepend'' [A32 a, A32 b] (k_queue_alloc_prepend u a b)"
| "kernel_call u ''k_queue_get'' [A32 a, A64 b] (k_queue_get u a b)"
| "kernel_call u ''k_queue_is_empty'' [A32 a] (k_queue_is_empty u a)"
| "kernel_call u ''k_queue_peek_head'' [A32 a] (k_queue_peek_head u a)"
| "kernel_call u ''k_queue_peek_tail'' [A32 a] (k_queue_peek_tail u a)"
| "kernel_call u ''k_futex_wait'' [A32 a, A32 b, A64 c] (k_futex_wait u a b c)"
| "kernel_call u ''k_futex_wake'' [A32 a, A8 b] (k_futex_wake u a b)"
| "kernel_call u ''k_event_init'' [A32 a] (k_event_init u a)"
| "kernel_call u ''k_event_post'' [A32 a, A32 b] (k_event_post u a b)"
| "kernel_call u ''k_event_set'' [A32 a, A32 b] (k_event_set u a b)"
| "kernel_call u ''k_event_wait'' [A32 a, A32 b, A8 c, A64 d] (k_event_wait u a b c d)"
| "kernel_call u ''k_event_wait_all'' [A32 a, A32 b, A8 c, A64 d] (k_event_wait_all u a b c d)"
| "kernel_call u ''k_stack_alloc_init'' [A32 a, A32 b] (k_stack_alloc_init u a b)"
| "kernel_call u ''k_stack_push'' [A32 a, A32 b] (k_stack_push u a b)"
| "kernel_call u ''k_stack_pop'' [A32 a, A32 b, A64 c] (k_stack_pop u a b c)"
| "kernel_call u ''k_mutex_init'' [A32 a] (k_mutex_init u a)"
| "kernel_call u ''k_mutex_lock'' [A32 a, A64 b] (k_mutex_lock u a b)"
| "kernel_call u ''k_mutex_unlock'' [A32 a] (k_mutex_unlock u a)"
| "kernel_call u ''k_condvar_init'' [A32 a] (k_condvar_init u a)"
| "kernel_call u ''k_condvar_signal'' [A32 a] (k_condvar_signal u a)"
| "kernel_call u ''k_condvar_broadcast'' [A32 a] (k_condvar_broadcast u a)"
| "kernel_call u ''k_condvar_wait'' [A32 a, A32 b, A64 c] (k_condvar_wait u a b c)"
| "kernel_call u ''k_sem_init'' [A32 a, A32 b, A32 c] (k_sem_init u a b c)"
| "kernel_call u ''k_sem_take'' [A32 a, A64 b] (k_sem_take u a b)"
| "kernel_call u ''k_sem_give'' [A32 a] (k_sem_give u a)"
| "kernel_call u ''k_sem_reset'' [A32 a] (k_sem_reset u a)"
| "kernel_call u ''k_sem_count_get'' [A32 a] (k_sem_count_get u a)"
| "kernel_call u ''k_msgq_alloc_init'' [A32 a, A32 b, A32 c] (k_msgq_alloc_init u a b c)"
| "kernel_call u ''k_msgq_put'' [A32 a, A32 b, A64 c] (k_msgq_put u a b c)"
| "kernel_call u ''k_msgq_get'' [A32 a, A32 b, A64 c] (k_msgq_get u a b c)"
| "kernel_call u ''k_msgq_peek'' [A32 a, A32 b] (k_msgq_peek u a b)"
| "kernel_call u ''k_msgq_purge'' [A32 a] (k_msgq_purge u a)"
| "kernel_call u ''k_msgq_num_free_get'' [A32 a] (k_msgq_num_free_get u a)"
| "kernel_call u ''k_msgq_get_attrs'' [A32 a, A32 b] (k_msgq_get_attrs u a b)"
| "kernel_call u ''k_msgq_num_used_get'' [A32 a] (k_msgq_num_used_get u a)"
| "kernel_call u ''k_pipe_alloc_init'' [A32 a, A32 b] (k_pipe_alloc_init u a b)"
| "kernel_call u ''k_pipe_put'' [A32 a, A32 b, A32 c, A32 d, A32 e, A64 f] (k_pipe_put u a b c d e
      f)"
| "kernel_call u ''k_pipe_get'' [A32 a, A32 b, A32 c, A32 d, A32 e, A64 f] (k_pipe_get u a b c d e
      f)"
| "kernel_call u ''k_pipe_read_avail'' [A32 a] (k_pipe_read_avail u a)"
| "kernel_call u ''k_pipe_write_avail'' [A32 a] (k_pipe_write_avail u a)"
| "kernel_call u ''k_poll'' [A32 a, A32 b, A64 c] (k_poll u a b c)"
| "kernel_call u ''k_poll_signal_init'' [A32 a] (k_poll_signal_init u a)"
| "kernel_call u ''k_poll_signal_reset'' [A32 a] (k_poll_signal_reset u a)"
| "kernel_call u ''k_poll_signal_check'' [A32 a, A32 b, A32 c] (k_poll_signal_check u a b c)"
| "kernel_call u ''k_poll_signal_raise'' [A32 a, A32 b] (k_poll_signal_raise u a b)"
| "kernel_call u ''k_str_out'' [A32 a, A32 b] (k_str_out u a b)"
| "kernel_call u ''k_float_disable'' [A32 a] (k_float_disable u a)"
| "kernel_call u ''k_float_enable'' [A32 a, A32 b] (k_float_enable u a b)"

lemmas kernel_wrappers =
  k_thread_create_def k_thread_stack_space_get_def k_thread_join_def k_sleep_def k_usleep_def
  k_busy_wait_def k_yield_def k_wakeup_def z_current_get_def k_thread_abort_def
  k_thread_start_def k_thread_timeout_expires_ticks_def k_thread_timeout_remaining_ticks_def
  k_thread_priority_get_def k_thread_priority_set_def k_thread_deadline_set_def
  k_thread_suspend_def k_thread_resume_def k_is_preempt_thread_def k_thread_custom_data_set_def
  k_thread_custom_data_get_def k_thread_name_set_def k_thread_name_copy_def k_timer_start_def
  k_timer_stop_def k_timer_status_get_def k_timer_status_sync_def k_timer_expires_ticks_def
  k_timer_remaining_ticks_def k_timer_user_data_set_def k_timer_user_data_get_def
  k_uptime_ticks_def k_queue_init_def k_queue_cancel_wait_def k_queue_alloc_append_def
  k_queue_alloc_prepend_def k_queue_get_def k_queue_is_empty_def k_queue_peek_head_def
  k_queue_peek_tail_def k_futex_wait_def k_futex_wake_def k_event_init_def k_event_post_def
  k_event_set_def k_event_wait_def k_event_wait_all_def k_stack_alloc_init_def k_stack_push_def
  k_stack_pop_def k_mutex_init_def k_mutex_lock_def k_mutex_unlock_def k_condvar_init_def
  k_condvar_signal_def k_condvar_broadcast_def k_condvar_wait_def k_sem_init_def k_sem_take_def
  k_sem_give_def k_sem_reset_def k_sem_count_get_def k_msgq_alloc_init_def k_msgq_put_def
  k_msgq_get_def k_msgq_peek_def k_msgq_purge_def k_msgq_num_free_get_def k_msgq_get_attrs_def
  k_msgq_num_used_get_def k_pipe_alloc_init_def k_pipe_put_def k_pipe_get_def
  k_pipe_read_avail_def k_pipe_write_avail_def k_poll_def k_poll_signal_init_def
  k_poll_signal_reset_def k_poll_signal_check_def k_poll_signal_raise_def k_str_out_def
  k_float_disable_def k_float_enable_def

end
