(* ===== verification/SysCallsServices.thy ===== *)
theory SysCallsServices
  imports SysIds
begin

text \<open>
  The wrappers of the drivers the firmware uses (\<open>uart.h\<close>, \<open>adc.h\<close>, \<open>watchdog.h\<close>, \<open>device.h\<close>) and of the
  remaining services of the kernel and the C library: in user mode a wrapper
  puts its arguments into registers, with the words that do not fit in \<open>more\<close>, and traps; in
  kernel mode it calls the implementation.  A parameter of type \<^typ>\<open>user\<close> stands for the
  calling context.
\<close>

section \<open>uart.h\<close>

definition uart_tx :: "user \<Rightarrow> u32 \<Rightarrow> u32 \<Rightarrow> u32 \<Rightarrow>
    u32 \<Rightarrow> invocation" where
  "uart_tx u dev buf len' timeout =
     (if z_syscall_trap u
      then arch_syscall_invoke K_SYSCALL_UART_TX [dev, buf, len', timeout] [] Ret_word
      else z_impl ''uart_tx'' [A32 dev, A32 buf, A32 len', A32 timeout])"

definition uart_tx_u16 :: "user \<Rightarrow> u32 \<Rightarrow> u32 \<Rightarrow> u32
    \<Rightarrow> u32 \<Rightarrow> invocation" where
  "uart_tx_u16 u dev buf len' timeout =
     (if z_syscall_trap u
      then arch_syscall_invoke K_SYSCALL_UART_TX_U16 [dev, buf, len', timeout] [] Ret_word
      else z_impl ''uart_tx_u16'' [A32 dev, A32 buf, A32 len', A32 timeout])"

definition uart_tx_abort :: "user \<Rightarrow> u32 \<Rightarrow> invocation" where
  "uart_tx_abort u dev =
     (if z_syscall_trap u
      then arch_syscall_invoke K_SYSCALL_UART_TX_ABORT [dev] [] Ret_word
      else z_impl ''uart_tx_abort'' [A32 dev])"

definition uart_rx_enable :: "user \<Rightarrow> u32 \<Rightarrow> u32 \<Rightarrow> u32
    \<Rightarrow> u32 \<Rightarrow> invocation" where
  "uart_rx_enable u dev buf len' timeout =
     (if z_syscall_trap u
      then arch_syscall_invoke K_SYSCALL_UART_RX_ENABLE [dev, buf, len', timeout] [] Ret_word
      else z_impl ''uart_rx_enable'' [A32 dev, A32 buf, A32 len', A32 timeout])"

definition uart_rx_enable_u16 :: "user \<Rightarrow> u32 \<Rightarrow> u32 \<Rightarrow> u32
    \<Rightarrow> u32 \<Rightarrow> invocation" where
  "uart_rx_enable_u16 u dev buf len' timeout =
     (if z_syscall_trap u
      then arch_syscall_invoke K_SYSCALL_UART_RX_ENABLE_U16 [dev, buf, len', timeout] [] Ret_word
      else z_impl ''uart_rx_enable_u16'' [A32 dev, A32 buf, A32 len', A32 timeout])"

definition uart_rx_disable :: "user \<Rightarrow> u32 \<Rightarrow> invocation" where
  "uart_rx_disable u dev =
     (if z_syscall_trap u
      then arch_syscall_invoke K_SYSCALL_UART_RX_DISABLE [dev] [] Ret_word
      else z_impl ''uart_rx_disable'' [A32 dev])"

definition uart_err_check :: "user \<Rightarrow> u32 \<Rightarrow> invocation" where
  "uart_err_check u dev =
     (if z_syscall_trap u
      then arch_syscall_invoke K_SYSCALL_UART_ERR_CHECK [dev] [] Ret_word
      else z_impl ''uart_err_check'' [A32 dev])"

definition uart_poll_in :: "user \<Rightarrow> u32 \<Rightarrow> u32 \<Rightarrow> invocation"
    where
  "uart_poll_in u dev p_char =
     (if z_syscall_trap u
      then arch_syscall_invoke K_SYSCALL_UART_POLL_IN [dev, p_char] [] Ret_word
      else z_impl ''uart_poll_in'' [A32 dev, A32 p_char])"

definition uart_poll_in_u16 :: "user \<Rightarrow> u32 \<Rightarrow> u32 \<Rightarrow> invocation"
    where
  "uart_poll_in_u16 u dev p_u16 =
     (if z_syscall_trap u
      then arch_syscall_invoke K_SYSCALL_UART_POLL_IN_U16 [dev, p_u16] [] Ret_word
      else z_impl ''uart_poll_in_u16'' [A32 dev, A32 p_u16])"

definition uart_poll_out :: "user \<Rightarrow> u32 \<Rightarrow> u8 \<Rightarrow> invocation"
    where
  "uart_poll_out u dev out_char =
     (if z_syscall_trap u
      then arch_syscall_invoke K_SYSCALL_UART_POLL_OUT [dev, over_read8 (beyond u 1) out_char] []
          Ret_void
      else z_impl ''uart_poll_out'' [A32 dev, A8 out_char])"

definition uart_poll_out_u16 :: "user \<Rightarrow> u32 \<Rightarrow> u16 \<Rightarrow>
    invocation" where
  "uart_poll_out_u16 u dev out_u16 =
     (if z_syscall_trap u
      then arch_syscall_invoke K_SYSCALL_UART_POLL_OUT_U16 [dev, over_read16 (beyond u 1) out_u16]
          [] Ret_void
      else z_impl ''uart_poll_out_u16'' [A32 dev, A16 out_u16])"

definition uart_configure :: "user \<Rightarrow> u32 \<Rightarrow> u32 \<Rightarrow> invocation"
    where
  "uart_configure u dev cfg =
     (if z_syscall_trap u
      then arch_syscall_invoke K_SYSCALL_UART_CONFIGURE [dev, cfg] [] Ret_word
      else z_impl ''uart_configure'' [A32 dev, A32 cfg])"

definition uart_config_get :: "user \<Rightarrow> u32 \<Rightarrow> u32 \<Rightarrow> invocation"
    where
  "uart_config_get u dev cfg =
     (if z_syscall_trap u
      then arch_syscall_invoke K_SYSCALL_UART_CONFIG_GET [dev, cfg] [] Ret_word
      else z_impl ''uart_config_get'' [A32 dev, A32 cfg])"

definition uart_irq_tx_enable :: "user \<Rightarrow> u32 \<Rightarrow> invocation" where
  "uart_irq_tx_enable u dev =
     (if z_syscall_trap u
      then arch_syscall_invoke K_SYSCALL_UART_IRQ_TX_ENABLE [dev] [] Ret_void
      else z_impl ''uart_irq_tx_enable'' [A32 dev])"

definition uart_irq_tx_disable :: "user \<Rightarrow> u32 \<Rightarrow> invocation" where
  "uart_irq_tx_disable u dev =
     (if z_syscall_trap u
      then arch_syscall_invoke K_SYSCALL_UART_IRQ_TX_DISABLE [dev] [] Ret_void
      else z_impl ''uart_irq_tx_disable'' [A32 dev])"

definition uart_irq_rx_enable :: "user \<Rightarrow> u32 \<Rightarrow> invocation" where
  "uart_irq_rx_enable u dev =
     (if z_syscall_trap u
      then arch_syscall_invoke K_SYSCALL_UART_IRQ_RX_ENABLE [dev] [] Ret_void
      else z_impl ''uart_irq_rx_enable'' [A32 dev])"

definition uart_irq_rx_disable :: "user \<Rightarrow> u32 \<Rightarrow> invocation" where
  "uart_irq_rx_disable u dev =
     (if z_syscall_trap u
      then arch_syscall_invoke K_SYSCALL_UART_IRQ_RX_DISABLE [dev] [] Ret_void
      else z_impl ''uart_irq_rx_disable'' [A32 dev])"

definition uart_irq_err_enable :: "user \<Rightarrow> u32 \<Rightarrow> invocation" where
  "uart_irq_err_enable u dev =
     (if z_syscall_trap u
      then arch_syscall_invoke K_SYSCALL_UART_IRQ_ERR_ENABLE [dev] [] Ret_void
      else z_impl ''uart_irq_err_enable'' [A32 dev])"

definition uart_irq_err_disable :: "user \<Rightarrow> u32 \<Rightarrow> invocation" where
  "uart_irq_err_disable u dev =
     (if z_syscall_trap u
      then arch_syscall_invoke K_SYSCALL_UART_IRQ_ERR_DISABLE [dev] [] Ret_void
      else z_impl ''uart_irq_err_disable'' [A32 dev])"

definition uart_irq_is_pending :: "user \<Rightarrow> u32 \<Rightarrow> invocation" where
  "uart_irq_is_pending u dev =
     (if z_syscall_trap u
      then arch_syscall_invoke K_SYSCALL_UART_IRQ_IS_PENDING [dev] [] Ret_word
      else z_impl ''uart_irq_is_pending'' [A32 dev])"

definition uart_irq_update :: "user \<Rightarrow> u32 \<Rightarrow> invocation" where
  "uart_irq_update u dev =
     (if z_syscall_trap u
      then arch_syscall_invoke K_SYSCALL_UART_IRQ_UPDATE [dev] [] Ret_word
      else z_impl ''uart_irq_update'' [A32 dev])"

definition uart_line_ctrl_set :: "user \<Rightarrow> u32 \<Rightarrow> u32 \<Rightarrow> u32
    \<Rightarrow> invocation" where
  "uart_line_ctrl_set u dev ctrl val' =
     (if z_syscall_trap u
      then arch_syscall_invoke K_SYSCALL_UART_LINE_CTRL_SET [dev, ctrl, val'] [] Ret_word
      else z_impl ''uart_line_ctrl_set'' [A32 dev, A32 ctrl, A32 val'])"

definition uart_line_ctrl_get :: "user \<Rightarrow> u32 \<Rightarrow> u32 \<Rightarrow> u32
    \<Rightarrow> invocation" where
  "uart_line_ctrl_get u dev ctrl val' =
     (if z_syscall_trap u
      then arch_syscall_invoke K_SYSCALL_UART_LINE_CTRL_GET [dev, ctrl, val'] [] Ret_word
      else z_impl ''uart_line_ctrl_get'' [A32 dev, A32 ctrl, A32 val'])"

definition uart_drv_cmd :: "user \<Rightarrow> u32 \<Rightarrow> u32 \<Rightarrow> u32
    \<Rightarrow> invocation" where
  "uart_drv_cmd u dev cmd' p' =
     (if z_syscall_trap u
      then arch_syscall_invoke K_SYSCALL_UART_DRV_CMD [dev, cmd', p'] [] Ret_word
      else z_impl ''uart_drv_cmd'' [A32 dev, A32 cmd', A32 p'])"

section \<open>adc.h\<close>

definition adc_channel_setup :: "user \<Rightarrow> u32 \<Rightarrow> u32 \<Rightarrow>
    invocation" where
  "adc_channel_setup u dev channel_cfg =
     (if z_syscall_trap u
      then arch_syscall_invoke K_SYSCALL_ADC_CHANNEL_SETUP [dev, channel_cfg] [] Ret_word
      else z_impl ''adc_channel_setup'' [A32 dev, A32 channel_cfg])"

definition adc_read :: "user \<Rightarrow> u32 \<Rightarrow> u32 \<Rightarrow> invocation" where
  "adc_read u dev sequence =
     (if z_syscall_trap u
      then arch_syscall_invoke K_SYSCALL_ADC_READ [dev, sequence] [] Ret_word
      else z_impl ''adc_read'' [A32 dev, A32 sequence])"

definition adc_read_async :: "user \<Rightarrow> u32 \<Rightarrow> u32 \<Rightarrow> u32
    \<Rightarrow> invocation" where
  "adc_read_async u dev sequence async' =
     (if z_syscall_trap u
      then arch_syscall_invoke K_SYSCALL_ADC_READ_ASYNC [dev, sequence, async'] [] Ret_word
      else z_impl ''adc_read_async'' [A32 dev, A32 sequence, A32 async'])"

section \<open>watchdog.h\<close>

definition wdt_setup :: "user \<Rightarrow> u32 \<Rightarrow> u8 \<Rightarrow> invocation" where
  "wdt_setup u dev options' =
     (if z_syscall_trap u
      then arch_syscall_invoke K_SYSCALL_WDT_SETUP [dev, over_read8 (beyond u 1) options'] []
          Ret_word
      else z_impl ''wdt_setup'' [A32 dev, A8 options'])"

definition wdt_disable :: "user \<Rightarrow> u32 \<Rightarrow> invocation" where
  "wdt_disable u dev =
     (if z_syscall_trap u
      then arch_syscall_invoke K_SYSCALL_WDT_DISABLE [dev] [] Ret_word
      else z_impl ''wdt_disable'' [A32 dev])"

definition wdt_feed :: "user \<Rightarrow> u32 \<Rightarrow> u32 \<Rightarrow> invocation" where
  "wdt_feed u dev channel_id =
     (if z_syscall_trap u
      then arch_syscall_invoke K_SYSCALL_WDT_FEED [dev, channel_id] [] Ret_word
      else z_impl ''wdt_feed'' [A32 dev, A32 channel_id])"

section \<open>device.h\<close>

definition device_get_binding :: "user \<Rightarrow> u32 \<Rightarrow> invocation" where
  "device_get_binding u name =
     (if z_syscall_trap u
      then arch_syscall_invoke K_SYSCALL_DEVICE_GET_BINDING [name] [] Ret_word
      else z_impl ''device_get_binding'' [A32 name])"

definition device_usable_check :: "user \<Rightarrow> u32 \<Rightarrow> invocation" where
  "device_usable_check u dev =
     (if z_syscall_trap u
      then arch_syscall_invoke K_SYSCALL_DEVICE_USABLE_CHECK [dev] [] Ret_word
      else z_impl ''device_usable_check'' [A32 dev])"

section \<open>kobject.h\<close>

definition k_object_access_grant :: "user \<Rightarrow> u32 \<Rightarrow> u32 \<Rightarrow>
    invocation" where
  "k_object_access_grant u object thread =
     (if z_syscall_trap u
      then arch_syscall_invoke K_SYSCALL_K_OBJECT_ACCESS_GRANT [object, thread] [] Ret_void
      else z_impl ''k_object_access_grant'' [A32 object, A32 thread])"

definition k_object_release :: "user \<Rightarrow> u32 \<Rightarrow> invocation" where
  "k_object_release u object =
     (if z_syscall_trap u
      then arch_syscall_invoke K_SYSCALL_K_OBJECT_RELEASE [object] [] Ret_void
      else z_impl ''k_object_release'' [A32 object])"

section \<open>mem_manage.h\<close>

definition k_mem_paging_stats_get :: "user \<Rightarrow> u32 \<Rightarrow> invocation" where
  "k_mem_paging_stats_get u stats =
     (if z_syscall_trap u
      then arch_syscall_invoke K_SYSCALL_K_MEM_PAGING_STATS_GET [stats] [] Ret_void
      else z_impl ''k_mem_paging_stats_get'' [A32 stats])"

definition k_mem_paging_thread_stats_get :: "user \<Rightarrow> u32 \<Rightarrow> u32
    \<Rightarrow> invocation" where
  "k_mem_paging_thread_stats_get u thread stats =
     (if z_syscall_trap u
      then arch_syscall_invoke K_SYSCALL_K_MEM_PAGING_THREAD_STATS_GET [thread, stats] [] Ret_void
      else z_impl ''k_mem_paging_thread_stats_get'' [A32 thread, A32 stats])"

definition k_mem_paging_histogram_eviction_get :: "user \<Rightarrow> u32 \<Rightarrow>
    invocation" where
  "k_mem_paging_histogram_eviction_get u hist =
     (if z_syscall_trap u
      then arch_syscall_invoke K_SYSCALL_K_MEM_PAGING_HISTOGRAM_EVICTION_GET [hist] [] Ret_void
      else z_impl ''k_mem_paging_histogram_eviction_get'' [A32 hist])"

definition k_mem_paging_histogram_backing_store_page_in_get :: "user \<Rightarrow> u32
    \<Rightarrow> invocation" where
  "k_mem_paging_histogram_backing_store_page_in_get u hist =
     (if z_syscall_trap u
      then arch_syscall_invoke K_SYSCALL_K_MEM_PAGING_HISTOGRAM_BACKING_STORE_PAGE_IN_GET [hist]
          [] Ret_void
      else z_impl ''k_mem_paging_histogram_backing_store_page_in_get'' [A32 hist])"

definition k_mem_paging_histogram_backing_store_page_out_get :: "user \<Rightarrow> u32
    \<Rightarrow> invocation" where
  "k_mem_paging_histogram_backing_store_page_out_get u hist =
     (if z_syscall_trap u
      then arch_syscall_invoke K_SYSCALL_K_MEM_PAGING_HISTOGRAM_BACKING_STORE_PAGE_OUT_GET [hist]
          [] Ret_void
      else z_impl ''k_mem_paging_histogram_backing_store_page_out_get'' [A32 hist])"

section \<open>mutex.h\<close>

definition z_sys_mutex_kernel_lock :: "user \<Rightarrow> u32 \<Rightarrow> u64 \<Rightarrow>
    invocation" where
  "z_sys_mutex_kernel_lock u mutex timeout =
     (if z_syscall_trap u
      then let parm0 = timeout in arch_syscall_invoke K_SYSCALL_Z_SYS_MUTEX_KERNEL_LOCK [mutex,
          lo32 parm0, hi32 parm0] [] Ret_word
      else z_impl ''z_sys_mutex_kernel_lock'' [A32 mutex, A64 timeout])"

definition z_sys_mutex_kernel_unlock :: "user \<Rightarrow> u32 \<Rightarrow> invocation" where
  "z_sys_mutex_kernel_unlock u mutex =
     (if z_syscall_trap u
      then arch_syscall_invoke K_SYSCALL_Z_SYS_MUTEX_KERNEL_UNLOCK [mutex] [] Ret_word
      else z_impl ''z_sys_mutex_kernel_unlock'' [A32 mutex])"

section \<open>atomic_c.h\<close>

definition atomic_cas :: "user \<Rightarrow> u32 \<Rightarrow> u32 \<Rightarrow> u32 \<Rightarrow>
    invocation" where
  "atomic_cas u target old_value new_value =
     (if z_syscall_trap u
      then arch_syscall_invoke K_SYSCALL_ATOMIC_CAS [target, old_value, new_value] [] Ret_word
      else z_impl ''atomic_cas'' [A32 target, A32 old_value, A32 new_value])"

definition atomic_ptr_cas :: "user \<Rightarrow> u32 \<Rightarrow> u32 \<Rightarrow> u32
    \<Rightarrow> invocation" where
  "atomic_ptr_cas u target old_value new_value =
     (if z_syscall_trap u
      then arch_syscall_invoke K_SYSCALL_ATOMIC_PTR_CAS [target, old_value, new_value] [] Ret_word
      else z_impl ''atomic_ptr_cas'' [A32 target, A32 old_value, A32 new_value])"

definition atomic_add :: "user \<Rightarrow> u32 \<Rightarrow> u32 \<Rightarrow> invocation" where
  "atomic_add u target value' =
     (if z_syscall_trap u
      then arch_syscall_invoke K_SYSCALL_ATOMIC_ADD [target, value'] [] Ret_word
      else z_impl ''atomic_add'' [A32 target, A32 value'])"

definition atomic_sub :: "user \<Rightarrow> u32 \<Rightarrow> u32 \<Rightarrow> invocation" where
  "atomic_sub u target value' =
     (if z_syscall_trap u
      then arch_syscall_invoke K_SYSCALL_ATOMIC_SUB [target, value'] [] Ret_word
      else z_impl ''atomic_sub'' [A32 target, A32 value'])"

definition atomic_set :: "user \<Rightarrow> u32 \<Rightarrow> u32 \<Rightarrow> invocation" where
  "atomic_set u target value' =
     (if z_syscall_trap u
      then arch_syscall_invoke K_SYSCALL_ATOMIC_SET [target, value'] [] Ret_word
      else z_impl ''atomic_set'' [A32 target, A32 value'])"

definition atomic_ptr_set :: "user \<Rightarrow> u32 \<Rightarrow> u32 \<Rightarrow> invocation"
    where
  "atomic_ptr_set u target value' =
     (if z_syscall_trap u
      then arch_syscall_invoke K_SYSCALL_ATOMIC_PTR_SET [target, value'] [] Ret_word
      else z_impl ''atomic_ptr_set'' [A32 target, A32 value'])"

definition atomic_or :: "user \<Rightarrow> u32 \<Rightarrow> u32 \<Rightarrow> invocation" where
  "atomic_or u target value' =
     (if z_syscall_trap u
      then arch_syscall_invoke K_SYSCALL_ATOMIC_OR [target, value'] [] Ret_word
      else z_impl ''atomic_or'' [A32 target, A32 value'])"

definition atomic_xor :: "user \<Rightarrow> u32 \<Rightarrow> u32 \<Rightarrow> invocation" where
  "atomic_xor u target value' =
     (if z_syscall_trap u
      then arch_syscall_invoke K_SYSCALL_ATOMIC_XOR [target, value'] [] Ret_word
      else z_impl ''atomic_xor'' [A32 target, A32 value'])"

definition atomic_and :: "user \<Rightarrow> u32 \<Rightarrow> u32 \<Rightarrow> invocation" where
  "atomic_and u target value' =
     (if z_syscall_trap u
      then arch_syscall_invoke K_SYSCALL_ATOMIC_AND [target, value'] [] Ret_word
      else z_impl ''atomic_and'' [A32 target, A32 value'])"

definition atomic_nand :: "user \<Rightarrow> u32 \<Rightarrow> u32 \<Rightarrow> invocation"
    where
  "atomic_nand u target value' =
     (if z_syscall_trap u
      then arch_syscall_invoke K_SYSCALL_ATOMIC_NAND [target, value'] [] Ret_word
      else z_impl ''atomic_nand'' [A32 target, A32 value'])"

section \<open>cache.h\<close>

definition sys_cache_data_all :: "user \<Rightarrow> u32 \<Rightarrow> invocation" where
  "sys_cache_data_all u op =
     (if z_syscall_trap u
      then arch_syscall_invoke K_SYSCALL_SYS_CACHE_DATA_ALL [op] [] Ret_word
      else z_impl ''sys_cache_data_all'' [A32 op])"

definition sys_cache_data_range :: "user \<Rightarrow> u32 \<Rightarrow> u32 \<Rightarrow> u32
    \<Rightarrow> invocation" where
  "sys_cache_data_range u addr size' op =
     (if z_syscall_trap u
      then arch_syscall_invoke K_SYSCALL_SYS_CACHE_DATA_RANGE [addr, size', op] [] Ret_word
      else z_impl ''sys_cache_data_range'' [A32 addr, A32 size', A32 op])"

definition sys_cache_instr_all :: "user \<Rightarrow> u32 \<Rightarrow> invocation" where
  "sys_cache_instr_all u op =
     (if z_syscall_trap u
      then arch_syscall_invoke K_SYSCALL_SYS_CACHE_INSTR_ALL [op] [] Ret_word
      else z_impl ''sys_cache_instr_all'' [A32 op])"

definition sys_cache_instr_range :: "user \<Rightarrow> u32 \<Rightarrow> u32 \<Rightarrow> u32
    \<Rightarrow> invocation" where
  "sys_cache_instr_range u addr size' op =
     (if z_syscall_trap u
      then arch_syscall_invoke K_SYSCALL_SYS_CACHE_INSTR_RANGE [addr, size', op] [] Ret_word
      else z_impl ''sys_cache_instr_range'' [A32 addr, A32 size', A32 op])"

section \<open>errno_private.h\<close>

definition z_errno :: "user \<Rightarrow> invocation" where
  "z_errno u =
     (if z_syscall_trap u
      then arch_syscall_invoke K_SYSCALL_Z_ERRNO [] [] Ret_word
      else z_impl ''z_errno'' [])"

section \<open>error.h\<close>

definition user_fault :: "user \<Rightarrow> u32 \<Rightarrow> invocation" where
  "user_fault u reason =
     (if z_syscall_trap u
      then arch_syscall_invoke K_SYSCALL_USER_FAULT [reason] [] Ret_void
      else z_impl ''user_fault'' [A32 reason])"

section \<open>time.h\<close>

definition clock_gettime :: "user \<Rightarrow> u32 \<Rightarrow> u32 \<Rightarrow> invocation"
    where
  "clock_gettime u clock_id ts =
     (if z_syscall_trap u
      then arch_syscall_invoke K_SYSCALL_CLOCK_GETTIME [clock_id, ts] [] Ret_word
      else z_impl ''clock_gettime'' [A32 clock_id, A32 ts])"

section \<open>time_units.h\<close>

definition sys_clock_hw_cycles_per_sec_runtime_get :: "user \<Rightarrow> invocation" where
  "sys_clock_hw_cycles_per_sec_runtime_get u =
     (if z_syscall_trap u
      then arch_syscall_invoke K_SYSCALL_SYS_CLOCK_HW_CYCLES_PER_SEC_RUNTIME_GET [] [] Ret_word
      else z_impl ''sys_clock_hw_cycles_per_sec_runtime_get'' [])"

section \<open>rand32.h\<close>

definition sys_rand32_get :: "user \<Rightarrow> invocation" where
  "sys_rand32_get u =
     (if z_syscall_trap u
      then arch_syscall_invoke K_SYSCALL_SYS_RAND32_GET [] [] Ret_word
      else z_impl ''sys_rand32_get'' [])"

definition sys_rand_get :: "user \<Rightarrow> u32 \<Rightarrow> u32 \<Rightarrow> invocation"
    where
  "sys_rand_get u dst len' =
     (if z_syscall_trap u
      then arch_syscall_invoke K_SYSCALL_SYS_RAND_GET [dst, len'] [] Ret_void
      else z_impl ''sys_rand_get'' [A32 dst, A32 len'])"

definition sys_csrand_get :: "user \<Rightarrow> u32 \<Rightarrow> u32 \<Rightarrow> invocation"
    where
  "sys_csrand_get u dst len' =
     (if z_syscall_trap u
      then arch_syscall_invoke K_SYSCALL_SYS_CSRAND_GET [dst, len'] [] Ret_word
      else z_impl ''sys_csrand_get'' [A32 dst, A32 len'])"

section \<open>libc-hooks.h\<close>

definition zephyr_read_stdin :: "user \<Rightarrow> u32 \<Rightarrow> u32 \<Rightarrow>
    invocation" where
  "zephyr_read_stdin u buf nbytes =
     (if z_syscall_trap u
      then arch_syscall_invoke K_SYSCALL_ZEPHYR_READ_STDIN [buf, nbytes] [] Ret_word
      else z_impl ''zephyr_read_stdin'' [A32 buf, A32 nbytes])"

definition zephyr_write_stdout :: "user \<Rightarrow> u32 \<Rightarrow> u32 \<Rightarrow>
    invocation" where
  "zephyr_write_stdout u buf nbytes =
     (if z_syscall_trap u
      then arch_syscall_invoke K_SYSCALL_ZEPHYR_WRITE_STDOUT [buf, nbytes] [] Ret_word
      else z_impl ''zephyr_write_stdout'' [A32 buf, A32 nbytes])"

definition zephyr_fputc :: "user \<Rightarrow> u32 \<Rightarrow> u32 \<Rightarrow> invocation"
    where
  "zephyr_fputc u c' stream =
     (if z_syscall_trap u
      then arch_syscall_invoke K_SYSCALL_ZEPHYR_FPUTC [c', stream] [] Ret_word
      else z_impl ''zephyr_fputc'' [A32 c', A32 stream])"

section \<open>log_core.h\<close>

definition z_log_string_from_user :: "user \<Rightarrow> u32 \<Rightarrow> u32 \<Rightarrow>
    invocation" where
  "z_log_string_from_user u src_level_val str' =
     (if z_syscall_trap u
      then arch_syscall_invoke K_SYSCALL_Z_LOG_STRING_FROM_USER [src_level_val, str'] [] Ret_void
      else z_impl ''z_log_string_from_user'' [A32 src_level_val, A32 str'])"

definition z_log_hexdump_from_user :: "user \<Rightarrow> u32 \<Rightarrow> u32 \<Rightarrow> u32
    \<Rightarrow> u32 \<Rightarrow> invocation" where
  "z_log_hexdump_from_user u src_level_val metadata data' len' =
     (if z_syscall_trap u
      then arch_syscall_invoke K_SYSCALL_Z_LOG_HEXDUMP_FROM_USER [src_level_val, metadata, data',
          len'] [] Ret_void
      else z_impl ''z_log_hexdump_from_user'' [A32 src_level_val, A32 metadata, A32 data', A32
          len'])"

section \<open>log_ctrl.h\<close>

definition log_panic :: "user \<Rightarrow> invocation" where
  "log_panic u =
     (if z_syscall_trap u
      then arch_syscall_invoke K_SYSCALL_LOG_PANIC [] [] Ret_void
      else z_impl ''log_panic'' [])"

definition log_process :: "user \<Rightarrow> u8 \<Rightarrow> invocation" where
  "log_process u bypass =
     (if z_syscall_trap u
      then arch_syscall_invoke K_SYSCALL_LOG_PROCESS [over_read8 (beyond u 0) bypass] [] Ret_word
      else z_impl ''log_process'' [A8 bypass])"

definition log_buffered_cnt :: "user \<Rightarrow> invocation" where
  "log_buffered_cnt u =
     (if z_syscall_trap u
      then arch_syscall_invoke K_SYSCALL_LOG_BUFFERED_CNT [] [] Ret_word
      else z_impl ''log_buffered_cnt'' [])"

section \<open>The calls of these interfaces\<close>

text \<open>
  \<open>service_call u name args call\<close>: the wrapper of the system call \<open>name\<close>, called in the
  context \<open>u\<close> with the arguments \<open>args\<close>, makes the invocation \<open>call\<close>.
\<close>

inductive service_call :: "user \<Rightarrow> string \<Rightarrow> carg list \<Rightarrow> invocation \<Rightarrow> bool" for u where
  "service_call u ''uart_tx'' [A32 a, A32 b, A32 c, A32 d] (uart_tx u a b c d)"
| "service_call u ''uart_tx_u16'' [A32 a, A32 b, A32 c, A32 d] (uart_tx_u16 u a b c d)"
| "service_call u ''uart_tx_abort'' [A32 a] (uart_tx_abort u a)"
| "service_call u ''uart_rx_enable'' [A32 a, A32 b, A32 c, A32 d] (uart_rx_enable u a b c d)"
| "service_call u ''uart_rx_enable_u16'' [A32 a, A32 b, A32 c, A32 d] (uart_rx_enable_u16 u a b c
      d)"
| "service_call u ''uart_rx_disable'' [A32 a] (uart_rx_disable u a)"
| "service_call u ''uart_err_check'' [A32 a] (uart_err_check u a)"
| "service_call u ''uart_poll_in'' [A32 a, A32 b] (uart_poll_in u a b)"
| "service_call u ''uart_poll_in_u16'' [A32 a, A32 b] (uart_poll_in_u16 u a b)"
| "service_call u ''uart_poll_out'' [A32 a, A8 b] (uart_poll_out u a b)"
| "service_call u ''uart_poll_out_u16'' [A32 a, A16 b] (uart_poll_out_u16 u a b)"
| "service_call u ''uart_configure'' [A32 a, A32 b] (uart_configure u a b)"
| "service_call u ''uart_config_get'' [A32 a, A32 b] (uart_config_get u a b)"
| "service_call u ''uart_irq_tx_enable'' [A32 a] (uart_irq_tx_enable u a)"
| "service_call u ''uart_irq_tx_disable'' [A32 a] (uart_irq_tx_disable u a)"
| "service_call u ''uart_irq_rx_enable'' [A32 a] (uart_irq_rx_enable u a)"
| "service_call u ''uart_irq_rx_disable'' [A32 a] (uart_irq_rx_disable u a)"
| "service_call u ''uart_irq_err_enable'' [A32 a] (uart_irq_err_enable u a)"
| "service_call u ''uart_irq_err_disable'' [A32 a] (uart_irq_err_disable u a)"
| "service_call u ''uart_irq_is_pending'' [A32 a] (uart_irq_is_pending u a)"
| "service_call u ''uart_irq_update'' [A32 a] (uart_irq_update u a)"
| "service_call u ''uart_line_ctrl_set'' [A32 a, A32 b, A32 c] (uart_line_ctrl_set u a b c)"
| "service_call u ''uart_line_ctrl_get'' [A32 a, A32 b, A32 c] (uart_line_ctrl_get u a b c)"
| "service_call u ''uart_drv_cmd'' [A32 a, A32 b, A32 c] (uart_drv_cmd u a b c)"
| "service_call u ''adc_channel_setup'' [A32 a, A32 b] (adc_channel_setup u a b)"
| "service_call u ''adc_read'' [A32 a, A32 b] (adc_read u a b)"
| "service_call u ''adc_read_async'' [A32 a, A32 b, A32 c] (adc_read_async u a b c)"
| "service_call u ''wdt_setup'' [A32 a, A8 b] (wdt_setup u a b)"
| "service_call u ''wdt_disable'' [A32 a] (wdt_disable u a)"
| "service_call u ''wdt_feed'' [A32 a, A32 b] (wdt_feed u a b)"
| "service_call u ''device_get_binding'' [A32 a] (device_get_binding u a)"
| "service_call u ''device_usable_check'' [A32 a] (device_usable_check u a)"
| "service_call u ''k_object_access_grant'' [A32 a, A32 b] (k_object_access_grant u a b)"
| "service_call u ''k_object_release'' [A32 a] (k_object_release u a)"
| "service_call u ''k_mem_paging_stats_get'' [A32 a] (k_mem_paging_stats_get u a)"
| "service_call u ''k_mem_paging_thread_stats_get'' [A32 a, A32 b] (k_mem_paging_thread_stats_get
      u a b)"
| "service_call u ''k_mem_paging_histogram_eviction_get'' [A32 a]
      (k_mem_paging_histogram_eviction_get u a)"
| "service_call u ''k_mem_paging_histogram_backing_store_page_in_get'' [A32 a]
      (k_mem_paging_histogram_backing_store_page_in_get u a)"
| "service_call u ''k_mem_paging_histogram_backing_store_page_out_get'' [A32 a]
      (k_mem_paging_histogram_backing_store_page_out_get u a)"
| "service_call u ''z_sys_mutex_kernel_lock'' [A32 a, A64 b] (z_sys_mutex_kernel_lock u a b)"
| "service_call u ''z_sys_mutex_kernel_unlock'' [A32 a] (z_sys_mutex_kernel_unlock u a)"
| "service_call u ''atomic_cas'' [A32 a, A32 b, A32 c] (atomic_cas u a b c)"
| "service_call u ''atomic_ptr_cas'' [A32 a, A32 b, A32 c] (atomic_ptr_cas u a b c)"
| "service_call u ''atomic_add'' [A32 a, A32 b] (atomic_add u a b)"
| "service_call u ''atomic_sub'' [A32 a, A32 b] (atomic_sub u a b)"
| "service_call u ''atomic_set'' [A32 a, A32 b] (atomic_set u a b)"
| "service_call u ''atomic_ptr_set'' [A32 a, A32 b] (atomic_ptr_set u a b)"
| "service_call u ''atomic_or'' [A32 a, A32 b] (atomic_or u a b)"
| "service_call u ''atomic_xor'' [A32 a, A32 b] (atomic_xor u a b)"
| "service_call u ''atomic_and'' [A32 a, A32 b] (atomic_and u a b)"
| "service_call u ''atomic_nand'' [A32 a, A32 b] (atomic_nand u a b)"
| "service_call u ''sys_cache_data_all'' [A32 a] (sys_cache_data_all u a)"
| "service_call u ''sys_cache_data_range'' [A32 a, A32 b, A32 c] (sys_cache_data_range u a b c)"
| "service_call u ''sys_cache_instr_all'' [A32 a] (sys_cache_instr_all u a)"
| "service_call u ''sys_cache_instr_range'' [A32 a, A32 b, A32 c] (sys_cache_instr_range u a b c)"
| "service_call u ''z_errno'' [] (z_errno u)"
| "service_call u ''user_fault'' [A32 a] (user_fault u a)"
| "service_call u ''clock_gettime'' [A32 a, A32 b] (clock_gettime u a b)"
| "service_call u ''sys_clock_hw_cycles_per_sec_runtime_get'' []
      (sys_clock_hw_cycles_per_sec_runtime_get u)"
| "service_call u ''sys_rand32_get'' [] (sys_rand32_get u)"
| "service_call u ''sys_rand_get'' [A32 a, A32 b] (sys_rand_get u a b)"
| "service_call u ''sys_csrand_get'' [A32 a, A32 b] (sys_csrand_get u a b)"
| "service_call u ''zephyr_read_stdin'' [A32 a, A32 b] (zephyr_read_stdin u a b)"
| "service_call u ''zephyr_write_stdout'' [A32 a, A32 b] (zephyr_write_stdout u a b)"
| "service_call u ''zephyr_fputc'' [A32 a, A32 b] (zephyr_fputc u a b)"
| "service_call u ''z_log_string_from_user'' [A32 a, A32 b] (z_log_string_from_user u a b)"
| "service_call u ''z_log_hexdump_from_user'' [A32 a, A32 b, A32 c, A32 d]
      (z_log_hexdump_from_user u a b c d)"
| "service_call u ''log_panic'' [] (log_panic u)"
| "service_call u ''log_process'' [A8 a] (log_process u a)"
| "service_call u ''log_buffered_cnt'' [] (log_buffered_cnt u)"

lemmas services_wrappers =
  uart_tx_def uart_tx_u16_def uart_tx_abort_def uart_rx_enable_def uart_rx_enable_u16_def
  uart_rx_disable_def uart_err_check_def uart_poll_in_def uart_poll_in_u16_def uart_poll_out_def
  uart_poll_out_u16_def uart_configure_def uart_config_get_def uart_irq_tx_enable_def
  uart_irq_tx_disable_def uart_irq_rx_enable_def uart_irq_rx_disable_def uart_irq_err_enable_def
  uart_irq_err_disable_def uart_irq_is_pending_def uart_irq_update_def uart_line_ctrl_set_def
  uart_line_ctrl_get_def uart_drv_cmd_def adc_channel_setup_def adc_read_def adc_read_async_def
  wdt_setup_def wdt_disable_def wdt_feed_def device_get_binding_def device_usable_check_def
  k_object_access_grant_def k_object_release_def k_mem_paging_stats_get_def
  k_mem_paging_thread_stats_get_def k_mem_paging_histogram_eviction_get_def
  k_mem_paging_histogram_backing_store_page_in_get_def
  k_mem_paging_histogram_backing_store_page_out_get_def z_sys_mutex_kernel_lock_def
  z_sys_mutex_kernel_unlock_def atomic_cas_def atomic_ptr_cas_def atomic_add_def atomic_sub_def
  atomic_set_def atomic_ptr_set_def atomic_or_def atomic_xor_def atomic_and_def atomic_nand_def
  sys_cache_data_all_def sys_cache_data_range_def sys_cache_instr_all_def
  sys_cache_instr_range_def z_errno_def user_fault_def clock_gettime_def
  sys_clock_hw_cycles_per_sec_runtime_get_def sys_rand32_get_def sys_rand_get_def
  sys_csrand_get_def zephyr_read_stdin_def zephyr_write_stdout_def zephyr_fputc_def
  z_log_string_from_user_def z_log_hexdump_from_user_def log_panic_def log_process_def
  log_buffered_cnt_def

end
