(* ===== verification/SysCallsNetwork.thy ===== *)
theory SysCallsNetwork
  imports SysIds
begin

text \<open>
  The wrappers of the network interfaces and controllers: in user mode a wrapper
  puts its arguments into registers, with the words that do not fit in \<open>more\<close>, and traps; in
  kernel mode it calls the implementation.  A parameter of type \<^typ>\<open>user\<close> stands for the
  calling context.
\<close>

section \<open>socket.h\<close>

definition zsock_get_context_object :: "user \<Rightarrow> u32 \<Rightarrow> invocation" where
  "zsock_get_context_object u sock =
     (if z_syscall_trap u
      then arch_syscall_invoke K_SYSCALL_ZSOCK_GET_CONTEXT_OBJECT [sock] [] Ret_word
      else z_impl ''zsock_get_context_object'' [A32 sock])"

definition zsock_socket :: "user \<Rightarrow> u32 \<Rightarrow> u32 \<Rightarrow> u32
    \<Rightarrow> invocation" where
  "zsock_socket u family type proto =
     (if z_syscall_trap u
      then arch_syscall_invoke K_SYSCALL_ZSOCK_SOCKET [family, type, proto] [] Ret_word
      else z_impl ''zsock_socket'' [A32 family, A32 type, A32 proto])"

definition zsock_socketpair :: "user \<Rightarrow> u32 \<Rightarrow> u32 \<Rightarrow> u32
    \<Rightarrow> u32 \<Rightarrow> invocation" where
  "zsock_socketpair u family type proto sv =
     (if z_syscall_trap u
      then arch_syscall_invoke K_SYSCALL_ZSOCK_SOCKETPAIR [family, type, proto, sv] [] Ret_word
      else z_impl ''zsock_socketpair'' [A32 family, A32 type, A32 proto, A32 sv])"

definition zsock_close :: "user \<Rightarrow> u32 \<Rightarrow> invocation" where
  "zsock_close u sock =
     (if z_syscall_trap u
      then arch_syscall_invoke K_SYSCALL_ZSOCK_CLOSE [sock] [] Ret_word
      else z_impl ''zsock_close'' [A32 sock])"

definition zsock_shutdown :: "user \<Rightarrow> u32 \<Rightarrow> u32 \<Rightarrow> invocation"
    where
  "zsock_shutdown u sock how =
     (if z_syscall_trap u
      then arch_syscall_invoke K_SYSCALL_ZSOCK_SHUTDOWN [sock, how] [] Ret_word
      else z_impl ''zsock_shutdown'' [A32 sock, A32 how])"

definition zsock_bind :: "user \<Rightarrow> u32 \<Rightarrow> u32 \<Rightarrow> u32 \<Rightarrow>
    invocation" where
  "zsock_bind u sock addr addrlen =
     (if z_syscall_trap u
      then arch_syscall_invoke K_SYSCALL_ZSOCK_BIND [sock, addr, addrlen] [] Ret_word
      else z_impl ''zsock_bind'' [A32 sock, A32 addr, A32 addrlen])"

definition zsock_connect :: "user \<Rightarrow> u32 \<Rightarrow> u32 \<Rightarrow> u32
    \<Rightarrow> invocation" where
  "zsock_connect u sock addr addrlen =
     (if z_syscall_trap u
      then arch_syscall_invoke K_SYSCALL_ZSOCK_CONNECT [sock, addr, addrlen] [] Ret_word
      else z_impl ''zsock_connect'' [A32 sock, A32 addr, A32 addrlen])"

definition zsock_listen :: "user \<Rightarrow> u32 \<Rightarrow> u32 \<Rightarrow> invocation"
    where
  "zsock_listen u sock backlog =
     (if z_syscall_trap u
      then arch_syscall_invoke K_SYSCALL_ZSOCK_LISTEN [sock, backlog] [] Ret_word
      else z_impl ''zsock_listen'' [A32 sock, A32 backlog])"

definition zsock_accept :: "user \<Rightarrow> u32 \<Rightarrow> u32 \<Rightarrow> u32
    \<Rightarrow> invocation" where
  "zsock_accept u sock addr addrlen =
     (if z_syscall_trap u
      then arch_syscall_invoke K_SYSCALL_ZSOCK_ACCEPT [sock, addr, addrlen] [] Ret_word
      else z_impl ''zsock_accept'' [A32 sock, A32 addr, A32 addrlen])"

definition zsock_sendto :: "user \<Rightarrow> u32 \<Rightarrow> u32 \<Rightarrow> u32
    \<Rightarrow> u32 \<Rightarrow> u32 \<Rightarrow> u32 \<Rightarrow> invocation" where
  "zsock_sendto u sock buf len' flags dest_addr addrlen =
     (if z_syscall_trap u
      then arch_syscall_invoke K_SYSCALL_ZSOCK_SENDTO [sock, buf, len', flags, dest_addr, addrlen]
          [] Ret_word
      else z_impl ''zsock_sendto'' [A32 sock, A32 buf, A32 len', A32 flags, A32 dest_addr, A32
          addrlen])"

definition zsock_sendmsg :: "user \<Rightarrow> u32 \<Rightarrow> u32 \<Rightarrow> u32
    \<Rightarrow> invocation" where
  "zsock_sendmsg u sock msg flags =
     (if z_syscall_trap u
      then arch_syscall_invoke K_SYSCALL_ZSOCK_SENDMSG [sock, msg, flags] [] Ret_word
      else z_impl ''zsock_sendmsg'' [A32 sock, A32 msg, A32 flags])"

definition zsock_recvfrom :: "user \<Rightarrow> u32 \<Rightarrow> u32 \<Rightarrow> u32
    \<Rightarrow> u32 \<Rightarrow> u32 \<Rightarrow> u32 \<Rightarrow> invocation" where
  "zsock_recvfrom u sock buf max_len flags src_addr addrlen =
     (if z_syscall_trap u
      then arch_syscall_invoke K_SYSCALL_ZSOCK_RECVFROM [sock, buf, max_len, flags, src_addr,
          addrlen] [] Ret_word
      else z_impl ''zsock_recvfrom'' [A32 sock, A32 buf, A32 max_len, A32 flags, A32 src_addr, A32
          addrlen])"

definition zsock_fcntl :: "user \<Rightarrow> u32 \<Rightarrow> u32 \<Rightarrow> u32
    \<Rightarrow> invocation" where
  "zsock_fcntl u sock cmd' flags =
     (if z_syscall_trap u
      then arch_syscall_invoke K_SYSCALL_ZSOCK_FCNTL [sock, cmd', flags] [] Ret_word
      else z_impl ''zsock_fcntl'' [A32 sock, A32 cmd', A32 flags])"

definition zsock_poll :: "user \<Rightarrow> u32 \<Rightarrow> u32 \<Rightarrow> u32 \<Rightarrow>
    invocation" where
  "zsock_poll u fds nfds timeout =
     (if z_syscall_trap u
      then arch_syscall_invoke K_SYSCALL_ZSOCK_POLL [fds, nfds, timeout] [] Ret_word
      else z_impl ''zsock_poll'' [A32 fds, A32 nfds, A32 timeout])"

definition zsock_getsockopt :: "user \<Rightarrow> u32 \<Rightarrow> u32 \<Rightarrow> u32
    \<Rightarrow> u32 \<Rightarrow> u32 \<Rightarrow> invocation" where
  "zsock_getsockopt u sock level optname optval optlen =
     (if z_syscall_trap u
      then arch_syscall_invoke K_SYSCALL_ZSOCK_GETSOCKOPT [sock, level, optname, optval, optlen]
          [] Ret_word
      else z_impl ''zsock_getsockopt'' [A32 sock, A32 level, A32 optname, A32 optval, A32
          optlen])"

definition zsock_setsockopt :: "user \<Rightarrow> u32 \<Rightarrow> u32 \<Rightarrow> u32
    \<Rightarrow> u32 \<Rightarrow> u32 \<Rightarrow> invocation" where
  "zsock_setsockopt u sock level optname optval optlen =
     (if z_syscall_trap u
      then arch_syscall_invoke K_SYSCALL_ZSOCK_SETSOCKOPT [sock, level, optname, optval, optlen]
          [] Ret_word
      else z_impl ''zsock_setsockopt'' [A32 sock, A32 level, A32 optname, A32 optval, A32
          optlen])"

definition zsock_getsockname :: "user \<Rightarrow> u32 \<Rightarrow> u32 \<Rightarrow> u32
    \<Rightarrow> invocation" where
  "zsock_getsockname u sock addr addrlen =
     (if z_syscall_trap u
      then arch_syscall_invoke K_SYSCALL_ZSOCK_GETSOCKNAME [sock, addr, addrlen] [] Ret_word
      else z_impl ''zsock_getsockname'' [A32 sock, A32 addr, A32 addrlen])"

definition zsock_gethostname :: "user \<Rightarrow> u32 \<Rightarrow> u32 \<Rightarrow>
    invocation" where
  "zsock_gethostname u buf len' =
     (if z_syscall_trap u
      then arch_syscall_invoke K_SYSCALL_ZSOCK_GETHOSTNAME [buf, len'] [] Ret_word
      else z_impl ''zsock_gethostname'' [A32 buf, A32 len'])"

definition z_zsock_getaddrinfo_internal :: "user \<Rightarrow> u32 \<Rightarrow> u32 \<Rightarrow>
    u32 \<Rightarrow> u32 \<Rightarrow> invocation" where
  "z_zsock_getaddrinfo_internal u host service hints res =
     (if z_syscall_trap u
      then arch_syscall_invoke K_SYSCALL_Z_ZSOCK_GETADDRINFO_INTERNAL [host, service, hints, res]
          [] Ret_word
      else z_impl ''z_zsock_getaddrinfo_internal'' [A32 host, A32 service, A32 hints, A32 res])"

section \<open>socket_select.h\<close>

definition zsock_select :: "user \<Rightarrow> u32 \<Rightarrow> u32 \<Rightarrow> u32
    \<Rightarrow> u32 \<Rightarrow> u32 \<Rightarrow> invocation" where
  "zsock_select u nfds readfds writefds exceptfds timeout =
     (if z_syscall_trap u
      then arch_syscall_invoke K_SYSCALL_ZSOCK_SELECT [nfds, readfds, writefds, exceptfds,
          timeout] [] Ret_word
      else z_impl ''zsock_select'' [A32 nfds, A32 readfds, A32 writefds, A32 exceptfds, A32
          timeout])"

section \<open>net_if.h\<close>

definition net_if_ipv6_addr_lookup_by_index :: "user \<Rightarrow> u32 \<Rightarrow> invocation"
    where
  "net_if_ipv6_addr_lookup_by_index u addr =
     (if z_syscall_trap u
      then arch_syscall_invoke K_SYSCALL_NET_IF_IPV6_ADDR_LOOKUP_BY_INDEX [addr] [] Ret_word
      else z_impl ''net_if_ipv6_addr_lookup_by_index'' [A32 addr])"

definition net_if_ipv6_addr_rm_by_index :: "user \<Rightarrow> u32 \<Rightarrow> u32 \<Rightarrow>
    invocation" where
  "net_if_ipv6_addr_rm_by_index u index addr =
     (if z_syscall_trap u
      then arch_syscall_invoke K_SYSCALL_NET_IF_IPV6_ADDR_RM_BY_INDEX [index, addr] [] Ret_word
      else z_impl ''net_if_ipv6_addr_rm_by_index'' [A32 index, A32 addr])"

definition net_if_ipv4_addr_lookup_by_index :: "user \<Rightarrow> u32 \<Rightarrow> invocation"
    where
  "net_if_ipv4_addr_lookup_by_index u addr =
     (if z_syscall_trap u
      then arch_syscall_invoke K_SYSCALL_NET_IF_IPV4_ADDR_LOOKUP_BY_INDEX [addr] [] Ret_word
      else z_impl ''net_if_ipv4_addr_lookup_by_index'' [A32 addr])"

definition net_if_ipv4_addr_rm_by_index :: "user \<Rightarrow> u32 \<Rightarrow> u32 \<Rightarrow>
    invocation" where
  "net_if_ipv4_addr_rm_by_index u index addr =
     (if z_syscall_trap u
      then arch_syscall_invoke K_SYSCALL_NET_IF_IPV4_ADDR_RM_BY_INDEX [index, addr] [] Ret_word
      else z_impl ''net_if_ipv4_addr_rm_by_index'' [A32 index, A32 addr])"

definition net_if_ipv4_set_netmask_by_index :: "user \<Rightarrow> u32 \<Rightarrow> u32
    \<Rightarrow> invocation" where
  "net_if_ipv4_set_netmask_by_index u index netmask =
     (if z_syscall_trap u
      then arch_syscall_invoke K_SYSCALL_NET_IF_IPV4_SET_NETMASK_BY_INDEX [index, netmask] []
          Ret_word
      else z_impl ''net_if_ipv4_set_netmask_by_index'' [A32 index, A32 netmask])"

definition net_if_ipv4_set_gw_by_index :: "user \<Rightarrow> u32 \<Rightarrow> u32 \<Rightarrow>
    invocation" where
  "net_if_ipv4_set_gw_by_index u index gw =
     (if z_syscall_trap u
      then arch_syscall_invoke K_SYSCALL_NET_IF_IPV4_SET_GW_BY_INDEX [index, gw] [] Ret_word
      else z_impl ''net_if_ipv4_set_gw_by_index'' [A32 index, A32 gw])"

definition net_if_get_by_index :: "user \<Rightarrow> u32 \<Rightarrow> invocation" where
  "net_if_get_by_index u index =
     (if z_syscall_trap u
      then arch_syscall_invoke K_SYSCALL_NET_IF_GET_BY_INDEX [index] [] Ret_word
      else z_impl ''net_if_get_by_index'' [A32 index])"

section \<open>ethernet.h\<close>

definition net_eth_get_ptp_clock_by_index :: "user \<Rightarrow> u32 \<Rightarrow> invocation"
    where
  "net_eth_get_ptp_clock_by_index u index =
     (if z_syscall_trap u
      then arch_syscall_invoke K_SYSCALL_NET_ETH_GET_PTP_CLOCK_BY_INDEX [index] [] Ret_word
      else z_impl ''net_eth_get_ptp_clock_by_index'' [A32 index])"

section \<open>ptp_clock.h\<close>

definition ptp_clock_get :: "user \<Rightarrow> u32 \<Rightarrow> u32 \<Rightarrow> invocation"
    where
  "ptp_clock_get u dev tm =
     (if z_syscall_trap u
      then arch_syscall_invoke K_SYSCALL_PTP_CLOCK_GET [dev, tm] [] Ret_word
      else z_impl ''ptp_clock_get'' [A32 dev, A32 tm])"

section \<open>phy.h\<close>

definition phy_get_link_state :: "user \<Rightarrow> u32 \<Rightarrow> u32 \<Rightarrow>
    invocation" where
  "phy_get_link_state u dev state =
     (if z_syscall_trap u
      then arch_syscall_invoke K_SYSCALL_PHY_GET_LINK_STATE [dev, state] [] Ret_word
      else z_impl ''phy_get_link_state'' [A32 dev, A32 state])"

definition phy_link_callback_set :: "user \<Rightarrow> u32 \<Rightarrow> u32 \<Rightarrow> u32
    \<Rightarrow> invocation" where
  "phy_link_callback_set u dev callback user_data =
     (if z_syscall_trap u
      then arch_syscall_invoke K_SYSCALL_PHY_LINK_CALLBACK_SET [dev, callback, user_data] []
          Ret_word
      else z_impl ''phy_link_callback_set'' [A32 dev, A32 callback, A32 user_data])"

definition phy_read :: "user \<Rightarrow> u32 \<Rightarrow> u16 \<Rightarrow> u32 \<Rightarrow>
    invocation" where
  "phy_read u dev reg_addr value' =
     (if z_syscall_trap u
      then arch_syscall_invoke K_SYSCALL_PHY_READ [dev, over_read16 (beyond u 1) reg_addr, value']
          [] Ret_word
      else z_impl ''phy_read'' [A32 dev, A16 reg_addr, A32 value'])"

definition phy_write :: "user \<Rightarrow> u32 \<Rightarrow> u16 \<Rightarrow> u32 \<Rightarrow>
    invocation" where
  "phy_write u dev reg_addr value' =
     (if z_syscall_trap u
      then arch_syscall_invoke K_SYSCALL_PHY_WRITE [dev, over_read16 (beyond u 1) reg_addr,
          value'] [] Ret_word
      else z_impl ''phy_write'' [A32 dev, A16 reg_addr, A32 value'])"

section \<open>mdio.h\<close>

definition mdio_bus_enable :: "user \<Rightarrow> u32 \<Rightarrow> invocation" where
  "mdio_bus_enable u dev =
     (if z_syscall_trap u
      then arch_syscall_invoke K_SYSCALL_MDIO_BUS_ENABLE [dev] [] Ret_void
      else z_impl ''mdio_bus_enable'' [A32 dev])"

definition mdio_bus_disable :: "user \<Rightarrow> u32 \<Rightarrow> invocation" where
  "mdio_bus_disable u dev =
     (if z_syscall_trap u
      then arch_syscall_invoke K_SYSCALL_MDIO_BUS_DISABLE [dev] [] Ret_void
      else z_impl ''mdio_bus_disable'' [A32 dev])"

definition mdio_read :: "user \<Rightarrow> u32 \<Rightarrow> u8 \<Rightarrow> u8 \<Rightarrow>
    u32 \<Rightarrow> invocation" where
  "mdio_read u dev prtad devad data' =
     (if z_syscall_trap u
      then arch_syscall_invoke K_SYSCALL_MDIO_READ [dev, over_read8 (beyond u 1) prtad, over_read8
          (beyond u 2) devad, data'] [] Ret_word
      else z_impl ''mdio_read'' [A32 dev, A8 prtad, A8 devad, A32 data'])"

definition mdio_write :: "user \<Rightarrow> u32 \<Rightarrow> u8 \<Rightarrow> u8 \<Rightarrow>
    u16 \<Rightarrow> invocation" where
  "mdio_write u dev prtad devad data' =
     (if z_syscall_trap u
      then arch_syscall_invoke K_SYSCALL_MDIO_WRITE [dev, over_read8 (beyond u 1) prtad,
          over_read8 (beyond u 2) devad, over_read16 (beyond u 3) data'] [] Ret_word
      else z_impl ''mdio_write'' [A32 dev, A8 prtad, A8 devad, A16 data'])"

section \<open>can.h\<close>

definition can_get_core_clock :: "user \<Rightarrow> u32 \<Rightarrow> u32 \<Rightarrow>
    invocation" where
  "can_get_core_clock u dev rate =
     (if z_syscall_trap u
      then arch_syscall_invoke K_SYSCALL_CAN_GET_CORE_CLOCK [dev, rate] [] Ret_word
      else z_impl ''can_get_core_clock'' [A32 dev, A32 rate])"

definition can_set_timing :: "user \<Rightarrow> u32 \<Rightarrow> u32 \<Rightarrow> u32
    \<Rightarrow> invocation" where
  "can_set_timing u dev timing timing_data =
     (if z_syscall_trap u
      then arch_syscall_invoke K_SYSCALL_CAN_SET_TIMING [dev, timing, timing_data] [] Ret_word
      else z_impl ''can_set_timing'' [A32 dev, A32 timing, A32 timing_data])"

definition can_send :: "user \<Rightarrow> u32 \<Rightarrow> u32 \<Rightarrow> u64 \<Rightarrow>
    u32 \<Rightarrow> u32 \<Rightarrow> invocation" where
  "can_send u dev frame' timeout callback user_data =
     (if z_syscall_trap u
      then let parm0 = timeout in arch_syscall_invoke K_SYSCALL_CAN_SEND [dev, frame', lo32 parm0,
          hi32 parm0, callback, user_data] [] Ret_word
      else z_impl ''can_send'' [A32 dev, A32 frame', A64 timeout, A32 callback, A32 user_data])"

definition can_attach_msgq :: "user \<Rightarrow> u32 \<Rightarrow> u32 \<Rightarrow> u32
    \<Rightarrow> invocation" where
  "can_attach_msgq u dev msg_q filter' =
     (if z_syscall_trap u
      then arch_syscall_invoke K_SYSCALL_CAN_ATTACH_MSGQ [dev, msg_q, filter'] [] Ret_word
      else z_impl ''can_attach_msgq'' [A32 dev, A32 msg_q, A32 filter'])"

definition can_detach :: "user \<Rightarrow> u32 \<Rightarrow> u32 \<Rightarrow> invocation" where
  "can_detach u dev filter_id =
     (if z_syscall_trap u
      then arch_syscall_invoke K_SYSCALL_CAN_DETACH [dev, filter_id] [] Ret_void
      else z_impl ''can_detach'' [A32 dev, A32 filter_id])"

definition can_get_state :: "user \<Rightarrow> u32 \<Rightarrow> u32 \<Rightarrow> invocation"
    where
  "can_get_state u dev err_cnt =
     (if z_syscall_trap u
      then arch_syscall_invoke K_SYSCALL_CAN_GET_STATE [dev, err_cnt] [] Ret_word
      else z_impl ''can_get_state'' [A32 dev, A32 err_cnt])"

definition can_recover :: "user \<Rightarrow> u32 \<Rightarrow> u64 \<Rightarrow> invocation"
    where
  "can_recover u dev timeout =
     (if z_syscall_trap u
      then let parm0 = timeout in arch_syscall_invoke K_SYSCALL_CAN_RECOVER [dev, lo32 parm0, hi32
          parm0] [] Ret_word
      else z_impl ''can_recover'' [A32 dev, A64 timeout])"

section \<open>The calls of these interfaces\<close>

text \<open>
  \<open>network_call u name args call\<close>: the wrapper of the system call \<open>name\<close>, called in the
  context \<open>u\<close> with the arguments \<open>args\<close>, makes the invocation \<open>call\<close>.
\<close>

inductive network_call :: "user \<Rightarrow> string \<Rightarrow> carg list \<Rightarrow> invocation \<Rightarrow> bool" for u where
  "network_call u ''zsock_get_context_object'' [A32 a] (zsock_get_context_object u a)"
| "network_call u ''zsock_socket'' [A32 a, A32 b, A32 c] (zsock_socket u a b c)"
| "network_call u ''zsock_socketpair'' [A32 a, A32 b, A32 c, A32 d] (zsock_socketpair u a b c d)"
| "network_call u ''zsock_close'' [A32 a] (zsock_close u a)"
| "network_call u ''zsock_shutdown'' [A32 a, A32 b] (zsock_shutdown u a b)"
| "network_call u ''zsock_bind'' [A32 a, A32 b, A32 c] (zsock_bind u a b c)"
| "network_call u ''zsock_connect'' [A32 a, A32 b, A32 c] (zsock_connect u a b c)"
| "network_call u ''zsock_listen'' [A32 a, A32 b] (zsock_listen u a b)"
| "network_call u ''zsock_accept'' [A32 a, A32 b, A32 c] (zsock_accept u a b c)"
| "network_call u ''zsock_sendto'' [A32 a, A32 b, A32 c, A32 d, A32 e, A32 f] (zsock_sendto u a b
      c d e f)"
| "network_call u ''zsock_sendmsg'' [A32 a, A32 b, A32 c] (zsock_sendmsg u a b c)"
| "network_call u ''zsock_recvfrom'' [A32 a, A32 b, A32 c, A32 d, A32 e, A32 f] (zsock_recvfrom u
      a b c d e f)"
| "network_call u ''zsock_fcntl'' [A32 a, A32 b, A32 c] (zsock_fcntl u a b c)"
| "network_call u ''zsock_poll'' [A32 a, A32 b, A32 c] (zsock_poll u a b c)"
| "network_call u ''zsock_getsockopt'' [A32 a, A32 b, A32 c, A32 d, A32 e] (zsock_getsockopt u a b
      c d e)"
| "network_call u ''zsock_setsockopt'' [A32 a, A32 b, A32 c, A32 d, A32 e] (zsock_setsockopt u a b
      c d e)"
| "network_call u ''zsock_getsockname'' [A32 a, A32 b, A32 c] (zsock_getsockname u a b c)"
| "network_call u ''zsock_gethostname'' [A32 a, A32 b] (zsock_gethostname u a b)"
| "network_call u ''z_zsock_getaddrinfo_internal'' [A32 a, A32 b, A32 c, A32 d]
      (z_zsock_getaddrinfo_internal u a b c d)"
| "network_call u ''zsock_select'' [A32 a, A32 b, A32 c, A32 d, A32 e] (zsock_select u a b c d e)"
| "network_call u ''net_if_ipv6_addr_lookup_by_index'' [A32 a] (net_if_ipv6_addr_lookup_by_index u
      a)"
| "network_call u ''net_if_ipv6_addr_rm_by_index'' [A32 a, A32 b] (net_if_ipv6_addr_rm_by_index u
      a b)"
| "network_call u ''net_if_ipv4_addr_lookup_by_index'' [A32 a] (net_if_ipv4_addr_lookup_by_index u
      a)"
| "network_call u ''net_if_ipv4_addr_rm_by_index'' [A32 a, A32 b] (net_if_ipv4_addr_rm_by_index u
      a b)"
| "network_call u ''net_if_ipv4_set_netmask_by_index'' [A32 a, A32 b]
      (net_if_ipv4_set_netmask_by_index u a b)"
| "network_call u ''net_if_ipv4_set_gw_by_index'' [A32 a, A32 b] (net_if_ipv4_set_gw_by_index u a
      b)"
| "network_call u ''net_if_get_by_index'' [A32 a] (net_if_get_by_index u a)"
| "network_call u ''net_eth_get_ptp_clock_by_index'' [A32 a] (net_eth_get_ptp_clock_by_index u a)"
| "network_call u ''ptp_clock_get'' [A32 a, A32 b] (ptp_clock_get u a b)"
| "network_call u ''phy_get_link_state'' [A32 a, A32 b] (phy_get_link_state u a b)"
| "network_call u ''phy_link_callback_set'' [A32 a, A32 b, A32 c] (phy_link_callback_set u a b c)"
| "network_call u ''phy_read'' [A32 a, A16 b, A32 c] (phy_read u a b c)"
| "network_call u ''phy_write'' [A32 a, A16 b, A32 c] (phy_write u a b c)"
| "network_call u ''mdio_bus_enable'' [A32 a] (mdio_bus_enable u a)"
| "network_call u ''mdio_bus_disable'' [A32 a] (mdio_bus_disable u a)"
| "network_call u ''mdio_read'' [A32 a, A8 b, A8 c, A32 d] (mdio_read u a b c d)"
| "network_call u ''mdio_write'' [A32 a, A8 b, A8 c, A16 d] (mdio_write u a b c d)"
| "network_call u ''can_get_core_clock'' [A32 a, A32 b] (can_get_core_clock u a b)"
| "network_call u ''can_set_timing'' [A32 a, A32 b, A32 c] (can_set_timing u a b c)"
| "network_call u ''can_send'' [A32 a, A32 b, A64 c, A32 d, A32 e] (can_send u a b c d e)"
| "network_call u ''can_attach_msgq'' [A32 a, A32 b, A32 c] (can_attach_msgq u a b c)"
| "network_call u ''can_detach'' [A32 a, A32 b] (can_detach u a b)"
| "network_call u ''can_get_state'' [A32 a, A32 b] (can_get_state u a b)"
| "network_call u ''can_recover'' [A32 a, A64 b] (can_recover u a b)"

lemmas network_wrappers =
  zsock_get_context_object_def zsock_socket_def zsock_socketpair_def zsock_close_def
  zsock_shutdown_def zsock_bind_def zsock_connect_def zsock_listen_def zsock_accept_def
  zsock_sendto_def zsock_sendmsg_def zsock_recvfrom_def zsock_fcntl_def zsock_poll_def
  zsock_getsockopt_def zsock_setsockopt_def zsock_getsockname_def zsock_gethostname_def
  z_zsock_getaddrinfo_internal_def zsock_select_def net_if_ipv6_addr_lookup_by_index_def
  net_if_ipv6_addr_rm_by_index_def net_if_ipv4_addr_lookup_by_index_def
  net_if_ipv4_addr_rm_by_index_def net_if_ipv4_set_netmask_by_index_def
  net_if_ipv4_set_gw_by_index_def net_if_get_by_index_def net_eth_get_ptp_clock_by_index_def
  ptp_clock_get_def phy_get_link_state_def phy_link_callback_set_def phy_read_def phy_write_def
  mdio_bus_enable_def mdio_bus_disable_def mdio_read_def mdio_write_def can_get_core_clock_def
  can_set_timing_def can_send_def can_attach_msgq_def can_detach_def can_get_state_def
  can_recover_def

end
