(* ===== verification/SysCallsDrivers.thy ===== *)
theory SysCallsDrivers
  imports SysIds
begin

text \<open>
  The wrappers of the interfaces of the drivers the firmware has no device for: in user mode a wrapper
  puts its arguments into registers, with the words that do not fit in \<open>more\<close>, and traps; in
  kernel mode it calls the implementation.  A parameter of type \<^typ>\<open>user\<close> stands for the
  calling context.
\<close>

section \<open>bbram.h\<close>

definition bbram_check_invalid :: "user \<Rightarrow> u32 \<Rightarrow> invocation" where
  "bbram_check_invalid u dev =
     (if z_syscall_trap u
      then arch_syscall_invoke K_SYSCALL_BBRAM_CHECK_INVALID [dev] [] Ret_word
      else z_impl ''bbram_check_invalid'' [A32 dev])"

definition bbram_check_standby_power :: "user \<Rightarrow> u32 \<Rightarrow> invocation" where
  "bbram_check_standby_power u dev =
     (if z_syscall_trap u
      then arch_syscall_invoke K_SYSCALL_BBRAM_CHECK_STANDBY_POWER [dev] [] Ret_word
      else z_impl ''bbram_check_standby_power'' [A32 dev])"

definition bbram_check_power :: "user \<Rightarrow> u32 \<Rightarrow> invocation" where
  "bbram_check_power u dev =
     (if z_syscall_trap u
      then arch_syscall_invoke K_SYSCALL_BBRAM_CHECK_POWER [dev] [] Ret_word
      else z_impl ''bbram_check_power'' [A32 dev])"

definition bbram_get_size :: "user \<Rightarrow> u32 \<Rightarrow> u32 \<Rightarrow> invocation"
    where
  "bbram_get_size u dev size' =
     (if z_syscall_trap u
      then arch_syscall_invoke K_SYSCALL_BBRAM_GET_SIZE [dev, size'] [] Ret_word
      else z_impl ''bbram_get_size'' [A32 dev, A32 size'])"

definition bbram_read :: "user \<Rightarrow> u32 \<Rightarrow> u32 \<Rightarrow> u32 \<Rightarrow>
    u32 \<Rightarrow> invocation" where
  "bbram_read u dev offset size' data' =
     (if z_syscall_trap u
      then arch_syscall_invoke K_SYSCALL_BBRAM_READ [dev, offset, size', data'] [] Ret_word
      else z_impl ''bbram_read'' [A32 dev, A32 offset, A32 size', A32 data'])"

definition bbram_write :: "user \<Rightarrow> u32 \<Rightarrow> u32 \<Rightarrow> u32
    \<Rightarrow> u32 \<Rightarrow> invocation" where
  "bbram_write u dev offset size' data' =
     (if z_syscall_trap u
      then arch_syscall_invoke K_SYSCALL_BBRAM_WRITE [dev, offset, size', data'] [] Ret_word
      else z_impl ''bbram_write'' [A32 dev, A32 offset, A32 size', A32 data'])"

section \<open>counter.h\<close>

definition counter_is_counting_up :: "user \<Rightarrow> u32 \<Rightarrow> invocation" where
  "counter_is_counting_up u dev =
     (if z_syscall_trap u
      then arch_syscall_invoke K_SYSCALL_COUNTER_IS_COUNTING_UP [dev] [] Ret_word
      else z_impl ''counter_is_counting_up'' [A32 dev])"

definition counter_get_num_of_channels :: "user \<Rightarrow> u32 \<Rightarrow> invocation" where
  "counter_get_num_of_channels u dev =
     (if z_syscall_trap u
      then arch_syscall_invoke K_SYSCALL_COUNTER_GET_NUM_OF_CHANNELS [dev] [] Ret_word
      else z_impl ''counter_get_num_of_channels'' [A32 dev])"

definition counter_get_frequency :: "user \<Rightarrow> u32 \<Rightarrow> invocation" where
  "counter_get_frequency u dev =
     (if z_syscall_trap u
      then arch_syscall_invoke K_SYSCALL_COUNTER_GET_FREQUENCY [dev] [] Ret_word
      else z_impl ''counter_get_frequency'' [A32 dev])"

definition counter_us_to_ticks :: "user \<Rightarrow> u32 \<Rightarrow> u64 \<Rightarrow>
    invocation" where
  "counter_us_to_ticks u dev us =
     (if z_syscall_trap u
      then let parm0 = us in arch_syscall_invoke K_SYSCALL_COUNTER_US_TO_TICKS [dev, lo32 parm0,
          hi32 parm0] [] Ret_word
      else z_impl ''counter_us_to_ticks'' [A32 dev, A64 us])"

definition counter_ticks_to_us :: "user \<Rightarrow> u32 \<Rightarrow> u32 \<Rightarrow>
    invocation" where
  "counter_ticks_to_us u dev ticks =
     (if z_syscall_trap u
      then arch_syscall_invoke K_SYSCALL_COUNTER_TICKS_TO_US [dev, ticks, frame u] [] (Ret_mem
          (frame u))
      else z_impl ''counter_ticks_to_us'' [A32 dev, A32 ticks])"

definition counter_get_max_top_value :: "user \<Rightarrow> u32 \<Rightarrow> invocation" where
  "counter_get_max_top_value u dev =
     (if z_syscall_trap u
      then arch_syscall_invoke K_SYSCALL_COUNTER_GET_MAX_TOP_VALUE [dev] [] Ret_word
      else z_impl ''counter_get_max_top_value'' [A32 dev])"

definition counter_start :: "user \<Rightarrow> u32 \<Rightarrow> invocation" where
  "counter_start u dev =
     (if z_syscall_trap u
      then arch_syscall_invoke K_SYSCALL_COUNTER_START [dev] [] Ret_word
      else z_impl ''counter_start'' [A32 dev])"

definition counter_stop :: "user \<Rightarrow> u32 \<Rightarrow> invocation" where
  "counter_stop u dev =
     (if z_syscall_trap u
      then arch_syscall_invoke K_SYSCALL_COUNTER_STOP [dev] [] Ret_word
      else z_impl ''counter_stop'' [A32 dev])"

definition counter_get_value :: "user \<Rightarrow> u32 \<Rightarrow> u32 \<Rightarrow>
    invocation" where
  "counter_get_value u dev ticks =
     (if z_syscall_trap u
      then arch_syscall_invoke K_SYSCALL_COUNTER_GET_VALUE [dev, ticks] [] Ret_word
      else z_impl ''counter_get_value'' [A32 dev, A32 ticks])"

definition counter_set_channel_alarm :: "user \<Rightarrow> u32 \<Rightarrow> u8 \<Rightarrow> u32
    \<Rightarrow> invocation" where
  "counter_set_channel_alarm u dev chan_id alarm_cfg =
     (if z_syscall_trap u
      then arch_syscall_invoke K_SYSCALL_COUNTER_SET_CHANNEL_ALARM [dev, over_read8 (beyond u 1)
          chan_id, alarm_cfg] [] Ret_word
      else z_impl ''counter_set_channel_alarm'' [A32 dev, A8 chan_id, A32 alarm_cfg])"

definition counter_cancel_channel_alarm :: "user \<Rightarrow> u32 \<Rightarrow> u8 \<Rightarrow>
    invocation" where
  "counter_cancel_channel_alarm u dev chan_id =
     (if z_syscall_trap u
      then arch_syscall_invoke K_SYSCALL_COUNTER_CANCEL_CHANNEL_ALARM [dev, over_read8 (beyond u
          1) chan_id] [] Ret_word
      else z_impl ''counter_cancel_channel_alarm'' [A32 dev, A8 chan_id])"

definition counter_set_top_value :: "user \<Rightarrow> u32 \<Rightarrow> u32 \<Rightarrow>
    invocation" where
  "counter_set_top_value u dev cfg =
     (if z_syscall_trap u
      then arch_syscall_invoke K_SYSCALL_COUNTER_SET_TOP_VALUE [dev, cfg] [] Ret_word
      else z_impl ''counter_set_top_value'' [A32 dev, A32 cfg])"

definition counter_get_pending_int :: "user \<Rightarrow> u32 \<Rightarrow> invocation" where
  "counter_get_pending_int u dev =
     (if z_syscall_trap u
      then arch_syscall_invoke K_SYSCALL_COUNTER_GET_PENDING_INT [dev] [] Ret_word
      else z_impl ''counter_get_pending_int'' [A32 dev])"

definition counter_get_top_value :: "user \<Rightarrow> u32 \<Rightarrow> invocation" where
  "counter_get_top_value u dev =
     (if z_syscall_trap u
      then arch_syscall_invoke K_SYSCALL_COUNTER_GET_TOP_VALUE [dev] [] Ret_word
      else z_impl ''counter_get_top_value'' [A32 dev])"

definition counter_set_guard_period :: "user \<Rightarrow> u32 \<Rightarrow> u32 \<Rightarrow> u32
    \<Rightarrow> invocation" where
  "counter_set_guard_period u dev ticks flags =
     (if z_syscall_trap u
      then arch_syscall_invoke K_SYSCALL_COUNTER_SET_GUARD_PERIOD [dev, ticks, flags] [] Ret_word
      else z_impl ''counter_set_guard_period'' [A32 dev, A32 ticks, A32 flags])"

definition counter_get_guard_period :: "user \<Rightarrow> u32 \<Rightarrow> u32 \<Rightarrow>
    invocation" where
  "counter_get_guard_period u dev flags =
     (if z_syscall_trap u
      then arch_syscall_invoke K_SYSCALL_COUNTER_GET_GUARD_PERIOD [dev, flags] [] Ret_word
      else z_impl ''counter_get_guard_period'' [A32 dev, A32 flags])"

section \<open>dac.h\<close>

definition dac_channel_setup :: "user \<Rightarrow> u32 \<Rightarrow> u32 \<Rightarrow>
    invocation" where
  "dac_channel_setup u dev channel_cfg =
     (if z_syscall_trap u
      then arch_syscall_invoke K_SYSCALL_DAC_CHANNEL_SETUP [dev, channel_cfg] [] Ret_word
      else z_impl ''dac_channel_setup'' [A32 dev, A32 channel_cfg])"

definition dac_write_value :: "user \<Rightarrow> u32 \<Rightarrow> u8 \<Rightarrow> u32
    \<Rightarrow> invocation" where
  "dac_write_value u dev channel value' =
     (if z_syscall_trap u
      then arch_syscall_invoke K_SYSCALL_DAC_WRITE_VALUE [dev, over_read8 (beyond u 1) channel,
          value'] [] Ret_word
      else z_impl ''dac_write_value'' [A32 dev, A8 channel, A32 value'])"

section \<open>dma.h\<close>

definition dma_start :: "user \<Rightarrow> u32 \<Rightarrow> u32 \<Rightarrow> invocation" where
  "dma_start u dev channel =
     (if z_syscall_trap u
      then arch_syscall_invoke K_SYSCALL_DMA_START [dev, channel] [] Ret_word
      else z_impl ''dma_start'' [A32 dev, A32 channel])"

definition dma_stop :: "user \<Rightarrow> u32 \<Rightarrow> u32 \<Rightarrow> invocation" where
  "dma_stop u dev channel =
     (if z_syscall_trap u
      then arch_syscall_invoke K_SYSCALL_DMA_STOP [dev, channel] [] Ret_word
      else z_impl ''dma_stop'' [A32 dev, A32 channel])"

definition dma_request_channel :: "user \<Rightarrow> u32 \<Rightarrow> u32 \<Rightarrow>
    invocation" where
  "dma_request_channel u dev filter_param =
     (if z_syscall_trap u
      then arch_syscall_invoke K_SYSCALL_DMA_REQUEST_CHANNEL [dev, filter_param] [] Ret_word
      else z_impl ''dma_request_channel'' [A32 dev, A32 filter_param])"

definition dma_release_channel :: "user \<Rightarrow> u32 \<Rightarrow> u32 \<Rightarrow>
    invocation" where
  "dma_release_channel u dev channel =
     (if z_syscall_trap u
      then arch_syscall_invoke K_SYSCALL_DMA_RELEASE_CHANNEL [dev, channel] [] Ret_void
      else z_impl ''dma_release_channel'' [A32 dev, A32 channel])"

definition dma_chan_filter :: "user \<Rightarrow> u32 \<Rightarrow> u32 \<Rightarrow> u32
    \<Rightarrow> invocation" where
  "dma_chan_filter u dev channel filter_param =
     (if z_syscall_trap u
      then arch_syscall_invoke K_SYSCALL_DMA_CHAN_FILTER [dev, channel, filter_param] [] Ret_word
      else z_impl ''dma_chan_filter'' [A32 dev, A32 channel, A32 filter_param])"

section \<open>ec_host_cmd_periph.h\<close>

definition ec_host_cmd_periph_init :: "user \<Rightarrow> u32 \<Rightarrow> u32 \<Rightarrow>
    invocation" where
  "ec_host_cmd_periph_init u dev rx_ctx =
     (if z_syscall_trap u
      then arch_syscall_invoke K_SYSCALL_EC_HOST_CMD_PERIPH_INIT [dev, rx_ctx] [] Ret_word
      else z_impl ''ec_host_cmd_periph_init'' [A32 dev, A32 rx_ctx])"

definition ec_host_cmd_periph_send :: "user \<Rightarrow> u32 \<Rightarrow> u32 \<Rightarrow>
    invocation" where
  "ec_host_cmd_periph_send u dev tx_buf =
     (if z_syscall_trap u
      then arch_syscall_invoke K_SYSCALL_EC_HOST_CMD_PERIPH_SEND [dev, tx_buf] [] Ret_word
      else z_impl ''ec_host_cmd_periph_send'' [A32 dev, A32 tx_buf])"

section \<open>eeprom.h\<close>

definition eeprom_read :: "user \<Rightarrow> u32 \<Rightarrow> u32 \<Rightarrow> u32
    \<Rightarrow> u32 \<Rightarrow> invocation" where
  "eeprom_read u dev offset data' len' =
     (if z_syscall_trap u
      then arch_syscall_invoke K_SYSCALL_EEPROM_READ [dev, offset, data', len'] [] Ret_word
      else z_impl ''eeprom_read'' [A32 dev, A32 offset, A32 data', A32 len'])"

definition eeprom_write :: "user \<Rightarrow> u32 \<Rightarrow> u32 \<Rightarrow> u32
    \<Rightarrow> u32 \<Rightarrow> invocation" where
  "eeprom_write u dev offset data' len' =
     (if z_syscall_trap u
      then arch_syscall_invoke K_SYSCALL_EEPROM_WRITE [dev, offset, data', len'] [] Ret_word
      else z_impl ''eeprom_write'' [A32 dev, A32 offset, A32 data', A32 len'])"

definition eeprom_get_size :: "user \<Rightarrow> u32 \<Rightarrow> invocation" where
  "eeprom_get_size u dev =
     (if z_syscall_trap u
      then arch_syscall_invoke K_SYSCALL_EEPROM_GET_SIZE [dev] [] Ret_word
      else z_impl ''eeprom_get_size'' [A32 dev])"

section \<open>entropy.h\<close>

definition entropy_get_entropy :: "user \<Rightarrow> u32 \<Rightarrow> u32 \<Rightarrow> u16
    \<Rightarrow> invocation" where
  "entropy_get_entropy u dev buffer length' =
     (if z_syscall_trap u
      then arch_syscall_invoke K_SYSCALL_ENTROPY_GET_ENTROPY [dev, buffer, over_read16 (beyond u
          2) length'] [] Ret_word
      else z_impl ''entropy_get_entropy'' [A32 dev, A32 buffer, A16 length'])"

section \<open>espi.h\<close>

definition espi_config :: "user \<Rightarrow> u32 \<Rightarrow> u32 \<Rightarrow> invocation"
    where
  "espi_config u dev cfg =
     (if z_syscall_trap u
      then arch_syscall_invoke K_SYSCALL_ESPI_CONFIG [dev, cfg] [] Ret_word
      else z_impl ''espi_config'' [A32 dev, A32 cfg])"

definition espi_read_request :: "user \<Rightarrow> u32 \<Rightarrow> u32 \<Rightarrow>
    invocation" where
  "espi_read_request u dev req =
     (if z_syscall_trap u
      then arch_syscall_invoke K_SYSCALL_ESPI_READ_REQUEST [dev, req] [] Ret_word
      else z_impl ''espi_read_request'' [A32 dev, A32 req])"

definition espi_write_request :: "user \<Rightarrow> u32 \<Rightarrow> u32 \<Rightarrow>
    invocation" where
  "espi_write_request u dev req =
     (if z_syscall_trap u
      then arch_syscall_invoke K_SYSCALL_ESPI_WRITE_REQUEST [dev, req] [] Ret_word
      else z_impl ''espi_write_request'' [A32 dev, A32 req])"

definition espi_send_oob :: "user \<Rightarrow> u32 \<Rightarrow> u32 \<Rightarrow> invocation"
    where
  "espi_send_oob u dev pckt =
     (if z_syscall_trap u
      then arch_syscall_invoke K_SYSCALL_ESPI_SEND_OOB [dev, pckt] [] Ret_word
      else z_impl ''espi_send_oob'' [A32 dev, A32 pckt])"

definition espi_receive_oob :: "user \<Rightarrow> u32 \<Rightarrow> u32 \<Rightarrow> invocation"
    where
  "espi_receive_oob u dev pckt =
     (if z_syscall_trap u
      then arch_syscall_invoke K_SYSCALL_ESPI_RECEIVE_OOB [dev, pckt] [] Ret_word
      else z_impl ''espi_receive_oob'' [A32 dev, A32 pckt])"

definition espi_read_flash :: "user \<Rightarrow> u32 \<Rightarrow> u32 \<Rightarrow> invocation"
    where
  "espi_read_flash u dev pckt =
     (if z_syscall_trap u
      then arch_syscall_invoke K_SYSCALL_ESPI_READ_FLASH [dev, pckt] [] Ret_word
      else z_impl ''espi_read_flash'' [A32 dev, A32 pckt])"

definition espi_write_flash :: "user \<Rightarrow> u32 \<Rightarrow> u32 \<Rightarrow> invocation"
    where
  "espi_write_flash u dev pckt =
     (if z_syscall_trap u
      then arch_syscall_invoke K_SYSCALL_ESPI_WRITE_FLASH [dev, pckt] [] Ret_word
      else z_impl ''espi_write_flash'' [A32 dev, A32 pckt])"

definition espi_flash_erase :: "user \<Rightarrow> u32 \<Rightarrow> u32 \<Rightarrow> invocation"
    where
  "espi_flash_erase u dev pckt =
     (if z_syscall_trap u
      then arch_syscall_invoke K_SYSCALL_ESPI_FLASH_ERASE [dev, pckt] [] Ret_word
      else z_impl ''espi_flash_erase'' [A32 dev, A32 pckt])"

section \<open>espi_saf.h\<close>

definition espi_saf_config :: "user \<Rightarrow> u32 \<Rightarrow> u32 \<Rightarrow> invocation"
    where
  "espi_saf_config u dev cfg =
     (if z_syscall_trap u
      then arch_syscall_invoke K_SYSCALL_ESPI_SAF_CONFIG [dev, cfg] [] Ret_word
      else z_impl ''espi_saf_config'' [A32 dev, A32 cfg])"

definition espi_saf_set_protection_regions :: "user \<Rightarrow> u32 \<Rightarrow> u32
    \<Rightarrow> invocation" where
  "espi_saf_set_protection_regions u dev pr =
     (if z_syscall_trap u
      then arch_syscall_invoke K_SYSCALL_ESPI_SAF_SET_PROTECTION_REGIONS [dev, pr] [] Ret_word
      else z_impl ''espi_saf_set_protection_regions'' [A32 dev, A32 pr])"

definition espi_saf_activate :: "user \<Rightarrow> u32 \<Rightarrow> invocation" where
  "espi_saf_activate u dev =
     (if z_syscall_trap u
      then arch_syscall_invoke K_SYSCALL_ESPI_SAF_ACTIVATE [dev] [] Ret_word
      else z_impl ''espi_saf_activate'' [A32 dev])"

definition espi_saf_get_channel_status :: "user \<Rightarrow> u32 \<Rightarrow> invocation" where
  "espi_saf_get_channel_status u dev =
     (if z_syscall_trap u
      then arch_syscall_invoke K_SYSCALL_ESPI_SAF_GET_CHANNEL_STATUS [dev] [] Ret_word
      else z_impl ''espi_saf_get_channel_status'' [A32 dev])"

definition espi_saf_flash_read :: "user \<Rightarrow> u32 \<Rightarrow> u32 \<Rightarrow>
    invocation" where
  "espi_saf_flash_read u dev pckt =
     (if z_syscall_trap u
      then arch_syscall_invoke K_SYSCALL_ESPI_SAF_FLASH_READ [dev, pckt] [] Ret_word
      else z_impl ''espi_saf_flash_read'' [A32 dev, A32 pckt])"

definition espi_saf_flash_write :: "user \<Rightarrow> u32 \<Rightarrow> u32 \<Rightarrow>
    invocation" where
  "espi_saf_flash_write u dev pckt =
     (if z_syscall_trap u
      then arch_syscall_invoke K_SYSCALL_ESPI_SAF_FLASH_WRITE [dev, pckt] [] Ret_word
      else z_impl ''espi_saf_flash_write'' [A32 dev, A32 pckt])"

definition espi_saf_flash_erase :: "user \<Rightarrow> u32 \<Rightarrow> u32 \<Rightarrow>
    invocation" where
  "espi_saf_flash_erase u dev pckt =
     (if z_syscall_trap u
      then arch_syscall_invoke K_SYSCALL_ESPI_SAF_FLASH_ERASE [dev, pckt] [] Ret_word
      else z_impl ''espi_saf_flash_erase'' [A32 dev, A32 pckt])"

section \<open>flash.h\<close>

definition flash_read :: "user \<Rightarrow> u32 \<Rightarrow> u32 \<Rightarrow> u32 \<Rightarrow>
    u32 \<Rightarrow> invocation" where
  "flash_read u dev offset data' len' =
     (if z_syscall_trap u
      then arch_syscall_invoke K_SYSCALL_FLASH_READ [dev, offset, data', len'] [] Ret_word
      else z_impl ''flash_read'' [A32 dev, A32 offset, A32 data', A32 len'])"

definition flash_write :: "user \<Rightarrow> u32 \<Rightarrow> u32 \<Rightarrow> u32
    \<Rightarrow> u32 \<Rightarrow> invocation" where
  "flash_write u dev offset data' len' =
     (if z_syscall_trap u
      then arch_syscall_invoke K_SYSCALL_FLASH_WRITE [dev, offset, data', len'] [] Ret_word
      else z_impl ''flash_write'' [A32 dev, A32 offset, A32 data', A32 len'])"

definition flash_erase :: "user \<Rightarrow> u32 \<Rightarrow> u32 \<Rightarrow> u32
    \<Rightarrow> invocation" where
  "flash_erase u dev offset size' =
     (if z_syscall_trap u
      then arch_syscall_invoke K_SYSCALL_FLASH_ERASE [dev, offset, size'] [] Ret_word
      else z_impl ''flash_erase'' [A32 dev, A32 offset, A32 size'])"

definition flash_write_protection_set :: "user \<Rightarrow> u32 \<Rightarrow> u8 \<Rightarrow>
    invocation" where
  "flash_write_protection_set u dev enable =
     (if z_syscall_trap u
      then arch_syscall_invoke K_SYSCALL_FLASH_WRITE_PROTECTION_SET [dev, over_read8 (beyond u 1)
          enable] [] Ret_word
      else z_impl ''flash_write_protection_set'' [A32 dev, A8 enable])"

definition flash_get_page_info_by_offs :: "user \<Rightarrow> u32 \<Rightarrow> u32 \<Rightarrow>
    u32 \<Rightarrow> invocation" where
  "flash_get_page_info_by_offs u dev offset info =
     (if z_syscall_trap u
      then arch_syscall_invoke K_SYSCALL_FLASH_GET_PAGE_INFO_BY_OFFS [dev, offset, info] []
          Ret_word
      else z_impl ''flash_get_page_info_by_offs'' [A32 dev, A32 offset, A32 info])"

definition flash_get_page_info_by_idx :: "user \<Rightarrow> u32 \<Rightarrow> u32 \<Rightarrow>
    u32 \<Rightarrow> invocation" where
  "flash_get_page_info_by_idx u dev page_index info =
     (if z_syscall_trap u
      then arch_syscall_invoke K_SYSCALL_FLASH_GET_PAGE_INFO_BY_IDX [dev, page_index, info] []
          Ret_word
      else z_impl ''flash_get_page_info_by_idx'' [A32 dev, A32 page_index, A32 info])"

definition flash_get_page_count :: "user \<Rightarrow> u32 \<Rightarrow> invocation" where
  "flash_get_page_count u dev =
     (if z_syscall_trap u
      then arch_syscall_invoke K_SYSCALL_FLASH_GET_PAGE_COUNT [dev] [] Ret_word
      else z_impl ''flash_get_page_count'' [A32 dev])"

definition flash_sfdp_read :: "user \<Rightarrow> u32 \<Rightarrow> u32 \<Rightarrow> u32
    \<Rightarrow> u32 \<Rightarrow> invocation" where
  "flash_sfdp_read u dev offset data' len' =
     (if z_syscall_trap u
      then arch_syscall_invoke K_SYSCALL_FLASH_SFDP_READ [dev, offset, data', len'] [] Ret_word
      else z_impl ''flash_sfdp_read'' [A32 dev, A32 offset, A32 data', A32 len'])"

definition flash_read_jedec_id :: "user \<Rightarrow> u32 \<Rightarrow> u32 \<Rightarrow>
    invocation" where
  "flash_read_jedec_id u dev id' =
     (if z_syscall_trap u
      then arch_syscall_invoke K_SYSCALL_FLASH_READ_JEDEC_ID [dev, id'] [] Ret_word
      else z_impl ''flash_read_jedec_id'' [A32 dev, A32 id'])"

definition flash_get_write_block_size :: "user \<Rightarrow> u32 \<Rightarrow> invocation" where
  "flash_get_write_block_size u dev =
     (if z_syscall_trap u
      then arch_syscall_invoke K_SYSCALL_FLASH_GET_WRITE_BLOCK_SIZE [dev] [] Ret_word
      else z_impl ''flash_get_write_block_size'' [A32 dev])"

definition flash_get_parameters :: "user \<Rightarrow> u32 \<Rightarrow> invocation" where
  "flash_get_parameters u dev =
     (if z_syscall_trap u
      then arch_syscall_invoke K_SYSCALL_FLASH_GET_PARAMETERS [dev] [] Ret_word
      else z_impl ''flash_get_parameters'' [A32 dev])"

section \<open>flash_simulator.h\<close>

definition flash_simulator_get_memory :: "user \<Rightarrow> u32 \<Rightarrow> u32 \<Rightarrow>
    invocation" where
  "flash_simulator_get_memory u dev mock_size =
     (if z_syscall_trap u
      then arch_syscall_invoke K_SYSCALL_FLASH_SIMULATOR_GET_MEMORY [dev, mock_size] [] Ret_word
      else z_impl ''flash_simulator_get_memory'' [A32 dev, A32 mock_size])"

section \<open>gpio.h\<close>

definition gpio_port_get_raw :: "user \<Rightarrow> u32 \<Rightarrow> u32 \<Rightarrow>
    invocation" where
  "gpio_port_get_raw u port value' =
     (if z_syscall_trap u
      then arch_syscall_invoke K_SYSCALL_GPIO_PORT_GET_RAW [port, value'] [] Ret_word
      else z_impl ''gpio_port_get_raw'' [A32 port, A32 value'])"

definition gpio_port_set_masked_raw :: "user \<Rightarrow> u32 \<Rightarrow> u32 \<Rightarrow> u32
    \<Rightarrow> invocation" where
  "gpio_port_set_masked_raw u port mask' value' =
     (if z_syscall_trap u
      then arch_syscall_invoke K_SYSCALL_GPIO_PORT_SET_MASKED_RAW [port, mask', value'] []
          Ret_word
      else z_impl ''gpio_port_set_masked_raw'' [A32 port, A32 mask', A32 value'])"

definition gpio_port_set_bits_raw :: "user \<Rightarrow> u32 \<Rightarrow> u32 \<Rightarrow>
    invocation" where
  "gpio_port_set_bits_raw u port pins =
     (if z_syscall_trap u
      then arch_syscall_invoke K_SYSCALL_GPIO_PORT_SET_BITS_RAW [port, pins] [] Ret_word
      else z_impl ''gpio_port_set_bits_raw'' [A32 port, A32 pins])"

definition gpio_port_clear_bits_raw :: "user \<Rightarrow> u32 \<Rightarrow> u32 \<Rightarrow>
    invocation" where
  "gpio_port_clear_bits_raw u port pins =
     (if z_syscall_trap u
      then arch_syscall_invoke K_SYSCALL_GPIO_PORT_CLEAR_BITS_RAW [port, pins] [] Ret_word
      else z_impl ''gpio_port_clear_bits_raw'' [A32 port, A32 pins])"

definition gpio_port_toggle_bits :: "user \<Rightarrow> u32 \<Rightarrow> u32 \<Rightarrow>
    invocation" where
  "gpio_port_toggle_bits u port pins =
     (if z_syscall_trap u
      then arch_syscall_invoke K_SYSCALL_GPIO_PORT_TOGGLE_BITS [port, pins] [] Ret_word
      else z_impl ''gpio_port_toggle_bits'' [A32 port, A32 pins])"

definition gpio_get_pending_int :: "user \<Rightarrow> u32 \<Rightarrow> invocation" where
  "gpio_get_pending_int u dev =
     (if z_syscall_trap u
      then arch_syscall_invoke K_SYSCALL_GPIO_GET_PENDING_INT [dev] [] Ret_word
      else z_impl ''gpio_get_pending_int'' [A32 dev])"

section \<open>hwinfo.h\<close>

definition hwinfo_get_device_id :: "user \<Rightarrow> u32 \<Rightarrow> u32 \<Rightarrow>
    invocation" where
  "hwinfo_get_device_id u buffer length' =
     (if z_syscall_trap u
      then arch_syscall_invoke K_SYSCALL_HWINFO_GET_DEVICE_ID [buffer, length'] [] Ret_word
      else z_impl ''hwinfo_get_device_id'' [A32 buffer, A32 length'])"

definition hwinfo_get_reset_cause :: "user \<Rightarrow> u32 \<Rightarrow> invocation" where
  "hwinfo_get_reset_cause u cause =
     (if z_syscall_trap u
      then arch_syscall_invoke K_SYSCALL_HWINFO_GET_RESET_CAUSE [cause] [] Ret_word
      else z_impl ''hwinfo_get_reset_cause'' [A32 cause])"

definition hwinfo_clear_reset_cause :: "user \<Rightarrow> invocation" where
  "hwinfo_clear_reset_cause u =
     (if z_syscall_trap u
      then arch_syscall_invoke K_SYSCALL_HWINFO_CLEAR_RESET_CAUSE [] [] Ret_word
      else z_impl ''hwinfo_clear_reset_cause'' [])"

definition hwinfo_get_supported_reset_cause :: "user \<Rightarrow> u32 \<Rightarrow> invocation"
    where
  "hwinfo_get_supported_reset_cause u supported =
     (if z_syscall_trap u
      then arch_syscall_invoke K_SYSCALL_HWINFO_GET_SUPPORTED_RESET_CAUSE [supported] [] Ret_word
      else z_impl ''hwinfo_get_supported_reset_cause'' [A32 supported])"

section \<open>i2c.h\<close>

definition i2c_configure :: "user \<Rightarrow> u32 \<Rightarrow> u32 \<Rightarrow> invocation"
    where
  "i2c_configure u dev dev_config =
     (if z_syscall_trap u
      then arch_syscall_invoke K_SYSCALL_I2C_CONFIGURE [dev, dev_config] [] Ret_word
      else z_impl ''i2c_configure'' [A32 dev, A32 dev_config])"

definition i2c_get_config :: "user \<Rightarrow> u32 \<Rightarrow> u32 \<Rightarrow> invocation"
    where
  "i2c_get_config u dev dev_config =
     (if z_syscall_trap u
      then arch_syscall_invoke K_SYSCALL_I2C_GET_CONFIG [dev, dev_config] [] Ret_word
      else z_impl ''i2c_get_config'' [A32 dev, A32 dev_config])"

definition i2c_transfer :: "user \<Rightarrow> u32 \<Rightarrow> u32 \<Rightarrow> u8
    \<Rightarrow> u16 \<Rightarrow> invocation" where
  "i2c_transfer u dev msgs num_msgs addr =
     (if z_syscall_trap u
      then arch_syscall_invoke K_SYSCALL_I2C_TRANSFER [dev, msgs, over_read8 (beyond u 2)
          num_msgs, over_read16 (beyond u 3) addr] [] Ret_word
      else z_impl ''i2c_transfer'' [A32 dev, A32 msgs, A8 num_msgs, A16 addr])"

definition i2c_recover_bus :: "user \<Rightarrow> u32 \<Rightarrow> invocation" where
  "i2c_recover_bus u dev =
     (if z_syscall_trap u
      then arch_syscall_invoke K_SYSCALL_I2C_RECOVER_BUS [dev] [] Ret_word
      else z_impl ''i2c_recover_bus'' [A32 dev])"

definition i2c_slave_driver_register :: "user \<Rightarrow> u32 \<Rightarrow> invocation" where
  "i2c_slave_driver_register u dev =
     (if z_syscall_trap u
      then arch_syscall_invoke K_SYSCALL_I2C_SLAVE_DRIVER_REGISTER [dev] [] Ret_word
      else z_impl ''i2c_slave_driver_register'' [A32 dev])"

definition i2c_slave_driver_unregister :: "user \<Rightarrow> u32 \<Rightarrow> invocation" where
  "i2c_slave_driver_unregister u dev =
     (if z_syscall_trap u
      then arch_syscall_invoke K_SYSCALL_I2C_SLAVE_DRIVER_UNREGISTER [dev] [] Ret_word
      else z_impl ''i2c_slave_driver_unregister'' [A32 dev])"

section \<open>i2s.h\<close>

definition i2s_buf_read :: "user \<Rightarrow> u32 \<Rightarrow> u32 \<Rightarrow> u32
    \<Rightarrow> invocation" where
  "i2s_buf_read u dev buf size' =
     (if z_syscall_trap u
      then arch_syscall_invoke K_SYSCALL_I2S_BUF_READ [dev, buf, size'] [] Ret_word
      else z_impl ''i2s_buf_read'' [A32 dev, A32 buf, A32 size'])"

definition i2s_buf_write :: "user \<Rightarrow> u32 \<Rightarrow> u32 \<Rightarrow> u32
    \<Rightarrow> invocation" where
  "i2s_buf_write u dev buf size' =
     (if z_syscall_trap u
      then arch_syscall_invoke K_SYSCALL_I2S_BUF_WRITE [dev, buf, size'] [] Ret_word
      else z_impl ''i2s_buf_write'' [A32 dev, A32 buf, A32 size'])"

section \<open>ipm.h\<close>

definition ipm_send :: "user \<Rightarrow> u32 \<Rightarrow> u32 \<Rightarrow> u32 \<Rightarrow>
    u32 \<Rightarrow> u32 \<Rightarrow> invocation" where
  "ipm_send u ipmdev wait id' data' size' =
     (if z_syscall_trap u
      then arch_syscall_invoke K_SYSCALL_IPM_SEND [ipmdev, wait, id', data', size'] [] Ret_word
      else z_impl ''ipm_send'' [A32 ipmdev, A32 wait, A32 id', A32 data', A32 size'])"

definition ipm_max_data_size_get :: "user \<Rightarrow> u32 \<Rightarrow> invocation" where
  "ipm_max_data_size_get u ipmdev =
     (if z_syscall_trap u
      then arch_syscall_invoke K_SYSCALL_IPM_MAX_DATA_SIZE_GET [ipmdev] [] Ret_word
      else z_impl ''ipm_max_data_size_get'' [A32 ipmdev])"

definition ipm_max_id_val_get :: "user \<Rightarrow> u32 \<Rightarrow> invocation" where
  "ipm_max_id_val_get u ipmdev =
     (if z_syscall_trap u
      then arch_syscall_invoke K_SYSCALL_IPM_MAX_ID_VAL_GET [ipmdev] [] Ret_word
      else z_impl ''ipm_max_id_val_get'' [A32 ipmdev])"

definition ipm_set_enabled :: "user \<Rightarrow> u32 \<Rightarrow> u32 \<Rightarrow> invocation"
    where
  "ipm_set_enabled u ipmdev enable =
     (if z_syscall_trap u
      then arch_syscall_invoke K_SYSCALL_IPM_SET_ENABLED [ipmdev, enable] [] Ret_word
      else z_impl ''ipm_set_enabled'' [A32 ipmdev, A32 enable])"

section \<open>ivshmem.h\<close>

definition ivshmem_get_mem :: "user \<Rightarrow> u32 \<Rightarrow> u32 \<Rightarrow> invocation"
    where
  "ivshmem_get_mem u dev memmap =
     (if z_syscall_trap u
      then arch_syscall_invoke K_SYSCALL_IVSHMEM_GET_MEM [dev, memmap] [] Ret_word
      else z_impl ''ivshmem_get_mem'' [A32 dev, A32 memmap])"

definition ivshmem_get_id :: "user \<Rightarrow> u32 \<Rightarrow> invocation" where
  "ivshmem_get_id u dev =
     (if z_syscall_trap u
      then arch_syscall_invoke K_SYSCALL_IVSHMEM_GET_ID [dev] [] Ret_word
      else z_impl ''ivshmem_get_id'' [A32 dev])"

definition ivshmem_get_vectors :: "user \<Rightarrow> u32 \<Rightarrow> invocation" where
  "ivshmem_get_vectors u dev =
     (if z_syscall_trap u
      then arch_syscall_invoke K_SYSCALL_IVSHMEM_GET_VECTORS [dev] [] Ret_word
      else z_impl ''ivshmem_get_vectors'' [A32 dev])"

definition ivshmem_int_peer :: "user \<Rightarrow> u32 \<Rightarrow> u32 \<Rightarrow> u16
    \<Rightarrow> invocation" where
  "ivshmem_int_peer u dev peer_id vector =
     (if z_syscall_trap u
      then arch_syscall_invoke K_SYSCALL_IVSHMEM_INT_PEER [dev, peer_id, over_read16 (beyond u 2)
          vector] [] Ret_word
      else z_impl ''ivshmem_int_peer'' [A32 dev, A32 peer_id, A16 vector])"

definition ivshmem_register_handler :: "user \<Rightarrow> u32 \<Rightarrow> u32 \<Rightarrow> u16
    \<Rightarrow> invocation" where
  "ivshmem_register_handler u dev signal vector =
     (if z_syscall_trap u
      then arch_syscall_invoke K_SYSCALL_IVSHMEM_REGISTER_HANDLER [dev, signal, over_read16
          (beyond u 2) vector] [] Ret_word
      else z_impl ''ivshmem_register_handler'' [A32 dev, A32 signal, A16 vector])"

section \<open>kscan.h\<close>

definition kscan_config :: "user \<Rightarrow> u32 \<Rightarrow> u32 \<Rightarrow> invocation"
    where
  "kscan_config u dev callback =
     (if z_syscall_trap u
      then arch_syscall_invoke K_SYSCALL_KSCAN_CONFIG [dev, callback] [] Ret_word
      else z_impl ''kscan_config'' [A32 dev, A32 callback])"

definition kscan_enable_callback :: "user \<Rightarrow> u32 \<Rightarrow> invocation" where
  "kscan_enable_callback u dev =
     (if z_syscall_trap u
      then arch_syscall_invoke K_SYSCALL_KSCAN_ENABLE_CALLBACK [dev] [] Ret_word
      else z_impl ''kscan_enable_callback'' [A32 dev])"

definition kscan_disable_callback :: "user \<Rightarrow> u32 \<Rightarrow> invocation" where
  "kscan_disable_callback u dev =
     (if z_syscall_trap u
      then arch_syscall_invoke K_SYSCALL_KSCAN_DISABLE_CALLBACK [dev] [] Ret_word
      else z_impl ''kscan_disable_callback'' [A32 dev])"

section \<open>led.h\<close>

definition led_blink :: "user \<Rightarrow> u32 \<Rightarrow> u32 \<Rightarrow> u32 \<Rightarrow>
    u32 \<Rightarrow> invocation" where
  "led_blink u dev led delay_on delay_off =
     (if z_syscall_trap u
      then arch_syscall_invoke K_SYSCALL_LED_BLINK [dev, led, delay_on, delay_off] [] Ret_word
      else z_impl ''led_blink'' [A32 dev, A32 led, A32 delay_on, A32 delay_off])"

definition led_get_info :: "user \<Rightarrow> u32 \<Rightarrow> u32 \<Rightarrow> u32
    \<Rightarrow> invocation" where
  "led_get_info u dev led info =
     (if z_syscall_trap u
      then arch_syscall_invoke K_SYSCALL_LED_GET_INFO [dev, led, info] [] Ret_word
      else z_impl ''led_get_info'' [A32 dev, A32 led, A32 info])"

definition led_set_brightness :: "user \<Rightarrow> u32 \<Rightarrow> u32 \<Rightarrow> u8
    \<Rightarrow> invocation" where
  "led_set_brightness u dev led value' =
     (if z_syscall_trap u
      then arch_syscall_invoke K_SYSCALL_LED_SET_BRIGHTNESS [dev, led, over_read8 (beyond u 2)
          value'] [] Ret_word
      else z_impl ''led_set_brightness'' [A32 dev, A32 led, A8 value'])"

definition led_write_channels :: "user \<Rightarrow> u32 \<Rightarrow> u32 \<Rightarrow> u32
    \<Rightarrow> u32 \<Rightarrow> invocation" where
  "led_write_channels u dev start_channel num_channels buf =
     (if z_syscall_trap u
      then arch_syscall_invoke K_SYSCALL_LED_WRITE_CHANNELS [dev, start_channel, num_channels,
          buf] [] Ret_word
      else z_impl ''led_write_channels'' [A32 dev, A32 start_channel, A32 num_channels, A32 buf])"

definition led_set_channel :: "user \<Rightarrow> u32 \<Rightarrow> u32 \<Rightarrow> u8
    \<Rightarrow> invocation" where
  "led_set_channel u dev channel value' =
     (if z_syscall_trap u
      then arch_syscall_invoke K_SYSCALL_LED_SET_CHANNEL [dev, channel, over_read8 (beyond u 2)
          value'] [] Ret_word
      else z_impl ''led_set_channel'' [A32 dev, A32 channel, A8 value'])"

definition led_set_color :: "user \<Rightarrow> u32 \<Rightarrow> u32 \<Rightarrow> u8
    \<Rightarrow> u32 \<Rightarrow> invocation" where
  "led_set_color u dev led num_colors color =
     (if z_syscall_trap u
      then arch_syscall_invoke K_SYSCALL_LED_SET_COLOR [dev, led, over_read8 (beyond u 2)
          num_colors, color] [] Ret_word
      else z_impl ''led_set_color'' [A32 dev, A32 led, A8 num_colors, A32 color])"

definition led_on :: "user \<Rightarrow> u32 \<Rightarrow> u32 \<Rightarrow> invocation" where
  "led_on u dev led =
     (if z_syscall_trap u
      then arch_syscall_invoke K_SYSCALL_LED_ON [dev, led] [] Ret_word
      else z_impl ''led_on'' [A32 dev, A32 led])"

definition led_off :: "user \<Rightarrow> u32 \<Rightarrow> u32 \<Rightarrow> invocation" where
  "led_off u dev led =
     (if z_syscall_trap u
      then arch_syscall_invoke K_SYSCALL_LED_OFF [dev, led] [] Ret_word
      else z_impl ''led_off'' [A32 dev, A32 led])"

section \<open>maxim_ds3231.h\<close>

definition maxim_ds3231_req_syncpoint :: "user \<Rightarrow> u32 \<Rightarrow> u32 \<Rightarrow>
    invocation" where
  "maxim_ds3231_req_syncpoint u dev signal =
     (if z_syscall_trap u
      then arch_syscall_invoke K_SYSCALL_MAXIM_DS3231_REQ_SYNCPOINT [dev, signal] [] Ret_word
      else z_impl ''maxim_ds3231_req_syncpoint'' [A32 dev, A32 signal])"

definition maxim_ds3231_get_syncpoint :: "user \<Rightarrow> u32 \<Rightarrow> u32 \<Rightarrow>
    invocation" where
  "maxim_ds3231_get_syncpoint u dev syncpoint =
     (if z_syscall_trap u
      then arch_syscall_invoke K_SYSCALL_MAXIM_DS3231_GET_SYNCPOINT [dev, syncpoint] [] Ret_word
      else z_impl ''maxim_ds3231_get_syncpoint'' [A32 dev, A32 syncpoint])"

section \<open>mbox.h\<close>

definition mbox_send :: "user \<Rightarrow> u32 \<Rightarrow> u32 \<Rightarrow> invocation" where
  "mbox_send u channel msg =
     (if z_syscall_trap u
      then arch_syscall_invoke K_SYSCALL_MBOX_SEND [channel, msg] [] Ret_word
      else z_impl ''mbox_send'' [A32 channel, A32 msg])"

definition mbox_mtu_get :: "user \<Rightarrow> u32 \<Rightarrow> invocation" where
  "mbox_mtu_get u dev =
     (if z_syscall_trap u
      then arch_syscall_invoke K_SYSCALL_MBOX_MTU_GET [dev] [] Ret_word
      else z_impl ''mbox_mtu_get'' [A32 dev])"

definition mbox_set_enabled :: "user \<Rightarrow> u32 \<Rightarrow> u8 \<Rightarrow> invocation"
    where
  "mbox_set_enabled u channel enable =
     (if z_syscall_trap u
      then arch_syscall_invoke K_SYSCALL_MBOX_SET_ENABLED [channel, over_read8 (beyond u 1)
          enable] [] Ret_word
      else z_impl ''mbox_set_enabled'' [A32 channel, A8 enable])"

definition mbox_max_channels_get :: "user \<Rightarrow> u32 \<Rightarrow> invocation" where
  "mbox_max_channels_get u dev =
     (if z_syscall_trap u
      then arch_syscall_invoke K_SYSCALL_MBOX_MAX_CHANNELS_GET [dev] [] Ret_word
      else z_impl ''mbox_max_channels_get'' [A32 dev])"

section \<open>nrf_qspi_nor.h\<close>

definition nrf_qspi_nor_base_clock_div_force :: "user \<Rightarrow> u32 \<Rightarrow> u8
    \<Rightarrow> invocation" where
  "nrf_qspi_nor_base_clock_div_force u dev force =
     (if z_syscall_trap u
      then arch_syscall_invoke K_SYSCALL_NRF_QSPI_NOR_BASE_CLOCK_DIV_FORCE [dev, over_read8
          (beyond u 1) force] [] Ret_void
      else z_impl ''nrf_qspi_nor_base_clock_div_force'' [A32 dev, A8 force])"

section \<open>peci.h\<close>

definition peci_config :: "user \<Rightarrow> u32 \<Rightarrow> u32 \<Rightarrow> invocation"
    where
  "peci_config u dev bitrate =
     (if z_syscall_trap u
      then arch_syscall_invoke K_SYSCALL_PECI_CONFIG [dev, bitrate] [] Ret_word
      else z_impl ''peci_config'' [A32 dev, A32 bitrate])"

definition peci_enable :: "user \<Rightarrow> u32 \<Rightarrow> invocation" where
  "peci_enable u dev =
     (if z_syscall_trap u
      then arch_syscall_invoke K_SYSCALL_PECI_ENABLE [dev] [] Ret_word
      else z_impl ''peci_enable'' [A32 dev])"

definition peci_disable :: "user \<Rightarrow> u32 \<Rightarrow> invocation" where
  "peci_disable u dev =
     (if z_syscall_trap u
      then arch_syscall_invoke K_SYSCALL_PECI_DISABLE [dev] [] Ret_word
      else z_impl ''peci_disable'' [A32 dev])"

definition peci_transfer :: "user \<Rightarrow> u32 \<Rightarrow> u32 \<Rightarrow> invocation"
    where
  "peci_transfer u dev msg =
     (if z_syscall_trap u
      then arch_syscall_invoke K_SYSCALL_PECI_TRANSFER [dev, msg] [] Ret_word
      else z_impl ''peci_transfer'' [A32 dev, A32 msg])"

section \<open>ps2.h\<close>

definition ps2_config :: "user \<Rightarrow> u32 \<Rightarrow> u32 \<Rightarrow> invocation" where
  "ps2_config u dev callback_isr =
     (if z_syscall_trap u
      then arch_syscall_invoke K_SYSCALL_PS2_CONFIG [dev, callback_isr] [] Ret_word
      else z_impl ''ps2_config'' [A32 dev, A32 callback_isr])"

definition ps2_write :: "user \<Rightarrow> u32 \<Rightarrow> u8 \<Rightarrow> invocation" where
  "ps2_write u dev value' =
     (if z_syscall_trap u
      then arch_syscall_invoke K_SYSCALL_PS2_WRITE [dev, over_read8 (beyond u 1) value'] []
          Ret_word
      else z_impl ''ps2_write'' [A32 dev, A8 value'])"

definition ps2_read :: "user \<Rightarrow> u32 \<Rightarrow> u32 \<Rightarrow> invocation" where
  "ps2_read u dev value' =
     (if z_syscall_trap u
      then arch_syscall_invoke K_SYSCALL_PS2_READ [dev, value'] [] Ret_word
      else z_impl ''ps2_read'' [A32 dev, A32 value'])"

definition ps2_enable_callback :: "user \<Rightarrow> u32 \<Rightarrow> invocation" where
  "ps2_enable_callback u dev =
     (if z_syscall_trap u
      then arch_syscall_invoke K_SYSCALL_PS2_ENABLE_CALLBACK [dev] [] Ret_word
      else z_impl ''ps2_enable_callback'' [A32 dev])"

definition ps2_disable_callback :: "user \<Rightarrow> u32 \<Rightarrow> invocation" where
  "ps2_disable_callback u dev =
     (if z_syscall_trap u
      then arch_syscall_invoke K_SYSCALL_PS2_DISABLE_CALLBACK [dev] [] Ret_word
      else z_impl ''ps2_disable_callback'' [A32 dev])"

section \<open>pwm.h\<close>

definition pwm_pin_enable_capture :: "user \<Rightarrow> u32 \<Rightarrow> u32 \<Rightarrow>
    invocation" where
  "pwm_pin_enable_capture u dev pwm =
     (if z_syscall_trap u
      then arch_syscall_invoke K_SYSCALL_PWM_PIN_ENABLE_CAPTURE [dev, pwm] [] Ret_word
      else z_impl ''pwm_pin_enable_capture'' [A32 dev, A32 pwm])"

definition pwm_pin_disable_capture :: "user \<Rightarrow> u32 \<Rightarrow> u32 \<Rightarrow>
    invocation" where
  "pwm_pin_disable_capture u dev pwm =
     (if z_syscall_trap u
      then arch_syscall_invoke K_SYSCALL_PWM_PIN_DISABLE_CAPTURE [dev, pwm] [] Ret_word
      else z_impl ''pwm_pin_disable_capture'' [A32 dev, A32 pwm])"

definition pwm_get_cycles_per_sec :: "user \<Rightarrow> u32 \<Rightarrow> u32 \<Rightarrow> u32
    \<Rightarrow> invocation" where
  "pwm_get_cycles_per_sec u dev pwm cycles =
     (if z_syscall_trap u
      then arch_syscall_invoke K_SYSCALL_PWM_GET_CYCLES_PER_SEC [dev, pwm, cycles] [] Ret_word
      else z_impl ''pwm_get_cycles_per_sec'' [A32 dev, A32 pwm, A32 cycles])"

section \<open>sensor.h\<close>

definition sensor_sample_fetch :: "user \<Rightarrow> u32 \<Rightarrow> invocation" where
  "sensor_sample_fetch u dev =
     (if z_syscall_trap u
      then arch_syscall_invoke K_SYSCALL_SENSOR_SAMPLE_FETCH [dev] [] Ret_word
      else z_impl ''sensor_sample_fetch'' [A32 dev])"

section \<open>spi.h\<close>

definition spi_transceive :: "user \<Rightarrow> u32 \<Rightarrow> u32 \<Rightarrow> u32
    \<Rightarrow> u32 \<Rightarrow> invocation" where
  "spi_transceive u dev config tx_bufs rx_bufs =
     (if z_syscall_trap u
      then arch_syscall_invoke K_SYSCALL_SPI_TRANSCEIVE [dev, config, tx_bufs, rx_bufs] []
          Ret_word
      else z_impl ''spi_transceive'' [A32 dev, A32 config, A32 tx_bufs, A32 rx_bufs])"

definition spi_release :: "user \<Rightarrow> u32 \<Rightarrow> u32 \<Rightarrow> invocation"
    where
  "spi_release u dev config =
     (if z_syscall_trap u
      then arch_syscall_invoke K_SYSCALL_SPI_RELEASE [dev, config] [] Ret_word
      else z_impl ''spi_release'' [A32 dev, A32 config])"

section \<open>syscon.h\<close>

definition syscon_get_base :: "user \<Rightarrow> u32 \<Rightarrow> u32 \<Rightarrow> invocation"
    where
  "syscon_get_base u dev addr =
     (if z_syscall_trap u
      then arch_syscall_invoke K_SYSCALL_SYSCON_GET_BASE [dev, addr] [] Ret_word
      else z_impl ''syscon_get_base'' [A32 dev, A32 addr])"

definition syscon_read_reg :: "user \<Rightarrow> u32 \<Rightarrow> u16 \<Rightarrow> u32
    \<Rightarrow> invocation" where
  "syscon_read_reg u dev reg val' =
     (if z_syscall_trap u
      then arch_syscall_invoke K_SYSCALL_SYSCON_READ_REG [dev, over_read16 (beyond u 1) reg, val']
          [] Ret_word
      else z_impl ''syscon_read_reg'' [A32 dev, A16 reg, A32 val'])"

definition syscon_write_reg :: "user \<Rightarrow> u32 \<Rightarrow> u16 \<Rightarrow> u32
    \<Rightarrow> invocation" where
  "syscon_write_reg u dev reg val' =
     (if z_syscall_trap u
      then arch_syscall_invoke K_SYSCALL_SYSCON_WRITE_REG [dev, over_read16 (beyond u 1) reg,
          val'] [] Ret_word
      else z_impl ''syscon_write_reg'' [A32 dev, A16 reg, A32 val'])"

definition syscon_get_size :: "user \<Rightarrow> u32 \<Rightarrow> u32 \<Rightarrow> invocation"
    where
  "syscon_get_size u dev size' =
     (if z_syscall_trap u
      then arch_syscall_invoke K_SYSCALL_SYSCON_GET_SIZE [dev, size'] [] Ret_word
      else z_impl ''syscon_get_size'' [A32 dev, A32 size'])"

section \<open>uart_mux.h\<close>

definition uart_mux_find :: "user \<Rightarrow> u32 \<Rightarrow> invocation" where
  "uart_mux_find u dlci_address =
     (if z_syscall_trap u
      then arch_syscall_invoke K_SYSCALL_UART_MUX_FIND [dlci_address] [] Ret_word
      else z_impl ''uart_mux_find'' [A32 dlci_address])"

section \<open>The calls of these interfaces\<close>

text \<open>
  \<open>driver_call u name args call\<close>: the wrapper of the system call \<open>name\<close>, called in the
  context \<open>u\<close> with the arguments \<open>args\<close>, makes the invocation \<open>call\<close>.
\<close>

inductive driver_call :: "user \<Rightarrow> string \<Rightarrow> carg list \<Rightarrow> invocation \<Rightarrow> bool" for u where
  "driver_call u ''bbram_check_invalid'' [A32 a] (bbram_check_invalid u a)"
| "driver_call u ''bbram_check_standby_power'' [A32 a] (bbram_check_standby_power u a)"
| "driver_call u ''bbram_check_power'' [A32 a] (bbram_check_power u a)"
| "driver_call u ''bbram_get_size'' [A32 a, A32 b] (bbram_get_size u a b)"
| "driver_call u ''bbram_read'' [A32 a, A32 b, A32 c, A32 d] (bbram_read u a b c d)"
| "driver_call u ''bbram_write'' [A32 a, A32 b, A32 c, A32 d] (bbram_write u a b c d)"
| "driver_call u ''counter_is_counting_up'' [A32 a] (counter_is_counting_up u a)"
| "driver_call u ''counter_get_num_of_channels'' [A32 a] (counter_get_num_of_channels u a)"
| "driver_call u ''counter_get_frequency'' [A32 a] (counter_get_frequency u a)"
| "driver_call u ''counter_us_to_ticks'' [A32 a, A64 b] (counter_us_to_ticks u a b)"
| "driver_call u ''counter_ticks_to_us'' [A32 a, A32 b] (counter_ticks_to_us u a b)"
| "driver_call u ''counter_get_max_top_value'' [A32 a] (counter_get_max_top_value u a)"
| "driver_call u ''counter_start'' [A32 a] (counter_start u a)"
| "driver_call u ''counter_stop'' [A32 a] (counter_stop u a)"
| "driver_call u ''counter_get_value'' [A32 a, A32 b] (counter_get_value u a b)"
| "driver_call u ''counter_set_channel_alarm'' [A32 a, A8 b, A32 c] (counter_set_channel_alarm u a
      b c)"
| "driver_call u ''counter_cancel_channel_alarm'' [A32 a, A8 b] (counter_cancel_channel_alarm u a
      b)"
| "driver_call u ''counter_set_top_value'' [A32 a, A32 b] (counter_set_top_value u a b)"
| "driver_call u ''counter_get_pending_int'' [A32 a] (counter_get_pending_int u a)"
| "driver_call u ''counter_get_top_value'' [A32 a] (counter_get_top_value u a)"
| "driver_call u ''counter_set_guard_period'' [A32 a, A32 b, A32 c] (counter_set_guard_period u a
      b c)"
| "driver_call u ''counter_get_guard_period'' [A32 a, A32 b] (counter_get_guard_period u a b)"
| "driver_call u ''dac_channel_setup'' [A32 a, A32 b] (dac_channel_setup u a b)"
| "driver_call u ''dac_write_value'' [A32 a, A8 b, A32 c] (dac_write_value u a b c)"
| "driver_call u ''dma_start'' [A32 a, A32 b] (dma_start u a b)"
| "driver_call u ''dma_stop'' [A32 a, A32 b] (dma_stop u a b)"
| "driver_call u ''dma_request_channel'' [A32 a, A32 b] (dma_request_channel u a b)"
| "driver_call u ''dma_release_channel'' [A32 a, A32 b] (dma_release_channel u a b)"
| "driver_call u ''dma_chan_filter'' [A32 a, A32 b, A32 c] (dma_chan_filter u a b c)"
| "driver_call u ''ec_host_cmd_periph_init'' [A32 a, A32 b] (ec_host_cmd_periph_init u a b)"
| "driver_call u ''ec_host_cmd_periph_send'' [A32 a, A32 b] (ec_host_cmd_periph_send u a b)"
| "driver_call u ''eeprom_read'' [A32 a, A32 b, A32 c, A32 d] (eeprom_read u a b c d)"
| "driver_call u ''eeprom_write'' [A32 a, A32 b, A32 c, A32 d] (eeprom_write u a b c d)"
| "driver_call u ''eeprom_get_size'' [A32 a] (eeprom_get_size u a)"
| "driver_call u ''entropy_get_entropy'' [A32 a, A32 b, A16 c] (entropy_get_entropy u a b c)"
| "driver_call u ''espi_config'' [A32 a, A32 b] (espi_config u a b)"
| "driver_call u ''espi_read_request'' [A32 a, A32 b] (espi_read_request u a b)"
| "driver_call u ''espi_write_request'' [A32 a, A32 b] (espi_write_request u a b)"
| "driver_call u ''espi_send_oob'' [A32 a, A32 b] (espi_send_oob u a b)"
| "driver_call u ''espi_receive_oob'' [A32 a, A32 b] (espi_receive_oob u a b)"
| "driver_call u ''espi_read_flash'' [A32 a, A32 b] (espi_read_flash u a b)"
| "driver_call u ''espi_write_flash'' [A32 a, A32 b] (espi_write_flash u a b)"
| "driver_call u ''espi_flash_erase'' [A32 a, A32 b] (espi_flash_erase u a b)"
| "driver_call u ''espi_saf_config'' [A32 a, A32 b] (espi_saf_config u a b)"
| "driver_call u ''espi_saf_set_protection_regions'' [A32 a, A32 b]
      (espi_saf_set_protection_regions u a b)"
| "driver_call u ''espi_saf_activate'' [A32 a] (espi_saf_activate u a)"
| "driver_call u ''espi_saf_get_channel_status'' [A32 a] (espi_saf_get_channel_status u a)"
| "driver_call u ''espi_saf_flash_read'' [A32 a, A32 b] (espi_saf_flash_read u a b)"
| "driver_call u ''espi_saf_flash_write'' [A32 a, A32 b] (espi_saf_flash_write u a b)"
| "driver_call u ''espi_saf_flash_erase'' [A32 a, A32 b] (espi_saf_flash_erase u a b)"
| "driver_call u ''flash_read'' [A32 a, A32 b, A32 c, A32 d] (flash_read u a b c d)"
| "driver_call u ''flash_write'' [A32 a, A32 b, A32 c, A32 d] (flash_write u a b c d)"
| "driver_call u ''flash_erase'' [A32 a, A32 b, A32 c] (flash_erase u a b c)"
| "driver_call u ''flash_write_protection_set'' [A32 a, A8 b] (flash_write_protection_set u a b)"
| "driver_call u ''flash_get_page_info_by_offs'' [A32 a, A32 b, A32 c]
      (flash_get_page_info_by_offs u a b c)"
| "driver_call u ''flash_get_page_info_by_idx'' [A32 a, A32 b, A32 c] (flash_get_page_info_by_idx
      u a b c)"
| "driver_call u ''flash_get_page_count'' [A32 a] (flash_get_page_count u a)"
| "driver_call u ''flash_sfdp_read'' [A32 a, A32 b, A32 c, A32 d] (flash_sfdp_read u a b c d)"
| "driver_call u ''flash_read_jedec_id'' [A32 a, A32 b] (flash_read_jedec_id u a b)"
| "driver_call u ''flash_get_write_block_size'' [A32 a] (flash_get_write_block_size u a)"
| "driver_call u ''flash_get_parameters'' [A32 a] (flash_get_parameters u a)"
| "driver_call u ''flash_simulator_get_memory'' [A32 a, A32 b] (flash_simulator_get_memory u a b)"
| "driver_call u ''gpio_port_get_raw'' [A32 a, A32 b] (gpio_port_get_raw u a b)"
| "driver_call u ''gpio_port_set_masked_raw'' [A32 a, A32 b, A32 c] (gpio_port_set_masked_raw u a
      b c)"
| "driver_call u ''gpio_port_set_bits_raw'' [A32 a, A32 b] (gpio_port_set_bits_raw u a b)"
| "driver_call u ''gpio_port_clear_bits_raw'' [A32 a, A32 b] (gpio_port_clear_bits_raw u a b)"
| "driver_call u ''gpio_port_toggle_bits'' [A32 a, A32 b] (gpio_port_toggle_bits u a b)"
| "driver_call u ''gpio_get_pending_int'' [A32 a] (gpio_get_pending_int u a)"
| "driver_call u ''hwinfo_get_device_id'' [A32 a, A32 b] (hwinfo_get_device_id u a b)"
| "driver_call u ''hwinfo_get_reset_cause'' [A32 a] (hwinfo_get_reset_cause u a)"
| "driver_call u ''hwinfo_clear_reset_cause'' [] (hwinfo_clear_reset_cause u)"
| "driver_call u ''hwinfo_get_supported_reset_cause'' [A32 a] (hwinfo_get_supported_reset_cause u
      a)"
| "driver_call u ''i2c_configure'' [A32 a, A32 b] (i2c_configure u a b)"
| "driver_call u ''i2c_get_config'' [A32 a, A32 b] (i2c_get_config u a b)"
| "driver_call u ''i2c_transfer'' [A32 a, A32 b, A8 c, A16 d] (i2c_transfer u a b c d)"
| "driver_call u ''i2c_recover_bus'' [A32 a] (i2c_recover_bus u a)"
| "driver_call u ''i2c_slave_driver_register'' [A32 a] (i2c_slave_driver_register u a)"
| "driver_call u ''i2c_slave_driver_unregister'' [A32 a] (i2c_slave_driver_unregister u a)"
| "driver_call u ''i2s_buf_read'' [A32 a, A32 b, A32 c] (i2s_buf_read u a b c)"
| "driver_call u ''i2s_buf_write'' [A32 a, A32 b, A32 c] (i2s_buf_write u a b c)"
| "driver_call u ''ipm_send'' [A32 a, A32 b, A32 c, A32 d, A32 e] (ipm_send u a b c d e)"
| "driver_call u ''ipm_max_data_size_get'' [A32 a] (ipm_max_data_size_get u a)"
| "driver_call u ''ipm_max_id_val_get'' [A32 a] (ipm_max_id_val_get u a)"
| "driver_call u ''ipm_set_enabled'' [A32 a, A32 b] (ipm_set_enabled u a b)"
| "driver_call u ''ivshmem_get_mem'' [A32 a, A32 b] (ivshmem_get_mem u a b)"
| "driver_call u ''ivshmem_get_id'' [A32 a] (ivshmem_get_id u a)"
| "driver_call u ''ivshmem_get_vectors'' [A32 a] (ivshmem_get_vectors u a)"
| "driver_call u ''ivshmem_int_peer'' [A32 a, A32 b, A16 c] (ivshmem_int_peer u a b c)"
| "driver_call u ''ivshmem_register_handler'' [A32 a, A32 b, A16 c] (ivshmem_register_handler u a
      b c)"
| "driver_call u ''kscan_config'' [A32 a, A32 b] (kscan_config u a b)"
| "driver_call u ''kscan_enable_callback'' [A32 a] (kscan_enable_callback u a)"
| "driver_call u ''kscan_disable_callback'' [A32 a] (kscan_disable_callback u a)"
| "driver_call u ''led_blink'' [A32 a, A32 b, A32 c, A32 d] (led_blink u a b c d)"
| "driver_call u ''led_get_info'' [A32 a, A32 b, A32 c] (led_get_info u a b c)"
| "driver_call u ''led_set_brightness'' [A32 a, A32 b, A8 c] (led_set_brightness u a b c)"
| "driver_call u ''led_write_channels'' [A32 a, A32 b, A32 c, A32 d] (led_write_channels u a b c
      d)"
| "driver_call u ''led_set_channel'' [A32 a, A32 b, A8 c] (led_set_channel u a b c)"
| "driver_call u ''led_set_color'' [A32 a, A32 b, A8 c, A32 d] (led_set_color u a b c d)"
| "driver_call u ''led_on'' [A32 a, A32 b] (led_on u a b)"
| "driver_call u ''led_off'' [A32 a, A32 b] (led_off u a b)"
| "driver_call u ''maxim_ds3231_req_syncpoint'' [A32 a, A32 b] (maxim_ds3231_req_syncpoint u a b)"
| "driver_call u ''maxim_ds3231_get_syncpoint'' [A32 a, A32 b] (maxim_ds3231_get_syncpoint u a b)"
| "driver_call u ''mbox_send'' [A32 a, A32 b] (mbox_send u a b)"
| "driver_call u ''mbox_mtu_get'' [A32 a] (mbox_mtu_get u a)"
| "driver_call u ''mbox_set_enabled'' [A32 a, A8 b] (mbox_set_enabled u a b)"
| "driver_call u ''mbox_max_channels_get'' [A32 a] (mbox_max_channels_get u a)"
| "driver_call u ''nrf_qspi_nor_base_clock_div_force'' [A32 a, A8 b]
      (nrf_qspi_nor_base_clock_div_force u a b)"
| "driver_call u ''peci_config'' [A32 a, A32 b] (peci_config u a b)"
| "driver_call u ''peci_enable'' [A32 a] (peci_enable u a)"
| "driver_call u ''peci_disable'' [A32 a] (peci_disable u a)"
| "driver_call u ''peci_transfer'' [A32 a, A32 b] (peci_transfer u a b)"
| "driver_call u ''ps2_config'' [A32 a, A32 b] (ps2_config u a b)"
| "driver_call u ''ps2_write'' [A32 a, A8 b] (ps2_write u a b)"
| "driver_call u ''ps2_read'' [A32 a, A32 b] (ps2_read u a b)"
| "driver_call u ''ps2_enable_callback'' [A32 a] (ps2_enable_callback u a)"
| "driver_call u ''ps2_disable_callback'' [A32 a] (ps2_disable_callback u a)"
| "driver_call u ''pwm_pin_enable_capture'' [A32 a, A32 b] (pwm_pin_enable_capture u a b)"
| "driver_call u ''pwm_pin_disable_capture'' [A32 a, A32 b] (pwm_pin_disable_capture u a b)"
| "driver_call u ''pwm_get_cycles_per_sec'' [A32 a, A32 b, A32 c] (pwm_get_cycles_per_sec u a b
      c)"
| "driver_call u ''sensor_sample_fetch'' [A32 a] (sensor_sample_fetch u a)"
| "driver_call u ''spi_transceive'' [A32 a, A32 b, A32 c, A32 d] (spi_transceive u a b c d)"
| "driver_call u ''spi_release'' [A32 a, A32 b] (spi_release u a b)"
| "driver_call u ''syscon_get_base'' [A32 a, A32 b] (syscon_get_base u a b)"
| "driver_call u ''syscon_read_reg'' [A32 a, A16 b, A32 c] (syscon_read_reg u a b c)"
| "driver_call u ''syscon_write_reg'' [A32 a, A16 b, A32 c] (syscon_write_reg u a b c)"
| "driver_call u ''syscon_get_size'' [A32 a, A32 b] (syscon_get_size u a b)"
| "driver_call u ''uart_mux_find'' [A32 a] (uart_mux_find u a)"

lemmas drivers_wrappers =
  bbram_check_invalid_def bbram_check_standby_power_def bbram_check_power_def bbram_get_size_def
  bbram_read_def bbram_write_def counter_is_counting_up_def counter_get_num_of_channels_def
  counter_get_frequency_def counter_us_to_ticks_def counter_ticks_to_us_def
  counter_get_max_top_value_def counter_start_def counter_stop_def counter_get_value_def
  counter_set_channel_alarm_def counter_cancel_channel_alarm_def counter_set_top_value_def
  counter_get_pending_int_def counter_get_top_value_def counter_set_guard_period_def
  counter_get_guard_period_def dac_channel_setup_def dac_write_value_def dma_start_def
  dma_stop_def dma_request_channel_def dma_release_channel_def dma_chan_filter_def
  ec_host_cmd_periph_init_def ec_host_cmd_periph_send_def eeprom_read_def eeprom_write_def
  eeprom_get_size_def entropy_get_entropy_def espi_config_def espi_read_request_def
  espi_write_request_def espi_send_oob_def espi_receive_oob_def espi_read_flash_def
  espi_write_flash_def espi_flash_erase_def espi_saf_config_def
  espi_saf_set_protection_regions_def espi_saf_activate_def espi_saf_get_channel_status_def
  espi_saf_flash_read_def espi_saf_flash_write_def espi_saf_flash_erase_def flash_read_def
  flash_write_def flash_erase_def flash_write_protection_set_def flash_get_page_info_by_offs_def
  flash_get_page_info_by_idx_def flash_get_page_count_def flash_sfdp_read_def
  flash_read_jedec_id_def flash_get_write_block_size_def flash_get_parameters_def
  flash_simulator_get_memory_def gpio_port_get_raw_def gpio_port_set_masked_raw_def
  gpio_port_set_bits_raw_def gpio_port_clear_bits_raw_def gpio_port_toggle_bits_def
  gpio_get_pending_int_def hwinfo_get_device_id_def hwinfo_get_reset_cause_def
  hwinfo_clear_reset_cause_def hwinfo_get_supported_reset_cause_def i2c_configure_def
  i2c_get_config_def i2c_transfer_def i2c_recover_bus_def i2c_slave_driver_register_def
  i2c_slave_driver_unregister_def i2s_buf_read_def i2s_buf_write_def ipm_send_def
  ipm_max_data_size_get_def ipm_max_id_val_get_def ipm_set_enabled_def ivshmem_get_mem_def
  ivshmem_get_id_def ivshmem_get_vectors_def ivshmem_int_peer_def ivshmem_register_handler_def
  kscan_config_def kscan_enable_callback_def kscan_disable_callback_def led_blink_def
  led_get_info_def led_set_brightness_def led_write_channels_def led_set_channel_def
  led_set_color_def led_on_def led_off_def maxim_ds3231_req_syncpoint_def
  maxim_ds3231_get_syncpoint_def mbox_send_def mbox_mtu_get_def mbox_set_enabled_def
  mbox_max_channels_get_def nrf_qspi_nor_base_clock_div_force_def peci_config_def
  peci_enable_def peci_disable_def peci_transfer_def ps2_config_def ps2_write_def ps2_read_def
  ps2_enable_callback_def ps2_disable_callback_def pwm_pin_enable_capture_def
  pwm_pin_disable_capture_def pwm_get_cycles_per_sec_def sensor_sample_fetch_def
  spi_transceive_def spi_release_def syscon_get_base_def syscon_read_reg_def
  syscon_write_reg_def syscon_get_size_def uart_mux_find_def

end
