(* ===== verification/SysMrshA.thy ===== *)
theory SysMrshA
  imports SysIds
begin

text \<open>
  The unmarshallers of the generated files \<open>syscalls/*_mrsh.c\<close> whose names come before those of the kernel,
  in the order of the directory: each reads the arguments back from the registers
  and from \<open>more\<close>, after the check of the memory it reads, calls the verifier and returns or
  stores its result.
\<close>

definition z_mrsh_adc_channel_setup :: handler where
  "z_mrsh_adc_channel_setup m arg0 arg1 arg2 arg3 arg4 arg5 ssf =
     (z_vrfy ''adc_channel_setup'' [A32 arg0, A32 arg1] Ret_word ssf)"

definition z_mrsh_adc_read :: handler where
  "z_mrsh_adc_read m arg0 arg1 arg2 arg3 arg4 arg5 ssf =
     (z_vrfy ''adc_read'' [A32 arg0, A32 arg1] Ret_word ssf)"

definition z_mrsh_adc_read_async :: handler where
  "z_mrsh_adc_read_async m arg0 arg1 arg2 arg3 arg4 arg5 ssf =
     (z_vrfy ''adc_read_async'' [A32 arg0, A32 arg1, A32 arg2] Ret_word ssf)"

definition z_mrsh_atomic_add :: handler where
  "z_mrsh_atomic_add m arg0 arg1 arg2 arg3 arg4 arg5 ssf =
     (z_vrfy ''atomic_add'' [A32 arg0, A32 arg1] Ret_word ssf)"

definition z_mrsh_atomic_and :: handler where
  "z_mrsh_atomic_and m arg0 arg1 arg2 arg3 arg4 arg5 ssf =
     (z_vrfy ''atomic_and'' [A32 arg0, A32 arg1] Ret_word ssf)"

definition z_mrsh_atomic_cas :: handler where
  "z_mrsh_atomic_cas m arg0 arg1 arg2 arg3 arg4 arg5 ssf =
     (z_vrfy ''atomic_cas'' [A32 arg0, A32 arg1, A32 arg2] Ret_word ssf)"

definition z_mrsh_atomic_nand :: handler where
  "z_mrsh_atomic_nand m arg0 arg1 arg2 arg3 arg4 arg5 ssf =
     (z_vrfy ''atomic_nand'' [A32 arg0, A32 arg1] Ret_word ssf)"

definition z_mrsh_atomic_or :: handler where
  "z_mrsh_atomic_or m arg0 arg1 arg2 arg3 arg4 arg5 ssf =
     (z_vrfy ''atomic_or'' [A32 arg0, A32 arg1] Ret_word ssf)"

definition z_mrsh_atomic_ptr_cas :: handler where
  "z_mrsh_atomic_ptr_cas m arg0 arg1 arg2 arg3 arg4 arg5 ssf =
     (z_vrfy ''atomic_ptr_cas'' [A32 arg0, A32 arg1, A32 arg2] Ret_word ssf)"

definition z_mrsh_atomic_ptr_set :: handler where
  "z_mrsh_atomic_ptr_set m arg0 arg1 arg2 arg3 arg4 arg5 ssf =
     (z_vrfy ''atomic_ptr_set'' [A32 arg0, A32 arg1] Ret_word ssf)"

definition z_mrsh_atomic_set :: handler where
  "z_mrsh_atomic_set m arg0 arg1 arg2 arg3 arg4 arg5 ssf =
     (z_vrfy ''atomic_set'' [A32 arg0, A32 arg1] Ret_word ssf)"

definition z_mrsh_atomic_sub :: handler where
  "z_mrsh_atomic_sub m arg0 arg1 arg2 arg3 arg4 arg5 ssf =
     (z_vrfy ''atomic_sub'' [A32 arg0, A32 arg1] Ret_word ssf)"

definition z_mrsh_atomic_xor :: handler where
  "z_mrsh_atomic_xor m arg0 arg1 arg2 arg3 arg4 arg5 ssf =
     (z_vrfy ''atomic_xor'' [A32 arg0, A32 arg1] Ret_word ssf)"

definition z_mrsh_bbram_check_invalid :: handler where
  "z_mrsh_bbram_check_invalid m arg0 arg1 arg2 arg3 arg4 arg5 ssf =
     (z_vrfy ''bbram_check_invalid'' [A32 arg0] Ret_word ssf)"

definition z_mrsh_bbram_check_power :: handler where
  "z_mrsh_bbram_check_power m arg0 arg1 arg2 arg3 arg4 arg5 ssf =
     (z_vrfy ''bbram_check_power'' [A32 arg0] Ret_word ssf)"

definition z_mrsh_bbram_check_standby_power :: handler where
  "z_mrsh_bbram_check_standby_power m arg0 arg1 arg2 arg3 arg4 arg5 ssf =
     (z_vrfy ''bbram_check_standby_power'' [A32 arg0] Ret_word ssf)"

definition z_mrsh_bbram_get_size :: handler where
  "z_mrsh_bbram_get_size m arg0 arg1 arg2 arg3 arg4 arg5 ssf =
     (z_vrfy ''bbram_get_size'' [A32 arg0, A32 arg1] Ret_word ssf)"

definition z_mrsh_bbram_read :: handler where
  "z_mrsh_bbram_read m arg0 arg1 arg2 arg3 arg4 arg5 ssf =
     (z_vrfy ''bbram_read'' [A32 arg0, A32 arg1, A32 arg2, A32 arg3] Ret_word ssf)"

definition z_mrsh_bbram_write :: handler where
  "z_mrsh_bbram_write m arg0 arg1 arg2 arg3 arg4 arg5 ssf =
     (z_vrfy ''bbram_write'' [A32 arg0, A32 arg1, A32 arg2, A32 arg3] Ret_word ssf)"

definition z_mrsh_can_attach_msgq :: handler where
  "z_mrsh_can_attach_msgq m arg0 arg1 arg2 arg3 arg4 arg5 ssf =
     (z_vrfy ''can_attach_msgq'' [A32 arg0, A32 arg1, A32 arg2] Ret_word ssf)"

definition z_mrsh_can_detach :: handler where
  "z_mrsh_can_detach m arg0 arg1 arg2 arg3 arg4 arg5 ssf =
     (z_vrfy ''can_detach'' [A32 arg0, A32 arg1] Ret_void ssf)"

definition z_mrsh_can_get_core_clock :: handler where
  "z_mrsh_can_get_core_clock m arg0 arg1 arg2 arg3 arg4 arg5 ssf =
     (z_vrfy ''can_get_core_clock'' [A32 arg0, A32 arg1] Ret_word ssf)"

definition z_mrsh_can_get_state :: handler where
  "z_mrsh_can_get_state m arg0 arg1 arg2 arg3 arg4 arg5 ssf =
     (z_vrfy ''can_get_state'' [A32 arg0, A32 arg1] Ret_word ssf)"

definition z_mrsh_can_recover :: handler where
  "z_mrsh_can_recover m arg0 arg1 arg2 arg3 arg4 arg5 ssf =
     (let parm0 = join64 arg1 arg2 in z_vrfy ''can_recover'' [A32 arg0, A64 parm0] Ret_word ssf)"

definition z_mrsh_can_send :: handler where
  "z_mrsh_can_send m arg0 arg1 arg2 arg3 arg4 arg5 ssf =
     (let parm0 = join64 arg2 arg3 in z_vrfy ''can_send'' [A32 arg0, A32 arg1, A64 parm0, A32
         arg4, A32 arg5] Ret_word ssf)"

definition z_mrsh_can_set_timing :: handler where
  "z_mrsh_can_set_timing m arg0 arg1 arg2 arg3 arg4 arg5 ssf =
     (z_vrfy ''can_set_timing'' [A32 arg0, A32 arg1, A32 arg2] Ret_word ssf)"

definition z_mrsh_clock_gettime :: handler where
  "z_mrsh_clock_gettime m arg0 arg1 arg2 arg3 arg4 arg5 ssf =
     (z_vrfy ''clock_gettime'' [A32 arg0, A32 arg1] Ret_word ssf)"

definition z_mrsh_counter_cancel_channel_alarm :: handler where
  "z_mrsh_counter_cancel_channel_alarm m arg0 arg1 arg2 arg3 arg4 arg5 ssf =
     (z_vrfy ''counter_cancel_channel_alarm'' [A32 arg0, A8 (ucast arg1)] Ret_word ssf)"

definition z_mrsh_counter_get_frequency :: handler where
  "z_mrsh_counter_get_frequency m arg0 arg1 arg2 arg3 arg4 arg5 ssf =
     (z_vrfy ''counter_get_frequency'' [A32 arg0] Ret_word ssf)"

definition z_mrsh_counter_get_guard_period :: handler where
  "z_mrsh_counter_get_guard_period m arg0 arg1 arg2 arg3 arg4 arg5 ssf =
     (z_vrfy ''counter_get_guard_period'' [A32 arg0, A32 arg1] Ret_word ssf)"

definition z_mrsh_counter_get_max_top_value :: handler where
  "z_mrsh_counter_get_max_top_value m arg0 arg1 arg2 arg3 arg4 arg5 ssf =
     (z_vrfy ''counter_get_max_top_value'' [A32 arg0] Ret_word ssf)"

definition z_mrsh_counter_get_num_of_channels :: handler where
  "z_mrsh_counter_get_num_of_channels m arg0 arg1 arg2 arg3 arg4 arg5 ssf =
     (z_vrfy ''counter_get_num_of_channels'' [A32 arg0] Ret_word ssf)"

definition z_mrsh_counter_get_pending_int :: handler where
  "z_mrsh_counter_get_pending_int m arg0 arg1 arg2 arg3 arg4 arg5 ssf =
     (z_vrfy ''counter_get_pending_int'' [A32 arg0] Ret_word ssf)"

definition z_mrsh_counter_get_top_value :: handler where
  "z_mrsh_counter_get_top_value m arg0 arg1 arg2 arg3 arg4 arg5 ssf =
     (z_vrfy ''counter_get_top_value'' [A32 arg0] Ret_word ssf)"

definition z_mrsh_counter_get_value :: handler where
  "z_mrsh_counter_get_value m arg0 arg1 arg2 arg3 arg4 arg5 ssf =
     (z_vrfy ''counter_get_value'' [A32 arg0, A32 arg1] Ret_word ssf)"

definition z_mrsh_counter_is_counting_up :: handler where
  "z_mrsh_counter_is_counting_up m arg0 arg1 arg2 arg3 arg4 arg5 ssf =
     (z_vrfy ''counter_is_counting_up'' [A32 arg0] Ret_word ssf)"

definition z_mrsh_counter_set_channel_alarm :: handler where
  "z_mrsh_counter_set_channel_alarm m arg0 arg1 arg2 arg3 arg4 arg5 ssf =
     (z_vrfy ''counter_set_channel_alarm'' [A32 arg0, A8 (ucast arg1), A32 arg2] Ret_word ssf)"

definition z_mrsh_counter_set_guard_period :: handler where
  "z_mrsh_counter_set_guard_period m arg0 arg1 arg2 arg3 arg4 arg5 ssf =
     (z_vrfy ''counter_set_guard_period'' [A32 arg0, A32 arg1, A32 arg2] Ret_word ssf)"

definition z_mrsh_counter_set_top_value :: handler where
  "z_mrsh_counter_set_top_value m arg0 arg1 arg2 arg3 arg4 arg5 ssf =
     (z_vrfy ''counter_set_top_value'' [A32 arg0, A32 arg1] Ret_word ssf)"

definition z_mrsh_counter_start :: handler where
  "z_mrsh_counter_start m arg0 arg1 arg2 arg3 arg4 arg5 ssf =
     (z_vrfy ''counter_start'' [A32 arg0] Ret_word ssf)"

definition z_mrsh_counter_stop :: handler where
  "z_mrsh_counter_stop m arg0 arg1 arg2 arg3 arg4 arg5 ssf =
     (z_vrfy ''counter_stop'' [A32 arg0] Ret_word ssf)"

definition z_mrsh_counter_ticks_to_us :: handler where
  "z_mrsh_counter_ticks_to_us m arg0 arg1 arg2 arg3 arg4 arg5 ssf =
     (Z_SYSCALL_MEMORY_WRITE m arg2 8 (z_vrfy ''counter_ticks_to_us'' [A32 arg0, A32 arg1]
         (Ret_mem arg2) ssf))"

definition z_mrsh_counter_us_to_ticks :: handler where
  "z_mrsh_counter_us_to_ticks m arg0 arg1 arg2 arg3 arg4 arg5 ssf =
     (let parm0 = join64 arg1 arg2 in z_vrfy ''counter_us_to_ticks'' [A32 arg0, A64 parm0]
         Ret_word ssf)"

definition z_mrsh_dac_channel_setup :: handler where
  "z_mrsh_dac_channel_setup m arg0 arg1 arg2 arg3 arg4 arg5 ssf =
     (z_vrfy ''dac_channel_setup'' [A32 arg0, A32 arg1] Ret_word ssf)"

definition z_mrsh_dac_write_value :: handler where
  "z_mrsh_dac_write_value m arg0 arg1 arg2 arg3 arg4 arg5 ssf =
     (z_vrfy ''dac_write_value'' [A32 arg0, A8 (ucast arg1), A32 arg2] Ret_word ssf)"

definition z_mrsh_device_get_binding :: handler where
  "z_mrsh_device_get_binding m arg0 arg1 arg2 arg3 arg4 arg5 ssf =
     (z_vrfy ''device_get_binding'' [A32 arg0] Ret_word ssf)"

definition z_mrsh_device_usable_check :: handler where
  "z_mrsh_device_usable_check m arg0 arg1 arg2 arg3 arg4 arg5 ssf =
     (z_vrfy ''device_usable_check'' [A32 arg0] Ret_word ssf)"

definition z_mrsh_dma_chan_filter :: handler where
  "z_mrsh_dma_chan_filter m arg0 arg1 arg2 arg3 arg4 arg5 ssf =
     (z_vrfy ''dma_chan_filter'' [A32 arg0, A32 arg1, A32 arg2] Ret_word ssf)"

definition z_mrsh_dma_release_channel :: handler where
  "z_mrsh_dma_release_channel m arg0 arg1 arg2 arg3 arg4 arg5 ssf =
     (z_vrfy ''dma_release_channel'' [A32 arg0, A32 arg1] Ret_void ssf)"

definition z_mrsh_dma_request_channel :: handler where
  "z_mrsh_dma_request_channel m arg0 arg1 arg2 arg3 arg4 arg5 ssf =
     (z_vrfy ''dma_request_channel'' [A32 arg0, A32 arg1] Ret_word ssf)"

definition z_mrsh_dma_start :: handler where
  "z_mrsh_dma_start m arg0 arg1 arg2 arg3 arg4 arg5 ssf =
     (z_vrfy ''dma_start'' [A32 arg0, A32 arg1] Ret_word ssf)"

definition z_mrsh_dma_stop :: handler where
  "z_mrsh_dma_stop m arg0 arg1 arg2 arg3 arg4 arg5 ssf =
     (z_vrfy ''dma_stop'' [A32 arg0, A32 arg1] Ret_word ssf)"

definition z_mrsh_ec_host_cmd_periph_init :: handler where
  "z_mrsh_ec_host_cmd_periph_init m arg0 arg1 arg2 arg3 arg4 arg5 ssf =
     (z_vrfy ''ec_host_cmd_periph_init'' [A32 arg0, A32 arg1] Ret_word ssf)"

definition z_mrsh_ec_host_cmd_periph_send :: handler where
  "z_mrsh_ec_host_cmd_periph_send m arg0 arg1 arg2 arg3 arg4 arg5 ssf =
     (z_vrfy ''ec_host_cmd_periph_send'' [A32 arg0, A32 arg1] Ret_word ssf)"

definition z_mrsh_eeprom_get_size :: handler where
  "z_mrsh_eeprom_get_size m arg0 arg1 arg2 arg3 arg4 arg5 ssf =
     (z_vrfy ''eeprom_get_size'' [A32 arg0] Ret_word ssf)"

definition z_mrsh_eeprom_read :: handler where
  "z_mrsh_eeprom_read m arg0 arg1 arg2 arg3 arg4 arg5 ssf =
     (z_vrfy ''eeprom_read'' [A32 arg0, A32 arg1, A32 arg2, A32 arg3] Ret_word ssf)"

definition z_mrsh_eeprom_write :: handler where
  "z_mrsh_eeprom_write m arg0 arg1 arg2 arg3 arg4 arg5 ssf =
     (z_vrfy ''eeprom_write'' [A32 arg0, A32 arg1, A32 arg2, A32 arg3] Ret_word ssf)"

definition z_mrsh_entropy_get_entropy :: handler where
  "z_mrsh_entropy_get_entropy m arg0 arg1 arg2 arg3 arg4 arg5 ssf =
     (z_vrfy ''entropy_get_entropy'' [A32 arg0, A32 arg1, A16 (ucast arg2)] Ret_word ssf)"

definition z_mrsh_espi_config :: handler where
  "z_mrsh_espi_config m arg0 arg1 arg2 arg3 arg4 arg5 ssf =
     (z_vrfy ''espi_config'' [A32 arg0, A32 arg1] Ret_word ssf)"

definition z_mrsh_espi_flash_erase :: handler where
  "z_mrsh_espi_flash_erase m arg0 arg1 arg2 arg3 arg4 arg5 ssf =
     (z_vrfy ''espi_flash_erase'' [A32 arg0, A32 arg1] Ret_word ssf)"

definition z_mrsh_espi_read_flash :: handler where
  "z_mrsh_espi_read_flash m arg0 arg1 arg2 arg3 arg4 arg5 ssf =
     (z_vrfy ''espi_read_flash'' [A32 arg0, A32 arg1] Ret_word ssf)"

definition z_mrsh_espi_read_request :: handler where
  "z_mrsh_espi_read_request m arg0 arg1 arg2 arg3 arg4 arg5 ssf =
     (z_vrfy ''espi_read_request'' [A32 arg0, A32 arg1] Ret_word ssf)"

definition z_mrsh_espi_receive_oob :: handler where
  "z_mrsh_espi_receive_oob m arg0 arg1 arg2 arg3 arg4 arg5 ssf =
     (z_vrfy ''espi_receive_oob'' [A32 arg0, A32 arg1] Ret_word ssf)"

definition z_mrsh_espi_saf_activate :: handler where
  "z_mrsh_espi_saf_activate m arg0 arg1 arg2 arg3 arg4 arg5 ssf =
     (z_vrfy ''espi_saf_activate'' [A32 arg0] Ret_word ssf)"

definition z_mrsh_espi_saf_config :: handler where
  "z_mrsh_espi_saf_config m arg0 arg1 arg2 arg3 arg4 arg5 ssf =
     (z_vrfy ''espi_saf_config'' [A32 arg0, A32 arg1] Ret_word ssf)"

definition z_mrsh_espi_saf_flash_erase :: handler where
  "z_mrsh_espi_saf_flash_erase m arg0 arg1 arg2 arg3 arg4 arg5 ssf =
     (z_vrfy ''espi_saf_flash_erase'' [A32 arg0, A32 arg1] Ret_word ssf)"

definition z_mrsh_espi_saf_flash_read :: handler where
  "z_mrsh_espi_saf_flash_read m arg0 arg1 arg2 arg3 arg4 arg5 ssf =
     (z_vrfy ''espi_saf_flash_read'' [A32 arg0, A32 arg1] Ret_word ssf)"

definition z_mrsh_espi_saf_flash_write :: handler where
  "z_mrsh_espi_saf_flash_write m arg0 arg1 arg2 arg3 arg4 arg5 ssf =
     (z_vrfy ''espi_saf_flash_write'' [A32 arg0, A32 arg1] Ret_word ssf)"

definition z_mrsh_espi_saf_get_channel_status :: handler where
  "z_mrsh_espi_saf_get_channel_status m arg0 arg1 arg2 arg3 arg4 arg5 ssf =
     (z_vrfy ''espi_saf_get_channel_status'' [A32 arg0] Ret_word ssf)"

definition z_mrsh_espi_saf_set_protection_regions :: handler where
  "z_mrsh_espi_saf_set_protection_regions m arg0 arg1 arg2 arg3 arg4 arg5 ssf =
     (z_vrfy ''espi_saf_set_protection_regions'' [A32 arg0, A32 arg1] Ret_word ssf)"

definition z_mrsh_espi_send_oob :: handler where
  "z_mrsh_espi_send_oob m arg0 arg1 arg2 arg3 arg4 arg5 ssf =
     (z_vrfy ''espi_send_oob'' [A32 arg0, A32 arg1] Ret_word ssf)"

definition z_mrsh_espi_write_flash :: handler where
  "z_mrsh_espi_write_flash m arg0 arg1 arg2 arg3 arg4 arg5 ssf =
     (z_vrfy ''espi_write_flash'' [A32 arg0, A32 arg1] Ret_word ssf)"

definition z_mrsh_espi_write_request :: handler where
  "z_mrsh_espi_write_request m arg0 arg1 arg2 arg3 arg4 arg5 ssf =
     (z_vrfy ''espi_write_request'' [A32 arg0, A32 arg1] Ret_word ssf)"

definition z_mrsh_flash_erase :: handler where
  "z_mrsh_flash_erase m arg0 arg1 arg2 arg3 arg4 arg5 ssf =
     (z_vrfy ''flash_erase'' [A32 arg0, A32 arg1, A32 arg2] Ret_word ssf)"

definition z_mrsh_flash_get_page_count :: handler where
  "z_mrsh_flash_get_page_count m arg0 arg1 arg2 arg3 arg4 arg5 ssf =
     (z_vrfy ''flash_get_page_count'' [A32 arg0] Ret_word ssf)"

definition z_mrsh_flash_get_page_info_by_idx :: handler where
  "z_mrsh_flash_get_page_info_by_idx m arg0 arg1 arg2 arg3 arg4 arg5 ssf =
     (z_vrfy ''flash_get_page_info_by_idx'' [A32 arg0, A32 arg1, A32 arg2] Ret_word ssf)"

definition z_mrsh_flash_get_page_info_by_offs :: handler where
  "z_mrsh_flash_get_page_info_by_offs m arg0 arg1 arg2 arg3 arg4 arg5 ssf =
     (z_vrfy ''flash_get_page_info_by_offs'' [A32 arg0, A32 arg1, A32 arg2] Ret_word ssf)"

definition z_mrsh_flash_get_parameters :: handler where
  "z_mrsh_flash_get_parameters m arg0 arg1 arg2 arg3 arg4 arg5 ssf =
     (z_vrfy ''flash_get_parameters'' [A32 arg0] Ret_word ssf)"

definition z_mrsh_flash_get_write_block_size :: handler where
  "z_mrsh_flash_get_write_block_size m arg0 arg1 arg2 arg3 arg4 arg5 ssf =
     (z_vrfy ''flash_get_write_block_size'' [A32 arg0] Ret_word ssf)"

definition z_mrsh_flash_read :: handler where
  "z_mrsh_flash_read m arg0 arg1 arg2 arg3 arg4 arg5 ssf =
     (z_vrfy ''flash_read'' [A32 arg0, A32 arg1, A32 arg2, A32 arg3] Ret_word ssf)"

definition z_mrsh_flash_read_jedec_id :: handler where
  "z_mrsh_flash_read_jedec_id m arg0 arg1 arg2 arg3 arg4 arg5 ssf =
     (z_vrfy ''flash_read_jedec_id'' [A32 arg0, A32 arg1] Ret_word ssf)"

definition z_mrsh_flash_sfdp_read :: handler where
  "z_mrsh_flash_sfdp_read m arg0 arg1 arg2 arg3 arg4 arg5 ssf =
     (z_vrfy ''flash_sfdp_read'' [A32 arg0, A32 arg1, A32 arg2, A32 arg3] Ret_word ssf)"

definition z_mrsh_flash_simulator_get_memory :: handler where
  "z_mrsh_flash_simulator_get_memory m arg0 arg1 arg2 arg3 arg4 arg5 ssf =
     (z_vrfy ''flash_simulator_get_memory'' [A32 arg0, A32 arg1] Ret_word ssf)"

definition z_mrsh_flash_write :: handler where
  "z_mrsh_flash_write m arg0 arg1 arg2 arg3 arg4 arg5 ssf =
     (z_vrfy ''flash_write'' [A32 arg0, A32 arg1, A32 arg2, A32 arg3] Ret_word ssf)"

definition z_mrsh_flash_write_protection_set :: handler where
  "z_mrsh_flash_write_protection_set m arg0 arg1 arg2 arg3 arg4 arg5 ssf =
     (z_vrfy ''flash_write_protection_set'' [A32 arg0, A8 (ucast arg1)] Ret_word ssf)"

definition z_mrsh_gpio_get_pending_int :: handler where
  "z_mrsh_gpio_get_pending_int m arg0 arg1 arg2 arg3 arg4 arg5 ssf =
     (z_vrfy ''gpio_get_pending_int'' [A32 arg0] Ret_word ssf)"

definition z_mrsh_gpio_port_clear_bits_raw :: handler where
  "z_mrsh_gpio_port_clear_bits_raw m arg0 arg1 arg2 arg3 arg4 arg5 ssf =
     (z_vrfy ''gpio_port_clear_bits_raw'' [A32 arg0, A32 arg1] Ret_word ssf)"

definition z_mrsh_gpio_port_get_raw :: handler where
  "z_mrsh_gpio_port_get_raw m arg0 arg1 arg2 arg3 arg4 arg5 ssf =
     (z_vrfy ''gpio_port_get_raw'' [A32 arg0, A32 arg1] Ret_word ssf)"

definition z_mrsh_gpio_port_set_bits_raw :: handler where
  "z_mrsh_gpio_port_set_bits_raw m arg0 arg1 arg2 arg3 arg4 arg5 ssf =
     (z_vrfy ''gpio_port_set_bits_raw'' [A32 arg0, A32 arg1] Ret_word ssf)"

definition z_mrsh_gpio_port_set_masked_raw :: handler where
  "z_mrsh_gpio_port_set_masked_raw m arg0 arg1 arg2 arg3 arg4 arg5 ssf =
     (z_vrfy ''gpio_port_set_masked_raw'' [A32 arg0, A32 arg1, A32 arg2] Ret_word ssf)"

definition z_mrsh_gpio_port_toggle_bits :: handler where
  "z_mrsh_gpio_port_toggle_bits m arg0 arg1 arg2 arg3 arg4 arg5 ssf =
     (z_vrfy ''gpio_port_toggle_bits'' [A32 arg0, A32 arg1] Ret_word ssf)"

definition z_mrsh_hwinfo_clear_reset_cause :: handler where
  "z_mrsh_hwinfo_clear_reset_cause m arg0 arg1 arg2 arg3 arg4 arg5 ssf =
     (z_vrfy ''hwinfo_clear_reset_cause'' [] Ret_word ssf)"

definition z_mrsh_hwinfo_get_device_id :: handler where
  "z_mrsh_hwinfo_get_device_id m arg0 arg1 arg2 arg3 arg4 arg5 ssf =
     (z_vrfy ''hwinfo_get_device_id'' [A32 arg0, A32 arg1] Ret_word ssf)"

definition z_mrsh_hwinfo_get_reset_cause :: handler where
  "z_mrsh_hwinfo_get_reset_cause m arg0 arg1 arg2 arg3 arg4 arg5 ssf =
     (z_vrfy ''hwinfo_get_reset_cause'' [A32 arg0] Ret_word ssf)"

definition z_mrsh_hwinfo_get_supported_reset_cause :: handler where
  "z_mrsh_hwinfo_get_supported_reset_cause m arg0 arg1 arg2 arg3 arg4 arg5 ssf =
     (z_vrfy ''hwinfo_get_supported_reset_cause'' [A32 arg0] Ret_word ssf)"

definition z_mrsh_i2c_configure :: handler where
  "z_mrsh_i2c_configure m arg0 arg1 arg2 arg3 arg4 arg5 ssf =
     (z_vrfy ''i2c_configure'' [A32 arg0, A32 arg1] Ret_word ssf)"

definition z_mrsh_i2c_get_config :: handler where
  "z_mrsh_i2c_get_config m arg0 arg1 arg2 arg3 arg4 arg5 ssf =
     (z_vrfy ''i2c_get_config'' [A32 arg0, A32 arg1] Ret_word ssf)"

definition z_mrsh_i2c_recover_bus :: handler where
  "z_mrsh_i2c_recover_bus m arg0 arg1 arg2 arg3 arg4 arg5 ssf =
     (z_vrfy ''i2c_recover_bus'' [A32 arg0] Ret_word ssf)"

definition z_mrsh_i2c_slave_driver_register :: handler where
  "z_mrsh_i2c_slave_driver_register m arg0 arg1 arg2 arg3 arg4 arg5 ssf =
     (z_vrfy ''i2c_slave_driver_register'' [A32 arg0] Ret_word ssf)"

definition z_mrsh_i2c_slave_driver_unregister :: handler where
  "z_mrsh_i2c_slave_driver_unregister m arg0 arg1 arg2 arg3 arg4 arg5 ssf =
     (z_vrfy ''i2c_slave_driver_unregister'' [A32 arg0] Ret_word ssf)"

definition z_mrsh_i2c_transfer :: handler where
  "z_mrsh_i2c_transfer m arg0 arg1 arg2 arg3 arg4 arg5 ssf =
     (z_vrfy ''i2c_transfer'' [A32 arg0, A32 arg1, A8 (ucast arg2), A16 (ucast arg3)] Ret_word
         ssf)"

definition z_mrsh_i2s_buf_read :: handler where
  "z_mrsh_i2s_buf_read m arg0 arg1 arg2 arg3 arg4 arg5 ssf =
     (z_vrfy ''i2s_buf_read'' [A32 arg0, A32 arg1, A32 arg2] Ret_word ssf)"

definition z_mrsh_i2s_buf_write :: handler where
  "z_mrsh_i2s_buf_write m arg0 arg1 arg2 arg3 arg4 arg5 ssf =
     (z_vrfy ''i2s_buf_write'' [A32 arg0, A32 arg1, A32 arg2] Ret_word ssf)"

definition z_mrsh_ipm_max_data_size_get :: handler where
  "z_mrsh_ipm_max_data_size_get m arg0 arg1 arg2 arg3 arg4 arg5 ssf =
     (z_vrfy ''ipm_max_data_size_get'' [A32 arg0] Ret_word ssf)"

definition z_mrsh_ipm_max_id_val_get :: handler where
  "z_mrsh_ipm_max_id_val_get m arg0 arg1 arg2 arg3 arg4 arg5 ssf =
     (z_vrfy ''ipm_max_id_val_get'' [A32 arg0] Ret_word ssf)"

definition z_mrsh_ipm_send :: handler where
  "z_mrsh_ipm_send m arg0 arg1 arg2 arg3 arg4 arg5 ssf =
     (z_vrfy ''ipm_send'' [A32 arg0, A32 arg1, A32 arg2, A32 arg3, A32 arg4] Ret_word ssf)"

definition z_mrsh_ipm_set_enabled :: handler where
  "z_mrsh_ipm_set_enabled m arg0 arg1 arg2 arg3 arg4 arg5 ssf =
     (z_vrfy ''ipm_set_enabled'' [A32 arg0, A32 arg1] Ret_word ssf)"

definition z_mrsh_ivshmem_get_id :: handler where
  "z_mrsh_ivshmem_get_id m arg0 arg1 arg2 arg3 arg4 arg5 ssf =
     (z_vrfy ''ivshmem_get_id'' [A32 arg0] Ret_word ssf)"

definition z_mrsh_ivshmem_get_mem :: handler where
  "z_mrsh_ivshmem_get_mem m arg0 arg1 arg2 arg3 arg4 arg5 ssf =
     (z_vrfy ''ivshmem_get_mem'' [A32 arg0, A32 arg1] Ret_word ssf)"

definition z_mrsh_ivshmem_get_vectors :: handler where
  "z_mrsh_ivshmem_get_vectors m arg0 arg1 arg2 arg3 arg4 arg5 ssf =
     (z_vrfy ''ivshmem_get_vectors'' [A32 arg0] Ret_word ssf)"

definition z_mrsh_ivshmem_int_peer :: handler where
  "z_mrsh_ivshmem_int_peer m arg0 arg1 arg2 arg3 arg4 arg5 ssf =
     (z_vrfy ''ivshmem_int_peer'' [A32 arg0, A32 arg1, A16 (ucast arg2)] Ret_word ssf)"

definition z_mrsh_ivshmem_register_handler :: handler where
  "z_mrsh_ivshmem_register_handler m arg0 arg1 arg2 arg3 arg4 arg5 ssf =
     (z_vrfy ''ivshmem_register_handler'' [A32 arg0, A32 arg1, A16 (ucast arg2)] Ret_word ssf)"

text \<open>The symbols these files define, with the functions they name.\<close>

definition mrsh_files_A :: "(string \<times> handler) list" where
  "mrsh_files_A = [
    (''z_mrsh_adc_channel_setup'', z_mrsh_adc_channel_setup),
    (''z_mrsh_adc_read'', z_mrsh_adc_read), (''z_mrsh_adc_read_async'', z_mrsh_adc_read_async),
    (''z_mrsh_atomic_add'', z_mrsh_atomic_add), (''z_mrsh_atomic_and'', z_mrsh_atomic_and),
    (''z_mrsh_atomic_cas'', z_mrsh_atomic_cas), (''z_mrsh_atomic_nand'', z_mrsh_atomic_nand),
    (''z_mrsh_atomic_or'', z_mrsh_atomic_or),
    (''z_mrsh_atomic_ptr_cas'', z_mrsh_atomic_ptr_cas),
    (''z_mrsh_atomic_ptr_set'', z_mrsh_atomic_ptr_set),
    (''z_mrsh_atomic_set'', z_mrsh_atomic_set), (''z_mrsh_atomic_sub'', z_mrsh_atomic_sub),
    (''z_mrsh_atomic_xor'', z_mrsh_atomic_xor),
    (''z_mrsh_bbram_check_invalid'', z_mrsh_bbram_check_invalid),
    (''z_mrsh_bbram_check_power'', z_mrsh_bbram_check_power),
    (''z_mrsh_bbram_check_standby_power'', z_mrsh_bbram_check_standby_power),
    (''z_mrsh_bbram_get_size'', z_mrsh_bbram_get_size),
    (''z_mrsh_bbram_read'', z_mrsh_bbram_read), (''z_mrsh_bbram_write'', z_mrsh_bbram_write),
    (''z_mrsh_can_attach_msgq'', z_mrsh_can_attach_msgq),
    (''z_mrsh_can_detach'', z_mrsh_can_detach),
    (''z_mrsh_can_get_core_clock'', z_mrsh_can_get_core_clock),
    (''z_mrsh_can_get_state'', z_mrsh_can_get_state),
    (''z_mrsh_can_recover'', z_mrsh_can_recover), (''z_mrsh_can_send'', z_mrsh_can_send),
    (''z_mrsh_can_set_timing'', z_mrsh_can_set_timing),
    (''z_mrsh_clock_gettime'', z_mrsh_clock_gettime),
    (''z_mrsh_counter_cancel_channel_alarm'', z_mrsh_counter_cancel_channel_alarm),
    (''z_mrsh_counter_get_frequency'', z_mrsh_counter_get_frequency),
    (''z_mrsh_counter_get_guard_period'', z_mrsh_counter_get_guard_period),
    (''z_mrsh_counter_get_max_top_value'', z_mrsh_counter_get_max_top_value),
    (''z_mrsh_counter_get_num_of_channels'', z_mrsh_counter_get_num_of_channels),
    (''z_mrsh_counter_get_pending_int'', z_mrsh_counter_get_pending_int),
    (''z_mrsh_counter_get_top_value'', z_mrsh_counter_get_top_value),
    (''z_mrsh_counter_get_value'', z_mrsh_counter_get_value),
    (''z_mrsh_counter_is_counting_up'', z_mrsh_counter_is_counting_up),
    (''z_mrsh_counter_set_channel_alarm'', z_mrsh_counter_set_channel_alarm),
    (''z_mrsh_counter_set_guard_period'', z_mrsh_counter_set_guard_period),
    (''z_mrsh_counter_set_top_value'', z_mrsh_counter_set_top_value),
    (''z_mrsh_counter_start'', z_mrsh_counter_start),
    (''z_mrsh_counter_stop'', z_mrsh_counter_stop),
    (''z_mrsh_counter_ticks_to_us'', z_mrsh_counter_ticks_to_us),
    (''z_mrsh_counter_us_to_ticks'', z_mrsh_counter_us_to_ticks),
    (''z_mrsh_dac_channel_setup'', z_mrsh_dac_channel_setup),
    (''z_mrsh_dac_write_value'', z_mrsh_dac_write_value),
    (''z_mrsh_device_get_binding'', z_mrsh_device_get_binding),
    (''z_mrsh_device_usable_check'', z_mrsh_device_usable_check),
    (''z_mrsh_dma_chan_filter'', z_mrsh_dma_chan_filter),
    (''z_mrsh_dma_release_channel'', z_mrsh_dma_release_channel),
    (''z_mrsh_dma_request_channel'', z_mrsh_dma_request_channel),
    (''z_mrsh_dma_start'', z_mrsh_dma_start), (''z_mrsh_dma_stop'', z_mrsh_dma_stop),
    (''z_mrsh_ec_host_cmd_periph_init'', z_mrsh_ec_host_cmd_periph_init),
    (''z_mrsh_ec_host_cmd_periph_send'', z_mrsh_ec_host_cmd_periph_send),
    (''z_mrsh_eeprom_get_size'', z_mrsh_eeprom_get_size),
    (''z_mrsh_eeprom_read'', z_mrsh_eeprom_read),
    (''z_mrsh_eeprom_write'', z_mrsh_eeprom_write),
    (''z_mrsh_entropy_get_entropy'', z_mrsh_entropy_get_entropy),
    (''z_mrsh_espi_config'', z_mrsh_espi_config),
    (''z_mrsh_espi_flash_erase'', z_mrsh_espi_flash_erase),
    (''z_mrsh_espi_read_flash'', z_mrsh_espi_read_flash),
    (''z_mrsh_espi_read_request'', z_mrsh_espi_read_request),
    (''z_mrsh_espi_receive_oob'', z_mrsh_espi_receive_oob),
    (''z_mrsh_espi_saf_activate'', z_mrsh_espi_saf_activate),
    (''z_mrsh_espi_saf_config'', z_mrsh_espi_saf_config),
    (''z_mrsh_espi_saf_flash_erase'', z_mrsh_espi_saf_flash_erase),
    (''z_mrsh_espi_saf_flash_read'', z_mrsh_espi_saf_flash_read),
    (''z_mrsh_espi_saf_flash_write'', z_mrsh_espi_saf_flash_write),
    (''z_mrsh_espi_saf_get_channel_status'', z_mrsh_espi_saf_get_channel_status),
    (''z_mrsh_espi_saf_set_protection_regions'', z_mrsh_espi_saf_set_protection_regions),
    (''z_mrsh_espi_send_oob'', z_mrsh_espi_send_oob),
    (''z_mrsh_espi_write_flash'', z_mrsh_espi_write_flash),
    (''z_mrsh_espi_write_request'', z_mrsh_espi_write_request),
    (''z_mrsh_flash_erase'', z_mrsh_flash_erase),
    (''z_mrsh_flash_get_page_count'', z_mrsh_flash_get_page_count),
    (''z_mrsh_flash_get_page_info_by_idx'', z_mrsh_flash_get_page_info_by_idx),
    (''z_mrsh_flash_get_page_info_by_offs'', z_mrsh_flash_get_page_info_by_offs),
    (''z_mrsh_flash_get_parameters'', z_mrsh_flash_get_parameters),
    (''z_mrsh_flash_get_write_block_size'', z_mrsh_flash_get_write_block_size),
    (''z_mrsh_flash_read'', z_mrsh_flash_read),
    (''z_mrsh_flash_read_jedec_id'', z_mrsh_flash_read_jedec_id),
    (''z_mrsh_flash_sfdp_read'', z_mrsh_flash_sfdp_read),
    (''z_mrsh_flash_simulator_get_memory'', z_mrsh_flash_simulator_get_memory),
    (''z_mrsh_flash_write'', z_mrsh_flash_write),
    (''z_mrsh_flash_write_protection_set'', z_mrsh_flash_write_protection_set),
    (''z_mrsh_gpio_get_pending_int'', z_mrsh_gpio_get_pending_int),
    (''z_mrsh_gpio_port_clear_bits_raw'', z_mrsh_gpio_port_clear_bits_raw),
    (''z_mrsh_gpio_port_get_raw'', z_mrsh_gpio_port_get_raw),
    (''z_mrsh_gpio_port_set_bits_raw'', z_mrsh_gpio_port_set_bits_raw),
    (''z_mrsh_gpio_port_set_masked_raw'', z_mrsh_gpio_port_set_masked_raw),
    (''z_mrsh_gpio_port_toggle_bits'', z_mrsh_gpio_port_toggle_bits),
    (''z_mrsh_hwinfo_clear_reset_cause'', z_mrsh_hwinfo_clear_reset_cause),
    (''z_mrsh_hwinfo_get_device_id'', z_mrsh_hwinfo_get_device_id),
    (''z_mrsh_hwinfo_get_reset_cause'', z_mrsh_hwinfo_get_reset_cause),
    (''z_mrsh_hwinfo_get_supported_reset_cause'', z_mrsh_hwinfo_get_supported_reset_cause),
    (''z_mrsh_i2c_configure'', z_mrsh_i2c_configure),
    (''z_mrsh_i2c_get_config'', z_mrsh_i2c_get_config),
    (''z_mrsh_i2c_recover_bus'', z_mrsh_i2c_recover_bus),
    (''z_mrsh_i2c_slave_driver_register'', z_mrsh_i2c_slave_driver_register),
    (''z_mrsh_i2c_slave_driver_unregister'', z_mrsh_i2c_slave_driver_unregister),
    (''z_mrsh_i2c_transfer'', z_mrsh_i2c_transfer),
    (''z_mrsh_i2s_buf_read'', z_mrsh_i2s_buf_read),
    (''z_mrsh_i2s_buf_write'', z_mrsh_i2s_buf_write),
    (''z_mrsh_ipm_max_data_size_get'', z_mrsh_ipm_max_data_size_get),
    (''z_mrsh_ipm_max_id_val_get'', z_mrsh_ipm_max_id_val_get),
    (''z_mrsh_ipm_send'', z_mrsh_ipm_send),
    (''z_mrsh_ipm_set_enabled'', z_mrsh_ipm_set_enabled),
    (''z_mrsh_ivshmem_get_id'', z_mrsh_ivshmem_get_id),
    (''z_mrsh_ivshmem_get_mem'', z_mrsh_ivshmem_get_mem),
    (''z_mrsh_ivshmem_get_vectors'', z_mrsh_ivshmem_get_vectors),
    (''z_mrsh_ivshmem_int_peer'', z_mrsh_ivshmem_int_peer),
    (''z_mrsh_ivshmem_register_handler'', z_mrsh_ivshmem_register_handler)]"

lemmas mrsh_defs_A =
  z_mrsh_adc_channel_setup_def z_mrsh_adc_read_def z_mrsh_adc_read_async_def
  z_mrsh_atomic_add_def z_mrsh_atomic_and_def z_mrsh_atomic_cas_def z_mrsh_atomic_nand_def
  z_mrsh_atomic_or_def z_mrsh_atomic_ptr_cas_def z_mrsh_atomic_ptr_set_def z_mrsh_atomic_set_def
  z_mrsh_atomic_sub_def z_mrsh_atomic_xor_def z_mrsh_bbram_check_invalid_def
  z_mrsh_bbram_check_power_def z_mrsh_bbram_check_standby_power_def z_mrsh_bbram_get_size_def
  z_mrsh_bbram_read_def z_mrsh_bbram_write_def z_mrsh_can_attach_msgq_def z_mrsh_can_detach_def
  z_mrsh_can_get_core_clock_def z_mrsh_can_get_state_def z_mrsh_can_recover_def
  z_mrsh_can_send_def z_mrsh_can_set_timing_def z_mrsh_clock_gettime_def
  z_mrsh_counter_cancel_channel_alarm_def z_mrsh_counter_get_frequency_def
  z_mrsh_counter_get_guard_period_def z_mrsh_counter_get_max_top_value_def
  z_mrsh_counter_get_num_of_channels_def z_mrsh_counter_get_pending_int_def
  z_mrsh_counter_get_top_value_def z_mrsh_counter_get_value_def
  z_mrsh_counter_is_counting_up_def z_mrsh_counter_set_channel_alarm_def
  z_mrsh_counter_set_guard_period_def z_mrsh_counter_set_top_value_def z_mrsh_counter_start_def
  z_mrsh_counter_stop_def z_mrsh_counter_ticks_to_us_def z_mrsh_counter_us_to_ticks_def
  z_mrsh_dac_channel_setup_def z_mrsh_dac_write_value_def z_mrsh_device_get_binding_def
  z_mrsh_device_usable_check_def z_mrsh_dma_chan_filter_def z_mrsh_dma_release_channel_def
  z_mrsh_dma_request_channel_def z_mrsh_dma_start_def z_mrsh_dma_stop_def
  z_mrsh_ec_host_cmd_periph_init_def z_mrsh_ec_host_cmd_periph_send_def
  z_mrsh_eeprom_get_size_def z_mrsh_eeprom_read_def z_mrsh_eeprom_write_def
  z_mrsh_entropy_get_entropy_def z_mrsh_espi_config_def z_mrsh_espi_flash_erase_def
  z_mrsh_espi_read_flash_def z_mrsh_espi_read_request_def z_mrsh_espi_receive_oob_def
  z_mrsh_espi_saf_activate_def z_mrsh_espi_saf_config_def z_mrsh_espi_saf_flash_erase_def
  z_mrsh_espi_saf_flash_read_def z_mrsh_espi_saf_flash_write_def
  z_mrsh_espi_saf_get_channel_status_def z_mrsh_espi_saf_set_protection_regions_def
  z_mrsh_espi_send_oob_def z_mrsh_espi_write_flash_def z_mrsh_espi_write_request_def
  z_mrsh_flash_erase_def z_mrsh_flash_get_page_count_def z_mrsh_flash_get_page_info_by_idx_def
  z_mrsh_flash_get_page_info_by_offs_def z_mrsh_flash_get_parameters_def
  z_mrsh_flash_get_write_block_size_def z_mrsh_flash_read_def z_mrsh_flash_read_jedec_id_def
  z_mrsh_flash_sfdp_read_def z_mrsh_flash_simulator_get_memory_def z_mrsh_flash_write_def
  z_mrsh_flash_write_protection_set_def z_mrsh_gpio_get_pending_int_def
  z_mrsh_gpio_port_clear_bits_raw_def z_mrsh_gpio_port_get_raw_def
  z_mrsh_gpio_port_set_bits_raw_def z_mrsh_gpio_port_set_masked_raw_def
  z_mrsh_gpio_port_toggle_bits_def z_mrsh_hwinfo_clear_reset_cause_def
  z_mrsh_hwinfo_get_device_id_def z_mrsh_hwinfo_get_reset_cause_def
  z_mrsh_hwinfo_get_supported_reset_cause_def z_mrsh_i2c_configure_def z_mrsh_i2c_get_config_def
  z_mrsh_i2c_recover_bus_def z_mrsh_i2c_slave_driver_register_def
  z_mrsh_i2c_slave_driver_unregister_def z_mrsh_i2c_transfer_def z_mrsh_i2s_buf_read_def
  z_mrsh_i2s_buf_write_def z_mrsh_ipm_max_data_size_get_def z_mrsh_ipm_max_id_val_get_def
  z_mrsh_ipm_send_def z_mrsh_ipm_set_enabled_def z_mrsh_ivshmem_get_id_def
  z_mrsh_ivshmem_get_mem_def z_mrsh_ivshmem_get_vectors_def z_mrsh_ivshmem_int_peer_def
  z_mrsh_ivshmem_register_handler_def

end
