(* ===== verification/SysMrshK.thy ===== *)
theory SysMrshK
  imports SysIds
begin

text \<open>
  The unmarshallers of the generated files \<open>syscalls/*_mrsh.c\<close> of the kernel,
  in the order of the directory: each reads the arguments back from the registers
  and from \<open>more\<close>, after the check of the memory it reads, calls the verifier and returns or
  stores its result.
\<close>

definition z_mrsh_k_busy_wait :: handler where
  "z_mrsh_k_busy_wait m arg0 arg1 arg2 arg3 arg4 arg5 ssf =
     (z_vrfy ''k_busy_wait'' [A32 arg0] Ret_void ssf)"

definition z_mrsh_k_condvar_broadcast :: handler where
  "z_mrsh_k_condvar_broadcast m arg0 arg1 arg2 arg3 arg4 arg5 ssf =
     (z_vrfy ''k_condvar_broadcast'' [A32 arg0] Ret_word ssf)"

definition z_mrsh_k_condvar_init :: handler where
  "z_mrsh_k_condvar_init m arg0 arg1 arg2 arg3 arg4 arg5 ssf =
     (z_vrfy ''k_condvar_init'' [A32 arg0] Ret_word ssf)"

definition z_mrsh_k_condvar_signal :: handler where
  "z_mrsh_k_condvar_signal m arg0 arg1 arg2 arg3 arg4 arg5 ssf =
     (z_vrfy ''k_condvar_signal'' [A32 arg0] Ret_word ssf)"

definition z_mrsh_k_condvar_wait :: handler where
  "z_mrsh_k_condvar_wait m arg0 arg1 arg2 arg3 arg4 arg5 ssf =
     (let parm0 = join64 arg2 arg3 in z_vrfy ''k_condvar_wait'' [A32 arg0, A32 arg1, A64 parm0]
         Ret_word ssf)"

definition z_mrsh_k_event_init :: handler where
  "z_mrsh_k_event_init m arg0 arg1 arg2 arg3 arg4 arg5 ssf =
     (z_vrfy ''k_event_init'' [A32 arg0] Ret_void ssf)"

definition z_mrsh_k_event_post :: handler where
  "z_mrsh_k_event_post m arg0 arg1 arg2 arg3 arg4 arg5 ssf =
     (z_vrfy ''k_event_post'' [A32 arg0, A32 arg1] Ret_void ssf)"

definition z_mrsh_k_event_set :: handler where
  "z_mrsh_k_event_set m arg0 arg1 arg2 arg3 arg4 arg5 ssf =
     (z_vrfy ''k_event_set'' [A32 arg0, A32 arg1] Ret_void ssf)"

definition z_mrsh_k_event_wait :: handler where
  "z_mrsh_k_event_wait m arg0 arg1 arg2 arg3 arg4 arg5 ssf =
     (let parm0 = join64 arg3 arg4 in z_vrfy ''k_event_wait'' [A32 arg0, A32 arg1, A8 (ucast
         arg2), A64 parm0] Ret_word ssf)"

definition z_mrsh_k_event_wait_all :: handler where
  "z_mrsh_k_event_wait_all m arg0 arg1 arg2 arg3 arg4 arg5 ssf =
     (let parm0 = join64 arg3 arg4 in z_vrfy ''k_event_wait_all'' [A32 arg0, A32 arg1, A8 (ucast
         arg2), A64 parm0] Ret_word ssf)"

definition z_mrsh_k_float_disable :: handler where
  "z_mrsh_k_float_disable m arg0 arg1 arg2 arg3 arg4 arg5 ssf =
     (z_vrfy ''k_float_disable'' [A32 arg0] Ret_word ssf)"

definition z_mrsh_k_float_enable :: handler where
  "z_mrsh_k_float_enable m arg0 arg1 arg2 arg3 arg4 arg5 ssf =
     (z_vrfy ''k_float_enable'' [A32 arg0, A32 arg1] Ret_word ssf)"

definition z_mrsh_k_futex_wait :: handler where
  "z_mrsh_k_futex_wait m arg0 arg1 arg2 arg3 arg4 arg5 ssf =
     (let parm0 = join64 arg2 arg3 in z_vrfy ''k_futex_wait'' [A32 arg0, A32 arg1, A64 parm0]
         Ret_word ssf)"

definition z_mrsh_k_futex_wake :: handler where
  "z_mrsh_k_futex_wake m arg0 arg1 arg2 arg3 arg4 arg5 ssf =
     (z_vrfy ''k_futex_wake'' [A32 arg0, A8 (ucast arg1)] Ret_word ssf)"

definition z_mrsh_k_is_preempt_thread :: handler where
  "z_mrsh_k_is_preempt_thread m arg0 arg1 arg2 arg3 arg4 arg5 ssf =
     (z_vrfy ''k_is_preempt_thread'' [] Ret_word ssf)"

definition z_mrsh_k_mem_paging_histogram_backing_store_page_in_get :: handler where
  "z_mrsh_k_mem_paging_histogram_backing_store_page_in_get m arg0 arg1 arg2 arg3 arg4 arg5 ssf =
     (z_vrfy ''k_mem_paging_histogram_backing_store_page_in_get'' [A32 arg0] Ret_void ssf)"

definition z_mrsh_k_mem_paging_histogram_backing_store_page_out_get :: handler where
  "z_mrsh_k_mem_paging_histogram_backing_store_page_out_get m arg0 arg1 arg2 arg3 arg4 arg5 ssf =
     (z_vrfy ''k_mem_paging_histogram_backing_store_page_out_get'' [A32 arg0] Ret_void ssf)"

definition z_mrsh_k_mem_paging_histogram_eviction_get :: handler where
  "z_mrsh_k_mem_paging_histogram_eviction_get m arg0 arg1 arg2 arg3 arg4 arg5 ssf =
     (z_vrfy ''k_mem_paging_histogram_eviction_get'' [A32 arg0] Ret_void ssf)"

definition z_mrsh_k_mem_paging_stats_get :: handler where
  "z_mrsh_k_mem_paging_stats_get m arg0 arg1 arg2 arg3 arg4 arg5 ssf =
     (z_vrfy ''k_mem_paging_stats_get'' [A32 arg0] Ret_void ssf)"

definition z_mrsh_k_mem_paging_thread_stats_get :: handler where
  "z_mrsh_k_mem_paging_thread_stats_get m arg0 arg1 arg2 arg3 arg4 arg5 ssf =
     (z_vrfy ''k_mem_paging_thread_stats_get'' [A32 arg0, A32 arg1] Ret_void ssf)"

definition z_mrsh_k_msgq_alloc_init :: handler where
  "z_mrsh_k_msgq_alloc_init m arg0 arg1 arg2 arg3 arg4 arg5 ssf =
     (z_vrfy ''k_msgq_alloc_init'' [A32 arg0, A32 arg1, A32 arg2] Ret_word ssf)"

definition z_mrsh_k_msgq_get :: handler where
  "z_mrsh_k_msgq_get m arg0 arg1 arg2 arg3 arg4 arg5 ssf =
     (let parm0 = join64 arg2 arg3 in z_vrfy ''k_msgq_get'' [A32 arg0, A32 arg1, A64 parm0]
         Ret_word ssf)"

definition z_mrsh_k_msgq_get_attrs :: handler where
  "z_mrsh_k_msgq_get_attrs m arg0 arg1 arg2 arg3 arg4 arg5 ssf =
     (z_vrfy ''k_msgq_get_attrs'' [A32 arg0, A32 arg1] Ret_void ssf)"

definition z_mrsh_k_msgq_num_free_get :: handler where
  "z_mrsh_k_msgq_num_free_get m arg0 arg1 arg2 arg3 arg4 arg5 ssf =
     (z_vrfy ''k_msgq_num_free_get'' [A32 arg0] Ret_word ssf)"

definition z_mrsh_k_msgq_num_used_get :: handler where
  "z_mrsh_k_msgq_num_used_get m arg0 arg1 arg2 arg3 arg4 arg5 ssf =
     (z_vrfy ''k_msgq_num_used_get'' [A32 arg0] Ret_word ssf)"

definition z_mrsh_k_msgq_peek :: handler where
  "z_mrsh_k_msgq_peek m arg0 arg1 arg2 arg3 arg4 arg5 ssf =
     (z_vrfy ''k_msgq_peek'' [A32 arg0, A32 arg1] Ret_word ssf)"

definition z_mrsh_k_msgq_purge :: handler where
  "z_mrsh_k_msgq_purge m arg0 arg1 arg2 arg3 arg4 arg5 ssf =
     (z_vrfy ''k_msgq_purge'' [A32 arg0] Ret_void ssf)"

definition z_mrsh_k_msgq_put :: handler where
  "z_mrsh_k_msgq_put m arg0 arg1 arg2 arg3 arg4 arg5 ssf =
     (let parm0 = join64 arg2 arg3 in z_vrfy ''k_msgq_put'' [A32 arg0, A32 arg1, A64 parm0]
         Ret_word ssf)"

definition z_mrsh_k_mutex_init :: handler where
  "z_mrsh_k_mutex_init m arg0 arg1 arg2 arg3 arg4 arg5 ssf =
     (z_vrfy ''k_mutex_init'' [A32 arg0] Ret_word ssf)"

definition z_mrsh_k_mutex_lock :: handler where
  "z_mrsh_k_mutex_lock m arg0 arg1 arg2 arg3 arg4 arg5 ssf =
     (let parm0 = join64 arg1 arg2 in z_vrfy ''k_mutex_lock'' [A32 arg0, A64 parm0] Ret_word ssf)"

definition z_mrsh_k_mutex_unlock :: handler where
  "z_mrsh_k_mutex_unlock m arg0 arg1 arg2 arg3 arg4 arg5 ssf =
     (z_vrfy ''k_mutex_unlock'' [A32 arg0] Ret_word ssf)"

definition z_mrsh_k_object_access_grant :: handler where
  "z_mrsh_k_object_access_grant m arg0 arg1 arg2 arg3 arg4 arg5 ssf =
     (z_vrfy ''k_object_access_grant'' [A32 arg0, A32 arg1] Ret_void ssf)"

definition z_mrsh_k_object_release :: handler where
  "z_mrsh_k_object_release m arg0 arg1 arg2 arg3 arg4 arg5 ssf =
     (z_vrfy ''k_object_release'' [A32 arg0] Ret_void ssf)"

definition z_mrsh_k_pipe_alloc_init :: handler where
  "z_mrsh_k_pipe_alloc_init m arg0 arg1 arg2 arg3 arg4 arg5 ssf =
     (z_vrfy ''k_pipe_alloc_init'' [A32 arg0, A32 arg1] Ret_word ssf)"

definition z_mrsh_k_pipe_get :: handler where
  "z_mrsh_k_pipe_get m arg0 arg1 arg2 arg3 arg4 arg5 ssf =
     (Z_SYSCALL_MEMORY_READ m arg5 (1 * 4)
       (let parm0 = join64 (word_at m arg5 0) (word_at m arg5 1) in z_vrfy ''k_pipe_get'' [A32
           arg0, A32 arg1, A32 arg2, A32 arg3, A32 arg4, A64 parm0] Ret_word ssf))"

definition z_mrsh_k_pipe_put :: handler where
  "z_mrsh_k_pipe_put m arg0 arg1 arg2 arg3 arg4 arg5 ssf =
     (Z_SYSCALL_MEMORY_READ m arg5 (1 * 4)
       (let parm0 = join64 (word_at m arg5 0) (word_at m arg5 1) in z_vrfy ''k_pipe_put'' [A32
           arg0, A32 arg1, A32 arg2, A32 arg3, A32 arg4, A64 parm0] Ret_word ssf))"

definition z_mrsh_k_pipe_read_avail :: handler where
  "z_mrsh_k_pipe_read_avail m arg0 arg1 arg2 arg3 arg4 arg5 ssf =
     (z_vrfy ''k_pipe_read_avail'' [A32 arg0] Ret_word ssf)"

definition z_mrsh_k_pipe_write_avail :: handler where
  "z_mrsh_k_pipe_write_avail m arg0 arg1 arg2 arg3 arg4 arg5 ssf =
     (z_vrfy ''k_pipe_write_avail'' [A32 arg0] Ret_word ssf)"

definition z_mrsh_k_poll :: handler where
  "z_mrsh_k_poll m arg0 arg1 arg2 arg3 arg4 arg5 ssf =
     (let parm0 = join64 arg2 arg3 in z_vrfy ''k_poll'' [A32 arg0, A32 arg1, A64 parm0] Ret_word
         ssf)"

definition z_mrsh_k_poll_signal_check :: handler where
  "z_mrsh_k_poll_signal_check m arg0 arg1 arg2 arg3 arg4 arg5 ssf =
     (z_vrfy ''k_poll_signal_check'' [A32 arg0, A32 arg1, A32 arg2] Ret_void ssf)"

definition z_mrsh_k_poll_signal_init :: handler where
  "z_mrsh_k_poll_signal_init m arg0 arg1 arg2 arg3 arg4 arg5 ssf =
     (z_vrfy ''k_poll_signal_init'' [A32 arg0] Ret_void ssf)"

definition z_mrsh_k_poll_signal_raise :: handler where
  "z_mrsh_k_poll_signal_raise m arg0 arg1 arg2 arg3 arg4 arg5 ssf =
     (z_vrfy ''k_poll_signal_raise'' [A32 arg0, A32 arg1] Ret_word ssf)"

definition z_mrsh_k_poll_signal_reset :: handler where
  "z_mrsh_k_poll_signal_reset m arg0 arg1 arg2 arg3 arg4 arg5 ssf =
     (z_vrfy ''k_poll_signal_reset'' [A32 arg0] Ret_void ssf)"

definition z_mrsh_k_queue_alloc_append :: handler where
  "z_mrsh_k_queue_alloc_append m arg0 arg1 arg2 arg3 arg4 arg5 ssf =
     (z_vrfy ''k_queue_alloc_append'' [A32 arg0, A32 arg1] Ret_word ssf)"

definition z_mrsh_k_queue_alloc_prepend :: handler where
  "z_mrsh_k_queue_alloc_prepend m arg0 arg1 arg2 arg3 arg4 arg5 ssf =
     (z_vrfy ''k_queue_alloc_prepend'' [A32 arg0, A32 arg1] Ret_word ssf)"

definition z_mrsh_k_queue_cancel_wait :: handler where
  "z_mrsh_k_queue_cancel_wait m arg0 arg1 arg2 arg3 arg4 arg5 ssf =
     (z_vrfy ''k_queue_cancel_wait'' [A32 arg0] Ret_void ssf)"

definition z_mrsh_k_queue_get :: handler where
  "z_mrsh_k_queue_get m arg0 arg1 arg2 arg3 arg4 arg5 ssf =
     (let parm0 = join64 arg1 arg2 in z_vrfy ''k_queue_get'' [A32 arg0, A64 parm0] Ret_word ssf)"

definition z_mrsh_k_queue_init :: handler where
  "z_mrsh_k_queue_init m arg0 arg1 arg2 arg3 arg4 arg5 ssf =
     (z_vrfy ''k_queue_init'' [A32 arg0] Ret_void ssf)"

definition z_mrsh_k_queue_is_empty :: handler where
  "z_mrsh_k_queue_is_empty m arg0 arg1 arg2 arg3 arg4 arg5 ssf =
     (z_vrfy ''k_queue_is_empty'' [A32 arg0] Ret_word ssf)"

definition z_mrsh_k_queue_peek_head :: handler where
  "z_mrsh_k_queue_peek_head m arg0 arg1 arg2 arg3 arg4 arg5 ssf =
     (z_vrfy ''k_queue_peek_head'' [A32 arg0] Ret_word ssf)"

definition z_mrsh_k_queue_peek_tail :: handler where
  "z_mrsh_k_queue_peek_tail m arg0 arg1 arg2 arg3 arg4 arg5 ssf =
     (z_vrfy ''k_queue_peek_tail'' [A32 arg0] Ret_word ssf)"

definition z_mrsh_k_sem_count_get :: handler where
  "z_mrsh_k_sem_count_get m arg0 arg1 arg2 arg3 arg4 arg5 ssf =
     (z_vrfy ''k_sem_count_get'' [A32 arg0] Ret_word ssf)"

definition z_mrsh_k_sem_give :: handler where
  "z_mrsh_k_sem_give m arg0 arg1 arg2 arg3 arg4 arg5 ssf =
     (z_vrfy ''k_sem_give'' [A32 arg0] Ret_void ssf)"

definition z_mrsh_k_sem_init :: handler where
  "z_mrsh_k_sem_init m arg0 arg1 arg2 arg3 arg4 arg5 ssf =
     (z_vrfy ''k_sem_init'' [A32 arg0, A32 arg1, A32 arg2] Ret_word ssf)"

definition z_mrsh_k_sem_reset :: handler where
  "z_mrsh_k_sem_reset m arg0 arg1 arg2 arg3 arg4 arg5 ssf =
     (z_vrfy ''k_sem_reset'' [A32 arg0] Ret_void ssf)"

definition z_mrsh_k_sem_take :: handler where
  "z_mrsh_k_sem_take m arg0 arg1 arg2 arg3 arg4 arg5 ssf =
     (let parm0 = join64 arg1 arg2 in z_vrfy ''k_sem_take'' [A32 arg0, A64 parm0] Ret_word ssf)"

definition z_mrsh_k_sleep :: handler where
  "z_mrsh_k_sleep m arg0 arg1 arg2 arg3 arg4 arg5 ssf =
     (let parm0 = join64 arg0 arg1 in z_vrfy ''k_sleep'' [A64 parm0] Ret_word ssf)"

definition z_mrsh_k_stack_alloc_init :: handler where
  "z_mrsh_k_stack_alloc_init m arg0 arg1 arg2 arg3 arg4 arg5 ssf =
     (z_vrfy ''k_stack_alloc_init'' [A32 arg0, A32 arg1] Ret_word ssf)"

definition z_mrsh_k_stack_pop :: handler where
  "z_mrsh_k_stack_pop m arg0 arg1 arg2 arg3 arg4 arg5 ssf =
     (let parm0 = join64 arg2 arg3 in z_vrfy ''k_stack_pop'' [A32 arg0, A32 arg1, A64 parm0]
         Ret_word ssf)"

definition z_mrsh_k_stack_push :: handler where
  "z_mrsh_k_stack_push m arg0 arg1 arg2 arg3 arg4 arg5 ssf =
     (z_vrfy ''k_stack_push'' [A32 arg0, A32 arg1] Ret_word ssf)"

definition z_mrsh_k_str_out :: handler where
  "z_mrsh_k_str_out m arg0 arg1 arg2 arg3 arg4 arg5 ssf =
     (z_vrfy ''k_str_out'' [A32 arg0, A32 arg1] Ret_void ssf)"

definition z_mrsh_k_thread_abort :: handler where
  "z_mrsh_k_thread_abort m arg0 arg1 arg2 arg3 arg4 arg5 ssf =
     (z_vrfy ''k_thread_abort'' [A32 arg0] Ret_void ssf)"

definition z_mrsh_k_thread_create :: handler where
  "z_mrsh_k_thread_create m arg0 arg1 arg2 arg3 arg4 arg5 ssf =
     (Z_SYSCALL_MEMORY_READ m arg5 (5 * 4)
       (let parm0 = join64 (word_at m arg5 4) (word_at m arg5 5) in z_vrfy ''k_thread_create''
           [A32 arg0, A32 arg1, A32 arg2, A32 arg3, A32 arg4, A32 (word_at m arg5 0), A32 (word_at
           m arg5 1), A32 (word_at m arg5 2), A32 (word_at m arg5 3), A64 parm0] Ret_word ssf))"

definition z_mrsh_k_thread_custom_data_get :: handler where
  "z_mrsh_k_thread_custom_data_get m arg0 arg1 arg2 arg3 arg4 arg5 ssf =
     (z_vrfy ''k_thread_custom_data_get'' [] Ret_word ssf)"

definition z_mrsh_k_thread_custom_data_set :: handler where
  "z_mrsh_k_thread_custom_data_set m arg0 arg1 arg2 arg3 arg4 arg5 ssf =
     (z_vrfy ''k_thread_custom_data_set'' [A32 arg0] Ret_void ssf)"

definition z_mrsh_k_thread_deadline_set :: handler where
  "z_mrsh_k_thread_deadline_set m arg0 arg1 arg2 arg3 arg4 arg5 ssf =
     (z_vrfy ''k_thread_deadline_set'' [A32 arg0, A32 arg1] Ret_void ssf)"

definition z_mrsh_k_thread_join :: handler where
  "z_mrsh_k_thread_join m arg0 arg1 arg2 arg3 arg4 arg5 ssf =
     (let parm0 = join64 arg1 arg2 in z_vrfy ''k_thread_join'' [A32 arg0, A64 parm0] Ret_word
         ssf)"

definition z_mrsh_k_thread_name_copy :: handler where
  "z_mrsh_k_thread_name_copy m arg0 arg1 arg2 arg3 arg4 arg5 ssf =
     (z_vrfy ''k_thread_name_copy'' [A32 arg0, A32 arg1, A32 arg2] Ret_word ssf)"

definition z_mrsh_k_thread_name_set :: handler where
  "z_mrsh_k_thread_name_set m arg0 arg1 arg2 arg3 arg4 arg5 ssf =
     (z_vrfy ''k_thread_name_set'' [A32 arg0, A32 arg1] Ret_word ssf)"

definition z_mrsh_k_thread_priority_get :: handler where
  "z_mrsh_k_thread_priority_get m arg0 arg1 arg2 arg3 arg4 arg5 ssf =
     (z_vrfy ''k_thread_priority_get'' [A32 arg0] Ret_word ssf)"

definition z_mrsh_k_thread_priority_set :: handler where
  "z_mrsh_k_thread_priority_set m arg0 arg1 arg2 arg3 arg4 arg5 ssf =
     (z_vrfy ''k_thread_priority_set'' [A32 arg0, A32 arg1] Ret_void ssf)"

definition z_mrsh_k_thread_resume :: handler where
  "z_mrsh_k_thread_resume m arg0 arg1 arg2 arg3 arg4 arg5 ssf =
     (z_vrfy ''k_thread_resume'' [A32 arg0] Ret_void ssf)"

definition z_mrsh_k_thread_stack_space_get :: handler where
  "z_mrsh_k_thread_stack_space_get m arg0 arg1 arg2 arg3 arg4 arg5 ssf =
     (z_vrfy ''k_thread_stack_space_get'' [A32 arg0, A32 arg1] Ret_word ssf)"

definition z_mrsh_k_thread_start :: handler where
  "z_mrsh_k_thread_start m arg0 arg1 arg2 arg3 arg4 arg5 ssf =
     (z_vrfy ''k_thread_start'' [A32 arg0] Ret_void ssf)"

definition z_mrsh_k_thread_suspend :: handler where
  "z_mrsh_k_thread_suspend m arg0 arg1 arg2 arg3 arg4 arg5 ssf =
     (z_vrfy ''k_thread_suspend'' [A32 arg0] Ret_void ssf)"

definition z_mrsh_k_thread_timeout_expires_ticks :: handler where
  "z_mrsh_k_thread_timeout_expires_ticks m arg0 arg1 arg2 arg3 arg4 arg5 ssf =
     (z_vrfy ''k_thread_timeout_expires_ticks'' [A32 arg0] Ret_word ssf)"

definition z_mrsh_k_thread_timeout_remaining_ticks :: handler where
  "z_mrsh_k_thread_timeout_remaining_ticks m arg0 arg1 arg2 arg3 arg4 arg5 ssf =
     (z_vrfy ''k_thread_timeout_remaining_ticks'' [A32 arg0] Ret_word ssf)"

definition z_mrsh_k_timer_expires_ticks :: handler where
  "z_mrsh_k_timer_expires_ticks m arg0 arg1 arg2 arg3 arg4 arg5 ssf =
     (z_vrfy ''k_timer_expires_ticks'' [A32 arg0] Ret_word ssf)"

definition z_mrsh_k_timer_remaining_ticks :: handler where
  "z_mrsh_k_timer_remaining_ticks m arg0 arg1 arg2 arg3 arg4 arg5 ssf =
     (z_vrfy ''k_timer_remaining_ticks'' [A32 arg0] Ret_word ssf)"

definition z_mrsh_k_timer_start :: handler where
  "z_mrsh_k_timer_start m arg0 arg1 arg2 arg3 arg4 arg5 ssf =
     (let parm0 = join64 arg1 arg2; parm1 = join64 arg3 arg4 in z_vrfy ''k_timer_start'' [A32
         arg0, A64 parm0, A64 parm1] Ret_void ssf)"

definition z_mrsh_k_timer_status_get :: handler where
  "z_mrsh_k_timer_status_get m arg0 arg1 arg2 arg3 arg4 arg5 ssf =
     (z_vrfy ''k_timer_status_get'' [A32 arg0] Ret_word ssf)"

definition z_mrsh_k_timer_status_sync :: handler where
  "z_mrsh_k_timer_status_sync m arg0 arg1 arg2 arg3 arg4 arg5 ssf =
     (z_vrfy ''k_timer_status_sync'' [A32 arg0] Ret_word ssf)"

definition z_mrsh_k_timer_stop :: handler where
  "z_mrsh_k_timer_stop m arg0 arg1 arg2 arg3 arg4 arg5 ssf =
     (z_vrfy ''k_timer_stop'' [A32 arg0] Ret_void ssf)"

definition z_mrsh_k_timer_user_data_get :: handler where
  "z_mrsh_k_timer_user_data_get m arg0 arg1 arg2 arg3 arg4 arg5 ssf =
     (z_vrfy ''k_timer_user_data_get'' [A32 arg0] Ret_word ssf)"

definition z_mrsh_k_timer_user_data_set :: handler where
  "z_mrsh_k_timer_user_data_set m arg0 arg1 arg2 arg3 arg4 arg5 ssf =
     (z_vrfy ''k_timer_user_data_set'' [A32 arg0, A32 arg1] Ret_void ssf)"

definition z_mrsh_k_uptime_ticks :: handler where
  "z_mrsh_k_uptime_ticks m arg0 arg1 arg2 arg3 arg4 arg5 ssf =
     (Z_SYSCALL_MEMORY_WRITE m arg0 8 (z_vrfy ''k_uptime_ticks'' [] (Ret_mem arg0) ssf))"

definition z_mrsh_k_usleep :: handler where
  "z_mrsh_k_usleep m arg0 arg1 arg2 arg3 arg4 arg5 ssf =
     (z_vrfy ''k_usleep'' [A32 arg0] Ret_word ssf)"

definition z_mrsh_k_wakeup :: handler where
  "z_mrsh_k_wakeup m arg0 arg1 arg2 arg3 arg4 arg5 ssf =
     (z_vrfy ''k_wakeup'' [A32 arg0] Ret_void ssf)"

definition z_mrsh_k_yield :: handler where
  "z_mrsh_k_yield m arg0 arg1 arg2 arg3 arg4 arg5 ssf =
     (z_vrfy ''k_yield'' [] Ret_void ssf)"

text \<open>The symbols these files define, with the functions they name.\<close>

definition mrsh_files_K :: "(string \<times> handler) list" where
  "mrsh_files_K = [
    (''z_mrsh_k_busy_wait'', z_mrsh_k_busy_wait),
    (''z_mrsh_k_condvar_broadcast'', z_mrsh_k_condvar_broadcast),
    (''z_mrsh_k_condvar_init'', z_mrsh_k_condvar_init),
    (''z_mrsh_k_condvar_signal'', z_mrsh_k_condvar_signal),
    (''z_mrsh_k_condvar_wait'', z_mrsh_k_condvar_wait),
    (''z_mrsh_k_event_init'', z_mrsh_k_event_init),
    (''z_mrsh_k_event_post'', z_mrsh_k_event_post),
    (''z_mrsh_k_event_set'', z_mrsh_k_event_set),
    (''z_mrsh_k_event_wait'', z_mrsh_k_event_wait),
    (''z_mrsh_k_event_wait_all'', z_mrsh_k_event_wait_all),
    (''z_mrsh_k_float_disable'', z_mrsh_k_float_disable),
    (''z_mrsh_k_float_enable'', z_mrsh_k_float_enable),
    (''z_mrsh_k_futex_wait'', z_mrsh_k_futex_wait),
    (''z_mrsh_k_futex_wake'', z_mrsh_k_futex_wake),
    (''z_mrsh_k_is_preempt_thread'', z_mrsh_k_is_preempt_thread),
    (''z_mrsh_k_mem_paging_histogram_backing_store_page_in_get'', z_mrsh_k_mem_paging_histogram_backing_store_page_in_get),
    (''z_mrsh_k_mem_paging_histogram_backing_store_page_out_get'', z_mrsh_k_mem_paging_histogram_backing_store_page_out_get),
    (''z_mrsh_k_mem_paging_histogram_eviction_get'', z_mrsh_k_mem_paging_histogram_eviction_get),
    (''z_mrsh_k_mem_paging_stats_get'', z_mrsh_k_mem_paging_stats_get),
    (''z_mrsh_k_mem_paging_thread_stats_get'', z_mrsh_k_mem_paging_thread_stats_get),
    (''z_mrsh_k_msgq_alloc_init'', z_mrsh_k_msgq_alloc_init),
    (''z_mrsh_k_msgq_get'', z_mrsh_k_msgq_get),
    (''z_mrsh_k_msgq_get_attrs'', z_mrsh_k_msgq_get_attrs),
    (''z_mrsh_k_msgq_num_free_get'', z_mrsh_k_msgq_num_free_get),
    (''z_mrsh_k_msgq_num_used_get'', z_mrsh_k_msgq_num_used_get),
    (''z_mrsh_k_msgq_peek'', z_mrsh_k_msgq_peek),
    (''z_mrsh_k_msgq_purge'', z_mrsh_k_msgq_purge), (''z_mrsh_k_msgq_put'', z_mrsh_k_msgq_put),
    (''z_mrsh_k_mutex_init'', z_mrsh_k_mutex_init),
    (''z_mrsh_k_mutex_lock'', z_mrsh_k_mutex_lock),
    (''z_mrsh_k_mutex_unlock'', z_mrsh_k_mutex_unlock),
    (''z_mrsh_k_object_access_grant'', z_mrsh_k_object_access_grant),
    (''z_mrsh_k_object_release'', z_mrsh_k_object_release),
    (''z_mrsh_k_pipe_alloc_init'', z_mrsh_k_pipe_alloc_init),
    (''z_mrsh_k_pipe_get'', z_mrsh_k_pipe_get), (''z_mrsh_k_pipe_put'', z_mrsh_k_pipe_put),
    (''z_mrsh_k_pipe_read_avail'', z_mrsh_k_pipe_read_avail),
    (''z_mrsh_k_pipe_write_avail'', z_mrsh_k_pipe_write_avail),
    (''z_mrsh_k_poll'', z_mrsh_k_poll),
    (''z_mrsh_k_poll_signal_check'', z_mrsh_k_poll_signal_check),
    (''z_mrsh_k_poll_signal_init'', z_mrsh_k_poll_signal_init),
    (''z_mrsh_k_poll_signal_raise'', z_mrsh_k_poll_signal_raise),
    (''z_mrsh_k_poll_signal_reset'', z_mrsh_k_poll_signal_reset),
    (''z_mrsh_k_queue_alloc_append'', z_mrsh_k_queue_alloc_append),
    (''z_mrsh_k_queue_alloc_prepend'', z_mrsh_k_queue_alloc_prepend),
    (''z_mrsh_k_queue_cancel_wait'', z_mrsh_k_queue_cancel_wait),
    (''z_mrsh_k_queue_get'', z_mrsh_k_queue_get),
    (''z_mrsh_k_queue_init'', z_mrsh_k_queue_init),
    (''z_mrsh_k_queue_is_empty'', z_mrsh_k_queue_is_empty),
    (''z_mrsh_k_queue_peek_head'', z_mrsh_k_queue_peek_head),
    (''z_mrsh_k_queue_peek_tail'', z_mrsh_k_queue_peek_tail),
    (''z_mrsh_k_sem_count_get'', z_mrsh_k_sem_count_get),
    (''z_mrsh_k_sem_give'', z_mrsh_k_sem_give), (''z_mrsh_k_sem_init'', z_mrsh_k_sem_init),
    (''z_mrsh_k_sem_reset'', z_mrsh_k_sem_reset), (''z_mrsh_k_sem_take'', z_mrsh_k_sem_take),
    (''z_mrsh_k_sleep'', z_mrsh_k_sleep),
    (''z_mrsh_k_stack_alloc_init'', z_mrsh_k_stack_alloc_init),
    (''z_mrsh_k_stack_pop'', z_mrsh_k_stack_pop),
    (''z_mrsh_k_stack_push'', z_mrsh_k_stack_push), (''z_mrsh_k_str_out'', z_mrsh_k_str_out),
    (''z_mrsh_k_thread_abort'', z_mrsh_k_thread_abort),
    (''z_mrsh_k_thread_create'', z_mrsh_k_thread_create),
    (''z_mrsh_k_thread_custom_data_get'', z_mrsh_k_thread_custom_data_get),
    (''z_mrsh_k_thread_custom_data_set'', z_mrsh_k_thread_custom_data_set),
    (''z_mrsh_k_thread_deadline_set'', z_mrsh_k_thread_deadline_set),
    (''z_mrsh_k_thread_join'', z_mrsh_k_thread_join),
    (''z_mrsh_k_thread_name_copy'', z_mrsh_k_thread_name_copy),
    (''z_mrsh_k_thread_name_set'', z_mrsh_k_thread_name_set),
    (''z_mrsh_k_thread_priority_get'', z_mrsh_k_thread_priority_get),
    (''z_mrsh_k_thread_priority_set'', z_mrsh_k_thread_priority_set),
    (''z_mrsh_k_thread_resume'', z_mrsh_k_thread_resume),
    (''z_mrsh_k_thread_stack_space_get'', z_mrsh_k_thread_stack_space_get),
    (''z_mrsh_k_thread_start'', z_mrsh_k_thread_start),
    (''z_mrsh_k_thread_suspend'', z_mrsh_k_thread_suspend),
    (''z_mrsh_k_thread_timeout_expires_ticks'', z_mrsh_k_thread_timeout_expires_ticks),
    (''z_mrsh_k_thread_timeout_remaining_ticks'', z_mrsh_k_thread_timeout_remaining_ticks),
    (''z_mrsh_k_timer_expires_ticks'', z_mrsh_k_timer_expires_ticks),
    (''z_mrsh_k_timer_remaining_ticks'', z_mrsh_k_timer_remaining_ticks),
    (''z_mrsh_k_timer_start'', z_mrsh_k_timer_start),
    (''z_mrsh_k_timer_status_get'', z_mrsh_k_timer_status_get),
    (''z_mrsh_k_timer_status_sync'', z_mrsh_k_timer_status_sync),
    (''z_mrsh_k_timer_stop'', z_mrsh_k_timer_stop),
    (''z_mrsh_k_timer_user_data_get'', z_mrsh_k_timer_user_data_get),
    (''z_mrsh_k_timer_user_data_set'', z_mrsh_k_timer_user_data_set),
    (''z_mrsh_k_uptime_ticks'', z_mrsh_k_uptime_ticks), (''z_mrsh_k_usleep'', z_mrsh_k_usleep),
    (''z_mrsh_k_wakeup'', z_mrsh_k_wakeup), (''z_mrsh_k_yield'', z_mrsh_k_yield)]"

lemmas mrsh_defs_K =
  z_mrsh_k_busy_wait_def z_mrsh_k_condvar_broadcast_def z_mrsh_k_condvar_init_def
  z_mrsh_k_condvar_signal_def z_mrsh_k_condvar_wait_def z_mrsh_k_event_init_def
  z_mrsh_k_event_post_def z_mrsh_k_event_set_def z_mrsh_k_event_wait_def
  z_mrsh_k_event_wait_all_def z_mrsh_k_float_disable_def z_mrsh_k_float_enable_def
  z_mrsh_k_futex_wait_def z_mrsh_k_futex_wake_def z_mrsh_k_is_preempt_thread_def
  z_mrsh_k_mem_paging_histogram_backing_store_page_in_get_def
  z_mrsh_k_mem_paging_histogram_backing_store_page_out_get_def
  z_mrsh_k_mem_paging_histogram_eviction_get_def z_mrsh_k_mem_paging_stats_get_def
  z_mrsh_k_mem_paging_thread_stats_get_def z_mrsh_k_msgq_alloc_init_def z_mrsh_k_msgq_get_def
  z_mrsh_k_msgq_get_attrs_def z_mrsh_k_msgq_num_free_get_def z_mrsh_k_msgq_num_used_get_def
  z_mrsh_k_msgq_peek_def z_mrsh_k_msgq_purge_def z_mrsh_k_msgq_put_def z_mrsh_k_mutex_init_def
  z_mrsh_k_mutex_lock_def z_mrsh_k_mutex_unlock_def z_mrsh_k_object_access_grant_def
  z_mrsh_k_object_release_def z_mrsh_k_pipe_alloc_init_def z_mrsh_k_pipe_get_def
  z_mrsh_k_pipe_put_def z_mrsh_k_pipe_read_avail_def z_mrsh_k_pipe_write_avail_def
  z_mrsh_k_poll_def z_mrsh_k_poll_signal_check_def z_mrsh_k_poll_signal_init_def
  z_mrsh_k_poll_signal_raise_def z_mrsh_k_poll_signal_reset_def z_mrsh_k_queue_alloc_append_def
  z_mrsh_k_queue_alloc_prepend_def z_mrsh_k_queue_cancel_wait_def z_mrsh_k_queue_get_def
  z_mrsh_k_queue_init_def z_mrsh_k_queue_is_empty_def z_mrsh_k_queue_peek_head_def
  z_mrsh_k_queue_peek_tail_def z_mrsh_k_sem_count_get_def z_mrsh_k_sem_give_def
  z_mrsh_k_sem_init_def z_mrsh_k_sem_reset_def z_mrsh_k_sem_take_def z_mrsh_k_sleep_def
  z_mrsh_k_stack_alloc_init_def z_mrsh_k_stack_pop_def z_mrsh_k_stack_push_def
  z_mrsh_k_str_out_def z_mrsh_k_thread_abort_def z_mrsh_k_thread_create_def
  z_mrsh_k_thread_custom_data_get_def z_mrsh_k_thread_custom_data_set_def
  z_mrsh_k_thread_deadline_set_def z_mrsh_k_thread_join_def z_mrsh_k_thread_name_copy_def
  z_mrsh_k_thread_name_set_def z_mrsh_k_thread_priority_get_def z_mrsh_k_thread_priority_set_def
  z_mrsh_k_thread_resume_def z_mrsh_k_thread_stack_space_get_def z_mrsh_k_thread_start_def
  z_mrsh_k_thread_suspend_def z_mrsh_k_thread_timeout_expires_ticks_def
  z_mrsh_k_thread_timeout_remaining_ticks_def z_mrsh_k_timer_expires_ticks_def
  z_mrsh_k_timer_remaining_ticks_def z_mrsh_k_timer_start_def z_mrsh_k_timer_status_get_def
  z_mrsh_k_timer_status_sync_def z_mrsh_k_timer_stop_def z_mrsh_k_timer_user_data_get_def
  z_mrsh_k_timer_user_data_set_def z_mrsh_k_uptime_ticks_def z_mrsh_k_usleep_def
  z_mrsh_k_wakeup_def z_mrsh_k_yield_def

end
