(* ===== verification/SysMrshZ.thy ===== *)
theory SysMrshZ
  imports SysIds
begin

text \<open>
  The unmarshallers of the generated files \<open>syscalls/*_mrsh.c\<close> whose names come after those of the kernel,
  in the order of the directory: each reads the arguments back from the registers
  and from \<open>more\<close>, after the check of the memory it reads, calls the verifier and returns or
  stores its result.
\<close>

definition z_mrsh_kscan_config :: handler where
  "z_mrsh_kscan_config m arg0 arg1 arg2 arg3 arg4 arg5 ssf =
     (z_vrfy ''kscan_config'' [A32 arg0, A32 arg1] Ret_word ssf)"

definition z_mrsh_kscan_disable_callback :: handler where
  "z_mrsh_kscan_disable_callback m arg0 arg1 arg2 arg3 arg4 arg5 ssf =
     (z_vrfy ''kscan_disable_callback'' [A32 arg0] Ret_word ssf)"

definition z_mrsh_kscan_enable_callback :: handler where
  "z_mrsh_kscan_enable_callback m arg0 arg1 arg2 arg3 arg4 arg5 ssf =
     (z_vrfy ''kscan_enable_callback'' [A32 arg0] Ret_word ssf)"

definition z_mrsh_led_blink :: handler where
  "z_mrsh_led_blink m arg0 arg1 arg2 arg3 arg4 arg5 ssf =
     (z_vrfy ''led_blink'' [A32 arg0, A32 arg1, A32 arg2, A32 arg3] Ret_word ssf)"

definition z_mrsh_led_get_info :: handler where
  "z_mrsh_led_get_info m arg0 arg1 arg2 arg3 arg4 arg5 ssf =
     (z_vrfy ''led_get_info'' [A32 arg0, A32 arg1, A32 arg2] Ret_word ssf)"

definition z_mrsh_led_off :: handler where
  "z_mrsh_led_off m arg0 arg1 arg2 arg3 arg4 arg5 ssf =
     (z_vrfy ''led_off'' [A32 arg0, A32 arg1] Ret_word ssf)"

definition z_mrsh_led_on :: handler where
  "z_mrsh_led_on m arg0 arg1 arg2 arg3 arg4 arg5 ssf =
     (z_vrfy ''led_on'' [A32 arg0, A32 arg1] Ret_word ssf)"

definition z_mrsh_led_set_brightness :: handler where
  "z_mrsh_led_set_brightness m arg0 arg1 arg2 arg3 arg4 arg5 ssf =
     (z_vrfy ''led_set_brightness'' [A32 arg0, A32 arg1, A8 (ucast arg2)] Ret_word ssf)"

definition z_mrsh_led_set_channel :: handler where
  "z_mrsh_led_set_channel m arg0 arg1 arg2 arg3 arg4 arg5 ssf =
     (z_vrfy ''led_set_channel'' [A32 arg0, A32 arg1, A8 (ucast arg2)] Ret_word ssf)"

definition z_mrsh_led_set_color :: handler where
  "z_mrsh_led_set_color m arg0 arg1 arg2 arg3 arg4 arg5 ssf =
     (z_vrfy ''led_set_color'' [A32 arg0, A32 arg1, A8 (ucast arg2), A32 arg3] Ret_word ssf)"

definition z_mrsh_led_write_channels :: handler where
  "z_mrsh_led_write_channels m arg0 arg1 arg2 arg3 arg4 arg5 ssf =
     (z_vrfy ''led_write_channels'' [A32 arg0, A32 arg1, A32 arg2, A32 arg3] Ret_word ssf)"

definition z_mrsh_log_buffered_cnt :: handler where
  "z_mrsh_log_buffered_cnt m arg0 arg1 arg2 arg3 arg4 arg5 ssf =
     (z_vrfy ''log_buffered_cnt'' [] Ret_word ssf)"

definition z_mrsh_log_panic :: handler where
  "z_mrsh_log_panic m arg0 arg1 arg2 arg3 arg4 arg5 ssf =
     (z_vrfy ''log_panic'' [] Ret_void ssf)"

definition z_mrsh_log_process :: handler where
  "z_mrsh_log_process m arg0 arg1 arg2 arg3 arg4 arg5 ssf =
     (z_vrfy ''log_process'' [A8 (ucast arg0)] Ret_word ssf)"

definition z_mrsh_maxim_ds3231_get_syncpoint :: handler where
  "z_mrsh_maxim_ds3231_get_syncpoint m arg0 arg1 arg2 arg3 arg4 arg5 ssf =
     (z_vrfy ''maxim_ds3231_get_syncpoint'' [A32 arg0, A32 arg1] Ret_word ssf)"

definition z_mrsh_maxim_ds3231_req_syncpoint :: handler where
  "z_mrsh_maxim_ds3231_req_syncpoint m arg0 arg1 arg2 arg3 arg4 arg5 ssf =
     (z_vrfy ''maxim_ds3231_req_syncpoint'' [A32 arg0, A32 arg1] Ret_word ssf)"

definition z_mrsh_mbox_max_channels_get :: handler where
  "z_mrsh_mbox_max_channels_get m arg0 arg1 arg2 arg3 arg4 arg5 ssf =
     (z_vrfy ''mbox_max_channels_get'' [A32 arg0] Ret_word ssf)"

definition z_mrsh_mbox_mtu_get :: handler where
  "z_mrsh_mbox_mtu_get m arg0 arg1 arg2 arg3 arg4 arg5 ssf =
     (z_vrfy ''mbox_mtu_get'' [A32 arg0] Ret_word ssf)"

definition z_mrsh_mbox_send :: handler where
  "z_mrsh_mbox_send m arg0 arg1 arg2 arg3 arg4 arg5 ssf =
     (z_vrfy ''mbox_send'' [A32 arg0, A32 arg1] Ret_word ssf)"

definition z_mrsh_mbox_set_enabled :: handler where
  "z_mrsh_mbox_set_enabled m arg0 arg1 arg2 arg3 arg4 arg5 ssf =
     (z_vrfy ''mbox_set_enabled'' [A32 arg0, A8 (ucast arg1)] Ret_word ssf)"

definition z_mrsh_mdio_bus_disable :: handler where
  "z_mrsh_mdio_bus_disable m arg0 arg1 arg2 arg3 arg4 arg5 ssf =
     (z_vrfy ''mdio_bus_disable'' [A32 arg0] Ret_void ssf)"

definition z_mrsh_mdio_bus_enable :: handler where
  "z_mrsh_mdio_bus_enable m arg0 arg1 arg2 arg3 arg4 arg5 ssf =
     (z_vrfy ''mdio_bus_enable'' [A32 arg0] Ret_void ssf)"

definition z_mrsh_mdio_read :: handler where
  "z_mrsh_mdio_read m arg0 arg1 arg2 arg3 arg4 arg5 ssf =
     (z_vrfy ''mdio_read'' [A32 arg0, A8 (ucast arg1), A8 (ucast arg2), A32 arg3] Ret_word ssf)"

definition z_mrsh_mdio_write :: handler where
  "z_mrsh_mdio_write m arg0 arg1 arg2 arg3 arg4 arg5 ssf =
     (z_vrfy ''mdio_write'' [A32 arg0, A8 (ucast arg1), A8 (ucast arg2), A16 (ucast arg3)]
         Ret_word ssf)"

definition z_mrsh_net_eth_get_ptp_clock_by_index :: handler where
  "z_mrsh_net_eth_get_ptp_clock_by_index m arg0 arg1 arg2 arg3 arg4 arg5 ssf =
     (z_vrfy ''net_eth_get_ptp_clock_by_index'' [A32 arg0] Ret_word ssf)"

definition z_mrsh_net_if_get_by_index :: handler where
  "z_mrsh_net_if_get_by_index m arg0 arg1 arg2 arg3 arg4 arg5 ssf =
     (z_vrfy ''net_if_get_by_index'' [A32 arg0] Ret_word ssf)"

definition z_mrsh_net_if_ipv4_addr_lookup_by_index :: handler where
  "z_mrsh_net_if_ipv4_addr_lookup_by_index m arg0 arg1 arg2 arg3 arg4 arg5 ssf =
     (z_vrfy ''net_if_ipv4_addr_lookup_by_index'' [A32 arg0] Ret_word ssf)"

definition z_mrsh_net_if_ipv4_addr_rm_by_index :: handler where
  "z_mrsh_net_if_ipv4_addr_rm_by_index m arg0 arg1 arg2 arg3 arg4 arg5 ssf =
     (z_vrfy ''net_if_ipv4_addr_rm_by_index'' [A32 arg0, A32 arg1] Ret_word ssf)"

definition z_mrsh_net_if_ipv4_set_gw_by_index :: handler where
  "z_mrsh_net_if_ipv4_set_gw_by_index m arg0 arg1 arg2 arg3 arg4 arg5 ssf =
     (z_vrfy ''net_if_ipv4_set_gw_by_index'' [A32 arg0, A32 arg1] Ret_word ssf)"

definition z_mrsh_net_if_ipv4_set_netmask_by_index :: handler where
  "z_mrsh_net_if_ipv4_set_netmask_by_index m arg0 arg1 arg2 arg3 arg4 arg5 ssf =
     (z_vrfy ''net_if_ipv4_set_netmask_by_index'' [A32 arg0, A32 arg1] Ret_word ssf)"

definition z_mrsh_net_if_ipv6_addr_lookup_by_index :: handler where
  "z_mrsh_net_if_ipv6_addr_lookup_by_index m arg0 arg1 arg2 arg3 arg4 arg5 ssf =
     (z_vrfy ''net_if_ipv6_addr_lookup_by_index'' [A32 arg0] Ret_word ssf)"

definition z_mrsh_net_if_ipv6_addr_rm_by_index :: handler where
  "z_mrsh_net_if_ipv6_addr_rm_by_index m arg0 arg1 arg2 arg3 arg4 arg5 ssf =
     (z_vrfy ''net_if_ipv6_addr_rm_by_index'' [A32 arg0, A32 arg1] Ret_word ssf)"

definition z_mrsh_nrf_qspi_nor_base_clock_div_force :: handler where
  "z_mrsh_nrf_qspi_nor_base_clock_div_force m arg0 arg1 arg2 arg3 arg4 arg5 ssf =
     (z_vrfy ''nrf_qspi_nor_base_clock_div_force'' [A32 arg0, A8 (ucast arg1)] Ret_void ssf)"

definition z_mrsh_peci_config :: handler where
  "z_mrsh_peci_config m arg0 arg1 arg2 arg3 arg4 arg5 ssf =
     (z_vrfy ''peci_config'' [A32 arg0, A32 arg1] Ret_word ssf)"

definition z_mrsh_peci_disable :: handler where
  "z_mrsh_peci_disable m arg0 arg1 arg2 arg3 arg4 arg5 ssf =
     (z_vrfy ''peci_disable'' [A32 arg0] Ret_word ssf)"

definition z_mrsh_peci_enable :: handler where
  "z_mrsh_peci_enable m arg0 arg1 arg2 arg3 arg4 arg5 ssf =
     (z_vrfy ''peci_enable'' [A32 arg0] Ret_word ssf)"

definition z_mrsh_peci_transfer :: handler where
  "z_mrsh_peci_transfer m arg0 arg1 arg2 arg3 arg4 arg5 ssf =
     (z_vrfy ''peci_transfer'' [A32 arg0, A32 arg1] Ret_word ssf)"

definition z_mrsh_phy_get_link_state :: handler where
  "z_mrsh_phy_get_link_state m arg0 arg1 arg2 arg3 arg4 arg5 ssf =
     (z_vrfy ''phy_get_link_state'' [A32 arg0, A32 arg1] Ret_word ssf)"

definition z_mrsh_phy_link_callback_set :: handler where
  "z_mrsh_phy_link_callback_set m arg0 arg1 arg2 arg3 arg4 arg5 ssf =
     (z_vrfy ''phy_link_callback_set'' [A32 arg0, A32 arg1, A32 arg2] Ret_word ssf)"

definition z_mrsh_phy_read :: handler where
  "z_mrsh_phy_read m arg0 arg1 arg2 arg3 arg4 arg5 ssf =
     (z_vrfy ''phy_read'' [A32 arg0, A16 (ucast arg1), A32 arg2] Ret_word ssf)"

definition z_mrsh_phy_write :: handler where
  "z_mrsh_phy_write m arg0 arg1 arg2 arg3 arg4 arg5 ssf =
     (z_vrfy ''phy_write'' [A32 arg0, A16 (ucast arg1), A32 arg2] Ret_word ssf)"

definition z_mrsh_ps2_config :: handler where
  "z_mrsh_ps2_config m arg0 arg1 arg2 arg3 arg4 arg5 ssf =
     (z_vrfy ''ps2_config'' [A32 arg0, A32 arg1] Ret_word ssf)"

definition z_mrsh_ps2_disable_callback :: handler where
  "z_mrsh_ps2_disable_callback m arg0 arg1 arg2 arg3 arg4 arg5 ssf =
     (z_vrfy ''ps2_disable_callback'' [A32 arg0] Ret_word ssf)"

definition z_mrsh_ps2_enable_callback :: handler where
  "z_mrsh_ps2_enable_callback m arg0 arg1 arg2 arg3 arg4 arg5 ssf =
     (z_vrfy ''ps2_enable_callback'' [A32 arg0] Ret_word ssf)"

definition z_mrsh_ps2_read :: handler where
  "z_mrsh_ps2_read m arg0 arg1 arg2 arg3 arg4 arg5 ssf =
     (z_vrfy ''ps2_read'' [A32 arg0, A32 arg1] Ret_word ssf)"

definition z_mrsh_ps2_write :: handler where
  "z_mrsh_ps2_write m arg0 arg1 arg2 arg3 arg4 arg5 ssf =
     (z_vrfy ''ps2_write'' [A32 arg0, A8 (ucast arg1)] Ret_word ssf)"

definition z_mrsh_ptp_clock_get :: handler where
  "z_mrsh_ptp_clock_get m arg0 arg1 arg2 arg3 arg4 arg5 ssf =
     (z_vrfy ''ptp_clock_get'' [A32 arg0, A32 arg1] Ret_word ssf)"

definition z_mrsh_pwm_get_cycles_per_sec :: handler where
  "z_mrsh_pwm_get_cycles_per_sec m arg0 arg1 arg2 arg3 arg4 arg5 ssf =
     (z_vrfy ''pwm_get_cycles_per_sec'' [A32 arg0, A32 arg1, A32 arg2] Ret_word ssf)"

definition z_mrsh_pwm_pin_disable_capture :: handler where
  "z_mrsh_pwm_pin_disable_capture m arg0 arg1 arg2 arg3 arg4 arg5 ssf =
     (z_vrfy ''pwm_pin_disable_capture'' [A32 arg0, A32 arg1] Ret_word ssf)"

definition z_mrsh_pwm_pin_enable_capture :: handler where
  "z_mrsh_pwm_pin_enable_capture m arg0 arg1 arg2 arg3 arg4 arg5 ssf =
     (z_vrfy ''pwm_pin_enable_capture'' [A32 arg0, A32 arg1] Ret_word ssf)"

definition z_mrsh_sensor_sample_fetch :: handler where
  "z_mrsh_sensor_sample_fetch m arg0 arg1 arg2 arg3 arg4 arg5 ssf =
     (z_vrfy ''sensor_sample_fetch'' [A32 arg0] Ret_word ssf)"

definition z_mrsh_spi_release :: handler where
  "z_mrsh_spi_release m arg0 arg1 arg2 arg3 arg4 arg5 ssf =
     (z_vrfy ''spi_release'' [A32 arg0, A32 arg1] Ret_word ssf)"

definition z_mrsh_spi_transceive :: handler where
  "z_mrsh_spi_transceive m arg0 arg1 arg2 arg3 arg4 arg5 ssf =
     (z_vrfy ''spi_transceive'' [A32 arg0, A32 arg1, A32 arg2, A32 arg3] Ret_word ssf)"

definition z_mrsh_sys_cache_data_all :: handler where
  "z_mrsh_sys_cache_data_all m arg0 arg1 arg2 arg3 arg4 arg5 ssf =
     (z_vrfy ''sys_cache_data_all'' [A32 arg0] Ret_word ssf)"

definition z_mrsh_sys_cache_data_range :: handler where
  "z_mrsh_sys_cache_data_range m arg0 arg1 arg2 arg3 arg4 arg5 ssf =
     (z_vrfy ''sys_cache_data_range'' [A32 arg0, A32 arg1, A32 arg2] Ret_word ssf)"

definition z_mrsh_sys_cache_instr_all :: handler where
  "z_mrsh_sys_cache_instr_all m arg0 arg1 arg2 arg3 arg4 arg5 ssf =
     (z_vrfy ''sys_cache_instr_all'' [A32 arg0] Ret_word ssf)"

definition z_mrsh_sys_cache_instr_range :: handler where
  "z_mrsh_sys_cache_instr_range m arg0 arg1 arg2 arg3 arg4 arg5 ssf =
     (z_vrfy ''sys_cache_instr_range'' [A32 arg0, A32 arg1, A32 arg2] Ret_word ssf)"

definition z_mrsh_sys_clock_hw_cycles_per_sec_runtime_get :: handler where
  "z_mrsh_sys_clock_hw_cycles_per_sec_runtime_get m arg0 arg1 arg2 arg3 arg4 arg5 ssf =
     (z_vrfy ''sys_clock_hw_cycles_per_sec_runtime_get'' [] Ret_word ssf)"

definition z_mrsh_sys_csrand_get :: handler where
  "z_mrsh_sys_csrand_get m arg0 arg1 arg2 arg3 arg4 arg5 ssf =
     (z_vrfy ''sys_csrand_get'' [A32 arg0, A32 arg1] Ret_word ssf)"

definition z_mrsh_sys_rand32_get :: handler where
  "z_mrsh_sys_rand32_get m arg0 arg1 arg2 arg3 arg4 arg5 ssf =
     (z_vrfy ''sys_rand32_get'' [] Ret_word ssf)"

definition z_mrsh_sys_rand_get :: handler where
  "z_mrsh_sys_rand_get m arg0 arg1 arg2 arg3 arg4 arg5 ssf =
     (z_vrfy ''sys_rand_get'' [A32 arg0, A32 arg1] Ret_void ssf)"

definition z_mrsh_syscon_get_base :: handler where
  "z_mrsh_syscon_get_base m arg0 arg1 arg2 arg3 arg4 arg5 ssf =
     (z_vrfy ''syscon_get_base'' [A32 arg0, A32 arg1] Ret_word ssf)"

definition z_mrsh_syscon_get_size :: handler where
  "z_mrsh_syscon_get_size m arg0 arg1 arg2 arg3 arg4 arg5 ssf =
     (z_vrfy ''syscon_get_size'' [A32 arg0, A32 arg1] Ret_word ssf)"

definition z_mrsh_syscon_read_reg :: handler where
  "z_mrsh_syscon_read_reg m arg0 arg1 arg2 arg3 arg4 arg5 ssf =
     (z_vrfy ''syscon_read_reg'' [A32 arg0, A16 (ucast arg1), A32 arg2] Ret_word ssf)"

definition z_mrsh_syscon_write_reg :: handler where
  "z_mrsh_syscon_write_reg m arg0 arg1 arg2 arg3 arg4 arg5 ssf =
     (z_vrfy ''syscon_write_reg'' [A32 arg0, A16 (ucast arg1), A32 arg2] Ret_word ssf)"

definition z_mrsh_uart_config_get :: handler where
  "z_mrsh_uart_config_get m arg0 arg1 arg2 arg3 arg4 arg5 ssf =
     (z_vrfy ''uart_config_get'' [A32 arg0, A32 arg1] Ret_word ssf)"

definition z_mrsh_uart_configure :: handler where
  "z_mrsh_uart_configure m arg0 arg1 arg2 arg3 arg4 arg5 ssf =
     (z_vrfy ''uart_configure'' [A32 arg0, A32 arg1] Ret_word ssf)"

definition z_mrsh_uart_drv_cmd :: handler where
  "z_mrsh_uart_drv_cmd m arg0 arg1 arg2 arg3 arg4 arg5 ssf =
     (z_vrfy ''uart_drv_cmd'' [A32 arg0, A32 arg1, A32 arg2] Ret_word ssf)"

definition z_mrsh_uart_err_check :: handler where
  "z_mrsh_uart_err_check m arg0 arg1 arg2 arg3 arg4 arg5 ssf =
     (z_vrfy ''uart_err_check'' [A32 arg0] Ret_word ssf)"

definition z_mrsh_uart_irq_err_disable :: handler where
  "z_mrsh_uart_irq_err_disable m arg0 arg1 arg2 arg3 arg4 arg5 ssf =
     (z_vrfy ''uart_irq_err_disable'' [A32 arg0] Ret_void ssf)"

definition z_mrsh_uart_irq_err_enable :: handler where
  "z_mrsh_uart_irq_err_enable m arg0 arg1 arg2 arg3 arg4 arg5 ssf =
     (z_vrfy ''uart_irq_err_enable'' [A32 arg0] Ret_void ssf)"

definition z_mrsh_uart_irq_is_pending :: handler where
  "z_mrsh_uart_irq_is_pending m arg0 arg1 arg2 arg3 arg4 arg5 ssf =
     (z_vrfy ''uart_irq_is_pending'' [A32 arg0] Ret_word ssf)"

definition z_mrsh_uart_irq_rx_disable :: handler where
  "z_mrsh_uart_irq_rx_disable m arg0 arg1 arg2 arg3 arg4 arg5 ssf =
     (z_vrfy ''uart_irq_rx_disable'' [A32 arg0] Ret_void ssf)"

definition z_mrsh_uart_irq_rx_enable :: handler where
  "z_mrsh_uart_irq_rx_enable m arg0 arg1 arg2 arg3 arg4 arg5 ssf =
     (z_vrfy ''uart_irq_rx_enable'' [A32 arg0] Ret_void ssf)"

definition z_mrsh_uart_irq_tx_disable :: handler where
  "z_mrsh_uart_irq_tx_disable m arg0 arg1 arg2 arg3 arg4 arg5 ssf =
     (z_vrfy ''uart_irq_tx_disable'' [A32 arg0] Ret_void ssf)"

definition z_mrsh_uart_irq_tx_enable :: handler where
  "z_mrsh_uart_irq_tx_enable m arg0 arg1 arg2 arg3 arg4 arg5 ssf =
     (z_vrfy ''uart_irq_tx_enable'' [A32 arg0] Ret_void ssf)"

definition z_mrsh_uart_irq_update :: handler where
  "z_mrsh_uart_irq_update m arg0 arg1 arg2 arg3 arg4 arg5 ssf =
     (z_vrfy ''uart_irq_update'' [A32 arg0] Ret_word ssf)"

definition z_mrsh_uart_line_ctrl_get :: handler where
  "z_mrsh_uart_line_ctrl_get m arg0 arg1 arg2 arg3 arg4 arg5 ssf =
     (z_vrfy ''uart_line_ctrl_get'' [A32 arg0, A32 arg1, A32 arg2] Ret_word ssf)"

definition z_mrsh_uart_line_ctrl_set :: handler where
  "z_mrsh_uart_line_ctrl_set m arg0 arg1 arg2 arg3 arg4 arg5 ssf =
     (z_vrfy ''uart_line_ctrl_set'' [A32 arg0, A32 arg1, A32 arg2] Ret_word ssf)"

definition z_mrsh_uart_mux_find :: handler where
  "z_mrsh_uart_mux_find m arg0 arg1 arg2 arg3 arg4 arg5 ssf =
     (z_vrfy ''uart_mux_find'' [A32 arg0] Ret_word ssf)"

definition z_mrsh_uart_poll_in :: handler where
  "z_mrsh_uart_poll_in m arg0 arg1 arg2 arg3 arg4 arg5 ssf =
     (z_vrfy ''uart_poll_in'' [A32 arg0, A32 arg1] Ret_word ssf)"

definition z_mrsh_uart_poll_in_u16 :: handler where
  "z_mrsh_uart_poll_in_u16 m arg0 arg1 arg2 arg3 arg4 arg5 ssf =
     (z_vrfy ''uart_poll_in_u16'' [A32 arg0, A32 arg1] Ret_word ssf)"

definition z_mrsh_uart_poll_out :: handler where
  "z_mrsh_uart_poll_out m arg0 arg1 arg2 arg3 arg4 arg5 ssf =
     (z_vrfy ''uart_poll_out'' [A32 arg0, A8 (ucast arg1)] Ret_void ssf)"

definition z_mrsh_uart_poll_out_u16 :: handler where
  "z_mrsh_uart_poll_out_u16 m arg0 arg1 arg2 arg3 arg4 arg5 ssf =
     (z_vrfy ''uart_poll_out_u16'' [A32 arg0, A16 (ucast arg1)] Ret_void ssf)"

definition z_mrsh_uart_rx_disable :: handler where
  "z_mrsh_uart_rx_disable m arg0 arg1 arg2 arg3 arg4 arg5 ssf =
     (z_vrfy ''uart_rx_disable'' [A32 arg0] Ret_word ssf)"

definition z_mrsh_uart_rx_enable :: handler where
  "z_mrsh_uart_rx_enable m arg0 arg1 arg2 arg3 arg4 arg5 ssf =
     (z_vrfy ''uart_rx_enable'' [A32 arg0, A32 arg1, A32 arg2, A32 arg3] Ret_word ssf)"

definition z_mrsh_uart_rx_enable_u16 :: handler where
  "z_mrsh_uart_rx_enable_u16 m arg0 arg1 arg2 arg3 arg4 arg5 ssf =
     (z_vrfy ''uart_rx_enable_u16'' [A32 arg0, A32 arg1, A32 arg2, A32 arg3] Ret_word ssf)"

definition z_mrsh_uart_tx :: handler where
  "z_mrsh_uart_tx m arg0 arg1 arg2 arg3 arg4 arg5 ssf =
     (z_vrfy ''uart_tx'' [A32 arg0, A32 arg1, A32 arg2, A32 arg3] Ret_word ssf)"

definition z_mrsh_uart_tx_abort :: handler where
  "z_mrsh_uart_tx_abort m arg0 arg1 arg2 arg3 arg4 arg5 ssf =
     (z_vrfy ''uart_tx_abort'' [A32 arg0] Ret_word ssf)"

definition z_mrsh_uart_tx_u16 :: handler where
  "z_mrsh_uart_tx_u16 m arg0 arg1 arg2 arg3 arg4 arg5 ssf =
     (z_vrfy ''uart_tx_u16'' [A32 arg0, A32 arg1, A32 arg2, A32 arg3] Ret_word ssf)"

definition z_mrsh_user_fault :: handler where
  "z_mrsh_user_fault m arg0 arg1 arg2 arg3 arg4 arg5 ssf =
     (z_vrfy ''user_fault'' [A32 arg0] Ret_void ssf)"

definition z_mrsh_wdt_disable :: handler where
  "z_mrsh_wdt_disable m arg0 arg1 arg2 arg3 arg4 arg5 ssf =
     (z_vrfy ''wdt_disable'' [A32 arg0] Ret_word ssf)"

definition z_mrsh_wdt_feed :: handler where
  "z_mrsh_wdt_feed m arg0 arg1 arg2 arg3 arg4 arg5 ssf =
     (z_vrfy ''wdt_feed'' [A32 arg0, A32 arg1] Ret_word ssf)"

definition z_mrsh_wdt_setup :: handler where
  "z_mrsh_wdt_setup m arg0 arg1 arg2 arg3 arg4 arg5 ssf =
     (z_vrfy ''wdt_setup'' [A32 arg0, A8 (ucast arg1)] Ret_word ssf)"

definition z_mrsh_z_current_get :: handler where
  "z_mrsh_z_current_get m arg0 arg1 arg2 arg3 arg4 arg5 ssf =
     (z_vrfy ''z_current_get'' [] Ret_word ssf)"

definition z_mrsh_z_errno :: handler where
  "z_mrsh_z_errno m arg0 arg1 arg2 arg3 arg4 arg5 ssf =
     (z_vrfy ''z_errno'' [] Ret_word ssf)"

definition z_mrsh_z_log_hexdump_from_user :: handler where
  "z_mrsh_z_log_hexdump_from_user m arg0 arg1 arg2 arg3 arg4 arg5 ssf =
     (z_vrfy ''z_log_hexdump_from_user'' [A32 arg0, A32 arg1, A32 arg2, A32 arg3] Ret_void ssf)"

definition z_mrsh_z_log_string_from_user :: handler where
  "z_mrsh_z_log_string_from_user m arg0 arg1 arg2 arg3 arg4 arg5 ssf =
     (z_vrfy ''z_log_string_from_user'' [A32 arg0, A32 arg1] Ret_void ssf)"

definition z_mrsh_z_sys_mutex_kernel_lock :: handler where
  "z_mrsh_z_sys_mutex_kernel_lock m arg0 arg1 arg2 arg3 arg4 arg5 ssf =
     (let parm0 = join64 arg1 arg2 in z_vrfy ''z_sys_mutex_kernel_lock'' [A32 arg0, A64 parm0]
         Ret_word ssf)"

definition z_mrsh_z_sys_mutex_kernel_unlock :: handler where
  "z_mrsh_z_sys_mutex_kernel_unlock m arg0 arg1 arg2 arg3 arg4 arg5 ssf =
     (z_vrfy ''z_sys_mutex_kernel_unlock'' [A32 arg0] Ret_word ssf)"

definition z_mrsh_z_zsock_getaddrinfo_internal :: handler where
  "z_mrsh_z_zsock_getaddrinfo_internal m arg0 arg1 arg2 arg3 arg4 arg5 ssf =
     (z_vrfy ''z_zsock_getaddrinfo_internal'' [A32 arg0, A32 arg1, A32 arg2, A32 arg3] Ret_word
         ssf)"

definition z_mrsh_zephyr_fputc :: handler where
  "z_mrsh_zephyr_fputc m arg0 arg1 arg2 arg3 arg4 arg5 ssf =
     (z_vrfy ''zephyr_fputc'' [A32 arg0, A32 arg1] Ret_word ssf)"

definition z_mrsh_zephyr_read_stdin :: handler where
  "z_mrsh_zephyr_read_stdin m arg0 arg1 arg2 arg3 arg4 arg5 ssf =
     (z_vrfy ''zephyr_read_stdin'' [A32 arg0, A32 arg1] Ret_word ssf)"

definition z_mrsh_zephyr_write_stdout :: handler where
  "z_mrsh_zephyr_write_stdout m arg0 arg1 arg2 arg3 arg4 arg5 ssf =
     (z_vrfy ''zephyr_write_stdout'' [A32 arg0, A32 arg1] Ret_word ssf)"

definition z_mrsh_zsock_accept :: handler where
  "z_mrsh_zsock_accept m arg0 arg1 arg2 arg3 arg4 arg5 ssf =
     (z_vrfy ''zsock_accept'' [A32 arg0, A32 arg1, A32 arg2] Ret_word ssf)"

definition z_mrsh_zsock_bind :: handler where
  "z_mrsh_zsock_bind m arg0 arg1 arg2 arg3 arg4 arg5 ssf =
     (z_vrfy ''zsock_bind'' [A32 arg0, A32 arg1, A32 arg2] Ret_word ssf)"

definition z_mrsh_zsock_close :: handler where
  "z_mrsh_zsock_close m arg0 arg1 arg2 arg3 arg4 arg5 ssf =
     (z_vrfy ''zsock_close'' [A32 arg0] Ret_word ssf)"

definition z_mrsh_zsock_connect :: handler where
  "z_mrsh_zsock_connect m arg0 arg1 arg2 arg3 arg4 arg5 ssf =
     (z_vrfy ''zsock_connect'' [A32 arg0, A32 arg1, A32 arg2] Ret_word ssf)"

definition z_mrsh_zsock_fcntl :: handler where
  "z_mrsh_zsock_fcntl m arg0 arg1 arg2 arg3 arg4 arg5 ssf =
     (z_vrfy ''zsock_fcntl'' [A32 arg0, A32 arg1, A32 arg2] Ret_word ssf)"

definition z_mrsh_zsock_get_context_object :: handler where
  "z_mrsh_zsock_get_context_object m arg0 arg1 arg2 arg3 arg4 arg5 ssf =
     (z_vrfy ''zsock_get_context_object'' [A32 arg0] Ret_word ssf)"

definition z_mrsh_zsock_gethostname :: handler where
  "z_mrsh_zsock_gethostname m arg0 arg1 arg2 arg3 arg4 arg5 ssf =
     (z_vrfy ''zsock_gethostname'' [A32 arg0, A32 arg1] Ret_word ssf)"

definition z_mrsh_zsock_getsockname :: handler where
  "z_mrsh_zsock_getsockname m arg0 arg1 arg2 arg3 arg4 arg5 ssf =
     (z_vrfy ''zsock_getsockname'' [A32 arg0, A32 arg1, A32 arg2] Ret_word ssf)"

definition z_mrsh_zsock_getsockopt :: handler where
  "z_mrsh_zsock_getsockopt m arg0 arg1 arg2 arg3 arg4 arg5 ssf =
     (z_vrfy ''zsock_getsockopt'' [A32 arg0, A32 arg1, A32 arg2, A32 arg3, A32 arg4] Ret_word
         ssf)"

definition z_mrsh_zsock_listen :: handler where
  "z_mrsh_zsock_listen m arg0 arg1 arg2 arg3 arg4 arg5 ssf =
     (z_vrfy ''zsock_listen'' [A32 arg0, A32 arg1] Ret_word ssf)"

definition z_mrsh_zsock_poll :: handler where
  "z_mrsh_zsock_poll m arg0 arg1 arg2 arg3 arg4 arg5 ssf =
     (z_vrfy ''zsock_poll'' [A32 arg0, A32 arg1, A32 arg2] Ret_word ssf)"

definition z_mrsh_zsock_recvfrom :: handler where
  "z_mrsh_zsock_recvfrom m arg0 arg1 arg2 arg3 arg4 arg5 ssf =
     (z_vrfy ''zsock_recvfrom'' [A32 arg0, A32 arg1, A32 arg2, A32 arg3, A32 arg4, A32 arg5]
         Ret_word ssf)"

definition z_mrsh_zsock_select :: handler where
  "z_mrsh_zsock_select m arg0 arg1 arg2 arg3 arg4 arg5 ssf =
     (z_vrfy ''zsock_select'' [A32 arg0, A32 arg1, A32 arg2, A32 arg3, A32 arg4] Ret_word ssf)"

definition z_mrsh_zsock_sendmsg :: handler where
  "z_mrsh_zsock_sendmsg m arg0 arg1 arg2 arg3 arg4 arg5 ssf =
     (z_vrfy ''zsock_sendmsg'' [A32 arg0, A32 arg1, A32 arg2] Ret_word ssf)"

definition z_mrsh_zsock_sendto :: handler where
  "z_mrsh_zsock_sendto m arg0 arg1 arg2 arg3 arg4 arg5 ssf =
     (z_vrfy ''zsock_sendto'' [A32 arg0, A32 arg1, A32 arg2, A32 arg3, A32 arg4, A32 arg5]
         Ret_word ssf)"

definition z_mrsh_zsock_setsockopt :: handler where
  "z_mrsh_zsock_setsockopt m arg0 arg1 arg2 arg3 arg4 arg5 ssf =
     (z_vrfy ''zsock_setsockopt'' [A32 arg0, A32 arg1, A32 arg2, A32 arg3, A32 arg4] Ret_word
         ssf)"

definition z_mrsh_zsock_shutdown :: handler where
  "z_mrsh_zsock_shutdown m arg0 arg1 arg2 arg3 arg4 arg5 ssf =
     (z_vrfy ''zsock_shutdown'' [A32 arg0, A32 arg1] Ret_word ssf)"

definition z_mrsh_zsock_socket :: handler where
  "z_mrsh_zsock_socket m arg0 arg1 arg2 arg3 arg4 arg5 ssf =
     (z_vrfy ''zsock_socket'' [A32 arg0, A32 arg1, A32 arg2] Ret_word ssf)"

definition z_mrsh_zsock_socketpair :: handler where
  "z_mrsh_zsock_socketpair m arg0 arg1 arg2 arg3 arg4 arg5 ssf =
     (z_vrfy ''zsock_socketpair'' [A32 arg0, A32 arg1, A32 arg2, A32 arg3] Ret_word ssf)"

text \<open>The symbols these files define, with the functions they name.\<close>

definition mrsh_files_Z :: "(string \<times> handler) list" where
  "mrsh_files_Z = [
    (''z_mrsh_kscan_config'', z_mrsh_kscan_config),
    (''z_mrsh_kscan_disable_callback'', z_mrsh_kscan_disable_callback),
    (''z_mrsh_kscan_enable_callback'', z_mrsh_kscan_enable_callback),
    (''z_mrsh_led_blink'', z_mrsh_led_blink), (''z_mrsh_led_get_info'', z_mrsh_led_get_info),
    (''z_mrsh_led_off'', z_mrsh_led_off), (''z_mrsh_led_on'', z_mrsh_led_on),
    (''z_mrsh_led_set_brightness'', z_mrsh_led_set_brightness),
    (''z_mrsh_led_set_channel'', z_mrsh_led_set_channel),
    (''z_mrsh_led_set_color'', z_mrsh_led_set_color),
    (''z_mrsh_led_write_channels'', z_mrsh_led_write_channels),
    (''z_mrsh_log_buffered_cnt'', z_mrsh_log_buffered_cnt),
    (''z_mrsh_log_panic'', z_mrsh_log_panic), (''z_mrsh_log_process'', z_mrsh_log_process),
    (''z_mrsh_maxim_ds3231_get_syncpoint'', z_mrsh_maxim_ds3231_get_syncpoint),
    (''z_mrsh_maxim_ds3231_req_syncpoint'', z_mrsh_maxim_ds3231_req_syncpoint),
    (''z_mrsh_mbox_max_channels_get'', z_mrsh_mbox_max_channels_get),
    (''z_mrsh_mbox_mtu_get'', z_mrsh_mbox_mtu_get), (''z_mrsh_mbox_send'', z_mrsh_mbox_send),
    (''z_mrsh_mbox_set_enabled'', z_mrsh_mbox_set_enabled),
    (''z_mrsh_mdio_bus_disable'', z_mrsh_mdio_bus_disable),
    (''z_mrsh_mdio_bus_enable'', z_mrsh_mdio_bus_enable),
    (''z_mrsh_mdio_read'', z_mrsh_mdio_read), (''z_mrsh_mdio_write'', z_mrsh_mdio_write),
    (''z_mrsh_net_eth_get_ptp_clock_by_index'', z_mrsh_net_eth_get_ptp_clock_by_index),
    (''z_mrsh_net_if_get_by_index'', z_mrsh_net_if_get_by_index),
    (''z_mrsh_net_if_ipv4_addr_lookup_by_index'', z_mrsh_net_if_ipv4_addr_lookup_by_index),
    (''z_mrsh_net_if_ipv4_addr_rm_by_index'', z_mrsh_net_if_ipv4_addr_rm_by_index),
    (''z_mrsh_net_if_ipv4_set_gw_by_index'', z_mrsh_net_if_ipv4_set_gw_by_index),
    (''z_mrsh_net_if_ipv4_set_netmask_by_index'', z_mrsh_net_if_ipv4_set_netmask_by_index),
    (''z_mrsh_net_if_ipv6_addr_lookup_by_index'', z_mrsh_net_if_ipv6_addr_lookup_by_index),
    (''z_mrsh_net_if_ipv6_addr_rm_by_index'', z_mrsh_net_if_ipv6_addr_rm_by_index),
    (''z_mrsh_nrf_qspi_nor_base_clock_div_force'', z_mrsh_nrf_qspi_nor_base_clock_div_force),
    (''z_mrsh_peci_config'', z_mrsh_peci_config),
    (''z_mrsh_peci_disable'', z_mrsh_peci_disable),
    (''z_mrsh_peci_enable'', z_mrsh_peci_enable),
    (''z_mrsh_peci_transfer'', z_mrsh_peci_transfer),
    (''z_mrsh_phy_get_link_state'', z_mrsh_phy_get_link_state),
    (''z_mrsh_phy_link_callback_set'', z_mrsh_phy_link_callback_set),
    (''z_mrsh_phy_read'', z_mrsh_phy_read), (''z_mrsh_phy_write'', z_mrsh_phy_write),
    (''z_mrsh_ps2_config'', z_mrsh_ps2_config),
    (''z_mrsh_ps2_disable_callback'', z_mrsh_ps2_disable_callback),
    (''z_mrsh_ps2_enable_callback'', z_mrsh_ps2_enable_callback),
    (''z_mrsh_ps2_read'', z_mrsh_ps2_read), (''z_mrsh_ps2_write'', z_mrsh_ps2_write),
    (''z_mrsh_ptp_clock_get'', z_mrsh_ptp_clock_get),
    (''z_mrsh_pwm_get_cycles_per_sec'', z_mrsh_pwm_get_cycles_per_sec),
    (''z_mrsh_pwm_pin_disable_capture'', z_mrsh_pwm_pin_disable_capture),
    (''z_mrsh_pwm_pin_enable_capture'', z_mrsh_pwm_pin_enable_capture),
    (''z_mrsh_sensor_sample_fetch'', z_mrsh_sensor_sample_fetch),
    (''z_mrsh_spi_release'', z_mrsh_spi_release),
    (''z_mrsh_spi_transceive'', z_mrsh_spi_transceive),
    (''z_mrsh_sys_cache_data_all'', z_mrsh_sys_cache_data_all),
    (''z_mrsh_sys_cache_data_range'', z_mrsh_sys_cache_data_range),
    (''z_mrsh_sys_cache_instr_all'', z_mrsh_sys_cache_instr_all),
    (''z_mrsh_sys_cache_instr_range'', z_mrsh_sys_cache_instr_range),
    (''z_mrsh_sys_clock_hw_cycles_per_sec_runtime_get'', z_mrsh_sys_clock_hw_cycles_per_sec_runtime_get),
    (''z_mrsh_sys_csrand_get'', z_mrsh_sys_csrand_get),
    (''z_mrsh_sys_rand32_get'', z_mrsh_sys_rand32_get),
    (''z_mrsh_sys_rand_get'', z_mrsh_sys_rand_get),
    (''z_mrsh_syscon_get_base'', z_mrsh_syscon_get_base),
    (''z_mrsh_syscon_get_size'', z_mrsh_syscon_get_size),
    (''z_mrsh_syscon_read_reg'', z_mrsh_syscon_read_reg),
    (''z_mrsh_syscon_write_reg'', z_mrsh_syscon_write_reg),
    (''z_mrsh_uart_config_get'', z_mrsh_uart_config_get),
    (''z_mrsh_uart_configure'', z_mrsh_uart_configure),
    (''z_mrsh_uart_drv_cmd'', z_mrsh_uart_drv_cmd),
    (''z_mrsh_uart_err_check'', z_mrsh_uart_err_check),
    (''z_mrsh_uart_irq_err_disable'', z_mrsh_uart_irq_err_disable),
    (''z_mrsh_uart_irq_err_enable'', z_mrsh_uart_irq_err_enable),
    (''z_mrsh_uart_irq_is_pending'', z_mrsh_uart_irq_is_pending),
    (''z_mrsh_uart_irq_rx_disable'', z_mrsh_uart_irq_rx_disable),
    (''z_mrsh_uart_irq_rx_enable'', z_mrsh_uart_irq_rx_enable),
    (''z_mrsh_uart_irq_tx_disable'', z_mrsh_uart_irq_tx_disable),
    (''z_mrsh_uart_irq_tx_enable'', z_mrsh_uart_irq_tx_enable),
    (''z_mrsh_uart_irq_update'', z_mrsh_uart_irq_update),
    (''z_mrsh_uart_line_ctrl_get'', z_mrsh_uart_line_ctrl_get),
    (''z_mrsh_uart_line_ctrl_set'', z_mrsh_uart_line_ctrl_set),
    (''z_mrsh_uart_mux_find'', z_mrsh_uart_mux_find),
    (''z_mrsh_uart_poll_in'', z_mrsh_uart_poll_in),
    (''z_mrsh_uart_poll_in_u16'', z_mrsh_uart_poll_in_u16),
    (''z_mrsh_uart_poll_out'', z_mrsh_uart_poll_out),
    (''z_mrsh_uart_poll_out_u16'', z_mrsh_uart_poll_out_u16),
    (''z_mrsh_uart_rx_disable'', z_mrsh_uart_rx_disable),
    (''z_mrsh_uart_rx_enable'', z_mrsh_uart_rx_enable),
    (''z_mrsh_uart_rx_enable_u16'', z_mrsh_uart_rx_enable_u16),
    (''z_mrsh_uart_tx'', z_mrsh_uart_tx), (''z_mrsh_uart_tx_abort'', z_mrsh_uart_tx_abort),
    (''z_mrsh_uart_tx_u16'', z_mrsh_uart_tx_u16), (''z_mrsh_user_fault'', z_mrsh_user_fault),
    (''z_mrsh_wdt_disable'', z_mrsh_wdt_disable), (''z_mrsh_wdt_feed'', z_mrsh_wdt_feed),
    (''z_mrsh_wdt_setup'', z_mrsh_wdt_setup), (''z_mrsh_z_current_get'', z_mrsh_z_current_get),
    (''z_mrsh_z_errno'', z_mrsh_z_errno),
    (''z_mrsh_z_log_hexdump_from_user'', z_mrsh_z_log_hexdump_from_user),
    (''z_mrsh_z_log_string_from_user'', z_mrsh_z_log_string_from_user),
    (''z_mrsh_z_sys_mutex_kernel_lock'', z_mrsh_z_sys_mutex_kernel_lock),
    (''z_mrsh_z_sys_mutex_kernel_unlock'', z_mrsh_z_sys_mutex_kernel_unlock),
    (''z_mrsh_z_zsock_getaddrinfo_internal'', z_mrsh_z_zsock_getaddrinfo_internal),
    (''z_mrsh_zephyr_fputc'', z_mrsh_zephyr_fputc),
    (''z_mrsh_zephyr_read_stdin'', z_mrsh_zephyr_read_stdin),
    (''z_mrsh_zephyr_write_stdout'', z_mrsh_zephyr_write_stdout),
    (''z_mrsh_zsock_accept'', z_mrsh_zsock_accept), (''z_mrsh_zsock_bind'', z_mrsh_zsock_bind),
    (''z_mrsh_zsock_close'', z_mrsh_zsock_close),
    (''z_mrsh_zsock_connect'', z_mrsh_zsock_connect),
    (''z_mrsh_zsock_fcntl'', z_mrsh_zsock_fcntl),
    (''z_mrsh_zsock_get_context_object'', z_mrsh_zsock_get_context_object),
    (''z_mrsh_zsock_gethostname'', z_mrsh_zsock_gethostname),
    (''z_mrsh_zsock_getsockname'', z_mrsh_zsock_getsockname),
    (''z_mrsh_zsock_getsockopt'', z_mrsh_zsock_getsockopt),
    (''z_mrsh_zsock_listen'', z_mrsh_zsock_listen), (''z_mrsh_zsock_poll'', z_mrsh_zsock_poll),
    (''z_mrsh_zsock_recvfrom'', z_mrsh_zsock_recvfrom),
    (''z_mrsh_zsock_select'', z_mrsh_zsock_select),
    (''z_mrsh_zsock_sendmsg'', z_mrsh_zsock_sendmsg),
    (''z_mrsh_zsock_sendto'', z_mrsh_zsock_sendto),
    (''z_mrsh_zsock_setsockopt'', z_mrsh_zsock_setsockopt),
    (''z_mrsh_zsock_shutdown'', z_mrsh_zsock_shutdown),
    (''z_mrsh_zsock_socket'', z_mrsh_zsock_socket),
    (''z_mrsh_zsock_socketpair'', z_mrsh_zsock_socketpair)]"

lemmas mrsh_defs_Z =
  z_mrsh_kscan_config_def z_mrsh_kscan_disable_callback_def z_mrsh_kscan_enable_callback_def
  z_mrsh_led_blink_def z_mrsh_led_get_info_def z_mrsh_led_off_def z_mrsh_led_on_def
  z_mrsh_led_set_brightness_def z_mrsh_led_set_channel_def z_mrsh_led_set_color_def
  z_mrsh_led_write_channels_def z_mrsh_log_buffered_cnt_def z_mrsh_log_panic_def
  z_mrsh_log_process_def z_mrsh_maxim_ds3231_get_syncpoint_def
  z_mrsh_maxim_ds3231_req_syncpoint_def z_mrsh_mbox_max_channels_get_def z_mrsh_mbox_mtu_get_def
  z_mrsh_mbox_send_def z_mrsh_mbox_set_enabled_def z_mrsh_mdio_bus_disable_def
  z_mrsh_mdio_bus_enable_def z_mrsh_mdio_read_def z_mrsh_mdio_write_def
  z_mrsh_net_eth_get_ptp_clock_by_index_def z_mrsh_net_if_get_by_index_def
  z_mrsh_net_if_ipv4_addr_lookup_by_index_def z_mrsh_net_if_ipv4_addr_rm_by_index_def
  z_mrsh_net_if_ipv4_set_gw_by_index_def z_mrsh_net_if_ipv4_set_netmask_by_index_def
  z_mrsh_net_if_ipv6_addr_lookup_by_index_def z_mrsh_net_if_ipv6_addr_rm_by_index_def
  z_mrsh_nrf_qspi_nor_base_clock_div_force_def z_mrsh_peci_config_def z_mrsh_peci_disable_def
  z_mrsh_peci_enable_def z_mrsh_peci_transfer_def z_mrsh_phy_get_link_state_def
  z_mrsh_phy_link_callback_set_def z_mrsh_phy_read_def z_mrsh_phy_write_def
  z_mrsh_ps2_config_def z_mrsh_ps2_disable_callback_def z_mrsh_ps2_enable_callback_def
  z_mrsh_ps2_read_def z_mrsh_ps2_write_def z_mrsh_ptp_clock_get_def
  z_mrsh_pwm_get_cycles_per_sec_def z_mrsh_pwm_pin_disable_capture_def
  z_mrsh_pwm_pin_enable_capture_def z_mrsh_sensor_sample_fetch_def z_mrsh_spi_release_def
  z_mrsh_spi_transceive_def z_mrsh_sys_cache_data_all_def z_mrsh_sys_cache_data_range_def
  z_mrsh_sys_cache_instr_all_def z_mrsh_sys_cache_instr_range_def
  z_mrsh_sys_clock_hw_cycles_per_sec_runtime_get_def z_mrsh_sys_csrand_get_def
  z_mrsh_sys_rand32_get_def z_mrsh_sys_rand_get_def z_mrsh_syscon_get_base_def
  z_mrsh_syscon_get_size_def z_mrsh_syscon_read_reg_def z_mrsh_syscon_write_reg_def
  z_mrsh_uart_config_get_def z_mrsh_uart_configure_def z_mrsh_uart_drv_cmd_def
  z_mrsh_uart_err_check_def z_mrsh_uart_irq_err_disable_def z_mrsh_uart_irq_err_enable_def
  z_mrsh_uart_irq_is_pending_def z_mrsh_uart_irq_rx_disable_def z_mrsh_uart_irq_rx_enable_def
  z_mrsh_uart_irq_tx_disable_def z_mrsh_uart_irq_tx_enable_def z_mrsh_uart_irq_update_def
  z_mrsh_uart_line_ctrl_get_def z_mrsh_uart_line_ctrl_set_def z_mrsh_uart_mux_find_def
  z_mrsh_uart_poll_in_def z_mrsh_uart_poll_in_u16_def z_mrsh_uart_poll_out_def
  z_mrsh_uart_poll_out_u16_def z_mrsh_uart_rx_disable_def z_mrsh_uart_rx_enable_def
  z_mrsh_uart_rx_enable_u16_def z_mrsh_uart_tx_def z_mrsh_uart_tx_abort_def
  z_mrsh_uart_tx_u16_def z_mrsh_user_fault_def z_mrsh_wdt_disable_def z_mrsh_wdt_feed_def
  z_mrsh_wdt_setup_def z_mrsh_z_current_get_def z_mrsh_z_errno_def
  z_mrsh_z_log_hexdump_from_user_def z_mrsh_z_log_string_from_user_def
  z_mrsh_z_sys_mutex_kernel_lock_def z_mrsh_z_sys_mutex_kernel_unlock_def
  z_mrsh_z_zsock_getaddrinfo_internal_def z_mrsh_zephyr_fputc_def z_mrsh_zephyr_read_stdin_def
  z_mrsh_zephyr_write_stdout_def z_mrsh_zsock_accept_def z_mrsh_zsock_bind_def
  z_mrsh_zsock_close_def z_mrsh_zsock_connect_def z_mrsh_zsock_fcntl_def
  z_mrsh_zsock_get_context_object_def z_mrsh_zsock_gethostname_def z_mrsh_zsock_getsockname_def
  z_mrsh_zsock_getsockopt_def z_mrsh_zsock_listen_def z_mrsh_zsock_poll_def
  z_mrsh_zsock_recvfrom_def z_mrsh_zsock_select_def z_mrsh_zsock_sendmsg_def
  z_mrsh_zsock_sendto_def z_mrsh_zsock_setsockopt_def z_mrsh_zsock_shutdown_def
  z_mrsh_zsock_socket_def z_mrsh_zsock_socketpair_def

end
