(* ===== verification/SysSized.thy ===== *)
theory SysSized
  imports SysIds
begin

text \<open>
  The system calls with an argument of an enumeration type, of a typedef of Zephyr's headers, of
  the by-value structure of a log message or of the type \<open>va_list\<close>, and two calls of the
  same headers with qualified pointers.  How many bytes an enumeration or such a typedef
  takes is not settled in this repository (the compiler may choose the smallest type that holds
  the constants), so it is a parameter, the \<open>layout\<close>; a \<open>va_list\<close> is one word by the calling
  convention of the processor.
\<close>

section \<open>Arguments whose width is a parameter\<close>

datatype cwidth = W8 | W16 | W32

type_synonym layout = "string \<Rightarrow> cwidth"

text \<open>
  \<open>sized w x\<close>: the argument of width \<open>w\<close> whose bits are the low bits of \<open>x\<close>, which is also what an
  unmarshaller reads through a pointer to a type of that width; \<open>over_read w g x\<close>: the word a
  wrapper reads at such a parameter, with the bytes \<open>g\<close> beside it.
\<close>

fun sized :: "cwidth \<Rightarrow> u32 \<Rightarrow> carg" where
  "sized W8 x = A8 (ucast x)"
| "sized W16 x = A16 (ucast x)"
| "sized W32 x = A32 x"

fun over_read :: "cwidth \<Rightarrow> u32 \<Rightarrow> u32 \<Rightarrow> u32" where
  "over_read W8 g x = over_read8 g (ucast x)"
| "over_read W16 g x = over_read16 g (ucast x)"
| "over_read W32 g x = x"

lemma sized_over_read [marshalling]: "sized w (over_read w g x) = sized w x"
  by (cases w) (simp_all add: marshalling)

section \<open>The wrappers\<close>

definition can_set_mode :: "layout \<Rightarrow> user \<Rightarrow> u32 \<Rightarrow> u32
    \<Rightarrow> invocation" where
  "can_set_mode lay u dev mode =
     (if z_syscall_trap u
      then arch_syscall_invoke K_SYSCALL_CAN_SET_MODE [dev, over_read (lay ''enum can_mode'')
          (beyond u 1) mode] [] Ret_word
      else z_impl ''can_set_mode'' [A32 dev, sized (lay ''enum can_mode'') mode])"

definition can_get_max_filters :: "layout \<Rightarrow> user \<Rightarrow> u32 \<Rightarrow> u32
    \<Rightarrow> invocation" where
  "can_get_max_filters lay u dev id_type =
     (if z_syscall_trap u
      then arch_syscall_invoke K_SYSCALL_CAN_GET_MAX_FILTERS [dev, over_read (lay
          ''enum can_ide'') (beyond u 1) id_type] [] Ret_word
      else z_impl ''can_get_max_filters'' [A32 dev, sized (lay ''enum can_ide'') id_type])"

definition espi_get_channel_status :: "layout \<Rightarrow> user \<Rightarrow> u32 \<Rightarrow>
    u32 \<Rightarrow> invocation" where
  "espi_get_channel_status lay u dev ch =
     (if z_syscall_trap u
      then arch_syscall_invoke K_SYSCALL_ESPI_GET_CHANNEL_STATUS [dev, over_read (lay
          ''enum espi_channel'') (beyond u 1) ch] [] Ret_word
      else z_impl ''espi_get_channel_status'' [A32 dev, sized (lay ''enum espi_channel'') ch])"

definition espi_read_lpc_request :: "layout \<Rightarrow> user \<Rightarrow> u32 \<Rightarrow> u32
    \<Rightarrow> u32 \<Rightarrow> invocation" where
  "espi_read_lpc_request lay u dev op data' =
     (if z_syscall_trap u
      then arch_syscall_invoke K_SYSCALL_ESPI_READ_LPC_REQUEST [dev, over_read (lay
          ''enum lpc_peripheral_opcode'') (beyond u 1) op, data'] [] Ret_word
      else z_impl ''espi_read_lpc_request'' [A32 dev, sized (lay ''enum lpc_peripheral_opcode'')
          op, A32 data'])"

definition espi_write_lpc_request :: "layout \<Rightarrow> user \<Rightarrow> u32 \<Rightarrow>
    u32 \<Rightarrow> u32 \<Rightarrow> invocation" where
  "espi_write_lpc_request lay u dev op data' =
     (if z_syscall_trap u
      then arch_syscall_invoke K_SYSCALL_ESPI_WRITE_LPC_REQUEST [dev, over_read (lay
          ''enum lpc_peripheral_opcode'') (beyond u 1) op, data'] [] Ret_word
      else z_impl ''espi_write_lpc_request'' [A32 dev, sized (lay ''enum lpc_peripheral_opcode'')
          op, A32 data'])"

definition espi_send_vwire :: "layout \<Rightarrow> user \<Rightarrow> u32 \<Rightarrow> u32
    \<Rightarrow> u8 \<Rightarrow> invocation" where
  "espi_send_vwire lay u dev signal level =
     (if z_syscall_trap u
      then arch_syscall_invoke K_SYSCALL_ESPI_SEND_VWIRE [dev, over_read (lay
          ''enum espi_vwire_signal'') (beyond u 1) signal, over_read8 (beyond u 2) level] []
          Ret_word
      else z_impl ''espi_send_vwire'' [A32 dev, sized (lay ''enum espi_vwire_signal'') signal, A8
          level])"

definition espi_receive_vwire :: "layout \<Rightarrow> user \<Rightarrow> u32 \<Rightarrow> u32
    \<Rightarrow> u32 \<Rightarrow> invocation" where
  "espi_receive_vwire lay u dev signal level =
     (if z_syscall_trap u
      then arch_syscall_invoke K_SYSCALL_ESPI_RECEIVE_VWIRE [dev, over_read (lay
          ''enum espi_vwire_signal'') (beyond u 1) signal, level] [] Ret_word
      else z_impl ''espi_receive_vwire'' [A32 dev, sized (lay ''enum espi_vwire_signal'') signal,
          A32 level])"

definition gpio_pin_interrupt_configure :: "layout \<Rightarrow> user \<Rightarrow> u32
    \<Rightarrow> u32 \<Rightarrow> u32 \<Rightarrow> invocation" where
  "gpio_pin_interrupt_configure lay u port pin flags =
     (if z_syscall_trap u
      then arch_syscall_invoke K_SYSCALL_GPIO_PIN_INTERRUPT_CONFIGURE [port, over_read (lay
          ''gpio_pin_t'') (beyond u 1) pin, over_read (lay ''gpio_flags_t'') (beyond u 2) flags]
          [] Ret_word
      else z_impl ''gpio_pin_interrupt_configure'' [A32 port, sized (lay ''gpio_pin_t'') pin,
          sized (lay ''gpio_flags_t'') flags])"

definition gpio_pin_configure :: "layout \<Rightarrow> user \<Rightarrow> u32 \<Rightarrow> u32
    \<Rightarrow> u32 \<Rightarrow> invocation" where
  "gpio_pin_configure lay u port pin flags =
     (if z_syscall_trap u
      then arch_syscall_invoke K_SYSCALL_GPIO_PIN_CONFIGURE [port, over_read (lay ''gpio_pin_t'')
          (beyond u 1) pin, over_read (lay ''gpio_flags_t'') (beyond u 2) flags] [] Ret_word
      else z_impl ''gpio_pin_configure'' [A32 port, sized (lay ''gpio_pin_t'') pin, sized (lay
          ''gpio_flags_t'') flags])"

definition i2s_configure :: "layout \<Rightarrow> user \<Rightarrow> u32 \<Rightarrow> u32
    \<Rightarrow> u32 \<Rightarrow> invocation" where
  "i2s_configure lay u dev dir cfg =
     (if z_syscall_trap u
      then arch_syscall_invoke K_SYSCALL_I2S_CONFIGURE [dev, over_read (lay ''enum i2s_dir'')
          (beyond u 1) dir, cfg] [] Ret_word
      else z_impl ''i2s_configure'' [A32 dev, sized (lay ''enum i2s_dir'') dir, A32 cfg])"

definition i2s_trigger :: "layout \<Rightarrow> user \<Rightarrow> u32 \<Rightarrow> u32
    \<Rightarrow> u32 \<Rightarrow> invocation" where
  "i2s_trigger lay u dev dir cmd' =
     (if z_syscall_trap u
      then arch_syscall_invoke K_SYSCALL_I2S_TRIGGER [dev, over_read (lay ''enum i2s_dir'')
          (beyond u 1) dir, over_read (lay ''enum i2s_trigger_cmd'') (beyond u 2) cmd'] []
          Ret_word
      else z_impl ''i2s_trigger'' [A32 dev, sized (lay ''enum i2s_dir'') dir, sized (lay
          ''enum i2s_trigger_cmd'') cmd'])"

definition k_object_alloc :: "layout \<Rightarrow> user \<Rightarrow> u32 \<Rightarrow>
    invocation" where
  "k_object_alloc lay u otype =
     (if z_syscall_trap u
      then arch_syscall_invoke K_SYSCALL_K_OBJECT_ALLOC [over_read (lay ''enum k_objects'')
          (beyond u 0) otype] [] Ret_word
      else z_impl ''k_object_alloc'' [sized (lay ''enum k_objects'') otype])"

definition zephyr_fwrite :: "user \<Rightarrow> u32 \<Rightarrow> u32 \<Rightarrow> u32
    \<Rightarrow> u32 \<Rightarrow> invocation" where
  "zephyr_fwrite u ptr size' nitems stream =
     (if z_syscall_trap u
      then arch_syscall_invoke K_SYSCALL_ZEPHYR_FWRITE [ptr, size', nitems, stream] [] Ret_word
      else z_impl ''zephyr_fwrite'' [A32 ptr, A32 size', A32 nitems, A32 stream])"

definition log_filter_set :: "user \<Rightarrow> u32 \<Rightarrow> u32 \<Rightarrow> u16
    \<Rightarrow> u32 \<Rightarrow> invocation" where
  "log_filter_set u backend domain_id source_id level =
     (if z_syscall_trap u
      then arch_syscall_invoke K_SYSCALL_LOG_FILTER_SET [backend, domain_id, over_read16 (beyond u
          2) source_id, level] [] Ret_word
      else z_impl ''log_filter_set'' [A32 backend, A32 domain_id, A16 source_id, A32 level])"

definition z_log_msg2_static_create :: "layout \<Rightarrow> user \<Rightarrow> u32 \<Rightarrow>
    u32 \<Rightarrow> u32 \<Rightarrow> u32 \<Rightarrow> invocation" where
  "z_log_msg2_static_create lay u source desc package data' =
     (if z_syscall_trap u
      then arch_syscall_invoke K_SYSCALL_Z_LOG_MSG2_STATIC_CREATE [source, over_read (lay
          ''struct log_msg2_desc'') (beyond u 1) desc, package, data'] [] Ret_void
      else z_impl ''z_log_msg2_static_create'' [A32 source, sized (lay ''struct log_msg2_desc'')
          desc, A32 package, A32 data'])"

definition z_log_msg2_runtime_vcreate :: "user \<Rightarrow> u8 \<Rightarrow> u32 \<Rightarrow> u8
    \<Rightarrow> u32 \<Rightarrow> u32 \<Rightarrow> u32 \<Rightarrow> u32 \<Rightarrow>
    invocation" where
  "z_log_msg2_runtime_vcreate u domain_id source level data' dlen fmt ap =
     (if z_syscall_trap u
      then arch_syscall_invoke K_SYSCALL_Z_LOG_MSG2_RUNTIME_VCREATE [over_read8 (beyond u 0)
          domain_id, source, over_read8 (beyond u 2) level, data', dlen, frame u] [fmt, ap]
          Ret_void
      else z_impl ''z_log_msg2_runtime_vcreate'' [A8 domain_id, A32 source, A8 level, A32 data',
          A32 dlen, A32 fmt, A32 ap])"

definition net_if_ipv6_addr_add_by_index :: "layout \<Rightarrow> user \<Rightarrow> u32
    \<Rightarrow> u32 \<Rightarrow> u32 \<Rightarrow> u32 \<Rightarrow> invocation" where
  "net_if_ipv6_addr_add_by_index lay u index addr addr_type vlifetime =
     (if z_syscall_trap u
      then arch_syscall_invoke K_SYSCALL_NET_IF_IPV6_ADDR_ADD_BY_INDEX [index, addr, over_read
          (lay ''enum net_addr_type'') (beyond u 2) addr_type, vlifetime] [] Ret_word
      else z_impl ''net_if_ipv6_addr_add_by_index'' [A32 index, A32 addr, sized (lay
          ''enum net_addr_type'') addr_type, A32 vlifetime])"

definition net_if_ipv4_addr_add_by_index :: "layout \<Rightarrow> user \<Rightarrow> u32
    \<Rightarrow> u32 \<Rightarrow> u32 \<Rightarrow> u32 \<Rightarrow> invocation" where
  "net_if_ipv4_addr_add_by_index lay u index addr addr_type vlifetime =
     (if z_syscall_trap u
      then arch_syscall_invoke K_SYSCALL_NET_IF_IPV4_ADDR_ADD_BY_INDEX [index, addr, over_read
          (lay ''enum net_addr_type'') (beyond u 2) addr_type, vlifetime] [] Ret_word
      else z_impl ''net_if_ipv4_addr_add_by_index'' [A32 index, A32 addr, sized (lay
          ''enum net_addr_type'') addr_type, A32 vlifetime])"

definition net_addr_pton :: "layout \<Rightarrow> user \<Rightarrow> u32 \<Rightarrow> u32
    \<Rightarrow> u32 \<Rightarrow> invocation" where
  "net_addr_pton lay u family src dst =
     (if z_syscall_trap u
      then arch_syscall_invoke K_SYSCALL_NET_ADDR_PTON [over_read (lay ''sa_family_t'') (beyond u
          0) family, src, dst] [] Ret_word
      else z_impl ''net_addr_pton'' [sized (lay ''sa_family_t'') family, A32 src, A32 dst])"

definition net_addr_ntop :: "layout \<Rightarrow> user \<Rightarrow> u32 \<Rightarrow> u32
    \<Rightarrow> u32 \<Rightarrow> u32 \<Rightarrow> invocation" where
  "net_addr_ntop lay u family src dst size' =
     (if z_syscall_trap u
      then arch_syscall_invoke K_SYSCALL_NET_ADDR_NTOP [over_read (lay ''sa_family_t'') (beyond u
          0) family, src, dst, size'] [] Ret_word
      else z_impl ''net_addr_ntop'' [sized (lay ''sa_family_t'') family, A32 src, A32 dst, A32
          size'])"

definition phy_configure_link :: "layout \<Rightarrow> user \<Rightarrow> u32 \<Rightarrow> u32
    \<Rightarrow> invocation" where
  "phy_configure_link lay u dev speeds =
     (if z_syscall_trap u
      then arch_syscall_invoke K_SYSCALL_PHY_CONFIGURE_LINK [dev, over_read (lay
          ''enum phy_link_speed'') (beyond u 1) speeds] [] Ret_word
      else z_impl ''phy_configure_link'' [A32 dev, sized (lay ''enum phy_link_speed'') speeds])"

definition pwm_pin_set_cycles :: "layout \<Rightarrow> user \<Rightarrow> u32 \<Rightarrow> u32
    \<Rightarrow> u32 \<Rightarrow> u32 \<Rightarrow> u32 \<Rightarrow> invocation" where
  "pwm_pin_set_cycles lay u dev pwm period pulse flags =
     (if z_syscall_trap u
      then arch_syscall_invoke K_SYSCALL_PWM_PIN_SET_CYCLES [dev, pwm, period, pulse, over_read
          (lay ''pwm_flags_t'') (beyond u 4) flags] [] Ret_word
      else z_impl ''pwm_pin_set_cycles'' [A32 dev, A32 pwm, A32 period, A32 pulse, sized (lay
          ''pwm_flags_t'') flags])"

definition pwm_pin_capture_cycles :: "layout \<Rightarrow> user \<Rightarrow> u32 \<Rightarrow>
    u32 \<Rightarrow> u32 \<Rightarrow> u32 \<Rightarrow> u32 \<Rightarrow> u64 \<Rightarrow>
    invocation" where
  "pwm_pin_capture_cycles lay u dev pwm flags period pulse timeout =
     (if z_syscall_trap u
      then let parm0 = timeout in arch_syscall_invoke K_SYSCALL_PWM_PIN_CAPTURE_CYCLES [dev, pwm,
          over_read (lay ''pwm_flags_t'') (beyond u 2) flags, period, pulse, frame u] [lo32 parm0,
          hi32 parm0] Ret_word
      else z_impl ''pwm_pin_capture_cycles'' [A32 dev, A32 pwm, sized (lay ''pwm_flags_t'') flags,
          A32 period, A32 pulse, A64 timeout])"

definition sensor_attr_set :: "layout \<Rightarrow> user \<Rightarrow> u32 \<Rightarrow> u32
    \<Rightarrow> u32 \<Rightarrow> u32 \<Rightarrow> invocation" where
  "sensor_attr_set lay u dev chan attr val' =
     (if z_syscall_trap u
      then arch_syscall_invoke K_SYSCALL_SENSOR_ATTR_SET [dev, over_read (lay
          ''enum sensor_channel'') (beyond u 1) chan, over_read (lay ''enum sensor_attribute'')
          (beyond u 2) attr, val'] [] Ret_word
      else z_impl ''sensor_attr_set'' [A32 dev, sized (lay ''enum sensor_channel'') chan, sized
          (lay ''enum sensor_attribute'') attr, A32 val'])"

definition sensor_attr_get :: "layout \<Rightarrow> user \<Rightarrow> u32 \<Rightarrow> u32
    \<Rightarrow> u32 \<Rightarrow> u32 \<Rightarrow> invocation" where
  "sensor_attr_get lay u dev chan attr val' =
     (if z_syscall_trap u
      then arch_syscall_invoke K_SYSCALL_SENSOR_ATTR_GET [dev, over_read (lay
          ''enum sensor_channel'') (beyond u 1) chan, over_read (lay ''enum sensor_attribute'')
          (beyond u 2) attr, val'] [] Ret_word
      else z_impl ''sensor_attr_get'' [A32 dev, sized (lay ''enum sensor_channel'') chan, sized
          (lay ''enum sensor_attribute'') attr, A32 val'])"

definition sensor_sample_fetch_chan :: "layout \<Rightarrow> user \<Rightarrow> u32 \<Rightarrow>
    u32 \<Rightarrow> invocation" where
  "sensor_sample_fetch_chan lay u dev type =
     (if z_syscall_trap u
      then arch_syscall_invoke K_SYSCALL_SENSOR_SAMPLE_FETCH_CHAN [dev, over_read (lay
          ''enum sensor_channel'') (beyond u 1) type] [] Ret_word
      else z_impl ''sensor_sample_fetch_chan'' [A32 dev, sized (lay ''enum sensor_channel'')
          type])"

definition sensor_channel_get :: "layout \<Rightarrow> user \<Rightarrow> u32 \<Rightarrow> u32
    \<Rightarrow> u32 \<Rightarrow> invocation" where
  "sensor_channel_get lay u dev chan val' =
     (if z_syscall_trap u
      then arch_syscall_invoke K_SYSCALL_SENSOR_CHANNEL_GET [dev, over_read (lay
          ''enum sensor_channel'') (beyond u 1) chan, val'] [] Ret_word
      else z_impl ''sensor_channel_get'' [A32 dev, sized (lay ''enum sensor_channel'') chan, A32
          val'])"

definition zsock_inet_pton :: "layout \<Rightarrow> user \<Rightarrow> u32 \<Rightarrow> u32
    \<Rightarrow> u32 \<Rightarrow> invocation" where
  "zsock_inet_pton lay u family src dst =
     (if z_syscall_trap u
      then arch_syscall_invoke K_SYSCALL_ZSOCK_INET_PTON [over_read (lay ''sa_family_t'') (beyond
          u 0) family, src, dst] [] Ret_word
      else z_impl ''zsock_inet_pton'' [sized (lay ''sa_family_t'') family, A32 src, A32 dst])"

section \<open>The unmarshallers\<close>

definition z_mrsh_can_get_max_filters :: "layout \<Rightarrow> handler" where
  "z_mrsh_can_get_max_filters lay m arg0 arg1 arg2 arg3 arg4 arg5 ssf =
     (z_vrfy ''can_get_max_filters'' [A32 arg0, sized (lay ''enum can_ide'') arg1] Ret_word ssf)"

definition z_mrsh_can_set_mode :: "layout \<Rightarrow> handler" where
  "z_mrsh_can_set_mode lay m arg0 arg1 arg2 arg3 arg4 arg5 ssf =
     (z_vrfy ''can_set_mode'' [A32 arg0, sized (lay ''enum can_mode'') arg1] Ret_word ssf)"

definition z_mrsh_espi_get_channel_status :: "layout \<Rightarrow> handler" where
  "z_mrsh_espi_get_channel_status lay m arg0 arg1 arg2 arg3 arg4 arg5 ssf =
     (z_vrfy ''espi_get_channel_status'' [A32 arg0, sized (lay ''enum espi_channel'') arg1]
         Ret_word ssf)"

definition z_mrsh_espi_read_lpc_request :: "layout \<Rightarrow> handler" where
  "z_mrsh_espi_read_lpc_request lay m arg0 arg1 arg2 arg3 arg4 arg5 ssf =
     (z_vrfy ''espi_read_lpc_request'' [A32 arg0, sized (lay ''enum lpc_peripheral_opcode'') arg1,
         A32 arg2] Ret_word ssf)"

definition z_mrsh_espi_receive_vwire :: "layout \<Rightarrow> handler" where
  "z_mrsh_espi_receive_vwire lay m arg0 arg1 arg2 arg3 arg4 arg5 ssf =
     (z_vrfy ''espi_receive_vwire'' [A32 arg0, sized (lay ''enum espi_vwire_signal'') arg1, A32
         arg2] Ret_word ssf)"

definition z_mrsh_espi_send_vwire :: "layout \<Rightarrow> handler" where
  "z_mrsh_espi_send_vwire lay m arg0 arg1 arg2 arg3 arg4 arg5 ssf =
     (z_vrfy ''espi_send_vwire'' [A32 arg0, sized (lay ''enum espi_vwire_signal'') arg1, A8 (ucast
         arg2)] Ret_word ssf)"

definition z_mrsh_espi_write_lpc_request :: "layout \<Rightarrow> handler" where
  "z_mrsh_espi_write_lpc_request lay m arg0 arg1 arg2 arg3 arg4 arg5 ssf =
     (z_vrfy ''espi_write_lpc_request'' [A32 arg0, sized (lay ''enum lpc_peripheral_opcode'')
         arg1, A32 arg2] Ret_word ssf)"

definition z_mrsh_gpio_pin_configure :: "layout \<Rightarrow> handler" where
  "z_mrsh_gpio_pin_configure lay m arg0 arg1 arg2 arg3 arg4 arg5 ssf =
     (z_vrfy ''gpio_pin_configure'' [A32 arg0, sized (lay ''gpio_pin_t'') arg1, sized (lay
         ''gpio_flags_t'') arg2] Ret_word ssf)"

definition z_mrsh_gpio_pin_interrupt_configure :: "layout \<Rightarrow> handler" where
  "z_mrsh_gpio_pin_interrupt_configure lay m arg0 arg1 arg2 arg3 arg4 arg5 ssf =
     (z_vrfy ''gpio_pin_interrupt_configure'' [A32 arg0, sized (lay ''gpio_pin_t'') arg1, sized
         (lay ''gpio_flags_t'') arg2] Ret_word ssf)"

definition z_mrsh_i2s_configure :: "layout \<Rightarrow> handler" where
  "z_mrsh_i2s_configure lay m arg0 arg1 arg2 arg3 arg4 arg5 ssf =
     (z_vrfy ''i2s_configure'' [A32 arg0, sized (lay ''enum i2s_dir'') arg1, A32 arg2] Ret_word
         ssf)"

definition z_mrsh_i2s_trigger :: "layout \<Rightarrow> handler" where
  "z_mrsh_i2s_trigger lay m arg0 arg1 arg2 arg3 arg4 arg5 ssf =
     (z_vrfy ''i2s_trigger'' [A32 arg0, sized (lay ''enum i2s_dir'') arg1, sized (lay
         ''enum i2s_trigger_cmd'') arg2] Ret_word ssf)"

definition z_mrsh_k_object_alloc :: "layout \<Rightarrow> handler" where
  "z_mrsh_k_object_alloc lay m arg0 arg1 arg2 arg3 arg4 arg5 ssf =
     (z_vrfy ''k_object_alloc'' [sized (lay ''enum k_objects'') arg0] Ret_word ssf)"

definition z_mrsh_log_filter_set :: "handler" where
  "z_mrsh_log_filter_set m arg0 arg1 arg2 arg3 arg4 arg5 ssf =
     (z_vrfy ''log_filter_set'' [A32 arg0, A32 arg1, A16 (ucast arg2), A32 arg3] Ret_word ssf)"

definition z_mrsh_net_addr_ntop :: "layout \<Rightarrow> handler" where
  "z_mrsh_net_addr_ntop lay m arg0 arg1 arg2 arg3 arg4 arg5 ssf =
     (z_vrfy ''net_addr_ntop'' [sized (lay ''sa_family_t'') arg0, A32 arg1, A32 arg2, A32 arg3]
         Ret_word ssf)"

definition z_mrsh_net_addr_pton :: "layout \<Rightarrow> handler" where
  "z_mrsh_net_addr_pton lay m arg0 arg1 arg2 arg3 arg4 arg5 ssf =
     (z_vrfy ''net_addr_pton'' [sized (lay ''sa_family_t'') arg0, A32 arg1, A32 arg2] Ret_word
         ssf)"

definition z_mrsh_net_if_ipv4_addr_add_by_index :: "layout \<Rightarrow> handler" where
  "z_mrsh_net_if_ipv4_addr_add_by_index lay m arg0 arg1 arg2 arg3 arg4 arg5 ssf =
     (z_vrfy ''net_if_ipv4_addr_add_by_index'' [A32 arg0, A32 arg1, sized (lay
         ''enum net_addr_type'') arg2, A32 arg3] Ret_word ssf)"

definition z_mrsh_net_if_ipv6_addr_add_by_index :: "layout \<Rightarrow> handler" where
  "z_mrsh_net_if_ipv6_addr_add_by_index lay m arg0 arg1 arg2 arg3 arg4 arg5 ssf =
     (z_vrfy ''net_if_ipv6_addr_add_by_index'' [A32 arg0, A32 arg1, sized (lay
         ''enum net_addr_type'') arg2, A32 arg3] Ret_word ssf)"

definition z_mrsh_phy_configure_link :: "layout \<Rightarrow> handler" where
  "z_mrsh_phy_configure_link lay m arg0 arg1 arg2 arg3 arg4 arg5 ssf =
     (z_vrfy ''phy_configure_link'' [A32 arg0, sized (lay ''enum phy_link_speed'') arg1] Ret_word
         ssf)"

definition z_mrsh_pwm_pin_capture_cycles :: "layout \<Rightarrow> handler" where
  "z_mrsh_pwm_pin_capture_cycles lay m arg0 arg1 arg2 arg3 arg4 arg5 ssf =
     (Z_SYSCALL_MEMORY_READ m arg5 (1 * 4)
       (let parm0 = join64 (word_at m arg5 0) (word_at m arg5 1) in z_vrfy
           ''pwm_pin_capture_cycles'' [A32 arg0, A32 arg1, sized (lay ''pwm_flags_t'') arg2, A32
           arg3, A32 arg4, A64 parm0] Ret_word ssf))"

definition z_mrsh_pwm_pin_set_cycles :: "layout \<Rightarrow> handler" where
  "z_mrsh_pwm_pin_set_cycles lay m arg0 arg1 arg2 arg3 arg4 arg5 ssf =
     (z_vrfy ''pwm_pin_set_cycles'' [A32 arg0, A32 arg1, A32 arg2, A32 arg3, sized (lay
         ''pwm_flags_t'') arg4] Ret_word ssf)"

definition z_mrsh_sensor_attr_get :: "layout \<Rightarrow> handler" where
  "z_mrsh_sensor_attr_get lay m arg0 arg1 arg2 arg3 arg4 arg5 ssf =
     (z_vrfy ''sensor_attr_get'' [A32 arg0, sized (lay ''enum sensor_channel'') arg1, sized (lay
         ''enum sensor_attribute'') arg2, A32 arg3] Ret_word ssf)"

definition z_mrsh_sensor_attr_set :: "layout \<Rightarrow> handler" where
  "z_mrsh_sensor_attr_set lay m arg0 arg1 arg2 arg3 arg4 arg5 ssf =
     (z_vrfy ''sensor_attr_set'' [A32 arg0, sized (lay ''enum sensor_channel'') arg1, sized (lay
         ''enum sensor_attribute'') arg2, A32 arg3] Ret_word ssf)"

definition z_mrsh_sensor_channel_get :: "layout \<Rightarrow> handler" where
  "z_mrsh_sensor_channel_get lay m arg0 arg1 arg2 arg3 arg4 arg5 ssf =
     (z_vrfy ''sensor_channel_get'' [A32 arg0, sized (lay ''enum sensor_channel'') arg1, A32 arg2]
         Ret_word ssf)"

definition z_mrsh_sensor_sample_fetch_chan :: "layout \<Rightarrow> handler" where
  "z_mrsh_sensor_sample_fetch_chan lay m arg0 arg1 arg2 arg3 arg4 arg5 ssf =
     (z_vrfy ''sensor_sample_fetch_chan'' [A32 arg0, sized (lay ''enum sensor_channel'') arg1]
         Ret_word ssf)"

definition z_mrsh_z_log_msg2_runtime_vcreate :: "handler" where
  "z_mrsh_z_log_msg2_runtime_vcreate m arg0 arg1 arg2 arg3 arg4 arg5 ssf =
     (Z_SYSCALL_MEMORY_READ m arg5 (1 * 4)
       (z_vrfy ''z_log_msg2_runtime_vcreate'' [A8 (ucast arg0), A32 arg1, A8 (ucast arg2), A32
           arg3, A32 arg4, A32 (word_at m arg5 0), A32 (word_at m arg5 1)] Ret_void ssf))"

definition z_mrsh_z_log_msg2_static_create :: "layout \<Rightarrow> handler" where
  "z_mrsh_z_log_msg2_static_create lay m arg0 arg1 arg2 arg3 arg4 arg5 ssf =
     (z_vrfy ''z_log_msg2_static_create'' [A32 arg0, sized (lay ''struct log_msg2_desc'') arg1,
         A32 arg2, A32 arg3] Ret_void ssf)"

definition z_mrsh_zephyr_fwrite :: "handler" where
  "z_mrsh_zephyr_fwrite m arg0 arg1 arg2 arg3 arg4 arg5 ssf =
     (z_vrfy ''zephyr_fwrite'' [A32 arg0, A32 arg1, A32 arg2, A32 arg3] Ret_word ssf)"

definition z_mrsh_zsock_inet_pton :: "layout \<Rightarrow> handler" where
  "z_mrsh_zsock_inet_pton lay m arg0 arg1 arg2 arg3 arg4 arg5 ssf =
     (z_vrfy ''zsock_inet_pton'' [sized (lay ''sa_family_t'') arg0, A32 arg1, A32 arg2] Ret_word
         ssf)"

text \<open>The symbols these files define, with the functions they name.\<close>

definition mrsh_files_sized :: "layout \<Rightarrow> (string \<times> handler) list" where
  "mrsh_files_sized lay = [
    (''z_mrsh_can_get_max_filters'', z_mrsh_can_get_max_filters lay),
    (''z_mrsh_can_set_mode'', z_mrsh_can_set_mode lay),
    (''z_mrsh_espi_get_channel_status'', z_mrsh_espi_get_channel_status lay),
    (''z_mrsh_espi_read_lpc_request'', z_mrsh_espi_read_lpc_request lay),
    (''z_mrsh_espi_receive_vwire'', z_mrsh_espi_receive_vwire lay),
    (''z_mrsh_espi_send_vwire'', z_mrsh_espi_send_vwire lay),
    (''z_mrsh_espi_write_lpc_request'', z_mrsh_espi_write_lpc_request lay),
    (''z_mrsh_gpio_pin_configure'', z_mrsh_gpio_pin_configure lay),
    (''z_mrsh_gpio_pin_interrupt_configure'', z_mrsh_gpio_pin_interrupt_configure lay),
    (''z_mrsh_i2s_configure'', z_mrsh_i2s_configure lay),
    (''z_mrsh_i2s_trigger'', z_mrsh_i2s_trigger lay),
    (''z_mrsh_k_object_alloc'', z_mrsh_k_object_alloc lay),
    (''z_mrsh_log_filter_set'', z_mrsh_log_filter_set),
    (''z_mrsh_net_addr_ntop'', z_mrsh_net_addr_ntop lay),
    (''z_mrsh_net_addr_pton'', z_mrsh_net_addr_pton lay),
    (''z_mrsh_net_if_ipv4_addr_add_by_index'', z_mrsh_net_if_ipv4_addr_add_by_index lay),
    (''z_mrsh_net_if_ipv6_addr_add_by_index'', z_mrsh_net_if_ipv6_addr_add_by_index lay),
    (''z_mrsh_phy_configure_link'', z_mrsh_phy_configure_link lay),
    (''z_mrsh_pwm_pin_capture_cycles'', z_mrsh_pwm_pin_capture_cycles lay),
    (''z_mrsh_pwm_pin_set_cycles'', z_mrsh_pwm_pin_set_cycles lay),
    (''z_mrsh_sensor_attr_get'', z_mrsh_sensor_attr_get lay),
    (''z_mrsh_sensor_attr_set'', z_mrsh_sensor_attr_set lay),
    (''z_mrsh_sensor_channel_get'', z_mrsh_sensor_channel_get lay),
    (''z_mrsh_sensor_sample_fetch_chan'', z_mrsh_sensor_sample_fetch_chan lay),
    (''z_mrsh_z_log_msg2_runtime_vcreate'', z_mrsh_z_log_msg2_runtime_vcreate),
    (''z_mrsh_z_log_msg2_static_create'', z_mrsh_z_log_msg2_static_create lay),
    (''z_mrsh_zephyr_fwrite'', z_mrsh_zephyr_fwrite),
    (''z_mrsh_zsock_inet_pton'', z_mrsh_zsock_inet_pton lay)]"

lemmas mrsh_defs_sized =
  z_mrsh_can_get_max_filters_def z_mrsh_can_set_mode_def z_mrsh_espi_get_channel_status_def
  z_mrsh_espi_read_lpc_request_def z_mrsh_espi_receive_vwire_def z_mrsh_espi_send_vwire_def
  z_mrsh_espi_write_lpc_request_def z_mrsh_gpio_pin_configure_def
  z_mrsh_gpio_pin_interrupt_configure_def z_mrsh_i2s_configure_def z_mrsh_i2s_trigger_def
  z_mrsh_k_object_alloc_def z_mrsh_log_filter_set_def z_mrsh_net_addr_ntop_def
  z_mrsh_net_addr_pton_def z_mrsh_net_if_ipv4_addr_add_by_index_def
  z_mrsh_net_if_ipv6_addr_add_by_index_def z_mrsh_phy_configure_link_def
  z_mrsh_pwm_pin_capture_cycles_def z_mrsh_pwm_pin_set_cycles_def z_mrsh_sensor_attr_get_def
  z_mrsh_sensor_attr_set_def z_mrsh_sensor_channel_get_def z_mrsh_sensor_sample_fetch_chan_def
  z_mrsh_z_log_msg2_runtime_vcreate_def z_mrsh_z_log_msg2_static_create_def
  z_mrsh_zephyr_fwrite_def z_mrsh_zsock_inet_pton_def

section \<open>The calls\<close>

text \<open>
  \<open>sized_call lay u name args call\<close>: the wrapper of the system call \<open>name\<close>, called in the context \<open>u\<close>
  with the arguments \<open>args\<close>, makes the invocation \<open>call\<close>.
\<close>

inductive sized_call :: "layout \<Rightarrow> user \<Rightarrow> string \<Rightarrow> carg list \<Rightarrow> invocation \<Rightarrow> bool" for lay u where
  "sized_call lay u ''can_set_mode'' [A32 a, sized (lay ''enum can_mode'') b] (can_set_mode lay u
      a b)"
| "sized_call lay u ''can_get_max_filters'' [A32 a, sized (lay ''enum can_ide'') b]
      (can_get_max_filters lay u a b)"
| "sized_call lay u ''espi_get_channel_status'' [A32 a, sized (lay ''enum espi_channel'') b]
      (espi_get_channel_status lay u a b)"
| "sized_call lay u ''espi_read_lpc_request'' [A32 a, sized (lay ''enum lpc_peripheral_opcode'')
      b, A32 c] (espi_read_lpc_request lay u a b c)"
| "sized_call lay u ''espi_write_lpc_request'' [A32 a, sized (lay ''enum lpc_peripheral_opcode'')
      b, A32 c] (espi_write_lpc_request lay u a b c)"
| "sized_call lay u ''espi_send_vwire'' [A32 a, sized (lay ''enum espi_vwire_signal'') b, A8 c]
      (espi_send_vwire lay u a b c)"
| "sized_call lay u ''espi_receive_vwire'' [A32 a, sized (lay ''enum espi_vwire_signal'') b, A32
      c] (espi_receive_vwire lay u a b c)"
| "sized_call lay u ''gpio_pin_interrupt_configure'' [A32 a, sized (lay ''gpio_pin_t'') b, sized
      (lay ''gpio_flags_t'') c] (gpio_pin_interrupt_configure lay u a b c)"
| "sized_call lay u ''gpio_pin_configure'' [A32 a, sized (lay ''gpio_pin_t'') b, sized (lay
      ''gpio_flags_t'') c] (gpio_pin_configure lay u a b c)"
| "sized_call lay u ''i2s_configure'' [A32 a, sized (lay ''enum i2s_dir'') b, A32 c]
      (i2s_configure lay u a b c)"
| "sized_call lay u ''i2s_trigger'' [A32 a, sized (lay ''enum i2s_dir'') b, sized (lay
      ''enum i2s_trigger_cmd'') c] (i2s_trigger lay u a b c)"
| "sized_call lay u ''k_object_alloc'' [sized (lay ''enum k_objects'') a] (k_object_alloc lay u
      a)"
| "sized_call lay u ''zephyr_fwrite'' [A32 a, A32 b, A32 c, A32 d] (zephyr_fwrite u a b c d)"
| "sized_call lay u ''log_filter_set'' [A32 a, A32 b, A16 c, A32 d] (log_filter_set u a b c d)"
| "sized_call lay u ''z_log_msg2_static_create'' [A32 a, sized (lay ''struct log_msg2_desc'') b,
      A32 c, A32 d] (z_log_msg2_static_create lay u a b c d)"
| "sized_call lay u ''z_log_msg2_runtime_vcreate'' [A8 a, A32 b, A8 c, A32 d, A32 e, A32 f, A32 g]
      (z_log_msg2_runtime_vcreate u a b c d e f g)"
| "sized_call lay u ''net_if_ipv6_addr_add_by_index'' [A32 a, A32 b, sized (lay
      ''enum net_addr_type'') c, A32 d] (net_if_ipv6_addr_add_by_index lay u a b c d)"
| "sized_call lay u ''net_if_ipv4_addr_add_by_index'' [A32 a, A32 b, sized (lay
      ''enum net_addr_type'') c, A32 d] (net_if_ipv4_addr_add_by_index lay u a b c d)"
| "sized_call lay u ''net_addr_pton'' [sized (lay ''sa_family_t'') a, A32 b, A32 c] (net_addr_pton
      lay u a b c)"
| "sized_call lay u ''net_addr_ntop'' [sized (lay ''sa_family_t'') a, A32 b, A32 c, A32 d]
      (net_addr_ntop lay u a b c d)"
| "sized_call lay u ''phy_configure_link'' [A32 a, sized (lay ''enum phy_link_speed'') b]
      (phy_configure_link lay u a b)"
| "sized_call lay u ''pwm_pin_set_cycles'' [A32 a, A32 b, A32 c, A32 d, sized (lay
      ''pwm_flags_t'') e] (pwm_pin_set_cycles lay u a b c d e)"
| "sized_call lay u ''pwm_pin_capture_cycles'' [A32 a, A32 b, sized (lay ''pwm_flags_t'') c, A32
      d, A32 e, A64 f] (pwm_pin_capture_cycles lay u a b c d e f)"
| "sized_call lay u ''sensor_attr_set'' [A32 a, sized (lay ''enum sensor_channel'') b, sized (lay
      ''enum sensor_attribute'') c, A32 d] (sensor_attr_set lay u a b c d)"
| "sized_call lay u ''sensor_attr_get'' [A32 a, sized (lay ''enum sensor_channel'') b, sized (lay
      ''enum sensor_attribute'') c, A32 d] (sensor_attr_get lay u a b c d)"
| "sized_call lay u ''sensor_sample_fetch_chan'' [A32 a, sized (lay ''enum sensor_channel'') b]
      (sensor_sample_fetch_chan lay u a b)"
| "sized_call lay u ''sensor_channel_get'' [A32 a, sized (lay ''enum sensor_channel'') b, A32 c]
      (sensor_channel_get lay u a b c)"
| "sized_call lay u ''zsock_inet_pton'' [sized (lay ''sa_family_t'') a, A32 b, A32 c]
      (zsock_inet_pton lay u a b c)"

lemmas sized_wrappers =
  can_set_mode_def can_get_max_filters_def espi_get_channel_status_def espi_read_lpc_request_def
  espi_write_lpc_request_def espi_send_vwire_def espi_receive_vwire_def
  gpio_pin_interrupt_configure_def gpio_pin_configure_def i2s_configure_def i2s_trigger_def
  k_object_alloc_def zephyr_fwrite_def log_filter_set_def z_log_msg2_static_create_def
  z_log_msg2_runtime_vcreate_def net_if_ipv6_addr_add_by_index_def
  net_if_ipv4_addr_add_by_index_def net_addr_pton_def net_addr_ntop_def phy_configure_link_def
  pwm_pin_set_cycles_def pwm_pin_capture_cycles_def sensor_attr_set_def sensor_attr_get_def
  sensor_sample_fetch_chan_def sensor_channel_get_def zsock_inet_pton_def

end
