(* ===== verification/SysDispatch.thy ===== *)
theory SysDispatch
  imports SysCallsKernel SysCallsServices SysCallsNetwork SysCallsDrivers SysMrshA SysMrshK SysMrshZ
    SysSized
    "HOL-Library.Char_ord" "HOL-Library.List_Lexorder"
begin

text \<open>
  A system call from end to end: the trap delivers the wrapper's words to the kernel, the
  dispatcher looks the number up in \<open>_k_syscall_table\<close>, the linker has resolved the entry to a
  generated unmarshaller or to its weak default, and the unmarshaller calls the verifier.
\<close>

section \<open>Linking and dispatch\<close>

text \<open>
  \<open>resolve linked h\<close>: the function the symbol \<open>h\<close> stands for in a program linked from objects that
  define the symbols \<open>linked\<close>.  A strong definition wins over the weak alias of
  \<open>syscall_dispatch.c\<close>.
\<close>

definition handler_no_syscall :: handler where
  "handler_no_syscall m arg0 arg1 arg2 arg3 arg4 arg5 ssf = No_syscall"

definition handler_bad_syscall :: handler where
  "handler_bad_syscall m arg0 arg1 arg2 arg3 arg4 arg5 ssf = Bad_syscall"

definition resolve :: "(string \<times> handler) list \<Rightarrow> string \<Rightarrow> handler option" where
  "resolve linked h =
     (case map_of linked h of
        Some f \<Rightarrow> Some f
      | None \<Rightarrow>
          if h \<in> set weak_handlers then Some handler_no_syscall
          else if h = ''handler_bad_syscall'' then Some handler_bad_syscall else None)"

text \<open>
  The call \<open>_k_syscall_table[n](r0, \<dots>, r5, ssf)\<close> the trap handler makes.
\<close>

definition dispatch :: "(string \<times> handler) list \<Rightarrow> kmem \<Rightarrow> id \<Rightarrow> (nat \<Rightarrow> u32) \<Rightarrow> u32 \<Rightarrow> outcome" where
  "dispatch linked m n r ssf =
     (case map_of k_syscall_table n of
        None \<Rightarrow> Unresolved
      | Some h \<Rightarrow>
          (case resolve linked h of
             None \<Rightarrow> Unresolved
           | Some f \<Rightarrow> f m (r 0) (r 1) (r 2) (r 3) (r 4) (r 5) ssf))"

text \<open>
  What the trap and the memory protection provide, as the architecture's code documents it: the
  words are in the registers they were given to, the words of \<open>more\<close> are in the caller's frame,
  which the caller may read, and a result object in it may be written.
\<close>

fun carries :: "(nat \<Rightarrow> u32) \<Rightarrow> nat \<Rightarrow> u32 list \<Rightarrow> bool" where
  "carries r k [] \<longleftrightarrow> True"
| "carries r k (w # ws) \<longleftrightarrow> r k = w \<and> carries r (k + 1) ws"

fun trap_delivers :: "user \<Rightarrow> invocation \<Rightarrow> kmem \<Rightarrow> (nat \<Rightarrow> u32) \<Rightarrow> bool" where
  "trap_delivers u (Impl name args) m r \<longleftrightarrow> False"
| "trap_delivers u (Svc n ws extra rm) m r \<longleftrightarrow>
     carries r 0 ws \<and> carries (word_at m (frame u)) 0 extra \<and>
     can_read m (frame u) (4 * length extra) \<and>
     (case rm of Ret_mem p \<Rightarrow> can_write m p 8 | _ \<Rightarrow> True)"

fun trap :: "(string \<times> handler) list \<Rightarrow> kmem \<Rightarrow> invocation \<Rightarrow> (nat \<Rightarrow> u32) \<Rightarrow> u32 \<Rightarrow> outcome option" where
  "trap linked m (Impl name args) r ssf = None"
| "trap linked m (Svc n ws extra rm) r ssf = Some (dispatch linked m n r ssf)"

fun ret_mode :: "invocation \<Rightarrow> retmode" where
  "ret_mode (Impl name args) = Ret_word"
| "ret_mode (Svc n ws extra rm) = rm"

section \<open>The table\<close>

lemma syscall_table_distinct: "distinct (map fst k_syscall_table)"
  unfolding syscall_table_ids by simp

lemma table_entry: "(n, h) \<in> set k_syscall_table \<Longrightarrow> map_of k_syscall_table n = Some h"
  using syscall_table_distinct by (rule map_of_is_SomeI)

text \<open>Every entry is what a lookup of its key finds; the lists below are taken apart with this.\<close>

definition lookups :: "('a \<times> 'b) list \<Rightarrow> ('a \<times> 'b) list \<Rightarrow> bool" where
  "lookups xs ys \<longleftrightarrow> list_all (\<lambda>(k, v). map_of xs k = Some v) ys"

lemma lookups_simps:
  "lookups xs []"
  "lookups xs ((k, v) # ys) \<longleftrightarrow> map_of xs k = Some v \<and> lookups xs ys"
  "lookups xs (ys @ zs) \<longleftrightarrow> lookups xs ys \<and> lookups xs zs"
  by (simp_all add: lookups_def)

lemma lookups_self: "distinct (map fst xs) \<Longrightarrow> lookups xs xs"
  by (auto simp: lookups_def list_all_iff)

lemma table_parts:
  "lookups k_syscall_table syscall_table_0"
  "lookups k_syscall_table syscall_table_1"
  "lookups k_syscall_table syscall_table_2"
  using lookups_self [OF syscall_table_distinct]
  unfolding k_syscall_table_def [THEN arg_cong [where f = "lookups k_syscall_table"]]
  by (simp_all only: lookups_simps)

lemmas table_lookup [simp] =
  table_parts(1) [unfolded syscall_table_0_def lookups_simps simp_thms]
  table_parts(2) [unfolded syscall_table_1_def lookups_simps simp_thms]
  table_parts(3) [unfolded syscall_table_2_def lookups_simps simp_thms]

section \<open>The unmarshallers\<close>

text \<open>The directory of the generated unmarshallers.\<close>

definition mrsh_files :: "(string \<times> handler) list" where
  "mrsh_files = mrsh_files_A @ mrsh_files_K @ mrsh_files_Z"

lemma mrsh_files_sorted: "sorted_wrt (<) (map fst mrsh_files)"
  unfolding mrsh_files_def mrsh_files_A_def mrsh_files_K_def mrsh_files_Z_def
    append.simps list.map fst_conv
  by (simp only: sorted_wrt2_simps transp_on_less) (simp add: less_char_def)

lemma mrsh_files_distinct: "distinct (map fst mrsh_files)"
  using mrsh_files_sorted by (simp only: strict_sorted_iff)

text \<open>
  All the unmarshallers: those above, and those whose arguments have a type whose width is the
  parameter \<open>lay\<close>.
\<close>

definition unmarshallers :: "layout \<Rightarrow> (string \<times> handler) list" where
  "unmarshallers lay = mrsh_files @ mrsh_files_sized lay"

lemma sized_files_sorted: "sorted_wrt (<) (map fst (mrsh_files_sized lay))"
  unfolding mrsh_files_sized_def list.map fst_conv
  by (simp only: sorted_wrt2_simps transp_on_less) (simp add: less_char_def)

lemma sized_files_distinct: "distinct (map fst (mrsh_files_sized lay))"
  using sized_files_sorted by (simp only: strict_sorted_iff)

text \<open>
  Two increasing lists have no common element when going through both side by side finds none;
  the rules walk through them without touching what is still ahead.
\<close>

fun merge_apart :: "'a::linorder list \<Rightarrow> 'a list \<Rightarrow> bool" where
  "merge_apart [] ys \<longleftrightarrow> True"
| "merge_apart xs [] \<longleftrightarrow> True"
| "merge_apart (x # xs) (y # ys) \<longleftrightarrow>
     (if x < y then merge_apart xs (y # ys) else y < x \<and> merge_apart (x # xs) ys)"

lemma merge_apart_disjoint:
  "merge_apart xs ys \<Longrightarrow> sorted_wrt (<) xs \<Longrightarrow> sorted_wrt (<) ys \<Longrightarrow> set xs \<inter> set ys = {}"
  by (induction xs ys rule: merge_apart.induct) (force split: if_splits)+

lemma merge_left: "x < y \<Longrightarrow> merge_apart xs (y # ys) \<Longrightarrow> merge_apart (x # xs) (y # ys)"
  by simp

lemma merge_right: "y < x \<Longrightarrow> merge_apart (x # xs) ys \<Longrightarrow> merge_apart (x # xs) (y # ys)"
  by auto

lemma merge_end: "merge_apart [] ys" "merge_apart xs []"
  by simp (cases xs; simp)

lemma sized_files_apart: "set (map fst (mrsh_files_sized lay)) \<inter> set (map fst mrsh_files) = {}"
proof (rule merge_apart_disjoint [OF _ sized_files_sorted mrsh_files_sorted])
  show "merge_apart (map fst (mrsh_files_sized lay)) (map fst mrsh_files)"
    unfolding mrsh_files_sized_def mrsh_files_def mrsh_files_A_def mrsh_files_K_def
      mrsh_files_Z_def append.simps list.map fst_conv
    by (rule merge_end | (rule merge_right, (simp add: less_char_def; fail)) |
        (rule merge_left, (simp add: less_char_def; fail)))+
qed

lemma unmarshallers_distinct: "distinct (map fst (unmarshallers lay))"
  using mrsh_files_distinct sized_files_distinct sized_files_apart
  by (auto simp: unmarshallers_def)

lemma file_parts:
  "lookups (unmarshallers lay) mrsh_files_A"
  "lookups (unmarshallers lay) mrsh_files_K"
  "lookups (unmarshallers lay) mrsh_files_Z"
  "lookups (unmarshallers lay) (mrsh_files_sized lay)"
  using lookups_self [OF unmarshallers_distinct [of lay]]
  unfolding unmarshallers_def [THEN arg_cong [where f = "lookups (unmarshallers lay)"]] mrsh_files_def
  by (simp_all only: lookups_simps)

lemmas file_lookup [simp] =
  file_parts(1) [unfolded mrsh_files_A_def lookups_simps simp_thms]
  file_parts(2) [unfolded mrsh_files_K_def lookups_simps simp_thms]
  file_parts(3) [unfolded mrsh_files_Z_def lookups_simps simp_thms]
  file_parts(4) [unfolded mrsh_files_sized_def lookups_simps simp_thms]

section \<open>The calls of the interface\<close>

text \<open>
  \<open>api_call lay u name args call\<close>: some wrapper, the one of the system call \<open>name\<close>, called in the
  context \<open>u\<close> with the arguments \<open>args\<close>, makes the invocation \<open>call\<close>.
\<close>

inductive api_call :: "layout \<Rightarrow> user \<Rightarrow> string \<Rightarrow> carg list \<Rightarrow> invocation \<Rightarrow> bool"
  for lay u name args call where
  kernel: "kernel_call u name args call \<Longrightarrow> api_call lay u name args call"
| service: "service_call u name args call \<Longrightarrow> api_call lay u name args call"
| network: "network_call u name args call \<Longrightarrow> api_call lay u name args call"
| driver: "driver_call u name args call \<Longrightarrow> api_call lay u name args call"
| sized: "sized_call lay u name args call \<Longrightarrow> api_call lay u name args call"

end
