(* ===== verification/SysProperties.thy ===== *)
theory SysProperties
  imports SysDispatch
begin

text \<open>
  The properties of the system-call layer: every number has its handler, a call the build
  leaves out is refused, and a call reaches the kernel with the arguments it was made with.
\<close>

lemma small_offset: "i < k \<Longrightarrow> k < 2 ^ 32 \<Longrightarrow> (word_of_nat i :: u32) < word_of_nat k"
  by (simp add: word_less_nat_alt unsigned_of_nat take_bit_nat_eq_self)

lemma small_offsets:
  "i < 20 \<Longrightarrow> (word_of_nat i :: u32) < 20" "i < 24 \<Longrightarrow> (word_of_nat i :: u32) < 24"
  using small_offset [of i 20] small_offset [of i 24] by simp_all

section \<open>The table is complete\<close>

text \<open>
  But for the three object calls, which have no weak default, and the bad number, the table lists
  the weak declarations in their order.
\<close>

lemmas weak_handler_lists = weak_handlers_def weak_handlers_0_def weak_handlers_1_def
  weak_handlers_2_def weak_handlers_3_def weak_handlers_4_def weak_handlers_5_def
  weak_handlers_6_def weak_handlers_7_def weak_handlers_8_def weak_handlers_9_def

lemma weak_handlers_list:
  "weak_handlers = map snd (take 337 k_syscall_table @ take 12 (drop 340 k_syscall_table))"
  by (simp add: weak_handler_lists syscall_tables)

lemma table_object_calls: "map snd (take 3 (drop 337 k_syscall_table)) =
    [''z_mrsh_k_object_access_grant'', ''z_mrsh_k_object_release'', ''z_mrsh_k_object_alloc'']"
  by (simp add: syscall_tables)

lemma table_ids_set: "set (map fst k_syscall_table) = {0..<K_SYSCALL_LIMIT}"
proof (rule card_subset_eq)
  show "set (map fst k_syscall_table) \<subseteq> {0..<K_SYSCALL_LIMIT}"
    unfolding syscall_table_ids by (simp add: K_SYSCALL_LIMIT_def)
  have "card (set (map fst k_syscall_table)) = length (map fst k_syscall_table)"
    using syscall_table_distinct by (rule distinct_card)
  also have "\<dots> = 353"
    unfolding syscall_table_ids by simp
  finally show "card (set (map fst k_syscall_table)) = card {0..<K_SYSCALL_LIMIT}"
    by (simp add: K_SYSCALL_LIMIT_def)
qed simp

lemma bad_handler_not_declared: "''handler_bad_syscall'' \<notin> set weak_handlers"
  by (simp add: weak_handler_lists)

lemma bad_entry: "map_of k_syscall_table K_SYSCALL_BAD = Some ''handler_bad_syscall''"
  by (rule table_entry) (simp only: syscall_tables append.simps list.set insert_iff simp_thms)

lemma table_last: "drop 352 k_syscall_table = [(K_SYSCALL_BAD, ''handler_bad_syscall'')]"
  by (simp add: syscall_tables)

lemma table_split:
  "k_syscall_table = take 337 k_syscall_table @ take 3 (drop 337 k_syscall_table) @
     take 12 (drop 340 k_syscall_table) @ drop 352 k_syscall_table"
proof -
  have "drop 340 k_syscall_table = take 12 (drop 340 k_syscall_table) @ drop 352 k_syscall_table"
    using append_take_drop_id [of 12 "drop 340 k_syscall_table"] by simp
  moreover have "drop 337 k_syscall_table = take 3 (drop 337 k_syscall_table) @ drop 340 k_syscall_table"
    using append_take_drop_id [of 3 "drop 337 k_syscall_table"] by simp
  ultimately show ?thesis
    using append_take_drop_id [of 337 k_syscall_table] by simp
qed

lemma table_handlers_declared:
  assumes "(n, h) \<in> set k_syscall_table"
  shows "h \<in> set weak_handlers \<or> h \<in> set extern_handlers \<or>
    n = K_SYSCALL_BAD \<and> h = ''handler_bad_syscall''"
proof -
  from assms consider
      "(n, h) \<in> set (take 337 k_syscall_table @ take 12 (drop 340 k_syscall_table))"
    | "(n, h) \<in> set (take 3 (drop 337 k_syscall_table))"
    | "(n, h) \<in> set (drop 352 k_syscall_table)"
    by (subst (asm) table_split) auto
  then show ?thesis
  proof cases
    case 1
    then have "h \<in> set weak_handlers"
      unfolding weak_handlers_list set_map by (rule image_eqI [rotated]) simp
    then show ?thesis ..
  next
    case 2
    then have "h \<in> set (map snd (take 3 (drop 337 k_syscall_table)))"
      unfolding set_map by (rule image_eqI [rotated]) simp
    then show ?thesis
      unfolding table_object_calls extern_handlers_def by auto
  next
    case 3
    then show ?thesis by (simp add: table_last)
  qed
qed

text \<open>Every number from 0 to \<open>K_SYSCALL_LIMIT - 1\<close> has one entry in \<open>_k_syscall_table\<close>, and in a
  program that links the three object calls, which have no default, every entry resolves to a
  function: the linked unmarshaller, the refusal of a call the configuration leaves out, or, for
  \<open>K_SYSCALL_BAD\<close>, the bad-number handler.  The trap handler never jumps through a null entry.
\<close>

lemma syscall_dispatch_total:
  assumes "0 \<le> n" and "n < K_SYSCALL_LIMIT"
    and "set extern_handlers \<subseteq> set (map fst linked)"
  shows "\<exists>h. {h'. (n, h') \<in> set k_syscall_table} = {h} \<and>
    (case map_of linked h of
       Some f \<Rightarrow> resolve linked h = Some f
     | None \<Rightarrow> resolve linked h =
         Some (if n = K_SYSCALL_BAD then handler_bad_syscall else handler_no_syscall))"
proof -
  from assms(1,2) have "n \<in> fst ` set k_syscall_table"
    using table_ids_set by simp
  then obtain h where h: "(n, h) \<in> set k_syscall_table"
    by auto
  then have "{h'. (n, h') \<in> set k_syscall_table} = {h}"
    using syscall_table_distinct by (auto dest: table_entry)
  moreover have "resolve linked h =
      Some (if n = K_SYSCALL_BAD then handler_bad_syscall else handler_no_syscall)"
    if "map_of linked h = None"
  proof (cases "n = K_SYSCALL_BAD")
    case True
    then have "h = ''handler_bad_syscall''"
      using table_entry [OF h] bad_entry by simp
    with that True show ?thesis
      using bad_handler_not_declared by (simp add: resolve_def)
  next
    case False
    from that assms(3) have "h \<notin> set extern_handlers"
      by (auto simp: map_of_eq_None_iff)
    with table_handlers_declared [OF h] False that show ?thesis
      by (simp add: resolve_def)
  qed
  ultimately show ?thesis
    by (auto simp: resolve_def split: option.splits)
qed

definition no_objects :: "(string \<times> handler) list" where
  "no_objects = map (\<lambda>h. (h, handler_no_syscall)) extern_handlers"

lemma syscall_dispatch_total_witness:
  "0 \<le> K_SYSCALL_WDT_FEED \<and> K_SYSCALL_WDT_FEED < K_SYSCALL_LIMIT \<and>
   set extern_handlers \<subseteq> set (map fst no_objects) \<and>
   (\<exists>h. {h'. (K_SYSCALL_WDT_FEED, h') \<in> set k_syscall_table} = {h} \<and>
     (case map_of no_objects h of
        Some f \<Rightarrow> resolve no_objects h = Some f
      | None \<Rightarrow> resolve no_objects h =
          Some (if K_SYSCALL_WDT_FEED = K_SYSCALL_BAD then handler_bad_syscall
                else handler_no_syscall)))"
proof -
  have "0 \<le> K_SYSCALL_WDT_FEED" "K_SYSCALL_WDT_FEED < K_SYSCALL_LIMIT"
    and "set extern_handlers \<subseteq> set (map fst no_objects)"
    by (simp_all add: K_SYSCALL_WDT_FEED_def K_SYSCALL_LIMIT_def no_objects_def)
  then show ?thesis
    using syscall_dispatch_total [of K_SYSCALL_WDT_FEED no_objects] by blast
qed

section \<open>From the wrapper to the verifier\<close>

lemma resolve_strong [simp]: "map_of linked h = Some f \<Longrightarrow> resolve linked h = Some f"
  by (simp add: resolve_def)

lemma Suc_Suc_0: "Suc (Suc 0) = 2"
  by simp

lemmas reaching = arch_syscall_invoke_def dispatch_def Let_def Suc_Suc_0 z_vrfy_def marshalling
  Z_SYSCALL_MEMORY_READ_def Z_SYSCALL_MEMORY_WRITE_def mrsh_defs_A mrsh_defs_K mrsh_defs_Z
  mrsh_defs_sized

text \<open>
  \<open>reaches\<close> is the end of a system call as it should be: in kernel mode the implementation is
  called, in user mode the trap ends in the verifier with the caller's arguments.
\<close>

definition reaches ::
    "(string \<times> handler) list \<Rightarrow> user \<Rightarrow> string \<Rightarrow> carg list \<Rightarrow> invocation \<Rightarrow> kmem \<Rightarrow>
     (nat \<Rightarrow> u32) \<Rightarrow> u32 \<Rightarrow> bool" where
  "reaches linked u name args call m r ssf =
     (if z_syscall_trap u
      then trap_delivers u call m r \<longrightarrow>
        trap linked m call r ssf =
          Some (Done \<lparr>callee = name, passed = args, kret = ret_mode call, frame_during = ssf,
            frame_after = 0\<rparr>)
      else call = Impl name args)"

lemma kernel_call_reaches:
  assumes "kernel_call u name args call"
    and "map_of linked (''z_mrsh_'' @ name) = map_of (unmarshallers lay) (''z_mrsh_'' @ name)"
  shows "reaches linked u name args call m r ssf"
  using assms
  by (induction rule: kernel_call.induct; simp only: kernel_wrappers reaches_def z_impl_def)
    (simp_all add: reaching can_read_mono [of m "frame u" 24 20]
      can_read_mono [of m "frame u" 8 4])

lemma service_call_reaches:
  assumes "service_call u name args call"
    and "map_of linked (''z_mrsh_'' @ name) = map_of (unmarshallers lay) (''z_mrsh_'' @ name)"
  shows "reaches linked u name args call m r ssf"
  using assms
  by (induction rule: service_call.induct; simp only: services_wrappers reaches_def z_impl_def)
    (simp_all add: reaching)

lemma network_call_reaches:
  assumes "network_call u name args call"
    and "map_of linked (''z_mrsh_'' @ name) = map_of (unmarshallers lay) (''z_mrsh_'' @ name)"
  shows "reaches linked u name args call m r ssf"
  using assms
  by (induction rule: network_call.induct; simp only: network_wrappers reaches_def z_impl_def)
    (simp_all add: reaching)

lemma driver_call_reaches:
  assumes "driver_call u name args call"
    and "map_of linked (''z_mrsh_'' @ name) = map_of (unmarshallers lay) (''z_mrsh_'' @ name)"
  shows "reaches linked u name args call m r ssf"
  using assms
  by (induction rule: driver_call.induct; simp only: drivers_wrappers reaches_def z_impl_def)
    (simp_all add: reaching)

lemma sized_call_reaches:
  assumes "sized_call lay u name args call"
    and "map_of linked (''z_mrsh_'' @ name) = map_of (unmarshallers lay) (''z_mrsh_'' @ name)"
  shows "reaches linked u name args call m r ssf"
  using assms
  by (induction rule: sized_call.induct; simp only: sized_wrappers reaches_def z_impl_def)
    (simp_all add: reaching can_read_mono [of m "frame u" 8 4])

text \<open>Every entry of the table but that of the bad number has its unmarshaller.\<close>

lemma table_handlers_have_files:
  assumes "(n, h) \<in> set k_syscall_table" and "n \<noteq> K_SYSCALL_BAD"
  shows "map_of (unmarshallers lay) h \<noteq> None"
proof -
  have "list_all (\<lambda>(n, h). n = K_SYSCALL_BAD \<or> map_of (unmarshallers lay) h \<noteq> None)
      k_syscall_table"
    by (simp add: syscall_tables)
  then show ?thesis using assms by (auto simp: list_all_iff)
qed

text \<open>C35: a system call, whatever the widths \<open>lay\<close> of the types this repository does not
  settle, calls the implementation with the caller's arguments when it need not trap.  When it
  traps, and the trap and the memory protection do as documented, the dispatcher reaches the
  unmarshaller of the same call, which hands the verifier exactly the arguments of the wrapper:
  at their width, 64-bit values put together from their halves, narrow ones without the bytes
  beside them, the result back where the wrapper expects it, and the thread's system-call frame
  set while the verifier runs and cleared after it.
\<close>

lemma syscall_roundtrip:
  assumes "api_call lay u name args call"
    and "map_of linked (''z_mrsh_'' @ name) = map_of (unmarshallers lay) (''z_mrsh_'' @ name)"
  shows "if z_syscall_trap u
    then trap_delivers u call m r \<longrightarrow>
      trap linked m call r ssf =
        Some (Done \<lparr>callee = name, passed = args, kret = ret_mode call, frame_during = ssf,
          frame_after = 0\<rparr>)
    else call = Impl name args"
proof -
  from assms(1) have "reaches linked u name args call m r ssf"
    by cases (rule kernel_call_reaches service_call_reaches network_call_reaches
        driver_call_reaches sized_call_reaches, assumption, rule assms(2))+
  then show ?thesis unfolding reaches_def .
qed

text \<open>A thread in user mode that creates a thread, and the memory its wrapper has laid out.\<close>

definition demo_user :: user where
  "demo_user = \<lparr>z_syscall_trap = True, frame = 0x20001000, beyond = (\<lambda>_. 0xAAAAAAAA)\<rparr>"

definition demo_words :: "u32 list" where
  "demo_words = [11, 12, 5, 0, 0x2710, 1]"

definition demo_mem :: kmem where
  "demo_mem = \<lparr>readable = (\<lambda>p. p - 0x20001000 < 24), writable = (\<lambda>_. False),
    peek = (\<lambda>p. demo_words ! (unat (p - 0x20001000) div 4))\<rparr>"

definition demo_regs :: "nat \<Rightarrow> u32" where
  "demo_regs i = [1, 2, 1024, 4, 10, 0x20001000] ! i"

definition demo_linked :: "(string \<times> handler) list" where
  "demo_linked = [(''z_mrsh_k_thread_create'', z_mrsh_k_thread_create)]"

lemma demo_delivers:
  "trap_delivers demo_user (k_thread_create demo_user 1 2 1024 4 10 11 12 5 0 0x100002710)
     demo_mem demo_regs"
  by (simp add: k_thread_create_def demo_user_def demo_mem_def demo_regs_def demo_words_def
      arch_syscall_invoke_def Let_def word_at_def lo32_def hi32_def can_read_def small_offsets)

lemma syscall_roundtrip_witness:
  "trap demo_linked demo_mem (k_thread_create demo_user 1 2 1024 4 10 11 12 5 0 0x100002710)
     demo_regs 7 =
   Some (Done \<lparr>callee = ''k_thread_create'',
     passed = [A32 1, A32 2, A32 1024, A32 4, A32 10, A32 11, A32 12, A32 5, A32 0,
       A64 0x100002710],
     kret = Ret_word, frame_during = 7, frame_after = 0\<rparr>)"
proof -
  have "api_call (\<lambda>_. W32) demo_user ''k_thread_create''
      [A32 1, A32 2, A32 1024, A32 4, A32 10, A32 11, A32 12, A32 5, A32 0, A64 0x100002710]
      (k_thread_create demo_user 1 2 1024 4 10 11 12 5 0 0x100002710)"
    by (intro api_call.kernel kernel_call.intros)
  from syscall_roundtrip [OF this, of demo_linked demo_mem demo_regs 7] demo_delivers
  show ?thesis
    by (simp add: demo_user_def demo_linked_def k_thread_create_def arch_syscall_invoke_def Let_def)
qed

section \<open>Where the generated code falls short\<close>

text \<open>
  The unmarshaller of \<open>k_thread_create\<close> checks that the thread may read five words of \<open>more\<close> and
  reads six: the high half of the delay is read whether the thread may read it or not.
\<close>

lemma k_thread_create_reads_past_check:
  assumes "m = \<lparr>readable = (\<lambda>q. q - p < 20), writable = w, peek = f\<rparr>"
  shows "\<not> can_read m p 24"
    and "z_mrsh_k_thread_create m a0 a1 a2 a3 a4 p ssf =
      Done \<lparr>callee = ''k_thread_create'',
        passed = [A32 a0, A32 a1, A32 a2, A32 a3, A32 a4, A32 (f p), A32 (f (p + 4)),
          A32 (f (p + 8)), A32 (f (p + 12)), A64 (join64 (f (p + 16)) (f (p + 20)))],
        kret = Ret_word, frame_during = ssf, frame_after = 0\<rparr>"
proof -
  show "\<not> can_read m p 24"
    unfolding can_read_def assms by (auto intro!: exI [of _ 20])
  have "can_read m p 20"
    unfolding can_read_def assms
    by (simp add: small_offsets)
  then show "z_mrsh_k_thread_create m a0 a1 a2 a3 a4 p ssf =
      Done \<lparr>callee = ''k_thread_create'',
        passed = [A32 a0, A32 a1, A32 a2, A32 a3, A32 a4, A32 (f p), A32 (f (p + 4)),
          A32 (f (p + 8)), A32 (f (p + 12)), A64 (join64 (f (p + 16)) (f (p + 20)))],
        kret = Ret_word, frame_during = ssf, frame_after = 0\<rparr>"
    by (simp add: z_mrsh_k_thread_create_def Z_SYSCALL_MEMORY_READ_def z_vrfy_def Let_def
        word_at_def assms)
qed

text \<open>
  The result of a call that has 64 bits comes back whole only from \<open>k_uptime_ticks\<close>, which passes
  an address for it; the four other calls that count in ticks return it in the register.
\<close>

lemma ticks_results:
  assumes "z_syscall_trap u"
  shows "ret_mode (k_uptime_ticks u) = Ret_mem (frame u)"
    and "ret_mode (k_timer_expires_ticks u t) = Ret_word"
    and "ret_mode (k_timer_remaining_ticks u t) = Ret_word"
    and "ret_mode (k_thread_timeout_expires_ticks u t) = Ret_word"
    and "ret_mode (k_thread_timeout_remaining_ticks u t) = Ret_word"
  using assms
  by (simp_all add: k_uptime_ticks_def k_timer_expires_ticks_def k_timer_remaining_ticks_def
      k_thread_timeout_expires_ticks_def k_thread_timeout_remaining_ticks_def
      arch_syscall_invoke_def)

lemma timer_ticks_truncated:
  assumes "z_syscall_trap u"
  shows "wrapper_result (ret_mode (k_timer_expires_ticks u t))
      (mrsh_return (ret_mode (k_timer_expires_ticks u t)) v) = Some (take_bit 32 v)"
  using assms by (simp only: ticks_results word_result_truncated)

end
