(* ===== verification/BuildConfig.thy ===== *)
theory BuildConfig
  imports Prelude
begin

text \<open>
  The configuration of the build: the options of \<open>zephyr/include/generated/autoconf.h\<close>, which the
  preprocessor gives to every file, and the absolute symbols \<open>zephyr/misc/generated/configs.c\<close>
  puts in the image for the debugger and the linker.  Each file is cut in four lists, in its
  order; the prefix \<open>CONFIG_\<close> of the names is left out.
\<close>

datatype config_value = CNum int | CStr string

definition autoconf1 :: "(string \<times> config_value) list" where
  "autoconf1 = [
    (''USB_DEVICE_PID'', CNum 0x2), (''GPIO'', CNum 1),
    (''NET_CONFIG_IEEE802154_DEV_NAME'', CStr ''IEEE802154_nrf5''),
    (''ADC_INIT_PRIORITY'', CNum 50), (''GPIO_INIT_PRIORITY'', CNum 40),
    (''UART_INTERRUPT_DRIVEN'', CNum 1), (''NET_IPV6'', CNum 1),
    (''BOARD'', CStr ''msd_zigbee_52840''), (''SOC'', CStr ''nRF52840_QIAA''),
    (''SOC_SERIES'', CStr ''nrf52''), (''NUM_IRQS'', CNum 48),
    (''SYS_CLOCK_HW_CYCLES_PER_SEC'', CNum 32768), (''CLOCK_CONTROL_INIT_PRIORITY'', CNum 30),
    (''HEAP_MEM_POOL_SIZE'', CNum 4096), (''ROM_START_OFFSET'', CNum 0x0),
    (''WATCHDOG'', CNum 1), (''PM'', CNum 1), (''SOC_HAS_TIMING_FUNCTIONS'', CNum 1),
    (''ARCH_HAS_CUSTOM_BUSY_WAIT'', CNum 1), (''IEEE802154_NRF5'', CNum 1),
    (''CLOCK_CONTROL'', CNum 1), (''NRF_RTC_TIMER'', CNum 1),
    (''SYS_CLOCK_TICKS_PER_SEC'', CNum 32768), (''BUILD_OUTPUT_HEX'', CNum 1),
    (''SERIAL_INIT_PRIORITY'', CNum 55), (''FPU'', CNum 1), (''FLASH_SIZE'', CNum 1024),
    (''FLASH_BASE_ADDRESS'', CNum 0x0), (''TEST_EXTRA_STACKSIZE'', CNum 0), (''SERIAL'', CNum 1),
    (''NUM_METAIRQ_PRIORITIES'', CNum 0), (''SYSTEM_WORKQUEUE_STACK_SIZE'', CNum 4096),
    (''MAIN_STACK_SIZE'', CNum 1536), (''NET_PKT_RX_COUNT'', CNum 4),
    (''NET_PKT_TX_COUNT'', CNum 4), (''NET_PKT_TXTIME'', CNum 1),
    (''NET_PKT_TIMESTAMP'', CNum 1), (''WARN_EXPERIMENTAL'', CNum 1),
    (''PRIVILEGED_STACK_SIZE'', CNum 1024), (''ENTROPY_GENERATOR'', CNum 1),
    (''PSA_WANT_ALG_CTR_DRBG'', CNum 1), (''INIT_ARCH_HW_AT_BOOT'', CNum 1),
    (''NORDIC_QSPI_NOR_FLASH_LAYOUT_PAGE_SIZE'', CNum 4096), (''NCS_SAMPLES_DEFAULTS'', CNum 1),
    (''PM_PARTITION_SIZE_PROVISION'', CNum 0x1000),
    (''PM_PARTITION_SIZE_B0_IMAGE'', CNum 0x8000),
    (''SB_VALIDATION_INFO_MAGIC'', CNum 0x86518483),
    (''SB_VALIDATION_POINTER_MAGIC'', CNum 0x6919B47E),
    (''SB_VALIDATION_INFO_CRYPTO_ID'', CNum 1), (''SB_VALIDATION_INFO_VERSION'', CNum 2),
    (''SB_VALIDATION_METADATA_OFFSET'', CNum 0), (''SB_VALIDATE_FW_SIGNATURE'', CNum 1),
    (''NRF_CLOUD_CLIENT_ID_SRC_COMPILE_TIME'', CNum 1),
    (''NRF_CLOUD_CLIENT_ID'', CStr ''my-client-id''), (''MPSL_THREAD_COOP_PRIO'', CNum 8),
    (''MPSL_SIGNAL_STACK_SIZE'', CNum 1024), (''MPSL_TIMESLOT_SESSION_COUNT'', CNum 0),
    (''PARTITION_MANAGER_ENABLED'', CNum 1), (''FLASH_MAP_CUSTOM'', CNum 1),
    (''SRAM_SIZE'', CNum 256), (''SRAM_BASE_ADDRESS'', CNum 0x20000000),
    (''PM_PARTITION_SIZE_NVS_STORAGE'', CNum 0x6000),
    (''PM_PARTITION_SIZE_ZBOSS_NVRAM'', CNum 0x8000),
    (''PM_PARTITION_SIZE_ZBOSS_PRODUCT_CONFIG'', CNum 0x1000), (''PM_SINGLE_IMAGE'', CNum 1),
    (''PM_EXTERNAL_FLASH_BASE'', CNum 0x0), (''PM_SRAM_BASE'', CNum 0x20000000),
    (''PM_SRAM_SIZE'', CNum 0x40000), (''ZIGBEE'', CNum 1), (''ZIGBEE_APP_UTILS'', CNum 1),
    (''NET_L2_ZIGBEE'', CNum 1), (''ZIGBEE_CHANNEL_SELECTION_MODE_SINGLE'', CNum 1),
    (''ZIGBEE_CHANNEL'', CNum 16), (''ZIGBEE_ROLE_END_DEVICE'', CNum 1),
    (''ZBOSS_DEFAULT_THREAD_PRIORITY'', CNum 3),
    (''ZBOSS_DEFAULT_THREAD_STACK_SIZE'', CNum 2048), (''ZIGBEE_APP_CB_QUEUE_LENGTH'', CNum 10),
    (''ZBOSS_RESET_ON_ASSERT'', CNum 1), (''ZBOSS_ERROR_PRINT_TO_LOG'', CNum 1),
    (''ZIGBEE_ERROR_TO_STRING_ENABLED'', CNum 1), (''ZBOSS_TRACE_LOG_LEVEL_OFF'', CNum 1),
    (''ZBOSS_TRACE_LOG_LEVEL'', CNum 0), (''ZBOSS_TRACE_MASK'', CNum 0x0),
    (''ZBOSS_TRACE_HEXDUMP_LOGGING'', CNum 1), (''ZBOSS_TRACE_LOGGER_BUFFER_SIZE'', CNum 4096),
    (''ZIGBEE_HAVE_SERIAL'', CNum 1), (''APP_LINK_WITH_ZIGBEE'', CNum 1),
    (''NRF_802154_RADIO_CONFIG'', CNum 1), (''NRF_802154_RADIO_CONFIG_PRIO'', CNum 91),
    (''NRF_ACL_FLASH_REGION_SIZE'', CNum 0x1000), (''FPROTECT_BLOCK_SIZE'', CNum 0x1000),
    (''MULTITHREADING_LOCK'', CNum 1), (''RESET_ON_FATAL_ERROR'', CNum 1),
    (''RAM_POWER_DOWN_LIBRARY'', CNum 1), (''HW_UNIQUE_KEY_PARTITION_SIZE'', CNum 0x1000),
    (''HW_CC3XX'', CNum 1), (''SENSOR'', CNum 1), (''FLASH'', CNum 1),
    (''CLOCK_CONTROL_MPSL'', CNum 1), (''SOC_FLASH_NRF_RADIO_SYNC_MPSL'', CNum 1),
    (''SOC_FLASH_NRF_RADIO_SYNC_MPSL_TIMESLOT_SESSION_COUNT'', CNum 1),
    (''TEMP_NRF5_MPSL'', CNum 1), (''ZEPHYR_NRF_MODULE'', CNum 1),
    (''BOOT_SIGNATURE_KEY_FILE'', CStr ''''), (''DT_FLASH_WRITE_BLOCK_SIZE'', CNum 4),
    (''MCUBOOT_USB_SUPPORT'', CNum 1), (''ZEPHYR_MCUBOOT_MODULE'', CNum 1),
    (''ZEPHYR_MBEDTLS_MODULE'', CNum 1), (''MBEDTLS_BUILTIN'', CNum 1),
    (''ZEPHYR_TRUSTED_FIRMWARE_M_MODULE'', CNum 1), (''ZEPHYR_CJSON_MODULE'', CNum 1),
    (''ZEPHYR_CDDL_GEN_MODULE'', CNum 1), (''ZEPHYR_MEMFAULT_FIRMWARE_SDK_MODULE'', CNum 1),
    (''ZEPHYR_CANOPENNODE_MODULE'', CNum 1), (''ZEPHYR_HAL_NORDIC_MODULE'', CNum 1),
    (''HAS_NORDIC_DRIVERS'', CNum 1), (''NRF_802154_RADIO_DRIVER'', CNum 1),
    (''NRF_802154_MULTIPROTOCOL_SUPPORT'', CNum 1), (''NRF_802154_CCA_MODE_ED'', CNum 1),
    (''NRF_802154_CCA_ED_THRESHOLD'', CNum 45), (''NRF_802154_CCA_CORR_THRESHOLD'', CNum 45),
    (''NRF_802154_CCA_CORR_LIMIT'', CNum 2), (''NRF_802154_PENDING_SHORT_ADDRESSES'', CNum 16),
    (''NRF_802154_PENDING_EXTENDED_ADDRESSES'', CNum 16), (''NRF_802154_RX_BUFFERS'', CNum 16),
    (''NRF_802154_TEMPERATURE_UPDATE'', CNum 1),
    (''NRF_802154_TEMPERATURE_UPDATE_INIT_PRIO'', CNum 91),
    (''NRF_802154_TEMPERATURE_UPDATE_PERIOD'', CNum 60000), (''HAS_NRFX'', CNum 1),
    (''NRFX_GPIOTE'', CNum 1), (''NRFX_GPIOTE_NUM_OF_EVT_HANDLERS'', CNum 1),
    (''NRFX_NVMC'', CNum 1), (''NRFX_POWER'', CNum 1), (''NRFX_PPI'', CNum 1),
    (''NRFX_SYSTICK'', CNum 1), (''NRFX_USBD'', CNum 1), (''NRFX_WDT'', CNum 1),
    (''NRFX_WDT0'', CNum 1), (''ZEPHYR_LORAMAC_NODE_MODULE'', CNum 1),
    (''ZEPHYR_LZ4_MODULE'', CNum 1)]"

definition autoconf2 :: "(string \<times> config_value) list" where
  "autoconf2 = [
    (''ZEPHYR_NANOPB_MODULE'', CNum 1), (''ZEPHYR_TRACERECORDER_MODULE'', CNum 1),
    (''ZEPHYR_ZSCILIB_MODULE'', CNum 1), (''NRF_MODEM_SHMEM_CTRL_SIZE'', CNum 0x4E8),
    (''MPSL'', CNum 1), (''NRFXLIB_CRYPTO'', CNum 1), (''CRYPTOCELL_CC310_USABLE'', CNum 1),
    (''CRYPTOCELL_USABLE'', CNum 1), (''NRF_CC3XX_PLATFORM'', CNum 1),
    (''CC3XX_MUTEX_LOCK'', CNum 1), (''ZIGBEE_LIBRARY_PRODUCTION'', CNum 1),
    (''ZIGBEE_LIBRARY_SOC'', CNum 1), (''ZIGBEE_GP_PB'', CNum 1),
    (''APP_LINK_WITH_ZBOSS'', CNum 1), (''NRF_802154_SOURCE_NRFXLIB'', CNum 1),
    (''NRF_802154_SL'', CNum 1), (''ZEPHYR_NRFXLIB_MODULE'', CNum 1),
    (''ZEPHYR_CONNECTEDHOMEIP_MODULE'', CNum 1), (''HAS_CMSIS_CORE'', CNum 1),
    (''HAS_CMSIS_CORE_M'', CNum 1), (''BOARD_MSD_ZIGBEE_52840'', CNum 1),
    (''SOC_SERIES_NRF52X'', CNum 1), (''CPU_HAS_ARM_MPU'', CNum 1), (''HAS_SWO'', CNum 1),
    (''SOC_FAMILY'', CStr ''nordic_nrf''), (''SOC_FAMILY_NRF'', CNum 1),
    (''HAS_HW_NRF_ACL'', CNum 1), (''HAS_HW_NRF_CC310'', CNum 1), (''HAS_HW_NRF_CCM'', CNum 1),
    (''HAS_HW_NRF_CCM_LFLEN_8BIT'', CNum 1), (''HAS_HW_NRF_CLOCK'', CNum 1),
    (''HAS_HW_NRF_COMP'', CNum 1), (''HAS_HW_NRF_ECB'', CNum 1), (''HAS_HW_NRF_EGU0'', CNum 1),
    (''HAS_HW_NRF_EGU1'', CNum 1), (''HAS_HW_NRF_EGU2'', CNum 1), (''HAS_HW_NRF_EGU3'', CNum 1),
    (''HAS_HW_NRF_EGU4'', CNum 1), (''HAS_HW_NRF_EGU5'', CNum 1), (''HAS_HW_NRF_GPIO0'', CNum 1),
    (''HAS_HW_NRF_GPIO1'', CNum 1), (''HAS_HW_NRF_GPIOTE'', CNum 1),
    (''HAS_HW_NRF_I2S'', CNum 1), (''HAS_HW_NRF_LPCOMP'', CNum 1), (''HAS_HW_NRF_MWU'', CNum 1),
    (''HAS_HW_NRF_NFCT'', CNum 1), (''HAS_HW_NRF_NVMC_PE'', CNum 1),
    (''HAS_HW_NRF_PDM'', CNum 1), (''HAS_HW_NRF_POWER'', CNum 1), (''HAS_HW_NRF_PPI'', CNum 1),
    (''HAS_HW_NRF_PWM0'', CNum 1), (''HAS_HW_NRF_PWM1'', CNum 1), (''HAS_HW_NRF_PWM2'', CNum 1),
    (''HAS_HW_NRF_PWM3'', CNum 1), (''HAS_HW_NRF_QDEC'', CNum 1), (''HAS_HW_NRF_QSPI'', CNum 1),
    (''HAS_HW_NRF_RADIO_BLE_2M'', CNum 1), (''HAS_HW_NRF_RADIO_TX_PWR_HIGH'', CNum 1),
    (''HAS_HW_NRF_RADIO_BLE_CODED'', CNum 1), (''HAS_HW_NRF_RADIO_IEEE802154'', CNum 1),
    (''HAS_HW_NRF_RNG'', CNum 1), (''HAS_HW_NRF_RTC0'', CNum 1), (''HAS_HW_NRF_RTC1'', CNum 1),
    (''HAS_HW_NRF_RTC2'', CNum 1), (''HAS_HW_NRF_SAADC'', CNum 1), (''HAS_HW_NRF_SPI0'', CNum 1),
    (''HAS_HW_NRF_SPI1'', CNum 1), (''HAS_HW_NRF_SPI2'', CNum 1), (''HAS_HW_NRF_SPIM0'', CNum 1),
    (''HAS_HW_NRF_SPIM1'', CNum 1), (''HAS_HW_NRF_SPIM2'', CNum 1),
    (''HAS_HW_NRF_SPIM3'', CNum 1), (''HAS_HW_NRF_SPIS0'', CNum 1),
    (''HAS_HW_NRF_SPIS1'', CNum 1), (''HAS_HW_NRF_SPIS2'', CNum 1),
    (''HAS_HW_NRF_SWI0'', CNum 1), (''HAS_HW_NRF_SWI1'', CNum 1), (''HAS_HW_NRF_SWI2'', CNum 1),
    (''HAS_HW_NRF_SWI3'', CNum 1), (''HAS_HW_NRF_SWI4'', CNum 1), (''HAS_HW_NRF_SWI5'', CNum 1),
    (''HAS_HW_NRF_TEMP'', CNum 1), (''HAS_HW_NRF_TIMER0'', CNum 1),
    (''HAS_HW_NRF_TIMER1'', CNum 1), (''HAS_HW_NRF_TIMER2'', CNum 1),
    (''HAS_HW_NRF_TIMER3'', CNum 1), (''HAS_HW_NRF_TIMER4'', CNum 1),
    (''HAS_HW_NRF_TWI0'', CNum 1), (''HAS_HW_NRF_TWI1'', CNum 1), (''HAS_HW_NRF_TWIM0'', CNum 1),
    (''HAS_HW_NRF_TWIM1'', CNum 1), (''HAS_HW_NRF_TWIS0'', CNum 1),
    (''HAS_HW_NRF_TWIS1'', CNum 1), (''HAS_HW_NRF_UART0'', CNum 1),
    (''HAS_HW_NRF_UARTE0'', CNum 1), (''HAS_HW_NRF_UARTE1'', CNum 1),
    (''HAS_HW_NRF_USBD'', CNum 1), (''HAS_HW_NRF_WDT'', CNum 1),
    (''NRF_HW_TIMER1_RESERVED'', CNum 1), (''NRF_HW_RTC1_RESERVED'', CNum 1),
    (''SOC_NRF52840'', CNum 1), (''SOC_NRF52840_QIAA'', CNum 1), (''NRF_ENABLE_ICACHE'', CNum 1),
    (''NRF_APPROTECT_USE_UICR'', CNum 1), (''SOC_COMPATIBLE_NRF'', CNum 1),
    (''SOC_COMPATIBLE_NRF52X'', CNum 1), (''ARCH'', CStr ''arm''), (''CPU_CORTEX'', CNum 1),
    (''CPU_CORTEX_M'', CNum 1), (''ISA_THUMB2'', CNum 1), (''ASSEMBLER_ISA_THUMB2'', CNum 1),
    (''COMPILER_ISA_THUMB2'', CNum 1), (''STACK_ALIGN_DOUBLE_WORD'', CNum 1),
    (''PLATFORM_SPECIFIC_INIT'', CNum 1), (''FAULT_DUMP'', CNum 2),
    (''ARM_STACK_PROTECTION'', CNum 1), (''ARM_STORE_EXC_RETURN'', CNum 1),
    (''FP_HARDABI'', CNum 1), (''FP16'', CNum 1), (''FP16_IEEE'', CNum 1),
    (''CPU_CORTEX_M4'', CNum 1), (''CPU_CORTEX_M_HAS_SYSTICK'', CNum 1),
    (''CPU_CORTEX_M_HAS_DWT'', CNum 1), (''CPU_CORTEX_M_HAS_BASEPRI'', CNum 1),
    (''CPU_CORTEX_M_HAS_VTOR'', CNum 1), (''CPU_CORTEX_M_HAS_PROGRAMMABLE_FAULT_PRIOS'', CNum 1),
    (''ARMV7_M_ARMV8_M_MAINLINE'', CNum 1), (''ARMV7_M_ARMV8_M_FP'', CNum 1),
    (''GEN_ISR_TABLES'', CNum 1), (''ZERO_LATENCY_IRQS'', CNum 1),
    (''NULL_POINTER_EXCEPTION_DETECTION_NONE'', CNum 1), (''GEN_IRQ_VECTOR_TABLE'', CNum 1),
    (''ARM_MPU'', CNum 1), (''ARM_MPU_REGION_MIN_ALIGN_AND_SIZE'', CNum 32),
    (''MPU_STACK_GUARD'', CNum 1), (''MPU_STACK_GUARD_MIN_SIZE_FLOAT'', CNum 128),
    (''MPU_ALLOW_FLASH_WRITE'', CNum 1), (''CUSTOM_SECTION_MIN_ALIGN_SIZE'', CNum 32),
    (''ARM'', CNum 1), (''ARCH_IS_SET'', CNum 1)]"

definition autoconf3 :: "(string \<times> config_value) list" where
  "autoconf3 = [
    (''HW_STACK_PROTECTION'', CNum 1), (''KOBJECT_TEXT_AREA'', CNum 256),
    (''KOBJECT_DATA_AREA_RESERVE_EXTRA_PERCENT'', CNum 100),
    (''KOBJECT_RODATA_AREA_EXTRA_BYTES'', CNum 16), (''GEN_PRIV_STACKS'', CNum 1),
    (''DYNAMIC_INTERRUPTS'', CNum 1), (''GEN_SW_ISR_TABLE'', CNum 1),
    (''ARCH_SW_ISR_TABLE_ALIGN'', CNum 0), (''GEN_IRQ_START_VECTOR'', CNum 0),
    (''ARCH_HAS_SINGLE_THREAD_SUPPORT'', CNum 1), (''ARCH_HAS_TIMING_FUNCTIONS'', CNum 1),
    (''ARCH_HAS_STACK_PROTECTION'', CNum 1), (''ARCH_HAS_USERSPACE'', CNum 1),
    (''ARCH_HAS_EXECUTABLE_PAGE_BIT'', CNum 1), (''ARCH_HAS_RAMFUNC_SUPPORT'', CNum 1),
    (''ARCH_HAS_NESTED_EXCEPTION_DETECTION'', CNum 1), (''ARCH_SUPPORTS_COREDUMP'', CNum 1),
    (''ARCH_SUPPORTS_ARCH_HW_INIT'', CNum 1), (''ARCH_HAS_EXTRA_EXCEPTION_INFO'', CNum 1),
    (''ARCH_HAS_THREAD_LOCAL_STORAGE'', CNum 1), (''ARCH_HAS_THREAD_ABORT'', CNum 1),
    (''CPU_HAS_FPU'', CNum 1), (''CPU_HAS_MPU'', CNum 1), (''MPU'', CNum 1),
    (''MPU_REQUIRES_POWER_OF_TWO_ALIGNMENT'', CNum 1), (''SRAM_REGION_PERMISSIONS'', CNum 1),
    (''FPU_SHARING'', CNum 1), (''TOOLCHAIN_HAS_BUILTIN_FFS'', CNum 1),
    (''MULTITHREADING'', CNum 1), (''NUM_COOP_PRIORITIES'', CNum 16),
    (''NUM_PREEMPT_PRIORITIES'', CNum 15), (''MAIN_THREAD_PRIORITY'', CNum 0),
    (''COOP_ENABLED'', CNum 1), (''PREEMPT_ENABLED'', CNum 1),
    (''PRIORITY_CEILING'', CNum (- 127)), (''IDLE_STACK_SIZE'', CNum 320),
    (''ISR_STACK_SIZE'', CNum 2048), (''THREAD_STACK_INFO'', CNum 1), (''ERRNO'', CNum 1),
    (''SCHED_DUMB'', CNum 1), (''WAITQ_DUMB'', CNum 1), (''BOOT_DELAY'', CNum 0),
    (''THREAD_MONITOR'', CNum 1), (''THREAD_NAME'', CNum 1), (''THREAD_MAX_NAME_LEN'', CNum 32),
    (''SYSTEM_WORKQUEUE_PRIORITY'', CNum (- 1)), (''ATOMIC_OPERATIONS_BUILTIN'', CNum 1),
    (''TIMESLICING'', CNum 1), (''TIMESLICE_SIZE'', CNum 0), (''TIMESLICE_PRIORITY'', CNum 0),
    (''POLL'', CNum 1), (''NUM_MBOX_ASYNC_MSGS'', CNum 10), (''NUM_PIPE_ASYNC_MSGS'', CNum 10),
    (''KERNEL_MEM_POOL'', CNum 1), (''ARCH_HAS_CUSTOM_SWAP_TO_MAIN'', CNum 1),
    (''SWAP_NONATOMIC'', CNum 1), (''SYS_CLOCK_EXISTS'', CNum 1), (''TIMEOUT_64BIT'', CNum 1),
    (''XIP'', CNum 1), (''KERNEL_INIT_PRIORITY_OBJECTS'', CNum 30),
    (''KERNEL_INIT_PRIORITY_DEFAULT'', CNum 40), (''KERNEL_INIT_PRIORITY_DEVICE'', CNum 50),
    (''APPLICATION_INIT_PRIORITY'', CNum 90), (''STACK_POINTER_RANDOM'', CNum 0),
    (''MP_NUM_CPUS'', CNum 1), (''TICKLESS_KERNEL'', CNum 1), (''HAS_DTS'', CNum 1),
    (''HAS_DTS_GPIO'', CNum 1), (''HAS_DTS_WDT'', CNum 1), (''IEEE802154'', CNum 1),
    (''IEEE802154_NRF5_DRV_NAME'', CStr ''IEEE802154_nrf5''),
    (''IEEE802154_NRF5_RX_STACK_SIZE'', CNum 800), (''IEEE802154_NRF5_INIT_PRIO'', CNum 80),
    (''IEEE802154_NRF5_EXT_IRQ_MGMT'', CNum 1), (''IEEE802154_NRF5_FCS_IN_LENGTH'', CNum 1),
    (''IEEE802154_DELAY_TRX_ACC'', CNum 20), (''HAS_SEGGER_RTT'', CNum 1),
    (''SERIAL_HAS_DRIVER'', CNum 1), (''SERIAL_SUPPORT_ASYNC'', CNum 1),
    (''SERIAL_SUPPORT_INTERRUPT'', CNum 1), (''UART_USE_RUNTIME_CONFIGURE'', CNum 1),
    (''UART_NRFX'', CNum 1), (''UART_0_NRF_UARTE'', CNum 1),
    (''UART_0_ENHANCED_POLL_OUT'', CNum 1), (''UART_0_INTERRUPT_DRIVEN'', CNum 1),
    (''UART_0_NRF_TX_BUFFER_SIZE'', CNum 32), (''UART_1_NRF_UARTE'', CNum 1),
    (''UART_1_INTERRUPT_DRIVEN'', CNum 1), (''UART_1_ENHANCED_POLL_OUT'', CNum 1),
    (''UART_1_NRF_TX_BUFFER_SIZE'', CNum 32), (''UART_ENHANCED_POLL_OUT'', CNum 1),
    (''NRF_UARTE_PERIPHERAL'', CNum 1), (''SYSTEM_CLOCK_INIT_PRIORITY'', CNum 0),
    (''TICKLESS_CAPABLE'', CNum 1), (''NRF_RTC_TIMER_USER_CHAN_COUNT'', CNum 0),
    (''SYSTEM_CLOCK_WAIT_FOR_STABILITY'', CNum 1),
    (''RISCV_MACHINE_TIMER_SYSTEM_CLOCK_DIVIDER'', CNum 0), (''ENTROPY_INIT_PRIORITY'', CNum 50),
    (''ENTROPY_NRF5_RNG'', CNum 1), (''ENTROPY_NRF5_THR_POOL_SIZE'', CNum 8),
    (''ENTROPY_NRF5_THR_THRESHOLD'', CNum 4), (''ENTROPY_NRF5_ISR_POOL_SIZE'', CNum 16),
    (''ENTROPY_NRF5_ISR_THRESHOLD'', CNum 12), (''ENTROPY_HAS_DRIVER'', CNum 1),
    (''GPIO_NRFX'', CNum 1), (''ADC'', CNum 1), (''ADC_CONFIGURABLE_INPUTS'', CNum 1),
    (''ADC_NRFX_SAADC'', CNum 1), (''WDT_NRFX'', CNum 1),
    (''WDT_ITE_WARNING_LEADING_TIME_MS'', CNum 5000), (''CLOCK_CONTROL_NRF_FORCE_ALT'', CNum 1),
    (''CLOCK_CONTROL_NRF'', CNum 1), (''CLOCK_CONTROL_NRF_K32SRC_SYNTH'', CNum 1),
    (''CLOCK_CONTROL_NRF_K32SRC_50PPM'', CNum 1), (''CLOCK_CONTROL_NRF_ACCURACY'', CNum 50),
    (''FLASH_HAS_DRIVER_ENABLED'', CNum 1), (''FLASH_HAS_PAGE_LAYOUT'', CNum 1),
    (''FLASH_PAGE_LAYOUT'', CNum 1), (''SOC_FLASH_NRF'', CNum 1),
    (''SENSOR_INIT_PRIORITY'', CNum 90), (''TMP112_FULL_SCALE_RUNTIME'', CNum 1),
    (''TMP112_SAMPLING_FREQUENCY_RUNTIME'', CNum 1), (''COUNTER'', CNum 1),
    (''COUNTER_INIT_PRIORITY'', CNum 50), (''COUNTER_NRF_TIMER'', CNum 1),
    (''COUNTER_TIMER2'', CNum 1), (''USB_DEVICE_DRIVER'', CNum 1),
    (''USB_DEVICE_REMOTE_WAKEUP'', CNum 1), (''USB_NRFX'', CNum 1),
    (''USB_NRFX_EVT_QUEUE_SIZE'', CNum 32), (''USB_NRFX_WORK_QUEUE_STACK_SIZE'', CNum 1024),
    (''USB_NRFX_ATTACHED_EVENT_DELAY'', CNum 0), (''CRYPTO'', CNum 1),
    (''CRYPTO_INIT_PRIORITY'', CNum 80), (''CRYPTO_NRF_ECB'', CNum 1), (''HWINFO'', CNum 1),
    (''DISK_DRIVERS'', CNum 1), (''SUPPORT_MINIMAL_LIBC'', CNum 1), (''NEWLIB_LIBC'', CNum 1),
    (''HAS_NEWLIB_LIBC_NANO'', CNum 1)]"

definition autoconf4 :: "(string \<times> config_value) list" where
  "autoconf4 = [
    (''NEWLIB_LIBC_NANO'', CNum 1), (''NEWLIB_LIBC_MIN_REQUIRED_HEAP_SIZE'', CNum 2048),
    (''RING_BUFFER'', CNum 1), (''SYS_HEAP_ALLOC_LOOPS'', CNum 3),
    (''SYS_HEAP_SMALL_ONLY'', CNum 1), (''REBOOT'', CNum 1), (''CBPRINTF_COMPLETE'', CNum 1),
    (''CBPRINTF_FULL_INTEGRAL'', CNum 1), (''CBPRINTF_FP_SUPPORT'', CNum 1),
    (''CBPRINTF_N_SPECIFIER'', CNum 1), (''POSIX_MAX_FDS'', CNum 4),
    (''MAX_TIMER_COUNT'', CNum 5), (''PRINTK'', CNum 1), (''ASSERT'', CNum 1),
    (''ASSERT_LEVEL'', CNum 2), (''SPIN_VALIDATE'', CNum 1), (''ASSERT_VERBOSE'', CNum 1),
    (''ASSERT_NO_COND_INFO'', CNum 1), (''ASSERT_NO_MSG_INFO'', CNum 1),
    (''DEBUG_THREAD_INFO'', CNum 1), (''DISK_ACCESS'', CNum 1), (''NVS'', CNum 1),
    (''NET_BUF'', CNum 1), (''NET_BUF_USER_DATA_SIZE'', CNum 0), (''NETWORKING'', CNum 1),
    (''NET_L2_PHY_IEEE802154'', CNum 1), (''NET_L2_CUSTOM_IEEE802154'', CNum 1),
    (''NET_L2_CUSTOM_IEEE802154_MTU'', CNum 127), (''NET_NATIVE'', CNum 1),
    (''NET_NATIVE_IPV6'', CNum 1), (''NET_INIT_PRIO'', CNum 90),
    (''NET_IF_MAX_IPV6_COUNT'', CNum 1), (''NET_IF_UNICAST_IPV6_ADDR_COUNT'', CNum 2),
    (''NET_IF_MCAST_IPV6_ADDR_COUNT'', CNum 3), (''NET_IF_IPV6_PREFIX_COUNT'', CNum 2),
    (''NET_INITIAL_HOP_LIMIT'', CNum 64), (''NET_IPV6_MAX_NEIGHBORS'', CNum 8),
    (''NET_IPV6_LOG_LEVEL'', CNum 0), (''NET_ICMPV6_LOG_LEVEL'', CNum 0),
    (''NET_IPV6_NBR_CACHE_LOG_LEVEL'', CNum 0), (''NET_TC_TX_COUNT'', CNum 0),
    (''NET_TC_RX_COUNT'', CNum 1), (''NET_TC_THREAD_COOPERATIVE'', CNum 1),
    (''NET_TC_NUM_PRIORITIES'', CNum 16), (''NET_TC_MAPPING_STRICT'', CNum 1),
    (''NET_TX_DEFAULT_PRIORITY'', CNum 1), (''NET_RX_DEFAULT_PRIORITY'', CNum 0),
    (''NET_MAX_ROUTERS'', CNum 1), (''NET_MAX_CONTEXTS'', CNum 6),
    (''NET_CONTEXT_SYNC_RECV'', CNum 1), (''NET_CONTEXT_CHECK'', CNum 1),
    (''NET_BUF_RX_COUNT'', CNum 16), (''NET_BUF_TX_COUNT'', CNum 16),
    (''NET_BUF_FIXED_DATA_SIZE'', CNum 1), (''NET_BUF_DATA_SIZE'', CNum 128),
    (''NET_DEFAULT_IF_FIRST'', CNum 1), (''NET_TX_STACK_SIZE'', CNum 1200),
    (''NET_RX_STACK_SIZE'', CNum 1500), (''NET_PKT_LOG_LEVEL'', CNum 0),
    (''NET_DEBUG_NET_PKT_EXTERNALS'', CNum 0), (''NET_CORE_LOG_LEVEL'', CNum 0),
    (''NET_IF_LOG_LEVEL'', CNum 0), (''NET_TC_LOG_LEVEL'', CNum 0),
    (''NET_UTILS_LOG_LEVEL'', CNum 0), (''NET_CONTEXT_LOG_LEVEL'', CNum 0),
    (''NET_CONN_LOG_LEVEL'', CNum 0), (''NET_ROUTE_LOG_LEVEL'', CNum 0),
    (''NET_HTTP_LOG_LEVEL'', CNum 0), (''NET_CONFIG_AUTO_INIT'', CNum 1),
    (''NET_CONFIG_INIT_PRIO'', CNum 95), (''NET_CONFIG_INIT_TIMEOUT'', CNum 30),
    (''NET_CONFIG_LOG_LEVEL'', CNum 0), (''PM_POLICY_RESIDENCY'', CNum 1),
    (''USB_DEVICE_STACK'', CNum 1), (''USB_PID_CDC_ACM_SAMPLE'', CNum 0x1),
    (''USB_PID_CDC_ACM_COMPOSITE_SAMPLE'', CNum 0x2), (''USB_PID_HID_CDC_SAMPLE'', CNum 0x3),
    (''USB_PID_CONSOLE_SAMPLE'', CNum 0x4), (''USB_PID_DFU_SAMPLE'', CNum 0x5),
    (''USB_PID_HID_SAMPLE'', CNum 0x6), (''USB_PID_HID_MOUSE_SAMPLE'', CNum 0x7),
    (''USB_PID_MASS_SAMPLE'', CNum 0x8), (''USB_PID_TESTUSB_SAMPLE'', CNum 0x9),
    (''USB_PID_WEBUSB_SAMPLE'', CNum 0xA), (''USB_PID_BLE_HCI_SAMPLE'', CNum 0xB),
    (''USB_PID_BLE_HCI_H4_SAMPLE'', CNum 0xC), (''USB_PID_WPANUSB_SAMPLE'', CNum 0xD),
    (''USB_DEVICE_VID'', CNum 0x2FE3), (''USB_DEVICE_MANUFACTURER'', CStr ''PLUTON GROUP''),
    (''USB_DEVICE_PRODUCT'', CStr ''Temperature sensor''),
    (''USB_DEVICE_SN'', CStr ''0123456789ABCDEF''), (''USB_COMPOSITE_DEVICE'', CNum 1),
    (''USB_MAX_NUM_TRANSFERS'', CNum 4), (''USB_REQUEST_BUFFER_SIZE'', CNum 128),
    (''USB_MAX_ALT_SETTING'', CNum 8), (''USB_NUMOF_EP_WRITE_RETRIES'', CNum 3),
    (''USB_SELF_POWERED'', CNum 1), (''USB_MAX_POWER'', CNum 50), (''USB_WORKQUEUE'', CNum 1),
    (''USB_WORKQUEUE_STACK_SIZE'', CNum 1024), (''USB_WORKQUEUE_PRIORITY'', CNum (- 1)),
    (''USB_CDC_ACM'', CNum 1), (''USB_CDC_ACM_RINGBUF_SIZE'', CNum 512),
    (''CDC_ACM_INTERRUPT_EP_MPS'', CNum 16), (''CDC_ACM_BULK_EP_MPS'', CNum 64),
    (''CDC_ACM_IAD'', CNum 1), (''USB_MASS_STORAGE'', CNum 1),
    (''MASS_STORAGE_DISK_NAME'', CStr ''EMFAT''),
    (''MASS_STORAGE_INQ_VENDOR_ID'', CStr ''ZEPHYR  ''),
    (''MASS_STORAGE_INQ_PRODUCT_ID'', CStr ''ZEPHYR USB DISK ''),
    (''MASS_STORAGE_INQ_REVISION'', CStr ''0.01''), (''MASS_STORAGE_BULK_EP_MPS'', CNum 64),
    (''MASS_STORAGE_STACK_SIZE'', CNum 512), (''ENTROPY_DEVICE_RANDOM_GENERATOR'', CNum 1),
    (''CSPRING_ENABLED'', CNum 1), (''HARDWARE_DEVICE_CS_GENERATOR'', CNum 1),
    (''FLASH_MAP'', CNum 1), (''TEST_LOGGING_FLUSH_AFTER_TEST'', CNum 1),
    (''TOOLCHAIN_GNUARMEMB'', CNum 1), (''LINKER_ORPHAN_SECTION_WARN'', CNum 1),
    (''HAS_FLASH_LOAD_OFFSET'', CNum 1), (''FLASH_LOAD_OFFSET'', CNum 0x0),
    (''FLASH_LOAD_SIZE'', CNum 0x0), (''LD_LINKER_SCRIPT_SUPPORTED'', CNum 1),
    (''LD_LINKER_TEMPLATE'', CNum 1), (''KERNEL_ENTRY'', CStr ''__start''),
    (''LINKER_SORT_BY_ALIGNMENT'', CNum 1), (''SRAM_OFFSET'', CNum 0x0),
    (''LINKER_GENERIC_SECTIONS_PRESENT_AT_BOOT'', CNum 1), (''DEBUG_OPTIMIZATIONS'', CNum 1),
    (''COMPILER_COLOR_DIAGNOSTICS'', CNum 1), (''COMPILER_OPT'', CStr ''''),
    (''RUNTIME_ERROR_CHECKS'', CNum 1), (''KERNEL_BIN_NAME'', CStr ''zephyr''),
    (''OUTPUT_STAT'', CNum 1), (''OUTPUT_DISASSEMBLY'', CNum 1),
    (''OUTPUT_PRINT_MEMORY_USAGE'', CNum 1), (''BUILD_OUTPUT_BIN'', CNum 1),
    (''EXPERIMENTAL'', CNum 1), (''COMPAT_INCLUDES'', CNum 1)]"

definition autoconf :: "(string \<times> config_value) list" where
  "autoconf = autoconf1 @ autoconf2 @ autoconf3 @ autoconf4"

text \<open>What \<open>GEN_ABSOLUTE_SYM_KCONFIG\<close> is given: a name and a number.\<close>

definition configs1 :: "(string \<times> int) list" where
  "configs1 = [
    (''USB_DEVICE_PID'', 0x2), (''GPIO'', 1), (''NET_CONFIG_IEEE802154_DEV_NAME'', 1),
    (''ADC_INIT_PRIORITY'', 50), (''GPIO_INIT_PRIORITY'', 40), (''UART_INTERRUPT_DRIVEN'', 1),
    (''NET_IPV6'', 1), (''BOARD'', 1), (''SOC'', 1), (''SOC_SERIES'', 1), (''NUM_IRQS'', 48),
    (''SYS_CLOCK_HW_CYCLES_PER_SEC'', 32768), (''CLOCK_CONTROL_INIT_PRIORITY'', 30),
    (''HEAP_MEM_POOL_SIZE'', 4096), (''ROM_START_OFFSET'', 0x0), (''WATCHDOG'', 1), (''PM'', 1),
    (''SOC_HAS_TIMING_FUNCTIONS'', 1), (''ARCH_HAS_CUSTOM_BUSY_WAIT'', 1),
    (''IEEE802154_NRF5'', 1), (''CLOCK_CONTROL'', 1), (''NRF_RTC_TIMER'', 1),
    (''SYS_CLOCK_TICKS_PER_SEC'', 32768), (''BUILD_OUTPUT_HEX'', 1),
    (''SERIAL_INIT_PRIORITY'', 55), (''FPU'', 1), (''FLASH_SIZE'', 1024),
    (''FLASH_BASE_ADDRESS'', 0x0), (''TEST_EXTRA_STACKSIZE'', 0), (''SERIAL'', 1),
    (''NUM_METAIRQ_PRIORITIES'', 0), (''SYSTEM_WORKQUEUE_STACK_SIZE'', 4096),
    (''MAIN_STACK_SIZE'', 1536), (''NET_PKT_RX_COUNT'', 4), (''NET_PKT_TX_COUNT'', 4),
    (''NET_PKT_TXTIME'', 1), (''NET_PKT_TIMESTAMP'', 1), (''WARN_EXPERIMENTAL'', 1),
    (''PRIVILEGED_STACK_SIZE'', 1024), (''ENTROPY_GENERATOR'', 1),
    (''PSA_WANT_ALG_CTR_DRBG'', 1), (''INIT_ARCH_HW_AT_BOOT'', 1),
    (''NORDIC_QSPI_NOR_FLASH_LAYOUT_PAGE_SIZE'', 4096), (''NCS_SAMPLES_DEFAULTS'', 1),
    (''PM_PARTITION_SIZE_PROVISION'', 0x1000), (''PM_PARTITION_SIZE_B0_IMAGE'', 0x8000),
    (''SB_VALIDATION_INFO_MAGIC'', 0x86518483), (''SB_VALIDATION_POINTER_MAGIC'', 0x6919B47E),
    (''SB_VALIDATION_INFO_CRYPTO_ID'', 1), (''SB_VALIDATION_INFO_VERSION'', 2),
    (''SB_VALIDATION_METADATA_OFFSET'', 0), (''SB_VALIDATE_FW_SIGNATURE'', 1),
    (''NRF_CLOUD_CLIENT_ID_SRC_COMPILE_TIME'', 1), (''NRF_CLOUD_CLIENT_ID'', 1),
    (''MPSL_THREAD_COOP_PRIO'', 8), (''MPSL_SIGNAL_STACK_SIZE'', 1024),
    (''MPSL_TIMESLOT_SESSION_COUNT'', 0), (''PARTITION_MANAGER_ENABLED'', 1),
    (''FLASH_MAP_CUSTOM'', 1), (''SRAM_SIZE'', 256), (''SRAM_BASE_ADDRESS'', 0x20000000),
    (''PM_PARTITION_SIZE_NVS_STORAGE'', 0x6000), (''PM_PARTITION_SIZE_ZBOSS_NVRAM'', 0x8000),
    (''PM_PARTITION_SIZE_ZBOSS_PRODUCT_CONFIG'', 0x1000), (''PM_SINGLE_IMAGE'', 1),
    (''PM_EXTERNAL_FLASH_BASE'', 0x0), (''PM_SRAM_BASE'', 0x20000000),
    (''PM_SRAM_SIZE'', 0x40000), (''ZIGBEE'', 1), (''ZIGBEE_APP_UTILS'', 1),
    (''NET_L2_ZIGBEE'', 1), (''ZIGBEE_CHANNEL_SELECTION_MODE_SINGLE'', 1),
    (''ZIGBEE_CHANNEL'', 16), (''ZIGBEE_ROLE_END_DEVICE'', 1),
    (''ZBOSS_DEFAULT_THREAD_PRIORITY'', 3), (''ZBOSS_DEFAULT_THREAD_STACK_SIZE'', 2048),
    (''ZIGBEE_APP_CB_QUEUE_LENGTH'', 10), (''ZBOSS_RESET_ON_ASSERT'', 1),
    (''ZBOSS_ERROR_PRINT_TO_LOG'', 1), (''ZIGBEE_ERROR_TO_STRING_ENABLED'', 1),
    (''ZBOSS_TRACE_LOG_LEVEL_OFF'', 1), (''ZBOSS_TRACE_LOG_LEVEL'', 0),
    (''ZBOSS_TRACE_MASK'', 0x0), (''ZBOSS_TRACE_HEXDUMP_LOGGING'', 1),
    (''ZBOSS_TRACE_LOGGER_BUFFER_SIZE'', 4096), (''ZIGBEE_HAVE_SERIAL'', 1),
    (''APP_LINK_WITH_ZIGBEE'', 1), (''NRF_802154_RADIO_CONFIG'', 1),
    (''NRF_802154_RADIO_CONFIG_PRIO'', 91), (''NRF_ACL_FLASH_REGION_SIZE'', 0x1000),
    (''FPROTECT_BLOCK_SIZE'', 0x1000), (''MULTITHREADING_LOCK'', 1),
    (''RESET_ON_FATAL_ERROR'', 1), (''RAM_POWER_DOWN_LIBRARY'', 1),
    (''HW_UNIQUE_KEY_PARTITION_SIZE'', 0x1000), (''HW_CC3XX'', 1), (''SENSOR'', 1),
    (''FLASH'', 1), (''CLOCK_CONTROL_MPSL'', 1), (''SOC_FLASH_NRF_RADIO_SYNC_MPSL'', 1),
    (''SOC_FLASH_NRF_RADIO_SYNC_MPSL_TIMESLOT_SESSION_COUNT'', 1), (''TEMP_NRF5_MPSL'', 1),
    (''ZEPHYR_NRF_MODULE'', 1), (''BOOT_SIGNATURE_KEY_FILE'', 1),
    (''DT_FLASH_WRITE_BLOCK_SIZE'', 4), (''MCUBOOT_USB_SUPPORT'', 1),
    (''ZEPHYR_MCUBOOT_MODULE'', 1), (''ZEPHYR_MBEDTLS_MODULE'', 1), (''MBEDTLS_BUILTIN'', 1),
    (''ZEPHYR_TRUSTED_FIRMWARE_M_MODULE'', 1), (''ZEPHYR_CJSON_MODULE'', 1),
    (''ZEPHYR_CDDL_GEN_MODULE'', 1), (''ZEPHYR_MEMFAULT_FIRMWARE_SDK_MODULE'', 1),
    (''ZEPHYR_CANOPENNODE_MODULE'', 1), (''ZEPHYR_HAL_NORDIC_MODULE'', 1),
    (''HAS_NORDIC_DRIVERS'', 1), (''NRF_802154_RADIO_DRIVER'', 1),
    (''NRF_802154_MULTIPROTOCOL_SUPPORT'', 1), (''NRF_802154_CCA_MODE_ED'', 1),
    (''NRF_802154_CCA_ED_THRESHOLD'', 45), (''NRF_802154_CCA_CORR_THRESHOLD'', 45),
    (''NRF_802154_CCA_CORR_LIMIT'', 2), (''NRF_802154_PENDING_SHORT_ADDRESSES'', 16),
    (''NRF_802154_PENDING_EXTENDED_ADDRESSES'', 16), (''NRF_802154_RX_BUFFERS'', 16),
    (''NRF_802154_TEMPERATURE_UPDATE'', 1), (''NRF_802154_TEMPERATURE_UPDATE_INIT_PRIO'', 91),
    (''NRF_802154_TEMPERATURE_UPDATE_PERIOD'', 60000), (''HAS_NRFX'', 1), (''NRFX_GPIOTE'', 1),
    (''NRFX_GPIOTE_NUM_OF_EVT_HANDLERS'', 1), (''NRFX_NVMC'', 1), (''NRFX_POWER'', 1),
    (''NRFX_PPI'', 1), (''NRFX_SYSTICK'', 1), (''NRFX_USBD'', 1), (''NRFX_WDT'', 1),
    (''NRFX_WDT0'', 1), (''ZEPHYR_LORAMAC_NODE_MODULE'', 1), (''ZEPHYR_LZ4_MODULE'', 1)]"

definition configs2 :: "(string \<times> int) list" where
  "configs2 = [
    (''ZEPHYR_NANOPB_MODULE'', 1), (''ZEPHYR_TRACERECORDER_MODULE'', 1),
    (''ZEPHYR_ZSCILIB_MODULE'', 1), (''NRF_MODEM_SHMEM_CTRL_SIZE'', 0x4E8), (''MPSL'', 1),
    (''NRFXLIB_CRYPTO'', 1), (''CRYPTOCELL_CC310_USABLE'', 1), (''CRYPTOCELL_USABLE'', 1),
    (''NRF_CC3XX_PLATFORM'', 1), (''CC3XX_MUTEX_LOCK'', 1), (''ZIGBEE_LIBRARY_PRODUCTION'', 1),
    (''ZIGBEE_LIBRARY_SOC'', 1), (''ZIGBEE_GP_PB'', 1), (''APP_LINK_WITH_ZBOSS'', 1),
    (''NRF_802154_SOURCE_NRFXLIB'', 1), (''NRF_802154_SL'', 1), (''ZEPHYR_NRFXLIB_MODULE'', 1),
    (''ZEPHYR_CONNECTEDHOMEIP_MODULE'', 1), (''HAS_CMSIS_CORE'', 1), (''HAS_CMSIS_CORE_M'', 1),
    (''BOARD_MSD_ZIGBEE_52840'', 1), (''SOC_SERIES_NRF52X'', 1), (''CPU_HAS_ARM_MPU'', 1),
    (''HAS_SWO'', 1), (''SOC_FAMILY'', 1), (''SOC_FAMILY_NRF'', 1), (''HAS_HW_NRF_ACL'', 1),
    (''HAS_HW_NRF_CC310'', 1), (''HAS_HW_NRF_CCM'', 1), (''HAS_HW_NRF_CCM_LFLEN_8BIT'', 1),
    (''HAS_HW_NRF_CLOCK'', 1), (''HAS_HW_NRF_COMP'', 1), (''HAS_HW_NRF_ECB'', 1),
    (''HAS_HW_NRF_EGU0'', 1), (''HAS_HW_NRF_EGU1'', 1), (''HAS_HW_NRF_EGU2'', 1),
    (''HAS_HW_NRF_EGU3'', 1), (''HAS_HW_NRF_EGU4'', 1), (''HAS_HW_NRF_EGU5'', 1),
    (''HAS_HW_NRF_GPIO0'', 1), (''HAS_HW_NRF_GPIO1'', 1), (''HAS_HW_NRF_GPIOTE'', 1),
    (''HAS_HW_NRF_I2S'', 1), (''HAS_HW_NRF_LPCOMP'', 1), (''HAS_HW_NRF_MWU'', 1),
    (''HAS_HW_NRF_NFCT'', 1), (''HAS_HW_NRF_NVMC_PE'', 1), (''HAS_HW_NRF_PDM'', 1),
    (''HAS_HW_NRF_POWER'', 1), (''HAS_HW_NRF_PPI'', 1), (''HAS_HW_NRF_PWM0'', 1),
    (''HAS_HW_NRF_PWM1'', 1), (''HAS_HW_NRF_PWM2'', 1), (''HAS_HW_NRF_PWM3'', 1),
    (''HAS_HW_NRF_QDEC'', 1), (''HAS_HW_NRF_QSPI'', 1), (''HAS_HW_NRF_RADIO_BLE_2M'', 1),
    (''HAS_HW_NRF_RADIO_TX_PWR_HIGH'', 1), (''HAS_HW_NRF_RADIO_BLE_CODED'', 1),
    (''HAS_HW_NRF_RADIO_IEEE802154'', 1), (''HAS_HW_NRF_RNG'', 1), (''HAS_HW_NRF_RTC0'', 1),
    (''HAS_HW_NRF_RTC1'', 1), (''HAS_HW_NRF_RTC2'', 1), (''HAS_HW_NRF_SAADC'', 1),
    (''HAS_HW_NRF_SPI0'', 1), (''HAS_HW_NRF_SPI1'', 1), (''HAS_HW_NRF_SPI2'', 1),
    (''HAS_HW_NRF_SPIM0'', 1), (''HAS_HW_NRF_SPIM1'', 1), (''HAS_HW_NRF_SPIM2'', 1),
    (''HAS_HW_NRF_SPIM3'', 1), (''HAS_HW_NRF_SPIS0'', 1), (''HAS_HW_NRF_SPIS1'', 1),
    (''HAS_HW_NRF_SPIS2'', 1), (''HAS_HW_NRF_SWI0'', 1), (''HAS_HW_NRF_SWI1'', 1),
    (''HAS_HW_NRF_SWI2'', 1), (''HAS_HW_NRF_SWI3'', 1), (''HAS_HW_NRF_SWI4'', 1),
    (''HAS_HW_NRF_SWI5'', 1), (''HAS_HW_NRF_TEMP'', 1), (''HAS_HW_NRF_TIMER0'', 1),
    (''HAS_HW_NRF_TIMER1'', 1), (''HAS_HW_NRF_TIMER2'', 1), (''HAS_HW_NRF_TIMER3'', 1),
    (''HAS_HW_NRF_TIMER4'', 1), (''HAS_HW_NRF_TWI0'', 1), (''HAS_HW_NRF_TWI1'', 1),
    (''HAS_HW_NRF_TWIM0'', 1), (''HAS_HW_NRF_TWIM1'', 1), (''HAS_HW_NRF_TWIS0'', 1),
    (''HAS_HW_NRF_TWIS1'', 1), (''HAS_HW_NRF_UART0'', 1), (''HAS_HW_NRF_UARTE0'', 1),
    (''HAS_HW_NRF_UARTE1'', 1), (''HAS_HW_NRF_USBD'', 1), (''HAS_HW_NRF_WDT'', 1),
    (''NRF_HW_TIMER1_RESERVED'', 1), (''NRF_HW_RTC1_RESERVED'', 1), (''SOC_NRF52840'', 1),
    (''SOC_NRF52840_QIAA'', 1), (''NRF_ENABLE_ICACHE'', 1), (''NRF_APPROTECT_USE_UICR'', 1),
    (''SOC_COMPATIBLE_NRF'', 1), (''SOC_COMPATIBLE_NRF52X'', 1), (''ARCH'', 1),
    (''CPU_CORTEX'', 1), (''CPU_CORTEX_M'', 1), (''ISA_THUMB2'', 1),
    (''ASSEMBLER_ISA_THUMB2'', 1), (''COMPILER_ISA_THUMB2'', 1),
    (''STACK_ALIGN_DOUBLE_WORD'', 1), (''PLATFORM_SPECIFIC_INIT'', 1), (''FAULT_DUMP'', 2),
    (''ARM_STACK_PROTECTION'', 1), (''ARM_STORE_EXC_RETURN'', 1), (''FP_HARDABI'', 1),
    (''FP16'', 1), (''FP16_IEEE'', 1), (''CPU_CORTEX_M4'', 1), (''CPU_CORTEX_M_HAS_SYSTICK'', 1),
    (''CPU_CORTEX_M_HAS_DWT'', 1), (''CPU_CORTEX_M_HAS_BASEPRI'', 1),
    (''CPU_CORTEX_M_HAS_VTOR'', 1), (''CPU_CORTEX_M_HAS_PROGRAMMABLE_FAULT_PRIOS'', 1),
    (''ARMV7_M_ARMV8_M_MAINLINE'', 1), (''ARMV7_M_ARMV8_M_FP'', 1), (''GEN_ISR_TABLES'', 1),
    (''ZERO_LATENCY_IRQS'', 1), (''NULL_POINTER_EXCEPTION_DETECTION_NONE'', 1),
    (''GEN_IRQ_VECTOR_TABLE'', 1), (''ARM_MPU'', 1), (''ARM_MPU_REGION_MIN_ALIGN_AND_SIZE'', 32),
    (''MPU_STACK_GUARD'', 1), (''MPU_STACK_GUARD_MIN_SIZE_FLOAT'', 128),
    (''MPU_ALLOW_FLASH_WRITE'', 1), (''CUSTOM_SECTION_MIN_ALIGN_SIZE'', 32), (''ARM'', 1),
    (''ARCH_IS_SET'', 1)]"

definition configs3 :: "(string \<times> int) list" where
  "configs3 = [
    (''HW_STACK_PROTECTION'', 1), (''KOBJECT_TEXT_AREA'', 256),
    (''KOBJECT_DATA_AREA_RESERVE_EXTRA_PERCENT'', 100),
    (''KOBJECT_RODATA_AREA_EXTRA_BYTES'', 16), (''GEN_PRIV_STACKS'', 1),
    (''DYNAMIC_INTERRUPTS'', 1), (''GEN_SW_ISR_TABLE'', 1), (''ARCH_SW_ISR_TABLE_ALIGN'', 0),
    (''GEN_IRQ_START_VECTOR'', 0), (''ARCH_HAS_SINGLE_THREAD_SUPPORT'', 1),
    (''ARCH_HAS_TIMING_FUNCTIONS'', 1), (''ARCH_HAS_STACK_PROTECTION'', 1),
    (''ARCH_HAS_USERSPACE'', 1), (''ARCH_HAS_EXECUTABLE_PAGE_BIT'', 1),
    (''ARCH_HAS_RAMFUNC_SUPPORT'', 1), (''ARCH_HAS_NESTED_EXCEPTION_DETECTION'', 1),
    (''ARCH_SUPPORTS_COREDUMP'', 1), (''ARCH_SUPPORTS_ARCH_HW_INIT'', 1),
    (''ARCH_HAS_EXTRA_EXCEPTION_INFO'', 1), (''ARCH_HAS_THREAD_LOCAL_STORAGE'', 1),
    (''ARCH_HAS_THREAD_ABORT'', 1), (''CPU_HAS_FPU'', 1), (''CPU_HAS_MPU'', 1), (''MPU'', 1),
    (''MPU_REQUIRES_POWER_OF_TWO_ALIGNMENT'', 1), (''SRAM_REGION_PERMISSIONS'', 1),
    (''FPU_SHARING'', 1), (''TOOLCHAIN_HAS_BUILTIN_FFS'', 1), (''MULTITHREADING'', 1),
    (''NUM_COOP_PRIORITIES'', 16), (''NUM_PREEMPT_PRIORITIES'', 15),
    (''MAIN_THREAD_PRIORITY'', 0), (''COOP_ENABLED'', 1), (''PREEMPT_ENABLED'', 1),
    (''PRIORITY_CEILING'', (- 127)), (''IDLE_STACK_SIZE'', 320), (''ISR_STACK_SIZE'', 2048),
    (''THREAD_STACK_INFO'', 1), (''ERRNO'', 1), (''SCHED_DUMB'', 1), (''WAITQ_DUMB'', 1),
    (''BOOT_DELAY'', 0), (''THREAD_MONITOR'', 1), (''THREAD_NAME'', 1),
    (''THREAD_MAX_NAME_LEN'', 32), (''SYSTEM_WORKQUEUE_PRIORITY'', (- 1)),
    (''ATOMIC_OPERATIONS_BUILTIN'', 1), (''TIMESLICING'', 1), (''TIMESLICE_SIZE'', 0),
    (''TIMESLICE_PRIORITY'', 0), (''POLL'', 1), (''NUM_MBOX_ASYNC_MSGS'', 10),
    (''NUM_PIPE_ASYNC_MSGS'', 10), (''KERNEL_MEM_POOL'', 1),
    (''ARCH_HAS_CUSTOM_SWAP_TO_MAIN'', 1), (''SWAP_NONATOMIC'', 1), (''SYS_CLOCK_EXISTS'', 1),
    (''TIMEOUT_64BIT'', 1), (''XIP'', 1), (''KERNEL_INIT_PRIORITY_OBJECTS'', 30),
    (''KERNEL_INIT_PRIORITY_DEFAULT'', 40), (''KERNEL_INIT_PRIORITY_DEVICE'', 50),
    (''APPLICATION_INIT_PRIORITY'', 90), (''STACK_POINTER_RANDOM'', 0), (''MP_NUM_CPUS'', 1),
    (''TICKLESS_KERNEL'', 1), (''HAS_DTS'', 1), (''HAS_DTS_GPIO'', 1), (''HAS_DTS_WDT'', 1),
    (''IEEE802154'', 1), (''IEEE802154_NRF5_DRV_NAME'', 1),
    (''IEEE802154_NRF5_RX_STACK_SIZE'', 800), (''IEEE802154_NRF5_INIT_PRIO'', 80),
    (''IEEE802154_NRF5_EXT_IRQ_MGMT'', 1), (''IEEE802154_NRF5_FCS_IN_LENGTH'', 1),
    (''IEEE802154_DELAY_TRX_ACC'', 20), (''HAS_SEGGER_RTT'', 1), (''SERIAL_HAS_DRIVER'', 1),
    (''SERIAL_SUPPORT_ASYNC'', 1), (''SERIAL_SUPPORT_INTERRUPT'', 1),
    (''UART_USE_RUNTIME_CONFIGURE'', 1), (''UART_NRFX'', 1), (''UART_0_NRF_UARTE'', 1),
    (''UART_0_ENHANCED_POLL_OUT'', 1), (''UART_0_INTERRUPT_DRIVEN'', 1),
    (''UART_0_NRF_TX_BUFFER_SIZE'', 32), (''UART_1_NRF_UARTE'', 1),
    (''UART_1_INTERRUPT_DRIVEN'', 1), (''UART_1_ENHANCED_POLL_OUT'', 1),
    (''UART_1_NRF_TX_BUFFER_SIZE'', 32), (''UART_ENHANCED_POLL_OUT'', 1),
    (''NRF_UARTE_PERIPHERAL'', 1), (''SYSTEM_CLOCK_INIT_PRIORITY'', 0),
    (''TICKLESS_CAPABLE'', 1), (''NRF_RTC_TIMER_USER_CHAN_COUNT'', 0),
    (''SYSTEM_CLOCK_WAIT_FOR_STABILITY'', 1), (''RISCV_MACHINE_TIMER_SYSTEM_CLOCK_DIVIDER'', 0),
    (''ENTROPY_INIT_PRIORITY'', 50), (''ENTROPY_NRF5_RNG'', 1),
    (''ENTROPY_NRF5_THR_POOL_SIZE'', 8), (''ENTROPY_NRF5_THR_THRESHOLD'', 4),
    (''ENTROPY_NRF5_ISR_POOL_SIZE'', 16), (''ENTROPY_NRF5_ISR_THRESHOLD'', 12),
    (''ENTROPY_HAS_DRIVER'', 1), (''GPIO_NRFX'', 1), (''ADC'', 1),
    (''ADC_CONFIGURABLE_INPUTS'', 1), (''ADC_NRFX_SAADC'', 1), (''WDT_NRFX'', 1),
    (''WDT_ITE_WARNING_LEADING_TIME_MS'', 5000), (''CLOCK_CONTROL_NRF_FORCE_ALT'', 1),
    (''CLOCK_CONTROL_NRF'', 1), (''CLOCK_CONTROL_NRF_K32SRC_SYNTH'', 1),
    (''CLOCK_CONTROL_NRF_K32SRC_50PPM'', 1), (''CLOCK_CONTROL_NRF_ACCURACY'', 50),
    (''FLASH_HAS_DRIVER_ENABLED'', 1), (''FLASH_HAS_PAGE_LAYOUT'', 1),
    (''FLASH_PAGE_LAYOUT'', 1), (''SOC_FLASH_NRF'', 1), (''SENSOR_INIT_PRIORITY'', 90),
    (''TMP112_FULL_SCALE_RUNTIME'', 1), (''TMP112_SAMPLING_FREQUENCY_RUNTIME'', 1),
    (''COUNTER'', 1), (''COUNTER_INIT_PRIORITY'', 50), (''COUNTER_NRF_TIMER'', 1),
    (''COUNTER_TIMER2'', 1), (''USB_DEVICE_DRIVER'', 1), (''USB_DEVICE_REMOTE_WAKEUP'', 1),
    (''USB_NRFX'', 1), (''USB_NRFX_EVT_QUEUE_SIZE'', 32),
    (''USB_NRFX_WORK_QUEUE_STACK_SIZE'', 1024), (''USB_NRFX_ATTACHED_EVENT_DELAY'', 0),
    (''CRYPTO'', 1), (''CRYPTO_INIT_PRIORITY'', 80), (''CRYPTO_NRF_ECB'', 1), (''HWINFO'', 1),
    (''DISK_DRIVERS'', 1), (''SUPPORT_MINIMAL_LIBC'', 1), (''NEWLIB_LIBC'', 1),
    (''HAS_NEWLIB_LIBC_NANO'', 1)]"

definition configs4 :: "(string \<times> int) list" where
  "configs4 = [
    (''NEWLIB_LIBC_NANO'', 1), (''NEWLIB_LIBC_MIN_REQUIRED_HEAP_SIZE'', 2048),
    (''RING_BUFFER'', 1), (''SYS_HEAP_ALLOC_LOOPS'', 3), (''SYS_HEAP_SMALL_ONLY'', 1),
    (''REBOOT'', 1), (''CBPRINTF_COMPLETE'', 1), (''CBPRINTF_FULL_INTEGRAL'', 1),
    (''CBPRINTF_FP_SUPPORT'', 1), (''CBPRINTF_N_SPECIFIER'', 1), (''POSIX_MAX_FDS'', 4),
    (''MAX_TIMER_COUNT'', 5), (''PRINTK'', 1), (''ASSERT'', 1), (''ASSERT_LEVEL'', 2),
    (''SPIN_VALIDATE'', 1), (''ASSERT_VERBOSE'', 1), (''ASSERT_NO_COND_INFO'', 1),
    (''ASSERT_NO_MSG_INFO'', 1), (''DEBUG_THREAD_INFO'', 1), (''DISK_ACCESS'', 1), (''NVS'', 1),
    (''NET_BUF'', 1), (''NET_BUF_USER_DATA_SIZE'', 0), (''NETWORKING'', 1),
    (''NET_L2_PHY_IEEE802154'', 1), (''NET_L2_CUSTOM_IEEE802154'', 1),
    (''NET_L2_CUSTOM_IEEE802154_MTU'', 127), (''NET_NATIVE'', 1), (''NET_NATIVE_IPV6'', 1),
    (''NET_INIT_PRIO'', 90), (''NET_IF_MAX_IPV6_COUNT'', 1),
    (''NET_IF_UNICAST_IPV6_ADDR_COUNT'', 2), (''NET_IF_MCAST_IPV6_ADDR_COUNT'', 3),
    (''NET_IF_IPV6_PREFIX_COUNT'', 2), (''NET_INITIAL_HOP_LIMIT'', 64),
    (''NET_IPV6_MAX_NEIGHBORS'', 8), (''NET_IPV6_LOG_LEVEL'', 0), (''NET_ICMPV6_LOG_LEVEL'', 0),
    (''NET_IPV6_NBR_CACHE_LOG_LEVEL'', 0), (''NET_TC_TX_COUNT'', 0), (''NET_TC_RX_COUNT'', 1),
    (''NET_TC_THREAD_COOPERATIVE'', 1), (''NET_TC_NUM_PRIORITIES'', 16),
    (''NET_TC_MAPPING_STRICT'', 1), (''NET_TX_DEFAULT_PRIORITY'', 1),
    (''NET_RX_DEFAULT_PRIORITY'', 0), (''NET_MAX_ROUTERS'', 1), (''NET_MAX_CONTEXTS'', 6),
    (''NET_CONTEXT_SYNC_RECV'', 1), (''NET_CONTEXT_CHECK'', 1), (''NET_BUF_RX_COUNT'', 16),
    (''NET_BUF_TX_COUNT'', 16), (''NET_BUF_FIXED_DATA_SIZE'', 1), (''NET_BUF_DATA_SIZE'', 128),
    (''NET_DEFAULT_IF_FIRST'', 1), (''NET_TX_STACK_SIZE'', 1200), (''NET_RX_STACK_SIZE'', 1500),
    (''NET_PKT_LOG_LEVEL'', 0), (''NET_DEBUG_NET_PKT_EXTERNALS'', 0),
    (''NET_CORE_LOG_LEVEL'', 0), (''NET_IF_LOG_LEVEL'', 0), (''NET_TC_LOG_LEVEL'', 0),
    (''NET_UTILS_LOG_LEVEL'', 0), (''NET_CONTEXT_LOG_LEVEL'', 0), (''NET_CONN_LOG_LEVEL'', 0),
    (''NET_ROUTE_LOG_LEVEL'', 0), (''NET_HTTP_LOG_LEVEL'', 0), (''NET_CONFIG_AUTO_INIT'', 1),
    (''NET_CONFIG_INIT_PRIO'', 95), (''NET_CONFIG_INIT_TIMEOUT'', 30),
    (''NET_CONFIG_LOG_LEVEL'', 0), (''PM_POLICY_RESIDENCY'', 1), (''USB_DEVICE_STACK'', 1),
    (''USB_PID_CDC_ACM_SAMPLE'', 0x1), (''USB_PID_CDC_ACM_COMPOSITE_SAMPLE'', 0x2),
    (''USB_PID_HID_CDC_SAMPLE'', 0x3), (''USB_PID_CONSOLE_SAMPLE'', 0x4),
    (''USB_PID_DFU_SAMPLE'', 0x5), (''USB_PID_HID_SAMPLE'', 0x6),
    (''USB_PID_HID_MOUSE_SAMPLE'', 0x7), (''USB_PID_MASS_SAMPLE'', 0x8),
    (''USB_PID_TESTUSB_SAMPLE'', 0x9), (''USB_PID_WEBUSB_SAMPLE'', 0xA),
    (''USB_PID_BLE_HCI_SAMPLE'', 0xB), (''USB_PID_BLE_HCI_H4_SAMPLE'', 0xC),
    (''USB_PID_WPANUSB_SAMPLE'', 0xD), (''USB_DEVICE_VID'', 0x2FE3),
    (''USB_DEVICE_MANUFACTURER'', 1), (''USB_DEVICE_PRODUCT'', 1), (''USB_DEVICE_SN'', 1),
    (''USB_COMPOSITE_DEVICE'', 1), (''USB_MAX_NUM_TRANSFERS'', 4),
    (''USB_REQUEST_BUFFER_SIZE'', 128), (''USB_MAX_ALT_SETTING'', 8),
    (''USB_NUMOF_EP_WRITE_RETRIES'', 3), (''USB_SELF_POWERED'', 1), (''USB_MAX_POWER'', 50),
    (''USB_WORKQUEUE'', 1), (''USB_WORKQUEUE_STACK_SIZE'', 1024),
    (''USB_WORKQUEUE_PRIORITY'', (- 1)), (''USB_CDC_ACM'', 1),
    (''USB_CDC_ACM_RINGBUF_SIZE'', 512), (''CDC_ACM_INTERRUPT_EP_MPS'', 16),
    (''CDC_ACM_BULK_EP_MPS'', 64), (''CDC_ACM_IAD'', 1), (''USB_MASS_STORAGE'', 1),
    (''MASS_STORAGE_DISK_NAME'', 1), (''MASS_STORAGE_INQ_VENDOR_ID'', 1),
    (''MASS_STORAGE_INQ_PRODUCT_ID'', 1), (''MASS_STORAGE_INQ_REVISION'', 1),
    (''MASS_STORAGE_BULK_EP_MPS'', 64), (''MASS_STORAGE_STACK_SIZE'', 512),
    (''ENTROPY_DEVICE_RANDOM_GENERATOR'', 1), (''CSPRING_ENABLED'', 1),
    (''HARDWARE_DEVICE_CS_GENERATOR'', 1), (''FLASH_MAP'', 1),
    (''TEST_LOGGING_FLUSH_AFTER_TEST'', 1), (''TOOLCHAIN_GNUARMEMB'', 1),
    (''LINKER_ORPHAN_SECTION_WARN'', 1), (''HAS_FLASH_LOAD_OFFSET'', 1),
    (''FLASH_LOAD_OFFSET'', 0x0), (''FLASH_LOAD_SIZE'', 0x0),
    (''LD_LINKER_SCRIPT_SUPPORTED'', 1), (''LD_LINKER_TEMPLATE'', 1), (''KERNEL_ENTRY'', 1),
    (''LINKER_SORT_BY_ALIGNMENT'', 1), (''SRAM_OFFSET'', 0x0),
    (''LINKER_GENERIC_SECTIONS_PRESENT_AT_BOOT'', 1), (''DEBUG_OPTIMIZATIONS'', 1),
    (''COMPILER_COLOR_DIAGNOSTICS'', 1), (''COMPILER_OPT'', 1), (''RUNTIME_ERROR_CHECKS'', 1),
    (''KERNEL_BIN_NAME'', 1), (''OUTPUT_STAT'', 1), (''OUTPUT_DISASSEMBLY'', 1),
    (''OUTPUT_PRINT_MEMORY_USAGE'', 1), (''BUILD_OUTPUT_BIN'', 1), (''EXPERIMENTAL'', 1),
    (''COMPAT_INCLUDES'', 1)]"

definition ConfigAbsSyms :: "(string \<times> int) list" where
  "ConfigAbsSyms = configs1 @ configs2 @ configs3 @ configs4"

section \<open>Lookups\<close>

definition option_of :: "string \<Rightarrow> config_value option" where
  "option_of c = map_of autoconf c"

text \<open>A text has no number: its symbol is 1.\<close>

fun symbol_value :: "config_value \<Rightarrow> int" where
  "symbol_value (CNum n) = n"
| "symbol_value (CStr s) = 1"

lemma configs_chunks:
  "configs1 = map (\<lambda>(c, v). (c, symbol_value v)) autoconf1"
  "configs2 = map (\<lambda>(c, v). (c, symbol_value v)) autoconf2"
  "configs3 = map (\<lambda>(c, v). (c, symbol_value v)) autoconf3"
  "configs4 = map (\<lambda>(c, v). (c, symbol_value v)) autoconf4"
  by (simp_all add: configs1_def configs2_def configs3_def configs4_def
    autoconf1_def autoconf2_def autoconf3_def autoconf4_def)

lemma ConfigAbsSyms_eq: "ConfigAbsSyms = map (\<lambda>(c, v). (c, symbol_value v)) autoconf"
  by (simp add: ConfigAbsSyms_def autoconf_def configs_chunks)

text \<open>
  The options that the modelled code or the memory layout depends on.  A lookup in the whole list
  is a lookup among them, which the four lists are searched for once.
\<close>

definition used_options :: "string list" where
  "used_options = [
    ''ADC_NRFX_SAADC'', ''USERSPACE'', ''TRACING_SYSCALL'', ''EVENTS'', ''NUM_IRQS'',
    ''FLASH_SIZE'', ''FLASH_BASE_ADDRESS'', ''SRAM_SIZE'', ''SRAM_BASE_ADDRESS'',
    ''DT_FLASH_WRITE_BLOCK_SIZE'', ''PM_PARTITION_SIZE_NVS_STORAGE'',
    ''PM_PARTITION_SIZE_ZBOSS_NVRAM'', ''PM_PARTITION_SIZE_ZBOSS_PRODUCT_CONFIG'',
    ''PM_SRAM_BASE'', ''PM_SRAM_SIZE'', ''NRFX_WDT0'', ''USB_CDC_ACM'', ''NVS'', ''REBOOT'',
    ''NUM_COOP_PRIORITIES'', ''NUM_METAIRQ_PRIORITIES'', ''MAIN_THREAD_PRIORITY'']"

lemma map_of_filter_fst: "P c \<Longrightarrow> map_of (filter (\<lambda>p. P (fst p)) xs) c = map_of xs c"
  by (induction xs) auto

lemma used_part1:
  "filter (\<lambda>p. List.member used_options (fst p)) autoconf1 = [
     (''NUM_IRQS'', CNum 48), (''FLASH_SIZE'', CNum 1024), (''FLASH_BASE_ADDRESS'', CNum
     0x0), (''NUM_METAIRQ_PRIORITIES'', CNum 0), (''SRAM_SIZE'', CNum 256),
     (''SRAM_BASE_ADDRESS'', CNum 0x20000000), (''PM_PARTITION_SIZE_NVS_STORAGE'', CNum
     0x6000), (''PM_PARTITION_SIZE_ZBOSS_NVRAM'', CNum 0x8000),
     (''PM_PARTITION_SIZE_ZBOSS_PRODUCT_CONFIG'', CNum 0x1000), (''PM_SRAM_BASE'', CNum
     0x20000000), (''PM_SRAM_SIZE'', CNum 0x40000), (''DT_FLASH_WRITE_BLOCK_SIZE'', CNum 4),
     (''NRFX_WDT0'', CNum 1)]"
  by code_simp

lemma used_part2:
  "filter (\<lambda>p. List.member used_options (fst p)) autoconf2 = []"
  by code_simp

lemma used_part3:
  "filter (\<lambda>p. List.member used_options (fst p)) autoconf3 = [
     (''NUM_COOP_PRIORITIES'', CNum 16), (''MAIN_THREAD_PRIORITY'', CNum 0),
     (''ADC_NRFX_SAADC'', CNum 1)]"
  by code_simp

lemma used_part4:
  "filter (\<lambda>p. List.member used_options (fst p)) autoconf4 = [
     (''REBOOT'', CNum 1), (''NVS'', CNum 1), (''USB_CDC_ACM'', CNum 1)]"
  by code_simp

definition used_values :: "(string \<times> config_value) list" where
  "used_values = [
    (''NUM_IRQS'', CNum 48), (''FLASH_SIZE'', CNum 1024), (''FLASH_BASE_ADDRESS'', CNum 0x0),
    (''NUM_METAIRQ_PRIORITIES'', CNum 0), (''SRAM_SIZE'', CNum 256),
    (''SRAM_BASE_ADDRESS'', CNum 0x20000000), (''PM_PARTITION_SIZE_NVS_STORAGE'', CNum
    0x6000), (''PM_PARTITION_SIZE_ZBOSS_NVRAM'', CNum 0x8000),
    (''PM_PARTITION_SIZE_ZBOSS_PRODUCT_CONFIG'', CNum 0x1000), (''PM_SRAM_BASE'', CNum
    0x20000000), (''PM_SRAM_SIZE'', CNum 0x40000), (''DT_FLASH_WRITE_BLOCK_SIZE'', CNum 4),
    (''NRFX_WDT0'', CNum 1), (''NUM_COOP_PRIORITIES'', CNum 16),
    (''MAIN_THREAD_PRIORITY'', CNum 0), (''ADC_NRFX_SAADC'', CNum 1), (''REBOOT'', CNum 1),
    (''NVS'', CNum 1), (''USB_CDC_ACM'', CNum 1)]"

lemma used_filter: "filter (\<lambda>p. List.member used_options (fst p)) autoconf = used_values"
  by (simp only: autoconf_def used_values_def filter_append used_part1 used_part2 used_part3
    used_part4 append.simps)

lemma option_of_used: "List.member used_options c \<Longrightarrow> option_of c = map_of used_values c"
  using map_of_filter_fst [where P = "List.member used_options" and xs = autoconf]
  by (simp only: option_of_def used_filter)

lemma options [simp]:
  "option_of ''ADC_NRFX_SAADC'' = Some (CNum 1)"
  "option_of ''USERSPACE'' = None"
  "option_of ''TRACING_SYSCALL'' = None"
  "option_of ''EVENTS'' = None"
  "option_of ''NUM_IRQS'' = Some (CNum 48)"
  "option_of ''FLASH_SIZE'' = Some (CNum 1024)"
  "option_of ''FLASH_BASE_ADDRESS'' = Some (CNum 0x0)"
  "option_of ''SRAM_SIZE'' = Some (CNum 256)"
  "option_of ''SRAM_BASE_ADDRESS'' = Some (CNum 0x20000000)"
  "option_of ''DT_FLASH_WRITE_BLOCK_SIZE'' = Some (CNum 4)"
  "option_of ''PM_PARTITION_SIZE_NVS_STORAGE'' = Some (CNum 0x6000)"
  "option_of ''PM_PARTITION_SIZE_ZBOSS_NVRAM'' = Some (CNum 0x8000)"
  "option_of ''PM_PARTITION_SIZE_ZBOSS_PRODUCT_CONFIG'' = Some (CNum 0x1000)"
  "option_of ''PM_SRAM_BASE'' = Some (CNum 0x20000000)"
  "option_of ''PM_SRAM_SIZE'' = Some (CNum 0x40000)"
  "option_of ''NRFX_WDT0'' = Some (CNum 1)"
  "option_of ''USB_CDC_ACM'' = Some (CNum 1)"
  "option_of ''NVS'' = Some (CNum 1)"
  "option_of ''REBOOT'' = Some (CNum 1)"
  "option_of ''NUM_COOP_PRIORITIES'' = Some (CNum 16)"
  "option_of ''NUM_METAIRQ_PRIORITIES'' = Some (CNum 0)"
  "option_of ''MAIN_THREAD_PRIORITY'' = Some (CNum 0)"
  by (simp_all add: option_of_used used_options_def used_values_def)

end
