(* ===== verification/DeviceTree.thy ===== *)
theory DeviceTree
  imports Prelude
begin

text \<open>
  The board's device tree, \<open>zephyr/include/generated/devicetree_unfixed.h\<close>: the record of one node
  with every macro the generator writes for it that is not a function of the others, and the
  lookups the program makes through \<open>DT_ALIAS\<close>, \<open>DT_INST\<close>, \<open>DT_PROP\<close> and the rest.  A node identifier
  \<open>DT_N_S_...\<close> is the node's place in the file, which is also its dependency ordinal.  The macros
  \<open>_EXISTS\<close>, \<open>_LEN\<close>, \<open>_IDX_\<close>, \<open>_TOKEN\<close> and \<open>_FOREACH_PROP_ELEM\<close> only restate the value they stand beside,
  so they are the lookups of the last section.
\<close>

section \<open>Values and nodes\<close>

type_synonym node_id = int

datatype dt_value =
    DT_int int
  | DT_str string
  | DT_ints "int list"
  | DT_strs "string list"
  | DT_enum string int
  | DT_int_enum int int
  | DT_phandle node_id

record dt_node =
  PATH :: string
  FULL_NAME :: string
  PARENT :: "node_id option"
  FOREACH_CHILD :: "node_id list"
  FOREACH_CHILD_STATUS_OKAY :: "node_id list"
  ORD :: int
  REQUIRES_ORDS :: "int list"
  SUPPORTS_ORDS :: "int list"
  INST :: "(string \<times> int) list"
  NODELABELS :: "string list"
  ALIASES :: "string list"
  BUS :: "(node_id \<times> string) option"
  REGS :: "(int \<times> int option) list"
  REG_NAMES :: "(string \<times> int) list"
  RANGES_NUM :: int
  IRQS :: "(int \<times> int) list"
  COMPAT_MATCHES :: "string list"
  STATUS_okay :: bool
  PARTITION_ID :: "int option"
  PINCTRL_NUM :: int
  PROPS :: "(string \<times> dt_value) list"

section \<open>Lookups\<close>

definition node_at :: "dt_node list \<Rightarrow> node_id \<Rightarrow> dt_node option" where
  "node_at t k = find (\<lambda>n. ORD n = k) t"

definition DT_ALIAS :: "dt_node list \<Rightarrow> string \<Rightarrow> node_id option" where
  "DT_ALIAS t a = map_option ORD (find (\<lambda>n. List.member (ALIASES n) a) t)"

definition DT_NODELABEL :: "dt_node list \<Rightarrow> string \<Rightarrow> node_id option" where
  "DT_NODELABEL t l = map_option ORD (find (\<lambda>n. List.member (NODELABELS n) l) t)"

text \<open>The macros \<open>DT_N_INST_<i>_<compatible>\<close>, and the enabled nodes of every compatible.\<close>

definition instances :: "dt_node list \<Rightarrow> ((string \<times> int) \<times> node_id) list" where
  "instances t = concat (map (\<lambda>n. map (\<lambda>ci. (ci, ORD n)) (INST n)) t)"

definition DT_INST :: "dt_node list \<Rightarrow> int \<Rightarrow> string \<Rightarrow> node_id option" where
  "DT_INST t i c = map_of (instances t) (c, i)"

definition okay_compats :: "dt_node list \<Rightarrow> (string \<times> node_id) list" where
  "okay_compats t =
     concat (map (\<lambda>n. if STATUS_okay n then map (\<lambda>c. (c, ORD n)) (COMPAT_MATCHES n) else []) t)"

definition DT_PROP :: "dt_node list \<Rightarrow> node_id \<Rightarrow> string \<Rightarrow> dt_value option" where
  "DT_PROP t k p = do { n \<leftarrow> node_at t k; map_of (PROPS n) p }"

text \<open>The elements \<open>_IDX_0\<close>, \<open>_IDX_1\<close>, ... of a value: those of an array, or the one node referred to.\<close>

fun dt_elements :: "dt_value \<Rightarrow> dt_value list" where
  "dt_elements (DT_ints xs) = map DT_int xs"
| "dt_elements (DT_strs xs) = map DT_str xs"
| "dt_elements (DT_phandle k) = [DT_phandle k]"
| "dt_elements v = []"

definition DT_PROP_BY_IDX :: "dt_node list \<Rightarrow> node_id \<Rightarrow> string \<Rightarrow> nat \<Rightarrow> dt_value option" where
  "DT_PROP_BY_IDX t k p i = do { v \<leftarrow> DT_PROP t k p; read_at (dt_elements v) i }"

text \<open>\<open>_LEN\<close> is written for the values with elements, but not for \<open>reg\<close> and \<open>interrupts\<close>.\<close>

definition DT_PROP_LEN :: "dt_node list \<Rightarrow> node_id \<Rightarrow> string \<Rightarrow> nat option" where
  "DT_PROP_LEN t k p = do {
     v \<leftarrow> DT_PROP t k p;
     if dt_elements v = [] \<or> p = ''reg'' \<or> p = ''interrupts'' then None else Some (length (dt_elements v))
   }"

text \<open>\<open>_FOREACH_PROP_ELEM\<close> runs over the indices of an array or over the characters of a string.\<close>

fun dt_indices :: "dt_value \<Rightarrow> nat list option" where
  "dt_indices (DT_ints xs) = Some [0..<length xs]"
| "dt_indices (DT_strs xs) = Some [0..<length xs]"
| "dt_indices (DT_str s) = Some [0..<length s]"
| "dt_indices (DT_enum s i) = Some [0..<length s]"
| "dt_indices v = None"

definition DT_FOREACH_PROP_ELEM :: "dt_node list \<Rightarrow> node_id \<Rightarrow> string \<Rightarrow> nat list option" where
  "DT_FOREACH_PROP_ELEM t k p = do { v \<leftarrow> DT_PROP t k p; dt_indices v }"

fun phandle_of :: "dt_value \<Rightarrow> node_id option" where
  "phandle_of (DT_phandle k) = Some k"
| "phandle_of v = None"

definition DT_PHANDLE :: "dt_node list \<Rightarrow> node_id \<Rightarrow> string \<Rightarrow> node_id option" where
  "DT_PHANDLE t k p = do { v \<leftarrow> DT_PROP t k p; phandle_of v }"

definition DT_LABEL :: "dt_node list \<Rightarrow> node_id \<Rightarrow> dt_value option" where
  "DT_LABEL t k = DT_PROP t k ''label''"

definition enabled :: "dt_node list \<Rightarrow> node_id \<Rightarrow> bool" where
  "enabled t k = (case node_at t k of None \<Rightarrow> False | Some n \<Rightarrow> STATUS_okay n)"

section \<open>Dependencies\<close>

definition requires_pairs :: "dt_node list \<Rightarrow> (int \<times> int) list" where
  "requires_pairs t = concat (map (\<lambda>n. map (Pair (ORD n)) (REQUIRES_ORDS n)) t)"

definition supports_pairs :: "dt_node list \<Rightarrow> (int \<times> int) list" where
  "supports_pairs t = concat (map (\<lambda>n. map (Pair (ORD n)) (SUPPORTS_ORDS n)) t)"

definition dt_requires :: "dt_node list \<Rightarrow> (int \<times> int) set" where
  "dt_requires t = set (requires_pairs t)"

definition dt_supports :: "dt_node list \<Rightarrow> (int \<times> int) set" where
  "dt_supports t = set (supports_pairs t)"

text \<open>Nodes brought up one after the other, each only when all it requires is up.\<close>

fun brought_up :: "int list \<Rightarrow> dt_node list \<Rightarrow> bool" where
  "brought_up up [] = True"
| "brought_up up (n # ns) =
    (list_all (List.member up) (REQUIRES_ORDS n) \<and> brought_up (ORD n # up) ns)"

definition child_path :: "string \<Rightarrow> string \<Rightarrow> string" where
  "child_path p name = (if p = ''/'' then '''' else p) @ ''/'' @ name"

text \<open>A node is where its parent says, is named after it and depends on it.\<close>

definition placed :: "dt_node list \<Rightarrow> dt_node \<Rightarrow> bool" where
  "placed t n =
     (case PARENT n of
        None \<Rightarrow> PATH n = ''/''
      | Some k \<Rightarrow> (case node_at t k of
          None \<Rightarrow> False
        | Some p \<Rightarrow> List.member (FOREACH_CHILD p) (ORD n) \<and> List.member (REQUIRES_ORDS n) k \<and>
            PATH n = child_path (PATH p) (FULL_NAME n)))"

definition children_listed :: "dt_node list \<Rightarrow> dt_node \<Rightarrow> bool" where
  "children_listed t n =
     (list_all (\<lambda>k. case node_at t k of None \<Rightarrow> False | Some c \<Rightarrow> PARENT c = Some (ORD n)) (FOREACH_CHILD n)
      \<and> distinct (FOREACH_CHILD n)
      \<and> FOREACH_CHILD_STATUS_OKAY n = filter (enabled t) (FOREACH_CHILD n))"

text \<open>
  What a bring-up order gives: an order in which every node comes after all it requires has no
  dependency cycle, directly or through other nodes, and every chain of dependencies ends.
\<close>

lemma dt_requires_iff: "(a, b) \<in> dt_requires t \<longleftrightarrow> (\<exists>n\<in>set t. ORD n = a \<and> b \<in> set (REQUIRES_ORDS n))"
  by (auto simp: dt_requires_def requires_pairs_def)

lemma brought_up_less:
  assumes "brought_up up t" "sorted_wrt (<) (map ORD t)" "\<forall>u\<in>set up. \<forall>n\<in>set t. u < ORD n"
    and "n \<in> set t" "j \<in> set (REQUIRES_ORDS n)"
  shows "j < ORD n"
  using assms
proof (induction t arbitrary: up)
  case (Cons m t)
  show ?case
  proof (cases "n = m")
    case True
    with Cons.prems show ?thesis by (auto simp: list_all_iff)
  next
    case False
    with Cons.prems show ?thesis by (intro Cons.IH [of "ORD m # up"]) auto
  qed
qed simp

locale bring_up_order =
  fixes t :: "dt_node list"
  assumes up: "brought_up [] t"
    and rising: "sorted_wrt (<) (map ORD t)"
begin

lemma requires_less: "(a, b) \<in> dt_requires t \<Longrightarrow> b < a"
  using brought_up_less [OF up rising] by (auto simp: dt_requires_iff)

lemma chain_less: "(a, b) \<in> (dt_requires t)\<^sup>+ \<Longrightarrow> b < a"
  by (induction rule: trancl_induct) (auto dest: requires_less)

lemma no_cycle: "acyclic (dt_requires t)"
  using chain_less by (fastforce simp: acyclic_def)

lemma chains_end: "wf ((dt_requires t)\<inverse>)"
  using no_cycle by (simp add: finite_acyclic_wf_converse dt_requires_def)

end

end
