(* ===== verification/DtNodesA.thy ===== *)
theory DtNodesA
  imports DeviceTree
begin

text \<open>
  The device-tree nodes of ordinal 0 to 23: the root and its buses, the interrupt controller, the
  analogue converter and the description of the sensor, the processor, clock, encryption, event
  units, factory information and ports.  A number of four hexadecimal digits or more is written
  in hexadecimal, as the comments of the file do.
\<close>

section \<open>Node identifiers\<close>

abbreviation (input) DT_N :: node_id where
  "DT_N \<equiv> 0"
abbreviation (input) DT_N_S_aliases :: node_id where
  "DT_N_S_aliases \<equiv> 1"
abbreviation (input) DT_N_S_chosen :: node_id where
  "DT_N_S_chosen \<equiv> 2"
abbreviation (input) DT_N_S_pin_controller :: node_id where
  "DT_N_S_pin_controller \<equiv> 3"
abbreviation (input) DT_N_S_soc :: node_id where
  "DT_N_S_soc \<equiv> 4"
abbreviation (input) DT_N_S_soc_S_interrupt_controller_e000e100 :: node_id where
  "DT_N_S_soc_S_interrupt_controller_e000e100 \<equiv> 5"
abbreviation (input) DT_N_S_soc_S_adc_40007000 :: node_id where
  "DT_N_S_soc_S_adc_40007000 \<equiv> 6"
abbreviation (input) DT_N_S_see_msdz_yaml :: node_id where
  "DT_N_S_see_msdz_yaml \<equiv> 7"
abbreviation (input) DT_N_S_soc_S_timer_4000a000 :: node_id where
  "DT_N_S_soc_S_timer_4000a000 \<equiv> 8"
abbreviation (input) DT_N_S_sw_pwm :: node_id where
  "DT_N_S_sw_pwm \<equiv> 9"
abbreviation (input) DT_N_S_cpus :: node_id where
  "DT_N_S_cpus \<equiv> 10"
abbreviation (input) DT_N_S_cpus_S_cpu_0 :: node_id where
  "DT_N_S_cpus_S_cpu_0 \<equiv> 11"
abbreviation (input) DT_N_S_soc_S_clock_40000000 :: node_id where
  "DT_N_S_soc_S_clock_40000000 \<equiv> 12"
abbreviation (input) DT_N_S_soc_S_ecb_4000e000 :: node_id where
  "DT_N_S_soc_S_ecb_4000e000 \<equiv> 13"
abbreviation (input) DT_N_S_soc_S_egu_40014000 :: node_id where
  "DT_N_S_soc_S_egu_40014000 \<equiv> 14"
abbreviation (input) DT_N_S_soc_S_egu_40015000 :: node_id where
  "DT_N_S_soc_S_egu_40015000 \<equiv> 15"
abbreviation (input) DT_N_S_soc_S_egu_40016000 :: node_id where
  "DT_N_S_soc_S_egu_40016000 \<equiv> 16"
abbreviation (input) DT_N_S_soc_S_egu_40017000 :: node_id where
  "DT_N_S_soc_S_egu_40017000 \<equiv> 17"
abbreviation (input) DT_N_S_soc_S_egu_40018000 :: node_id where
  "DT_N_S_soc_S_egu_40018000 \<equiv> 18"
abbreviation (input) DT_N_S_soc_S_egu_40019000 :: node_id where
  "DT_N_S_soc_S_egu_40019000 \<equiv> 19"
abbreviation (input) DT_N_S_soc_S_ficr_10000000 :: node_id where
  "DT_N_S_soc_S_ficr_10000000 \<equiv> 20"
abbreviation (input) DT_N_S_soc_S_gpio_50000000 :: node_id where
  "DT_N_S_soc_S_gpio_50000000 \<equiv> 21"
abbreviation (input) DT_N_S_soc_S_gpio_50000300 :: node_id where
  "DT_N_S_soc_S_gpio_50000300 \<equiv> 22"
abbreviation (input) DT_N_S_soc_S_gpiote_40006000 :: node_id where
  "DT_N_S_soc_S_gpiote_40006000 \<equiv> 23"
abbreviation (input) DT_N_S_soc_S_i2c_40003000 :: node_id where
  "DT_N_S_soc_S_i2c_40003000 \<equiv> 24"
abbreviation (input) DT_N_S_soc_S_i2c_40004000 :: node_id where
  "DT_N_S_soc_S_i2c_40004000 \<equiv> 25"
abbreviation (input) DT_N_S_soc_S_i2s_40025000 :: node_id where
  "DT_N_S_soc_S_i2s_40025000 \<equiv> 26"
abbreviation (input) DT_N_S_soc_S_memory_20000000 :: node_id where
  "DT_N_S_soc_S_memory_20000000 \<equiv> 27"
abbreviation (input) DT_N_S_soc_S_pdm_4001d000 :: node_id where
  "DT_N_S_soc_S_pdm_4001d000 \<equiv> 28"
abbreviation (input) DT_N_S_soc_S_pwm_4001c000 :: node_id where
  "DT_N_S_soc_S_pwm_4001c000 \<equiv> 29"
abbreviation (input) DT_N_S_soc_S_pwm_40021000 :: node_id where
  "DT_N_S_soc_S_pwm_40021000 \<equiv> 30"
abbreviation (input) DT_N_S_soc_S_pwm_40022000 :: node_id where
  "DT_N_S_soc_S_pwm_40022000 \<equiv> 31"
abbreviation (input) DT_N_S_soc_S_pwm_4002d000 :: node_id where
  "DT_N_S_soc_S_pwm_4002d000 \<equiv> 32"
abbreviation (input) DT_N_S_soc_S_qdec_40012000 :: node_id where
  "DT_N_S_soc_S_qdec_40012000 \<equiv> 33"
abbreviation (input) DT_N_S_soc_S_qspi_40029000 :: node_id where
  "DT_N_S_soc_S_qspi_40029000 \<equiv> 34"
abbreviation (input) DT_N_S_soc_S_radio_40001000 :: node_id where
  "DT_N_S_soc_S_radio_40001000 \<equiv> 35"
abbreviation (input) DT_N_S_soc_S_random_4000d000 :: node_id where
  "DT_N_S_soc_S_random_4000d000 \<equiv> 36"
abbreviation (input) DT_N_S_soc_S_rtc_4000b000 :: node_id where
  "DT_N_S_soc_S_rtc_4000b000 \<equiv> 37"
abbreviation (input) DT_N_S_soc_S_rtc_40011000 :: node_id where
  "DT_N_S_soc_S_rtc_40011000 \<equiv> 38"
abbreviation (input) DT_N_S_soc_S_rtc_40024000 :: node_id where
  "DT_N_S_soc_S_rtc_40024000 \<equiv> 39"
abbreviation (input) DT_N_S_soc_S_spi_40003000 :: node_id where
  "DT_N_S_soc_S_spi_40003000 \<equiv> 40"
abbreviation (input) DT_N_S_soc_S_spi_40004000 :: node_id where
  "DT_N_S_soc_S_spi_40004000 \<equiv> 41"
abbreviation (input) DT_N_S_soc_S_spi_40023000 :: node_id where
  "DT_N_S_soc_S_spi_40023000 \<equiv> 42"
abbreviation (input) DT_N_S_soc_S_spi_4002f000 :: node_id where
  "DT_N_S_soc_S_spi_4002f000 \<equiv> 43"
abbreviation (input) DT_N_S_soc_S_temp_4000c000 :: node_id where
  "DT_N_S_soc_S_temp_4000c000 \<equiv> 44"
abbreviation (input) DT_N_S_soc_S_timer_40008000 :: node_id where
  "DT_N_S_soc_S_timer_40008000 \<equiv> 45"
abbreviation (input) DT_N_S_soc_S_timer_40009000 :: node_id where
  "DT_N_S_soc_S_timer_40009000 \<equiv> 46"
abbreviation (input) DT_N_S_soc_S_timer_4001a000 :: node_id where
  "DT_N_S_soc_S_timer_4001a000 \<equiv> 47"
abbreviation (input) DT_N_S_soc_S_timer_4001b000 :: node_id where
  "DT_N_S_soc_S_timer_4001b000 \<equiv> 48"
abbreviation (input) DT_N_S_soc_S_timer_e000e010 :: node_id where
  "DT_N_S_soc_S_timer_e000e010 \<equiv> 49"
abbreviation (input) DT_N_S_soc_S_uart_40002000 :: node_id where
  "DT_N_S_soc_S_uart_40002000 \<equiv> 50"
abbreviation (input) DT_N_S_soc_S_uart_40028000 :: node_id where
  "DT_N_S_soc_S_uart_40028000 \<equiv> 51"
abbreviation (input) DT_N_S_soc_S_uicr_10001000 :: node_id where
  "DT_N_S_soc_S_uicr_10001000 \<equiv> 52"
abbreviation (input) DT_N_S_soc_S_watchdog_40010000 :: node_id where
  "DT_N_S_soc_S_watchdog_40010000 \<equiv> 53"
abbreviation (input) DT_N_S_soc_S_crypto_5002a000 :: node_id where
  "DT_N_S_soc_S_crypto_5002a000 \<equiv> 54"
abbreviation (input) DT_N_S_soc_S_crypto_5002a000_S_crypto_5002b000 :: node_id where
  "DT_N_S_soc_S_crypto_5002a000_S_crypto_5002b000 \<equiv> 55"
abbreviation (input) DT_N_S_soc_S_flash_controller_4001e000 :: node_id where
  "DT_N_S_soc_S_flash_controller_4001e000 \<equiv> 56"
abbreviation (input) DT_N_S_soc_S_flash_controller_4001e000_S_flash_0 :: node_id where
  "DT_N_S_soc_S_flash_controller_4001e000_S_flash_0 \<equiv> 57"
abbreviation (input) DT_N_S_soc_S_flash_controller_4001e000_S_flash_0_S_partitions :: node_id where
  "DT_N_S_soc_S_flash_controller_4001e000_S_flash_0_S_partitions \<equiv> 58"
abbreviation (input) DT_N_S_soc_S_flash_controller_4001e000_S_flash_0_S_partitions_S_partition_0 :: node_id where
  "DT_N_S_soc_S_flash_controller_4001e000_S_flash_0_S_partitions_S_partition_0 \<equiv> 59"
abbreviation (input) DT_N_S_soc_S_flash_controller_4001e000_S_flash_0_S_partitions_S_partition_c000 :: node_id where
  "DT_N_S_soc_S_flash_controller_4001e000_S_flash_0_S_partitions_S_partition_c000 \<equiv> 60"
abbreviation (input) DT_N_S_soc_S_flash_controller_4001e000_S_flash_0_S_partitions_S_partition_73000 :: node_id where
  "DT_N_S_soc_S_flash_controller_4001e000_S_flash_0_S_partitions_S_partition_73000 \<equiv> 61"
abbreviation (input) DT_N_S_soc_S_flash_controller_4001e000_S_flash_0_S_partitions_S_partition_da000 :: node_id where
  "DT_N_S_soc_S_flash_controller_4001e000_S_flash_0_S_partitions_S_partition_da000 \<equiv> 62"
abbreviation (input) DT_N_S_soc_S_flash_controller_4001e000_S_flash_0_S_partitions_S_partition_f8000 :: node_id where
  "DT_N_S_soc_S_flash_controller_4001e000_S_flash_0_S_partitions_S_partition_f8000 \<equiv> 63"
abbreviation (input) DT_N_S_soc_S_usbd_40027000 :: node_id where
  "DT_N_S_soc_S_usbd_40027000 \<equiv> 64"
abbreviation (input) DT_N_S_soc_S_usbd_40027000_S_cdc_acm_uart0 :: node_id where
  "DT_N_S_soc_S_usbd_40027000_S_cdc_acm_uart0 \<equiv> 65"

section \<open>Nodes\<close>

definition node_DT_N :: dt_node where
  "node_DT_N = \<lparr>
    PATH = ''/'', FULL_NAME = ''/'', PARENT = None,
    FOREACH_CHILD = [DT_N_S_chosen, DT_N_S_aliases, DT_N_S_soc, DT_N_S_pin_controller, DT_N_S_cpus,
      DT_N_S_sw_pwm, DT_N_S_see_msdz_yaml],
    FOREACH_CHILD_STATUS_OKAY = [DT_N_S_chosen, DT_N_S_aliases, DT_N_S_soc, DT_N_S_pin_controller,
      DT_N_S_cpus, DT_N_S_see_msdz_yaml],
    ORD = 0, REQUIRES_ORDS = [], SUPPORTS_ORDS = [1, 2, 3, 4, 7, 9, 10],
    INST = [(''pluton_msd_zigbee'', 0)], NODELABELS = [], ALIASES = [], BUS = None, REGS = [],
    REG_NAMES = [], RANGES_NUM = 0, IRQS = [], COMPAT_MATCHES = [''pluton_msd_zigbee''],
    STATUS_okay = True, PARTITION_ID = None, PINCTRL_NUM = 0,
    PROPS = [(''compatible'', DT_strs [''pluton,msd-zigbee''])]\<rparr>"

definition node_DT_N_S_aliases :: dt_node where
  "node_DT_N_S_aliases = \<lparr>
    PATH = ''/aliases'', FULL_NAME = ''aliases'', PARENT = Some DT_N, FOREACH_CHILD = [],
    FOREACH_CHILD_STATUS_OKAY = [], ORD = 1, REQUIRES_ORDS = [0], SUPPORTS_ORDS = [], INST = [],
    NODELABELS = [], ALIASES = [], BUS = None, REGS = [], REG_NAMES = [], RANGES_NUM = 0,
    IRQS = [], COMPAT_MATCHES = [], STATUS_okay = True, PARTITION_ID = None, PINCTRL_NUM = 0,
    PROPS = []\<rparr>"

definition node_DT_N_S_chosen :: dt_node where
  "node_DT_N_S_chosen = \<lparr>
    PATH = ''/chosen'', FULL_NAME = ''chosen'', PARENT = Some DT_N, FOREACH_CHILD = [],
    FOREACH_CHILD_STATUS_OKAY = [], ORD = 2, REQUIRES_ORDS = [0], SUPPORTS_ORDS = [], INST = [],
    NODELABELS = [], ALIASES = [], BUS = None, REGS = [], REG_NAMES = [], RANGES_NUM = 0,
    IRQS = [], COMPAT_MATCHES = [], STATUS_okay = True, PARTITION_ID = None, PINCTRL_NUM = 0,
    PROPS = []\<rparr>"

definition node_DT_N_S_pin_controller :: dt_node where
  "node_DT_N_S_pin_controller = \<lparr>
    PATH = ''/pin-controller'', FULL_NAME = ''pin-controller'', PARENT = Some DT_N,
    FOREACH_CHILD = [], FOREACH_CHILD_STATUS_OKAY = [], ORD = 3, REQUIRES_ORDS = [0],
    SUPPORTS_ORDS = [], INST = [(''nordic_nrf_pinctrl'', 0)], NODELABELS = [''pinctrl''],
    ALIASES = [], BUS = None, REGS = [], REG_NAMES = [], RANGES_NUM = 0, IRQS = [],
    COMPAT_MATCHES = [''nordic_nrf_pinctrl''], STATUS_okay = True, PARTITION_ID = None,
    PINCTRL_NUM = 0,
    PROPS = [(''compatible'', DT_strs [''nordic,nrf-pinctrl'']),
      (''wakeup_source'', DT_int 0)]\<rparr>"

definition node_DT_N_S_soc :: dt_node where
  "node_DT_N_S_soc = \<lparr>
    PATH = ''/soc'', FULL_NAME = ''soc'', PARENT = Some DT_N,
    FOREACH_CHILD = [DT_N_S_soc_S_interrupt_controller_e000e100, DT_N_S_soc_S_timer_e000e010,
      DT_N_S_soc_S_ficr_10000000, DT_N_S_soc_S_uicr_10001000, DT_N_S_soc_S_memory_20000000,
      DT_N_S_soc_S_clock_40000000, DT_N_S_soc_S_radio_40001000, DT_N_S_soc_S_uart_40002000,
      DT_N_S_soc_S_i2c_40003000, DT_N_S_soc_S_spi_40003000, DT_N_S_soc_S_i2c_40004000,
      DT_N_S_soc_S_spi_40004000, DT_N_S_soc_S_gpiote_40006000, DT_N_S_soc_S_adc_40007000,
      DT_N_S_soc_S_timer_40008000, DT_N_S_soc_S_timer_40009000, DT_N_S_soc_S_timer_4000a000,
      DT_N_S_soc_S_rtc_4000b000, DT_N_S_soc_S_temp_4000c000, DT_N_S_soc_S_random_4000d000,
      DT_N_S_soc_S_ecb_4000e000, DT_N_S_soc_S_watchdog_40010000, DT_N_S_soc_S_rtc_40011000,
      DT_N_S_soc_S_qdec_40012000, DT_N_S_soc_S_egu_40014000, DT_N_S_soc_S_egu_40015000,
      DT_N_S_soc_S_egu_40016000, DT_N_S_soc_S_egu_40017000, DT_N_S_soc_S_egu_40018000,
      DT_N_S_soc_S_egu_40019000, DT_N_S_soc_S_timer_4001a000, DT_N_S_soc_S_timer_4001b000,
      DT_N_S_soc_S_pwm_4001c000, DT_N_S_soc_S_pdm_4001d000, DT_N_S_soc_S_flash_controller_4001e000,
      DT_N_S_soc_S_pwm_40021000, DT_N_S_soc_S_pwm_40022000, DT_N_S_soc_S_spi_40023000,
      DT_N_S_soc_S_rtc_40024000, DT_N_S_soc_S_i2s_40025000, DT_N_S_soc_S_usbd_40027000,
      DT_N_S_soc_S_uart_40028000, DT_N_S_soc_S_qspi_40029000, DT_N_S_soc_S_pwm_4002d000,
      DT_N_S_soc_S_spi_4002f000, DT_N_S_soc_S_gpio_50000000, DT_N_S_soc_S_gpio_50000300,
      DT_N_S_soc_S_crypto_5002a000],
    FOREACH_CHILD_STATUS_OKAY = [DT_N_S_soc_S_interrupt_controller_e000e100,
      DT_N_S_soc_S_ficr_10000000, DT_N_S_soc_S_uicr_10001000, DT_N_S_soc_S_memory_20000000,
      DT_N_S_soc_S_clock_40000000, DT_N_S_soc_S_radio_40001000, DT_N_S_soc_S_uart_40002000,
      DT_N_S_soc_S_i2c_40003000, DT_N_S_soc_S_spi_40004000, DT_N_S_soc_S_gpiote_40006000,
      DT_N_S_soc_S_adc_40007000, DT_N_S_soc_S_timer_40008000, DT_N_S_soc_S_timer_40009000,
      DT_N_S_soc_S_timer_4000a000, DT_N_S_soc_S_rtc_4000b000, DT_N_S_soc_S_temp_4000c000,
      DT_N_S_soc_S_random_4000d000, DT_N_S_soc_S_ecb_4000e000, DT_N_S_soc_S_watchdog_40010000,
      DT_N_S_soc_S_rtc_40011000, DT_N_S_soc_S_egu_40014000, DT_N_S_soc_S_egu_40015000,
      DT_N_S_soc_S_egu_40016000, DT_N_S_soc_S_egu_40017000, DT_N_S_soc_S_egu_40018000,
      DT_N_S_soc_S_egu_40019000, DT_N_S_soc_S_timer_4001a000, DT_N_S_soc_S_timer_4001b000,
      DT_N_S_soc_S_pwm_4001c000, DT_N_S_soc_S_flash_controller_4001e000, DT_N_S_soc_S_rtc_40024000,
      DT_N_S_soc_S_usbd_40027000, DT_N_S_soc_S_uart_40028000, DT_N_S_soc_S_gpio_50000000,
      DT_N_S_soc_S_gpio_50000300, DT_N_S_soc_S_crypto_5002a000],
    ORD = 4, REQUIRES_ORDS = [0],
    SUPPORTS_ORDS = [5, 6, 8, 12, 13, 14, 15, 16, 17, 18, 19, 20, 21, 22, 23, 24, 25, 26, 27, 28,
      29, 30, 31, 32, 33, 34, 35, 36, 37, 38, 39, 40, 41, 42, 43, 44, 45, 46, 47, 48, 49, 50, 51,
      52, 53, 54, 56, 64],
    INST = [(''nordic_nrf52840_qiaa'', 0), (''nordic_nrf52840'', 0), (''nordic_nrf52'', 0), (''simple_bus'', 0)],
    NODELABELS = [], ALIASES = [], BUS = None, REGS = [], REG_NAMES = [], RANGES_NUM = 0,
    IRQS = [],
    COMPAT_MATCHES = [''nordic_nrf52840_qiaa'', ''nordic_nrf52840'', ''nordic_nrf52'', ''simple_bus''],
    STATUS_okay = True, PARTITION_ID = None, PINCTRL_NUM = 0,

      PROPS = [(''compatible'', DT_strs [''nordic,nRF52840-QIAA'', ''nordic,nRF52840'', ''nordic,nRF52'', ''simple-bus''])]\<rparr>"

definition node_DT_N_S_soc_S_interrupt_controller_e000e100 :: dt_node where
  "node_DT_N_S_soc_S_interrupt_controller_e000e100 = \<lparr>
    PATH = ''/soc/interrupt-controller@e000e100'', FULL_NAME = ''interrupt-controller@e000e100'',
    PARENT = Some DT_N_S_soc, FOREACH_CHILD = [], FOREACH_CHILD_STATUS_OKAY = [], ORD = 5,
    REQUIRES_ORDS = [4],
    SUPPORTS_ORDS = [6, 8, 12, 13, 14, 15, 16, 17, 18, 19, 23, 24, 25, 26, 28, 29, 30, 31, 32, 33,
      34, 35, 36, 37, 38, 39, 40, 41, 42, 43, 44, 45, 46, 47, 48, 50, 51, 53, 55, 64],
    INST = [(''arm_v7m_nvic'', 0)], NODELABELS = [''nvic''], ALIASES = [], BUS = None,
    REGS = [(0xe000e100, Some 3072)], REG_NAMES = [], RANGES_NUM = 0, IRQS = [],
    COMPAT_MATCHES = [''arm_v7m_nvic''], STATUS_okay = True, PARTITION_ID = None, PINCTRL_NUM = 0,
    PROPS = [(''reg'', DT_ints [3758153984, 3072]), (''arm_num_irq_priority_bits'', DT_int 3),
      (''interrupt_controller'', DT_int 1), (''compatible'', DT_strs [''arm,v7m-nvic'']),
      (''wakeup_source'', DT_int 0)]\<rparr>"

definition node_DT_N_S_soc_S_adc_40007000 :: dt_node where
  "node_DT_N_S_soc_S_adc_40007000 = \<lparr>
    PATH = ''/soc/adc@40007000'', FULL_NAME = ''adc@40007000'', PARENT = Some DT_N_S_soc,
    FOREACH_CHILD = [], FOREACH_CHILD_STATUS_OKAY = [], ORD = 6, REQUIRES_ORDS = [4, 5],
    SUPPORTS_ORDS = [7], INST = [(''nordic_nrf_saadc'', 0)], NODELABELS = [''adc''], ALIASES = [],
    BUS = None, REGS = [(0x40007000, Some 0x1000)], REG_NAMES = [], RANGES_NUM = 0,
    IRQS = [(7, 1)], COMPAT_MATCHES = [''nordic_nrf_saadc''], STATUS_okay = True,
    PARTITION_ID = None, PINCTRL_NUM = 0,
    PROPS = [(''reg'', DT_ints [1073770496, 4096]), (''interrupts'', DT_ints [7, 1]),
      (''label'', DT_str ''ADC_0''), (''status'', DT_enum ''okay'' 1),
      (''compatible'', DT_strs [''nordic,nrf-saadc'']), (''wakeup_source'', DT_int 0)]\<rparr>"

definition node_DT_N_S_see_msdz_yaml :: dt_node where
  "node_DT_N_S_see_msdz_yaml = \<lparr>
    PATH = ''/see_msdz_yaml'', FULL_NAME = ''see_msdz_yaml'', PARENT = Some DT_N,
    FOREACH_CHILD = [], FOREACH_CHILD_STATUS_OKAY = [], ORD = 7, REQUIRES_ORDS = [0, 6],
    SUPPORTS_ORDS = [], INST = [(''msd_zigbee_temperature_sensor'', 0)],
    NODELABELS = [''msdz_adc_t_label''], ALIASES = [''msdz_adcs_t''], BUS = None, REGS = [],
    REG_NAMES = [], RANGES_NUM = 0, IRQS = [],
    COMPAT_MATCHES = [''msd_zigbee_temperature_sensor''], STATUS_okay = True, PARTITION_ID = None,
    PINCTRL_NUM = 0,
    PROPS = [(''msdz_adc_t_id'', DT_phandle DT_N_S_soc_S_adc_40007000),
      (''msdz_adc_t_channels'', DT_ints [2]), (''msdz_adc_t_sequence'', DT_ints [0]),
      (''compatible'', DT_strs [''msd_zigbee_temperature_sensor'']),
      (''wakeup_source'', DT_int 0)]\<rparr>"

definition node_DT_N_S_soc_S_timer_4000a000 :: dt_node where
  "node_DT_N_S_soc_S_timer_4000a000 = \<lparr>
    PATH = ''/soc/timer@4000a000'', FULL_NAME = ''timer@4000a000'', PARENT = Some DT_N_S_soc,
    FOREACH_CHILD = [], FOREACH_CHILD_STATUS_OKAY = [], ORD = 8, REQUIRES_ORDS = [4, 5],
    SUPPORTS_ORDS = [9], INST = [(''nordic_nrf_timer'', 2)], NODELABELS = [''timer2''],
    ALIASES = [], BUS = None, REGS = [(0x4000a000, Some 0x1000)], REG_NAMES = [], RANGES_NUM = 0,
    IRQS = [(10, 1)], COMPAT_MATCHES = [''nordic_nrf_timer''], STATUS_okay = True,
    PARTITION_ID = None, PINCTRL_NUM = 0,
    PROPS = [(''reg'', DT_ints [1073782784, 4096]), (''cc_num'', DT_int 4),
      (''interrupts'', DT_ints [10, 1]), (''label'', DT_str ''TIMER_2''),
      (''prescaler'', DT_int 0), (''status'', DT_enum ''okay'' 1),
      (''compatible'', DT_strs [''nordic,nrf-timer'']), (''wakeup_source'', DT_int 0)]\<rparr>"

definition node_DT_N_S_sw_pwm :: dt_node where
  "node_DT_N_S_sw_pwm = \<lparr>
    PATH = ''/sw-pwm'', FULL_NAME = ''sw-pwm'', PARENT = Some DT_N, FOREACH_CHILD = [],
    FOREACH_CHILD_STATUS_OKAY = [], ORD = 9, REQUIRES_ORDS = [0, 8], SUPPORTS_ORDS = [],
    INST = [(''nordic_nrf_sw_pwm'', 0)], NODELABELS = [''sw_pwm''], ALIASES = [], BUS = None,
    REGS = [], REG_NAMES = [], RANGES_NUM = 0, IRQS = [], COMPAT_MATCHES = [''nordic_nrf_sw_pwm''],
    STATUS_okay = False, PARTITION_ID = None, PINCTRL_NUM = 0,
    PROPS = [(''generator'', DT_phandle DT_N_S_soc_S_timer_4000a000),
      (''channel_count'', DT_int 3), (''clock_prescaler'', DT_int 0),
      (''label'', DT_str ''SW_PWM''), (''status'', DT_enum ''disabled'' 2),
      (''compatible'', DT_strs [''nordic,nrf-sw-pwm'']), (''wakeup_source'', DT_int 0)]\<rparr>"

definition node_DT_N_S_cpus :: dt_node where
  "node_DT_N_S_cpus = \<lparr>
    PATH = ''/cpus'', FULL_NAME = ''cpus'', PARENT = Some DT_N,
    FOREACH_CHILD = [DT_N_S_cpus_S_cpu_0], FOREACH_CHILD_STATUS_OKAY = [DT_N_S_cpus_S_cpu_0],
    ORD = 10, REQUIRES_ORDS = [0], SUPPORTS_ORDS = [11], INST = [], NODELABELS = [], ALIASES = [],
    BUS = None, REGS = [], REG_NAMES = [], RANGES_NUM = 0, IRQS = [], COMPAT_MATCHES = [],
    STATUS_okay = True, PARTITION_ID = None, PINCTRL_NUM = 0, PROPS = []\<rparr>"

definition node_DT_N_S_cpus_S_cpu_0 :: dt_node where
  "node_DT_N_S_cpus_S_cpu_0 = \<lparr>
    PATH = ''/cpus/cpu@0'', FULL_NAME = ''cpu@0'', PARENT = Some DT_N_S_cpus, FOREACH_CHILD = [],
    FOREACH_CHILD_STATUS_OKAY = [], ORD = 11, REQUIRES_ORDS = [10], SUPPORTS_ORDS = [],
    INST = [(''arm_cortex_m4f'', 0)], NODELABELS = [], ALIASES = [], BUS = None,
    REGS = [(0, None)], REG_NAMES = [], RANGES_NUM = 0, IRQS = [],
    COMPAT_MATCHES = [''arm_cortex_m4f''], STATUS_okay = True, PARTITION_ID = None,
    PINCTRL_NUM = 0,
    PROPS = [(''swo_ref_frequency'', DT_int 32000000),
      (''compatible'', DT_strs [''arm,cortex-m4f'']), (''reg'', DT_ints [0]),
      (''wakeup_source'', DT_int 0)]\<rparr>"

definition node_DT_N_S_soc_S_clock_40000000 :: dt_node where
  "node_DT_N_S_soc_S_clock_40000000 = \<lparr>
    PATH = ''/soc/clock@40000000'', FULL_NAME = ''clock@40000000'', PARENT = Some DT_N_S_soc,
    FOREACH_CHILD = [], FOREACH_CHILD_STATUS_OKAY = [], ORD = 12, REQUIRES_ORDS = [4, 5],
    SUPPORTS_ORDS = [], INST = [(''nordic_nrf_clock'', 0)], NODELABELS = [''clock''], ALIASES = [],
    BUS = None, REGS = [(0x40000000, Some 0x1000)], REG_NAMES = [], RANGES_NUM = 0,
    IRQS = [(0, 1)], COMPAT_MATCHES = [''nordic_nrf_clock''], STATUS_okay = True,
    PARTITION_ID = None, PINCTRL_NUM = 0,
    PROPS = [(''label'', DT_str ''CLOCK''), (''reg'', DT_ints [1073741824, 4096]),
      (''interrupts'', DT_ints [0, 1]), (''status'', DT_enum ''okay'' 1),
      (''compatible'', DT_strs [''nordic,nrf-clock'']), (''wakeup_source'', DT_int 0)]\<rparr>"

definition node_DT_N_S_soc_S_ecb_4000e000 :: dt_node where
  "node_DT_N_S_soc_S_ecb_4000e000 = \<lparr>
    PATH = ''/soc/ecb@4000e000'', FULL_NAME = ''ecb@4000e000'', PARENT = Some DT_N_S_soc,
    FOREACH_CHILD = [], FOREACH_CHILD_STATUS_OKAY = [], ORD = 13, REQUIRES_ORDS = [4, 5],
    SUPPORTS_ORDS = [], INST = [(''nordic_nrf_ecb'', 0)], NODELABELS = [''ecb''], ALIASES = [],
    BUS = None, REGS = [(0x4000e000, Some 0x1000)], REG_NAMES = [], RANGES_NUM = 0,
    IRQS = [(14, 1)], COMPAT_MATCHES = [''nordic_nrf_ecb''], STATUS_okay = True,
    PARTITION_ID = None, PINCTRL_NUM = 0,
    PROPS = [(''reg'', DT_ints [1073799168, 4096]), (''interrupts'', DT_ints [14, 1]),
      (''status'', DT_enum ''okay'' 1), (''compatible'', DT_strs [''nordic,nrf-ecb'']),
      (''label'', DT_str ''ECB''), (''wakeup_source'', DT_int 0)]\<rparr>"

definition node_DT_N_S_soc_S_egu_40014000 :: dt_node where
  "node_DT_N_S_soc_S_egu_40014000 = \<lparr>
    PATH = ''/soc/egu@40014000'', FULL_NAME = ''egu@40014000'', PARENT = Some DT_N_S_soc,
    FOREACH_CHILD = [], FOREACH_CHILD_STATUS_OKAY = [], ORD = 14, REQUIRES_ORDS = [4, 5],
    SUPPORTS_ORDS = [], INST = [(''nordic_nrf_egu'', 0)], NODELABELS = [''egu0''], ALIASES = [],
    BUS = None, REGS = [(0x40014000, Some 0x1000)], REG_NAMES = [], RANGES_NUM = 0,
    IRQS = [(20, 1)], COMPAT_MATCHES = [''nordic_nrf_egu''], STATUS_okay = True,
    PARTITION_ID = None, PINCTRL_NUM = 0,
    PROPS = [(''reg'', DT_ints [1073823744, 4096]), (''interrupts'', DT_ints [20, 1]),
      (''status'', DT_enum ''okay'' 1), (''compatible'', DT_strs [''nordic,nrf-egu'']),
      (''wakeup_source'', DT_int 0)]\<rparr>"

definition node_DT_N_S_soc_S_egu_40015000 :: dt_node where
  "node_DT_N_S_soc_S_egu_40015000 = \<lparr>
    PATH = ''/soc/egu@40015000'', FULL_NAME = ''egu@40015000'', PARENT = Some DT_N_S_soc,
    FOREACH_CHILD = [], FOREACH_CHILD_STATUS_OKAY = [], ORD = 15, REQUIRES_ORDS = [4, 5],
    SUPPORTS_ORDS = [], INST = [(''nordic_nrf_egu'', 1)], NODELABELS = [''egu1''], ALIASES = [],
    BUS = None, REGS = [(0x40015000, Some 0x1000)], REG_NAMES = [], RANGES_NUM = 0,
    IRQS = [(21, 1)], COMPAT_MATCHES = [''nordic_nrf_egu''], STATUS_okay = True,
    PARTITION_ID = None, PINCTRL_NUM = 0,
    PROPS = [(''reg'', DT_ints [1073827840, 4096]), (''interrupts'', DT_ints [21, 1]),
      (''status'', DT_enum ''okay'' 1), (''compatible'', DT_strs [''nordic,nrf-egu'']),
      (''wakeup_source'', DT_int 0)]\<rparr>"

definition node_DT_N_S_soc_S_egu_40016000 :: dt_node where
  "node_DT_N_S_soc_S_egu_40016000 = \<lparr>
    PATH = ''/soc/egu@40016000'', FULL_NAME = ''egu@40016000'', PARENT = Some DT_N_S_soc,
    FOREACH_CHILD = [], FOREACH_CHILD_STATUS_OKAY = [], ORD = 16, REQUIRES_ORDS = [4, 5],
    SUPPORTS_ORDS = [], INST = [(''nordic_nrf_egu'', 2)], NODELABELS = [''egu2''], ALIASES = [],
    BUS = None, REGS = [(0x40016000, Some 0x1000)], REG_NAMES = [], RANGES_NUM = 0,
    IRQS = [(22, 1)], COMPAT_MATCHES = [''nordic_nrf_egu''], STATUS_okay = True,
    PARTITION_ID = None, PINCTRL_NUM = 0,
    PROPS = [(''reg'', DT_ints [1073831936, 4096]), (''interrupts'', DT_ints [22, 1]),
      (''status'', DT_enum ''okay'' 1), (''compatible'', DT_strs [''nordic,nrf-egu'']),
      (''wakeup_source'', DT_int 0)]\<rparr>"

definition node_DT_N_S_soc_S_egu_40017000 :: dt_node where
  "node_DT_N_S_soc_S_egu_40017000 = \<lparr>
    PATH = ''/soc/egu@40017000'', FULL_NAME = ''egu@40017000'', PARENT = Some DT_N_S_soc,
    FOREACH_CHILD = [], FOREACH_CHILD_STATUS_OKAY = [], ORD = 17, REQUIRES_ORDS = [4, 5],
    SUPPORTS_ORDS = [], INST = [(''nordic_nrf_egu'', 3)], NODELABELS = [''egu3''], ALIASES = [],
    BUS = None, REGS = [(0x40017000, Some 0x1000)], REG_NAMES = [], RANGES_NUM = 0,
    IRQS = [(23, 1)], COMPAT_MATCHES = [''nordic_nrf_egu''], STATUS_okay = True,
    PARTITION_ID = None, PINCTRL_NUM = 0,
    PROPS = [(''reg'', DT_ints [1073836032, 4096]), (''interrupts'', DT_ints [23, 1]),
      (''status'', DT_enum ''okay'' 1), (''compatible'', DT_strs [''nordic,nrf-egu'']),
      (''wakeup_source'', DT_int 0)]\<rparr>"

definition node_DT_N_S_soc_S_egu_40018000 :: dt_node where
  "node_DT_N_S_soc_S_egu_40018000 = \<lparr>
    PATH = ''/soc/egu@40018000'', FULL_NAME = ''egu@40018000'', PARENT = Some DT_N_S_soc,
    FOREACH_CHILD = [], FOREACH_CHILD_STATUS_OKAY = [], ORD = 18, REQUIRES_ORDS = [4, 5],
    SUPPORTS_ORDS = [], INST = [(''nordic_nrf_egu'', 4)], NODELABELS = [''egu4''], ALIASES = [],
    BUS = None, REGS = [(0x40018000, Some 0x1000)], REG_NAMES = [], RANGES_NUM = 0,
    IRQS = [(24, 1)], COMPAT_MATCHES = [''nordic_nrf_egu''], STATUS_okay = True,
    PARTITION_ID = None, PINCTRL_NUM = 0,
    PROPS = [(''reg'', DT_ints [1073840128, 4096]), (''interrupts'', DT_ints [24, 1]),
      (''status'', DT_enum ''okay'' 1), (''compatible'', DT_strs [''nordic,nrf-egu'']),
      (''wakeup_source'', DT_int 0)]\<rparr>"

definition node_DT_N_S_soc_S_egu_40019000 :: dt_node where
  "node_DT_N_S_soc_S_egu_40019000 = \<lparr>
    PATH = ''/soc/egu@40019000'', FULL_NAME = ''egu@40019000'', PARENT = Some DT_N_S_soc,
    FOREACH_CHILD = [], FOREACH_CHILD_STATUS_OKAY = [], ORD = 19, REQUIRES_ORDS = [4, 5],
    SUPPORTS_ORDS = [], INST = [(''nordic_nrf_egu'', 5)], NODELABELS = [''egu5''], ALIASES = [],
    BUS = None, REGS = [(0x40019000, Some 0x1000)], REG_NAMES = [], RANGES_NUM = 0,
    IRQS = [(25, 1)], COMPAT_MATCHES = [''nordic_nrf_egu''], STATUS_okay = True,
    PARTITION_ID = None, PINCTRL_NUM = 0,
    PROPS = [(''reg'', DT_ints [1073844224, 4096]), (''interrupts'', DT_ints [25, 1]),
      (''status'', DT_enum ''okay'' 1), (''compatible'', DT_strs [''nordic,nrf-egu'']),
      (''wakeup_source'', DT_int 0)]\<rparr>"

definition node_DT_N_S_soc_S_ficr_10000000 :: dt_node where
  "node_DT_N_S_soc_S_ficr_10000000 = \<lparr>
    PATH = ''/soc/ficr@10000000'', FULL_NAME = ''ficr@10000000'', PARENT = Some DT_N_S_soc,
    FOREACH_CHILD = [], FOREACH_CHILD_STATUS_OKAY = [], ORD = 20, REQUIRES_ORDS = [4],
    SUPPORTS_ORDS = [], INST = [(''nordic_nrf_ficr'', 0)], NODELABELS = [''ficr''], ALIASES = [],
    BUS = None, REGS = [(0x10000000, Some 0x1000)], REG_NAMES = [], RANGES_NUM = 0, IRQS = [],
    COMPAT_MATCHES = [''nordic_nrf_ficr''], STATUS_okay = True, PARTITION_ID = None,
    PINCTRL_NUM = 0,
    PROPS = [(''reg'', DT_ints [268435456, 4096]), (''status'', DT_enum ''okay'' 1),
      (''compatible'', DT_strs [''nordic,nrf-ficr'']), (''wakeup_source'', DT_int 0)]\<rparr>"

definition node_DT_N_S_soc_S_gpio_50000000 :: dt_node where
  "node_DT_N_S_soc_S_gpio_50000000 = \<lparr>
    PATH = ''/soc/gpio@50000000'', FULL_NAME = ''gpio@50000000'', PARENT = Some DT_N_S_soc,
    FOREACH_CHILD = [], FOREACH_CHILD_STATUS_OKAY = [], ORD = 21, REQUIRES_ORDS = [4],
    SUPPORTS_ORDS = [], INST = [(''nordic_nrf_gpio'', 0)], NODELABELS = [''gpio0''], ALIASES = [],
    BUS = None, REGS = [(0x50000000, Some 512), (0x50000500, Some 768)], REG_NAMES = [],
    RANGES_NUM = 0, IRQS = [], COMPAT_MATCHES = [''nordic_nrf_gpio''], STATUS_okay = True,
    PARTITION_ID = None, PINCTRL_NUM = 0,
    PROPS = [(''reg'', DT_ints [1342177280, 512, 1342178560, 768]), (''label'', DT_str ''GPIO_0''),
      (''port'', DT_int 0), (''gpio_controller'', DT_int 1), (''ngpios'', DT_int 32),
      (''status'', DT_enum ''okay'' 1), (''compatible'', DT_strs [''nordic,nrf-gpio'']),
      (''wakeup_source'', DT_int 0)]\<rparr>"

definition node_DT_N_S_soc_S_gpio_50000300 :: dt_node where
  "node_DT_N_S_soc_S_gpio_50000300 = \<lparr>
    PATH = ''/soc/gpio@50000300'', FULL_NAME = ''gpio@50000300'', PARENT = Some DT_N_S_soc,
    FOREACH_CHILD = [], FOREACH_CHILD_STATUS_OKAY = [], ORD = 22, REQUIRES_ORDS = [4],
    SUPPORTS_ORDS = [], INST = [(''nordic_nrf_gpio'', 1)], NODELABELS = [''gpio1''], ALIASES = [],
    BUS = None, REGS = [(0x50000300, Some 512), (0x50000800, Some 768)], REG_NAMES = [],
    RANGES_NUM = 0, IRQS = [], COMPAT_MATCHES = [''nordic_nrf_gpio''], STATUS_okay = True,
    PARTITION_ID = None, PINCTRL_NUM = 0,
    PROPS = [(''reg'', DT_ints [1342178048, 512, 1342179328, 768]), (''label'', DT_str ''GPIO_1''),
      (''port'', DT_int 1), (''gpio_controller'', DT_int 1), (''ngpios'', DT_int 16),
      (''status'', DT_enum ''okay'' 1), (''compatible'', DT_strs [''nordic,nrf-gpio'']),
      (''wakeup_source'', DT_int 0)]\<rparr>"

definition node_DT_N_S_soc_S_gpiote_40006000 :: dt_node where
  "node_DT_N_S_soc_S_gpiote_40006000 = \<lparr>
    PATH = ''/soc/gpiote@40006000'', FULL_NAME = ''gpiote@40006000'', PARENT = Some DT_N_S_soc,
    FOREACH_CHILD = [], FOREACH_CHILD_STATUS_OKAY = [], ORD = 23, REQUIRES_ORDS = [4, 5],
    SUPPORTS_ORDS = [], INST = [(''nordic_nrf_gpiote'', 0)], NODELABELS = [''gpiote''],
    ALIASES = [], BUS = None, REGS = [(0x40006000, Some 0x1000)], REG_NAMES = [], RANGES_NUM = 0,
    IRQS = [(6, 5)], COMPAT_MATCHES = [''nordic_nrf_gpiote''], STATUS_okay = True,
    PARTITION_ID = None, PINCTRL_NUM = 0,
    PROPS = [(''reg'', DT_ints [1073766400, 4096]), (''interrupts'', DT_ints [6, 5]),
      (''label'', DT_str ''GPIOTE_0''), (''status'', DT_enum ''okay'' 1),
      (''compatible'', DT_strs [''nordic,nrf-gpiote'']), (''wakeup_source'', DT_int 0)]\<rparr>"

end
