(* ===== verification/DtNodesB.thy ===== *)
theory DtNodesB
  imports DtNodesA
begin

text \<open>
  The device-tree nodes of ordinal 24 to 44: serial buses, memory, pulse-width units, the radio,
  the random generator, real-time counters and the thermometer.
\<close>

definition node_DT_N_S_soc_S_i2c_40003000 :: dt_node where
  "node_DT_N_S_soc_S_i2c_40003000 = \<lparr>
    PATH = ''/soc/i2c@40003000'', FULL_NAME = ''i2c@40003000'', PARENT = Some DT_N_S_soc,
    FOREACH_CHILD = [], FOREACH_CHILD_STATUS_OKAY = [], ORD = 24, REQUIRES_ORDS = [4, 5],
    SUPPORTS_ORDS = [], INST = [(''nordic_nrf_twi'', 0)], NODELABELS = [''i2c0''], ALIASES = [],
    BUS = None, REGS = [(0x40003000, Some 0x1000)], REG_NAMES = [], RANGES_NUM = 0,
    IRQS = [(3, 1)], COMPAT_MATCHES = [''nordic_nrf_twi''], STATUS_okay = True,
    PARTITION_ID = None, PINCTRL_NUM = 0,
    PROPS = [(''reg'', DT_ints [1073754112, 4096]), (''interrupts'', DT_ints [3, 1]),
      (''sda_pin'', DT_int 26), (''scl_pin'', DT_int 27), (''clock_frequency'', DT_int 100000),
      (''label'', DT_str ''I2C_0''), (''status'', DT_enum ''okay'' 1),
      (''compatible'', DT_strs [''nordic,nrf-twi'']), (''wakeup_source'', DT_int 0)]\<rparr>"

definition node_DT_N_S_soc_S_i2c_40004000 :: dt_node where
  "node_DT_N_S_soc_S_i2c_40004000 = \<lparr>
    PATH = ''/soc/i2c@40004000'', FULL_NAME = ''i2c@40004000'', PARENT = Some DT_N_S_soc,
    FOREACH_CHILD = [], FOREACH_CHILD_STATUS_OKAY = [], ORD = 25, REQUIRES_ORDS = [4, 5],
    SUPPORTS_ORDS = [], INST = [(''nordic_nrf_twi'', 1)], NODELABELS = [''i2c1''], ALIASES = [],
    BUS = None, REGS = [(0x40004000, Some 0x1000)], REG_NAMES = [], RANGES_NUM = 0,
    IRQS = [(4, 1)], COMPAT_MATCHES = [''nordic_nrf_twi''], STATUS_okay = False,
    PARTITION_ID = None, PINCTRL_NUM = 0,
    PROPS = [(''reg'', DT_ints [1073758208, 4096]), (''interrupts'', DT_ints [4, 1]),
      (''sda_pin'', DT_int 30), (''scl_pin'', DT_int 31), (''clock_frequency'', DT_int 100000),
      (''label'', DT_str ''I2C_1''), (''status'', DT_enum ''disabled'' 2),
      (''compatible'', DT_strs [''nordic,nrf-twi'']), (''wakeup_source'', DT_int 0)]\<rparr>"

definition node_DT_N_S_soc_S_i2s_40025000 :: dt_node where
  "node_DT_N_S_soc_S_i2s_40025000 = \<lparr>
    PATH = ''/soc/i2s@40025000'', FULL_NAME = ''i2s@40025000'', PARENT = Some DT_N_S_soc,
    FOREACH_CHILD = [], FOREACH_CHILD_STATUS_OKAY = [], ORD = 26, REQUIRES_ORDS = [4, 5],
    SUPPORTS_ORDS = [], INST = [(''nordic_nrf_i2s'', 0)], NODELABELS = [''i2s0''], ALIASES = [],
    BUS = None, REGS = [(0x40025000, Some 0x1000)], REG_NAMES = [], RANGES_NUM = 0,
    IRQS = [(37, 1)], COMPAT_MATCHES = [''nordic_nrf_i2s''], STATUS_okay = False,
    PARTITION_ID = None, PINCTRL_NUM = 0,
    PROPS = [(''reg'', DT_ints [1073893376, 4096]), (''interrupts'', DT_ints [37, 1]),
      (''clock_source'', DT_enum ''PCLK32M_HFXO'' 1), (''label'', DT_str ''I2S_0''),
      (''status'', DT_enum ''disabled'' 2), (''compatible'', DT_strs [''nordic,nrf-i2s'']),
      (''wakeup_source'', DT_int 0)]\<rparr>"

definition node_DT_N_S_soc_S_memory_20000000 :: dt_node where
  "node_DT_N_S_soc_S_memory_20000000 = \<lparr>
    PATH = ''/soc/memory@20000000'', FULL_NAME = ''memory@20000000'', PARENT = Some DT_N_S_soc,
    FOREACH_CHILD = [], FOREACH_CHILD_STATUS_OKAY = [], ORD = 27, REQUIRES_ORDS = [4],
    SUPPORTS_ORDS = [], INST = [(''mmio_sram'', 0)], NODELABELS = [''sram0''], ALIASES = [],
    BUS = None, REGS = [(0x20000000, Some 0x40000)], REG_NAMES = [], RANGES_NUM = 0, IRQS = [],
    COMPAT_MATCHES = [''mmio_sram''], STATUS_okay = True, PARTITION_ID = None, PINCTRL_NUM = 0,
    PROPS = [(''reg'', DT_ints [536870912, 262144]), (''compatible'', DT_strs [''mmio-sram'']),
      (''wakeup_source'', DT_int 0)]\<rparr>"

definition node_DT_N_S_soc_S_pdm_4001d000 :: dt_node where
  "node_DT_N_S_soc_S_pdm_4001d000 = \<lparr>
    PATH = ''/soc/pdm@4001d000'', FULL_NAME = ''pdm@4001d000'', PARENT = Some DT_N_S_soc,
    FOREACH_CHILD = [], FOREACH_CHILD_STATUS_OKAY = [], ORD = 28, REQUIRES_ORDS = [4, 5],
    SUPPORTS_ORDS = [], INST = [(''nordic_nrf_pdm'', 0)], NODELABELS = [''pdm0''], ALIASES = [],
    BUS = None, REGS = [(0x4001d000, Some 0x1000)], REG_NAMES = [], RANGES_NUM = 0,
    IRQS = [(29, 1)], COMPAT_MATCHES = [''nordic_nrf_pdm''], STATUS_okay = False,
    PARTITION_ID = None, PINCTRL_NUM = 0,
    PROPS = [(''reg'', DT_ints [1073860608, 4096]), (''interrupts'', DT_ints [29, 1]),
      (''clock_source'', DT_enum ''PCLK32M_HFXO'' 1), (''queue_size'', DT_int 4),
      (''status'', DT_enum ''disabled'' 2), (''compatible'', DT_strs [''nordic,nrf-pdm'']),
      (''label'', DT_str ''PDM_0''), (''wakeup_source'', DT_int 0)]\<rparr>"

definition node_DT_N_S_soc_S_pwm_4001c000 :: dt_node where
  "node_DT_N_S_soc_S_pwm_4001c000 = \<lparr>
    PATH = ''/soc/pwm@4001c000'', FULL_NAME = ''pwm@4001c000'', PARENT = Some DT_N_S_soc,
    FOREACH_CHILD = [], FOREACH_CHILD_STATUS_OKAY = [], ORD = 29, REQUIRES_ORDS = [4, 5],
    SUPPORTS_ORDS = [], INST = [(''nordic_nrf_pwm'', 0)], NODELABELS = [''pwm0''], ALIASES = [],
    BUS = None, REGS = [(0x4001c000, Some 0x1000)], REG_NAMES = [], RANGES_NUM = 0,
    IRQS = [(28, 1)], COMPAT_MATCHES = [''nordic_nrf_pwm''], STATUS_okay = True,
    PARTITION_ID = None, PINCTRL_NUM = 0,
    PROPS = [(''reg'', DT_ints [1073856512, 4096]), (''center_aligned'', DT_int 0),
      (''ch0_pin'', DT_int 13), (''ch0_inverted'', DT_int 1), (''ch1_inverted'', DT_int 0),
      (''ch2_inverted'', DT_int 0), (''ch3_inverted'', DT_int 0), (''label'', DT_str ''PWM_0''),
      (''status'', DT_enum ''okay'' 1), (''compatible'', DT_strs [''nordic,nrf-pwm'']),
      (''interrupts'', DT_ints [28, 1]), (''wakeup_source'', DT_int 0)]\<rparr>"

definition node_DT_N_S_soc_S_pwm_40021000 :: dt_node where
  "node_DT_N_S_soc_S_pwm_40021000 = \<lparr>
    PATH = ''/soc/pwm@40021000'', FULL_NAME = ''pwm@40021000'', PARENT = Some DT_N_S_soc,
    FOREACH_CHILD = [], FOREACH_CHILD_STATUS_OKAY = [], ORD = 30, REQUIRES_ORDS = [4, 5],
    SUPPORTS_ORDS = [], INST = [(''nordic_nrf_pwm'', 1)], NODELABELS = [''pwm1''], ALIASES = [],
    BUS = None, REGS = [(0x40021000, Some 0x1000)], REG_NAMES = [], RANGES_NUM = 0,
    IRQS = [(33, 1)], COMPAT_MATCHES = [''nordic_nrf_pwm''], STATUS_okay = False,
    PARTITION_ID = None, PINCTRL_NUM = 0,
    PROPS = [(''reg'', DT_ints [1073876992, 4096]), (''center_aligned'', DT_int 0),
      (''ch0_inverted'', DT_int 0), (''ch1_inverted'', DT_int 0), (''ch2_inverted'', DT_int 0),
      (''ch3_inverted'', DT_int 0), (''label'', DT_str ''PWM_1''),
      (''status'', DT_enum ''disabled'' 2), (''compatible'', DT_strs [''nordic,nrf-pwm'']),
      (''interrupts'', DT_ints [33, 1]), (''wakeup_source'', DT_int 0)]\<rparr>"

definition node_DT_N_S_soc_S_pwm_40022000 :: dt_node where
  "node_DT_N_S_soc_S_pwm_40022000 = \<lparr>
    PATH = ''/soc/pwm@40022000'', FULL_NAME = ''pwm@40022000'', PARENT = Some DT_N_S_soc,
    FOREACH_CHILD = [], FOREACH_CHILD_STATUS_OKAY = [], ORD = 31, REQUIRES_ORDS = [4, 5],
    SUPPORTS_ORDS = [], INST = [(''nordic_nrf_pwm'', 2)], NODELABELS = [''pwm2''], ALIASES = [],
    BUS = None, REGS = [(0x40022000, Some 0x1000)], REG_NAMES = [], RANGES_NUM = 0,
    IRQS = [(34, 1)], COMPAT_MATCHES = [''nordic_nrf_pwm''], STATUS_okay = False,
    PARTITION_ID = None, PINCTRL_NUM = 0,
    PROPS = [(''reg'', DT_ints [1073881088, 4096]), (''center_aligned'', DT_int 0),
      (''ch0_inverted'', DT_int 0), (''ch1_inverted'', DT_int 0), (''ch2_inverted'', DT_int 0),
      (''ch3_inverted'', DT_int 0), (''label'', DT_str ''PWM_2''),
      (''status'', DT_enum ''disabled'' 2), (''compatible'', DT_strs [''nordic,nrf-pwm'']),
      (''interrupts'', DT_ints [34, 1]), (''wakeup_source'', DT_int 0)]\<rparr>"

definition node_DT_N_S_soc_S_pwm_4002d000 :: dt_node where
  "node_DT_N_S_soc_S_pwm_4002d000 = \<lparr>
    PATH = ''/soc/pwm@4002d000'', FULL_NAME = ''pwm@4002d000'', PARENT = Some DT_N_S_soc,
    FOREACH_CHILD = [], FOREACH_CHILD_STATUS_OKAY = [], ORD = 32, REQUIRES_ORDS = [4, 5],
    SUPPORTS_ORDS = [], INST = [(''nordic_nrf_pwm'', 3)], NODELABELS = [''pwm3''], ALIASES = [],
    BUS = None, REGS = [(0x4002d000, Some 0x1000)], REG_NAMES = [], RANGES_NUM = 0,
    IRQS = [(45, 1)], COMPAT_MATCHES = [''nordic_nrf_pwm''], STATUS_okay = False,
    PARTITION_ID = None, PINCTRL_NUM = 0,
    PROPS = [(''reg'', DT_ints [1073926144, 4096]), (''center_aligned'', DT_int 0),
      (''ch0_inverted'', DT_int 0), (''ch1_inverted'', DT_int 0), (''ch2_inverted'', DT_int 0),
      (''ch3_inverted'', DT_int 0), (''label'', DT_str ''PWM_3''),
      (''status'', DT_enum ''disabled'' 2), (''compatible'', DT_strs [''nordic,nrf-pwm'']),
      (''interrupts'', DT_ints [45, 1]), (''wakeup_source'', DT_int 0)]\<rparr>"

definition node_DT_N_S_soc_S_qdec_40012000 :: dt_node where
  "node_DT_N_S_soc_S_qdec_40012000 = \<lparr>
    PATH = ''/soc/qdec@40012000'', FULL_NAME = ''qdec@40012000'', PARENT = Some DT_N_S_soc,
    FOREACH_CHILD = [], FOREACH_CHILD_STATUS_OKAY = [], ORD = 33, REQUIRES_ORDS = [4, 5],
    SUPPORTS_ORDS = [], INST = [(''nordic_nrf_qdec'', 0)], NODELABELS = [''qdec''], ALIASES = [],
    BUS = None, REGS = [(0x40012000, Some 0x1000)], REG_NAMES = [], RANGES_NUM = 0,
    IRQS = [(18, 1)], COMPAT_MATCHES = [''nordic_nrf_qdec''], STATUS_okay = False,
    PARTITION_ID = None, PINCTRL_NUM = 0,
    PROPS = [(''reg'', DT_ints [1073815552, 4096]), (''interrupts'', DT_ints [18, 1]),
      (''label'', DT_str ''QDEC''), (''status'', DT_enum ''disabled'' 2),
      (''compatible'', DT_strs [''nordic,nrf-qdec'']), (''wakeup_source'', DT_int 0)]\<rparr>"

definition node_DT_N_S_soc_S_qspi_40029000 :: dt_node where
  "node_DT_N_S_soc_S_qspi_40029000 = \<lparr>
    PATH = ''/soc/qspi@40029000'', FULL_NAME = ''qspi@40029000'', PARENT = Some DT_N_S_soc,
    FOREACH_CHILD = [], FOREACH_CHILD_STATUS_OKAY = [], ORD = 34, REQUIRES_ORDS = [4, 5],
    SUPPORTS_ORDS = [], INST = [(''nordic_nrf_qspi'', 0)], NODELABELS = [''qspi''], ALIASES = [],
    BUS = None, REGS = [(0x40029000, Some 0x1000), (0x12000000, Some 0x8000000)],
    REG_NAMES = [(''qspi'', 0), (''qspi_mm'', 1)], RANGES_NUM = 0, IRQS = [(41, 1)],
    COMPAT_MATCHES = [''nordic_nrf_qspi''], STATUS_okay = False, PARTITION_ID = None,
    PINCTRL_NUM = 0,
    PROPS = [(''interrupts'', DT_ints [41, 1]), (''label'', DT_str ''QSPI''),
      (''reg'', DT_ints [1073909760, 4096, 301989888, 134217728]),
      (''status'', DT_enum ''disabled'' 2), (''compatible'', DT_strs [''nordic,nrf-qspi'']),
      (''reg_names'', DT_strs [''qspi'', ''qspi_mm'']), (''wakeup_source'', DT_int 0)]\<rparr>"

definition node_DT_N_S_soc_S_radio_40001000 :: dt_node where
  "node_DT_N_S_soc_S_radio_40001000 = \<lparr>
    PATH = ''/soc/radio@40001000'', FULL_NAME = ''radio@40001000'', PARENT = Some DT_N_S_soc,
    FOREACH_CHILD = [], FOREACH_CHILD_STATUS_OKAY = [], ORD = 35, REQUIRES_ORDS = [4, 5],
    SUPPORTS_ORDS = [], INST = [(''nordic_nrf_radio'', 0)], NODELABELS = [''radio''], ALIASES = [],
    BUS = None, REGS = [(0x40001000, Some 0x1000)], REG_NAMES = [], RANGES_NUM = 0,
    IRQS = [(1, 1)], COMPAT_MATCHES = [''nordic_nrf_radio''], STATUS_okay = True,
    PARTITION_ID = None, PINCTRL_NUM = 0,
    PROPS = [(''reg'', DT_ints [1073745920, 4096]), (''interrupts'', DT_ints [1, 1]),
      (''dfe_supported'', DT_int 0), (''status'', DT_enum ''okay'' 1),
      (''compatible'', DT_strs [''nordic,nrf-radio'']), (''wakeup_source'', DT_int 0)]\<rparr>"

definition node_DT_N_S_soc_S_random_4000d000 :: dt_node where
  "node_DT_N_S_soc_S_random_4000d000 = \<lparr>
    PATH = ''/soc/random@4000d000'', FULL_NAME = ''random@4000d000'', PARENT = Some DT_N_S_soc,
    FOREACH_CHILD = [], FOREACH_CHILD_STATUS_OKAY = [], ORD = 36, REQUIRES_ORDS = [4, 5],
    SUPPORTS_ORDS = [], INST = [(''nordic_nrf_rng'', 0)], NODELABELS = [''rng''], ALIASES = [],
    BUS = None, REGS = [(0x4000d000, Some 0x1000)], REG_NAMES = [], RANGES_NUM = 0,
    IRQS = [(13, 1)], COMPAT_MATCHES = [''nordic_nrf_rng''], STATUS_okay = True,
    PARTITION_ID = None, PINCTRL_NUM = 0,
    PROPS = [(''reg'', DT_ints [1073795072, 4096]), (''interrupts'', DT_ints [13, 1]),
      (''status'', DT_enum ''okay'' 1), (''compatible'', DT_strs [''nordic,nrf-rng'']),
      (''label'', DT_str ''RNG''), (''wakeup_source'', DT_int 0)]\<rparr>"

definition node_DT_N_S_soc_S_rtc_4000b000 :: dt_node where
  "node_DT_N_S_soc_S_rtc_4000b000 = \<lparr>
    PATH = ''/soc/rtc@4000b000'', FULL_NAME = ''rtc@4000b000'', PARENT = Some DT_N_S_soc,
    FOREACH_CHILD = [], FOREACH_CHILD_STATUS_OKAY = [], ORD = 37, REQUIRES_ORDS = [4, 5],
    SUPPORTS_ORDS = [], INST = [(''nordic_nrf_rtc'', 0)], NODELABELS = [''rtc0''], ALIASES = [],
    BUS = None, REGS = [(0x4000b000, Some 0x1000)], REG_NAMES = [], RANGES_NUM = 0,
    IRQS = [(11, 1)], COMPAT_MATCHES = [''nordic_nrf_rtc''], STATUS_okay = True,
    PARTITION_ID = None, PINCTRL_NUM = 0,
    PROPS = [(''reg'', DT_ints [1073786880, 4096]), (''cc_num'', DT_int 3),
      (''ppi_wrap'', DT_int 0), (''fixed_top'', DT_int 0), (''clock_frequency'', DT_int 32768),
      (''label'', DT_str ''RTC_0''), (''interrupts'', DT_ints [11, 1]), (''prescaler'', DT_int 1),
      (''status'', DT_enum ''okay'' 1), (''compatible'', DT_strs [''nordic,nrf-rtc'']),
      (''wakeup_source'', DT_int 0)]\<rparr>"

definition node_DT_N_S_soc_S_rtc_40011000 :: dt_node where
  "node_DT_N_S_soc_S_rtc_40011000 = \<lparr>
    PATH = ''/soc/rtc@40011000'', FULL_NAME = ''rtc@40011000'', PARENT = Some DT_N_S_soc,
    FOREACH_CHILD = [], FOREACH_CHILD_STATUS_OKAY = [], ORD = 38, REQUIRES_ORDS = [4, 5],
    SUPPORTS_ORDS = [], INST = [(''nordic_nrf_rtc'', 1)], NODELABELS = [''rtc1''], ALIASES = [],
    BUS = None, REGS = [(0x40011000, Some 0x1000)], REG_NAMES = [], RANGES_NUM = 0,
    IRQS = [(17, 1)], COMPAT_MATCHES = [''nordic_nrf_rtc''], STATUS_okay = True,
    PARTITION_ID = None, PINCTRL_NUM = 0,
    PROPS = [(''reg'', DT_ints [1073811456, 4096]), (''cc_num'', DT_int 4),
      (''ppi_wrap'', DT_int 0), (''fixed_top'', DT_int 0), (''clock_frequency'', DT_int 32768),
      (''label'', DT_str ''RTC_1''), (''interrupts'', DT_ints [17, 1]), (''prescaler'', DT_int 1),
      (''status'', DT_enum ''okay'' 1), (''compatible'', DT_strs [''nordic,nrf-rtc'']),
      (''wakeup_source'', DT_int 0)]\<rparr>"

definition node_DT_N_S_soc_S_rtc_40024000 :: dt_node where
  "node_DT_N_S_soc_S_rtc_40024000 = \<lparr>
    PATH = ''/soc/rtc@40024000'', FULL_NAME = ''rtc@40024000'', PARENT = Some DT_N_S_soc,
    FOREACH_CHILD = [], FOREACH_CHILD_STATUS_OKAY = [], ORD = 39, REQUIRES_ORDS = [4, 5],
    SUPPORTS_ORDS = [], INST = [(''nordic_nrf_rtc'', 2)], NODELABELS = [''rtc2''], ALIASES = [],
    BUS = None, REGS = [(0x40024000, Some 0x1000)], REG_NAMES = [], RANGES_NUM = 0,
    IRQS = [(36, 1)], COMPAT_MATCHES = [''nordic_nrf_rtc''], STATUS_okay = True,
    PARTITION_ID = None, PINCTRL_NUM = 0,
    PROPS = [(''reg'', DT_ints [1073889280, 4096]), (''cc_num'', DT_int 4),
      (''ppi_wrap'', DT_int 0), (''fixed_top'', DT_int 0), (''clock_frequency'', DT_int 32768),
      (''label'', DT_str ''RTC_2''), (''interrupts'', DT_ints [36, 1]), (''prescaler'', DT_int 1),
      (''status'', DT_enum ''okay'' 1), (''compatible'', DT_strs [''nordic,nrf-rtc'']),
      (''wakeup_source'', DT_int 0)]\<rparr>"

definition node_DT_N_S_soc_S_spi_40003000 :: dt_node where
  "node_DT_N_S_soc_S_spi_40003000 = \<lparr>
    PATH = ''/soc/spi@40003000'', FULL_NAME = ''spi@40003000'', PARENT = Some DT_N_S_soc,
    FOREACH_CHILD = [], FOREACH_CHILD_STATUS_OKAY = [], ORD = 40, REQUIRES_ORDS = [4, 5],
    SUPPORTS_ORDS = [], INST = [(''nordic_nrf_spi'', 1)], NODELABELS = [''spi0''], ALIASES = [],
    BUS = None, REGS = [(0x40003000, Some 0x1000)], REG_NAMES = [], RANGES_NUM = 0,
    IRQS = [(3, 1)], COMPAT_MATCHES = [''nordic_nrf_spi''], STATUS_okay = False,
    PARTITION_ID = None, PINCTRL_NUM = 0,
    PROPS = [(''miso_pull_up'', DT_int 0), (''miso_pull_down'', DT_int 0),
      (''reg'', DT_ints [1073754112, 4096]), (''interrupts'', DT_ints [3, 1]),
      (''sck_pin'', DT_int 27), (''mosi_pin'', DT_int 26), (''miso_pin'', DT_int 29),
      (''label'', DT_str ''SPI_0''), (''status'', DT_enum ''disabled'' 2),
      (''compatible'', DT_strs [''nordic,nrf-spi'']), (''wakeup_source'', DT_int 0)]\<rparr>"

definition node_DT_N_S_soc_S_spi_40004000 :: dt_node where
  "node_DT_N_S_soc_S_spi_40004000 = \<lparr>
    PATH = ''/soc/spi@40004000'', FULL_NAME = ''spi@40004000'', PARENT = Some DT_N_S_soc,
    FOREACH_CHILD = [], FOREACH_CHILD_STATUS_OKAY = [], ORD = 41, REQUIRES_ORDS = [4, 5],
    SUPPORTS_ORDS = [], INST = [(''nordic_nrf_spi'', 0)], NODELABELS = [''spi1''], ALIASES = [],
    BUS = None, REGS = [(0x40004000, Some 0x1000)], REG_NAMES = [], RANGES_NUM = 0,
    IRQS = [(4, 1)], COMPAT_MATCHES = [''nordic_nrf_spi''], STATUS_okay = True,
    PARTITION_ID = None, PINCTRL_NUM = 0,
    PROPS = [(''miso_pull_up'', DT_int 0), (''miso_pull_down'', DT_int 0),
      (''reg'', DT_ints [1073758208, 4096]), (''interrupts'', DT_ints [4, 1]),
      (''sck_pin'', DT_int 31), (''mosi_pin'', DT_int 30), (''miso_pin'', DT_int 40),
      (''label'', DT_str ''SPI_1''), (''status'', DT_enum ''okay'' 1),
      (''compatible'', DT_strs [''nordic,nrf-spi'']), (''wakeup_source'', DT_int 0)]\<rparr>"

definition node_DT_N_S_soc_S_spi_40023000 :: dt_node where
  "node_DT_N_S_soc_S_spi_40023000 = \<lparr>
    PATH = ''/soc/spi@40023000'', FULL_NAME = ''spi@40023000'', PARENT = Some DT_N_S_soc,
    FOREACH_CHILD = [], FOREACH_CHILD_STATUS_OKAY = [], ORD = 42, REQUIRES_ORDS = [4, 5],
    SUPPORTS_ORDS = [], INST = [(''nordic_nrf_spi'', 2)], NODELABELS = [''spi2''], ALIASES = [],
    BUS = None, REGS = [(0x40023000, Some 0x1000)], REG_NAMES = [], RANGES_NUM = 0,
    IRQS = [(35, 1)], COMPAT_MATCHES = [''nordic_nrf_spi''], STATUS_okay = False,
    PARTITION_ID = None, PINCTRL_NUM = 0,
    PROPS = [(''miso_pull_up'', DT_int 0), (''miso_pull_down'', DT_int 0),
      (''reg'', DT_ints [1073885184, 4096]), (''interrupts'', DT_ints [35, 1]),
      (''sck_pin'', DT_int 19), (''mosi_pin'', DT_int 20), (''miso_pin'', DT_int 21),
      (''label'', DT_str ''SPI_2''), (''status'', DT_enum ''disabled'' 2),
      (''compatible'', DT_strs [''nordic,nrf-spi'']), (''wakeup_source'', DT_int 0)]\<rparr>"

definition node_DT_N_S_soc_S_spi_4002f000 :: dt_node where
  "node_DT_N_S_soc_S_spi_4002f000 = \<lparr>
    PATH = ''/soc/spi@4002f000'', FULL_NAME = ''spi@4002f000'', PARENT = Some DT_N_S_soc,
    FOREACH_CHILD = [], FOREACH_CHILD_STATUS_OKAY = [], ORD = 43, REQUIRES_ORDS = [4, 5],
    SUPPORTS_ORDS = [], INST = [(''nordic_nrf_spim'', 0)], NODELABELS = [''spi3''], ALIASES = [],
    BUS = None, REGS = [(0x4002f000, Some 0x1000)], REG_NAMES = [], RANGES_NUM = 0,
    IRQS = [(47, 1)], COMPAT_MATCHES = [''nordic_nrf_spim''], STATUS_okay = False,
    PARTITION_ID = None, PINCTRL_NUM = 0,
    PROPS = [(''miso_pull_up'', DT_int 0), (''miso_pull_down'', DT_int 0),
      (''anomaly_58_workaround'', DT_int 0), (''reg'', DT_ints [1073934336, 4096]),
      (''interrupts'', DT_ints [47, 1]), (''label'', DT_str ''SPI_3''),
      (''status'', DT_enum ''disabled'' 2), (''compatible'', DT_strs [''nordic,nrf-spim'']),
      (''wakeup_source'', DT_int 0)]\<rparr>"

definition node_DT_N_S_soc_S_temp_4000c000 :: dt_node where
  "node_DT_N_S_soc_S_temp_4000c000 = \<lparr>
    PATH = ''/soc/temp@4000c000'', FULL_NAME = ''temp@4000c000'', PARENT = Some DT_N_S_soc,
    FOREACH_CHILD = [], FOREACH_CHILD_STATUS_OKAY = [], ORD = 44, REQUIRES_ORDS = [4, 5],
    SUPPORTS_ORDS = [], INST = [(''nordic_nrf_temp'', 0)], NODELABELS = [''temp''], ALIASES = [],
    BUS = None, REGS = [(0x4000c000, Some 0x1000)], REG_NAMES = [], RANGES_NUM = 0,
    IRQS = [(12, 1)], COMPAT_MATCHES = [''nordic_nrf_temp''], STATUS_okay = True,
    PARTITION_ID = None, PINCTRL_NUM = 0,
    PROPS = [(''reg'', DT_ints [1073790976, 4096]), (''interrupts'', DT_ints [12, 1]),
      (''label'', DT_str ''TEMP_0''), (''status'', DT_enum ''okay'' 1),
      (''compatible'', DT_strs [''nordic,nrf-temp'']), (''wakeup_source'', DT_int 0)]\<rparr>"

end
