(* ===== verification/DtNodesC.thy ===== *)
theory DtNodesC
  imports DtNodesB
begin

text \<open>
  The device-tree nodes of ordinal 45 to 65: timers, serial ports, configuration registers, the
  watchdog, the cryptographic unit, the flash and its partitions, and the USB device.
\<close>

definition node_DT_N_S_soc_S_timer_40008000 :: dt_node where
  "node_DT_N_S_soc_S_timer_40008000 = \<lparr>
    PATH = ''/soc/timer@40008000'', FULL_NAME = ''timer@40008000'', PARENT = Some DT_N_S_soc,
    FOREACH_CHILD = [], FOREACH_CHILD_STATUS_OKAY = [], ORD = 45, REQUIRES_ORDS = [4, 5],
    SUPPORTS_ORDS = [], INST = [(''nordic_nrf_timer'', 0)], NODELABELS = [''timer0''],
    ALIASES = [], BUS = None, REGS = [(0x40008000, Some 0x1000)], REG_NAMES = [], RANGES_NUM = 0,
    IRQS = [(8, 1)], COMPAT_MATCHES = [''nordic_nrf_timer''], STATUS_okay = True,
    PARTITION_ID = None, PINCTRL_NUM = 0,
    PROPS = [(''reg'', DT_ints [1073774592, 4096]), (''cc_num'', DT_int 4),
      (''interrupts'', DT_ints [8, 1]), (''label'', DT_str ''TIMER_0''), (''prescaler'', DT_int 0),
      (''status'', DT_enum ''okay'' 1), (''compatible'', DT_strs [''nordic,nrf-timer'']),
      (''wakeup_source'', DT_int 0)]\<rparr>"

definition node_DT_N_S_soc_S_timer_40009000 :: dt_node where
  "node_DT_N_S_soc_S_timer_40009000 = \<lparr>
    PATH = ''/soc/timer@40009000'', FULL_NAME = ''timer@40009000'', PARENT = Some DT_N_S_soc,
    FOREACH_CHILD = [], FOREACH_CHILD_STATUS_OKAY = [], ORD = 46, REQUIRES_ORDS = [4, 5],
    SUPPORTS_ORDS = [], INST = [(''nordic_nrf_timer'', 1)], NODELABELS = [''timer1''],
    ALIASES = [], BUS = None, REGS = [(0x40009000, Some 0x1000)], REG_NAMES = [], RANGES_NUM = 0,
    IRQS = [(9, 1)], COMPAT_MATCHES = [''nordic_nrf_timer''], STATUS_okay = True,
    PARTITION_ID = None, PINCTRL_NUM = 0,
    PROPS = [(''reg'', DT_ints [1073778688, 4096]), (''cc_num'', DT_int 4),
      (''interrupts'', DT_ints [9, 1]), (''label'', DT_str ''TIMER_1''), (''prescaler'', DT_int 0),
      (''status'', DT_enum ''okay'' 1), (''compatible'', DT_strs [''nordic,nrf-timer'']),
      (''wakeup_source'', DT_int 0)]\<rparr>"

definition node_DT_N_S_soc_S_timer_4001a000 :: dt_node where
  "node_DT_N_S_soc_S_timer_4001a000 = \<lparr>
    PATH = ''/soc/timer@4001a000'', FULL_NAME = ''timer@4001a000'', PARENT = Some DT_N_S_soc,
    FOREACH_CHILD = [], FOREACH_CHILD_STATUS_OKAY = [], ORD = 47, REQUIRES_ORDS = [4, 5],
    SUPPORTS_ORDS = [], INST = [(''nordic_nrf_timer'', 3)], NODELABELS = [''timer3''],
    ALIASES = [], BUS = None, REGS = [(0x4001a000, Some 0x1000)], REG_NAMES = [], RANGES_NUM = 0,
    IRQS = [(26, 1)], COMPAT_MATCHES = [''nordic_nrf_timer''], STATUS_okay = True,
    PARTITION_ID = None, PINCTRL_NUM = 0,
    PROPS = [(''reg'', DT_ints [1073848320, 4096]), (''cc_num'', DT_int 6),
      (''interrupts'', DT_ints [26, 1]), (''label'', DT_str ''TIMER_3''),
      (''prescaler'', DT_int 0), (''status'', DT_enum ''okay'' 1),
      (''compatible'', DT_strs [''nordic,nrf-timer'']), (''wakeup_source'', DT_int 0)]\<rparr>"

definition node_DT_N_S_soc_S_timer_4001b000 :: dt_node where
  "node_DT_N_S_soc_S_timer_4001b000 = \<lparr>
    PATH = ''/soc/timer@4001b000'', FULL_NAME = ''timer@4001b000'', PARENT = Some DT_N_S_soc,
    FOREACH_CHILD = [], FOREACH_CHILD_STATUS_OKAY = [], ORD = 48, REQUIRES_ORDS = [4, 5],
    SUPPORTS_ORDS = [], INST = [(''nordic_nrf_timer'', 4)], NODELABELS = [''timer4''],
    ALIASES = [], BUS = None, REGS = [(0x4001b000, Some 0x1000)], REG_NAMES = [], RANGES_NUM = 0,
    IRQS = [(27, 1)], COMPAT_MATCHES = [''nordic_nrf_timer''], STATUS_okay = True,
    PARTITION_ID = None, PINCTRL_NUM = 0,
    PROPS = [(''reg'', DT_ints [1073852416, 4096]), (''cc_num'', DT_int 6),
      (''interrupts'', DT_ints [27, 1]), (''label'', DT_str ''TIMER_4''),
      (''prescaler'', DT_int 0), (''status'', DT_enum ''okay'' 1),
      (''compatible'', DT_strs [''nordic,nrf-timer'']), (''wakeup_source'', DT_int 0)]\<rparr>"

definition node_DT_N_S_soc_S_timer_e000e010 :: dt_node where
  "node_DT_N_S_soc_S_timer_e000e010 = \<lparr>
    PATH = ''/soc/timer@e000e010'', FULL_NAME = ''timer@e000e010'', PARENT = Some DT_N_S_soc,
    FOREACH_CHILD = [], FOREACH_CHILD_STATUS_OKAY = [], ORD = 49, REQUIRES_ORDS = [4],
    SUPPORTS_ORDS = [], INST = [(''arm_armv7m_systick'', 0)], NODELABELS = [''systick''],
    ALIASES = [], BUS = None, REGS = [(0xe000e010, Some 16)], REG_NAMES = [], RANGES_NUM = 0,
    IRQS = [], COMPAT_MATCHES = [''arm_armv7m_systick''], STATUS_okay = False, PARTITION_ID = None,
    PINCTRL_NUM = 0,
    PROPS = [(''compatible'', DT_strs [''arm,armv7m-systick'']),
      (''reg'', DT_ints [3758153744, 16]), (''status'', DT_enum ''disabled'' 2)]\<rparr>"

definition node_DT_N_S_soc_S_uart_40002000 :: dt_node where
  "node_DT_N_S_soc_S_uart_40002000 = \<lparr>
    PATH = ''/soc/uart@40002000'', FULL_NAME = ''uart@40002000'', PARENT = Some DT_N_S_soc,
    FOREACH_CHILD = [], FOREACH_CHILD_STATUS_OKAY = [], ORD = 50, REQUIRES_ORDS = [4, 5],
    SUPPORTS_ORDS = [], INST = [(''nordic_nrf_uarte'', 0)], NODELABELS = [''uart0''], ALIASES = [],
    BUS = None, REGS = [(0x40002000, Some 0x1000)], REG_NAMES = [], RANGES_NUM = 0,
    IRQS = [(2, 1)], COMPAT_MATCHES = [''nordic_nrf_uarte''], STATUS_okay = True,
    PARTITION_ID = None, PINCTRL_NUM = 0,
    PROPS = [(''reg'', DT_ints [1073750016, 4096]), (''interrupts'', DT_ints [2, 1]),
      (''disable_rx'', DT_int 0), (''current_speed'', DT_int_enum 115200 12),
      (''tx_pin'', DT_int 6), (''rx_pin'', DT_int 8), (''rts_pin'', DT_int 5),
      (''cts_pin'', DT_int 7), (''rx_pull_up'', DT_int 1), (''cts_pull_up'', DT_int 1),
      (''label'', DT_str ''UART_0''), (''hw_flow_control'', DT_int 0),
      (''status'', DT_enum ''okay'' 1), (''compatible'', DT_strs [''nordic,nrf-uarte'']),
      (''wakeup_source'', DT_int 0)]\<rparr>"

definition node_DT_N_S_soc_S_uart_40028000 :: dt_node where
  "node_DT_N_S_soc_S_uart_40028000 = \<lparr>
    PATH = ''/soc/uart@40028000'', FULL_NAME = ''uart@40028000'', PARENT = Some DT_N_S_soc,
    FOREACH_CHILD = [], FOREACH_CHILD_STATUS_OKAY = [], ORD = 51, REQUIRES_ORDS = [4, 5],
    SUPPORTS_ORDS = [], INST = [(''nordic_nrf_uarte'', 1)], NODELABELS = [''uart1''], ALIASES = [],
    BUS = None, REGS = [(0x40028000, Some 0x1000)], REG_NAMES = [], RANGES_NUM = 0,
    IRQS = [(40, 1)], COMPAT_MATCHES = [''nordic_nrf_uarte''], STATUS_okay = True,
    PARTITION_ID = None, PINCTRL_NUM = 0,
    PROPS = [(''reg'', DT_ints [1073905664, 4096]), (''interrupts'', DT_ints [40, 1]),
      (''disable_rx'', DT_int 0), (''current_speed'', DT_int_enum 19200 5),
      (''tx_pin'', DT_int 34), (''rx_pin'', DT_int 33), (''rx_pull_up'', DT_int 1),
      (''cts_pull_up'', DT_int 0), (''label'', DT_str ''UART_1''), (''hw_flow_control'', DT_int 0),
      (''status'', DT_enum ''okay'' 1), (''compatible'', DT_strs [''nordic,nrf-uarte'']),
      (''wakeup_source'', DT_int 0)]\<rparr>"

definition node_DT_N_S_soc_S_uicr_10001000 :: dt_node where
  "node_DT_N_S_soc_S_uicr_10001000 = \<lparr>
    PATH = ''/soc/uicr@10001000'', FULL_NAME = ''uicr@10001000'', PARENT = Some DT_N_S_soc,
    FOREACH_CHILD = [], FOREACH_CHILD_STATUS_OKAY = [], ORD = 52, REQUIRES_ORDS = [4],
    SUPPORTS_ORDS = [], INST = [(''nordic_nrf_uicr'', 0)], NODELABELS = [''uicr''], ALIASES = [],
    BUS = None, REGS = [(0x10001000, Some 0x1000)], REG_NAMES = [], RANGES_NUM = 0, IRQS = [],
    COMPAT_MATCHES = [''nordic_nrf_uicr''], STATUS_okay = True, PARTITION_ID = None,
    PINCTRL_NUM = 0,
    PROPS = [(''reg'', DT_ints [268439552, 4096]), (''status'', DT_enum ''okay'' 1),
      (''compatible'', DT_strs [''nordic,nrf-uicr'']), (''wakeup_source'', DT_int 0)]\<rparr>"

definition node_DT_N_S_soc_S_watchdog_40010000 :: dt_node where
  "node_DT_N_S_soc_S_watchdog_40010000 = \<lparr>
    PATH = ''/soc/watchdog@40010000'', FULL_NAME = ''watchdog@40010000'', PARENT = Some DT_N_S_soc,
    FOREACH_CHILD = [], FOREACH_CHILD_STATUS_OKAY = [], ORD = 53, REQUIRES_ORDS = [4, 5],
    SUPPORTS_ORDS = [], INST = [(''nordic_nrf_watchdog'', 0)], NODELABELS = [''wdt'', ''wdt0''],
    ALIASES = [], BUS = None, REGS = [(0x40010000, Some 0x1000)], REG_NAMES = [], RANGES_NUM = 0,
    IRQS = [(16, 1)], COMPAT_MATCHES = [''nordic_nrf_watchdog''], STATUS_okay = True,
    PARTITION_ID = None, PINCTRL_NUM = 0,
    PROPS = [(''reg'', DT_ints [1073807360, 4096]), (''label'', DT_str ''WDT''),
      (''interrupts'', DT_ints [16, 1]), (''status'', DT_enum ''okay'' 1),
      (''compatible'', DT_strs [''nordic,nrf-watchdog'']), (''wakeup_source'', DT_int 0)]\<rparr>"

definition node_DT_N_S_soc_S_crypto_5002a000 :: dt_node where
  "node_DT_N_S_soc_S_crypto_5002a000 = \<lparr>
    PATH = ''/soc/crypto@5002a000'', FULL_NAME = ''crypto@5002a000'', PARENT = Some DT_N_S_soc,
    FOREACH_CHILD = [DT_N_S_soc_S_crypto_5002a000_S_crypto_5002b000],
    FOREACH_CHILD_STATUS_OKAY = [DT_N_S_soc_S_crypto_5002a000_S_crypto_5002b000], ORD = 54,
    REQUIRES_ORDS = [4], SUPPORTS_ORDS = [55], INST = [(''nordic_nrf_cc310'', 0)],
    NODELABELS = [''cryptocell''], ALIASES = [], BUS = None, REGS = [(0x5002a000, Some 0x1000)],
    REG_NAMES = [], RANGES_NUM = 0, IRQS = [], COMPAT_MATCHES = [''nordic_nrf_cc310''],
    STATUS_okay = True, PARTITION_ID = None, PINCTRL_NUM = 0,
    PROPS = [(''reg'', DT_ints [1342349312, 4096]), (''label'', DT_str ''CRYPTOCELL''),
      (''status'', DT_enum ''okay'' 1), (''compatible'', DT_strs [''nordic,nrf-cc310'']),
      (''wakeup_source'', DT_int 0)]\<rparr>"

definition node_DT_N_S_soc_S_crypto_5002a000_S_crypto_5002b000 :: dt_node where
  "node_DT_N_S_soc_S_crypto_5002a000_S_crypto_5002b000 = \<lparr>
    PATH = ''/soc/crypto@5002a000/crypto@5002b000'', FULL_NAME = ''crypto@5002b000'',
    PARENT = Some DT_N_S_soc_S_crypto_5002a000, FOREACH_CHILD = [], FOREACH_CHILD_STATUS_OKAY = [],
    ORD = 55, REQUIRES_ORDS = [5, 54], SUPPORTS_ORDS = [], INST = [(''arm_cryptocell_310'', 0)],
    NODELABELS = [''cryptocell310''], ALIASES = [], BUS = None, REGS = [(0x5002b000, Some 0x1000)],
    REG_NAMES = [], RANGES_NUM = 0, IRQS = [(42, 1)], COMPAT_MATCHES = [''arm_cryptocell_310''],
    STATUS_okay = True, PARTITION_ID = None, PINCTRL_NUM = 0,
    PROPS = [(''reg'', DT_ints [1342353408, 4096]), (''label'', DT_str ''CRYPTOCELL310''),
      (''interrupts'', DT_ints [42, 1]), (''compatible'', DT_strs [''arm,cryptocell-310'']),
      (''wakeup_source'', DT_int 0)]\<rparr>"

definition node_DT_N_S_soc_S_flash_controller_4001e000 :: dt_node where
  "node_DT_N_S_soc_S_flash_controller_4001e000 = \<lparr>
    PATH = ''/soc/flash-controller@4001e000'', FULL_NAME = ''flash-controller@4001e000'',
    PARENT = Some DT_N_S_soc, FOREACH_CHILD = [DT_N_S_soc_S_flash_controller_4001e000_S_flash_0],
    FOREACH_CHILD_STATUS_OKAY = [DT_N_S_soc_S_flash_controller_4001e000_S_flash_0], ORD = 56,
    REQUIRES_ORDS = [4], SUPPORTS_ORDS = [57], INST = [(''nordic_nrf52_flash_controller'', 0)],
    NODELABELS = [''flash_controller''], ALIASES = [], BUS = None,
    REGS = [(0x4001e000, Some 0x1000)], REG_NAMES = [], RANGES_NUM = 0, IRQS = [],
    COMPAT_MATCHES = [''nordic_nrf52_flash_controller''], STATUS_okay = True, PARTITION_ID = None,
    PINCTRL_NUM = 0,
    PROPS = [(''label'', DT_str ''NRF_FLASH_DRV_NAME''), (''reg'', DT_ints [1073864704, 4096]),
      (''compatible'', DT_strs [''nordic,nrf52-flash-controller'']),
      (''wakeup_source'', DT_int 0)]\<rparr>"

definition node_DT_N_S_soc_S_flash_controller_4001e000_S_flash_0 :: dt_node where
  "node_DT_N_S_soc_S_flash_controller_4001e000_S_flash_0 = \<lparr>
    PATH = ''/soc/flash-controller@4001e000/flash@0'', FULL_NAME = ''flash@0'',
    PARENT = Some DT_N_S_soc_S_flash_controller_4001e000,
    FOREACH_CHILD = [DT_N_S_soc_S_flash_controller_4001e000_S_flash_0_S_partitions],
    FOREACH_CHILD_STATUS_OKAY = [DT_N_S_soc_S_flash_controller_4001e000_S_flash_0_S_partitions],
    ORD = 57, REQUIRES_ORDS = [56], SUPPORTS_ORDS = [58], INST = [(''soc_nv_flash'', 0)],
    NODELABELS = [''flash0''], ALIASES = [], BUS = None, REGS = [(0, Some 0x100000)],
    REG_NAMES = [], RANGES_NUM = 0, IRQS = [], COMPAT_MATCHES = [''soc_nv_flash''],
    STATUS_okay = True, PARTITION_ID = None, PINCTRL_NUM = 0,
    PROPS = [(''label'', DT_str ''NRF_FLASH''), (''erase_block_size'', DT_int 4096),
      (''write_block_size'', DT_int 4), (''compatible'', DT_strs [''soc-nv-flash'']),
      (''reg'', DT_ints [0, 1048576]), (''wakeup_source'', DT_int 0)]\<rparr>"

definition node_DT_N_S_soc_S_flash_controller_4001e000_S_flash_0_S_partitions :: dt_node where
  "node_DT_N_S_soc_S_flash_controller_4001e000_S_flash_0_S_partitions = \<lparr>
    PATH = ''/soc/flash-controller@4001e000/flash@0/partitions'', FULL_NAME = ''partitions'',
    PARENT = Some DT_N_S_soc_S_flash_controller_4001e000_S_flash_0,
    FOREACH_CHILD = [DT_N_S_soc_S_flash_controller_4001e000_S_flash_0_S_partitions_S_partition_0,
      DT_N_S_soc_S_flash_controller_4001e000_S_flash_0_S_partitions_S_partition_c000,
      DT_N_S_soc_S_flash_controller_4001e000_S_flash_0_S_partitions_S_partition_73000,
      DT_N_S_soc_S_flash_controller_4001e000_S_flash_0_S_partitions_S_partition_da000,
      DT_N_S_soc_S_flash_controller_4001e000_S_flash_0_S_partitions_S_partition_f8000],
    FOREACH_CHILD_STATUS_OKAY =
      [DT_N_S_soc_S_flash_controller_4001e000_S_flash_0_S_partitions_S_partition_0,
      DT_N_S_soc_S_flash_controller_4001e000_S_flash_0_S_partitions_S_partition_c000,
      DT_N_S_soc_S_flash_controller_4001e000_S_flash_0_S_partitions_S_partition_73000,
      DT_N_S_soc_S_flash_controller_4001e000_S_flash_0_S_partitions_S_partition_da000,
      DT_N_S_soc_S_flash_controller_4001e000_S_flash_0_S_partitions_S_partition_f8000],
    ORD = 58, REQUIRES_ORDS = [57], SUPPORTS_ORDS = [59, 60, 61, 62, 63],
    INST = [(''fixed_partitions'', 0)], NODELABELS = [], ALIASES = [], BUS = None, REGS = [],
    REG_NAMES = [], RANGES_NUM = 0, IRQS = [], COMPAT_MATCHES = [''fixed_partitions''],
    STATUS_okay = True, PARTITION_ID = None, PINCTRL_NUM = 0, PROPS = []\<rparr>"

definition node_DT_N_S_soc_S_flash_controller_4001e000_S_flash_0_S_partitions_S_partition_0 :: dt_node where
  "node_DT_N_S_soc_S_flash_controller_4001e000_S_flash_0_S_partitions_S_partition_0 = \<lparr>
    PATH = ''/soc/flash-controller@4001e000/flash@0/partitions/partition@0'',
    FULL_NAME = ''partition@0'',
    PARENT = Some DT_N_S_soc_S_flash_controller_4001e000_S_flash_0_S_partitions,
    FOREACH_CHILD = [], FOREACH_CHILD_STATUS_OKAY = [], ORD = 59, REQUIRES_ORDS = [58],
    SUPPORTS_ORDS = [], INST = [], NODELABELS = [''boot_partition''], ALIASES = [], BUS = None,
    REGS = [(0, Some 0xc000)], REG_NAMES = [], RANGES_NUM = 0, IRQS = [], COMPAT_MATCHES = [],
    STATUS_okay = True, PARTITION_ID = Some 0, PINCTRL_NUM = 0,
    PROPS = [(''label'', DT_str ''mcuboot''), (''read_only'', DT_int 0),
      (''reg'', DT_ints [0, 49152])]\<rparr>"

definition node_DT_N_S_soc_S_flash_controller_4001e000_S_flash_0_S_partitions_S_partition_c000 :: dt_node where
  "node_DT_N_S_soc_S_flash_controller_4001e000_S_flash_0_S_partitions_S_partition_c000 = \<lparr>
    PATH = ''/soc/flash-controller@4001e000/flash@0/partitions/partition@c000'',
    FULL_NAME = ''partition@c000'',
    PARENT = Some DT_N_S_soc_S_flash_controller_4001e000_S_flash_0_S_partitions,
    FOREACH_CHILD = [], FOREACH_CHILD_STATUS_OKAY = [], ORD = 60, REQUIRES_ORDS = [58],
    SUPPORTS_ORDS = [], INST = [], NODELABELS = [''slot0_partition''], ALIASES = [], BUS = None,
    REGS = [(0xc000, Some 0x67000)], REG_NAMES = [], RANGES_NUM = 0, IRQS = [],
    COMPAT_MATCHES = [], STATUS_okay = True, PARTITION_ID = Some 1, PINCTRL_NUM = 0,
    PROPS = [(''label'', DT_str ''image-0''), (''read_only'', DT_int 0),
      (''reg'', DT_ints [49152, 421888])]\<rparr>"

definition node_DT_N_S_soc_S_flash_controller_4001e000_S_flash_0_S_partitions_S_partition_73000 :: dt_node where
  "node_DT_N_S_soc_S_flash_controller_4001e000_S_flash_0_S_partitions_S_partition_73000 = \<lparr>
    PATH = ''/soc/flash-controller@4001e000/flash@0/partitions/partition@73000'',
    FULL_NAME = ''partition@73000'',
    PARENT = Some DT_N_S_soc_S_flash_controller_4001e000_S_flash_0_S_partitions,
    FOREACH_CHILD = [], FOREACH_CHILD_STATUS_OKAY = [], ORD = 61, REQUIRES_ORDS = [58],
    SUPPORTS_ORDS = [], INST = [], NODELABELS = [''slot1_partition''], ALIASES = [], BUS = None,
    REGS = [(0x73000, Some 0x67000)], REG_NAMES = [], RANGES_NUM = 0, IRQS = [],
    COMPAT_MATCHES = [], STATUS_okay = True, PARTITION_ID = Some 2, PINCTRL_NUM = 0,
    PROPS = [(''label'', DT_str ''image-1''), (''read_only'', DT_int 0),
      (''reg'', DT_ints [471040, 421888])]\<rparr>"

definition node_DT_N_S_soc_S_flash_controller_4001e000_S_flash_0_S_partitions_S_partition_da000 :: dt_node where
  "node_DT_N_S_soc_S_flash_controller_4001e000_S_flash_0_S_partitions_S_partition_da000 = \<lparr>
    PATH = ''/soc/flash-controller@4001e000/flash@0/partitions/partition@da000'',
    FULL_NAME = ''partition@da000'',
    PARENT = Some DT_N_S_soc_S_flash_controller_4001e000_S_flash_0_S_partitions,
    FOREACH_CHILD = [], FOREACH_CHILD_STATUS_OKAY = [], ORD = 62, REQUIRES_ORDS = [58],
    SUPPORTS_ORDS = [], INST = [], NODELABELS = [''scratch_partition''], ALIASES = [], BUS = None,
    REGS = [(0xda000, Some 0x1e000)], REG_NAMES = [], RANGES_NUM = 0, IRQS = [],
    COMPAT_MATCHES = [], STATUS_okay = True, PARTITION_ID = Some 3, PINCTRL_NUM = 0,
    PROPS = [(''label'', DT_str ''image-scratch''), (''read_only'', DT_int 0),
      (''reg'', DT_ints [892928, 122880])]\<rparr>"

definition node_DT_N_S_soc_S_flash_controller_4001e000_S_flash_0_S_partitions_S_partition_f8000 :: dt_node where
  "node_DT_N_S_soc_S_flash_controller_4001e000_S_flash_0_S_partitions_S_partition_f8000 = \<lparr>
    PATH = ''/soc/flash-controller@4001e000/flash@0/partitions/partition@f8000'',
    FULL_NAME = ''partition@f8000'',
    PARENT = Some DT_N_S_soc_S_flash_controller_4001e000_S_flash_0_S_partitions,
    FOREACH_CHILD = [], FOREACH_CHILD_STATUS_OKAY = [], ORD = 63, REQUIRES_ORDS = [58],
    SUPPORTS_ORDS = [], INST = [], NODELABELS = [''storage_partition''], ALIASES = [], BUS = None,
    REGS = [(0xf8000, Some 0x8000)], REG_NAMES = [], RANGES_NUM = 0, IRQS = [],
    COMPAT_MATCHES = [], STATUS_okay = True, PARTITION_ID = Some 4, PINCTRL_NUM = 0,
    PROPS = [(''label'', DT_str ''storage''), (''read_only'', DT_int 0),
      (''reg'', DT_ints [1015808, 32768])]\<rparr>"

definition node_DT_N_S_soc_S_usbd_40027000 :: dt_node where
  "node_DT_N_S_soc_S_usbd_40027000 = \<lparr>
    PATH = ''/soc/usbd@40027000'', FULL_NAME = ''usbd@40027000'', PARENT = Some DT_N_S_soc,
    FOREACH_CHILD = [DT_N_S_soc_S_usbd_40027000_S_cdc_acm_uart0],
    FOREACH_CHILD_STATUS_OKAY = [DT_N_S_soc_S_usbd_40027000_S_cdc_acm_uart0], ORD = 64,
    REQUIRES_ORDS = [4, 5], SUPPORTS_ORDS = [65], INST = [(''nordic_nrf_usbd'', 0)],
    NODELABELS = [''usbd'', ''zephyr_udc0''], ALIASES = [], BUS = None,
    REGS = [(0x40027000, Some 0x1000)], REG_NAMES = [], RANGES_NUM = 0, IRQS = [(39, 1)],
    COMPAT_MATCHES = [''nordic_nrf_usbd''], STATUS_okay = True, PARTITION_ID = None,
    PINCTRL_NUM = 0,
    PROPS = [(''reg'', DT_ints [1073901568, 4096]), (''interrupts'', DT_ints [39, 1]),
      (''num_isoin_endpoints'', DT_int 1), (''num_isoout_endpoints'', DT_int 1),
      (''num_bidir_endpoints'', DT_int 1), (''num_in_endpoints'', DT_int 7),
      (''num_out_endpoints'', DT_int 7), (''label'', DT_str ''USBD''),
      (''status'', DT_enum ''okay'' 1), (''compatible'', DT_strs [''nordic,nrf-usbd'']),
      (''wakeup_source'', DT_int 0)]\<rparr>"

definition node_DT_N_S_soc_S_usbd_40027000_S_cdc_acm_uart0 :: dt_node where
  "node_DT_N_S_soc_S_usbd_40027000_S_cdc_acm_uart0 = \<lparr>
    PATH = ''/soc/usbd@40027000/cdc_acm_uart0'', FULL_NAME = ''cdc_acm_uart0'',
    PARENT = Some DT_N_S_soc_S_usbd_40027000, FOREACH_CHILD = [], FOREACH_CHILD_STATUS_OKAY = [],
    ORD = 65, REQUIRES_ORDS = [64], SUPPORTS_ORDS = [], INST = [(''zephyr_cdc_acm_uart'', 0)],
    NODELABELS = [], ALIASES = [], BUS = Some (DT_N_S_soc_S_usbd_40027000, ''usb''), REGS = [],
    REG_NAMES = [], RANGES_NUM = 0, IRQS = [], COMPAT_MATCHES = [''zephyr_cdc_acm_uart''],
    STATUS_okay = True, PARTITION_ID = None, PINCTRL_NUM = 0,
    PROPS = [(''label'', DT_str ''CDC_ACM_0''), (''hw_flow_control'', DT_int 0),
      (''compatible'', DT_strs [''zephyr,cdc-acm-uart'']), (''wakeup_source'', DT_int 0)]\<rparr>"

end
