(* ===== verification/DtTables.thy ===== *)
theory DtTables
  imports DtNodesC
begin

text \<open>
  The device tree as a whole: its nodes in order, the tables that close
  \<open>devicetree_unfixed.h\<close>, the device objects of \<open>device_extern.h\<close> and \<open>dev_handles.c\<close>, and the
  lemmas that tie them together.
\<close>

section \<open>The tree\<close>

text \<open>
  The nodes in the order of their ordinals, as \<open>device_extern.h\<close> declares their devices.
\<close>

definition devicetree :: "dt_node list" where
  "devicetree = [
    node_DT_N, node_DT_N_S_aliases, node_DT_N_S_chosen, node_DT_N_S_pin_controller,
    node_DT_N_S_soc, node_DT_N_S_soc_S_interrupt_controller_e000e100,
    node_DT_N_S_soc_S_adc_40007000, node_DT_N_S_see_msdz_yaml, node_DT_N_S_soc_S_timer_4000a000,
    node_DT_N_S_sw_pwm, node_DT_N_S_cpus, node_DT_N_S_cpus_S_cpu_0,
    node_DT_N_S_soc_S_clock_40000000, node_DT_N_S_soc_S_ecb_4000e000,
    node_DT_N_S_soc_S_egu_40014000, node_DT_N_S_soc_S_egu_40015000,
    node_DT_N_S_soc_S_egu_40016000, node_DT_N_S_soc_S_egu_40017000,
    node_DT_N_S_soc_S_egu_40018000, node_DT_N_S_soc_S_egu_40019000,
    node_DT_N_S_soc_S_ficr_10000000, node_DT_N_S_soc_S_gpio_50000000,
    node_DT_N_S_soc_S_gpio_50000300, node_DT_N_S_soc_S_gpiote_40006000,
    node_DT_N_S_soc_S_i2c_40003000, node_DT_N_S_soc_S_i2c_40004000,
    node_DT_N_S_soc_S_i2s_40025000, node_DT_N_S_soc_S_memory_20000000,
    node_DT_N_S_soc_S_pdm_4001d000, node_DT_N_S_soc_S_pwm_4001c000,
    node_DT_N_S_soc_S_pwm_40021000, node_DT_N_S_soc_S_pwm_40022000,
    node_DT_N_S_soc_S_pwm_4002d000, node_DT_N_S_soc_S_qdec_40012000,
    node_DT_N_S_soc_S_qspi_40029000, node_DT_N_S_soc_S_radio_40001000,
    node_DT_N_S_soc_S_random_4000d000, node_DT_N_S_soc_S_rtc_4000b000,
    node_DT_N_S_soc_S_rtc_40011000, node_DT_N_S_soc_S_rtc_40024000,
    node_DT_N_S_soc_S_spi_40003000, node_DT_N_S_soc_S_spi_40004000,
    node_DT_N_S_soc_S_spi_40023000, node_DT_N_S_soc_S_spi_4002f000,
    node_DT_N_S_soc_S_temp_4000c000, node_DT_N_S_soc_S_timer_40008000,
    node_DT_N_S_soc_S_timer_40009000, node_DT_N_S_soc_S_timer_4001a000,
    node_DT_N_S_soc_S_timer_4001b000, node_DT_N_S_soc_S_timer_e000e010,
    node_DT_N_S_soc_S_uart_40002000, node_DT_N_S_soc_S_uart_40028000,
    node_DT_N_S_soc_S_uicr_10001000, node_DT_N_S_soc_S_watchdog_40010000,
    node_DT_N_S_soc_S_crypto_5002a000, node_DT_N_S_soc_S_crypto_5002a000_S_crypto_5002b000,
    node_DT_N_S_soc_S_flash_controller_4001e000,
    node_DT_N_S_soc_S_flash_controller_4001e000_S_flash_0,
    node_DT_N_S_soc_S_flash_controller_4001e000_S_flash_0_S_partitions,
    node_DT_N_S_soc_S_flash_controller_4001e000_S_flash_0_S_partitions_S_partition_0,
    node_DT_N_S_soc_S_flash_controller_4001e000_S_flash_0_S_partitions_S_partition_c000,
    node_DT_N_S_soc_S_flash_controller_4001e000_S_flash_0_S_partitions_S_partition_73000,
    node_DT_N_S_soc_S_flash_controller_4001e000_S_flash_0_S_partitions_S_partition_da000,
    node_DT_N_S_soc_S_flash_controller_4001e000_S_flash_0_S_partitions_S_partition_f8000,
    node_DT_N_S_soc_S_usbd_40027000, node_DT_N_S_soc_S_usbd_40027000_S_cdc_acm_uart0]"

text \<open>\<open>device_extern.h\<close>: the identifier and the ordinal of every node.\<close>

definition device_extern :: "(string \<times> int) list" where
  "device_extern = [
    (''DT_N'', 0), (''DT_N_S_aliases'', 1), (''DT_N_S_chosen'', 2),
    (''DT_N_S_pin_controller'', 3), (''DT_N_S_soc'', 4),
    (''DT_N_S_soc_S_interrupt_controller_e000e100'', 5), (''DT_N_S_soc_S_adc_40007000'', 6),
    (''DT_N_S_see_msdz_yaml'', 7), (''DT_N_S_soc_S_timer_4000a000'', 8), (''DT_N_S_sw_pwm'', 9),
    (''DT_N_S_cpus'', 10), (''DT_N_S_cpus_S_cpu_0'', 11), (''DT_N_S_soc_S_clock_40000000'', 12),
    (''DT_N_S_soc_S_ecb_4000e000'', 13), (''DT_N_S_soc_S_egu_40014000'', 14),
    (''DT_N_S_soc_S_egu_40015000'', 15), (''DT_N_S_soc_S_egu_40016000'', 16),
    (''DT_N_S_soc_S_egu_40017000'', 17), (''DT_N_S_soc_S_egu_40018000'', 18),
    (''DT_N_S_soc_S_egu_40019000'', 19), (''DT_N_S_soc_S_ficr_10000000'', 20),
    (''DT_N_S_soc_S_gpio_50000000'', 21), (''DT_N_S_soc_S_gpio_50000300'', 22),
    (''DT_N_S_soc_S_gpiote_40006000'', 23), (''DT_N_S_soc_S_i2c_40003000'', 24),
    (''DT_N_S_soc_S_i2c_40004000'', 25), (''DT_N_S_soc_S_i2s_40025000'', 26),
    (''DT_N_S_soc_S_memory_20000000'', 27), (''DT_N_S_soc_S_pdm_4001d000'', 28),
    (''DT_N_S_soc_S_pwm_4001c000'', 29), (''DT_N_S_soc_S_pwm_40021000'', 30),
    (''DT_N_S_soc_S_pwm_40022000'', 31), (''DT_N_S_soc_S_pwm_4002d000'', 32),
    (''DT_N_S_soc_S_qdec_40012000'', 33), (''DT_N_S_soc_S_qspi_40029000'', 34),
    (''DT_N_S_soc_S_radio_40001000'', 35), (''DT_N_S_soc_S_random_4000d000'', 36),
    (''DT_N_S_soc_S_rtc_4000b000'', 37), (''DT_N_S_soc_S_rtc_40011000'', 38),
    (''DT_N_S_soc_S_rtc_40024000'', 39), (''DT_N_S_soc_S_spi_40003000'', 40),
    (''DT_N_S_soc_S_spi_40004000'', 41), (''DT_N_S_soc_S_spi_40023000'', 42),
    (''DT_N_S_soc_S_spi_4002f000'', 43), (''DT_N_S_soc_S_temp_4000c000'', 44),
    (''DT_N_S_soc_S_timer_40008000'', 45), (''DT_N_S_soc_S_timer_40009000'', 46),
    (''DT_N_S_soc_S_timer_4001a000'', 47), (''DT_N_S_soc_S_timer_4001b000'', 48),
    (''DT_N_S_soc_S_timer_e000e010'', 49), (''DT_N_S_soc_S_uart_40002000'', 50),
    (''DT_N_S_soc_S_uart_40028000'', 51), (''DT_N_S_soc_S_uicr_10001000'', 52),
    (''DT_N_S_soc_S_watchdog_40010000'', 53), (''DT_N_S_soc_S_crypto_5002a000'', 54),
    (''DT_N_S_soc_S_crypto_5002a000_S_crypto_5002b000'', 55),
    (''DT_N_S_soc_S_flash_controller_4001e000'', 56),
    (''DT_N_S_soc_S_flash_controller_4001e000_S_flash_0'', 57),
    (''DT_N_S_soc_S_flash_controller_4001e000_S_flash_0_S_partitions'', 58),
    (''DT_N_S_soc_S_flash_controller_4001e000_S_flash_0_S_partitions_S_partition_0'', 59),
    (''DT_N_S_soc_S_flash_controller_4001e000_S_flash_0_S_partitions_S_partition_c000'', 60),
    (''DT_N_S_soc_S_flash_controller_4001e000_S_flash_0_S_partitions_S_partition_73000'', 61),
    (''DT_N_S_soc_S_flash_controller_4001e000_S_flash_0_S_partitions_S_partition_da000'', 62),
    (''DT_N_S_soc_S_flash_controller_4001e000_S_flash_0_S_partitions_S_partition_f8000'', 63),
    (''DT_N_S_soc_S_usbd_40027000'', 64), (''DT_N_S_soc_S_usbd_40027000_S_cdc_acm_uart0'', 65)]"

section \<open>Tables at the end of the file\<close>

definition DT_CHOSEN :: "(string \<times> node_id) list" where
  "DT_CHOSEN = [
    (''zephyr_entropy'', DT_N_S_soc_S_random_4000d000),
    (''zephyr_flash_controller'', DT_N_S_soc_S_flash_controller_4001e000),
    (''zephyr_console'', DT_N_S_soc_S_uart_40002000),
    (''zephyr_shell_uart'', DT_N_S_soc_S_uart_40002000),
    (''zephyr_uart_mcumgr'', DT_N_S_soc_S_uart_40002000),
    (''zephyr_bt_mon_uart'', DT_N_S_soc_S_uart_40002000),
    (''zephyr_bt_c2h_uart'', DT_N_S_soc_S_uart_40002000),
    (''zephyr_sram'', DT_N_S_soc_S_memory_20000000),
    (''zephyr_flash'', DT_N_S_soc_S_flash_controller_4001e000_S_flash_0),
    (''zephyr_code_partition'', DT_N_S_soc_S_flash_controller_4001e000_S_flash_0_S_partitions_S_partition_c000)]"

definition fixed_partitions_LABEL :: "(string \<times> node_id) list" where
  "fixed_partitions_LABEL = [
    (''mcuboot'', DT_N_S_soc_S_flash_controller_4001e000_S_flash_0_S_partitions_S_partition_0),
    (''image_0'', DT_N_S_soc_S_flash_controller_4001e000_S_flash_0_S_partitions_S_partition_c000),
    (''image_1'', DT_N_S_soc_S_flash_controller_4001e000_S_flash_0_S_partitions_S_partition_73000),
    (''image_scratch'', DT_N_S_soc_S_flash_controller_4001e000_S_flash_0_S_partitions_S_partition_da000),
    (''storage'', DT_N_S_soc_S_flash_controller_4001e000_S_flash_0_S_partitions_S_partition_f8000)]"

text \<open>
  A compatible that has no line here has the value 0, which is what the macros of a missing name give.
\<close>

definition DT_COMPAT_HAS_OKAY :: "string list" where
  "DT_COMPAT_HAS_OKAY = [
    ''pluton_msd_zigbee'', ''nordic_nrf52840_qiaa'', ''nordic_nrf52840'', ''nordic_nrf52'',
    ''simple_bus'', ''arm_v7m_nvic'', ''nordic_nrf_ficr'', ''nordic_nrf_uicr'', ''mmio_sram'',
    ''nordic_nrf_clock'', ''nordic_nrf_radio'', ''nordic_nrf_uarte'', ''nordic_nrf_twi'',
    ''nordic_nrf_spi'', ''nordic_nrf_gpiote'', ''nordic_nrf_saadc'', ''nordic_nrf_timer'',
    ''nordic_nrf_rtc'', ''nordic_nrf_temp'', ''nordic_nrf_rng'', ''nordic_nrf_ecb'',
    ''nordic_nrf_watchdog'', ''nordic_nrf_egu'', ''nordic_nrf_pwm'',
    ''nordic_nrf52_flash_controller'', ''soc_nv_flash'', ''fixed_partitions'',
    ''nordic_nrf_usbd'', ''zephyr_cdc_acm_uart'', ''nordic_nrf_gpio'', ''nordic_nrf_cc310'',
    ''arm_cryptocell_310'', ''nordic_nrf_pinctrl'', ''arm_cortex_m4f'',
    ''msd_zigbee_temperature_sensor'']"

definition DT_NUM_OKAY :: "(string \<times> int) list" where
  "DT_NUM_OKAY = [
    (''pluton_msd_zigbee'', 1), (''nordic_nrf52840_qiaa'', 1), (''nordic_nrf52840'', 1),
    (''nordic_nrf52'', 1), (''simple_bus'', 1), (''arm_v7m_nvic'', 1), (''nordic_nrf_ficr'', 1),
    (''nordic_nrf_uicr'', 1), (''mmio_sram'', 1), (''nordic_nrf_clock'', 1),
    (''nordic_nrf_radio'', 1), (''nordic_nrf_uarte'', 2), (''nordic_nrf_twi'', 1),
    (''nordic_nrf_spi'', 1), (''nordic_nrf_gpiote'', 1), (''nordic_nrf_saadc'', 1),
    (''nordic_nrf_timer'', 5), (''nordic_nrf_rtc'', 3), (''nordic_nrf_temp'', 1),
    (''nordic_nrf_rng'', 1), (''nordic_nrf_ecb'', 1), (''nordic_nrf_watchdog'', 1),
    (''nordic_nrf_egu'', 6), (''nordic_nrf_pwm'', 1), (''nordic_nrf52_flash_controller'', 1),
    (''soc_nv_flash'', 1), (''fixed_partitions'', 1), (''nordic_nrf_usbd'', 1),
    (''zephyr_cdc_acm_uart'', 1), (''nordic_nrf_gpio'', 2), (''nordic_nrf_cc310'', 1),
    (''arm_cryptocell_310'', 1), (''nordic_nrf_pinctrl'', 1), (''arm_cortex_m4f'', 1),
    (''msd_zigbee_temperature_sensor'', 1)]"

text \<open>Each compatible with its enabled nodes, and with their instance numbers.\<close>

definition DT_FOREACH_OKAY :: "(string \<times> node_id list \<times> int list) list" where
  "DT_FOREACH_OKAY = [
    (''pluton_msd_zigbee'', [DT_N], [0]), (''nordic_nrf52840_qiaa'', [DT_N_S_soc], [0]),
    (''nordic_nrf52840'', [DT_N_S_soc], [0]), (''nordic_nrf52'', [DT_N_S_soc], [0]),
    (''simple_bus'', [DT_N_S_soc], [0]),
    (''arm_v7m_nvic'', [DT_N_S_soc_S_interrupt_controller_e000e100], [0]),
    (''nordic_nrf_ficr'', [DT_N_S_soc_S_ficr_10000000], [0]),
    (''nordic_nrf_uicr'', [DT_N_S_soc_S_uicr_10001000], [0]),
    (''mmio_sram'', [DT_N_S_soc_S_memory_20000000], [0]),
    (''nordic_nrf_clock'', [DT_N_S_soc_S_clock_40000000], [0]),
    (''nordic_nrf_radio'', [DT_N_S_soc_S_radio_40001000], [0]),
    (''nordic_nrf_uarte'', [DT_N_S_soc_S_uart_40002000, DT_N_S_soc_S_uart_40028000], [0, 1]),
    (''nordic_nrf_twi'', [DT_N_S_soc_S_i2c_40003000], [0]),
    (''nordic_nrf_spi'', [DT_N_S_soc_S_spi_40004000], [0]),
    (''nordic_nrf_gpiote'', [DT_N_S_soc_S_gpiote_40006000], [0]),
    (''nordic_nrf_saadc'', [DT_N_S_soc_S_adc_40007000], [0]),
    (''nordic_nrf_timer'', [DT_N_S_soc_S_timer_40008000, DT_N_S_soc_S_timer_40009000, DT_N_S_soc_S_timer_4000a000, DT_N_S_soc_S_timer_4001a000, DT_N_S_soc_S_timer_4001b000], [0, 1, 2, 3, 4]),
    (''nordic_nrf_rtc'', [DT_N_S_soc_S_rtc_4000b000, DT_N_S_soc_S_rtc_40011000, DT_N_S_soc_S_rtc_40024000], [0, 1, 2]),
    (''nordic_nrf_temp'', [DT_N_S_soc_S_temp_4000c000], [0]),
    (''nordic_nrf_rng'', [DT_N_S_soc_S_random_4000d000], [0]),
    (''nordic_nrf_ecb'', [DT_N_S_soc_S_ecb_4000e000], [0]),
    (''nordic_nrf_watchdog'', [DT_N_S_soc_S_watchdog_40010000], [0]),
    (''nordic_nrf_egu'', [DT_N_S_soc_S_egu_40014000, DT_N_S_soc_S_egu_40015000, DT_N_S_soc_S_egu_40016000, DT_N_S_soc_S_egu_40017000, DT_N_S_soc_S_egu_40018000, DT_N_S_soc_S_egu_40019000], [0, 1, 2, 3, 4, 5]),
    (''nordic_nrf_pwm'', [DT_N_S_soc_S_pwm_4001c000], [0]),
    (''nordic_nrf52_flash_controller'', [DT_N_S_soc_S_flash_controller_4001e000], [0]),
    (''soc_nv_flash'', [DT_N_S_soc_S_flash_controller_4001e000_S_flash_0], [0]),
    (''fixed_partitions'', [DT_N_S_soc_S_flash_controller_4001e000_S_flash_0_S_partitions], [0]),
    (''nordic_nrf_usbd'', [DT_N_S_soc_S_usbd_40027000], [0]),
    (''zephyr_cdc_acm_uart'', [DT_N_S_soc_S_usbd_40027000_S_cdc_acm_uart0], [0]),
    (''nordic_nrf_gpio'', [DT_N_S_soc_S_gpio_50000000, DT_N_S_soc_S_gpio_50000300], [0, 1]),
    (''nordic_nrf_cc310'', [DT_N_S_soc_S_crypto_5002a000], [0]),
    (''arm_cryptocell_310'', [DT_N_S_soc_S_crypto_5002a000_S_crypto_5002b000], [0]),
    (''nordic_nrf_pinctrl'', [DT_N_S_pin_controller], [0]),
    (''arm_cortex_m4f'', [DT_N_S_cpus_S_cpu_0], [0]),
    (''msd_zigbee_temperature_sensor'', [DT_N_S_see_msdz_yaml], [0])]"

definition DT_COMPAT_BUS :: "(string \<times> string) list" where
  "DT_COMPAT_BUS = [
    (''zephyr_cdc_acm_uart'', ''usb'')]"

section \<open>Handles of the devices in the image\<close>

text \<open>
  \<open>dev_handles.c\<close>: one array for every device compiled in; the first has handle 1.  An array is the
  handles of what the device requires, a separator, injected dependencies, a separator, what it
  supports and an end mark.
\<close>

datatype device_handle = DEVICE_HANDLE_SEP | DEVICE_HANDLE_ENDS | Handle int

datatype device_object = Node_device node_id | Named_device string

definition device_handles :: "(device_object \<times> device_handle list) list" where
  "device_handles = [
    (Node_device DT_N_S_soc_S_clock_40000000, [DEVICE_HANDLE_SEP, DEVICE_HANDLE_SEP, DEVICE_HANDLE_ENDS]),
    (Node_device DT_N_S_soc_S_gpio_50000300, [DEVICE_HANDLE_SEP, DEVICE_HANDLE_SEP, DEVICE_HANDLE_ENDS]),
    (Node_device DT_N_S_soc_S_gpio_50000000, [DEVICE_HANDLE_SEP, DEVICE_HANDLE_SEP, DEVICE_HANDLE_ENDS]),
    (Node_device DT_N_S_soc_S_timer_4000a000, [DEVICE_HANDLE_SEP, DEVICE_HANDLE_SEP, DEVICE_HANDLE_ENDS]),
    (Node_device DT_N_S_soc_S_watchdog_40010000, [DEVICE_HANDLE_SEP, DEVICE_HANDLE_SEP, DEVICE_HANDLE_ENDS]),
    (Node_device DT_N_S_soc_S_random_4000d000, [DEVICE_HANDLE_SEP, DEVICE_HANDLE_SEP, DEVICE_HANDLE_ENDS]),
    (Node_device DT_N_S_soc_S_usbd_40027000_S_cdc_acm_uart0, [DEVICE_HANDLE_SEP, DEVICE_HANDLE_SEP, DEVICE_HANDLE_ENDS]),
    (Node_device DT_N_S_soc_S_uart_40028000, [DEVICE_HANDLE_SEP, DEVICE_HANDLE_SEP, DEVICE_HANDLE_ENDS]),
    (Node_device DT_N_S_soc_S_uart_40002000, [DEVICE_HANDLE_SEP, DEVICE_HANDLE_SEP, DEVICE_HANDLE_ENDS]),
    (Node_device DT_N_S_soc_S_adc_40007000, [DEVICE_HANDLE_SEP, DEVICE_HANDLE_SEP, DEVICE_HANDLE_ENDS]),
    (Node_device DT_N_S_soc_S_flash_controller_4001e000, [DEVICE_HANDLE_SEP, DEVICE_HANDLE_SEP, DEVICE_HANDLE_ENDS]),
    (Node_device DT_N_S_soc_S_ecb_4000e000, [DEVICE_HANDLE_SEP, DEVICE_HANDLE_SEP, DEVICE_HANDLE_ENDS]),
    (Named_device ''nrf5_154_radio'', [DEVICE_HANDLE_SEP, DEVICE_HANDLE_SEP, DEVICE_HANDLE_ENDS]),
    (Node_device DT_N_S_soc_S_temp_4000c000, [DEVICE_HANDLE_SEP, DEVICE_HANDLE_SEP, DEVICE_HANDLE_ENDS])]"

section \<open>Evaluation\<close>

lemmas node_defs =
  node_DT_N_def node_DT_N_S_aliases_def node_DT_N_S_chosen_def node_DT_N_S_pin_controller_def
  node_DT_N_S_soc_def node_DT_N_S_soc_S_interrupt_controller_e000e100_def
  node_DT_N_S_soc_S_adc_40007000_def node_DT_N_S_see_msdz_yaml_def
  node_DT_N_S_soc_S_timer_4000a000_def node_DT_N_S_sw_pwm_def node_DT_N_S_cpus_def
  node_DT_N_S_cpus_S_cpu_0_def node_DT_N_S_soc_S_clock_40000000_def
  node_DT_N_S_soc_S_ecb_4000e000_def node_DT_N_S_soc_S_egu_40014000_def
  node_DT_N_S_soc_S_egu_40015000_def node_DT_N_S_soc_S_egu_40016000_def
  node_DT_N_S_soc_S_egu_40017000_def node_DT_N_S_soc_S_egu_40018000_def
  node_DT_N_S_soc_S_egu_40019000_def node_DT_N_S_soc_S_ficr_10000000_def
  node_DT_N_S_soc_S_gpio_50000000_def node_DT_N_S_soc_S_gpio_50000300_def
  node_DT_N_S_soc_S_gpiote_40006000_def node_DT_N_S_soc_S_i2c_40003000_def
  node_DT_N_S_soc_S_i2c_40004000_def node_DT_N_S_soc_S_i2s_40025000_def
  node_DT_N_S_soc_S_memory_20000000_def node_DT_N_S_soc_S_pdm_4001d000_def
  node_DT_N_S_soc_S_pwm_4001c000_def node_DT_N_S_soc_S_pwm_40021000_def
  node_DT_N_S_soc_S_pwm_40022000_def node_DT_N_S_soc_S_pwm_4002d000_def
  node_DT_N_S_soc_S_qdec_40012000_def node_DT_N_S_soc_S_qspi_40029000_def
  node_DT_N_S_soc_S_radio_40001000_def node_DT_N_S_soc_S_random_4000d000_def
  node_DT_N_S_soc_S_rtc_4000b000_def node_DT_N_S_soc_S_rtc_40011000_def
  node_DT_N_S_soc_S_rtc_40024000_def node_DT_N_S_soc_S_spi_40003000_def
  node_DT_N_S_soc_S_spi_40004000_def node_DT_N_S_soc_S_spi_40023000_def
  node_DT_N_S_soc_S_spi_4002f000_def node_DT_N_S_soc_S_temp_4000c000_def
  node_DT_N_S_soc_S_timer_40008000_def node_DT_N_S_soc_S_timer_40009000_def
  node_DT_N_S_soc_S_timer_4001a000_def node_DT_N_S_soc_S_timer_4001b000_def
  node_DT_N_S_soc_S_timer_e000e010_def node_DT_N_S_soc_S_uart_40002000_def
  node_DT_N_S_soc_S_uart_40028000_def node_DT_N_S_soc_S_uicr_10001000_def
  node_DT_N_S_soc_S_watchdog_40010000_def node_DT_N_S_soc_S_crypto_5002a000_def
  node_DT_N_S_soc_S_crypto_5002a000_S_crypto_5002b000_def
  node_DT_N_S_soc_S_flash_controller_4001e000_def
  node_DT_N_S_soc_S_flash_controller_4001e000_S_flash_0_def
  node_DT_N_S_soc_S_flash_controller_4001e000_S_flash_0_S_partitions_def
  node_DT_N_S_soc_S_flash_controller_4001e000_S_flash_0_S_partitions_S_partition_0_def
  node_DT_N_S_soc_S_flash_controller_4001e000_S_flash_0_S_partitions_S_partition_c000_def
  node_DT_N_S_soc_S_flash_controller_4001e000_S_flash_0_S_partitions_S_partition_73000_def
  node_DT_N_S_soc_S_flash_controller_4001e000_S_flash_0_S_partitions_S_partition_da000_def
  node_DT_N_S_soc_S_flash_controller_4001e000_S_flash_0_S_partitions_S_partition_f8000_def
  node_DT_N_S_soc_S_usbd_40027000_def node_DT_N_S_soc_S_usbd_40027000_S_cdc_acm_uart0_def

lemma devicetree_ORD:
  "map ORD devicetree =
    [0, 1, 2, 3, 4, 5, 6, 7, 8, 9, 10, 11, 12, 13, 14, 15, 16, 17, 18, 19, 20, 21, 22, 23, 24, 25,
     26, 27, 28, 29, 30, 31, 32, 33, 34, 35, 36, 37, 38, 39, 40, 41, 42, 43, 44, 45, 46, 47, 48,
     49, 50, 51, 52, 53, 54, 55, 56, 57, 58, 59, 60, 61, 62, 63, 64, 65]"
  by (simp add: devicetree_def node_defs)

lemma node_ORD:
 "ORD node_DT_N = 0"
 "ORD node_DT_N_S_aliases = 1"
 "ORD node_DT_N_S_chosen = 2"
 "ORD node_DT_N_S_pin_controller = 3"
 "ORD node_DT_N_S_soc = 4"
 "ORD node_DT_N_S_soc_S_interrupt_controller_e000e100 = 5"
 "ORD node_DT_N_S_soc_S_adc_40007000 = 6"
 "ORD node_DT_N_S_see_msdz_yaml = 7"
 "ORD node_DT_N_S_soc_S_timer_4000a000 = 8"
 "ORD node_DT_N_S_sw_pwm = 9"
 "ORD node_DT_N_S_cpus = 10"
 "ORD node_DT_N_S_cpus_S_cpu_0 = 11"
 "ORD node_DT_N_S_soc_S_clock_40000000 = 12"
 "ORD node_DT_N_S_soc_S_ecb_4000e000 = 13"
 "ORD node_DT_N_S_soc_S_egu_40014000 = 14"
 "ORD node_DT_N_S_soc_S_egu_40015000 = 15"
 "ORD node_DT_N_S_soc_S_egu_40016000 = 16"
 "ORD node_DT_N_S_soc_S_egu_40017000 = 17"
 "ORD node_DT_N_S_soc_S_egu_40018000 = 18"
 "ORD node_DT_N_S_soc_S_egu_40019000 = 19"
 "ORD node_DT_N_S_soc_S_ficr_10000000 = 20"
 "ORD node_DT_N_S_soc_S_gpio_50000000 = 21"
 "ORD node_DT_N_S_soc_S_gpio_50000300 = 22"
 "ORD node_DT_N_S_soc_S_gpiote_40006000 = 23"
 "ORD node_DT_N_S_soc_S_i2c_40003000 = 24"
 "ORD node_DT_N_S_soc_S_i2c_40004000 = 25"
 "ORD node_DT_N_S_soc_S_i2s_40025000 = 26"
 "ORD node_DT_N_S_soc_S_memory_20000000 = 27"
 "ORD node_DT_N_S_soc_S_pdm_4001d000 = 28"
 "ORD node_DT_N_S_soc_S_pwm_4001c000 = 29"
 "ORD node_DT_N_S_soc_S_pwm_40021000 = 30"
 "ORD node_DT_N_S_soc_S_pwm_40022000 = 31"
 "ORD node_DT_N_S_soc_S_pwm_4002d000 = 32"
 "ORD node_DT_N_S_soc_S_qdec_40012000 = 33"
 "ORD node_DT_N_S_soc_S_qspi_40029000 = 34"
 "ORD node_DT_N_S_soc_S_radio_40001000 = 35"
 "ORD node_DT_N_S_soc_S_random_4000d000 = 36"
 "ORD node_DT_N_S_soc_S_rtc_4000b000 = 37"
 "ORD node_DT_N_S_soc_S_rtc_40011000 = 38"
 "ORD node_DT_N_S_soc_S_rtc_40024000 = 39"
 "ORD node_DT_N_S_soc_S_spi_40003000 = 40"
 "ORD node_DT_N_S_soc_S_spi_40004000 = 41"
 "ORD node_DT_N_S_soc_S_spi_40023000 = 42"
 "ORD node_DT_N_S_soc_S_spi_4002f000 = 43"
 "ORD node_DT_N_S_soc_S_temp_4000c000 = 44"
 "ORD node_DT_N_S_soc_S_timer_40008000 = 45"
 "ORD node_DT_N_S_soc_S_timer_40009000 = 46"
 "ORD node_DT_N_S_soc_S_timer_4001a000 = 47"
 "ORD node_DT_N_S_soc_S_timer_4001b000 = 48"
 "ORD node_DT_N_S_soc_S_timer_e000e010 = 49"
 "ORD node_DT_N_S_soc_S_uart_40002000 = 50"
 "ORD node_DT_N_S_soc_S_uart_40028000 = 51"
 "ORD node_DT_N_S_soc_S_uicr_10001000 = 52"
 "ORD node_DT_N_S_soc_S_watchdog_40010000 = 53"
 "ORD node_DT_N_S_soc_S_crypto_5002a000 = 54"
 "ORD node_DT_N_S_soc_S_crypto_5002a000_S_crypto_5002b000 = 55"
 "ORD node_DT_N_S_soc_S_flash_controller_4001e000 = 56"
 "ORD node_DT_N_S_soc_S_flash_controller_4001e000_S_flash_0 = 57"
 "ORD node_DT_N_S_soc_S_flash_controller_4001e000_S_flash_0_S_partitions = 58"
 "ORD node_DT_N_S_soc_S_flash_controller_4001e000_S_flash_0_S_partitions_S_partition_0 = 59"
 "ORD node_DT_N_S_soc_S_flash_controller_4001e000_S_flash_0_S_partitions_S_partition_c000 = 60"
 "ORD node_DT_N_S_soc_S_flash_controller_4001e000_S_flash_0_S_partitions_S_partition_73000 = 61"
 "ORD node_DT_N_S_soc_S_flash_controller_4001e000_S_flash_0_S_partitions_S_partition_da000 = 62"
 "ORD node_DT_N_S_soc_S_flash_controller_4001e000_S_flash_0_S_partitions_S_partition_f8000 = 63"
 "ORD node_DT_N_S_soc_S_usbd_40027000 = 64"
 "ORD node_DT_N_S_soc_S_usbd_40027000_S_cdc_acm_uart0 = 65"
  using devicetree_ORD by (simp_all add: devicetree_def)

text \<open>An identifier leads to its node.\<close>

lemma node_at_devicetree:
 "node_at devicetree DT_N = Some node_DT_N"
 "node_at devicetree DT_N_S_aliases = Some node_DT_N_S_aliases"
 "node_at devicetree DT_N_S_chosen = Some node_DT_N_S_chosen"
 "node_at devicetree DT_N_S_pin_controller = Some node_DT_N_S_pin_controller"
 "node_at devicetree DT_N_S_soc = Some node_DT_N_S_soc"
 "node_at devicetree DT_N_S_soc_S_interrupt_controller_e000e100 = Some node_DT_N_S_soc_S_interrupt_controller_e000e100"
 "node_at devicetree DT_N_S_soc_S_adc_40007000 = Some node_DT_N_S_soc_S_adc_40007000"
 "node_at devicetree DT_N_S_see_msdz_yaml = Some node_DT_N_S_see_msdz_yaml"
 "node_at devicetree DT_N_S_soc_S_timer_4000a000 = Some node_DT_N_S_soc_S_timer_4000a000"
 "node_at devicetree DT_N_S_sw_pwm = Some node_DT_N_S_sw_pwm"
 "node_at devicetree DT_N_S_cpus = Some node_DT_N_S_cpus"
 "node_at devicetree DT_N_S_cpus_S_cpu_0 = Some node_DT_N_S_cpus_S_cpu_0"
 "node_at devicetree DT_N_S_soc_S_clock_40000000 = Some node_DT_N_S_soc_S_clock_40000000"
 "node_at devicetree DT_N_S_soc_S_ecb_4000e000 = Some node_DT_N_S_soc_S_ecb_4000e000"
 "node_at devicetree DT_N_S_soc_S_egu_40014000 = Some node_DT_N_S_soc_S_egu_40014000"
 "node_at devicetree DT_N_S_soc_S_egu_40015000 = Some node_DT_N_S_soc_S_egu_40015000"
 "node_at devicetree DT_N_S_soc_S_egu_40016000 = Some node_DT_N_S_soc_S_egu_40016000"
 "node_at devicetree DT_N_S_soc_S_egu_40017000 = Some node_DT_N_S_soc_S_egu_40017000"
 "node_at devicetree DT_N_S_soc_S_egu_40018000 = Some node_DT_N_S_soc_S_egu_40018000"
 "node_at devicetree DT_N_S_soc_S_egu_40019000 = Some node_DT_N_S_soc_S_egu_40019000"
 "node_at devicetree DT_N_S_soc_S_ficr_10000000 = Some node_DT_N_S_soc_S_ficr_10000000"
 "node_at devicetree DT_N_S_soc_S_gpio_50000000 = Some node_DT_N_S_soc_S_gpio_50000000"
 "node_at devicetree DT_N_S_soc_S_gpio_50000300 = Some node_DT_N_S_soc_S_gpio_50000300"
 "node_at devicetree DT_N_S_soc_S_gpiote_40006000 = Some node_DT_N_S_soc_S_gpiote_40006000"
 "node_at devicetree DT_N_S_soc_S_i2c_40003000 = Some node_DT_N_S_soc_S_i2c_40003000"
 "node_at devicetree DT_N_S_soc_S_i2c_40004000 = Some node_DT_N_S_soc_S_i2c_40004000"
 "node_at devicetree DT_N_S_soc_S_i2s_40025000 = Some node_DT_N_S_soc_S_i2s_40025000"
 "node_at devicetree DT_N_S_soc_S_memory_20000000 = Some node_DT_N_S_soc_S_memory_20000000"
 "node_at devicetree DT_N_S_soc_S_pdm_4001d000 = Some node_DT_N_S_soc_S_pdm_4001d000"
 "node_at devicetree DT_N_S_soc_S_pwm_4001c000 = Some node_DT_N_S_soc_S_pwm_4001c000"
 "node_at devicetree DT_N_S_soc_S_pwm_40021000 = Some node_DT_N_S_soc_S_pwm_40021000"
 "node_at devicetree DT_N_S_soc_S_pwm_40022000 = Some node_DT_N_S_soc_S_pwm_40022000"
 "node_at devicetree DT_N_S_soc_S_pwm_4002d000 = Some node_DT_N_S_soc_S_pwm_4002d000"
 "node_at devicetree DT_N_S_soc_S_qdec_40012000 = Some node_DT_N_S_soc_S_qdec_40012000"
 "node_at devicetree DT_N_S_soc_S_qspi_40029000 = Some node_DT_N_S_soc_S_qspi_40029000"
 "node_at devicetree DT_N_S_soc_S_radio_40001000 = Some node_DT_N_S_soc_S_radio_40001000"
 "node_at devicetree DT_N_S_soc_S_random_4000d000 = Some node_DT_N_S_soc_S_random_4000d000"
 "node_at devicetree DT_N_S_soc_S_rtc_4000b000 = Some node_DT_N_S_soc_S_rtc_4000b000"
 "node_at devicetree DT_N_S_soc_S_rtc_40011000 = Some node_DT_N_S_soc_S_rtc_40011000"
 "node_at devicetree DT_N_S_soc_S_rtc_40024000 = Some node_DT_N_S_soc_S_rtc_40024000"
 "node_at devicetree DT_N_S_soc_S_spi_40003000 = Some node_DT_N_S_soc_S_spi_40003000"
 "node_at devicetree DT_N_S_soc_S_spi_40004000 = Some node_DT_N_S_soc_S_spi_40004000"
 "node_at devicetree DT_N_S_soc_S_spi_40023000 = Some node_DT_N_S_soc_S_spi_40023000"
 "node_at devicetree DT_N_S_soc_S_spi_4002f000 = Some node_DT_N_S_soc_S_spi_4002f000"
 "node_at devicetree DT_N_S_soc_S_temp_4000c000 = Some node_DT_N_S_soc_S_temp_4000c000"
 "node_at devicetree DT_N_S_soc_S_timer_40008000 = Some node_DT_N_S_soc_S_timer_40008000"
 "node_at devicetree DT_N_S_soc_S_timer_40009000 = Some node_DT_N_S_soc_S_timer_40009000"
 "node_at devicetree DT_N_S_soc_S_timer_4001a000 = Some node_DT_N_S_soc_S_timer_4001a000"
 "node_at devicetree DT_N_S_soc_S_timer_4001b000 = Some node_DT_N_S_soc_S_timer_4001b000"
 "node_at devicetree DT_N_S_soc_S_timer_e000e010 = Some node_DT_N_S_soc_S_timer_e000e010"
 "node_at devicetree DT_N_S_soc_S_uart_40002000 = Some node_DT_N_S_soc_S_uart_40002000"
 "node_at devicetree DT_N_S_soc_S_uart_40028000 = Some node_DT_N_S_soc_S_uart_40028000"
 "node_at devicetree DT_N_S_soc_S_uicr_10001000 = Some node_DT_N_S_soc_S_uicr_10001000"
 "node_at devicetree DT_N_S_soc_S_watchdog_40010000 = Some node_DT_N_S_soc_S_watchdog_40010000"
 "node_at devicetree DT_N_S_soc_S_crypto_5002a000 = Some node_DT_N_S_soc_S_crypto_5002a000"
 "node_at devicetree DT_N_S_soc_S_crypto_5002a000_S_crypto_5002b000 = Some node_DT_N_S_soc_S_crypto_5002a000_S_crypto_5002b000"
 "node_at devicetree DT_N_S_soc_S_flash_controller_4001e000 = Some node_DT_N_S_soc_S_flash_controller_4001e000"
 "node_at devicetree DT_N_S_soc_S_flash_controller_4001e000_S_flash_0 = Some node_DT_N_S_soc_S_flash_controller_4001e000_S_flash_0"
 "node_at devicetree DT_N_S_soc_S_flash_controller_4001e000_S_flash_0_S_partitions = Some node_DT_N_S_soc_S_flash_controller_4001e000_S_flash_0_S_partitions"
 "node_at devicetree DT_N_S_soc_S_flash_controller_4001e000_S_flash_0_S_partitions_S_partition_0 = Some node_DT_N_S_soc_S_flash_controller_4001e000_S_flash_0_S_partitions_S_partition_0"
 "node_at devicetree DT_N_S_soc_S_flash_controller_4001e000_S_flash_0_S_partitions_S_partition_c000 = Some node_DT_N_S_soc_S_flash_controller_4001e000_S_flash_0_S_partitions_S_partition_c000"
 "node_at devicetree DT_N_S_soc_S_flash_controller_4001e000_S_flash_0_S_partitions_S_partition_73000 = Some node_DT_N_S_soc_S_flash_controller_4001e000_S_flash_0_S_partitions_S_partition_73000"
 "node_at devicetree DT_N_S_soc_S_flash_controller_4001e000_S_flash_0_S_partitions_S_partition_da000 = Some node_DT_N_S_soc_S_flash_controller_4001e000_S_flash_0_S_partitions_S_partition_da000"
 "node_at devicetree DT_N_S_soc_S_flash_controller_4001e000_S_flash_0_S_partitions_S_partition_f8000 = Some node_DT_N_S_soc_S_flash_controller_4001e000_S_flash_0_S_partitions_S_partition_f8000"
 "node_at devicetree DT_N_S_soc_S_usbd_40027000 = Some node_DT_N_S_soc_S_usbd_40027000"
 "node_at devicetree DT_N_S_soc_S_usbd_40027000_S_cdc_acm_uart0 = Some node_DT_N_S_soc_S_usbd_40027000_S_cdc_acm_uart0"
  by (simp_all add: node_at_def devicetree_def node_ORD)

lemma list_all_devicetree:
  "list_all P devicetree \<longleftrightarrow>
     P node_DT_N \<and> P node_DT_N_S_aliases \<and> P node_DT_N_S_chosen \<and> P
     node_DT_N_S_pin_controller \<and> P node_DT_N_S_soc \<and> P
     node_DT_N_S_soc_S_interrupt_controller_e000e100 \<and> P node_DT_N_S_soc_S_adc_40007000
     \<and> P node_DT_N_S_see_msdz_yaml \<and> P node_DT_N_S_soc_S_timer_4000a000 \<and> P
     node_DT_N_S_sw_pwm \<and> P node_DT_N_S_cpus \<and> P node_DT_N_S_cpus_S_cpu_0 \<and> P
     node_DT_N_S_soc_S_clock_40000000 \<and> P node_DT_N_S_soc_S_ecb_4000e000 \<and> P
     node_DT_N_S_soc_S_egu_40014000 \<and> P node_DT_N_S_soc_S_egu_40015000 \<and> P
     node_DT_N_S_soc_S_egu_40016000 \<and> P node_DT_N_S_soc_S_egu_40017000 \<and> P
     node_DT_N_S_soc_S_egu_40018000 \<and> P node_DT_N_S_soc_S_egu_40019000 \<and> P
     node_DT_N_S_soc_S_ficr_10000000 \<and> P node_DT_N_S_soc_S_gpio_50000000 \<and> P
     node_DT_N_S_soc_S_gpio_50000300 \<and> P node_DT_N_S_soc_S_gpiote_40006000 \<and> P
     node_DT_N_S_soc_S_i2c_40003000 \<and> P node_DT_N_S_soc_S_i2c_40004000 \<and> P
     node_DT_N_S_soc_S_i2s_40025000 \<and> P node_DT_N_S_soc_S_memory_20000000 \<and> P
     node_DT_N_S_soc_S_pdm_4001d000 \<and> P node_DT_N_S_soc_S_pwm_4001c000 \<and> P
     node_DT_N_S_soc_S_pwm_40021000 \<and> P node_DT_N_S_soc_S_pwm_40022000 \<and> P
     node_DT_N_S_soc_S_pwm_4002d000 \<and> P node_DT_N_S_soc_S_qdec_40012000 \<and> P
     node_DT_N_S_soc_S_qspi_40029000 \<and> P node_DT_N_S_soc_S_radio_40001000 \<and> P
     node_DT_N_S_soc_S_random_4000d000 \<and> P node_DT_N_S_soc_S_rtc_4000b000 \<and> P
     node_DT_N_S_soc_S_rtc_40011000 \<and> P node_DT_N_S_soc_S_rtc_40024000 \<and> P
     node_DT_N_S_soc_S_spi_40003000 \<and> P node_DT_N_S_soc_S_spi_40004000 \<and> P
     node_DT_N_S_soc_S_spi_40023000 \<and> P node_DT_N_S_soc_S_spi_4002f000 \<and> P
     node_DT_N_S_soc_S_temp_4000c000 \<and> P node_DT_N_S_soc_S_timer_40008000 \<and> P
     node_DT_N_S_soc_S_timer_40009000 \<and> P node_DT_N_S_soc_S_timer_4001a000 \<and> P
     node_DT_N_S_soc_S_timer_4001b000 \<and> P node_DT_N_S_soc_S_timer_e000e010 \<and> P
     node_DT_N_S_soc_S_uart_40002000 \<and> P node_DT_N_S_soc_S_uart_40028000 \<and> P
     node_DT_N_S_soc_S_uicr_10001000 \<and> P node_DT_N_S_soc_S_watchdog_40010000 \<and> P
     node_DT_N_S_soc_S_crypto_5002a000 \<and> P
     node_DT_N_S_soc_S_crypto_5002a000_S_crypto_5002b000 \<and> P
     node_DT_N_S_soc_S_flash_controller_4001e000 \<and> P
     node_DT_N_S_soc_S_flash_controller_4001e000_S_flash_0 \<and> P
     node_DT_N_S_soc_S_flash_controller_4001e000_S_flash_0_S_partitions \<and> P
     node_DT_N_S_soc_S_flash_controller_4001e000_S_flash_0_S_partitions_S_partition_0 \<and> P
     node_DT_N_S_soc_S_flash_controller_4001e000_S_flash_0_S_partitions_S_partition_c000 \<and> P
     node_DT_N_S_soc_S_flash_controller_4001e000_S_flash_0_S_partitions_S_partition_73000 \<and> P
     node_DT_N_S_soc_S_flash_controller_4001e000_S_flash_0_S_partitions_S_partition_da000 \<and> P
     node_DT_N_S_soc_S_flash_controller_4001e000_S_flash_0_S_partitions_S_partition_f8000 \<and> P
     node_DT_N_S_soc_S_usbd_40027000 \<and> P node_DT_N_S_soc_S_usbd_40027000_S_cdc_acm_uart0"
  by (simp add: devicetree_def)

section \<open>Order and shape of the tree\<close>

interpretation board: bring_up_order devicetree
proof
  show "brought_up [] devicetree" by (simp add: devicetree_def node_defs)
  show "sorted_wrt (<) (map ORD devicetree)" unfolding devicetree_ORD by simp
qed

lemma devicetree_placed: "list_all (placed devicetree) devicetree"
  by (simp add: list_all_devicetree placed_def child_path_def node_at_devicetree node_defs)

lemma devicetree_children: "list_all (children_listed devicetree) devicetree"
  by (simp add: list_all_devicetree children_listed_def enabled_def node_at_devicetree node_defs)

lemma supports_sorted:
  "supports_pairs devicetree = map prod.swap (sort_key snd (requires_pairs devicetree))"
  by (simp add: supports_pairs_def requires_pairs_def devicetree_def node_defs)

lemma devicetree_supports: "dt_supports devicetree = (dt_requires devicetree)\<inverse>"
  by (auto simp: dt_supports_def dt_requires_def supports_sorted)

text \<open>The generator's rule for the identifier of a node, for the characters the paths have.\<close>

definition ident_char :: "char \<Rightarrow> string" where
  "ident_char c =
     (if c = CHR ''/'' then ''_S_''
      else if c = CHR ''-'' \<or> c = CHR ''@'' \<or> c = CHR '','' then ''_''
      else [c])"

definition node_ident :: "string \<Rightarrow> string" where
  "node_ident path = (if path = ''/'' then ''DT_N'' else ''DT_N'' @ concat (map ident_char path))"

lemma device_extern_agrees: "device_extern = map (\<lambda>n. (node_ident (PATH n), ORD n)) devicetree"
  by (simp add: devicetree_def node_defs device_extern_def node_ident_def ident_char_def)

end
