(* ===== verification/DtBoard.thy ===== *)
theory DtBoard
  imports DtTables
begin

text \<open>
  The device tree against its own tables, and what makes its hardware usable together: the
  dependency order, the instances of every compatible, disjoint bus addresses and interrupt
  lines of the enabled devices, and the device objects of the image.
\<close>

section \<open>Shape\<close>

text \<open>C36: The device tree is one tree, and its dependencies can be honoured: in the order of the
  ordinals every node comes up after all it requires, so no node depends on itself, directly or
  through others; what supports a node is exactly what requires it; every node but the root
  sits under a parent that lists it, is named after it and is required by it; the enabled
  children are the enabled ones among the children; and \<open>device_extern.h\<close> declares one device
  per node, by the identifier of its path.
\<close>

theorem devicetree_consistent:
  "acyclic (dt_requires devicetree) \<and>
   brought_up [] devicetree \<and>
   dt_supports devicetree = (dt_requires devicetree)\<inverse> \<and>
   list_all (placed devicetree) devicetree \<and>
   list_all (children_listed devicetree) devicetree \<and>
   device_extern = map (\<lambda>n. (node_ident (PATH n), ORD n)) devicetree"
  using board.no_cycle board.up devicetree_supports devicetree_placed devicetree_children
    device_extern_agrees by blast

section \<open>Instances\<close>

text \<open>
  The tables of the compatibles against the nodes.  \<open>foreach_pairs\<close> is the table read off as
  instances: the \<open>i\<close>-th node of a compatible's line under the \<open>i\<close>-th number.
\<close>

definition okay_instances :: "dt_node list \<Rightarrow> ((string \<times> int) \<times> node_id) list" where
  "okay_instances t =
     concat (map (\<lambda>n. if STATUS_okay n then map (\<lambda>ci. (ci, ORD n)) (INST n) else []) t)"

definition foreach_pairs :: "((string \<times> int) \<times> node_id) list" where
  "foreach_pairs = concat (map (\<lambda>(c, ks, nums). zip (map (Pair c) nums) ks) DT_FOREACH_OKAY)"

lemma okay_instances_devicetree:
  "okay_instances devicetree = [
     ((''pluton_msd_zigbee'', 0), DT_N), ((''nordic_nrf_pinctrl'', 0), DT_N_S_pin_controller),
     ((''nordic_nrf52840_qiaa'', 0), DT_N_S_soc), ((''nordic_nrf52840'', 0), DT_N_S_soc),
     ((''nordic_nrf52'', 0), DT_N_S_soc), ((''simple_bus'', 0), DT_N_S_soc),
     ((''arm_v7m_nvic'', 0), DT_N_S_soc_S_interrupt_controller_e000e100),
     ((''nordic_nrf_saadc'', 0), DT_N_S_soc_S_adc_40007000),
     ((''msd_zigbee_temperature_sensor'', 0), DT_N_S_see_msdz_yaml),
     ((''nordic_nrf_timer'', 2), DT_N_S_soc_S_timer_4000a000),
     ((''arm_cortex_m4f'', 0), DT_N_S_cpus_S_cpu_0),
     ((''nordic_nrf_clock'', 0), DT_N_S_soc_S_clock_40000000),
     ((''nordic_nrf_ecb'', 0), DT_N_S_soc_S_ecb_4000e000),
     ((''nordic_nrf_egu'', 0), DT_N_S_soc_S_egu_40014000),
     ((''nordic_nrf_egu'', 1), DT_N_S_soc_S_egu_40015000),
     ((''nordic_nrf_egu'', 2), DT_N_S_soc_S_egu_40016000),
     ((''nordic_nrf_egu'', 3), DT_N_S_soc_S_egu_40017000),
     ((''nordic_nrf_egu'', 4), DT_N_S_soc_S_egu_40018000),
     ((''nordic_nrf_egu'', 5), DT_N_S_soc_S_egu_40019000),
     ((''nordic_nrf_ficr'', 0), DT_N_S_soc_S_ficr_10000000),
     ((''nordic_nrf_gpio'', 0), DT_N_S_soc_S_gpio_50000000),
     ((''nordic_nrf_gpio'', 1), DT_N_S_soc_S_gpio_50000300),
     ((''nordic_nrf_gpiote'', 0), DT_N_S_soc_S_gpiote_40006000),
     ((''nordic_nrf_twi'', 0), DT_N_S_soc_S_i2c_40003000),
     ((''mmio_sram'', 0), DT_N_S_soc_S_memory_20000000),
     ((''nordic_nrf_pwm'', 0), DT_N_S_soc_S_pwm_4001c000),
     ((''nordic_nrf_radio'', 0), DT_N_S_soc_S_radio_40001000),
     ((''nordic_nrf_rng'', 0), DT_N_S_soc_S_random_4000d000),
     ((''nordic_nrf_rtc'', 0), DT_N_S_soc_S_rtc_4000b000),
     ((''nordic_nrf_rtc'', 1), DT_N_S_soc_S_rtc_40011000),
     ((''nordic_nrf_rtc'', 2), DT_N_S_soc_S_rtc_40024000),
     ((''nordic_nrf_spi'', 0), DT_N_S_soc_S_spi_40004000),
     ((''nordic_nrf_temp'', 0), DT_N_S_soc_S_temp_4000c000),
     ((''nordic_nrf_timer'', 0), DT_N_S_soc_S_timer_40008000),
     ((''nordic_nrf_timer'', 1), DT_N_S_soc_S_timer_40009000),
     ((''nordic_nrf_timer'', 3), DT_N_S_soc_S_timer_4001a000),
     ((''nordic_nrf_timer'', 4), DT_N_S_soc_S_timer_4001b000),
     ((''nordic_nrf_uarte'', 0), DT_N_S_soc_S_uart_40002000),
     ((''nordic_nrf_uarte'', 1), DT_N_S_soc_S_uart_40028000),
     ((''nordic_nrf_uicr'', 0), DT_N_S_soc_S_uicr_10001000),
     ((''nordic_nrf_watchdog'', 0), DT_N_S_soc_S_watchdog_40010000),
     ((''nordic_nrf_cc310'', 0), DT_N_S_soc_S_crypto_5002a000),
     ((''arm_cryptocell_310'', 0), DT_N_S_soc_S_crypto_5002a000_S_crypto_5002b000),
     ((''nordic_nrf52_flash_controller'', 0), DT_N_S_soc_S_flash_controller_4001e000),
     ((''soc_nv_flash'', 0), DT_N_S_soc_S_flash_controller_4001e000_S_flash_0),
     ((''fixed_partitions'', 0), DT_N_S_soc_S_flash_controller_4001e000_S_flash_0_S_partitions),
     ((''nordic_nrf_usbd'', 0), DT_N_S_soc_S_usbd_40027000),
     ((''zephyr_cdc_acm_uart'', 0), DT_N_S_soc_S_usbd_40027000_S_cdc_acm_uart0)]"
  by (simp add: okay_instances_def devicetree_def node_defs)

lemma foreach_okay_instances: "sort_key snd foreach_pairs = okay_instances devicetree"
  unfolding okay_instances_devicetree by code_simp

lemma okay_compats_instances:
  "okay_compats devicetree = map (\<lambda>((c, i), k). (c, k)) (okay_instances devicetree)"
  by (simp add: okay_compats_def okay_instances_def devicetree_def node_defs)

lemma foreach_okay_numbers:
  "list_all (\<lambda>(c, ks, nums). nums = map int [0..<length ks] \<and> ks \<noteq> [] \<and> distinct ks) DT_FOREACH_OKAY"
  by (simp add: DT_FOREACH_OKAY_def upt_rec)

lemma has_okay_names: "map fst DT_FOREACH_OKAY = DT_COMPAT_HAS_OKAY"
  by (simp add: DT_FOREACH_OKAY_def DT_COMPAT_HAS_OKAY_def)

lemma num_okay_lengths: "DT_NUM_OKAY = map (\<lambda>(c, ks, nums). (c, int (length ks))) DT_FOREACH_OKAY"
  by (simp add: DT_FOREACH_OKAY_def DT_NUM_OKAY_def)

text \<open>The line of a compatible holds its enabled nodes, and one without a line has none.\<close>

definition okay_nodes :: "dt_node list \<Rightarrow> string \<Rightarrow> node_id set" where
  "okay_nodes t c = {ORD n | n. n \<in> set t \<and> STATUS_okay n \<and> c \<in> set (COMPAT_MATCHES n)}"

definition listed_nodes :: "string \<Rightarrow> node_id set" where
  "listed_nodes c = {k. \<exists>ks nums. (c, ks, nums) \<in> set DT_FOREACH_OKAY \<and> k \<in> set ks}"

lemma foreach_pairs_iff:
  "((\<exists>i. ((c, i), k) \<in> set foreach_pairs) \<longleftrightarrow> k \<in> listed_nodes c)"
proof
  assume "\<exists>i. ((c, i), k) \<in> set foreach_pairs"
  then show "k \<in> listed_nodes c"
    by (fastforce simp: foreach_pairs_def listed_nodes_def dest: set_zip_leftD set_zip_rightD)
next
  assume "k \<in> listed_nodes c"
  then obtain ks nums where e: "(c, ks, nums) \<in> set DT_FOREACH_OKAY" and k: "k \<in> set ks"
    by (auto simp: listed_nodes_def)
  from e foreach_okay_numbers have "length nums = length ks" by (auto simp: list_all_iff)
  with k obtain j where "j < length ks" "k = ks ! j" "j < length nums" by (auto simp: in_set_conv_nth)
  then have "((c, nums ! j), k) \<in> set (zip (map (Pair c) nums) ks)"
    by (auto simp: set_zip intro!: exI [of _ j])
  with e show "\<exists>i. ((c, i), k) \<in> set foreach_pairs"
    by (force simp: foreach_pairs_def)
qed

lemma foreach_okay_nodes: "listed_nodes c = okay_nodes devicetree c"
proof -
  have "k \<in> okay_nodes devicetree c \<longleftrightarrow> (c, k) \<in> set (okay_compats devicetree)" for k
    by (auto simp: okay_nodes_def okay_compats_def)
  also have "\<dots> k \<longleftrightarrow> (\<exists>i. ((c, i), k) \<in> set (okay_instances devicetree))" for k
    by (force simp: okay_compats_instances)
  also have "\<dots> k \<longleftrightarrow> k \<in> listed_nodes c" for k
    by (simp flip: foreach_okay_instances foreach_pairs_iff)
  finally show ?thesis by blast
qed

section \<open>Enabled devices\<close>

text \<open>
  The addresses a node answers to and the interrupt lines it drives.  The partitions of the
  flash have offsets in the flash instead of bus addresses.
\<close>

definition regions :: "dt_node \<Rightarrow> (int \<times> int) list" where
  "regions n = concat (map (\<lambda>(a, s). case s of None \<Rightarrow> [] | Some s \<Rightarrow> [(a, s)]) (REGS n))"

definition addresses :: "dt_node \<Rightarrow> int set" where
  "addresses n = (\<Union>(a, s)\<in>set (regions n). {a..<a + s})"

definition lines :: "dt_node \<Rightarrow> int set" where
  "lines n = fst ` set (IRQS n)"

definition on_bus :: "dt_node \<Rightarrow> bool" where
  "on_bus n \<longleftrightarrow> STATUS_okay n \<and> PARTITION_ID n = None"

fun apart :: "(int \<times> int) \<Rightarrow> (int \<times> int) \<Rightarrow> bool" where
  "apart (a, s) (b, u) \<longleftrightarrow> a + s \<le> b \<or> b + u \<le> a"

definition bus_regions :: "dt_node list \<Rightarrow> (int \<times> int \<times> int) list" where
  "bus_regions t = concat (map (\<lambda>n. if on_bus n then map (Pair (ORD n)) (regions n) else []) t)"

definition bus_lines :: "dt_node list \<Rightarrow> (int \<times> int) list" where
  "bus_lines t = concat (map (\<lambda>n. if on_bus n then map (\<lambda>p. (ORD n, fst p)) (IRQS n) else []) t)"

lemma bus_regions_apart:
  "sorted_wrt (\<lambda>(j, r) (k, q). j = k \<or> apart r q) (bus_regions devicetree)"
  by (simp add: bus_regions_def regions_def on_bus_def devicetree_def node_defs)

lemma bus_lines_apart: "distinct (map snd (bus_lines devicetree))"
  by (simp add: bus_lines_def on_bus_def devicetree_def node_defs)
lemma sorted_wrt_either:
  "sorted_wrt P xs \<Longrightarrow> x \<in> set xs \<Longrightarrow> y \<in> set xs \<Longrightarrow> x \<noteq> y \<Longrightarrow> P x y \<or> P y x"
  by (induction xs) auto

lemma ORD_inj: "m \<in> set devicetree \<Longrightarrow> n \<in> set devicetree \<Longrightarrow> ORD m = ORD n \<Longrightarrow> m = n"
proof -
  have "distinct (map ORD devicetree)" unfolding devicetree_ORD by simp
  then show "m \<in> set devicetree \<Longrightarrow> n \<in> set devicetree \<Longrightarrow> ORD m = ORD n \<Longrightarrow> m = n"
    by (auto simp: distinct_map inj_on_def)
qed

lemma bus_regionsI: "n \<in> set t \<Longrightarrow> on_bus n \<Longrightarrow> r \<in> set (regions n) \<Longrightarrow> (ORD n, r) \<in> set (bus_regions t)"
  by (force simp: bus_regions_def)

lemma bus_linesI: "n \<in> set t \<Longrightarrow> on_bus n \<Longrightarrow> i \<in> lines n \<Longrightarrow> (ORD n, i) \<in> set (bus_lines t)"
  by (force simp: bus_lines_def lines_def)

lemma bus_linesD: "i \<in> snd ` set (bus_lines t) \<Longrightarrow> \<exists>n\<in>set t. on_bus n \<and> i \<in> lines n"
  by (force simp: bus_lines_def lines_def split: if_splits)

lemma apart_disjoint: "apart (a, s) (b, u) \<or> apart (b, u) (a, s) \<Longrightarrow> {a..<a + s} \<inter> {b..<b + (u::int)} = {}"
  by auto

lemma enabled_lines_apart:
  assumes "m \<in> set devicetree" "n \<in> set devicetree" "on_bus m" "on_bus n"
    and "i \<in> lines m" "i \<in> lines n"
  shows "m = n"
proof -
  from assms have "(ORD m, i) \<in> set (bus_lines devicetree)" "(ORD n, i) \<in> set (bus_lines devicetree)"
    by (auto intro: bus_linesI)
  moreover have "inj_on snd (set (bus_lines devicetree))"
    using bus_lines_apart by (simp add: distinct_map)
  ultimately have "(ORD m, i) = (ORD n, i)" by (metis inj_onD snd_conv)
  with assms ORD_inj show ?thesis by blast
qed

text \<open>Two different enabled devices of the board never get in each other's way: no bus address
  belongs to both, and they drive no common interrupt line.
\<close>

theorem enabled_devices_apart:
  assumes "m \<in> set devicetree" "n \<in> set devicetree" "on_bus m" "on_bus n" "m \<noteq> n"
  shows "addresses m \<inter> addresses n = {} \<and> lines m \<inter> lines n = {}"
proof
  have o: "ORD m \<noteq> ORD n" using assms ORD_inj by blast
  have "{a..<a + s} \<inter> {b..<b + u} = {}" if "(a, s) \<in> set (regions m)" "(b, u) \<in> set (regions n)" for a s b u
  proof (rule apart_disjoint)
    from that assms have "(ORD m, a, s) \<in> set (bus_regions devicetree)"
        "(ORD n, b, u) \<in> set (bus_regions devicetree)"
      by (auto intro: bus_regionsI)
    from sorted_wrt_either [OF bus_regions_apart this] o
    show "apart (a, s) (b, u) \<or> apart (b, u) (a, s)" by auto
  qed
  then show "addresses m \<inter> addresses n = {}" by (fastforce simp: addresses_def)
  show "lines m \<inter> lines n = {}" using assms enabled_lines_apart by blast
qed

lemma enabled_devices_apart_witness:
  "addresses node_DT_N_S_soc_S_adc_40007000 \<inter> addresses node_DT_N_S_soc_S_watchdog_40010000 = {} \<and>
   lines node_DT_N_S_soc_S_adc_40007000 \<inter> lines node_DT_N_S_soc_S_watchdog_40010000 = {}"
  by (rule enabled_devices_apart)
    (simp_all add: devicetree_def on_bus_def node_DT_N_S_soc_S_adc_40007000_def
      node_DT_N_S_soc_S_watchdog_40010000_def)

section \<open>Device objects\<close>

text \<open>
  The labels of the devices compiled into the image, which \<open>device_get_binding\<close> searches in the
  order of their handles.
\<close>

fun text_of :: "dt_value \<Rightarrow> string option" where
  "text_of (DT_str s) = Some s"
| "text_of v = None"

fun device_label :: "device_object \<Rightarrow> (string \<times> node_id) list" where
  "device_label (Node_device k) = (case DT_LABEL devicetree k of
     None \<Rightarrow> []
   | Some v \<Rightarrow> (case text_of v of None \<Rightarrow> [] | Some l \<Rightarrow> [(l, k)]))"
| "device_label (Named_device s) = []"

definition device_labels :: "(string \<times> node_id) list" where
  "device_labels = concat (map (\<lambda>d. device_label (fst d)) device_handles)"

definition device_get_binding :: "string \<Rightarrow> node_id option" where
  "device_get_binding name = map_of device_labels name"

lemma device_labels_eq:
  "device_labels = [
     (''CLOCK'', DT_N_S_soc_S_clock_40000000), (''GPIO_1'', DT_N_S_soc_S_gpio_50000300),
     (''GPIO_0'', DT_N_S_soc_S_gpio_50000000), (''TIMER_2'', DT_N_S_soc_S_timer_4000a000),
     (''WDT'', DT_N_S_soc_S_watchdog_40010000), (''RNG'', DT_N_S_soc_S_random_4000d000),
     (''CDC_ACM_0'', DT_N_S_soc_S_usbd_40027000_S_cdc_acm_uart0),
     (''UART_1'', DT_N_S_soc_S_uart_40028000), (''UART_0'', DT_N_S_soc_S_uart_40002000),
     (''ADC_0'', DT_N_S_soc_S_adc_40007000),
     (''NRF_FLASH_DRV_NAME'', DT_N_S_soc_S_flash_controller_4001e000),
     (''ECB'', DT_N_S_soc_S_ecb_4000e000), (''TEMP_0'', DT_N_S_soc_S_temp_4000c000)]"
  by (simp add: device_labels_def device_handles_def DT_LABEL_def DT_PROP_def node_at_devicetree node_defs)

lemma device_labels_distinct: "distinct (map fst device_labels)"
  by (simp add: device_labels_eq)

text \<open>
  No device of the image needs another one: what it requires, and what that requires in turn, are
  nodes without a device object.  So the arrays of handles are rightly empty, and the order in
  which drivers of one priority start does not matter.
\<close>

definition object_nodes :: "node_id list" where
  "object_nodes = map snd device_labels"

definition passive_nodes :: "node_id list" where
  "passive_nodes = [DT_N, DT_N_S_soc, DT_N_S_soc_S_interrupt_controller_e000e100,
    DT_N_S_soc_S_usbd_40027000]"

lemma passive_closed:
  "(a, b) \<in> dt_requires devicetree \<Longrightarrow> a \<in> set passive_nodes \<Longrightarrow> b \<in> set passive_nodes"
proof -
  have "list_all (\<lambda>(a, b). a \<in> set passive_nodes \<longrightarrow> b \<in> set passive_nodes) (requires_pairs devicetree)"
    by (simp add: requires_pairs_def devicetree_def node_defs passive_nodes_def)
  then show "(a, b) \<in> dt_requires devicetree \<Longrightarrow> a \<in> set passive_nodes \<Longrightarrow> b \<in> set passive_nodes"
    by (auto simp: dt_requires_def list_all_iff)
qed

lemma objects_need_passive:
  "(a, b) \<in> dt_requires devicetree \<Longrightarrow> a \<in> set object_nodes \<Longrightarrow> b \<in> set passive_nodes"
proof -
  have "list_all (\<lambda>(a, b). a \<in> set object_nodes \<longrightarrow> b \<in> set passive_nodes) (requires_pairs devicetree)"
    by (simp add: requires_pairs_def devicetree_def node_defs passive_nodes_def object_nodes_def
      device_labels_eq)
  then show "(a, b) \<in> dt_requires devicetree \<Longrightarrow> a \<in> set object_nodes \<Longrightarrow> b \<in> set passive_nodes"
    by (auto simp: dt_requires_def list_all_iff)
qed

lemma objects_independent:
  assumes "(a, b) \<in> (dt_requires devicetree)\<^sup>+" and "a \<in> set object_nodes"
  shows "b \<notin> set object_nodes"
proof -
  from assms have "b \<in> set passive_nodes"
    by (induction rule: trancl_induct) (auto dest: objects_need_passive passive_closed)
  moreover have "set passive_nodes \<inter> set object_nodes = {}"
    by (simp add: passive_nodes_def object_nodes_def device_labels_eq)
  ultimately show ?thesis by blast
qed

lemma handles_empty:
  "list_all (\<lambda>d. snd d = [DEVICE_HANDLE_SEP, DEVICE_HANDLE_SEP, DEVICE_HANDLE_ENDS]) device_handles"
  by (simp add: device_handles_def)

lemma objects_enabled: "list_all (enabled devicetree) object_nodes"
  by (simp add: object_nodes_def device_labels_eq enabled_def node_at_devicetree node_defs)

end
