(* ===== verification/FlashLayout.thy ===== *)
theory FlashLayout
  imports BuildConfig DtBoard
begin

text \<open>
  \<open>zephyr/include/generated/pm_config.h\<close>: the partitions the partition manager lays over the
  flash and the memory.  The image, the stack's store, its production data and the settings file
  system of this program (\<open>nvs_storage\<close>) share the flash.
\<close>

record pm_partition =
  PM_OFFSET :: int
  PM_ADDRESS :: int
  PM_END_ADDRESS :: int
  PM_SIZE :: int
  PM_NAME :: string
  PM_ID :: "int option"
  PM_IS_ENABLED :: bool
  PM_LABEL :: "string option"
  PM_DEV_NAME :: "string option"

definition PM_APP :: pm_partition where
  "PM_APP = \<lparr>
    PM_OFFSET = 0x0, PM_ADDRESS = 0x0, PM_END_ADDRESS = 0xF1000, PM_SIZE = 0xF1000,
    PM_NAME = ''app'', PM_ID = Some 0, PM_IS_ENABLED = True, PM_LABEL = Some ''APP'',
    PM_DEV_NAME = Some ''NRF_FLASH_DRV_NAME''\<rparr>"

definition PM_ZBOSS_NVRAM :: pm_partition where
  "PM_ZBOSS_NVRAM = \<lparr>
    PM_OFFSET = 0xF1000, PM_ADDRESS = 0xF1000, PM_END_ADDRESS = 0xF9000, PM_SIZE = 0x8000,
    PM_NAME = ''zboss_nvram'', PM_ID = Some 1, PM_IS_ENABLED = True, PM_LABEL = Some ''ZBOSS_NVRAM'',
    PM_DEV_NAME = Some ''NRF_FLASH_DRV_NAME''\<rparr>"

definition PM_ZBOSS_PRODUCT_CONFIG :: pm_partition where
  "PM_ZBOSS_PRODUCT_CONFIG = \<lparr>
    PM_OFFSET = 0xF9000, PM_ADDRESS = 0xF9000, PM_END_ADDRESS = 0xFA000, PM_SIZE = 0x1000,
    PM_NAME = ''zboss_product_config'', PM_ID = Some 2, PM_IS_ENABLED = True, PM_LABEL = Some ''ZBOSS_PRODUCT_CONFIG'',
    PM_DEV_NAME = Some ''NRF_FLASH_DRV_NAME''\<rparr>"

definition PM_NVS_STORAGE :: pm_partition where
  "PM_NVS_STORAGE = \<lparr>
    PM_OFFSET = 0xFA000, PM_ADDRESS = 0xFA000, PM_END_ADDRESS = 0x100000, PM_SIZE = 0x6000,
    PM_NAME = ''nvs_storage'', PM_ID = Some 3, PM_IS_ENABLED = True, PM_LABEL = Some ''NVS_STORAGE'',
    PM_DEV_NAME = Some ''NRF_FLASH_DRV_NAME''\<rparr>"

definition PM_SRAM_PRIMARY :: pm_partition where
  "PM_SRAM_PRIMARY = \<lparr>
    PM_OFFSET = 0x0, PM_ADDRESS = 0x20000000, PM_END_ADDRESS = 0x20040000, PM_SIZE = 0x40000,
    PM_NAME = ''sram_primary'', PM_ID = None, PM_IS_ENABLED = False, PM_LABEL = None,
    PM_DEV_NAME = None\<rparr>"

definition PM_NUM :: int where "PM_NUM = 4"

definition PM_ALL_BY_SIZE :: "string list" where
  "PM_ALL_BY_SIZE = [''zboss_product_config'', ''nvs_storage'', ''zboss_nvram'', ''sram_primary'', ''app'']"

text \<open>The place of the image itself, and of the whole memory.\<close>

definition PM_image :: "int \<times> int" where "PM_image = (0x0, 0xF1000)"
definition PM_SRAM :: "int \<times> int" where "PM_SRAM = (0x20000000, 0x40000)"

definition flash_partitions :: "pm_partition list" where
  "flash_partitions = [PM_APP, PM_ZBOSS_NVRAM, PM_ZBOSS_PRODUCT_CONFIG, PM_NVS_STORAGE]"

lemmas pm_defs = PM_APP_def PM_ZBOSS_NVRAM_def PM_ZBOSS_PRODUCT_CONFIG_def PM_NVS_STORAGE_def
  PM_SRAM_PRIMARY_def

section \<open>Laid end to end\<close>

definition extent :: "pm_partition \<Rightarrow> int set" where
  "extent p = {PM_ADDRESS p..<PM_END_ADDRESS p}"

fun end_to_end :: "int \<Rightarrow> pm_partition list \<Rightarrow> int \<Rightarrow> bool" where
  "end_to_end a [] e \<longleftrightarrow> a = e"
| "end_to_end a (p # ps) e \<longleftrightarrow>
     PM_ADDRESS p = a \<and> PM_OFFSET p = a \<and> 0 < PM_SIZE p \<and> PM_END_ADDRESS p = a + PM_SIZE p \<and>
     end_to_end (PM_END_ADDRESS p) ps e"

lemma end_to_end_le: "end_to_end a ps e \<Longrightarrow> a \<le> e"
  by (induction ps arbitrary: a) force+

lemma end_to_end_extents: "end_to_end a ps e \<Longrightarrow> (\<Union>p\<in>set ps. extent p) = {a..<e}"
proof (induction ps arbitrary: a)
  case (Cons p ps)
  let ?b = "PM_END_ADDRESS p"
  from Cons.prems have ee: "end_to_end ?b ps e" and p: "extent p = {a..<?b}" and "a \<le> ?b"
    unfolding end_to_end.simps extent_def by auto
  note rest = Cons.IH [OF ee] and le = \<open>a \<le> ?b\<close> end_to_end_le [OF ee]
  have "(\<Union>q\<in>set (p # ps). extent q) = {a..<?b} \<union> {?b..<e}"
    by (simp only: list.set UN_insert rest p)
  also have "\<dots> = {a..<e}" using le by (rule ivl_disj_un_two(3))
  finally show ?case .
qed simp

lemma end_to_end_apart:
  "end_to_end a ps e \<Longrightarrow> sorted_wrt (\<lambda>p q. extent p \<inter> extent q = {}) ps"
proof (induction ps arbitrary: a)
  case (Cons p ps)
  from Cons.prems have ee: "end_to_end (PM_END_ADDRESS p) ps e"
    unfolding end_to_end.simps by blast
  have "extent q \<subseteq> {PM_END_ADDRESS p..<e}" if "q \<in> set ps" for q
    using that end_to_end_extents [OF ee] by blast
  then have "extent p \<inter> extent q = {}" if "q \<in> set ps" for q
    using that by (force simp: extent_def [of p])
  with Cons.IH [OF ee] show ?case by simp
qed simp

lemma flash_end_to_end: "end_to_end 0 flash_partitions 0x100000"
  by (simp add: flash_partitions_def pm_defs)

text \<open>The flash as the device tree gives it: the size of the chosen node and of a page.\<close>

definition chosen :: "string \<Rightarrow> dt_node option" where
  "chosen c = do { k \<leftarrow> map_of DT_CHOSEN c; node_at devicetree k }"

definition whole_pages :: "int \<Rightarrow> pm_partition \<Rightarrow> bool" where
  "whole_pages page p \<longleftrightarrow> page dvd PM_ADDRESS p \<and> page dvd PM_SIZE p"

lemma chosen_nodes:
  "chosen ''zephyr_flash'' = Some node_DT_N_S_soc_S_flash_controller_4001e000_S_flash_0"
  "chosen ''zephyr_sram'' = Some node_DT_N_S_soc_S_memory_20000000"
  by (simp_all add: chosen_def DT_CHOSEN_def node_at_devicetree)

definition covered :: "pm_partition list \<Rightarrow> int set" where
  "covered ps = (\<Union>p\<in>set ps. extent p)"

lemma flash_covered: "covered flash_partitions = {0..<0x100000}"
  using end_to_end_extents [OF flash_end_to_end] by (simp add: covered_def)

text \<open>The partitions of \<open>pm_config.h\<close> share the flash of the device tree: together they are
  exactly its addresses, no two overlap, and each is whole erase pages, so that erasing a page of
  one never destroys data of another.  The stores have the sizes of the build's options, and
  flash and memory are as large as the options say.
\<close>

theorem flash_partitioned:
  "\<exists>flash ram page.
     chosen ''zephyr_flash'' = Some flash \<and> chosen ''zephyr_sram'' = Some ram \<and>
     DT_PROP devicetree (ORD flash) ''erase_block_size'' = Some (DT_int page) \<and>
     covered flash_partitions = addresses flash \<and>
     sorted_wrt (\<lambda>p q. extent p \<inter> extent q = {}) flash_partitions \<and>
     list_all (whole_pages page) flash_partitions \<and>
     extent PM_SRAM_PRIMARY = addresses ram \<and>
     option_of ''PM_PARTITION_SIZE_NVS_STORAGE'' = Some (CNum (PM_SIZE PM_NVS_STORAGE)) \<and>
     option_of ''PM_PARTITION_SIZE_ZBOSS_NVRAM'' = Some (CNum (PM_SIZE PM_ZBOSS_NVRAM)) \<and>
     option_of ''PM_PARTITION_SIZE_ZBOSS_PRODUCT_CONFIG'' = Some (CNum (PM_SIZE PM_ZBOSS_PRODUCT_CONFIG)) \<and>
     (\<exists>k b. option_of ''FLASH_SIZE'' = Some (CNum k) \<and> option_of ''FLASH_BASE_ADDRESS'' = Some (CNum b) \<and>
        addresses flash = {b..<b + k * 1024}) \<and>
     (\<exists>k b. option_of ''SRAM_SIZE'' = Some (CNum k) \<and> option_of ''SRAM_BASE_ADDRESS'' = Some (CNum b) \<and>
        addresses ram = {b..<b + k * 1024})"
proof -
  have flash: "addresses node_DT_N_S_soc_S_flash_controller_4001e000_S_flash_0 = {0..<0x100000}"
    by (simp add: addresses_def regions_def node_DT_N_S_soc_S_flash_controller_4001e000_S_flash_0_def)
  have ram: "addresses node_DT_N_S_soc_S_memory_20000000 = {0x20000000..<0x20040000}"
    by (simp add: addresses_def regions_def node_DT_N_S_soc_S_memory_20000000_def)
  have sram: "extent PM_SRAM_PRIMARY = {0x20000000..<0x20040000}"
    by (simp add: extent_def pm_defs)
  have page: "DT_PROP devicetree (ORD node_DT_N_S_soc_S_flash_controller_4001e000_S_flash_0)
      ''erase_block_size'' = Some (DT_int 4096)"
    by (simp add: DT_PROP_def node_ORD node_at_devicetree
      node_DT_N_S_soc_S_flash_controller_4001e000_S_flash_0_def)
  have pages: "list_all (whole_pages 4096) flash_partitions"
    by (simp add: flash_partitions_def whole_pages_def pm_defs)
  show ?thesis
    by (rule exI [of _ node_DT_N_S_soc_S_flash_controller_4001e000_S_flash_0],
        rule exI [of _ node_DT_N_S_soc_S_memory_20000000], rule exI [of _ 4096])
      (simp add: chosen_nodes page pages flash ram sram flash_covered end_to_end_apart [OF flash_end_to_end]
        PM_NVS_STORAGE_def PM_ZBOSS_NVRAM_def PM_ZBOSS_PRODUCT_CONFIG_def)
qed

text \<open>
  The device tree still carries the partitions of the board's default layout, which the partition
  manager replaces: its \<open>storage\<close> overlaps the stack's store, and the partition it chooses for the
  code begins where the image does not.
\<close>

lemma default_layout_replaced:
  "map_of fixed_partitions_LABEL ''storage'' = Some k \<Longrightarrow> node_at devicetree k = Some n \<Longrightarrow>
     addresses n \<inter> extent PM_ZBOSS_NVRAM \<noteq> {}"
  "chosen ''zephyr_code_partition'' = Some n \<Longrightarrow> fst (hd (REGS n)) \<noteq> fst PM_image"
  by (auto simp: fixed_partitions_LABEL_def chosen_def DT_CHOSEN_def node_at_devicetree
    addresses_def regions_def extent_def PM_ZBOSS_NVRAM_def PM_image_def node_defs)

lemma image_is_app: "PM_image = (PM_ADDRESS PM_APP, PM_SIZE PM_APP)"
  "PM_SRAM = (PM_ADDRESS PM_SRAM_PRIMARY, PM_SIZE PM_SRAM_PRIMARY)"
  "PM_NUM = int (length flash_partitions)"
  by (simp_all add: PM_image_def PM_SRAM_def PM_NUM_def flash_partitions_def pm_defs)

lemma partition_ids: "map PM_ID flash_partitions = map Some [0, 1, 2, 3]"
  by (simp add: flash_partitions_def pm_defs)

definition by_size :: "pm_partition list" where
  "by_size = sort_key PM_SIZE (PM_SRAM_PRIMARY # flash_partitions)"

lemma all_by_size: "PM_ALL_BY_SIZE = map PM_NAME by_size"
  by (simp add: PM_ALL_BY_SIZE_def by_size_def flash_partitions_def pm_defs)

end
