(* ===== verification/Interrupts.thy ===== *)
theory Interrupts
  imports FlashLayout
begin

text \<open>
  \<open>zephyr/isr_tables.c\<close>: the vector of each interrupt line, and for the lines whose vector is
  the common wrapper the routine and its argument.  Zephyr's wrapper calls the entry of the
  line's number; its body is not part of the repository.
\<close>

datatype vector = ISR_WRAPPER | Vector int

datatype isr = z_irq_spurious | ISR int

definition irq_vector_table :: "vector list" where
  "irq_vector_table = [
    ISR_WRAPPER, Vector 284687, ISR_WRAPPER, ISR_WRAPPER, ISR_WRAPPER, ISR_WRAPPER, ISR_WRAPPER,
    ISR_WRAPPER, Vector 284631, ISR_WRAPPER, ISR_WRAPPER, Vector 284661, ISR_WRAPPER,
    ISR_WRAPPER, ISR_WRAPPER, ISR_WRAPPER, ISR_WRAPPER, ISR_WRAPPER, ISR_WRAPPER, ISR_WRAPPER,
    ISR_WRAPPER, ISR_WRAPPER, ISR_WRAPPER, ISR_WRAPPER, ISR_WRAPPER, ISR_WRAPPER, ISR_WRAPPER,
    ISR_WRAPPER, ISR_WRAPPER, ISR_WRAPPER, ISR_WRAPPER, ISR_WRAPPER, ISR_WRAPPER, ISR_WRAPPER,
    ISR_WRAPPER, ISR_WRAPPER, ISR_WRAPPER, ISR_WRAPPER, ISR_WRAPPER, ISR_WRAPPER, ISR_WRAPPER,
    ISR_WRAPPER, ISR_WRAPPER, ISR_WRAPPER, ISR_WRAPPER, ISR_WRAPPER, ISR_WRAPPER, ISR_WRAPPER]"

definition sw_isr_table :: "(int \<times> isr) list" where
  "sw_isr_table = [
    (0x46dd7, ISR 0x46d21), (0, z_irq_spurious), (0x4d520, ISR 0x451d5), (0, z_irq_spurious),
    (0, z_irq_spurious), (0, z_irq_spurious), (0x19fdd, ISR 0x46d21), (0x4d538, ISR 0xe4f9),
    (0, z_irq_spurious), (0, z_irq_spurious), (0x4d4a8, ISR 0x44c9f), (0, z_irq_spurious),
    (0, z_irq_spurious), (0x20006534, ISR 0x10541), (0, z_irq_spurious), (0, z_irq_spurious),
    (0x1d475, ISR 0x46d21), (0, ISR 0x10a81), (0, z_irq_spurious), (0, z_irq_spurious),
    (0, z_irq_spurious), (0, z_irq_spurious), (0, z_irq_spurious), (0, z_irq_spurious),
    (0, z_irq_spurious), (0, ISR 0x10c71), (0, z_irq_spurious), (0, z_irq_spurious),
    (0, z_irq_spurious), (0, z_irq_spurious), (0, z_irq_spurious), (0, z_irq_spurious),
    (0, z_irq_spurious), (0, z_irq_spurious), (0, z_irq_spurious), (0, z_irq_spurious),
    (0, z_irq_spurious), (0, z_irq_spurious), (0, z_irq_spurious), (0x1c5a1, ISR 0x46d21),
    (0x4d508, ISR 0x451d5), (0, z_irq_spurious), (0, z_irq_spurious), (0, z_irq_spurious),
    (0, z_irq_spurious), (0, z_irq_spurious), (0, z_irq_spurious), (0, z_irq_spurious)]"

text \<open>
  What happens on a line: the routine of its vector runs, or through the wrapper the routine of
  the software table with its argument, or the spurious-interrupt handler.
\<close>

datatype irq_action = Spurious | Run int "int option"

definition irq_action_of :: "nat \<Rightarrow> irq_action option" where
  "irq_action_of i = do {
     v \<leftarrow> read_at irq_vector_table i;
     case v of
       Vector a \<Rightarrow> Some (Run a None)
     | ISR_WRAPPER \<Rightarrow> do {
         (arg, isr) \<leftarrow> read_at sw_isr_table i;
         case isr of z_irq_spurious \<Rightarrow> Some Spurious | ISR a \<Rightarrow> Some (Run a (Some arg))
       }
   }"

section \<open>Every routine belongs to a device\<close>

lemma table_lengths: "length irq_vector_table = 48" "length sw_isr_table = 48"
  by (simp_all add: irq_vector_table_def sw_isr_table_def)

text \<open>A Thumb routine of the image: an odd address inside it.\<close>

definition image_routine :: "int \<Rightarrow> bool" where
  "image_routine a \<longleftrightarrow> odd a \<and> fst PM_image < a \<and> a < fst PM_image + snd PM_image"

text \<open>A routine's argument: none, an object in the image, or one in memory.\<close>

definition sound_argument :: "int \<Rightarrow> bool" where
  "sound_argument x \<longleftrightarrow> x = 0 \<or> x \<in> extent PM_APP \<or> x \<in> extent PM_SRAM_PRIMARY"

fun sound_action :: "irq_action \<Rightarrow> bool" where
  "sound_action Spurious = True"
| "sound_action (Run a None) = image_routine a"
| "sound_action (Run a (Some x)) \<longleftrightarrow> image_routine a \<and> sound_argument x"

definition live_lines :: "nat list" where
  "live_lines = [0, 1, 2, 6, 7, 8, 10, 11, 13, 16, 17, 25, 39, 40]"

lemma actions_sound:
  "list_all (\<lambda>i. case irq_action_of i of None \<Rightarrow> False | Some a \<Rightarrow> sound_action a) [0..<48]"
  by (simp add: upt_rec irq_action_of_def table_lengths irq_vector_table_def sw_isr_table_def
    image_routine_def sound_argument_def PM_image_def extent_def PM_APP_def PM_SRAM_PRIMARY_def)

lemma live_actions:
  "list_all (\<lambda>i. irq_action_of i = Some Spurious \<longleftrightarrow> i \<notin> set live_lines) [0..<48]"
  by (simp add: upt_rec irq_action_of_def table_lengths irq_vector_table_def sw_isr_table_def
    live_lines_def)

lemma bus_lines_devicetree:
  "bus_lines devicetree = 
    [(6, 7), (8, 10), (12, 0), (13, 14), (14, 20), (15, 21), (16, 22), (17, 23), (18, 24), (19,
    25), (23, 6), (24, 3), (29, 28), (35, 1), (36, 13), (37, 11), (38, 17), (39, 36), (41,
    4), (44, 12), (45, 8), (46, 9), (47, 26), (48, 27), (50, 2), (51, 40), (53, 16), (55,
    42), (64, 39)]"
  by (simp add: bus_lines_def on_bus_def devicetree_def node_defs)

lemma live_lines_claimed: "list_all (\<lambda>i. int i \<in> snd ` set (bus_lines devicetree)) live_lines"
  unfolding bus_lines_devicetree by (simp add: live_lines_def)

lemma lines_in_table: "list_all (\<lambda>p. 0 \<le> snd p \<and> snd p < 48) (bus_lines devicetree)"
  unfolding bus_lines_devicetree by simp

text \<open>C29: An interrupt that runs a routine is one of a device of the board, and of one device only;
  the routine is Thumb code of the image, and its argument lies in the image or in memory.  The
  tables have one entry for each line the build counts, and every line of an enabled device is
  within them.
\<close>

theorem interrupts_dispatched:
  assumes "irq_action_of i = Some a" "a \<noteq> Spurious"
  shows "(\<exists>!n. n \<in> set devicetree \<and> on_bus n \<and> int i \<in> lines n) \<and> sound_action a \<and>
    option_of ''NUM_IRQS'' = Some (CNum (int (length irq_vector_table))) \<and>
    length sw_isr_table = length irq_vector_table \<and>
    (\<forall>n k. n \<in> set devicetree \<longrightarrow> on_bus n \<longrightarrow> k \<in> lines n \<longrightarrow> 0 \<le> k \<and> k < int (length irq_vector_table))"
proof -
  have i: "i < 48"
  proof (rule ccontr)
    assume "\<not> i < 48"
    with assms show False by (simp add: irq_action_of_def read_at_def table_lengths)
  qed
  from i live_actions have "irq_action_of i = Some Spurious \<longleftrightarrow> i \<notin> set live_lines"
    by (simp only: list_all_iff set_upt) simp
  with assms have "i \<in> set live_lines" by simp
  with live_lines_claimed have "int i \<in> snd ` set (bus_lines devicetree)" by (simp add: list_all_iff)
  then obtain n where n: "n \<in> set devicetree" "on_bus n" "int i \<in> lines n"
    using bus_linesD by blast
  have "m = n" if "m \<in> set devicetree \<and> on_bus m \<and> int i \<in> lines m" for m
    using that n enabled_lines_apart [of m n] by blast
  with n have one: "\<exists>!n. n \<in> set devicetree \<and> on_bus n \<and> int i \<in> lines n" by blast
  from i actions_sound have "case irq_action_of i of None \<Rightarrow> False | Some a \<Rightarrow> sound_action a"
    by (simp only: list_all_iff set_upt) simp
  with assms have "sound_action a" by simp
  moreover have "0 \<le> k \<and> k < 48" if "m \<in> set devicetree" "on_bus m" "k \<in> lines m" for m k
    using lines_in_table bus_linesI [OF that] by (auto simp: list_all_iff)
  ultimately show ?thesis using one by (auto simp: table_lengths)
qed

lemma interrupts_dispatched_witness:
  "(\<exists>!n. n \<in> set devicetree \<and> on_bus n \<and> 7 \<in> lines n) \<and> sound_action (Run 0xE4F9 (Some 0x4D538))"
proof -
  have "irq_action_of 7 = Some (Run 0xE4F9 (Some 0x4D538))"
    by (simp add: irq_action_of_def table_lengths irq_vector_table_def sw_isr_table_def)
  then show ?thesis using interrupts_dispatched [of 7 "Run 0xE4F9 (Some 0x4D538)"] by auto
qed

end
