(* ===== verification/ProgramDevices.thy ===== *)
theory ProgramDevices
  imports Interrupts Adc
begin

text \<open>
  The devices the program itself opens, through the macros of the device tree or by name: the
  converter of \<open>src/io_adc.c\<close>, the watchdog of \<open>src/main.c\<close> and the serial port over USB of
  \<open>src/modbus_hard.c\<close>.
\<close>

section \<open>The converter\<close>

definition msdz_adcs_t :: "node_id option" where
  "msdz_adcs_t = DT_ALIAS devicetree ''msdz_adcs_t''"

definition DT_ADC_NUM_CHANNELS :: "nat option" where
  "DT_ADC_NUM_CHANNELS = do { k \<leftarrow> msdz_adcs_t; DT_PROP_LEN devicetree k ''msdz_adc_t_channels'' }"

definition ADC_NODE_T :: "node_id option" where
  "ADC_NODE_T = do { k \<leftarrow> msdz_adcs_t; DT_PHANDLE devicetree k ''msdz_adc_t_id'' }"

definition PHANDLE_TO_DEVICE :: "node_id \<Rightarrow> string \<Rightarrow> nat \<Rightarrow> dt_value option" where
  "PHANDLE_TO_DEVICE k p i = DT_PROP_BY_IDX devicetree k p i"

text \<open>The initialiser of an array of \<open>uint8_t\<close>: every element of the property in turn.\<close>

fun byte_of :: "dt_value \<Rightarrow> u8 option" where
  "byte_of (DT_int x) = Some (word_of_int x)"
| "byte_of v = None"

definition property_bytes :: "string \<Rightarrow> u8 list option" where
  "property_bytes p = do {
     k \<leftarrow> msdz_adcs_t;
     js \<leftarrow> DT_FOREACH_PROP_ELEM devicetree k p;
     those (map (\<lambda>i. do { v \<leftarrow> PHANDLE_TO_DEVICE k p i; byte_of v }) js)
   }"

definition DT_channel_ids :: "u8 list option" where
  "DT_channel_ids = property_bytes ''msdz_adc_t_channels''"

definition DT_channel_seq :: "u8 list option" where
  "DT_channel_seq = property_bytes ''msdz_adc_t_sequence''"

section \<open>The watchdog and the serial port\<close>

definition WDT_NODE :: "node_id option" where
  "WDT_NODE = DT_INST devicetree 0 ''nordic_nrf_watchdog''"

definition WDT_DEV_NAME :: "string option" where
  "WDT_DEV_NAME = do { k \<leftarrow> WDT_NODE; v \<leftarrow> DT_LABEL devicetree k; text_of v }"

definition wdt_binding :: "node_id option" where
  "wdt_binding = do { name \<leftarrow> WDT_DEV_NAME; device_get_binding name }"

definition usb_acm_binding :: "node_id option" where
  "usb_acm_binding = device_get_binding ''CDC_ACM_0''"

section \<open>They are the devices meant, and they work\<close>

text \<open>A device is there for the program: enabled, of its kind, with an object in the image.\<close>

definition in_image :: "node_id \<Rightarrow> string \<Rightarrow> bool" where
  "in_image k c \<longleftrightarrow> List.member object_nodes k \<and>
     (case node_at devicetree k of None \<Rightarrow> False | Some n \<Rightarrow> STATUS_okay n \<and> List.member (COMPAT_MATCHES n) c)"

text \<open>Its interrupts run a routine, and not the handler of spurious ones.\<close>

definition serviced :: "node_id \<Rightarrow> bool" where
  "serviced k \<longleftrightarrow>
     (case node_at devicetree k of
        None \<Rightarrow> False
      | Some n \<Rightarrow> IRQS n \<noteq> [] \<and>
          list_all (\<lambda>p. case irq_action_of (nat (fst p)) of Some (Run a x) \<Rightarrow> True | _ \<Rightarrow> False) (IRQS n))"

lemma lookups_of_program:
  "msdz_adcs_t = Some DT_N_S_see_msdz_yaml"
  "WDT_NODE = Some DT_N_S_soc_S_watchdog_40010000"
  "wdt_binding = Some DT_N_S_soc_S_watchdog_40010000"
  "usb_acm_binding = Some DT_N_S_soc_S_usbd_40027000_S_cdc_acm_uart0"
proof -
  have d: "DT_ALIAS devicetree ''msdz_adcs_t'' = Some DT_N_S_see_msdz_yaml"
    by (simp add: DT_ALIAS_def devicetree_def node_defs)
  then show "msdz_adcs_t = Some DT_N_S_see_msdz_yaml" by (simp add: msdz_adcs_t_def)
  show w: "WDT_NODE = Some DT_N_S_soc_S_watchdog_40010000"
    by (simp add: WDT_NODE_def DT_INST_def instances_def devicetree_def node_defs)
  show "wdt_binding = Some DT_N_S_soc_S_watchdog_40010000"
    by (simp add: w wdt_binding_def WDT_DEV_NAME_def DT_LABEL_def DT_PROP_def node_at_devicetree
      node_DT_N_S_soc_S_watchdog_40010000_def device_get_binding_def device_labels_eq)
  show "usb_acm_binding = Some DT_N_S_soc_S_usbd_40027000_S_cdc_acm_uart0"
    by (simp add: usb_acm_binding_def device_get_binding_def device_labels_eq)
qed

lemma ADC_NODE_T_eq: "ADC_NODE_T = Some DT_N_S_soc_S_adc_40007000"
  by (simp add: ADC_NODE_T_def lookups_of_program DT_PHANDLE_def DT_PROP_def node_at_devicetree
    node_DT_N_S_see_msdz_yaml_def)

lemma DT_channels:
  "DT_ADC_NUM_CHANNELS = Some ADC_NUM_CHANNELS"
  "DT_channel_ids = Some channel_ids"
  "DT_channel_seq = Some channel_seq"
  by (simp_all add: DT_ADC_NUM_CHANNELS_def DT_channel_ids_def DT_channel_seq_def property_bytes_def
    PHANDLE_TO_DEVICE_def lookups_of_program DT_PROP_LEN_def DT_FOREACH_PROP_ELEM_def
    DT_PROP_BY_IDX_def DT_PROP_def node_at_devicetree node_DT_N_S_see_msdz_yaml_def
    channel_ids_def channel_seq_def)

text \<open>C23: The program gets the devices it means.  The channel numbers, offsets and count its
  converter task is compiled with are those of the device tree; the converter node is an enabled
  SAADC whose driver is built in; the name of the first watchdog instance and \<open>CDC_ACM_0\<close> are bound to
  the watchdog and to the serial port over USB, and to no other device of the image; and the
  interrupts of the converter, the watchdog and the USB controller run a routine.
\<close>

theorem program_devices:
  "DT_ADC_NUM_CHANNELS = Some ADC_NUM_CHANNELS \<and>
   DT_channel_ids = Some channel_ids \<and> DT_channel_seq = Some channel_seq \<and>
   (\<exists>k. ADC_NODE_T = Some k \<and> in_image k ''nordic_nrf_saadc'' \<and> serviced k \<and>
      option_of ''ADC_NRFX_SAADC'' = Some (CNum 1)) \<and>
   (\<exists>k. WDT_NODE = Some k \<and> wdt_binding = Some k \<and> in_image k ''nordic_nrf_watchdog'' \<and> serviced k \<and>
      option_of ''NRFX_WDT0'' = Some (CNum 1)) \<and>
   (\<exists>k n usb. usb_acm_binding = Some k \<and> in_image k ''zephyr_cdc_acm_uart'' \<and>
      node_at devicetree k = Some n \<and> BUS n = Some (usb, ''usb'') \<and> serviced usb \<and>
      option_of ''USB_CDC_ACM'' = Some (CNum 1)) \<and>
   distinct (map fst device_labels)"
proof -
  have "in_image DT_N_S_soc_S_adc_40007000 ''nordic_nrf_saadc''"
      "in_image DT_N_S_soc_S_watchdog_40010000 ''nordic_nrf_watchdog''"
      "in_image DT_N_S_soc_S_usbd_40027000_S_cdc_acm_uart0 ''zephyr_cdc_acm_uart''"
    by (simp_all add: in_image_def object_nodes_def device_labels_eq node_at_devicetree node_defs)
  moreover have "serviced DT_N_S_soc_S_adc_40007000" "serviced DT_N_S_soc_S_watchdog_40010000"
      "serviced DT_N_S_soc_S_usbd_40027000"
    by (simp_all add: serviced_def node_at_devicetree node_defs irq_action_of_def table_lengths
      irq_vector_table_def sw_isr_table_def)
  moreover have "BUS node_DT_N_S_soc_S_usbd_40027000_S_cdc_acm_uart0
      = Some (DT_N_S_soc_S_usbd_40027000, ''usb'')"
    by (simp add: node_DT_N_S_soc_S_usbd_40027000_S_cdc_acm_uart0_def)
  ultimately show ?thesis
    using device_labels_distinct
    by (simp add: DT_channels ADC_NODE_T_eq lookups_of_program node_at_devicetree)
qed

end
