(* ===== verification/KernelObjects.thy ===== *)
theory KernelObjects
  imports BuildConfig
begin

text \<open>
  The kernel's object types, as the build generates them under \<open>zephyr/include/generated\<close>: the
  enumeration, the names and sizes of the types, the checks of a driver's pointer at a system
  call, and the offsets of the kernel's structures that assembly code uses.  \<open>K_OBJ_EVENT\<close> is only
  there with \<open>CONFIG_EVENTS\<close>, which this build does not set.
\<close>

section \<open>Object types\<close>

datatype k_objects =
    K_OBJ_MEM_SLAB | K_OBJ_MSGQ | K_OBJ_MUTEX | K_OBJ_PIPE | K_OBJ_QUEUE | K_OBJ_POLL_SIGNAL
    | K_OBJ_SEM | K_OBJ_STACK | K_OBJ_THREAD | K_OBJ_TIMER | K_OBJ_THREAD_STACK_ELEMENT
    | K_OBJ_NET_SOCKET | K_OBJ_NET_IF | K_OBJ_SYS_MUTEX | K_OBJ_FUTEX | K_OBJ_CONDVAR
    | K_OBJ_DRIVER_CRYPTO | K_OBJ_DRIVER_ADC | K_OBJ_DRIVER_BBRAM | K_OBJ_DRIVER_CAN
    | K_OBJ_DRIVER_COUNTER | K_OBJ_DRIVER_DAC | K_OBJ_DRIVER_DMA
    | K_OBJ_DRIVER_EC_HOST_CMD_PERIPH_API | K_OBJ_DRIVER_EDAC | K_OBJ_DRIVER_EEPROM
    | K_OBJ_DRIVER_ENTROPY | K_OBJ_DRIVER_ESPI | K_OBJ_DRIVER_ESPI_SAF | K_OBJ_DRIVER_FLASH
    | K_OBJ_DRIVER_FPGA | K_OBJ_DRIVER_GPIO | K_OBJ_DRIVER_I2C | K_OBJ_DRIVER_I2S
    | K_OBJ_DRIVER_IPM | K_OBJ_DRIVER_KSCAN | K_OBJ_DRIVER_LED | K_OBJ_DRIVER_MBOX
    | K_OBJ_DRIVER_MDIO | K_OBJ_DRIVER_PINMUX | K_OBJ_DRIVER_PS2 | K_OBJ_DRIVER_PTP_CLOCK
    | K_OBJ_DRIVER_PWM | K_OBJ_DRIVER_REGULATOR | K_OBJ_DRIVER_SENSOR | K_OBJ_DRIVER_SPI
    | K_OBJ_DRIVER_SYSCON | K_OBJ_DRIVER_UART | K_OBJ_DRIVER_WDT | K_OBJ_DRIVER_UART_MUX
    | K_OBJ_DRIVER_ITS | K_OBJ_DRIVER_PCIE_CTRL | K_OBJ_DRIVER_IVSHMEM | K_OBJ_DRIVER_ETHPHY

text \<open>\<open>otype-to-str.h\<close>.\<close>

definition otype_to_str :: "k_objects \<Rightarrow> string" where
  "otype_to_str ot = (case ot of
      K_OBJ_MEM_SLAB \<Rightarrow> ''k_mem_slab''
    | K_OBJ_MSGQ \<Rightarrow> ''k_msgq''
    | K_OBJ_MUTEX \<Rightarrow> ''k_mutex''
    | K_OBJ_PIPE \<Rightarrow> ''k_pipe''
    | K_OBJ_QUEUE \<Rightarrow> ''k_queue''
    | K_OBJ_POLL_SIGNAL \<Rightarrow> ''k_poll_signal''
    | K_OBJ_SEM \<Rightarrow> ''k_sem''
    | K_OBJ_STACK \<Rightarrow> ''k_stack''
    | K_OBJ_THREAD \<Rightarrow> ''k_thread''
    | K_OBJ_TIMER \<Rightarrow> ''k_timer''
    | K_OBJ_THREAD_STACK_ELEMENT \<Rightarrow> ''z_thread_stack_element''
    | K_OBJ_NET_SOCKET \<Rightarrow> ''NET_SOCKET''
    | K_OBJ_NET_IF \<Rightarrow> ''net_if''
    | K_OBJ_SYS_MUTEX \<Rightarrow> ''sys_mutex''
    | K_OBJ_FUTEX \<Rightarrow> ''k_futex''
    | K_OBJ_CONDVAR \<Rightarrow> ''k_condvar''
    | K_OBJ_DRIVER_CRYPTO \<Rightarrow> ''crypto driver''
    | K_OBJ_DRIVER_ADC \<Rightarrow> ''adc driver''
    | K_OBJ_DRIVER_BBRAM \<Rightarrow> ''bbram driver''
    | K_OBJ_DRIVER_CAN \<Rightarrow> ''can driver''
    | K_OBJ_DRIVER_COUNTER \<Rightarrow> ''counter driver''
    | K_OBJ_DRIVER_DAC \<Rightarrow> ''dac driver''
    | K_OBJ_DRIVER_DMA \<Rightarrow> ''dma driver''
    | K_OBJ_DRIVER_EC_HOST_CMD_PERIPH_API \<Rightarrow> ''ec_host_cmd_periph_api driver''
    | K_OBJ_DRIVER_EDAC \<Rightarrow> ''edac driver''
    | K_OBJ_DRIVER_EEPROM \<Rightarrow> ''eeprom driver''
    | K_OBJ_DRIVER_ENTROPY \<Rightarrow> ''entropy driver''
    | K_OBJ_DRIVER_ESPI \<Rightarrow> ''espi driver''
    | K_OBJ_DRIVER_ESPI_SAF \<Rightarrow> ''espi_saf driver''
    | K_OBJ_DRIVER_FLASH \<Rightarrow> ''flash driver''
    | K_OBJ_DRIVER_FPGA \<Rightarrow> ''fpga driver''
    | K_OBJ_DRIVER_GPIO \<Rightarrow> ''gpio driver''
    | K_OBJ_DRIVER_I2C \<Rightarrow> ''i2c driver''
    | K_OBJ_DRIVER_I2S \<Rightarrow> ''i2s driver''
    | K_OBJ_DRIVER_IPM \<Rightarrow> ''ipm driver''
    | K_OBJ_DRIVER_KSCAN \<Rightarrow> ''kscan driver''
    | K_OBJ_DRIVER_LED \<Rightarrow> ''led driver''
    | K_OBJ_DRIVER_MBOX \<Rightarrow> ''mbox driver''
    | K_OBJ_DRIVER_MDIO \<Rightarrow> ''mdio driver''
    | K_OBJ_DRIVER_PINMUX \<Rightarrow> ''pinmux driver''
    | K_OBJ_DRIVER_PS2 \<Rightarrow> ''ps2 driver''
    | K_OBJ_DRIVER_PTP_CLOCK \<Rightarrow> ''ptp_clock driver''
    | K_OBJ_DRIVER_PWM \<Rightarrow> ''pwm driver''
    | K_OBJ_DRIVER_REGULATOR \<Rightarrow> ''regulator driver''
    | K_OBJ_DRIVER_SENSOR \<Rightarrow> ''sensor driver''
    | K_OBJ_DRIVER_SPI \<Rightarrow> ''spi driver''
    | K_OBJ_DRIVER_SYSCON \<Rightarrow> ''syscon driver''
    | K_OBJ_DRIVER_UART \<Rightarrow> ''uart driver''
    | K_OBJ_DRIVER_WDT \<Rightarrow> ''wdt driver''
    | K_OBJ_DRIVER_UART_MUX \<Rightarrow> ''uart_mux driver''
    | K_OBJ_DRIVER_ITS \<Rightarrow> ''its driver''
    | K_OBJ_DRIVER_PCIE_CTRL \<Rightarrow> ''pcie_ctrl driver''
    | K_OBJ_DRIVER_IVSHMEM \<Rightarrow> ''ivshmem driver''
    | K_OBJ_DRIVER_ETHPHY \<Rightarrow> ''ethphy driver'')"

text \<open>\<open>otype-to-size.h\<close>: the types without a line here are devices and stacks.\<close>

definition otype_to_size :: "(string \<Rightarrow> nat) \<Rightarrow> k_objects \<Rightarrow> nat option" where
  "otype_to_size sizeof ot = (case ot of
      K_OBJ_MEM_SLAB \<Rightarrow> Some (sizeof ''k_mem_slab'')
    | K_OBJ_MSGQ \<Rightarrow> Some (sizeof ''k_msgq'')
    | K_OBJ_MUTEX \<Rightarrow> Some (sizeof ''k_mutex'')
    | K_OBJ_PIPE \<Rightarrow> Some (sizeof ''k_pipe'')
    | K_OBJ_QUEUE \<Rightarrow> Some (sizeof ''k_queue'')
    | K_OBJ_POLL_SIGNAL \<Rightarrow> Some (sizeof ''k_poll_signal'')
    | K_OBJ_SEM \<Rightarrow> Some (sizeof ''k_sem'')
    | K_OBJ_STACK \<Rightarrow> Some (sizeof ''k_stack'')
    | K_OBJ_THREAD \<Rightarrow> Some (sizeof ''k_thread'')
    | K_OBJ_TIMER \<Rightarrow> Some (sizeof ''k_timer'')
    | K_OBJ_CONDVAR \<Rightarrow> Some (sizeof ''k_condvar'')
    | _ \<Rightarrow> None)"

section \<open>Drivers\<close>

text \<open>
  \<open>driver-validation.h\<close>: the macro of a subsystem, with the name of its interface and its object
  type.  A check gives true when it fails: that the pointer is an object of the type, and that
  the interface has the operation.  Both checks are Zephyr's.
\<close>

definition Z_SYSCALL_DRIVER_GEN ::
    "('p \<Rightarrow> k_objects \<Rightarrow> bool) \<Rightarrow> ('p \<Rightarrow> string \<Rightarrow> 'o \<Rightarrow> bool) \<Rightarrow> 'p \<Rightarrow> 'o \<Rightarrow> string \<Rightarrow> k_objects \<Rightarrow> bool" where
  "Z_SYSCALL_DRIVER_GEN bad_obj bad_op ptr opr api ot \<longleftrightarrow> bad_obj ptr ot \<or> bad_op ptr api opr"

definition driver_macros :: "(string \<times> string \<times> k_objects) list" where
  "driver_macros = [
    (''CRYPTO'', ''crypto'', K_OBJ_DRIVER_CRYPTO), (''ADC'', ''adc'', K_OBJ_DRIVER_ADC),
    (''BBRAM'', ''bbram'', K_OBJ_DRIVER_BBRAM), (''CAN'', ''can'', K_OBJ_DRIVER_CAN),
    (''COUNTER'', ''counter'', K_OBJ_DRIVER_COUNTER), (''DAC'', ''dac'', K_OBJ_DRIVER_DAC),
    (''DMA'', ''dma'', K_OBJ_DRIVER_DMA),
    (''EC_HOST_CMD_PERIPH_API'', ''ec_host_cmd_periph_api'', K_OBJ_DRIVER_EC_HOST_CMD_PERIPH_API),
    (''EDAC'', ''edac'', K_OBJ_DRIVER_EDAC), (''EEPROM'', ''eeprom'', K_OBJ_DRIVER_EEPROM),
    (''ENTROPY'', ''entropy'', K_OBJ_DRIVER_ENTROPY), (''ESPI'', ''espi'', K_OBJ_DRIVER_ESPI),
    (''ESPI_SAF'', ''espi_saf'', K_OBJ_DRIVER_ESPI_SAF),
    (''FLASH'', ''flash'', K_OBJ_DRIVER_FLASH), (''FPGA'', ''fpga'', K_OBJ_DRIVER_FPGA),
    (''GPIO'', ''gpio'', K_OBJ_DRIVER_GPIO), (''I2C'', ''i2c'', K_OBJ_DRIVER_I2C),
    (''I2S'', ''i2s'', K_OBJ_DRIVER_I2S), (''IPM'', ''ipm'', K_OBJ_DRIVER_IPM),
    (''KSCAN'', ''kscan'', K_OBJ_DRIVER_KSCAN), (''LED'', ''led'', K_OBJ_DRIVER_LED),
    (''MBOX'', ''mbox'', K_OBJ_DRIVER_MBOX), (''MDIO'', ''mdio'', K_OBJ_DRIVER_MDIO),
    (''PINMUX'', ''pinmux'', K_OBJ_DRIVER_PINMUX), (''PS2'', ''ps2'', K_OBJ_DRIVER_PS2),
    (''PTP_CLOCK'', ''ptp_clock'', K_OBJ_DRIVER_PTP_CLOCK), (''PWM'', ''pwm'', K_OBJ_DRIVER_PWM),
    (''REGULATOR'', ''regulator'', K_OBJ_DRIVER_REGULATOR),
    (''SENSOR'', ''sensor'', K_OBJ_DRIVER_SENSOR), (''SPI'', ''spi'', K_OBJ_DRIVER_SPI),
    (''SYSCON'', ''syscon'', K_OBJ_DRIVER_SYSCON), (''UART'', ''uart'', K_OBJ_DRIVER_UART),
    (''WDT'', ''wdt'', K_OBJ_DRIVER_WDT), (''UART_MUX'', ''uart_mux'', K_OBJ_DRIVER_UART_MUX),
    (''ITS'', ''its'', K_OBJ_DRIVER_ITS), (''PCIE_CTRL'', ''pcie_ctrl'', K_OBJ_DRIVER_PCIE_CTRL),
    (''IVSHMEM'', ''ivshmem'', K_OBJ_DRIVER_IVSHMEM),
    (''ETHPHY'', ''ethphy'', K_OBJ_DRIVER_ETHPHY)]"

definition Z_SYSCALL_DRIVER ::
    "('p \<Rightarrow> k_objects \<Rightarrow> bool) \<Rightarrow> ('p \<Rightarrow> string \<Rightarrow> 'o \<Rightarrow> bool) \<Rightarrow> string \<Rightarrow> 'p \<Rightarrow> 'o \<Rightarrow> bool option" where
  "Z_SYSCALL_DRIVER bad_obj bad_op name ptr opr =
     map_option (\<lambda>(api, ot). Z_SYSCALL_DRIVER_GEN bad_obj bad_op ptr opr api ot) (map_of driver_macros name)"

section \<open>Offsets\<close>

definition offsets :: "(string \<times> int) list" where
  "offsets = [
    (''___cpu_t_current_OFFSET'', 0x8), (''___cpu_t_nested_OFFSET'', 0x0),
    (''___cpu_t_irq_stack_OFFSET'', 0x4), (''___cpu_t_arch_OFFSET'', 0x15),
    (''___cpu_t_SIZEOF'', 0x18), (''___kernel_t_cpus_OFFSET'', 0x0),
    (''___kernel_t_threads_OFFSET'', 0x2c), (''___kernel_t_idle_OFFSET'', 0x18),
    (''___kernel_t_ready_q_OFFSET'', 0x1c), (''___ready_q_t_cache_OFFSET'', 0x0),
    (''___kernel_t_current_fp_OFFSET'', 0x28), (''___thread_base_t_user_options_OFFSET'', 0xc),
    (''___thread_base_t_thread_state_OFFSET'', 0xd), (''___thread_base_t_prio_OFFSET'', 0xe),
    (''___thread_base_t_sched_locked_OFFSET'', 0xf), (''___thread_base_t_preempt_OFFSET'', 0xe),
    (''___thread_base_t_swap_data_OFFSET'', 0x14), (''___thread_t_base_OFFSET'', 0x0),
    (''___thread_t_callee_saved_OFFSET'', 0x30), (''___thread_t_arch_OFFSET'', 0xac),
    (''___thread_stack_info_t_start_OFFSET'', 0x0),
    (''___thread_stack_info_t_size_OFFSET'', 0x4), (''___thread_t_stack_info_OFFSET'', 0x9c),
    (''___thread_t_next_thread_OFFSET'', 0x74), (''K_THREAD_SIZEOF'', 0xf8),
    (''_DEVICE_STRUCT_SIZEOF'', 0x18), (''_DEVICE_STRUCT_HANDLES_OFFSET'', 0x14),
    (''___thread_arch_t_basepri_OFFSET'', 0x0),
    (''___thread_arch_t_swap_return_value_OFFSET'', 0x4),
    (''___thread_arch_t_mode_OFFSET'', 0x48),
    (''___thread_arch_t_mode_exc_return_OFFSET'', 0x49),
    (''___thread_arch_t_preempt_float_OFFSET'', 0x8), (''___basic_sf_t_a1_OFFSET'', 0x0),
    (''___basic_sf_t_a2_OFFSET'', 0x4), (''___basic_sf_t_a3_OFFSET'', 0x8),
    (''___basic_sf_t_a4_OFFSET'', 0xc), (''___basic_sf_t_ip_OFFSET'', 0x10),
    (''___basic_sf_t_lr_OFFSET'', 0x14), (''___basic_sf_t_pc_OFFSET'', 0x18),
    (''___basic_sf_t_xpsr_OFFSET'', 0x1c), (''___basic_sf_t_SIZEOF'', 0x20),
    (''___esf_t_s_OFFSET'', 0x20), (''___esf_t_fpscr_OFFSET'', 0x60),
    (''___esf_t_SIZEOF'', 0x68), (''___callee_saved_t_v1_OFFSET'', 0x0),
    (''___callee_saved_t_v2_OFFSET'', 0x4), (''___callee_saved_t_v3_OFFSET'', 0x8),
    (''___callee_saved_t_v4_OFFSET'', 0xc), (''___callee_saved_t_v5_OFFSET'', 0x10),
    (''___callee_saved_t_v6_OFFSET'', 0x14), (''___callee_saved_t_v7_OFFSET'', 0x18),
    (''___callee_saved_t_v8_OFFSET'', 0x1c), (''___callee_saved_t_psp_OFFSET'', 0x20),
    (''___callee_saved_t_SIZEOF'', 0x24), (''___thread_stack_info_t_SIZEOF'', 0xc),
    (''_K_THREAD_NO_FLOAT_SIZEOF'', 0xb8)]"

definition offset_of :: "string \<Rightarrow> int option" where
  "offset_of m = map_of offsets m"

section \<open>Agreement\<close>

text \<open>The name of a driver type is its interface's, and each subsystem has a type of its own.\<close>

lemma driver_names: "list_all (\<lambda>(m, api, ot). otype_to_str ot = api @ '' driver'') driver_macros"
  by (simp add: driver_macros_def otype_to_str_def)

lemma driver_types_distinct: "distinct (map (\<lambda>(m, api, ot). ot) driver_macros)"
  by (simp add: driver_macros_def)

lemma driver_check:
  assumes "(m, api, ot) \<in> set driver_macros"
  shows "Z_SYSCALL_DRIVER bad_obj bad_op m ptr opr = Some (bad_obj ptr ot \<or> bad_op ptr api opr)"
proof -
  have "distinct (map fst driver_macros)" by (simp add: driver_macros_def)
  then have "map_of driver_macros m = Some (api, ot)" using assms by (rule map_of_is_SomeI)
  then show ?thesis by (simp add: Z_SYSCALL_DRIVER_def Z_SYSCALL_DRIVER_GEN_def)
qed

text \<open>The words an exception pushes lie one after the other, and so do the registers a switch saves.\<close>

lemma exception_frame:
  "map offset_of [''___basic_sf_t_a1_OFFSET'', ''___basic_sf_t_a2_OFFSET'', ''___basic_sf_t_a3_OFFSET'',
     ''___basic_sf_t_a4_OFFSET'', ''___basic_sf_t_ip_OFFSET'', ''___basic_sf_t_lr_OFFSET'',
     ''___basic_sf_t_pc_OFFSET'', ''___basic_sf_t_xpsr_OFFSET'', ''___basic_sf_t_SIZEOF'']
   = map (\<lambda>i. Some (4 * i)) [0, 1, 2, 3, 4, 5, 6, 7, 8]"
  by (simp add: offset_of_def offsets_def)

lemma saved_registers:
  "map offset_of [''___callee_saved_t_v1_OFFSET'', ''___callee_saved_t_v2_OFFSET'',
     ''___callee_saved_t_v3_OFFSET'', ''___callee_saved_t_v4_OFFSET'', ''___callee_saved_t_v5_OFFSET'',
     ''___callee_saved_t_v6_OFFSET'', ''___callee_saved_t_v7_OFFSET'', ''___callee_saved_t_v8_OFFSET'',
     ''___callee_saved_t_psp_OFFSET'', ''___callee_saved_t_SIZEOF'']
   = map (\<lambda>i. Some (4 * i)) [0, 1, 2, 3, 4, 5, 6, 7, 8, 9]"
  by (simp add: offset_of_def offsets_def)

end
