(* ===== verification/Threads.thy ===== *)
theory Threads
  imports BuildConfig
begin

text \<open>
  The threads of the firmware as \<open>src/main.c\<close>, \<open>src/modbus_hard.c\<close> and \<open>src/io_adc.c\<close> start them,
  and what their priorities mean: a thread of negative priority is cooperative, it keeps the
  processor until it waits.  So between two calls that may wait a task of the firmware is
  interrupted by interrupt handlers only, which is why its steps can be that large.
\<close>

section \<open>Stacks and priorities\<close>

definition num_option :: "string \<Rightarrow> int" where
  "num_option c = (case option_of c of Some (CNum n) \<Rightarrow> n | _ \<Rightarrow> 0)"

text \<open>\<open>K_PRIO_COOP\<close> is Zephyr's: the cooperative priority at that distance from the highest one.\<close>

definition K_PRIO_COOP :: "int \<Rightarrow> int" where
  "K_PRIO_COOP x = - (num_option ''NUM_COOP_PRIORITIES'' - x)"

definition MAIN_STACKSIZE :: nat where "MAIN_STACKSIZE = 2048"
definition MAIN_PRIORITY :: int where "MAIN_PRIORITY = - 1"
definition MB_STACKSIZE :: nat where "MB_STACKSIZE = 2048"
definition MB_PRIORITY :: int where "MB_PRIORITY = - 2"
definition IO_STACKSIZE :: nat where "IO_STACKSIZE = 2048"
definition IO_PRIORITY :: int where "IO_PRIORITY = K_PRIO_COOP 0"

section \<open>The threads\<close>

text \<open>The function a thread runs, the size of its stack, its priority and when it starts.\<close>

record thread =
  entry :: string
  stack_size :: nat
  priority :: int
  start_ms :: nat

definition com_task_id :: thread where
  "com_task_id = \<lparr>entry = ''com_task'', stack_size = MAIN_STACKSIZE, priority = MAIN_PRIORITY,
     start_ms = 1000\<rparr>"

definition mh_MB_tid :: thread where
  "mh_MB_tid = \<lparr>entry = ''mh_task_Modbus'', stack_size = MB_STACKSIZE, priority = MB_PRIORITY,
     start_ms = 1500\<rparr>"

definition io_adc_read_tid :: thread where
  "io_adc_read_tid = \<lparr>entry = ''io_adc_task'', stack_size = IO_STACKSIZE, priority = IO_PRIORITY,
     start_ms = 10\<rparr>"

definition tasks :: "thread list" where
  "tasks = [com_task_id, mh_MB_tid, io_adc_read_tid]"

section \<open>Preemption\<close>

text \<open>
  Zephyr's scheduler: a lower number is a higher priority.  A thread that becomes ready takes the
  processor from a running one of lower priority if that one is preemptible, or if it is itself one
  of the meta-interrupt threads, which have the highest cooperative priorities.
\<close>

definition meta_irq :: "thread \<Rightarrow> bool" where
  "meta_irq a \<longleftrightarrow> priority a < K_PRIO_COOP 0 + num_option ''NUM_METAIRQ_PRIORITIES''"

definition may_preempt :: "thread \<Rightarrow> thread \<Rightarrow> bool" where
  "may_preempt a b \<longleftrightarrow> priority a < priority b \<and> (0 \<le> priority b \<or> meta_irq a)"

lemma priorities: "priority com_task_id = - 1" "priority mh_MB_tid = - 2" "priority io_adc_read_tid = - 16"
  by (simp_all add: com_task_id_def mh_MB_tid_def io_adc_read_tid_def MAIN_PRIORITY_def MB_PRIORITY_def
      IO_PRIORITY_def K_PRIO_COOP_def num_option_def)

text \<open>
  No thread the kernel admits takes the processor from one of the firmware's tasks, while each of
  them takes it from \<open>main\<close>; of those ready together the measurement runs first, then the parser.
\<close>

theorem tasks_cooperative:
  assumes "b \<in> set tasks" "- num_option ''NUM_COOP_PRIORITIES'' \<le> priority a"
  shows "\<not> may_preempt a b"
  using assms priorities
  by (auto simp: tasks_def may_preempt_def meta_irq_def K_PRIO_COOP_def num_option_def)

theorem tasks_preempt_main:
  "t \<in> set tasks \<Longrightarrow> may_preempt t (m\<lparr>priority := num_option ''MAIN_THREAD_PRIORITY''\<rparr>)"
  using priorities by (auto simp: tasks_def may_preempt_def num_option_def)

theorem tasks_order:
  "sorted_wrt (\<lambda>a b. priority a < priority b) [io_adc_read_tid, mh_MB_tid, com_task_id]"
  by (simp add: priorities)

end
