(* ===== verification/Versions.thy ===== *)
theory Versions
  imports Prelude
begin

text \<open>
  The constants the build writes into \<open>version.h\<close> and \<open>ncs_version.h\<close>, and those of
  \<open>src/include/zb_mem_config_custom.h\<close>, which size the memory of the Zigbee stack.
\<close>

section \<open>The kernel and the SDK\<close>

definition ZEPHYR_VERSION :: "int \<Rightarrow> int \<Rightarrow> int \<Rightarrow> int" where
  "ZEPHYR_VERSION a b c = push_bit 16 a + push_bit 8 b + c"

definition ZEPHYR_VERSION_CODE :: int where "ZEPHYR_VERSION_CODE = 132963"
definition KERNELVERSION :: int where "KERNELVERSION = 0x2076300"
definition KERNEL_VERSION_NUMBER :: int where "KERNEL_VERSION_NUMBER = 0x20763"
definition KERNEL_VERSION_MAJOR :: int where "KERNEL_VERSION_MAJOR = 2"
definition KERNEL_VERSION_MINOR :: int where "KERNEL_VERSION_MINOR = 7"
definition KERNEL_PATCHLEVEL :: int where "KERNEL_PATCHLEVEL = 99"
definition KERNEL_VERSION_STRING :: string where "KERNEL_VERSION_STRING = ''2.7.99''"

definition NCS_VERSION :: "int \<Rightarrow> int \<Rightarrow> int \<Rightarrow> int" where
  "NCS_VERSION a b c = push_bit 16 a + push_bit 8 b + c"

definition NCS_VERSION_CODE :: int where "NCS_VERSION_CODE = 67841"
definition NCS_VERSION_NUMBER :: int where "NCS_VERSION_NUMBER = 0x10901"
definition NCS_VERSION_MAJOR :: int where "NCS_VERSION_MAJOR = 1"
definition NCS_VERSION_MINOR :: int where "NCS_VERSION_MINOR = 9"
definition NCS_PATCHLEVEL :: int where "NCS_PATCHLEVEL = 1"
definition NCS_VERSION_STRING :: string where "NCS_VERSION_STRING = ''1.9.1''"

lemmas version_defs = ZEPHYR_VERSION_def ZEPHYR_VERSION_CODE_def KERNELVERSION_def KERNEL_VERSION_NUMBER_def
  KERNEL_VERSION_MAJOR_def KERNEL_VERSION_MINOR_def KERNEL_PATCHLEVEL_def NCS_VERSION_def
  NCS_VERSION_CODE_def NCS_VERSION_NUMBER_def NCS_VERSION_MAJOR_def NCS_VERSION_MINOR_def
  NCS_PATCHLEVEL_def

text \<open>The codes are those of the version numbers.\<close>

theorem version_codes:
  "ZEPHYR_VERSION_CODE = ZEPHYR_VERSION KERNEL_VERSION_MAJOR KERNEL_VERSION_MINOR KERNEL_PATCHLEVEL"
  "KERNEL_VERSION_NUMBER = ZEPHYR_VERSION_CODE" "KERNELVERSION = push_bit 8 KERNEL_VERSION_NUMBER"
  "NCS_VERSION_CODE = NCS_VERSION NCS_VERSION_MAJOR NCS_VERSION_MINOR NCS_PATCHLEVEL"
  "NCS_VERSION_NUMBER = NCS_VERSION_CODE"
  by (simp_all add: version_defs push_bit_eq_mult)

section \<open>The memory of the Zigbee stack\<close>

text \<open>The profile of the device, and the sizes it chooses; the last two redefine the stack's values.\<close>

definition ZB_CONFIG_flags :: "string list" where
  "ZB_CONFIG_flags = [''ROLE_ZED'', ''HIGH_TRAFFIC'', ''APPLICATION_SIMPLE'']"

definition ZB_CONFIG_OVERALL_NETWORK_SIZE :: nat where "ZB_CONFIG_OVERALL_NETWORK_SIZE = 16"
definition ZB_CONFIG_SCHEDULER_Q_SIZE :: nat where "ZB_CONFIG_SCHEDULER_Q_SIZE = 24"
definition ZB_CONFIG_APS_DUPS_TABLE_SIZE :: nat where "ZB_CONFIG_APS_DUPS_TABLE_SIZE = 64"

text \<open>The comment of the header asks for fewer entries than there are values of the APS counter.\<close>

theorem aps_dups_fit: "ZB_CONFIG_APS_DUPS_TABLE_SIZE < 2 ^ LENGTH(8)"
  by (simp add: ZB_CONFIG_APS_DUPS_TABLE_SIZE_def)

end
