(* ===== verification/Probe.thy ===== *)
theory Probe
  imports Prelude "HOL-Library.Signed_Division"
begin

text \<open>
  What the two probe programs share that CMake compiles to find out which compiler it has been
  given (\<open>CMakeFiles/3.20.5/CompilerIdC\<close> and \<open>CompilerIdCXX\<close>).  A probe is a cascade of conditions
  on the macros the compiler defines, which chooses the strings the object file holds.
\<close>

section \<open>Macros\<close>

text \<open>
  The macros a compiler defines, with their values.  Of a macro that is only tested for being
  defined the value does not matter.  In a condition an identifier that is no macro is 0; in an
  initialiser it is an error.
\<close>

type_synonym macros = "string \<Rightarrow> int option"

definition defd :: "macros \<Rightarrow> string \<Rightarrow> bool" where
  "defd m x \<longleftrightarrow> m x \<noteq> None"

definition pp :: "macros \<Rightarrow> string \<Rightarrow> int" where
  "pp m x = (case m x of Some v \<Rightarrow> v | None \<Rightarrow> 0)"

text \<open>
  What the cascade defines: the names, and the version components, each either not defined
  (\<^const>\<open>None\<close>), or the characters it expands to, if it is an expression at all.  A definition
  that follows another one of the same macro replaces it.
\<close>

type_synonym component = "int list option option"

record compiler =
  compiler_id :: string
  version_major :: component
  version_minor :: component
  version_patch :: component
  version_tweak :: component
  version_internal :: component
  simulate_id :: "string option"
  simulate_major :: component
  simulate_minor :: component
  simulate_patch :: component
  simulate_tweak :: component

definition nothing_defined :: compiler where
  "nothing_defined = \<lparr>compiler_id = [], version_major = None, version_minor = None,
     version_patch = None, version_tweak = None, version_internal = None, simulate_id = None,
     simulate_major = None, simulate_minor = None, simulate_patch = None, simulate_tweak = None\<rparr>"

section \<open>Digits\<close>

definition dec_digits :: "int \<Rightarrow> int list" where
  "dec_digits n =
     [48 + ((n sdiv 10000000) smod 10),
      48 + ((n sdiv 1000000) smod 10),
      48 + ((n sdiv 100000) smod 10),
      48 + ((n sdiv 10000) smod 10),
      48 + ((n sdiv 1000) smod 10),
      48 + ((n sdiv 100) smod 10),
      48 + ((n sdiv 10) smod 10),
      48 + (n smod 10)]"

definition hex_digits :: "int \<Rightarrow> int list" where
  "hex_digits n =
     [48 + (drop_bit 28 n AND 0xF),
      48 + (drop_bit 24 n AND 0xF),
      48 + (drop_bit 20 n AND 0xF),
      48 + (drop_bit 16 n AND 0xF),
      48 + (drop_bit 12 n AND 0xF),
      48 + (drop_bit 8 n AND 0xF),
      48 + (drop_bit 4 n AND 0xF),
      48 + (n AND 0xF)]"

definition DEC :: "int option \<Rightarrow> int list option" where
  "DEC n = map_option dec_digits n"

definition HEX :: "int option \<Rightarrow> int list option" where
  "HEX n = map_option hex_digits n"

section \<open>The strings in the object file\<close>

text \<open>The objects with their names, in the order of the source; a literal ends with a 0.\<close>

type_synonym objects = "(string \<times> int list) list"

definition chars :: "string \<Rightarrow> int list" where
  "chars s = map (\<lambda>c. int (of_char c)) s"

definition literal :: "string \<Rightarrow> int list" where
  "literal s = chars s @ [0]"

text \<open>The components after the first, each with a dot, as far as they are defined.\<close>

fun dotted :: "component list \<Rightarrow> int list option" where
  "dotted (Some v # vs) = do { a \<leftarrow> v; b \<leftarrow> dotted vs; Some (chars ''.'' @ a @ b) }"
| "dotted _ = Some []"

definition version_object :: "string \<Rightarrow> string \<Rightarrow> component \<Rightarrow> component list \<Rightarrow> objects option" where
  "version_object name label first others =
     (case first of
       None \<Rightarrow> Some []
     | Some v \<Rightarrow> do { a \<leftarrow> v; b \<leftarrow> dotted others; Some [(name, chars label @ a @ b @ literal '']'')] })"

definition info_compiler :: "compiler \<Rightarrow> objects" where
  "info_compiler r = [(''info_compiler'', literal (''INFO:compiler['' @ compiler_id r @ '']''))]"

definition info_simulate :: "compiler \<Rightarrow> objects" where
  "info_simulate r = (case simulate_id r of
     None \<Rightarrow> []
   | Some s \<Rightarrow> [(''info_simulate'', literal (''INFO:simulate['' @ s @ '']''))])"

definition qnxnto :: "macros \<Rightarrow> objects" where
  "qnxnto m = (if defd m ''__QNXNTO__'' then [(''qnxnto'', literal ''INFO:qnxnto[]'')] else [])"

definition info_cray :: "macros \<Rightarrow> objects" where
  "info_cray m = (if defd m ''__CRAYXT_COMPUTE_LINUX_TARGET''
     then [(''info_cray'', literal ''INFO:compiler_wrapper[CrayPrgEnv]'')] else [])"

definition info_version :: "compiler \<Rightarrow> objects option" where
  "info_version r = version_object ''info_version'' ''INFO:compiler_version[''
     (version_major r) [version_minor r, version_patch r, version_tweak r]"

definition info_version_internal :: "compiler \<Rightarrow> objects option" where
  "info_version_internal r = version_object ''info_version_internal''
     ''INFO:compiler_version_internal['' (version_internal r) []"

definition info_simulate_version :: "compiler \<Rightarrow> objects option" where
  "info_simulate_version r = version_object ''info_simulate_version'' ''INFO:simulate_version[''
     (simulate_major r) [simulate_minor r, simulate_patch r, simulate_tweak r]"

definition info_named :: "string \<Rightarrow> string \<Rightarrow> string \<Rightarrow> objects" where
  "info_named name label s = [(name, literal (''INFO:'' @ label @ ''['' @ s @ '']''))]"

text \<open>The objects of a probe, for what its own cascades have found; \<^const>\<open>None\<close> if one of the
  initialisers is no expression.\<close>

definition info_objects ::
    "macros \<Rightarrow> compiler \<Rightarrow> string \<Rightarrow> string \<Rightarrow> string \<Rightarrow> objects option" where
  "info_objects m r platform arch dialect = do {
     v \<leftarrow> info_version r;
     i \<leftarrow> info_version_internal r;
     s \<leftarrow> info_simulate_version r;
     Some (info_compiler r @ info_simulate r @ qnxnto m @ info_cray m @ v @ i @ s @
       info_named ''info_platform'' ''platform'' platform @
       info_named ''info_arch'' ''arch'' arch @
       info_named ''info_language_dialect_default'' ''dialect_default'' dialect)
   }"

section \<open>The main functions\<close>

text \<open>
  The objects are kept by adding up one character of each; a name without an object, or an index
  outside it, is \<^const>\<open>None\<close>.
\<close>

definition char_at :: "objects \<Rightarrow> string \<Rightarrow> int \<Rightarrow> int option" where
  "char_at os x argc = do {
     s \<leftarrow> map_of os x;
     (if 0 \<le> argc \<and> argc < int (length s) then Some (s ! nat argc) else None)
   }"

fun require_all :: "objects \<Rightarrow> int \<Rightarrow> string list \<Rightarrow> int \<Rightarrow> int option" where
  "require_all os argc [] acc = Some acc"
| "require_all os argc (x # xs) acc = do { c \<leftarrow> char_at os x argc; require_all os argc xs (acc + c) }"

definition required_when_defined :: "macros \<Rightarrow> compiler \<Rightarrow> string list" where
  "required_when_defined m r =
     (if version_major r \<noteq> None then [''info_version''] else []) @
     (if version_internal r \<noteq> None then [''info_version_internal''] else []) @
     (if simulate_id r \<noteq> None then [''info_simulate''] else []) @
     (if simulate_major r \<noteq> None then [''info_simulate_version''] else []) @
     (if defd m ''__CRAYXT_COMPUTE_LINUX_TARGET'' then [''info_cray''] else []) @
     [''info_language_dialect_default'']"

end
