(* ===== verification/ProbeCxx.thy ===== *)
theory ProbeCxx
  imports Probe
begin

text \<open>
  \<open>CMakeFiles/3.20.5/CompilerIdCXX/CMakeCXXCompilerId.cpp\<close>: as ProbeC, with the compilers of C++,
  which \<open>main\<close> does not ask for the architecture.
\<close>

section \<open>The compilers\<close>

definition CXX_Comeau :: "macros \<Rightarrow> compiler \<Rightarrow> compiler" where
  "CXX_Comeau m r =
     r\<lparr>compiler_id := ''Comeau'',
         version_major := Some (DEC (map_option (\<lambda>v. v sdiv 100)
             (m ''__COMO_VERSION__''))),
         version_minor := Some (DEC (map_option (\<lambda>v. v smod 100)
             (m ''__COMO_VERSION__'')))\<rparr>"

definition CXX_Intel :: "macros \<Rightarrow> compiler \<Rightarrow> compiler" where
  "CXX_Intel m r =
     (let r = r\<lparr>compiler_id := ''Intel''\<rparr> in
     let r =
       (if defd m ''_MSC_VER'' then
           r\<lparr>simulate_id := Some ''MSVC''\<rparr>
       else r) in
     let r =
       (if defd m ''__GNUC__'' then
           r\<lparr>simulate_id := Some ''GNU''\<rparr>
       else r) in
     let r =
       (if pp m ''__INTEL_COMPILER'' < 2021 \<or> pp m ''__INTEL_COMPILER'' = 202110 \<or>
           pp m ''__INTEL_COMPILER'' = 202111 then
           let r = r\<lparr>version_major := Some (DEC (map_option (\<lambda>v. v sdiv 100)
               (m ''__INTEL_COMPILER''))),
               version_minor := Some (DEC (map_option (\<lambda>v. (v sdiv 10) smod 10)
                   (m ''__INTEL_COMPILER'')))\<rparr> in
           (if defd m ''__INTEL_COMPILER_UPDATE'' then
               r\<lparr>version_patch := Some (DEC (m ''__INTEL_COMPILER_UPDATE''))\<rparr>
           else
               r\<lparr>version_patch := Some (DEC (map_option (\<lambda>v. v smod 10)
                   (m ''__INTEL_COMPILER'')))\<rparr>)
       else
           r\<lparr>version_major := Some (DEC (m ''__INTEL_COMPILER'')),
               version_minor := Some (DEC (m ''__INTEL_COMPILER_UPDATE'')),
               version_patch := Some (DEC (Some 0))\<rparr>) in
     let r =
       (if defd m ''__INTEL_COMPILER_BUILD_DATE'' then
           r\<lparr>version_tweak := Some (DEC (m ''__INTEL_COMPILER_BUILD_DATE''))\<rparr>
       else r) in
     let r =
       (if defd m ''_MSC_VER'' then
           r\<lparr>simulate_major := Some (DEC (map_option (\<lambda>v. v sdiv 100)
               (m ''_MSC_VER''))),
               simulate_minor := Some (DEC (map_option (\<lambda>v. v smod 100)
                   (m ''_MSC_VER'')))\<rparr>
       else r) in
     let r =
       (if defd m ''__GNUC__'' then
           r\<lparr>simulate_major := Some (DEC (m ''__GNUC__''))\<rparr>
       else if defd m ''__GNUG__'' then
           r\<lparr>simulate_major := Some (DEC (m ''__GNUG__''))\<rparr>
       else r) in
     let r =
       (if defd m ''__GNUC_MINOR__'' then
           r\<lparr>simulate_minor := Some (DEC (m ''__GNUC_MINOR__''))\<rparr>
       else r) in
     (if defd m ''__GNUC_PATCHLEVEL__'' then
         r\<lparr>simulate_patch := Some (DEC (m ''__GNUC_PATCHLEVEL__''))\<rparr>
     else r))"

definition CXX_IntelLLVM :: "macros \<Rightarrow> compiler \<Rightarrow> compiler" where
  "CXX_IntelLLVM m r =
     (let r = r\<lparr>compiler_id := ''IntelLLVM''\<rparr> in
     let r =
       (if defd m ''_MSC_VER'' then
           r\<lparr>simulate_id := Some ''MSVC''\<rparr>
       else r) in
     let r =
       (if defd m ''__GNUC__'' then
           r\<lparr>simulate_id := Some ''GNU''\<rparr>
       else r) in
     let r =
       (if pp m ''__INTEL_LLVM_COMPILER'' < 1000000 then
           r\<lparr>version_major := Some (DEC (map_option (\<lambda>v. v sdiv 100)
               (m ''__INTEL_LLVM_COMPILER''))),
               version_minor := Some (DEC (map_option (\<lambda>v. (v sdiv 10) smod 10)
                   (m ''__INTEL_LLVM_COMPILER''))),
               version_patch := Some (DEC (map_option (\<lambda>v. v smod 10)
                   (m ''__INTEL_LLVM_COMPILER'')))\<rparr>
       else
           r\<lparr>version_major := Some (DEC (map_option (\<lambda>v. v sdiv 10000)
               (m ''__INTEL_LLVM_COMPILER''))),
               version_minor := Some (DEC (map_option (\<lambda>v. (v sdiv 100) smod 100)
                   (m ''__INTEL_LLVM_COMPILER''))),
               version_patch := Some (DEC (map_option (\<lambda>v. v smod 100)
                   (m ''__INTEL_LLVM_COMPILER'')))\<rparr>) in
     let r =
       (if defd m ''_MSC_VER'' then
           r\<lparr>simulate_major := Some (DEC (map_option (\<lambda>v. v sdiv 100)
               (m ''_MSC_VER''))),
               simulate_minor := Some (DEC (map_option (\<lambda>v. v smod 100)
                   (m ''_MSC_VER'')))\<rparr>
       else r) in
     let r =
       (if defd m ''__GNUC__'' then
           r\<lparr>simulate_major := Some (DEC (m ''__GNUC__''))\<rparr>
       else if defd m ''__GNUG__'' then
           r\<lparr>simulate_major := Some (DEC (m ''__GNUG__''))\<rparr>
       else r) in
     let r =
       (if defd m ''__GNUC_MINOR__'' then
           r\<lparr>simulate_minor := Some (DEC (m ''__GNUC_MINOR__''))\<rparr>
       else r) in
     (if defd m ''__GNUC_PATCHLEVEL__'' then
         r\<lparr>simulate_patch := Some (DEC (m ''__GNUC_PATCHLEVEL__''))\<rparr>
     else r))"

definition CXX_PathScale :: "macros \<Rightarrow> compiler \<Rightarrow> compiler" where
  "CXX_PathScale m r =
     (let r = r\<lparr>compiler_id := ''PathScale'',
         version_major := Some (DEC (m ''__PATHCC__'')),
         version_minor := Some (DEC (m ''__PATHCC_MINOR__''))\<rparr> in
     (if defd m ''__PATHCC_PATCHLEVEL__'' then
         r\<lparr>version_patch := Some (DEC (m ''__PATHCC_PATCHLEVEL__''))\<rparr>
     else r))"

definition CXX_Embarcadero :: "macros \<Rightarrow> compiler \<Rightarrow> compiler" where
  "CXX_Embarcadero m r =
     r\<lparr>compiler_id := ''Embarcadero'',
         version_major := Some (HEX (map_option (\<lambda>v. (drop_bit 24 v) AND 0x00FF)
             (m ''__CODEGEARC_VERSION__''))),
         version_minor := Some (HEX (map_option (\<lambda>v. (drop_bit 16 v) AND 0x00FF)
             (m ''__CODEGEARC_VERSION__''))),
         version_patch := Some (DEC (map_option (\<lambda>v. v AND 0xFFFF)
             (m ''__CODEGEARC_VERSION__'')))\<rparr>"

definition CXX_Borland :: "macros \<Rightarrow> compiler \<Rightarrow> compiler" where
  "CXX_Borland m r =
     r\<lparr>compiler_id := ''Borland'',
         version_major := Some (HEX (map_option (\<lambda>v. drop_bit 8 v) (m ''__BORLANDC__''))),
         version_minor := Some (HEX (map_option (\<lambda>v. v AND 0xFF)
             (m ''__BORLANDC__'')))\<rparr>"

definition CXX_Watcom :: "macros \<Rightarrow> compiler \<Rightarrow> compiler" where
  "CXX_Watcom m r =
     (let r = r\<lparr>compiler_id := ''Watcom'',
         version_major := Some (DEC (map_option (\<lambda>v. v sdiv 100) (m ''__WATCOMC__''))),
         version_minor := Some (DEC (map_option (\<lambda>v. (v sdiv 10) smod 10)
             (m ''__WATCOMC__'')))\<rparr> in
     (if (pp m ''__WATCOMC__'') smod 10 > 0 then
         r\<lparr>version_patch := Some (DEC (map_option (\<lambda>v. v smod 10)
             (m ''__WATCOMC__'')))\<rparr>
     else r))"

definition CXX_OpenWatcom :: "macros \<Rightarrow> compiler \<Rightarrow> compiler" where
  "CXX_OpenWatcom m r =
     (let r = r\<lparr>compiler_id := ''OpenWatcom'',
         version_major := Some (DEC (map_option (\<lambda>v. (v - 1100) sdiv 100)
             (m ''__WATCOMC__''))),
         version_minor := Some (DEC (map_option (\<lambda>v. (v sdiv 10) smod 10)
             (m ''__WATCOMC__'')))\<rparr> in
     (if (pp m ''__WATCOMC__'') smod 10 > 0 then
         r\<lparr>version_patch := Some (DEC (map_option (\<lambda>v. v smod 10)
             (m ''__WATCOMC__'')))\<rparr>
     else r))"

definition CXX_SunPro :: "macros \<Rightarrow> compiler \<Rightarrow> compiler" where
  "CXX_SunPro m r =
     (let r = r\<lparr>compiler_id := ''SunPro''\<rparr> in
     (if pp m ''__SUNPRO_CC'' \<ge> 0x5100 then
         r\<lparr>version_major := Some (HEX (map_option (\<lambda>v. drop_bit 12 v)
             (m ''__SUNPRO_CC''))),
             version_minor := Some (HEX (map_option (\<lambda>v. (drop_bit 4 v) AND 0xFF)
                 (m ''__SUNPRO_CC''))),
             version_patch := Some (HEX (map_option (\<lambda>v. v AND 0xF)
                 (m ''__SUNPRO_CC'')))\<rparr>
     else
         r\<lparr>version_major := Some (HEX (map_option (\<lambda>v. drop_bit 8 v)
             (m ''__SUNPRO_CC''))),
             version_minor := Some (HEX (map_option (\<lambda>v. (drop_bit 4 v) AND 0xF)
                 (m ''__SUNPRO_CC''))),
             version_patch := Some (HEX (map_option (\<lambda>v. v AND 0xF)
                 (m ''__SUNPRO_CC'')))\<rparr>))"

definition CXX_HP :: "macros \<Rightarrow> compiler \<Rightarrow> compiler" where
  "CXX_HP m r =
     r\<lparr>compiler_id := ''HP'',
         version_major := Some (DEC (map_option (\<lambda>v. v sdiv 10000) (m ''__HP_aCC''))),
         version_minor := Some (DEC (map_option (\<lambda>v. (v sdiv 100) smod 100)
             (m ''__HP_aCC''))),
         version_patch := Some (DEC (map_option (\<lambda>v. v smod 100)
             (m ''__HP_aCC'')))\<rparr>"

definition CXX_Compaq :: "macros \<Rightarrow> compiler \<Rightarrow> compiler" where
  "CXX_Compaq m r =
     r\<lparr>compiler_id := ''Compaq'',
         version_major := Some (DEC (map_option (\<lambda>v. v sdiv 10000000)
             (m ''__DECCXX_VER''))),
         version_minor := Some (DEC (map_option (\<lambda>v. (v sdiv 100000) smod 100)
             (m ''__DECCXX_VER''))),
         version_patch := Some (DEC (map_option (\<lambda>v. v smod 10000)
             (m ''__DECCXX_VER'')))\<rparr>"

definition CXX_zOS :: "macros \<Rightarrow> compiler \<Rightarrow> compiler" where
  "CXX_zOS m r =
     r\<lparr>compiler_id := ''zOS'',
         version_major := Some (DEC (map_option (\<lambda>v. v sdiv 100) (m ''__IBMCPP__''))),
         version_minor := Some (DEC (map_option (\<lambda>v. (v sdiv 10) smod 10)
             (m ''__IBMCPP__''))),
         version_patch := Some (DEC (map_option (\<lambda>v. v smod 10)
             (m ''__IBMCPP__'')))\<rparr>"

definition CXX_XLClang :: "macros \<Rightarrow> compiler \<Rightarrow> compiler" where
  "CXX_XLClang m r =
     r\<lparr>compiler_id := ''XLClang'',
         version_major := Some (DEC (m ''__ibmxl_version__'')),
         version_minor := Some (DEC (m ''__ibmxl_release__'')),
         version_patch := Some (DEC (m ''__ibmxl_modification__'')),
         version_tweak := Some (DEC (m ''__ibmxl_ptf_fix_level__''))\<rparr>"

definition CXX_XL :: "macros \<Rightarrow> compiler \<Rightarrow> compiler" where
  "CXX_XL m r =
     r\<lparr>compiler_id := ''XL'',
         version_major := Some (DEC (map_option (\<lambda>v. v sdiv 100) (m ''__IBMCPP__''))),
         version_minor := Some (DEC (map_option (\<lambda>v. (v sdiv 10) smod 10)
             (m ''__IBMCPP__''))),
         version_patch := Some (DEC (map_option (\<lambda>v. v smod 10)
             (m ''__IBMCPP__'')))\<rparr>"

definition CXX_VisualAge :: "macros \<Rightarrow> compiler \<Rightarrow> compiler" where
  "CXX_VisualAge m r =
     r\<lparr>compiler_id := ''VisualAge'',
         version_major := Some (DEC (map_option (\<lambda>v. v sdiv 100) (m ''__IBMCPP__''))),
         version_minor := Some (DEC (map_option (\<lambda>v. (v sdiv 10) smod 10)
             (m ''__IBMCPP__''))),
         version_patch := Some (DEC (map_option (\<lambda>v. v smod 10)
             (m ''__IBMCPP__'')))\<rparr>"

definition CXX_NVHPC :: "macros \<Rightarrow> compiler \<Rightarrow> compiler" where
  "CXX_NVHPC m r =
     (let r = r\<lparr>compiler_id := ''NVHPC'',
         version_major := Some (DEC (m ''__NVCOMPILER_MAJOR__'')),
         version_minor := Some (DEC (m ''__NVCOMPILER_MINOR__''))\<rparr> in
     (if defd m ''__NVCOMPILER_PATCHLEVEL__'' then
         r\<lparr>version_patch := Some (DEC (m ''__NVCOMPILER_PATCHLEVEL__''))\<rparr>
     else r))"

definition CXX_PGI :: "macros \<Rightarrow> compiler \<Rightarrow> compiler" where
  "CXX_PGI m r =
     (let r = r\<lparr>compiler_id := ''PGI'',
         version_major := Some (DEC (m ''__PGIC__'')),
         version_minor := Some (DEC (m ''__PGIC_MINOR__''))\<rparr> in
     (if defd m ''__PGIC_PATCHLEVEL__'' then
         r\<lparr>version_patch := Some (DEC (m ''__PGIC_PATCHLEVEL__''))\<rparr>
     else r))"

definition CXX_Cray :: "macros \<Rightarrow> compiler \<Rightarrow> compiler" where
  "CXX_Cray m r =
     r\<lparr>compiler_id := ''Cray'',
         version_major := Some (DEC (m ''_RELEASE_MAJOR'')),
         version_minor := Some (DEC (m ''_RELEASE_MINOR''))\<rparr>"

definition CXX_TI :: "macros \<Rightarrow> compiler \<Rightarrow> compiler" where
  "CXX_TI m r =
     r\<lparr>compiler_id := ''TI'',
         version_major := Some (DEC (map_option (\<lambda>v. v sdiv 1000000)
             (m ''__TI_COMPILER_VERSION__''))),
         version_minor := Some (DEC (map_option (\<lambda>v. (v sdiv 1000) smod 1000)
             (m ''__TI_COMPILER_VERSION__''))),
         version_patch := Some (DEC (map_option (\<lambda>v. v smod 1000)
             (m ''__TI_COMPILER_VERSION__'')))\<rparr>"

definition CXX_Fujitsu :: "macros \<Rightarrow> compiler \<Rightarrow> compiler" where
  "CXX_Fujitsu m r =
     r\<lparr>compiler_id := ''Fujitsu''\<rparr>"

definition CXX_GHS :: "macros \<Rightarrow> compiler \<Rightarrow> compiler" where
  "CXX_GHS m r =
     (let r = r\<lparr>compiler_id := ''GHS''\<rparr> in
     (if defd m ''__GHS_VERSION_NUMBER'' then
         r\<lparr>version_major := Some (DEC (map_option (\<lambda>v. v sdiv 100)
             (m ''__GHS_VERSION_NUMBER''))),
             version_minor := Some (DEC (map_option (\<lambda>v. (v sdiv 10) smod 10)
                 (m ''__GHS_VERSION_NUMBER''))),
             version_patch := Some (DEC (map_option (\<lambda>v. v smod 10)
                 (m ''__GHS_VERSION_NUMBER'')))\<rparr>
     else r))"

definition CXX_SCO :: "macros \<Rightarrow> compiler \<Rightarrow> compiler" where
  "CXX_SCO m r =
     r\<lparr>compiler_id := ''SCO''\<rparr>"

definition CXX_ARMCC :: "macros \<Rightarrow> compiler \<Rightarrow> compiler" where
  "CXX_ARMCC m r =
     (let r = r\<lparr>compiler_id := ''ARMCC''\<rparr> in
     (if pp m ''__ARMCC_VERSION'' \<ge> 1000000 then
         r\<lparr>version_major := Some (DEC (map_option (\<lambda>v. v sdiv 1000000)
             (m ''__ARMCC_VERSION''))),
             version_minor := Some (DEC (map_option (\<lambda>v. (v sdiv 10000) smod 100)
                 (m ''__ARMCC_VERSION''))),
             version_patch := Some (DEC (map_option (\<lambda>v. v smod 10000)
                 (m ''__ARMCC_VERSION'')))\<rparr>
     else
         r\<lparr>version_major := Some (DEC (map_option (\<lambda>v. v sdiv 100000)
             (m ''__ARMCC_VERSION''))),
             version_minor := Some (DEC (map_option (\<lambda>v. (v sdiv 10000) smod 10)
                 (m ''__ARMCC_VERSION''))),
             version_patch := Some (DEC (map_option (\<lambda>v. v smod 10000)
                 (m ''__ARMCC_VERSION'')))\<rparr>))"

definition CXX_AppleClang :: "macros \<Rightarrow> compiler \<Rightarrow> compiler" where
  "CXX_AppleClang m r =
     (let r = r\<lparr>compiler_id := ''AppleClang''\<rparr> in
     let r =
       (if defd m ''_MSC_VER'' then
           r\<lparr>simulate_id := Some ''MSVC''\<rparr>
       else r) in
     let r = r\<lparr>version_major := Some (DEC (m ''__clang_major__'')),
         version_minor := Some (DEC (m ''__clang_minor__'')),
         version_patch := Some (DEC (m ''__clang_patchlevel__''))\<rparr> in
     let r =
       (if defd m ''_MSC_VER'' then
           r\<lparr>simulate_major := Some (DEC (map_option (\<lambda>v. v sdiv 100)
               (m ''_MSC_VER''))),
               simulate_minor := Some (DEC (map_option (\<lambda>v. v smod 100)
                   (m ''_MSC_VER'')))\<rparr>
       else r) in
     r\<lparr>version_tweak := Some (DEC (m ''__apple_build_version__''))\<rparr>)"

definition CXX_ARMClang :: "macros \<Rightarrow> compiler \<Rightarrow> compiler" where
  "CXX_ARMClang m r =
     r\<lparr>compiler_id := ''ARMClang'',
         version_major := Some (DEC (map_option (\<lambda>v. v sdiv 1000000)
             (m ''__ARMCOMPILER_VERSION''))),
         version_minor := Some (DEC (map_option (\<lambda>v. (v sdiv 10000) smod 100)
             (m ''__ARMCOMPILER_VERSION''))),
         version_patch := Some (DEC (map_option (\<lambda>v. v smod 10000)
             (m ''__ARMCOMPILER_VERSION''))),
         version_internal := Some (DEC (m ''__ARMCOMPILER_VERSION''))\<rparr>"

definition CXX_Clang :: "macros \<Rightarrow> compiler \<Rightarrow> compiler" where
  "CXX_Clang m r =
     (let r = r\<lparr>compiler_id := ''Clang''\<rparr> in
     let r =
       (if defd m ''_MSC_VER'' then
           r\<lparr>simulate_id := Some ''MSVC''\<rparr>
       else r) in
     let r = r\<lparr>version_major := Some (DEC (m ''__clang_major__'')),
         version_minor := Some (DEC (m ''__clang_minor__'')),
         version_patch := Some (DEC (m ''__clang_patchlevel__''))\<rparr> in
     (if defd m ''_MSC_VER'' then
         r\<lparr>simulate_major := Some (DEC (map_option (\<lambda>v. v sdiv 100)
             (m ''_MSC_VER''))),
             simulate_minor := Some (DEC (map_option (\<lambda>v. v smod 100)
                 (m ''_MSC_VER'')))\<rparr>
     else r))"

definition CXX_GNU :: "macros \<Rightarrow> compiler \<Rightarrow> compiler" where
  "CXX_GNU m r =
     (let r = r\<lparr>compiler_id := ''GNU''\<rparr> in
     let r =
       (if defd m ''__GNUC__'' then
           r\<lparr>version_major := Some (DEC (m ''__GNUC__''))\<rparr>
       else
           r\<lparr>version_major := Some (DEC (m ''__GNUG__''))\<rparr>) in
     let r =
       (if defd m ''__GNUC_MINOR__'' then
           r\<lparr>version_minor := Some (DEC (m ''__GNUC_MINOR__''))\<rparr>
       else r) in
     (if defd m ''__GNUC_PATCHLEVEL__'' then
         r\<lparr>version_patch := Some (DEC (m ''__GNUC_PATCHLEVEL__''))\<rparr>
     else r))"

definition CXX_MSVC :: "macros \<Rightarrow> compiler \<Rightarrow> compiler" where
  "CXX_MSVC m r =
     (let r = r\<lparr>compiler_id := ''MSVC'',
         version_major := Some (DEC (map_option (\<lambda>v. v sdiv 100) (m ''_MSC_VER''))),
         version_minor := Some (DEC (map_option (\<lambda>v. v smod 100)
             (m ''_MSC_VER'')))\<rparr> in
     let r =
       (if defd m ''_MSC_FULL_VER'' then
           (if pp m ''_MSC_VER'' \<ge> 1400 then
               r\<lparr>version_patch := Some (DEC (map_option (\<lambda>v. v smod 100000)
                   (m ''_MSC_FULL_VER'')))\<rparr>
           else
               r\<lparr>version_patch := Some (DEC (map_option (\<lambda>v. v smod 10000)
                   (m ''_MSC_FULL_VER'')))\<rparr>)
       else r) in
     (if defd m ''_MSC_BUILD'' then
         r\<lparr>version_tweak := Some (DEC (m ''_MSC_BUILD''))\<rparr>
     else r))"

definition CXX_ADSP :: "macros \<Rightarrow> compiler \<Rightarrow> compiler" where
  "CXX_ADSP m r =
     (let r = r\<lparr>compiler_id := ''ADSP''\<rparr> in
     (if defd m ''__VISUALDSPVERSION__'' then
         r\<lparr>version_major := Some (HEX (map_option (\<lambda>v. drop_bit 24 v)
             (m ''__VISUALDSPVERSION__''))),
             version_minor := Some (HEX (map_option (\<lambda>v. (drop_bit 16 v) AND 0xFF)
                 (m ''__VISUALDSPVERSION__''))),
             version_patch := Some (HEX (map_option (\<lambda>v. (drop_bit 8 v) AND 0xFF)
                 (m ''__VISUALDSPVERSION__'')))\<rparr>
     else r))"

definition CXX_IAR :: "macros \<Rightarrow> compiler \<Rightarrow> compiler" where
  "CXX_IAR m r =
     (let r = r\<lparr>compiler_id := ''IAR''\<rparr> in
     (if defd m ''__VER__'' \<and> defd m ''__ICCARM__'' then
         r\<lparr>version_major := Some (DEC (map_option (\<lambda>v. v sdiv 1000000)
             (m ''__VER__''))),
             version_minor := Some (DEC (map_option (\<lambda>v. (v sdiv 1000) smod 1000)
                 (m ''__VER__''))),
             version_patch := Some (DEC (map_option (\<lambda>v. v smod 1000) (m ''__VER__''))),
             version_internal := Some (DEC (m ''__IAR_SYSTEMS_ICC__''))\<rparr>
     else if defd m ''__VER__'' \<and> (defd m ''__ICCAVR__'' \<or> defd m ''__ICCRX__'' \<or>
         defd m ''__ICCRH850__'' \<or> defd m ''__ICCRL78__'' \<or> defd m ''__ICC430__'' \<or>
         defd m ''__ICCRISCV__'' \<or> defd m ''__ICCV850__'' \<or> defd m ''__ICC8051__'' \<or>
         defd m ''__ICCSTM8__'') then
         r\<lparr>version_major := Some (DEC (map_option (\<lambda>v. v sdiv 100)
             (m ''__VER__''))),
             version_minor := Some (DEC (map_option (\<lambda>v. v - ((v sdiv 100) * 100))
                 (m ''__VER__''))),
             version_patch := Some (DEC (m ''__SUBVERSION__'')),
             version_internal := Some (DEC (m ''__IAR_SYSTEMS_ICC__''))\<rparr>
     else r))"

definition CXX_HP_2 :: "macros \<Rightarrow> compiler \<Rightarrow> compiler" where
  "CXX_HP_2 m r =
     r\<lparr>compiler_id := ''HP''\<rparr>"

definition CXX_unknown :: "macros \<Rightarrow> compiler \<Rightarrow> compiler" where
  "CXX_unknown m r =
     r\<lparr>compiler_id := ''''\<rparr>"

definition CXX_compiler :: "macros \<Rightarrow> compiler \<Rightarrow> compiler" where
  "CXX_compiler m r =
     (if defd m ''__COMO__'' then CXX_Comeau m r
     else if defd m ''__INTEL_COMPILER'' \<or> defd m ''__ICC'' then CXX_Intel m r
     else if (defd m ''__clang__'' \<and> defd m ''__INTEL_CLANG_COMPILER'') \<or>
         defd m ''__INTEL_LLVM_COMPILER'' then CXX_IntelLLVM m r
     else if defd m ''__PATHCC__'' then CXX_PathScale m r
     else if defd m ''__BORLANDC__'' \<and> defd m ''__CODEGEARC_VERSION__'' then CXX_Embarcadero
         m r
     else if defd m ''__BORLANDC__'' then CXX_Borland m r
     else if defd m ''__WATCOMC__'' \<and> pp m ''__WATCOMC__'' < 1200 then CXX_Watcom m r
     else if defd m ''__WATCOMC__'' then CXX_OpenWatcom m r
     else if defd m ''__SUNPRO_CC'' then CXX_SunPro m r
     else if defd m ''__HP_aCC'' then CXX_HP m r
     else if defd m ''__DECCXX'' then CXX_Compaq m r
     else if defd m ''__IBMCPP__'' \<and> defd m ''__COMPILER_VER__'' then CXX_zOS m r
     else if defd m ''__ibmxl__'' \<and> defd m ''__clang__'' then CXX_XLClang m r
     else if defd m ''__IBMCPP__'' \<and> \<not> defd m ''__COMPILER_VER__'' \<and>
         pp m ''__IBMCPP__'' \<ge> 800 then CXX_XL m r
     else if defd m ''__IBMCPP__'' \<and> \<not> defd m ''__COMPILER_VER__'' \<and>
         pp m ''__IBMCPP__'' < 800 then CXX_VisualAge m r
     else if defd m ''__NVCOMPILER'' then CXX_NVHPC m r
     else if defd m ''__PGI'' then CXX_PGI m r
     else if defd m ''_CRAYC'' then CXX_Cray m r
     else if defd m ''__TI_COMPILER_VERSION__'' then CXX_TI m r
     else if defd m ''__FUJITSU'' \<or> defd m ''__FCC_VERSION'' \<or> defd m ''__fcc_version''
         then CXX_Fujitsu m r
     else if defd m ''__ghs__'' then CXX_GHS m r
     else if defd m ''__SCO_VERSION__'' then CXX_SCO m r
     else if defd m ''__ARMCC_VERSION'' \<and> \<not> defd m ''__clang__'' then CXX_ARMCC m r
     else if defd m ''__clang__'' \<and> defd m ''__apple_build_version__'' then CXX_AppleClang m
         r
     else if defd m ''__clang__'' \<and> defd m ''__ARMCOMPILER_VERSION'' then CXX_ARMClang m r
     else if defd m ''__clang__'' then CXX_Clang m r
     else if defd m ''__GNUC__'' \<or> defd m ''__GNUG__'' then CXX_GNU m r
     else if defd m ''_MSC_VER'' then CXX_MSVC m r
     else if defd m ''__VISUALDSPVERSION__'' \<or> defd m ''__ADSPBLACKFIN__'' \<or>
         defd m ''__ADSPTS__'' \<or> defd m ''__ADSP21000__'' then CXX_ADSP m r
     else if defd m ''__IAR_SYSTEMS_ICC__'' \<or> defd m ''__IAR_SYSTEMS_ICC'' then CXX_IAR m r
     else if defd m ''__hpux'' \<or> defd m ''__hpua'' then CXX_HP_2 m r
     else CXX_unknown m r)"

section \<open>The platform and the architecture\<close>

definition CXX_platform :: "macros \<Rightarrow> string" where
  "CXX_platform m =
     (if defd m ''__linux'' \<or> defd m ''__linux__'' \<or> defd m ''linux'' then ''Linux''
     else if defd m ''__CYGWIN__'' then ''Cygwin''
     else if defd m ''__MINGW32__'' then ''MinGW''
     else if defd m ''__APPLE__'' then ''Darwin''
     else if defd m ''_WIN32'' \<or> defd m ''__WIN32__'' \<or> defd m ''WIN32'' then ''Windows''
     else if defd m ''__FreeBSD__'' \<or> defd m ''__FreeBSD'' then ''FreeBSD''
     else if defd m ''__NetBSD__'' \<or> defd m ''__NetBSD'' then ''NetBSD''
     else if defd m ''__OpenBSD__'' \<or> defd m ''__OPENBSD'' then ''OpenBSD''
     else if defd m ''__sun'' \<or> defd m ''sun'' then ''SunOS''
     else if defd m ''_AIX'' \<or> defd m ''__AIX'' \<or> defd m ''__AIX__'' \<or>
         defd m ''__aix'' \<or> defd m ''__aix__'' then ''AIX''
     else if defd m ''__hpux'' \<or> defd m ''__hpux__'' then ''HP-UX''
     else if defd m ''__HAIKU__'' then ''Haiku''
     else if defd m ''__BeOS'' \<or> defd m ''__BEOS__'' \<or> defd m ''_BEOS'' then ''BeOS''
     else if defd m ''__QNX__'' \<or> defd m ''__QNXNTO__'' then ''QNX''
     else if defd m ''__tru64'' \<or> defd m ''_tru64'' \<or> defd m ''__TRU64__'' then ''Tru64''
     else if defd m ''__riscos'' \<or> defd m ''__riscos__'' then ''RISCos''
     else if defd m ''__sinix'' \<or> defd m ''__sinix__'' \<or> defd m ''__SINIX__'' then
         ''SINIX''
     else if defd m ''__UNIX_SV__'' then ''UNIX_SV''
     else if defd m ''__bsdos__'' then ''BSDOS''
     else if defd m ''_MPRAS'' \<or> defd m ''MPRAS'' then ''MP-RAS''
     else if defd m ''__osf'' \<or> defd m ''__osf__'' then ''OSF1''
     else if defd m ''_SCO_SV'' \<or> defd m ''SCO_SV'' \<or> defd m ''sco_sv'' then ''SCO_SV''
     else if defd m ''__ultrix'' \<or> defd m ''__ultrix__'' \<or> defd m ''_ULTRIX'' then
         ''ULTRIX''
     else if defd m ''__XENIX__'' \<or> defd m ''_XENIX'' \<or> defd m ''XENIX'' then ''Xenix''
     else if defd m ''__WATCOMC__'' then
         (if defd m ''__LINUX__'' then ''Linux''
         else if defd m ''__DOS__'' then ''DOS''
         else if defd m ''__OS2__'' then ''OS2''
         else if defd m ''__WINDOWS__'' then ''Windows3x''
         else if defd m ''__VXWORKS__'' then ''VxWorks''
         else '''')
     else if defd m ''__INTEGRITY'' then
         (if defd m ''INT_178B'' then ''Integrity178''
         else ''Integrity'')
     else '''')"

text \<open>A macro that is spelt out stands in \<open>spell\<close>.\<close>

definition CXX_architecture :: "(string \<Rightarrow> string) \<Rightarrow> macros \<Rightarrow> string" where
  "CXX_architecture spell m =
     (if defd m ''_WIN32'' \<and> defd m ''_MSC_VER'' then
         (if defd m ''_M_IA64'' then ''IA64''
         else if defd m ''_M_ARM64EC'' then ''ARM64EC''
         else if defd m ''_M_X64'' \<or> defd m ''_M_AMD64'' then ''x64''
         else if defd m ''_M_IX86'' then ''X86''
         else if defd m ''_M_ARM64'' then ''ARM64''
         else if defd m ''_M_ARM'' then
             (if pp m ''_M_ARM'' = 4 then ''ARMV4I''
             else if pp m ''_M_ARM'' = 5 then ''ARMV5I''
             else ''ARMV'' @ spell ''_M_ARM'')
         else if defd m ''_M_MIPS'' then ''MIPS''
         else if defd m ''_M_SH'' then ''SHx''
         else '''')
     else if defd m ''__WATCOMC__'' then
         (if defd m ''_M_I86'' then ''I86''
         else if defd m ''_M_IX86'' then ''X86''
         else '''')
     else if defd m ''__IAR_SYSTEMS_ICC__'' \<or> defd m ''__IAR_SYSTEMS_ICC'' then
         (if defd m ''__ICCARM__'' then ''ARM''
         else if defd m ''__ICCRX__'' then ''RX''
         else if defd m ''__ICCRH850__'' then ''RH850''
         else if defd m ''__ICCRL78__'' then ''RL78''
         else if defd m ''__ICCRISCV__'' then ''RISCV''
         else if defd m ''__ICCAVR__'' then ''AVR''
         else if defd m ''__ICC430__'' then ''MSP430''
         else if defd m ''__ICCV850__'' then ''V850''
         else if defd m ''__ICC8051__'' then ''8051''
         else if defd m ''__ICCSTM8__'' then ''STM8''
         else '''')
     else if defd m ''__ghs__'' then
         (if defd m ''__PPC64__'' then ''PPC64''
         else if defd m ''__ppc__'' then ''PPC''
         else if defd m ''__ARM__'' then ''ARM''
         else if defd m ''__x86_64__'' then ''x64''
         else if defd m ''__i386__'' then ''X86''
         else '''')
     else if defd m ''__TI_COMPILER_VERSION__'' then
         (if defd m ''__TI_ARM__'' then ''ARM''
         else if defd m ''__MSP430__'' then ''MSP430''
         else if defd m ''__TMS320C28XX__'' then ''TMS320C28x''
         else if defd m ''__TMS320C6X__'' \<or> defd m ''_TMS320C6X'' then ''TMS320C6x''
         else '''')
     else '''')"

section \<open>The program\<close>

definition CXX_STD :: "macros \<Rightarrow> int" where
  "CXX_STD m =
     (if defd m ''__INTEL_COMPILER'' \<and> defd m ''_MSVC_LANG'' \<and> pp m ''_MSVC_LANG'' < 201403 then
         (if defd m ''__INTEL_CXX11_MODE__'' then
             (if defd m ''__cpp_aggregate_nsdmi'' then 201402 else 201103)
         else 199711)
     else if defd m ''_MSC_VER'' \<and> defd m ''_MSVC_LANG'' then pp m ''_MSVC_LANG''
     else pp m ''__cplusplus'')"

definition CXX_DIALECT :: "macros \<Rightarrow> string" where
  "CXX_DIALECT m =
     (if CXX_STD m > 202002 then ''23''
     else if CXX_STD m > 201703 then ''20''
     else if CXX_STD m \<ge> 201703 then ''17''
     else if CXX_STD m \<ge> 201402 then ''14''
     else if CXX_STD m \<ge> 201103 then ''11''
     else ''98'')"

definition CXX_info :: "(string \<Rightarrow> string) \<Rightarrow> macros \<Rightarrow> objects option" where
  "CXX_info spell m =
     (if \<not> defd m ''__cplusplus'' then None
     else info_objects m (CXX_compiler m nothing_defined) (CXX_platform m) (CXX_architecture spell m)
         (CXX_DIALECT m))"

definition CXX_required :: "macros \<Rightarrow> string list" where
  "CXX_required m = [''info_compiler'', ''info_platform''] @
     required_when_defined m (CXX_compiler m nothing_defined)"

definition CXX_main :: "(string \<Rightarrow> string) \<Rightarrow> macros \<Rightarrow> int \<Rightarrow> int option" where
  "CXX_main spell m argc = do {
     os \<leftarrow> CXX_info spell m;
     require_all os argc (CXX_required m) 0
   }"

end
