(* ===== verification/ProbeProperties.thy ===== *)
theory ProbeProperties
  imports ProbeC ProbeCxx
begin

text \<open>
  What the probes find out.  The digits of a version stand for it; both probes recognise the same
  compilers by the same macros; the compiler of the build is found as the GNU compiler 9.2.1, with
  the dialects that \<open>CMakeCCompiler.cmake\<close> and \<open>CMakeCXXCompiler.cmake\<close> record; and the characters
  \<open>main\<close> adds up lie inside the objects.
\<close>

section \<open>Digits with a base\<close>

definition digits_value :: "int \<Rightarrow> int list \<Rightarrow> int" where
  "digits_value base ds = foldl (\<lambda>a d. base * a + (d - 48)) 0 ds"

locale positional =
  fixes base :: int and width :: nat and digits :: "int \<Rightarrow> int list"
  assumes base: "1 < base"
    and width: "length (digits n) = width"
    and digit: "0 \<le> n \<Longrightarrow> i < width \<Longrightarrow> digits n ! i = 48 + n div base ^ (width - 1 - i) mod base"
begin

lemma value_take:
  assumes "0 \<le> n" "n < base ^ width" "k \<le> width"
  shows "digits_value base (take k (digits n)) = n div base ^ (width - k)"
  using assms(3)
proof (induction k)
  case 0
  then show ?case using assms(1,2) by (simp add: digits_value_def)
next
  case (Suc k)
  let ?q = "n div base ^ (width - Suc k)"
  have step: "width - k = Suc (width - Suc k)" using Suc.prems by simp
  have "digits_value base (take (Suc k) (digits n)) =
      base * digits_value base (take k (digits n)) + (digits n ! k - 48)"
    using Suc.prems by (simp add: digits_value_def take_Suc_conv_app_nth width)
  also have "\<dots> = base * (?q div base) + ?q mod base"
    using Suc digit [OF assms(1), of k] base
    by (simp add: step zdiv_zmult2_eq power_Suc2 del: power_Suc)
  finally show ?case by simp
qed

lemma value_digits: "0 \<le> n \<Longrightarrow> n < base ^ width \<Longrightarrow> digits_value base (digits n) = n"
  using value_take [of n width] by (simp add: width)

lemma digit_bounds: "0 \<le> n \<Longrightarrow> d \<in> set (digits n) \<Longrightarrow> 48 \<le> d \<and> d < 48 + base"
  using digit [of n] base by (auto simp: in_set_conv_nth width)

lemma digits_inj: "0 \<le> a \<Longrightarrow> a < base ^ width \<Longrightarrow> 0 \<le> b \<Longrightarrow> b < base ^ width \<Longrightarrow> digits a = digits b \<Longrightarrow> a = b"
  using value_digits by metis

end

lemma sdiv_nonneg: "0 \<le> n \<Longrightarrow> 0 < d \<Longrightarrow> n sdiv d = n div (d :: int)"
  by (cases "n = 0") (simp_all add: signed_divide_int_def)

lemma smod_nonneg: "0 \<le> n \<Longrightarrow> 0 < d \<Longrightarrow> n smod d = n mod (d :: int)"
  by (cases "n = 0") (simp_all add: signed_modulo_int_def)

lemma less_8_cases: "i < 8 \<Longrightarrow> i \<in> {0, 1, 2, 3, 4, 5, 6, 7 :: nat}"
  by auto

lemma nibble: "drop_bit k n AND 15 = n div 2 ^ k mod (16 :: int)"
  using take_bit_eq_mask [of 4 "drop_bit k n"] by (simp add: mask_numeral take_bit_eq_mod drop_bit_eq_div)

interpretation decimal: positional 10 8 dec_digits
proof
  fix n :: int and i :: nat
  assume "0 \<le> n" "i < 8"
  then show "dec_digits n ! i = 48 + n div 10 ^ (8 - 1 - i) mod 10"
    by (auto dest!: less_8_cases simp: dec_digits_def sdiv_nonneg smod_nonneg pos_imp_zdiv_nonneg_iff)
qed (simp_all add: dec_digits_def)

interpretation hexadecimal: positional 16 8 hex_digits
proof
  fix n :: int and i :: nat
  assume "0 \<le> n" "i < 8"
  then show "hex_digits n ! i = 48 + n div 16 ^ (8 - 1 - i) mod 16"
    using nibble [of 0 n] by (auto dest!: less_8_cases simp: hex_digits_def nibble)
qed (simp_all add: hex_digits_def)

text \<open>
  A version number of at most eight digits can be read back from the characters of \<open>DEC\<close>, which are
  digits; one of 32 bits from those of \<open>HEX\<close>, but a digit from ten on is not the character the
  comment promises.
\<close>

theorem version_round_trip:
  "0 \<le> n \<Longrightarrow> n < 100000000 \<Longrightarrow> DEC (Some n) = Some ds \<Longrightarrow>
     digits_value 10 ds = n \<and> (\<forall>d \<in> set ds. 48 \<le> d \<and> d < 58)"
  using decimal.value_digits [of n] decimal.digit_bounds [of n] by (auto simp: DEC_def)

theorem hex_round_trip:
  "0 \<le> n \<Longrightarrow> n < 4294967296 \<Longrightarrow> HEX (Some n) = Some ds \<Longrightarrow> digits_value 16 ds = n"
  using hexadecimal.value_digits [of n] by (auto simp: HEX_def)

theorem hex_digit_ten: "HEX (Some 0x0A) = Some (chars ''0000000:'')"
  by (simp add: HEX_def hex_digits_def chars_def)

section \<open>The compilers\<close>

text \<open>The macros, besides GNU's own, by which the two cascades tell a compiler before GNU.\<close>

definition other_compilers :: "string list" where
  "other_compilers =
     [''__INTEL_COMPILER'', ''__ICC'', ''__clang__'', ''__INTEL_CLANG_COMPILER'',
     ''__INTEL_LLVM_COMPILER'', ''__PATHCC__'', ''__BORLANDC__'', ''__CODEGEARC_VERSION__'',
     ''__WATCOMC__'', ''__SUNPRO_C'', ''__HP_cc'', ''__DECC'', ''__IBMC__'',
     ''__COMPILER_VER__'', ''__ibmxl__'', ''__NVCOMPILER'', ''__PGI'', ''_CRAYC'',
     ''__TI_COMPILER_VERSION__'', ''__FUJITSU'', ''__FCC_VERSION'', ''__fcc_version'',
     ''__ghs__'', ''__TINYC__'', ''__BCC__'', ''__SCO_VERSION__'', ''__ARMCC_VERSION'',
     ''__apple_build_version__'', ''__ARMCOMPILER_VERSION'', ''__COMO__'', ''__SUNPRO_CC'',
     ''__HP_aCC'', ''__DECCXX'', ''__IBMCPP__'']"

text \<open>The GNU compiler is recognised by its macros once no other compiler is.\<close>

definition gnu_version :: "int \<Rightarrow> int \<Rightarrow> int \<Rightarrow> compiler" where
  "gnu_version a b c = nothing_defined\<lparr>compiler_id := ''GNU'', version_major := Some (DEC (Some a)),
     version_minor := Some (DEC (Some b)), version_patch := Some (DEC (Some c))\<rparr>"

theorem gnu_recognised:
  assumes "\<forall>x \<in> set other_compilers. m x = None"
    and "m ''__GNUC__'' = Some a" "m ''__GNUC_MINOR__'' = Some b" "m ''__GNUC_PATCHLEVEL__'' = Some c"
  shows "C_compiler m nothing_defined = gnu_version a b c"
    and "CXX_compiler m nothing_defined = gnu_version a b c"
  using assms
  by (simp_all add: other_compilers_def C_compiler_def CXX_compiler_def C_GNU_def CXX_GNU_def defd_def
      gnu_version_def nothing_defined_def Let_def)

text \<open>
  The two cascades agree on every compiler, but for the macros that only compilers of one of the
  languages define.
\<close>

definition one_language :: "string list" where
  "one_language = [''__COMO__'', ''__SUNPRO_C'', ''__SUNPRO_CC'', ''__HP_cc'', ''__HP_aCC'', ''__DECC'',
     ''__DECCXX'', ''__IBMC__'', ''__IBMCPP__'', ''__TINYC__'', ''__BCC__'', ''__SDCC_VERSION_MAJOR'',
     ''SDCC'', ''__GNUG__'']"

lemmas same_branches =
  C_Intel_def CXX_Intel_def C_IntelLLVM_def CXX_IntelLLVM_def C_PathScale_def CXX_PathScale_def
  C_Embarcadero_def CXX_Embarcadero_def C_Borland_def CXX_Borland_def C_Watcom_def CXX_Watcom_def
  C_OpenWatcom_def CXX_OpenWatcom_def C_XLClang_def CXX_XLClang_def C_NVHPC_def CXX_NVHPC_def
  C_PGI_def CXX_PGI_def C_Cray_def CXX_Cray_def C_TI_def CXX_TI_def C_Fujitsu_def CXX_Fujitsu_def
  C_GHS_def CXX_GHS_def C_SCO_def CXX_SCO_def C_ARMCC_def CXX_ARMCC_def C_AppleClang_def
  CXX_AppleClang_def C_ARMClang_def CXX_ARMClang_def C_Clang_def CXX_Clang_def C_MSVC_def
  CXX_MSVC_def C_ADSP_def CXX_ADSP_def C_IAR_def CXX_IAR_def C_HP_2_def CXX_HP_2_def
  C_unknown_def CXX_unknown_def

lemma branches_agree:
  "C_Intel m r = CXX_Intel m r" "C_IntelLLVM m r = CXX_IntelLLVM m r" "C_PathScale m r = CXX_PathScale m r"
  "C_Embarcadero m r = CXX_Embarcadero m r" "C_Borland m r = CXX_Borland m r" "C_Watcom m r = CXX_Watcom m r"
  "C_OpenWatcom m r = CXX_OpenWatcom m r" "C_XLClang m r = CXX_XLClang m r" "C_NVHPC m r = CXX_NVHPC m r"
  "C_PGI m r = CXX_PGI m r" "C_Cray m r = CXX_Cray m r" "C_TI m r = CXX_TI m r"
  "C_Fujitsu m r = CXX_Fujitsu m r" "C_GHS m r = CXX_GHS m r" "C_SCO m r = CXX_SCO m r"
  "C_ARMCC m r = CXX_ARMCC m r" "C_AppleClang m r = CXX_AppleClang m r" "C_ARMClang m r = CXX_ARMClang m r"
  "C_Clang m r = CXX_Clang m r" "C_MSVC m r = CXX_MSVC m r" "C_ADSP m r = CXX_ADSP m r"
  "C_IAR m r = CXX_IAR m r" "C_HP_2 m r = CXX_HP_2 m r" "C_unknown m r = CXX_unknown m r"
  unfolding same_branches by (rule refl)+

lemma gnu_agree:
  "\<not> defd m ''__GNUG__'' \<Longrightarrow>
     (if defd m ''__GNUC__'' then C_GNU m r else x) = (if defd m ''__GNUC__'' then CXX_GNU m r else x)"
  by (simp add: C_GNU_def CXX_GNU_def Let_def)

theorem same_compilers:
  assumes "\<forall>x \<in> set one_language. m x = None"
  shows "C_compiler m r = CXX_compiler m r"
proof -
  have absent: "\<not> defd m ''__COMO__''" "\<not> defd m ''__SUNPRO_C''"
      "\<not> defd m ''__SUNPRO_CC''" "\<not> defd m ''__HP_cc''" "\<not> defd m ''__HP_aCC''"
      "\<not> defd m ''__DECC''" "\<not> defd m ''__DECCXX''" "\<not> defd m ''__IBMC__''"
      "\<not> defd m ''__IBMCPP__''" "\<not> defd m ''__TINYC__''" "\<not> defd m ''__BCC__''"
      "\<not> defd m ''__SDCC_VERSION_MAJOR''" "\<not> defd m ''SDCC''"
      "\<not> defd m ''__GNUG__''"
    using assms by (simp_all add: one_language_def defd_def)
  show ?thesis
    by (simp add: C_compiler_def CXX_compiler_def branches_agree absent gnu_agree
        cong: if_cong split del: if_split)
qed

theorem same_platforms:
  "C_platform m = CXX_platform m" "C_architecture spell m = CXX_architecture spell m"
  unfolding C_platform_def CXX_platform_def C_architecture_def CXX_architecture_def by (rule refl)+

section \<open>The compiler of the build\<close>

text \<open>
  The macros of the cross compiler that the probes ask for.  Its identity, version and dialects are
  those of \<open>CMakeCCompiler.cmake\<close> and \<open>CMakeCXXCompiler.cmake\<close>: GNU, 9.2.1, C 11 and C++ 14, with
  no platform and no architecture.
\<close>

definition gcc_macros :: macros where
  "gcc_macros = map_of [(''__GNUC__'', 9), (''__GNUC_MINOR__'', 2), (''__GNUC_PATCHLEVEL__'', 1),
     (''__STDC__'', 1), (''__STDC_VERSION__'', 201710)]"

definition gxx_macros :: macros where
  "gxx_macros = map_of [(''__GNUC__'', 9), (''__GNUC_MINOR__'', 2), (''__GNUC_PATCHLEVEL__'', 1),
     (''__STDC__'', 1), (''__GNUG__'', 9), (''__cplusplus'', 201402)]"

definition gcc_objects :: "string \<Rightarrow> objects" where
  "gcc_objects dialect =
     [(''info_compiler'', literal ''INFO:compiler[GNU]''),
      (''info_version'', literal ''INFO:compiler_version[00000009.00000002.00000001]''),
      (''info_platform'', literal ''INFO:platform[]''),
      (''info_arch'', literal ''INFO:arch[]''),
      (''info_language_dialect_default'', literal (''INFO:dialect_default['' @ dialect @ '']''))]"

lemma gnu_objects:
  "info_objects gcc_macros (gnu_version 9 2 1) [] [] d = Some (gcc_objects d)"
  "info_objects gxx_macros (gnu_version 9 2 1) [] [] d = Some (gcc_objects d)"
  by (simp_all add: info_objects_def info_version_def info_version_internal_def info_simulate_version_def
      version_object_def info_compiler_def info_simulate_def qnxnto_def info_cray_def info_named_def
      gnu_version_def nothing_defined_def gcc_macros_def gxx_macros_def gcc_objects_def defd_def
      DEC_def dec_digits_def sdiv_nonneg smod_nonneg literal_def chars_def)

theorem C_compiler_of_the_build: "C_info spell gcc_macros = Some (gcc_objects ''11'')"
proof -
  have "C_compiler gcc_macros nothing_defined = gnu_version 9 2 1"
    by (rule gnu_recognised) (simp_all add: gcc_macros_def other_compilers_def)
  moreover have "C_platform gcc_macros = []" "C_architecture spell gcc_macros = []"
    by (simp_all add: C_platform_def C_architecture_def defd_def gcc_macros_def)
  ultimately show ?thesis
    by (simp add: C_info_def gnu_objects C_DIALECT_def defd_def pp_def gcc_macros_def [THEN fun_cong])
qed

theorem CXX_compiler_of_the_build: "CXX_info spell gxx_macros = Some (gcc_objects ''14'')"
proof -
  have "CXX_compiler gxx_macros nothing_defined = gnu_version 9 2 1"
    by (rule gnu_recognised) (simp_all add: gxx_macros_def other_compilers_def)
  moreover have "CXX_platform gxx_macros = []" "CXX_architecture spell gxx_macros = []"
    by (simp_all add: CXX_platform_def CXX_architecture_def defd_def gxx_macros_def)
  ultimately show ?thesis
    by (simp add: CXX_info_def gnu_objects CXX_DIALECT_def CXX_STD_def defd_def pp_def gxx_macros_def [THEN fun_cong])
qed

section \<open>Reads of the main functions\<close>

text \<open>A probe keeps its objects: \<open>main\<close> only names objects it has, each of the given length at least.\<close>

locale probe_program =
  fixes info :: "macros \<Rightarrow> objects option" and required :: "macros \<Rightarrow> string list" and shortest :: nat
  assumes kept: "info m = Some os \<Longrightarrow> x \<in> set (required m) \<Longrightarrow> \<exists>s. map_of os x = Some s \<and> shortest \<le> length s"
begin

lemma adds_up:
  assumes "info m = Some os" "0 \<le> argc" "argc < int shortest" "set xs \<subseteq> set (required m)"
  shows "\<exists>n. require_all os argc xs acc = Some n"
  using assms(4)
proof (induction xs arbitrary: acc)
  case (Cons x xs)
  then obtain s where "map_of os x = Some s" "shortest \<le> length s"
    using kept [OF assms(1), of x] by auto
  with Cons assms(2,3) show ?case by (simp add: char_at_def)
qed simp

end

text \<open>The lengths of all objects, and the names that are defined.\<close>

lemma version_object_member:
  "version_object name label first others = Some os \<Longrightarrow> (x, s) \<in> set os \<Longrightarrow> x = name \<and> length label \<le> length s"
  by (auto simp: version_object_def chars_def split: option.splits Option.bind_splits)

lemma version_object_name:
  "version_object name label first others = Some os \<Longrightarrow> first \<noteq> None \<Longrightarrow> name \<in> fst ` set os"
  by (auto simp: version_object_def split: Option.bind_splits)

lemmas version_infos = info_version_def info_version_internal_def info_simulate_version_def

lemma info_objects_parts:
  assumes "info_objects m r p a d = Some os"
  obtains v i s where "info_version r = Some v" "info_version_internal r = Some i" "info_simulate_version r = Some s"
    "os = info_compiler r @ info_simulate r @ qnxnto m @ info_cray m @ v @ i @ s @
      info_named ''info_platform'' ''platform'' p @ info_named ''info_arch'' ''arch'' a @
      info_named ''info_language_dialect_default'' ''dialect_default'' d"
  using assms by (auto simp: info_objects_def split: Option.bind_splits)

lemma version_lengths:
  "info_version r = Some v \<Longrightarrow> (x, t) \<in> set v \<Longrightarrow> 16 \<le> length t"
  "info_version_internal r = Some v \<Longrightarrow> (x, t) \<in> set v \<Longrightarrow> 16 \<le> length t"
  "info_simulate_version r = Some v \<Longrightarrow> (x, t) \<in> set v \<Longrightarrow> 16 \<le> length t"
  by (auto simp: version_infos dest: version_object_member)

lemma literal_lengths:
  "(x, t) \<in> set (info_compiler r) \<Longrightarrow> 16 \<le> length t"
  "(x, t) \<in> set (info_simulate r) \<Longrightarrow> 16 \<le> length t"
  "(x, t) \<in> set (info_cray m) \<Longrightarrow> 16 \<le> length t"
  "(x, t) \<in> set (qnxnto m) \<Longrightarrow> x = ''qnxnto''"
  "(x, t) \<in> set (info_named n l w) \<Longrightarrow> x = n \<and> 8 + length l \<le> length t"
  by (auto simp: info_compiler_def info_simulate_def info_cray_def qnxnto_def info_named_def literal_def chars_def
      split: if_splits option.splits)

lemma object_lengths:
  assumes "info_objects m r p a d = Some os" "(x, t) \<in> set os" "x \<noteq> ''qnxnto''"
  shows "(if x = ''info_arch'' then 12 else 16) \<le> length t"
proof -
  obtain v i s where
    "info_version r = Some v" "info_version_internal r = Some i" "info_simulate_version r = Some s"
    and os: "os = info_compiler r @ info_simulate r @ qnxnto m @ info_cray m @ v @ i @ s @
      info_named ''info_platform'' ''platform'' p @ info_named ''info_arch'' ''arch'' a @
      info_named ''info_language_dialect_default'' ''dialect_default'' d"
    using info_objects_parts [OF assms(1)] by blast
  note parts = version_lengths(1) [OF this(1)] version_lengths(2) [OF this(2)] version_lengths(3) [OF this(3)]
  from assms(2,3) have "16 \<le> length t \<or> x = ''info_arch'' \<and> 12 \<le> length t"
    unfolding os set_append Un_iff by (elim disjE) (auto dest: parts literal_lengths)
  then show ?thesis by auto
qed

lemma required_names:
  "set (required_when_defined m r) =
     (if version_major r \<noteq> None then {''info_version''} else {}) \<union>
     (if version_internal r \<noteq> None then {''info_version_internal''} else {}) \<union>
     (if simulate_id r \<noteq> None then {''info_simulate''} else {}) \<union>
     (if simulate_major r \<noteq> None then {''info_simulate_version''} else {}) \<union>
     (if defd m ''__CRAYXT_COMPUTE_LINUX_TARGET'' then {''info_cray''} else {}) \<union>
     {''info_language_dialect_default''}"
  by (simp only: required_when_defined_def set_append if_distrib [of set] list.set Un_assoc)

lemma required_no_arch: "x \<in> set (required_when_defined m r) \<Longrightarrow> x \<noteq> ''info_arch'' \<and> x \<noteq> ''qnxnto''"
  unfolding required_names by (elim UnE) (simp_all split: if_splits)

lemma if_subset: "(c \<Longrightarrow> a \<in> S) \<Longrightarrow> (if c then {a} else {}) \<subseteq> S"
  by simp

lemma required_defined:
  assumes "info_objects m r p a d = Some os"
  shows "set (required_when_defined m r) \<union> {''info_compiler'', ''info_platform'', ''info_arch''} \<subseteq> fst ` set os"
proof -
  obtain v i s where "info_version r = Some v" "info_version_internal r = Some i" "info_simulate_version r = Some s"
    and os: "os = info_compiler r @ info_simulate r @ qnxnto m @ info_cray m @ v @ i @ s @
      info_named ''info_platform'' ''platform'' p @ info_named ''info_arch'' ''arch'' a @
      info_named ''info_language_dialect_default'' ''dialect_default'' d"
    using info_objects_parts [OF assms] by blast
  then have "version_major r \<noteq> None \<longrightarrow> ''info_version'' \<in> fst ` set v"
    "version_internal r \<noteq> None \<longrightarrow> ''info_version_internal'' \<in> fst ` set i"
    "simulate_major r \<noteq> None \<longrightarrow> ''info_simulate_version'' \<in> fst ` set s"
    unfolding version_infos by (blast intro: version_object_name)+
  moreover have "simulate_id r \<noteq> None \<longrightarrow> ''info_simulate'' \<in> fst ` set (info_simulate r)"
    "defd m ''__CRAYXT_COMPUTE_LINUX_TARGET'' \<longrightarrow> ''info_cray'' \<in> fst ` set (info_cray m)"
    "''info_compiler'' \<in> fst ` set (info_compiler r)" "n \<in> fst ` set (info_named n l w)" for n l w
    by (auto simp: info_simulate_def info_cray_def info_compiler_def info_named_def)
  ultimately show ?thesis
    unfolding os set_append image_Un required_names by (intro Un_least if_subset insert_subsetI) simp_all
qed

lemma object_kept:
  assumes "info_objects m r p a d = Some os"
    and "x \<in> set (required_when_defined m r) \<union> {''info_compiler'', ''info_platform'', ''info_arch''}"
  shows "\<exists>t. map_of os x = Some t \<and> (if x = ''info_arch'' then 12 else 16) \<le> length t"
proof -
  have "x \<in> fst ` set os" using required_defined [OF assms(1)] assms(2) by blast
  then obtain t where t: "map_of os x = Some t"
    by (metis map_of_eq_None_iff not_Some_eq)
  have "x \<noteq> ''qnxnto''" using assms(2) by (auto dest: required_no_arch)
  then show ?thesis using object_lengths [OF assms(1) map_of_SomeD [OF t]] t by blast
qed

interpretation C_probe: probe_program "C_info spell" C_required 12
proof
  fix m os x
  assume "C_info spell m = Some os" "x \<in> set (C_required m)"
  then show "\<exists>s. map_of os x = Some s \<and> 12 \<le> length s"
    using object_kept [of m "C_compiler m nothing_defined" "C_platform m" "C_architecture spell m" "C_DIALECT m" os x]
    by (auto simp: C_info_def C_required_def split: if_splits)
qed

interpretation CXX_probe: probe_program "CXX_info spell" CXX_required 16
proof
  fix m os x
  assume "CXX_info spell m = Some os" "x \<in> set (CXX_required m)"
  then show "\<exists>s. map_of os x = Some s \<and> 16 \<le> length s"
    using object_kept [of m "CXX_compiler m nothing_defined" "CXX_platform m" "CXX_architecture spell m" "CXX_DIALECT m" os x]
    by (auto simp: CXX_info_def CXX_required_def dest: required_no_arch split: if_splits)
qed

theorem C_main_inside:
  assumes "C_info spell m \<noteq> None" "0 \<le> argc" "argc < 12"
  shows "C_main spell m argc \<noteq> None"
  using assms C_probe.adds_up [of spell m _ argc "C_required m" 0] by (auto simp: C_main_def)

theorem CXX_main_inside:
  assumes "CXX_info spell m \<noteq> None" "0 \<le> argc" "argc < 16"
  shows "CXX_main spell m argc \<noteq> None"
  using assms CXX_probe.adds_up [of spell m _ argc "CXX_required m" 0] by (auto simp: CXX_main_def)

end
