(* ===== verification/SysTracing.thy ===== *)
theory SysTracing
  imports SysDispatch
begin

text \<open>
  The tracing macros of \<open>syscalls/*.h\<close>.  With \<open>CONFIG_TRACING_SYSCALL\<close> a call of a system call is a
  call of the macro of the same name, which puts \<open>sys_port_trace_syscall_enter\<close> before it and
  \<open>sys_port_trace_syscall_exit\<close> behind it.  The two hooks are Zephyr's and may be macros
  themselves, so they are arguments of the model.  The headers \<open>kernel.h\<close> and \<open>errno_private.h\<close> have no
  such macros.
\<close>

section \<open>The macros\<close>

text \<open>
  A macro without a value is a \<open>do ... while(false)\<close> of three statements; one with a value is a
  statement expression that keeps the value in its local variable \<open>retval\<close>.
\<close>

datatype trace_stmt =
    Trace_enter id string "string list"
  | Call string "string list"
  | Set_retval string "string list"
  | Trace_exit id string "string list"

record trace_macro =
  macro_name :: string
  macro_params :: "string list"
  macro_type :: "string option"
  macro_body :: "trace_stmt list"

definition value_macro :: "id \<Rightarrow> string \<Rightarrow> string \<Rightarrow> string list \<Rightarrow> trace_macro" where
  "value_macro k ty n ps = \<lparr>macro_name = n, macro_params = ps, macro_type = Some ty,
     macro_body = [Trace_enter k n ps, Set_retval n ps, Trace_exit k n (ps @ [''retval''])]\<rparr>"

definition void_macro :: "id \<Rightarrow> string \<Rightarrow> string list \<Rightarrow> trace_macro" where
  "void_macro k n ps = \<lparr>macro_name = n, macro_params = ps, macro_type = None,
     macro_body = [Trace_enter k n ps, Call n ps, Trace_exit k n ps]\<rparr>"

subsection \<open>\<open>adc.h\<close>\<close>

definition trace_adc_channel_setup :: trace_macro where
  "trace_adc_channel_setup =
     value_macro K_SYSCALL_ADC_CHANNEL_SETUP ''int'' ''adc_channel_setup'' [''dev'', ''channel_cfg'']"

definition trace_adc_read :: trace_macro where
  "trace_adc_read = value_macro K_SYSCALL_ADC_READ ''int'' ''adc_read'' [''dev'', ''sequence'']"

definition trace_adc_read_async :: trace_macro where
  "trace_adc_read_async =
     value_macro K_SYSCALL_ADC_READ_ASYNC ''int'' ''adc_read_async'' [''dev'', ''sequence'', ''async'']"

subsection \<open>\<open>atomic_c.h\<close>\<close>

definition trace_atomic_cas :: trace_macro where
  "trace_atomic_cas =
     value_macro K_SYSCALL_ATOMIC_CAS ''bool'' ''atomic_cas''
       [''target'', ''old_value'', ''new_value'']"

definition trace_atomic_ptr_cas :: trace_macro where
  "trace_atomic_ptr_cas =
     value_macro K_SYSCALL_ATOMIC_PTR_CAS ''bool'' ''atomic_ptr_cas''
       [''target'', ''old_value'', ''new_value'']"

definition trace_atomic_add :: trace_macro where
  "trace_atomic_add =
     value_macro K_SYSCALL_ATOMIC_ADD ''atomic_val_t'' ''atomic_add'' [''target'', ''value'']"

definition trace_atomic_sub :: trace_macro where
  "trace_atomic_sub =
     value_macro K_SYSCALL_ATOMIC_SUB ''atomic_val_t'' ''atomic_sub'' [''target'', ''value'']"

definition trace_atomic_set :: trace_macro where
  "trace_atomic_set =
     value_macro K_SYSCALL_ATOMIC_SET ''atomic_val_t'' ''atomic_set'' [''target'', ''value'']"

definition trace_atomic_ptr_set :: trace_macro where
  "trace_atomic_ptr_set =
     value_macro K_SYSCALL_ATOMIC_PTR_SET ''atomic_ptr_val_t'' ''atomic_ptr_set''
       [''target'', ''value'']"

definition trace_atomic_or :: trace_macro where
  "trace_atomic_or =
     value_macro K_SYSCALL_ATOMIC_OR ''atomic_val_t'' ''atomic_or'' [''target'', ''value'']"

definition trace_atomic_xor :: trace_macro where
  "trace_atomic_xor =
     value_macro K_SYSCALL_ATOMIC_XOR ''atomic_val_t'' ''atomic_xor'' [''target'', ''value'']"

definition trace_atomic_and :: trace_macro where
  "trace_atomic_and =
     value_macro K_SYSCALL_ATOMIC_AND ''atomic_val_t'' ''atomic_and'' [''target'', ''value'']"

definition trace_atomic_nand :: trace_macro where
  "trace_atomic_nand =
     value_macro K_SYSCALL_ATOMIC_NAND ''atomic_val_t'' ''atomic_nand'' [''target'', ''value'']"

subsection \<open>\<open>bbram.h\<close>\<close>

definition trace_bbram_check_invalid :: trace_macro where
  "trace_bbram_check_invalid =
     value_macro K_SYSCALL_BBRAM_CHECK_INVALID ''int'' ''bbram_check_invalid'' [''dev'']"

definition trace_bbram_check_standby_power :: trace_macro where
  "trace_bbram_check_standby_power =
     value_macro K_SYSCALL_BBRAM_CHECK_STANDBY_POWER ''int'' ''bbram_check_standby_power'' [''dev'']"

definition trace_bbram_check_power :: trace_macro where
  "trace_bbram_check_power =
     value_macro K_SYSCALL_BBRAM_CHECK_POWER ''int'' ''bbram_check_power'' [''dev'']"

definition trace_bbram_get_size :: trace_macro where
  "trace_bbram_get_size =
     value_macro K_SYSCALL_BBRAM_GET_SIZE ''int'' ''bbram_get_size'' [''dev'', ''size'']"

definition trace_bbram_read :: trace_macro where
  "trace_bbram_read =
     value_macro K_SYSCALL_BBRAM_READ ''int'' ''bbram_read'' [''dev'', ''offset'', ''size'', ''data'']"

definition trace_bbram_write :: trace_macro where
  "trace_bbram_write =
     value_macro K_SYSCALL_BBRAM_WRITE ''int'' ''bbram_write''
       [''dev'', ''offset'', ''size'', ''data'']"

subsection \<open>\<open>cache.h\<close>\<close>

definition trace_sys_cache_data_all :: trace_macro where
  "trace_sys_cache_data_all =
     value_macro K_SYSCALL_SYS_CACHE_DATA_ALL ''int'' ''sys_cache_data_all'' [''op'']"

definition trace_sys_cache_data_range :: trace_macro where
  "trace_sys_cache_data_range =
     value_macro K_SYSCALL_SYS_CACHE_DATA_RANGE ''int'' ''sys_cache_data_range''
       [''addr'', ''size'', ''op'']"

definition trace_sys_cache_instr_all :: trace_macro where
  "trace_sys_cache_instr_all =
     value_macro K_SYSCALL_SYS_CACHE_INSTR_ALL ''int'' ''sys_cache_instr_all'' [''op'']"

definition trace_sys_cache_instr_range :: trace_macro where
  "trace_sys_cache_instr_range =
     value_macro K_SYSCALL_SYS_CACHE_INSTR_RANGE ''int'' ''sys_cache_instr_range''
       [''addr'', ''size'', ''op'']"

subsection \<open>\<open>can.h\<close>\<close>

definition trace_can_get_core_clock :: trace_macro where
  "trace_can_get_core_clock =
     value_macro K_SYSCALL_CAN_GET_CORE_CLOCK ''int'' ''can_get_core_clock'' [''dev'', ''rate'']"

definition trace_can_set_timing :: trace_macro where
  "trace_can_set_timing =
     value_macro K_SYSCALL_CAN_SET_TIMING ''int'' ''can_set_timing''
       [''dev'', ''timing'', ''timing_data'']"

definition trace_can_set_mode :: trace_macro where
  "trace_can_set_mode =
     value_macro K_SYSCALL_CAN_SET_MODE ''int'' ''can_set_mode'' [''dev'', ''mode'']"

definition trace_can_send :: trace_macro where
  "trace_can_send =
     value_macro K_SYSCALL_CAN_SEND ''int'' ''can_send''
       [''dev'', ''frame'', ''timeout'', ''callback'', ''user_data'']"

definition trace_can_attach_msgq :: trace_macro where
  "trace_can_attach_msgq =
     value_macro K_SYSCALL_CAN_ATTACH_MSGQ ''int'' ''can_attach_msgq'' [''dev'', ''msg_q'', ''filter'']"

definition trace_can_detach :: trace_macro where
  "trace_can_detach = void_macro K_SYSCALL_CAN_DETACH ''can_detach'' [''dev'', ''filter_id'']"

definition trace_can_get_max_filters :: trace_macro where
  "trace_can_get_max_filters =
     value_macro K_SYSCALL_CAN_GET_MAX_FILTERS ''int'' ''can_get_max_filters'' [''dev'', ''id_type'']"

definition trace_can_get_state :: trace_macro where
  "trace_can_get_state =
     value_macro K_SYSCALL_CAN_GET_STATE ''enum can_state'' ''can_get_state'' [''dev'', ''err_cnt'']"

definition trace_can_recover :: trace_macro where
  "trace_can_recover =
     value_macro K_SYSCALL_CAN_RECOVER ''int'' ''can_recover'' [''dev'', ''timeout'']"

subsection \<open>\<open>counter.h\<close>\<close>

definition trace_counter_is_counting_up :: trace_macro where
  "trace_counter_is_counting_up =
     value_macro K_SYSCALL_COUNTER_IS_COUNTING_UP ''bool'' ''counter_is_counting_up'' [''dev'']"

definition trace_counter_get_num_of_channels :: trace_macro where
  "trace_counter_get_num_of_channels =
     value_macro K_SYSCALL_COUNTER_GET_NUM_OF_CHANNELS ''uint8_t'' ''counter_get_num_of_channels''
       [''dev'']"

definition trace_counter_get_frequency :: trace_macro where
  "trace_counter_get_frequency =
     value_macro K_SYSCALL_COUNTER_GET_FREQUENCY ''uint32_t'' ''counter_get_frequency'' [''dev'']"

definition trace_counter_us_to_ticks :: trace_macro where
  "trace_counter_us_to_ticks =
     value_macro K_SYSCALL_COUNTER_US_TO_TICKS ''uint32_t'' ''counter_us_to_ticks'' [''dev'', ''us'']"

definition trace_counter_ticks_to_us :: trace_macro where
  "trace_counter_ticks_to_us =
     value_macro K_SYSCALL_COUNTER_TICKS_TO_US ''uint64_t'' ''counter_ticks_to_us''
       [''dev'', ''ticks'']"

definition trace_counter_get_max_top_value :: trace_macro where
  "trace_counter_get_max_top_value =
     value_macro K_SYSCALL_COUNTER_GET_MAX_TOP_VALUE ''uint32_t'' ''counter_get_max_top_value''
       [''dev'']"

definition trace_counter_start :: trace_macro where
  "trace_counter_start = value_macro K_SYSCALL_COUNTER_START ''int'' ''counter_start'' [''dev'']"

definition trace_counter_stop :: trace_macro where
  "trace_counter_stop = value_macro K_SYSCALL_COUNTER_STOP ''int'' ''counter_stop'' [''dev'']"

definition trace_counter_get_value :: trace_macro where
  "trace_counter_get_value =
     value_macro K_SYSCALL_COUNTER_GET_VALUE ''int'' ''counter_get_value'' [''dev'', ''ticks'']"

definition trace_counter_set_channel_alarm :: trace_macro where
  "trace_counter_set_channel_alarm =
     value_macro K_SYSCALL_COUNTER_SET_CHANNEL_ALARM ''int'' ''counter_set_channel_alarm''
       [''dev'', ''chan_id'', ''alarm_cfg'']"

definition trace_counter_cancel_channel_alarm :: trace_macro where
  "trace_counter_cancel_channel_alarm =
     value_macro K_SYSCALL_COUNTER_CANCEL_CHANNEL_ALARM ''int'' ''counter_cancel_channel_alarm''
       [''dev'', ''chan_id'']"

definition trace_counter_set_top_value :: trace_macro where
  "trace_counter_set_top_value =
     value_macro K_SYSCALL_COUNTER_SET_TOP_VALUE ''int'' ''counter_set_top_value'' [''dev'', ''cfg'']"

definition trace_counter_get_pending_int :: trace_macro where
  "trace_counter_get_pending_int =
     value_macro K_SYSCALL_COUNTER_GET_PENDING_INT ''int'' ''counter_get_pending_int'' [''dev'']"

definition trace_counter_get_top_value :: trace_macro where
  "trace_counter_get_top_value =
     value_macro K_SYSCALL_COUNTER_GET_TOP_VALUE ''uint32_t'' ''counter_get_top_value'' [''dev'']"

definition trace_counter_set_guard_period :: trace_macro where
  "trace_counter_set_guard_period =
     value_macro K_SYSCALL_COUNTER_SET_GUARD_PERIOD ''int'' ''counter_set_guard_period''
       [''dev'', ''ticks'', ''flags'']"

definition trace_counter_get_guard_period :: trace_macro where
  "trace_counter_get_guard_period =
     value_macro K_SYSCALL_COUNTER_GET_GUARD_PERIOD ''uint32_t'' ''counter_get_guard_period''
       [''dev'', ''flags'']"

subsection \<open>\<open>dac.h\<close>\<close>

definition trace_dac_channel_setup :: trace_macro where
  "trace_dac_channel_setup =
     value_macro K_SYSCALL_DAC_CHANNEL_SETUP ''int'' ''dac_channel_setup'' [''dev'', ''channel_cfg'']"

definition trace_dac_write_value :: trace_macro where
  "trace_dac_write_value =
     value_macro K_SYSCALL_DAC_WRITE_VALUE ''int'' ''dac_write_value''
       [''dev'', ''channel'', ''value'']"

subsection \<open>\<open>device.h\<close>\<close>

definition trace_device_get_binding :: trace_macro where
  "trace_device_get_binding =
     value_macro K_SYSCALL_DEVICE_GET_BINDING ''const struct device *'' ''device_get_binding''
       [''name'']"

definition trace_device_usable_check :: trace_macro where
  "trace_device_usable_check =
     value_macro K_SYSCALL_DEVICE_USABLE_CHECK ''int'' ''device_usable_check'' [''dev'']"

subsection \<open>\<open>dma.h\<close>\<close>

definition trace_dma_start :: trace_macro where
  "trace_dma_start = value_macro K_SYSCALL_DMA_START ''int'' ''dma_start'' [''dev'', ''channel'']"

definition trace_dma_stop :: trace_macro where
  "trace_dma_stop = value_macro K_SYSCALL_DMA_STOP ''int'' ''dma_stop'' [''dev'', ''channel'']"

definition trace_dma_request_channel :: trace_macro where
  "trace_dma_request_channel =
     value_macro K_SYSCALL_DMA_REQUEST_CHANNEL ''int'' ''dma_request_channel''
       [''dev'', ''filter_param'']"

definition trace_dma_release_channel :: trace_macro where
  "trace_dma_release_channel =
     void_macro K_SYSCALL_DMA_RELEASE_CHANNEL ''dma_release_channel'' [''dev'', ''channel'']"

definition trace_dma_chan_filter :: trace_macro where
  "trace_dma_chan_filter =
     value_macro K_SYSCALL_DMA_CHAN_FILTER ''int'' ''dma_chan_filter''
       [''dev'', ''channel'', ''filter_param'']"

subsection \<open>\<open>ec_host_cmd_periph.h\<close>\<close>

definition trace_ec_host_cmd_periph_init :: trace_macro where
  "trace_ec_host_cmd_periph_init =
     value_macro K_SYSCALL_EC_HOST_CMD_PERIPH_INIT ''int'' ''ec_host_cmd_periph_init''
       [''dev'', ''rx_ctx'']"

definition trace_ec_host_cmd_periph_send :: trace_macro where
  "trace_ec_host_cmd_periph_send =
     value_macro K_SYSCALL_EC_HOST_CMD_PERIPH_SEND ''int'' ''ec_host_cmd_periph_send''
       [''dev'', ''tx_buf'']"

subsection \<open>\<open>eeprom.h\<close>\<close>

definition trace_eeprom_read :: trace_macro where
  "trace_eeprom_read =
     value_macro K_SYSCALL_EEPROM_READ ''int'' ''eeprom_read'' [''dev'', ''offset'', ''data'', ''len'']"

definition trace_eeprom_write :: trace_macro where
  "trace_eeprom_write =
     value_macro K_SYSCALL_EEPROM_WRITE ''int'' ''eeprom_write''
       [''dev'', ''offset'', ''data'', ''len'']"

definition trace_eeprom_get_size :: trace_macro where
  "trace_eeprom_get_size =
     value_macro K_SYSCALL_EEPROM_GET_SIZE ''size_t'' ''eeprom_get_size'' [''dev'']"

subsection \<open>\<open>entropy.h\<close>\<close>

definition trace_entropy_get_entropy :: trace_macro where
  "trace_entropy_get_entropy =
     value_macro K_SYSCALL_ENTROPY_GET_ENTROPY ''int'' ''entropy_get_entropy''
       [''dev'', ''buffer'', ''length'']"

subsection \<open>\<open>error.h\<close>\<close>

definition trace_user_fault :: trace_macro where
  "trace_user_fault = void_macro K_SYSCALL_USER_FAULT ''user_fault'' [''reason'']"

subsection \<open>\<open>espi.h\<close>\<close>

definition trace_espi_config :: trace_macro where
  "trace_espi_config = value_macro K_SYSCALL_ESPI_CONFIG ''int'' ''espi_config'' [''dev'', ''cfg'']"

definition trace_espi_get_channel_status :: trace_macro where
  "trace_espi_get_channel_status =
     value_macro K_SYSCALL_ESPI_GET_CHANNEL_STATUS ''bool'' ''espi_get_channel_status''
       [''dev'', ''ch'']"

definition trace_espi_read_request :: trace_macro where
  "trace_espi_read_request =
     value_macro K_SYSCALL_ESPI_READ_REQUEST ''int'' ''espi_read_request'' [''dev'', ''req'']"

definition trace_espi_write_request :: trace_macro where
  "trace_espi_write_request =
     value_macro K_SYSCALL_ESPI_WRITE_REQUEST ''int'' ''espi_write_request'' [''dev'', ''req'']"

definition trace_espi_read_lpc_request :: trace_macro where
  "trace_espi_read_lpc_request =
     value_macro K_SYSCALL_ESPI_READ_LPC_REQUEST ''int'' ''espi_read_lpc_request''
       [''dev'', ''op'', ''data'']"

definition trace_espi_write_lpc_request :: trace_macro where
  "trace_espi_write_lpc_request =
     value_macro K_SYSCALL_ESPI_WRITE_LPC_REQUEST ''int'' ''espi_write_lpc_request''
       [''dev'', ''op'', ''data'']"

definition trace_espi_send_vwire :: trace_macro where
  "trace_espi_send_vwire =
     value_macro K_SYSCALL_ESPI_SEND_VWIRE ''int'' ''espi_send_vwire'' [''dev'', ''signal'', ''level'']"

definition trace_espi_receive_vwire :: trace_macro where
  "trace_espi_receive_vwire =
     value_macro K_SYSCALL_ESPI_RECEIVE_VWIRE ''int'' ''espi_receive_vwire''
       [''dev'', ''signal'', ''level'']"

definition trace_espi_send_oob :: trace_macro where
  "trace_espi_send_oob =
     value_macro K_SYSCALL_ESPI_SEND_OOB ''int'' ''espi_send_oob'' [''dev'', ''pckt'']"

definition trace_espi_receive_oob :: trace_macro where
  "trace_espi_receive_oob =
     value_macro K_SYSCALL_ESPI_RECEIVE_OOB ''int'' ''espi_receive_oob'' [''dev'', ''pckt'']"

definition trace_espi_read_flash :: trace_macro where
  "trace_espi_read_flash =
     value_macro K_SYSCALL_ESPI_READ_FLASH ''int'' ''espi_read_flash'' [''dev'', ''pckt'']"

definition trace_espi_write_flash :: trace_macro where
  "trace_espi_write_flash =
     value_macro K_SYSCALL_ESPI_WRITE_FLASH ''int'' ''espi_write_flash'' [''dev'', ''pckt'']"

definition trace_espi_flash_erase :: trace_macro where
  "trace_espi_flash_erase =
     value_macro K_SYSCALL_ESPI_FLASH_ERASE ''int'' ''espi_flash_erase'' [''dev'', ''pckt'']"

subsection \<open>\<open>espi_saf.h\<close>\<close>

definition trace_espi_saf_config :: trace_macro where
  "trace_espi_saf_config =
     value_macro K_SYSCALL_ESPI_SAF_CONFIG ''int'' ''espi_saf_config'' [''dev'', ''cfg'']"

definition trace_espi_saf_set_protection_regions :: trace_macro where
  "trace_espi_saf_set_protection_regions =
     value_macro K_SYSCALL_ESPI_SAF_SET_PROTECTION_REGIONS ''int'' ''espi_saf_set_protection_regions''
       [''dev'', ''pr'']"

definition trace_espi_saf_activate :: trace_macro where
  "trace_espi_saf_activate =
     value_macro K_SYSCALL_ESPI_SAF_ACTIVATE ''int'' ''espi_saf_activate'' [''dev'']"

definition trace_espi_saf_get_channel_status :: trace_macro where
  "trace_espi_saf_get_channel_status =
     value_macro K_SYSCALL_ESPI_SAF_GET_CHANNEL_STATUS ''bool'' ''espi_saf_get_channel_status''
       [''dev'']"

definition trace_espi_saf_flash_read :: trace_macro where
  "trace_espi_saf_flash_read =
     value_macro K_SYSCALL_ESPI_SAF_FLASH_READ ''int'' ''espi_saf_flash_read'' [''dev'', ''pckt'']"

definition trace_espi_saf_flash_write :: trace_macro where
  "trace_espi_saf_flash_write =
     value_macro K_SYSCALL_ESPI_SAF_FLASH_WRITE ''int'' ''espi_saf_flash_write'' [''dev'', ''pckt'']"

definition trace_espi_saf_flash_erase :: trace_macro where
  "trace_espi_saf_flash_erase =
     value_macro K_SYSCALL_ESPI_SAF_FLASH_ERASE ''int'' ''espi_saf_flash_erase'' [''dev'', ''pckt'']"

subsection \<open>\<open>ethernet.h\<close>\<close>

definition trace_net_eth_get_ptp_clock_by_index :: trace_macro where
  "trace_net_eth_get_ptp_clock_by_index =
     value_macro K_SYSCALL_NET_ETH_GET_PTP_CLOCK_BY_INDEX ''const struct device *'' ''net_eth_get_ptp_clock_by_index''
       [''index'']"

subsection \<open>\<open>flash.h\<close>\<close>

definition trace_flash_read :: trace_macro where
  "trace_flash_read =
     value_macro K_SYSCALL_FLASH_READ ''int'' ''flash_read'' [''dev'', ''offset'', ''data'', ''len'']"

definition trace_flash_write :: trace_macro where
  "trace_flash_write =
     value_macro K_SYSCALL_FLASH_WRITE ''int'' ''flash_write'' [''dev'', ''offset'', ''data'', ''len'']"

definition trace_flash_erase :: trace_macro where
  "trace_flash_erase =
     value_macro K_SYSCALL_FLASH_ERASE ''int'' ''flash_erase'' [''dev'', ''offset'', ''size'']"

definition trace_flash_write_protection_set :: trace_macro where
  "trace_flash_write_protection_set =
     value_macro K_SYSCALL_FLASH_WRITE_PROTECTION_SET ''int'' ''flash_write_protection_set''
       [''dev'', ''enable'']"

definition trace_flash_get_page_info_by_offs :: trace_macro where
  "trace_flash_get_page_info_by_offs =
     value_macro K_SYSCALL_FLASH_GET_PAGE_INFO_BY_OFFS ''int'' ''flash_get_page_info_by_offs''
       [''dev'', ''offset'', ''info'']"

definition trace_flash_get_page_info_by_idx :: trace_macro where
  "trace_flash_get_page_info_by_idx =
     value_macro K_SYSCALL_FLASH_GET_PAGE_INFO_BY_IDX ''int'' ''flash_get_page_info_by_idx''
       [''dev'', ''page_index'', ''info'']"

definition trace_flash_get_page_count :: trace_macro where
  "trace_flash_get_page_count =
     value_macro K_SYSCALL_FLASH_GET_PAGE_COUNT ''size_t'' ''flash_get_page_count'' [''dev'']"

definition trace_flash_sfdp_read :: trace_macro where
  "trace_flash_sfdp_read =
     value_macro K_SYSCALL_FLASH_SFDP_READ ''int'' ''flash_sfdp_read''
       [''dev'', ''offset'', ''data'', ''len'']"

definition trace_flash_read_jedec_id :: trace_macro where
  "trace_flash_read_jedec_id =
     value_macro K_SYSCALL_FLASH_READ_JEDEC_ID ''int'' ''flash_read_jedec_id'' [''dev'', ''id'']"

definition trace_flash_get_write_block_size :: trace_macro where
  "trace_flash_get_write_block_size =
     value_macro K_SYSCALL_FLASH_GET_WRITE_BLOCK_SIZE ''size_t'' ''flash_get_write_block_size''
       [''dev'']"

definition trace_flash_get_parameters :: trace_macro where
  "trace_flash_get_parameters =
     value_macro K_SYSCALL_FLASH_GET_PARAMETERS ''const struct flash_parameters *'' ''flash_get_parameters''
       [''dev'']"

subsection \<open>\<open>flash_simulator.h\<close>\<close>

definition trace_flash_simulator_get_memory :: trace_macro where
  "trace_flash_simulator_get_memory =
     value_macro K_SYSCALL_FLASH_SIMULATOR_GET_MEMORY ''void *'' ''flash_simulator_get_memory''
       [''dev'', ''mock_size'']"

subsection \<open>\<open>gpio.h\<close>\<close>

definition trace_gpio_pin_interrupt_configure :: trace_macro where
  "trace_gpio_pin_interrupt_configure =
     value_macro K_SYSCALL_GPIO_PIN_INTERRUPT_CONFIGURE ''int'' ''gpio_pin_interrupt_configure''
       [''port'', ''pin'', ''flags'']"

definition trace_gpio_pin_configure :: trace_macro where
  "trace_gpio_pin_configure =
     value_macro K_SYSCALL_GPIO_PIN_CONFIGURE ''int'' ''gpio_pin_configure''
       [''port'', ''pin'', ''flags'']"

definition trace_gpio_port_get_raw :: trace_macro where
  "trace_gpio_port_get_raw =
     value_macro K_SYSCALL_GPIO_PORT_GET_RAW ''int'' ''gpio_port_get_raw'' [''port'', ''value'']"

definition trace_gpio_port_set_masked_raw :: trace_macro where
  "trace_gpio_port_set_masked_raw =
     value_macro K_SYSCALL_GPIO_PORT_SET_MASKED_RAW ''int'' ''gpio_port_set_masked_raw''
       [''port'', ''mask'', ''value'']"

definition trace_gpio_port_set_bits_raw :: trace_macro where
  "trace_gpio_port_set_bits_raw =
     value_macro K_SYSCALL_GPIO_PORT_SET_BITS_RAW ''int'' ''gpio_port_set_bits_raw''
       [''port'', ''pins'']"

definition trace_gpio_port_clear_bits_raw :: trace_macro where
  "trace_gpio_port_clear_bits_raw =
     value_macro K_SYSCALL_GPIO_PORT_CLEAR_BITS_RAW ''int'' ''gpio_port_clear_bits_raw''
       [''port'', ''pins'']"

definition trace_gpio_port_toggle_bits :: trace_macro where
  "trace_gpio_port_toggle_bits =
     value_macro K_SYSCALL_GPIO_PORT_TOGGLE_BITS ''int'' ''gpio_port_toggle_bits'' [''port'', ''pins'']"

definition trace_gpio_get_pending_int :: trace_macro where
  "trace_gpio_get_pending_int =
     value_macro K_SYSCALL_GPIO_GET_PENDING_INT ''int'' ''gpio_get_pending_int'' [''dev'']"

subsection \<open>\<open>hwinfo.h\<close>\<close>

definition trace_hwinfo_get_device_id :: trace_macro where
  "trace_hwinfo_get_device_id =
     value_macro K_SYSCALL_HWINFO_GET_DEVICE_ID ''ssize_t'' ''hwinfo_get_device_id''
       [''buffer'', ''length'']"

definition trace_hwinfo_get_reset_cause :: trace_macro where
  "trace_hwinfo_get_reset_cause =
     value_macro K_SYSCALL_HWINFO_GET_RESET_CAUSE ''int'' ''hwinfo_get_reset_cause'' [''cause'']"

definition trace_hwinfo_clear_reset_cause :: trace_macro where
  "trace_hwinfo_clear_reset_cause =
     value_macro K_SYSCALL_HWINFO_CLEAR_RESET_CAUSE ''int'' ''hwinfo_clear_reset_cause'' []"

definition trace_hwinfo_get_supported_reset_cause :: trace_macro where
  "trace_hwinfo_get_supported_reset_cause =
     value_macro K_SYSCALL_HWINFO_GET_SUPPORTED_RESET_CAUSE ''int'' ''hwinfo_get_supported_reset_cause''
       [''supported'']"

subsection \<open>\<open>i2c.h\<close>\<close>

definition trace_i2c_configure :: trace_macro where
  "trace_i2c_configure =
     value_macro K_SYSCALL_I2C_CONFIGURE ''int'' ''i2c_configure'' [''dev'', ''dev_config'']"

definition trace_i2c_get_config :: trace_macro where
  "trace_i2c_get_config =
     value_macro K_SYSCALL_I2C_GET_CONFIG ''int'' ''i2c_get_config'' [''dev'', ''dev_config'']"

definition trace_i2c_transfer :: trace_macro where
  "trace_i2c_transfer =
     value_macro K_SYSCALL_I2C_TRANSFER ''int'' ''i2c_transfer''
       [''dev'', ''msgs'', ''num_msgs'', ''addr'']"

definition trace_i2c_recover_bus :: trace_macro where
  "trace_i2c_recover_bus =
     value_macro K_SYSCALL_I2C_RECOVER_BUS ''int'' ''i2c_recover_bus'' [''dev'']"

definition trace_i2c_slave_driver_register :: trace_macro where
  "trace_i2c_slave_driver_register =
     value_macro K_SYSCALL_I2C_SLAVE_DRIVER_REGISTER ''int'' ''i2c_slave_driver_register'' [''dev'']"

definition trace_i2c_slave_driver_unregister :: trace_macro where
  "trace_i2c_slave_driver_unregister =
     value_macro K_SYSCALL_I2C_SLAVE_DRIVER_UNREGISTER ''int'' ''i2c_slave_driver_unregister''
       [''dev'']"

subsection \<open>\<open>i2s.h\<close>\<close>

definition trace_i2s_configure :: trace_macro where
  "trace_i2s_configure =
     value_macro K_SYSCALL_I2S_CONFIGURE ''int'' ''i2s_configure'' [''dev'', ''dir'', ''cfg'']"

definition trace_i2s_buf_read :: trace_macro where
  "trace_i2s_buf_read =
     value_macro K_SYSCALL_I2S_BUF_READ ''int'' ''i2s_buf_read'' [''dev'', ''buf'', ''size'']"

definition trace_i2s_buf_write :: trace_macro where
  "trace_i2s_buf_write =
     value_macro K_SYSCALL_I2S_BUF_WRITE ''int'' ''i2s_buf_write'' [''dev'', ''buf'', ''size'']"

definition trace_i2s_trigger :: trace_macro where
  "trace_i2s_trigger =
     value_macro K_SYSCALL_I2S_TRIGGER ''int'' ''i2s_trigger'' [''dev'', ''dir'', ''cmd'']"

subsection \<open>\<open>ipm.h\<close>\<close>

definition trace_ipm_send :: trace_macro where
  "trace_ipm_send =
     value_macro K_SYSCALL_IPM_SEND ''int'' ''ipm_send''
       [''ipmdev'', ''wait'', ''id'', ''data'', ''size'']"

definition trace_ipm_max_data_size_get :: trace_macro where
  "trace_ipm_max_data_size_get =
     value_macro K_SYSCALL_IPM_MAX_DATA_SIZE_GET ''int'' ''ipm_max_data_size_get'' [''ipmdev'']"

definition trace_ipm_max_id_val_get :: trace_macro where
  "trace_ipm_max_id_val_get =
     value_macro K_SYSCALL_IPM_MAX_ID_VAL_GET ''uint32_t'' ''ipm_max_id_val_get'' [''ipmdev'']"

definition trace_ipm_set_enabled :: trace_macro where
  "trace_ipm_set_enabled =
     value_macro K_SYSCALL_IPM_SET_ENABLED ''int'' ''ipm_set_enabled'' [''ipmdev'', ''enable'']"

subsection \<open>\<open>ivshmem.h\<close>\<close>

definition trace_ivshmem_get_mem :: trace_macro where
  "trace_ivshmem_get_mem =
     value_macro K_SYSCALL_IVSHMEM_GET_MEM ''size_t'' ''ivshmem_get_mem'' [''dev'', ''memmap'']"

definition trace_ivshmem_get_id :: trace_macro where
  "trace_ivshmem_get_id =
     value_macro K_SYSCALL_IVSHMEM_GET_ID ''uint32_t'' ''ivshmem_get_id'' [''dev'']"

definition trace_ivshmem_get_vectors :: trace_macro where
  "trace_ivshmem_get_vectors =
     value_macro K_SYSCALL_IVSHMEM_GET_VECTORS ''uint16_t'' ''ivshmem_get_vectors'' [''dev'']"

definition trace_ivshmem_int_peer :: trace_macro where
  "trace_ivshmem_int_peer =
     value_macro K_SYSCALL_IVSHMEM_INT_PEER ''int'' ''ivshmem_int_peer''
       [''dev'', ''peer_id'', ''vector'']"

definition trace_ivshmem_register_handler :: trace_macro where
  "trace_ivshmem_register_handler =
     value_macro K_SYSCALL_IVSHMEM_REGISTER_HANDLER ''int'' ''ivshmem_register_handler''
       [''dev'', ''signal'', ''vector'']"

subsection \<open>\<open>kobject.h\<close>\<close>

definition trace_k_object_access_grant :: trace_macro where
  "trace_k_object_access_grant =
     void_macro K_SYSCALL_K_OBJECT_ACCESS_GRANT ''k_object_access_grant'' [''object'', ''thread'']"

definition trace_k_object_release :: trace_macro where
  "trace_k_object_release = void_macro K_SYSCALL_K_OBJECT_RELEASE ''k_object_release'' [''object'']"

definition trace_k_object_alloc :: trace_macro where
  "trace_k_object_alloc =
     value_macro K_SYSCALL_K_OBJECT_ALLOC ''void *'' ''k_object_alloc'' [''otype'']"

subsection \<open>\<open>kscan.h\<close>\<close>

definition trace_kscan_config :: trace_macro where
  "trace_kscan_config =
     value_macro K_SYSCALL_KSCAN_CONFIG ''int'' ''kscan_config'' [''dev'', ''callback'']"

definition trace_kscan_enable_callback :: trace_macro where
  "trace_kscan_enable_callback =
     value_macro K_SYSCALL_KSCAN_ENABLE_CALLBACK ''int'' ''kscan_enable_callback'' [''dev'']"

definition trace_kscan_disable_callback :: trace_macro where
  "trace_kscan_disable_callback =
     value_macro K_SYSCALL_KSCAN_DISABLE_CALLBACK ''int'' ''kscan_disable_callback'' [''dev'']"

subsection \<open>\<open>led.h\<close>\<close>

definition trace_led_blink :: trace_macro where
  "trace_led_blink =
     value_macro K_SYSCALL_LED_BLINK ''int'' ''led_blink''
       [''dev'', ''led'', ''delay_on'', ''delay_off'']"

definition trace_led_get_info :: trace_macro where
  "trace_led_get_info =
     value_macro K_SYSCALL_LED_GET_INFO ''int'' ''led_get_info'' [''dev'', ''led'', ''info'']"

definition trace_led_set_brightness :: trace_macro where
  "trace_led_set_brightness =
     value_macro K_SYSCALL_LED_SET_BRIGHTNESS ''int'' ''led_set_brightness''
       [''dev'', ''led'', ''value'']"

definition trace_led_write_channels :: trace_macro where
  "trace_led_write_channels =
     value_macro K_SYSCALL_LED_WRITE_CHANNELS ''int'' ''led_write_channels''
       [''dev'', ''start_channel'', ''num_channels'', ''buf'']"

definition trace_led_set_channel :: trace_macro where
  "trace_led_set_channel =
     value_macro K_SYSCALL_LED_SET_CHANNEL ''int'' ''led_set_channel''
       [''dev'', ''channel'', ''value'']"

definition trace_led_set_color :: trace_macro where
  "trace_led_set_color =
     value_macro K_SYSCALL_LED_SET_COLOR ''int'' ''led_set_color''
       [''dev'', ''led'', ''num_colors'', ''color'']"

definition trace_led_on :: trace_macro where
  "trace_led_on = value_macro K_SYSCALL_LED_ON ''int'' ''led_on'' [''dev'', ''led'']"

definition trace_led_off :: trace_macro where
  "trace_led_off = value_macro K_SYSCALL_LED_OFF ''int'' ''led_off'' [''dev'', ''led'']"

subsection \<open>\<open>libc-hooks.h\<close>\<close>

definition trace_zephyr_read_stdin :: trace_macro where
  "trace_zephyr_read_stdin =
     value_macro K_SYSCALL_ZEPHYR_READ_STDIN ''int'' ''zephyr_read_stdin'' [''buf'', ''nbytes'']"

definition trace_zephyr_write_stdout :: trace_macro where
  "trace_zephyr_write_stdout =
     value_macro K_SYSCALL_ZEPHYR_WRITE_STDOUT ''int'' ''zephyr_write_stdout'' [''buf'', ''nbytes'']"

definition trace_zephyr_fputc :: trace_macro where
  "trace_zephyr_fputc =
     value_macro K_SYSCALL_ZEPHYR_FPUTC ''int'' ''zephyr_fputc'' [''c'', ''stream'']"

definition trace_zephyr_fwrite :: trace_macro where
  "trace_zephyr_fwrite =
     value_macro K_SYSCALL_ZEPHYR_FWRITE ''size_t'' ''zephyr_fwrite''
       [''ptr'', ''size'', ''nitems'', ''stream'']"

subsection \<open>\<open>log_core.h\<close>\<close>

definition trace_z_log_string_from_user :: trace_macro where
  "trace_z_log_string_from_user =
     void_macro K_SYSCALL_Z_LOG_STRING_FROM_USER ''z_log_string_from_user''
       [''src_level_val'', ''str'']"

definition trace_z_log_hexdump_from_user :: trace_macro where
  "trace_z_log_hexdump_from_user =
     void_macro K_SYSCALL_Z_LOG_HEXDUMP_FROM_USER ''z_log_hexdump_from_user''
       [''src_level_val'', ''metadata'', ''data'', ''len'']"

subsection \<open>\<open>log_ctrl.h\<close>\<close>

definition trace_log_panic :: trace_macro where
  "trace_log_panic = void_macro K_SYSCALL_LOG_PANIC ''log_panic'' []"

definition trace_log_process :: trace_macro where
  "trace_log_process = value_macro K_SYSCALL_LOG_PROCESS ''bool'' ''log_process'' [''bypass'']"

definition trace_log_buffered_cnt :: trace_macro where
  "trace_log_buffered_cnt =
     value_macro K_SYSCALL_LOG_BUFFERED_CNT ''uint32_t'' ''log_buffered_cnt'' []"

definition trace_log_filter_set :: trace_macro where
  "trace_log_filter_set =
     value_macro K_SYSCALL_LOG_FILTER_SET ''uint32_t'' ''log_filter_set''
       [''backend'', ''domain_id'', ''source_id'', ''level'']"

subsection \<open>\<open>log_msg2.h\<close>\<close>

definition trace_z_log_msg2_static_create :: trace_macro where
  "trace_z_log_msg2_static_create =
     void_macro K_SYSCALL_Z_LOG_MSG2_STATIC_CREATE ''z_log_msg2_static_create''
       [''source'', ''desc'', ''package'', ''data'']"

definition trace_z_log_msg2_runtime_vcreate :: trace_macro where
  "trace_z_log_msg2_runtime_vcreate =
     void_macro K_SYSCALL_Z_LOG_MSG2_RUNTIME_VCREATE ''z_log_msg2_runtime_vcreate''
       [''domain_id'', ''source'', ''level'', ''data'', ''dlen'', ''fmt'', ''ap'']"

subsection \<open>\<open>maxim_ds3231.h\<close>\<close>

definition trace_maxim_ds3231_req_syncpoint :: trace_macro where
  "trace_maxim_ds3231_req_syncpoint =
     value_macro K_SYSCALL_MAXIM_DS3231_REQ_SYNCPOINT ''int'' ''maxim_ds3231_req_syncpoint''
       [''dev'', ''signal'']"

definition trace_maxim_ds3231_get_syncpoint :: trace_macro where
  "trace_maxim_ds3231_get_syncpoint =
     value_macro K_SYSCALL_MAXIM_DS3231_GET_SYNCPOINT ''int'' ''maxim_ds3231_get_syncpoint''
       [''dev'', ''syncpoint'']"

subsection \<open>\<open>mbox.h\<close>\<close>

definition trace_mbox_send :: trace_macro where
  "trace_mbox_send = value_macro K_SYSCALL_MBOX_SEND ''int'' ''mbox_send'' [''channel'', ''msg'']"

definition trace_mbox_mtu_get :: trace_macro where
  "trace_mbox_mtu_get = value_macro K_SYSCALL_MBOX_MTU_GET ''int'' ''mbox_mtu_get'' [''dev'']"

definition trace_mbox_set_enabled :: trace_macro where
  "trace_mbox_set_enabled =
     value_macro K_SYSCALL_MBOX_SET_ENABLED ''int'' ''mbox_set_enabled'' [''channel'', ''enable'']"

definition trace_mbox_max_channels_get :: trace_macro where
  "trace_mbox_max_channels_get =
     value_macro K_SYSCALL_MBOX_MAX_CHANNELS_GET ''uint32_t'' ''mbox_max_channels_get'' [''dev'']"

subsection \<open>\<open>mdio.h\<close>\<close>

definition trace_mdio_bus_enable :: trace_macro where
  "trace_mdio_bus_enable = void_macro K_SYSCALL_MDIO_BUS_ENABLE ''mdio_bus_enable'' [''dev'']"

definition trace_mdio_bus_disable :: trace_macro where
  "trace_mdio_bus_disable = void_macro K_SYSCALL_MDIO_BUS_DISABLE ''mdio_bus_disable'' [''dev'']"

definition trace_mdio_read :: trace_macro where
  "trace_mdio_read =
     value_macro K_SYSCALL_MDIO_READ ''int'' ''mdio_read'' [''dev'', ''prtad'', ''devad'', ''data'']"

definition trace_mdio_write :: trace_macro where
  "trace_mdio_write =
     value_macro K_SYSCALL_MDIO_WRITE ''int'' ''mdio_write'' [''dev'', ''prtad'', ''devad'', ''data'']"

subsection \<open>\<open>mem_manage.h\<close>\<close>

definition trace_k_mem_paging_stats_get :: trace_macro where
  "trace_k_mem_paging_stats_get =
     void_macro K_SYSCALL_K_MEM_PAGING_STATS_GET ''k_mem_paging_stats_get'' [''stats'']"

definition trace_k_mem_paging_thread_stats_get :: trace_macro where
  "trace_k_mem_paging_thread_stats_get =
     void_macro K_SYSCALL_K_MEM_PAGING_THREAD_STATS_GET ''k_mem_paging_thread_stats_get''
       [''thread'', ''stats'']"

definition trace_k_mem_paging_histogram_eviction_get :: trace_macro where
  "trace_k_mem_paging_histogram_eviction_get =
     void_macro K_SYSCALL_K_MEM_PAGING_HISTOGRAM_EVICTION_GET ''k_mem_paging_histogram_eviction_get''
       [''hist'']"

definition trace_k_mem_paging_histogram_backing_store_page_in_get :: trace_macro where
  "trace_k_mem_paging_histogram_backing_store_page_in_get =
     void_macro K_SYSCALL_K_MEM_PAGING_HISTOGRAM_BACKING_STORE_PAGE_IN_GET ''k_mem_paging_histogram_backing_store_page_in_get''
       [''hist'']"

definition trace_k_mem_paging_histogram_backing_store_page_out_get :: trace_macro where
  "trace_k_mem_paging_histogram_backing_store_page_out_get =
     void_macro K_SYSCALL_K_MEM_PAGING_HISTOGRAM_BACKING_STORE_PAGE_OUT_GET ''k_mem_paging_histogram_backing_store_page_out_get''
       [''hist'']"

subsection \<open>\<open>mutex.h\<close>\<close>

definition trace_z_sys_mutex_kernel_lock :: trace_macro where
  "trace_z_sys_mutex_kernel_lock =
     value_macro K_SYSCALL_Z_SYS_MUTEX_KERNEL_LOCK ''int'' ''z_sys_mutex_kernel_lock''
       [''mutex'', ''timeout'']"

definition trace_z_sys_mutex_kernel_unlock :: trace_macro where
  "trace_z_sys_mutex_kernel_unlock =
     value_macro K_SYSCALL_Z_SYS_MUTEX_KERNEL_UNLOCK ''int'' ''z_sys_mutex_kernel_unlock'' [''mutex'']"

subsection \<open>\<open>net_if.h\<close>\<close>

definition trace_net_if_ipv6_addr_lookup_by_index :: trace_macro where
  "trace_net_if_ipv6_addr_lookup_by_index =
     value_macro K_SYSCALL_NET_IF_IPV6_ADDR_LOOKUP_BY_INDEX ''int'' ''net_if_ipv6_addr_lookup_by_index''
       [''addr'']"

definition trace_net_if_ipv6_addr_add_by_index :: trace_macro where
  "trace_net_if_ipv6_addr_add_by_index =
     value_macro K_SYSCALL_NET_IF_IPV6_ADDR_ADD_BY_INDEX ''bool'' ''net_if_ipv6_addr_add_by_index''
       [''index'', ''addr'', ''addr_type'', ''vlifetime'']"

definition trace_net_if_ipv6_addr_rm_by_index :: trace_macro where
  "trace_net_if_ipv6_addr_rm_by_index =
     value_macro K_SYSCALL_NET_IF_IPV6_ADDR_RM_BY_INDEX ''bool'' ''net_if_ipv6_addr_rm_by_index''
       [''index'', ''addr'']"

definition trace_net_if_ipv4_addr_lookup_by_index :: trace_macro where
  "trace_net_if_ipv4_addr_lookup_by_index =
     value_macro K_SYSCALL_NET_IF_IPV4_ADDR_LOOKUP_BY_INDEX ''int'' ''net_if_ipv4_addr_lookup_by_index''
       [''addr'']"

definition trace_net_if_ipv4_addr_add_by_index :: trace_macro where
  "trace_net_if_ipv4_addr_add_by_index =
     value_macro K_SYSCALL_NET_IF_IPV4_ADDR_ADD_BY_INDEX ''bool'' ''net_if_ipv4_addr_add_by_index''
       [''index'', ''addr'', ''addr_type'', ''vlifetime'']"

definition trace_net_if_ipv4_addr_rm_by_index :: trace_macro where
  "trace_net_if_ipv4_addr_rm_by_index =
     value_macro K_SYSCALL_NET_IF_IPV4_ADDR_RM_BY_INDEX ''bool'' ''net_if_ipv4_addr_rm_by_index''
       [''index'', ''addr'']"

definition trace_net_if_ipv4_set_netmask_by_index :: trace_macro where
  "trace_net_if_ipv4_set_netmask_by_index =
     value_macro K_SYSCALL_NET_IF_IPV4_SET_NETMASK_BY_INDEX ''bool'' ''net_if_ipv4_set_netmask_by_index''
       [''index'', ''netmask'']"

definition trace_net_if_ipv4_set_gw_by_index :: trace_macro where
  "trace_net_if_ipv4_set_gw_by_index =
     value_macro K_SYSCALL_NET_IF_IPV4_SET_GW_BY_INDEX ''bool'' ''net_if_ipv4_set_gw_by_index''
       [''index'', ''gw'']"

definition trace_net_if_get_by_index :: trace_macro where
  "trace_net_if_get_by_index =
     value_macro K_SYSCALL_NET_IF_GET_BY_INDEX ''struct net_if *'' ''net_if_get_by_index'' [''index'']"

subsection \<open>\<open>net_ip.h\<close>\<close>

definition trace_net_addr_pton :: trace_macro where
  "trace_net_addr_pton =
     value_macro K_SYSCALL_NET_ADDR_PTON ''int'' ''net_addr_pton'' [''family'', ''src'', ''dst'']"

definition trace_net_addr_ntop :: trace_macro where
  "trace_net_addr_ntop =
     value_macro K_SYSCALL_NET_ADDR_NTOP ''char *'' ''net_addr_ntop''
       [''family'', ''src'', ''dst'', ''size'']"

subsection \<open>\<open>nrf_qspi_nor.h\<close>\<close>

definition trace_nrf_qspi_nor_base_clock_div_force :: trace_macro where
  "trace_nrf_qspi_nor_base_clock_div_force =
     void_macro K_SYSCALL_NRF_QSPI_NOR_BASE_CLOCK_DIV_FORCE ''nrf_qspi_nor_base_clock_div_force''
       [''dev'', ''force'']"

subsection \<open>\<open>peci.h\<close>\<close>

definition trace_peci_config :: trace_macro where
  "trace_peci_config =
     value_macro K_SYSCALL_PECI_CONFIG ''int'' ''peci_config'' [''dev'', ''bitrate'']"

definition trace_peci_enable :: trace_macro where
  "trace_peci_enable = value_macro K_SYSCALL_PECI_ENABLE ''int'' ''peci_enable'' [''dev'']"

definition trace_peci_disable :: trace_macro where
  "trace_peci_disable = value_macro K_SYSCALL_PECI_DISABLE ''int'' ''peci_disable'' [''dev'']"

definition trace_peci_transfer :: trace_macro where
  "trace_peci_transfer =
     value_macro K_SYSCALL_PECI_TRANSFER ''int'' ''peci_transfer'' [''dev'', ''msg'']"

subsection \<open>\<open>phy.h\<close>\<close>

definition trace_phy_configure_link :: trace_macro where
  "trace_phy_configure_link =
     value_macro K_SYSCALL_PHY_CONFIGURE_LINK ''int'' ''phy_configure_link'' [''dev'', ''speeds'']"

definition trace_phy_get_link_state :: trace_macro where
  "trace_phy_get_link_state =
     value_macro K_SYSCALL_PHY_GET_LINK_STATE ''int'' ''phy_get_link_state'' [''dev'', ''state'']"

definition trace_phy_link_callback_set :: trace_macro where
  "trace_phy_link_callback_set =
     value_macro K_SYSCALL_PHY_LINK_CALLBACK_SET ''int'' ''phy_link_callback_set''
       [''dev'', ''callback'', ''user_data'']"

definition trace_phy_read :: trace_macro where
  "trace_phy_read =
     value_macro K_SYSCALL_PHY_READ ''int'' ''phy_read'' [''dev'', ''reg_addr'', ''value'']"

definition trace_phy_write :: trace_macro where
  "trace_phy_write =
     value_macro K_SYSCALL_PHY_WRITE ''int'' ''phy_write'' [''dev'', ''reg_addr'', ''value'']"

subsection \<open>\<open>ps2.h\<close>\<close>

definition trace_ps2_config :: trace_macro where
  "trace_ps2_config =
     value_macro K_SYSCALL_PS2_CONFIG ''int'' ''ps2_config'' [''dev'', ''callback_isr'']"

definition trace_ps2_write :: trace_macro where
  "trace_ps2_write = value_macro K_SYSCALL_PS2_WRITE ''int'' ''ps2_write'' [''dev'', ''value'']"

definition trace_ps2_read :: trace_macro where
  "trace_ps2_read = value_macro K_SYSCALL_PS2_READ ''int'' ''ps2_read'' [''dev'', ''value'']"

definition trace_ps2_enable_callback :: trace_macro where
  "trace_ps2_enable_callback =
     value_macro K_SYSCALL_PS2_ENABLE_CALLBACK ''int'' ''ps2_enable_callback'' [''dev'']"

definition trace_ps2_disable_callback :: trace_macro where
  "trace_ps2_disable_callback =
     value_macro K_SYSCALL_PS2_DISABLE_CALLBACK ''int'' ''ps2_disable_callback'' [''dev'']"

subsection \<open>\<open>ptp_clock.h\<close>\<close>

definition trace_ptp_clock_get :: trace_macro where
  "trace_ptp_clock_get =
     value_macro K_SYSCALL_PTP_CLOCK_GET ''int'' ''ptp_clock_get'' [''dev'', ''tm'']"

subsection \<open>\<open>pwm.h\<close>\<close>

definition trace_pwm_pin_set_cycles :: trace_macro where
  "trace_pwm_pin_set_cycles =
     value_macro K_SYSCALL_PWM_PIN_SET_CYCLES ''int'' ''pwm_pin_set_cycles''
       [''dev'', ''pwm'', ''period'', ''pulse'', ''flags'']"

definition trace_pwm_pin_enable_capture :: trace_macro where
  "trace_pwm_pin_enable_capture =
     value_macro K_SYSCALL_PWM_PIN_ENABLE_CAPTURE ''int'' ''pwm_pin_enable_capture'' [''dev'', ''pwm'']"

definition trace_pwm_pin_disable_capture :: trace_macro where
  "trace_pwm_pin_disable_capture =
     value_macro K_SYSCALL_PWM_PIN_DISABLE_CAPTURE ''int'' ''pwm_pin_disable_capture''
       [''dev'', ''pwm'']"

definition trace_pwm_pin_capture_cycles :: trace_macro where
  "trace_pwm_pin_capture_cycles =
     value_macro K_SYSCALL_PWM_PIN_CAPTURE_CYCLES ''int'' ''pwm_pin_capture_cycles''
       [''dev'', ''pwm'', ''flags'', ''period'', ''pulse'', ''timeout'']"

definition trace_pwm_get_cycles_per_sec :: trace_macro where
  "trace_pwm_get_cycles_per_sec =
     value_macro K_SYSCALL_PWM_GET_CYCLES_PER_SEC ''int'' ''pwm_get_cycles_per_sec''
       [''dev'', ''pwm'', ''cycles'']"

subsection \<open>\<open>rand32.h\<close>\<close>

definition trace_sys_rand32_get :: trace_macro where
  "trace_sys_rand32_get = value_macro K_SYSCALL_SYS_RAND32_GET ''uint32_t'' ''sys_rand32_get'' []"

definition trace_sys_rand_get :: trace_macro where
  "trace_sys_rand_get = void_macro K_SYSCALL_SYS_RAND_GET ''sys_rand_get'' [''dst'', ''len'']"

definition trace_sys_csrand_get :: trace_macro where
  "trace_sys_csrand_get =
     value_macro K_SYSCALL_SYS_CSRAND_GET ''int'' ''sys_csrand_get'' [''dst'', ''len'']"

subsection \<open>\<open>sensor.h\<close>\<close>

definition trace_sensor_attr_set :: trace_macro where
  "trace_sensor_attr_set =
     value_macro K_SYSCALL_SENSOR_ATTR_SET ''int'' ''sensor_attr_set''
       [''dev'', ''chan'', ''attr'', ''val'']"

definition trace_sensor_attr_get :: trace_macro where
  "trace_sensor_attr_get =
     value_macro K_SYSCALL_SENSOR_ATTR_GET ''int'' ''sensor_attr_get''
       [''dev'', ''chan'', ''attr'', ''val'']"

definition trace_sensor_sample_fetch :: trace_macro where
  "trace_sensor_sample_fetch =
     value_macro K_SYSCALL_SENSOR_SAMPLE_FETCH ''int'' ''sensor_sample_fetch'' [''dev'']"

definition trace_sensor_sample_fetch_chan :: trace_macro where
  "trace_sensor_sample_fetch_chan =
     value_macro K_SYSCALL_SENSOR_SAMPLE_FETCH_CHAN ''int'' ''sensor_sample_fetch_chan''
       [''dev'', ''type'']"

definition trace_sensor_channel_get :: trace_macro where
  "trace_sensor_channel_get =
     value_macro K_SYSCALL_SENSOR_CHANNEL_GET ''int'' ''sensor_channel_get''
       [''dev'', ''chan'', ''val'']"

subsection \<open>\<open>socket.h\<close>\<close>

definition trace_zsock_get_context_object :: trace_macro where
  "trace_zsock_get_context_object =
     value_macro K_SYSCALL_ZSOCK_GET_CONTEXT_OBJECT ''void *'' ''zsock_get_context_object'' [''sock'']"

definition trace_zsock_socket :: trace_macro where
  "trace_zsock_socket =
     value_macro K_SYSCALL_ZSOCK_SOCKET ''int'' ''zsock_socket'' [''family'', ''type'', ''proto'']"

definition trace_zsock_socketpair :: trace_macro where
  "trace_zsock_socketpair =
     value_macro K_SYSCALL_ZSOCK_SOCKETPAIR ''int'' ''zsock_socketpair''
       [''family'', ''type'', ''proto'', ''sv'']"

definition trace_zsock_close :: trace_macro where
  "trace_zsock_close = value_macro K_SYSCALL_ZSOCK_CLOSE ''int'' ''zsock_close'' [''sock'']"

definition trace_zsock_shutdown :: trace_macro where
  "trace_zsock_shutdown =
     value_macro K_SYSCALL_ZSOCK_SHUTDOWN ''int'' ''zsock_shutdown'' [''sock'', ''how'']"

definition trace_zsock_bind :: trace_macro where
  "trace_zsock_bind =
     value_macro K_SYSCALL_ZSOCK_BIND ''int'' ''zsock_bind'' [''sock'', ''addr'', ''addrlen'']"

definition trace_zsock_connect :: trace_macro where
  "trace_zsock_connect =
     value_macro K_SYSCALL_ZSOCK_CONNECT ''int'' ''zsock_connect'' [''sock'', ''addr'', ''addrlen'']"

definition trace_zsock_listen :: trace_macro where
  "trace_zsock_listen =
     value_macro K_SYSCALL_ZSOCK_LISTEN ''int'' ''zsock_listen'' [''sock'', ''backlog'']"

definition trace_zsock_accept :: trace_macro where
  "trace_zsock_accept =
     value_macro K_SYSCALL_ZSOCK_ACCEPT ''int'' ''zsock_accept'' [''sock'', ''addr'', ''addrlen'']"

definition trace_zsock_sendto :: trace_macro where
  "trace_zsock_sendto =
     value_macro K_SYSCALL_ZSOCK_SENDTO ''ssize_t'' ''zsock_sendto''
       [''sock'', ''buf'', ''len'', ''flags'', ''dest_addr'', ''addrlen'']"

definition trace_zsock_sendmsg :: trace_macro where
  "trace_zsock_sendmsg =
     value_macro K_SYSCALL_ZSOCK_SENDMSG ''ssize_t'' ''zsock_sendmsg'' [''sock'', ''msg'', ''flags'']"

definition trace_zsock_recvfrom :: trace_macro where
  "trace_zsock_recvfrom =
     value_macro K_SYSCALL_ZSOCK_RECVFROM ''ssize_t'' ''zsock_recvfrom''
       [''sock'', ''buf'', ''max_len'', ''flags'', ''src_addr'', ''addrlen'']"

definition trace_zsock_fcntl :: trace_macro where
  "trace_zsock_fcntl =
     value_macro K_SYSCALL_ZSOCK_FCNTL ''int'' ''zsock_fcntl'' [''sock'', ''cmd'', ''flags'']"

definition trace_zsock_poll :: trace_macro where
  "trace_zsock_poll =
     value_macro K_SYSCALL_ZSOCK_POLL ''int'' ''zsock_poll'' [''fds'', ''nfds'', ''timeout'']"

definition trace_zsock_getsockopt :: trace_macro where
  "trace_zsock_getsockopt =
     value_macro K_SYSCALL_ZSOCK_GETSOCKOPT ''int'' ''zsock_getsockopt''
       [''sock'', ''level'', ''optname'', ''optval'', ''optlen'']"

definition trace_zsock_setsockopt :: trace_macro where
  "trace_zsock_setsockopt =
     value_macro K_SYSCALL_ZSOCK_SETSOCKOPT ''int'' ''zsock_setsockopt''
       [''sock'', ''level'', ''optname'', ''optval'', ''optlen'']"

definition trace_zsock_getsockname :: trace_macro where
  "trace_zsock_getsockname =
     value_macro K_SYSCALL_ZSOCK_GETSOCKNAME ''int'' ''zsock_getsockname''
       [''sock'', ''addr'', ''addrlen'']"

definition trace_zsock_gethostname :: trace_macro where
  "trace_zsock_gethostname =
     value_macro K_SYSCALL_ZSOCK_GETHOSTNAME ''int'' ''zsock_gethostname'' [''buf'', ''len'']"

definition trace_zsock_inet_pton :: trace_macro where
  "trace_zsock_inet_pton =
     value_macro K_SYSCALL_ZSOCK_INET_PTON ''int'' ''zsock_inet_pton'' [''family'', ''src'', ''dst'']"

definition trace_z_zsock_getaddrinfo_internal :: trace_macro where
  "trace_z_zsock_getaddrinfo_internal =
     value_macro K_SYSCALL_Z_ZSOCK_GETADDRINFO_INTERNAL ''int'' ''z_zsock_getaddrinfo_internal''
       [''host'', ''service'', ''hints'', ''res'']"

subsection \<open>\<open>socket_select.h\<close>\<close>

definition trace_zsock_select :: trace_macro where
  "trace_zsock_select =
     value_macro K_SYSCALL_ZSOCK_SELECT ''int'' ''zsock_select''
       [''nfds'', ''readfds'', ''writefds'', ''exceptfds'', ''timeout'']"

subsection \<open>\<open>spi.h\<close>\<close>

definition trace_spi_transceive :: trace_macro where
  "trace_spi_transceive =
     value_macro K_SYSCALL_SPI_TRANSCEIVE ''int'' ''spi_transceive''
       [''dev'', ''config'', ''tx_bufs'', ''rx_bufs'']"

definition trace_spi_release :: trace_macro where
  "trace_spi_release =
     value_macro K_SYSCALL_SPI_RELEASE ''int'' ''spi_release'' [''dev'', ''config'']"

subsection \<open>\<open>syscon.h\<close>\<close>

definition trace_syscon_get_base :: trace_macro where
  "trace_syscon_get_base =
     value_macro K_SYSCALL_SYSCON_GET_BASE ''int'' ''syscon_get_base'' [''dev'', ''addr'']"

definition trace_syscon_read_reg :: trace_macro where
  "trace_syscon_read_reg =
     value_macro K_SYSCALL_SYSCON_READ_REG ''int'' ''syscon_read_reg'' [''dev'', ''reg'', ''val'']"

definition trace_syscon_write_reg :: trace_macro where
  "trace_syscon_write_reg =
     value_macro K_SYSCALL_SYSCON_WRITE_REG ''int'' ''syscon_write_reg'' [''dev'', ''reg'', ''val'']"

definition trace_syscon_get_size :: trace_macro where
  "trace_syscon_get_size =
     value_macro K_SYSCALL_SYSCON_GET_SIZE ''int'' ''syscon_get_size'' [''dev'', ''size'']"

subsection \<open>\<open>time.h\<close>\<close>

definition trace_clock_gettime :: trace_macro where
  "trace_clock_gettime =
     value_macro K_SYSCALL_CLOCK_GETTIME ''int'' ''clock_gettime'' [''clock_id'', ''ts'']"

subsection \<open>\<open>time_units.h\<close>\<close>

definition trace_sys_clock_hw_cycles_per_sec_runtime_get :: trace_macro where
  "trace_sys_clock_hw_cycles_per_sec_runtime_get =
     value_macro K_SYSCALL_SYS_CLOCK_HW_CYCLES_PER_SEC_RUNTIME_GET ''int'' ''sys_clock_hw_cycles_per_sec_runtime_get''
       []"

subsection \<open>\<open>uart.h\<close>\<close>

definition trace_uart_tx :: trace_macro where
  "trace_uart_tx =
     value_macro K_SYSCALL_UART_TX ''int'' ''uart_tx'' [''dev'', ''buf'', ''len'', ''timeout'']"

definition trace_uart_tx_u16 :: trace_macro where
  "trace_uart_tx_u16 =
     value_macro K_SYSCALL_UART_TX_U16 ''int'' ''uart_tx_u16'' [''dev'', ''buf'', ''len'', ''timeout'']"

definition trace_uart_tx_abort :: trace_macro where
  "trace_uart_tx_abort = value_macro K_SYSCALL_UART_TX_ABORT ''int'' ''uart_tx_abort'' [''dev'']"

definition trace_uart_rx_enable :: trace_macro where
  "trace_uart_rx_enable =
     value_macro K_SYSCALL_UART_RX_ENABLE ''int'' ''uart_rx_enable''
       [''dev'', ''buf'', ''len'', ''timeout'']"

definition trace_uart_rx_enable_u16 :: trace_macro where
  "trace_uart_rx_enable_u16 =
     value_macro K_SYSCALL_UART_RX_ENABLE_U16 ''int'' ''uart_rx_enable_u16''
       [''dev'', ''buf'', ''len'', ''timeout'']"

definition trace_uart_rx_disable :: trace_macro where
  "trace_uart_rx_disable =
     value_macro K_SYSCALL_UART_RX_DISABLE ''int'' ''uart_rx_disable'' [''dev'']"

definition trace_uart_err_check :: trace_macro where
  "trace_uart_err_check = value_macro K_SYSCALL_UART_ERR_CHECK ''int'' ''uart_err_check'' [''dev'']"

definition trace_uart_poll_in :: trace_macro where
  "trace_uart_poll_in =
     value_macro K_SYSCALL_UART_POLL_IN ''int'' ''uart_poll_in'' [''dev'', ''p_char'']"

definition trace_uart_poll_in_u16 :: trace_macro where
  "trace_uart_poll_in_u16 =
     value_macro K_SYSCALL_UART_POLL_IN_U16 ''int'' ''uart_poll_in_u16'' [''dev'', ''p_u16'']"

definition trace_uart_poll_out :: trace_macro where
  "trace_uart_poll_out =
     void_macro K_SYSCALL_UART_POLL_OUT ''uart_poll_out'' [''dev'', ''out_char'']"

definition trace_uart_poll_out_u16 :: trace_macro where
  "trace_uart_poll_out_u16 =
     void_macro K_SYSCALL_UART_POLL_OUT_U16 ''uart_poll_out_u16'' [''dev'', ''out_u16'']"

definition trace_uart_configure :: trace_macro where
  "trace_uart_configure =
     value_macro K_SYSCALL_UART_CONFIGURE ''int'' ''uart_configure'' [''dev'', ''cfg'']"

definition trace_uart_config_get :: trace_macro where
  "trace_uart_config_get =
     value_macro K_SYSCALL_UART_CONFIG_GET ''int'' ''uart_config_get'' [''dev'', ''cfg'']"

definition trace_uart_irq_tx_enable :: trace_macro where
  "trace_uart_irq_tx_enable =
     void_macro K_SYSCALL_UART_IRQ_TX_ENABLE ''uart_irq_tx_enable'' [''dev'']"

definition trace_uart_irq_tx_disable :: trace_macro where
  "trace_uart_irq_tx_disable =
     void_macro K_SYSCALL_UART_IRQ_TX_DISABLE ''uart_irq_tx_disable'' [''dev'']"

definition trace_uart_irq_rx_enable :: trace_macro where
  "trace_uart_irq_rx_enable =
     void_macro K_SYSCALL_UART_IRQ_RX_ENABLE ''uart_irq_rx_enable'' [''dev'']"

definition trace_uart_irq_rx_disable :: trace_macro where
  "trace_uart_irq_rx_disable =
     void_macro K_SYSCALL_UART_IRQ_RX_DISABLE ''uart_irq_rx_disable'' [''dev'']"

definition trace_uart_irq_err_enable :: trace_macro where
  "trace_uart_irq_err_enable =
     void_macro K_SYSCALL_UART_IRQ_ERR_ENABLE ''uart_irq_err_enable'' [''dev'']"

definition trace_uart_irq_err_disable :: trace_macro where
  "trace_uart_irq_err_disable =
     void_macro K_SYSCALL_UART_IRQ_ERR_DISABLE ''uart_irq_err_disable'' [''dev'']"

definition trace_uart_irq_is_pending :: trace_macro where
  "trace_uart_irq_is_pending =
     value_macro K_SYSCALL_UART_IRQ_IS_PENDING ''int'' ''uart_irq_is_pending'' [''dev'']"

definition trace_uart_irq_update :: trace_macro where
  "trace_uart_irq_update =
     value_macro K_SYSCALL_UART_IRQ_UPDATE ''int'' ''uart_irq_update'' [''dev'']"

definition trace_uart_line_ctrl_set :: trace_macro where
  "trace_uart_line_ctrl_set =
     value_macro K_SYSCALL_UART_LINE_CTRL_SET ''int'' ''uart_line_ctrl_set''
       [''dev'', ''ctrl'', ''val'']"

definition trace_uart_line_ctrl_get :: trace_macro where
  "trace_uart_line_ctrl_get =
     value_macro K_SYSCALL_UART_LINE_CTRL_GET ''int'' ''uart_line_ctrl_get''
       [''dev'', ''ctrl'', ''val'']"

definition trace_uart_drv_cmd :: trace_macro where
  "trace_uart_drv_cmd =
     value_macro K_SYSCALL_UART_DRV_CMD ''int'' ''uart_drv_cmd'' [''dev'', ''cmd'', ''p'']"

subsection \<open>\<open>uart_mux.h\<close>\<close>

definition trace_uart_mux_find :: trace_macro where
  "trace_uart_mux_find =
     value_macro K_SYSCALL_UART_MUX_FIND ''const struct device *'' ''uart_mux_find'' [''dlci_address'']"

subsection \<open>\<open>watchdog.h\<close>\<close>

definition trace_wdt_setup :: trace_macro where
  "trace_wdt_setup = value_macro K_SYSCALL_WDT_SETUP ''int'' ''wdt_setup'' [''dev'', ''options'']"

definition trace_wdt_disable :: trace_macro where
  "trace_wdt_disable = value_macro K_SYSCALL_WDT_DISABLE ''int'' ''wdt_disable'' [''dev'']"

definition trace_wdt_feed :: trace_macro where
  "trace_wdt_feed = value_macro K_SYSCALL_WDT_FEED ''int'' ''wdt_feed'' [''dev'', ''channel_id'']"

definition trace_macros_0 :: "trace_macro list" where
  "trace_macros_0 =
     [trace_adc_channel_setup, trace_adc_read, trace_adc_read_async, trace_atomic_cas,
      trace_atomic_ptr_cas, trace_atomic_add, trace_atomic_sub, trace_atomic_set,
      trace_atomic_ptr_set, trace_atomic_or, trace_atomic_xor, trace_atomic_and,
      trace_atomic_nand, trace_bbram_check_invalid, trace_bbram_check_standby_power,
      trace_bbram_check_power, trace_bbram_get_size, trace_bbram_read, trace_bbram_write,
      trace_sys_cache_data_all, trace_sys_cache_data_range, trace_sys_cache_instr_all,
      trace_sys_cache_instr_range, trace_can_get_core_clock, trace_can_set_timing,
      trace_can_set_mode, trace_can_send, trace_can_attach_msgq, trace_can_detach,
      trace_can_get_max_filters, trace_can_get_state, trace_can_recover,
      trace_counter_is_counting_up, trace_counter_get_num_of_channels,
      trace_counter_get_frequency, trace_counter_us_to_ticks, trace_counter_ticks_to_us,
      trace_counter_get_max_top_value, trace_counter_start, trace_counter_stop,
      trace_counter_get_value, trace_counter_set_channel_alarm,
      trace_counter_cancel_channel_alarm, trace_counter_set_top_value,
      trace_counter_get_pending_int, trace_counter_get_top_value,
      trace_counter_set_guard_period, trace_counter_get_guard_period, trace_dac_channel_setup,
      trace_dac_write_value, trace_device_get_binding, trace_device_usable_check,
      trace_dma_start, trace_dma_stop, trace_dma_request_channel, trace_dma_release_channel,
      trace_dma_chan_filter, trace_ec_host_cmd_periph_init, trace_ec_host_cmd_periph_send,
      trace_eeprom_read, trace_eeprom_write, trace_eeprom_get_size, trace_entropy_get_entropy,
      trace_user_fault, trace_espi_config, trace_espi_get_channel_status,
      trace_espi_read_request]"

definition trace_macros_1 :: "trace_macro list" where
  "trace_macros_1 =
     [trace_espi_write_request, trace_espi_read_lpc_request, trace_espi_write_lpc_request,
      trace_espi_send_vwire, trace_espi_receive_vwire, trace_espi_send_oob,
      trace_espi_receive_oob, trace_espi_read_flash, trace_espi_write_flash,
      trace_espi_flash_erase, trace_espi_saf_config, trace_espi_saf_set_protection_regions,
      trace_espi_saf_activate, trace_espi_saf_get_channel_status, trace_espi_saf_flash_read,
      trace_espi_saf_flash_write, trace_espi_saf_flash_erase,
      trace_net_eth_get_ptp_clock_by_index, trace_flash_read, trace_flash_write,
      trace_flash_erase, trace_flash_write_protection_set, trace_flash_get_page_info_by_offs,
      trace_flash_get_page_info_by_idx, trace_flash_get_page_count, trace_flash_sfdp_read,
      trace_flash_read_jedec_id, trace_flash_get_write_block_size, trace_flash_get_parameters,
      trace_flash_simulator_get_memory, trace_gpio_pin_interrupt_configure,
      trace_gpio_pin_configure, trace_gpio_port_get_raw, trace_gpio_port_set_masked_raw,
      trace_gpio_port_set_bits_raw, trace_gpio_port_clear_bits_raw, trace_gpio_port_toggle_bits,
      trace_gpio_get_pending_int, trace_hwinfo_get_device_id, trace_hwinfo_get_reset_cause,
      trace_hwinfo_clear_reset_cause, trace_hwinfo_get_supported_reset_cause,
      trace_i2c_configure, trace_i2c_get_config, trace_i2c_transfer, trace_i2c_recover_bus,
      trace_i2c_slave_driver_register, trace_i2c_slave_driver_unregister, trace_i2s_configure,
      trace_i2s_buf_read, trace_i2s_buf_write, trace_i2s_trigger, trace_ipm_send,
      trace_ipm_max_data_size_get, trace_ipm_max_id_val_get, trace_ipm_set_enabled,
      trace_ivshmem_get_mem, trace_ivshmem_get_id, trace_ivshmem_get_vectors,
      trace_ivshmem_int_peer, trace_ivshmem_register_handler, trace_k_object_access_grant,
      trace_k_object_release, trace_k_object_alloc, trace_kscan_config,
      trace_kscan_enable_callback, trace_kscan_disable_callback]"

definition trace_macros_2 :: "trace_macro list" where
  "trace_macros_2 =
     [trace_led_blink, trace_led_get_info, trace_led_set_brightness, trace_led_write_channels,
      trace_led_set_channel, trace_led_set_color, trace_led_on, trace_led_off,
      trace_zephyr_read_stdin, trace_zephyr_write_stdout, trace_zephyr_fputc,
      trace_zephyr_fwrite, trace_z_log_string_from_user, trace_z_log_hexdump_from_user,
      trace_log_panic, trace_log_process, trace_log_buffered_cnt, trace_log_filter_set,
      trace_z_log_msg2_static_create, trace_z_log_msg2_runtime_vcreate,
      trace_maxim_ds3231_req_syncpoint, trace_maxim_ds3231_get_syncpoint, trace_mbox_send,
      trace_mbox_mtu_get, trace_mbox_set_enabled, trace_mbox_max_channels_get,
      trace_mdio_bus_enable, trace_mdio_bus_disable, trace_mdio_read, trace_mdio_write,
      trace_k_mem_paging_stats_get, trace_k_mem_paging_thread_stats_get,
      trace_k_mem_paging_histogram_eviction_get,
      trace_k_mem_paging_histogram_backing_store_page_in_get,
      trace_k_mem_paging_histogram_backing_store_page_out_get, trace_z_sys_mutex_kernel_lock,
      trace_z_sys_mutex_kernel_unlock, trace_net_if_ipv6_addr_lookup_by_index,
      trace_net_if_ipv6_addr_add_by_index, trace_net_if_ipv6_addr_rm_by_index,
      trace_net_if_ipv4_addr_lookup_by_index, trace_net_if_ipv4_addr_add_by_index,
      trace_net_if_ipv4_addr_rm_by_index, trace_net_if_ipv4_set_netmask_by_index,
      trace_net_if_ipv4_set_gw_by_index, trace_net_if_get_by_index, trace_net_addr_pton,
      trace_net_addr_ntop, trace_nrf_qspi_nor_base_clock_div_force, trace_peci_config,
      trace_peci_enable, trace_peci_disable, trace_peci_transfer, trace_phy_configure_link,
      trace_phy_get_link_state, trace_phy_link_callback_set, trace_phy_read, trace_phy_write,
      trace_ps2_config, trace_ps2_write, trace_ps2_read, trace_ps2_enable_callback,
      trace_ps2_disable_callback, trace_ptp_clock_get, trace_pwm_pin_set_cycles,
      trace_pwm_pin_enable_capture, trace_pwm_pin_disable_capture]"

definition trace_macros_3 :: "trace_macro list" where
  "trace_macros_3 =
     [trace_pwm_pin_capture_cycles, trace_pwm_get_cycles_per_sec, trace_sys_rand32_get,
      trace_sys_rand_get, trace_sys_csrand_get, trace_sensor_attr_set, trace_sensor_attr_get,
      trace_sensor_sample_fetch, trace_sensor_sample_fetch_chan, trace_sensor_channel_get,
      trace_zsock_get_context_object, trace_zsock_socket, trace_zsock_socketpair,
      trace_zsock_close, trace_zsock_shutdown, trace_zsock_bind, trace_zsock_connect,
      trace_zsock_listen, trace_zsock_accept, trace_zsock_sendto, trace_zsock_sendmsg,
      trace_zsock_recvfrom, trace_zsock_fcntl, trace_zsock_poll, trace_zsock_getsockopt,
      trace_zsock_setsockopt, trace_zsock_getsockname, trace_zsock_gethostname,
      trace_zsock_inet_pton, trace_z_zsock_getaddrinfo_internal, trace_zsock_select,
      trace_spi_transceive, trace_spi_release, trace_syscon_get_base, trace_syscon_read_reg,
      trace_syscon_write_reg, trace_syscon_get_size, trace_clock_gettime,
      trace_sys_clock_hw_cycles_per_sec_runtime_get, trace_uart_tx, trace_uart_tx_u16,
      trace_uart_tx_abort, trace_uart_rx_enable, trace_uart_rx_enable_u16,
      trace_uart_rx_disable, trace_uart_err_check, trace_uart_poll_in, trace_uart_poll_in_u16,
      trace_uart_poll_out, trace_uart_poll_out_u16, trace_uart_configure, trace_uart_config_get,
      trace_uart_irq_tx_enable, trace_uart_irq_tx_disable, trace_uart_irq_rx_enable,
      trace_uart_irq_rx_disable, trace_uart_irq_err_enable, trace_uart_irq_err_disable,
      trace_uart_irq_is_pending, trace_uart_irq_update, trace_uart_line_ctrl_set,
      trace_uart_line_ctrl_get, trace_uart_drv_cmd, trace_uart_mux_find, trace_wdt_setup,
      trace_wdt_disable, trace_wdt_feed]"

definition trace_macros :: "trace_macro list" where
  "trace_macros = trace_macros_0 @ trace_macros_1 @ trace_macros_2 @ trace_macros_3"

lemmas trace_macro_defs =
  trace_adc_channel_setup_def trace_adc_read_def trace_adc_read_async_def trace_atomic_cas_def
  trace_atomic_ptr_cas_def trace_atomic_add_def trace_atomic_sub_def trace_atomic_set_def
  trace_atomic_ptr_set_def trace_atomic_or_def trace_atomic_xor_def trace_atomic_and_def
  trace_atomic_nand_def trace_bbram_check_invalid_def trace_bbram_check_standby_power_def
  trace_bbram_check_power_def trace_bbram_get_size_def trace_bbram_read_def trace_bbram_write_def
  trace_sys_cache_data_all_def trace_sys_cache_data_range_def trace_sys_cache_instr_all_def
  trace_sys_cache_instr_range_def trace_can_get_core_clock_def trace_can_set_timing_def
  trace_can_set_mode_def trace_can_send_def trace_can_attach_msgq_def trace_can_detach_def
  trace_can_get_max_filters_def trace_can_get_state_def trace_can_recover_def
  trace_counter_is_counting_up_def trace_counter_get_num_of_channels_def
  trace_counter_get_frequency_def trace_counter_us_to_ticks_def trace_counter_ticks_to_us_def
  trace_counter_get_max_top_value_def trace_counter_start_def trace_counter_stop_def
  trace_counter_get_value_def trace_counter_set_channel_alarm_def
  trace_counter_cancel_channel_alarm_def trace_counter_set_top_value_def
  trace_counter_get_pending_int_def trace_counter_get_top_value_def
  trace_counter_set_guard_period_def trace_counter_get_guard_period_def
  trace_dac_channel_setup_def trace_dac_write_value_def trace_device_get_binding_def
  trace_device_usable_check_def trace_dma_start_def trace_dma_stop_def
  trace_dma_request_channel_def trace_dma_release_channel_def trace_dma_chan_filter_def
  trace_ec_host_cmd_periph_init_def trace_ec_host_cmd_periph_send_def trace_eeprom_read_def
  trace_eeprom_write_def trace_eeprom_get_size_def trace_entropy_get_entropy_def
  trace_user_fault_def trace_espi_config_def trace_espi_get_channel_status_def
  trace_espi_read_request_def trace_espi_write_request_def trace_espi_read_lpc_request_def
  trace_espi_write_lpc_request_def trace_espi_send_vwire_def trace_espi_receive_vwire_def
  trace_espi_send_oob_def trace_espi_receive_oob_def trace_espi_read_flash_def
  trace_espi_write_flash_def trace_espi_flash_erase_def trace_espi_saf_config_def
  trace_espi_saf_set_protection_regions_def trace_espi_saf_activate_def
  trace_espi_saf_get_channel_status_def trace_espi_saf_flash_read_def
  trace_espi_saf_flash_write_def trace_espi_saf_flash_erase_def
  trace_net_eth_get_ptp_clock_by_index_def trace_flash_read_def trace_flash_write_def
  trace_flash_erase_def trace_flash_write_protection_set_def trace_flash_get_page_info_by_offs_def
  trace_flash_get_page_info_by_idx_def trace_flash_get_page_count_def trace_flash_sfdp_read_def
  trace_flash_read_jedec_id_def trace_flash_get_write_block_size_def
  trace_flash_get_parameters_def trace_flash_simulator_get_memory_def
  trace_gpio_pin_interrupt_configure_def trace_gpio_pin_configure_def trace_gpio_port_get_raw_def
  trace_gpio_port_set_masked_raw_def trace_gpio_port_set_bits_raw_def
  trace_gpio_port_clear_bits_raw_def trace_gpio_port_toggle_bits_def
  trace_gpio_get_pending_int_def trace_hwinfo_get_device_id_def trace_hwinfo_get_reset_cause_def
  trace_hwinfo_clear_reset_cause_def trace_hwinfo_get_supported_reset_cause_def
  trace_i2c_configure_def trace_i2c_get_config_def trace_i2c_transfer_def
  trace_i2c_recover_bus_def trace_i2c_slave_driver_register_def
  trace_i2c_slave_driver_unregister_def trace_i2s_configure_def trace_i2s_buf_read_def
  trace_i2s_buf_write_def trace_i2s_trigger_def trace_ipm_send_def trace_ipm_max_data_size_get_def
  trace_ipm_max_id_val_get_def trace_ipm_set_enabled_def trace_ivshmem_get_mem_def
  trace_ivshmem_get_id_def trace_ivshmem_get_vectors_def trace_ivshmem_int_peer_def
  trace_ivshmem_register_handler_def trace_k_object_access_grant_def trace_k_object_release_def
  trace_k_object_alloc_def trace_kscan_config_def trace_kscan_enable_callback_def
  trace_kscan_disable_callback_def trace_led_blink_def trace_led_get_info_def
  trace_led_set_brightness_def trace_led_write_channels_def trace_led_set_channel_def
  trace_led_set_color_def trace_led_on_def trace_led_off_def trace_zephyr_read_stdin_def
  trace_zephyr_write_stdout_def trace_zephyr_fputc_def trace_zephyr_fwrite_def
  trace_z_log_string_from_user_def trace_z_log_hexdump_from_user_def trace_log_panic_def
  trace_log_process_def trace_log_buffered_cnt_def trace_log_filter_set_def
  trace_z_log_msg2_static_create_def trace_z_log_msg2_runtime_vcreate_def
  trace_maxim_ds3231_req_syncpoint_def trace_maxim_ds3231_get_syncpoint_def trace_mbox_send_def
  trace_mbox_mtu_get_def trace_mbox_set_enabled_def trace_mbox_max_channels_get_def
  trace_mdio_bus_enable_def trace_mdio_bus_disable_def trace_mdio_read_def trace_mdio_write_def
  trace_k_mem_paging_stats_get_def trace_k_mem_paging_thread_stats_get_def
  trace_k_mem_paging_histogram_eviction_get_def
  trace_k_mem_paging_histogram_backing_store_page_in_get_def
  trace_k_mem_paging_histogram_backing_store_page_out_get_def trace_z_sys_mutex_kernel_lock_def
  trace_z_sys_mutex_kernel_unlock_def trace_net_if_ipv6_addr_lookup_by_index_def
  trace_net_if_ipv6_addr_add_by_index_def trace_net_if_ipv6_addr_rm_by_index_def
  trace_net_if_ipv4_addr_lookup_by_index_def trace_net_if_ipv4_addr_add_by_index_def
  trace_net_if_ipv4_addr_rm_by_index_def trace_net_if_ipv4_set_netmask_by_index_def
  trace_net_if_ipv4_set_gw_by_index_def trace_net_if_get_by_index_def trace_net_addr_pton_def
  trace_net_addr_ntop_def trace_nrf_qspi_nor_base_clock_div_force_def trace_peci_config_def
  trace_peci_enable_def trace_peci_disable_def trace_peci_transfer_def
  trace_phy_configure_link_def trace_phy_get_link_state_def trace_phy_link_callback_set_def
  trace_phy_read_def trace_phy_write_def trace_ps2_config_def trace_ps2_write_def
  trace_ps2_read_def trace_ps2_enable_callback_def trace_ps2_disable_callback_def
  trace_ptp_clock_get_def trace_pwm_pin_set_cycles_def trace_pwm_pin_enable_capture_def
  trace_pwm_pin_disable_capture_def trace_pwm_pin_capture_cycles_def
  trace_pwm_get_cycles_per_sec_def trace_sys_rand32_get_def trace_sys_rand_get_def
  trace_sys_csrand_get_def trace_sensor_attr_set_def trace_sensor_attr_get_def
  trace_sensor_sample_fetch_def trace_sensor_sample_fetch_chan_def trace_sensor_channel_get_def
  trace_zsock_get_context_object_def trace_zsock_socket_def trace_zsock_socketpair_def
  trace_zsock_close_def trace_zsock_shutdown_def trace_zsock_bind_def trace_zsock_connect_def
  trace_zsock_listen_def trace_zsock_accept_def trace_zsock_sendto_def trace_zsock_sendmsg_def
  trace_zsock_recvfrom_def trace_zsock_fcntl_def trace_zsock_poll_def trace_zsock_getsockopt_def
  trace_zsock_setsockopt_def trace_zsock_getsockname_def trace_zsock_gethostname_def
  trace_zsock_inet_pton_def trace_z_zsock_getaddrinfo_internal_def trace_zsock_select_def
  trace_spi_transceive_def trace_spi_release_def trace_syscon_get_base_def
  trace_syscon_read_reg_def trace_syscon_write_reg_def trace_syscon_get_size_def
  trace_clock_gettime_def trace_sys_clock_hw_cycles_per_sec_runtime_get_def trace_uart_tx_def
  trace_uart_tx_u16_def trace_uart_tx_abort_def trace_uart_rx_enable_def
  trace_uart_rx_enable_u16_def trace_uart_rx_disable_def trace_uart_err_check_def
  trace_uart_poll_in_def trace_uart_poll_in_u16_def trace_uart_poll_out_def
  trace_uart_poll_out_u16_def trace_uart_configure_def trace_uart_config_get_def
  trace_uart_irq_tx_enable_def trace_uart_irq_tx_disable_def trace_uart_irq_rx_enable_def
  trace_uart_irq_rx_disable_def trace_uart_irq_err_enable_def trace_uart_irq_err_disable_def
  trace_uart_irq_is_pending_def trace_uart_irq_update_def trace_uart_line_ctrl_set_def
  trace_uart_line_ctrl_get_def trace_uart_drv_cmd_def trace_uart_mux_find_def trace_wdt_setup_def
  trace_wdt_disable_def trace_wdt_feed_def

section \<open>Calls of a macro\<close>

text \<open>
  An expression yields a value and may change the state.  A macro stands for its text: wherever a
  parameter occurs the caller's expression is evaluated.  The order of the arguments of a call is
  that of the list.
\<close>

type_synonym ('s, 'v) expr = "'s \<Rightarrow> 'v \<times> 's"

record ('s, 'v) hooks =
  syscall_enter :: "id \<Rightarrow> string \<Rightarrow> ('s, 'v) expr list \<Rightarrow> 's \<Rightarrow> 's"
  syscall_exit :: "id \<Rightarrow> string \<Rightarrow> ('s, 'v) expr list \<Rightarrow> 's \<Rightarrow> 's"

fun eval_args :: "('s, 'v) expr list \<Rightarrow> 's \<Rightarrow> 'v list \<times> 's" where
  "eval_args [] s = ([], s)"
| "eval_args (e # es) s = (let (v, s) = e s; (vs, s) = eval_args es s in (v # vs, s))"

definition call :: "(string \<Rightarrow> 'v list \<Rightarrow> ('s, 'v) expr) \<Rightarrow> string \<Rightarrow> ('s, 'v) expr list \<Rightarrow> ('s, 'v) expr" where
  "call f n es s = (let (vs, s) = eval_args es s in f n vs s)"

definition plain :: "'v \<Rightarrow> ('s, 'v) expr" where
  "plain v = (\<lambda>s. (v, s))"

text \<open>What a name of the macro stands for: a parameter, or else \<open>retval\<close>.\<close>

definition named :: "(string \<times> ('s, 'v) expr) list \<Rightarrow> 'v \<Rightarrow> string \<Rightarrow> ('s, 'v) expr" where
  "named args r x = (case map_of args x of Some e \<Rightarrow> e | None \<Rightarrow> plain r)"

fun exec_stmt :: "('s, 'v) hooks \<Rightarrow> (string \<Rightarrow> 'v list \<Rightarrow> ('s, 'v) expr) \<Rightarrow> (string \<times> ('s, 'v) expr) list \<Rightarrow>
    trace_stmt \<Rightarrow> 'v \<times> 's \<Rightarrow> 'v \<times> 's" where
  "exec_stmt h f args (Trace_enter k n xs) (r, s) = (r, syscall_enter h k n (map (named args r) xs) s)"
| "exec_stmt h f args (Call n xs) (r, s) = (r, snd (call f n (map (named args r) xs) s))"
| "exec_stmt h f args (Set_retval n xs) (r, s) = call f n (map (named args r) xs) s"
| "exec_stmt h f args (Trace_exit k n xs) (r, s) = (r, syscall_exit h k n (map (named args r) xs) s)"

text \<open>The local variable is not initialised: \<open>r\<close> is what it happens to hold.\<close>

definition expand :: "('s, 'v) hooks \<Rightarrow> (string \<Rightarrow> 'v list \<Rightarrow> ('s, 'v) expr) \<Rightarrow> trace_macro \<Rightarrow>
    ('s, 'v) expr list \<Rightarrow> 'v \<Rightarrow> 's \<Rightarrow> 'v \<times> 's" where
  "expand h f m es r s = foldl (\<lambda>x c. exec_stmt h f (zip (macro_params m) es) c x) (r, s) (macro_body m)"

section \<open>What a macro records\<close>

text \<open>
  The macros name the number under which the table of the dispatcher holds the unmarshaller of the
  very call; the parameters are different names, and none of them is that of the local variable.
\<close>

definition traces_own_call :: "trace_macro \<Rightarrow> bool" where
  "traces_own_call m \<longleftrightarrow> distinct (macro_params m) \<and> ''retval'' \<notin> set (macro_params m) \<and>
     (\<exists>k. map_of k_syscall_table k = Some (''z_mrsh_'' @ macro_name m) \<and>
       ((\<exists>ty. m = value_macro k ty (macro_name m) (macro_params m)) \<or>
        m = void_macro k (macro_name m) (macro_params m)))"

lemma traces_own_callI:
  "map_of k_syscall_table k = Some (''z_mrsh_'' @ n) \<Longrightarrow> distinct ps \<Longrightarrow> ''retval'' \<notin> set ps \<Longrightarrow>
     traces_own_call (value_macro k ty n ps)"
  "map_of k_syscall_table k = Some (''z_mrsh_'' @ n) \<Longrightarrow> distinct ps \<Longrightarrow> ''retval'' \<notin> set ps \<Longrightarrow>
     traces_own_call (void_macro k n ps)"
  unfolding traces_own_call_def value_macro_def void_macro_def by auto

lemma macro_chunks:
  "list_all traces_own_call trace_macros_0" "list_all traces_own_call trace_macros_1"
  "list_all traces_own_call trace_macros_2" "list_all traces_own_call trace_macros_3"
  unfolding trace_macros_0_def trace_macros_1_def trace_macros_2_def trace_macros_3_def
    list.pred_inject trace_macro_defs
  by (intro conjI TrueI traces_own_callI; simp)+

theorem macros_trace_own_call: "m \<in> set trace_macros \<Longrightarrow> traces_own_call m"
  using macro_chunks by (auto simp: trace_macros_def list_all_iff)

lemma number_of_call:
  assumes "m \<in> set trace_macros"
  obtains k ty where "map_of k_syscall_table k = Some (''z_mrsh_'' @ macro_name m)"
    "m = value_macro k ty (macro_name m) (macro_params m)"
  | k where "map_of k_syscall_table k = Some (''z_mrsh_'' @ macro_name m)"
    "m = void_macro k (macro_name m) (macro_params m)"
  using macros_trace_own_call [OF assms] unfolding traces_own_call_def by blast

lemma named_params:
  assumes "m \<in> set trace_macros" "length es = length (macro_params m)"
  shows "map (named (zip (macro_params m) es) r) (macro_params m) = es"
    and "named (zip (macro_params m) es) r ''retval'' = plain r"
  using macros_trace_own_call [OF assms(1)] assms(2)
  by (auto simp: traces_own_call_def named_def map_of_zip_nth map_of_eq_None_iff
      intro!: nth_equalityI split: option.splits dest: map_of_SomeD set_zip_leftD)

text \<open>A macro around a call, whatever the hooks do.\<close>

lemma expand_value:
  assumes "m \<in> set trace_macros" "length es = length (macro_params m)"
    and "m = value_macro k ty (macro_name m) (macro_params m)"
  shows "expand h f m es r s = (let (v, s) = call f (macro_name m) es (syscall_enter h k (macro_name m) es s)
     in (v, syscall_exit h k (macro_name m) (es @ [plain v]) s))"
  using named_params [OF assms(1,2)] arg_cong [OF assms(3), of macro_body]
  by (cases "call f (macro_name m) es (syscall_enter h k (macro_name m) es s)")
    (simp add: expand_def value_macro_def)

lemma expand_void:
  assumes "m \<in> set trace_macros" "length es = length (macro_params m)"
    and "m = void_macro k (macro_name m) (macro_params m)"
  shows "expand h f m es r s =
     (r, syscall_exit h k (macro_name m) es (snd (call f (macro_name m) es (syscall_enter h k (macro_name m) es s))))"
  using named_params [OF assms(1,2)] arg_cong [OF assms(3), of macro_body]
  by (simp add: expand_def void_macro_def)

lemma macro_type_simps [simp]:
  "macro_type (value_macro k ty n ps) = Some ty" "macro_type (void_macro k n ps) = None"
  by (simp_all add: value_macro_def void_macro_def)

text \<open>With hooks that expand to nothing the macro is the call.\<close>

definition no_hooks :: "('s, 'v) hooks" where
  "no_hooks = \<lparr>syscall_enter = (\<lambda>k n es s. s), syscall_exit = (\<lambda>k n es s. s)\<rparr>"

theorem untraced_call:
  assumes "m \<in> set trace_macros" "length es = length (macro_params m)"
  shows "snd (expand no_hooks f m es r s) = snd (call f (macro_name m) es s)"
    and "macro_type m \<noteq> None \<Longrightarrow> expand no_hooks f m es r s = call f (macro_name m) es s"
  using assms(1)
  by (cases rule: number_of_call; use expand_value [OF assms] expand_void [OF assms] macro_type_simps in
      \<open>metis (no_types, lifting) no_hooks_def hooks.select_convs prod.collapse snd_conv split_beta option.distinct(1)\<close>)+

text \<open>Hooks that write down their arguments, in a log the call does not see.\<close>

datatype 'v trace_event = Entered id string "'v list" | Left_call id string "'v list"

definition recorder :: "('p \<times> 'v trace_event list, 'v) hooks" where
  "recorder = \<lparr>
     syscall_enter = (\<lambda>k n es s. let (vs, (p, l)) = eval_args es s in (p, l @ [Entered k n vs])),
     syscall_exit = (\<lambda>k n es s. let (vs, (p, l)) = eval_args es s in (p, l @ [Left_call k n vs]))\<rparr>"

definition unlogged :: "(string \<Rightarrow> 'v list \<Rightarrow> ('p, 'v) expr) \<Rightarrow> string \<Rightarrow> 'v list \<Rightarrow> ('p \<times> 'e, 'v) expr" where
  "unlogged f n vs s = (let (v, p) = f n vs (fst s) in (v, (p, snd s)))"

lemma eval_constants [simp]:
  "eval_args (map plain vs) s = (vs, s)" "eval_args (map plain vs @ [plain v]) s = (vs @ [v], s)"
  by (induction vs) (simp_all add: plain_def)

theorem recorded_call:
  assumes "m \<in> set trace_macros" "length vs = length (macro_params m)" "f (macro_name m) vs p = (v, p')"
  shows "\<exists>k. map_of k_syscall_table k = Some (''z_mrsh_'' @ macro_name m) \<and>
     expand recorder (unlogged f) m (map plain vs) r (p, l) =
       (if macro_type m = None then r else v,
        (p', l @ [Entered k (macro_name m) vs,
                  Left_call k (macro_name m) (vs @ (if macro_type m = None then [] else [v]))]))"
  using assms(1)
proof (cases rule: number_of_call)
  case (1 k ty)
  then have "macro_type m = Some ty" by (metis macro_type_simps(1))
  with 1(1) show ?thesis
    using assms(2,3)
    by (intro exI [of _ k]) (simp add: expand_value [OF assms(1) _ 1(2)] call_def recorder_def unlogged_def)
next
  case (2 k)
  then have "macro_type m = None" by (metis macro_type_simps(2))
  with 2(1) show ?thesis
    using assms(2,3)
    by (intro exI [of _ k]) (simp add: expand_void [OF assms(1) _ 2(2)] call_def recorder_def unlogged_def)
qed

text \<open>
  An argument with a side effect is evaluated again by each hook that uses its arguments: a counter
  that the call alone would count up once is counted up three times.
\<close>

definition evaluating :: "('s, 'v) hooks" where
  "evaluating = \<lparr>syscall_enter = (\<lambda>k n es s. snd (eval_args es s)), syscall_exit = (\<lambda>k n es s. snd (eval_args es s))\<rparr>"

definition count_up :: "(int, int) expr" where
  "count_up s = (s, s + 1)"

theorem arguments_repeated:
  assumes "m \<in> set trace_macros" "Suc (length vs) = length (macro_params m)"
  shows "snd (expand evaluating (\<lambda>n vs s. (0, s)) m (count_up # map plain vs) r s) = s + 3"
    and "snd (call (\<lambda>n vs s. (0 :: int, s)) (macro_name m) (count_up # map plain vs) s) = s + 1"
proof -
  have len: "length (count_up # map plain vs) = length (macro_params m)" using assms(2) by simp
  from assms(1) show "snd (expand evaluating (\<lambda>n vs s. (0, s)) m (count_up # map plain vs) r s) = s + 3"
  proof (cases rule: number_of_call)
    case (1 k ty)
    then show ?thesis
      using expand_value [OF assms(1) len 1(2)] by (simp add: call_def evaluating_def count_up_def)
  next
    case (2 k)
    then show ?thesis
      using expand_void [OF assms(1) len 2(2)] by (simp add: call_def evaluating_def count_up_def)
  qed
  show "snd (call (\<lambda>n vs s. (0 :: int, s)) (macro_name m) (count_up # map plain vs) s) = s + 1"
    by (simp add: call_def count_up_def)
qed

end
