(* ===== verification/Spec2Isabelle.thy ===== *)
theory Spec2Isabelle
  imports Commands UsbFiles SysProperties ProgramDevices KernelObjects Threads Versions
    ProbeProperties SysTracing
begin

text \<open>
  \<^bold>\<open>The firmware of a Zigbee temperature sensor\<close> (nRF52840, Zephyr), \<open>src/\<close> of the repository.

  \<^bold>\<open>The program.\<close>  A thermistor on an ADC input is measured by a task (\<open>io_adc.c\<close>), which converts
  the sample with a table computed at boot (\<open>measure_NTC.c\<close>) and leaves the temperature in an array.
  A second task (\<open>com_task\<close> in \<open>main.c\<close>) feeds the watchdog, publishes the value as an attribute of a
  Zigbee cluster and runs the commands of a register.  The settings are an array of 120 registers,
  \<open>MBbuf_main\<close>, described by the X-macro table of \<open>modbus_x_macros.h\<close> and saved in flash
  (\<open>modbus_hard.c\<close>); a computer reads and writes them over a USB serial port by the Modbus protocol,
  whose parser is a shared library.  The USB device also is a disk with three read-only files
  (\<open>app.c\<close>).  The handler of the Zigbee stack's signals (\<open>main.c\<close>) joins the network again after
  a loss, and \<open>main\<close> starts everything in order.  The parts share \<open>MBbuf_main\<close>; in the model
  it is passed and returned explicitly, inside the record of the component that runs.

  \<^bold>\<open>The theories\<close>, in the order of their imports.
  \<^item> Prelude: the C integer types as words, the conversions \<open>int\<close> makes between them, bytes and
    16-bit words, reads of arrays, the predicate \<open>succeeds\<close> of a computation that may fail, and the
    theorem collections.
  \<^item> Crc16: \<open>crc16_x25\<close> (\<open>main.c\<close>) and the table-driven \<open>CRC16\<close> of the Modbus library.  Locale
    \<open>reflected_crc\<close>, interpreted on both: the check value of a message followed by its CRC, and the
    detection of changed bytes; the tables agree with the bit-serial definition.
  \<^item> RegTable: the rows of \<open>MAIN_BUF_TABLE\<close>, their expansion \<open>default_state\<close>, and the three checks
    against it (\<open>EESave_Check\<close>, \<open>Write_Check\<close>, \<open>Limit_Check\<close>).
  \<^item> Settings: \<open>mh_Factory\<close>, \<open>mh_Buf_Init\<close> and the accessors of the storage.  The abstract policy
    \<open>load_value\<close> (a stored value within its limits, else the default) with locale \<open>reg_policy\<close>;
    the boot implements it for every register.  A write to flash may be refused, and no caller
    looks at the error: \<open>refusals\<close> is an observation of the storage that remembers it, \<open>kept\<close> says that
    flash holds a value or has refused it, and the statements about saving are in these terms.
  \<^item> Modbus, ModbusRequests, ModbusProperties: \<open>InvalidFrame\<close> and \<open>FrameParse\<close> with functions 3, 6, 16
    and the exception reply; every access is bounds-checked in the model and shown to stay inside;
    the reply and the registers after every kind of request; corrupted frames are refused.
  \<^item> UsbPort, UsbProperties: the interrupt handler, the parser task and the save to flash as a
    transition system \<open>usb_step\<close>, an iteration of the handler being able to come between any two
    steps of the task.  Locale \<open>step_invariant\<close>, interpreted on it with the invariant
    \<open>port_inv\<close>: memory safety, mutual exclusion on the frame until the request is over, settings
    that agree with flash once saved, and progress of the task.
  \<^item> NtcTable, NtcCalc: \<open>calculate_table_NTC\<close> over real numbers with the roundings of \<open>float\<close> and
    \<open>double\<close> as parameters, and \<open>calc_temperature\<close> with its 8-bit indices; the specification
    \<open>reading\<close> says which temperature a sample stands for.
  \<^item> Adc: \<open>io_adc_init\<close>, the median of nine (\<open>io_getADCval\<close>), the filter, and \<open>io_adc_task\<close> over the
    sequence of the driver's answers; which settings give a table and a safe conversion, and which make
    the arithmetic undefined.
  \<^item> UsbFiles: the table of the disk's entries and the read procedures; locale \<open>file_source\<close>,
    interpreted on all three: reading sector by sector gives the whole file.
  \<^item> Zigbee: the signal handler, the reconnect alarm, the commands and the set-up of address and
    install code, and the step relation \<open>zb_step\<close> of these handlers with the alarm queue.
    \<open>command_control\<close> is defined by its pieces, cut where it reads or writes the command register and
    at each pass of the factory-reset loop; as a whole it is the pieces one after the other.
  \<^item> Firmware: \<open>com_task\<close> and \<open>main\<close> over the components above.  A round of \<open>com_task\<close> takes the time
    its surroundings give it, for the sleep and for the work; the tasks may change the settings wherever
    they take the processor from \<open>main\<close> before it reads them (\<open>others\<close>); and a start-up ends in the
    busy-wait, in undefined arithmetic or at the end (\<open>outcome\<close>).
  \<^item> SharedRegisters: the moves of all other tasks and handlers on the shared registers, and the
    proof that they are made of steps \<open>usb_step\<close> allows, so that the port's invariant holds in the
    whole firmware.
  \<^item> Commands: the transition system \<open>whole_step\<close> of the whole firmware, in which every other part may
    run between two pieces of \<open>command_control\<close>.  Locale \<open>simulation\<close>, interpreted on it and on the
    port's system, brings the port's invariant to every interleaving; a command is carried out at most
    once, one that arrives while another is being carried out can be lost, and a factory reset
    holds against everything but a request that changes a saved register (\<open>undisturbed\<close>).
  \<^item> Threads: the stacks, priorities and starts of the three tasks; all are cooperative.
  \<^item> SysBase, SysIds, SysCallsKernel, SysCallsServices, SysCallsNetwork, SysCallsDrivers,
    SysMrshA, SysMrshK, SysMrshZ, SysSized, SysDispatch, SysProperties: the system-call layer the build
    generates under \<open>msd_zigbee_52840/zephyr/include/generated\<close>: the numbers of
    \<open>syscall_list.h\<close>, the declarations and the table of \<open>syscall_dispatch.c\<close>, and the wrappers
    (\<open>syscalls/*.h\<close>) and unmarshallers (\<open>syscalls/*_mrsh.c\<close>) of the 352 calls.  How many bytes an
    enumeration type or a typedef of Zephyr's headers takes is the parameter \<open>layout\<close> of SysSized.
    The build has \<open>CONFIG_USERSPACE\<close> off (lemma \<open>options\<close> of BuildConfig), so that the wrappers call the
    implementations directly; the trapping branch is modelled with it.
  \<^item> SysTracing: the 268 macros that surround a call with Zephyr's tracing hooks when
    \<open>CONFIG_TRACING_SYSCALL\<close> is set; in this build it is not.  A macro makes its call once and
    reports it under the number by which the dispatcher's table finds it; an argument with a side effect is
    evaluated again by the hooks.
  \<^item> DeviceTree, DtNodesA, DtNodesB, DtNodesC, DtTables, DtBoard: the board as the build describes
    it in \<open>devicetree_unfixed.h\<close>: one record for each of the 66 nodes, with the section of the
    header it stands for, the tables at the end of the header, and the device objects of
    \<open>device_extern.h\<close> and \<open>dev_handles.c\<close>.  Locale \<open>bring_up_order\<close>, interpreted on the tree: its
    dependencies have no cycle.  The tables of instances hold exactly the enabled nodes, no
    two enabled devices share an address or an interrupt line, and no device object depends on
    another one.
  \<^item> BuildConfig: the 560 options of \<open>autoconf.h\<close> and the symbols of \<open>configs.c\<close>, which agree.
  \<^item> FlashLayout: the partitions of \<open>pm_config.h\<close>, which tile the flash of the device tree.
  \<^item> Interrupts: the vectors and the software table of \<open>isr_tables.c\<close>: what runs on each line, and
    that it belongs to one enabled device and lies in the image.
  \<^item> ProgramDevices: the converter, the watchdog and the USB serial port, as \<open>io_adc.c\<close>, \<open>main.c\<close> and
    \<open>modbus_hard.c\<close> look them up, against the tree, the device objects, the options and the
    interrupts; the constants \<open>channel_ids\<close> and \<open>channel_seq\<close> of Adc are shown to be what the
    macros expand to.
  \<^item> KernelObjects: the object types with their names and sizes (\<open>kobj-types-enum.h\<close>,
    \<open>otype-to-str.h\<close>, \<open>otype-to-size.h\<close>), the driver checks of \<open>driver-validation.h\<close> and the structure
    offsets of \<open>offsets.h\<close>.
  \<^item> Versions: the version constants of the build and the memory sizes given to the Zigbee stack.
  \<^item> Probe, ProbeC, ProbeCxx, ProbeProperties: the two programs by which CMake found out the compiler
    of this build (\<open>CMakeFiles/3.20.5/CompilerIdC\<close>, \<open>CompilerIdCXX\<close>), as functions of the macros a
    compiler defines.  Locale \<open>positional\<close>, interpreted on \<open>DEC\<close> and \<open>HEX\<close>: their characters stand
    for the number; locale \<open>probe_program\<close>, interpreted on both: \<open>main\<close> reads inside its objects.
    Both cascades know the same compilers, and the one of the build is found as
    \<open>CMakeCCompiler.cmake\<close> and \<open>CMakeCXXCompiler.cmake\<close> record it.
  \<^item> this theory: the path from the samples of the ADC to the published attribute, and a factory
    reset commanded over the USB port, among all other parts.

  \<^bold>\<open>How the code is read.\<close>  A record has the fields of the C object; a register or byte is a word
  of its width; arithmetic after promotion to \<open>int\<close> is on \<^typ>\<open>int\<close> and every assignment back is a
  conversion.  \<^const>\<open>None\<close> is an access outside an array or an operation C leaves undefined, so
  \<open>succeeds c P\<close> says that the code does neither and ends with \<open>P\<close>.  Loops are structural
  recursions over indices or over the list of the environment's answers.  The binary search of
  \<open>calc_temperature\<close> ends because the interval shrinks; a call of \<open>command_control\<close> has at most 124
  pieces, and lemma \<open>command_control_eq\<close> shows that it always ends with them; the busy-wait of \<open>main\<close> is
  a recursion over the polls it is given, and the property of \<open>main\<close> says how many suffice; the endless
  loops of the tasks run as long as the list of their inputs.

  Some functions the sources only declare (the Modbus parser, \<open>CRC16\<close>, the checks of the register
  table, the storage accessors) belong to a library that is not in \<open>src/\<close>, but the listing
  \<open>msd_zigbee_52840/zephyr/zephyr.lst\<close> shows their C text beside the machine code, and the
  image \<open>zephyr.hex\<close> their tables; these definitions follow the listing.  Where listing and
  sources differ the sources are followed: the listing has a reconnect delay of 190 seconds,
  a distance of 2000 milliseconds between sensors and a divider of 50000, from an older build.

  \<^bold>\<open>Parameters.\<close>  The flash (\<open>nvs_read\<close>, \<open>nvs_write\<close>), with the law that a value whose write reports
  no error is read back; which writes report one is left open; the UART, ADC and watchdog drivers, by what they deliver or answer; the Zigbee stack, by
  the trace of the calls made to it, their return codes and its alarm queue (\<open>alarm_laws\<close>); the
  roundings and \<open>exp\<close> of the C library; for the system calls, the trap (\<open>trap_delivers\<close>),
  the memory protection and the widths of enumeration types (\<open>layout\<close>); for the driver
  checks, the object and the operation check; for the probes, the macros of the compiler.

  \<^bold>\<open>The generated tables.\<close>  A node identifier \<open>DT_N_...\<close> is a name for the ordinal the header gives
  the node.  The header writes many macros that restate another one (\<open>_EXISTS\<close>, \<open>_LEN\<close>, \<open>_IDX_\<close>, the
  tokens, \<open>_VARGS\<close>, \<open>_FOREACH_PROP_ELEM\<close>); they are not fields of a node but functions of it
  (\<open>DT_PROP_LEN\<close>, \<open>DT_PROP_BY_IDX\<close>, \<open>DT_FOREACH_PROP_ELEM\<close>).  Zephyr's part is documented behaviour:
  \<open>device_get_binding\<close> finds the first device of a name, and the interrupt wrapper calls the
  entry of its line in the software table.

  \<^bold>\<open>Not modelled.\<close>  The log output; the initialisation of the disk's emulation and of clocks and
  power (recorded as calls in the trace of \<open>main\<close>); the declarations of the Zigbee cluster's
  attribute lists, which are data for the stack.  The tasks are cooperative threads (Threads), so that
  only interrupts come between two calls that may wait.  A pass of the USB handler, a step of the
  parser task, a piece of \<open>command_control\<close>, a round of the measurement and each handler of the
  Zigbee stack is atomic; the interleavings are those of these pieces.  In \<open>main\<close>, which the tasks may
  interrupt anywhere, they do so before \<open>io_adc_init\<close>, before each register that \<open>main\<close> reads and before
  \<open>address_and_code_init\<close>, and the two numbers of the start delay, read in one expression, are
  read together.
\<close>

section \<open>From the samples to the Zigbee attribute\<close>

lemma reading_range:
  assumes "wf_ntc n" "reading n a t"
  shows "t = TEMPERATURE_OVER \<or> t = TEMPERATURE_UNDER \<or> temp_at n 0 \<le> t \<and> t \<le> temp_at n (steps n - 1)"
  using assms(2)
proof cases
  case (inside i)
  with reading_between [OF assms] show ?thesis by simp
qed (use temp_at_mono [OF assms(1), of 0 "steps n - 1"] in auto)

text \<open>The attribute for a reading: hundredths of a degree, or the code itself.\<close>

definition centi :: "int \<Rightarrow> int" where
  "centi t = (if t = TEMPERATURE_UNDER \<or> t = TEMPERATURE_OVER then t else 100 * t)"

text \<open>C10: what the radio publishes.  With a table whose temperatures lie within 327 degrees of zero, after
  any successful readings the value \<open>com_task\<close> derives from the ADC task's result is a hundred
  times the temperature of the filtered medians, or the code for a sample under or over the table.\<close>

theorem samples_to_attribute:
  assumes "wf_ntc n" "- 327 \<le> temp_at n 0" "temp_at n (steps n - 1) \<le> 327"
    and "wf_task s" "list_all good_read reads" "reads \<noteq> []"
  shows "succeeds (io_adc_task n reads s) (\<lambda>u. \<exists>t.
     calc_temperature n (word_of_int (foldl filter_step (sort (snd (hd reads)) ! 4)
        (map (\<lambda>r. sort (snd r) ! 4) (tl reads)))) = Some t \<and>
     value_temp (hd (ADC_Value_T u)) = centi t)"
proof -
  have val: "value_temp (word_of_int t) = centi t"
    if "calc_temperature n a = Some t" for a t
  proof -
    from that calc_reading [OF assms(1), of a] have "reading n a t" by (auto elim!: succeedsE)
    with reading_range [OF assms(1)]
    consider "t = TEMPERATURE_OVER" | "t = TEMPERATURE_UNDER" | "- 327 \<le> t" "t \<le> 327"
      using assms(2,3) by fastforce
    then show ?thesis
      by cases (simp_all add: centi_def value_temp_eq, simp_all add: value_temp_def s16_id)
  qed
  show ?thesis
    by (rule succeeds_mono [OF io_adc_task_ok [OF assms(1,4-6)]])
      (auto simp: published_def median_def val)
qed

theorem samples_to_attribute_witness:
  "\<exists>u t. io_adc_task ntc_example [(0, replicate 9 160)] adc_example = Some u \<and>
     calc_temperature ntc_example 160 = Some t \<and>
     value_temp (hd (ADC_Value_T u)) = centi t"
proof -
  have "wf_task adc_example" "list_all good_read [(0, replicate 9 160)]" "[(0 :: int, replicate 9 (160 :: int))] \<noteq> []"
    by (simp_all add: wf_task_def adc_example_def good_read_def is_int16_def list_all_iff)
  moreover have "- 327 \<le> temp_at ntc_example 0" "temp_at ntc_example (steps ntc_example - 1) \<le> 327"
    by (simp_all add: ntc_example_def)
  moreover have "foldl filter_step (sort (snd (hd [(0 :: int, replicate 9 (160 :: int))])) ! 4)
      (map (\<lambda>r. sort (snd r) ! 4) (tl [(0 :: int, replicate 9 160)])) = 160"
    by (simp add: sort_replicate)
  ultimately have "succeeds (io_adc_task ntc_example [(0, replicate 9 160)] adc_example) (\<lambda>u. \<exists>t.
     calc_temperature ntc_example 160 = Some t \<and>
     value_temp (hd (ADC_Value_T u)) = centi t)"
    using samples_to_attribute [OF ntc_example_wf(1), of adc_example "[(0, replicate 9 160)]"] by simp
  then show ?thesis by (elim succeedsE) blast
qed

section \<open>A factory reset over the USB port\<close>

text \<open>C14: a factory reset from a computer.  A request that writes 13 to the register
  \<open>Reg_Send_Command\<close>, arriving at a ready port while \<open>com_task\<close> has not passed the \<open>switch\<close> of
  \<open>command_control\<close>, is acknowledged, and the firmware can go on to carry it out.  From there the
  reset can run to its end, where the command register is cleared; and however the other tasks and handlers
  are interleaved with it, unless a request changes a saved register meanwhile, from the moment its loop is
  through every saved register has its default, and the flash holds the default or has refused it.\<close>

theorem factory_reset_over_usb:
  fixes s :: "('m, 'a) whole"
  assumes "nvs_laws rd wr" "refusals refused wr"
    and "reach (whole_boot rd wr) (whole_step wr) s" "ctl (w_dev s) = Running" "port_ready (w_port s)" "addr \<noteq> 0"
    and "w_pc s = C_TEST \<or> w_pc s = C_SWITCH"
  shows "\<exists>t. (whole_step wr)\<^sup>*\<^sup>* s t \<and> w_pc t = C_FACTORY 0 \<and> carried t = carried s @ [CODE_RESET_TO_DEFAULT] \<and>
     sent (w_port t) = sent (w_port s) @ [with_crc [addr, 6, 0, 29, 0, 13]] \<and>
     (\<exists>u. (undisturbed wr)\<^sup>*\<^sup>* t u \<and> w_pc u = C_TEST \<and> command_reg (w_port u) = 0) \<and>
     (\<forall>u. (undisturbed wr)\<^sup>*\<^sup>* t u \<longrightarrow> (\<forall>i. w_pc u \<noteq> C_FACTORY i) \<longrightarrow>
        (\<forall>j<120. reg_saved j \<longrightarrow> MBbuf_main (store (w_port u)) ! j = reg_default j \<and>
           kept rd refused (flash (store (w_port u))) j (reg_default j)))"
proof -
  have bytes: "hi8 13 = 0" "lo8 13 = 13" by (simp_all add: hi8_def lo8_def)
  obtain p r where p: "(whole_step wr)\<^sup>*\<^sup>* s (s\<lparr>w_port := p, raised := r\<rparr>)" "command_reg p = 13"
      "length (MBbuf_main (store p)) = 120" "sent p = sent (w_port s) @ [with_crc [addr, 6, 0, 29, 0, 13]]"
    using command_exchange_run [OF assms(3-6), of 13] unfolding bytes by blast
  obtain t where t: "(whole_step wr)\<^sup>*\<^sup>* (s\<lparr>w_port := p, raised := r\<rparr>) t" "carried t = carried s @ [13]"
      "w_pc t = C_FACTORY 0" "w_port t = p" "ctl (w_dev t) = Running"
    using dispatch_command [of "s\<lparr>w_port := p, raised := r\<rparr>" 13 wr] p(2,3) assms(4,7)
    by (auto simp: is_command_def)
  have run: "(whole_step wr)\<^sup>*\<^sup>* s t" using p(1) t(1) by (rule rtranclp_trans)
  have reach: "reach (whole_boot rd wr) (whole_step wr) t" by (rule reach_star [OF run assms(3)])
  have begun: "reset_upto rd refused (w_pc t) (store (w_port t))" unfolding reset_upto_def t(3) by (intro exI [of _ 0]) simp
  obtain v where v: "(undisturbed wr)\<^sup>*\<^sup>* t v" "w_pc v = C_CLEAR" "ctl (w_dev v) = Running"
      "length (MBbuf_main (store (w_port v))) = 120"
    using finish_command [of t 0 wr] t(3-5) p(3) by auto
  obtain u where u: "whole_step wr v u" "w_pc u = C_TEST" "command_reg (w_port u) = 0"
    using clear_command [OF v(3,4,2)] by blast
  with v(2) have "undisturbed wr v u" by (simp add: undisturbed_def)
  with v(1) have "(undisturbed wr)\<^sup>*\<^sup>* t u" by (rule rtranclp.rtrancl_into_rtrancl)
  moreover have "\<forall>j<120. reg_saved j \<longrightarrow> was_reset rd refused (store (w_port u)) j"
    if "(undisturbed wr)\<^sup>*\<^sup>* t u" "\<forall>i. w_pc u \<noteq> C_FACTORY i" for u
    by (rule reset_upto_done [OF undisturbed_runs_reset [OF that(1) reach assms(1,2) begun] that(2)])
  ultimately show ?thesis
    using run t u(2,3) p(4) unfolding was_reset_def by blast
qed

theorem factory_reset_over_usb_witness:
  "\<exists>(s :: demo_whole) t u. reach (whole_boot map_read map_write) (whole_step map_write) s \<and>
     (whole_step map_write)\<^sup>*\<^sup>* s t \<and> carried t = [13] \<and> (undisturbed map_write)\<^sup>*\<^sup>* t u \<and>
     command_reg (w_port u) = 0 \<and> flash (store (w_port u)) 41 = Some 16"
proof -
  obtain s :: demo_whole where s: "reach (whole_boot map_read map_write) (whole_step map_write) s" "port_ready (w_port s)"
      "ctl (w_dev s) = Running" "w_pc s = C_TEST" "carried s = []"
    using ready_whole by blast
  have one: "(1 :: u8) \<noteq> 0" by simp
  obtain t u where u: "(whole_step map_write)\<^sup>*\<^sup>* s t" "carried t = carried s @ [13]" "(undisturbed map_write)\<^sup>*\<^sup>* t u"
      "w_pc u = C_TEST" "command_reg (w_port u) = 0"
    and reset: "\<And>u. (undisturbed map_write)\<^sup>*\<^sup>* t u \<Longrightarrow> \<forall>i. w_pc u \<noteq> C_FACTORY i \<Longrightarrow>
      \<forall>j<120. reg_saved j \<longrightarrow> MBbuf_main (store (w_port u)) ! j = reg_default j \<and>
        kept map_read (\<lambda>_ _. None) (flash (store (w_port u))) j (reg_default j)"
    using factory_reset_over_usb [OF map_storage_laws s(1,3,2) one disjI1 [OF s(4)]] by blast
  have "stored map_read (flash (store (w_port u))) 41 = Some (reg_default 41)"
    using reset [OF u(3)] u(4) saved_channel(1) by simp
  with s(1,5) u show ?thesis
    by (intro exI [of _ s] exI [of _ t] exI [of _ u]) (simp add: stored_map saved_channel(2))
qed

end
